(* ===== verification/Fwlab_Prelude.thy ===== *)
theory Fwlab_Prelude
  imports Main "HOL-Library.Word"
begin

text \<open>
  Shared vocabulary of the development: the fixed-width integers of the C sources as words,
  the collections of rewrite rules the component proofs use, generic facts on lists, words and
  bounded loops, and the contracts that several components fulfil, stated as locales:
  \<open>page_codec\<close> (a fixed-size byte encoding and its decoder), \<open>wire_codec\<close> (a checked encoder and
  decoder that are inverse to each other), \<open>bounded_fifo\<close> (a bounded queue refined to a list) and \<open>kept_invariant\<close> (an invariant kept by every event of a
  component, lifted to runs).
\<close>

unbundle bit_operations_syntax

section \<open>Fixed-width integers and byte strings\<close>

type_synonym u8 = "8 word"
type_synonym u16 = "16 word"
type_synonym u32 = "32 word"
type_synonym u64 = "64 word"
type_synonym bytes = "8 word list"

abbreviation (input) UINT8_MAX :: u8 where "UINT8_MAX \<equiv> 255"
abbreviation (input) UINT32_MAX :: u32 where "UINT32_MAX \<equiv> 0xFFFFFFFF"

section \<open>Rule collections\<close>

named_theorems codec_simps "reads over writes of little-endian fields in a byte array"
named_theorems array_len "array lengths kept by the operations"
named_theorems frame_simps "fields an operation leaves alone"
named_theorems ckpt_simps "checkpoint fields an operation leaves alone"

section \<open>Words\<close>

lemma unat_succ_less:
  fixes x y :: "'a::len word"
  assumes "x < y"
  shows "unat (x + 1) = Suc (unat x)"
proof -
  have "unat x < unat y"
    using assms by (simp add: word_less_nat_alt)
  moreover have "unat y < 2 ^ LENGTH('a)"
    by (rule unsigned_less)
  ultimately have "Suc (unat x) < 2 ^ LENGTH('a)"
    by linarith
  then show ?thesis
    by (simp add: unat_word_ariths)
qed

lemma unat_u8_less [simp]: "unat (x :: u8) < 256"
  using unsigned_less [of x] by simp

lemma unat_u16_less [simp]: "unat (x :: u16) < 65536"
  using unsigned_less [of x] by simp

lemma unat_u32_less [simp]: "unat (x :: u32) < 4294967296"
  using unsigned_less [of x] by simp

lemma unat_ucast_u8_u16 [simp]: "unat (ucast (x :: u8) :: u16) = unat x"
  using unat_u8_less [of x] by (simp add: unsigned_ucast_eq take_bit_nat_eq_self del: unat_u8_less)

lemma unat_ucast_u8_u32 [simp]: "unat (ucast (x :: u8) :: u32) = unat x"
  using unat_u8_less [of x] by (simp add: unsigned_ucast_eq take_bit_nat_eq_self del: unat_u8_less)

lemma unat_ucast_u16_u32 [simp]: "unat (ucast (x :: u16) :: u32) = unat x"
  using unat_u16_less [of x] by (simp add: unsigned_ucast_eq take_bit_nat_eq_self del: unat_u16_less)

lemma unat_ucast_u8_u64 [simp]: "unat (ucast (x :: u8) :: u64) = unat x"
  using unat_u8_less [of x] by (simp add: unsigned_ucast_eq take_bit_nat_eq_self del: unat_u8_less)

lemma unat_ucast_u16_u64 [simp]: "unat (ucast (x :: u16) :: u64) = unat x"
  using unat_u16_less [of x] by (simp add: unsigned_ucast_eq take_bit_nat_eq_self del: unat_u16_less)

lemma unat_ucast_u32_u64 [simp]: "unat (ucast (x :: u32) :: u64) = unat x"
  using unat_u32_less [of x] by (simp add: unsigned_ucast_eq take_bit_nat_eq_self del: unat_u32_less)

lemma le16_of_bytes:
  fixes v :: u16
  shows "(ucast (ucast v :: u8) :: u16) OR push_bit 8 (ucast (ucast (drop_bit 8 v) :: u8)) = v"
  by (rule bit_word_eqI) (auto simp: bit_simps)

lemma le32_of_bytes:
  fixes v :: u32
  shows "(ucast (ucast v :: u8) :: u32) OR push_bit 8 (ucast (ucast (drop_bit 8 v) :: u8))
    OR push_bit 16 (ucast (ucast (drop_bit 16 v) :: u8))
    OR push_bit 24 (ucast (ucast (drop_bit 24 v) :: u8)) = v"
proof (rule bit_word_eqI)
  fix n assume "n < LENGTH(32)"
  then show "bit ((ucast (ucast v :: u8) :: u32) OR push_bit 8 (ucast (ucast (drop_bit 8 v) :: u8))
    OR push_bit 16 (ucast (ucast (drop_bit 16 v) :: u8))
    OR push_bit 24 (ucast (ucast (drop_bit 24 v) :: u8))) n = bit v n"
    by (cases "n < 16"; cases "n < 24") (auto simp: bit_simps)
qed

lemma le64_of_words:
  fixes v :: u64
  shows "(ucast (ucast v :: u32) :: u64) OR push_bit 32 (ucast (ucast (drop_bit 32 v) :: u32)) = v"
  by (rule bit_word_eqI) (auto simp: bit_simps)

section \<open>Lists\<close>

lemma nth_take_drop_slice:
  "i < n \<Longrightarrow> off + n \<le> length bs \<Longrightarrow> take n (drop off bs) ! i = bs ! (off + i)"
  by simp

lemma foldl_invariant:
  assumes "P a" and "\<And>s x. x \<in> set xs \<Longrightarrow> P s \<Longrightarrow> P (f s x)"
  shows "P (foldl f a xs)"
  using assms
proof (induction xs arbitrary: a)
  case Nil
  then show ?case by simp
next
  case (Cons x xs)
  have "P (f a x)"
    using Cons.prems by simp
  then show ?case
    using Cons.IH Cons.prems(2) by simp
qed

lemma find_eq_Some_nth:
  "find P xs = Some x \<Longrightarrow> x \<in> set xs \<and> P x"
  by (auto simp: find_Some_iff)

section \<open>Contracts shared by several components\<close>

text \<open>
  A page codec: the encoder produces exactly \<open>len\<close> bytes, and on well-formed values decoding an
  encoding gives the value back up to \<open>canon\<close>, the part of it the format stores.
\<close>

locale page_codec =
  fixes enc :: "'a \<Rightarrow> bytes"
    and dec :: "bytes \<Rightarrow> 'b option"
    and wf :: "'a \<Rightarrow> bool"
    and canon :: "'a \<Rightarrow> 'b"
    and len :: nat
  assumes length_enc: "wf x \<Longrightarrow> length (enc x) = len"
    and dec_enc: "wf x \<Longrightarrow> dec (enc x) = Some (canon x)"
begin

lemma enc_determines_canon:
  assumes "wf x" and "wf y" and "enc x = enc y"
  shows "canon x = canon y"
proof -
  have "Some (canon x) = Some (canon y)"
    using assms dec_enc [of x] dec_enc [of y] by simp
  then show ?thesis by simp
qed

lemma dec_enc_not_None: "wf x \<Longrightarrow> dec (enc x) \<noteq> None"
  by (simp add: dec_enc)

end

text \<open>
  A wire codec: both directions may fail with an error of type \<open>'e\<close>, and on what they accept they are
  inverse to each other. \<open>typed\<close> says that the fixed arrays of a value have the lengths their C
  declaration gives them.
\<close>

locale wire_codec =
  fixes enc :: "'a \<Rightarrow> 'e + bytes"
    and dec :: "bytes \<Rightarrow> 'e + 'a"
    and typed :: "'a \<Rightarrow> bool"
  assumes dec_of_enc: "typed x \<Longrightarrow> enc x = Inr bs \<Longrightarrow> dec bs = Inr x"
    and enc_of_dec: "dec bs = Inr x \<Longrightarrow> typed x \<and> enc x = Inr bs"
begin

lemma enc_iff_dec: "typed x \<Longrightarrow> enc x = Inr bs \<longleftrightarrow> dec bs = Inr x"
  using dec_of_enc enc_of_dec by blast

lemma dec_inj: "dec bs = Inr x \<Longrightarrow> dec cs = Inr x \<Longrightarrow> bs = cs"
  using enc_of_dec [of bs x] enc_of_dec [of cs x] by simp

lemma enc_inj: "typed x \<Longrightarrow> typed y \<Longrightarrow> enc x = Inr bs \<Longrightarrow> enc y = Inr bs \<Longrightarrow> x = y"
  using dec_of_enc [of x bs] dec_of_enc [of y bs] by simp

end

text \<open>
  A bounded first-in first-out queue with at most \<open>cap\<close> elements. \<open>abs\<close> reads its content as a
  list; \<open>put\<close> answers whether the element was taken.
\<close>

locale bounded_fifo =
  fixes inv :: "'q \<Rightarrow> bool"
    and abs :: "'q \<Rightarrow> 'a list"
    and put :: "'a \<Rightarrow> 'q \<Rightarrow> bool \<times> 'q"
    and front :: "'q \<Rightarrow> 'a option"
    and pop :: "'q \<Rightarrow> 'q"
    and ok :: "'a \<Rightarrow> bool"
    and cap :: nat
  assumes abs_bound: "inv q \<Longrightarrow> length (abs q) \<le> cap"
    and put_taken: "inv q \<Longrightarrow> ok x \<Longrightarrow> length (abs q) < cap \<Longrightarrow>
          fst (put x q) \<and> inv (snd (put x q)) \<and> abs (snd (put x q)) = abs q @ [x]"
    and put_full: "inv q \<Longrightarrow> length (abs q) = cap \<Longrightarrow> put x q = (False, q)"
    and front_abs: "inv q \<Longrightarrow> front q = (case abs q of [] \<Rightarrow> None | x # _ \<Rightarrow> Some x)"
    and pop_inv: "inv q \<Longrightarrow> inv (pop q)"
    and pop_abs: "inv q \<Longrightarrow> abs (pop q) = tl (abs q)"
begin

fun drain :: "nat \<Rightarrow> 'q \<Rightarrow> 'a list \<times> 'q" where
  "drain 0 q = ([], q)"
| "drain (Suc n) q =
     (case front q of None \<Rightarrow> ([], q)
      | Some x \<Rightarrow> (let (xs, q') = drain n (pop q) in (x # xs, q')))"

lemma drain_all:
  assumes "inv q" and "length (abs q) \<le> n"
  shows "fst (drain n q) = abs q \<and> inv (snd (drain n q)) \<and> abs (snd (drain n q)) = []"
  using assms
proof (induction n arbitrary: q)
  case 0
  then show ?case by simp
next
  case (Suc n)
  show ?case
  proof (cases "abs q")
    case Nil
    then show ?thesis
      using Suc.prems by (simp add: front_abs)
  next
    case (Cons x xs)
    then have "inv (pop q)" and "abs (pop q) = xs"
      using Suc.prems by (simp_all add: pop_inv pop_abs)
    moreover have "length xs \<le> n"
      using Suc.prems Cons by simp
    ultimately have "fst (drain n (pop q)) = xs \<and> inv (snd (drain n (pop q)))
        \<and> abs (snd (drain n (pop q))) = []"
      using Suc.IH [of "pop q"] by simp
    then show ?thesis
      using Suc.prems Cons by (cases "drain n (pop q)") (simp add: front_abs)
  qed
qed

lemma put_then_drain_last:
  assumes "inv q" and "ok x" and "length (abs q) < cap"
  shows "fst (drain cap (snd (put x q))) = abs q @ [x]"
  using put_taken [OF assms] drain_all [of "snd (put x q)" cap] assms(3) by simp

end

text \<open>
  An invariant kept by every event of a component. Runs of any events keep it.
\<close>

locale kept_invariant =
  fixes step :: "'e \<Rightarrow> 's \<Rightarrow> 's"
    and inv :: "'s \<Rightarrow> bool"
    and ev_ok :: "'e \<Rightarrow> 's \<Rightarrow> bool"
  assumes step_keeps: "inv s \<Longrightarrow> ev_ok e s \<Longrightarrow> inv (step e s)"
begin

fun run_ok :: "'e list \<Rightarrow> 's \<Rightarrow> bool" where
  "run_ok [] s = True"
| "run_ok (e # es) s = (ev_ok e s \<and> run_ok es (step e s))"

lemma run_keeps:
  assumes "inv s" and "run_ok es s"
  shows "inv (fold step es s)"
  using assms by (induction es arbitrary: s) (simp_all add: step_keeps)

end

end
