(* ===== verification/M3p_Types.thy ===== *)
theory M3p_Types
  imports Fwlab_Prelude
begin

text \<open>
  The data of the M3P flash translation layer (\<open>core/m3p/m3p_internal.h\<close>, \<open>core/m3p/m3p.h\<close>) and
  of the contracts it is built on (\<open>nfc_types.h\<close>, \<open>block_service_v0.h\<close>,
  \<open>controller_buffer_v0.h\<close>, \<open>host_action_program_v0.h\<close>). Structures are records with the fields
  of the C declaration behind a short prefix, fixed arrays are lists, and the internal
  enumerations are datatypes. Enumerations that travel on the medium or come back from the NAND
  controller as bytes stay numbers, because the code compares them as numbers.

  \<open>struct fwlab_m3p\<close> is one record built in five layers (control, mapping, execution, recovery,
  garbage collection). The two provider handles in it are replaced by what the code reads of
  them: the issuer nonce and generation of the controller-buffer port. The providers' own state
  is passed separately.
\<close>

section \<open>Geometry and limits\<close>

abbreviation (input) M3P_MAGIC :: u64 where "M3P_MAGIC \<equiv> 0x4d335046544c5631"
abbreviation (input) M3P_LPN_COUNT :: nat where "M3P_LPN_COUNT \<equiv> 256"
abbreviation (input) M3P_SECTORS_PER_PAGE :: nat where "M3P_SECTORS_PER_PAGE \<equiv> 8"
abbreviation (input) M3P_PAGE_BYTES :: nat where "M3P_PAGE_BYTES \<equiv> 4096"
abbreviation (input) M3P_OOB_BYTES :: nat where "M3P_OOB_BYTES \<equiv> 128"
abbreviation (input) M3P_PHYSICAL_PAGES :: nat where "M3P_PHYSICAL_PAGES \<equiv> 512"
abbreviation (input) M3P_BLOCKS :: nat where "M3P_BLOCKS \<equiv> 16"
abbreviation (input) M3P_PAGES_PER_BLOCK :: nat where "M3P_PAGES_PER_BLOCK \<equiv> 32"
abbreviation (input) M3P_DATA_POOL_BLOCKS :: nat where "M3P_DATA_POOL_BLOCKS \<equiv> 10"
abbreviation (input) M3P_MAX_PENDING :: nat where "M3P_MAX_PENDING \<equiv> 4"
abbreviation (input) M3P_MAX_DELTAS :: nat where "M3P_MAX_DELTAS \<equiv> 3"
abbreviation (input) M3P_STAGING_FRAMES :: nat where "M3P_STAGING_FRAMES \<equiv> 3"
abbreviation (input) M3P_MAX_RECOVERED_MAPS :: nat where "M3P_MAX_RECOVERED_MAPS \<equiv> 64"
abbreviation (input) FWLAB_M3P_NAMESPACE_LBAS :: u64 where "FWLAB_M3P_NAMESPACE_LBAS \<equiv> 2048"
abbreviation (input) FWLAB_M3P_LBA_BYTES :: nat where "FWLAB_M3P_LBA_BYTES \<equiv> 512"
abbreviation (input) FWLAB_M3P_MAX_LBAS :: nat where "FWLAB_M3P_MAX_LBAS \<equiv> 16"

abbreviation (input) M3P_OOB_MAGIC :: u32 where "M3P_OOB_MAGIC \<equiv> 0x4d335031"
abbreviation (input) M3P_FORMAT_VERSION :: u16 where "M3P_FORMAT_VERSION \<equiv> 1"
abbreviation (input) M3P_VOLUME_FORMAT_VERSION :: u16 where "M3P_VOLUME_FORMAT_VERSION \<equiv> 2"
abbreviation (input) M3P_OOB_HEADER_BYTES :: u16 where "M3P_OOB_HEADER_BYTES \<equiv> 128"
abbreviation (input) M3P_MAP_MAIN_MAGIC :: u32 where "M3P_MAP_MAIN_MAGIC \<equiv> 0x4d545831"
abbreviation (input) M3P_CHECKPOINT_COMMIT_MAGIC :: u32 where "M3P_CHECKPOINT_COMMIT_MAGIC \<equiv> 0x43504331"

section \<open>Enumerations stored as bytes\<close>

abbreviation (input) M3P_PAGE_DATA :: u8 where "M3P_PAGE_DATA \<equiv> 1"
abbreviation (input) M3P_PAGE_MAP_TXN :: u8 where "M3P_PAGE_MAP_TXN \<equiv> 2"
abbreviation (input) M3P_PAGE_CHECKPOINT_BODY :: u8 where "M3P_PAGE_CHECKPOINT_BODY \<equiv> 3"
abbreviation (input) M3P_PAGE_CHECKPOINT_COMMIT :: u8 where "M3P_PAGE_CHECKPOINT_COMMIT \<equiv> 4"

abbreviation (input) M3P_COPY_HOST :: u8 where "M3P_COPY_HOST \<equiv> 1"
abbreviation (input) M3P_COPY_GC :: u8 where "M3P_COPY_GC \<equiv> 2"

abbreviation (input) M3P_MAP_WRITE :: u8 where "M3P_MAP_WRITE \<equiv> 1"
abbreviation (input) M3P_MAP_TRIM :: u8 where "M3P_MAP_TRIM \<equiv> 2"
abbreviation (input) M3P_MAP_RELOCATION :: u8 where "M3P_MAP_RELOCATION \<equiv> 3"
abbreviation (input) M3P_MAP_GC_SWITCH :: u8 where "M3P_MAP_GC_SWITCH \<equiv> 4"

abbreviation (input) M3P_L2P_UNMAPPED :: u8 where "M3P_L2P_UNMAPPED \<equiv> 0"
abbreviation (input) M3P_L2P_VALUE :: u8 where "M3P_L2P_VALUE \<equiv> 1"
abbreviation (input) M3P_L2P_TOMBSTONE :: u8 where "M3P_L2P_TOMBSTONE \<equiv> 2"

abbreviation (input) FWLAB_NFC_BLOCK_GOOD :: u8 where "FWLAB_NFC_BLOCK_GOOD \<equiv> 0"
abbreviation (input) FWLAB_NFC_BLOCK_RUNTIME_BAD :: u8 where "FWLAB_NFC_BLOCK_RUNTIME_BAD \<equiv> 2"
abbreviation (input) FWLAB_NFC_TERMINAL_SUCCESS :: u8 where "FWLAB_NFC_TERMINAL_SUCCESS \<equiv> 0"
abbreviation (input) FWLAB_NFC_PHYS_NO_EFFECT :: u8 where "FWLAB_NFC_PHYS_NO_EFFECT \<equiv> 0"
abbreviation (input) FWLAB_NFC_PHYS_APPLIED :: u8 where "FWLAB_NFC_PHYS_APPLIED \<equiv> 1"
abbreviation (input) FWLAB_NFC_INTEGRITY_TORN :: u8 where "FWLAB_NFC_INTEGRITY_TORN \<equiv> 2"
abbreviation (input) FWLAB_NFC_READ_TRIGGER :: u8 where "FWLAB_NFC_READ_TRIGGER \<equiv> 0"
abbreviation (input) FWLAB_NFC_READ_TRANSFER :: u8 where "FWLAB_NFC_READ_TRANSFER \<equiv> 1"
abbreviation (input) FWLAB_NFC_PROGRAM_TRANSFER :: u8 where "FWLAB_NFC_PROGRAM_TRANSFER \<equiv> 2"
abbreviation (input) FWLAB_NFC_PROGRAM_EXECUTE :: u8 where "FWLAB_NFC_PROGRAM_EXECUTE \<equiv> 3"
abbreviation (input) FWLAB_NFC_ERASE :: u8 where "FWLAB_NFC_ERASE \<equiv> 4"
abbreviation (input) FWLAB_NFC_REASON_BAD_BLOCK :: u8 where "FWLAB_NFC_REASON_BAD_BLOCK \<equiv> 3"
abbreviation (input) FWLAB_NFC_REASON_ECC_UNCORRECTABLE :: u8
  where "FWLAB_NFC_REASON_ECC_UNCORRECTABLE \<equiv> 8"
abbreviation (input) FWLAB_NFC_REASON_CANCELLED :: u8 where "FWLAB_NFC_REASON_CANCELLED \<equiv> 10"
abbreviation (input) FWLAB_NFC_REASON_INTERNAL :: u8 where "FWLAB_NFC_REASON_INTERNAL \<equiv> 14"
abbreviation (input) FWLAB_NFC_REGION_MASK :: u8 where "FWLAB_NFC_REGION_MASK \<equiv> 3"
abbreviation (input) FWLAB_NFC_PROGRAM_ASCENDING :: u8 where "FWLAB_NFC_PROGRAM_ASCENDING \<equiv> 1"
abbreviation (input) FWLAB_NFC_CONTRACT_VERSION :: u16 where "FWLAB_NFC_CONTRACT_VERSION \<equiv> 1"
abbreviation (input) FWLAB_NFC_API_OK :: u32 where "FWLAB_NFC_API_OK \<equiv> 0"
abbreviation (input) FWLAB_NFC_API_INVALID_CONTRACT :: u32 where "FWLAB_NFC_API_INVALID_CONTRACT \<equiv> 1"
abbreviation (input) FWLAB_NFC_ACCEPTED :: u32 where "FWLAB_NFC_ACCEPTED \<equiv> 0"
abbreviation (input) FWLAB_NFC_REJECTED :: u32 where "FWLAB_NFC_REJECTED \<equiv> 2"

abbreviation (input) FWLAB_BLOCK_V0_READ :: u32 where "FWLAB_BLOCK_V0_READ \<equiv> 1"
abbreviation (input) FWLAB_BLOCK_V0_WRITE :: u32 where "FWLAB_BLOCK_V0_WRITE \<equiv> 2"
abbreviation (input) FWLAB_BLOCK_V0_FLUSH :: u32 where "FWLAB_BLOCK_V0_FLUSH \<equiv> 3"
abbreviation (input) FWLAB_BLOCK_V0_TRIM :: u32 where "FWLAB_BLOCK_V0_TRIM \<equiv> 4"
abbreviation (input) FWLAB_BLOCK_V0_DURABILITY_NONE :: u32 where "FWLAB_BLOCK_V0_DURABILITY_NONE \<equiv> 0"
abbreviation (input) FWLAB_BLOCK_V0_DURABILITY_VOLATILE_ALLOWED :: u32
  where "FWLAB_BLOCK_V0_DURABILITY_VOLATILE_ALLOWED \<equiv> 1"
abbreviation (input) FWLAB_BLOCK_V0_DURABILITY_SELF :: u32 where "FWLAB_BLOCK_V0_DURABILITY_SELF \<equiv> 2"
abbreviation (input) FWLAB_BLOCK_V0_DURABILITY_FRONTIER :: u32
  where "FWLAB_BLOCK_V0_DURABILITY_FRONTIER \<equiv> 3"
abbreviation (input) FWLAB_BLOCK_V0_FAULT_RESOURCE :: u32 where "FWLAB_BLOCK_V0_FAULT_RESOURCE \<equiv> 0x424c5253"
abbreviation (input) FWLAB_BLOCK_OP_TOKEN_V0_TAG :: u32 where "FWLAB_BLOCK_OP_TOKEN_V0_TAG \<equiv> 0x424f5054"
abbreviation (input) FWLAB_CONTROLLER_BUFFER_LEASE_V0_TAG :: u32
  where "FWLAB_CONTROLLER_BUFFER_LEASE_V0_TAG \<equiv> 0x43424c53"
abbreviation (input) FWLAB_HOST_ACTION_TOKEN_V0_TAG :: u32
  where "FWLAB_HOST_ACTION_TOKEN_V0_TAG \<equiv> 0x48414354"
abbreviation (input) FWLAB_CONTROLLER_BUFFER_V0_OK :: u32 where "FWLAB_CONTROLLER_BUFFER_V0_OK \<equiv> 0"
abbreviation (input) FWLAB_CONTROLLER_BUFFER_V0_READ :: u32 where "FWLAB_CONTROLLER_BUFFER_V0_READ \<equiv> 1"
abbreviation (input) FWLAB_CONTROLLER_BUFFER_V0_WRITE :: u32 where "FWLAB_CONTROLLER_BUFFER_V0_WRITE \<equiv> 2"

section \<open>Internal enumerations\<close>

datatype spine_result =
    FWLAB_SPINE_V0_OK | FWLAB_SPINE_V0_INVALID | FWLAB_SPINE_V0_WRONG_STATE
  | FWLAB_SPINE_V0_STALE | FWLAB_SPINE_V0_NO_CAPACITY | FWLAB_SPINE_V0_IN_PROGRESS
  | FWLAB_SPINE_V0_SUPERSEDED | FWLAB_SPINE_V0_POISONED | FWLAB_SPINE_V0_COUNTER_EXHAUSTED
  | FWLAB_SPINE_V0_QUARANTINED

datatype block_disposition =
    FWLAB_HOST_ACTION_V0_ACCEPTED | FWLAB_HOST_ACTION_V0_BACKPRESSURE
  | FWLAB_HOST_ACTION_V0_REJECTED

datatype block_state =
    FWLAB_BLOCK_V0_STATE_NONE | FWLAB_BLOCK_V0_STATE_ACCEPTED | FWLAB_BLOCK_V0_STATE_TERMINAL
  | FWLAB_BLOCK_V0_STATE_DRAINING | FWLAB_BLOCK_V0_STATE_DRAINED | FWLAB_BLOCK_V0_STATE_RETIRED
  | FWLAB_BLOCK_V0_STATE_QUARANTINED

datatype block_outcome =
    FWLAB_BLOCK_V0_OUTCOME_NONE | FWLAB_BLOCK_V0_SUCCEEDED | FWLAB_BLOCK_V0_CANCELLED
  | FWLAB_BLOCK_V0_FAILED | FWLAB_BLOCK_V0_OUTCOME_QUARANTINED

datatype block_effect =
    FWLAB_BLOCK_V0_EFFECT_NONE | FWLAB_BLOCK_V0_EFFECT_FULL | FWLAB_BLOCK_V0_EFFECT_EXACT_PREFIX
  | FWLAB_BLOCK_V0_EFFECT_UNKNOWN_PREFIX

datatype block_witness =
    FWLAB_BLOCK_V0_WITNESS_NONE | FWLAB_BLOCK_V0_WITNESS_VOLATILE
  | FWLAB_BLOCK_V0_WITNESS_SELF_DURABLE | FWLAB_BLOCK_V0_WITNESS_FRONTIER_DURABLE

datatype m3p_maintenance_kind =
    FWLAB_M3P_MAINTENANCE_NONE | FWLAB_M3P_MAINTENANCE_FORMAT
  | FWLAB_M3P_MAINTENANCE_RECOVERY | FWLAB_M3P_MAINTENANCE_GC

datatype m3p_maintenance_state =
    FWLAB_M3P_MAINTENANCE_IDLE | FWLAB_M3P_MAINTENANCE_RUNNING
  | FWLAB_M3P_MAINTENANCE_SUCCEEDED | FWLAB_M3P_MAINTENANCE_FAILED
  | FWLAB_M3P_MAINTENANCE_QUARANTINED

datatype m3p_p2l_state =
    M3P_P2L_FREE | M3P_P2L_LIVE | M3P_P2L_STALE | M3P_P2L_ORPHAN | M3P_P2L_TORN
  | M3P_P2L_DURABLE_PINNED | M3P_P2L_VISIBLE_PENDING | M3P_P2L_GC_SOURCE_PINNED
  | M3P_P2L_GC_DEST_STAGED | M3P_P2L_UNAVAILABLE

datatype m3p_block_role =
    M3P_ROLE_NONE | M3P_ROLE_DATA | M3P_ROLE_JOURNAL | M3P_ROLE_CHECKPOINT | M3P_ROLE_RESERVE
  | M3P_ROLE_REPLACEMENT | M3P_ROLE_UNAVAILABLE

datatype m3p_child_kind = M3P_CHILD_NONE | M3P_CHILD_READ | M3P_CHILD_PROGRAM | M3P_CHILD_ERASE

datatype m3p_child_state =
    M3P_CHILD_IDLE | M3P_CHILD_SUBMIT_FIRST | M3P_CHILD_WAIT_FIRST | M3P_CHILD_SUBMIT_SECOND
  | M3P_CHILD_WAIT_SECOND | M3P_CHILD_DONE | M3P_CHILD_FAILED

datatype m3p_operation_state =
    M3P_OPERATION_FREE | M3P_OPERATION_PREPARED | M3P_OPERATION_PAGE_PREPARE
  | M3P_OPERATION_PAGE_READ | M3P_OPERATION_PAGE_PROGRAM | M3P_OPERATION_PENDING_INSTALL
  | M3P_OPERATION_COMMIT_PENDING | M3P_OPERATION_COMMIT_PROGRAM | M3P_OPERATION_CHECKPOINT
  | M3P_OPERATION_READ_PAGE | M3P_OPERATION_READ_PUBLISH | M3P_OPERATION_TERMINAL
  | M3P_OPERATION_DRAINING | M3P_OPERATION_DRAINED | M3P_OPERATION_RETIRED
  | M3P_OPERATION_FAILED

datatype m3p_work_state =
    M3P_WORK_IDLE | M3P_FORMAT_BODY | M3P_FORMAT_COMMIT | M3P_FORMAT_DONE
  | M3P_RECOVERY_SCAN_START | M3P_RECOVERY_SCAN_WAIT | M3P_RECOVERY_FINALIZE
  | M3P_RECOVERY_DONE | M3P_RECOVERY_CHECKPOINT_ERASE | M3P_RECOVERY_JOURNAL_ERASE
  | M3P_GC_PREPARE | M3P_GC_READ | M3P_GC_PROGRAM | M3P_GC_RELOCATION | M3P_GC_SWITCH
  | M3P_GC_ERASE | M3P_GC_DONE | M3P_WORK_FAILED

text \<open>The C code orders the operation states by number; these two tests are all it asks.\<close>

definition op_at_least_terminal :: "m3p_operation_state \<Rightarrow> bool" where
  "op_at_least_terminal st \<longleftrightarrow>
     st \<in> {M3P_OPERATION_TERMINAL, M3P_OPERATION_DRAINING, M3P_OPERATION_DRAINED,
           M3P_OPERATION_RETIRED, M3P_OPERATION_FAILED}"

definition op_at_least_draining :: "m3p_operation_state \<Rightarrow> bool" where
  "op_at_least_draining st \<longleftrightarrow>
     st \<in> {M3P_OPERATION_DRAINING, M3P_OPERATION_DRAINED,
           M3P_OPERATION_RETIRED, M3P_OPERATION_FAILED}"

end
