(* ===== verification/M3p_State.thy ===== *)
theory M3p_State
  imports M3p_Types
begin

text \<open>
  The structures of \<open>core/m3p/m3p_internal.h\<close> and of the contracts around it as records, their
  all-zero values (what \<open>memset\<close> leaves), and the state of the translation layer.
\<close>

section \<open>NAND controller contract: \<open>nfc_types.h\<close>\<close>

record nfc_operation_token =
  tok_instance_nonce :: u64
  tok_operation_uid :: u64
  tok_controller_epoch :: u32
  tok_generation :: u32

record nfc_ppa =
  ppa_channel :: u16
  ppa_lun :: u16
  ppa_plane :: u16
  ppa_block :: u16
  ppa_page :: u16
  ppa_reserved :: u16

record nfc_buffer_ref =
  br_controller_region :: u32
  br_offset :: u32
  br_length :: u32
  br_reserved :: u32

record nfc_cache_token =
  ca_instance_nonce :: u64
  ca_controller_epoch :: u32
  ca_generation :: u32
  ca_channel :: u16
  ca_lun :: u16
  ca_plane :: u16
  ca_reserved :: u16

record nfc_geometry =
  g_version :: u16
  g_size :: u16
  g_channels :: u16
  g_luns_per_channel :: u16
  g_planes_per_lun :: u16
  g_blocks_per_plane :: u16
  g_pages_per_block :: u16
  g_plane_parallelism_per_lun :: u16
  g_main_bytes_per_page :: u32
  g_oob_bytes_per_page :: u32
  g_max_programs_per_erase :: u8
  g_program_order :: u8
  g_reserved0 :: u16
  g_reserved1 :: "u32 list"

record nfc_request =
  nr_version :: u16
  nr_size :: u16
  nr_operation :: nfc_operation_token
  nr_ppa :: nfc_ppa
  nr_main :: nfc_buffer_ref
  nr_oob :: nfc_buffer_ref
  nr_cache :: nfc_cache_token
  nr_cookie :: u64
  nr_fault_tag :: u64
  nr_scheduling_group :: u32
  nr_priority :: u16
  nr_kind :: u8
  nr_region_mask :: u8
  nr_retry_step :: u8

record nfc_completion =
  nc_operation :: nfc_operation_token
  nc_ppa :: nfc_ppa
  nc_cache :: nfc_cache_token
  nc_cookie :: u64
  nc_payload_digest :: u64
  nc_base_erase_generation :: u16
  nc_final_erase_generation :: u16
  nc_corrected_main_bits :: u16
  nc_corrected_oob_bits :: u16
  nc_terminal :: u8
  nc_physical_outcome :: u8
  nc_integrity :: u8
  nc_reason :: u8
  nc_ecc_status :: u8
  nc_block_health :: u8
  nc_operation_kind :: u8

definition zero_token :: nfc_operation_token where
  "zero_token = \<lparr>tok_instance_nonce = 0, tok_operation_uid = 0, tok_controller_epoch = 0,
     tok_generation = 0\<rparr>"

definition zero_ppa :: nfc_ppa where
  "zero_ppa = \<lparr>ppa_channel = 0, ppa_lun = 0, ppa_plane = 0, ppa_block = 0, ppa_page = 0,
     ppa_reserved = 0\<rparr>"

text \<open>The initialiser \<open>{0, 0, 0, block, page, 0}\<close> that the code uses for every page address.\<close>

definition ppa_at :: "u16 \<Rightarrow> u16 \<Rightarrow> nfc_ppa" where
  "ppa_at b p = zero_ppa\<lparr>ppa_block := b, ppa_page := p\<rparr>"

definition zero_buffer_ref :: nfc_buffer_ref where
  "zero_buffer_ref = \<lparr>br_controller_region = 0, br_offset = 0, br_length = 0, br_reserved = 0\<rparr>"

definition zero_cache :: nfc_cache_token where
  "zero_cache = \<lparr>ca_instance_nonce = 0, ca_controller_epoch = 0, ca_generation = 0,
     ca_channel = 0, ca_lun = 0, ca_plane = 0, ca_reserved = 0\<rparr>"

definition zero_request :: nfc_request where
  "zero_request = \<lparr>nr_version = 0, nr_size = 0, nr_operation = zero_token, nr_ppa = zero_ppa,
     nr_main = zero_buffer_ref, nr_oob = zero_buffer_ref, nr_cache = zero_cache, nr_cookie = 0,
     nr_fault_tag = 0, nr_scheduling_group = 0, nr_priority = 0, nr_kind = 0,
     nr_region_mask = 0, nr_retry_step = 0\<rparr>"

definition zero_completion :: nfc_completion where
  "zero_completion = \<lparr>nc_operation = zero_token, nc_ppa = zero_ppa, nc_cache = zero_cache,
     nc_cookie = 0, nc_payload_digest = 0, nc_base_erase_generation = 0,
     nc_final_erase_generation = 0, nc_corrected_main_bits = 0, nc_corrected_oob_bits = 0,
     nc_terminal = 0, nc_physical_outcome = 0, nc_integrity = 0, nc_reason = 0,
     nc_ecc_status = 0, nc_block_health = 0, nc_operation_kind = 0\<rparr>"

section \<open>Mapping data: \<open>m3p_internal.h\<close>\<close>

record m3p_map_entry =
  me_state :: u8
  me_valid_mask :: u8
  me_block :: u8
  me_page :: u8
  me_erase_generation :: u16
  me_data_record_sequence :: u32
  me_map_sequence :: u32
  me_main_crc :: u32
  me_logical_version :: u32

definition zero_map_entry :: m3p_map_entry where
  "zero_map_entry = \<lparr>me_state = 0, me_valid_mask = 0, me_block = 0, me_page = 0,
     me_erase_generation = 0, me_data_record_sequence = 0, me_map_sequence = 0,
     me_main_crc = 0, me_logical_version = 0\<rparr>"

record m3p_delta =
  d_lpn :: u16
  d_target :: m3p_map_entry
  d_prior :: m3p_map_entry

definition zero_delta :: m3p_delta where
  "zero_delta = \<lparr>d_lpn = 0, d_target = zero_map_entry, d_prior = zero_map_entry\<rparr>"

record m3p_pending =
  pd_active :: bool
  pd_subtype :: u8
  pd_delta_count :: u8
  pd_host_sequence :: u32
  pd_transaction_sequence :: u32
  pd_delta :: "m3p_delta list"

definition zero_pending :: m3p_pending where
  "zero_pending = \<lparr>pd_active = False, pd_subtype = 0, pd_delta_count = 0, pd_host_sequence = 0,
     pd_transaction_sequence = 0, pd_delta = replicate M3P_MAX_DELTAS zero_delta\<rparr>"

record m3p_oob =
  ob_page_type :: u8
  ob_flags :: u8
  ob_copy_kind :: u8
  ob_valid_mask :: u8
  ob_namespace_id :: u32
  ob_lpn :: u32
  ob_erase_generation :: u16
  ob_record_sequence :: u32
  ob_transaction_sequence :: u32
  ob_predecessor_map_sequence :: u32
  ob_resulting_map_sequence :: u32
  ob_referenced_data_sequence :: u32
  ob_main_length :: u32
  ob_main_crc :: u32
  ob_checkpoint_generation :: u32
  ob_checkpoint_covered_sequence :: u32
  ob_durable_frontier :: u32
  ob_media_uuid :: bytes
  ob_source_block :: u8
  ob_source_page :: u8
  ob_source_data_sequence :: u32

definition zero_oob :: m3p_oob where
  "zero_oob = \<lparr>ob_page_type = 0, ob_flags = 0, ob_copy_kind = 0, ob_valid_mask = 0,
     ob_namespace_id = 0, ob_lpn = 0, ob_erase_generation = 0, ob_record_sequence = 0,
     ob_transaction_sequence = 0, ob_predecessor_map_sequence = 0,
     ob_resulting_map_sequence = 0, ob_referenced_data_sequence = 0, ob_main_length = 0,
     ob_main_crc = 0, ob_checkpoint_generation = 0, ob_checkpoint_covered_sequence = 0,
     ob_durable_frontier = 0, ob_media_uuid = replicate 16 0, ob_source_block = 0,
     ob_source_page = 0, ob_source_data_sequence = 0\<rparr>"

record m3p_map_record =
  mr_subtype :: u8
  mr_delta_count :: u8
  mr_flags :: u16
  mr_transaction_sequence :: u32
  mr_predecessor_map_sequence :: u32
  mr_resulting_map_sequence :: u32
  mr_host_sequence :: u32
  mr_captured_frontier :: u32
  mr_gc_uid :: u32
  mr_gc_source_block :: u8
  mr_gc_destination_block :: u8
  mr_gc_expected_live :: u16
  mr_gc_moved :: u16
  mr_delta :: "m3p_delta list"
  mr_relocation_sequence :: "u32 list"

definition zero_map_record :: m3p_map_record where
  "zero_map_record = \<lparr>mr_subtype = 0, mr_delta_count = 0, mr_flags = 0,
     mr_transaction_sequence = 0, mr_predecessor_map_sequence = 0,
     mr_resulting_map_sequence = 0, mr_host_sequence = 0, mr_captured_frontier = 0,
     mr_gc_uid = 0, mr_gc_source_block = 0, mr_gc_destination_block = 0,
     mr_gc_expected_live = 0, mr_gc_moved = 0, mr_delta = replicate M3P_MAX_DELTAS zero_delta,
     mr_relocation_sequence = replicate 25 0\<rparr>"

record m3p_checkpoint_commit =
  cc_generation :: u32
  cc_body_block :: u8
  cc_body_page :: u8
  cc_body_erase_generation :: u16
  cc_body_main_crc :: u32
  cc_body_oob_crc :: u32
  cc_covered_map_sequence :: u32
  cc_durable_frontier :: u32
  cc_journal_generation :: u32
  cc_commit_record_sequence :: u32
  cc_media_uuid :: bytes
  cc_format_version :: u16
  cc_lba_count :: u64
  cc_lba_bytes :: u32
  cc_geometry :: nfc_geometry

definition zero_geometry :: nfc_geometry where
  "zero_geometry = \<lparr>g_version = 0, g_size = 0, g_channels = 0, g_luns_per_channel = 0,
     g_planes_per_lun = 0, g_blocks_per_plane = 0, g_pages_per_block = 0,
     g_plane_parallelism_per_lun = 0, g_main_bytes_per_page = 0, g_oob_bytes_per_page = 0,
     g_max_programs_per_erase = 0, g_program_order = 0, g_reserved0 = 0,
     g_reserved1 = replicate 2 0\<rparr>"

definition zero_commit :: m3p_checkpoint_commit where
  "zero_commit = \<lparr>cc_generation = 0, cc_body_block = 0, cc_body_page = 0,
     cc_body_erase_generation = 0, cc_body_main_crc = 0, cc_body_oob_crc = 0,
     cc_covered_map_sequence = 0, cc_durable_frontier = 0, cc_journal_generation = 0,
     cc_commit_record_sequence = 0, cc_media_uuid = replicate 16 0, cc_format_version = 0,
     cc_lba_count = 0, cc_lba_bytes = 0, cc_geometry = zero_geometry\<rparr>"

record m3p_recovery_record =
  rr_valid :: bool
  rr_block :: u8
  rr_page :: u8
  rr_oob :: m3p_oob
  rr_map :: m3p_map_record

definition zero_recovery_record :: m3p_recovery_record where
  "zero_recovery_record = \<lparr>rr_valid = False, rr_block = 0, rr_page = 0, rr_oob = zero_oob,
     rr_map = zero_map_record\<rparr>"

record m3p_child =
  ch_kind :: m3p_child_kind
  ch_state :: m3p_child_state
  ch_frame :: u8
  ch_ppa :: nfc_ppa
  ch_first :: nfc_request
  ch_second :: nfc_request
  ch_completion :: nfc_completion
  ch_fault_code :: u32

definition zero_child :: m3p_child where
  "zero_child = \<lparr>ch_kind = M3P_CHILD_NONE, ch_state = M3P_CHILD_IDLE, ch_frame = 0,
     ch_ppa = zero_ppa, ch_first = zero_request, ch_second = zero_request,
     ch_completion = zero_completion, ch_fault_code = 0\<rparr>"

end
