(* ===== verification/Crc32c.thy ===== *)
theory Crc32c
  imports Fwlab_Prelude
begin

text \<open>
  CRC-32C as the sources compute it: the bit-serial routine of \<open>core/m3p/m3p_codec.c\<close> and the
  table-driven routine of \<open>include/fwlab/portable/crc32c.h\<close> with its optional four-byte field that
  counts as zero. The lemmas show that the constant table is the bit-serial step of every byte,
  that the two routines agree on every input, and that the checksum tells apart two strings of
  equal length that differ in exactly one byte.
\<close>

section \<open>Definitions\<close>

definition crc32c_bit :: "u32 \<Rightarrow> u32" where
  "crc32c_bit crc = drop_bit 1 crc XOR (0x82f63b78 AND - (crc AND 1))"

definition crc32c_byte :: "u32 \<Rightarrow> u8 \<Rightarrow> u32" where
  "crc32c_byte crc b = (crc32c_bit ^^ 8) (crc XOR ucast b)"

definition m3p_crc32c :: "bytes \<Rightarrow> u32" where
  "m3p_crc32c bs = NOT (foldl crc32c_byte UINT32_MAX bs)"

definition crc32c_table :: "u32 list" where
  "crc32c_table =
    [0x00000000, 0xf26b8303, 0xe13b70f7, 0x1350f3f4, 0xc79a971f, 0x35f1141c,
     0x26a1e7e8, 0xd4ca64eb, 0x8ad958cf, 0x78b2dbcc, 0x6be22838, 0x9989ab3b,
     0x4d43cfd0, 0xbf284cd3, 0xac78bf27, 0x5e133c24, 0x105ec76f, 0xe235446c,
     0xf165b798, 0x030e349b, 0xd7c45070, 0x25afd373, 0x36ff2087, 0xc494a384,
     0x9a879fa0, 0x68ec1ca3, 0x7bbcef57, 0x89d76c54, 0x5d1d08bf, 0xaf768bbc,
     0xbc267848, 0x4e4dfb4b, 0x20bd8ede, 0xd2d60ddd, 0xc186fe29, 0x33ed7d2a,
     0xe72719c1, 0x154c9ac2, 0x061c6936, 0xf477ea35, 0xaa64d611, 0x580f5512,
     0x4b5fa6e6, 0xb93425e5, 0x6dfe410e, 0x9f95c20d, 0x8cc531f9, 0x7eaeb2fa,
     0x30e349b1, 0xc288cab2, 0xd1d83946, 0x23b3ba45, 0xf779deae, 0x05125dad,
     0x1642ae59, 0xe4292d5a, 0xba3a117e, 0x4851927d, 0x5b016189, 0xa96ae28a,
     0x7da08661, 0x8fcb0562, 0x9c9bf696, 0x6ef07595, 0x417b1dbc, 0xb3109ebf,
     0xa0406d4b, 0x522bee48, 0x86e18aa3, 0x748a09a0, 0x67dafa54, 0x95b17957,
     0xcba24573, 0x39c9c670, 0x2a993584, 0xd8f2b687, 0x0c38d26c, 0xfe53516f,
     0xed03a29b, 0x1f682198, 0x5125dad3, 0xa34e59d0, 0xb01eaa24, 0x42752927,
     0x96bf4dcc, 0x64d4cecf, 0x77843d3b, 0x85efbe38, 0xdbfc821c, 0x2997011f,
     0x3ac7f2eb, 0xc8ac71e8, 0x1c661503, 0xee0d9600, 0xfd5d65f4, 0x0f36e6f7,
     0x61c69362, 0x93ad1061, 0x80fde395, 0x72966096, 0xa65c047d, 0x5437877e,
     0x4767748a, 0xb50cf789, 0xeb1fcbad, 0x197448ae, 0x0a24bb5a, 0xf84f3859,
     0x2c855cb2, 0xdeeedfb1, 0xcdbe2c45, 0x3fd5af46, 0x7198540d, 0x83f3d70e,
     0x90a324fa, 0x62c8a7f9, 0xb602c312, 0x44694011, 0x5739b3e5, 0xa55230e6,
     0xfb410cc2, 0x092a8fc1, 0x1a7a7c35, 0xe811ff36, 0x3cdb9bdd, 0xceb018de,
     0xdde0eb2a, 0x2f8b6829, 0x82f63b78, 0x709db87b, 0x63cd4b8f, 0x91a6c88c,
     0x456cac67, 0xb7072f64, 0xa457dc90, 0x563c5f93, 0x082f63b7, 0xfa44e0b4,
     0xe9141340, 0x1b7f9043, 0xcfb5f4a8, 0x3dde77ab, 0x2e8e845f, 0xdce5075c,
     0x92a8fc17, 0x60c37f14, 0x73938ce0, 0x81f80fe3, 0x55326b08, 0xa759e80b,
     0xb4091bff, 0x466298fc, 0x1871a4d8, 0xea1a27db, 0xf94ad42f, 0x0b21572c,
     0xdfeb33c7, 0x2d80b0c4, 0x3ed04330, 0xccbbc033, 0xa24bb5a6, 0x502036a5,
     0x4370c551, 0xb11b4652, 0x65d122b9, 0x97baa1ba, 0x84ea524e, 0x7681d14d,
     0x2892ed69, 0xdaf96e6a, 0xc9a99d9e, 0x3bc21e9d, 0xef087a76, 0x1d63f975,
     0x0e330a81, 0xfc588982, 0xb21572c9, 0x407ef1ca, 0x532e023e, 0xa145813d,
     0x758fe5d6, 0x87e466d5, 0x94b49521, 0x66df1622, 0x38cc2a06, 0xcaa7a905,
     0xd9f75af1, 0x2b9cd9f2, 0xff56bd19, 0x0d3d3e1a, 0x1e6dcdee, 0xec064eed,
     0xc38d26c4, 0x31e6a5c7, 0x22b65633, 0xd0ddd530, 0x0417b1db, 0xf67c32d8,
     0xe52cc12c, 0x1747422f, 0x49547e0b, 0xbb3ffd08, 0xa86f0efc, 0x5a048dff,
     0x8ecee914, 0x7ca56a17, 0x6ff599e3, 0x9d9e1ae0, 0xd3d3e1ab, 0x21b862a8,
     0x32e8915c, 0xc083125f, 0x144976b4, 0xe622f5b7, 0xf5720643, 0x07198540,
     0x590ab964, 0xab613a67, 0xb831c993, 0x4a5a4a90, 0x9e902e7b, 0x6cfbad78,
     0x7fab5e8c, 0x8dc0dd8f, 0xe330a81a, 0x115b2b19, 0x020bd8ed, 0xf0605bee,
     0x24aa3f05, 0xd6c1bc06, 0xc5914ff2, 0x37faccf1, 0x69e9f0d5, 0x9b8273d6,
     0x88d28022, 0x7ab90321, 0xae7367ca, 0x5c18e4c9, 0x4f48173d, 0xbd23943e,
     0xf36e6f75, 0x0105ec76, 0x12551f82, 0xe03e9c81, 0x34f4f86a, 0xc69f7b69,
     0xd5cf889d, 0x27a40b9e, 0x79b737ba, 0x8bdcb4b9, 0x988c474d, 0x6ae7c44e,
     0xbe2da0a5, 0x4c4623a6, 0x5f16d052, 0xad7d5351]"

definition crc32c_table_step :: "u32 \<Rightarrow> u8 \<Rightarrow> u32" where
  "crc32c_table_step v b = drop_bit 8 v XOR crc32c_table ! unat ((v XOR ucast b) AND 0xff)"

definition fwlab_crc32c_zero_field :: "bytes \<Rightarrow> nat \<Rightarrow> u32" where
  "fwlab_crc32c_zero_field bs field_offset =
     (let len = length bs;
          prefix = (if field_offset < len then field_offset else len);
          v1 = foldl crc32c_table_step UINT32_MAX (take prefix bs);
          zeroed = min 4 (len - prefix);
          v2 = ((\<lambda>v. drop_bit 8 v XOR crc32c_table ! unat (v AND 0xff)) ^^ zeroed) v1;
          v3 = foldl crc32c_table_step v2 (drop (prefix + zeroed) bs)
      in NOT v3)"

definition fwlab_crc32c :: "bytes \<Rightarrow> u32" where
  "fwlab_crc32c bs = fwlab_crc32c_zero_field bs (2 ^ 64 - 1)"

section \<open>The bit step is linear and injective\<close>

lemma bit_crc32c_bit:
  "bit (crc32c_bit x) n \<longleftrightarrow> n < 32 \<and> (bit x (Suc n) \<noteq> (bit (0x82f63b78 :: u32) n \<and> bit x 0))"
proof -
  have len: "bit x (Suc n) \<Longrightarrow> n < 32"
    using bit_imp_le_length [of x "Suc n"] by simp
  show ?thesis
  proof (cases "bit x 0")
    case True
    then have "x AND 1 = 1"
      by (simp add: and_one_eq bit_0 odd_iff_mod_2_eq_one)
    with True len show ?thesis
      by (auto simp: crc32c_bit_def bit_simps)
  next
    case False
    then have "x AND 1 = 0"
      by (simp add: and_one_eq bit_0 even_iff_mod_2_eq_zero)
    with False len show ?thesis
      by (auto simp: crc32c_bit_def bit_simps)
  qed
qed

lemma crc32c_bit_xor: "crc32c_bit (a XOR b) = crc32c_bit a XOR crc32c_bit b"
  by (rule bit_word_eqI) (auto simp: bit_crc32c_bit bit_simps)

lemma crc32c_bit_0 [simp]: "crc32c_bit 0 = 0"
  by (simp add: crc32c_bit_def)

lemma crc32c_bits_xor: "(crc32c_bit ^^ n) (a XOR b) = (crc32c_bit ^^ n) a XOR (crc32c_bit ^^ n) b"
  by (induction n) (simp_all add: crc32c_bit_xor)

lemma crc32c_bit_eq_0: "crc32c_bit x = 0 \<Longrightarrow> x = 0"
proof -
  assume "crc32c_bit x = 0"
  then have all: "\<not> bit (crc32c_bit x) n" for n
    by simp
  have "\<not> bit x 32"
    using bit_imp_le_length [of x 32] by auto
  then have low: "\<not> bit x 0"
    using all [of 31] by (simp add: bit_crc32c_bit)
  have "\<not> bit x n" if "n < 32" for n
  proof (cases n)
    case 0
    with low show ?thesis by simp
  next
    case (Suc m)
    with that low show ?thesis
      using all [of m] by (simp add: bit_crc32c_bit)
  qed
  then show "x = 0"
    by (intro bit_word_eqI) simp
qed

lemma xor_eq_0D:
  fixes a b :: u32
  assumes "a XOR b = 0"
  shows "a = b"
proof -
  have "a = (a XOR b) XOR b"
    by (simp add: xor.assoc)
  with assms show ?thesis by simp
qed

lemma crc32c_bits_inj: "(crc32c_bit ^^ n) a = (crc32c_bit ^^ n) b \<Longrightarrow> a = b"
proof (induction n)
  case 0
  then show ?case by simp
next
  case (Suc n)
  then have "crc32c_bit ((crc32c_bit ^^ n) a XOR (crc32c_bit ^^ n) b) = 0"
    by (simp add: crc32c_bit_xor)
  then have "(crc32c_bit ^^ n) a XOR (crc32c_bit ^^ n) b = 0"
    by (rule crc32c_bit_eq_0)
  then have "(crc32c_bit ^^ n) a = (crc32c_bit ^^ n) b"
    by (rule xor_eq_0D)
  then show ?case
    by (rule Suc.IH)
qed

section \<open>The table step is eight bit steps\<close>

lemma crc32c_bits_high:
  "n \<le> 32 \<Longrightarrow> (\<And>k. k < n \<Longrightarrow> \<not> bit x k) \<Longrightarrow> (crc32c_bit ^^ n) x = drop_bit n x"
proof (induction n)
  case 0
  then show ?case by simp
next
  case (Suc n)
  then have "(crc32c_bit ^^ n) x = drop_bit n x"
    by simp
  moreover have "\<not> bit (drop_bit n x) 0"
    using Suc.prems(2) [of n] by (simp add: bit_simps)
  moreover have "crc32c_bit y = drop_bit 1 y" if "\<not> bit y 0" for y
    using that by (intro bit_word_eqI) (auto simp: bit_crc32c_bit bit_simps)
  ultimately show ?case
    by (simp add: drop_bit_drop_bit)
qed

text \<open>
  The table is linear in its index, so it is the doubling of the eight values at powers of two.
  Only those are computed bit by bit.
\<close>

definition crc32c_gens :: "u32 list" where
  "crc32c_gens = [0xf26b8303, 0xe13b70f7, 0xc79a971f, 0x8ad958cf, 0x105ec76f, 0x20bd8ede,
     0x417b1dbc, 0x82f63b78]"

lemma length_crc32c_gens [simp]: "length crc32c_gens = 8"
  by (simp add: crc32c_gens_def)

primrec crc32c_doubling :: "u32 list \<Rightarrow> u32 list \<Rightarrow> u32 list" where
  "crc32c_doubling acc [] = acc"
| "crc32c_doubling acc (g # gs) = crc32c_doubling (acc @ map (\<lambda>x. x XOR g) acc) gs"

lemma crc32c_bit_code:
  "crc32c_bit x = (if bit x 0 then drop_bit 1 x XOR 0x82f63b78 else drop_bit 1 x)"
  by (rule bit_word_eqI) (auto simp: bit_crc32c_bit bit_simps)

lemma funpow_8: "(f ^^ 8) x = f (f (f (f (f (f (f (f x)))))))"
  by (simp add: eval_nat_numeral)

lemma crc32c_gens_correct:
  assumes "j < 8"
  shows "(crc32c_bit ^^ 8) (2 ^ j) = crc32c_gens ! j"
proof -
  have "j = 0 \<or> j = 1 \<or> j = 2 \<or> j = 3 \<or> j = 4 \<or> j = 5 \<or> j = 6 \<or> j = 7"
    using assms by auto
  then show ?thesis
    by (elim disjE) (simp_all add: crc32c_gens_def funpow_8 crc32c_bit_code bit_0)
qed

lemma word_of_nat_high_bit:
  assumes "i < 2 ^ j" and "j < 32"
  shows "(of_nat (2 ^ j + i) :: u32) = of_nat i XOR 2 ^ j"
proof -
  have "\<not> bit (of_nat i :: u32) n" if "j \<le> n" for n
  proof -
    have "i < 2 ^ n"
      using assms(1) that by (meson less_le_trans one_le_numeral power_increasing)
    then have "\<not> bit i n"
      by (simp add: bit_iff_odd)
    then show ?thesis
      by (simp add: bit_of_nat_iff)
  qed
  then have "\<not> (bit (of_nat i :: u32) n \<and> bit (2 ^ j :: u32) n)" for n
    by (auto simp: bit_simps)
  then have dis: "(of_nat i :: u32) AND 2 ^ j = 0"
    by (intro bit_word_eqI) (auto simp: bit_and_iff)
  then have "(of_nat i :: u32) XOR 2 ^ j = of_nat i + 2 ^ j"
    by (simp add: disjunctive_add_eq_xor)
  then show ?thesis
    by (simp add: add.commute)
qed

lemma crc32c_doubling_correct:
  assumes "length acc = 2 ^ j" and "\<forall>i < 2 ^ j. acc ! i = (crc32c_bit ^^ 8) (of_nat i)"
    and "gs = drop j crc32c_gens" and "j \<le> 8"
  shows "\<forall>i < 256. crc32c_doubling acc gs ! i = (crc32c_bit ^^ 8) (of_nat i)"
  using assms
proof (induction gs arbitrary: acc j)
  case Nil
  then have "j = 8"
    by (simp add: crc32c_gens_def)
  with Nil show ?case by simp
next
  case (Cons g gs)
  have j: "j < 8"
    using Cons.prems(3) by (cases "j < 8") (simp_all add: crc32c_gens_def)
  have "g # gs = crc32c_gens ! j # drop (Suc j) crc32c_gens"
    using Cons.prems(3) Cons_nth_drop_Suc [of j crc32c_gens] j by simp
  then have g: "g = crc32c_gens ! j" and gs: "gs = drop (Suc j) crc32c_gens"
    by simp_all
  let ?acc = "acc @ map (\<lambda>x. x XOR g) acc"
  have "?acc ! i = (crc32c_bit ^^ 8) (of_nat i)" if "i < 2 ^ Suc j" for i
  proof (cases "i < 2 ^ j")
    case True
    then show ?thesis
      using Cons.prems(1,2) by (simp add: nth_append)
  next
    case False
    define k where "k = i - 2 ^ j"
    have k: "i = 2 ^ j + k" and "k < 2 ^ j"
      using that False by (simp_all add: k_def)
    then have "?acc ! i = (crc32c_bit ^^ 8) (of_nat k) XOR g"
      using Cons.prems(1,2) by (simp add: nth_append)
    also have "\<dots> = (crc32c_bit ^^ 8) (of_nat k XOR 2 ^ j)"
      using j by (simp add: crc32c_bits_xor g crc32c_gens_correct)
    also have "\<dots> = (crc32c_bit ^^ 8) (of_nat i)"
      using word_of_nat_high_bit [OF \<open>k < 2 ^ j\<close>] j unfolding k by simp
    finally show ?thesis .
  qed
  then show ?case
    using Cons.IH [of ?acc "Suc j"] Cons.prems(1) gs j by simp
qed

lemma crc32c_table_doubling: "crc32c_table = crc32c_doubling [0] crc32c_gens"
  by (simp add: crc32c_table_def crc32c_gens_def)

lemma crc32c_table_correct: "i < 256 \<Longrightarrow> crc32c_table ! i = (crc32c_bit ^^ 8) (of_nat i)"
  using crc32c_doubling_correct [of "[0]" 0 crc32c_gens]
  by (simp add: crc32c_table_doubling funpow_8)

section \<open>The two routines agree\<close>

lemma and_ff: "(x :: u32) AND 0xff = take_bit 8 x"
  by (simp add: take_bit_eq_mask mask_eq_exp_minus_1)

lemma crc32c_table_step_eq: "crc32c_table_step v b = crc32c_byte v b"
proof -
  let ?x = "v XOR ucast b"
  have split: "?x = take_bit 8 ?x XOR push_bit 8 (drop_bit 8 ?x)"
  proof (rule bit_word_eqI)
    fix n assume "n < LENGTH(32)"
    then show "bit ?x n = bit (take_bit 8 ?x XOR push_bit 8 (drop_bit 8 ?x)) n"
      by (cases "n < 8") (auto simp: bit_simps)
  qed
  have "unat (take_bit 8 ?x) = take_bit 8 (unat ?x)"
    by (rule unsigned_take_bit_eq)
  then have "unat (take_bit 8 ?x) < 256"
    using take_bit_nat_less_exp [of 8 "unat ?x"] by simp
  then have low: "crc32c_table ! unat (take_bit 8 ?x) = (crc32c_bit ^^ 8) (take_bit 8 ?x)"
    by (simp add: crc32c_table_correct)
  have "(crc32c_bit ^^ 8) (push_bit 8 (drop_bit 8 ?x)) = drop_bit 8 (push_bit 8 (drop_bit 8 ?x))"
    by (rule crc32c_bits_high) (simp_all add: bit_simps)
  also have "\<dots> = drop_bit 8 v"
  proof (rule bit_word_eqI)
    fix n
    have "\<not> bit b (8 + n)"
      using bit_imp_le_length [of b "8 + n"] by auto
    then show "bit (drop_bit 8 (push_bit 8 (drop_bit 8 ?x))) n = bit (drop_bit 8 v) n"
      by (auto simp: bit_simps dest: bit_imp_le_length)
  qed
  finally have high: "(crc32c_bit ^^ 8) (push_bit 8 (drop_bit 8 ?x)) = drop_bit 8 v" .
  have "(crc32c_bit ^^ 8) ?x
      = (crc32c_bit ^^ 8) (take_bit 8 ?x) XOR (crc32c_bit ^^ 8) (push_bit 8 (drop_bit 8 ?x))"
    by (subst split) (rule crc32c_bits_xor)
  then show ?thesis
    by (simp only: crc32c_table_step_def crc32c_byte_def and_ff low high xor.commute)
qed

definition zero_field :: "bytes \<Rightarrow> nat \<Rightarrow> bytes" where
  "zero_field bs off =
     (let prefix = min off (length bs); z = min 4 (length bs - prefix)
      in take prefix bs @ replicate z 0 @ drop (prefix + z) bs)"

lemma length_zero_field [simp]: "length (zero_field bs off) = length bs"
  by (simp add: zero_field_def Let_def)

lemma foldl_replicate: "foldl f v (replicate n x) = ((\<lambda>v. f v x) ^^ n) v"
  by (induction n arbitrary: v) (simp_all add: funpow_swap1 [of "\<lambda>v. f v x"])

lemma crc32c_zero_step:
  "(\<lambda>v. drop_bit 8 v XOR crc32c_table ! unat (v AND 0xff)) = (\<lambda>v. crc32c_byte v 0)"
  by (rule ext) (simp add: crc32c_table_step_eq [symmetric] crc32c_table_step_def)

lemma fwlab_crc32c_zero_field_eq:
  "fwlab_crc32c_zero_field bs off = m3p_crc32c (zero_field bs off)"
proof -
  have "crc32c_table_step = crc32c_byte"
    by (intro ext) (rule crc32c_table_step_eq)
  moreover have "(if off < length bs then off else length bs) = min off (length bs)"
    by simp
  ultimately show ?thesis
    unfolding fwlab_crc32c_zero_field_def m3p_crc32c_def zero_field_def Let_def crc32c_zero_step
    by (simp add: foldl_replicate)
qed

lemma zero_field_absent: "length bs \<le> off \<Longrightarrow> zero_field bs off = bs"
  by (simp add: zero_field_def)

section \<open>Single-byte errors\<close>

lemma crc32c_byte_inj_state: "crc32c_byte c b = crc32c_byte c' b \<Longrightarrow> c = c'"
proof -
  assume "crc32c_byte c b = crc32c_byte c' b"
  then have "c XOR ucast b = c' XOR ucast b"
    unfolding crc32c_byte_def by (rule crc32c_bits_inj)
  then have "(c XOR ucast b) XOR ucast b = (c' XOR ucast b) XOR ucast b"
    by simp
  then show "c = c'"
    by (simp add: xor.assoc)
qed

lemma crc32c_byte_inj_byte: "crc32c_byte c b = crc32c_byte c b' \<Longrightarrow> b = b'"
proof -
  assume "crc32c_byte c b = crc32c_byte c b'"
  then have "c XOR ucast b = c XOR ucast b'"
    unfolding crc32c_byte_def by (rule crc32c_bits_inj)
  then have "c XOR (c XOR ucast b) = c XOR (c XOR ucast b')"
    by simp
  then have "(ucast b :: u32) = ucast b'"
    by (simp add: xor.assoc [symmetric])
  then have "unat (ucast b :: u32) = unat (ucast b' :: u32)"
    by simp
  then show "b = b'"
    by (simp add: word_unat_eq_iff)
qed

lemma foldl_crc32c_inj_state: "foldl crc32c_byte c bs = foldl crc32c_byte c' bs \<Longrightarrow> c = c'"
  by (induction bs arbitrary: c c') (auto dest: crc32c_byte_inj_state)

lemma m3p_crc32c_one_byte:
  assumes "i < length bs" and "b \<noteq> bs ! i"
  shows "m3p_crc32c (bs[i := b]) \<noteq> m3p_crc32c bs"
proof
  assume eq: "m3p_crc32c (bs[i := b]) = m3p_crc32c bs"
  let ?c = "foldl crc32c_byte UINT32_MAX (take i bs)"
  have "bs = take i bs @ bs ! i # drop (Suc i) bs"
    using assms(1) by (rule id_take_nth_drop)
  then have old: "foldl crc32c_byte UINT32_MAX bs =
      foldl crc32c_byte (crc32c_byte ?c (bs ! i)) (drop (Suc i) bs)"
    by (metis foldl_append foldl_Cons)
  have new: "foldl crc32c_byte UINT32_MAX (bs[i := b]) =
      foldl crc32c_byte (crc32c_byte ?c b) (drop (Suc i) bs)"
    using assms(1) by (simp add: upd_conv_take_nth_drop)
  from eq have "foldl crc32c_byte UINT32_MAX (bs[i := b]) = foldl crc32c_byte UINT32_MAX bs"
    unfolding m3p_crc32c_def by (metis bit.double_compl)
  then have "crc32c_byte ?c b = crc32c_byte ?c (bs ! i)"
    unfolding old new by (rule foldl_crc32c_inj_state)
  then show False
    using assms(2) crc32c_byte_inj_byte by blast
qed

section \<open>Properties\<close>

text \<open>
  C38. The table-driven CRC-32C of \<open>crc32c.h\<close> and the bit-serial one of \<open>m3p_codec.c\<close> compute the
  same value on every buffer, and the table-driven routine with a zero field equals the bit-serial
  routine on the buffer whose four field bytes are cleared.
\<close>

theorem crc32c_implementations_agree:
  assumes "length bs < 2 ^ 64"
  shows "fwlab_crc32c bs = m3p_crc32c bs \<and>
    fwlab_crc32c_zero_field bs off = m3p_crc32c (zero_field bs off)"
  using assms by (simp add: fwlab_crc32c_def fwlab_crc32c_zero_field_eq zero_field_absent)

theorem crc32c_implementations_agree_witness:
  "fwlab_crc32c [0x31, 0x32, 0x33, 0x34, 0x35, 0x36, 0x37, 0x38, 0x39] = 0xE3069283"
  using crc32c_implementations_agree
    [of "[0x31, 0x32, 0x33, 0x34, 0x35, 0x36, 0x37, 0x38, 0x39]" 0]
  by (simp add: m3p_crc32c_def crc32c_byte_def funpow_8 crc32c_bit_code)

text \<open>
  The CRC detects every single-byte error: changing one byte of a buffer changes the CRC, in
  either implementation.
\<close>

theorem crc32c_detects_byte_error:
  assumes "i < length bs" and "b \<noteq> bs ! i" and "length bs < 2 ^ 64"
  shows "m3p_crc32c (bs[i := b]) \<noteq> m3p_crc32c bs \<and> fwlab_crc32c (bs[i := b]) \<noteq> fwlab_crc32c bs"
  using m3p_crc32c_one_byte [OF assms(1,2)] assms(3)
  by (simp add: fwlab_crc32c_def fwlab_crc32c_zero_field_eq zero_field_absent)

theorem crc32c_detects_byte_error_witness:
  "m3p_crc32c [1, 7, 3] \<noteq> m3p_crc32c [1, 2, 3] \<and> fwlab_crc32c [1, 7, 3] \<noteq> fwlab_crc32c [1, 2, 3]"
  using crc32c_detects_byte_error [of 1 "[1, 2, 3]" 7] by simp

end
