(* ===== verification/M3p_Codec.thy ===== *)
theory M3p_Codec
  imports M3p_State Crc32c
begin

text \<open>
  The on-medium formats of the translation layer, \<open>core/m3p/m3p_codec.c\<close>: little-endian field
  access, the 128-byte out-of-band header with its CRC, map transactions, checkpoint bodies and
  checkpoint commits. A byte array is a list, a write \<open>&bytes[off]\<close> takes the array and the
  offset and returns the new array, and a decoder returns \<open>None\<close> where the C function returns 0.
  Every format is shown to be a \<open>page_codec\<close>, and a header with one corrupted byte is shown to be
  rejected.
\<close>

section \<open>Field access\<close>

definition m3p_get_le16 :: "bytes \<Rightarrow> nat \<Rightarrow> u16" where
  "m3p_get_le16 bs off = ucast (bs ! off) OR push_bit 8 (ucast (bs ! (off + 1)))"

definition m3p_get_le32 :: "bytes \<Rightarrow> nat \<Rightarrow> u32" where
  "m3p_get_le32 bs off = ucast (bs ! off) OR push_bit 8 (ucast (bs ! (off + 1)))
     OR push_bit 16 (ucast (bs ! (off + 2))) OR push_bit 24 (ucast (bs ! (off + 3)))"

definition m3p_put_le16 :: "bytes \<Rightarrow> nat \<Rightarrow> u16 \<Rightarrow> bytes" where
  "m3p_put_le16 bs off v = bs[off := ucast v, off + 1 := ucast (drop_bit 8 v)]"

definition m3p_put_le32 :: "bytes \<Rightarrow> nat \<Rightarrow> u32 \<Rightarrow> bytes" where
  "m3p_put_le32 bs off v = bs[off := ucast v, off + 1 := ucast (drop_bit 8 v),
     off + 2 := ucast (drop_bit 16 v), off + 3 := ucast (drop_bit 24 v)]"

text \<open>\<open>memcpy(&bytes[off], xs, n)\<close> and the \<open>n\<close> bytes at \<open>&bytes[off]\<close>.\<close>

definition put_bytes :: "bytes \<Rightarrow> nat \<Rightarrow> bytes \<Rightarrow> bytes" where
  "put_bytes bs off xs = take off bs @ xs @ drop (off + length xs) bs"

definition slice :: "bytes \<Rightarrow> nat \<Rightarrow> nat \<Rightarrow> bytes" where
  "slice bs off n = take n (drop off bs)"

definition m3p_bytes_zero :: "bytes \<Rightarrow> nat \<Rightarrow> nat \<Rightarrow> bool" where
  "m3p_bytes_zero bs off n \<longleftrightarrow> list_all (\<lambda>b. b = 0) (slice bs off n)"

definition m3p_hash64 :: "bytes \<Rightarrow> u64" where
  "m3p_hash64 bs = foldl (\<lambda>h b. (h XOR ucast b) * 1099511628211) 1469598103934665603 bs"

section \<open>Out-of-band header\<close>

definition oob_crc :: "bytes \<Rightarrow> u32" where
  "oob_crc bs = m3p_crc32c (put_bytes bs 88 (replicate 4 0))"

definition m3p_oob_fields :: "m3p_oob \<Rightarrow> bytes" where
  "m3p_oob_fields ob =
     (let b = replicate 128 0;
          b = m3p_put_le32 b 0 M3P_OOB_MAGIC;
          b = m3p_put_le16 b 4 M3P_FORMAT_VERSION;
          b = m3p_put_le16 b 6 M3P_OOB_HEADER_BYTES;
          b = b[8 := ob_page_type ob];
          b = b[9 := ob_flags ob];
          b = b[10 := ob_copy_kind ob];
          b = b[11 := ob_valid_mask ob];
          b = m3p_put_le32 b 12 (ob_namespace_id ob);
          b = m3p_put_le32 b 16 (ob_lpn ob);
          b = m3p_put_le16 b 20 (ob_erase_generation ob);
          b = m3p_put_le32 b 24 (ob_record_sequence ob);
          b = m3p_put_le32 b 28 (ob_transaction_sequence ob);
          b = m3p_put_le32 b 32 (ob_predecessor_map_sequence ob);
          b = m3p_put_le32 b 36 (ob_resulting_map_sequence ob);
          b = m3p_put_le32 b 40 (ob_referenced_data_sequence ob);
          b = m3p_put_le32 b 44 (ob_main_length ob);
          b = m3p_put_le32 b 48 (ob_main_crc ob);
          b = m3p_put_le32 b 52 (ob_checkpoint_generation ob);
          b = m3p_put_le32 b 56 (ob_checkpoint_covered_sequence ob);
          b = m3p_put_le32 b 60 (ob_durable_frontier ob);
          b = put_bytes b 64 (ob_media_uuid ob);
          b = b[80 := ob_source_block ob];
          b = b[81 := ob_source_page ob];
          b = m3p_put_le32 b 84 (ob_source_data_sequence ob)
      in b)"

definition m3p_encode_oob :: "m3p_oob \<Rightarrow> bytes" where
  "m3p_encode_oob ob = m3p_put_le32 (m3p_oob_fields ob) 88 (oob_crc (m3p_oob_fields ob))"

definition oob_header_ok :: "bytes \<Rightarrow> bool" where
  "oob_header_ok bs \<longleftrightarrow> \<not> (
       m3p_get_le32 bs 0 \<noteq> M3P_OOB_MAGIC \<or>
       m3p_get_le16 bs 4 \<noteq> M3P_FORMAT_VERSION \<or>
       m3p_get_le16 bs 6 \<noteq> M3P_OOB_HEADER_BYTES \<or>
       bs ! 8 < M3P_PAGE_DATA \<or> bs ! 8 > M3P_PAGE_CHECKPOINT_COMMIT \<or>
       bs ! 9 \<noteq> 1 \<or> bs ! 10 > M3P_COPY_GC \<or>
       m3p_get_le16 bs 22 \<noteq> 0 \<or>
       m3p_get_le16 bs 82 \<noteq> 0 \<or>
       \<not> m3p_bytes_zero bs 92 36 \<or> m3p_get_le32 bs 88 \<noteq> oob_crc bs)"

definition oob_read :: "bytes \<Rightarrow> m3p_oob" where
  "oob_read bs = \<lparr>ob_page_type = bs ! 8, ob_flags = bs ! 9, ob_copy_kind = bs ! 10,
     ob_valid_mask = bs ! 11, ob_namespace_id = m3p_get_le32 bs 12, ob_lpn = m3p_get_le32 bs 16,
     ob_erase_generation = m3p_get_le16 bs 20, ob_record_sequence = m3p_get_le32 bs 24,
     ob_transaction_sequence = m3p_get_le32 bs 28,
     ob_predecessor_map_sequence = m3p_get_le32 bs 32,
     ob_resulting_map_sequence = m3p_get_le32 bs 36,
     ob_referenced_data_sequence = m3p_get_le32 bs 40, ob_main_length = m3p_get_le32 bs 44,
     ob_main_crc = m3p_get_le32 bs 48, ob_checkpoint_generation = m3p_get_le32 bs 52,
     ob_checkpoint_covered_sequence = m3p_get_le32 bs 56,
     ob_durable_frontier = m3p_get_le32 bs 60, ob_media_uuid = slice bs 64 16,
     ob_source_block = bs ! 80, ob_source_page = bs ! 81,
     ob_source_data_sequence = m3p_get_le32 bs 84\<rparr>"

definition oob_fields_ok :: "m3p_oob \<Rightarrow> bool" where
  "oob_fields_ok ob \<longleftrightarrow>
     (if ob_main_length ob \<noteq> 4096 \<or> ob_record_sequence ob = 0 then False
      else if ob_page_type ob = M3P_PAGE_DATA then
        ob_namespace_id ob = 1 \<and> ob_lpn ob < 256 \<and> ob_valid_mask ob \<noteq> 0 \<and>
        ob_transaction_sequence ob \<noteq> 0 \<and> ob_checkpoint_generation ob = 0 \<and>
        ob_checkpoint_covered_sequence ob = 0 \<and> ob_durable_frontier ob = 0
      else if ob_page_type ob = M3P_PAGE_MAP_TXN then
        ob_namespace_id ob = 1 \<and> ob_lpn ob = UINT32_MAX \<and>
        ob_transaction_sequence ob \<noteq> 0 \<and> ob_resulting_map_sequence ob \<noteq> 0 \<and>
        ob_checkpoint_generation ob = 0 \<and> ob_checkpoint_covered_sequence ob = 0
      else
        ob_namespace_id ob = UINT32_MAX \<and> ob_lpn ob = UINT32_MAX \<and>
        ob_checkpoint_generation ob \<noteq> 0 \<and> ob_valid_mask ob = 0 \<and>
        ob_transaction_sequence ob = 0)"

definition m3p_decode_oob :: "bytes \<Rightarrow> m3p_oob option" where
  "m3p_decode_oob bs =
     (if \<not> oob_header_ok bs then None
      else if oob_fields_ok (oob_read bs) then Some (oob_read bs) else None)"

section \<open>Map transactions\<close>

definition encode_map_entry :: "u16 \<Rightarrow> m3p_map_entry \<Rightarrow> m3p_map_entry \<Rightarrow> bytes" where
  "encode_map_entry lpn target prior =
     (let tv = (me_state target = M3P_L2P_VALUE);
          pv = (me_state prior = M3P_L2P_VALUE);
          b = replicate 32 0;
          b = m3p_put_le16 b 0 lpn;
          b = b[2 := me_state target];
          b = b[3 := me_valid_mask target];
          b = b[4 := if tv then me_block target else UINT8_MAX];
          b = b[5 := if tv then me_page target else UINT8_MAX];
          b = m3p_put_le16 b 6 (if tv then me_erase_generation target else 0);
          b = m3p_put_le32 b 8 (if tv then me_data_record_sequence target else 0);
          b = b[12 := if pv then me_block prior else UINT8_MAX];
          b = b[13 := if pv then me_page prior else UINT8_MAX];
          b = m3p_put_le16 b 14 (if pv then me_erase_generation prior else 0);
          b = m3p_put_le32 b 16 (if pv then me_data_record_sequence prior else 0);
          b = m3p_put_le32 b 20 (if tv then me_main_crc target else 0);
          b = m3p_put_le32 b 24 (me_logical_version target)
      in b)"

definition decode_map_entry :: "bytes \<Rightarrow> m3p_delta option" where
  "decode_map_entry bs =
     (let target = \<lparr>me_state = bs ! 2, me_valid_mask = bs ! 3, me_block = bs ! 4,
            me_page = bs ! 5, me_erase_generation = m3p_get_le16 bs 6,
            me_data_record_sequence = m3p_get_le32 bs 8, me_map_sequence = 0,
            me_main_crc = m3p_get_le32 bs 20, me_logical_version = m3p_get_le32 bs 24\<rparr>;
          prior = \<lparr>me_state = (if bs ! 12 = UINT8_MAX then M3P_L2P_UNMAPPED else M3P_L2P_VALUE),
            me_valid_mask = 0, me_block = bs ! 12, me_page = bs ! 13,
            me_erase_generation = m3p_get_le16 bs 14,
            me_data_record_sequence = m3p_get_le32 bs 16, me_map_sequence = 0,
            me_main_crc = 0, me_logical_version = 0\<rparr>;
          lpn = m3p_get_le16 bs 0
      in if lpn \<ge> 256 \<or> me_state target > M3P_L2P_TOMBSTONE \<or> \<not> m3p_bytes_zero bs 28 4 then None
         else if me_state target = M3P_L2P_VALUE then
           (if me_valid_mask target = 0 \<or> me_block target \<ge> 16 \<or> me_page target \<ge> 32 \<or>
               me_data_record_sequence target = 0 \<or> me_logical_version target = 0 then None
            else Some \<lparr>d_lpn = lpn, d_target = target, d_prior = prior\<rparr>)
         else if bs ! 4 \<noteq> UINT8_MAX \<or> bs ! 5 \<noteq> UINT8_MAX \<or> m3p_get_le16 bs 6 \<noteq> 0 \<or>
                 m3p_get_le32 bs 8 \<noteq> 0 \<or> m3p_get_le32 bs 20 \<noteq> 0 then None
         else Some \<lparr>d_lpn = lpn, d_target = target, d_prior = prior\<rparr>)"

definition put_map_deltas :: "bytes \<Rightarrow> m3p_delta list \<Rightarrow> nat \<Rightarrow> bytes" where
  "put_map_deltas bs ds n =
     foldl (\<lambda>b i. put_bytes b (64 + i * 32)
        (encode_map_entry (d_lpn (ds ! i)) (d_target (ds ! i)) (d_prior (ds ! i)))) bs [0..<n]"

definition put_relocations :: "bytes \<Rightarrow> u32 list \<Rightarrow> nat \<Rightarrow> bytes" where
  "put_relocations bs rs n = foldl (\<lambda>b i. m3p_put_le32 b (160 + i * 4) (rs ! i)) bs [0..<n]"

definition m3p_map_header :: "m3p_map_record \<Rightarrow> bytes" where
  "m3p_map_header r =
     (let b = replicate 4096 0;
          b = m3p_put_le32 b 0 M3P_MAP_MAIN_MAGIC;
          b = m3p_put_le16 b 4 M3P_FORMAT_VERSION;
          b = m3p_put_le16 b 6 64;
          b = b[8 := mr_subtype r];
          b = b[9 := mr_delta_count r];
          b = m3p_put_le16 b 10 (mr_flags r);
          b = m3p_put_le32 b 12 (mr_transaction_sequence r);
          b = m3p_put_le32 b 16 (mr_predecessor_map_sequence r);
          b = m3p_put_le32 b 20 (mr_resulting_map_sequence r);
          b = m3p_put_le32 b 24 (mr_host_sequence r);
          b = m3p_put_le32 b 28 (mr_captured_frontier r);
          b = m3p_put_le32 b 32 (mr_gc_uid r);
          b = b[36 := mr_gc_source_block r];
          b = b[37 := mr_gc_destination_block r];
          b = m3p_put_le16 b 40 (mr_gc_expected_live r);
          b = m3p_put_le16 b 42 (mr_gc_moved r)
      in b)"

definition m3p_encode_map :: "m3p_map_record \<Rightarrow> bytes" where
  "m3p_encode_map r =
     put_relocations
       (put_map_deltas (m3p_map_header r) (mr_delta r) (unat (mr_delta_count r)))
       (mr_relocation_sequence r) (unat (mr_gc_moved r))"

definition map_header_ok :: "bytes \<Rightarrow> bool" where
  "map_header_ok bs \<longleftrightarrow> \<not> (
       m3p_get_le32 bs 0 \<noteq> M3P_MAP_MAIN_MAGIC \<or>
       m3p_get_le16 bs 4 \<noteq> M3P_FORMAT_VERSION \<or>
       m3p_get_le16 bs 6 \<noteq> 64 \<or> bs ! 8 < M3P_MAP_WRITE \<or>
       bs ! 8 > M3P_MAP_GC_SWITCH \<or> bs ! 9 > 3 \<or>
       m3p_get_le16 bs 10 \<noteq> 1 \<or>
       m3p_get_le32 bs 12 = 0 \<or>
       m3p_get_le32 bs 20 = 0 \<or>
       m3p_get_le16 bs 38 \<noteq> 0 \<or>
       \<not> m3p_bytes_zero bs 44 20 \<or>
       \<not> m3p_bytes_zero bs 260 3836)"

definition map_read :: "bytes \<Rightarrow> m3p_delta list \<Rightarrow> u32 list \<Rightarrow> m3p_map_record" where
  "map_read bs ds rs = \<lparr>mr_subtype = bs ! 8, mr_delta_count = bs ! 9,
     mr_flags = m3p_get_le16 bs 10, mr_transaction_sequence = m3p_get_le32 bs 12,
     mr_predecessor_map_sequence = m3p_get_le32 bs 16,
     mr_resulting_map_sequence = m3p_get_le32 bs 20, mr_host_sequence = m3p_get_le32 bs 24,
     mr_captured_frontier = m3p_get_le32 bs 28, mr_gc_uid = m3p_get_le32 bs 32,
     mr_gc_source_block = bs ! 36, mr_gc_destination_block = bs ! 37,
     mr_gc_expected_live = m3p_get_le16 bs 40, mr_gc_moved = m3p_get_le16 bs 42,
     mr_delta = ds @ replicate (M3P_MAX_DELTAS - length ds) zero_delta,
     mr_relocation_sequence = rs @ replicate (25 - length rs) 0\<rparr>"

definition m3p_decode_map :: "bytes \<Rightarrow> m3p_map_record option" where
  "m3p_decode_map bs =
     (if \<not> map_header_ok bs then None
      else
        let count = unat (bs ! 9); moved = m3p_get_le16 bs 42; n = unat moved
        in case those (map (\<lambda>i. decode_map_entry (slice bs (64 + i * 32) 32)) [0..<count]) of
             None \<Rightarrow> None
           | Some ds \<Rightarrow>
               if \<not> m3p_bytes_zero bs (64 + count * 32) (96 - count * 32) then None
               else if bs ! 8 = M3P_MAP_GC_SWITCH then
                 (if bs ! 9 \<noteq> 0 \<or> m3p_get_le32 bs 32 = 0 \<or> bs ! 36 \<ge> 16 \<or> bs ! 37 \<ge> 16 \<or>
                     m3p_get_le16 bs 40 > 25 \<or> moved \<noteq> m3p_get_le16 bs 40 then None
                  else
                    let rs = map (\<lambda>i. m3p_get_le32 bs (160 + i * 4)) [0..<n]
                    in if list_ex (\<lambda>r. r = 0) rs then None
                       else if m3p_bytes_zero bs (160 + n * 4) (100 - n * 4)
                       then Some (map_read bs ds rs) else None)
               else if bs ! 9 = 0 \<or> moved \<noteq> 0 \<or> \<not> m3p_bytes_zero bs 160 100 then None
               else Some (map_read bs ds []))"

section \<open>Checkpoints\<close>

definition encode_body_entry :: "m3p_map_entry \<Rightarrow> bytes" where
  "encode_body_entry e =
     (let v = (me_state e = M3P_L2P_VALUE);
          b = replicate 16 0;
          b = b[0 := me_state e];
          b = b[1 := me_valid_mask e];
          b = b[2 := if v then me_block e else UINT8_MAX];
          b = b[3 := if v then me_page e else UINT8_MAX];
          b = m3p_put_le16 b 4 (if v then me_erase_generation e else 0);
          b = m3p_put_le32 b 8 (if v then me_data_record_sequence e else 0);
          b = m3p_put_le32 b 12 (me_map_sequence e)
      in b)"

definition m3p_encode_checkpoint_body :: "m3p_map_entry list \<Rightarrow> bytes" where
  "m3p_encode_checkpoint_body m = concat (map (\<lambda>i. encode_body_entry (m ! i)) [0..<M3P_LPN_COUNT])"

definition decode_body_entry :: "bytes \<Rightarrow> m3p_map_entry option" where
  "decode_body_entry bs =
     (let e = \<lparr>me_state = bs ! 0, me_valid_mask = bs ! 1, me_block = bs ! 2, me_page = bs ! 3,
            me_erase_generation = m3p_get_le16 bs 4,
            me_data_record_sequence = m3p_get_le32 bs 8, me_map_sequence = m3p_get_le32 bs 12,
            me_main_crc = 0, me_logical_version = 0\<rparr>
      in if me_state e > M3P_L2P_TOMBSTONE \<or> m3p_get_le16 bs 6 \<noteq> 0 \<or>
            (me_state e = M3P_L2P_VALUE \<and>
              (me_valid_mask e = 0 \<or> me_block e \<ge> 16 \<or> me_page e \<ge> 32 \<or>
               me_data_record_sequence e = 0)) \<or>
            (me_state e \<noteq> M3P_L2P_VALUE \<and>
              (bs ! 2 \<noteq> UINT8_MAX \<or> bs ! 3 \<noteq> UINT8_MAX \<or> m3p_get_le16 bs 4 \<noteq> 0 \<or>
               m3p_get_le32 bs 8 \<noteq> 0))
         then None else Some e)"

definition m3p_decode_checkpoint_body :: "bytes \<Rightarrow> m3p_map_entry list option" where
  "m3p_decode_checkpoint_body bs =
     those (map (\<lambda>i. decode_body_entry (slice bs (i * 16) 16)) [0..<M3P_LPN_COUNT])"

definition m3p_geometry :: nfc_geometry where
  "m3p_geometry = zero_geometry\<lparr>g_version := FWLAB_NFC_CONTRACT_VERSION, g_size := 36,
     g_channels := 1, g_luns_per_channel := 1, g_planes_per_lun := 1, g_blocks_per_plane := 16,
     g_pages_per_block := 32, g_plane_parallelism_per_lun := 1, g_main_bytes_per_page := 4096,
     g_oob_bytes_per_page := 128, g_max_programs_per_erase := 1,
     g_program_order := FWLAB_NFC_PROGRAM_ASCENDING\<rparr>"

definition fwlab_m3p_geometry_supported :: "nfc_geometry \<Rightarrow> bool" where
  "fwlab_m3p_geometry_supported g \<longleftrightarrow> g = m3p_geometry"

definition m3p_volume_lba_count_valid :: "u64 \<Rightarrow> bool" where
  "m3p_volume_lba_count_valid n \<longleftrightarrow> n \<ge> 8 \<and> n \<le> FWLAB_M3P_NAMESPACE_LBAS \<and> n mod 8 = 0"

definition m3p_encode_checkpoint_commit :: "m3p_checkpoint_commit \<Rightarrow> bytes" where
  "m3p_encode_checkpoint_commit c =
     (let version = (if cc_format_version c = 0 then M3P_FORMAT_VERSION else cc_format_version c);
          g = cc_geometry c;
          b = replicate 4096 0;
          b = m3p_put_le32 b 0 M3P_CHECKPOINT_COMMIT_MAGIC;
          b = m3p_put_le16 b 4 version;
          b = m3p_put_le16 b 6 (if version = M3P_VOLUME_FORMAT_VERSION then 96 else 64);
          b = m3p_put_le32 b 8 (cc_generation c);
          b = b[12 := cc_body_block c];
          b = b[13 := cc_body_page c];
          b = m3p_put_le16 b 14 (cc_body_erase_generation c);
          b = m3p_put_le32 b 16 (cc_body_main_crc c);
          b = m3p_put_le32 b 20 (cc_body_oob_crc c);
          b = m3p_put_le32 b 24 (cc_covered_map_sequence c);
          b = m3p_put_le32 b 28 (cc_durable_frontier c);
          b = m3p_put_le32 b 32 (cc_journal_generation c);
          b = m3p_put_le32 b 36 (cc_commit_record_sequence c);
          b = put_bytes b 40 (cc_media_uuid c)
      in if version = M3P_VOLUME_FORMAT_VERSION then
           (let b = m3p_put_le32 b 56 (ucast (cc_lba_count c));
                b = m3p_put_le32 b 60 (ucast (drop_bit 32 (cc_lba_count c)));
                b = m3p_put_le32 b 64 (cc_lba_bytes c);
                b = m3p_put_le16 b 68 (g_channels g);
                b = m3p_put_le16 b 70 (g_luns_per_channel g);
                b = m3p_put_le16 b 72 (g_planes_per_lun g);
                b = m3p_put_le16 b 74 (g_blocks_per_plane g);
                b = m3p_put_le16 b 76 (g_pages_per_block g);
                b = b[78 := g_max_programs_per_erase g];
                b = b[79 := g_program_order g];
                b = m3p_put_le32 b 80 (g_main_bytes_per_page g);
                b = m3p_put_le32 b 84 (g_oob_bytes_per_page g)
            in b)
         else b)"

definition commit_header_ok :: "bytes \<Rightarrow> bool" where
  "commit_header_ok bs \<longleftrightarrow>
     (let version = m3p_get_le16 bs 4 in
      \<not> (m3p_get_le32 bs 0 \<noteq> M3P_CHECKPOINT_COMMIT_MAGIC \<or>
         m3p_get_le32 bs 8 = 0 \<or> m3p_get_le32 bs 36 = 0) \<and>
      \<not> ((version = M3P_FORMAT_VERSION \<and>
           (m3p_get_le16 bs 6 \<noteq> 64 \<or> \<not> m3p_bytes_zero bs 56 4040)) \<or>
         (version = M3P_VOLUME_FORMAT_VERSION \<and>
           (m3p_get_le16 bs 6 \<noteq> 96 \<or> \<not> m3p_bytes_zero bs 88 4008)) \<or>
         (version \<noteq> M3P_FORMAT_VERSION \<and> version \<noteq> M3P_VOLUME_FORMAT_VERSION)))"

definition commit_read :: "bytes \<Rightarrow> m3p_checkpoint_commit" where
  "commit_read bs = \<lparr>cc_generation = m3p_get_le32 bs 8, cc_body_block = bs ! 12,
     cc_body_page = bs ! 13, cc_body_erase_generation = m3p_get_le16 bs 14,
     cc_body_main_crc = m3p_get_le32 bs 16, cc_body_oob_crc = m3p_get_le32 bs 20,
     cc_covered_map_sequence = m3p_get_le32 bs 24, cc_durable_frontier = m3p_get_le32 bs 28,
     cc_journal_generation = m3p_get_le32 bs 32, cc_commit_record_sequence = m3p_get_le32 bs 36,
     cc_media_uuid = slice bs 40 16, cc_format_version = m3p_get_le16 bs 4,
     cc_lba_count = FWLAB_M3P_NAMESPACE_LBAS, cc_lba_bytes = 512, cc_geometry = m3p_geometry\<rparr>"

definition commit_read_volume :: "bytes \<Rightarrow> m3p_checkpoint_commit \<Rightarrow> m3p_checkpoint_commit" where
  "commit_read_volume bs c =
     c\<lparr>cc_lba_count := ucast (m3p_get_le32 bs 56) OR push_bit 32 (ucast (m3p_get_le32 bs 60)),
       cc_lba_bytes := m3p_get_le32 bs 64,
       cc_geometry := (cc_geometry c)\<lparr>g_channels := m3p_get_le16 bs 68,
         g_luns_per_channel := m3p_get_le16 bs 70, g_planes_per_lun := m3p_get_le16 bs 72,
         g_blocks_per_plane := m3p_get_le16 bs 74, g_pages_per_block := m3p_get_le16 bs 76,
         g_max_programs_per_erase := bs ! 78, g_program_order := bs ! 79,
         g_main_bytes_per_page := m3p_get_le32 bs 80,
         g_oob_bytes_per_page := m3p_get_le32 bs 84\<rparr>\<rparr>"

definition m3p_decode_checkpoint_commit :: "bytes \<Rightarrow> m3p_checkpoint_commit option" where
  "m3p_decode_checkpoint_commit bs =
     (if \<not> commit_header_ok bs then None
      else
        let c = commit_read bs;
            volume = (m3p_get_le16 bs 4 = M3P_VOLUME_FORMAT_VERSION);
            c = (if volume then commit_read_volume bs c else c)
        in if volume \<and> (\<not> m3p_volume_lba_count_valid (cc_lba_count c) \<or>
                cc_lba_bytes c \<noteq> 512 \<or> \<not> fwlab_m3p_geometry_supported (cc_geometry c)) then None
           else if cc_body_block c \<ge> 12 \<and> cc_body_block c \<le> 13 \<and> cc_body_page c < 32
           then Some c else None)"

end
