(* ===== verification/M3p_Codec_Laws.thy ===== *)
theory M3p_Codec_Laws
  imports M3p_Codec
begin

text \<open>
  The laws of the on-medium formats: reads over writes for little-endian fields, the round trip of
  every format (each an interpretation of \<open>page_codec\<close>), and the rejection of a damaged
  out-of-band header.
\<close>

section \<open>Reads over writes\<close>

lemma length_put_le16 [simp]: "length (m3p_put_le16 bs off v) = length bs"
  by (simp add: m3p_put_le16_def)

lemma length_put_le32 [simp]: "length (m3p_put_le32 bs off v) = length bs"
  by (simp add: m3p_put_le32_def)

lemma length_put_bytes [simp]:
  "off + length xs \<le> length bs \<Longrightarrow> length (put_bytes bs off xs) = length bs"
  by (simp add: put_bytes_def)

lemma length_slice [simp]: "off + n \<le> length bs \<Longrightarrow> length (slice bs off n) = n"
  by (simp add: slice_def)

lemma nth_put_le16 [codec_simps]:
  "i < off \<or> off + 2 \<le> i \<Longrightarrow> m3p_put_le16 bs off v ! i = bs ! i"
  by (auto simp: m3p_put_le16_def)

lemma nth_put_le32 [codec_simps]:
  "i < off \<or> off + 4 \<le> i \<Longrightarrow> m3p_put_le32 bs off v ! i = bs ! i"
  by (auto simp: m3p_put_le32_def)

lemma nth_put_bytes_out [codec_simps]:
  "off + length xs \<le> length bs \<Longrightarrow> i < off \<or> off + length xs \<le> i \<Longrightarrow>
   put_bytes bs off xs ! i = bs ! i"
  by (cases xs) (auto simp: put_bytes_def nth_append min_def)

lemma nth_put_bytes_in:
  "off + length xs \<le> length bs \<Longrightarrow> off \<le> i \<Longrightarrow> i < off + length xs \<Longrightarrow>
   put_bytes bs off xs ! i = xs ! (i - off)"
  by (auto simp: put_bytes_def nth_append min_def)

lemma get_le16_put_le16 [codec_simps]:
  "off + 1 < length bs \<Longrightarrow> m3p_get_le16 (m3p_put_le16 bs off v) off = v"
  by (simp add: m3p_get_le16_def m3p_put_le16_def le16_of_bytes)

lemma get_le32_put_le32 [codec_simps]:
  "off + 3 < length bs \<Longrightarrow> m3p_get_le32 (m3p_put_le32 bs off v) off = v"
  by (simp add: m3p_get_le32_def m3p_put_le32_def le32_of_bytes)

lemma get_le16_frame [codec_simps]:
  "off' < off \<or> off + 2 \<le> off' \<Longrightarrow> m3p_get_le16 (bs[off' := b]) off = m3p_get_le16 bs off"
  "off' + 2 \<le> off \<or> off + 2 \<le> off' \<Longrightarrow> m3p_get_le16 (m3p_put_le16 bs off' w) off = m3p_get_le16 bs off"
  "off' + 4 \<le> off \<or> off + 2 \<le> off' \<Longrightarrow> m3p_get_le16 (m3p_put_le32 bs off' v) off = m3p_get_le16 bs off"
  by (auto simp: m3p_get_le16_def m3p_put_le16_def m3p_put_le32_def)

lemma get_le32_frame [codec_simps]:
  "off' < off \<or> off + 4 \<le> off' \<Longrightarrow> m3p_get_le32 (bs[off' := b]) off = m3p_get_le32 bs off"
  "off' + 2 \<le> off \<or> off + 4 \<le> off' \<Longrightarrow> m3p_get_le32 (m3p_put_le16 bs off' w) off = m3p_get_le32 bs off"
  "off' + 4 \<le> off \<or> off + 4 \<le> off' \<Longrightarrow> m3p_get_le32 (m3p_put_le32 bs off' v) off = m3p_get_le32 bs off"
  by (auto simp: m3p_get_le32_def m3p_put_le16_def m3p_put_le32_def)

lemma get_put_bytes_frame [codec_simps]:
  "off' + length xs \<le> length bs \<Longrightarrow> off' + length xs \<le> off \<or> off + 2 \<le> off' \<Longrightarrow>
   m3p_get_le16 (put_bytes bs off' xs) off = m3p_get_le16 bs off"
  "off' + length xs \<le> length bs \<Longrightarrow> off' + length xs \<le> off \<or> off + 4 \<le> off' \<Longrightarrow>
   m3p_get_le32 (put_bytes bs off' xs) off = m3p_get_le32 bs off"
  by (auto simp: m3p_get_le16_def m3p_get_le32_def nth_put_bytes_out)

lemma get_le_replicate [codec_simps]:
  "off + 2 \<le> n \<Longrightarrow> m3p_get_le16 (replicate n 0) off = 0"
  "off + 4 \<le> n \<Longrightarrow> m3p_get_le32 (replicate n 0) off = 0"
  by (auto simp: m3p_get_le16_def m3p_get_le32_def)

lemma slice_frame [codec_simps]:
  "off' < off \<or> off + n \<le> off' \<Longrightarrow> slice (bs[off' := b]) off n = slice bs off n"
  "off' + 2 \<le> off \<or> off + n \<le> off' \<Longrightarrow> slice (m3p_put_le16 bs off' w) off n = slice bs off n"
  "off' + 4 \<le> off \<or> off + n \<le> off' \<Longrightarrow> slice (m3p_put_le32 bs off' v) off n = slice bs off n"
proof -
  show one: "slice (bs[off' := b]) off n = slice bs off n"
    if "off' < off \<or> off + n \<le> off'" for off' b and bs :: bytes
    using that by (auto simp: slice_def drop_update_swap)
  show "slice (m3p_put_le16 bs off' w) off n = slice bs off n"
    if "off' + 2 \<le> off \<or> off + n \<le> off'"
    unfolding m3p_put_le16_def using that by (subst one; (subst one)?) auto
  show "slice (m3p_put_le32 bs off' v) off n = slice bs off n"
    if "off' + 4 \<le> off \<or> off + n \<le> off'"
    unfolding m3p_put_le32_def using that by (subst one; (subst one; (subst one; (subst one)?)?)?) auto
qed

lemma slice_put_bytes [codec_simps]:
  "off' + length xs \<le> length bs \<Longrightarrow> off' + length xs \<le> off \<or> off + n \<le> off' \<Longrightarrow>
   slice (put_bytes bs off' xs) off n = slice bs off n"
  "off + length xs \<le> length bs \<Longrightarrow> n = length xs \<Longrightarrow> slice (put_bytes bs off xs) off n = xs"
proof -
  assume len: "off' + length xs \<le> length bs" and out: "off' + length xs \<le> off \<or> off + n \<le> off'"
  show "slice (put_bytes bs off' xs) off n = slice bs off n"
    using out
  proof
    assume "off' + length xs \<le> off"
    then have "drop off (put_bytes bs off' xs) = drop off bs"
      using len by (simp add: put_bytes_def)
    then show ?thesis by (simp add: slice_def)
  next
    assume "off + n \<le> off'"
    then have "take (off + n) (put_bytes bs off' xs) = take (off + n) bs"
      using len by (simp add: put_bytes_def min_def)
    then show ?thesis by (simp add: slice_def take_drop add.commute)
  qed
next
  assume "off + length xs \<le> length bs" and "n = length xs"
  then show "slice (put_bytes bs off xs) off n = xs"
    by (simp add: put_bytes_def slice_def)
qed

lemma slice_replicate [codec_simps]: "off + n \<le> k \<Longrightarrow> slice (replicate k x) off n = replicate n x"
  by (simp add: slice_def)

lemma bytes_zero_replicate [codec_simps]: "list_all (\<lambda>b. b = 0) (replicate n (0 :: u8))"
  by (simp add: list_all_iff)

section \<open>Out-of-band header\<close>

definition oob_wf :: "m3p_oob \<Rightarrow> bool" where
  "oob_wf ob \<longleftrightarrow> length (ob_media_uuid ob) = 16 \<and> 1 \<le> ob_page_type ob \<and> ob_page_type ob \<le> 4 \<and>
     ob_flags ob = 1 \<and> ob_copy_kind ob \<le> 2 \<and> oob_fields_ok ob"

lemma length_oob_fields [simp]: "length (ob_media_uuid ob) = 16 \<Longrightarrow> length (m3p_oob_fields ob) = 128"
  by (simp add: m3p_oob_fields_def)

lemma oob_read_encode:
  "length (ob_media_uuid ob) = 16 \<Longrightarrow> oob_read (m3p_encode_oob ob) = ob"
  by (simp add: oob_read_def m3p_encode_oob_def m3p_oob_fields_def codec_simps)

lemma put_bytes_over_le32: 
  "off + 4 \<le> length bs \<Longrightarrow> length xs = 4 \<Longrightarrow>
   put_bytes (m3p_put_le32 bs off v) off xs = put_bytes bs off xs"
  by (simp add: put_bytes_def m3p_put_le32_def)

lemma oob_crc_put [simp]: "length bs = 128 \<Longrightarrow> oob_crc (m3p_put_le32 bs 88 v) = oob_crc bs"
  by (simp add: oob_crc_def put_bytes_over_le32)

lemma oob_header_encode:
  assumes "oob_wf ob"
  shows "oob_header_ok (m3p_encode_oob ob)"
proof -
  have len: "length (ob_media_uuid ob) = 16"
    using assms by (simp add: oob_wf_def)
  have crc: "m3p_get_le32 (m3p_encode_oob ob) 88 = oob_crc (m3p_encode_oob ob)"
    using len by (simp add: m3p_encode_oob_def codec_simps)
  show ?thesis
    using assms len crc
    by (simp add: oob_header_ok_def)
       (auto simp add: m3p_encode_oob_def m3p_oob_fields_def oob_wf_def codec_simps
          m3p_bytes_zero_def linorder_not_less)
qed

lemma oob_decode_encode:
  assumes "oob_wf ob"
  shows "m3p_decode_oob (m3p_encode_oob ob) = Some ob"
proof -
  have "oob_read (m3p_encode_oob ob) = ob"
    using assms by (simp add: oob_read_encode oob_wf_def)
  then show ?thesis
    using assms oob_header_encode [OF assms] by (simp add: m3p_decode_oob_def oob_wf_def)
qed

interpretation oob_codec:
  page_codec m3p_encode_oob m3p_decode_oob oob_wf "\<lambda>ob. ob" 128
  by unfold_locales (simp_all add: oob_decode_encode, simp add: m3p_encode_oob_def oob_wf_def)

lemma oob_decode_wf: "length bs = 128 \<Longrightarrow> m3p_decode_oob bs = Some ob \<Longrightarrow> oob_wf ob"
  by (auto simp: m3p_decode_oob_def oob_header_ok_def oob_read_def oob_wf_def linorder_not_less
      word_le_nat_alt word_neq_0_conv split: if_splits)

text \<open>A header with one damaged byte never decodes: the CRC covers every byte but its own.\<close>

lemma put_zero_field_update:
  assumes "length bs = 128" and "i < 128" and "i < 88 \<or> 92 \<le> i"
  shows "put_bytes (bs[i := b]) 88 (replicate 4 0) = (put_bytes bs 88 (replicate 4 0))[i := b]"
  using assms by (auto simp: put_bytes_def list_update_append drop_update_swap take_update_swap
      list_update_beyond)

lemma oob_crc_update_out:
  assumes "length bs = 128" and "i < 128" and "i < 88 \<or> 92 \<le> i" and "b \<noteq> bs ! i"
  shows "oob_crc (bs[i := b]) \<noteq> oob_crc bs"
proof -
  let ?z = "put_bytes bs 88 (replicate 4 0)"
  have "i < length ?z" and "b \<noteq> ?z ! i"
    using assms by (simp_all add: nth_put_bytes_out)
  then show ?thesis
    unfolding oob_crc_def put_zero_field_update [OF assms(1-3)] by (rule m3p_crc32c_one_byte)
qed

lemma oob_crc_update_in:
  assumes "length bs = 128" and "88 \<le> i" and "i < 92"
  shows "oob_crc (bs[i := b]) = oob_crc bs"
  using assms by (simp add: oob_crc_def put_bytes_def)

lemma get_le32_update_in:
  assumes "off + 4 \<le> length bs" and "off \<le> i" and "i < off + 4" and "b \<noteq> bs ! i"
  shows "m3p_get_le32 (bs[i := b]) off \<noteq> m3p_get_le32 bs off"
proof
  assume "m3p_get_le32 (bs[i := b]) off = m3p_get_le32 bs off"
  then have bits: "bit (m3p_get_le32 (bs[i := b]) off) n = bit (m3p_get_le32 bs off) n" for n
    by simp
  have byte: "bit (m3p_get_le32 xs off) (8 * k + n) = bit (xs ! (off + k)) n"
    if "n < 8" and "k < 4" for xs k n
  proof -
    have "k = 0 \<or> k = 1 \<or> k = 2 \<or> k = 3"
      using that(2) by auto
    then show ?thesis
      using that(1) by (elim disjE) (auto simp: m3p_get_le32_def bit_simps dest: bit_imp_le_length)
  qed
  define k where "k = i - off"
  have i: "i = off + k" and k: "k < 4"
    using assms by (simp_all add: k_def)
  have "bit b n = bit (bs ! i) n" if "n < 8" for n
    using bits [of "8 * k + n"] byte [OF that k] i assms(1) k by simp
  then have "b = bs ! i"
    by (intro bit_word_eqI) simp
  with assms(4) show False by simp
qed

lemma oob_one_byte_rejected:
  assumes "length bs = 128" and "m3p_decode_oob bs = Some ob" and "i < 128" and "b \<noteq> bs ! i"
  shows "m3p_decode_oob (bs[i := b]) = None"
proof -
  have stored: "m3p_get_le32 bs 88 = oob_crc bs"
    using assms(2) by (auto simp: m3p_decode_oob_def oob_header_ok_def split: if_splits)
  have "m3p_get_le32 (bs[i := b]) 88 \<noteq> oob_crc (bs[i := b])"
  proof (cases "88 \<le> i \<and> i < 92")
    case True
    then show ?thesis
      using get_le32_update_in [of 88 bs i b] assms stored by (simp add: oob_crc_update_in)
  next
    case False
    then have "oob_crc (bs[i := b]) \<noteq> oob_crc bs"
      using assms by (intro oob_crc_update_out) auto
    moreover have "m3p_get_le32 (bs[i := b]) 88 = m3p_get_le32 bs 88"
      using False by (intro get_le32_frame) auto
    ultimately show ?thesis
      using stored by simp
  qed
  then show ?thesis
    by (simp add: m3p_decode_oob_def oob_header_ok_def)
qed

section \<open>Map transactions\<close>

definition delta_wf :: "m3p_delta \<Rightarrow> bool" where
  "delta_wf d \<longleftrightarrow> d_lpn d < 256 \<and> me_state (d_target d) \<le> M3P_L2P_TOMBSTONE \<and>
     (me_state (d_target d) = M3P_L2P_VALUE \<longrightarrow>
        me_valid_mask (d_target d) \<noteq> 0 \<and> me_block (d_target d) < 16 \<and> me_page (d_target d) < 32 \<and>
        me_data_record_sequence (d_target d) \<noteq> 0 \<and> me_logical_version (d_target d) \<noteq> 0) \<and>
     (me_state (d_prior d) = M3P_L2P_VALUE \<longrightarrow> me_block (d_prior d) \<noteq> UINT8_MAX)"

text \<open>What a map transaction keeps of a delta: no sequence for the target, and of the prior entry
  only the physical identity.\<close>

definition canon_target :: "m3p_map_entry \<Rightarrow> m3p_map_entry" where
  "canon_target e =
     (if me_state e = M3P_L2P_VALUE then e\<lparr>me_map_sequence := 0\<rparr>
      else zero_map_entry\<lparr>me_state := me_state e, me_valid_mask := me_valid_mask e,
        me_block := UINT8_MAX, me_page := UINT8_MAX,
        me_logical_version := me_logical_version e\<rparr>)"

definition canon_prior :: "m3p_map_entry \<Rightarrow> m3p_map_entry" where
  "canon_prior e =
     (if me_state e = M3P_L2P_VALUE
      then zero_map_entry\<lparr>me_state := M3P_L2P_VALUE, me_block := me_block e, me_page := me_page e,
        me_erase_generation := me_erase_generation e,
        me_data_record_sequence := me_data_record_sequence e\<rparr>
      else zero_map_entry\<lparr>me_block := UINT8_MAX, me_page := UINT8_MAX\<rparr>)"

definition canon_delta :: "m3p_delta \<Rightarrow> m3p_delta" where
  "canon_delta d = \<lparr>d_lpn = d_lpn d, d_target = canon_target (d_target d),
     d_prior = canon_prior (d_prior d)\<rparr>"

definition encode_delta :: "m3p_delta \<Rightarrow> bytes" where
  "encode_delta d = encode_map_entry (d_lpn d) (d_target d) (d_prior d)"

lemma length_encode_map_entry [simp]: "length (encode_map_entry l t q) = 32"
  by (simp add: encode_map_entry_def Let_def)

lemma map_entry_decode_encode:
  "delta_wf d \<Longrightarrow> decode_map_entry (encode_delta d) = Some (canon_delta d)"
  by (cases "me_state (d_target d) = M3P_L2P_VALUE"; cases "me_state (d_prior d) = M3P_L2P_VALUE")
     (simp_all add: decode_map_entry_def encode_delta_def encode_map_entry_def Let_def codec_simps
        m3p_bytes_zero_def delta_wf_def canon_delta_def canon_target_def canon_prior_def
        zero_map_entry_def linorder_not_less linorder_not_le)

interpretation map_entry_codec:
  page_codec encode_delta decode_map_entry delta_wf canon_delta 32
  by unfold_locales (simp add: encode_delta_def, rule map_entry_decode_encode)

lemma put_map_deltas_unfold:
  "put_map_deltas bs ds 0 = bs"
  "put_map_deltas bs ds (Suc n) = put_bytes (put_map_deltas bs ds n) (64 + n * 32) (encode_delta (ds ! n))"
  by (simp_all add: put_map_deltas_def encode_delta_def)

lemma length_encode_delta [simp]: "length (encode_delta d) = 32"
  by (simp add: encode_delta_def)

lemma length_put_map_deltas [simp]:
  "n \<le> 3 \<Longrightarrow> length bs = 4096 \<Longrightarrow> length (put_map_deltas bs ds n) = 4096"
  by (induction n) (simp_all add: put_map_deltas_unfold)

lemma put_map_deltas_frame [codec_simps]:
  assumes "n \<le> 3" and "length bs = 4096"
  shows "i < 64 \<or> 160 \<le> i \<Longrightarrow> put_map_deltas bs ds n ! i = bs ! i"
    and "off + 2 \<le> 64 \<or> 160 \<le> off \<Longrightarrow> m3p_get_le16 (put_map_deltas bs ds n) off = m3p_get_le16 bs off"
    and "off + 4 \<le> 64 \<or> 160 \<le> off \<Longrightarrow> m3p_get_le32 (put_map_deltas bs ds n) off = m3p_get_le32 bs off"
    and "off + k \<le> 64 \<or> 64 + n * 32 \<le> off \<Longrightarrow> slice (put_map_deltas bs ds n) off k = slice bs off k"
  using assms by (induction n) (auto simp: put_map_deltas_unfold codec_simps)

lemma put_map_deltas_slice:
  "n \<le> 3 \<Longrightarrow> length bs = 4096 \<Longrightarrow> i < n \<Longrightarrow>
   slice (put_map_deltas bs ds n) (64 + i * 32) 32 = encode_delta (ds ! i)"
proof (induction n)
  case 0
  then show ?case by simp
next
  case (Suc n)
  then show ?case
    by (cases "i = n") (simp_all add: put_map_deltas_unfold codec_simps)
qed

lemma put_relocations_unfold:
  "put_relocations bs rs 0 = bs"
  "put_relocations bs rs (Suc n) = m3p_put_le32 (put_relocations bs rs n) (160 + n * 4) (rs ! n)"
  by (simp_all add: put_relocations_def)

lemma length_put_relocations [simp]: "length (put_relocations bs rs n) = length bs"
  by (induction n) (simp_all add: put_relocations_unfold)

lemma put_relocations_frame [codec_simps]:
  "i < 160 \<or> 160 + n * 4 \<le> i \<Longrightarrow> put_relocations bs rs n ! i = bs ! i"
  "off + 2 \<le> 160 \<or> 160 + n * 4 \<le> off \<Longrightarrow> m3p_get_le16 (put_relocations bs rs n) off = m3p_get_le16 bs off"
  "off + 4 \<le> 160 \<or> 160 + n * 4 \<le> off \<Longrightarrow> m3p_get_le32 (put_relocations bs rs n) off = m3p_get_le32 bs off"
  "off + k \<le> 160 \<or> 160 + n * 4 \<le> off \<Longrightarrow> slice (put_relocations bs rs n) off k = slice bs off k"
  by (induction n) (auto simp: put_relocations_unfold codec_simps)

lemma put_relocations_get:
  "160 + n * 4 \<le> length bs \<Longrightarrow> i < n \<Longrightarrow> m3p_get_le32 (put_relocations bs rs n) (160 + i * 4) = rs ! i"
proof (induction n)
  case 0
  then show ?case by simp
next
  case (Suc n)
  then show ?case
    by (cases "i = n") (auto simp: put_relocations_unfold codec_simps)
qed

definition map_wf :: "m3p_map_record \<Rightarrow> bool" where
  "map_wf r \<longleftrightarrow> 1 \<le> mr_subtype r \<and> mr_subtype r \<le> 4 \<and> mr_delta_count r \<le> 3 \<and> mr_flags r = 1 \<and>
     mr_transaction_sequence r \<noteq> 0 \<and> mr_resulting_map_sequence r \<noteq> 0 \<and>
     length (mr_delta r) = 3 \<and> length (mr_relocation_sequence r) = 25 \<and>
     (\<forall>i < unat (mr_delta_count r). delta_wf (mr_delta r ! i)) \<and>
     (if mr_subtype r = M3P_MAP_GC_SWITCH
      then mr_delta_count r = 0 \<and> mr_gc_uid r \<noteq> 0 \<and> mr_gc_source_block r < 16 \<and>
           mr_gc_destination_block r < 16 \<and> mr_gc_expected_live r \<le> 25 \<and>
           mr_gc_moved r = mr_gc_expected_live r \<and>
           (\<forall>i < unat (mr_gc_moved r). mr_relocation_sequence r ! i \<noteq> 0)
      else mr_delta_count r \<noteq> 0 \<and> mr_gc_moved r = 0)"

definition canon_map :: "m3p_map_record \<Rightarrow> m3p_map_record" where
  "canon_map r =
     r\<lparr>mr_delta := map canon_delta (take (unat (mr_delta_count r)) (mr_delta r))
          @ replicate (3 - unat (mr_delta_count r)) zero_delta,
       mr_relocation_sequence := take (unat (mr_gc_moved r)) (mr_relocation_sequence r)
          @ replicate (25 - unat (mr_gc_moved r)) 0\<rparr>"

lemma length_map_header [simp]: "length (m3p_map_header r) = 4096"
  by (simp add: m3p_map_header_def)

lemma length_encode_map [simp]: "mr_delta_count r \<le> 3 \<Longrightarrow> length (m3p_encode_map r) = 4096"
  by (simp add: m3p_encode_map_def word_le_nat_alt)

lemma map_header_tail:
  "64 \<le> off \<Longrightarrow> off + n \<le> 4096 \<Longrightarrow> slice (m3p_map_header r) off n = replicate n 0"
  by (simp add: m3p_map_header_def codec_simps)

lemma unat_u8_le [simp]: "(x :: u8) \<le> 3 \<Longrightarrow> unat x \<le> 3"
  by (simp add: word_le_nat_alt)

lemma map_wf_bounds:
  assumes "map_wf r"
  shows "unat (mr_delta_count r) \<le> 3" and "unat (mr_gc_moved r) \<le> 25"
  using assms by (auto simp: map_wf_def word_le_nat_alt split: if_splits)

lemma map_read_encode:
  assumes "map_wf r"
  shows "map_read (m3p_encode_map r) (map canon_delta (take (unat (mr_delta_count r)) (mr_delta r)))
      (take (unat (mr_gc_moved r)) (mr_relocation_sequence r)) = canon_map r"
  using map_wf_bounds [OF assms] assms
  by (simp add: map_read_def m3p_encode_map_def codec_simps canon_map_def map_wf_def)
     (simp add: m3p_map_header_def codec_simps)

lemma map_header_encode: "map_wf r \<Longrightarrow> map_header_ok (m3p_encode_map r)"
  using map_wf_bounds [of r]
  by (simp add: map_header_ok_def m3p_encode_map_def codec_simps m3p_bytes_zero_def map_header_tail)
     (auto simp: m3p_map_header_def codec_simps map_wf_def linorder_not_less)

lemma those_map_Some: "(\<And>i. i \<in> set xs \<Longrightarrow> f i = Some (g i)) \<Longrightarrow> those (map f xs) = Some (map g xs)"
  by (induction xs) simp_all

lemma map_deltas_encode:
  assumes "map_wf r" and "n = unat (mr_delta_count r)"
  shows "those (map (\<lambda>i. decode_map_entry (slice (m3p_encode_map r) (64 + i * 32) 32)) [0..<n]) =
    Some (map canon_delta (take n (mr_delta r)))"
proof -
  have bounds: "n \<le> 3" "length (mr_delta r) = 3"
    using assms by (auto simp: map_wf_def)
  have "decode_map_entry (slice (m3p_encode_map r) (64 + i * 32) 32) = Some (canon_delta (mr_delta r ! i))"
    if "i \<in> set [0..<n]" for i
  proof -
    have "slice (m3p_encode_map r) (64 + i * 32) 32 = encode_delta (mr_delta r ! i)"
      using that assms(2) bounds(1)
      by (simp add: m3p_encode_map_def codec_simps put_map_deltas_slice)
    moreover have "delta_wf (mr_delta r ! i)"
      using assms that by (auto simp: map_wf_def)
    ultimately show ?thesis
      by (simp add: map_entry_codec.dec_enc)
  qed
  then have "those (map (\<lambda>i. decode_map_entry (slice (m3p_encode_map r) (64 + i * 32) 32)) [0..<n]) =
      Some (map (\<lambda>i. canon_delta (mr_delta r ! i)) [0..<n])"
    by (rule those_map_Some)
  also have "map (\<lambda>i. canon_delta (mr_delta r ! i)) [0..<n] = map canon_delta (take n (mr_delta r))"
    using bounds by (intro nth_equalityI) simp_all
  finally show ?thesis .
qed

lemma map_encode_zero_areas:
  assumes "map_wf r"
  shows "m3p_bytes_zero (m3p_encode_map r) (64 + unat (mr_delta_count r) * 32)
           (96 - unat (mr_delta_count r) * 32)"
    and "m3p_bytes_zero (m3p_encode_map r) (160 + unat (mr_gc_moved r) * 4)
           (100 - unat (mr_gc_moved r) * 4)"
  using map_wf_bounds [OF assms]
  by (simp_all add: m3p_bytes_zero_def m3p_encode_map_def codec_simps map_header_tail)

lemma map_encode_relocations:
  assumes "map_wf r" and "n = unat (mr_gc_moved r)"
  shows "map (\<lambda>i. m3p_get_le32 (m3p_encode_map r) (160 + i * 4)) [0..<n]
    = take n (mr_relocation_sequence r)"
proof (rule nth_equalityI)
  show "length (map (\<lambda>i. m3p_get_le32 (m3p_encode_map r) (160 + i * 4)) [0..<n])
      = length (take n (mr_relocation_sequence r))"
    using assms map_wf_bounds [OF assms(1)] by (simp add: map_wf_def)
next
  fix i assume "i < length (map (\<lambda>i. m3p_get_le32 (m3p_encode_map r) (160 + i * 4)) [0..<n])"
  then show "map (\<lambda>i. m3p_get_le32 (m3p_encode_map r) (160 + i * 4)) [0..<n] ! i
      = take n (mr_relocation_sequence r) ! i"
    using assms(2) map_wf_bounds [OF assms(1)] by (simp add: m3p_encode_map_def put_relocations_get)
qed

lemma map_encode_fields:
  assumes "map_wf r"
  shows "m3p_encode_map r ! 8 = mr_subtype r" and "m3p_encode_map r ! 9 = mr_delta_count r"
    and "m3p_encode_map r ! 36 = mr_gc_source_block r"
    and "m3p_encode_map r ! 37 = mr_gc_destination_block r"
    and "m3p_get_le32 (m3p_encode_map r) 32 = mr_gc_uid r"
    and "m3p_get_le16 (m3p_encode_map r) 40 = mr_gc_expected_live r"
    and "m3p_get_le16 (m3p_encode_map r) 42 = mr_gc_moved r"
  using map_wf_bounds [OF assms]
  by (simp_all add: m3p_encode_map_def codec_simps) (simp_all add: m3p_map_header_def codec_simps)

lemma map_decode_encode:
  assumes "map_wf r"
  shows "m3p_decode_map (m3p_encode_map r) = Some (canon_map r)"
proof -
  note facts = map_header_encode [OF assms] map_encode_fields [OF assms]
    map_deltas_encode [OF assms refl] map_encode_zero_areas [OF assms]
    map_encode_relocations [OF assms refl] map_read_encode [OF assms]
  show ?thesis
  proof (cases "mr_subtype r = M3P_MAP_GC_SWITCH")
    case True
    have "\<not> list_ex (\<lambda>x. x = 0) (take (unat (mr_gc_moved r)) (mr_relocation_sequence r))"
      using assms True by (auto simp: map_wf_def list_ex_iff in_set_conv_nth)
    then show ?thesis
      using assms True facts
      by (simp add: m3p_decode_map_def Let_def map_wf_def linorder_not_less linorder_not_le)
  next
    case False
    have "m3p_bytes_zero (m3p_encode_map r) 160 100"
      using assms False facts(11) by (simp add: map_wf_def)
    then show ?thesis
      using assms False facts by (simp add: m3p_decode_map_def Let_def map_wf_def)
  qed
qed

interpretation map_codec:
  page_codec m3p_encode_map m3p_decode_map map_wf canon_map 4096
  by unfold_locales (simp_all add: map_decode_encode, simp add: map_wf_def)

section \<open>Checkpoint bodies\<close>

definition body_entry_wf :: "m3p_map_entry \<Rightarrow> bool" where
  "body_entry_wf e \<longleftrightarrow> me_state e \<le> M3P_L2P_TOMBSTONE \<and>
     (me_state e = M3P_L2P_VALUE \<longrightarrow> me_valid_mask e \<noteq> 0 \<and> me_block e < 16 \<and> me_page e < 32 \<and>
        me_data_record_sequence e \<noteq> 0)"

text \<open>A checkpoint body stores neither the payload CRC nor the logical version of an entry.\<close>

definition canon_body_entry :: "m3p_map_entry \<Rightarrow> m3p_map_entry" where
  "canon_body_entry e =
     (if me_state e = M3P_L2P_VALUE then e\<lparr>me_main_crc := 0, me_logical_version := 0\<rparr>
      else zero_map_entry\<lparr>me_state := me_state e, me_valid_mask := me_valid_mask e,
        me_block := UINT8_MAX, me_page := UINT8_MAX, me_map_sequence := me_map_sequence e\<rparr>)"

definition body_wf :: "m3p_map_entry list \<Rightarrow> bool" where
  "body_wf m \<longleftrightarrow> length m = 256 \<and> (\<forall>e \<in> set m. body_entry_wf e)"

lemma length_encode_body_entry [simp]: "length (encode_body_entry e) = 16"
  by (simp add: encode_body_entry_def Let_def)

lemma body_entry_decode_encode:
  "body_entry_wf e \<Longrightarrow> decode_body_entry (encode_body_entry e) = Some (canon_body_entry e)"
  by (cases "me_state e = M3P_L2P_VALUE")
     (auto simp: decode_body_entry_def encode_body_entry_def Let_def codec_simps body_entry_wf_def
        canon_body_entry_def zero_map_entry_def linorder_not_less linorder_not_le)

interpretation body_entry_codec:
  page_codec encode_body_entry decode_body_entry body_entry_wf canon_body_entry 16
  by unfold_locales (simp_all add: body_entry_decode_encode)

lemma length_concat_chunks:
  "(\<And>i. i < n \<Longrightarrow> length (f i) = w) \<Longrightarrow> length (concat (map f [0..<n])) = n * w"
  by (induction n) simp_all

lemma slice_concat_chunks:
  assumes "\<And>i. i < n \<Longrightarrow> length (f i) = w" and "i < n"
  shows "slice (concat (map f [0..<n])) (i * w) w = f i"
  using assms
proof (induction n)
  case 0
  then show ?case by simp
next
  case (Suc n)
  have len: "length (concat (map f [0..<n])) = n * w"
    using Suc.prems(1) by (intro length_concat_chunks) simp
  show ?case
  proof (cases "i = n")
    case True
    then show ?thesis
      using Suc.prems(1) [of n] len by (simp add: slice_def)
  next
    case False
    then have "i < n"
      using Suc.prems(2) by simp
    then have "Suc i * w \<le> n * w"
      by (intro mult_le_mono1) simp
    then have "slice (concat (map f [0..<Suc n])) (i * w) w = slice (concat (map f [0..<n])) (i * w) w"
      using len by (simp add: slice_def)
    also have "\<dots> = f i"
      using Suc \<open>i < n\<close> by simp
    finally show ?thesis .
  qed
qed

lemma body_decode_encode:
  assumes "body_wf m"
  shows "m3p_decode_checkpoint_body (m3p_encode_checkpoint_body m) = Some (map canon_body_entry m)"
proof -
  have "decode_body_entry (slice (m3p_encode_checkpoint_body m) (i * 16) 16)
      = Some (canon_body_entry (m ! i))" if "i \<in> set [0..<256]" for i
  proof -
    have "slice (m3p_encode_checkpoint_body m) (i * 16) 16 = encode_body_entry (m ! i)"
      unfolding m3p_encode_checkpoint_body_def using that by (intro slice_concat_chunks) simp_all
    moreover have "body_entry_wf (m ! i)"
      using assms that by (simp add: body_wf_def)
    ultimately show ?thesis
      by (simp add: body_entry_decode_encode)
  qed
  then have "m3p_decode_checkpoint_body (m3p_encode_checkpoint_body m)
      = Some (map (\<lambda>i. canon_body_entry (m ! i)) [0..<256])"
    unfolding m3p_decode_checkpoint_body_def by (rule those_map_Some)
  moreover have "map (\<lambda>i. canon_body_entry (m ! i)) [0..<256] = map canon_body_entry m"
    using assms by (intro nth_equalityI) (simp_all add: body_wf_def)
  ultimately show ?thesis by simp
qed

interpretation body_codec:
  page_codec m3p_encode_checkpoint_body m3p_decode_checkpoint_body body_wf
    "map canon_body_entry" 4096
proof
  fix m :: "m3p_map_entry list"
  assume "body_wf m"
  show "length (m3p_encode_checkpoint_body m) = 4096"
    unfolding m3p_encode_checkpoint_body_def
    using length_concat_chunks [of 256 "\<lambda>i. encode_body_entry (m ! i)" 16] by simp
  show "m3p_decode_checkpoint_body (m3p_encode_checkpoint_body m) = Some (map canon_body_entry m)"
    by (rule body_decode_encode) fact
qed

section \<open>Checkpoint commits\<close>

definition commit_wf :: "m3p_checkpoint_commit \<Rightarrow> bool" where
  "commit_wf c \<longleftrightarrow> cc_generation c \<noteq> 0 \<and> cc_commit_record_sequence c \<noteq> 0 \<and>
     length (cc_media_uuid c) = 16 \<and> 12 \<le> cc_body_block c \<and> cc_body_block c \<le> 13 \<and>
     cc_body_page c < 32 \<and> cc_format_version c \<le> M3P_VOLUME_FORMAT_VERSION \<and>
     (cc_format_version c = M3P_VOLUME_FORMAT_VERSION \<longrightarrow>
        m3p_volume_lba_count_valid (cc_lba_count c) \<and> cc_lba_bytes c = 512 \<and>
        cc_geometry c = m3p_geometry)"

text \<open>A commit of the original format carries no volume: it reads back as the whole namespace.\<close>

definition canon_commit :: "m3p_checkpoint_commit \<Rightarrow> m3p_checkpoint_commit" where
  "canon_commit c =
     (if cc_format_version c = M3P_VOLUME_FORMAT_VERSION then c
      else c\<lparr>cc_format_version := M3P_FORMAT_VERSION, cc_lba_count := FWLAB_M3P_NAMESPACE_LBAS,
        cc_lba_bytes := 512, cc_geometry := m3p_geometry\<rparr>)"

lemma version_cases: "(v :: u16) \<le> 2 \<Longrightarrow> v = 0 \<or> v = 1 \<or> v = 2"
proof -
  assume "v \<le> 2"
  then have "unat v \<le> 2"
    by (simp add: word_le_nat_alt)
  then have "unat v = 0 \<or> unat v = 1 \<or> unat v = 2"
    by auto
  then show ?thesis
    by (auto simp: word_unat_eq_iff)
qed

lemma commit_decode_encode_volume:
  assumes "commit_wf c" and v: "cc_format_version c = M3P_VOLUME_FORMAT_VERSION"
  shows "m3p_decode_checkpoint_commit (m3p_encode_checkpoint_commit c) = Some c"
proof -
  let ?b = "m3p_encode_checkpoint_commit c"
  have "commit_header_ok ?b"
    using assms
    by (simp add: commit_header_ok_def m3p_encode_checkpoint_commit_def Let_def commit_wf_def
        codec_simps m3p_bytes_zero_def)
  moreover have "commit_read_volume ?b (commit_read ?b) = c"
    using assms
    by (simp add: commit_read_volume_def commit_read_def m3p_encode_checkpoint_commit_def Let_def
        commit_wf_def codec_simps le64_of_words m3p_geometry_def zero_geometry_def)
  moreover have "m3p_get_le16 ?b 4 = M3P_VOLUME_FORMAT_VERSION"
    using assms by (simp add: m3p_encode_checkpoint_commit_def Let_def commit_wf_def codec_simps)
  ultimately show ?thesis
    using assms by (simp add: m3p_decode_checkpoint_commit_def Let_def commit_wf_def
        fwlab_m3p_geometry_supported_def)
qed

lemma commit_decode_encode_legacy:
  assumes "commit_wf c" and v: "cc_format_version c \<noteq> M3P_VOLUME_FORMAT_VERSION"
  shows "m3p_decode_checkpoint_commit (m3p_encode_checkpoint_commit c) = Some (canon_commit c)"
proof -
  let ?b = "m3p_encode_checkpoint_commit c"
  have v01: "cc_format_version c = 0 \<or> cc_format_version c = 1"
    using assms version_cases [of "cc_format_version c"] by (auto simp: commit_wf_def)
  have "commit_header_ok ?b"
    using assms(1) v01
    by (elim disjE) (simp_all add: commit_header_ok_def m3p_encode_checkpoint_commit_def Let_def commit_wf_def
        codec_simps m3p_bytes_zero_def)
  moreover have "commit_read ?b = canon_commit c"
    using assms(1) v01
    by (elim disjE) (simp_all add: commit_read_def m3p_encode_checkpoint_commit_def Let_def commit_wf_def
        codec_simps canon_commit_def)
  moreover have "m3p_get_le16 ?b 4 = 1"
    using assms(1) v01
    by (elim disjE) (simp_all add: m3p_encode_checkpoint_commit_def Let_def commit_wf_def codec_simps)
  ultimately show ?thesis
    using assms by (simp add: m3p_decode_checkpoint_commit_def Let_def commit_wf_def canon_commit_def)
qed

interpretation commit_codec:
  page_codec m3p_encode_checkpoint_commit m3p_decode_checkpoint_commit commit_wf canon_commit 4096
proof
  fix c :: m3p_checkpoint_commit
  assume wf: "commit_wf c"
  show "length (m3p_encode_checkpoint_commit c) = 4096"
    using wf by (simp add: m3p_encode_checkpoint_commit_def Let_def commit_wf_def)
  show "m3p_decode_checkpoint_commit (m3p_encode_checkpoint_commit c) = Some (canon_commit c)"
    using commit_decode_encode_volume [OF wf] commit_decode_encode_legacy [OF wf]
    by (cases "cc_format_version c = M3P_VOLUME_FORMAT_VERSION") (simp_all add: canon_commit_def)
qed

section \<open>Properties\<close>

definition sample_data_oob :: m3p_oob where
  "sample_data_oob = zero_oob\<lparr>ob_page_type := M3P_PAGE_DATA, ob_flags := 1,
     ob_copy_kind := M3P_COPY_HOST, ob_valid_mask := 255, ob_namespace_id := 1, ob_lpn := 7,
     ob_record_sequence := 3, ob_transaction_sequence := 2, ob_main_length := 4096\<rparr>"

lemma sample_data_oob_wf: "oob_wf sample_data_oob"
  by (simp add: oob_wf_def oob_fields_ok_def sample_data_oob_def zero_oob_def)

text \<open>
  C33. Out-of-band headers round-trip: a header whose fields the decoder accepts is encoded to
  exactly 128 bytes, and decoding them gives back every field.
\<close>

theorem oob_roundtrip:
  assumes "oob_wf ob"
  shows "length (m3p_encode_oob ob) = 128 \<and> m3p_decode_oob (m3p_encode_oob ob) = Some ob"
  using oob_codec.length_enc [OF assms] oob_codec.dec_enc [OF assms] by simp

theorem oob_roundtrip_witness:
  "m3p_decode_oob (m3p_encode_oob sample_data_oob) = Some sample_data_oob"
  using oob_roundtrip [OF sample_data_oob_wf] by simp

text \<open>
  C34. A header with one corrupted byte is never accepted: if 128 bytes decode, then changing any
  single byte of them, the CRC field included, makes the decoder refuse.
\<close>

theorem oob_corruption_detected:
  assumes "length bs = 128" and "m3p_decode_oob bs = Some ob" and "i < 128" and "b \<noteq> bs ! i"
  shows "m3p_decode_oob (bs[i := b]) = None"
  using assms by (rule oob_one_byte_rejected)

theorem oob_corruption_detected_witness:
  "m3p_decode_oob ((m3p_encode_oob sample_data_oob)[11 := 1]) = None"
proof -
  have "m3p_encode_oob sample_data_oob ! 11 = 255"
    by (simp add: m3p_encode_oob_def m3p_oob_fields_def Let_def codec_simps sample_data_oob_def
        zero_oob_def)
  then show ?thesis
    using oob_corruption_detected
      [of "m3p_encode_oob sample_data_oob" sample_data_oob 11 1]
      oob_codec.length_enc oob_codec.dec_enc sample_data_oob_wf
    by simp
qed

text \<open>
  C35. Map transactions round-trip: a well-formed journal record (write, trim, relocation or switch)
  is encoded to one 4096-byte page and read back as the same record, up to the fields the format
  does not store (\<open>canon_map\<close>).
\<close>

theorem map_record_roundtrip:
  assumes "map_wf r"
  shows "length (m3p_encode_map r) = 4096 \<and> m3p_decode_map (m3p_encode_map r) = Some (canon_map r)"
  using map_codec.length_enc [OF assms] map_codec.dec_enc [OF assms] by simp

definition sample_switch :: m3p_map_record where
  "sample_switch = zero_map_record\<lparr>mr_subtype := M3P_MAP_GC_SWITCH, mr_flags := 1,
     mr_transaction_sequence := 9, mr_resulting_map_sequence := 9, mr_gc_uid := 1,
     mr_gc_source_block := 2, mr_gc_destination_block := 14, mr_gc_expected_live := 2,
     mr_gc_moved := 2, mr_relocation_sequence := [7, 8] @ replicate 23 0\<rparr>"

theorem map_record_roundtrip_witness:
  "m3p_decode_map (m3p_encode_map sample_switch) = Some sample_switch"
proof -
  have "(7 # 8 # replicate 23 (0 :: u32)) ! i \<noteq> 0" if "i < 2" for i
    using that by (cases i) auto
  then have "map_wf sample_switch"
    by (simp add: map_wf_def sample_switch_def zero_map_record_def)
  moreover have "canon_map sample_switch = sample_switch"
    by (simp add: canon_map_def sample_switch_def zero_map_record_def)
  ultimately show ?thesis
    using map_record_roundtrip [of sample_switch] by simp
qed

lemma encode_canon_body_entry [simp]: "encode_body_entry (canon_body_entry e) = encode_body_entry e"
  by (simp add: encode_body_entry_def canon_body_entry_def zero_map_entry_def)

lemma canon_body_entry_keeps:
  "me_state (canon_body_entry e) = me_state e" "me_valid_mask (canon_body_entry e) = me_valid_mask e"
  "me_map_sequence (canon_body_entry e) = me_map_sequence e"
  by (simp_all add: canon_body_entry_def zero_map_entry_def)

text \<open>
  C36. Checkpoint bodies keep the placement of every page: 256 map entries are stored in one 4096-byte
  page, and reading it back gives, in order, the state, sector mask and map sequence of every entry,
  and the block, page, erase generation and data record sequence of every entry with a value. The
  payload CRC and the logical version are not stored and read back as 0 (recovery takes the CRC from
  the data page and restarts the version at 1); an entry without a value reads back with the location
  255/255. Encoding the map that was read back gives the same page.
\<close>

theorem checkpoint_body_roundtrip:
  assumes "body_wf m"
  shows "length (m3p_encode_checkpoint_body m) = 4096 \<and>
    (\<exists>m'. m3p_decode_checkpoint_body (m3p_encode_checkpoint_body m) = Some m' \<and> length m' = 256 \<and>
       m3p_encode_checkpoint_body m' = m3p_encode_checkpoint_body m \<and>
       (\<forall>i < 256. me_state (m' ! i) = me_state (m ! i) \<and> me_valid_mask (m' ! i) = me_valid_mask (m ! i) \<and>
          me_map_sequence (m' ! i) = me_map_sequence (m ! i) \<and>
          (me_state (m ! i) = M3P_L2P_VALUE \<longrightarrow>
             m' ! i = (m ! i)\<lparr>me_main_crc := 0, me_logical_version := 0\<rparr>) \<and>
          (me_state (m ! i) \<noteq> M3P_L2P_VALUE \<longrightarrow>
             me_block (m' ! i) = UINT8_MAX \<and> me_page (m' ! i) = UINT8_MAX)))"
proof -
  have len: "length m = 256"
    using assms by (simp add: body_wf_def)
  then have "m3p_encode_checkpoint_body (map canon_body_entry m) = m3p_encode_checkpoint_body m"
    unfolding m3p_encode_checkpoint_body_def by (intro arg_cong [of _ _ concat] map_cong) simp_all
  then show ?thesis
    using body_codec.length_enc [OF assms] body_codec.dec_enc [OF assms] len
    by (intro conjI exI [of _ "map canon_body_entry m"])
      (simp_all add: canon_body_entry_keeps, simp_all add: canon_body_entry_def)
qed

text \<open>A map with one page on block 3, page 4, and all others unmapped.\<close>

definition sample_body :: "m3p_map_entry list" where
  "sample_body = zero_map_entry\<lparr>me_state := M3P_L2P_VALUE, me_valid_mask := 255, me_block := 3, me_page := 4,
     me_erase_generation := 1, me_data_record_sequence := 9, me_map_sequence := 2, me_main_crc := 77,
     me_logical_version := 5\<rparr> # replicate 255 zero_map_entry"

theorem checkpoint_body_roundtrip_witness:
  "\<exists>m'. m3p_decode_checkpoint_body (m3p_encode_checkpoint_body sample_body) = Some m' \<and>
    me_block (m' ! 0) = 3 \<and> me_page (m' ! 0) = 4 \<and> me_main_crc (m' ! 0) = 0 \<and> me_state (m' ! 1) = 0"
proof -
  have "body_wf sample_body"
    by (simp add: body_wf_def body_entry_wf_def sample_body_def zero_map_entry_def)
  then obtain m' where "m3p_decode_checkpoint_body (m3p_encode_checkpoint_body sample_body) = Some m'"
    and "\<forall>i < 256. me_state (m' ! i) = me_state (sample_body ! i) \<and>
      (me_state (sample_body ! i) = M3P_L2P_VALUE \<longrightarrow>
         m' ! i = (sample_body ! i)\<lparr>me_main_crc := 0, me_logical_version := 0\<rparr>)"
    using checkpoint_body_roundtrip [of sample_body] by blast
  moreover from this(2) have "m' ! 0 = (sample_body ! 0)\<lparr>me_main_crc := 0, me_logical_version := 0\<rparr>"
    and "me_state (m' ! 1) = me_state (sample_body ! 1)"
    by (simp_all add: sample_body_def)
  ultimately show ?thesis
    by (simp add: sample_body_def zero_map_entry_def)
qed

text \<open>
  C37. Checkpoint commits round-trip in both formats: a volume-format commit is read back exactly,
  one of the original format reads back with the whole namespace as its volume.
\<close>

theorem checkpoint_commit_roundtrip:
  assumes "commit_wf c"
  shows "length (m3p_encode_checkpoint_commit c) = 4096 \<and>
    m3p_decode_checkpoint_commit (m3p_encode_checkpoint_commit c) = Some (canon_commit c)"
  using commit_codec.length_enc [OF assms] commit_codec.dec_enc [OF assms] by simp

definition sample_commit :: m3p_checkpoint_commit where
  "sample_commit = zero_commit\<lparr>cc_generation := 4, cc_body_block := 13, cc_body_page := 2,
     cc_commit_record_sequence := 11, cc_format_version := M3P_VOLUME_FORMAT_VERSION,
     cc_lba_count := 64, cc_lba_bytes := 512, cc_geometry := m3p_geometry\<rparr>"

theorem checkpoint_commit_roundtrip_witness:
  "m3p_decode_checkpoint_commit (m3p_encode_checkpoint_commit sample_commit) = Some sample_commit"
proof -
  have "commit_wf sample_commit"
    by (simp add: commit_wf_def sample_commit_def zero_commit_def m3p_volume_lba_count_valid_def)
  moreover have "canon_commit sample_commit = sample_commit"
    by (simp add: canon_commit_def sample_commit_def)
  ultimately show ?thesis
    using checkpoint_commit_roundtrip [of sample_commit] by simp
qed

end
