(* ===== verification/Block_Contract.thy ===== *)
theory Block_Contract
  imports M3p_Types
begin

text \<open>
  The structures of the block service contract (\<open>include/fwlab/contracts/block_service_v0.h\<close>), the
  controller-buffer leases (\<open>controller_buffer_v0.h\<close>) and the host action tokens
  (\<open>host_action_program_v0.h\<close>, \<open>nvme_types.h\<close>) that requests carry. The \<open>size\<close> fields hold the
  C \<open>sizeof\<close> of each structure on an LP64 target, written out as named constants.
\<close>

abbreviation (input) sizeof_host_action_token :: u16 where "sizeof_host_action_token \<equiv> 72"
abbreviation (input) sizeof_block_op_token :: u16 where "sizeof_block_op_token \<equiv> 104"
abbreviation (input) sizeof_buffer_lease :: u16 where "sizeof_buffer_lease \<equiv> 64"
abbreviation (input) sizeof_buffer_span :: u16 where "sizeof_buffer_span \<equiv> 24"
abbreviation (input) sizeof_block_request :: u16 where "sizeof_block_request \<equiv> 256"
abbreviation (input) sizeof_submit_result :: u16 where "sizeof_submit_result \<equiv> 136"
abbreviation (input) sizeof_block_status :: u16 where "sizeof_block_status \<equiv> 176"
abbreviation (input) sizeof_epoch_status :: u16 where "sizeof_epoch_status \<equiv> 64"
abbreviation (input) sizeof_m3p_config :: u16 where "sizeof_m3p_config \<equiv> 112"
abbreviation (input) sizeof_nfc_geometry :: u16 where "sizeof_nfc_geometry \<equiv> 36"
abbreviation (input) sizeof_nfc_request :: u16 where "sizeof_nfc_request \<equiv> 144"

record nvme_command_handle =
  cmd_instance_nonce :: u64
  cmd_command_uid :: u64
  cmd_controller_epoch :: u32
  cmd_generation :: u32

record host_action_token =
  ha_version :: u16
  ha_size :: u16
  ha_type_tag :: u32
  ha_command :: nvme_command_handle
  ha_origin0 :: u64
  ha_origin1 :: u64
  ha_action_uid :: u64
  ha_generation :: u32
  ha_ordinal :: u16
  ha_kind :: u16
  ha_reserved :: "u32 list"

record block_op_token =
  bt_version :: u16
  bt_size :: u16
  bt_type_tag :: u32
  bt_action :: host_action_token
  bt_provider_nonce :: u64
  bt_generation :: u32
  bt_reserved :: "u32 list"

record buffer_lease =
  bl_version :: u16
  bl_size :: u16
  bl_type_tag :: u32
  bl_issuer_nonce :: u64
  bl_buffer_uid :: u64
  bl_lease_uid :: u64
  bl_generation :: u32
  bl_capacity_bytes :: u32
  bl_rights :: u32
  bl_reserved0 :: u32
  bl_reserved1 :: "u32 list"

record buffer_span =
  bs_version :: u16
  bs_size :: u16
  bs_reserved0 :: u32
  bs_offset :: u32
  bs_length :: u32
  bs_reserved1 :: "u32 list"

record block_request =
  rq_version :: u16
  rq_size :: u16
  rq_reserved0 :: u32
  rq_operation_token :: block_op_token
  rq_namespace0 :: u64
  rq_namespace1 :: u64
  rq_lba :: u64
  rq_lba_count :: u32
  rq_operation :: u32
  rq_durability :: u32
  rq_buffer_present :: u8
  rq_reserved1 :: bytes
  rq_buffer :: buffer_lease
  rq_buffer_span :: buffer_span
  rq_reserved2 :: "u32 list"

record block_submit_result =
  sr_operation_token :: block_op_token
  sr_disposition :: block_disposition
  sr_fault_domain :: u32
  sr_fault_code :: u32

record block_status =
  bst_operation_token :: block_op_token
  bst_state :: block_state
  bst_outcome :: block_outcome
  bst_effect :: block_effect
  bst_completed_lbas :: u32
  bst_data_bytes :: u32
  bst_durability_witness :: block_witness
  bst_frontier0 :: u64
  bst_frontier1 :: u64
  bst_fault_domain :: u32
  bst_fault_code :: u32

record block_epoch_status =
  es_lifecycle_instance_nonce :: u64
  es_execution_epoch :: u32
  es_aggregate_operations :: u32
  es_admission_closed :: bool
  es_quiescent :: bool
  es_aggregate_proof0 :: u64
  es_aggregate_proof1 :: u64

text \<open>The all-zero structures that \<open>memset\<close> produces.\<close>

definition zero_command_handle :: nvme_command_handle where
  "zero_command_handle = \<lparr>cmd_instance_nonce = 0, cmd_command_uid = 0, cmd_controller_epoch = 0,
     cmd_generation = 0\<rparr>"

definition zero_host_action_token :: host_action_token where
  "zero_host_action_token = \<lparr>ha_version = 0, ha_size = 0, ha_type_tag = 0,
     ha_command = zero_command_handle, ha_origin0 = 0, ha_origin1 = 0, ha_action_uid = 0,
     ha_generation = 0, ha_ordinal = 0, ha_kind = 0, ha_reserved = replicate 2 0\<rparr>"

definition zero_block_op_token :: block_op_token where
  "zero_block_op_token = \<lparr>bt_version = 0, bt_size = 0, bt_type_tag = 0,
     bt_action = zero_host_action_token, bt_provider_nonce = 0, bt_generation = 0,
     bt_reserved = replicate 3 0\<rparr>"

definition zero_buffer_lease :: buffer_lease where
  "zero_buffer_lease = \<lparr>bl_version = 0, bl_size = 0, bl_type_tag = 0, bl_issuer_nonce = 0,
     bl_buffer_uid = 0, bl_lease_uid = 0, bl_generation = 0, bl_capacity_bytes = 0,
     bl_rights = 0, bl_reserved0 = 0, bl_reserved1 = replicate 4 0\<rparr>"

definition zero_buffer_span :: buffer_span where
  "zero_buffer_span = \<lparr>bs_version = 0, bs_size = 0, bs_reserved0 = 0, bs_offset = 0,
     bs_length = 0, bs_reserved1 = replicate 2 0\<rparr>"

definition zero_block_request :: block_request where
  "zero_block_request = \<lparr>rq_version = 0, rq_size = 0, rq_reserved0 = 0,
     rq_operation_token = zero_block_op_token, rq_namespace0 = 0, rq_namespace1 = 0, rq_lba = 0,
     rq_lba_count = 0, rq_operation = 0, rq_durability = 0, rq_buffer_present = 0,
     rq_reserved1 = replicate 3 0, rq_buffer = zero_buffer_lease,
     rq_buffer_span = zero_buffer_span, rq_reserved2 = replicate 4 0\<rparr>"

definition zero_block_status :: block_status where
  "zero_block_status = \<lparr>bst_operation_token = zero_block_op_token,
     bst_state = FWLAB_BLOCK_V0_STATE_NONE, bst_outcome = FWLAB_BLOCK_V0_OUTCOME_NONE,
     bst_effect = FWLAB_BLOCK_V0_EFFECT_NONE, bst_completed_lbas = 0, bst_data_bytes = 0,
     bst_durability_witness = FWLAB_BLOCK_V0_WITNESS_NONE, bst_frontier0 = 0,
     bst_frontier1 = 0, bst_fault_domain = 0, bst_fault_code = 0\<rparr>"

text \<open>The code asks of a whole structure whether all its bytes are zero.\<close>

definition words_zero :: "'a::len word list \<Rightarrow> bool" where
  "words_zero xs \<longleftrightarrow> (\<forall>x \<in> set xs. x = 0)"

end
