(* ===== verification/M3p_Machine.thy ===== *)
theory M3p_Machine
  imports M3p_State Block_Contract
begin

text \<open>
  The state of one translation-layer instance (\<open>struct fwlab_m3p\<close>), its configuration and its
  single operation slot. The record is extended layer by layer, so every field is accessed by its
  C name on the whole state.
\<close>

record m3p_config =
  cfg_version :: u16
  cfg_size :: u16
  cfg_reserved0 :: u32
  cfg_media_uuid :: bytes
  cfg_namespace0 :: u64
  cfg_namespace1 :: u64
  cfg_instance_nonce :: u64
  cfg_provider_nonce :: u64
  cfg_nfc_instance_nonce :: u64
  cfg_next_nfc_operation_uid :: u64
  cfg_generation :: u32
  cfg_execution_epoch :: u32
  cfg_nfc_epoch :: u32
  cfg_nfc_operation_uid_limit :: u32
  cfg_host_sequence_limit :: u32
  cfg_record_sequence_limit :: u32
  cfg_reserved1 :: "u32 list"

record m3p_operation =
  op_state :: m3p_operation_state
  op_cancel_requested :: bool
  op_effect_seen :: bool
  op_delta_count :: u8
  op_commit_slot :: bool
  op_first_lpn :: u16
  op_last_lpn :: u16
  op_current_lpn :: u16
  op_host_sequence :: u32
  op_captured_frontier :: u32
  op_fault_code :: u32
  op_request :: block_request
  op_status :: block_status
  op_delta :: "m3p_delta list"
  op_io_bytes :: bytes

definition zero_operation :: m3p_operation where
  "zero_operation = \<lparr>op_state = M3P_OPERATION_FREE, op_cancel_requested = False,
     op_effect_seen = False, op_delta_count = 0, op_commit_slot = False, op_first_lpn = 0,
     op_last_lpn = 0, op_current_lpn = 0, op_host_sequence = 0, op_captured_frontier = 0,
     op_fault_code = 0, op_request = zero_block_request, op_status = zero_block_status,
     op_delta = replicate M3P_MAX_DELTAS zero_delta, op_io_bytes = replicate 8192 0\<rparr>"

text \<open>Layer 1: identity, admission and work control.\<close>

record m3p_control =
  magic :: u64
  config :: m3p_config
  cb_issuer_nonce :: u64
  cb_generation :: u32
  volume_lba_count :: u64
  expected_lba_count :: u64
  volume_format :: u16
  initialized :: bool
  ready :: bool
  admission_closed :: bool
  quarantined :: bool
  work_kind :: m3p_maintenance_kind
  work_state :: m3p_work_state
  fair_cursor :: u8
  nfc_close_started :: bool
  nfc_quiescent :: bool
  child_starts :: u32
  cancel_count :: u32
  next_child_uid :: u64
  close_lifecycle_nonce :: u64
  close_execution_epoch :: u32

text \<open>Layer 2: mapping, block directory, pending ring and the monotone counters.\<close>

record m3p_mapping = m3p_control +
  durable :: "m3p_map_entry list"
  visible :: "m3p_map_entry list"
  p2l :: "m3p_p2l_state list"
  block_role :: "m3p_block_role list"
  block_health :: "u8 list"
  block_next_page :: "u8 list"
  block_erase_generation :: "u16 list"
  block_erase_count :: "u16 list"
  pending :: "m3p_pending list"
  pending_count :: u8
  pending_head :: u8
  pending_tail :: u8
  active_journal_block :: u8
  inactive_journal_block :: u8
  active_checkpoint_block :: u8
  inactive_checkpoint_block :: u8
  journal_page :: u8
  checkpoint_page :: u8
  reserve_block :: u8
  replacement_block :: u8
  replacement_used :: bool

record m3p_counters = m3p_mapping +
  record_sequence :: u32
  map_sequence :: u32
  host_sequence :: u32
  durable_frontier :: u32
  checkpoint_generation :: u32
  checkpoint_covered_sequence :: u32
  journal_generation :: u32

text \<open>Layer 3: the operation slot, the NAND child, the staging frames and the checkpoint flow.\<close>

record m3p_execution = m3p_counters +
  operation :: m3p_operation
  child :: m3p_child
  frame_main :: "bytes list"
  frame_oob :: "bytes list"
  checkpoint_flow :: u8
  checkpoint_return_state :: m3p_operation_state
  checkpoint_target_block :: u8
  checkpoint_target_page :: u8
  checkpoint_old_journal :: u8
  checkpoint_rotating :: bool
  checkpoint_old_block :: u8
  checkpoint_body_main_crc :: u32
  checkpoint_body_oob_crc :: u32

text \<open>Layer 4: recovery.\<close>

record m3p_recovery = m3p_execution +
  recovery_page :: u32
  recovery_map_count :: u32
  recovery_fault_code :: u32
  recovery_completed :: bool
  recovery_resume_gc :: bool
  recovery_checkpoint_cleanup :: bool
  recovery_journal_cleanup :: bool
  recovery_resume_state :: m3p_work_state
  recovered_map :: "m3p_recovery_record list"
  recovered_checkpoint :: "m3p_map_entry list"
  checkpoint_candidate :: "m3p_map_entry list"
  recovered_commit :: m3p_checkpoint_commit
  recovery_have_body :: bool
  recovery_have_commit :: bool
  recovery_body_block :: u8
  recovery_body_page :: u8
  recovery_tail_seen :: "bool list"
  recovery_data_valid :: "bool list"
  recovered_data :: "m3p_oob list"
  recovery_body_crc :: u32

text \<open>Layer 5: garbage collection.\<close>

record fwlab_m3p = m3p_recovery +
  gc_uid :: u32
  gc_victim :: u8
  gc_destination :: u8
  gc_live_count :: u8
  gc_moved :: u8
  gc_reclaimable :: u8
  gc_source_page :: "u8 list"
  gc_source_lpn :: "u16 list"
  gc_delta :: "m3p_delta list"
  gc_relocation_sequence :: "u32 list"
  gc_switch_sequence :: u32
  gc_fault_code :: u32

end
