(* ===== verification/M3p_Mapping.thy ===== *)
theory M3p_Mapping
  imports M3p_Machine
begin

text \<open>
  Mapping state, page allocation, publication of mapping changes and the ring of pending
  transactions: \<open>core/m3p/m3p_mapping.c\<close>. A C function that updates \<open>*m3p\<close> returns the new
  state; a function that answers 0 or 1 returns a truth value beside it.
\<close>

section \<open>Definitions\<close>

definition m3p_physical_index :: "u8 \<Rightarrow> u8 \<Rightarrow> u16" where
  "m3p_physical_index block page = ucast block * 32 + ucast page"

definition m3p_map_entry_equal :: "m3p_map_entry \<Rightarrow> m3p_map_entry \<Rightarrow> bool" where
  "m3p_map_entry_equal l r \<longleftrightarrow>
     me_state l = me_state r \<and> me_valid_mask l = me_valid_mask r \<and>
     me_block l = me_block r \<and> me_page l = me_page r \<and>
     me_erase_generation l = me_erase_generation r \<and>
     me_data_record_sequence l = me_data_record_sequence r \<and>
     me_map_sequence l = me_map_sequence r \<and> me_main_crc l = me_main_crc r \<and>
     me_logical_version l = me_logical_version r"

definition m3p_token_equal :: "block_op_token \<Rightarrow> block_op_token \<Rightarrow> bool" where
  "m3p_token_equal l r \<longleftrightarrow>
     bt_version l = bt_version r \<and> bt_size l = bt_size r \<and> bt_type_tag l = bt_type_tag r \<and>
     bt_provider_nonce l = bt_provider_nonce r \<and> bt_generation l = bt_generation r \<and>
     bt_action l = bt_action r"

definition unmapped_entry :: m3p_map_entry where
  "unmapped_entry = zero_map_entry\<lparr>me_block := UINT8_MAX, me_page := UINT8_MAX\<rparr>"

definition initial_role :: "nat \<Rightarrow> m3p_block_role" where
  "initial_role block =
     (if block < 10 then M3P_ROLE_DATA
      else if block < 12 then M3P_ROLE_JOURNAL
      else if block < 14 then M3P_ROLE_CHECKPOINT
      else if block = 14 then M3P_ROLE_RESERVE
      else M3P_ROLE_REPLACEMENT)"

definition m3p_mapping_reset :: "fwlab_m3p \<Rightarrow> fwlab_m3p" where
  "m3p_mapping_reset s =
     s\<lparr>durable := replicate M3P_LPN_COUNT unmapped_entry,
       visible := replicate M3P_LPN_COUNT unmapped_entry,
       p2l := replicate M3P_PHYSICAL_PAGES M3P_P2L_FREE,
       block_next_page := replicate M3P_BLOCKS 0,
       block_erase_generation := replicate M3P_BLOCKS 0,
       block_erase_count := replicate M3P_BLOCKS 0,
       block_health := replicate M3P_BLOCKS FWLAB_NFC_BLOCK_GOOD,
       block_role := map initial_role [0..<M3P_BLOCKS],
       pending := replicate M3P_MAX_PENDING zero_pending,
       pending_count := 0, pending_head := 0, pending_tail := 0,
       active_journal_block := 10, inactive_journal_block := 11,
       active_checkpoint_block := 12, inactive_checkpoint_block := 13,
       journal_page := 0, checkpoint_page := 0,
       reserve_block := 14, replacement_block := 15, replacement_used := False,
       record_sequence := 0, map_sequence := 0, host_sequence := 0, durable_frontier := 0,
       checkpoint_generation := 0, checkpoint_covered_sequence := 0, journal_generation := 1\<rparr>"

text \<open>\<open>m3p->p2l[m3p_physical_index(block, page)] = state\<close>\<close>

definition p2l_set :: "u8 \<Rightarrow> u8 \<Rightarrow> m3p_p2l_state \<Rightarrow> fwlab_m3p \<Rightarrow> fwlab_m3p" where
  "p2l_set block page st s = s\<lparr>p2l := (p2l s)[unat (m3p_physical_index block page) := st]\<rparr>"

definition p2l_at :: "fwlab_m3p \<Rightarrow> u8 \<Rightarrow> u8 \<Rightarrow> m3p_p2l_state" where
  "p2l_at s block page = p2l s ! unat (m3p_physical_index block page)"

text \<open>\<open>memset(&m3p->p2l[m3p_physical_index(block, 0)], state, M3P_PAGES_PER_BLOCK)\<close>\<close>

definition p2l_fill_block :: "u8 \<Rightarrow> m3p_p2l_state \<Rightarrow> fwlab_m3p \<Rightarrow> fwlab_m3p" where
  "p2l_fill_block block st s =
     (let i = unat (m3p_physical_index block 0)
      in s\<lparr>p2l := take i (p2l s) @ replicate M3P_PAGES_PER_BLOCK st
              @ drop (i + M3P_PAGES_PER_BLOCK) (p2l s)\<rparr>)"

text \<open>The loop of \<open>m3p_allocate_data_page\<close>: the open data block with the fewest erases.\<close>

definition select_step :: "fwlab_m3p \<Rightarrow> nat option \<Rightarrow> nat \<Rightarrow> nat option" where
  "select_step s selected block =
     (if block_role s ! block \<noteq> M3P_ROLE_DATA \<or> block_next_page s ! block \<ge> 32 then selected
      else case selected of
          None \<Rightarrow> Some block
        | Some c \<Rightarrow>
            if block_erase_count s ! block < block_erase_count s ! c \<or>
               (block_erase_count s ! block = block_erase_count s ! c \<and> block < c)
            then Some block else selected)"

definition select_data_block :: "fwlab_m3p \<Rightarrow> nat option" where
  "select_data_block s = foldl (select_step s) None [0..<M3P_BLOCKS]"

definition m3p_allocate_data_page :: "fwlab_m3p \<Rightarrow> nfc_ppa option \<times> fwlab_m3p" where
  "m3p_allocate_data_page s =
     (case select_data_block s of
        None \<Rightarrow> (None, s)
      | Some b \<Rightarrow>
          let page = block_next_page s ! b;
              s = s\<lparr>block_next_page := (block_next_page s)[b := page + 1]\<rparr>
          in (Some (ppa_at (of_nat b) (ucast page)),
              p2l_set (of_nat b) page M3P_P2L_VISIBLE_PENDING s))"

definition m3p_publish_visible_delta :: "m3p_delta \<Rightarrow> fwlab_m3p \<Rightarrow> fwlab_m3p" where
  "m3p_publish_visible_delta d s =
     (let s = (if me_state (d_prior d) = M3P_L2P_VALUE
               then p2l_set (me_block (d_prior d)) (me_page (d_prior d)) M3P_P2L_DURABLE_PINNED s
               else s);
          s = (if me_state (d_target d) = M3P_L2P_VALUE
               then p2l_set (me_block (d_target d)) (me_page (d_target d)) M3P_P2L_VISIBLE_PENDING s
               else s)
      in s\<lparr>visible := (visible s)[unat (d_lpn d) := d_target d]\<rparr>)"

definition m3p_publish_durable_delta :: "m3p_delta \<Rightarrow> u32 \<Rightarrow> fwlab_m3p \<Rightarrow> fwlab_m3p" where
  "m3p_publish_durable_delta d seq s =
     (let target = (d_target d)\<lparr>me_map_sequence := seq\<rparr>;
          s = (if me_state (d_prior d) = M3P_L2P_VALUE \<and>
                  (me_state (d_target d) \<noteq> M3P_L2P_VALUE \<or>
                   me_block (d_prior d) \<noteq> me_block (d_target d) \<or>
                   me_page (d_prior d) \<noteq> me_page (d_target d))
               then p2l_set (me_block (d_prior d)) (me_page (d_prior d)) M3P_P2L_STALE s
               else s);
          s = (if me_state target = M3P_L2P_VALUE
               then p2l_set (me_block target) (me_page target) M3P_P2L_LIVE s
               else s)
      in s\<lparr>durable := (durable s)[unat (d_lpn d) := target],
           visible := (visible s)[unat (d_lpn d) := target]\<rparr>)"

text \<open>The two publications of a list of deltas, in array order.\<close>

definition publish_visible_all :: "m3p_delta list \<Rightarrow> nat \<Rightarrow> fwlab_m3p \<Rightarrow> fwlab_m3p" where
  "publish_visible_all ds n s = fold m3p_publish_visible_delta (take n ds) s"

definition publish_durable_all :: "m3p_delta list \<Rightarrow> nat \<Rightarrow> u32 \<Rightarrow> fwlab_m3p \<Rightarrow> fwlab_m3p" where
  "publish_durable_all ds n seq s = fold (\<lambda>d. m3p_publish_durable_delta d seq) (take n ds) s"

definition m3p_pending_append ::
  "u8 \<Rightarrow> u32 \<Rightarrow> m3p_delta list \<Rightarrow> u8 \<Rightarrow> fwlab_m3p \<Rightarrow> bool \<times> fwlab_m3p" where
  "m3p_pending_append subtype host_seq deltas count s =
     (if count = 0 \<or> count > 3 \<or> pending_count s \<ge> 4 then (False, s)
      else if pd_active (pending s ! unat (pending_tail s)) then (False, s)
      else
        let slot = \<lparr>pd_active = True, pd_subtype = subtype, pd_delta_count = count,
              pd_host_sequence = host_seq, pd_transaction_sequence = host_seq,
              pd_delta = take (unat count) deltas
                 @ replicate (M3P_MAX_DELTAS - unat count) zero_delta\<rparr>
        in (True, s\<lparr>pending := (pending s)[unat (pending_tail s) := slot],
              pending_tail := (pending_tail s + 1) mod 4,
              pending_count := pending_count s + 1\<rparr>))"

definition m3p_pending_front :: "fwlab_m3p \<Rightarrow> m3p_pending option" where
  "m3p_pending_front s =
     (if pending_count s = 0 \<or> \<not> pd_active (pending s ! unat (pending_head s)) then None
      else Some (pending s ! unat (pending_head s)))"

definition m3p_pending_pop :: "fwlab_m3p \<Rightarrow> fwlab_m3p" where
  "m3p_pending_pop s =
     (if pending_count s \<noteq> 0
      then s\<lparr>pending := (pending s)[unat (pending_head s) := zero_pending],
             pending_head := (pending_head s + 1) mod 4,
             pending_count := pending_count s - 1\<rparr>
      else s)"

definition m3p_pending_overlaps :: "fwlab_m3p \<Rightarrow> u16 \<Rightarrow> u16 \<Rightarrow> bool" where
  "m3p_pending_overlaps s first_lpn last_lpn \<longleftrightarrow>
     list_ex (\<lambda>ordinal.
        let pd = pending s ! ((unat (pending_head s) + ordinal) mod M3P_MAX_PENDING)
        in list_ex (\<lambda>d. d_lpn d \<ge> first_lpn \<and> d_lpn d \<le> last_lpn)
             (take (unat (pd_delta_count pd)) (pd_delta pd)))
       [0..<unat (pending_count s)]"

end
