(* ===== verification/M3p_Nfc.thy ===== *)
theory M3p_Nfc
  imports M3p_Mapping
begin

text \<open>
  The driver of the NAND controller, \<open>core/m3p/m3p_nfc.c\<close>: the staging frames the controller
  reads and writes, the numbering of controller operations, the two-phase child operations (read,
  program, erase) and their submission and completion.

  The controller is behind the function table \<open>fwlab_nfc_provider_ops\<close>
  (\<open>nfc_provider.h\<close>), so it is a parameter: a record of functions over an abstract controller
  state. During \<open>try_submit\<close> and \<open>step\<close> it may call back into the staging frames; it sees them
  through \<open>staging_read\<close>, and the writes it makes are returned as a list that is applied with
  \<open>staging_write\<close> in order.
\<close>

section \<open>The controller's function table\<close>

record nfc_submit_result =
  sub_disposition :: u32
  sub_reason :: u32

record nfc_step_result =
  stp_units_used :: u32
  stp_transitions :: u32

type_synonym staging_reader = "nfc_buffer_ref \<Rightarrow> u32 \<Rightarrow> bytes option"
type_synonym staging_writes = "(nfc_buffer_ref \<times> bytes) list"

record 'n nfc_provider =
  np_try_submit :: "staging_reader \<Rightarrow> nfc_request \<Rightarrow> 'n \<Rightarrow> nfc_submit_result \<times> staging_writes \<times> 'n"
  np_step :: "staging_reader \<Rightarrow> u32 \<Rightarrow> 'n \<Rightarrow> u32 \<times> nfc_step_result \<times> staging_writes \<times> 'n"
  np_poll :: "u32 \<Rightarrow> nfc_completion \<Rightarrow> u32 \<Rightarrow> 'n \<Rightarrow> u32 \<times> nfc_completion \<times> u32 \<times> 'n"
  np_reset_begin :: "u64 \<Rightarrow> u32 \<Rightarrow> 'n \<Rightarrow> u32 \<times> 'n"
  np_quiescent :: "u64 \<Rightarrow> u32 \<Rightarrow> 'n \<Rightarrow> u32 \<times> bool \<times> 'n"

section \<open>Staging frames\<close>

definition staging_ref_ok :: "nfc_buffer_ref \<Rightarrow> u32 \<Rightarrow> bool" where
  "staging_ref_ok r len \<longleftrightarrow> \<not> (br_controller_region r = 0 \<or> br_controller_region r > 3 \<or>
     br_reserved r \<noteq> 0 \<or> br_length r \<noteq> len)"

definition staging_read :: "fwlab_m3p \<Rightarrow> nfc_buffer_ref \<Rightarrow> u32 \<Rightarrow> bytes option" where
  "staging_read s source len =
     (if \<not> staging_ref_ok source len then None
      else
        let frame = unat (br_controller_region source - 1)
        in if br_offset source = 0 \<and> len = 4096 then Some (take 4096 (frame_main s ! frame))
           else if br_offset source = 4096 \<and> len = 128 then Some (take 128 (frame_oob s ! frame))
           else None)"

definition staging_write :: "nfc_buffer_ref \<Rightarrow> bytes \<Rightarrow> fwlab_m3p \<Rightarrow> u32 \<times> fwlab_m3p" where
  "staging_write destination source s =
     (let len = of_nat (length source)
      in if \<not> staging_ref_ok destination len then (FWLAB_NFC_API_INVALID_CONTRACT, s)
         else
           let frame = unat (br_controller_region destination - 1)
           in if br_offset destination = 0 \<and> length source = M3P_PAGE_BYTES
              then (FWLAB_NFC_API_OK, s\<lparr>frame_main := (frame_main s)[frame := source]\<rparr>)
              else if br_offset destination = 4096 \<and> length source = M3P_OOB_BYTES
              then (FWLAB_NFC_API_OK, s\<lparr>frame_oob := (frame_oob s)[frame := source]\<rparr>)
              else (FWLAB_NFC_API_INVALID_CONTRACT, s))"

definition staging_apply :: "staging_writes \<Rightarrow> fwlab_m3p \<Rightarrow> fwlab_m3p" where
  "staging_apply ws s = fold (\<lambda>(r, bs) s. snd (staging_write r bs s)) ws s"

section \<open>Operation numbers\<close>

definition token_available :: "fwlab_m3p \<Rightarrow> u32 \<Rightarrow> bool" where
  "token_available s count \<longleftrightarrow>
     (let limit = ucast (cfg_nfc_operation_uid_limit (config s)) :: u64
      in next_child_uid s \<noteq> 0 \<and> count \<noteq> 0 \<and> next_child_uid s \<le> limit \<and>
         ucast (count - 1) \<le> limit - next_child_uid s)"

definition allocate_token :: "fwlab_m3p \<Rightarrow> nfc_operation_token \<times> fwlab_m3p" where
  "allocate_token s =
     (\<lparr>tok_instance_nonce = cfg_nfc_instance_nonce (config s),
       tok_operation_uid = next_child_uid s,
       tok_controller_epoch = cfg_nfc_epoch (config s),
       tok_generation = ucast (next_child_uid s)\<rparr>,
      s\<lparr>next_child_uid := next_child_uid s + 1, child_starts := child_starts s + 1\<rparr>)"

definition request_common :: "u8 \<Rightarrow> nfc_ppa \<Rightarrow> fwlab_m3p \<Rightarrow> nfc_request \<times> fwlab_m3p" where
  "request_common kind ppa s =
     (let (tok, s) = allocate_token s
      in (zero_request\<lparr>nr_version := FWLAB_NFC_CONTRACT_VERSION, nr_size := sizeof_nfc_request,
            nr_operation := tok, nr_ppa := ppa, nr_cookie := tok_operation_uid tok,
            nr_scheduling_group := 1, nr_kind := kind\<rparr>, s))"

definition main_ref :: "u8 \<Rightarrow> nfc_buffer_ref" where
  "main_ref frame = \<lparr>br_controller_region = ucast frame + 1, br_offset = 0, br_length = 4096,
     br_reserved = 0\<rparr>"

definition oob_ref :: "u8 \<Rightarrow> nfc_buffer_ref" where
  "oob_ref frame = \<lparr>br_controller_region = ucast frame + 1, br_offset = 4096, br_length = 128,
     br_reserved = 0\<rparr>"

section \<open>Starting a child operation\<close>

definition m3p_child_read_start :: "u8 \<Rightarrow> nfc_ppa \<Rightarrow> fwlab_m3p \<Rightarrow> spine_result \<times> fwlab_m3p" where
  "m3p_child_read_start frame ppa s =
     (if ch_state (child s) \<noteq> M3P_CHILD_IDLE \<or> frame \<ge> 3 \<or> \<not> token_available s 2
      then (FWLAB_SPINE_V0_NO_CAPACITY, s)
      else
        let (r1, s) = request_common FWLAB_NFC_READ_TRIGGER ppa s;
            (r2, s) = request_common FWLAB_NFC_READ_TRANSFER ppa s
        in (FWLAB_SPINE_V0_OK,
            s\<lparr>child := zero_child\<lparr>ch_kind := M3P_CHILD_READ, ch_state := M3P_CHILD_SUBMIT_FIRST,
               ch_frame := frame, ch_ppa := ppa,
               ch_first := r1\<lparr>nr_region_mask := FWLAB_NFC_REGION_MASK\<rparr>,
               ch_second := r2\<lparr>nr_region_mask := FWLAB_NFC_REGION_MASK,
                 nr_main := main_ref frame, nr_oob := oob_ref frame\<rparr>\<rparr>\<rparr>))"

definition m3p_child_program_start :: "u8 \<Rightarrow> nfc_ppa \<Rightarrow> fwlab_m3p \<Rightarrow> spine_result \<times> fwlab_m3p" where
  "m3p_child_program_start frame ppa s =
     (if ch_state (child s) \<noteq> M3P_CHILD_IDLE \<or> frame \<ge> 3 \<or> \<not> token_available s 2
      then (FWLAB_SPINE_V0_NO_CAPACITY, s)
      else
        let (r1, s) = request_common FWLAB_NFC_PROGRAM_TRANSFER ppa s;
            (r2, s) = request_common FWLAB_NFC_PROGRAM_EXECUTE ppa s
        in (FWLAB_SPINE_V0_OK,
            s\<lparr>child := zero_child\<lparr>ch_kind := M3P_CHILD_PROGRAM, ch_state := M3P_CHILD_SUBMIT_FIRST,
               ch_frame := frame, ch_ppa := ppa,
               ch_first := r1\<lparr>nr_region_mask := FWLAB_NFC_REGION_MASK,
                 nr_main := main_ref frame, nr_oob := oob_ref frame\<rparr>,
               ch_second := r2\<lparr>nr_region_mask := FWLAB_NFC_REGION_MASK\<rparr>\<rparr>\<rparr>))"

definition m3p_child_erase_start :: "nfc_ppa \<Rightarrow> fwlab_m3p \<Rightarrow> spine_result \<times> fwlab_m3p" where
  "m3p_child_erase_start ppa s =
     (if ch_state (child s) \<noteq> M3P_CHILD_IDLE \<or> \<not> token_available s 1
      then (FWLAB_SPINE_V0_NO_CAPACITY, s)
      else
        let ppa = ppa\<lparr>ppa_page := 0\<rparr>;
            (r1, s) = request_common FWLAB_NFC_ERASE ppa s
        in (FWLAB_SPINE_V0_OK,
            s\<lparr>child := zero_child\<lparr>ch_kind := M3P_CHILD_ERASE, ch_state := M3P_CHILD_SUBMIT_FIRST,
               ch_ppa := ppa, ch_first := r1\<rparr>\<rparr>))"

definition operation_token_equal :: "nfc_operation_token \<Rightarrow> nfc_operation_token \<Rightarrow> bool" where
  "operation_token_equal l r \<longleftrightarrow>
     tok_instance_nonce l = tok_instance_nonce r \<and> tok_operation_uid l = tok_operation_uid r \<and>
     tok_controller_epoch l = tok_controller_epoch r \<and> tok_generation l = tok_generation r"

section \<open>Submission and completion\<close>

definition child_request :: "m3p_child \<Rightarrow> bool \<Rightarrow> nfc_request" where
  "child_request c is_first = (if is_first then ch_first c else ch_second c)"

definition m3p_nfc_submit_or_step ::
  "'n nfc_provider \<Rightarrow> fwlab_m3p \<times> 'n \<Rightarrow> u32 \<Rightarrow> bool \<times> u32 \<times> fwlab_m3p \<times> 'n" where
  "m3p_nfc_submit_or_step nfc w transitions =
     (let (s, n) = w; c = child s in
      if ch_state c = M3P_CHILD_SUBMIT_FIRST \<or> ch_state c = M3P_CHILD_SUBMIT_SECOND then
        let is_first = (ch_state c = M3P_CHILD_SUBMIT_FIRST);
            (sub, ws, n) = np_try_submit nfc (staging_read s) (child_request c is_first) n;
            s = staging_apply ws s
        in if sub_disposition sub = FWLAB_NFC_ACCEPTED then
             (True, transitions + 1,
              s\<lparr>child := c\<lparr>ch_state := if is_first then M3P_CHILD_WAIT_FIRST
                                        else M3P_CHILD_WAIT_SECOND\<rparr>\<rparr>, n)
           else if sub_disposition sub = FWLAB_NFC_REJECTED then
             (True, transitions + 1,
              s\<lparr>child := c\<lparr>ch_state := M3P_CHILD_FAILED,
                  ch_fault_code := if sub_reason sub = 0 then ucast FWLAB_NFC_REASON_INTERNAL
                                   else sub_reason sub\<rparr>\<rparr>, n)
           else (False, transitions, s, n)
      else if ch_state c \<noteq> M3P_CHILD_WAIT_FIRST \<and> ch_state c \<noteq> M3P_CHILD_WAIT_SECOND then
        (False, transitions, s, n)
      else
        let (result, st, ws, n) = np_step nfc (staging_read s) 1 n;
            s = staging_apply ws s
        in if result \<noteq> FWLAB_NFC_API_OK then
             (True, transitions,
              s\<lparr>child := c\<lparr>ch_state := M3P_CHILD_FAILED, ch_fault_code := result\<rparr>\<rparr>, n)
           else (stp_units_used st \<noteq> 0 \<or> stp_transitions st \<noteq> 0,
                 transitions + stp_transitions st, s, n))"

text \<open>The test a completion has to pass before it is taken as the success of a request.\<close>

definition completion_matches :: "nfc_request \<Rightarrow> nfc_completion \<Rightarrow> bool" where
  "completion_matches rq cp \<longleftrightarrow> \<not> (
     \<not> operation_token_equal (nc_operation cp) (nr_operation rq) \<or>
     nc_operation_kind cp \<noteq> nr_kind rq \<or>
     nc_ppa cp \<noteq> nr_ppa rq \<or>
     nc_terminal cp \<noteq> FWLAB_NFC_TERMINAL_SUCCESS \<or>
     (nc_physical_outcome cp = FWLAB_NFC_PHYS_NO_EFFECT \<and>
       (nr_kind rq = FWLAB_NFC_PROGRAM_EXECUTE \<or> nr_kind rq = FWLAB_NFC_ERASE)))"

text \<open>The media facts of a read come from its first phase.\<close>

definition keep_trigger_facts :: "nfc_completion \<Rightarrow> nfc_completion \<Rightarrow> nfc_completion" where
  "keep_trigger_facts f cp =
     cp\<lparr>nc_base_erase_generation := nc_base_erase_generation f,
        nc_final_erase_generation := nc_final_erase_generation f,
        nc_block_health := nc_block_health f, nc_ecc_status := nc_ecc_status f,
        nc_corrected_main_bits := nc_corrected_main_bits f,
        nc_corrected_oob_bits := nc_corrected_oob_bits f\<rparr>"

definition child_complete :: "u32 \<Rightarrow> nfc_completion \<Rightarrow> m3p_child \<Rightarrow> m3p_child" where
  "child_complete count cp c =
     (let is_first = (ch_state c = M3P_CHILD_WAIT_FIRST)
      in if count \<noteq> 1 \<or> \<not> completion_matches (child_request c is_first) cp then
           c\<lparr>ch_completion := cp, ch_state := M3P_CHILD_FAILED,
             ch_fault_code := if nc_reason cp = 0 then ucast FWLAB_NFC_REASON_INTERNAL
                              else ucast (nc_reason cp)\<rparr>
         else if is_first \<and> ch_kind c \<noteq> M3P_CHILD_ERASE then
           c\<lparr>ch_completion := cp, ch_second := (ch_second c)\<lparr>nr_cache := nc_cache cp\<rparr>,
             ch_state := M3P_CHILD_SUBMIT_SECOND\<rparr>
         else
           c\<lparr>ch_completion := if ch_kind c = M3P_CHILD_READ
                              then keep_trigger_facts (ch_completion c) cp else cp,
             ch_state := M3P_CHILD_DONE\<rparr>)"

definition m3p_nfc_poll ::
  "'n nfc_provider \<Rightarrow> fwlab_m3p \<times> 'n \<Rightarrow> u32 \<Rightarrow> bool \<times> u32 \<times> fwlab_m3p \<times> 'n" where
  "m3p_nfc_poll nfc w events =
     (let (s, n) = w; c = child s in
      if ch_state c \<noteq> M3P_CHILD_WAIT_FIRST \<and> ch_state c \<noteq> M3P_CHILD_WAIT_SECOND then
        (False, events, s, n)
      else
        let (result, cp, count, n) = np_poll nfc 1 zero_completion 1 n
        in if result \<noteq> FWLAB_NFC_API_OK then
             (True, events,
              s\<lparr>child := c\<lparr>ch_state := M3P_CHILD_FAILED, ch_fault_code := result\<rparr>\<rparr>, n)
           else if count = 0 then (False, events, s, n)
           else (True, events + 1, s\<lparr>child := child_complete count cp c\<rparr>, n))"

definition m3p_child_consume :: "fwlab_m3p \<Rightarrow> fwlab_m3p" where
  "m3p_child_consume s = s\<lparr>child := zero_child\<rparr>"

end
