(* ===== verification/M3p_Checkpoint.thy ===== *)
theory M3p_Checkpoint
  imports M3p_Nfc M3p_Codec
begin

text \<open>
  The parts of \<open>core/m3p/m3p_runtime.c\<close> that format a medium, end an operation, program a map
  transaction and take a checkpoint. \<open>True\<close> beside the new state stands for a C result of 1. The
  staging frames hold whole pages, so \<open>m3p_crc32c(frame, M3P_PAGE_BYTES)\<close> is the CRC of the frame.
\<close>

section \<open>Staging a page\<close>

definition set_main :: "nat \<Rightarrow> bytes \<Rightarrow> fwlab_m3p \<Rightarrow> fwlab_m3p" where
  "set_main f bs s = s\<lparr>frame_main := (frame_main s)[f := bs]\<rparr>"

definition set_oob :: "nat \<Rightarrow> bytes \<Rightarrow> fwlab_m3p \<Rightarrow> fwlab_m3p" where
  "set_oob f bs s = s\<lparr>frame_oob := (frame_oob s)[f := bs]\<rparr>"

text \<open>\<open>m3p_child_program_start(m3p, 0, ppa) == FWLAB_SPINE_V0_OK\<close>\<close>

definition program_frame0 :: "nfc_ppa \<Rightarrow> fwlab_m3p \<Rightarrow> bool \<times> fwlab_m3p" where
  "program_frame0 ppa s =
     (let (r, s) = m3p_child_program_start 0 ppa s in (r = FWLAB_SPINE_V0_OK, s))"

definition erase_block :: "u8 \<Rightarrow> fwlab_m3p \<Rightarrow> bool \<times> fwlab_m3p" where
  "erase_block b s =
     (let (r, s) = m3p_child_erase_start (ppa_at (ucast b) 0) s in (r = FWLAB_SPINE_V0_OK, s))"

section \<open>Formatting\<close>

definition checkpoint_volume_fields :: "fwlab_m3p \<Rightarrow> m3p_checkpoint_commit \<Rightarrow> m3p_checkpoint_commit" where
  "checkpoint_volume_fields s c =
     c\<lparr>cc_format_version := volume_format s, cc_lba_count := volume_lba_count s,
       cc_lba_bytes := 512, cc_geometry := m3p_geometry\<rparr>"

definition prepare_metadata_oob ::
  "u8 \<Rightarrow> u32 \<Rightarrow> u32 \<Rightarrow> u32 \<Rightarrow> u32 \<Rightarrow> u32 \<Rightarrow> u32 \<Rightarrow> u32 \<Rightarrow> fwlab_m3p \<Rightarrow> fwlab_m3p" where
  "prepare_metadata_oob page_type record_seq txn pred res generation covered frontier s =
     set_oob 0 (m3p_encode_oob
       (zero_oob\<lparr>ob_page_type := page_type, ob_flags := 1, ob_namespace_id := UINT32_MAX,
          ob_lpn := UINT32_MAX,
          ob_erase_generation := block_erase_generation s ! unat (ppa_block (ch_ppa (child s))),
          ob_record_sequence := record_seq, ob_transaction_sequence := txn,
          ob_predecessor_map_sequence := pred, ob_resulting_map_sequence := res,
          ob_main_length := 4096, ob_main_crc := m3p_crc32c (frame_main s ! 0),
          ob_checkpoint_generation := generation, ob_checkpoint_covered_sequence := covered,
          ob_durable_frontier := frontier, ob_media_uuid := cfg_media_uuid (config s),
          ob_source_block := UINT8_MAX, ob_source_page := UINT8_MAX\<rparr>)) s"

definition start_format_body :: "fwlab_m3p \<Rightarrow> bool \<times> fwlab_m3p" where
  "start_format_body s =
     (let ppa = ppa_at 12 0 in
      if record_sequence s \<ge> cfg_record_sequence_limit (config s) then (False, s)
      else
        let s = set_main 0 (m3p_encode_checkpoint_body (durable s)) s;
            s = s\<lparr>child := (child s)\<lparr>ch_ppa := ppa\<rparr>\<rparr>;
            s = s\<lparr>record_sequence := record_sequence s + 1\<rparr>;
            s = prepare_metadata_oob M3P_PAGE_CHECKPOINT_BODY (record_sequence s) 0 0 0 1 0 0 s;
            s = s\<lparr>checkpoint_body_main_crc := m3p_crc32c (frame_main s ! 0),
                  checkpoint_body_oob_crc := m3p_crc32c (frame_oob s ! 0)\<rparr>
        in program_frame0 ppa s)"

definition start_format_commit :: "fwlab_m3p \<Rightarrow> bool \<times> fwlab_m3p" where
  "start_format_commit s =
     (let ppa = ppa_at 12 1 in
      if record_sequence s \<ge> cfg_record_sequence_limit (config s) then (False, s)
      else
        let commit = checkpoint_volume_fields s
              (zero_commit\<lparr>cc_generation := 1, cc_body_block := 12, cc_body_page := 0,
                 cc_body_main_crc := checkpoint_body_main_crc s,
                 cc_body_oob_crc := checkpoint_body_oob_crc s, cc_journal_generation := 1,
                 cc_commit_record_sequence := record_sequence s + 1,
                 cc_media_uuid := cfg_media_uuid (config s)\<rparr>);
            s = set_main 0 (m3p_encode_checkpoint_commit commit) s;
            s = s\<lparr>child := (child s)\<lparr>ch_ppa := ppa\<rparr>\<rparr>;
            s = s\<lparr>record_sequence := record_sequence s + 1\<rparr>;
            s = prepare_metadata_oob M3P_PAGE_CHECKPOINT_COMMIT (record_sequence s) 0 0 0 1 0 0 s
        in program_frame0 ppa s)"

definition m3p_live :: "fwlab_m3p \<Rightarrow> bool" where
  "m3p_live s \<longleftrightarrow> magic s = M3P_MAGIC \<and> initialized s \<and> \<not> quarantined s"

definition child_credit_available :: "fwlab_m3p \<Rightarrow> u32 \<Rightarrow> bool" where
  "child_credit_available s required \<longleftrightarrow>
     (let limit = ucast (cfg_nfc_operation_uid_limit (config s)) :: u64
      in required \<noteq> 0 \<and> next_child_uid s \<noteq> 0 \<and> next_child_uid s \<le> limit \<and>
         ucast (required - 1) \<le> limit - next_child_uid s)"

definition format_start :: "u64 \<Rightarrow> u16 \<Rightarrow> fwlab_m3p \<Rightarrow> spine_result \<times> fwlab_m3p" where
  "format_start lba_count version s =
     (if \<not> m3p_live s \<or> ready s \<or> admission_closed s \<or>
         work_kind s \<noteq> FWLAB_M3P_MAINTENANCE_NONE \<or>
         op_state (operation s) \<noteq> M3P_OPERATION_FREE \<or>
         \<not> child_credit_available s 4
      then (FWLAB_SPINE_V0_WRONG_STATE, s)
      else (FWLAB_SPINE_V0_OK,
            (m3p_mapping_reset s)\<lparr>volume_format := version, volume_lba_count := lba_count,
               expected_lba_count := 0, work_kind := FWLAB_M3P_MAINTENANCE_FORMAT,
               work_state := M3P_FORMAT_BODY\<rparr>))"

definition fwlab_m3p_format_start :: "fwlab_m3p \<Rightarrow> spine_result \<times> fwlab_m3p" where
  "fwlab_m3p_format_start s = format_start FWLAB_M3P_NAMESPACE_LBAS M3P_FORMAT_VERSION s"

definition fwlab_m3p_format_volume_start :: "u64 \<Rightarrow> fwlab_m3p \<Rightarrow> spine_result \<times> fwlab_m3p" where
  "fwlab_m3p_format_volume_start lba_count s =
     (if \<not> m3p_volume_lba_count_valid lba_count then (FWLAB_SPINE_V0_INVALID, s)
      else format_start lba_count M3P_VOLUME_FORMAT_VERSION s)"

definition format_drive :: "fwlab_m3p \<Rightarrow> bool \<times> fwlab_m3p" where
  "format_drive s =
     (let cs = ch_state (child s) in
      if cs = M3P_CHILD_FAILED then
        (True, s\<lparr>work_state := M3P_WORK_FAILED, quarantined := True\<rparr>)
      else if work_state s = M3P_FORMAT_BODY then
        (if cs = M3P_CHILD_IDLE then start_format_body s
         else if cs = M3P_CHILD_DONE then
           (let s = m3p_child_consume s
            in (True, s\<lparr>block_next_page := (block_next_page s)[12 := 1],
                        work_state := M3P_FORMAT_COMMIT\<rparr>))
         else (False, s))
      else if work_state s = M3P_FORMAT_COMMIT then
        (if cs = M3P_CHILD_IDLE then start_format_commit s
         else if cs = M3P_CHILD_DONE then
           (let s = m3p_child_consume s
            in (True, s\<lparr>block_next_page := (block_next_page s)[12 := 2],
                        checkpoint_page := 2, checkpoint_generation := 1,
                        checkpoint_covered_sequence := 0, ready := True,
                        work_state := M3P_FORMAT_DONE,
                        work_kind := FWLAB_M3P_MAINTENANCE_NONE\<rparr>))
         else (False, s))
      else (False, s))"

section \<open>Ending an operation\<close>

definition orphan_targets :: "m3p_delta list \<Rightarrow> fwlab_m3p \<Rightarrow> fwlab_m3p" where
  "orphan_targets ds s =
     fold (\<lambda>d s. if me_state (d_target d) = M3P_L2P_VALUE
                 then p2l_set (me_block (d_target d)) (me_page (d_target d)) M3P_P2L_ORPHAN s
                 else s) ds s"

definition m3p_operation_fail :: "u32 \<Rightarrow> bool \<Rightarrow> fwlab_m3p \<Rightarrow> fwlab_m3p" where
  "m3p_operation_fail fault_code effect_seen s =
     (let s = (if ch_state (child s) = M3P_CHILD_FAILED \<or> ch_state (child s) = M3P_CHILD_DONE
               then m3p_child_consume s else s);
          op = operation s;
          s = (if rq_operation (op_request op) = FWLAB_BLOCK_V0_WRITE \<and> \<not> op_commit_slot op
               then orphan_targets (take (unat (op_delta_count op)) (op_delta op)) s else s);
          fault = (if fault_code = 0 then 1 else fault_code)
      in s\<lparr>operation := op\<lparr>op_fault_code := fault, op_state := M3P_OPERATION_FAILED,
           op_status := (op_status op)\<lparr>bst_state := FWLAB_BLOCK_V0_STATE_TERMINAL,
             bst_outcome := if op_cancel_requested op then FWLAB_BLOCK_V0_CANCELLED
                            else FWLAB_BLOCK_V0_FAILED,
             bst_effect := if effect_seen then FWLAB_BLOCK_V0_EFFECT_UNKNOWN_PREFIX
                           else FWLAB_BLOCK_V0_EFFECT_NONE,
             bst_fault_domain := 1, bst_fault_code := fault, bst_completed_lbas := 0,
             bst_data_bytes := 0, bst_durability_witness := FWLAB_BLOCK_V0_WITNESS_NONE,
             bst_frontier0 := 0, bst_frontier1 := 0\<rparr>\<rparr>\<rparr>)"

definition m3p_operation_succeed :: "block_witness \<Rightarrow> u32 \<Rightarrow> fwlab_m3p \<Rightarrow> fwlab_m3p" where
  "m3p_operation_succeed witness frontier_sequence s =
     (let op = operation s; rq = op_request op;
          durable_w = (witness = FWLAB_BLOCK_V0_WITNESS_SELF_DURABLE \<or>
                       witness = FWLAB_BLOCK_V0_WITNESS_FRONTIER_DURABLE)
      in s\<lparr>operation := op\<lparr>op_state := M3P_OPERATION_TERMINAL,
           op_status := (op_status op)\<lparr>bst_state := FWLAB_BLOCK_V0_STATE_TERMINAL,
             bst_outcome := FWLAB_BLOCK_V0_SUCCEEDED, bst_effect := FWLAB_BLOCK_V0_EFFECT_FULL,
             bst_completed_lbas := rq_lba_count rq,
             bst_data_bytes := if rq_operation rq = FWLAB_BLOCK_V0_READ \<or>
                                  rq_operation rq = FWLAB_BLOCK_V0_WRITE
                               then bs_length (rq_buffer_span rq) else 0,
             bst_durability_witness := witness,
             bst_frontier0 := if durable_w then cfg_provider_nonce (config s)
                              else bst_frontier0 (op_status op),
             bst_frontier1 := if durable_w then ucast frontier_sequence
                              else bst_frontier1 (op_status op)\<rparr>\<rparr>\<rparr>)"

section \<open>Programming a map transaction\<close>

definition pending_record :: "m3p_pending \<Rightarrow> fwlab_m3p \<Rightarrow> m3p_map_record" where
  "pending_record pd s =
     zero_map_record\<lparr>mr_subtype := pd_subtype pd, mr_delta_count := pd_delta_count pd,
       mr_flags := 1, mr_transaction_sequence := pd_transaction_sequence pd,
       mr_predecessor_map_sequence := map_sequence s,
       mr_resulting_map_sequence := map_sequence s + 1,
       mr_host_sequence := pd_host_sequence pd, mr_captured_frontier := pd_host_sequence pd,
       mr_gc_source_block := UINT8_MAX, mr_gc_destination_block := UINT8_MAX,
       mr_delta := take (unat (pd_delta_count pd)) (pd_delta pd)
          @ replicate (M3P_MAX_DELTAS - unat (pd_delta_count pd)) zero_delta\<rparr>"

definition prepare_map_program :: "m3p_pending \<Rightarrow> fwlab_m3p \<Rightarrow> bool \<times> fwlab_m3p" where
  "prepare_map_program pd s =
     (let ppa = ppa_at (ucast (active_journal_block s)) (ucast (journal_page s));
          next_record = record_sequence s + 1;
          next_map = map_sequence s + 1;
          limit = cfg_record_sequence_limit (config s)
      in if journal_page s \<ge> 32 \<or> next_record = 0 \<or> next_record > limit \<or>
            next_map = 0 \<or> next_map > limit then (False, s)
         else
           let s = set_main 0 (m3p_encode_map (pending_record pd s)) s;
               s = set_oob 0 (m3p_encode_oob
                 (zero_oob\<lparr>ob_page_type := M3P_PAGE_MAP_TXN, ob_flags := 1,
                    ob_copy_kind := M3P_COPY_HOST, ob_namespace_id := 1, ob_lpn := UINT32_MAX,
                    ob_erase_generation := block_erase_generation s ! unat (ppa_block ppa),
                    ob_record_sequence := next_record,
                    ob_transaction_sequence := pd_transaction_sequence pd,
                    ob_predecessor_map_sequence := map_sequence s,
                    ob_resulting_map_sequence := next_map, ob_main_length := 4096,
                    ob_main_crc := m3p_crc32c (frame_main s ! 0),
                    ob_durable_frontier := pd_host_sequence pd,
                    ob_media_uuid := cfg_media_uuid (config s),
                    ob_source_block := UINT8_MAX, ob_source_page := UINT8_MAX\<rparr>)) s
           in program_frame0 ppa s)"

section \<open>Checkpoints\<close>

definition checkpoint_prepare_body :: "fwlab_m3p \<Rightarrow> bool \<times> fwlab_m3p" where
  "checkpoint_prepare_body s =
     (let ppa = ppa_at (ucast (checkpoint_target_block s)) (ucast (checkpoint_target_page s));
          record_seq = record_sequence s + 1;
          generation = checkpoint_generation s + 1
      in if record_seq = 0 \<or> record_seq > cfg_record_sequence_limit (config s) \<or> generation = 0
         then (False, s)
         else
           let s = set_main 0 (m3p_encode_checkpoint_body (durable s)) s;
               crc = m3p_crc32c (frame_main s ! 0);
               s = set_oob 0 (m3p_encode_oob
                 (zero_oob\<lparr>ob_page_type := M3P_PAGE_CHECKPOINT_BODY, ob_flags := 1,
                    ob_namespace_id := UINT32_MAX, ob_lpn := UINT32_MAX,
                    ob_erase_generation := block_erase_generation s ! unat (ppa_block ppa),
                    ob_record_sequence := record_seq, ob_main_length := 4096, ob_main_crc := crc,
                    ob_checkpoint_generation := generation,
                    ob_checkpoint_covered_sequence := map_sequence s,
                    ob_durable_frontier := durable_frontier s,
                    ob_media_uuid := cfg_media_uuid (config s),
                    ob_source_block := UINT8_MAX, ob_source_page := UINT8_MAX\<rparr>)) s;
               s = s\<lparr>checkpoint_body_main_crc := crc,
                     checkpoint_body_oob_crc := m3p_crc32c (frame_oob s ! 0)\<rparr>
           in program_frame0 ppa s)"

definition checkpoint_commit_of :: "fwlab_m3p \<Rightarrow> m3p_checkpoint_commit" where
  "checkpoint_commit_of s = checkpoint_volume_fields s
     (zero_commit\<lparr>cc_generation := checkpoint_generation s + 1,
        cc_body_block := checkpoint_target_block s, cc_body_page := checkpoint_target_page s,
        cc_body_erase_generation := block_erase_generation s ! unat (checkpoint_target_block s),
        cc_body_main_crc := checkpoint_body_main_crc s,
        cc_body_oob_crc := checkpoint_body_oob_crc s,
        cc_covered_map_sequence := map_sequence s, cc_durable_frontier := durable_frontier s,
        cc_journal_generation := journal_generation s + 1,
        cc_commit_record_sequence := record_sequence s + 1,
        cc_media_uuid := cfg_media_uuid (config s)\<rparr>)"

definition checkpoint_prepare_commit :: "fwlab_m3p \<Rightarrow> bool \<times> fwlab_m3p" where
  "checkpoint_prepare_commit s =
     (let ppa = ppa_at (ucast (checkpoint_target_block s)) (ucast (checkpoint_target_page s) + 1);
          record_seq = record_sequence s + 1
      in if record_seq = 0 \<or> record_seq > cfg_record_sequence_limit (config s) \<or>
            journal_generation s = UINT32_MAX then (False, s)
         else
           let commit = checkpoint_commit_of s;
               s = set_main 0 (m3p_encode_checkpoint_commit commit) s;
               s = set_oob 0 (m3p_encode_oob
                 (zero_oob\<lparr>ob_page_type := M3P_PAGE_CHECKPOINT_COMMIT, ob_flags := 1,
                    ob_namespace_id := UINT32_MAX, ob_lpn := UINT32_MAX,
                    ob_erase_generation := cc_body_erase_generation commit,
                    ob_record_sequence := record_seq, ob_main_length := 4096,
                    ob_main_crc := m3p_crc32c (frame_main s ! 0),
                    ob_checkpoint_generation := checkpoint_generation s + 1,
                    ob_checkpoint_covered_sequence := map_sequence s,
                    ob_durable_frontier := durable_frontier s,
                    ob_media_uuid := cfg_media_uuid (config s),
                    ob_source_block := UINT8_MAX, ob_source_page := UINT8_MAX\<rparr>)) s
           in program_frame0 ppa s)"

definition m3p_start_checkpoint :: "m3p_operation_state \<Rightarrow> fwlab_m3p \<Rightarrow> bool \<times> fwlab_m3p" where
  "m3p_start_checkpoint return_state s =
     (if pending_count s \<noteq> 0 \<or> checkpoint_flow s \<noteq> 0 then (False, s)
      else
        let s = s\<lparr>checkpoint_flow := 1, checkpoint_return_state := return_state,
                  checkpoint_rotating := False, checkpoint_old_block := active_checkpoint_block s\<rparr>
        in if unat (checkpoint_page s) + 2 \<le> M3P_PAGES_PER_BLOCK then
             (True, s\<lparr>checkpoint_target_block := active_checkpoint_block s,
                      checkpoint_target_page := checkpoint_page s,
                      checkpoint_old_journal := active_journal_block s,
                      operation := (operation s)\<lparr>op_state := M3P_OPERATION_CHECKPOINT\<rparr>\<rparr>)
           else if block_next_page s ! unat (inactive_checkpoint_block s) \<noteq> 0 then
             (False, s\<lparr>checkpoint_flow := 0\<rparr>)
           else
             (True, s\<lparr>checkpoint_rotating := True,
                      checkpoint_target_block := inactive_checkpoint_block s,
                      checkpoint_target_page := 0,
                      checkpoint_old_journal := active_journal_block s,
                      operation := (operation s)\<lparr>op_state := M3P_OPERATION_CHECKPOINT\<rparr>\<rparr>))"

text \<open>What every erase completion does to the directory and the page states of its block.\<close>

definition block_erased :: "u8 \<Rightarrow> fwlab_m3p \<Rightarrow> fwlab_m3p" where
  "block_erased b s =
     m3p_child_consume (p2l_fill_block b M3P_P2L_FREE
       (s\<lparr>block_erase_generation := (block_erase_generation s)
            [unat b := nc_final_erase_generation (ch_completion (child s))],
          block_erase_count := (block_erase_count s)[unat b := block_erase_count s ! unat b + 1],
          block_next_page := (block_next_page s)[unat b := 0]\<rparr>))"

definition checkpoint_body_done :: "fwlab_m3p \<Rightarrow> fwlab_m3p" where
  "checkpoint_body_done s =
     (let s = m3p_child_consume s
      in s\<lparr>record_sequence := record_sequence s + 1, checkpoint_flow := 2\<rparr>)"

definition checkpoint_commit_done :: "fwlab_m3p \<Rightarrow> fwlab_m3p" where
  "checkpoint_commit_done s =
     (let s = m3p_child_consume s;
          s = s\<lparr>record_sequence := record_sequence s + 1,
                checkpoint_generation := checkpoint_generation s + 1,
                checkpoint_covered_sequence := map_sequence s\<rparr>;
          s = (if checkpoint_rotating s
               then s\<lparr>inactive_checkpoint_block := active_checkpoint_block s,
                      active_checkpoint_block := checkpoint_target_block s\<rparr>
               else s);
          s = s\<lparr>checkpoint_page := checkpoint_target_page s + 2\<rparr>;
          s = s\<lparr>block_next_page := (block_next_page s)
                   [unat (active_checkpoint_block s) := checkpoint_page s]\<rparr>
      in s\<lparr>active_journal_block := inactive_journal_block s,
           inactive_journal_block := checkpoint_old_journal s,
           journal_page := 0, journal_generation := journal_generation s + 1,
           checkpoint_flow := 3\<rparr>)"

definition checkpoint_return :: "fwlab_m3p \<Rightarrow> fwlab_m3p" where
  "checkpoint_return s =
     s\<lparr>checkpoint_flow := 0, operation := (operation s)\<lparr>op_state := checkpoint_return_state s\<rparr>\<rparr>"

definition checkpoint_journal_erased :: "fwlab_m3p \<Rightarrow> fwlab_m3p" where
  "checkpoint_journal_erased s =
     (let s = block_erased (checkpoint_old_journal s) s
      in if checkpoint_rotating s then s\<lparr>checkpoint_flow := 4\<rparr> else checkpoint_return s)"

definition checkpoint_old_erased :: "fwlab_m3p \<Rightarrow> fwlab_m3p" where
  "checkpoint_old_erased s =
     checkpoint_return ((block_erased (checkpoint_old_block s) s)\<lparr>checkpoint_rotating := False\<rparr>)"

definition m3p_checkpoint_drive :: "fwlab_m3p \<Rightarrow> bool \<times> fwlab_m3p" where
  "m3p_checkpoint_drive s =
     (let cs = ch_state (child s) in
      if cs = M3P_CHILD_FAILED then
        (True, (m3p_operation_fail (ch_fault_code (child s)) True s)\<lparr>quarantined := True\<rparr>)
      else if checkpoint_flow s = 1 then
        (if cs = M3P_CHILD_IDLE then checkpoint_prepare_body s
         else if cs = M3P_CHILD_DONE then (True, checkpoint_body_done s)
         else (False, s))
      else if checkpoint_flow s = 2 then
        (if cs = M3P_CHILD_IDLE then checkpoint_prepare_commit s
         else if cs = M3P_CHILD_DONE then (True, checkpoint_commit_done s)
         else (False, s))
      else if checkpoint_flow s = 3 then
        (if cs = M3P_CHILD_IDLE then erase_block (checkpoint_old_journal s) s
         else if cs = M3P_CHILD_DONE then (True, checkpoint_journal_erased s)
         else (False, s))
      else if checkpoint_flow s = 4 then
        (if cs = M3P_CHILD_IDLE then erase_block (checkpoint_old_block s) s
         else if cs = M3P_CHILD_DONE then (True, checkpoint_old_erased s)
         else (False, s))
      else (False, s))"

end
