(* ===== verification/M3p_Gc.thy ===== *)
theory M3p_Gc
  imports M3p_Checkpoint
begin

text \<open>
  Garbage collection, \<open>core/m3p/m3p_gc.c\<close>: choice of a victim block, collection of its live pages,
  relocation page by page, the switch transaction, the erase of the victim and the single
  replacement block for a failed program or erase. The drive function is split by work state, in
  the order of the C function.

  When a read-back header does not decode, the C code may leave part of it in
  \<open>recovered_data[0]\<close>; the instance is quarantined at that point and nothing reads the field, so
  the model leaves it unchanged.
\<close>

section \<open>Victim selection\<close>

definition gc_credit_available :: "fwlab_m3p \<Rightarrow> u32 \<Rightarrow> bool" where
  "gc_credit_available s count \<longleftrightarrow>
     (let limit = ucast (cfg_nfc_operation_uid_limit (config s)) :: u64
      in count \<noteq> 0 \<and> next_child_uid s \<noteq> 0 \<and> next_child_uid s \<le> limit \<and>
         ucast (count - 1) \<le> limit - next_child_uid s)"

definition p2l_pinned :: "m3p_p2l_state \<Rightarrow> bool" where
  "p2l_pinned st \<longleftrightarrow> st = M3P_P2L_DURABLE_PINNED \<or> st = M3P_P2L_VISIBLE_PENDING \<or>
     st = M3P_P2L_GC_SOURCE_PINNED \<or> st = M3P_P2L_GC_DEST_STAGED"

text \<open>The page loop of \<open>select_victim\<close>: counts of live and reclaimable pages; a pinned page ends
  the loop with a live count of 255.\<close>

fun scan_pages :: "m3p_p2l_state list \<Rightarrow> u8 \<Rightarrow> u8 \<Rightarrow> u8 \<times> u8" where
  "scan_pages [] live reclaim = (live, reclaim)"
| "scan_pages (st # sts) live reclaim =
     (if st = M3P_P2L_LIVE then scan_pages sts (live + 1) reclaim
      else if st = M3P_P2L_STALE \<or> st = M3P_P2L_ORPHAN then scan_pages sts live (reclaim + 1)
      else if p2l_pinned st then (UINT8_MAX, reclaim)
      else scan_pages sts live reclaim)"

definition scan_block :: "fwlab_m3p \<Rightarrow> nat \<Rightarrow> u8 \<times> u8" where
  "scan_block s block =
     scan_pages (map (\<lambda>page. p2l_at s (of_nat block) (of_nat page)) [0..<M3P_PAGES_PER_BLOCK]) 0 0"

definition victim_step ::
  "fwlab_m3p \<Rightarrow> (nat \<times> u8 \<times> u8) option \<Rightarrow> nat \<Rightarrow> (nat \<times> u8 \<times> u8) option" where
  "victim_step s best block =
     (if block_role s ! block \<noteq> M3P_ROLE_DATA \<or> block_next_page s ! block = 0 then best
      else
        let (live, reclaim) = scan_block s block
        in if live > 25 \<or> reclaim = 0 then best
           else case best of
               None \<Rightarrow> Some (block, reclaim, live)
             | Some (b, best_reclaimable, best_live) \<Rightarrow>
                 if reclaim > best_reclaimable \<or>
                    (reclaim = best_reclaimable \<and>
                     block_erase_count s ! block < block_erase_count s ! b) \<or>
                    (reclaim = best_reclaimable \<and>
                     block_erase_count s ! block = block_erase_count s ! b \<and> block < b)
                 then Some (block, reclaim, live) else best)"

definition select_victim :: "fwlab_m3p \<Rightarrow> (u8 \<times> u8 \<times> u8) option" where
  "select_victim s =
     (case foldl (victim_step s) None [0..<M3P_BLOCKS] of
        None \<Rightarrow> None
      | Some (b, reclaim, live) \<Rightarrow>
          if reclaim = 0 \<or> live > 25 then None else Some (of_nat b, live, reclaim))"

section \<open>Live pages of the victim\<close>

definition durable_at :: "fwlab_m3p \<Rightarrow> u8 \<Rightarrow> u8 \<Rightarrow> nat \<Rightarrow> bool" where
  "durable_at s block page lpn \<longleftrightarrow>
     me_state (durable s ! lpn) = M3P_L2P_VALUE \<and> me_block (durable s ! lpn) = block \<and>
     me_page (durable s ! lpn) = page"

fun collect_pages :: "u8 list \<Rightarrow> u8 \<Rightarrow> fwlab_m3p \<Rightarrow> u8 option \<times> fwlab_m3p" where
  "collect_pages [] count s = (Some count, s)"
| "collect_pages (page # pages) count s =
     (if p2l_at s (gc_victim s) page \<noteq> M3P_P2L_LIVE then collect_pages pages count s
      else case find (durable_at s (gc_victim s) page) [0..<M3P_LPN_COUNT] of
          None \<Rightarrow> (None, s)
        | Some lpn \<Rightarrow>
            if count \<ge> 25 then (None, s)
            else collect_pages pages (count + 1)
                   (s\<lparr>gc_source_page := (gc_source_page s)[unat count := page],
                      gc_source_lpn := (gc_source_lpn s)[unat count := of_nat lpn]\<rparr>))"

definition m3p_gc_collect_live_pages :: "fwlab_m3p \<Rightarrow> bool \<times> fwlab_m3p" where
  "m3p_gc_collect_live_pages s =
     (let (count, s) = collect_pages (map of_nat [0..<M3P_PAGES_PER_BLOCK]) 0 s
      in (count = Some (gc_live_count s), s))"

section \<open>Starting a collection\<close>

definition gc_start_ready :: "fwlab_m3p \<Rightarrow> bool" where
  "gc_start_ready s \<longleftrightarrow> \<not> (
     magic s \<noteq> M3P_MAGIC \<or> \<not> initialized s \<or> \<not> ready s \<or> quarantined s \<or>
     admission_closed s \<or> work_kind s \<noteq> FWLAB_M3P_MAINTENANCE_NONE \<or>
     op_state (operation s) \<noteq> M3P_OPERATION_FREE \<or> pending_count s \<noteq> 0 \<or>
     ch_state (child s) \<noteq> M3P_CHILD_IDLE \<or>
     block_role s ! unat (reserve_block s) \<noteq> M3P_ROLE_RESERVE \<or>
     block_health s ! unat (reserve_block s) \<noteq> FWLAB_NFC_BLOCK_GOOD \<or>
     block_next_page s ! unat (reserve_block s) \<noteq> 0)"

definition gc_begin :: "u8 \<Rightarrow> u8 \<Rightarrow> u8 \<Rightarrow> fwlab_m3p \<Rightarrow> fwlab_m3p" where
  "gc_begin victim live reclaimable s =
     s\<lparr>work_kind := FWLAB_M3P_MAINTENANCE_GC, work_state := M3P_GC_PREPARE,
       gc_uid := map_sequence s + 1, gc_victim := victim, gc_destination := reserve_block s,
       gc_live_count := live, gc_moved := 0, gc_reclaimable := reclaimable,
       gc_switch_sequence := 0, gc_fault_code := 0, gc_delta := replicate 25 zero_delta,
       gc_relocation_sequence := replicate 25 0\<rparr>"

definition fwlab_m3p_force_gc_start :: "fwlab_m3p \<Rightarrow> spine_result \<times> fwlab_m3p" where
  "fwlab_m3p_force_gc_start s =
     (if \<not> gc_start_ready s then (FWLAB_SPINE_V0_WRONG_STATE, s)
      else case select_victim s of
          None \<Rightarrow> (FWLAB_SPINE_V0_WRONG_STATE, s)
        | Some (victim, live, reclaimable) \<Rightarrow>
            if unat live + 1 > M3P_PAGES_PER_BLOCK then (FWLAB_SPINE_V0_WRONG_STATE, s)
            else if \<not> gc_credit_available s (6 * ucast live + 16 + 20 + 32) \<or>
                    record_sequence s + 2 * ucast live + 1 > cfg_record_sequence_limit (config s) \<or>
                    map_sequence s + ucast live + 1 > cfg_record_sequence_limit (config s)
            then (FWLAB_SPINE_V0_NO_CAPACITY, s)
            else
              let (collected, s) = m3p_gc_collect_live_pages (gc_begin victim live reclaimable s)
              in if \<not> collected
                 then (FWLAB_SPINE_V0_QUARANTINED,
                       s\<lparr>work_state := M3P_WORK_FAILED, quarantined := True\<rparr>)
                 else (FWLAB_SPINE_V0_OK, s))"

section \<open>The three programs of a collection\<close>

definition gc_relocation_delta :: "fwlab_m3p \<Rightarrow> m3p_delta" where
  "gc_relocation_delta s =
     (let moved = gc_moved s; lpn = gc_source_lpn s ! unat moved; source = durable s ! unat lpn
      in \<lparr>d_lpn = lpn,
          d_target = source\<lparr>me_block := gc_destination s, me_page := moved,
            me_erase_generation := block_erase_generation s ! unat (gc_destination s),
            me_data_record_sequence := record_sequence s + 1,
            me_main_crc := m3p_crc32c (frame_main s ! 0)\<rparr>,
          d_prior = source\<rparr>)"

definition start_gc_data_program :: "fwlab_m3p \<Rightarrow> bool \<times> fwlab_m3p" where
  "start_gc_data_program s =
     (let moved = gc_moved s;
          lpn = gc_source_lpn s ! unat moved;
          source = durable s ! unat lpn
      in if record_sequence s \<ge> cfg_record_sequence_limit (config s) then (False, s)
         else
           let d = gc_relocation_delta s;
               s = s\<lparr>gc_delta := (gc_delta s)[unat moved := d]\<rparr>;
               s = set_oob 0 (m3p_encode_oob
                 (zero_oob\<lparr>ob_page_type := M3P_PAGE_DATA, ob_flags := 1,
                    ob_copy_kind := M3P_COPY_GC, ob_valid_mask := me_valid_mask source,
                    ob_namespace_id := 1, ob_lpn := ucast lpn,
                    ob_erase_generation := me_erase_generation (d_target d),
                    ob_record_sequence := me_data_record_sequence (d_target d),
                    ob_transaction_sequence := gc_uid s,
                    ob_referenced_data_sequence := me_data_record_sequence (d_target d),
                    ob_main_length := 4096, ob_main_crc := me_main_crc (d_target d),
                    ob_media_uuid := cfg_media_uuid (config s),
                    ob_source_block := gc_victim s,
                    ob_source_page := gc_source_page s ! unat moved,
                    ob_source_data_sequence := me_data_record_sequence source\<rparr>)) s
           in program_frame0 (ppa_at (ucast (gc_destination s)) (ucast moved)) s)"

definition gc_txn_oob :: "u8 \<Rightarrow> u32 \<Rightarrow> nfc_ppa \<Rightarrow> fwlab_m3p \<Rightarrow> m3p_oob" where
  "gc_txn_oob src_page src_seq ppa s =
     zero_oob\<lparr>ob_page_type := M3P_PAGE_MAP_TXN, ob_flags := 1, ob_copy_kind := M3P_COPY_GC,
       ob_namespace_id := 1, ob_lpn := UINT32_MAX,
       ob_erase_generation := block_erase_generation s ! unat (ppa_block ppa),
       ob_record_sequence := record_sequence s + 1, ob_transaction_sequence := gc_uid s,
       ob_predecessor_map_sequence := map_sequence s,
       ob_resulting_map_sequence := map_sequence s + 1, ob_main_length := 4096,
       ob_main_crc := m3p_crc32c (frame_main s ! 0), ob_media_uuid := cfg_media_uuid (config s),
       ob_source_block := gc_victim s, ob_source_page := src_page,
       ob_source_data_sequence := src_seq\<rparr>"

definition start_gc_relocation :: "fwlab_m3p \<Rightarrow> bool \<times> fwlab_m3p" where
  "start_gc_relocation s =
     (let moved = unat (gc_moved s);
          ppa = ppa_at (ucast (active_journal_block s)) (ucast (journal_page s));
          limit = cfg_record_sequence_limit (config s)
      in if journal_page s \<ge> 32 \<or> record_sequence s + 1 > limit \<or> map_sequence s + 1 > limit
         then (False, s)
         else
           let r = zero_map_record\<lparr>mr_subtype := M3P_MAP_RELOCATION, mr_delta_count := 1,
                 mr_flags := 1, mr_transaction_sequence := gc_uid s,
                 mr_predecessor_map_sequence := map_sequence s,
                 mr_resulting_map_sequence := map_sequence s + 1, mr_gc_uid := gc_uid s,
                 mr_gc_source_block := gc_victim s, mr_gc_destination_block := gc_destination s,
                 mr_gc_expected_live := ucast (gc_live_count s), mr_gc_moved := 0,
                 mr_delta := gc_delta s ! moved # replicate 2 zero_delta\<rparr>;
               s = set_main 0 (m3p_encode_map r) s;
               s = set_oob 0 (m3p_encode_oob (gc_txn_oob (gc_source_page s ! moved)
                     (me_data_record_sequence (d_prior (gc_delta s ! moved))) ppa s)) s
           in program_frame0 ppa s)"

definition start_gc_switch :: "fwlab_m3p \<Rightarrow> bool \<times> fwlab_m3p" where
  "start_gc_switch s =
     (let ppa = ppa_at (ucast (active_journal_block s)) (ucast (journal_page s));
          live = unat (gc_live_count s);
          r = zero_map_record\<lparr>mr_subtype := M3P_MAP_GC_SWITCH, mr_flags := 1,
            mr_transaction_sequence := gc_uid s, mr_predecessor_map_sequence := map_sequence s,
            mr_resulting_map_sequence := map_sequence s + 1, mr_gc_uid := gc_uid s,
            mr_gc_source_block := gc_victim s, mr_gc_destination_block := gc_destination s,
            mr_gc_expected_live := ucast (gc_live_count s),
            mr_gc_moved := ucast (gc_live_count s),
            mr_relocation_sequence := take live (gc_relocation_sequence s)
               @ replicate (25 - live) 0\<rparr>;
          s = set_main 0 (m3p_encode_map r) s;
          s = set_oob 0 (m3p_encode_oob (gc_txn_oob UINT8_MAX 0 ppa s)) s
      in program_frame0 ppa s)"

section \<open>Failure and replacement\<close>

definition gc_fail :: "u32 \<Rightarrow> fwlab_m3p \<Rightarrow> fwlab_m3p" where
  "gc_fail fault s = s\<lparr>gc_fault_code := if fault = 0 then 1 else fault,
     work_state := M3P_WORK_FAILED, quarantined := True\<rparr>"

definition replacement_available :: "fwlab_m3p \<Rightarrow> bool" where
  "replacement_available s \<longleftrightarrow> \<not> (
     replacement_used s \<or> replacement_block s \<ge> 16 \<or>
     block_role s ! unat (replacement_block s) \<noteq> M3P_ROLE_REPLACEMENT \<or>
     block_health s ! unat (replacement_block s) \<noteq> FWLAB_NFC_BLOCK_GOOD \<or>
     block_next_page s ! unat (replacement_block s) \<noteq> 0)"

definition consume_ended_child :: "fwlab_m3p \<Rightarrow> fwlab_m3p" where
  "consume_ended_child s =
     (if ch_state (child s) = M3P_CHILD_FAILED \<or> ch_state (child s) = M3P_CHILD_DONE
      then m3p_child_consume s else s)"

definition unstage_moves :: "m3p_delta list \<Rightarrow> fwlab_m3p \<Rightarrow> fwlab_m3p" where
  "unstage_moves ds s =
     fold (\<lambda>d s. p2l_set (me_block (d_target d)) (me_page (d_target d)) M3P_P2L_ORPHAN
                  (p2l_set (me_block (d_prior d)) (me_page (d_prior d)) M3P_P2L_LIVE s)) ds s"

definition activate_destination_replacement :: "u32 \<Rightarrow> fwlab_m3p \<Rightarrow> bool \<times> fwlab_m3p" where
  "activate_destination_replacement fault s =
     (if \<not> replacement_available s then (False, s)
      else
        let old = unat (gc_destination s);
            s = consume_ended_child s;
            s = unstage_moves (take (unat (gc_moved s)) (gc_delta s)) s
        in (True, s\<lparr>block_role := (block_role s)[old := M3P_ROLE_UNAVAILABLE,
                       unat (replacement_block s) := M3P_ROLE_RESERVE],
              block_health := (block_health s)[old := FWLAB_NFC_BLOCK_RUNTIME_BAD],
              gc_destination := replacement_block s, replacement_used := True,
              gc_uid := map_sequence s + 1, gc_moved := 0, gc_fault_code := fault,
              gc_delta := replicate 25 zero_delta, gc_relocation_sequence := replicate 25 0,
              work_state := M3P_GC_PREPARE\<rparr>))"

definition gc_finished :: "fwlab_m3p \<Rightarrow> fwlab_m3p" where
  "gc_finished s =
     (let s = s\<lparr>operation := (operation s)\<lparr>op_state := M3P_OPERATION_FREE\<rparr>,
                work_state := M3P_GC_DONE, work_kind := FWLAB_M3P_MAINTENANCE_NONE\<rparr>
      in if recovery_resume_gc s
         then s\<lparr>recovery_resume_gc := False, recovery_completed := True, ready := True\<rparr> else s)"

definition activate_erase_replacement :: "u32 \<Rightarrow> fwlab_m3p \<Rightarrow> bool \<times> fwlab_m3p" where
  "activate_erase_replacement fault s =
     (if \<not> replacement_available s then (False, s)
      else
        let s = consume_ended_child s
        in (True, gc_finished (s\<lparr>block_role := (block_role s)[unat (gc_victim s) := M3P_ROLE_UNAVAILABLE,
                       unat (replacement_block s) := M3P_ROLE_RESERVE],
              block_health := (block_health s)[unat (gc_victim s) := FWLAB_NFC_BLOCK_RUNTIME_BAD],
              reserve_block := replacement_block s, replacement_used := True,
              gc_fault_code := fault\<rparr>)))"

section \<open>The drive\<close>

definition gc_prepare_drive :: "fwlab_m3p \<Rightarrow> bool \<times> fwlab_m3p" where
  "gc_prepare_drive s =
     (if checkpoint_flow s \<noteq> 0 then m3p_checkpoint_drive s
      else if journal_page s \<noteq> 0 then
        (let (ok, s) = m3p_start_checkpoint M3P_OPERATION_FREE s
         in if \<not> ok then (True, gc_fail 1 s) else m3p_checkpoint_drive s)
      else if unat (gc_live_count s) + 1 > M3P_PAGES_PER_BLOCK then (True, gc_fail 2 s)
      else (True, s\<lparr>work_state := if gc_live_count s = 0 then M3P_GC_SWITCH else M3P_GC_READ\<rparr>))"

definition gc_source_verified :: "fwlab_m3p \<Rightarrow> u16 \<Rightarrow> m3p_oob \<Rightarrow> bool" where
  "gc_source_verified s lpn ob \<longleftrightarrow> \<not> (
     ob_page_type ob \<noteq> M3P_PAGE_DATA \<or> ob_lpn ob \<noteq> ucast lpn \<or>
     ob_record_sequence ob \<noteq> me_data_record_sequence (durable s ! unat lpn) \<or>
     m3p_crc32c (frame_main s ! 0) \<noteq> ob_main_crc ob)"

definition gc_read_drive :: "fwlab_m3p \<Rightarrow> bool \<times> fwlab_m3p" where
  "gc_read_drive s =
     (let cs = ch_state (child s);
          source = ppa_at (ucast (gc_victim s)) (ucast (gc_source_page s ! unat (gc_moved s)))
      in if cs = M3P_CHILD_IDLE then
           (let (r, s) = m3p_child_read_start 0 source s
            in (True, if r \<noteq> FWLAB_SPINE_V0_OK then gc_fail 3 s else s))
         else if cs = M3P_CHILD_FAILED then (True, gc_fail (ch_fault_code (child s)) s)
         else if cs = M3P_CHILD_DONE then
           (let lpn = gc_source_lpn s ! unat (gc_moved s)
            in case m3p_decode_oob (frame_oob s ! 0) of
                 None \<Rightarrow> (True, gc_fail 4 s)
               | Some ob \<Rightarrow>
                   let s = s\<lparr>recovered_data := (recovered_data s)[0 := ob]\<rparr>
                   in if \<not> gc_source_verified s lpn ob then (True, gc_fail 4 s)
                      else
                        let (ok, s) = start_gc_data_program (m3p_child_consume s)
                        in if \<not> ok then (True, gc_fail 5 s)
                           else (True, s\<lparr>work_state := M3P_GC_PROGRAM\<rparr>))
         else (False, s))"

definition gc_programmed :: "fwlab_m3p \<Rightarrow> fwlab_m3p" where
  "gc_programmed s =
     (let moved = gc_moved s;
          s = m3p_child_consume s;
          s = s\<lparr>record_sequence := record_sequence s + 1,
                block_next_page := (block_next_page s)[unat (gc_destination s) := moved + 1]\<rparr>
      in p2l_set (gc_destination s) moved M3P_P2L_GC_DEST_STAGED
           (p2l_set (gc_victim s) (gc_source_page s ! unat moved) M3P_P2L_GC_SOURCE_PINNED s))"

definition gc_program_drive :: "fwlab_m3p \<Rightarrow> bool \<times> fwlab_m3p" where
  "gc_program_drive s =
     (let cs = ch_state (child s) in
      if cs = M3P_CHILD_FAILED then
        (let fault = ch_fault_code (child s);
             (ok, s) = activate_destination_replacement fault s
         in (True, if \<not> ok then gc_fail fault s else s))
      else if cs = M3P_CHILD_DONE then
        (let (ok, s) = start_gc_relocation (gc_programmed s)
         in if \<not> ok then (True, gc_fail 6 s)
            else (True, s\<lparr>work_state := M3P_GC_RELOCATION\<rparr>))
      else (False, s))"

text \<open>A map transaction has reached the journal: the counters and the journal page advance.\<close>

definition journal_advance :: "fwlab_m3p \<Rightarrow> fwlab_m3p" where
  "journal_advance s =
     (let s = m3p_child_consume s;
          s = s\<lparr>record_sequence := record_sequence s + 1, map_sequence := map_sequence s + 1,
                journal_page := journal_page s + 1\<rparr>
      in s\<lparr>block_next_page := (block_next_page s)[unat (active_journal_block s) := journal_page s]\<rparr>)"

definition gc_relocated :: "fwlab_m3p \<Rightarrow> fwlab_m3p" where
  "gc_relocated s =
     (let moved = gc_moved s;
          s = journal_advance s;
          s = s\<lparr>gc_relocation_sequence := (gc_relocation_sequence s)[unat moved := record_sequence s],
                gc_moved := moved + 1\<rparr>
      in s\<lparr>work_state := if gc_moved s < gc_live_count s then M3P_GC_READ else M3P_GC_SWITCH\<rparr>)"

definition gc_relocation_drive :: "fwlab_m3p \<Rightarrow> bool \<times> fwlab_m3p" where
  "gc_relocation_drive s =
     (let cs = ch_state (child s) in
      if cs = M3P_CHILD_FAILED then (True, gc_fail (ch_fault_code (child s)) s)
      else if cs = M3P_CHILD_DONE then (True, gc_relocated s)
      else (False, s))"

definition gc_switched :: "fwlab_m3p \<Rightarrow> fwlab_m3p" where
  "gc_switched s =
     (let s = journal_advance s;
          s = s\<lparr>gc_switch_sequence := map_sequence s\<rparr>;
          s = publish_durable_all (gc_delta s) (unat (gc_live_count s)) (map_sequence s) s
      in s\<lparr>block_role := (block_role s)[unat (gc_destination s) := M3P_ROLE_DATA,
                                         unat (gc_victim s) := M3P_ROLE_RESERVE],
           work_state := M3P_GC_ERASE\<rparr>)"

definition gc_switch_drive :: "fwlab_m3p \<Rightarrow> bool \<times> fwlab_m3p" where
  "gc_switch_drive s =
     (let cs = ch_state (child s) in
      if cs = M3P_CHILD_IDLE then
        (let (ok, s) = start_gc_switch s in (True, if \<not> ok then gc_fail 7 s else s))
      else if cs = M3P_CHILD_FAILED then (True, gc_fail (ch_fault_code (child s)) s)
      else if cs = M3P_CHILD_DONE then (True, gc_switched s)
      else (False, s))"

definition gc_erased :: "fwlab_m3p \<Rightarrow> fwlab_m3p" where
  "gc_erased s =
     (let victim = gc_victim s
      in gc_finished ((block_erased victim s)\<lparr>reserve_block := victim\<rparr>))"

definition gc_erase_drive :: "fwlab_m3p \<Rightarrow> bool \<times> fwlab_m3p" where
  "gc_erase_drive s =
     (let cs = ch_state (child s) in
      if cs = M3P_CHILD_IDLE then
        (let (r, s) = m3p_child_erase_start (ppa_at (ucast (gc_victim s)) 0) s
         in (True, if r \<noteq> FWLAB_SPINE_V0_OK then gc_fail 8 s else s))
      else if cs = M3P_CHILD_FAILED then
        (let fault = ch_fault_code (child s);
             (ok, s) = activate_erase_replacement fault s
         in (True, if \<not> ok then gc_fail fault s else s))
      else if cs = M3P_CHILD_DONE then (True, gc_erased s)
      else (False, s))"

definition m3p_gc_drive :: "fwlab_m3p \<Rightarrow> bool \<times> fwlab_m3p" where
  "m3p_gc_drive s =
     (case work_state s of
        M3P_GC_PREPARE \<Rightarrow> gc_prepare_drive s
      | M3P_GC_READ \<Rightarrow> gc_read_drive s
      | M3P_GC_PROGRAM \<Rightarrow> gc_program_drive s
      | M3P_GC_RELOCATION \<Rightarrow> gc_relocation_drive s
      | M3P_GC_SWITCH \<Rightarrow> gc_switch_drive s
      | M3P_GC_ERASE \<Rightarrow> gc_erase_drive s
      | _ \<Rightarrow> (False, s))"

section \<open>Status\<close>

record m3p_gc_status =
  gs_state :: m3p_maintenance_state
  gs_victim_block :: u32
  gs_destination_block :: u32
  gs_live_pages :: u32
  gs_moved_pages :: u32
  gs_reclaimable_pages :: u32
  gs_gc_uid :: u32
  gs_switch_map_sequence :: u32
  gs_successful_erase_count :: u32
  gs_fault_code :: u32

definition fwlab_m3p_force_gc_query :: "fwlab_m3p \<Rightarrow> m3p_gc_status option" where
  "fwlab_m3p_force_gc_query s =
     (if magic s \<noteq> M3P_MAGIC \<or> \<not> initialized s then None
      else Some \<lparr>gs_state =
          (if quarantined s \<or> work_state s = M3P_WORK_FAILED then FWLAB_M3P_MAINTENANCE_QUARANTINED
           else if work_state s = M3P_GC_DONE then FWLAB_M3P_MAINTENANCE_SUCCEEDED
           else if work_kind s = FWLAB_M3P_MAINTENANCE_GC then FWLAB_M3P_MAINTENANCE_RUNNING
           else FWLAB_M3P_MAINTENANCE_IDLE),
        gs_victim_block = ucast (gc_victim s), gs_destination_block = ucast (gc_destination s),
        gs_live_pages = ucast (gc_live_count s), gs_moved_pages = ucast (gc_moved s),
        gs_reclaimable_pages = ucast (gc_reclaimable s), gs_gc_uid = gc_uid s,
        gs_switch_map_sequence = gc_switch_sequence s,
        gs_successful_erase_count = ucast (block_erase_count s ! unat (gc_victim s)),
        gs_fault_code = gc_fault_code s\<rparr>)"

end
