(* ===== verification/M3p_Recovery.thy ===== *)
theory M3p_Recovery
  imports M3p_Gc
begin

text \<open>
  Recovery of the mapping from the medium, \<open>core/m3p/m3p_recovery.c\<close>: the scan of all 512 pages,
  the choice of the newest checkpoint, the replay of the journal behind it, the reconstruction of
  page states and block roles, the resumption of an interrupted collection and the erase of covered
  metadata blocks.

  The replay loop of \<open>finalize_recovery\<close> follows the chain of map transactions. It is modelled with
  fuel; at most 64 transactions are held (\<open>M3P_MAX_RECOVERED_MAPS\<close>), and fuel 65 is shown to be
  enough. When a map transaction does not decode, the C code may leave part of it in its slot; the
  instance is quarantined at that point and the model stores the empty record. The same holds for a
  checkpoint body that does not decode: the model leaves the candidate map alone.
\<close>

section \<open>Sequencing\<close>

definition and_then :: "bool \<times> 's \<Rightarrow> ('s \<Rightarrow> bool \<times> 's) \<Rightarrow> bool \<times> 's" where
  "and_then r f = (let (ok, s) = r in if ok then f s else (False, s))"

section \<open>Starting recovery\<close>

definition recovery_credit_available :: "fwlab_m3p \<Rightarrow> bool" where
  "recovery_credit_available s \<longleftrightarrow>
     (let limit = ucast (cfg_nfc_operation_uid_limit (config s)) :: u64
      in next_child_uid s \<noteq> 0 \<and> next_child_uid s \<le> limit \<and> 1023 \<le> limit - next_child_uid s)"

definition recovery_reset :: "u64 \<Rightarrow> fwlab_m3p \<Rightarrow> fwlab_m3p" where
  "recovery_reset expected s =
     (m3p_mapping_reset s)\<lparr>expected_lba_count := expected, volume_format := 0,
        volume_lba_count := 0,
        recovered_map := replicate M3P_MAX_RECOVERED_MAPS zero_recovery_record,
        recovered_checkpoint := replicate M3P_LPN_COUNT zero_map_entry,
        checkpoint_candidate := replicate M3P_LPN_COUNT zero_map_entry,
        recovery_tail_seen := replicate M3P_BLOCKS False,
        recovery_data_valid := replicate M3P_PHYSICAL_PAGES False,
        recovered_data := replicate M3P_PHYSICAL_PAGES zero_oob,
        recovered_commit := zero_commit, recovery_page := 0, recovery_map_count := 0,
        recovery_fault_code := 0, recovery_completed := False, recovery_resume_gc := False,
        recovery_checkpoint_cleanup := False, recovery_journal_cleanup := False,
        recovery_resume_state := M3P_WORK_IDLE, recovery_have_body := False,
        recovery_have_commit := False, work_kind := FWLAB_M3P_MAINTENANCE_RECOVERY,
        work_state := M3P_RECOVERY_SCAN_START\<rparr>"

definition fwlab_m3p_recover_volume_start :: "u64 \<Rightarrow> fwlab_m3p \<Rightarrow> spine_result \<times> fwlab_m3p" where
  "fwlab_m3p_recover_volume_start expected s =
     (if expected \<noteq> 0 \<and> \<not> m3p_volume_lba_count_valid expected then (FWLAB_SPINE_V0_INVALID, s)
      else if magic s \<noteq> M3P_MAGIC \<or> \<not> initialized s \<or> quarantined s \<or> ready s \<or>
              admission_closed s \<or> work_kind s \<noteq> FWLAB_M3P_MAINTENANCE_NONE \<or>
              op_state (operation s) \<noteq> M3P_OPERATION_FREE \<or>
              ch_state (child s) \<noteq> M3P_CHILD_IDLE \<or> \<not> recovery_credit_available s
      then (FWLAB_SPINE_V0_WRONG_STATE, s)
      else (FWLAB_SPINE_V0_OK, recovery_reset expected s))"

definition fwlab_m3p_recover_start :: "fwlab_m3p \<Rightarrow> spine_result \<times> fwlab_m3p" where
  "fwlab_m3p_recover_start s = fwlab_m3p_recover_volume_start 0 s"

section \<open>One scanned page\<close>

definition bytes_erased :: "bytes \<Rightarrow> bool" where
  "bytes_erased bs \<longleftrightarrow> list_all (\<lambda>b. b = 0xff) bs"

definition commit_belongs :: "m3p_oob \<Rightarrow> m3p_checkpoint_commit \<Rightarrow> fwlab_m3p \<Rightarrow> bool" where
  "commit_belongs ob c s \<longleftrightarrow> \<not> (
     cc_generation c \<noteq> ob_checkpoint_generation ob \<or>
     cc_body_block c \<noteq> recovery_body_block s \<or> cc_body_page c \<noteq> recovery_body_page s \<or>
     cc_body_main_crc c \<noteq> recovery_body_crc s \<or>
     cc_body_oob_crc c \<noteq> checkpoint_body_oob_crc s \<or>
     cc_covered_map_sequence c \<noteq> ob_checkpoint_covered_sequence ob \<or>
     cc_durable_frontier c \<noteq> ob_durable_frontier ob \<or>
     cc_media_uuid c \<noteq> cfg_media_uuid (config s))"

definition same_volume :: "m3p_checkpoint_commit \<Rightarrow> m3p_checkpoint_commit \<Rightarrow> bool" where
  "same_volume c d \<longleftrightarrow> cc_format_version c = cc_format_version d \<and>
     cc_lba_count c = cc_lba_count d \<and> cc_lba_bytes c = cc_lba_bytes d \<and>
     cc_geometry c = cc_geometry d"

definition tail_unmapped :: "u64 \<Rightarrow> m3p_map_entry list \<Rightarrow> bool" where
  "tail_unmapped lba_count m \<longleftrightarrow>
     list_all (\<lambda>lpn. \<not> (me_state (m ! lpn) \<noteq> M3P_L2P_UNMAPPED \<or> me_valid_mask (m ! lpn) \<noteq> 0 \<or>
                        me_map_sequence (m ! lpn) \<noteq> 0))
       [unat (ucast (lba_count div 8) :: u16)..<M3P_LPN_COUNT]"

definition accept_checkpoint_commit :: "m3p_oob \<Rightarrow> fwlab_m3p \<Rightarrow> bool \<times> fwlab_m3p" where
  "accept_checkpoint_commit ob s =
     (if \<not> recovery_have_body s then (False, s)
      else case m3p_decode_checkpoint_commit (frame_main s ! 0) of
          None \<Rightarrow> (False, s)
        | Some c \<Rightarrow>
            if \<not> commit_belongs ob c s then (False, s)
            else if recovery_have_commit s \<and> \<not> same_volume c (recovered_commit s) then (False, s)
            else if \<not> tail_unmapped (cc_lba_count c) (checkpoint_candidate s) then (False, s)
            else if recovery_have_commit s \<and>
                    cc_generation c = cc_generation (recovered_commit s) \<and>
                    c \<noteq> recovered_commit s then (False, s)
            else if \<not> recovery_have_commit s \<or>
                    cc_generation c > cc_generation (recovered_commit s)
            then (True, s\<lparr>recovered_commit := c, recovered_checkpoint := checkpoint_candidate s,
                          recovery_have_commit := True\<rparr>)
            else (True, s))"

definition recover_fault :: "u32 \<Rightarrow> fwlab_m3p \<Rightarrow> bool \<times> fwlab_m3p" where
  "recover_fault code s = (False, s\<lparr>recovery_fault_code := code\<rparr>)"

definition process_map_page :: "u8 \<Rightarrow> u8 \<Rightarrow> m3p_oob \<Rightarrow> fwlab_m3p \<Rightarrow> bool \<times> fwlab_m3p" where
  "process_map_page block page ob s =
     (if recovery_map_count s \<ge> 64 then recover_fault 2 s
      else
        let i = unat (recovery_map_count s);
            slot = zero_recovery_record\<lparr>rr_valid := True, rr_block := block, rr_page := page,
              rr_oob := ob\<rparr>;
            s = s\<lparr>recovery_map_count := recovery_map_count s + 1\<rparr>
        in case m3p_decode_map (frame_main s ! 0) of
             None \<Rightarrow> recover_fault 3 (s\<lparr>recovered_map := (recovered_map s)[i := slot]\<rparr>)
           | Some m \<Rightarrow>
               let s = s\<lparr>recovered_map := (recovered_map s)[i := slot\<lparr>rr_map := m\<rparr>]\<rparr>
               in if mr_transaction_sequence m \<noteq> ob_transaction_sequence ob \<or>
                     mr_predecessor_map_sequence m \<noteq> ob_predecessor_map_sequence ob \<or>
                     mr_resulting_map_sequence m \<noteq> ob_resulting_map_sequence ob
                  then recover_fault 4 s else (True, s))"

definition process_body_page :: "u8 \<Rightarrow> u8 \<Rightarrow> m3p_oob \<Rightarrow> fwlab_m3p \<Rightarrow> bool \<times> fwlab_m3p" where
  "process_body_page block page ob s =
     (case m3p_decode_checkpoint_body (frame_main s ! 0) of
        None \<Rightarrow> recover_fault 5 s
      | Some m \<Rightarrow> (True, s\<lparr>checkpoint_candidate := m, recovery_have_body := True,
           recovery_body_block := block, recovery_body_page := page,
           recovery_body_crc := ob_main_crc ob,
           checkpoint_body_oob_crc := m3p_crc32c (frame_oob s ! 0)\<rparr>))"

definition process_typed_page :: "u16 \<Rightarrow> u8 \<Rightarrow> u8 \<Rightarrow> m3p_oob \<Rightarrow> fwlab_m3p \<Rightarrow> bool \<times> fwlab_m3p" where
  "process_typed_page linear block page ob s =
     (if ob_page_type ob = M3P_PAGE_DATA then
        (True, s\<lparr>recovery_data_valid := (recovery_data_valid s)[unat linear := True],
                 recovered_data := (recovered_data s)[unat linear := ob],
                 p2l := (p2l s)[unat linear := M3P_P2L_ORPHAN]\<rparr>)
      else if ob_page_type ob = M3P_PAGE_MAP_TXN then process_map_page block page ob s
      else if ob_page_type ob = M3P_PAGE_CHECKPOINT_BODY then process_body_page block page ob s
      else
        let (ok, s) = accept_checkpoint_commit ob s
        in if \<not> ok then recover_fault 6 s else (True, s))"

definition process_recovered_page :: "u16 \<Rightarrow> fwlab_m3p \<Rightarrow> bool \<times> fwlab_m3p" where
  "process_recovered_page linear s =
     (let block = ucast (linear div 32) :: u8;
          page = ucast (linear mod 32) :: u8;
          b = unat block;
          cp = ch_completion (child s);
          s = s\<lparr>block_erase_generation := (block_erase_generation s)[b := nc_final_erase_generation cp],
                block_erase_count := (block_erase_count s)[b := nc_final_erase_generation cp],
                block_health := (block_health s)[b := nc_block_health cp]\<rparr>
      in if bytes_erased (frame_main s ! 0) \<and> bytes_erased (frame_oob s ! 0) then
           (True, s\<lparr>recovery_tail_seen := (recovery_tail_seen s)[b := True]\<rparr>)
         else if recovery_tail_seen s ! b then recover_fault 11 s
         else case m3p_decode_oob (frame_oob s ! 0) of
             None \<Rightarrow> recover_fault 12 s
           | Some ob \<Rightarrow>
               if ob_media_uuid ob \<noteq> cfg_media_uuid (config s) then recover_fault 13 s
               else if ob_erase_generation ob \<noteq> block_erase_generation s ! b then recover_fault 14 s
               else if ob_main_crc ob \<noteq> m3p_crc32c (frame_main s ! 0) then recover_fault 15 s
               else
                 let s = (if block_next_page s ! b \<le> page
                          then s\<lparr>block_next_page := (block_next_page s)[b := page + 1]\<rparr> else s);
                     s = (if ob_record_sequence ob > record_sequence s
                          then s\<lparr>record_sequence := ob_record_sequence ob\<rparr> else s)
                 in process_typed_page linear block page ob s)"

section \<open>Matching recovered records\<close>

text \<open>\<open>data_record_matches\<close> answers the entry as it leaves it, or \<open>None\<close> for 0.\<close>

definition data_record_matches :: "fwlab_m3p \<Rightarrow> u16 \<Rightarrow> m3p_map_entry \<Rightarrow> m3p_map_entry option" where
  "data_record_matches s lpn e =
     (if me_state e \<noteq> M3P_L2P_VALUE then
        (if me_state e = M3P_L2P_UNMAPPED \<or> me_state e = M3P_L2P_TOMBSTONE then Some e else None)
      else
        let physical = unat (m3p_physical_index (me_block e) (me_page e))
        in if physical \<ge> M3P_PHYSICAL_PAGES \<or> \<not> recovery_data_valid s ! physical then None
           else
             let ob = recovered_data s ! physical
             in if ob_page_type ob \<noteq> M3P_PAGE_DATA \<or> ob_lpn ob \<noteq> ucast lpn \<or>
                   ob_record_sequence ob \<noteq> me_data_record_sequence e \<or>
                   ob_erase_generation ob \<noteq> me_erase_generation e \<or>
                   (me_valid_mask e \<noteq> 0 \<and>
                    ob_valid_mask ob AND me_valid_mask e \<noteq> me_valid_mask e) then None
                else Some (e\<lparr>me_main_crc := ob_main_crc ob,
                    me_logical_version := if me_logical_version e = 0 then 1
                                          else me_logical_version e\<rparr>))"

text \<open>\<open>find_recovery_record\<close>: the indices of all matches; the C function returns the last one and
  their number.\<close>

definition find_recovery_record :: "fwlab_m3p \<Rightarrow> u32 \<Rightarrow> u32 \<Rightarrow> nat list" where
  "find_recovery_record s resulting pred =
     filter (\<lambda>i. let r = recovered_map s ! i
                 in rr_valid r \<and> mr_resulting_map_sequence (rr_map r) = resulting \<and>
                    mr_predecessor_map_sequence (rr_map r) = pred)
       [0..<unat (recovery_map_count s)]"

definition find_relocation_record :: "fwlab_m3p \<Rightarrow> u32 \<Rightarrow> u32 \<Rightarrow> nat option" where
  "find_relocation_record s record_seq uid =
     find (\<lambda>i. let r = recovered_map s ! i
               in rr_valid r \<and> ob_record_sequence (rr_oob r) = record_seq \<and>
                  mr_subtype (rr_map r) = M3P_MAP_RELOCATION \<and> mr_gc_uid (rr_map r) = uid \<and>
                  mr_delta_count (rr_map r) = 1)
       [0..<unat (recovery_map_count s)]"

text \<open>\<open>delta->target\<close> of the \<open>j\<close>-th delta of record \<open>i\<close>, written back by \<open>data_record_matches\<close>\<close>

definition set_record_target :: "nat \<Rightarrow> nat \<Rightarrow> m3p_map_entry \<Rightarrow> fwlab_m3p \<Rightarrow> fwlab_m3p" where
  "set_record_target i j e s =
     (let r = recovered_map s ! i; m = rr_map r; d = mr_delta m ! j
      in s\<lparr>recovered_map := (recovered_map s)
            [i := r\<lparr>rr_map := m\<lparr>mr_delta := (mr_delta m)[j := d\<lparr>d_target := e\<rparr>]\<rparr>\<rparr>]\<rparr>)"

definition record_delta :: "fwlab_m3p \<Rightarrow> nat \<Rightarrow> nat \<Rightarrow> m3p_delta" where
  "record_delta s i j = mr_delta (rr_map (recovered_map s ! i)) ! j"

fun apply_moves :: "u32 list \<Rightarrow> u32 \<Rightarrow> u32 \<Rightarrow> fwlab_m3p \<Rightarrow> bool \<times> fwlab_m3p" where
  "apply_moves [] uid seq s = (True, s)"
| "apply_moves (r # rs) uid seq s =
     (case find_relocation_record s r uid of
        None \<Rightarrow> (False, s)
      | Some i \<Rightarrow>
          let d = record_delta s i 0
          in case data_record_matches s (d_lpn d) (d_target d) of
               None \<Rightarrow> (False, s)
             | Some e \<Rightarrow>
                 apply_moves rs uid seq
                   (m3p_publish_durable_delta (d\<lparr>d_target := e\<rparr>) seq (set_record_target i 0 e s)))"

definition prior_agrees :: "fwlab_m3p \<Rightarrow> m3p_delta \<Rightarrow> bool" where
  "prior_agrees s d \<longleftrightarrow>
     (let cur = durable s ! unat (d_lpn d); prior = d_prior d
      in \<not> (me_state prior = M3P_L2P_VALUE \<and>
            (me_state cur \<noteq> M3P_L2P_VALUE \<or> me_block cur \<noteq> me_block prior \<or>
             me_page cur \<noteq> me_page prior \<or>
             me_data_record_sequence cur \<noteq> me_data_record_sequence prior)))"

fun apply_deltas :: "nat \<Rightarrow> nat list \<Rightarrow> u32 \<Rightarrow> fwlab_m3p \<Rightarrow> bool \<times> fwlab_m3p" where
  "apply_deltas i [] seq s = (True, s)"
| "apply_deltas i (j # js) seq s =
     (let d = record_delta s i j
      in if \<not> prior_agrees s d then (False, s)
         else case data_record_matches s (d_lpn d) (d_target d) of
             None \<Rightarrow> (False, s)
           | Some e \<Rightarrow>
               apply_deltas i js seq
                 (m3p_publish_durable_delta (d\<lparr>d_target := e\<rparr>) seq (set_record_target i j e s)))"

definition apply_recovered_record :: "nat \<Rightarrow> fwlab_m3p \<Rightarrow> bool \<times> fwlab_m3p" where
  "apply_recovered_record i s =
     (let m = rr_map (recovered_map s ! i) in
      if mr_subtype m = M3P_MAP_GC_SWITCH then
        and_then (apply_moves (take (unat (mr_gc_moved m)) (mr_relocation_sequence m))
                    (mr_gc_uid m) (mr_resulting_map_sequence m) s)
          (\<lambda>s. (True, s\<lparr>block_role := (block_role s)
                  [unat (mr_gc_destination_block m) := M3P_ROLE_DATA,
                   unat (mr_gc_source_block m) := M3P_ROLE_RESERVE],
                reserve_block := mr_gc_source_block m\<rparr>))
      else if mr_subtype m = M3P_MAP_RELOCATION then
        (mr_gc_uid m \<noteq> 0 \<and> mr_delta_count m = 1, s)
      else apply_deltas i [0..<unat (mr_delta_count m)] (mr_resulting_map_sequence m) s)"

end
