(* ===== verification/M3p_Replay.thy ===== *)
theory M3p_Replay
  imports M3p_Recovery
begin

text \<open>
  The second half of \<open>core/m3p/m3p_recovery.c\<close>: \<open>finalize_recovery\<close> with the replay of the journal
  chain, the reconstruction of page states, journal position and block roles, the resumption of an
  interrupted collection, the cleanup erases and the drive function. The local variables of
  \<open>finalize_recovery\<close> that the replay loop carries are the fields of \<open>replay_locals\<close>.
\<close>

section \<open>Locals of the replay loop\<close>

record replay_locals =
  rl_current :: u32
  rl_latest_journal :: u8
  rl_latest_page :: u8
  rl_open_uid :: u32
  rl_open_count :: u8
  rl_open_expected :: u8
  rl_open_source :: u8
  rl_open_destination :: u8
  rl_open_delta :: "m3p_delta list"
  rl_open_record_sequence :: "u32 list"
  rl_last_switch :: bool
  rl_switch_source :: u8
  rl_switch_destination :: u8
  rl_switch_live :: u8
  rl_switch_uid :: u32
  rl_switch_sequence :: u32

definition replay_start :: "fwlab_m3p \<Rightarrow> replay_locals" where
  "replay_start s =
     (let journal = (if journal_generation s AND 1 \<noteq> 0 then 10 else 11)
      in \<lparr>rl_current = map_sequence s, rl_latest_journal = journal,
          rl_latest_page = block_next_page s ! unat journal, rl_open_uid = 0, rl_open_count = 0,
          rl_open_expected = 0, rl_open_source = UINT8_MAX, rl_open_destination = UINT8_MAX,
          rl_open_delta = replicate 25 zero_delta, rl_open_record_sequence = replicate 25 0,
          rl_last_switch = False, rl_switch_source = UINT8_MAX,
          rl_switch_destination = UINT8_MAX, rl_switch_live = 0, rl_switch_uid = 0,
          rl_switch_sequence = 0\<rparr>)"

section \<open>Before the replay\<close>

definition deltas_in_volume :: "fwlab_m3p \<Rightarrow> bool" where
  "deltas_in_volume s \<longleftrightarrow>
     list_all (\<lambda>i. let r = recovered_map s ! i
                   in rr_valid r \<longrightarrow>
                      list_all (\<lambda>j. \<not> (ucast (d_lpn (mr_delta (rr_map r) ! j)) \<ge> volume_lba_count s div 8))
                        [0..<unat (mr_delta_count (rr_map r))])
       [0..<unat (recovery_map_count s)]"

definition load_checkpoint :: "fwlab_m3p \<Rightarrow> fwlab_m3p" where
  "load_checkpoint s =
     (let c = recovered_commit s
      in s\<lparr>durable := recovered_checkpoint s, visible := recovered_checkpoint s,
           map_sequence := cc_covered_map_sequence c, durable_frontier := cc_durable_frontier c,
           host_sequence := cc_durable_frontier c, checkpoint_generation := cc_generation c,
           checkpoint_covered_sequence := cc_covered_map_sequence c,
           journal_generation := cc_journal_generation c,
           active_checkpoint_block := cc_body_block c,
           inactive_checkpoint_block := if cc_body_block c = 12 then 13 else 12,
           checkpoint_page := cc_body_page c + 2\<rparr>)"

definition finalize_begin :: "fwlab_m3p \<Rightarrow> bool \<times> fwlab_m3p" where
  "finalize_begin s =
     (if \<not> recovery_have_commit s then (False, s)
      else if expected_lba_count s \<noteq> 0 \<and> expected_lba_count s \<noteq> cc_lba_count (recovered_commit s)
      then recover_fault 16 s
      else
        let s = s\<lparr>volume_lba_count := cc_lba_count (recovered_commit s),
                  volume_format := cc_format_version (recovered_commit s)\<rparr>
        in if \<not> deltas_in_volume s then recover_fault 17 s else (True, load_checkpoint s))"

section \<open>The replay loop\<close>

definition replay_relocation ::
  "m3p_recovery_record \<Rightarrow> replay_locals \<Rightarrow> replay_locals option" where
  "replay_relocation r l =
     (let m = rr_map r; d = mr_delta m ! 0 in
      if mr_gc_uid m = 0 \<or> mr_delta_count m \<noteq> 1 \<or> mr_gc_expected_live m = 0 \<or>
         mr_gc_expected_live m > 25 \<or> mr_gc_source_block m \<ge> 16 \<or>
         mr_gc_destination_block m \<ge> 16 \<or> me_block (d_prior d) \<noteq> mr_gc_source_block m \<or>
         me_block (d_target d) \<noteq> mr_gc_destination_block m then None
      else
        let l = (if rl_open_uid l = 0
                 then l\<lparr>rl_open_uid := mr_gc_uid m, rl_open_expected := ucast (mr_gc_expected_live m),
                        rl_open_source := mr_gc_source_block m,
                        rl_open_destination := mr_gc_destination_block m\<rparr>
                 else l)
        in if mr_gc_uid m \<noteq> rl_open_uid l \<or>
              mr_gc_expected_live m \<noteq> ucast (rl_open_expected l) \<or>
              mr_gc_source_block m \<noteq> rl_open_source l \<or>
              mr_gc_destination_block m \<noteq> rl_open_destination l \<or>
              rl_open_count l \<ge> rl_open_expected l then None
           else
             let i = unat (rl_open_count l)
             in Some (l\<lparr>rl_open_delta := (rl_open_delta l)[i := d],
                  rl_open_record_sequence := (rl_open_record_sequence l)
                     [i := ob_record_sequence (rr_oob r)],
                  rl_open_count := rl_open_count l + 1\<rparr>))"

definition maps_block :: "fwlab_m3p \<Rightarrow> u8 \<Rightarrow> bool" where
  "maps_block s block \<longleftrightarrow>
     list_ex (\<lambda>lpn. me_state (durable s ! lpn) = M3P_L2P_VALUE \<and> me_block (durable s ! lpn) = block)
       [0..<M3P_LPN_COUNT]"

definition replay_switch_open ::
  "fwlab_m3p \<Rightarrow> m3p_map_record \<Rightarrow> replay_locals \<Rightarrow> replay_locals option" where
  "replay_switch_open s m l =
     (if rl_open_uid l = 0 \<and> mr_gc_expected_live m = 0 \<and> mr_gc_moved m = 0 then
        (if mr_gc_source_block m = mr_gc_destination_block m \<or> maps_block s (mr_gc_source_block m)
         then None
         else Some (l\<lparr>rl_open_uid := mr_gc_uid m, rl_open_expected := 0,
                rl_open_source := mr_gc_source_block m,
                rl_open_destination := mr_gc_destination_block m\<rparr>))
      else Some l)"

definition replay_switch ::
  "fwlab_m3p \<Rightarrow> m3p_map_record \<Rightarrow> replay_locals \<Rightarrow> replay_locals option" where
  "replay_switch s m l =
     (case replay_switch_open s m l of
        None \<Rightarrow> None
      | Some l \<Rightarrow>
          if rl_open_uid l = 0 \<or> mr_gc_uid m \<noteq> rl_open_uid l \<or>
             mr_gc_moved m \<noteq> ucast (rl_open_count l) \<or>
             mr_gc_expected_live m \<noteq> ucast (rl_open_expected l) \<or>
             mr_gc_source_block m \<noteq> rl_open_source l \<or>
             mr_gc_destination_block m \<noteq> rl_open_destination l then None
          else Some (l\<lparr>rl_last_switch := True, rl_switch_source := rl_open_source l,
                 rl_switch_destination := rl_open_destination l,
                 rl_switch_live := rl_open_expected l, rl_switch_uid := rl_open_uid l,
                 rl_switch_sequence := mr_resulting_map_sequence m, rl_open_uid := 0,
                 rl_open_count := 0\<rparr>))"

definition replay_check ::
  "fwlab_m3p \<Rightarrow> m3p_recovery_record \<Rightarrow> replay_locals \<Rightarrow> replay_locals option" where
  "replay_check s r l =
     (if mr_subtype (rr_map r) = M3P_MAP_RELOCATION then replay_relocation r l
      else if mr_subtype (rr_map r) = M3P_MAP_GC_SWITCH then replay_switch s (rr_map r) l
      else if rl_open_uid l \<noteq> 0 then None
      else Some l)"

text \<open>The frontiers after one applied record, with its sequence, journal block and page.\<close>

definition replay_advance :: "m3p_recovery_record \<Rightarrow> fwlab_m3p \<Rightarrow> fwlab_m3p" where
  "replay_advance r s =
     (let m = rr_map r;
          s = (if mr_host_sequence m > host_sequence s
               then s\<lparr>host_sequence := mr_host_sequence m\<rparr> else s)
      in if mr_host_sequence m > durable_frontier s \<and> mr_subtype m \<noteq> M3P_MAP_RELOCATION
         then s\<lparr>durable_frontier := mr_host_sequence m\<rparr> else s)"

datatype replay_result =
    Replay_Rejected fwlab_m3p
  | Replay_Done replay_locals fwlab_m3p
  | Replay_Out_Of_Fuel

text \<open>One iteration for the matches \<open>ms\<close>: \<open>None\<close> beside the state is the \<open>return 0\<close> of the loop.\<close>

definition replay_step ::
  "nat list \<Rightarrow> replay_locals \<Rightarrow> fwlab_m3p \<Rightarrow> replay_locals option \<times> fwlab_m3p" where
  "replay_step ms l s =
     (let i = last ms; r = recovered_map s ! i
      in case replay_check s r l of
           None \<Rightarrow> (None, s)
         | Some l \<Rightarrow>
             if length ms \<noteq> 1 then (None, s)
             else
               let (ok, s) = apply_recovered_record i s
               in if \<not> ok then (None, s)
                  else
                    (Some (l\<lparr>rl_current := mr_resulting_map_sequence (rr_map r),
                        rl_latest_journal := rr_block r, rl_latest_page := rr_page r + 1\<rparr>),
                     replay_advance r s))"

fun replay_loop :: "nat \<Rightarrow> replay_locals \<Rightarrow> fwlab_m3p \<Rightarrow> replay_result" where
  "replay_loop 0 l s = Replay_Out_Of_Fuel"
| "replay_loop (Suc fuel) l s =
     (let ms = find_recovery_record s (rl_current l + 1) (rl_current l)
      in if ms = [] then Replay_Done l s
         else case replay_step ms l s of
             (None, s) \<Rightarrow> Replay_Rejected s
           | (Some l, s) \<Rightarrow> replay_loop fuel l s)"

section \<open>After the replay\<close>

definition no_dangling_record :: "u32 \<Rightarrow> fwlab_m3p \<Rightarrow> bool" where
  "no_dangling_record current s \<longleftrightarrow>
     list_all (\<lambda>i. let r = recovered_map s ! i
                   in \<not> (rr_valid r \<and> mr_resulting_map_sequence (rr_map r) > current \<and>
                         mr_predecessor_map_sequence (rr_map r) \<le> current))
       [0..<unat (recovery_map_count s)]"

definition rebuild_p2l :: "fwlab_m3p \<Rightarrow> fwlab_m3p" where
  "rebuild_p2l s =
     s\<lparr>p2l := map (\<lambda>i. if p2l s ! i \<noteq> M3P_P2L_TORN \<and> p2l s ! i \<noteq> M3P_P2L_UNAVAILABLE
                       then (if recovery_data_valid s ! i then M3P_P2L_ORPHAN else M3P_P2L_FREE)
                       else p2l s ! i) [0..<M3P_PHYSICAL_PAGES]\<rparr>"

fun rebuild_live :: "nat list \<Rightarrow> fwlab_m3p \<Rightarrow> bool \<times> fwlab_m3p" where
  "rebuild_live [] s = (True, s)"
| "rebuild_live (lpn # lpns) s =
     (if of_nat lpn \<ge> volume_lba_count s div 8 \<and> me_state (durable s ! lpn) \<noteq> M3P_L2P_UNMAPPED
      then (False, s)
      else case data_record_matches s (of_nat lpn) (durable s ! lpn) of
          None \<Rightarrow> (False, s)
        | Some e \<Rightarrow>
            let s = s\<lparr>durable := (durable s)[lpn := e]\<rparr>
            in rebuild_live lpns
                 (if me_state e = M3P_L2P_VALUE
                  then p2l_set (me_block e) (me_page e) M3P_P2L_LIVE s else s))"

definition choose_journal :: "replay_locals \<Rightarrow> fwlab_m3p \<Rightarrow> fwlab_m3p" where
  "choose_journal l s =
     (if rl_latest_journal l \<ge> 10 \<and> rl_latest_journal l \<le> 11
      then s\<lparr>active_journal_block := rl_latest_journal l,
             inactive_journal_block := if rl_latest_journal l = 10 then 11 else 10,
             journal_page := rl_latest_page l\<rparr>
      else
        let active = (if block_next_page s ! 10 = 0 then 10 else 11 :: u8)
        in s\<lparr>active_journal_block := active,
             inactive_journal_block := if active = 10 then 11 else 10,
             journal_page := block_next_page s ! unat active\<rparr>)"

section \<open>Resuming a collection\<close>

definition load_open_gc :: "replay_locals \<Rightarrow> fwlab_m3p \<Rightarrow> fwlab_m3p" where
  "load_open_gc l s =
     (let n = unat (rl_open_count l)
      in s\<lparr>gc_uid := rl_open_uid l, gc_victim := rl_open_source l,
           gc_destination := rl_open_destination l, gc_live_count := rl_open_expected l,
           gc_moved := rl_open_count l, gc_reclaimable := 32 - rl_open_expected l,
           gc_delta := take n (rl_open_delta l) @ drop n (gc_delta s),
           gc_relocation_sequence := take n (rl_open_record_sequence l)
              @ drop n (gc_relocation_sequence s)\<rparr>)"

fun check_moves :: "nat list \<Rightarrow> fwlab_m3p \<Rightarrow> bool \<times> fwlab_m3p" where
  "check_moves [] s = (True, s)"
| "check_moves (i # is) s =
     (let d = gc_delta s ! i in
      if gc_source_lpn s ! i \<noteq> d_lpn d \<or> gc_source_page s ! i \<noteq> me_page (d_prior d) then (False, s)
      else case data_record_matches s (d_lpn d) (d_target d) of
          None \<Rightarrow> (False, s)
        | Some e \<Rightarrow>
            check_moves is
              (p2l_set (me_block e) (me_page e) M3P_P2L_GC_DEST_STAGED
                (p2l_set (me_block (d_prior d)) (me_page (d_prior d)) M3P_P2L_GC_SOURCE_PINNED
                  (s\<lparr>gc_delta := (gc_delta s)[i := d\<lparr>d_target := e\<rparr>]\<rparr>))))"

definition open_gc_roles :: "replay_locals \<Rightarrow> fwlab_m3p \<Rightarrow> fwlab_m3p" where
  "open_gc_roles l s =
     (let dest = rl_open_destination l;
          s = s\<lparr>reserve_block := dest\<rparr>;
          s = (if dest = replacement_block s
               then s\<lparr>replacement_used := True, block_role := (block_role s)[14 := M3P_ROLE_UNAVAILABLE]\<rparr>
               else s)
      in s\<lparr>block_role := (block_role s)[unat dest := M3P_ROLE_RESERVE],
           work_kind := FWLAB_M3P_MAINTENANCE_GC,
           work_state := if rl_open_count l < rl_open_expected l then M3P_GC_READ else M3P_GC_SWITCH,
           recovery_resume_gc := True, ready := False\<rparr>)"

definition resume_open_gc :: "replay_locals \<Rightarrow> fwlab_m3p \<Rightarrow> bool \<times> fwlab_m3p" where
  "resume_open_gc l s =
     and_then (m3p_gc_collect_live_pages (load_open_gc l s))
       (\<lambda>s. and_then (check_moves [0..<unat (rl_open_count l)] s)
         (\<lambda>s. (True, open_gc_roles l s)))"

definition load_switch :: "replay_locals \<Rightarrow> fwlab_m3p \<Rightarrow> fwlab_m3p" where
  "load_switch l s =
     s\<lparr>gc_uid := rl_switch_uid l, gc_victim := rl_switch_source l,
       gc_destination := rl_switch_destination l, gc_live_count := rl_switch_live l,
       gc_moved := rl_switch_live l, gc_reclaimable := 32 - rl_switch_live l,
       gc_switch_sequence := rl_switch_sequence l\<rparr>"

definition resume_bad_source :: "replay_locals \<Rightarrow> fwlab_m3p \<Rightarrow> bool \<times> fwlab_m3p" where
  "resume_bad_source l s =
     (let replacement = replacement_block s; r = unat replacement in
      if rl_switch_destination l = replacement \<or> replacement \<ge> 16 \<or>
         block_health s ! r \<noteq> FWLAB_NFC_BLOCK_GOOD \<or> block_next_page s ! r \<noteq> 0 \<or>
         block_role s ! r \<noteq> M3P_ROLE_REPLACEMENT then (False, s)
      else (True, (load_switch l s)\<lparr>gc_fault_code := ucast FWLAB_NFC_REASON_BAD_BLOCK,
              block_role := (block_role s)[unat (rl_switch_source l) := M3P_ROLE_UNAVAILABLE,
                 r := M3P_ROLE_RESERVE],
              reserve_block := replacement, replacement_used := True, work_state := M3P_GC_DONE\<rparr>))"

definition resume_gc :: "replay_locals \<Rightarrow> fwlab_m3p \<Rightarrow> bool \<times> fwlab_m3p" where
  "resume_gc l s =
     (let source = unat (rl_switch_source l) in
      if rl_open_uid l \<noteq> 0 then resume_open_gc l s
      else if rl_last_switch l \<and> block_health s ! source \<noteq> FWLAB_NFC_BLOCK_GOOD then
        resume_bad_source l s
      else if rl_last_switch l \<and> block_next_page s ! source \<noteq> 0 then
        (True, (load_switch l s)\<lparr>work_kind := FWLAB_M3P_MAINTENANCE_GC, work_state := M3P_GC_ERASE,
                 recovery_resume_gc := True, ready := False\<rparr>)
      else (True, s))"

section \<open>Block roles\<close>

definition recovered_reserve_eligible :: "fwlab_m3p \<Rightarrow> u8 \<Rightarrow> bool" where
  "recovered_reserve_eligible s block \<longleftrightarrow>
     (if block \<ge> 16 \<or> block_role s ! unat block \<noteq> M3P_ROLE_DATA \<or>
         block_health s ! unat block \<noteq> FWLAB_NFC_BLOCK_GOOD \<or>
         block_next_page s ! unat block \<noteq> 0 then False
      else list_all (\<lambda>page. p2l_at s block (of_nat page) = M3P_P2L_FREE) [0..<M3P_PAGES_PER_BLOCK] \<and>
           \<not> maps_block s block)"

definition role_step :: "u8 \<Rightarrow> nat \<Rightarrow> fwlab_m3p \<Rightarrow> fwlab_m3p" where
  "role_step replacement block s =
     (if block \<ge> 10 \<and> block < 14 then s
      else if block_health s ! block \<noteq> FWLAB_NFC_BLOCK_GOOD \<or>
              block_role s ! block = M3P_ROLE_UNAVAILABLE then
        (let s = s\<lparr>block_role := (block_role s)[block := M3P_ROLE_UNAVAILABLE]\<rparr>
         in if block \<noteq> unat replacement then s\<lparr>replacement_used := True\<rparr> else s)
      else if block \<noteq> unat replacement
      then s\<lparr>block_role := (block_role s)[block := M3P_ROLE_DATA]\<rparr>
      else s)"

definition relabel_blocks :: "fwlab_m3p \<Rightarrow> fwlab_m3p" where
  "relabel_blocks s = fold (role_step (replacement_block s)) [0..<M3P_BLOCKS] s"

definition relabel_replacement :: "fwlab_m3p \<Rightarrow> fwlab_m3p" where
  "relabel_replacement s =
     (let r = unat (replacement_block s);
          s = (if block_next_page s ! r \<noteq> 0 then s\<lparr>replacement_used := True\<rparr> else s)
      in if block_role s ! r \<noteq> M3P_ROLE_UNAVAILABLE
         then s\<lparr>block_role := (block_role s)
                  [r := if replacement_used s then M3P_ROLE_DATA else M3P_ROLE_REPLACEMENT]\<rparr>
         else s)"

definition choose_reserve :: "fwlab_m3p \<Rightarrow> u8 option" where
  "choose_reserve s =
     (let selected = reserve_block s in
      if work_kind s = FWLAB_M3P_MAINTENANCE_GC then
        (if selected \<ge> 16 \<or> block_role s ! unat selected \<noteq> M3P_ROLE_DATA then None
         else Some selected)
      else if \<not> recovered_reserve_eligible s selected then
        find (recovered_reserve_eligible s) (map of_nat [0..<M3P_BLOCKS])
      else Some selected)"

definition reconstruct_recovered_roles :: "fwlab_m3p \<Rightarrow> bool \<times> fwlab_m3p" where
  "reconstruct_recovered_roles s =
     (let s = relabel_blocks s in
      if replacement_block s \<ge> 16 then (False, s)
      else
        let s = relabel_replacement s
        in case choose_reserve s of
             None \<Rightarrow> (False, s)
           | Some b \<Rightarrow> (True, s\<lparr>reserve_block := b,
                block_role := (block_role s)[unat b := M3P_ROLE_RESERVE]\<rparr>))"

section \<open>Finishing\<close>

definition plan_cleanup :: "fwlab_m3p \<Rightarrow> fwlab_m3p" where
  "plan_cleanup s =
     (let s = (if block_next_page s ! unat (inactive_journal_block s) \<noteq> 0
               then s\<lparr>recovery_journal_cleanup := True\<rparr> else s);
          s = (if block_next_page s ! unat (inactive_checkpoint_block s) \<noteq> 0
               then s\<lparr>recovery_checkpoint_cleanup := True\<rparr> else s)
      in if recovery_journal_cleanup s \<or> recovery_checkpoint_cleanup s then
           (let s = (if work_kind s = FWLAB_M3P_MAINTENANCE_GC
                     then s\<lparr>recovery_resume_state := work_state s\<rparr> else s)
            in s\<lparr>work_kind := FWLAB_M3P_MAINTENANCE_RECOVERY,
                 work_state := if recovery_journal_cleanup s then M3P_RECOVERY_JOURNAL_ERASE
                               else M3P_RECOVERY_CHECKPOINT_ERASE,
                 ready := False\<rparr>)
         else s)"

definition finalize_rest :: "replay_locals \<Rightarrow> fwlab_m3p \<Rightarrow> bool \<times> fwlab_m3p" where
  "finalize_rest l s =
     (let s = s\<lparr>map_sequence := rl_current l\<rparr> in
      if \<not> no_dangling_record (rl_current l) s then (False, s)
      else
        and_then (rebuild_live [0..<M3P_LPN_COUNT] (rebuild_p2l s))
          (\<lambda>s. let s = choose_journal l s;
                   s = s\<lparr>visible := durable s\<rparr>
               in and_then (resume_gc l s)
                    (\<lambda>s. and_then (reconstruct_recovered_roles s)
                      (\<lambda>s. (True, plan_cleanup s)))))"

definition finalize_recovery :: "fwlab_m3p \<Rightarrow> bool \<times> fwlab_m3p" where
  "finalize_recovery s =
     and_then (finalize_begin s)
       (\<lambda>s. case replay_loop (M3P_MAX_RECOVERED_MAPS + 1) (replay_start s) s of
              Replay_Rejected s \<Rightarrow> (False, s)
            | Replay_Done l s \<Rightarrow> finalize_rest l s
            | Replay_Out_Of_Fuel \<Rightarrow> (False, s))"

definition finish_recovery_cleanup :: "fwlab_m3p \<Rightarrow> fwlab_m3p" where
  "finish_recovery_cleanup s =
     (if recovery_resume_state s \<noteq> M3P_WORK_IDLE
      then s\<lparr>work_state := recovery_resume_state s, recovery_resume_state := M3P_WORK_IDLE,
             work_kind := FWLAB_M3P_MAINTENANCE_GC\<rparr>
      else s\<lparr>work_state := M3P_RECOVERY_DONE, work_kind := FWLAB_M3P_MAINTENANCE_NONE,
             recovery_completed := True, ready := True\<rparr>)"

section \<open>The drive\<close>

definition recovery_quarantine :: "fwlab_m3p \<Rightarrow> fwlab_m3p" where
  "recovery_quarantine s = s\<lparr>work_state := M3P_WORK_FAILED, quarantined := True\<rparr>"

definition scan_start_drive :: "fwlab_m3p \<Rightarrow> bool \<times> fwlab_m3p" where
  "scan_start_drive s =
     (if recovery_page s \<ge> 512 then (True, s\<lparr>work_state := M3P_RECOVERY_FINALIZE\<rparr>)
      else
        let (r, s) = m3p_child_read_start 0
              (ppa_at (ucast (recovery_page s div 32)) (ucast (recovery_page s mod 32))) s
        in if r \<noteq> FWLAB_SPINE_V0_OK then (True, recovery_quarantine s)
           else (True, s\<lparr>work_state := M3P_RECOVERY_SCAN_WAIT\<rparr>))"

definition scan_skip_bad_block :: "u8 \<Rightarrow> fwlab_m3p \<Rightarrow> fwlab_m3p" where
  "scan_skip_bad_block block s =
     (let cp = ch_completion (child s); b = unat block;
          s = s\<lparr>block_health := (block_health s)[b := nc_block_health cp],
                block_erase_generation := (block_erase_generation s)[b := nc_final_erase_generation cp],
                block_erase_count := (block_erase_count s)[b := nc_final_erase_generation cp],
                block_role := (block_role s)[b := M3P_ROLE_UNAVAILABLE],
                block_next_page := (block_next_page s)[b := 32]\<rparr>;
          s = m3p_child_consume (p2l_fill_block block M3P_P2L_UNAVAILABLE s)
      in s\<lparr>recovery_page := (ucast block + 1) * 32, work_state := M3P_RECOVERY_SCAN_START\<rparr>)"

definition scan_torn_page :: "u16 \<Rightarrow> fwlab_m3p \<Rightarrow> fwlab_m3p" where
  "scan_torn_page linear s =
     (let cp = ch_completion (child s); b = unat (ucast (linear div 32) :: u8);
          page = ucast (linear mod 32) :: u8;
          s = s\<lparr>p2l := (p2l s)[unat linear := M3P_P2L_TORN],
                recovery_tail_seen := (recovery_tail_seen s)[b := True],
                block_erase_generation := (block_erase_generation s)[b := nc_final_erase_generation cp]\<rparr>;
          s = (if block_next_page s ! b \<le> page
               then s\<lparr>block_next_page := (block_next_page s)[b := page + 1]\<rparr> else s);
          s = m3p_child_consume s
      in s\<lparr>recovery_page := recovery_page s + 1, work_state := M3P_RECOVERY_SCAN_START\<rparr>)"

definition scan_wait_drive :: "fwlab_m3p \<Rightarrow> bool \<times> fwlab_m3p" where
  "scan_wait_drive s =
     (let linear = ucast (recovery_page s) :: u16;
          block = ucast (linear div 32) :: u8;
          cp = ch_completion (child s)
      in if ch_state (child s) = M3P_CHILD_FAILED then
           (if nc_reason cp = FWLAB_NFC_REASON_BAD_BLOCK \<and>
               nc_block_health cp \<noteq> FWLAB_NFC_BLOCK_GOOD \<and> (block < 10 \<or> block \<ge> 14)
            then (True, scan_skip_bad_block block s)
            else if nc_reason cp = FWLAB_NFC_REASON_ECC_UNCORRECTABLE \<or>
                    nc_integrity cp = FWLAB_NFC_INTEGRITY_TORN
            then (True, scan_torn_page linear s)
            else (True, recovery_quarantine s))
         else if ch_state (child s) = M3P_CHILD_DONE then
           (let (ok, s) = process_recovered_page linear s
            in if \<not> ok then (True, recovery_quarantine s)
               else
                 let s = m3p_child_consume s
                 in (True, s\<lparr>recovery_page := recovery_page s + 1,
                             work_state := M3P_RECOVERY_SCAN_START\<rparr>))
         else (False, s))"

definition finalize_drive :: "fwlab_m3p \<Rightarrow> bool \<times> fwlab_m3p" where
  "finalize_drive s =
     (let (ok, s) = finalize_recovery s in
      if \<not> ok then
        (True, recovery_quarantine
           (if recovery_fault_code s = 0 then s\<lparr>recovery_fault_code := 100\<rparr> else s))
      else if recovery_journal_cleanup s \<or> recovery_checkpoint_cleanup s then (True, s)
      else if work_kind s = FWLAB_M3P_MAINTENANCE_GC then (True, s)
      else (True, s\<lparr>work_state := M3P_RECOVERY_DONE, work_kind := FWLAB_M3P_MAINTENANCE_NONE,
                    recovery_completed := True, ready := True\<rparr>))"

definition cleanup_start :: "u8 \<Rightarrow> fwlab_m3p \<Rightarrow> bool \<times> fwlab_m3p" where
  "cleanup_start block s =
     (let (ok, s) = erase_block block s
      in (True, if \<not> ok then recovery_quarantine s else s))"

definition checkpoint_cleanup_drive :: "fwlab_m3p \<Rightarrow> bool \<times> fwlab_m3p" where
  "checkpoint_cleanup_drive s =
     (let block = inactive_checkpoint_block s; cs = ch_state (child s) in
      if \<not> recovery_checkpoint_cleanup s \<or> block \<ge> 16 then (True, recovery_quarantine s)
      else if cs = M3P_CHILD_IDLE then cleanup_start block s
      else if cs = M3P_CHILD_FAILED then (True, recovery_quarantine s)
      else if cs = M3P_CHILD_DONE then
        (True, finish_recovery_cleanup
           ((block_erased block s)\<lparr>recovery_checkpoint_cleanup := False\<rparr>))
      else (False, s))"

definition journal_cleanup_drive :: "fwlab_m3p \<Rightarrow> bool \<times> fwlab_m3p" where
  "journal_cleanup_drive s =
     (let block = inactive_journal_block s; cs = ch_state (child s) in
      if \<not> recovery_journal_cleanup s \<or> block < 10 \<or> block > 11 then (True, recovery_quarantine s)
      else if cs = M3P_CHILD_IDLE then cleanup_start block s
      else if cs = M3P_CHILD_FAILED then (True, recovery_quarantine s)
      else if cs = M3P_CHILD_DONE then
        (let s = (block_erased block s)\<lparr>recovery_journal_cleanup := False\<rparr>
         in (True, if recovery_checkpoint_cleanup s
                   then s\<lparr>work_state := M3P_RECOVERY_CHECKPOINT_ERASE\<rparr>
                   else finish_recovery_cleanup s))
      else (False, s))"

definition m3p_recovery_drive :: "fwlab_m3p \<Rightarrow> bool \<times> fwlab_m3p" where
  "m3p_recovery_drive s =
     (case work_state s of
        M3P_RECOVERY_SCAN_START \<Rightarrow> scan_start_drive s
      | M3P_RECOVERY_SCAN_WAIT \<Rightarrow> scan_wait_drive s
      | M3P_RECOVERY_FINALIZE \<Rightarrow> finalize_drive s
      | M3P_RECOVERY_CHECKPOINT_ERASE \<Rightarrow> checkpoint_cleanup_drive s
      | M3P_RECOVERY_JOURNAL_ERASE \<Rightarrow> journal_cleanup_drive s
      | _ \<Rightarrow> (False, s))"

record m3p_recovery_status =
  rs_state :: m3p_maintenance_state
  rs_pages_scanned :: u32
  rs_checkpoint_generation :: u32
  rs_durable_map_sequence :: u32
  rs_durable_frontier :: u32
  rs_fault_code :: u32

definition fwlab_m3p_recovery_query :: "fwlab_m3p \<Rightarrow> m3p_recovery_status option" where
  "fwlab_m3p_recovery_query s =
     (if magic s \<noteq> M3P_MAGIC \<or> \<not> initialized s then None
      else
        let failed = (quarantined s \<or> work_state s = M3P_WORK_FAILED)
        in Some \<lparr>rs_state =
            (if failed then FWLAB_M3P_MAINTENANCE_QUARANTINED
             else if ready s \<and> recovery_completed s then FWLAB_M3P_MAINTENANCE_SUCCEEDED
             else if work_kind s = FWLAB_M3P_MAINTENANCE_RECOVERY then FWLAB_M3P_MAINTENANCE_RUNNING
             else FWLAB_M3P_MAINTENANCE_IDLE),
          rs_pages_scanned = recovery_page s, rs_checkpoint_generation = checkpoint_generation s,
          rs_durable_map_sequence = map_sequence s, rs_durable_frontier = durable_frontier s,
          rs_fault_code =
            (if failed then (if recovery_fault_code s = 0 then ucast FWLAB_NFC_REASON_INTERNAL
                             else recovery_fault_code s)
             else 0)\<rparr>)"

end
