(* ===== verification/M3p_Service.thy ===== *)
theory M3p_Service
  imports M3p_Gc
begin

text \<open>
  The block service of \<open>core/m3p/m3p_runtime.c\<close>: validation of requests, reservation of pages,
  admission (\<open>block_submit\<close>), query, cancel and retirement of the operation slot, the close of an
  execution epoch, and construction of an instance.

  The controller buffer that holds the host's data is behind a function table, so its read and
  write are parameters over an abstract buffer state. The checks that a pointer or table entry is
  not null have no counterpart; \<open>fwlab_m3p_init\<close> takes the outcome of its pointer, size and
  alignment checks as one truth value.
\<close>

section \<open>The controller buffer\<close>

record 'b buffer_port =
  bp_read :: "buffer_lease \<Rightarrow> buffer_span \<Rightarrow> u32 \<Rightarrow> 'b \<Rightarrow> u32 \<times> bytes \<times> 'b"
  bp_write :: "buffer_lease \<Rightarrow> buffer_span \<Rightarrow> bytes \<Rightarrow> 'b \<Rightarrow> u32 \<times> 'b"

section \<open>Validation\<close>

definition host_action_token_valid :: "host_action_token \<Rightarrow> u16 \<Rightarrow> bool" where
  "host_action_token_valid t expected_kind \<longleftrightarrow>
     ha_version t = 1 \<and> ha_size t = sizeof_host_action_token \<and>
     ha_type_tag t = FWLAB_HOST_ACTION_TOKEN_V0_TAG \<and>
     cmd_instance_nonce (ha_command t) \<noteq> 0 \<and> cmd_command_uid (ha_command t) \<noteq> 0 \<and>
     cmd_controller_epoch (ha_command t) \<noteq> 0 \<and> cmd_generation (ha_command t) \<noteq> 0 \<and>
     (ha_origin0 t \<noteq> 0 \<or> ha_origin1 t \<noteq> 0) \<and> ha_action_uid t \<noteq> 0 \<and> ha_generation t \<noteq> 0 \<and>
     ha_ordinal t < 8 \<and> ha_kind t = expected_kind \<and> words_zero (ha_reserved t)"

definition operation_action_kind :: "u32 \<Rightarrow> u16" where
  "operation_action_kind operation_code =
     (if operation_code = FWLAB_BLOCK_V0_READ then 6
      else if operation_code = FWLAB_BLOCK_V0_WRITE then 7
      else if operation_code = FWLAB_BLOCK_V0_FLUSH then 8
      else if operation_code = FWLAB_BLOCK_V0_TRIM then 9
      else 0)"

definition buffer_lease_valid ::
  "fwlab_m3p \<Rightarrow> buffer_lease \<Rightarrow> buffer_span \<Rightarrow> u32 \<Rightarrow> u32 \<Rightarrow> bool" where
  "buffer_lease_valid s lease span rights exact_bytes \<longleftrightarrow>
     bl_version lease = 1 \<and> bl_size lease = sizeof_buffer_lease \<and>
     bl_type_tag lease = FWLAB_CONTROLLER_BUFFER_LEASE_V0_TAG \<and>
     bl_issuer_nonce lease = cb_issuer_nonce s \<and> bl_buffer_uid lease \<noteq> 0 \<and>
     bl_lease_uid lease \<noteq> 0 \<and> bl_generation lease = cb_generation s \<and>
     bl_capacity_bytes lease \<ge> exact_bytes \<and> bl_rights lease AND rights = rights \<and>
     bl_reserved0 lease = 0 \<and> words_zero (bl_reserved1 lease) \<and>
     bs_version span = 1 \<and> bs_size span = sizeof_buffer_span \<and> bs_reserved0 span = 0 \<and>
     bs_length span = exact_bytes \<and>
     (ucast (bs_offset span) + ucast (bs_length span) :: u64) \<le> ucast (bl_capacity_bytes lease) \<and>
     words_zero (bs_reserved1 span)"

definition m3p_namespace_equal :: "u64 \<times> u64 \<Rightarrow> u64 \<times> u64 \<Rightarrow> bool" where
  "m3p_namespace_equal l r \<longleftrightarrow> fst l = fst r \<and> snd l = snd r"

definition request_header_valid :: "fwlab_m3p \<Rightarrow> block_request \<Rightarrow> bool" where
  "request_header_valid s rq \<longleftrightarrow> (let tok = rq_operation_token rq in \<not> (
     rq_version rq \<noteq> 1 \<or> rq_size rq \<noteq> sizeof_block_request \<or> rq_reserved0 rq \<noteq> 0 \<or>
     rq_operation rq < FWLAB_BLOCK_V0_READ \<or> rq_operation rq > FWLAB_BLOCK_V0_TRIM \<or>
     bt_version tok \<noteq> 1 \<or> bt_size tok \<noteq> sizeof_block_op_token \<or>
     bt_type_tag tok \<noteq> FWLAB_BLOCK_OP_TOKEN_V0_TAG \<or>
     bt_provider_nonce tok \<noteq> cfg_provider_nonce (config s) \<or>
     bt_generation tok \<noteq> cfg_generation (config s) \<or> \<not> words_zero (bt_reserved tok) \<or>
     \<not> m3p_namespace_equal (rq_namespace0 rq, rq_namespace1 rq)
         (cfg_namespace0 (config s), cfg_namespace1 (config s)) \<or>
     rq_buffer_present rq > 1 \<or> \<not> words_zero (rq_reserved1 rq) \<or> \<not> words_zero (rq_reserved2 rq)))"

definition no_buffer :: "block_request \<Rightarrow> bool" where
  "no_buffer rq \<longleftrightarrow> rq_buffer_present rq = 0 \<and> rq_buffer rq = zero_buffer_lease \<and>
     rq_buffer_span rq = zero_buffer_span"

definition request_valid :: "fwlab_m3p \<Rightarrow> block_request \<Rightarrow> bool" where
  "request_valid s rq \<longleftrightarrow>
     (if \<not> request_header_valid s rq then False
      else if \<not> host_action_token_valid (bt_action (rq_operation_token rq))
                  (operation_action_kind (rq_operation rq)) then False
      else if rq_operation rq = FWLAB_BLOCK_V0_FLUSH then
        rq_lba rq = 0 \<and> rq_lba_count rq = 0 \<and>
        rq_durability rq = FWLAB_BLOCK_V0_DURABILITY_FRONTIER \<and> no_buffer rq
      else if rq_lba_count rq = 0 \<or> rq_lba_count rq > 16 then False
      else
        let end_lba = rq_lba rq + ucast (rq_lba_count rq)
        in if end_lba > volume_lba_count s \<or> end_lba < rq_lba rq then False
           else if rq_operation rq = FWLAB_BLOCK_V0_TRIM then
             rq_durability rq = FWLAB_BLOCK_V0_DURABILITY_NONE \<and> no_buffer rq
           else
             let exact_bytes = rq_lba_count rq * 512
             in if rq_buffer_present rq = 0 then False
                else if rq_operation rq = FWLAB_BLOCK_V0_READ then
                  rq_durability rq = FWLAB_BLOCK_V0_DURABILITY_NONE \<and>
                  buffer_lease_valid s (rq_buffer rq) (rq_buffer_span rq)
                    FWLAB_CONTROLLER_BUFFER_V0_WRITE exact_bytes
                else
                  (rq_durability rq = FWLAB_BLOCK_V0_DURABILITY_VOLATILE_ALLOWED \<or>
                   rq_durability rq = FWLAB_BLOCK_V0_DURABILITY_SELF) \<and>
                  buffer_lease_valid s (rq_buffer rq) (rq_buffer_span rq)
                    FWLAB_CONTROLLER_BUFFER_V0_READ exact_bytes)"

definition submit_result_init :: "block_op_token \<Rightarrow> block_disposition \<Rightarrow> u32 \<Rightarrow> block_submit_result" where
  "submit_result_init tok disposition fault_code =
     (if disposition = FWLAB_HOST_ACTION_V0_REJECTED
      then \<lparr>sr_operation_token = tok, sr_disposition = disposition, sr_fault_domain = 1,
            sr_fault_code = if fault_code = 0 then 1 else fault_code\<rparr>
      else \<lparr>sr_operation_token = tok, sr_disposition = disposition, sr_fault_domain = 0,
            sr_fault_code = 0\<rparr>)"

definition submit_resource_failure :: "block_op_token \<Rightarrow> u32 \<Rightarrow> block_submit_result" where
  "submit_resource_failure tok code =
     (submit_result_init tok FWLAB_HOST_ACTION_V0_REJECTED code)
       \<lparr>sr_fault_domain := FWLAB_BLOCK_V0_FAULT_RESOURCE\<rparr>"

definition request_child_bound :: "fwlab_m3p \<Rightarrow> block_request \<Rightarrow> u32" where
  "request_child_bound s rq =
     (if rq_operation rq = FWLAB_BLOCK_V0_READ then 6
      else if rq_operation rq = FWLAB_BLOCK_V0_WRITE then
        (if rq_durability rq = FWLAB_BLOCK_V0_DURABILITY_SELF then 20 else 10)
      else if rq_operation rq = FWLAB_BLOCK_V0_FLUSH then 8
      else if rq_operation rq = FWLAB_BLOCK_V0_TRIM then (if pending_count s < 4 then 1 else 0)
      else 0)"

section \<open>Sectors of a page and page reservation\<close>

definition sector_first :: "u64 \<Rightarrow> u16 \<Rightarrow> u64" where
  "sector_first lba lpn = (let page_start = ucast lpn * 8 in if lba > page_start then lba else page_start)"

definition sector_last :: "u64 \<Rightarrow> u32 \<Rightarrow> u16 \<Rightarrow> u64" where
  "sector_last lba count lpn =
     (let request_end = lba + ucast count; page_end = ucast lpn * 8 + 8
      in if request_end < page_end then request_end else page_end)"

definition sector_mask :: "u64 \<Rightarrow> u32 \<Rightarrow> u16 \<Rightarrow> u8" where
  "sector_mask lba count lpn =
     foldl (\<lambda>mask sector. mask OR push_bit (sector - unat lpn * 8) 1) 0
       [unat (sector_first lba lpn)..<unat (sector_last lba count lpn)]"

definition lpn_range :: "u16 \<Rightarrow> u16 \<Rightarrow> u16 list" where
  "lpn_range first_lpn last_lpn = map of_nat [unat first_lpn..<Suc (unat last_lpn)]"

definition write_delta :: "fwlab_m3p \<Rightarrow> block_request \<Rightarrow> u16 \<Rightarrow> nfc_ppa \<Rightarrow> m3p_delta" where
  "write_delta s rq lpn ppa =
     (let prior = visible s ! unat lpn;
          written = sector_mask (rq_lba rq) (rq_lba_count rq) lpn
      in \<lparr>d_lpn = lpn,
          d_target = zero_map_entry\<lparr>me_state := M3P_L2P_VALUE,
            me_valid_mask := (if me_state prior = M3P_L2P_VALUE then me_valid_mask prior else 0)
               OR written,
            me_block := ucast (ppa_block ppa), me_page := ucast (ppa_page ppa),
            me_erase_generation := block_erase_generation s ! unat (ppa_block ppa),
            me_data_record_sequence := record_sequence s + 1,
            me_logical_version := me_logical_version prior + 1\<rparr>,
          d_prior = prior\<rparr>)"

fun reserve_pages ::
  "u16 list \<Rightarrow> fwlab_m3p \<Rightarrow> m3p_operation \<Rightarrow> bool \<times> fwlab_m3p \<times> m3p_operation" where
  "reserve_pages [] s op = (True, s, op)"
| "reserve_pages (lpn # lpns) s op =
     (case m3p_allocate_data_page s of
        (None, s) \<Rightarrow> (False, s, op)
      | (Some ppa, s) \<Rightarrow>
          if record_sequence s \<ge> cfg_record_sequence_limit (config s) then (False, s, op)
          else
            reserve_pages lpns (s\<lparr>record_sequence := record_sequence s + 1\<rparr>)
              (op\<lparr>op_delta := (op_delta op)[unat (op_delta_count op) :=
                    write_delta s (op_request op) lpn ppa],
                  op_delta_count := op_delta_count op + 1\<rparr>))"

definition reserve_write_pages :: "fwlab_m3p \<Rightarrow> m3p_operation \<Rightarrow> bool \<times> fwlab_m3p \<times> m3p_operation" where
  "reserve_write_pages s op =
     (let (ok, s', op') = reserve_pages (lpn_range (op_first_lpn op) (op_last_lpn op)) s
            (op\<lparr>op_delta_count := 0\<rparr>)
      in if ok then (True, s', op')
         else (False, s'\<lparr>block_next_page := block_next_page s, p2l := p2l s,
                 record_sequence := record_sequence s\<rparr>,
               op'\<lparr>op_delta_count := 0\<rparr>))"

definition trim_target :: "m3p_map_entry \<Rightarrow> u8 \<Rightarrow> m3p_map_entry" where
  "trim_target prior removed =
     (let mask = me_valid_mask prior AND NOT removed;
          version = me_logical_version prior + 1
      in if me_state prior \<noteq> M3P_L2P_VALUE \<or> mask = 0
         then zero_map_entry\<lparr>me_state := M3P_L2P_TOMBSTONE, me_block := UINT8_MAX,
                me_page := UINT8_MAX, me_logical_version := version\<rparr>
         else prior\<lparr>me_logical_version := version, me_valid_mask := mask\<rparr>)"

definition prepare_trim :: "fwlab_m3p \<Rightarrow> m3p_operation \<Rightarrow> m3p_operation" where
  "prepare_trim s op =
     foldl (\<lambda>op lpn.
         let prior = visible s ! unat lpn;
             removed = sector_mask (rq_lba (op_request op)) (rq_lba_count (op_request op)) lpn
         in op\<lparr>op_delta := (op_delta op)[unat (op_delta_count op) :=
                 \<lparr>d_lpn = lpn, d_target = trim_target prior removed, d_prior = prior\<rparr>],
               op_delta_count := op_delta_count op + 1\<rparr>)
       (op\<lparr>op_delta_count := 0\<rparr>) (lpn_range (op_first_lpn op) (op_last_lpn op))"

section \<open>Admission\<close>

definition request_first_lpn :: "block_request \<Rightarrow> u16" where
  "request_first_lpn rq =
     (if rq_operation rq = FWLAB_BLOCK_V0_FLUSH then 0 else ucast (rq_lba rq div 8))"

definition request_last_lpn :: "block_request \<Rightarrow> u16" where
  "request_last_lpn rq =
     (if rq_operation rq = FWLAB_BLOCK_V0_FLUSH then 0
      else ucast ((rq_lba rq + ucast (rq_lba_count rq) - 1) div 8))"

definition mutating :: "block_request \<Rightarrow> bool" where
  "mutating rq \<longleftrightarrow> rq_operation rq = FWLAB_BLOCK_V0_WRITE \<or> rq_operation rq = FWLAB_BLOCK_V0_TRIM"

definition submit_backpressure :: "fwlab_m3p \<Rightarrow> block_request \<Rightarrow> bool" where
  "submit_backpressure s rq \<longleftrightarrow>
     (admission_closed s \<or> \<not> ready s \<or> work_kind s \<noteq> FWLAB_M3P_MAINTENANCE_NONE \<or>
      op_state (operation s) \<noteq> M3P_OPERATION_FREE) \<or>
     (mutating rq \<and> m3p_pending_overlaps s (request_first_lpn rq) (request_last_lpn rq)) \<or>
     ((rq_operation rq = FWLAB_BLOCK_V0_TRIM \<or>
       (rq_operation rq = FWLAB_BLOCK_V0_WRITE \<and>
        rq_durability rq = FWLAB_BLOCK_V0_DURABILITY_VOLATILE_ALLOWED)) \<and>
      pending_count s \<ge> 4)"

definition submit_exhausted :: "fwlab_m3p \<Rightarrow> block_request \<Rightarrow> bool" where
  "submit_exhausted s rq \<longleftrightarrow>
     (let bound = request_child_bound s rq
      in bound = 0 \<or>
         \<not> child_credit_available s
            (bound + (if rq_operation rq = FWLAB_BLOCK_V0_FLUSH then 0 else 32)) \<or>
         record_sequence s \<ge> cfg_record_sequence_limit (config s) \<or>
         (mutating rq \<and> host_sequence s \<ge> cfg_host_sequence_limit (config s)))"

definition candidate_of :: "fwlab_m3p \<Rightarrow> block_request \<Rightarrow> m3p_operation" where
  "candidate_of s rq =
     zero_operation\<lparr>op_state := M3P_OPERATION_PREPARED, op_request := rq,
       op_first_lpn := request_first_lpn rq, op_last_lpn := request_last_lpn rq,
       op_current_lpn := request_first_lpn rq, op_captured_frontier := host_sequence s,
       op_status := zero_block_status\<lparr>bst_operation_token := rq_operation_token rq,
         bst_state := FWLAB_BLOCK_V0_STATE_ACCEPTED\<rparr>\<rparr>"

definition submit_write ::
  "'b buffer_port \<Rightarrow> block_request \<Rightarrow> m3p_operation \<Rightarrow> fwlab_m3p \<times> 'b
     \<Rightarrow> block_submit_result \<times> fwlab_m3p \<times> 'b" where
  "submit_write port rq op w =
     (let (s, b) = w; tok = rq_operation_token rq; len = bs_length (rq_buffer_span rq);
          (res, data, b) = bp_read port (rq_buffer rq) (rq_buffer_span rq) len b
      in if res \<noteq> FWLAB_CONTROLLER_BUFFER_V0_OK then (submit_resource_failure tok 5, s, b)
         else
           let op = op\<lparr>op_io_bytes := put_bytes (op_io_bytes op) 0 (take (unat len) data)\<rparr>;
               (ok, s, op) = reserve_write_pages s op
           in if \<not> ok then
                (let (r, s) = fwlab_m3p_force_gc_start s
                 in if r = FWLAB_SPINE_V0_OK
                    then (submit_result_init tok FWLAB_HOST_ACTION_V0_BACKPRESSURE 0, s, b)
                    else (submit_resource_failure tok 6, s, b))
              else
                let h = host_sequence s + 1
                in (submit_result_init tok FWLAB_HOST_ACTION_V0_ACCEPTED 0,
                    s\<lparr>host_sequence := h,
                      operation := op\<lparr>op_host_sequence := h, op_captured_frontier := h,
                        op_state := M3P_OPERATION_PAGE_PREPARE\<rparr>\<rparr>, b))"

definition block_submit ::
  "'b buffer_port \<Rightarrow> block_request \<Rightarrow> fwlab_m3p \<times> 'b \<Rightarrow> block_submit_result \<times> fwlab_m3p \<times> 'b" where
  "block_submit port rq w =
     (let (s, b) = w; tok = rq_operation_token rq;
          accepted = submit_result_init tok FWLAB_HOST_ACTION_V0_ACCEPTED 0
      in if \<not> m3p_live s \<or> \<not> request_valid s rq then
           (submit_result_init tok FWLAB_HOST_ACTION_V0_REJECTED 1, s, b)
         else if submit_backpressure s rq then
           (submit_result_init tok FWLAB_HOST_ACTION_V0_BACKPRESSURE 0, s, b)
         else if submit_exhausted s rq then (submit_resource_failure tok 3, s, b)
         else if unat (journal_page s) + unat (pending_count s) + 1 > M3P_PAGES_PER_BLOCK then
           (submit_resource_failure tok 4, s, b)
         else
           let op = candidate_of s rq
           in if rq_operation rq = FWLAB_BLOCK_V0_WRITE then submit_write port rq op (s, b)
              else if rq_operation rq = FWLAB_BLOCK_V0_READ then
                (accepted, s\<lparr>operation := op\<lparr>op_io_bytes := replicate 8192 0,
                    op_state := M3P_OPERATION_READ_PAGE\<rparr>\<rparr>, b)
              else if rq_operation rq = FWLAB_BLOCK_V0_TRIM then
                (let h = host_sequence s + 1;
                     op = prepare_trim s (op\<lparr>op_host_sequence := h, op_captured_frontier := h\<rparr>)
                 in (accepted, s\<lparr>host_sequence := h,
                       operation := op\<lparr>op_state := M3P_OPERATION_PENDING_INSTALL\<rparr>\<rparr>, b))
              else (accepted, s\<lparr>operation := op\<lparr>op_state := M3P_OPERATION_COMMIT_PENDING\<rparr>\<rparr>, b))"

section \<open>The operation slot\<close>

definition slot_check :: "fwlab_m3p \<Rightarrow> block_op_token \<Rightarrow> spine_result" where
  "slot_check s tok =
     (if \<not> m3p_live s then FWLAB_SPINE_V0_INVALID
      else if op_state (operation s) = M3P_OPERATION_FREE \<or>
              \<not> m3p_token_equal tok (rq_operation_token (op_request (operation s)))
      then FWLAB_SPINE_V0_STALE
      else FWLAB_SPINE_V0_OK)"

definition block_query :: "block_op_token \<Rightarrow> fwlab_m3p \<Rightarrow> spine_result \<times> block_status option" where
  "block_query tok s =
     (let r = slot_check s tok
      in if r \<noteq> FWLAB_SPINE_V0_OK then (r, None)
         else (FWLAB_SPINE_V0_OK, Some (op_status (operation s))))"

definition block_cancel :: "block_op_token \<Rightarrow> fwlab_m3p \<Rightarrow> spine_result \<times> fwlab_m3p" where
  "block_cancel tok s =
     (let r = slot_check s tok
      in if r \<noteq> FWLAB_SPINE_V0_OK then (r, s)
         else if op_at_least_terminal (op_state (operation s)) then (FWLAB_SPINE_V0_WRONG_STATE, s)
         else (FWLAB_SPINE_V0_OK,
               s\<lparr>operation := (operation s)\<lparr>op_cancel_requested := True\<rparr>,
                 cancel_count := cancel_count s + 1\<rparr>))"

definition block_retire_start :: "block_op_token \<Rightarrow> fwlab_m3p \<Rightarrow> spine_result \<times> fwlab_m3p" where
  "block_retire_start tok s =
     (let r = slot_check s tok; op = operation s
      in if r \<noteq> FWLAB_SPINE_V0_OK then (r, s)
         else if op_state op = M3P_OPERATION_TERMINAL \<or> op_state op = M3P_OPERATION_FAILED then
           (FWLAB_SPINE_V0_OK,
            s\<lparr>operation := op\<lparr>op_state := M3P_OPERATION_DRAINING,
                op_status := (op_status op)\<lparr>bst_state := FWLAB_BLOCK_V0_STATE_DRAINING\<rparr>\<rparr>\<rparr>)
         else (if op_at_least_draining (op_state op) then FWLAB_SPINE_V0_OK
               else FWLAB_SPINE_V0_WRONG_STATE, s))"

definition block_retire_query ::
  "block_op_token \<Rightarrow> fwlab_m3p \<Rightarrow> (spine_result \<times> block_status option) \<times> fwlab_m3p" where
  "block_retire_query tok s =
     (let r = slot_check s tok; op = operation s
      in if r \<noteq> FWLAB_SPINE_V0_OK then ((r, None), s)
         else if op_state op = M3P_OPERATION_DRAINING then
           ((FWLAB_SPINE_V0_IN_PROGRESS, Some (op_status op)), s)
         else if op_state op \<noteq> M3P_OPERATION_DRAINED then ((FWLAB_SPINE_V0_WRONG_STATE, None), s)
         else
           ((FWLAB_SPINE_V0_OK, Some ((op_status op)\<lparr>bst_state := FWLAB_BLOCK_V0_STATE_RETIRED\<rparr>)),
            s\<lparr>operation := zero_operation\<rparr>))"

section \<open>Closing an epoch\<close>

definition discard_delta :: "m3p_delta \<Rightarrow> fwlab_m3p \<Rightarrow> fwlab_m3p" where
  "discard_delta d s =
     (let s = (if me_state (d_target d) = M3P_L2P_VALUE
               then p2l_set (me_block (d_target d)) (me_page (d_target d)) M3P_P2L_ORPHAN s else s);
          s = (if me_state (d_prior d) = M3P_L2P_VALUE
               then p2l_set (me_block (d_prior d)) (me_page (d_prior d)) M3P_P2L_LIVE s else s)
      in s\<lparr>visible := (visible s)[unat (d_lpn d) := durable s ! unat (d_lpn d)]\<rparr>)"

text \<open>The loop of \<open>discard_pending\<close>: it runs while the ring is not empty and every round removes
  one entry, so it runs \<open>pending_count\<close> times. The C code reaches the front entry through
  \<open>m3p_pending_front\<close> and would dereference a null pointer if that slot were inactive; the ring
  invariant excludes this.\<close>

primrec discard_loop :: "nat \<Rightarrow> fwlab_m3p \<Rightarrow> fwlab_m3p" where
  "discard_loop 0 s = s"
| "discard_loop (Suc n) s =
     (let pd = pending s ! unat (pending_head s)
      in discard_loop n (m3p_pending_pop
           (fold discard_delta (take (unat (pd_delta_count pd)) (pd_delta pd)) s)))"

definition discard_pending :: "fwlab_m3p \<Rightarrow> fwlab_m3p" where
  "discard_pending s = discard_loop (unat (pending_count s)) s"

definition block_epoch_close :: "u64 \<Rightarrow> u32 \<Rightarrow> fwlab_m3p \<Rightarrow> spine_result \<times> fwlab_m3p" where
  "block_epoch_close nonce epoch s =
     (if \<not> m3p_live s \<or> nonce = 0 \<or> epoch = 0 then (FWLAB_SPINE_V0_INVALID, s)
      else if admission_closed s then
        (if close_lifecycle_nonce s = nonce \<and> close_execution_epoch s = epoch
         then FWLAB_SPINE_V0_OK else FWLAB_SPINE_V0_STALE, s)
      else
        let s = s\<lparr>admission_closed := True, close_lifecycle_nonce := nonce,
                  close_execution_epoch := epoch\<rparr>;
            op = operation s
        in (FWLAB_SPINE_V0_OK,
            if op_state op \<noteq> M3P_OPERATION_FREE \<and> \<not> op_at_least_terminal (op_state op)
            then s\<lparr>operation := op\<lparr>op_cancel_requested := True\<rparr>\<rparr> else s))"

definition block_epoch_quiescent :: "u64 \<Rightarrow> u32 \<Rightarrow> fwlab_m3p \<Rightarrow> block_epoch_status option" where
  "block_epoch_quiescent nonce epoch s =
     (if \<not> m3p_live s \<or> \<not> admission_closed s \<or> nonce \<noteq> close_lifecycle_nonce s \<or>
         epoch \<noteq> close_execution_epoch s then None
      else
        let quiescent = (op_state (operation s) = M3P_OPERATION_FREE \<and> pending_count s = 0 \<and>
              ch_state (child s) = M3P_CHILD_IDLE \<and> nfc_quiescent s)
        in Some \<lparr>es_lifecycle_instance_nonce = nonce, es_execution_epoch = epoch,
             es_aggregate_operations =
               (if op_state (operation s) = M3P_OPERATION_FREE then 0 else 1),
             es_admission_closed = True, es_quiescent = quiescent,
             es_aggregate_proof0 = (if quiescent then cfg_provider_nonce (config s) else 0),
             es_aggregate_proof1 =
               (if quiescent then push_bit 32 (ucast (cfg_generation (config s))) OR ucast epoch
                else 0)\<rparr>)"

section \<open>Construction\<close>

definition fwlab_m3p_config_valid :: "m3p_config \<Rightarrow> bool" where
  "fwlab_m3p_config_valid c \<longleftrightarrow>
     cfg_version c = 1 \<and> cfg_size c = sizeof_m3p_config \<and> cfg_reserved0 c = 0 \<and>
     \<not> m3p_bytes_zero (cfg_media_uuid c) 0 16 \<and>
     (cfg_namespace0 c \<noteq> 0 \<or> cfg_namespace1 c \<noteq> 0) \<and>
     cfg_instance_nonce c \<noteq> 0 \<and> cfg_provider_nonce c \<noteq> 0 \<and> cfg_nfc_instance_nonce c \<noteq> 0 \<and>
     cfg_instance_nonce c \<noteq> cfg_provider_nonce c \<and>
     cfg_instance_nonce c \<noteq> cfg_nfc_instance_nonce c \<and>
     cfg_provider_nonce c \<noteq> cfg_nfc_instance_nonce c \<and>
     cfg_next_nfc_operation_uid c \<noteq> 0 \<and> cfg_generation c \<noteq> 0 \<and>
     cfg_execution_epoch c \<noteq> 0 \<and> cfg_nfc_epoch c \<noteq> 0 \<and>
     ((cfg_nfc_operation_uid_limit c = 2048 \<and> cfg_host_sequence_limit c = 512 \<and>
       cfg_record_sequence_limit c = 2048) \<or>
      (cfg_nfc_operation_uid_limit c = 65536 \<and> cfg_host_sequence_limit c = 4096 \<and>
       cfg_record_sequence_limit c = 65536)) \<and>
     cfg_next_nfc_operation_uid c \<le> ucast (cfg_nfc_operation_uid_limit c) \<and>
     words_zero (cfg_reserved1 c)"

definition zero_m3p :: "m3p_config \<Rightarrow> fwlab_m3p" where
  "zero_m3p c = \<lparr>magic = 0, config = c, cb_issuer_nonce = 0, cb_generation = 0,
     volume_lba_count = 0, expected_lba_count = 0, volume_format = 0, initialized = False,
     ready = False, admission_closed = False, quarantined = False,
     work_kind = FWLAB_M3P_MAINTENANCE_NONE, work_state = M3P_WORK_IDLE, fair_cursor = 0,
     nfc_close_started = False, nfc_quiescent = False, child_starts = 0, cancel_count = 0,
     next_child_uid = 0, close_lifecycle_nonce = 0, close_execution_epoch = 0,
     durable = replicate M3P_LPN_COUNT zero_map_entry,
     visible = replicate M3P_LPN_COUNT zero_map_entry,
     p2l = replicate M3P_PHYSICAL_PAGES M3P_P2L_FREE,
     block_role = replicate M3P_BLOCKS M3P_ROLE_NONE, block_health = replicate M3P_BLOCKS 0,
     block_next_page = replicate M3P_BLOCKS 0, block_erase_generation = replicate M3P_BLOCKS 0,
     block_erase_count = replicate M3P_BLOCKS 0, pending = replicate M3P_MAX_PENDING zero_pending,
     pending_count = 0, pending_head = 0, pending_tail = 0, active_journal_block = 0,
     inactive_journal_block = 0, active_checkpoint_block = 0, inactive_checkpoint_block = 0,
     journal_page = 0, checkpoint_page = 0, reserve_block = 0, replacement_block = 0,
     replacement_used = False, record_sequence = 0, map_sequence = 0, host_sequence = 0,
     durable_frontier = 0, checkpoint_generation = 0, checkpoint_covered_sequence = 0,
     journal_generation = 0, operation = zero_operation, child = zero_child,
     frame_main = replicate M3P_STAGING_FRAMES (replicate M3P_PAGE_BYTES 0),
     frame_oob = replicate M3P_STAGING_FRAMES (replicate M3P_OOB_BYTES 0),
     checkpoint_flow = 0, checkpoint_return_state = M3P_OPERATION_FREE,
     checkpoint_target_block = 0, checkpoint_target_page = 0, checkpoint_old_journal = 0,
     checkpoint_rotating = False, checkpoint_old_block = 0, checkpoint_body_main_crc = 0,
     checkpoint_body_oob_crc = 0, recovery_page = 0, recovery_map_count = 0,
     recovery_fault_code = 0, recovery_completed = False, recovery_resume_gc = False,
     recovery_checkpoint_cleanup = False, recovery_journal_cleanup = False,
     recovery_resume_state = M3P_WORK_IDLE,
     recovered_map = replicate M3P_MAX_RECOVERED_MAPS zero_recovery_record,
     recovered_checkpoint = replicate M3P_LPN_COUNT zero_map_entry,
     checkpoint_candidate = replicate M3P_LPN_COUNT zero_map_entry,
     recovered_commit = zero_commit, recovery_have_body = False, recovery_have_commit = False,
     recovery_body_block = 0, recovery_body_page = 0,
     recovery_tail_seen = replicate M3P_BLOCKS False,
     recovery_data_valid = replicate M3P_PHYSICAL_PAGES False,
     recovered_data = replicate M3P_PHYSICAL_PAGES zero_oob, recovery_body_crc = 0,
     gc_uid = 0, gc_victim = 0, gc_destination = 0, gc_live_count = 0, gc_moved = 0,
     gc_reclaimable = 0, gc_source_page = replicate 25 0, gc_source_lpn = replicate 25 0,
     gc_delta = replicate 25 zero_delta, gc_relocation_sequence = replicate 25 0,
     gc_switch_sequence = 0, gc_fault_code = 0\<rparr>"

text \<open>\<open>environment_ok\<close>: the arena is present, large enough and aligned, and both function tables are
  complete (\<open>controller_buffer_port_valid\<close>, \<open>nfc_provider_valid\<close>).\<close>

definition fwlab_m3p_init :: "bool \<Rightarrow> m3p_config \<Rightarrow> u64 \<Rightarrow> u32 \<Rightarrow> fwlab_m3p option" where
  "fwlab_m3p_init environment_ok c issuer_nonce buffer_generation =
     (if \<not> fwlab_m3p_config_valid c \<or> \<not> environment_ok \<or> issuer_nonce = 0 \<or>
         buffer_generation = 0 \<or> cfg_provider_nonce c = issuer_nonce then None
      else Some ((m3p_mapping_reset ((zero_m3p c)\<lparr>magic := M3P_MAGIC,
             cb_issuer_nonce := issuer_nonce, cb_generation := buffer_generation,
             next_child_uid := cfg_next_nfc_operation_uid c\<rparr>))
           \<lparr>volume_format := M3P_FORMAT_VERSION, volume_lba_count := FWLAB_M3P_NAMESPACE_LBAS,
            initialized := True\<rparr>))"

record block_volume_desc =
  bv_namespace0 :: u64
  bv_namespace1 :: u64
  bv_lba_count :: u64
  bv_lba_bytes :: u32

definition fwlab_m3p_volume_query :: "fwlab_m3p \<Rightarrow> spine_result \<times> block_volume_desc option" where
  "fwlab_m3p_volume_query s =
     (if magic s \<noteq> M3P_MAGIC \<or> \<not> initialized s then (FWLAB_SPINE_V0_INVALID, None)
      else if quarantined s then (FWLAB_SPINE_V0_QUARANTINED, None)
      else if admission_closed s then (FWLAB_SPINE_V0_WRONG_STATE, None)
      else if \<not> ready s \<or> work_kind s = FWLAB_M3P_MAINTENANCE_FORMAT \<or>
              work_kind s = FWLAB_M3P_MAINTENANCE_RECOVERY
      then (FWLAB_SPINE_V0_IN_PROGRESS, None)
      else (FWLAB_SPINE_V0_OK, Some \<lparr>bv_namespace0 = cfg_namespace0 (config s),
              bv_namespace1 = cfg_namespace1 (config s), bv_lba_count = volume_lba_count s,
              bv_lba_bytes = 512\<rparr>))"

definition fwlab_m3p_epoch_query :: "fwlab_m3p \<Rightarrow> spine_result \<times> block_epoch_status option" where
  "fwlab_m3p_epoch_query s =
     (if \<not> m3p_live s \<or> \<not> admission_closed s then (FWLAB_SPINE_V0_WRONG_STATE, None)
      else case block_epoch_quiescent (close_lifecycle_nonce s) (close_execution_epoch s) s of
          None \<Rightarrow> (FWLAB_SPINE_V0_INVALID, None)
        | Some st \<Rightarrow> (FWLAB_SPINE_V0_OK, Some st))"

definition fwlab_m3p_fini :: "fwlab_m3p \<Rightarrow> spine_result \<times> fwlab_m3p" where
  "fwlab_m3p_fini s =
     (if \<not> m3p_live s \<or> \<not> admission_closed s \<or> \<not> nfc_quiescent s \<or>
         op_state (operation s) \<noteq> M3P_OPERATION_FREE \<or> pending_count s \<noteq> 0 \<or>
         ch_state (child s) \<noteq> M3P_CHILD_IDLE then (FWLAB_SPINE_V0_WRONG_STATE, s)
      else (FWLAB_SPINE_V0_OK, s\<lparr>initialized := False, magic := 0\<rparr>))"

end
