(* ===== verification/M3p_Runtime.thy ===== *)
theory M3p_Runtime
  imports M3p_Replay M3p_Service
begin

text \<open>
  The drive functions of \<open>core/m3p/m3p_runtime.c\<close> and its step function: page data of writes and
  reads, the state machine of the operation slot, the close of the NAND controller and the fair
  three-way scheduler with its budget.
\<close>

section \<open>Page data\<close>

definition frame_matches_entry :: "fwlab_m3p \<Rightarrow> nat \<Rightarrow> u16 \<Rightarrow> m3p_map_entry \<Rightarrow> bool" where
  "frame_matches_entry s frame lpn e \<longleftrightarrow>
     (case m3p_decode_oob (frame_oob s ! frame) of
        None \<Rightarrow> False
      | Some ob \<Rightarrow>
          ob_page_type ob = M3P_PAGE_DATA \<and> ob_namespace_id ob = 1 \<and> ob_lpn ob = ucast lpn \<and>
          ob_valid_mask ob AND me_valid_mask e = me_valid_mask e \<and>
          ob_erase_generation ob = me_erase_generation e \<and>
          ob_record_sequence ob = me_data_record_sequence e \<and>
          ob_main_crc ob = me_main_crc e \<and> ob_media_uuid ob = cfg_media_uuid (config s) \<and>
          m3p_crc32c (frame_main s ! frame) = ob_main_crc ob)"

definition overlay_request_page :: "m3p_operation \<Rightarrow> u16 \<Rightarrow> bytes \<Rightarrow> bytes" where
  "overlay_request_page op lpn page =
     (let rq = op_request op; first_lba = unat (rq_lba rq); page_first = unat lpn * 8
      in foldl (\<lambda>pg sector. put_bytes pg ((sector - page_first) * 512)
                   (slice (op_io_bytes op) ((sector - first_lba) * 512) 512))
           page [unat (sector_first (rq_lba rq) lpn)..<unat (sector_last (rq_lba rq) (rq_lba_count rq) lpn)])"

definition zero_invalid_sectors :: "bytes \<Rightarrow> u8 \<Rightarrow> bytes" where
  "zero_invalid_sectors page valid_mask =
     foldl (\<lambda>pg sector. if valid_mask AND push_bit sector 1 = 0
                        then put_bytes pg (sector * 512) (replicate 512 0) else pg)
       page [0..<M3P_SECTORS_PER_PAGE]"

definition current_index :: "m3p_operation \<Rightarrow> nat" where
  "current_index op = unat (ucast (op_current_lpn op - op_first_lpn op) :: u8)"

definition current_delta :: "fwlab_m3p \<Rightarrow> m3p_delta" where
  "current_delta s = op_delta (operation s) ! current_index (operation s)"

definition start_current_data_program :: "fwlab_m3p \<Rightarrow> bool \<times> fwlab_m3p" where
  "start_current_data_program s =
     (let op = operation s; i = current_index op;
          s = set_main 0 (overlay_request_page op (op_current_lpn op) (frame_main s ! 0)) s;
          crc = m3p_crc32c (frame_main s ! 0);
          d = op_delta op ! i;
          t = (d_target d)\<lparr>me_main_crc := crc\<rparr>;
          s = s\<lparr>operation := op\<lparr>op_delta := (op_delta op)[i := d\<lparr>d_target := t\<rparr>]\<rparr>\<rparr>;
          s = set_oob 0 (m3p_encode_oob
            (zero_oob\<lparr>ob_page_type := M3P_PAGE_DATA, ob_flags := 1, ob_copy_kind := M3P_COPY_HOST,
               ob_valid_mask := me_valid_mask t, ob_namespace_id := 1,
               ob_lpn := ucast (op_current_lpn op), ob_erase_generation := me_erase_generation t,
               ob_record_sequence := me_data_record_sequence t,
               ob_transaction_sequence := op_host_sequence op,
               ob_referenced_data_sequence := me_data_record_sequence t,
               ob_main_length := 4096, ob_main_crc := crc,
               ob_media_uuid := cfg_media_uuid (config s), ob_source_block := UINT8_MAX,
               ob_source_page := UINT8_MAX\<rparr>)) s
      in program_frame0 (ppa_at (ucast (me_block t)) (ucast (me_page t))) s)"

section \<open>Writing\<close>

definition set_op_state :: "m3p_operation_state \<Rightarrow> fwlab_m3p \<Rightarrow> fwlab_m3p" where
  "set_op_state st s = s\<lparr>operation := (operation s)\<lparr>op_state := st\<rparr>\<rparr>"

text \<open>\<open>start_current_data_program\<close> and what follows it in both branches of \<open>write_drive\<close>\<close>

definition begin_page_program :: "bool \<Rightarrow> fwlab_m3p \<Rightarrow> bool \<times> fwlab_m3p" where
  "begin_page_program effect_seen s =
     (let (ok, s) = start_current_data_program s
      in (True, if \<not> ok then m3p_operation_fail (ucast FWLAB_NFC_REASON_INTERNAL) effect_seen s
                else set_op_state M3P_OPERATION_PAGE_PROGRAM s))"

definition page_prepare_drive :: "fwlab_m3p \<Rightarrow> bool \<times> fwlab_m3p" where
  "page_prepare_drive s =
     (let op = operation s; rq = op_request op; prior = d_prior (current_delta s);
          written = sector_mask (rq_lba rq) (rq_lba_count rq) (op_current_lpn op)
      in if written \<noteq> UINT8_MAX \<and> me_state prior = M3P_L2P_VALUE then
           (let (r, s) = m3p_child_read_start 0 (ppa_at (ucast (me_block prior)) (ucast (me_page prior))) s
            in if r \<noteq> FWLAB_SPINE_V0_OK then (False, s)
               else (True, set_op_state M3P_OPERATION_PAGE_READ s))
         else begin_page_program False (set_main 0 (replicate M3P_PAGE_BYTES 0) s))"

definition page_read_drive :: "fwlab_m3p \<Rightarrow> bool \<times> fwlab_m3p" where
  "page_read_drive s =
     (let op = operation s; cs = ch_state (child s); prior = d_prior (current_delta s)
      in if cs = M3P_CHILD_FAILED then
           (True, m3p_operation_fail (ch_fault_code (child s)) (op_effect_seen op) s)
         else if cs = M3P_CHILD_DONE then
           (if \<not> frame_matches_entry s 0 (op_current_lpn op) prior then
              (True, m3p_operation_fail (ucast FWLAB_NFC_REASON_INTERNAL) (op_effect_seen op) s)
            else
              begin_page_program (op_effect_seen op) (m3p_child_consume
                (set_main 0 (zero_invalid_sectors (frame_main s ! 0) (me_valid_mask prior)) s)))
         else (False, s))"

definition page_program_drive :: "fwlab_m3p \<Rightarrow> bool \<times> fwlab_m3p" where
  "page_program_drive s =
     (let cs = ch_state (child s)
      in if cs = M3P_CHILD_FAILED then (True, m3p_operation_fail (ch_fault_code (child s)) True s)
         else if cs = M3P_CHILD_DONE then
           (let s = m3p_child_consume s; op = (operation s)\<lparr>op_effect_seen := True\<rparr>
            in (True, s\<lparr>operation :=
                 if op_current_lpn op < op_last_lpn op
                 then op\<lparr>op_current_lpn := op_current_lpn op + 1,
                         op_state := M3P_OPERATION_PAGE_PREPARE\<rparr>
                 else op\<lparr>op_state := M3P_OPERATION_PENDING_INSTALL\<rparr>\<rparr>))
         else (False, s))"

definition write_drive :: "fwlab_m3p \<Rightarrow> bool \<times> fwlab_m3p" where
  "write_drive s =
     (case op_state (operation s) of
        M3P_OPERATION_PAGE_PREPARE \<Rightarrow> page_prepare_drive s
      | M3P_OPERATION_PAGE_READ \<Rightarrow> page_read_drive s
      | M3P_OPERATION_PAGE_PROGRAM \<Rightarrow> page_program_drive s
      | _ \<Rightarrow> (False, s))"

section \<open>Reading\<close>

definition read_sectors :: "m3p_map_entry \<Rightarrow> bytes \<Rightarrow> m3p_operation \<Rightarrow> bytes" where
  "read_sectors e page op =
     (let rq = op_request op; lpn = op_current_lpn op; first_lba = unat (rq_lba rq);
          page_first = unat lpn * 8
      in foldl (\<lambda>io sector. put_bytes io ((sector - first_lba) * 512)
             (if me_state e = M3P_L2P_VALUE \<and> me_valid_mask e AND push_bit (sector - page_first) 1 \<noteq> 0
              then slice page ((sector - page_first) * 512) 512 else replicate 512 0))
           (op_io_bytes op)
           [unat (sector_first (rq_lba rq) lpn)..<unat (sector_last (rq_lba rq) (rq_lba_count rq) lpn)])"

definition read_page_done :: "m3p_map_entry \<Rightarrow> fwlab_m3p \<Rightarrow> fwlab_m3p" where
  "read_page_done e s =
     (let op = (operation s)\<lparr>op_io_bytes := read_sectors e (frame_main s ! 0) (operation s)\<rparr>;
          s = (if ch_state (child s) = M3P_CHILD_DONE then m3p_child_consume s else s)
      in s\<lparr>operation :=
           if op_current_lpn op < op_last_lpn op
           then op\<lparr>op_current_lpn := op_current_lpn op + 1\<rparr>
           else op\<lparr>op_state := M3P_OPERATION_READ_PUBLISH\<rparr>\<rparr>)"

definition read_page_drive :: "fwlab_m3p \<Rightarrow> bool \<times> fwlab_m3p" where
  "read_page_drive s =
     (let op = operation s; e = visible s ! unat (op_current_lpn op); cs = ch_state (child s)
      in if cs = M3P_CHILD_IDLE \<and> me_state e = M3P_L2P_VALUE then
           (let (r, s) = m3p_child_read_start 0 (ppa_at (ucast (me_block e)) (ucast (me_page e))) s
            in (r = FWLAB_SPINE_V0_OK, s))
         else if cs = M3P_CHILD_FAILED then
           (True, m3p_operation_fail (ch_fault_code (child s)) False s)
         else if me_state e \<noteq> M3P_L2P_VALUE \<or> cs = M3P_CHILD_DONE then
           (if me_state e = M3P_L2P_VALUE \<and> \<not> frame_matches_entry s 0 (op_current_lpn op) e
            then (True, m3p_operation_fail (ucast FWLAB_NFC_REASON_INTERNAL) False s)
            else (True, read_page_done e s))
         else (False, s))"

definition read_publish_drive :: "'b buffer_port \<Rightarrow> fwlab_m3p \<times> 'b \<Rightarrow> bool \<times> fwlab_m3p \<times> 'b" where
  "read_publish_drive port w =
     (let (s, b) = w; op = operation s; rq = op_request op;
          (res, b) = bp_write port (rq_buffer rq) (rq_buffer_span rq)
             (take (unat (bs_length (rq_buffer_span rq))) (op_io_bytes op)) b
      in (True,
          (if res \<noteq> FWLAB_CONTROLLER_BUFFER_V0_OK then m3p_operation_fail 2 False s
           else m3p_operation_succeed FWLAB_BLOCK_V0_WITNESS_NONE 0 s), b))"

definition read_drive :: "'b buffer_port \<Rightarrow> fwlab_m3p \<times> 'b \<Rightarrow> bool \<times> fwlab_m3p \<times> 'b" where
  "read_drive port w =
     (let (s, b) = w in
      if op_state (operation s) = M3P_OPERATION_READ_PAGE then
        (let (p, s) = read_page_drive s in (p, s, b))
      else if op_state (operation s) = M3P_OPERATION_READ_PUBLISH then read_publish_drive port (s, b)
      else (False, s, b))"

section \<open>Installing and committing\<close>

text \<open>\<open>m3p_pending_append\<close> and the publication of the operation's deltas behind it\<close>

definition install_operation :: "u8 \<Rightarrow> fwlab_m3p \<Rightarrow> bool \<times> fwlab_m3p" where
  "install_operation subtype s =
     (let op = operation s;
          (ok, s) = m3p_pending_append subtype (op_host_sequence op) (op_delta op) (op_delta_count op) s
      in if \<not> ok then (False, s)
         else (True, publish_visible_all (op_delta op) (unat (op_delta_count op))
                 (s\<lparr>operation := op\<lparr>op_commit_slot := True\<rparr>\<rparr>)))"

definition pending_install_drive :: "fwlab_m3p \<Rightarrow> bool \<times> fwlab_m3p" where
  "pending_install_drive s =
     (let op = operation s; rq = op_request op;
          subtype = (if rq_operation rq = FWLAB_BLOCK_V0_TRIM then M3P_MAP_TRIM else M3P_MAP_WRITE)
      in if rq_operation rq = FWLAB_BLOCK_V0_WRITE \<and>
            rq_durability rq = FWLAB_BLOCK_V0_DURABILITY_SELF \<and> pending_count s \<ge> 4
         then (True, set_op_state M3P_OPERATION_COMMIT_PENDING s)
         else
           let (ok, s) = install_operation subtype s
           in (True,
               if \<not> ok then m3p_operation_fail 3 (op_effect_seen op) s
               else if rq_operation rq = FWLAB_BLOCK_V0_TRIM
               then m3p_operation_succeed FWLAB_BLOCK_V0_WITNESS_NONE 0 s
               else if rq_durability rq = FWLAB_BLOCK_V0_DURABILITY_VOLATILE_ALLOWED
               then m3p_operation_succeed FWLAB_BLOCK_V0_WITNESS_VOLATILE 0 s
               else set_op_state M3P_OPERATION_COMMIT_PENDING s))"

definition commit_ready :: "fwlab_m3p \<Rightarrow> fwlab_m3p" where
  "commit_ready s =
     (let op = operation s
      in if journal_page s \<ge> 24 then
           (let (ok, s) = m3p_start_checkpoint M3P_OPERATION_COMMIT_PENDING s
            in if \<not> ok then m3p_operation_fail 6 (op_effect_seen op) s else s)
         else if rq_operation (op_request op) = FWLAB_BLOCK_V0_WRITE
         then m3p_operation_succeed FWLAB_BLOCK_V0_WITNESS_SELF_DURABLE (op_host_sequence op) s
         else m3p_operation_succeed FWLAB_BLOCK_V0_WITNESS_FRONTIER_DURABLE (op_captured_frontier op) s)"

definition commit_front :: "fwlab_m3p \<Rightarrow> fwlab_m3p" where
  "commit_front s =
     (case m3p_pending_front s of
        Some pd \<Rightarrow>
          let (ok, s) = prepare_map_program pd s
          in if \<not> ok then m3p_operation_fail 5 (op_effect_seen (operation s)) s
             else set_op_state M3P_OPERATION_COMMIT_PROGRAM s
      | None \<Rightarrow> commit_ready s)"

definition commit_drive :: "fwlab_m3p \<Rightarrow> bool \<times> fwlab_m3p" where
  "commit_drive s =
     (let op = operation s; rq = op_request op
      in if rq_operation rq = FWLAB_BLOCK_V0_WRITE \<and>
            rq_durability rq = FWLAB_BLOCK_V0_DURABILITY_SELF \<and>
            \<not> op_commit_slot op \<and> pending_count s < 4 then
           (let (ok, s) = install_operation M3P_MAP_WRITE s
            in (True, if \<not> ok then m3p_operation_fail 4 (op_effect_seen op) s else commit_front s))
         else (True, commit_front s))"

definition commit_programmed :: "m3p_pending \<Rightarrow> fwlab_m3p \<Rightarrow> fwlab_m3p" where
  "commit_programmed pd s =
     (let s = journal_advance s;
          s = publish_durable_all (pd_delta pd) (unat (pd_delta_count pd)) (map_sequence s) s;
          s = (if pd_host_sequence pd > durable_frontier s
               then s\<lparr>durable_frontier := pd_host_sequence pd\<rparr> else s)
      in set_op_state M3P_OPERATION_COMMIT_PENDING (m3p_pending_pop s))"

definition commit_program_drive :: "fwlab_m3p \<Rightarrow> bool \<times> fwlab_m3p" where
  "commit_program_drive s =
     (case m3p_pending_front s of
        None \<Rightarrow> (True, m3p_operation_fail (ch_fault_code (child s)) True s)
      | Some pd \<Rightarrow>
          if ch_state (child s) = M3P_CHILD_FAILED
          then (True, m3p_operation_fail (ch_fault_code (child s)) True s)
          else if ch_state (child s) \<noteq> M3P_CHILD_DONE then (False, s)
          else (True, commit_programmed pd s))"

section \<open>Scheduling\<close>

definition operation_drive :: "'b buffer_port \<Rightarrow> fwlab_m3p \<times> 'b \<Rightarrow> bool \<times> fwlab_m3p \<times> 'b" where
  "operation_drive port w =
     (let (s, b) = w; op = operation s; st = op_state op;
          pure = (\<lambda>(p, s). (p, s, b))
      in if st = M3P_OPERATION_FREE then (False, s, b)
         else if st = M3P_OPERATION_DRAINING then
           (True, s\<lparr>operation := op\<lparr>op_state := M3P_OPERATION_DRAINED,
               op_status := (op_status op)\<lparr>bst_state := FWLAB_BLOCK_V0_STATE_DRAINED\<rparr>\<rparr>\<rparr>, b)
         else if op_at_least_terminal st then (False, s, b)
         else if op_cancel_requested op \<and> st \<noteq> M3P_OPERATION_COMMIT_PROGRAM \<and>
                 ch_state (child s) = M3P_CHILD_IDLE
         then (True, m3p_operation_fail (ucast FWLAB_NFC_REASON_CANCELLED) (op_effect_seen op) s, b)
         else case st of
             M3P_OPERATION_PAGE_PREPARE \<Rightarrow> pure (write_drive s)
           | M3P_OPERATION_PAGE_READ \<Rightarrow> pure (write_drive s)
           | M3P_OPERATION_PAGE_PROGRAM \<Rightarrow> pure (write_drive s)
           | M3P_OPERATION_READ_PAGE \<Rightarrow> read_drive port (s, b)
           | M3P_OPERATION_READ_PUBLISH \<Rightarrow> read_drive port (s, b)
           | M3P_OPERATION_PENDING_INSTALL \<Rightarrow> pure (pending_install_drive s)
           | M3P_OPERATION_COMMIT_PENDING \<Rightarrow> pure (commit_drive s)
           | M3P_OPERATION_COMMIT_PROGRAM \<Rightarrow> pure (commit_program_drive s)
           | M3P_OPERATION_CHECKPOINT \<Rightarrow> pure (m3p_checkpoint_drive s)
           | _ \<Rightarrow> (False, s, b))"

definition close_drive :: "'n nfc_provider \<Rightarrow> fwlab_m3p \<times> 'n \<Rightarrow> bool \<times> fwlab_m3p \<times> 'n" where
  "close_drive nfc w =
     (let (s, n) = w; nonce = cfg_nfc_instance_nonce (config s); epoch = cfg_nfc_epoch (config s)
      in if \<not> admission_closed s \<or> op_state (operation s) \<noteq> M3P_OPERATION_FREE \<or>
            work_kind s \<noteq> FWLAB_M3P_MAINTENANCE_NONE \<or> ch_state (child s) \<noteq> M3P_CHILD_IDLE
         then (False, s, n)
         else if pending_count s \<noteq> 0 then (True, discard_pending s, n)
         else if \<not> nfc_close_started s then
           (let (res, n) = np_reset_begin nfc nonce epoch n
            in (True, if res \<noteq> FWLAB_NFC_API_OK then s\<lparr>quarantined := True\<rparr>
                      else s\<lparr>nfc_close_started := True\<rparr>, n))
         else if \<not> nfc_quiescent s then
           (let (res, q, n) = np_quiescent nfc nonce epoch n
            in (True, if res \<noteq> FWLAB_NFC_API_OK then s\<lparr>quarantined := True\<rparr>
                      else if q then s\<lparr>nfc_quiescent := True\<rparr> else s, n))
         else (False, s, n))"

text \<open>The world of one instance: its own state, the NAND controller's and the buffer's.\<close>

type_synonym ('n, 'b) world = "fwlab_m3p \<times> 'n \<times> 'b"

definition m3p_runtime_drive ::
  "'n nfc_provider \<Rightarrow> 'b buffer_port \<Rightarrow> ('n, 'b) world \<Rightarrow> bool \<times> ('n, 'b) world" where
  "m3p_runtime_drive nfc port w =
     (let (s, n, b) = w in
      case work_kind s of
        FWLAB_M3P_MAINTENANCE_FORMAT \<Rightarrow> (let (p, s) = format_drive s in (p, s, n, b))
      | FWLAB_M3P_MAINTENANCE_RECOVERY \<Rightarrow> (let (p, s) = m3p_recovery_drive s in (p, s, n, b))
      | FWLAB_M3P_MAINTENANCE_GC \<Rightarrow> (let (p, s) = m3p_gc_drive s in (p, s, n, b))
      | FWLAB_M3P_MAINTENANCE_NONE \<Rightarrow>
          (let (p, s, b) = operation_drive port (s, b)
           in if p then (True, s, n, b)
              else let (p, s, n) = close_drive nfc (s, n) in (p, s, n, b)))"

record m3p_step_result =
  st_units_used :: u32
  st_ftl_transitions :: u32
  st_nfc_transitions :: u32
  st_nfc_events :: u32

definition step_once ::
  "'n nfc_provider \<Rightarrow> 'b buffer_port \<Rightarrow> ('n, 'b) world \<Rightarrow> m3p_step_result
     \<Rightarrow> bool \<times> ('n, 'b) world \<times> m3p_step_result" where
  "step_once nfc port w res =
     (let (s, n, b) = w;
          (progressed, w, res) =
            (if fair_cursor s = 0 then
               (let (p, w) = m3p_runtime_drive nfc port (s, n, b)
                in (p, w, res\<lparr>st_ftl_transitions := st_ftl_transitions res + (if p then 1 else 0)\<rparr>))
             else if fair_cursor s = 1 then
               (let (p, t, s, n) = m3p_nfc_submit_or_step nfc (s, n) (st_nfc_transitions res)
                in (p, (s, n, b), res\<lparr>st_nfc_transitions := t\<rparr>))
             else
               (let (p, e, s, n) = m3p_nfc_poll nfc (s, n) (st_nfc_events res)
                in (p, (s, n, b), res\<lparr>st_nfc_events := e\<rparr>)));
          (s, n, b) = w
      in (progressed, (s\<lparr>fair_cursor := (fair_cursor s + 1) mod 3\<rparr>, n, b), res))"

text \<open>The scheduling loop: \<open>left\<close> is \<open>budget - used\<close>.\<close>

fun step_loop ::
  "'n nfc_provider \<Rightarrow> 'b buffer_port \<Rightarrow> nat \<Rightarrow> nat \<Rightarrow> nat \<Rightarrow> ('n, 'b) world \<Rightarrow> m3p_step_result
     \<Rightarrow> nat \<times> ('n, 'b) world \<times> m3p_step_result" where
  "step_loop nfc port 0 idle used w res = (used, w, res)"
| "step_loop nfc port (Suc left) idle used w res =
     (if idle \<ge> 3 then (used, w, res)
      else
        let (progressed, w, res) = step_once nfc port w res
        in step_loop nfc port left (if progressed then 0 else idle + 1) (used + 1) w res)"

definition fwlab_m3p_step ::
  "'n nfc_provider \<Rightarrow> 'b buffer_port \<Rightarrow> u32 \<Rightarrow> ('n, 'b) world
     \<Rightarrow> m3p_step_result option \<times> ('n, 'b) world" where
  "fwlab_m3p_step nfc port budget w =
     (if \<not> m3p_live (fst w) \<or> budget = 0 then (None, w)
      else
        let (used, w, res) = step_loop nfc port (unat budget) 0 0 w
              \<lparr>st_units_used = 0, st_ftl_transitions = 0, st_nfc_transitions = 0, st_nfc_events = 0\<rparr>
        in (Some (res\<lparr>st_units_used := of_nat used\<rparr>), w))"

end
