(* ===== verification/M3p_Mapping_Laws.thy ===== *)
theory M3p_Mapping_Laws
  imports M3p_Mapping
begin

text \<open>
  Laws of \<open>m3p_mapping.c\<close>: the page index is injective, the pending ring is a bounded first-in
  first-out queue (an interpretation of \<open>bounded_fifo\<close>), and page allocation picks the open data
  block with the fewest erases and never hands out a page twice.
\<close>

section \<open>Page indices\<close>

lemma unat_physical_index: "unat (m3p_physical_index b p) = unat b * 32 + unat p"
proof -
  have "unat b * 32 + unat p < 65536"
    using unat_u8_less [of b] unat_u8_less [of p] by linarith
  then show ?thesis
    by (simp add: m3p_physical_index_def unat_word_ariths)
qed

lemma physical_index_eq:
  assumes "p < 32" and "p' < 32"
  shows "unat (m3p_physical_index b p) = unat (m3p_physical_index b' p') \<longleftrightarrow> b = b' \<and> p = p'"
proof
  assume "unat (m3p_physical_index b p) = unat (m3p_physical_index b' p')"
  then have eq: "unat b * 32 + unat p = unat b' * 32 + unat p'"
    by (simp add: unat_physical_index)
  have "unat p < 32" and "unat p' < 32"
    using assms by (simp_all add: word_less_nat_alt)
  then have "unat p = (unat b * 32 + unat p) mod 32" and "unat p' = (unat b' * 32 + unat p') mod 32"
    and "unat b = (unat b * 32 + unat p) div 32" and "unat b' = (unat b' * 32 + unat p') div 32"
    by simp_all
  then have "unat p = unat p'" and "unat b = unat b'"
    using eq by simp_all
  then show "b = b' \<and> p = p'"
    by (simp add: word_unat_eq_iff)
qed simp

lemma physical_index_bound: "b < 16 \<Longrightarrow> p < 32 \<Longrightarrow> unat (m3p_physical_index b p) < 512"
  by (simp add: unat_physical_index word_less_nat_alt)

lemma p2l_at_set:
  assumes "length (p2l s) = 512" and "b < 16" and "p < 32" and "p' < 32"
  shows "p2l_at (p2l_set b p st s) b' p' = (if b = b' \<and> p = p' then st else p2l_at s b' p')"
proof (cases "b = b' \<and> p = p'")
  case True
  then show ?thesis
    using physical_index_bound [OF assms(2,3)] assms(1) by (auto simp: p2l_at_def p2l_set_def)
next
  case False
  then have "unat (m3p_physical_index b p) \<noteq> unat (m3p_physical_index b' p')"
    using physical_index_eq [OF assms(3,4)] by blast
  then show ?thesis
    using False by (auto simp: p2l_at_def p2l_set_def)
qed

section \<open>The pending ring\<close>

text \<open>The normal form of an entry of the ring: what \<open>m3p_pending_append\<close> stores.\<close>

definition pending_ok :: "m3p_pending \<Rightarrow> bool" where
  "pending_ok pd \<longleftrightarrow> pd_active pd \<and> pd_transaction_sequence pd = pd_host_sequence pd \<and>
     pd_delta_count pd \<noteq> 0 \<and> pd_delta_count pd \<le> 3 \<and>
     pd_delta pd = take (unat (pd_delta_count pd)) (pd_delta pd)
        @ replicate (3 - unat (pd_delta_count pd)) zero_delta"

definition ring_slot :: "fwlab_m3p \<Rightarrow> nat \<Rightarrow> m3p_pending" where
  "ring_slot s k = pending s ! ((unat (pending_head s) + k) mod 4)"

definition ring_inv :: "fwlab_m3p \<Rightarrow> bool" where
  "ring_inv s \<longleftrightarrow> length (pending s) = 4 \<and> unat (pending_count s) \<le> 4 \<and>
     unat (pending_head s) < 4 \<and>
     unat (pending_tail s) = (unat (pending_head s) + unat (pending_count s)) mod 4 \<and>
     (\<forall>k < 4. if k < unat (pending_count s) then pending_ok (ring_slot s k)
              else \<not> pd_active (ring_slot s k))"

definition ring_abs :: "fwlab_m3p \<Rightarrow> m3p_pending list" where
  "ring_abs s = map (ring_slot s) [0..<unat (pending_count s)]"

definition ring_put :: "m3p_pending \<Rightarrow> fwlab_m3p \<Rightarrow> bool \<times> fwlab_m3p" where
  "ring_put pd s = m3p_pending_append (pd_subtype pd) (pd_host_sequence pd) (pd_delta pd)
     (pd_delta_count pd) s"

lemma length_ring_abs [simp]: "length (ring_abs s) = unat (pending_count s)"
  by (simp add: ring_abs_def)

lemma ring_slot_eq:
  assumes "j < 4" and "k < 4" and "h < 4"
  shows "(h + j) mod 4 = (h + k) mod 4 \<longleftrightarrow> j = (k :: nat)"
proof -
  have "h = 0 \<or> h = 1 \<or> h = 2 \<or> h = 3" and "j = 0 \<or> j = 1 \<or> j = 2 \<or> j = 3"
    and "k = 0 \<or> k = 1 \<or> k = 2 \<or> k = 3"
    using assms by auto
  then show ?thesis
    by (elim disjE) simp_all
qed

lemma unat_mod_4: "unat ((x :: u8) mod 4) = unat x mod 4"
  by (simp add: unat_mod)

lemma unat_succ_mod_4: "unat (((x :: u8) + 1) mod 4) = Suc (unat x) mod 4"
proof -
  have "256 = (4 :: nat) * 64"
    by simp
  then show ?thesis
    by (simp add: unat_mod unat_word_ariths mod_mod_cancel)
qed

lemma pending_slot_rebuild:
  assumes "pending_ok pd"
  shows "\<lparr>pd_active = True, pd_subtype = pd_subtype pd, pd_delta_count = pd_delta_count pd,
      pd_host_sequence = pd_host_sequence pd, pd_transaction_sequence = pd_host_sequence pd,
      pd_delta = take (unat (pd_delta_count pd)) (pd_delta pd)
        @ replicate (3 - unat (pd_delta_count pd)) zero_delta\<rparr> = pd"
  using assms by (cases pd) (auto simp: pending_ok_def)

lemma append_accepts:
  assumes "ring_inv s" and "count \<noteq> 0" and "count \<le> 3" and "unat (pending_count s) < 4"
  shows "fst (m3p_pending_append st h ds count s)"
proof -
  have "\<not> pd_active (ring_slot s (unat (pending_count s)))"
    using assms by (auto simp: ring_inv_def)
  then have "\<not> pd_active (pending s ! unat (pending_tail s))"
    using assms by (simp add: ring_inv_def ring_slot_def)
  then show ?thesis
    using assms by (simp add: m3p_pending_append_def word_le_nat_alt word_less_nat_alt Let_def)
qed

lemma ring_put_taken:
  assumes "ring_inv s" and "pending_ok pd" and "unat (pending_count s) < 4"
  shows "ring_put pd s = (True, s\<lparr>pending := (pending s)[unat (pending_tail s) := pd],
     pending_tail := (pending_tail s + 1) mod 4, pending_count := pending_count s + 1\<rparr>)"
proof -
  have "fst (ring_put pd s)"
    unfolding ring_put_def using assms by (intro append_accepts) (simp_all add: pending_ok_def)
  then show ?thesis
    using assms(2)
    by (auto simp: ring_put_def m3p_pending_append_def pending_slot_rebuild Let_def split: if_splits)
qed

lemma unat_count_succ: "unat (pending_count s) < 4 \<Longrightarrow> unat (pending_count s + 1) = Suc (unat (pending_count s))"
  by (simp add: unat_word_ariths)

lemma ring_put_slots:
  assumes inv: "ring_inv s" and ok: "pending_ok pd" and room: "unat (pending_count s) < 4" and k: "k < 4"
  shows "ring_slot (snd (ring_put pd s)) k = (if k = unat (pending_count s) then pd else ring_slot s k)"
proof -
  have tail: "unat (pending_tail s) = (unat (pending_head s) + unat (pending_count s)) mod 4"
    and head: "unat (pending_head s) < 4" and len: "length (pending s) = 4"
    using inv by (simp_all add: ring_inv_def)
  have "(unat (pending_head s) + k) mod 4 = (unat (pending_head s) + unat (pending_count s)) mod 4
      \<longleftrightarrow> k = unat (pending_count s)"
    using ring_slot_eq [OF k room head] .
  then show ?thesis
    using len by (auto simp: ring_put_taken [OF inv ok room] ring_slot_def tail nth_list_update)
qed

lemma ring_put_inv:
  assumes inv: "ring_inv s" and ok: "pending_ok pd" and room: "unat (pending_count s) < 4"
  shows "ring_inv (snd (ring_put pd s))"
proof -
  have "\<forall>k < 4. if k < Suc (unat (pending_count s)) then pending_ok (ring_slot (snd (ring_put pd s)) k)
      else \<not> pd_active (ring_slot (snd (ring_put pd s)) k)"
    using inv ok room by (auto simp: ring_put_slots ring_inv_def less_Suc_eq)
  moreover have "unat (pending_count (snd (ring_put pd s))) = Suc (unat (pending_count s))"
      "length (pending (snd (ring_put pd s))) = 4"
      "pending_head (snd (ring_put pd s)) = pending_head s"
      "unat (pending_tail (snd (ring_put pd s))) = Suc (unat (pending_tail s)) mod 4"
    using inv room
    by (simp_all add: ring_put_taken [OF inv ok room] unat_count_succ unat_succ_mod_4 ring_inv_def)
  ultimately show ?thesis
    using inv room by (simp add: ring_inv_def mod_Suc_eq)
qed

lemma ring_put_abs:
  assumes inv: "ring_inv s" and ok: "pending_ok pd" and room: "unat (pending_count s) < 4"
  shows "ring_abs (snd (ring_put pd s)) = ring_abs s @ [pd]"
proof -
  have "unat (pending_count (snd (ring_put pd s))) = Suc (unat (pending_count s))"
    using room by (simp add: ring_put_taken [OF inv ok room] unat_count_succ)
  then show ?thesis
    using room by (simp add: ring_abs_def ring_put_slots [OF inv ok room])
qed

lemma ring_front_abs:
  assumes "ring_inv s"
  shows "m3p_pending_front s = (case ring_abs s of [] \<Rightarrow> None | x # _ \<Rightarrow> Some x)"
proof (cases "pending_count s = 0")
  case True
  then show ?thesis
    by (simp add: m3p_pending_front_def ring_abs_def)
next
  case False
  then have pos: "0 < unat (pending_count s)"
    by (simp add: unat_gt_0)
  have head: "pending s ! unat (pending_head s) = ring_slot s 0"
    using assms by (simp add: ring_slot_def ring_inv_def)
  have "pending_ok (ring_slot s 0)"
    using assms pos by (auto simp: ring_inv_def)
  moreover have "ring_abs s = ring_slot s 0 # map (ring_slot s) [1..<unat (pending_count s)]"
    using pos by (simp add: ring_abs_def upt_rec [of 0])
  ultimately show ?thesis
    using False by (simp add: m3p_pending_front_def head pending_ok_def)
qed

lemma ring_pop_slots:
  assumes inv: "ring_inv s" and ne: "pending_count s \<noteq> 0" and k: "k < 4"
  shows "ring_slot (m3p_pending_pop s) k = (if k = 3 then zero_pending else ring_slot s (Suc k))"
proof -
  have head: "unat (pending_head s) < 4" and len: "length (pending s) = 4"
    using inv by (simp_all add: ring_inv_def)
  have idx: "(unat ((pending_head s + 1) mod 4) + k) mod 4 = (unat (pending_head s) + Suc k) mod 4"
    by (simp add: unat_succ_mod_4 mod_add_left_eq)
  have "(unat (pending_head s) + Suc k) mod 4 = unat (pending_head s) \<longleftrightarrow> k = 3"
    using ring_slot_eq [of "Suc k mod 4" 0 "unat (pending_head s)"] head k
    by (cases "k = 3") (simp_all add: mod_add_right_eq)
  then show ?thesis
    using ne len head by (auto simp: m3p_pending_pop_def ring_slot_def idx nth_list_update)
qed

lemma unat_count_pred: "pending_count s \<noteq> 0 \<Longrightarrow> unat (pending_count s - 1) = unat (pending_count s) - 1"
  by (simp add: unat_minus_one)

lemma ring_pop_inv:
  assumes inv: "ring_inv s"
  shows "ring_inv (m3p_pending_pop s)"
proof (cases "pending_count s = 0")
  case True
  then show ?thesis
    using inv by (simp add: m3p_pending_pop_def)
next
  case False
  then have pos: "0 < unat (pending_count s)"
    by (simp add: unat_gt_0)
  let ?t = "m3p_pending_pop s"
  have fields: "length (pending ?t) = 4" "unat (pending_count ?t) = unat (pending_count s) - 1"
      "unat (pending_head ?t) = Suc (unat (pending_head s)) mod 4" "pending_tail ?t = pending_tail s"
    using inv False by (simp_all add: m3p_pending_pop_def ring_inv_def unat_count_pred unat_succ_mod_4)
  have "unat (pending_tail s) = (Suc (unat (pending_head s)) + (unat (pending_count s) - 1)) mod 4"
    using inv pos by (simp add: ring_inv_def)
  then have tail: "unat (pending_tail s)
      = (Suc (unat (pending_head s)) mod 4 + (unat (pending_count s) - 1)) mod 4"
    by (simp only: mod_add_left_eq)
  have "if k < unat (pending_count s) - 1 then pending_ok (ring_slot ?t k)
      else \<not> pd_active (ring_slot ?t k)" if "k < 4" for k
    using inv that pos by (auto simp: ring_pop_slots [OF inv False] ring_inv_def zero_pending_def)
  moreover have "unat (pending_count s) - 1 \<le> 4"
    using inv by (auto simp: ring_inv_def)
  ultimately show ?thesis
    using inv fields tail by (simp add: ring_inv_def)
qed

lemma ring_pop_abs:
  assumes inv: "ring_inv s"
  shows "ring_abs (m3p_pending_pop s) = tl (ring_abs s)"
proof (cases "pending_count s = 0")
  case True
  then show ?thesis
    by (simp add: m3p_pending_pop_def ring_abs_def)
next
  case False
  let ?n = "unat (pending_count s)"
  have "?n \<le> 4"
    using inv by (simp add: ring_inv_def)
  have "unat (pending_count (m3p_pending_pop s)) = ?n - 1"
    using False by (simp add: m3p_pending_pop_def unat_count_pred)
  then show ?thesis
    using \<open>?n \<le> 4\<close> by (intro nth_equalityI)
      (auto simp: ring_abs_def ring_pop_slots [OF inv False] nth_tl)
qed

interpretation ring: bounded_fifo ring_inv ring_abs ring_put m3p_pending_front m3p_pending_pop
  pending_ok 4
proof
  fix s and x
  assume inv: "ring_inv s"
  show "length (ring_abs s) \<le> 4"
    using inv by (simp add: ring_inv_def)
  show "fst (ring_put x s) \<and> ring_inv (snd (ring_put x s)) \<and>
      ring_abs (snd (ring_put x s)) = ring_abs s @ [x]"
    if "pending_ok x" and "length (ring_abs s) < 4"
    using inv that by (simp add: ring_put_inv ring_put_abs) (simp add: ring_put_taken)
  show "ring_put x s = (False, s)" if "length (ring_abs s) = 4"
    using that by (simp add: ring_put_def m3p_pending_append_def word_le_nat_alt)
  show "m3p_pending_front s = (case ring_abs s of [] \<Rightarrow> None | x # _ \<Rightarrow> Some x)"
    using inv by (rule ring_front_abs)
  show "ring_inv (m3p_pending_pop s)"
    using inv by (rule ring_pop_inv)
  show "ring_abs (m3p_pending_pop s) = tl (ring_abs s)"
    using inv by (rule ring_pop_abs)
qed

section \<open>Page allocation\<close>

definition open_block :: "fwlab_m3p \<Rightarrow> nat \<Rightarrow> bool" where
  "open_block s b \<longleftrightarrow> block_role s ! b = M3P_ROLE_DATA \<and> block_next_page s ! b < 32"

definition least_worn :: "fwlab_m3p \<Rightarrow> nat \<Rightarrow> nat \<Rightarrow> bool" where
  "least_worn s n c \<longleftrightarrow> c < n \<and> open_block s c \<and>
     (\<forall>b < n. open_block s b \<longrightarrow> block_erase_count s ! c < block_erase_count s ! b \<or>
        (block_erase_count s ! c = block_erase_count s ! b \<and> c \<le> b))"

lemma select_prefix:
  "case foldl (select_step s) None [0..<n] of
     None \<Rightarrow> \<forall>b < n. \<not> open_block s b
   | Some c \<Rightarrow> least_worn s n c"
proof (induction n)
  case 0
  then show ?case by simp
next
  case (Suc n)
  then show ?case
    by (auto simp: select_step_def least_worn_def open_block_def less_Suc_eq linorder_not_less
        split: option.splits if_splits)
qed

lemma select_data_block_Some: "select_data_block s = Some c \<Longrightarrow> least_worn s 16 c"
  using select_prefix [of 16 s] by (simp add: select_data_block_def)

lemma select_data_block_None:
  "select_data_block s = None \<longleftrightarrow> (\<forall>b < 16. \<not> open_block s b)"
  using select_prefix [of 16 s]
  by (auto simp: select_data_block_def least_worn_def split: option.splits)

lemma allocate_Some:
  assumes "m3p_allocate_data_page s = (Some ppa, s')"
  obtains b where "least_worn s 16 b" and "ppa = ppa_at (of_nat b) (ucast (block_next_page s ! b))"
    and "s' = p2l_set (of_nat b) (block_next_page s ! b) M3P_P2L_VISIBLE_PENDING
      (s\<lparr>block_next_page := (block_next_page s)[b := block_next_page s ! b + 1]\<rparr>)"
  using assms select_data_block_Some
  by (auto simp: m3p_allocate_data_page_def Let_def split: option.splits)

lemma allocate_None: "m3p_allocate_data_page s = (None, s') \<Longrightarrow> s' = s"
  by (auto simp: m3p_allocate_data_page_def Let_def split: option.splits)

end
