(* ===== verification/M3p_Coherence.thy ===== *)
theory M3p_Coherence
  imports M3p_Mapping_Laws M3p_Service
begin

text \<open>
  The contract between the two maps and the pending ring. The visible map (what reads return) is
  the durable map (what the medium holds) patched by the transactions of the ring: every delta of
  the ring has its target in the visible map and its prior value in the durable one, no page is in
  two deltas, and the maps agree everywhere else. The laws here say how installing, committing and
  discarding a transaction move this contract; they are stated on the plain maps first and then on
  the operations of \<open>m3p_mapping.c\<close>.
\<close>

section \<open>Patching a map\<close>

definition patch :: "(m3p_delta \<Rightarrow> m3p_map_entry) \<Rightarrow> m3p_delta list \<Rightarrow> m3p_map_entry list \<Rightarrow> m3p_map_entry list" where
  "patch f ds m = fold (\<lambda>d m. m[unat (d_lpn d) := f d]) ds m"

lemma patch_simps [simp]:
  "patch f [] m = m"
  "patch f (d # ds) m = patch f ds (m[unat (d_lpn d) := f d])"
  by (simp_all add: patch_def)

lemma length_patch [simp]: "length (patch f ds m) = length m"
  by (induction ds arbitrary: m) simp_all

lemma patch_out: "\<forall>d \<in> set ds. unat (d_lpn d) \<noteq> i \<Longrightarrow> patch f ds m ! i = m ! i"
  by (induction ds arbitrary: m) simp_all

lemma patch_in:
  "distinct (map d_lpn ds) \<Longrightarrow> d \<in> set ds \<Longrightarrow> unat (d_lpn d) < length m \<Longrightarrow>
   patch f ds m ! unat (d_lpn d) = f d"
proof (induction ds arbitrary: m)
  case Nil
  then show ?case by simp
next
  case (Cons e ds)
  show ?case
  proof (cases "d = e")
    case True
    then have "\<forall>x \<in> set ds. unat (d_lpn x) \<noteq> unat (d_lpn d)"
      using Cons.prems(1) by (auto simp: word_unat_eq_iff [symmetric] image_iff)
    then show ?thesis
      using True Cons.prems(3) by (simp add: patch_out)
  next
    case False
    then show ?thesis
      using Cons by simp
  qed
qed

section \<open>The contract on plain maps\<close>

definition coherent_map :: "m3p_map_entry list \<Rightarrow> m3p_map_entry list \<Rightarrow> m3p_delta list \<Rightarrow> bool" where
  "coherent_map dur vis ds \<longleftrightarrow> length dur = 256 \<and> length vis = 256 \<and> distinct (map d_lpn ds) \<and>
     (\<forall>d \<in> set ds. unat (d_lpn d) < 256 \<and> vis ! unat (d_lpn d) = d_target d \<and>
        dur ! unat (d_lpn d) = d_prior d) \<and>
     (\<forall>l < 256. (\<forall>d \<in> set ds. unat (d_lpn d) \<noteq> l) \<longrightarrow> vis ! l = dur ! l)"

definition installable :: "m3p_map_entry list \<Rightarrow> m3p_delta list \<Rightarrow> m3p_delta list \<Rightarrow> bool" where
  "installable vis ds es \<longleftrightarrow> distinct (map d_lpn es) \<and>
     (\<forall>e \<in> set es. unat (d_lpn e) < 256 \<and> d_prior e = vis ! unat (d_lpn e) \<and>
        (\<forall>d \<in> set ds. d_lpn d \<noteq> d_lpn e))"

lemma coherent_map_nil: "coherent_map dur vis [] \<longleftrightarrow> length dur = 256 \<and> vis = dur"
  by (auto simp: coherent_map_def intro: nth_equalityI)

lemma unat_lpn_eq [simp]: "unat (d_lpn d) = unat (d_lpn e) \<longleftrightarrow> d_lpn d = d_lpn e"
  by (simp add: word_unat_eq_iff)

lemma coherent_install:
  assumes coh: "coherent_map dur vis ds" and ins: "installable vis ds es"
  shows "coherent_map dur (patch d_target es vis) (ds @ es)"
proof -
  have old: "patch d_target es vis ! unat (d_lpn d) = vis ! unat (d_lpn d)" if "d \<in> set ds" for d
    using ins that by (intro patch_out) (fastforce simp: installable_def)
  have new: "patch d_target es vis ! unat (d_lpn e) = d_target e" if "e \<in> set es" for e
    using ins coh that by (intro patch_in) (auto simp: installable_def coherent_map_def)
  have prior: "dur ! unat (d_lpn e) = d_prior e" if "e \<in> set es" for e
  proof -
    have "\<forall>d \<in> set ds. unat (d_lpn d) \<noteq> unat (d_lpn e)" and "unat (d_lpn e) < 256"
      using ins that by (auto simp: installable_def)
    then have "vis ! unat (d_lpn e) = dur ! unat (d_lpn e)"
      using coh by (simp add: coherent_map_def)
    then show ?thesis
      using ins that by (simp add: installable_def)
  qed
  have rest: "patch d_target es vis ! l = dur ! l"
    if "l < 256" and "\<forall>d \<in> set (ds @ es). unat (d_lpn d) \<noteq> l" for l
    using coh that by (subst patch_out) (auto simp: coherent_map_def)
  have "distinct (map d_lpn (ds @ es))"
    using coh ins by (fastforce simp: coherent_map_def installable_def)
  then show ?thesis
    using coh ins old new prior rest by (auto simp: coherent_map_def installable_def)
qed

text \<open>Committing or discarding the oldest transaction writes the same value to both maps.\<close>

lemma coherent_settle:
  assumes coh: "coherent_map dur vis (es @ ds)"
    and same: "\<forall>e \<in> set es. patch f es dur ! unat (d_lpn e) = patch g es vis ! unat (d_lpn e)"
  shows "coherent_map (patch f es dur) (patch g es vis) ds"
proof -
  have apart: "unat (d_lpn e) \<noteq> unat (d_lpn d)" if "e \<in> set es" and "d \<in> set ds" for e d
    using coh that by (auto simp: coherent_map_def)
  have "patch f es dur ! unat (d_lpn d) = d_prior d \<and> patch g es vis ! unat (d_lpn d) = d_target d"
    if "d \<in> set ds" for d
    using coh that apart by (simp add: patch_out coherent_map_def)
  moreover have "patch g es vis ! l = patch f es dur ! l"
    if "l < 256" and "\<forall>d \<in> set ds. unat (d_lpn d) \<noteq> l" for l
  proof (cases "\<exists>e \<in> set es. unat (d_lpn e) = l")
    case True
    then show ?thesis
      using same by auto
  next
    case False
    then show ?thesis
      using coh that by (auto simp: patch_out coherent_map_def)
  qed
  ultimately show ?thesis
    using coh by (auto simp: coherent_map_def)
qed

lemma coherent_commit:
  assumes coh: "coherent_map dur vis (es @ ds)"
  shows "coherent_map (patch f es dur) (patch f es vis) ds"
proof (rule coherent_settle [OF coh], rule ballI)
  fix e assume "e \<in> set es"
  then show "patch f es dur ! unat (d_lpn e) = patch f es vis ! unat (d_lpn e)"
    using coh by (simp add: patch_in coherent_map_def)
qed

lemma coherent_discard:
  assumes coh: "coherent_map dur vis (es @ ds)"
  shows "coherent_map dur (patch (\<lambda>d. dur ! unat (d_lpn d)) es vis) ds"
proof -
  have id: "patch (\<lambda>d. dur ! unat (d_lpn d)) es dur = dur"
    by (induction es) simp_all
  have "coherent_map (patch (\<lambda>d. dur ! unat (d_lpn d)) es dur)
      (patch (\<lambda>d. dur ! unat (d_lpn d)) es vis) ds"
    using coh by (rule coherent_commit)
  then show ?thesis
    by (simp add: id)
qed

section \<open>The contract on the state\<close>

definition pending_deltas :: "m3p_pending \<Rightarrow> m3p_delta list" where
  "pending_deltas pd = take (unat (pd_delta_count pd)) (pd_delta pd)"

definition ring_deltas :: "fwlab_m3p \<Rightarrow> m3p_delta list" where
  "ring_deltas s = concat (map pending_deltas (ring_abs s))"

definition coherent :: "fwlab_m3p \<Rightarrow> bool" where
  "coherent s \<longleftrightarrow> ring_inv s \<and> coherent_map (durable s) (visible s) (ring_deltas s)"

text \<open>The part of the state the contract speaks of.\<close>

definition ring_view :: "fwlab_m3p \<Rightarrow> m3p_pending list \<times> u8 \<times> u8 \<times> u8" where
  "ring_view s = (pending s, pending_count s, pending_head s, pending_tail s)"

lemma ring_view_cong:
  assumes "ring_view s' = ring_view s"
  shows "ring_inv s' = ring_inv s" and "ring_abs s' = ring_abs s" and "ring_deltas s' = ring_deltas s"
  using assms by (simp_all add: ring_view_def ring_inv_def ring_abs_def ring_slot_def ring_deltas_def
      cong: map_cong)

lemma publish_visible_delta_eq:
  "m3p_publish_visible_delta d s =
     s\<lparr>visible := (visible s)[unat (d_lpn d) := d_target d], p2l := p2l (m3p_publish_visible_delta d s)\<rparr>"
  by (simp add: m3p_publish_visible_delta_def p2l_set_def Let_def)

lemma publish_durable_delta_eq:
  "m3p_publish_durable_delta d seq s =
     s\<lparr>durable := (durable s)[unat (d_lpn d) := (d_target d)\<lparr>me_map_sequence := seq\<rparr>],
       visible := (visible s)[unat (d_lpn d) := (d_target d)\<lparr>me_map_sequence := seq\<rparr>],
       p2l := p2l (m3p_publish_durable_delta d seq s)\<rparr>"
  by (simp add: m3p_publish_durable_delta_def p2l_set_def Let_def)

lemma discard_delta_eq:
  "discard_delta d s =
     s\<lparr>visible := (visible s)[unat (d_lpn d) := durable s ! unat (d_lpn d)],
       p2l := p2l (discard_delta d s)\<rparr>"
  by (simp add: discard_delta_def p2l_set_def Let_def)

lemma publish_visible_all_eq:
  "\<exists>p. publish_visible_all ds n s = s\<lparr>visible := patch d_target (take n ds) (visible s), p2l := p\<rparr>"
proof -
  have "\<exists>p. fold m3p_publish_visible_delta ds s = s\<lparr>visible := patch d_target ds (visible s), p2l := p\<rparr>"
    for ds s
  proof (induction ds arbitrary: s)
    case Nil
    show ?case
      by (rule exI [of _ "p2l s"]) simp
  next
    case (Cons d ds)
    obtain p where "m3p_publish_visible_delta d s
        = s\<lparr>visible := (visible s)[unat (d_lpn d) := d_target d], p2l := p\<rparr>"
      using publish_visible_delta_eq by blast
    then show ?case
      using Cons.IH [of "m3p_publish_visible_delta d s"] by auto
  qed
  then show ?thesis
    by (simp add: publish_visible_all_def)
qed

definition committed :: "u32 \<Rightarrow> m3p_delta \<Rightarrow> m3p_map_entry" where
  "committed seq d = (d_target d)\<lparr>me_map_sequence := seq\<rparr>"

lemma publish_durable_all_eq:
  "\<exists>p. publish_durable_all ds n seq s =
     s\<lparr>durable := patch (committed seq) (take n ds) (durable s),
       visible := patch (committed seq) (take n ds) (visible s), p2l := p\<rparr>"
proof -
  have "\<exists>p. fold (\<lambda>d. m3p_publish_durable_delta d seq) ds s =
     s\<lparr>durable := patch (committed seq) ds (durable s),
       visible := patch (committed seq) ds (visible s), p2l := p\<rparr>" for ds s
  proof (induction ds arbitrary: s)
    case Nil
    show ?case
      by (rule exI [of _ "p2l s"]) simp
  next
    case (Cons d ds)
    obtain p where "m3p_publish_durable_delta d seq s
        = s\<lparr>durable := (durable s)[unat (d_lpn d) := committed seq d],
            visible := (visible s)[unat (d_lpn d) := committed seq d], p2l := p\<rparr>"
      using publish_durable_delta_eq [of d seq s] unfolding committed_def by blast
    then show ?case
      using Cons.IH [of "m3p_publish_durable_delta d seq s"] by auto
  qed
  then show ?thesis
    by (simp add: publish_durable_all_def)
qed

lemma discard_deltas_eq:
  "\<exists>p. fold discard_delta ds s =
     s\<lparr>visible := patch (\<lambda>d. durable s ! unat (d_lpn d)) ds (visible s), p2l := p\<rparr>"
proof (induction ds arbitrary: s)
  case Nil
  show ?case
    by (rule exI [of _ "p2l s"]) simp
next
  case (Cons d ds)
  obtain p where "discard_delta d s
      = s\<lparr>visible := (visible s)[unat (d_lpn d) := durable s ! unat (d_lpn d)], p2l := p\<rparr>"
    using discard_delta_eq by blast
  then show ?case
    using Cons.IH [of "discard_delta d s"] by auto
qed

lemma coherent_front:
  assumes "coherent s" and "m3p_pending_front s = Some pd"
  shows "ring_abs s = pd # tl (ring_abs s)" and "ring_deltas s = pending_deltas pd @ concat (map pending_deltas (tl (ring_abs s)))"
    and "pending_count s \<noteq> 0" and "pd = pending s ! unat (pending_head s)"
proof -
  have inv: "ring_inv s"
    using assms(1) by (simp add: coherent_def)
  show abs: "ring_abs s = pd # tl (ring_abs s)"
    using assms(2) ring.front_abs [OF inv] by (cases "ring_abs s") simp_all
  then show "ring_deltas s = pending_deltas pd @ concat (map pending_deltas (tl (ring_abs s)))"
    unfolding ring_deltas_def by (metis concat.simps(2) list.simps(9))
  show "pending_count s \<noteq> 0" and "pd = pending s ! unat (pending_head s)"
    using assms(2) by (auto simp: m3p_pending_front_def split: if_splits)
qed

section \<open>Installing, committing and discarding\<close>

text \<open>The entry that \<open>m3p_pending_append\<close> stores for a list of deltas.\<close>

definition pending_entry :: "u8 \<Rightarrow> u32 \<Rightarrow> m3p_delta list \<Rightarrow> u8 \<Rightarrow> m3p_pending" where
  "pending_entry subtype h ds n = \<lparr>pd_active = True, pd_subtype = subtype, pd_delta_count = n,
     pd_host_sequence = h, pd_transaction_sequence = h,
     pd_delta = take (unat n) ds @ replicate (3 - unat n) zero_delta\<rparr>"

lemma pending_entry_ok:
  assumes "n \<noteq> 0" and "n \<le> 3" and "unat n \<le> length ds"
  shows "pending_ok (pending_entry subtype h ds n)"
    and "pending_deltas (pending_entry subtype h ds n) = take (unat n) ds"
    and "ring_put (pending_entry subtype h ds n) s = m3p_pending_append subtype h ds n s"
  using assms by (auto simp: pending_ok_def pending_entry_def pending_deltas_def ring_put_def
      m3p_pending_append_def Let_def word_le_nat_alt)

lemma append_eq:
  assumes "ring_inv s" and "unat (pending_count s) < 4" and "n \<noteq> 0" and "n \<le> 3"
    and "unat n \<le> length ds"
  shows "m3p_pending_append subtype h ds n s =
    (True, s\<lparr>pending := (pending s)[unat (pending_tail s) := pending_entry subtype h ds n],
       pending_tail := (pending_tail s + 1) mod 4, pending_count := pending_count s + 1\<rparr>)"
  using assms pending_entry_ok [OF assms(3,4,5), of subtype h]
  by (simp add: ring_put_taken [symmetric])

lemma append_ring:
  assumes "ring_inv s" and "unat (pending_count s) < 4" and "n \<noteq> 0" and "n \<le> 3"
    and "unat n \<le> length ds"
  shows "ring_inv (snd (m3p_pending_append subtype h ds n s))"
    and "ring_deltas (snd (m3p_pending_append subtype h ds n s)) = ring_deltas s @ take (unat n) ds"
proof -
  let ?e = "pending_entry subtype h ds n"
  note ok = pending_entry_ok [OF assms(3,4,5), of subtype h]
  have "ring_inv (snd (ring_put ?e s)) \<and> ring_abs (snd (ring_put ?e s)) = ring_abs s @ [?e]"
    using ring.put_taken [OF assms(1) ok(1)] assms(2) by simp
  then show "ring_inv (snd (m3p_pending_append subtype h ds n s))"
    and "ring_deltas (snd (m3p_pending_append subtype h ds n s)) = ring_deltas s @ take (unat n) ds"
    by (simp_all add: ring_deltas_def ok)
qed

lemma coherent_publish_visible:
  assumes "ring_inv t" and "durable t = dur" and "visible t = vis"
    and "coherent_map dur vis ds" and "installable vis ds (take n es)"
    and "ring_deltas t = ds @ take n es"
  shows "coherent (publish_visible_all es n t)"
proof -
  obtain p where eq: "publish_visible_all es n t = t\<lparr>visible := patch d_target (take n es) (visible t), p2l := p\<rparr>"
    using publish_visible_all_eq by blast
  let ?u = "t\<lparr>visible := patch d_target (take n es) (visible t), p2l := p\<rparr>"
  have "ring_view ?u = ring_view t"
    by (simp add: ring_view_def)
  note view = ring_view_cong [OF this]
  have "ring_inv ?u" and "ring_deltas ?u = ds @ take n es"
    using view(1,3) assms(1,6) by simp_all
  moreover have "coherent_map dur (patch d_target (take n es) vis) (ds @ take n es)"
    using assms(4,5) by (rule coherent_install)
  ultimately have "coherent ?u"
    using assms(2,3) by (simp add: coherent_def)
  then show ?thesis
    by (simp only: eq)
qed

lemma coherent_publish_durable_pop:
  assumes coh: "coherent s" and front: "m3p_pending_front s = Some pd"
    and upd: "t = m3p_pending_pop (s\<lparr>durable := patch f (pending_deltas pd) (durable s),
         visible := patch f (pending_deltas pd) (visible s), p2l := p\<rparr>)"
  shows "coherent t" and "ring_abs t = tl (ring_abs s)"
proof -
  let ?u = "s\<lparr>durable := patch f (pending_deltas pd) (durable s),
         visible := patch f (pending_deltas pd) (visible s), p2l := p\<rparr>"
  have inv: "ring_inv ?u" and abs: "ring_abs ?u = ring_abs s"
    using coh ring_view_cong [of ?u s] by (simp_all add: coherent_def ring_view_def)
  show tl: "ring_abs t = tl (ring_abs s)"
    unfolding upd by (simp add: ring.pop_abs [OF inv] abs)
  have "ring_inv t"
    unfolding upd by (rule ring.pop_inv [OF inv])
  moreover have "durable t = patch f (pending_deltas pd) (durable s)"
    and "visible t = patch f (pending_deltas pd) (visible s)"
    unfolding upd by (simp_all add: m3p_pending_pop_def)
  moreover have "coherent_map (patch f (pending_deltas pd) (durable s))
      (patch f (pending_deltas pd) (visible s)) (ring_deltas t)"
    using coh coherent_front(2) [OF coh front] tl
    by (intro coherent_commit) (simp add: coherent_def ring_deltas_def)
  ultimately show "coherent t"
    by (simp add: coherent_def)
qed

lemma coherent_discard_pop:
  assumes coh: "coherent s" and front: "m3p_pending_front s = Some pd"
  shows "coherent (m3p_pending_pop (fold discard_delta (pending_deltas pd) s))"
    and "ring_abs (m3p_pending_pop (fold discard_delta (pending_deltas pd) s)) = tl (ring_abs s)"
    and "durable (m3p_pending_pop (fold discard_delta (pending_deltas pd) s)) = durable s"
proof -
  obtain p where eq: "fold discard_delta (pending_deltas pd) s =
      s\<lparr>visible := patch (\<lambda>d. durable s ! unat (d_lpn d)) (pending_deltas pd) (visible s), p2l := p\<rparr>"
      (is "_ = ?u")
    using discard_deltas_eq by blast
  have inv: "ring_inv ?u" and abs: "ring_abs ?u = ring_abs s"
    using coh ring_view_cong [of ?u s] by (simp_all add: coherent_def ring_view_def)
  show tl: "ring_abs (m3p_pending_pop (fold discard_delta (pending_deltas pd) s)) = tl (ring_abs s)"
    unfolding eq by (simp add: ring.pop_abs [OF inv] abs)
  show dur: "durable (m3p_pending_pop (fold discard_delta (pending_deltas pd) s)) = durable s"
    unfolding eq by (simp add: m3p_pending_pop_def)
  have "ring_inv (m3p_pending_pop (fold discard_delta (pending_deltas pd) s))"
    unfolding eq by (rule ring.pop_inv [OF inv])
  moreover have "visible (m3p_pending_pop (fold discard_delta (pending_deltas pd) s))
      = patch (\<lambda>d. durable s ! unat (d_lpn d)) (pending_deltas pd) (visible s)"
    unfolding eq by (simp add: m3p_pending_pop_def)
  moreover have "coherent_map (durable s)
      (patch (\<lambda>d. durable s ! unat (d_lpn d)) (pending_deltas pd) (visible s))
      (ring_deltas (m3p_pending_pop (fold discard_delta (pending_deltas pd) s)))"
    using coh coherent_front(2) [OF coh front] tl
    by (intro coherent_discard) (simp add: coherent_def ring_deltas_def)
  ultimately show "coherent (m3p_pending_pop (fold discard_delta (pending_deltas pd) s))"
    by (simp add: coherent_def dur)
qed

lemma coherent_ring_front:
  assumes "coherent s" and "pending_count s \<noteq> 0"
  shows "m3p_pending_front s = Some (pending s ! unat (pending_head s))"
proof -
  have inv: "ring_inv s"
    using assms(1) by (simp add: coherent_def)
  have "ring_abs s \<noteq> []"
    using assms(2) by (simp add: ring_abs_def unat_eq_0)
  then have "m3p_pending_front s \<noteq> None"
    using ring.front_abs [OF inv] by (cases "ring_abs s") simp_all
  then show ?thesis
    by (auto simp: m3p_pending_front_def split: if_splits)
qed

lemma discard_loop_coherent:
  assumes "coherent s" and "n = unat (pending_count s)"
  shows "coherent (discard_loop n s) \<and> pending_count (discard_loop n s) = 0 \<and>
    durable (discard_loop n s) = durable s"
  using assms
proof (induction n arbitrary: s)
  case 0
  then show ?case by (simp add: unat_eq_0)
next
  case (Suc n)
  let ?pd = "pending s ! unat (pending_head s)"
  let ?t = "m3p_pending_pop (fold discard_delta (pending_deltas ?pd) s)"
  have ne: "pending_count s \<noteq> 0"
    using Suc.prems(2) by (auto simp: unat_eq_0)
  note front = coherent_ring_front [OF Suc.prems(1) ne]
  note pop = coherent_discard_pop [OF Suc.prems(1) front]
  have "length (ring_abs ?t) = n"
    using pop(2) Suc.prems(2) by simp
  then have "n = unat (pending_count ?t)"
    by simp
  then have "coherent (discard_loop n ?t) \<and> pending_count (discard_loop n ?t) = 0 \<and>
      durable (discard_loop n ?t) = durable ?t"
    using Suc.IH pop(1) by blast
  then show ?case
    using pop(3) by (simp add: pending_deltas_def Let_def)
qed

lemma coherent_empty:
  assumes "coherent s" and "pending_count s = 0"
  shows "visible s = durable s"
  using assms by (auto simp: coherent_def ring_deltas_def ring_abs_def coherent_map_nil)

end
