(* ===== verification/M3p_Frames.thy ===== *)
theory M3p_Frames
  imports M3p_Runtime M3p_Coherence
begin

text \<open>
  What the operations leave alone. The invariant of the translation layer speaks of two groups of
  fields: the maps with the pending ring, and the control fields (quarantine, work kind, operation
  slot, return state of a checkpoint, size of the volume, and the maps recovery has read). Most
  helper functions of \<open>core/m3p\<close> touch neither group; the lemmas here say so for each of them, as
  rewrite rules collected in \<open>frame_simps\<close>.
\<close>

abbreviation (input) same_maps :: "fwlab_m3p \<Rightarrow> fwlab_m3p \<Rightarrow> bool" where
  "same_maps t s \<equiv> durable t = durable s \<and> visible t = visible s \<and> pending t = pending s \<and>
     pending_count t = pending_count s \<and> pending_head t = pending_head s \<and>
     pending_tail t = pending_tail s"

abbreviation (input) same_ctl :: "fwlab_m3p \<Rightarrow> fwlab_m3p \<Rightarrow> bool" where
  "same_ctl t s \<equiv> quarantined t = quarantined s \<and> work_kind t = work_kind s \<and>
     checkpoint_return_state t = checkpoint_return_state s \<and>
     volume_lba_count t = volume_lba_count s"

abbreviation (input) same_scan :: "fwlab_m3p \<Rightarrow> fwlab_m3p \<Rightarrow> bool" where
  "same_scan t s \<equiv> recovered_checkpoint t = recovered_checkpoint s \<and>
     checkpoint_candidate t = checkpoint_candidate s \<and>
     recovery_have_commit t = recovery_have_commit s \<and> recovered_commit t = recovered_commit s"

abbreviation (input) same_view :: "fwlab_m3p \<Rightarrow> fwlab_m3p \<Rightarrow> bool" where
  "same_view t s \<equiv> same_maps t s \<and> same_ctl t s \<and> same_scan t s \<and> operation t = operation s"

section \<open>Staging, child commands and page states\<close>

lemma staging_apply_frame [frame_simps]: "same_view (staging_apply ws s) s"
proof (induction ws arbitrary: s)
  case Nil
  show ?case by (simp add: staging_apply_def)
next
  case (Cons w ws)
  have "staging_apply (w # ws) s = staging_apply ws (snd (staging_write (fst w) (snd w) s))"
    by (simp add: staging_apply_def split_beta)
  moreover have "same_view (snd (staging_write (fst w) (snd w) s)) s"
    by (simp add: staging_write_def Let_def)
  ultimately show ?case
    using Cons.IH [of "snd (staging_write (fst w) (snd w) s)"] by simp
qed

lemma child_frames [frame_simps]:
  "same_view (snd (m3p_child_read_start f ppa s)) s"
  "same_view (snd (m3p_child_program_start f ppa s)) s"
  "same_view (snd (m3p_child_erase_start ppa s)) s"
  "same_view (m3p_child_consume s) s"
  "same_view (set_main i bs s) s"
  "same_view (set_oob i bs s) s"
  by (simp_all add: m3p_child_read_start_def m3p_child_program_start_def m3p_child_erase_start_def
      m3p_child_consume_def set_main_def set_oob_def request_common_def allocate_token_def Let_def)

lemma program_frames [frame_simps]:
  "same_view (snd (program_frame0 ppa s)) s"
  "same_view (snd (erase_block b s)) s"
  by (simp_all add: program_frame0_def erase_block_def split_beta frame_simps)

lemma p2l_frames [frame_simps]:
  "same_view (p2l_set b p st s) s"
  "same_view (p2l_fill_block b st s) s"
  by (simp_all add: p2l_set_def p2l_fill_block_def Let_def)

lemma fold_frame:
  assumes "\<And>x s. same_view (f x s) s"
  shows "same_view (fold f xs s) s"
  by (induction xs arbitrary: s) (simp_all add: assms)

lemma move_frames [frame_simps]:
  "same_view (orphan_targets ds s) s"
  "same_view (unstage_moves ds s) s"
  unfolding orphan_targets_def unstage_moves_def
  by (rule fold_frame, simp add: frame_simps)+

lemma block_erased_frame [frame_simps]: "same_view (block_erased b s) s"
  by (simp add: block_erased_def frame_simps)

lemma nfc_step_frame [frame_simps]:
  "same_view (fst (snd (snd (m3p_nfc_submit_or_step nfc w n)))) (fst w)"
  by (cases w) (simp add: m3p_nfc_submit_or_step_def split_beta Let_def frame_simps)

lemma nfc_poll_frame [frame_simps]:
  "same_view (fst (snd (snd (m3p_nfc_poll nfc w n)))) (fst w)"
  by (cases w) (simp add: m3p_nfc_poll_def split_beta Let_def frame_simps)

section \<open>Programs\<close>

lemma format_program_frames [frame_simps]:
  "same_view (snd (start_format_body s)) s"
  "same_view (snd (start_format_commit s)) s"
  by (simp_all add: start_format_body_def start_format_commit_def prepare_metadata_oob_def Let_def
      frame_simps)

lemma map_program_frames [frame_simps]:
  "same_view (snd (prepare_map_program pd s)) s"
  "same_view (snd (checkpoint_prepare_body s)) s"
  "same_view (snd (checkpoint_prepare_commit s)) s"
  by (simp_all add: prepare_map_program_def checkpoint_prepare_body_def
      checkpoint_prepare_commit_def Let_def frame_simps)

lemma gc_program_frames [frame_simps]:
  "same_view (snd (start_gc_data_program s)) s"
  "same_view (snd (start_gc_relocation s)) s"
  "same_view (snd (start_gc_switch s)) s"
  by (simp_all add: start_gc_data_program_def start_gc_relocation_def start_gc_switch_def Let_def
      frame_simps)

lemma journal_frames [frame_simps]:
  "same_view (journal_advance s) s"
  "same_view (gc_relocated s) s"
  "same_view (gc_programmed s) s"
  "same_view (consume_ended_child s) s"
  by (simp_all add: journal_advance_def gc_relocated_def gc_programmed_def consume_ended_child_def
      Let_def frame_simps)

lemma collect_frame [frame_simps]: "same_view (snd (collect_pages ps c s)) s"
  by (induction ps c s rule: collect_pages.induct) (simp_all split: option.split)

lemma collect_live_frame [frame_simps]: "same_view (snd (m3p_gc_collect_live_pages s)) s"
  by (simp add: m3p_gc_collect_live_pages_def split_beta Let_def frame_simps)

end
