(* ===== verification/M3p_Invariant.thy ===== *)
theory M3p_Invariant
  imports M3p_Frames
begin

text \<open>
  The invariant of an instance that is not quarantined, kept by every public call and by every
  transition of the scheduler: the coherence contract of \<open>M3p_Coherence\<close>, the fact that an
  operation which has reserved its deltas can still install them, and the fact that maintenance
  work runs only when no transaction is pending.
\<close>

section \<open>Definition\<close>

definition page_phase :: "m3p_operation_state \<Rightarrow> bool" where
  "page_phase st \<longleftrightarrow> st = M3P_OPERATION_PAGE_PREPARE \<or> st = M3P_OPERATION_PAGE_READ \<or>
     st = M3P_OPERATION_PAGE_PROGRAM \<or> st = M3P_OPERATION_PENDING_INSTALL"

definition commit_phase :: "m3p_operation_state \<Rightarrow> bool" where
  "commit_phase st \<longleftrightarrow> st = M3P_OPERATION_COMMIT_PENDING \<or> st = M3P_OPERATION_COMMIT_PROGRAM \<or>
     st = M3P_OPERATION_CHECKPOINT"

abbreviation (input) op_writes :: "m3p_operation \<Rightarrow> bool" where
  "op_writes op \<equiv> rq_operation (op_request op) = FWLAB_BLOCK_V0_WRITE"

text \<open>The operation holds deltas that are not in the ring yet.\<close>

definition op_uninstalled :: "m3p_operation \<Rightarrow> bool" where
  "op_uninstalled op \<longleftrightarrow> page_phase (op_state op) \<or>
     (commit_phase (op_state op) \<and> op_writes op \<and>
      rq_durability (op_request op) = FWLAB_BLOCK_V0_DURABILITY_SELF \<and> \<not> op_commit_slot op)"

definition op_deltas :: "m3p_operation \<Rightarrow> m3p_delta list" where
  "op_deltas op = take (unat (op_delta_count op)) (op_delta op)"

definition op_ready :: "m3p_operation \<Rightarrow> m3p_map_entry list \<Rightarrow> m3p_delta list \<Rightarrow> bool" where
  "op_ready op vis ds \<longleftrightarrow> (op_uninstalled op \<longrightarrow>
     op_delta_count op \<noteq> 0 \<and> op_delta_count op \<le> 3 \<and> length (op_delta op) = 3 \<and>
     installable vis ds (op_deltas op))"

definition work_quiet :: "fwlab_m3p \<Rightarrow> bool" where
  "work_quiet s \<longleftrightarrow>
     (work_kind s \<noteq> FWLAB_M3P_MAINTENANCE_NONE \<longrightarrow> pending_count s = 0 \<and>
        \<not> page_phase (op_state (operation s)) \<and> \<not> op_writes (operation s)) \<and>
     (op_state (operation s) = M3P_OPERATION_FREE \<longrightarrow> \<not> op_writes (operation s)) \<and>
     (checkpoint_return_state s = M3P_OPERATION_FREE \<or>
      checkpoint_return_state s = M3P_OPERATION_COMMIT_PENDING) \<and>
     (op_state (operation s) = M3P_OPERATION_CHECKPOINT \<and> op_writes (operation s) \<longrightarrow>
        checkpoint_return_state s = M3P_OPERATION_COMMIT_PENDING)"

definition scan_sized :: "fwlab_m3p \<Rightarrow> bool" where
  "scan_sized s \<longleftrightarrow> length (recovered_checkpoint s) = 256 \<and> length (checkpoint_candidate s) = 256 \<and>
     volume_lba_count s \<le> 2048 \<and>
     (recovery_have_commit s \<longrightarrow> cc_lba_count (recovered_commit s) \<le> 2048)"

definition live_inv :: "fwlab_m3p \<Rightarrow> bool" where
  "live_inv s \<longleftrightarrow> coherent s \<and> op_ready (operation s) (visible s) (ring_deltas s) \<and> work_quiet s \<and>
     scan_sized s"

definition ftl_inv :: "fwlab_m3p \<Rightarrow> bool" where
  "ftl_inv s \<longleftrightarrow> quarantined s \<or> live_inv s"

section \<open>Dependence on the view\<close>

lemma coherent_cong:
  assumes "same_maps t s"
  shows "coherent t = coherent s" and "ring_deltas t = ring_deltas s" and "ring_inv t = ring_inv s"
proof -
  have "ring_view t = ring_view s"
    using assms by (simp add: ring_view_def)
  note v = ring_view_cong [OF this]
  show "ring_deltas t = ring_deltas s" and "ring_inv t = ring_inv s"
    using v by simp_all
  then show "coherent t = coherent s"
    using assms by (simp add: coherent_def)
qed

text \<open>A change of the operation slot alone.\<close>

lemma live_inv_operation:
  assumes "live_inv s" and "same_maps t s" and "same_ctl t s" and "same_scan t s"
    and "op_uninstalled (operation t) \<Longrightarrow> op_ready (operation t) (visible s) (ring_deltas s)"
    and "work_kind s \<noteq> FWLAB_M3P_MAINTENANCE_NONE \<Longrightarrow>
      \<not> page_phase (op_state (operation t)) \<and> \<not> op_writes (operation t)"
    and "op_state (operation t) = M3P_OPERATION_FREE \<Longrightarrow> \<not> op_writes (operation t)"
    and "op_state (operation t) = M3P_OPERATION_CHECKPOINT \<Longrightarrow> op_writes (operation t) \<Longrightarrow>
      checkpoint_return_state s = M3P_OPERATION_COMMIT_PENDING"
  shows "live_inv t"
proof -
  have "coherent t" and "ring_deltas t = ring_deltas s"
    using assms(1) coherent_cong [OF assms(2)] by (simp_all add: live_inv_def)
  moreover have "op_ready (operation t) (visible s) (ring_deltas s)"
    using assms(5) by (auto simp: op_ready_def)
  moreover have "work_quiet t" and "scan_sized t"
    using assms by (auto simp: live_inv_def work_quiet_def scan_sized_def)
  ultimately show ?thesis
    using assms(2) by (simp add: live_inv_def)
qed

lemma live_inv_cong:
  assumes "live_inv s" and "same_view t s"
  shows "live_inv t"
  by (rule live_inv_operation [OF assms(1)])
    (use assms in \<open>auto simp: live_inv_def work_quiet_def\<close>)

text \<open>An operation that has ended.\<close>

lemma terminal_phase:
  assumes "op_at_least_terminal (op_state op)"
  shows "\<not> op_uninstalled op" and "\<not> page_phase (op_state op)"
    and "op_state op \<noteq> M3P_OPERATION_FREE" and "op_state op \<noteq> M3P_OPERATION_CHECKPOINT"
  using assms unfolding op_at_least_terminal_def op_uninstalled_def page_phase_def commit_phase_def
  by auto

lemma live_inv_ended:
  assumes "live_inv s" and "same_maps t s" and "same_ctl t s" and "same_scan t s"
    and "op_at_least_terminal (op_state (operation t))"
    and "op_request (operation t) = op_request (operation s)"
  shows "live_inv t"
proof -
  have "work_kind s \<noteq> FWLAB_M3P_MAINTENANCE_NONE \<Longrightarrow> \<not> op_writes (operation t)"
    using assms(1,6) by (simp add: live_inv_def work_quiet_def)
  then show ?thesis
    using live_inv_operation [OF assms(1-4)] terminal_phase [OF assms(5)] by blast
qed

section \<open>Ending an operation\<close>

lemma operation_fail_view [frame_simps]:
  "same_maps (m3p_operation_fail c e s) s"
  "same_ctl (m3p_operation_fail c e s) s"
  "same_scan (m3p_operation_fail c e s) s"
  "op_state (operation (m3p_operation_fail c e s)) = M3P_OPERATION_FAILED"
  "op_request (operation (m3p_operation_fail c e s)) = op_request (operation s)"
  by (simp_all add: m3p_operation_fail_def Let_def frame_simps)

lemma operation_succeed_view [frame_simps]:
  "same_maps (m3p_operation_succeed w c s) s"
  "same_ctl (m3p_operation_succeed w c s) s"
  "same_scan (m3p_operation_succeed w c s) s"
  "op_state (operation (m3p_operation_succeed w c s)) = M3P_OPERATION_TERMINAL"
  "op_request (operation (m3p_operation_succeed w c s)) = op_request (operation s)"
  by (simp_all add: m3p_operation_succeed_def Let_def)

lemma operation_fail_live: "live_inv s \<Longrightarrow> live_inv (m3p_operation_fail c e s)"
  by (rule live_inv_ended) (simp_all add: frame_simps op_at_least_terminal_def)

lemma operation_succeed_live: "live_inv s \<Longrightarrow> live_inv (m3p_operation_succeed w c s)"
  by (rule live_inv_ended) (simp_all add: frame_simps op_at_least_terminal_def)

section \<open>Checkpoints\<close>

lemma op_ready_state:
  assumes "op_ready op vis ds" and "op_uninstalled (op\<lparr>op_state := st\<rparr>) \<Longrightarrow> op_uninstalled op"
  shows "op_ready (op\<lparr>op_state := st\<rparr>) vis ds"
  using assms by (auto simp: op_ready_def op_deltas_def)

lemma start_checkpoint_quiet:
  assumes "work_quiet s" and "op_state (operation s) = M3P_OPERATION_COMMIT_PENDING \<or> \<not> op_writes (operation s)"
    and "r = M3P_OPERATION_COMMIT_PENDING \<or> r = M3P_OPERATION_FREE \<and> \<not> op_writes (operation s)"
    and "pending_count t = pending_count s" and "work_kind t = work_kind s"
    and opt: "operation t = operation s \<or>
      operation t = (operation s)\<lparr>op_state := M3P_OPERATION_CHECKPOINT\<rparr>"
    and ret: "checkpoint_return_state t = r \<or>
      checkpoint_return_state t = checkpoint_return_state s \<and> operation t = operation s"
  shows "work_quiet t"
proof -
  have fin: "checkpoint_return_state t = M3P_OPERATION_FREE \<or>
      checkpoint_return_state t = M3P_OPERATION_COMMIT_PENDING"
    using assms(1,3) ret by (auto simp: work_quiet_def)
  show ?thesis
  proof (cases "operation t = operation s")
    case True
    then have "op_state (operation t) = M3P_OPERATION_CHECKPOINT \<Longrightarrow> \<not> op_writes (operation t)"
      using assms(2) by auto
    then show ?thesis
      using fin True assms(1,4,5) by (auto simp: work_quiet_def)
  next
    case False
    then have op: "operation t = (operation s)\<lparr>op_state := M3P_OPERATION_CHECKPOINT\<rparr>"
      and "checkpoint_return_state t = r"
      using opt ret by blast+
    then show ?thesis
      using fin assms(1,3,4,5) by (auto simp: work_quiet_def page_phase_def)
  qed
qed

lemma start_checkpoint_live:
  assumes inv: "live_inv s" and op: "op_state (operation s) = M3P_OPERATION_COMMIT_PENDING \<or> \<not> op_writes (operation s)"
    and r: "r = M3P_OPERATION_COMMIT_PENDING \<or> r = M3P_OPERATION_FREE \<and> \<not> op_writes (operation s)"
  shows "live_inv (snd (m3p_start_checkpoint r s))"
proof -
  let ?t = "snd (m3p_start_checkpoint r s)"
  have maps: "same_maps ?t s" and rest: "same_scan ?t s" "volume_lba_count ?t = volume_lba_count s"
      "work_kind ?t = work_kind s"
    by (simp_all add: m3p_start_checkpoint_def Let_def)
  have ret: "checkpoint_return_state ?t = r \<or>
      checkpoint_return_state ?t = checkpoint_return_state s \<and> operation ?t = operation s"
    and opt: "operation ?t = operation s \<or>
      operation ?t = (operation s)\<lparr>op_state := M3P_OPERATION_CHECKPOINT\<rparr>"
    by (simp_all add: m3p_start_checkpoint_def Let_def)
  note coh = coherent_cong [OF maps]
  have un: "op_uninstalled ((operation s)\<lparr>op_state := M3P_OPERATION_CHECKPOINT\<rparr>) \<Longrightarrow>
      op_uninstalled (operation s)"
    using op by (auto simp: op_uninstalled_def commit_phase_def page_phase_def)
  have "op_ready (operation ?t) (visible s) (ring_deltas s)"
    using opt inv op_ready_state [OF _ un] by (auto simp: live_inv_def)
  moreover have "work_quiet ?t"
    using start_checkpoint_quiet [OF _ op r _ _ opt ret] inv maps rest
    by (simp add: live_inv_def)
  moreover have "scan_sized ?t"
    using inv rest by (simp add: live_inv_def scan_sized_def)
  ultimately show ?thesis
    using inv maps coh by (simp add: live_inv_def)
qed

lemma checkpoint_return_uninstalled:
  assumes "op_state (operation s) = M3P_OPERATION_CHECKPOINT \<or> \<not> op_writes (operation s)" and q: "work_quiet s"
    and un: "op_uninstalled ((operation s)\<lparr>op_state := checkpoint_return_state s\<rparr>)"
  shows "op_uninstalled (operation s)"
proof -
  have "\<not> page_phase (checkpoint_return_state s)"
    using q by (auto simp: work_quiet_def page_phase_def)
  then have "op_writes (operation s)" "rq_durability (op_request (operation s)) = FWLAB_BLOCK_V0_DURABILITY_SELF"
      "\<not> op_commit_slot (operation s)"
    using un by (simp_all add: op_uninstalled_def)
  then show ?thesis
    using assms(1) by (simp add: op_uninstalled_def commit_phase_def)
qed

lemma checkpoint_return_live:
  assumes inv: "live_inv s"
    and op: "op_state (operation s) = M3P_OPERATION_CHECKPOINT \<or> \<not> op_writes (operation s)"
  shows "live_inv (checkpoint_return s)"
proof (rule live_inv_operation [OF inv])
  let ?o = "(operation s)\<lparr>op_state := checkpoint_return_state s\<rparr>"
  have q: "work_quiet s"
    using inv by (simp add: live_inv_def)
  have "op_uninstalled ?o \<Longrightarrow> op_uninstalled (operation s)"
    using checkpoint_return_uninstalled [OF op q] .
  then show "op_ready (operation (checkpoint_return s)) (visible s) (ring_deltas s)"
    using inv op_ready_state by (simp add: checkpoint_return_def live_inv_def)
  show "\<not> page_phase (op_state (operation (checkpoint_return s))) \<and> \<not> op_writes (operation (checkpoint_return s))"
    if "work_kind s \<noteq> FWLAB_M3P_MAINTENANCE_NONE"
    using that q by (auto simp: checkpoint_return_def work_quiet_def page_phase_def)
  show "\<not> op_writes (operation (checkpoint_return s))"
    if "op_state (operation (checkpoint_return s)) = M3P_OPERATION_FREE"
    using that q op by (auto simp: checkpoint_return_def work_quiet_def)
  show "checkpoint_return_state s = M3P_OPERATION_COMMIT_PENDING"
    if "op_state (operation (checkpoint_return s)) = M3P_OPERATION_CHECKPOINT"
    using that q by (auto simp: checkpoint_return_def work_quiet_def)
qed (simp_all add: checkpoint_return_def)

lemma checkpoint_done_frames [frame_simps]:
  "same_view (checkpoint_body_done s) s"
  "same_view (checkpoint_commit_done s) s"
  by (simp_all add: checkpoint_body_done_def checkpoint_commit_done_def Let_def frame_simps)

lemma checkpoint_journal_erased_live:
  assumes "live_inv s"
    and "op_state (operation s) = M3P_OPERATION_CHECKPOINT \<or> \<not> op_writes (operation s)"
  shows "live_inv (checkpoint_journal_erased s)"
proof -
  have "live_inv (block_erased (checkpoint_old_journal s) s)"
    by (rule live_inv_cong [OF assms(1)]) (simp add: frame_simps)
  then show ?thesis
    unfolding checkpoint_journal_erased_def Let_def
    using assms(2) by (auto intro: checkpoint_return_live live_inv_cong simp: frame_simps)
qed

lemma checkpoint_old_erased_live:
  assumes "live_inv s"
    and "op_state (operation s) = M3P_OPERATION_CHECKPOINT \<or> \<not> op_writes (operation s)"
  shows "live_inv (checkpoint_old_erased s)"
  unfolding checkpoint_old_erased_def using assms
  by (intro checkpoint_return_live live_inv_cong [OF assms(1)]) (simp_all add: frame_simps)

lemma checkpoint_drive_inv:
  assumes inv: "live_inv s"
    and op: "op_state (operation s) = M3P_OPERATION_CHECKPOINT \<or> \<not> op_writes (operation s)"
  shows "ftl_inv (snd (m3p_checkpoint_drive s))"
proof -
  have view: "ftl_inv t" if "same_view t s" for t
    using live_inv_cong [OF inv that] by (simp add: ftl_inv_def)
  show ?thesis
    using checkpoint_journal_erased_live [OF assms] checkpoint_old_erased_live [OF assms]
    by (auto simp: m3p_checkpoint_drive_def Let_def ftl_inv_def [of "checkpoint_old_erased _"]
        ftl_inv_def [of "checkpoint_journal_erased _"] ftl_inv_def [of "quarantined_update _ _"]
        intro!: view simp: frame_simps)
qed

section \<open>Maintenance work\<close>

text \<open>While maintenance work runs the ring is empty, the two maps are equal and the operation slot
  holds no write, so work keeps the invariant as long as it keeps the maps equal.\<close>

lemma ring_deltas_empty: "pending_count s = 0 \<Longrightarrow> ring_deltas s = []"
  by (simp add: ring_deltas_def ring_abs_def)

definition idle_slot :: "m3p_operation \<Rightarrow> bool" where
  "idle_slot op \<longleftrightarrow> \<not> page_phase (op_state op) \<and> \<not> op_writes op"

abbreviation (input) same_ring :: "fwlab_m3p \<Rightarrow> fwlab_m3p \<Rightarrow> bool" where
  "same_ring t s \<equiv> pending t = pending s \<and> pending_count t = pending_count s \<and>
     pending_head t = pending_head s \<and> pending_tail t = pending_tail s"

definition maint_inv :: "fwlab_m3p \<Rightarrow> bool" where
  "maint_inv s \<longleftrightarrow> ring_inv s \<and> pending_count s = 0 \<and> visible s = durable s \<and>
     length (durable s) = 256 \<and> idle_slot (operation s) \<and> scan_sized s \<and>
     (checkpoint_return_state s = M3P_OPERATION_FREE \<or>
      checkpoint_return_state s = M3P_OPERATION_COMMIT_PENDING)"

lemma maint_inv_live:
  assumes "maint_inv s"
  shows "live_inv s"
proof -
  note e = assms [unfolded maint_inv_def]
  then have "ring_deltas s = []"
    by (simp add: ring_deltas_empty)
  moreover have "\<not> op_uninstalled (operation s)"
    using e by (simp add: idle_slot_def op_uninstalled_def)
  moreover have "work_quiet s"
    using e by (simp add: work_quiet_def idle_slot_def)
  ultimately show ?thesis
    using e by (simp add: live_inv_def coherent_def coherent_map_nil op_ready_def)
qed

lemma live_maint_inv:
  assumes "live_inv s" and "work_kind s \<noteq> FWLAB_M3P_MAINTENANCE_NONE"
  shows "maint_inv s"
proof -
  have c: "coherent s" and q: "work_quiet s" and z: "scan_sized s"
    using assms(1) by (simp_all add: live_inv_def)
  have p: "pending_count s = 0" and i: "idle_slot (operation s)"
    using q assms(2) by (simp_all add: work_quiet_def idle_slot_def)
  have "ring_inv s" and "coherent_map (durable s) (visible s) []"
    using c ring_deltas_empty [OF p] by (simp_all add: coherent_def)
  then show ?thesis
    using p i z q by (simp add: maint_inv_def coherent_map_nil work_quiet_def)
qed

lemma maint_inv_keep:
  assumes "maint_inv s" and "same_ring t s" and "visible t = durable t" and "length (durable t) = 256"
    and "idle_slot (operation t)" and "checkpoint_return_state t = checkpoint_return_state s"
    and "scan_sized t"
  shows "maint_inv t"
proof -
  have "ring_view t = ring_view s"
    using assms(2) by (simp add: ring_view_def)
  then have "ring_inv t"
    using ring_view_cong(1) [of t s] assms(1) by (simp add: maint_inv_def)
  then show ?thesis
    using assms unfolding maint_inv_def by metis
qed

lemma maint_inv_cong:
  assumes "maint_inv s" and "same_maps t s" and "same_scan t s" and "volume_lba_count t = volume_lba_count s"
    and "checkpoint_return_state t = checkpoint_return_state s" and "operation t = operation s"
  shows "maint_inv t"
  by (rule maint_inv_keep [OF assms(1)]) (use assms in \<open>simp_all add: maint_inv_def scan_sized_def\<close>)

lemma publish_durable_maint:
  assumes "maint_inv s"
  shows "maint_inv (publish_durable_all ds n seq s)"
proof -
  obtain p where "publish_durable_all ds n seq s =
     s\<lparr>durable := patch (committed seq) (take n ds) (durable s),
       visible := patch (committed seq) (take n ds) (visible s), p2l := p\<rparr>"
    using publish_durable_all_eq by blast
  then show ?thesis
    using assms by (intro maint_inv_keep [OF assms]) (simp_all add: maint_inv_def scan_sized_def)
qed

lemma ftl_inv_maint: "maint_inv s \<Longrightarrow> ftl_inv s"
  by (simp add: ftl_inv_def maint_inv_live)

subsection \<open>Formatting\<close>

lemma format_drive_inv:
  assumes "maint_inv s"
  shows "ftl_inv (snd (format_drive s))"
proof (cases "ch_state (child s) = M3P_CHILD_FAILED")
  case True
  then show ?thesis
    by (simp add: format_drive_def ftl_inv_def)
next
  case False
  have "maint_inv (snd (format_drive s))"
    by (rule maint_inv_cong [OF assms]; simp add: format_drive_def Let_def False frame_simps)
  then show ?thesis
    by (rule ftl_inv_maint)
qed

subsection \<open>Garbage collection\<close>

lemma gc_fail_inv [simp]: "ftl_inv (gc_fail c s)"
  by (simp add: gc_fail_def ftl_inv_def)

lemma gc_finished_maint:
  assumes "maint_inv s"
  shows "maint_inv (gc_finished s)"
  by (rule maint_inv_keep [OF assms]; use assms in \<open>simp add: gc_finished_def Let_def maint_inv_def idle_slot_def page_phase_def scan_sized_def\<close>)

lemma gc_erased_maint: "maint_inv s \<Longrightarrow> maint_inv (gc_erased s)"
  unfolding gc_erased_def Let_def
  by (rule gc_finished_maint, erule maint_inv_cong) (simp_all add: frame_simps)

lemma erase_replacement_maint: "maint_inv s \<Longrightarrow> maint_inv (snd (activate_erase_replacement c s))"
  unfolding activate_erase_replacement_def Let_def
  by (auto intro!: gc_finished_maint elim!: maint_inv_cong simp: frame_simps)

lemma destination_replacement_maint:
  "maint_inv s \<Longrightarrow> maint_inv (snd (activate_destination_replacement c s))"
  by (erule maint_inv_cong) (simp_all add: activate_destination_replacement_def Let_def frame_simps)

lemma gc_switched_maint:
  assumes "maint_inv s"
  shows "maint_inv (gc_switched s)"
proof -
  let ?a = "(journal_advance s)\<lparr>gc_switch_sequence := map_sequence (journal_advance s)\<rparr>"
  have "maint_inv ?a"
    by (rule maint_inv_cong [OF assms]) (simp_all add: frame_simps)
  then have "maint_inv (publish_durable_all (gc_delta ?a) (unat (gc_live_count ?a)) (map_sequence ?a) ?a)"
    by (rule publish_durable_maint)
  then show ?thesis
    unfolding gc_switched_def Let_def by (rule maint_inv_cong) simp_all
qed

lemma ftl_inv_same:
  assumes "maint_inv s" and "same_view t s"
  shows "ftl_inv t"
  by (rule ftl_inv_maint, rule maint_inv_cong [OF assms(1)]) (use assms(2) in simp_all)

lemma gc_prepare_drive_inv:
  assumes inv: "maint_inv s"
  shows "ftl_inv (snd (gc_prepare_drive s))"
proof -
  have nw: "\<not> op_writes (operation s)" and live: "live_inv s"
    using inv maint_inv_live by (auto simp: maint_inv_def idle_slot_def)
  let ?c = "m3p_start_checkpoint M3P_OPERATION_FREE s"
  have "live_inv (snd ?c)" and "\<not> op_writes (operation (snd ?c))"
    using start_checkpoint_live [OF live] nw
    by (simp_all add: m3p_start_checkpoint_def Let_def)
  then have "ftl_inv (snd (m3p_checkpoint_drive (snd ?c)))" and "ftl_inv (snd (m3p_checkpoint_drive s))"
    using checkpoint_drive_inv live nw by blast+
  moreover have "ftl_inv (s\<lparr>work_state := w\<rparr>)" for w
    by (rule ftl_inv_same [OF inv]) simp
  ultimately show ?thesis
    by (simp add: gc_prepare_drive_def split_beta)
qed

lemma gc_read_drive_inv:
  assumes "maint_inv s"
  shows "ftl_inv (snd (gc_read_drive s))"
  by (auto simp: gc_read_drive_def Let_def split_beta frame_simps split: option.split
      intro!: ftl_inv_same [OF assms])

lemma gc_program_drive_inv:
  assumes "maint_inv s"
  shows "ftl_inv (snd (gc_program_drive s))"
  using ftl_inv_maint [OF destination_replacement_maint [OF assms]]
  by (auto simp: gc_program_drive_def Let_def split_beta frame_simps intro!: ftl_inv_same [OF assms])

lemma gc_late_drives_inv:
  assumes "maint_inv s"
  shows "ftl_inv (snd (gc_relocation_drive s))" and "ftl_inv (snd (gc_switch_drive s))"
    and "ftl_inv (snd (gc_erase_drive s))"
  using ftl_inv_maint [OF gc_switched_maint [OF assms]] ftl_inv_maint [OF gc_erased_maint [OF assms]]
    ftl_inv_maint [OF erase_replacement_maint [OF assms]]
  by (auto simp: gc_relocation_drive_def gc_switch_drive_def gc_erase_drive_def Let_def split_beta
      frame_simps intro!: ftl_inv_same [OF assms])

lemma gc_drive_inv:
  assumes "maint_inv s"
  shows "ftl_inv (snd (m3p_gc_drive s))"
  unfolding m3p_gc_drive_def
  by (cases "work_state s") (simp_all add: gc_prepare_drive_inv gc_read_drive_inv gc_program_drive_inv
      gc_late_drives_inv ftl_inv_maint assms)

subsection \<open>Recovery\<close>

lemma those_length: "those xs = Some ys \<Longrightarrow> length ys = length xs"
  by (induction xs arbitrary: ys) (auto split: option.splits)

lemma decoded_body_length: "m3p_decode_checkpoint_body bs = Some m \<Longrightarrow> length m = 256"
  unfolding m3p_decode_checkpoint_body_def by (drule those_length) simp

lemma decoded_commit_lbas:
  assumes "m3p_decode_checkpoint_commit bs = Some c"
  shows "cc_lba_count c \<le> 2048"
  using assms
  by (auto simp: m3p_decode_checkpoint_commit_def Let_def m3p_volume_lba_count_valid_def
      commit_read_def split: if_splits)

lemma accept_checkpoint_maint:
  assumes "maint_inv s"
  shows "maint_inv (snd (accept_checkpoint_commit ob s))"
proof -
  have "maint_inv (s\<lparr>recovered_commit := c, recovered_checkpoint := checkpoint_candidate s,
      recovery_have_commit := True\<rparr>)" if "cc_lba_count c \<le> 2048" for c
    by (rule maint_inv_keep [OF assms]; use assms that in \<open>simp add: maint_inv_def scan_sized_def\<close>)
  then show ?thesis
    using assms by (auto simp: accept_checkpoint_commit_def dest: decoded_commit_lbas split: option.split)
qed

lemma process_body_maint:
  assumes "maint_inv s"
  shows "maint_inv (snd (process_body_page b p ob s))"
proof (cases "m3p_decode_checkpoint_body (frame_main s ! 0)")
  case None
  then show ?thesis
    by (simp add: process_body_page_def recover_fault_def maint_inv_cong [OF assms])
next
  case (Some m)
  then show ?thesis
    using assms decoded_body_length [OF Some]
    by (intro maint_inv_keep [OF assms]) (simp_all add: process_body_page_def maint_inv_def scan_sized_def)
qed

lemma process_map_maint:
  assumes "maint_inv s"
  shows "maint_inv (snd (process_map_page b p ob s))"
  by (rule maint_inv_cong [OF assms])
    (auto simp: process_map_page_def recover_fault_def Let_def split: option.split)

lemma recover_fault_maint: "maint_inv s \<Longrightarrow> maint_inv (snd (recover_fault c s))"
  by (erule maint_inv_cong) (simp_all add: recover_fault_def)

lemma process_typed_maint:
  assumes "maint_inv s"
  shows "maint_inv (snd (process_typed_page n b p ob s))"
proof -
  have "maint_inv (snd (let (ok, s) = accept_checkpoint_commit ob s
        in if \<not> ok then recover_fault 6 s else (True, s)))"
    using accept_checkpoint_maint [OF assms] recover_fault_maint by (simp add: split_beta)
  moreover have "maint_inv (s\<lparr>recovery_data_valid := x, recovered_data := y, p2l := z\<rparr>)" for x y z
    by (rule maint_inv_cong [OF assms]) simp_all
  ultimately show ?thesis
    using process_map_maint [OF assms] process_body_maint [OF assms]
    by (simp add: process_typed_page_def)
qed

lemma process_recovered_maint:
  assumes "maint_inv s"
  shows "maint_inv (snd (process_recovered_page n s))"
proof -
  let ?d = "\<lambda>x y z. s\<lparr>block_erase_generation := x, block_erase_count := y, block_health := z\<rparr>"
  have d: "maint_inv (?d x y z)" for x y z
    by (rule maint_inv_cong [OF assms]) simp_all
  have upd: "maint_inv (t\<lparr>block_next_page := x\<rparr>)" "maint_inv (t\<lparr>record_sequence := y\<rparr>)"
      "maint_inv (t\<lparr>recovery_tail_seen := z\<rparr>)" if "maint_inv t" for t x y z
    by (rule maint_inv_cong [OF that], simp_all)+
  show ?thesis
    unfolding process_recovered_page_def Let_def
    by (simp split: option.split add: d upd recover_fault_maint process_typed_maint)
qed

subsubsection \<open>Replay\<close>

lemma publish_durable_delta_maint:
  assumes "maint_inv s"
  shows "maint_inv (m3p_publish_durable_delta d seq s)"
  using publish_durable_maint [OF assms, of "[d]" 1 seq] by (simp add: publish_durable_all_def)

lemma set_record_frame [frame_simps]: "same_view (set_record_target i j e s) s"
  by (simp add: set_record_target_def Let_def)

lemma set_record_maint: "maint_inv s \<Longrightarrow> maint_inv (set_record_target i j e s)"
  by (erule maint_inv_cong) (simp_all add: frame_simps)

lemma apply_moves_maint: "maint_inv s \<Longrightarrow> maint_inv (snd (apply_moves rs uid seq s))"
  by (induction rs uid seq s rule: apply_moves.induct)
    (auto simp: Let_def publish_durable_delta_maint set_record_maint split: option.split)

lemma apply_deltas_maint: "maint_inv s \<Longrightarrow> maint_inv (snd (apply_deltas i js seq s))"
  by (induction i js seq s rule: apply_deltas.induct)
    (auto simp: Let_def publish_durable_delta_maint set_record_maint split: option.split)

lemma and_then_ok:
  assumes "fst (and_then r f)"
  shows "fst r" and "fst (f (snd r))" and "snd (and_then r f) = snd (f (snd r))"
  using assms by (auto simp: and_then_def split_beta split: if_splits)

lemma and_then_keeps: "P (snd r) \<Longrightarrow> (\<And>s. P s \<Longrightarrow> P (snd (f s))) \<Longrightarrow> P (snd (and_then r f))"
  by (simp add: and_then_def split_beta)

lemma apply_record_maint:
  assumes "maint_inv s"
  shows "maint_inv (snd (apply_recovered_record i s))"
proof -
  have roles: "maint_inv (t\<lparr>block_role := x, reserve_block := y\<rparr>)" if "maint_inv t" for t x y
    by (rule maint_inv_cong [OF that]) simp_all
  have "maint_inv (snd (and_then (apply_moves rs u q s) (\<lambda>s. (True, s\<lparr>block_role := f s, reserve_block := y\<rparr>))))"
    for rs u q f y
    by (rule and_then_keeps [where P = maint_inv]) (simp_all add: roles apply_moves_maint assms)
  then show ?thesis
    by (simp add: apply_recovered_record_def Let_def apply_deltas_maint assms)
qed

lemma replay_step_maint:
  assumes "maint_inv s"
  shows "maint_inv (snd (replay_step ms l s))"
proof -
  have "maint_inv (replay_advance r t)" if "maint_inv t" for r t
    by (rule maint_inv_cong [OF that]) (simp_all add: replay_advance_def Let_def)
  then show ?thesis
    using apply_record_maint [OF assms] assms
    by (simp add: replay_step_def Let_def split_beta split: option.split)
qed

lemma replay_loop_maint:
  "maint_inv s \<Longrightarrow> replay_loop n l s = Replay_Done l' s' \<Longrightarrow> maint_inv s'"
proof (induction n arbitrary: l s)
  case 0
  then show ?case by simp
next
  case (Suc n)
  let ?ms = "find_recovery_record s (rl_current l + 1) (rl_current l)"
  obtain r t where step: "replay_step ?ms l s = (r, t)"
    by fastforce
  have "maint_inv t"
    using replay_step_maint [OF Suc.prems(1), of ?ms l] step by simp
  then show ?case
    using Suc step by (cases r; cases "?ms = []") (auto simp: Let_def)
qed

subsubsection \<open>Finishing\<close>

text \<open>While \<open>rebuild_live\<close> runs, the visible map lags behind the durable one; the next step copies
  it.\<close>

definition half_inv :: "fwlab_m3p \<Rightarrow> bool" where
  "half_inv s \<longleftrightarrow> maint_inv (s\<lparr>visible := durable s\<rparr>)"

lemma half_inv_keep:
  assumes "half_inv s" and "same_ring t s" and "length (durable t) = length (durable s)"
    and "operation t = operation s" and "checkpoint_return_state t = checkpoint_return_state s"
    and "same_scan t s" and "volume_lba_count t = volume_lba_count s"
  shows "half_inv t"
  unfolding half_inv_def
  by (rule maint_inv_keep [OF assms(1) [unfolded half_inv_def]])
    (use assms in \<open>simp_all add: half_inv_def maint_inv_def scan_sized_def\<close>)

lemma maint_half:
  assumes "maint_inv s"
  shows "half_inv s"
  unfolding half_inv_def
  by (rule maint_inv_keep [OF assms]; use assms in \<open>simp add: maint_inv_def scan_sized_def\<close>)

lemma rebuild_live_half: "half_inv s \<Longrightarrow> half_inv (snd (rebuild_live ls s))"
proof (induction ls s rule: rebuild_live.induct)
  case (1 s)
  then show ?case by simp
next
  case (2 lpn lpns s)
  have "half_inv (s\<lparr>durable := (durable s)[lpn := e]\<rparr>)" for e
    by (rule half_inv_keep [OF "2.prems"]) simp_all
  moreover have "half_inv (p2l_set (me_block e) (me_page e) M3P_P2L_LIVE
      (s\<lparr>durable := (durable s)[lpn := e]\<rparr>))" for e
    by (rule half_inv_keep [OF "2.prems"]) (simp_all add: frame_simps)
  ultimately show ?case
    using 2 by (auto simp: Let_def split: option.split)
qed

lemma load_checkpoint_maint:
  assumes "maint_inv s" and "recovery_have_commit s"
  shows "maint_inv (load_checkpoint (s\<lparr>volume_lba_count := cc_lba_count (recovered_commit s),
           volume_format := v\<rparr>))"
  by (rule maint_inv_keep [OF assms(1)])
    (use assms in \<open>simp_all add: load_checkpoint_def Let_def maint_inv_def scan_sized_def\<close>)

lemma finalize_begin_maint:
  assumes "maint_inv s" and "fst (finalize_begin s)"
  shows "maint_inv (snd (finalize_begin s))"
  using assms(2) load_checkpoint_maint [OF assms(1)]
  by (auto simp: finalize_begin_def recover_fault_def Let_def split: if_splits)

lemma check_moves_frame: "same_view (snd (check_moves is s)) s"
  by (induction "is" s rule: check_moves.induct) (simp_all add: Let_def frame_simps split: option.split)

lemma resume_open_maint:
  assumes "maint_inv s"
  shows "maint_inv (snd (resume_open_gc l s))"
proof -
  have load: "maint_inv (load_open_gc l t)" if "maint_inv t" for t
    by (rule maint_inv_cong [OF that]) (simp_all add: load_open_gc_def Let_def)
  have roles: "maint_inv (open_gc_roles l t)" if "maint_inv t" for t
    by (rule maint_inv_cong [OF that]) (simp_all add: open_gc_roles_def Let_def)
  have collect: "maint_inv (snd (m3p_gc_collect_live_pages t))" if "maint_inv t" for t
    by (rule maint_inv_cong [OF that]) (simp_all add: frame_simps)
  have moves: "maint_inv (snd (check_moves is t))" if "maint_inv t" for t "is"
    by (rule maint_inv_cong [OF that]) (simp_all add: check_moves_frame)
  show ?thesis
    unfolding resume_open_gc_def
    by (intro and_then_keeps [where P = maint_inv]) (simp_all add: load roles collect moves assms)
qed

lemma resume_gc_maint:
  assumes "maint_inv s"
  shows "maint_inv (snd (resume_gc l s))"
proof -
  have "maint_inv (snd (resume_bad_source l s))"
    by (rule maint_inv_cong [OF assms]) (simp_all add: resume_bad_source_def load_switch_def Let_def)
  moreover have "maint_inv ((load_switch l s)\<lparr>work_kind := k, work_state := w,
      recovery_resume_gc := x, ready := y\<rparr>)" for k w x y
    by (rule maint_inv_cong [OF assms]) (simp_all add: load_switch_def)
  ultimately show ?thesis
    using assms resume_open_maint [OF assms] by (simp add: resume_gc_def Let_def)
qed

lemma relabel_blocks_frame [frame_simps]: "same_view (relabel_blocks s) s"
  unfolding relabel_blocks_def by (rule fold_frame) (simp add: role_step_def Let_def)

lemma relabel_replacement_frame [frame_simps]: "same_view (relabel_replacement s) s"
  by (simp add: relabel_replacement_def Let_def)

lemma roles_maint:
  assumes "maint_inv s"
  shows "maint_inv (snd (reconstruct_recovered_roles s))"
proof -
  have a: "maint_inv (relabel_blocks s)"
    by (rule maint_inv_cong [OF assms]) (simp_all add: frame_simps)
  have b: "maint_inv (relabel_replacement t)" "maint_inv (t\<lparr>reserve_block := x, block_role := y\<rparr>)"
    if "maint_inv t" for t x y
    by (rule maint_inv_cong [OF that], simp_all add: frame_simps)+
  show ?thesis
    by (simp add: reconstruct_recovered_roles_def Let_def a b split: option.split)
qed

lemma plan_cleanup_maint: "maint_inv s \<Longrightarrow> maint_inv (plan_cleanup s)"
  by (erule maint_inv_cong) (simp_all add: plan_cleanup_def Let_def)

lemma finalize_rest_maint:
  assumes "maint_inv s" and ok: "fst (finalize_rest l s)"
  shows "maint_inv (snd (finalize_rest l s))"
proof -
  let ?s = "s\<lparr>map_sequence := rl_current l\<rparr>"
  let ?live = "rebuild_live [0..<M3P_LPN_COUNT] (rebuild_p2l ?s)"
  let ?j = "\<lambda>t. (choose_journal l t)\<lparr>visible := durable (choose_journal l t)\<rparr>"
  let ?roles = "\<lambda>s. and_then (reconstruct_recovered_roles s) (\<lambda>s. (True, plan_cleanup s))"
  let ?rest = "\<lambda>t. and_then (resume_gc l (?j t)) ?roles"
  have "half_inv (rebuild_p2l ?s)"
    by (rule half_inv_keep [OF maint_half [OF assms(1)]]) (simp_all add: rebuild_p2l_def)
  then have "half_inv (snd ?live)"
    by (rule rebuild_live_half)
  then have "half_inv (choose_journal l (snd ?live))"
    by (rule half_inv_keep) (simp_all add: choose_journal_def Let_def)
  then have "maint_inv (?j (snd ?live))"
    by (simp add: half_inv_def)
  then have rest: "maint_inv (snd (?rest (snd ?live)))"
    by (intro and_then_keeps [where P = maint_inv])
      (simp_all add: resume_gc_maint roles_maint plan_cleanup_maint)
  have eq: "finalize_rest l s = and_then ?live ?rest" if "no_dangling_record (rl_current l) ?s"
    using that by (simp add: finalize_rest_def Let_def)
  have nd: "no_dangling_record (rl_current l) ?s"
    using ok by (auto simp: finalize_rest_def Let_def split: if_splits)
  have "fst (and_then ?live ?rest)"
    using ok by (simp only: eq [OF nd])
  then have "snd (and_then ?live ?rest) = snd (?rest (snd ?live))"
    by (rule and_then_ok(3))
  then show ?thesis
    using rest by (simp only: eq [OF nd])
qed

lemma finalize_recovery_maint:
  assumes "maint_inv s" and ok: "fst (finalize_recovery s)"
  shows "maint_inv (snd (finalize_recovery s))"
proof -
  let ?b = "finalize_begin s"
  let ?f = "\<lambda>s. case replay_loop (M3P_MAX_RECOVERED_MAPS + 1) (replay_start s) s of
              Replay_Rejected s \<Rightarrow> (False, s)
            | Replay_Done l s \<Rightarrow> finalize_rest l s
            | Replay_Out_Of_Fuel \<Rightarrow> (False, s)"
  have eq: "finalize_recovery s = and_then ?b ?f"
    by (simp add: finalize_recovery_def)
  have fb: "fst ?b" and ff: "fst (?f (snd ?b))" and snd: "snd (finalize_recovery s) = snd (?f (snd ?b))"
    using and_then_ok [of ?b ?f] ok eq by simp_all
  have m: "maint_inv (snd ?b)"
    using finalize_begin_maint [OF assms(1) fb] .
  show ?thesis
  proof (cases "replay_loop (M3P_MAX_RECOVERED_MAPS + 1) (replay_start (snd ?b)) (snd ?b)")
    case (Replay_Done l t)
    then show ?thesis
      using ff snd finalize_rest_maint [OF replay_loop_maint [OF m Replay_Done]] by simp
  qed (use ff in simp_all)
qed

subsubsection \<open>The drive of recovery\<close>

lemma quarantine_inv [simp]: "ftl_inv (recovery_quarantine s)"
  by (simp add: recovery_quarantine_def ftl_inv_def)

lemma scan_start_drive_inv:
  assumes "maint_inv s"
  shows "ftl_inv (snd (scan_start_drive s))"
  by (auto simp: scan_start_drive_def Let_def split_beta frame_simps intro!: ftl_inv_same [OF assms])

lemma scan_wait_drive_inv:
  assumes "maint_inv s"
  shows "ftl_inv (snd (scan_wait_drive s))"
proof -
  have "ftl_inv (scan_skip_bad_block b s)" and "ftl_inv (scan_torn_page n s)" for b n
    by (rule ftl_inv_same [OF assms], simp add: scan_skip_bad_block_def scan_torn_page_def Let_def frame_simps)+
  moreover have "ftl_inv ((m3p_child_consume t)\<lparr>recovery_page := x, work_state := y\<rparr>)"
    if "maint_inv t" for t x y
    by (rule ftl_inv_same [OF that]) (simp add: frame_simps)
  moreover have "ftl_inv s"
    using assms by (rule ftl_inv_maint)
  ultimately show ?thesis
    using process_recovered_maint [OF assms]
    by (simp add: scan_wait_drive_def Let_def split_beta)
qed

lemma finalize_drive_inv:
  assumes "maint_inv s"
  shows "ftl_inv (snd (finalize_drive s))"
proof -
  have fin: "ftl_inv (t\<lparr>work_state := a, work_kind := b, recovery_completed := c, ready := d\<rparr>)"
    if "maint_inv t" for t a b c d
    by (rule ftl_inv_maint, rule maint_inv_cong [OF that]) simp_all
  show ?thesis
    using finalize_recovery_maint [OF assms] fin ftl_inv_maint
    by (simp add: finalize_drive_def Let_def split_beta)
qed

lemma finish_cleanup_maint: "maint_inv s \<Longrightarrow> maint_inv (finish_recovery_cleanup s)"
  by (erule maint_inv_cong) (simp_all add: finish_recovery_cleanup_def)

lemma cleanup_start_inv: "maint_inv s \<Longrightarrow> ftl_inv (snd (cleanup_start b s))"
  by (auto simp: cleanup_start_def Let_def split_beta frame_simps intro: ftl_inv_same)

lemma cleanup_drives_inv:
  assumes "maint_inv s"
  shows "ftl_inv (snd (checkpoint_cleanup_drive s))" and "ftl_inv (snd (journal_cleanup_drive s))"
proof -
  have e: "maint_inv ((block_erased b s)\<lparr>recovery_checkpoint_cleanup := x\<rparr>)"
      "maint_inv ((block_erased b s)\<lparr>recovery_journal_cleanup := x\<rparr>)"
      "ftl_inv ((block_erased b s)\<lparr>recovery_journal_cleanup := x, work_state := y\<rparr>)" for b x y
    by (rule maint_inv_cong [OF assms], simp_all add: frame_simps)+
      (rule ftl_inv_same [OF assms], simp add: frame_simps)
  note f = ftl_inv_maint [OF finish_cleanup_maint]
  show "ftl_inv (snd (checkpoint_cleanup_drive s))" "ftl_inv (snd (journal_cleanup_drive s))"
    using cleanup_start_inv [OF assms] ftl_inv_maint [OF assms]
    by (simp_all add: checkpoint_cleanup_drive_def journal_cleanup_drive_def Let_def f e)
qed

lemma recovery_drive_inv:
  assumes "maint_inv s"
  shows "ftl_inv (snd (m3p_recovery_drive s))"
  unfolding m3p_recovery_drive_def
  by (cases "work_state s") (simp_all add: scan_start_drive_inv scan_wait_drive_inv
      finalize_drive_inv cleanup_drives_inv ftl_inv_maint assms)

end
