(* ===== verification/M3p_Quarantine.thy ===== *)
theory M3p_Quarantine
  imports M3p_Invariant
begin

text \<open>
  Quarantine is permanent: no drive function clears the flag. The step function checks the flag
  only on entry, so this is a property of every transition, also of those that run later in the
  same step.
\<close>

lemma publish_durable_frame [frame_simps]:
  "same_ctl (m3p_publish_durable_delta d seq s) s"
  "same_ctl (publish_durable_all ds n seq s) s"
  using publish_durable_all_eq [of ds n seq s] publish_durable_delta_eq [of d seq s]
  by (auto simp: m3p_publish_durable_delta_def p2l_set_def Let_def)

section \<open>Checkpoint, format and collection\<close>

lemma checkpoint_drive_q:
  assumes "quarantined s"
  shows "quarantined (snd (m3p_checkpoint_drive s))"
proof -
  have "quarantined (checkpoint_journal_erased s)" and "quarantined (checkpoint_old_erased s)"
    using assms by (simp_all add: checkpoint_journal_erased_def checkpoint_old_erased_def
        checkpoint_return_def Let_def frame_simps)
  then show ?thesis
    using assms by (simp add: m3p_checkpoint_drive_def Let_def frame_simps)
qed

lemma start_checkpoint_q [frame_simps]: "quarantined (snd (m3p_start_checkpoint r s)) = quarantined s"
  by (simp add: m3p_start_checkpoint_def Let_def)

lemma format_drive_q: "quarantined s \<Longrightarrow> quarantined (snd (format_drive s))"
  by (simp add: format_drive_def Let_def frame_simps)

lemma gc_parts_q [frame_simps]:
  "quarantined (gc_fail c s)"
  "quarantined (gc_finished s) = quarantined s"
  "quarantined (snd (activate_destination_replacement c s)) = quarantined s"
  "quarantined (snd (activate_erase_replacement c s)) = quarantined s"
  "quarantined (gc_switched s) = quarantined s"
  "quarantined (gc_erased s) = quarantined s"
  by (simp_all add: gc_fail_def gc_finished_def activate_destination_replacement_def
      activate_erase_replacement_def gc_switched_def gc_erased_def Let_def frame_simps)

lemma gc_prepare_q: "quarantined s \<Longrightarrow> quarantined (snd (gc_prepare_drive s))"
  by (simp add: gc_prepare_drive_def split_beta frame_simps checkpoint_drive_q)

lemma gc_read_q: "quarantined s \<Longrightarrow> quarantined (snd (gc_read_drive s))"
  by (simp add: gc_read_drive_def Let_def split_beta frame_simps split: option.split)

lemma gc_late_q:
  assumes "quarantined s"
  shows "quarantined (snd (gc_program_drive s))" and "quarantined (snd (gc_relocation_drive s))"
    and "quarantined (snd (gc_switch_drive s))" and "quarantined (snd (gc_erase_drive s))"
  using assms by (simp_all add: gc_program_drive_def gc_relocation_drive_def gc_switch_drive_def
      gc_erase_drive_def Let_def split_beta frame_simps)

lemma gc_drive_q: "quarantined s \<Longrightarrow> quarantined (snd (m3p_gc_drive s))"
  unfolding m3p_gc_drive_def
  by (cases "work_state s") (simp_all add: gc_prepare_q gc_read_q gc_late_q)

section \<open>Recovery\<close>

lemma apply_moves_q: "quarantined (snd (apply_moves rs uid seq s)) = quarantined s"
  by (induction rs uid seq s rule: apply_moves.induct)
    (simp_all add: Let_def frame_simps split: option.split)

lemma apply_deltas_q: "quarantined (snd (apply_deltas i js seq s)) = quarantined s"
  by (induction i js seq s rule: apply_deltas.induct)
    (simp_all add: Let_def frame_simps split: option.split)

lemma and_then_q:
  assumes "quarantined (snd r) = q" and "\<And>s. quarantined (snd (f s)) = quarantined s"
  shows "quarantined (snd (and_then r f)) = q"
  using assms by (simp add: and_then_def split_beta)

lemma apply_record_q: "quarantined (snd (apply_recovered_record i s)) = quarantined s"
proof -
  have "quarantined (snd (and_then (apply_moves rs u q s)
      (\<lambda>s. (True, s\<lparr>block_role := f s, reserve_block := y\<rparr>)))) = quarantined s" for rs u q f y
    by (rule and_then_q) (simp_all add: apply_moves_q)
  then show ?thesis
    by (simp add: apply_recovered_record_def Let_def apply_deltas_q)
qed

lemma replay_step_q: "quarantined (snd (replay_step ms l s)) = quarantined s"
  by (simp add: replay_step_def replay_advance_def Let_def split_beta apply_record_q
      split: option.split)

lemma replay_loop_q:
  "(replay_loop n l s = Replay_Done l' t \<or> replay_loop n l s = Replay_Rejected t) \<Longrightarrow>
    quarantined t = quarantined s"
proof (induction n arbitrary: l s)
  case 0
  then show ?case by simp
next
  case (Suc n)
  let ?ms = "find_recovery_record s (rl_current l + 1) (rl_current l)"
  obtain r u where step: "replay_step ?ms l s = (r, u)"
    by fastforce
  have "quarantined u = quarantined s"
    using replay_step_q [of ?ms l s] step by simp
  then show ?case
    using Suc step by (cases r; cases "?ms = []") (auto simp: Let_def)
qed

lemma rebuild_live_q: "quarantined (snd (rebuild_live ls s)) = quarantined s"
  by (induction ls s rule: rebuild_live.induct) (simp_all add: Let_def frame_simps split: option.split)

lemma resume_gc_q: "quarantined (snd (resume_gc l s)) = quarantined s"
proof -
  have "quarantined (snd (resume_open_gc l s)) = quarantined s"
    unfolding resume_open_gc_def
    by (intro and_then_q) (simp_all add: frame_simps check_moves_frame load_open_gc_def
        open_gc_roles_def Let_def)
  then show ?thesis
    by (simp add: resume_gc_def resume_bad_source_def load_switch_def Let_def)
qed

lemma roles_q: "quarantined (snd (reconstruct_recovered_roles s)) = quarantined s"
  by (simp add: reconstruct_recovered_roles_def Let_def frame_simps split: option.split)

lemma finalize_rest_q: "quarantined (snd (finalize_rest l s)) = quarantined s"
proof -
  have "quarantined (snd (and_then (resume_gc l u) (\<lambda>s. and_then (reconstruct_recovered_roles s)
      (\<lambda>s. (True, plan_cleanup s))))) = quarantined u" for u
    by (intro and_then_q) (simp_all add: resume_gc_q roles_q plan_cleanup_def Let_def)
  then have "quarantined (snd (and_then (rebuild_live ls (rebuild_p2l s'))
      (\<lambda>s. let s = choose_journal l s; s = s\<lparr>visible := durable s\<rparr>
           in and_then (resume_gc l s) (\<lambda>s. and_then (reconstruct_recovered_roles s)
                (\<lambda>s. (True, plan_cleanup s)))))) = quarantined s'" for ls s'
    by (intro and_then_q) (simp_all add: rebuild_live_q rebuild_p2l_def choose_journal_def Let_def)
  then show ?thesis
    by (simp add: finalize_rest_def Let_def)
qed

lemma finalize_recovery_q: "quarantined (snd (finalize_recovery s)) = quarantined s"
  unfolding finalize_recovery_def
proof (rule and_then_q)
  show "quarantined (snd (finalize_begin s)) = quarantined s"
    by (simp add: finalize_begin_def load_checkpoint_def recover_fault_def Let_def)
next
  fix s
  show "quarantined (snd (case replay_loop (M3P_MAX_RECOVERED_MAPS + 1) (replay_start s) s of
              Replay_Rejected s \<Rightarrow> (False, s)
            | Replay_Done l s \<Rightarrow> finalize_rest l s
            | Replay_Out_Of_Fuel \<Rightarrow> (False, s))) = quarantined s"
    using replay_loop_q [of "M3P_MAX_RECOVERED_MAPS + 1" "replay_start s" s]
    by (auto simp: finalize_rest_q split: replay_result.split)
qed

lemma process_recovered_q: "quarantined (snd (process_recovered_page n s)) = quarantined s"
proof -
  have "quarantined (snd (accept_checkpoint_commit ob t)) = quarantined t" for ob t
    by (simp add: accept_checkpoint_commit_def split: option.split)
  then have "quarantined (snd (process_typed_page m b p ob t)) = quarantined t" for m b p ob t
    by (simp add: process_typed_page_def process_map_page_def process_body_page_def recover_fault_def
        Let_def split_beta split: option.split)
  then show ?thesis
    by (simp add: process_recovered_page_def recover_fault_def Let_def split: option.split)
qed

lemma recovery_parts_q:
  assumes "quarantined s"
  shows "quarantined (snd (scan_start_drive s))" and "quarantined (snd (scan_wait_drive s))"
    and "quarantined (snd (finalize_drive s))" and "quarantined (snd (checkpoint_cleanup_drive s))"
    and "quarantined (snd (journal_cleanup_drive s))"
proof -
  have r: "quarantined (recovery_quarantine t)" for t
    by (simp add: recovery_quarantine_def)
  show "quarantined (snd (scan_start_drive s))"
    using assms by (simp add: scan_start_drive_def Let_def split_beta r frame_simps)
  show "quarantined (snd (scan_wait_drive s))"
    using assms process_recovered_q by (simp add: scan_wait_drive_def scan_skip_bad_block_def
        scan_torn_page_def Let_def split_beta r frame_simps)
  show "quarantined (snd (finalize_drive s))"
    using assms finalize_recovery_q by (simp add: finalize_drive_def Let_def split_beta r)
  show "quarantined (snd (checkpoint_cleanup_drive s))" "quarantined (snd (journal_cleanup_drive s))"
    using assms by (simp_all add: checkpoint_cleanup_drive_def journal_cleanup_drive_def
        cleanup_start_def finish_recovery_cleanup_def Let_def split_beta r frame_simps)
qed

lemma recovery_drive_q: "quarantined s \<Longrightarrow> quarantined (snd (m3p_recovery_drive s))"
  unfolding m3p_recovery_drive_def by (cases "work_state s") (simp_all add: recovery_parts_q)

end
