(* ===== verification/M3p_Service_Laws.thy ===== *)
theory M3p_Service_Laws
  imports M3p_Frames
begin

text \<open>
  What admission of a request promises: the pages of a valid request lie in the volume, the deltas
  reserved for a write or prepared for a trim name exactly those pages with their current visible
  entries, a failed reservation leaves no trace, and the sectors a page mask stands for.
\<close>

section \<open>Pages of a request\<close>

lemma request_lba_bounds:
  assumes "lba + ucast count \<le> vol" and "lba \<le> lba + ucast (count :: u32)" and "vol \<le> (2048 :: u64)"
    and "count \<le> 16"
  shows "unat lba \<le> 2048" and "unat (lba + ucast count) = unat lba + unat count"
    and "unat lba + unat count \<le> 2048"
proof -
  have "unat (lba + ucast count) \<le> 2048"
    using order_trans [OF assms(1,3)] by (simp add: word_le_nat_alt)
  moreover have "unat lba \<le> unat (lba + ucast count)"
    using assms(2) by (simp add: word_le_nat_alt)
  moreover have "unat count \<le> 16"
    using assms(4) by (simp add: word_le_nat_alt)
  ultimately show "unat lba \<le> 2048" and sum: "unat (lba + ucast count) = unat lba + unat count"
    by (simp_all add: unat_word_ariths)
  then show "unat lba + unat count \<le> 2048"
    using \<open>unat (lba + ucast count) \<le> 2048\<close> by simp
qed

lemma unat_page: "unat (x :: u64) < 2048 \<Longrightarrow> unat (ucast (x div 8) :: u16) = unat x div 8"
  by (simp add: unsigned_ucast_eq unat_div take_bit_nat_eq_self)

lemma request_valid_range:
  assumes "request_valid s rq" and "rq_operation rq \<noteq> FWLAB_BLOCK_V0_FLUSH"
  shows "rq_lba_count rq \<noteq> 0" and "rq_lba_count rq \<le> 16"
    and "rq_lba rq + ucast (rq_lba_count rq) \<le> volume_lba_count s"
    and "rq_lba rq \<le> rq_lba rq + ucast (rq_lba_count rq)"
  using assms unfolding request_valid_def Let_def
  by (simp_all add: not_le not_less split: if_splits)

definition request_in_volume :: "fwlab_m3p \<Rightarrow> block_request \<Rightarrow> bool" where
  "request_in_volume s rq \<longleftrightarrow> 0 < unat (rq_lba_count rq) \<and> unat (rq_lba_count rq) \<le> 16 \<and>
     unat (rq_lba rq) + unat (rq_lba_count rq) \<le> unat (volume_lba_count s)"

lemma request_valid_in_volume:
  assumes "request_valid s rq" and "rq_operation rq \<noteq> FWLAB_BLOCK_V0_FLUSH" and "volume_lba_count s \<le> 2048"
  shows "request_in_volume s rq"
proof -
  note r = request_valid_range [OF assms(1,2)]
  note b = request_lba_bounds [OF r(3,4) assms(3) r(2)]
  show ?thesis
    using r b(2) by (simp add: request_in_volume_def word_le_nat_alt unat_gt_0)
qed

lemma request_pages:
  assumes vol: "request_in_volume s rq" and op: "rq_operation rq \<noteq> FWLAB_BLOCK_V0_FLUSH"
    and "volume_lba_count s \<le> 2048"
  shows "unat (request_first_lpn rq) = unat (rq_lba rq) div 8"
    and "unat (request_last_lpn rq) = (unat (rq_lba rq) + unat (rq_lba_count rq) - 1) div 8"
proof -
  have v: "unat (volume_lba_count s) \<le> 2048"
    using assms(3) by (simp add: word_le_nat_alt)
  show "unat (request_first_lpn rq) = unat (rq_lba rq) div 8"
    using vol v op by (simp add: request_first_lpn_def request_in_volume_def unat_page)
  let ?e = "rq_lba rq + ucast (rq_lba_count rq) - 1"
  have "unat (rq_lba rq + ucast (rq_lba_count rq)) = unat (rq_lba rq) + unat (rq_lba_count rq)"
    using vol v by (simp add: request_in_volume_def unat_word_ariths)
  then have "unat ?e = unat (rq_lba rq) + unat (rq_lba_count rq) - 1"
    using vol by (subst unat_sub_if') (auto simp: request_in_volume_def unat_eq_0)
  moreover have "unat (rq_lba rq) + unat (rq_lba_count rq) - 1 < 2048"
    using vol v by (auto simp: request_in_volume_def)
  ultimately show "unat (request_last_lpn rq) = (unat (rq_lba rq) + unat (rq_lba_count rq) - 1) div 8"
    using op unat_page [of ?e] by (simp add: request_last_lpn_def)
qed

lemma request_page_bounds:
  assumes "request_in_volume s rq" and "rq_operation rq \<noteq> FWLAB_BLOCK_V0_FLUSH"
    and "volume_lba_count s \<le> 2048"
  shows "unat (request_first_lpn rq) \<le> unat (request_last_lpn rq)"
    and "unat (request_last_lpn rq) < 256"
    and "unat (request_last_lpn rq) \<le> unat (request_first_lpn rq) + 2"
proof -
  have v: "unat (volume_lba_count s) \<le> 2048"
    using assms(3) by (simp add: word_le_nat_alt)
  show "unat (request_first_lpn rq) \<le> unat (request_last_lpn rq)"
    and "unat (request_last_lpn rq) < 256"
    and "unat (request_last_lpn rq) \<le> unat (request_first_lpn rq) + 2"
    using assms(1) v by (auto simp: request_pages [OF assms] request_in_volume_def)
qed

section \<open>Ranges of pages\<close>

lemma lpn_range_nth:
  assumes "unat l < 256"
  shows "map unat (lpn_range f l) = [unat f..<Suc (unat l)]"
proof -
  have "unat (of_nat i :: u16) = i" if "i < Suc (unat l)" for i
    using assms that by (simp add: unsigned_of_nat take_bit_nat_eq_self)
  then show ?thesis
    unfolding lpn_range_def map_map by (intro map_idI) auto
qed

lemma lpn_range_facts:
  assumes "unat l < 256" and "unat f \<le> unat l"
  shows "length (lpn_range f l) = Suc (unat l) - unat f" and "distinct (lpn_range f l)"
    and "x \<in> set (lpn_range f l) \<Longrightarrow> f \<le> x \<and> x \<le> l \<and> unat x < 256"
proof -
  note m = lpn_range_nth [OF assms(1), of f]
  show "length (lpn_range f l) = Suc (unat l) - unat f"
    using assms(2) by (simp add: lpn_range_def del: upt_Suc)
  show "distinct (lpn_range f l)"
    using m by (metis distinct_map distinct_upt)
  assume "x \<in> set (lpn_range f l)"
  then have "unat x \<in> set (map unat (lpn_range f l))"
    by simp
  then show "f \<le> x \<and> x \<le> l \<and> unat x < 256"
    using assms by (auto simp: m word_le_nat_alt)
qed

text \<open>\<open>m3p_pending_overlaps\<close> answers whether a pending transaction names a page of the range.\<close>

lemma pending_overlaps_iff:
  "m3p_pending_overlaps s f l \<longleftrightarrow> (\<exists>d \<in> set (ring_deltas s). f \<le> d_lpn d \<and> d_lpn d \<le> l)"
  by (auto simp: m3p_pending_overlaps_def ring_deltas_def ring_abs_def ring_slot_def
      pending_deltas_def list_ex_iff Let_def)


section \<open>Reservation of pages for a write\<close>

lemma allocate_frame:
  assumes "m3p_allocate_data_page s = (r, t)"
  shows "same_view t s" and "record_sequence t = record_sequence s"
    and "\<exists>n p. t = s\<lparr>block_next_page := n, p2l := p\<rparr>"
proof -
  show ex: "\<exists>n p. t = s\<lparr>block_next_page := n, p2l := p\<rparr>"
  proof (cases "select_data_block s")
    case None
    then have "t = s\<lparr>block_next_page := block_next_page s, p2l := p2l s\<rparr>"
      using assms by (simp add: m3p_allocate_data_page_def)
    then show ?thesis by blast
  next
    case (Some b)
    then show ?thesis
      using assms by (auto simp: m3p_allocate_data_page_def Let_def p2l_set_def)
  qed
  then show "same_view t s" and "record_sequence t = record_sequence s"
    by auto
qed

lemma reserve_pages_state:
  "\<exists>n p r. fst (snd (reserve_pages ls s op)) = s\<lparr>block_next_page := n, p2l := p, record_sequence := r\<rparr>"
proof (induction ls s op rule: reserve_pages.induct)
  case (1 s op)
  show ?case
    by (rule exI [of _ "block_next_page s"], rule exI [of _ "p2l s"], rule exI [of _ "record_sequence s"]) simp
next
  case (2 l ls s op)
  obtain r t where a: "m3p_allocate_data_page s = (r, t)"
    by fastforce
  obtain n p where t: "t = s\<lparr>block_next_page := n, p2l := p\<rparr>"
    using allocate_frame(3) [OF a] by blast
  have self: "\<exists>n' p' r'. t = s\<lparr>block_next_page := n', p2l := p', record_sequence := r'\<rparr>"
    unfolding t by (rule exI [of _ n], rule exI [of _ p], rule exI [of _ "record_sequence s"]) simp
  show ?case
  proof (cases r)
    case None
    then show ?thesis
      using a self by simp
  next
    case (Some ppa)
    show ?thesis
    proof (cases "record_sequence t \<ge> cfg_record_sequence_limit (config t)")
      case True
      then show ?thesis
        using a Some self by simp
    next
      case False
      then show ?thesis
        using 2 [OF a [symmetric] Some False] a Some by (fastforce simp: t)
    qed
  qed
qed

lemma reserve_write_failed:
  assumes "\<not> fst (reserve_write_pages s op)"
  shows "fst (snd (reserve_write_pages s op)) = s"
proof -
  let ?r = "reserve_pages (lpn_range (op_first_lpn op) (op_last_lpn op)) s (op\<lparr>op_delta_count := 0\<rparr>)"
  obtain n p r where "fst (snd ?r) = s\<lparr>block_next_page := n, p2l := p, record_sequence := r\<rparr>"
    using reserve_pages_state by blast
  moreover have "\<not> fst ?r"
    using assms by (simp add: reserve_write_pages_def Let_def split_beta split: if_splits)
  ultimately show ?thesis
    by (simp add: reserve_write_pages_def Let_def split_beta)
qed

text \<open>The deltas a reservation adds: one per page, with the page's visible entry as prior.\<close>

lemma write_delta_fields:
  "d_lpn (write_delta s rq l ppa) = l"
  "d_prior (write_delta s rq l ppa) = visible s ! unat l"
  by (simp_all add: write_delta_def Let_def)

lemma reserve_pages_deltas:
  assumes "fst (reserve_pages ls s op)" and "length (op_delta op) = 3"
    and "unat (op_delta_count op) + length ls \<le> 3"
  shows "let op' = snd (snd (reserve_pages ls s op));
             ds = take (unat (op_delta_count op')) (op_delta op');
             old = take (unat (op_delta_count op)) (op_delta op) in
    length (op_delta op') = 3 \<and> unat (op_delta_count op') = unat (op_delta_count op) + length ls \<and>
    op_request op' = op_request op \<and>
    map d_lpn ds = map d_lpn old @ ls \<and>
    map d_prior ds = map d_prior old @ map (\<lambda>l. visible s ! unat l) ls"
  using assms
proof (induction ls s op rule: reserve_pages.induct)
  case (1 s op)
  then show ?case by simp
next
  case (2 l ls s op)
  obtain r t where a: "m3p_allocate_data_page s = (r, t)"
    by fastforce
  obtain ppa where r: "r = Some ppa" and lim: "\<not> record_sequence t \<ge> cfg_record_sequence_limit (config t)"
    using "2.prems"(1) a by (cases r) (auto split: if_splits)
  let ?k = "unat (op_delta_count op)"
  let ?d = "write_delta t (op_request op) l ppa"
  let ?op = "op\<lparr>op_delta := (op_delta op)[?k := ?d], op_delta_count := op_delta_count op + 1\<rparr>"
  let ?t = "t\<lparr>record_sequence := record_sequence t + 1\<rparr>"
  have eq: "reserve_pages (l # ls) s op = reserve_pages ls ?t ?op"
    using a r lim by simp
  have k: "unat (op_delta_count op + 1) = ?k + 1"
    using "2.prems"(3) by (simp add: unat_word_ariths)
  have tk: "take (?k + 1) ((op_delta op)[?k := ?d]) = take ?k (op_delta op) @ [?d]"
    using "2.prems"(2,3) by (simp add: take_Suc_conv_app_nth)
  have vis: "visible t = visible s"
    using allocate_frame(1) [OF a] by simp
  have pre: "fst (reserve_pages ls ?t ?op)" "length (op_delta ?op) = 3"
      "unat (op_delta_count ?op) + length ls \<le> 3"
    using "2.prems" eq k by (simp_all del: reserve_pages.simps)
  show ?case
    unfolding eq using "2.IH" [OF a [symmetric] r lim pre] k tk vis
    by (auto simp: Let_def write_delta_fields simp del: reserve_pages.simps)
qed

text \<open>The deltas \<open>ds\<close> name the pages \<open>ls\<close> with their visible entries.\<close>

definition deltas_for :: "m3p_map_entry list \<Rightarrow> u16 list \<Rightarrow> m3p_delta list \<Rightarrow> bool" where
  "deltas_for vis ls ds \<longleftrightarrow> map d_lpn ds = ls \<and> map d_prior ds = map (\<lambda>l. vis ! unat l) ls"

lemma deltas_for_installable:
  assumes "deltas_for vis ls ds" and "distinct ls" and "\<forall>l \<in> set ls. unat l < 256"
    and "\<forall>l \<in> set ls. \<forall>d \<in> set rs. d_lpn d \<noteq> l"
  shows "installable vis rs ds"
proof -
  have "d_prior d = vis ! unat (d_lpn d)" if d: "d \<in> set ds" for d
  proof -
    obtain i where i: "i < length ds" and "d = ds ! i"
      using d by (auto simp: in_set_conv_nth)
    then show ?thesis
      using assms(1) nth_map [OF i, of d_prior] nth_map [OF i, of d_lpn]
      by (auto simp: deltas_for_def)
  qed
  moreover have "d_lpn d \<in> set ls" if "d \<in> set ds" for d
    using assms(1) that by (auto simp: deltas_for_def)
  ultimately show ?thesis
    using assms by (auto simp: installable_def deltas_for_def)
qed

lemma reserve_write_ok:
  assumes ok: "fst (reserve_write_pages s op)" and "length (op_delta op) = 3"
    and range: "unat (op_last_lpn op) < 256" "unat (op_first_lpn op) \<le> unat (op_last_lpn op)"
      "unat (op_last_lpn op) \<le> unat (op_first_lpn op) + 2"
    and op': "op' = snd (snd (reserve_write_pages s op))"
  shows "length (op_delta op') = 3"
    and "unat (op_delta_count op') = Suc (unat (op_last_lpn op)) - unat (op_first_lpn op)"
    and "op_request op' = op_request op"
    and "deltas_for (visible s) (lpn_range (op_first_lpn op) (op_last_lpn op))
      (take (unat (op_delta_count op')) (op_delta op'))"
proof -
  let ?ls = "lpn_range (op_first_lpn op) (op_last_lpn op)"
  let ?r = "reserve_pages ?ls s (op\<lparr>op_delta_count := 0\<rparr>)"
  have f: "fst ?r" and eq: "op' = snd (snd ?r)"
    using ok op' by (simp_all add: reserve_write_pages_def Let_def split_beta split: if_splits)
  have len: "length ?ls = Suc (unat (op_last_lpn op)) - unat (op_first_lpn op)"
    using lpn_range_facts(1) [OF range(1,2)] .
  have "unat (op_delta_count (op\<lparr>op_delta_count := 0\<rparr>)) + length ?ls \<le> 3"
    using len range by simp
  note d = reserve_pages_deltas [OF f _ this]
  show "length (op_delta op') = 3"
    and "unat (op_delta_count op') = Suc (unat (op_last_lpn op)) - unat (op_first_lpn op)"
    and "op_request op' = op_request op"
    and "deltas_for (visible s) ?ls (take (unat (op_delta_count op')) (op_delta op'))"
    using d assms(2) len by (auto simp: Let_def eq deltas_for_def)
qed

lemma reserve_write_frame: "same_view (fst (snd (reserve_write_pages s op))) s"
proof -
  let ?r = "reserve_pages (lpn_range (op_first_lpn op) (op_last_lpn op)) s (op\<lparr>op_delta_count := 0\<rparr>)"
  obtain n p r where "fst (snd ?r) = s\<lparr>block_next_page := n, p2l := p, record_sequence := r\<rparr>"
    using reserve_pages_state by blast
  then show ?thesis
    by (simp add: reserve_write_pages_def Let_def split_beta)
qed

section \<open>Deltas of a trim\<close>

definition trim_step :: "fwlab_m3p \<Rightarrow> m3p_operation \<Rightarrow> u16 \<Rightarrow> m3p_operation" where
  "trim_step s op lpn =
     (let prior = visible s ! unat lpn;
          removed = sector_mask (rq_lba (op_request op)) (rq_lba_count (op_request op)) lpn
      in op\<lparr>op_delta := (op_delta op)[unat (op_delta_count op) :=
              \<lparr>d_lpn = lpn, d_target = trim_target prior removed, d_prior = prior\<rparr>],
            op_delta_count := op_delta_count op + 1\<rparr>)"

lemma prepare_trim_steps:
  "prepare_trim s op = foldl (trim_step s) (op\<lparr>op_delta_count := 0\<rparr>) (lpn_range (op_first_lpn op) (op_last_lpn op))"
  by (simp add: prepare_trim_def trim_step_def [abs_def])

lemma trim_steps_deltas:
  assumes "length (op_delta op) = 3" and "unat (op_delta_count op) + length ls \<le> 3"
  shows "let op' = foldl (trim_step s) op ls;
             ds = take (unat (op_delta_count op')) (op_delta op');
             old = take (unat (op_delta_count op)) (op_delta op) in
    length (op_delta op') = 3 \<and> unat (op_delta_count op') = unat (op_delta_count op) + length ls \<and>
    op_request op' = op_request op \<and> op_state op' = op_state op \<and>
    map d_lpn ds = map d_lpn old @ ls \<and>
    map d_prior ds = map d_prior old @ map (\<lambda>l. visible s ! unat l) ls"
  using assms
proof (induction ls arbitrary: op)
  case Nil
  then show ?case by simp
next
  case (Cons l ls)
  let ?k = "unat (op_delta_count op)"
  let ?op = "trim_step s op l"
  have k: "unat (op_delta_count ?op) = ?k + 1"
    using Cons.prems(2) by (simp add: trim_step_def Let_def unat_word_ariths)
  have tk: "map d_lpn (take (?k + 1) (op_delta ?op)) = map d_lpn (take ?k (op_delta op)) @ [l]"
      "map d_prior (take (?k + 1) (op_delta ?op)) = map d_prior (take ?k (op_delta op)) @ [visible s ! unat l]"
    using Cons.prems by (simp_all add: trim_step_def Let_def take_Suc_conv_app_nth)
  have same: "op_request ?op = op_request op" "op_state ?op = op_state op" "length (op_delta ?op) = 3"
    using Cons.prems(1) by (simp_all add: trim_step_def Let_def)
  have pre: "unat (op_delta_count ?op) + length ls \<le> 3"
    using Cons.prems(2) k by simp
  show ?case
    using Cons.IH [OF same(3) pre] k tk same by (auto simp: Let_def)
qed

lemma prepare_trim_ok:
  assumes "length (op_delta op) = 3"
    and range: "unat (op_last_lpn op) < 256" "unat (op_first_lpn op) \<le> unat (op_last_lpn op)"
      "unat (op_last_lpn op) \<le> unat (op_first_lpn op) + 2"
  shows "length (op_delta (prepare_trim s op)) = 3"
    and "unat (op_delta_count (prepare_trim s op)) = Suc (unat (op_last_lpn op)) - unat (op_first_lpn op)"
    and "op_request (prepare_trim s op) = op_request op"
    and "deltas_for (visible s) (lpn_range (op_first_lpn op) (op_last_lpn op))
      (take (unat (op_delta_count (prepare_trim s op))) (op_delta (prepare_trim s op)))"
proof -
  let ?ls = "lpn_range (op_first_lpn op) (op_last_lpn op)"
  have len: "length ?ls = Suc (unat (op_last_lpn op)) - unat (op_first_lpn op)"
    using lpn_range_facts(1) [OF range(1,2)] .
  have "unat (op_delta_count (op\<lparr>op_delta_count := 0\<rparr>)) + length ?ls \<le> 3"
    using len range by simp
  note d = trim_steps_deltas [OF _ this, of s]
  show "length (op_delta (prepare_trim s op)) = 3"
    and "unat (op_delta_count (prepare_trim s op)) = Suc (unat (op_last_lpn op)) - unat (op_first_lpn op)"
    and "op_request (prepare_trim s op) = op_request op"
    and "deltas_for (visible s) ?ls
      (take (unat (op_delta_count (prepare_trim s op))) (op_delta (prepare_trim s op)))"
    using d assms(1) len by (auto simp: Let_def prepare_trim_steps deltas_for_def)
qed

end
