(* ===== verification/M3p_Safety.thy ===== *)
theory M3p_Safety
  imports M3p_Quarantine M3p_Service_Laws
begin

text \<open>
  The operation slot and the public calls keep the invariant of \<open>M3p_Invariant\<close>: page programs,
  installation, commit, read, submission, cancellation, retirement, close and the step function.
  Together with the maintenance drives this makes the invariant hold in every reachable state.
\<close>

section \<open>Installing\<close>

text \<open>What an instance without maintenance work owes apart from its operation slot.\<close>

definition base_inv :: "fwlab_m3p \<Rightarrow> bool" where
  "base_inv s \<longleftrightarrow> coherent s \<and> scan_sized s \<and> work_kind s = FWLAB_M3P_MAINTENANCE_NONE \<and>
     (checkpoint_return_state s = M3P_OPERATION_FREE \<or>
      checkpoint_return_state s = M3P_OPERATION_COMMIT_PENDING)"

lemma live_base: "live_inv s \<Longrightarrow> work_kind s = FWLAB_M3P_MAINTENANCE_NONE \<Longrightarrow> base_inv s"
  by (simp add: live_inv_def base_inv_def work_quiet_def)

lemma base_live:
  assumes "base_inv s" and maps: "same_maps t s" and "same_ctl t s" and "same_scan t s"
    and "\<not> op_uninstalled (operation t)"
    and "op_state (operation t) = M3P_OPERATION_FREE \<Longrightarrow> \<not> op_writes (operation t)"
    and "op_state (operation t) \<noteq> M3P_OPERATION_CHECKPOINT"
  shows "live_inv t"
proof -
  have "coherent t"
    using assms(1) coherent_cong(1) [OF maps] by (simp add: base_inv_def)
  moreover have "work_quiet t" and "scan_sized t"
    using assms by (auto simp: base_inv_def work_quiet_def scan_sized_def)
  ultimately show ?thesis
    using assms(5) by (simp add: live_inv_def op_ready_def)
qed

lemma base_ended:
  assumes "base_inv s" and "same_maps t s" and "same_ctl t s" and "same_scan t s"
    and "op_at_least_terminal (op_state (operation t))"
  shows "live_inv t"
  by (rule base_live [OF assms(1-4)]) (simp_all add: terminal_phase [OF assms(5)])

lemma uninstalled_no_work:
  assumes "live_inv s" and "op_uninstalled (operation s)"
  shows "work_kind s = FWLAB_M3P_MAINTENANCE_NONE"
  using assms by (auto simp: live_inv_def work_quiet_def op_uninstalled_def)

lemma append_ok_count:
  assumes "fst (m3p_pending_append st h ds n s)"
  shows "unat (pending_count s) < 4"
proof (rule ccontr)
  assume "\<not> unat (pending_count s) < 4"
  then have "4 \<le> pending_count s"
    by (simp add: word_le_nat_alt)
  then show False
    using assms by (simp add: m3p_pending_append_def)
qed

lemma append_refused: "\<not> fst (m3p_pending_append st h ds n s) \<Longrightarrow> snd (m3p_pending_append st h ds n s) = s"
  unfolding m3p_pending_append_def Let_def
  by (cases "n = 0 \<or> n > 3 \<or> pending_count s \<ge> 4"; cases "pd_active (pending s ! unat (pending_tail s))")
    (simp_all only: if_True if_False fst_conv snd_conv simp_thms)

lemma publish_visible_frame [frame_simps]:
  "same_ctl (publish_visible_all ds n s) s"
  "same_scan (publish_visible_all ds n s) s"
  "same_ring (publish_visible_all ds n s) s"
  "operation (publish_visible_all ds n s) = operation s"
  "durable (publish_visible_all ds n s) = durable s"
proof -
  obtain p where "publish_visible_all ds n s = s\<lparr>visible := patch d_target (take n ds) (visible s), p2l := p\<rparr>"
    using publish_visible_all_eq by blast
  then show "same_ctl (publish_visible_all ds n s) s" "same_scan (publish_visible_all ds n s) s"
    "same_ring (publish_visible_all ds n s) s" "operation (publish_visible_all ds n s) = operation s"
    "durable (publish_visible_all ds n s) = durable s"
    by simp_all
qed

lemma install_operation_inv:
  assumes inv: "live_inv s" and un: "op_uninstalled (operation s)"
  shows "\<not> fst (install_operation st s) \<Longrightarrow> snd (install_operation st s) = s"
    and "fst (install_operation st s) \<Longrightarrow> base_inv (snd (install_operation st s)) \<and>
      operation (snd (install_operation st s)) = (operation s)\<lparr>op_commit_slot := True\<rparr> \<and>
      quarantined (snd (install_operation st s)) = quarantined s"
proof -
  let ?op = "operation s" and ?n = "op_delta_count (operation s)"
  let ?a = "m3p_pending_append st (op_host_sequence ?op) (op_delta ?op) ?n s"
  let ?t = "(snd ?a)\<lparr>operation := ?op\<lparr>op_commit_slot := True\<rparr>\<rparr>"
  have eq: "install_operation st s = (if fst ?a then (True, publish_visible_all (op_delta ?op) (unat ?n) ?t)
      else (False, snd ?a))"
    by (simp add: install_operation_def Let_def split_beta)
  show "snd (install_operation st s) = s" if "\<not> fst (install_operation st s)"
    using that append_refused by (simp add: eq split: if_splits)
  assume "fst (install_operation st s)"
  then have ok: "fst ?a"
    by (simp add: eq split: if_splits)
  note base = live_base [OF inv uninstalled_no_work [OF inv un]]
  have coh: "coherent s" and n: "?n \<noteq> 0" "?n \<le> 3" "length (op_delta ?op) = 3"
    and ins: "installable (visible s) (ring_deltas s) (take (unat ?n) (op_delta ?op))"
    using inv un by (simp_all add: live_inv_def op_ready_def op_deltas_def)
  have ring: "ring_inv s" and len: "unat ?n \<le> length (op_delta ?op)"
    using coh n by (simp_all add: coherent_def word_le_nat_alt)
  note app = append_ring [OF ring append_ok_count [OF ok] n(1,2) len, of st "op_host_sequence ?op"]
  note app_eq = append_eq [OF ring append_ok_count [OF ok] n(1,2) len, of st "op_host_sequence ?op"]
  have maps: "same_maps ?t (snd ?a)"
    by simp
  have "coherent (publish_visible_all (op_delta ?op) (unat ?n) ?t)"
  proof (rule coherent_publish_visible)
    show "ring_inv ?t"
      using coherent_cong(3) [OF maps] app(1) by simp
    show "ring_deltas ?t = ring_deltas s @ take (unat ?n) (op_delta ?op)"
      using coherent_cong(2) [OF maps] app(2) by simp
    show "durable ?t = durable s" and "visible ?t = visible s"
      by (simp_all add: app_eq)
    show "coherent_map (durable s) (visible s) (ring_deltas s)"
      using coh by (simp add: coherent_def)
    show "installable (visible s) (ring_deltas s) (take (unat ?n) (op_delta ?op))"
      by (rule ins)
  qed
  moreover have "same_ctl (snd ?a) s" and "same_scan (snd ?a) s"
    by (simp_all add: app_eq)
  ultimately show "base_inv (snd (install_operation st s)) \<and>
      operation (snd (install_operation st s)) = (operation s)\<lparr>op_commit_slot := True\<rparr> \<and>
      quarantined (snd (install_operation st s)) = quarantined s"
    using base by (simp add: eq ok base_inv_def scan_sized_def frame_simps)
qed

section \<open>Committing\<close>

lemma ftl_live: "live_inv s \<Longrightarrow> ftl_inv s"
  by (simp add: ftl_inv_def)

lemma set_op_state_live:
  assumes inv: "live_inv s" and "work_kind s = FWLAB_M3P_MAINTENANCE_NONE"
    and un: "op_uninstalled ((operation s)\<lparr>op_state := st\<rparr>) \<Longrightarrow> op_uninstalled (operation s)"
    and "st \<noteq> M3P_OPERATION_FREE" and "st \<noteq> M3P_OPERATION_CHECKPOINT"
  shows "live_inv (set_op_state st s)"
proof (rule live_inv_operation [OF inv])
  show "op_ready (operation (set_op_state st s)) (visible s) (ring_deltas s)"
    using inv op_ready_state [OF _ un] by (simp add: live_inv_def set_op_state_def)
qed (use assms in \<open>simp_all add: set_op_state_def\<close>)

lemma commit_states_uninstalled:
  assumes "commit_phase (op_state op)" and "commit_phase st"
  shows "op_uninstalled (op\<lparr>op_state := st\<rparr>) = op_uninstalled op"
  using assms by (auto simp: op_uninstalled_def commit_phase_def page_phase_def)

lemma commit_ready_live:
  assumes "live_inv s" and "op_state (operation s) = M3P_OPERATION_COMMIT_PENDING"
  shows "live_inv (commit_ready s)"
  using start_checkpoint_live [OF assms(1), of M3P_OPERATION_COMMIT_PENDING] assms
  by (simp add: commit_ready_def Let_def split_beta operation_fail_live operation_succeed_live)

lemma commit_front_live:
  assumes inv: "live_inv s" and st: "op_state (operation s) = M3P_OPERATION_COMMIT_PENDING"
    and work: "work_kind s = FWLAB_M3P_MAINTENANCE_NONE"
  shows "live_inv (commit_front s)"
proof (cases "m3p_pending_front s")
  case None
  then show ?thesis
    using commit_ready_live [OF inv st] by (simp add: commit_front_def)
next
  case (Some pd)
  let ?t = "snd (prepare_map_program pd s)"
  have live: "live_inv ?t"
    by (rule live_inv_cong [OF inv]) (simp add: frame_simps)
  have "live_inv (set_op_state M3P_OPERATION_COMMIT_PROGRAM ?t)"
    by (rule set_op_state_live [OF live])
      (use st work in \<open>simp_all add: frame_simps commit_states_uninstalled commit_phase_def\<close>)
  then show ?thesis
    using Some live by (simp add: commit_front_def split_beta operation_fail_live)
qed

lemma commit_drive_live:
  assumes inv: "live_inv s" and st: "op_state (operation s) = M3P_OPERATION_COMMIT_PENDING"
    and work: "work_kind s = FWLAB_M3P_MAINTENANCE_NONE"
  shows "live_inv (snd (commit_drive s))"
proof (cases "op_writes (operation s) \<and> rq_durability (op_request (operation s)) = FWLAB_BLOCK_V0_DURABILITY_SELF \<and>
      \<not> op_commit_slot (operation s) \<and> pending_count s < 4")
  case False
  then show ?thesis
    using commit_front_live [OF assms] by (auto simp: commit_drive_def Let_def)
next
  case True
  let ?i = "install_operation M3P_MAP_WRITE s"
  have un: "op_uninstalled (operation s)"
    using True st by (simp add: op_uninstalled_def commit_phase_def)
  note ins = install_operation_inv [OF inv un, of M3P_MAP_WRITE]
  show ?thesis
  proof (cases "fst ?i")
    case False
    then show ?thesis
      using True ins(1) operation_fail_live [OF inv] by (simp add: commit_drive_def Let_def split_beta)
  next
    case ok: True
    have op: "operation (snd ?i) = (operation s)\<lparr>op_commit_slot := True\<rparr>" and base: "base_inv (snd ?i)"
      using ins(2) [OF ok] by auto
    have "live_inv (snd ?i)"
      by (rule base_live [OF base])
        (use st in \<open>simp_all add: op op_uninstalled_def page_phase_def commit_phase_def\<close>)
    then have "live_inv (commit_front (snd ?i))"
      by (rule commit_front_live) (use st base in \<open>simp_all add: op base_inv_def\<close>)
    then show ?thesis
      using True ok by (simp add: commit_drive_def Let_def split_beta)
  qed
qed

lemma installable_settle:
  assumes ins: "installable vis (es @ ds) xs"
  shows "installable (patch f es vis) ds xs"
proof -
  have "patch f es vis ! unat (d_lpn x) = vis ! unat (d_lpn x)" if "x \<in> set xs" for x
    using ins that by (intro patch_out) (auto simp: installable_def)
  then show ?thesis
    using ins by (auto simp: installable_def)
qed

lemma pop_frame [frame_simps]:
  "same_ctl (m3p_pending_pop s) s"
  "same_scan (m3p_pending_pop s) s"
  "operation (m3p_pending_pop s) = operation s"
  "durable (m3p_pending_pop s) = durable s"
  "visible (m3p_pending_pop s) = visible s"
  by (simp_all add: m3p_pending_pop_def)

lemma pop_commutes:
  "m3p_pending_pop (s\<lparr>durable_frontier := x\<rparr>) = (m3p_pending_pop s)\<lparr>durable_frontier := x\<rparr>"
  by (simp add: m3p_pending_pop_def)

lemma commit_programmed_live:
  assumes inv: "live_inv s" and front: "m3p_pending_front s = Some pd"
    and st: "op_state (operation s) = M3P_OPERATION_COMMIT_PROGRAM"
    and work: "work_kind s = FWLAB_M3P_MAINTENANCE_NONE"
  shows "live_inv (commit_programmed pd s)"
proof -
  let ?j = "journal_advance s"
  let ?seq = "map_sequence ?j"
  obtain p where pub: "publish_durable_all (pd_delta pd) (unat (pd_delta_count pd)) ?seq ?j =
     ?j\<lparr>durable := patch (committed ?seq) (pending_deltas pd) (durable ?j),
       visible := patch (committed ?seq) (pending_deltas pd) (visible ?j), p2l := p\<rparr>" (is "_ = ?u")
    unfolding pending_deltas_def using publish_durable_all_eq by blast
  let ?t = "m3p_pending_pop ?u"
  have j: "live_inv ?j"
    by (rule live_inv_cong [OF inv]) (simp add: frame_simps)
  have "m3p_pending_front ?j = m3p_pending_front s"
    by (simp add: m3p_pending_front_def frame_simps)
  then have jfront: "m3p_pending_front ?j = Some pd"
    using front by simp
  have jcoh: "coherent ?j"
    using j by (simp add: live_inv_def)
  note pop = coherent_publish_durable_pop [OF jcoh jfront refl, where f = "committed ?seq" and p = p]
  have deltas: "ring_deltas ?j = pending_deltas pd @ ring_deltas ?t"
    using coherent_front(2) [OF jcoh jfront] pop(2) by (simp add: ring_deltas_def)
  have "op_ready (operation ?t) (visible ?t) (ring_deltas ?t)"
    using j deltas by (auto simp: live_inv_def op_ready_def frame_simps intro: installable_settle)
  moreover have "work_quiet ?t" and "scan_sized ?t"
    using inv st work by (auto simp: live_inv_def work_quiet_def scan_sized_def frame_simps)
  ultimately have "live_inv ?t"
    using pop(1) by (simp add: live_inv_def)
  then have t: "live_inv (set_op_state M3P_OPERATION_COMMIT_PENDING ?t)"
    by (rule set_op_state_live)
      (use st work in \<open>simp_all add: frame_simps commit_states_uninstalled commit_phase_def\<close>)
  have "commit_programmed pd s = set_op_state M3P_OPERATION_COMMIT_PENDING ?t \<or>
      commit_programmed pd s = set_op_state M3P_OPERATION_COMMIT_PENDING
        (?t\<lparr>durable_frontier := pd_host_sequence pd\<rparr>)"
    unfolding commit_programmed_def Let_def pub by (simp add: pop_commutes)
  then show ?thesis
    using t live_inv_cong [OF t] by (auto simp: set_op_state_def)
qed

lemma commit_program_drive_live:
  assumes "live_inv s" and "op_state (operation s) = M3P_OPERATION_COMMIT_PROGRAM"
    and "work_kind s = FWLAB_M3P_MAINTENANCE_NONE"
  shows "live_inv (snd (commit_program_drive s))"
  using commit_programmed_live [OF assms(1) _ assms(2,3)] operation_fail_live [OF assms(1)] assms(1)
  by (simp add: commit_program_drive_def split: option.split)

section \<open>Writing pages\<close>

lemma op_ready_deltas:
  assumes "op_ready op vis ds" and "op_uninstalled op"
    and "op_delta_count op' = op_delta_count op" and "length (op_delta op') = length (op_delta op)"
    and "map d_lpn (op_delta op') = map d_lpn (op_delta op)"
    and "map d_prior (op_delta op') = map d_prior (op_delta op)"
  shows "op_ready op' vis ds"
proof -
  let ?n = "unat (op_delta_count op)"
  have l: "map d_lpn (take ?n (op_delta op')) = map d_lpn (take ?n (op_delta op))"
    and p: "map d_prior (take ?n (op_delta op')) = map d_prior (take ?n (op_delta op))"
    using assms(5,6) by (simp_all add: take_map [symmetric])
  have inst: "installable vis ds xs = (distinct (map d_lpn xs) \<and>
      list_all2 (\<lambda>l p. unat l < 256 \<and> p = vis ! unat l \<and> (\<forall>d \<in> set ds. d_lpn d \<noteq> l))
        (map d_lpn xs) (map d_prior xs))" for xs
    by (simp add: installable_def list.rel_map list.rel_refl_strong list_all2_same)
  show ?thesis
    using assms(1-4) by (simp add: op_ready_def op_deltas_def inst l p)
qed

text \<open>The state of the operation moves between the page phases and its deltas only change in their
  targets.\<close>

lemma page_phase_live:
  assumes inv: "live_inv s" and ph: "page_phase (op_state (operation s))"
    and "same_maps t s" and "same_ctl t s" and "same_scan t s"
    and ph': "page_phase (op_state (operation t))"
    and d: "op_delta_count (operation t) = op_delta_count (operation s)"
      "map d_lpn (op_delta (operation t)) = map d_lpn (op_delta (operation s))"
      "map d_prior (op_delta (operation t)) = map d_prior (op_delta (operation s))"
  shows "live_inv t"
proof (rule live_inv_operation [OF inv assms(3-5)])
  have un: "op_uninstalled (operation s)"
    using ph by (simp add: op_uninstalled_def)
  have len: "length (op_delta (operation t)) = length (op_delta (operation s))"
    using d(2) by (metis length_map)
  show "op_ready (operation t) (visible s) (ring_deltas s)"
    using op_ready_deltas [OF _ un d(1) len d(2,3)] inv by (simp add: live_inv_def)
  show "\<not> page_phase (op_state (operation t)) \<and> \<not> op_writes (operation t)"
    if "work_kind s \<noteq> FWLAB_M3P_MAINTENANCE_NONE"
    using that uninstalled_no_work [OF inv un] by simp
qed (use ph' in \<open>auto simp: page_phase_def\<close>)

lemma map_update_same: "f x = f (xs ! i) \<Longrightarrow> map f (xs[i := x]) = map f xs"
  by (cases "i < length xs") (simp_all add: map_update list_update_same_conv list_update_beyond)

lemma data_program_view:
  "same_maps (snd (start_current_data_program s)) s"
  "same_ctl (snd (start_current_data_program s)) s"
  "same_scan (snd (start_current_data_program s)) s"
  "op_state (operation (snd (start_current_data_program s))) = op_state (operation s)"
  "op_delta_count (operation (snd (start_current_data_program s))) = op_delta_count (operation s)"
  "map d_lpn (op_delta (operation (snd (start_current_data_program s)))) = map d_lpn (op_delta (operation s))"
  "map d_prior (op_delta (operation (snd (start_current_data_program s)))) = map d_prior (op_delta (operation s))"
  by (simp_all add: start_current_data_program_def Let_def frame_simps map_update_same)

lemma begin_page_program_live:
  assumes inv: "live_inv s" and ph: "page_phase (op_state (operation s))"
  shows "live_inv (snd (begin_page_program e s))"
proof -
  let ?t = "snd (start_current_data_program s)"
  have "live_inv ?t"
    by (rule page_phase_live [OF assms]) (use ph in \<open>simp_all add: data_program_view\<close>)
  moreover have "live_inv (set_op_state M3P_OPERATION_PAGE_PROGRAM ?t)"
    by (rule page_phase_live [OF assms])
      (simp_all add: data_program_view set_op_state_def page_phase_def)
  ultimately show ?thesis
    by (simp add: begin_page_program_def Let_def split_beta operation_fail_live)
qed

lemma page_prepare_live:
  assumes inv: "live_inv s" and ph: "page_phase (op_state (operation s))"
  shows "live_inv (snd (page_prepare_drive s))"
proof -
  have live: "live_inv (set_main 0 bs s)" "page_phase (op_state (operation (set_main 0 bs s)))"
      "live_inv (snd (m3p_child_read_start f ppa s))" for bs f ppa
    using ph by (auto intro!: live_inv_cong [OF inv] simp: frame_simps)
  have "live_inv (set_op_state M3P_OPERATION_PAGE_READ (snd (m3p_child_read_start f ppa s)))" for f ppa
    by (rule page_phase_live [OF assms]) (simp_all add: set_op_state_def page_phase_def frame_simps)
  then show ?thesis
    using begin_page_program_live [OF live(1,2)] live(3)
    by (simp add: page_prepare_drive_def Let_def split_beta)
qed

lemma page_read_live:
  assumes inv: "live_inv s" and ph: "page_phase (op_state (operation s))"
  shows "live_inv (snd (page_read_drive s))"
proof -
  have "live_inv (m3p_child_consume (set_main 0 bs s))" for bs
    by (rule live_inv_cong [OF inv]) (simp add: frame_simps)
  then have "live_inv (snd (begin_page_program e (m3p_child_consume (set_main 0 bs s))))" for e bs
    by (rule begin_page_program_live) (simp add: frame_simps ph)
  then show ?thesis
    using inv operation_fail_live [OF inv] by (simp add: page_read_drive_def Let_def)
qed

lemma page_program_live:
  assumes inv: "live_inv s" and ph: "page_phase (op_state (operation s))"
  shows "live_inv (snd (page_program_drive s))"
proof -
  have "live_inv ((m3p_child_consume s)\<lparr>operation := op\<rparr>)"
    if "page_phase (op_state op)" "op_delta op = op_delta (operation s)"
      "op_delta_count op = op_delta_count (operation s)" for op
    by (rule page_phase_live [OF assms]) (use that in \<open>simp_all add: frame_simps\<close>)
  then show ?thesis
    using inv operation_fail_live [OF inv]
    by (simp add: page_program_drive_def Let_def frame_simps page_phase_def)
qed

lemma write_drive_live:
  assumes "live_inv s" and "page_phase (op_state (operation s))"
  shows "live_inv (snd (write_drive s))"
  using page_prepare_live [OF assms] page_read_live [OF assms] page_program_live [OF assms] assms(1)
  by (simp add: write_drive_def split: m3p_operation_state.split)

lemma pending_install_live:
  assumes inv: "live_inv s" and st: "op_state (operation s) = M3P_OPERATION_PENDING_INSTALL"
  shows "live_inv (snd (pending_install_drive s))"
proof -
  let ?rq = "op_request (operation s)"
  let ?st = "if rq_operation ?rq = FWLAB_BLOCK_V0_TRIM then M3P_MAP_TRIM else M3P_MAP_WRITE"
  let ?i = "install_operation ?st s"
  have un: "op_uninstalled (operation s)"
    using st by (simp add: op_uninstalled_def page_phase_def)
  note work = uninstalled_no_work [OF inv un]
  note ins = install_operation_inv [OF inv un, of ?st]
  have wait: "live_inv (set_op_state M3P_OPERATION_COMMIT_PENDING s)"
    by (rule set_op_state_live [OF inv work]) (simp_all add: un)
  have fail: "live_inv (m3p_operation_fail c e (snd ?i))" if "\<not> fst ?i" for c e
    using ins(1) [OF that] operation_fail_live [OF inv] by simp
  have ok: "live_inv (m3p_operation_succeed w c (snd ?i))"
      "live_inv (set_op_state M3P_OPERATION_COMMIT_PENDING (snd ?i))" if "fst ?i" for w c
  proof -
    have base: "base_inv (snd ?i)" and op: "operation (snd ?i) = (operation s)\<lparr>op_commit_slot := True\<rparr>"
      using ins(2) [OF that] by auto
    show "live_inv (m3p_operation_succeed w c (snd ?i))"
      by (rule base_ended [OF base]) (simp_all add: frame_simps op_at_least_terminal_def)
    show "live_inv (set_op_state M3P_OPERATION_COMMIT_PENDING (snd ?i))"
      by (rule base_live [OF base])
        (simp_all add: set_op_state_def op op_uninstalled_def page_phase_def)
  qed
  show ?thesis
    unfolding pending_install_drive_def Let_def split_beta
    using wait fail ok by (cases "fst ?i") auto
qed

section \<open>Reading\<close>

definition reading :: "m3p_operation_state \<Rightarrow> bool" where
  "reading st \<longleftrightarrow> st = M3P_OPERATION_READ_PAGE \<or> st = M3P_OPERATION_READ_PUBLISH"

lemma reading_phase:
  assumes "reading (op_state op)"
  shows "\<not> op_uninstalled op" and "\<not> page_phase (op_state op)"
    and "op_state op \<noteq> M3P_OPERATION_FREE" and "op_state op \<noteq> M3P_OPERATION_CHECKPOINT"
  using assms unfolding reading_def op_uninstalled_def page_phase_def commit_phase_def by auto

lemma reading_live:
  assumes "live_inv s" and "same_maps t s" and "same_ctl t s" and "same_scan t s"
    and "reading (op_state (operation t))" and "op_request (operation t) = op_request (operation s)"
  shows "live_inv t"
proof -
  have "work_kind s \<noteq> FWLAB_M3P_MAINTENANCE_NONE \<Longrightarrow> \<not> op_writes (operation t)"
    using assms(1,6) by (simp add: live_inv_def work_quiet_def)
  then show ?thesis
    using live_inv_operation [OF assms(1-4)] reading_phase [OF assms(5)] by blast
qed

lemma read_page_live:
  assumes inv: "live_inv s" and st: "op_state (operation s) = M3P_OPERATION_READ_PAGE"
  shows "live_inv (snd (read_page_drive s))"
proof -
  have "live_inv (read_page_done e s)" for e
    by (rule reading_live [OF inv])
      (simp_all add: read_page_done_def Let_def reading_def st frame_simps)
  moreover have "live_inv (snd (m3p_child_read_start f ppa s))" for f ppa
    by (rule live_inv_cong [OF inv]) (simp add: frame_simps)
  ultimately show ?thesis
    using inv operation_fail_live [OF inv] by (simp add: read_page_drive_def Let_def split_beta)
qed

lemma read_drive_live:
  assumes "live_inv s"
  shows "live_inv (fst (snd (read_drive port (s, b))))"
  using read_page_live [OF assms] assms operation_fail_live [OF assms] operation_succeed_live [OF assms]
  by (simp add: read_drive_def read_publish_drive_def Let_def split_beta)

section \<open>The operation drive and the close drive\<close>

lemma draining_live:
  assumes "live_inv s" and "op_at_least_terminal st"
  shows "live_inv (s\<lparr>operation := (operation s)\<lparr>op_state := st, op_status := x\<rparr>\<rparr>)"
  by (rule live_inv_ended [OF assms(1)]) (use assms(2) in simp_all)

lemma operation_drive_inv:
  assumes inv: "live_inv s" and work: "work_kind s = FWLAB_M3P_MAINTENANCE_NONE"
  shows "ftl_inv (fst (snd (operation_drive port (s, b))))"
proof -
  note basics = ftl_live [OF inv] ftl_live [OF draining_live [OF inv]]
    ftl_live [OF operation_fail_live [OF inv]] ftl_live [OF read_drive_live [OF inv, of port b]]
  note st = ftl_live [OF pending_install_live [OF inv]] ftl_live [OF commit_drive_live [OF inv _ work]]
    ftl_live [OF commit_program_drive_live [OF inv _ work]] checkpoint_drive_inv [OF inv]
    ftl_live [OF write_drive_live [OF inv]]
  show ?thesis
    using basics st
    by (cases "op_state (operation s)")
      (simp_all add: operation_drive_def Let_def split_beta op_at_least_terminal_def page_phase_def)
qed

lemma discard_fold_frame [frame_simps]:
  "same_ctl (fold discard_delta ds s) s"
  "same_scan (fold discard_delta ds s) s"
  "operation (fold discard_delta ds s) = operation s"
  using discard_deltas_eq [of ds s] by auto

lemma discard_loop_frame [frame_simps]:
  "same_ctl (discard_loop n s) s"
  "same_scan (discard_loop n s) s"
  "operation (discard_loop n s) = operation s"
  by (induction n arbitrary: s) (simp_all add: Let_def frame_simps)

lemma discard_pending_live:
  assumes inv: "live_inv s" and "op_state (operation s) = M3P_OPERATION_FREE"
    and "work_kind s = FWLAB_M3P_MAINTENANCE_NONE"
  shows "live_inv (discard_pending s)"
proof -
  have "coherent (discard_pending s)"
    using discard_loop_coherent [of s "unat (pending_count s)"] inv
    by (simp add: discard_pending_def live_inv_def)
  then have "base_inv (discard_pending s)"
    using live_base [OF inv assms(3)] by (simp add: base_inv_def discard_pending_def scan_sized_def frame_simps)
  then show ?thesis
    by (rule base_live)
      (use inv assms in \<open>simp_all add: discard_pending_def frame_simps live_inv_def work_quiet_def
         op_uninstalled_def page_phase_def commit_phase_def\<close>)
qed

lemma close_drive_inv:
  assumes inv: "live_inv s"
  shows "ftl_inv (fst (snd (close_drive nfc (s, n))))"
proof -
  have "live_inv (s\<lparr>nfc_close_started := x\<rparr>)" and "live_inv (s\<lparr>nfc_quiescent := x\<rparr>)" for x
    by (rule live_inv_cong [OF inv], simp)+
  moreover have "ftl_inv (s\<lparr>quarantined := True\<rparr>)"
    by (simp add: ftl_inv_def)
  ultimately show ?thesis
    using ftl_live [OF inv] ftl_live [OF discard_pending_live [OF inv]] ftl_live
    by (simp add: close_drive_def Let_def split_beta)
qed

end
