(* ===== verification/M3p_Reachable.thy ===== *)
theory M3p_Reachable
  imports M3p_Safety
begin

text \<open>
  The public interface of an instance as a transition system: one event per entry point of
  \<open>core/m3p/m3p.h\<close> and of the block service, the states reachable from \<open>fwlab_m3p_init\<close>, and the
  invariant of \<open>M3p_Invariant\<close> in all of them.
\<close>

section \<open>Quarantine across the operation drive\<close>

lemma install_q [frame_simps]: "quarantined (snd (install_operation st s)) = quarantined s"
proof -
  have "quarantined (snd (m3p_pending_append st h ds n s)) = quarantined s" for h ds n
    by (simp add: m3p_pending_append_def Let_def)
  then show ?thesis
    by (simp add: install_operation_def Let_def split_beta frame_simps)
qed

lemma begin_program_q [frame_simps]: "quarantined (snd (begin_page_program e s)) = quarantined s"
  by (simp add: begin_page_program_def set_op_state_def Let_def split_beta frame_simps data_program_view)

lemma write_drive_q: "quarantined (snd (write_drive s)) = quarantined s"
  by (simp add: write_drive_def page_prepare_drive_def page_read_drive_def page_program_drive_def
      set_op_state_def Let_def split_beta frame_simps split: m3p_operation_state.split)

lemma read_drive_q: "quarantined (fst (snd (read_drive port (s, b)))) = quarantined s"
  by (simp add: read_drive_def read_page_drive_def read_page_done_def read_publish_drive_def
      Let_def split_beta frame_simps)

lemma commit_front_q [frame_simps]: "quarantined (commit_front s) = quarantined s"
  by (simp add: commit_front_def commit_ready_def set_op_state_def Let_def split_beta frame_simps
      split: option.split)

lemma commit_programmed_q [frame_simps]: "quarantined (commit_programmed pd s) = quarantined s"
  by (simp add: commit_programmed_def set_op_state_def Let_def frame_simps)

lemma commit_drives_q:
  "quarantined (snd (pending_install_drive s)) = quarantined s"
  "quarantined (snd (commit_drive s)) = quarantined s"
  "quarantined (snd (commit_program_drive s)) = quarantined s"
  by (simp_all add: pending_install_drive_def commit_drive_def commit_program_drive_def
      set_op_state_def Let_def split_beta frame_simps split: option.split)

lemma operation_drive_q:
  "quarantined s \<Longrightarrow> quarantined (fst (snd (operation_drive port (s, b))))"
  by (cases "op_state (operation s)")
    (simp_all add: operation_drive_def Let_def split_beta op_at_least_terminal_def write_drive_q
      read_drive_q commit_drives_q checkpoint_drive_q frame_simps)

lemma close_drive_q: "quarantined s \<Longrightarrow> quarantined (fst (snd (close_drive nfc (s, n))))"
  by (simp add: close_drive_def discard_pending_def Let_def split_beta frame_simps)

section \<open>One transition\<close>

lemma ftl_inv_cong:
  assumes "ftl_inv s" and "same_view t s"
  shows "ftl_inv t"
  using assms live_inv_cong [of s t] by (auto simp: ftl_inv_def)

lemma runtime_drive_inv:
  assumes "ftl_inv s"
  shows "ftl_inv (fst (snd (m3p_runtime_drive nfc port (s, n, b))))"
proof (cases "quarantined s")
  case True
  then have "quarantined (fst (snd (m3p_runtime_drive nfc port (s, n, b))))"
    using operation_drive_q [OF True, of port b]
    by (cases "work_kind s") (simp_all add: close_drive_q m3p_runtime_drive_def Let_def split_beta format_drive_q
        recovery_drive_q gc_drive_q)
  then show ?thesis
    by (simp add: ftl_inv_def)
next
  case False
  then have live: "live_inv s"
    using assms by (simp add: ftl_inv_def)
  have close: "ftl_inv (fst (snd (close_drive nfc (t, n))))" if "ftl_inv t" for t
    using that close_drive_inv [of t nfc n] close_drive_q [of t nfc n] by (auto simp: ftl_inv_def)
  show ?thesis
  proof (cases "work_kind s = FWLAB_M3P_MAINTENANCE_NONE")
    case True
    then show ?thesis
      using operation_drive_inv [OF live True, of port b] close
      by (simp add: m3p_runtime_drive_def Let_def split_beta)
  next
    case False
    then show ?thesis
      using live_maint_inv [OF live False]
      by (cases "work_kind s") (simp_all add: m3p_runtime_drive_def Let_def split_beta
          format_drive_inv recovery_drive_inv gc_drive_inv)
  qed
qed

lemma step_once_inv:
  assumes "ftl_inv (fst w)"
  shows "ftl_inv (fst (fst (snd (step_once nfc port w res))))"
proof -
  obtain s n b where w: "w = (s, n, b)"
    by (cases w)
  have c: "ftl_inv (t\<lparr>fair_cursor := x\<rparr>)" if "ftl_inv t" for t x
    by (rule ftl_inv_cong [OF that]) simp
  have "ftl_inv (fst (snd (snd (m3p_nfc_submit_or_step nfc (s, n) k))))"
    and "ftl_inv (fst (snd (snd (m3p_nfc_poll nfc (s, n) k))))" for k
    using assms by (auto simp: w frame_simps intro!: ftl_inv_cong [of s])
  then show ?thesis
    using runtime_drive_inv [of s nfc port n b] assms
    by (simp add: w step_once_def Let_def split_beta c)
qed

lemma step_loop_inv:
  "ftl_inv (fst w) \<Longrightarrow> ftl_inv (fst (fst (snd (step_loop nfc port left idle used w res))))"
proof (induction left arbitrary: idle used w res)
  case 0
  then show ?case by simp
next
  case (Suc left)
  have "ftl_inv (fst (fst (snd (step_once nfc port w res))))"
    using Suc.prems by (rule step_once_inv)
  then show ?case
    using Suc by (simp add: Let_def split_beta)
qed

lemma step_inv:
  assumes "ftl_inv (fst w)"
  shows "ftl_inv (fst (snd (fwlab_m3p_step nfc port budget w)))"
  using step_loop_inv [OF assms] assms by (simp add: fwlab_m3p_step_def Let_def split_beta)

section \<open>Starting maintenance work\<close>

lemma idle_maint:
  assumes "live_inv s" and "op_state (operation s) = M3P_OPERATION_FREE" and "pending_count s = 0"
  shows "maint_inv s"
proof -
  have "ring_inv s" and "coherent_map (durable s) (visible s) []"
    using assms(1) ring_deltas_empty [OF assms(3)] by (simp_all add: live_inv_def coherent_def)
  then show ?thesis
    using assms by (simp add: maint_inv_def coherent_map_nil live_inv_def work_quiet_def
        idle_slot_def page_phase_def)
qed

lemma force_gc_start_inv:
  assumes "ftl_inv s"
  shows "ftl_inv (snd (fwlab_m3p_force_gc_start s))"
proof (cases "gc_start_ready s")
  case False
  then show ?thesis
    using assms by (simp add: fwlab_m3p_force_gc_start_def)
next
  case True
  then have "maint_inv s"
    using assms by (intro idle_maint) (auto simp: gc_start_ready_def ftl_inv_def)
  then have "maint_inv (gc_begin v l r s)" for v l r
    by (rule maint_inv_cong) (simp_all add: gc_begin_def)
  then have "maint_inv (snd (m3p_gc_collect_live_pages (gc_begin v l r s)))" for v l r
    by (rule maint_inv_cong) (simp_all add: frame_simps)
  then have "ftl_inv (snd (m3p_gc_collect_live_pages (gc_begin v l r s)))" for v l r
    by (rule ftl_inv_maint)
  then show ?thesis
    using assms by (simp add: fwlab_m3p_force_gc_start_def split_beta Let_def
        ftl_inv_def [of "work_state_update _ _"] ftl_inv_def [of "quarantined_update _ _"]
        split: option.split)
qed

lemma mapping_reset_maint:
  assumes "idle_slot (operation s)" and "scan_sized s"
    and "checkpoint_return_state s = M3P_OPERATION_FREE \<or>
      checkpoint_return_state s = M3P_OPERATION_COMMIT_PENDING"
  shows "maint_inv (m3p_mapping_reset s)"
proof -
  have "ring_inv (m3p_mapping_reset s)"
    by (simp add: ring_inv_def ring_slot_def m3p_mapping_reset_def zero_pending_def)
  then show ?thesis
    using assms by (simp add: maint_inv_def m3p_mapping_reset_def scan_sized_def)
qed

lemma live_reset_maint:
  assumes "live_inv s" and "op_state (operation s) = M3P_OPERATION_FREE"
  shows "maint_inv (m3p_mapping_reset s)"
  by (rule mapping_reset_maint)
    (use assms in \<open>simp_all add: live_inv_def work_quiet_def idle_slot_def page_phase_def\<close>)

lemma format_start_inv:
  assumes "ftl_inv s" and "n \<le> 2048"
  shows "ftl_inv (snd (format_start n v s))"
proof (cases "fst (format_start n v s) = FWLAB_SPINE_V0_OK")
  case False
  then show ?thesis
    using assms(1) by (auto simp: format_start_def split: if_splits)
next
  case True
  then have pre: "m3p_live s" "op_state (operation s) = M3P_OPERATION_FREE"
    and eq: "snd (format_start n v s) = (m3p_mapping_reset s)\<lparr>volume_format := v, volume_lba_count := n,
               expected_lba_count := 0, work_kind := FWLAB_M3P_MAINTENANCE_FORMAT,
               work_state := M3P_FORMAT_BODY\<rparr>"
    by (auto simp: format_start_def split: if_splits)
  then have m: "maint_inv (m3p_mapping_reset s)"
    using assms(1) by (intro live_reset_maint) (auto simp: ftl_inv_def m3p_live_def)
  show ?thesis
    unfolding eq
    by (rule ftl_inv_maint, rule maint_inv_keep [OF m]; use m assms(2) in
        \<open>simp add: maint_inv_def scan_sized_def\<close>)
qed

lemma recover_start_inv:
  assumes "ftl_inv s"
  shows "ftl_inv (snd (fwlab_m3p_recover_volume_start n s))"
proof (cases "fst (fwlab_m3p_recover_volume_start n s) = FWLAB_SPINE_V0_OK")
  case False
  then show ?thesis
    using assms(1) by (auto simp: fwlab_m3p_recover_volume_start_def split: if_splits)
next
  case True
  then have pre: "\<not> quarantined s" "op_state (operation s) = M3P_OPERATION_FREE"
    and eq: "snd (fwlab_m3p_recover_volume_start n s) = recovery_reset n s"
    by (auto simp: fwlab_m3p_recover_volume_start_def split: if_splits)
  then have m: "maint_inv (m3p_mapping_reset s)"
    using assms(1) by (intro live_reset_maint) (auto simp: ftl_inv_def)
  show ?thesis
    unfolding eq
    by (rule ftl_inv_maint, rule maint_inv_keep [OF m]; use m in
        \<open>simp add: recovery_reset_def maint_inv_def scan_sized_def\<close>)
qed

lemma init_inv:
  assumes "fwlab_m3p_init ok c nonce gen = Some s"
  shows "ftl_inv s"
proof -
  let ?z = "(zero_m3p c)\<lparr>magic := M3P_MAGIC, cb_issuer_nonce := nonce, cb_generation := gen,
             next_child_uid := cfg_next_nfc_operation_uid c\<rparr>"
  have m: "maint_inv (m3p_mapping_reset ?z)"
    by (rule mapping_reset_maint)
      (simp_all add: zero_m3p_def idle_slot_def page_phase_def scan_sized_def zero_operation_def
        zero_block_request_def)
  have eq: "s = (m3p_mapping_reset ?z)\<lparr>volume_format := M3P_FORMAT_VERSION,
      volume_lba_count := FWLAB_M3P_NAMESPACE_LBAS, initialized := True\<rparr>"
    using assms by (simp add: fwlab_m3p_init_def split: if_splits)
  show ?thesis
    unfolding eq
    by (rule ftl_inv_maint, rule maint_inv_keep [OF m]; use m in
        \<open>simp add: maint_inv_def scan_sized_def\<close>)
qed

section \<open>Submission\<close>

lemma backpressure_facts:
  assumes "\<not> submit_backpressure s rq"
  shows "work_kind s = FWLAB_M3P_MAINTENANCE_NONE" and "op_state (operation s) = M3P_OPERATION_FREE"
    and "mutating rq \<Longrightarrow> \<not> m3p_pending_overlaps s (request_first_lpn rq) (request_last_lpn rq)"
  using assms by (auto simp: submit_backpressure_def)

text \<open>Deltas for the pages of an admitted request can be installed.\<close>

lemma admitted_installable:
  assumes inv: "live_inv s" and valid: "request_valid s rq" and free: "\<not> submit_backpressure s rq"
    and mut: "mutating rq"
    and ds: "deltas_for (visible s) (lpn_range (request_first_lpn rq) (request_last_lpn rq)) ds"
  shows "installable (visible s) (ring_deltas s) ds"
proof -
  let ?f = "request_first_lpn rq" and ?l = "request_last_lpn rq"
  have vol: "volume_lba_count s \<le> 2048" and op: "rq_operation rq \<noteq> FWLAB_BLOCK_V0_FLUSH"
    using inv mut by (auto simp: live_inv_def scan_sized_def mutating_def)
  note b = request_page_bounds [OF request_valid_in_volume [OF valid op vol] op vol]
  note r = lpn_range_facts [OF b(2,1)]
  have "d_lpn d \<noteq> l" if "l \<in> set (lpn_range ?f ?l)" and "d \<in> set (ring_deltas s)" for l d
    using backpressure_facts(3) [OF free mut] r(3) [OF that(1)] that(2)
    by (auto simp: pending_overlaps_iff)
  then show ?thesis
    using deltas_for_installable [OF ds r(2)] r(3) by blast
qed

text \<open>The slot after the admission of a write or a trim.\<close>

lemma admitted_live:
  assumes inv: "live_inv s" and valid: "request_valid s rq" and free: "\<not> submit_backpressure s rq"
    and mut: "mutating rq"
    and view: "same_maps t s" "same_ctl t s" "same_scan t s"
    and op: "page_phase (op_state (operation t))" "length (op_delta (operation t)) = 3"
      "unat (op_delta_count (operation t)) = Suc (unat (request_last_lpn rq)) - unat (request_first_lpn rq)"
      "deltas_for (visible s) (lpn_range (request_first_lpn rq) (request_last_lpn rq)) (op_deltas (operation t))"
  shows "live_inv t"
proof (rule live_inv_operation [OF inv view])
  have vol: "volume_lba_count s \<le> 2048" and opc: "rq_operation rq \<noteq> FWLAB_BLOCK_V0_FLUSH"
    using inv mut by (auto simp: live_inv_def scan_sized_def mutating_def)
  note b = request_page_bounds [OF request_valid_in_volume [OF valid opc vol] opc vol]
  have "op_delta_count (operation t) \<noteq> 0" and "op_delta_count (operation t) \<le> 3"
    using b op(3) by (auto simp: word_le_nat_alt unat_eq_0 [symmetric])
  then show "op_ready (operation t) (visible s) (ring_deltas s)"
    using admitted_installable [OF inv valid free mut op(4)] op(2) by (simp add: op_ready_def)
  show "\<not> page_phase (op_state (operation t)) \<and> \<not> op_writes (operation t)"
    if "work_kind s \<noteq> FWLAB_M3P_MAINTENANCE_NONE"
    using that backpressure_facts(1) [OF free] by simp
qed (use op(1) in \<open>auto simp: page_phase_def\<close>)

lemma submit_write_inv:
  assumes inv: "live_inv s" and valid: "request_valid s rq" and free: "\<not> submit_backpressure s rq"
    and wr: "rq_operation rq = FWLAB_BLOCK_V0_WRITE"
  shows "ftl_inv (fst (snd (submit_write port rq (candidate_of s rq) (s, b))))"
proof -
  have mut: "mutating rq" and vol: "volume_lba_count s \<le> 2048" and opc: "rq_operation rq \<noteq> FWLAB_BLOCK_V0_FLUSH"
    using inv wr by (auto simp: live_inv_def scan_sized_def mutating_def)
  note bnd = request_page_bounds [OF request_valid_in_volume [OF valid opc vol] opc vol]
  have "ftl_inv (snd (fwlab_m3p_force_gc_start (fst (snd (reserve_write_pages s op)))))"
    if "\<not> fst (reserve_write_pages s op)" for op
    using force_gc_start_inv [OF ftl_live [OF inv]] reserve_write_failed [OF that] by simp
  moreover have "ftl_inv ((fst (snd (reserve_write_pages s (candidate_of s rq\<lparr>op_io_bytes := io\<rparr>))))
      \<lparr>host_sequence := h, operation := (snd (snd (reserve_write_pages s (candidate_of s rq\<lparr>op_io_bytes := io\<rparr>))))
         \<lparr>op_host_sequence := h, op_captured_frontier := h, op_state := M3P_OPERATION_PAGE_PREPARE\<rparr>\<rparr>)"
    if ok: "fst (reserve_write_pages s (candidate_of s rq\<lparr>op_io_bytes := io\<rparr>))" for io h
  proof -
    let ?c = "candidate_of s rq\<lparr>op_io_bytes := io\<rparr>"
    have "length (op_delta ?c) = 3" and fl: "op_first_lpn ?c = request_first_lpn rq" "op_last_lpn ?c = request_last_lpn rq"
      by (simp_all add: candidate_of_def zero_operation_def)
    note r = reserve_write_ok [OF ok this(1) _ _ _ refl, unfolded fl, OF bnd(2,1,3)]
    show ?thesis
      by (rule ftl_live, rule admitted_live [OF inv valid free mut])
        (simp_all add: reserve_write_frame page_phase_def r(1-3) r(4) [unfolded r(2)] op_deltas_def)
  qed
  ultimately show ?thesis
    using ftl_live [OF inv] by (simp add: submit_write_def Let_def split_beta)
qed

lemma submit_inv:
  assumes "ftl_inv s"
  shows "ftl_inv (fst (snd (block_submit port rq (s, b))))"
proof (cases "m3p_live s \<and> request_valid s rq \<and> \<not> submit_backpressure s rq")
  case False
  then show ?thesis
    using assms by (auto simp: block_submit_def Let_def)
next
  case True
  then have inv: "live_inv s" and valid: "request_valid s rq" and free: "\<not> submit_backpressure s rq"
    using assms by (auto simp: ftl_inv_def m3p_live_def)
  note base = live_base [OF inv backpressure_facts(1) [OF free]]
  have read: "ftl_inv (s\<lparr>operation := candidate_of s rq\<lparr>op_io_bytes := io, op_state := M3P_OPERATION_READ_PAGE\<rparr>\<rparr>)" for io
    by (rule ftl_live, rule base_live [OF base])
      (simp_all add: op_uninstalled_def page_phase_def commit_phase_def)
  have flush: "ftl_inv (s\<lparr>operation := candidate_of s rq\<lparr>op_state := M3P_OPERATION_COMMIT_PENDING\<rparr>\<rparr>)"
    if "rq_operation rq \<noteq> FWLAB_BLOCK_V0_WRITE"
    by (rule ftl_live, rule base_live [OF base])
      (use that in \<open>simp_all add: op_uninstalled_def page_phase_def candidate_of_def\<close>)
  have trim: "ftl_inv (s\<lparr>host_sequence := h, operation := (prepare_trim s
      (candidate_of s rq\<lparr>op_host_sequence := h, op_captured_frontier := h\<rparr>))\<lparr>op_state := M3P_OPERATION_PENDING_INSTALL\<rparr>\<rparr>)"
    if tr: "rq_operation rq = FWLAB_BLOCK_V0_TRIM" for h
  proof -
    let ?c = "candidate_of s rq\<lparr>op_host_sequence := h, op_captured_frontier := h\<rparr>"
    have mut: "mutating rq" and vol: "volume_lba_count s \<le> 2048" and opc: "rq_operation rq \<noteq> FWLAB_BLOCK_V0_FLUSH"
      using inv tr by (auto simp: live_inv_def scan_sized_def mutating_def)
    note bnd = request_page_bounds [OF request_valid_in_volume [OF valid opc vol] opc vol]
    have "length (op_delta ?c) = 3" and fl: "op_first_lpn ?c = request_first_lpn rq" "op_last_lpn ?c = request_last_lpn rq"
      by (simp_all add: candidate_of_def zero_operation_def)
    note r = prepare_trim_ok [OF this(1), unfolded fl, OF bnd(2,1,3), of s]
    show ?thesis
      by (rule ftl_live, rule admitted_live [OF inv valid free mut])
        (simp_all add: page_phase_def r(1-3) r(4) [unfolded r(2)] op_deltas_def)
  qed
  show ?thesis
    using True assms submit_write_inv [OF inv valid free, of port b] read flush trim
    by (simp add: block_submit_def Let_def)
qed

section \<open>The slot and the epoch\<close>

lemma cancel_flag_inv:
  assumes "ftl_inv s"
  shows "ftl_inv (s\<lparr>operation := (operation s)\<lparr>op_cancel_requested := True\<rparr>\<rparr>)"
proof -
  have un: "op_uninstalled ((operation s)\<lparr>op_cancel_requested := True\<rparr>) = op_uninstalled (operation s)"
    by (simp add: op_uninstalled_def)
  have "live_inv (s\<lparr>operation := (operation s)\<lparr>op_cancel_requested := True\<rparr>\<rparr>)" if "live_inv s"
    by (rule live_inv_operation [OF that])
      (use that in \<open>simp_all add: live_inv_def work_quiet_def op_ready_def op_deltas_def un\<close>)
  then show ?thesis
    using assms by (auto simp: ftl_inv_def)
qed

lemma cancel_inv:
  assumes "ftl_inv s"
  shows "ftl_inv (snd (block_cancel tok s))"
proof -
  have "ftl_inv (s\<lparr>operation := (operation s)\<lparr>op_cancel_requested := True\<rparr>, cancel_count := x\<rparr>)" for x
    by (rule ftl_inv_cong [OF cancel_flag_inv [OF assms]]) simp
  then show ?thesis
    using assms by (simp add: block_cancel_def Let_def)
qed

lemma retire_start_inv:
  assumes "ftl_inv s"
  shows "ftl_inv (snd (block_retire_start tok s))"
proof -
  have "ftl_inv (s\<lparr>operation := (operation s)\<lparr>op_state := M3P_OPERATION_DRAINING, op_status := x\<rparr>\<rparr>)" for x
    using assms draining_live [of s M3P_OPERATION_DRAINING x]
    by (auto simp: ftl_inv_def op_at_least_terminal_def)
  then show ?thesis
    using assms by (simp add: block_retire_start_def Let_def)
qed

lemma retire_query_inv:
  assumes "ftl_inv s"
  shows "ftl_inv (snd (block_retire_query tok s))"
proof -
  have "live_inv (s\<lparr>operation := zero_operation\<rparr>)" if "live_inv s"
    by (rule live_inv_operation [OF that])
      (simp_all add: zero_operation_def zero_block_request_def op_uninstalled_def page_phase_def
        commit_phase_def)
  then have "ftl_inv (s\<lparr>operation := zero_operation\<rparr>)"
    using assms by (auto simp: ftl_inv_def)
  then show ?thesis
    using assms by (simp add: block_retire_query_def Let_def)
qed

lemma epoch_close_inv:
  assumes "ftl_inv s"
  shows "ftl_inv (snd (block_epoch_close nonce epoch s))"
proof -
  let ?t = "s\<lparr>admission_closed := True, close_lifecycle_nonce := nonce, close_execution_epoch := epoch\<rparr>"
  have t: "ftl_inv ?t"
    by (rule ftl_inv_cong [OF assms]) simp
  show ?thesis
    using assms t cancel_flag_inv [OF t] by (simp add: block_epoch_close_def Let_def)
qed

lemma fini_inv: "ftl_inv s \<Longrightarrow> ftl_inv (snd (fwlab_m3p_fini s))"
  by (auto simp: fwlab_m3p_fini_def intro: ftl_inv_cong)

section \<open>The transition system\<close>

text \<open>One event per public entry point that changes the state.\<close>

datatype m3p_event =
    Ev_Format
  | Ev_Format_Volume u64
  | Ev_Recover
  | Ev_Recover_Volume u64
  | Ev_Force_Gc
  | Ev_Submit block_request
  | Ev_Cancel block_op_token
  | Ev_Retire_Start block_op_token
  | Ev_Retire_Query block_op_token
  | Ev_Epoch_Close u64 u32
  | Ev_Step u32
  | Ev_Fini

definition apply_event ::
  "'n nfc_provider \<Rightarrow> 'b buffer_port \<Rightarrow> m3p_event \<Rightarrow> ('n, 'b) world \<Rightarrow> ('n, 'b) world" where
  "apply_event nfc port ev w =
     (let (s, n, b) = w in
      case ev of
        Ev_Format \<Rightarrow> (snd (fwlab_m3p_format_start s), n, b)
      | Ev_Format_Volume lbas \<Rightarrow> (snd (fwlab_m3p_format_volume_start lbas s), n, b)
      | Ev_Recover \<Rightarrow> (snd (fwlab_m3p_recover_start s), n, b)
      | Ev_Recover_Volume lbas \<Rightarrow> (snd (fwlab_m3p_recover_volume_start lbas s), n, b)
      | Ev_Force_Gc \<Rightarrow> (snd (fwlab_m3p_force_gc_start s), n, b)
      | Ev_Submit rq \<Rightarrow> (let (_, s, b) = block_submit port rq (s, b) in (s, n, b))
      | Ev_Cancel tok \<Rightarrow> (snd (block_cancel tok s), n, b)
      | Ev_Retire_Start tok \<Rightarrow> (snd (block_retire_start tok s), n, b)
      | Ev_Retire_Query tok \<Rightarrow> (snd (block_retire_query tok s), n, b)
      | Ev_Epoch_Close nonce epoch \<Rightarrow> (snd (block_epoch_close nonce epoch s), n, b)
      | Ev_Step budget \<Rightarrow> snd (fwlab_m3p_step nfc port budget w)
      | Ev_Fini \<Rightarrow> (snd (fwlab_m3p_fini s), n, b))"

inductive m3p_reachable :: "'n nfc_provider \<Rightarrow> 'b buffer_port \<Rightarrow> ('n, 'b) world \<Rightarrow> bool"
  for nfc :: "'n nfc_provider" and port :: "'b buffer_port" where
  reach_init: "fwlab_m3p_init ok c nonce gen = Some s \<Longrightarrow> m3p_reachable nfc port (s, n, b)"
| reach_event: "m3p_reachable nfc port w \<Longrightarrow> m3p_reachable nfc port (apply_event nfc port ev w)"

lemma apply_event_inv:
  assumes "ftl_inv (fst w)"
  shows "ftl_inv (fst (apply_event nfc port ev w))"
proof -
  obtain s n b where w: "w = (s, n, b)"
    by (cases w)
  have s: "ftl_inv s"
    using assms w by simp
  have fmt: "ftl_inv (snd (fwlab_m3p_format_volume_start x s))" "ftl_inv (snd (fwlab_m3p_format_start s))" for x
    using s format_start_inv [OF s, of x] format_start_inv [OF s, of FWLAB_M3P_NAMESPACE_LBAS]
    by (simp_all add: fwlab_m3p_format_volume_start_def fwlab_m3p_format_start_def m3p_volume_lba_count_valid_def)
  show ?thesis
    using fmt step_inv [OF assms, of nfc port] submit_inv [OF s, of port]
    by (cases ev) (simp_all add: apply_event_def w split_beta recover_start_inv [OF s]
        fwlab_m3p_recover_start_def force_gc_start_inv [OF s] cancel_inv [OF s] retire_start_inv [OF s]
        retire_query_inv [OF s] epoch_close_inv [OF s] fini_inv [OF s])
qed

interpretation m3p: kept_invariant "apply_event nfc port" "\<lambda>w. ftl_inv (fst w)" "\<lambda>_ _. True"
  for nfc :: "'n nfc_provider" and port :: "'b buffer_port"
  by unfold_locales (rule apply_event_inv)

lemma reachable_inv: "m3p_reachable nfc port w \<Longrightarrow> ftl_inv (fst w)"
  by (induction rule: m3p_reachable.induct) (simp_all add: init_inv apply_event_inv)

end
