(* ===== verification/M3p_Guarantees.thy ===== *)
theory M3p_Guarantees
  imports M3p_Reachable
begin

text \<open>
  What a client of the translation layer can rely on, stated over reachable states: coherence of
  the two maps, the meaning of a durable acknowledgement, the effect of a close, the freeze of a
  quarantined instance, and the budget of a step. The witnesses run on a concrete instance.
\<close>

section \<open>A concrete instance\<close>

definition sample_config :: m3p_config where
  "sample_config = \<lparr>cfg_version = 1, cfg_size = sizeof_m3p_config, cfg_reserved0 = 0,
     cfg_media_uuid = replicate 16 1, cfg_namespace0 = 1, cfg_namespace1 = 2,
     cfg_instance_nonce = 11, cfg_provider_nonce = 12, cfg_nfc_instance_nonce = 13,
     cfg_next_nfc_operation_uid = 1, cfg_generation = 1, cfg_execution_epoch = 1, cfg_nfc_epoch = 1,
     cfg_nfc_operation_uid_limit = 2048, cfg_host_sequence_limit = 512,
     cfg_record_sequence_limit = 2048, cfg_reserved1 = replicate 4 0\<rparr>"

text \<open>A controller that accepts nothing and a buffer that reads zeroes.\<close>

definition idle_nfc :: "unit nfc_provider" where
  "idle_nfc = \<lparr>np_try_submit = (\<lambda>_ _ n. (\<lparr>sub_disposition = 0, sub_reason = 0\<rparr>, [], n)),
     np_step = (\<lambda>_ _ n. (FWLAB_NFC_API_OK, \<lparr>stp_units_used = 0, stp_transitions = 0\<rparr>, [], n)),
     np_poll = (\<lambda>_ c _ n. (FWLAB_NFC_API_OK, c, 0, n)),
     np_reset_begin = (\<lambda>_ _ n. (FWLAB_NFC_API_OK, n)),
     np_quiescent = (\<lambda>_ _ n. (FWLAB_NFC_API_OK, True, n))\<rparr>"

definition zero_port :: "unit buffer_port" where
  "zero_port = \<lparr>bp_read = (\<lambda>_ _ len b. (FWLAB_CONTROLLER_BUFFER_V0_OK, replicate (unat len) 0, b)),
     bp_write = (\<lambda>_ _ _ b. (FWLAB_CONTROLLER_BUFFER_V0_OK, b))\<rparr>"

definition sample_m3p :: fwlab_m3p where
  "sample_m3p = (m3p_mapping_reset ((zero_m3p sample_config)\<lparr>magic := M3P_MAGIC,
       cb_issuer_nonce := 7, cb_generation := 1, next_child_uid := 1\<rparr>))
     \<lparr>volume_format := M3P_FORMAT_VERSION, volume_lba_count := FWLAB_M3P_NAMESPACE_LBAS,
      initialized := True\<rparr>"

lemma sample_init: "fwlab_m3p_init True sample_config 7 1 = Some sample_m3p"
proof -
  have "fwlab_m3p_config_valid sample_config"
    by (simp add: fwlab_m3p_config_valid_def sample_config_def m3p_bytes_zero_def words_zero_def
        slice_def list_all_iff)
  then show ?thesis
    by (simp add: fwlab_m3p_init_def sample_m3p_def sample_config_def)
qed

lemma sample_reachable: "m3p_reachable idle_nfc zero_port (sample_m3p, (), ())"
  by (rule reach_init [OF sample_init])

lemmas sample_defs = sample_m3p_def sample_config_def m3p_mapping_reset_def zero_m3p_def

lemma sample_live: "\<not> quarantined sample_m3p" "m3p_live sample_m3p" "pending_count sample_m3p = 0"
  by (simp_all add: sample_defs m3p_live_def)

section \<open>Coherence of the maps\<close>

text \<open>
  C1. In every state an instance can reach through its public entry points, with any NAND
  controller and any buffer behind it, and unless it is quarantined: both maps have 256 entries;
  the ring holds at most four transactions; every page named by a pending transaction is named by
  exactly one of its changes, shows the change's target in the visible map and its prior entry in
  the durable map; and the two maps agree on every other page.
\<close>

theorem reachable_maps_coherent:
  assumes "m3p_reachable nfc port (s, n, b)" and "\<not> quarantined s"
  shows "length (durable s) = 256 \<and> length (visible s) = 256 \<and> length (ring_abs s) \<le> 4 \<and>
    distinct (map d_lpn (ring_deltas s)) \<and>
    (\<forall>d \<in> set (ring_deltas s). visible s ! unat (d_lpn d) = d_target d \<and>
       durable s ! unat (d_lpn d) = d_prior d) \<and>
    (\<forall>l < 256. (\<forall>d \<in> set (ring_deltas s). unat (d_lpn d) \<noteq> l) \<longrightarrow> visible s ! l = durable s ! l)"
proof -
  have "coherent s"
    using reachable_inv [OF assms(1)] assms(2) by (simp add: ftl_inv_def live_inv_def)
  then show ?thesis
    using ring.abs_bound [of s] by (simp add: coherent_def coherent_map_def)
qed

theorem reachable_maps_coherent_witness:
  "length (visible sample_m3p) = 256 \<and> length (ring_abs sample_m3p) \<le> 4"
  using reachable_maps_coherent [OF sample_reachable sample_live(1)] by simp

text \<open>
  With an empty ring nothing is lost by a power cut: in every reachable state that is not
  quarantined and has no pending transaction, what reads return is what the medium holds.
\<close>

theorem reachable_settled:
  assumes "m3p_reachable nfc port (s, n, b)" and "\<not> quarantined s" and "pending_count s = 0"
  shows "visible s = durable s"
proof -
  have "coherent s"
    using reachable_inv [OF assms(1)] assms(2) by (simp add: ftl_inv_def live_inv_def)
  then show ?thesis
    using assms(3) by (rule coherent_empty)
qed

theorem reachable_settled_witness: "visible sample_m3p = durable sample_m3p"
  by (rule reachable_settled [OF sample_reachable sample_live(1,3)])

section \<open>Durable acknowledgements\<close>

lemma commit_front_terminal:
  assumes inv: "coherent s" and st: "op_state (operation (commit_front s)) = M3P_OPERATION_TERMINAL"
  shows "pending_count (commit_front s) = 0 \<and> visible (commit_front s) = durable (commit_front s)"
proof (cases "m3p_pending_front s")
  case (Some pd)
  then show ?thesis
    using st by (simp add: commit_front_def split_beta set_op_state_def frame_simps split: if_splits)
next
  case None
  have c: "pending_count s = 0"
    using coherent_ring_front [OF inv] None by (cases "pending_count s = 0") simp_all
  have eq: "commit_front s = commit_ready s"
    using None by (simp add: commit_front_def)
  have "pending_count (commit_ready s) = pending_count s \<and> visible (commit_ready s) = visible s \<and>
      durable (commit_ready s) = durable s"
    by (simp add: commit_ready_def m3p_start_checkpoint_def Let_def split_beta frame_simps)
  then show ?thesis
    using coherent_empty [OF inv c] c eq by simp
qed

lemma commit_drive_terminal:
  assumes inv: "live_inv s" and st: "op_state (operation s) = M3P_OPERATION_COMMIT_PENDING"
    and ended: "op_state (operation (snd (commit_drive s))) = M3P_OPERATION_TERMINAL"
  shows "pending_count (snd (commit_drive s)) = 0 \<and>
    visible (snd (commit_drive s)) = durable (snd (commit_drive s))"
proof -
  let ?i = "install_operation M3P_MAP_WRITE s"
  have coh: "coherent s"
    using inv by (simp add: live_inv_def)
  have coh_i: "coherent (snd ?i)" if "fst ?i" "op_uninstalled (operation s)"
    using install_operation_inv(2) [OF inv that(2,1)] by (simp add: base_inv_def)
  show ?thesis
  proof (cases "op_writes (operation s) \<and> rq_durability (op_request (operation s)) = FWLAB_BLOCK_V0_DURABILITY_SELF \<and>
      \<not> op_commit_slot (operation s) \<and> pending_count s < 4")
    case True
    then have un: "op_uninstalled (operation s)"
      using st by (simp add: op_uninstalled_def commit_phase_def)
    have eq: "snd (commit_drive s) = (if \<not> fst ?i then m3p_operation_fail 4 (op_effect_seen (operation s)) (snd ?i)
        else commit_front (snd ?i))"
      using True by (simp add: commit_drive_def Let_def split_beta)
    then have "fst ?i"
      using ended by (auto simp: frame_simps split: if_splits)
    then show ?thesis
      using eq ended commit_front_terminal [OF coh_i [OF _ un]] by simp
  next
    case False
    then have "snd (commit_drive s) = commit_front s"
      by (auto simp: commit_drive_def Let_def)
    then show ?thesis
      using commit_front_terminal [OF coh] ended by simp
  qed
qed

text \<open>
  C2. A durable acknowledgement is honest: when the commit stage ends an operation successfully (a
  write with its own durability, or a flush), no transaction is pending any more and the visible
  map, with all the data the acknowledgement covers, is the durable map. The invariant assumed here
  holds in every reachable state that is not quarantined.
\<close>

theorem durable_acknowledgement_honest:
  assumes "live_inv s" and "op_state (operation s) = M3P_OPERATION_COMMIT_PENDING"
    and "op_state (operation (snd (commit_drive s))) = M3P_OPERATION_TERMINAL"
  shows "pending_count (snd (commit_drive s)) = 0 \<and>
    visible (snd (commit_drive s)) = durable (snd (commit_drive s))"
  using assms by (rule commit_drive_terminal)

definition sample_flushing :: fwlab_m3p where
  "sample_flushing = sample_m3p\<lparr>ready := True, operation := zero_operation
     \<lparr>op_state := M3P_OPERATION_COMMIT_PENDING,
      op_request := zero_block_request\<lparr>rq_operation := FWLAB_BLOCK_V0_FLUSH\<rparr>\<rparr>\<rparr>"

lemma sample_live_inv: "live_inv sample_m3p"
  using init_inv [OF sample_init] sample_live(1) by (simp add: ftl_inv_def)

lemma sample_flushing_live: "live_inv sample_flushing"
proof (rule base_live)
  show "base_inv sample_m3p"
    by (rule live_base [OF sample_live_inv]) (simp add: sample_defs)
qed (simp_all add: sample_flushing_def op_uninstalled_def page_phase_def)

theorem durable_acknowledgement_honest_witness:
  "visible (snd (commit_drive sample_flushing)) = durable (snd (commit_drive sample_flushing))"
proof -
  have "op_state (operation (snd (commit_drive sample_flushing))) = M3P_OPERATION_TERMINAL"
    by (simp add: commit_drive_def commit_front_def commit_ready_def m3p_pending_front_def Let_def
        sample_flushing_def sample_defs m3p_operation_succeed_def)
  then show ?thesis
    using durable_acknowledgement_honest [OF sample_flushing_live] by (simp add: sample_flushing_def)
qed

section \<open>Quarantine\<close>

text \<open>
  C17. A quarantined instance is frozen: every entry point leaves its state, the controller and the
  buffer exactly as they were, so it never touches the medium again.
\<close>

theorem quarantine_frozen:
  assumes "quarantined s"
  shows "apply_event nfc port ev (s, n, b) = (s, n, b)"
proof -
  have "\<not> m3p_live s"
    using assms by (simp add: m3p_live_def)
  then show ?thesis
    using assms
    by (cases ev) (simp_all add: apply_event_def fwlab_m3p_format_start_def
        fwlab_m3p_format_volume_start_def format_start_def fwlab_m3p_recover_start_def
        fwlab_m3p_recover_volume_start_def fwlab_m3p_force_gc_start_def gc_start_ready_def
        block_submit_def block_cancel_def block_retire_start_def block_retire_query_def slot_check_def
        block_epoch_close_def fwlab_m3p_step_def fwlab_m3p_fini_def Let_def)
qed

theorem quarantine_frozen_witness:
  "apply_event idle_nfc zero_port Ev_Format (sample_m3p\<lparr>quarantined := True\<rparr>, (), ())
    = (sample_m3p\<lparr>quarantined := True\<rparr>, (), ())"
  by (rule quarantine_frozen) simp

text \<open>
  Quarantine is permanent within a step too: the scheduler does not look at the flag between
  transitions, and no transition of the drive functions clears it.
\<close>

theorem quarantine_permanent:
  assumes "quarantined s"
  shows "quarantined (fst (snd (m3p_runtime_drive nfc port (s, n, b))))"
  using assms operation_drive_q [OF assms, of port b]
  by (cases "work_kind s") (simp_all add: close_drive_q m3p_runtime_drive_def Let_def split_beta
      format_drive_q recovery_drive_q gc_drive_q)

theorem quarantine_permanent_witness:
  "quarantined (fst (snd (m3p_runtime_drive idle_nfc zero_port (sample_m3p\<lparr>quarantined := True\<rparr>, (), ()))))"
  by (rule quarantine_permanent) simp

section \<open>The step budget\<close>

text \<open>
  The reference for the scheduling loop: \<open>n\<close> units run one after the other, with the list of their
  progress flags, and no reason to stop.
\<close>

primrec step_units ::
  "'n nfc_provider \<Rightarrow> 'b buffer_port \<Rightarrow> nat \<Rightarrow> ('n, 'b) world \<Rightarrow> m3p_step_result
     \<Rightarrow> bool list \<times> ('n, 'b) world \<times> m3p_step_result" where
  "step_units nfc port 0 w res = ([], w, res)"
| "step_units nfc port (Suc n) w res =
     (let (p, w, res) = step_once nfc port w res; (ps, w, res) = step_units nfc port n w res
      in (p # ps, w, res))"

text \<open>Three consecutive units without progress, starting at unit \<open>i\<close>.\<close>

definition idle_round :: "bool list \<Rightarrow> nat \<Rightarrow> bool" where
  "idle_round ps i \<longleftrightarrow> i + 3 \<le> length ps \<and> \<not> ps ! i \<and> \<not> ps ! (i + 1) \<and> \<not> ps ! (i + 2)"

lemma step_units_length: "length (fst (step_units nfc port n w res)) = n"
  by (induction n arbitrary: w res) (simp_all add: Let_def split_beta)

lemma idle_round_progress:
  "idle_round (replicate k False @ True # ps) i \<longleftrightarrow>
     (i + 3 \<le> k \<or> (k < i \<and> idle_round ps (i - Suc k)))"
proof (cases "i \<le> k")
  case True
  then show ?thesis
    by (auto simp: idle_round_def nth_append nth_Cons split: if_splits nat.splits)
next
  case False
  then obtain j where "i = Suc k + j"
    by (metis less_iff_Suc_add not_le add_Suc)
  then show ?thesis
    by (auto simp: idle_round_def nth_append)
qed

text \<open>
  The loop against the reference. The flags of the \<open>idle\<close> units before the loop count as well, so
  they are put in front of the flags of the units the loop runs.
\<close>

lemma step_loop_units:
  assumes "idle \<le> 3" and "step_loop nfc port left idle used w res = (u, w', res')"
  shows "\<exists>n ps. u = used + n \<and> n \<le> left \<and> step_units nfc port n w res = (ps, w', res') \<and>
    (n < left \<longrightarrow> idle_round (replicate idle False @ ps) (idle + n - 3) \<and> 3 \<le> idle + n) \<and>
    (\<forall>i. i + 3 < idle + n \<longrightarrow> \<not> idle_round (replicate idle False @ ps) i)"
  using assms
proof (induction left arbitrary: idle used w res)
  case 0
  then show ?case
    by (intro exI [of _ 0] exI [of _ "[]"]) simp
next
  case (Suc left)
  show ?case
  proof (cases "idle = 3")
    case True
    then show ?thesis
      using Suc.prems
      by (intro exI [of _ 0] exI [of _ "[]"]) (simp add: idle_round_def numeral_3_eq_3 nth_append)
  next
    case False
    obtain p v r where once: "step_once nfc port w res = (p, v, r)"
      by (metis prod_cases3)
    let ?idle = "if p then 0 else idle + 1"
    have loop: "step_loop nfc port left ?idle (used + 1) v r = (u, w', res')"
      using Suc.prems False once by (simp split: if_splits)
    have "?idle \<le> 3"
      using Suc.prems(1) False by simp
    from Suc.IH [OF this loop] obtain n ps where n: "u = used + 1 + n" "n \<le> left"
      and run: "step_units nfc port n v r = (ps, w', res')"
      and stop: "n < left \<longrightarrow> idle_round (replicate ?idle False @ ps) (?idle + n - 3) \<and> 3 \<le> ?idle + n"
      and go: "\<forall>i. i + 3 < ?idle + n \<longrightarrow> \<not> idle_round (replicate ?idle False @ ps) i"
      by blast
    have run': "step_units nfc port (Suc n) w res = (p # ps, w', res')"
      using once run by simp
    show ?thesis
    proof (cases p)
      case True
      have "idle_round (replicate idle False @ p # ps) (idle + Suc n - 3) \<and> 3 \<le> idle + Suc n" if "n < left"
        using stop that True by (auto simp: idle_round_progress)
      moreover have "\<not> idle_round (replicate idle False @ p # ps) i" if "i + 3 < idle + Suc n" for i
        using go that True Suc.prems(1) False by (auto simp: idle_round_progress)
      ultimately show ?thesis
        using n run' by (intro exI [of _ "Suc n"] exI [of _ "p # ps"]) simp
    next
      case no: False
      then have idle': "?idle = idle + 1"
        by simp
      have flags: "replicate (idle + 1) False @ ps = replicate idle False @ p # ps"
        using no by (simp add: replicate_app_Cons_same)
      note stop' = stop [unfolded idle' flags] and go' = go [unfolded idle' flags]
      show ?thesis
        using n run' stop' go' by (intro exI [of _ "Suc n"] exI [of _ "p # ps"]) simp
    qed
  qed
qed

text \<open>
  C16. A step of a live instance always returns, and it has run a number \<open>n\<close> of scheduling units,
  at least one and at most its budget: the new state and the transition counters are those after
  exactly \<open>n\<close> units run in a row, and \<open>n\<close> is the number it reports. It stops before the budget is
  used up only when its last three units (one round over the translation layer, the submission and
  the poll) made no progress, and no earlier three units in a row were without progress.
\<close>

theorem step_within_budget:
  assumes "m3p_live (fst w)" and "budget \<noteq> 0"
  shows "\<exists>n ps res w'. fwlab_m3p_step nfc port budget w = (Some (res\<lparr>st_units_used := of_nat n\<rparr>), w') \<and>
    0 < n \<and> n \<le> unat budget \<and> unat (of_nat n :: u32) = n \<and>
    step_units nfc port n w \<lparr>st_units_used = 0, st_ftl_transitions = 0, st_nfc_transitions = 0,
      st_nfc_events = 0\<rparr> = (ps, w', res) \<and>
    (n < unat budget \<longrightarrow> 3 \<le> n \<and> idle_round ps (n - 3)) \<and>
    (\<forall>i. i + 3 < n \<longrightarrow> \<not> idle_round ps i)"
proof -
  let ?r = "\<lparr>st_units_used = 0, st_ftl_transitions = 0, st_nfc_transitions = 0, st_nfc_events = 0\<rparr>"
  obtain u w' res where loop: "step_loop nfc port (unat budget) 0 0 w ?r = (u, w', res)"
    by (metis prod_cases3)
  from step_loop_units [OF _ this] obtain n ps where n: "u = n" "n \<le> unat budget"
    and units: "step_units nfc port n w ?r = (ps, w', res)"
    and stop: "n < unat budget \<longrightarrow> idle_round ps (n - 3) \<and> 3 \<le> n"
    and go: "\<forall>i. i + 3 < n \<longrightarrow> \<not> idle_round ps i"
    by auto
  have "0 < unat budget"
    using assms(2) by (simp add: unat_gt_0)
  then have "0 < n"
    using stop by (cases "n = 0") simp_all
  moreover have "unat (of_nat n :: u32) = n"
    using n(2) unat_u32_less [of budget]
    by (simp add: unsigned_of_nat take_bit_nat_eq_self del: unat_u32_less)
  moreover have "fwlab_m3p_step nfc port budget w = (Some (res\<lparr>st_units_used := of_nat n\<rparr>), w')"
    using assms loop n(1) by (simp add: fwlab_m3p_step_def)
  ultimately show ?thesis
    using n units stop go by blast
qed

theorem step_within_budget_witness:
  "\<exists>n ps res w'. fwlab_m3p_step idle_nfc zero_port 5 (sample_m3p, (), ()) =
      (Some (res\<lparr>st_units_used := of_nat n\<rparr>), w') \<and> 0 < n \<and> n \<le> 5 \<and>
    step_units idle_nfc zero_port n (sample_m3p, (), ()) \<lparr>st_units_used = 0, st_ftl_transitions = 0,
      st_nfc_transitions = 0, st_nfc_events = 0\<rparr> = (ps, w', res) \<and> (n < 5 \<longrightarrow> idle_round ps (n - 3))"
  using step_within_budget [of "(sample_m3p, (), ())" 5 idle_nfc zero_port] sample_live(2) by auto

section \<open>Admission\<close>

abbreviation (input) same_slot :: "fwlab_m3p \<Rightarrow> fwlab_m3p \<Rightarrow> bool" where
  "same_slot t s \<equiv> same_maps t s \<and> operation t = operation s \<and> host_sequence t = host_sequence s \<and>
     record_sequence t = record_sequence s \<and> map_sequence t = map_sequence s \<and>
     block_next_page t = block_next_page s \<and> p2l t = p2l s"

lemma collect_slot: "same_slot (snd (collect_pages ps c s)) s"
  by (induction ps c s rule: collect_pages.induct) (simp_all split: option.split)

lemma force_gc_slot: "same_slot (snd (fwlab_m3p_force_gc_start s)) s"
  using collect_slot [of _ _ "gc_begin _ _ _ s"]
  by (simp add: fwlab_m3p_force_gc_start_def m3p_gc_collect_live_pages_def gc_begin_def Let_def
      split_beta split: option.split)

text \<open>
  C11. A request that is not accepted leaves no trace: whatever the reason, and also when a failed
  reservation starts a collection, the maps, the pending ring, the operation slot, the sequence
  counters, the write pointers of the blocks and the page states are what they were.
\<close>

theorem refused_request_leaves_no_trace:
  assumes "sr_disposition (fst (block_submit port rq (s, b))) \<noteq> FWLAB_HOST_ACTION_V0_ACCEPTED"
    and "t = fst (snd (block_submit port rq (s, b)))"
  shows "durable t = durable s \<and> visible t = visible s \<and> ring_abs t = ring_abs s \<and>
    operation t = operation s \<and> host_sequence t = host_sequence s \<and>
    record_sequence t = record_sequence s \<and> map_sequence t = map_sequence s \<and>
    block_next_page t = block_next_page s \<and> p2l t = p2l s"
proof -
  have slot: "same_slot (snd (fwlab_m3p_force_gc_start (fst (snd (reserve_write_pages s op))))) s"
    if "\<not> fst (reserve_write_pages s op)" for op
    using reserve_write_failed [OF that] force_gc_slot [of s] by simp
  have "same_slot t s"
    using assms slot
    by (auto simp: block_submit_def submit_write_def submit_result_init_def submit_resource_failure_def
        Let_def split_beta split: if_splits)
  moreover from this have "ring_abs t = ring_abs s"
    using ring_view_cong(2) [of t s] by (simp add: ring_view_def)
  ultimately show ?thesis
    by simp
qed

theorem refused_request_leaves_no_trace_witness:
  "durable (fst (snd (block_submit zero_port zero_block_request (sample_m3p, ())))) = durable sample_m3p"
proof -
  have "\<not> request_valid sample_m3p zero_block_request"
    by (simp add: request_valid_def request_header_valid_def zero_block_request_def)
  then show ?thesis
    using refused_request_leaves_no_trace [OF _ refl, of zero_port zero_block_request sample_m3p "()"]
    by (simp add: block_submit_def submit_result_init_def Let_def)
qed

lemma accepted_write_slot:
  assumes "sr_disposition (fst (submit_write port rq op (s, b))) = FWLAB_HOST_ACTION_V0_ACCEPTED"
    and "t = fst (snd (submit_write port rq op (s, b)))"
  shows "\<exists>io. let r = reserve_write_pages s (op\<lparr>op_io_bytes := io\<rparr>); h = host_sequence s + 1 in
    fst r \<and> t = (fst (snd r))\<lparr>host_sequence := h, operation := (snd (snd r))\<lparr>op_host_sequence := h,
      op_captured_frontier := h, op_state := M3P_OPERATION_PAGE_PREPARE\<rparr>\<rparr>"
proof -
  have "host_sequence (fst (snd (reserve_write_pages s o'))) = host_sequence s" for o'
  proof -
    obtain n p r where "fst (snd (reserve_pages (lpn_range (op_first_lpn o') (op_last_lpn o')) s
        (o'\<lparr>op_delta_count := 0\<rparr>))) = s\<lparr>block_next_page := n, p2l := p, record_sequence := r\<rparr>"
      using reserve_pages_state by blast
    then show ?thesis
      by (simp add: reserve_write_pages_def Let_def split_beta)
  qed
  then show ?thesis
    using assms by (auto simp: submit_write_def submit_result_init_def submit_resource_failure_def
        Let_def split_beta split: if_splits)
qed

lemma accepted_cases:
  assumes "sr_disposition (fst (block_submit port rq (s, b))) = FWLAB_HOST_ACTION_V0_ACCEPTED"
  shows "request_valid s rq" and "\<not> submit_backpressure s rq" and "m3p_live s"
    and "rq_operation rq = FWLAB_BLOCK_V0_WRITE \<Longrightarrow>
      block_submit port rq (s, b) = submit_write port rq (candidate_of s rq) (s, b)"
    and "rq_operation rq = FWLAB_BLOCK_V0_TRIM \<Longrightarrow> fst (snd (block_submit port rq (s, b))) =
      s\<lparr>host_sequence := host_sequence s + 1, operation := (prepare_trim s (candidate_of s rq
        \<lparr>op_host_sequence := host_sequence s + 1, op_captured_frontier := host_sequence s + 1\<rparr>))
        \<lparr>op_state := M3P_OPERATION_PENDING_INSTALL\<rparr>\<rparr>"
proof -
  let ?g = "unat (journal_page s) + unat (pending_count s) + 1 > M3P_PAGES_PER_BLOCK"
  have live: "m3p_live s \<and> request_valid s rq"
    by (rule ccontr) (use assms in \<open>auto simp: block_submit_def submit_result_init_def Let_def\<close>)
  have bp: "\<not> submit_backpressure s rq"
    using live assms by (intro notI) (simp add: block_submit_def submit_result_init_def Let_def)
  have ex: "\<not> submit_exhausted s rq"
    using live bp assms
    by (intro notI) (simp add: block_submit_def submit_resource_failure_def submit_result_init_def Let_def)
  have jr: "\<not> ?g"
    using live bp ex assms
    by (intro notI) (simp add: block_submit_def submit_resource_failure_def submit_result_init_def Let_def)
  show "request_valid s rq" and "\<not> submit_backpressure s rq" and "m3p_live s"
    using live bp by simp_all
  show "block_submit port rq (s, b) = submit_write port rq (candidate_of s rq) (s, b)"
    if "rq_operation rq = FWLAB_BLOCK_V0_WRITE"
    using live bp ex jr that by (simp add: block_submit_def Let_def)
  show "fst (snd (block_submit port rq (s, b))) =
      s\<lparr>host_sequence := host_sequence s + 1, operation := (prepare_trim s (candidate_of s rq
        \<lparr>op_host_sequence := host_sequence s + 1, op_captured_frontier := host_sequence s + 1\<rparr>))
        \<lparr>op_state := M3P_OPERATION_PENDING_INSTALL\<rparr>\<rparr>"
    if "rq_operation rq = FWLAB_BLOCK_V0_TRIM"
    using live bp ex jr that by (simp add: block_submit_def Let_def)
qed

lemma deltas_for_pages:
  assumes "deltas_for vis (lpn_range f l) ds" and "unat l < 256"
  shows "map (\<lambda>d. unat (d_lpn d)) ds = [unat f..<Suc (unat l)]"
    and "map d_prior ds = map ((!) vis) [unat f..<Suc (unat l)]"
proof -
  have d: "map d_lpn ds = lpn_range f l" "map d_prior ds = map (\<lambda>l. vis ! unat l) (lpn_range f l)"
    using assms(1) by (simp_all add: deltas_for_def)
  have "map (\<lambda>d. unat (d_lpn d)) ds = map unat (map d_lpn ds)"
    by simp
  then show "map (\<lambda>d. unat (d_lpn d)) ds = [unat f..<Suc (unat l)]"
    by (simp only: d(1) lpn_range_nth [OF assms(2)])
  have "map d_prior ds = map ((!) vis) (map unat (lpn_range f l))"
    using d(2) by simp
  then show "map d_prior ds = map ((!) vis) [unat f..<Suc (unat l)]"
    by (simp only: lpn_range_nth [OF assms(2)])
qed

lemma candidate_fields:
  "length (op_delta (candidate_of s rq)) = 3" "op_first_lpn (candidate_of s rq) = request_first_lpn rq"
  "op_last_lpn (candidate_of s rq) = request_last_lpn rq" "op_request (candidate_of s rq) = rq"
  by (simp_all add: candidate_of_def zero_operation_def)

lemma accepted_write_claims:
  assumes "sr_disposition (fst (submit_write port rq (candidate_of s rq) (s, b))) = FWLAB_HOST_ACTION_V0_ACCEPTED"
    and "t = fst (snd (submit_write port rq (candidate_of s rq) (s, b)))"
    and "unat (request_first_lpn rq) \<le> unat (request_last_lpn rq)"
    and "unat (request_last_lpn rq) < 256" and "unat (request_last_lpn rq) \<le> unat (request_first_lpn rq) + 2"
  shows "op_request (operation t) = rq \<and> same_maps t s \<and> host_sequence t = host_sequence s + 1 \<and>
    deltas_for (visible s) (lpn_range (request_first_lpn rq) (request_last_lpn rq)) (op_deltas (operation t))"
proof -
  obtain io where slot: "let r = reserve_write_pages s (candidate_of s rq\<lparr>op_io_bytes := io\<rparr>); h = host_sequence s + 1 in
    fst r \<and> t = (fst (snd r))\<lparr>host_sequence := h, operation := (snd (snd r))\<lparr>op_host_sequence := h,
      op_captured_frontier := h, op_state := M3P_OPERATION_PAGE_PREPARE\<rparr>\<rparr>"
    using accepted_write_slot [OF assms(1,2)] by blast
  let ?c = "candidate_of s rq\<lparr>op_io_bytes := io\<rparr>"
  have c: "length (op_delta ?c) = 3" "op_first_lpn ?c = request_first_lpn rq" "op_last_lpn ?c = request_last_lpn rq"
    "op_request ?c = rq"
    by (simp_all add: candidate_fields)
  have "fst (reserve_write_pages s ?c)"
    using slot by (simp add: Let_def)
  note w = reserve_write_ok [OF this c(1) _ _ _ refl, unfolded c, OF assms(4,3,5)]
  show ?thesis
    using slot w(3,4) by (simp add: Let_def reserve_write_frame op_deltas_def)
qed

lemma accepted_trim_claims:
  assumes "t = s\<lparr>host_sequence := host_sequence s + 1, operation := (prepare_trim s (candidate_of s rq
        \<lparr>op_host_sequence := host_sequence s + 1, op_captured_frontier := host_sequence s + 1\<rparr>))
        \<lparr>op_state := M3P_OPERATION_PENDING_INSTALL\<rparr>\<rparr>"
    and "unat (request_first_lpn rq) \<le> unat (request_last_lpn rq)"
    and "unat (request_last_lpn rq) < 256" and "unat (request_last_lpn rq) \<le> unat (request_first_lpn rq) + 2"
  shows "op_request (operation t) = rq \<and> same_maps t s \<and> host_sequence t = host_sequence s + 1 \<and>
    deltas_for (visible s) (lpn_range (request_first_lpn rq) (request_last_lpn rq)) (op_deltas (operation t))"
proof -
  let ?c = "candidate_of s rq\<lparr>op_host_sequence := host_sequence s + 1, op_captured_frontier := host_sequence s + 1\<rparr>"
  have c: "length (op_delta ?c) = 3" "op_first_lpn ?c = request_first_lpn rq" "op_last_lpn ?c = request_last_lpn rq"
    "op_request ?c = rq"
    by (simp_all add: candidate_fields)
  note d = prepare_trim_ok [OF c(1), unfolded c, OF assms(3,2,4), of s]
  show ?thesis
    using d(3,4) by (simp add: assms(1) op_deltas_def)
qed

text \<open>
  C10. An accepted write or trim has claimed exactly its pages: the operation slot holds one change
  for every page from the first to the last sector of the request, each with the page's current
  visible entry as its prior value; the host sequence has advanced by one; and the maps and the ring
  are untouched until the data is on the medium.
\<close>

theorem accepted_request_claims_pages:
  assumes "live_inv s" and "mutating rq"
    and "sr_disposition (fst (block_submit port rq (s, b))) = FWLAB_HOST_ACTION_V0_ACCEPTED"
    and "t = fst (snd (block_submit port rq (s, b)))"
    and "pages = [unat (rq_lba rq) div 8..<Suc ((unat (rq_lba rq) + unat (rq_lba_count rq) - 1) div 8)]"
  shows "op_request (operation t) = rq \<and>
    map (\<lambda>d. unat (d_lpn d)) (op_deltas (operation t)) = pages \<and>
    map d_prior (op_deltas (operation t)) = map ((!) (visible s)) pages \<and>
    host_sequence t = host_sequence s + 1 \<and>
    durable t = durable s \<and> visible t = visible s \<and> ring_abs t = ring_abs s"
proof -
  note acc = accepted_cases [OF assms(3)]
  have vol: "volume_lba_count s \<le> 2048" and opc: "rq_operation rq \<noteq> FWLAB_BLOCK_V0_FLUSH"
    using assms(1,2) by (auto simp: live_inv_def scan_sized_def mutating_def)
  note iv = request_valid_in_volume [OF acc(1) opc vol]
  note bnd = request_page_bounds [OF iv opc vol] and pg = request_pages [OF iv opc vol]
  have res: "op_request (operation t) = rq \<and> same_maps t s \<and> host_sequence t = host_sequence s + 1 \<and>
    deltas_for (visible s) (lpn_range (request_first_lpn rq) (request_last_lpn rq)) (op_deltas (operation t))"
  proof (cases "rq_operation rq = FWLAB_BLOCK_V0_WRITE")
    case True
    show ?thesis
      by (rule accepted_write_claims [OF _ _ bnd]) (use acc(4) [OF True] assms(3,4) in simp_all)
  next
    case False
    then have "rq_operation rq = FWLAB_BLOCK_V0_TRIM"
      using assms(2) by (simp add: mutating_def)
    then show ?thesis
      by (intro accepted_trim_claims [OF _ bnd]) (use acc(5) assms(4) in simp)
  qed
  then have "ring_view t = ring_view s"
    by (simp add: ring_view_def)
  then have "ring_abs t = ring_abs s"
    by (rule ring_view_cong(2))
  moreover have pages: "pages = [unat (request_first_lpn rq)..<Suc (unat (request_last_lpn rq))]"
    by (simp only: assms(5) pg)
  have "map (\<lambda>d. unat (d_lpn d)) (op_deltas (operation t)) = pages"
    and "map d_prior (op_deltas (operation t)) = map ((!) (visible s)) pages"
    unfolding pages using deltas_for_pages [OF _ bnd(2)] res by blast+
  ultimately show ?thesis
    using res by blast
qed

text \<open>A trim of sectors 4 to 11, which lie on pages 0 and 1.\<close>

definition sample_trim :: block_request where
  "sample_trim = zero_block_request\<lparr>rq_version := 1, rq_size := sizeof_block_request,
     rq_operation := FWLAB_BLOCK_V0_TRIM, rq_lba := 4, rq_lba_count := 8,
     rq_namespace0 := 1, rq_namespace1 := 2,
     rq_operation_token := zero_block_op_token\<lparr>bt_version := 1, bt_size := sizeof_block_op_token,
       bt_type_tag := FWLAB_BLOCK_OP_TOKEN_V0_TAG, bt_provider_nonce := 12, bt_generation := 1,
       bt_action := zero_host_action_token\<lparr>ha_version := 1, ha_size := sizeof_host_action_token,
         ha_type_tag := FWLAB_HOST_ACTION_TOKEN_V0_TAG,
         ha_command := \<lparr>cmd_instance_nonce = 1, cmd_command_uid = 1, cmd_controller_epoch = 1,
           cmd_generation = 1\<rparr>,
         ha_origin0 := 1, ha_action_uid := 1, ha_generation := 1, ha_kind := 9\<rparr>\<rparr>\<rparr>"

definition sample_ready :: fwlab_m3p where
  "sample_ready = sample_m3p\<lparr>ready := True\<rparr>"

lemma sample_ready_live: "live_inv sample_ready"
  unfolding sample_ready_def by (rule live_inv_cong [OF sample_live_inv]) simp

lemmas sample_trim_defs = sample_trim_def zero_block_request_def zero_block_op_token_def
  zero_host_action_token_def zero_buffer_lease_def zero_buffer_span_def

lemma sample_trim_valid: "request_valid sample_ready sample_trim"
  by (simp add: request_valid_def request_header_valid_def host_action_token_valid_def no_buffer_def
      operation_action_kind_def words_zero_def m3p_namespace_equal_def sample_trim_defs
      sample_ready_def sample_defs Let_def)

lemma sample_trim_accepted:
  "sr_disposition (fst (block_submit zero_port sample_trim (sample_ready, ()))) = FWLAB_HOST_ACTION_V0_ACCEPTED"
proof -
  have "m3p_live sample_ready"
    by (simp add: sample_ready_def sample_defs m3p_live_def)
  moreover have "\<not> submit_backpressure sample_ready sample_trim"
    by (simp add: submit_backpressure_def m3p_pending_overlaps_def sample_ready_def sample_defs
        zero_operation_def)
  moreover have "\<not> submit_exhausted sample_ready sample_trim"
    by (simp add: submit_exhausted_def request_child_bound_def child_credit_available_def
        sample_trim_defs sample_ready_def sample_defs Let_def)
  moreover have "unat (journal_page sample_ready) + unat (pending_count sample_ready) = 0"
    by (simp add: sample_ready_def sample_defs)
  moreover have "rq_operation sample_trim = FWLAB_BLOCK_V0_TRIM"
    by (simp add: sample_trim_def)
  ultimately show ?thesis
    using sample_trim_valid by (simp add: block_submit_def submit_result_init_def Let_def)
qed

theorem accepted_request_claims_pages_witness:
  "map (\<lambda>d. unat (d_lpn d)) (op_deltas (operation (fst (snd (block_submit zero_port sample_trim (sample_ready, ()))))))
    = [0, 1]"
proof -
  have "mutating sample_trim"
    by (simp add: mutating_def sample_trim_def)
  then show ?thesis
    using accepted_request_claims_pages [OF sample_ready_live _ sample_trim_accepted refl refl]
    by (simp add: sample_trim_def upt_rec)
qed

section \<open>Closing an epoch\<close>

lemma discard_pending_settles:
  assumes "coherent s"
  shows "pending_count (discard_pending s) = 0" and "durable (discard_pending s) = durable s"
    and "visible (discard_pending s) = durable s"
proof -
  have "coherent (discard_pending s)" and c: "pending_count (discard_pending s) = 0"
    and d: "durable (discard_pending s) = durable s"
    using discard_loop_coherent [of s "unat (pending_count s)"] assms by (simp_all add: discard_pending_def)
  then show "pending_count (discard_pending s) = 0" and "durable (discard_pending s) = durable s"
    and "visible (discard_pending s) = durable s"
    using coherent_empty [of "discard_pending s"] by simp_all
qed

lemma close_drive_settles:
  assumes "coherent s" and "admission_closed s" and "op_state (operation s) = M3P_OPERATION_FREE"
    and "work_kind s = FWLAB_M3P_MAINTENANCE_NONE" and "ch_state (child s) = M3P_CHILD_IDLE"
    and "close_drive nfc (s, n) = (p, t, n')"
  shows "pending_count t = 0 \<and> durable t = durable s \<and> visible t = durable s \<and>
    (pending_count s \<noteq> 0 \<longrightarrow> p \<and> n' = n)"
  using assms discard_pending_settles [OF assms(1)] coherent_empty [OF assms(1)]
  by (auto simp: close_drive_def Let_def split_beta split: if_splits)

text \<open>
  C9. Closing an epoch gives up what is not on the medium. When the epoch is closed with no operation,
  maintenance work or child command in flight, the next scheduling unit of the translation layer
  leaves the ring of pending transactions empty and the durable map as it was before the close, and
  the visible map equal to it, so that no read can return data the medium does not hold; and as long
  as there were transactions to discard, that unit has not touched the NAND controller, so the
  controller is never reset before the discard.
\<close>

theorem close_discards_pending:
  assumes "live_inv r" and "op_state (operation r) = M3P_OPERATION_FREE"
    and "work_kind r = FWLAB_M3P_MAINTENANCE_NONE" and "ch_state (child r) = M3P_CHILD_IDLE"
    and "block_epoch_close nonce epoch r = (FWLAB_SPINE_V0_OK, s)"
    and "m3p_runtime_drive nfc port (s, n, b) = (p, t, n', b')"
  shows "pending_count t = 0 \<and> durable t = durable r \<and> visible t = durable r \<and> b' = b \<and>
    (pending_count r \<noteq> 0 \<longrightarrow> p \<and> n' = n)"
proof -
  have s: "same_view s r" "child s = child r" "admission_closed s"
    using assms(2,5) by (auto simp: block_epoch_close_def Let_def split: if_splits)
  have "coherent s"
    using assms(1) s(1) coherent_cong(1) [of s r] by (simp add: live_inv_def)
  moreover have "close_drive nfc (s, n) = (p, t, n')" and "b' = b"
    using assms(2,3,6) s by (simp_all add: m3p_runtime_drive_def operation_drive_def split_beta prod_eq_iff)
  ultimately show ?thesis
    using close_drive_settles [of s nfc n p t n'] s assms(2-4) by simp
qed

text \<open>The sample instance after an accepted trim, with its transaction installed and its slot retired.\<close>

definition sample_trimming :: fwlab_m3p where
  "sample_trimming = fst (snd (block_submit zero_port sample_trim (sample_ready, ())))"

definition sample_closing :: fwlab_m3p where
  "sample_closing = (snd (pending_install_drive sample_trimming))\<lparr>operation := zero_operation\<rparr>"

lemma sample_trimming_state:
  "unat (op_delta_count (operation sample_trimming)) = 2"
  "op_request (operation sample_trimming) = sample_trim"
  "op_state (operation sample_trimming) = M3P_OPERATION_PENDING_INSTALL"
  "same_maps sample_trimming sample_m3p" "same_ctl sample_trimming sample_m3p"
  "child sample_trimming = child sample_m3p" "m3p_live sample_trimming"
  "\<not> admission_closed sample_trimming" "live_inv sample_trimming"
proof -
  have tr: "rq_operation sample_trim = FWLAB_BLOCK_V0_TRIM"
    by (simp add: sample_trim_def)
  let ?h = "host_sequence sample_ready + 1"
  let ?c = "candidate_of sample_ready sample_trim\<lparr>op_host_sequence := ?h, op_captured_frontier := ?h\<rparr>"
  have eq: "sample_trimming = sample_ready\<lparr>host_sequence := ?h, operation := (prepare_trim sample_ready ?c)
        \<lparr>op_state := M3P_OPERATION_PENDING_INSTALL\<rparr>\<rparr>"
    unfolding sample_trimming_def by (rule accepted_cases(5) [OF sample_trim_accepted tr])
  have lpn: "op_first_lpn ?c = 0" "op_last_lpn ?c = 1"
    by (simp_all add: candidate_of_def request_first_lpn_def request_last_lpn_def sample_trim_def)
  have "length (op_delta ?c) = 3"
    by (simp add: candidate_fields)
  note ok = prepare_trim_ok [OF this, unfolded lpn, simplified, of sample_ready]
  show "unat (op_delta_count (operation sample_trimming)) = 2"
    "op_request (operation sample_trimming) = sample_trim"
    "op_state (operation sample_trimming) = M3P_OPERATION_PENDING_INSTALL"
    using ok(2,3) by (simp_all add: eq candidate_fields)
  show "same_maps sample_trimming sample_m3p" "same_ctl sample_trimming sample_m3p"
    "child sample_trimming = child sample_m3p" and live: "m3p_live sample_trimming"
    "\<not> admission_closed sample_trimming"
    by (simp_all add: eq sample_ready_def sample_defs m3p_live_def)
  show "live_inv sample_trimming"
    using submit_inv [of sample_ready zero_port sample_trim "()"] sample_ready_live live
    by (simp add: ftl_inv_def sample_trimming_def m3p_live_def)
qed

lemma sample_closing_state:
  "live_inv sample_closing" "m3p_live sample_closing" "pending_count sample_closing = 1"
  "op_state (operation sample_closing) = M3P_OPERATION_FREE" "\<not> admission_closed sample_closing"
  "work_kind sample_closing = FWLAB_M3P_MAINTENANCE_NONE" "ch_state (child sample_closing) = M3P_CHILD_IDLE"
proof -
  note t = sample_trimming_state
  have n: "op_delta_count (operation sample_trimming) = 2"
    using t(1) by (simp add: word_unat_eq_iff)
  have pub: "magic (publish_visible_all ds k u) = magic u" "initialized (publish_visible_all ds k u) = initialized u"
    "admission_closed (publish_visible_all ds k u) = admission_closed u"
    "child (publish_visible_all ds k u) = child u" "quarantined (publish_visible_all ds k u) = quarantined u"
    "work_kind (publish_visible_all ds k u) = work_kind u"
    "pending_count (publish_visible_all ds k u) = pending_count u" for ds k u
    using publish_visible_all_eq [of ds k u] by auto
  have live: "live_inv (snd (pending_install_drive sample_trimming))"
    by (rule pending_install_live [OF t(9,3)])
  show "live_inv sample_closing"
    unfolding sample_closing_def
    by (rule live_inv_operation [OF live])
      (simp_all add: zero_operation_def zero_block_request_def op_uninstalled_def page_phase_def
        commit_phase_def)
  show "m3p_live sample_closing" "pending_count sample_closing = 1"
  "op_state (operation sample_closing) = M3P_OPERATION_FREE" "\<not> admission_closed sample_closing"
  "work_kind sample_closing = FWLAB_M3P_MAINTENANCE_NONE" "ch_state (child sample_closing) = M3P_CHILD_IDLE"
    using t(4-8) by (simp_all add: sample_closing_def pending_install_drive_def install_operation_def
        m3p_pending_append_def m3p_operation_succeed_def n t(2) m3p_live_def sample_defs pub Let_def split_beta
        sample_trim_def zero_operation_def zero_child_def zero_pending_def)
qed

theorem close_discards_pending_witness:
  "\<exists>t. pending_count sample_closing = 1 \<and>
    m3p_runtime_drive idle_nfc zero_port (snd (block_epoch_close 5 1 sample_closing), (), ()) = (True, t, (), ()) \<and>
    pending_count t = 0 \<and> visible t = durable sample_closing"
proof -
  note c = sample_closing_state
  have closed: "block_epoch_close 5 1 sample_closing =
      (FWLAB_SPINE_V0_OK, snd (block_epoch_close 5 1 sample_closing))"
    using c(2,5) by (simp add: block_epoch_close_def Let_def)
  obtain p t n b where drive: "m3p_runtime_drive idle_nfc zero_port
      (snd (block_epoch_close 5 1 sample_closing), (), ()) = (p, t, n, b)"
    by (metis prod_cases4)
  show ?thesis
    using close_discards_pending [OF c(1,4,6,7) closed drive] c(3) drive by simp
qed

end
