(* ===== verification/M3p_Cancel.thy ===== *)
theory M3p_Cancel
  imports M3p_Guarantees
begin

text \<open>
  Cancellation in the middle of a checkpoint. The operation drive fails a cancelled operation as
  soon as no child command is in flight, also between the programs of a checkpoint, and nothing
  resets \<open>checkpoint_flow\<close>. The frame lemmas say which functions leave the checkpoint fields alone;
  the checkpoint then stays open through every event until maintenance work starts, and the next
  collection resumes it.
\<close>

section \<open>What leaves the checkpoint fields alone\<close>

abbreviation (input) same_ckpt :: "fwlab_m3p \<Rightarrow> fwlab_m3p \<Rightarrow> bool" where
  "same_ckpt t s \<equiv> checkpoint_flow t = checkpoint_flow s \<and>
     checkpoint_body_main_crc t = checkpoint_body_main_crc s \<and>
     length (frame_main t) = length (frame_main s) \<and> work_kind t = work_kind s"

lemma staging_ckpt [ckpt_simps]: "same_ckpt (staging_apply ws s) s"
proof (induction ws arbitrary: s)
  case Nil
  show ?case by (simp add: staging_apply_def)
next
  case (Cons w ws)
  have "staging_apply (w # ws) s = staging_apply ws (snd (staging_write (fst w) (snd w) s))"
    by (simp add: staging_apply_def split_beta)
  moreover have "same_ckpt (snd (staging_write (fst w) (snd w) s)) s"
    by (simp add: staging_write_def Let_def)
  ultimately show ?case
    using Cons.IH [of "snd (staging_write (fst w) (snd w) s)"] by simp
qed

lemma child_ckpt [ckpt_simps]:
  "same_ckpt (snd (m3p_child_read_start f ppa s)) s"
  "same_ckpt (snd (m3p_child_program_start f ppa s)) s"
  "same_ckpt (m3p_child_consume s) s"
  "same_ckpt (set_main i bs s) s"
  "same_ckpt (set_oob i bs s) s"
  "same_ckpt (set_op_state st s) s"
  by (simp_all add: m3p_child_read_start_def m3p_child_program_start_def set_op_state_def
      m3p_child_consume_def set_main_def set_oob_def request_common_def allocate_token_def Let_def)

lemma program_ckpt [ckpt_simps]:
  "same_ckpt (snd (program_frame0 ppa s)) s"
  "same_ckpt (p2l_set b p st s) s"
  by (simp_all add: program_frame0_def p2l_set_def split_beta ckpt_simps)

lemma fold_ckpt:
  assumes "\<And>x s. same_ckpt (f x s) s"
  shows "same_ckpt (fold f xs s) s"
  by (induction xs arbitrary: s) (simp_all add: assms)

lemma fold_maps_ckpt [ckpt_simps]:
  "same_ckpt (orphan_targets ds s) s"
  "same_ckpt (publish_visible_all ds n s) s"
  "same_ckpt (publish_durable_all ds n sq s) s"
  "same_ckpt (fold discard_delta ds s) s"
  unfolding orphan_targets_def publish_visible_all_def publish_durable_all_def
  by (rule fold_ckpt, simp add: ckpt_simps m3p_publish_visible_delta_def m3p_publish_durable_delta_def
      discard_delta_def Let_def)+

lemma ring_ckpt [ckpt_simps]:
  "same_ckpt (snd (m3p_pending_append st h ds n s)) s"
  "same_ckpt (m3p_pending_pop s) s"
  "same_ckpt (snd (install_operation st s)) s"
  "same_ckpt (discard_loop k s) s"
  subgoal by (simp add: m3p_pending_append_def Let_def)
  subgoal by (simp add: m3p_pending_pop_def Let_def)
  subgoal by (simp add: install_operation_def m3p_pending_append_def Let_def split_beta ckpt_simps)
  subgoal by (induction k arbitrary: s) (simp_all add: Let_def m3p_pending_pop_def ckpt_simps)
  done

lemma ended_ckpt [ckpt_simps]:
  "same_ckpt (m3p_operation_fail c e s) s" "op_state (operation (m3p_operation_fail c e s)) = M3P_OPERATION_FAILED"
  "same_ckpt (m3p_operation_succeed w f s) s"
  "op_state (operation (m3p_operation_succeed w f s)) = M3P_OPERATION_TERMINAL"
  by (simp_all add: m3p_operation_fail_def m3p_operation_succeed_def Let_def ckpt_simps frame_simps)

lemma programs_ckpt [ckpt_simps]:
  "same_ckpt (snd (start_current_data_program s)) s"
  "same_ckpt (snd (prepare_map_program pd s)) s"
  "same_ckpt (journal_advance s) s"
  by (simp_all add: start_current_data_program_def prepare_map_program_def journal_advance_def Let_def ckpt_simps)

lemma nfc_ckpt [ckpt_simps]:
  "same_ckpt (fst (snd (snd (m3p_nfc_submit_or_step nfc w n)))) (fst w)"
  "same_ckpt (fst (snd (snd (m3p_nfc_poll nfc w n)))) (fst w)"
  by (cases w, simp add: m3p_nfc_submit_or_step_def m3p_nfc_poll_def split_beta Let_def ckpt_simps)+

section \<open>An open checkpoint stays open\<close>

text \<open>
  A checkpoint whose body is written and whose commit is not (\<open>checkpoint_flow = 2\<close>), while the
  operation slot is not driving it and no maintenance work runs.
\<close>

definition open_checkpoint :: "u32 \<Rightarrow> fwlab_m3p \<Rightarrow> bool" where
  "open_checkpoint crc s \<longleftrightarrow> checkpoint_flow s = 2 \<and> checkpoint_body_main_crc s = crc \<and>
     frame_main s \<noteq> [] \<and> work_kind s = FWLAB_M3P_MAINTENANCE_NONE \<and>
     op_state (operation s) \<noteq> M3P_OPERATION_CHECKPOINT"

lemma open_cong:
  assumes "open_checkpoint crc s" and "same_ckpt t s"
    and "op_state (operation t) \<noteq> M3P_OPERATION_CHECKPOINT"
  shows "open_checkpoint crc t"
proof -
  have "frame_main t = [] \<longleftrightarrow> frame_main s = []"
    using assms(2) by (metis length_0_conv)
  then show ?thesis
    using assms by (simp add: open_checkpoint_def)
qed

lemma open_frames:
  assumes "open_checkpoint crc s"
  shows "open_checkpoint crc (m3p_operation_fail c e s)" "open_checkpoint crc (m3p_operation_succeed w f s)"
    "st \<noteq> M3P_OPERATION_CHECKPOINT \<Longrightarrow> open_checkpoint crc (set_op_state st s)"
    "open_checkpoint crc (m3p_child_consume s)" "open_checkpoint crc (set_main i bs s)"
    "open_checkpoint crc (snd (prepare_map_program pd s))"
    "open_checkpoint crc (snd (m3p_child_read_start fr ppa s))"
    "open_checkpoint crc (snd (install_operation sub s))"
    "open_checkpoint crc (snd (start_current_data_program s))"
proof -
  have op: "op_state (operation s) \<noteq> M3P_OPERATION_CHECKPOINT"
    using assms by (simp add: open_checkpoint_def)
  have inst: "op_state (operation (snd (install_operation sub s))) = op_state (operation s)"
    by (simp add: install_operation_def m3p_pending_append_def Let_def frame_simps)
  have data: "op_state (operation (snd (start_current_data_program s))) = op_state (operation s)"
    by (simp add: start_current_data_program_def Let_def frame_simps)
  show "open_checkpoint crc (m3p_operation_fail c e s)" "open_checkpoint crc (m3p_operation_succeed w f s)"
    "open_checkpoint crc (m3p_child_consume s)" "open_checkpoint crc (set_main i bs s)"
    "open_checkpoint crc (snd (prepare_map_program pd s))"
    "open_checkpoint crc (snd (m3p_child_read_start fr ppa s))"
    "open_checkpoint crc (snd (install_operation sub s))"
    "open_checkpoint crc (snd (start_current_data_program s))"
    by (rule open_cong [OF assms], simp add: ckpt_simps, simp add: ckpt_simps frame_simps inst data op)+
  show "open_checkpoint crc (set_op_state st s)" if "st \<noteq> M3P_OPERATION_CHECKPOINT"
    by (rule open_cong [OF assms], simp add: ckpt_simps, simp add: set_op_state_def that)
qed

lemma open_slot:
  assumes "open_checkpoint crc s" and "op_state op \<noteq> M3P_OPERATION_CHECKPOINT"
  shows "open_checkpoint crc (s\<lparr>operation := op\<rparr>)"
  by (rule open_cong [OF assms(1)]) (simp_all add: assms(2))

lemma open_begin_page:
  "open_checkpoint crc s \<Longrightarrow> open_checkpoint crc (snd (begin_page_program e s))"
  by (simp add: begin_page_program_def split_beta open_frames)

lemma open_write:
  assumes "open_checkpoint crc s"
  shows "open_checkpoint crc (snd (write_drive s))"
  using assms
  by (auto simp: write_drive_def page_prepare_drive_def page_read_drive_def page_program_drive_def
      Let_def split_beta open_frames intro!: open_begin_page open_slot
      split: m3p_operation_state.split)

lemma open_read:
  assumes "open_checkpoint crc s"
  shows "open_checkpoint crc (fst (snd (read_drive port (s, b))))"
proof -
  have op: "op_state (operation s) \<noteq> M3P_OPERATION_CHECKPOINT"
    using assms by (simp add: open_checkpoint_def)
  have "open_checkpoint crc (read_page_done e s)" for e
    using assms op by (auto simp: read_page_done_def Let_def open_frames intro!: open_slot)
  then show ?thesis
    using assms by (simp add: read_drive_def read_page_drive_def read_publish_drive_def Let_def split_beta
        open_frames)
qed

lemma open_install:
  "open_checkpoint crc s \<Longrightarrow> open_checkpoint crc (snd (pending_install_drive s))"
  by (simp add: pending_install_drive_def Let_def split_beta open_frames)

lemma open_refused:
  "open_checkpoint crc s \<Longrightarrow> m3p_start_checkpoint st s = (False, s)"
  by (simp add: open_checkpoint_def m3p_start_checkpoint_def)

lemma open_commit:
  assumes "open_checkpoint crc s"
  shows "open_checkpoint crc (snd (commit_drive s))" "open_checkpoint crc (snd (commit_program_drive s))"
proof -
  have front: "open_checkpoint crc (commit_front t)" if "open_checkpoint crc t" for t
    using that by (simp add: commit_front_def commit_ready_def open_refused Let_def split_beta open_frames
        split: option.split)
  then show "open_checkpoint crc (snd (commit_drive s))"
    using assms by (simp add: commit_drive_def Let_def split_beta open_frames)
  have "open_checkpoint crc (commit_programmed pd s)" for pd
    by (rule open_cong [OF assms])
      (simp_all add: commit_programmed_def Let_def ckpt_simps set_op_state_def)
  then show "open_checkpoint crc (snd (commit_program_drive s))"
    using assms by (simp add: commit_program_drive_def open_frames split: option.split)
qed

lemma open_operation_drive:
  assumes "open_checkpoint crc s"
  shows "open_checkpoint crc (fst (snd (operation_drive port (s, b))))"
proof -
  have op: "op_state (operation s) \<noteq> M3P_OPERATION_CHECKPOINT"
    using assms by (simp add: open_checkpoint_def)
  show ?thesis
    using assms op
    by (cases "op_state (operation s)")
      (simp_all add: operation_drive_def Let_def split_beta op_at_least_terminal_def open_frames
        open_slot open_write open_read open_install open_commit)
qed

lemma open_close_drive:
  assumes "open_checkpoint crc s"
  shows "open_checkpoint crc (fst (snd (close_drive nfc (s, n))))"
proof -
  have op: "op_state (operation s) \<noteq> M3P_OPERATION_CHECKPOINT"
    using assms by (simp add: open_checkpoint_def)
  have "open_checkpoint crc (discard_pending s)"
    by (rule open_cong [OF assms]) (simp_all add: discard_pending_def ckpt_simps frame_simps op)
  then show ?thesis
    using assms by (simp add: close_drive_def Let_def split_beta open_checkpoint_def)
qed

lemma open_runtime_drive:
  assumes "open_checkpoint crc s"
  shows "open_checkpoint crc (fst (snd (m3p_runtime_drive nfc port (s, n, b))))"
proof -
  have "work_kind s = FWLAB_M3P_MAINTENANCE_NONE"
    using assms by (simp add: open_checkpoint_def)
  then show ?thesis
    using open_operation_drive [OF assms, of port b]
    by (simp add: m3p_runtime_drive_def Let_def split_beta open_close_drive)
qed

lemma open_step_once:
  assumes "open_checkpoint crc (fst w)"
  shows "open_checkpoint crc (fst (fst (snd (step_once nfc port w res))))"
proof -
  obtain s n b where w: "w = (s, n, b)"
    by (cases w)
  have s: "open_checkpoint crc s" "op_state (operation s) \<noteq> M3P_OPERATION_CHECKPOINT"
    using assms w by (simp_all add: open_checkpoint_def)
  have "open_checkpoint crc (fst (snd (snd (m3p_nfc_submit_or_step nfc (s, n) k))))"
    "open_checkpoint crc (fst (snd (snd (m3p_nfc_poll nfc (s, n) k))))" for k
    by (rule open_cong [OF s(1)], simp_all add: ckpt_simps frame_simps s(2))+
  moreover have cursor: "open_checkpoint crc (t\<lparr>fair_cursor := k\<rparr>) = open_checkpoint crc t" for t k
    by (simp add: open_checkpoint_def)
  ultimately show ?thesis
    using open_runtime_drive [OF s(1), of nfc port n b] by (simp add: step_once_def w Let_def split_beta)
qed

lemma open_step:
  assumes "open_checkpoint crc (fst w)"
  shows "open_checkpoint crc (fst (snd (fwlab_m3p_step nfc port budget w)))"
proof -
  have "open_checkpoint crc (fst (fst (snd (step_loop nfc port left idle used w res))))" for left idle used res
    using assms
    by (induction left arbitrary: idle used w res) (simp_all add: Let_def split_beta open_step_once)
  then show ?thesis
    using assms by (simp add: fwlab_m3p_step_def Let_def split_beta)
qed

section \<open>Events\<close>

lemma gc_start_cases:
  "fst (fwlab_m3p_force_gc_start s) = FWLAB_SPINE_V0_OK \<or> snd (fwlab_m3p_force_gc_start s) = s \<or>
     work_kind (snd (fwlab_m3p_force_gc_start s)) = FWLAB_M3P_MAINTENANCE_GC"
  by (simp add: fwlab_m3p_force_gc_start_def gc_begin_def Let_def split_beta frame_simps split: option.split)

lemma gc_started:
  assumes "fwlab_m3p_force_gc_start s = (FWLAB_SPINE_V0_OK, g)"
  shows "work_kind g = FWLAB_M3P_MAINTENANCE_GC" "work_state g = M3P_GC_PREPARE"
    "checkpoint_flow g = checkpoint_flow s" "checkpoint_body_main_crc g = checkpoint_body_main_crc s"
    "frame_main g = frame_main s" "child g = child s" "ch_state (child s) = M3P_CHILD_IDLE"
    "map_sequence g = map_sequence s" "record_sequence g = record_sequence s" "config g = config s"
    "journal_generation g = journal_generation s" "durable g = durable s"
proof -
  have col: "work_kind (snd (collect_pages ps k t)) = work_kind t \<and>
      work_state (snd (collect_pages ps k t)) = work_state t \<and>
      checkpoint_flow (snd (collect_pages ps k t)) = checkpoint_flow t \<and>
      checkpoint_body_main_crc (snd (collect_pages ps k t)) = checkpoint_body_main_crc t \<and>
      frame_main (snd (collect_pages ps k t)) = frame_main t \<and>
      child (snd (collect_pages ps k t)) = child t \<and>
      map_sequence (snd (collect_pages ps k t)) = map_sequence t \<and>
      record_sequence (snd (collect_pages ps k t)) = record_sequence t \<and>
      config (snd (collect_pages ps k t)) = config t \<and>
      journal_generation (snd (collect_pages ps k t)) = journal_generation t \<and>
      durable (snd (collect_pages ps k t)) = durable t" for ps k t
    by (induction ps k t rule: collect_pages.induct) (simp_all split: option.split)
  show "work_kind g = FWLAB_M3P_MAINTENANCE_GC" "work_state g = M3P_GC_PREPARE"
    "checkpoint_flow g = checkpoint_flow s" "checkpoint_body_main_crc g = checkpoint_body_main_crc s"
    "frame_main g = frame_main s" "child g = child s" "ch_state (child s) = M3P_CHILD_IDLE"
    "map_sequence g = map_sequence s" "record_sequence g = record_sequence s" "config g = config s"
    "journal_generation g = journal_generation s" "durable g = durable s"
    using assms
    by (auto simp: fwlab_m3p_force_gc_start_def gc_start_ready_def m3p_gc_collect_live_pages_def
        gc_begin_def Let_def split_beta col split: option.splits if_splits)
qed

lemma open_submit:
  assumes "open_checkpoint crc s"
    and "work_kind (fst (snd (block_submit port rq (s, b)))) = FWLAB_M3P_MAINTENANCE_NONE"
  shows "open_checkpoint crc (fst (snd (block_submit port rq (s, b))))"
proof -
  have res: "open_checkpoint crc (fst (snd (reserve_write_pages s op)))" for op
  proof -
    obtain n p r where "fst (snd (reserve_pages (lpn_range (op_first_lpn op) (op_last_lpn op)) s
        (op\<lparr>op_delta_count := 0\<rparr>))) = s\<lparr>block_next_page := n, p2l := p, record_sequence := r\<rparr>"
      using reserve_pages_state by blast
    then show ?thesis
      using assms(1) by (simp add: reserve_write_pages_def Let_def split_beta open_checkpoint_def)
  qed
  have gc: "open_checkpoint crc (snd (fwlab_m3p_force_gc_start t))"
    if "open_checkpoint crc t" "work_kind (snd (fwlab_m3p_force_gc_start t)) = FWLAB_M3P_MAINTENANCE_NONE" for t
  proof (cases "fst (fwlab_m3p_force_gc_start t) = FWLAB_SPINE_V0_OK")
    case True
    then show ?thesis
      using gc_started(1) [of t] that(2) by (cases "fwlab_m3p_force_gc_start t") simp
  next
    case False
    then show ?thesis
      using gc_start_cases [of t] that by auto
  qed
  have "open_checkpoint crc (fst (snd (submit_write port rq op (s, b))))"
    if "work_kind (fst (snd (submit_write port rq op (s, b)))) = FWLAB_M3P_MAINTENANCE_NONE" for op
    using that assms(1) res gc
    by (auto simp: submit_write_def Let_def split_beta open_checkpoint_def split: if_splits)
  then show ?thesis
    using assms by (auto simp: block_submit_def Let_def split: if_splits) (simp_all add: open_checkpoint_def)
qed

lemma open_event:
  assumes "open_checkpoint crc (fst w)"
    and "work_kind (fst (apply_event nfc port ev w)) = FWLAB_M3P_MAINTENANCE_NONE"
  shows "open_checkpoint crc (fst (apply_event nfc port ev w))"
proof -
  obtain s n b where w: "w = (s, n, b)"
    by (cases w)
  have s: "open_checkpoint crc s" "op_state (operation s) \<noteq> M3P_OPERATION_CHECKPOINT"
    using assms(1) w by (simp_all add: open_checkpoint_def)
  have gc: "snd (fwlab_m3p_force_gc_start s) = s"
    if "work_kind (snd (fwlab_m3p_force_gc_start s)) = FWLAB_M3P_MAINTENANCE_NONE"
    using that gc_start_cases [of s] gc_started(1) [of s]
    by (cases "fwlab_m3p_force_gc_start s") auto
  show ?thesis
  proof (cases ev)
    case (Ev_Submit rq)
    then show ?thesis
      using assms(2) open_submit [OF s(1), of port rq b] by (simp add: apply_event_def w split_beta)
  next
    case (Ev_Step budget)
    then show ?thesis
      using open_step [OF assms(1), of nfc port budget] by (simp add: apply_event_def split_beta)
  next
    case Ev_Force_Gc
    then show ?thesis
      using assms(2) gc s(1) by (simp add: apply_event_def w)
  qed (use assms(2) s in \<open>auto simp: apply_event_def w fwlab_m3p_format_start_def fwlab_m3p_format_volume_start_def
      format_start_def fwlab_m3p_recover_start_def fwlab_m3p_recover_volume_start_def recovery_reset_def
      block_cancel_def block_retire_start_def block_retire_query_def block_epoch_close_def fwlab_m3p_fini_def
      zero_operation_def open_checkpoint_def Let_def split: if_splits\<close>)
qed

interpretation open_ckpt: kept_invariant "apply_event nfc port" "\<lambda>w. open_checkpoint crc (fst w)"
  "\<lambda>ev w. work_kind (fst (apply_event nfc port ev w)) = FWLAB_M3P_MAINTENANCE_NONE"
  for nfc :: "'n nfc_provider" and port :: "'b buffer_port" and crc
  by unfold_locales (rule open_event)

text \<open>No event of the sequence leaves maintenance work running.\<close>

primrec no_maintenance ::
  "'n nfc_provider \<Rightarrow> 'b buffer_port \<Rightarrow> m3p_event list \<Rightarrow> ('n, 'b) world \<Rightarrow> bool" where
  "no_maintenance nfc port [] w \<longleftrightarrow> True"
| "no_maintenance nfc port (ev # evs) w \<longleftrightarrow>
     work_kind (fst (apply_event nfc port ev w)) = FWLAB_M3P_MAINTENANCE_NONE \<and>
     no_maintenance nfc port evs (apply_event nfc port ev w)"

lemma no_maintenance_run: "no_maintenance nfc port evs w \<Longrightarrow> open_ckpt.run_ok nfc port evs w"
  by (induction evs arbitrary: w) simp_all

section \<open>The stale commit\<close>

lemma cancel_leaves_open:
  assumes "op_state (operation s) = M3P_OPERATION_CHECKPOINT" and "op_cancel_requested (operation s)"
    and "ch_state (child s) = M3P_CHILD_IDLE" and "t = fst (snd (operation_drive port (s, b)))"
    and "checkpoint_flow s = 2" and "work_kind s = FWLAB_M3P_MAINTENANCE_NONE" and "frame_main s \<noteq> []"
  shows "op_state (operation t) = M3P_OPERATION_FAILED"
    and "open_checkpoint (checkpoint_body_main_crc s) t"
proof -
  have t: "t = m3p_operation_fail (ucast FWLAB_NFC_REASON_CANCELLED) (op_effect_seen (operation s)) s"
    using assms(1-4) by (simp add: operation_drive_def op_at_least_terminal_def)
  show "op_state (operation t) = M3P_OPERATION_FAILED"
    by (simp add: t ckpt_simps)
  have "frame_main t = [] \<longleftrightarrow> frame_main s = []"
    using ended_ckpt(1) t by (metis length_0_conv)
  then show "open_checkpoint (checkpoint_body_main_crc s) t"
    using assms(5-7) by (simp add: open_checkpoint_def t ckpt_simps)
qed

lemma program_frame0_frames:
  "frame_main (snd (program_frame0 ppa s)) = frame_main s"
  by (simp add: program_frame0_def m3p_child_program_start_def request_common_def allocate_token_def
      Let_def split_beta)

lemma commit_prepared:
  assumes "record_sequence s + 1 \<noteq> 0" and "record_sequence s + 1 \<le> cfg_record_sequence_limit (config s)"
    and "journal_generation s \<noteq> UINT32_MAX" and "frame_main s \<noteq> []"
  shows "frame_main (snd (checkpoint_prepare_commit s)) ! 0 =
    m3p_encode_checkpoint_commit (checkpoint_commit_of s)"
proof -
  have "\<not> cfg_record_sequence_limit (config s) < record_sequence s + 1"
    using assms(2) by simp
  then show ?thesis
    using assms by (simp add: checkpoint_prepare_commit_def Let_def program_frame0_frames set_main_def
        set_oob_def)
qed

lemma gc_resumes_commit:
  assumes "open_checkpoint crc u" and "fwlab_m3p_force_gc_start u = (FWLAB_SPINE_V0_OK, g)"
    and "record_sequence u < cfg_record_sequence_limit (config u)" and "journal_generation u \<noteq> UINT32_MAX"
  shows "\<exists>c. frame_main (snd (m3p_gc_drive g)) ! 0 = m3p_encode_checkpoint_commit c \<and>
    cc_covered_map_sequence c = map_sequence u \<and> cc_body_main_crc c = crc"
proof -
  note g = gc_started [OF assms(2)]
  have u: "checkpoint_flow u = 2" "checkpoint_body_main_crc u = crc" "frame_main u \<noteq> []"
    using assms(1) by (simp_all add: open_checkpoint_def)
  have "m3p_gc_drive g = checkpoint_prepare_commit g"
    using u(1) g by (simp add: m3p_gc_drive_def gc_prepare_drive_def m3p_checkpoint_drive_def)
  moreover have "frame_main (snd (checkpoint_prepare_commit g)) ! 0 =
      m3p_encode_checkpoint_commit (checkpoint_commit_of g)"
  proof (rule commit_prepared)
    show "record_sequence g + 1 \<noteq> 0" "record_sequence g + 1 \<le> cfg_record_sequence_limit (config g)"
      using assms(3) g by (simp_all, unat_arith+)
  qed (use assms(4) u(3) g in simp_all)
  moreover have "cc_covered_map_sequence (checkpoint_commit_of g) = map_sequence u"
    and "cc_body_main_crc (checkpoint_commit_of g) = crc"
    using u(2) g by (simp_all add: checkpoint_commit_of_def checkpoint_volume_fields_def)
  ultimately show ?thesis
    by metis
qed

text \<open>
  C40. A cancelled checkpoint is abandoned open. When an operation is cancelled between the two
  programs of its checkpoint (\<open>checkpoint_flow = 2\<close>: the body is on the medium, its commit is not),
  the operation fails but the checkpoint stays open, and it stays open through every sequence of
  events, with any controller and any buffer, until maintenance work is started. In every state on the
  way no checkpoint can be started, so a commit that finds 24 or more journal pages fails; and
  a collection started there resumes the abandoned checkpoint: whatever transactions have been
  committed meanwhile, its first unit stages a checkpoint commit that claims to cover the current map
  sequence and names the CRC of the body written before the cancellation.
\<close>

theorem cancelled_checkpoint_resumed_stale:
  assumes "op_state (operation s) = M3P_OPERATION_CHECKPOINT" and "op_cancel_requested (operation s)"
    and "ch_state (child s) = M3P_CHILD_IDLE" and "checkpoint_flow s = 2"
    and "work_kind s = FWLAB_M3P_MAINTENANCE_NONE" and "frame_main s \<noteq> []"
    and "t = fst (snd (operation_drive port (s, b)))"
    and "no_maintenance nfc port evs (t, n, b)"
    and "u = fst (fold (apply_event nfc port) evs (t, n, b))"
  shows "op_state (operation t) = M3P_OPERATION_FAILED \<and> checkpoint_flow u = 2 \<and>
    (\<forall>st. m3p_start_checkpoint st u = (False, u)) \<and>
    (\<forall>g. fwlab_m3p_force_gc_start u = (FWLAB_SPINE_V0_OK, g) \<and> journal_generation u \<noteq> UINT32_MAX \<and>
       record_sequence u < cfg_record_sequence_limit (config u) \<longrightarrow>
       (\<exists>c. frame_main (snd (m3p_gc_drive g)) ! 0 = m3p_encode_checkpoint_commit c \<and>
          cc_covered_map_sequence c = map_sequence u \<and>
          cc_body_main_crc c = checkpoint_body_main_crc s))"
proof -
  note cancel = cancel_leaves_open [OF assms(1-3,7,4-6)]
  have kept: "open_checkpoint (checkpoint_body_main_crc s) u"
    using open_ckpt.run_keeps [OF _ no_maintenance_run [OF assms(8)], of "checkpoint_body_main_crc s"]
      cancel(2) assms(9) by simp
  then have "checkpoint_flow u = 2"
    by (simp add: open_checkpoint_def)
  then show ?thesis
    using cancel(1) open_refused [OF kept] gc_resumes_commit [OF kept] by blast
qed

text \<open>
  The sample instance, formatted, with a collectable block, in the middle of a checkpoint whose
  operation has been cancelled; the owner retires the operation and then a collection is started.
\<close>

definition sample_checkpointing :: fwlab_m3p where
  "sample_checkpointing = sample_m3p\<lparr>ready := True, checkpoint_flow := 2, checkpoint_body_main_crc := 99,
     block_next_page := (replicate 16 0)[7 := 1], p2l := (replicate 512 M3P_P2L_FREE)[224 := M3P_P2L_ORPHAN],
     operation := zero_operation\<lparr>op_state := M3P_OPERATION_CHECKPOINT, op_cancel_requested := True\<rparr>\<rparr>"

definition sample_cancelled :: fwlab_m3p where
  "sample_cancelled = fst (snd (operation_drive zero_port (sample_checkpointing, ())))"

definition sample_retire :: "m3p_event list" where
  "sample_retire = [Ev_Retire_Start (rq_operation_token zero_block_request), Ev_Step 1,
     Ev_Retire_Query (rq_operation_token zero_block_request)]"

definition sample_retired :: fwlab_m3p where
  "sample_retired = sample_checkpointing\<lparr>operation := zero_operation, fair_cursor := 1\<rparr>"

lemma sample_cancelled_eq:
  "sample_cancelled = sample_checkpointing\<lparr>operation := operation sample_cancelled\<rparr>"
  "op_state (operation sample_cancelled) = M3P_OPERATION_FAILED"
  "op_request (operation sample_cancelled) = zero_block_request"
  by (simp_all add: sample_cancelled_def operation_drive_def op_at_least_terminal_def sample_checkpointing_def
      sample_defs zero_child_def zero_operation_def zero_block_request_def m3p_operation_fail_def)

lemma sample_retire_run:
  "fold (apply_event idle_nfc zero_port) sample_retire (sample_cancelled, (), ()) = (sample_retired, (), ())"
  "no_maintenance idle_nfc zero_port sample_retire (sample_cancelled, (), ())"
proof -
  obtain op where c: "sample_cancelled = sample_checkpointing\<lparr>operation := op\<rparr>"
    "op_state op = M3P_OPERATION_FAILED" "op_request op = zero_block_request"
    using sample_cancelled_eq by metis
  have live: "m3p_live (sample_checkpointing\<lparr>operation := x\<rparr>)" "m3p_live (sample_checkpointing\<lparr>operation := x, fair_cursor := k\<rparr>)"
    "work_kind sample_checkpointing = FWLAB_M3P_MAINTENANCE_NONE" "fair_cursor sample_checkpointing = 0" for x k
    by (simp_all add: sample_checkpointing_def sample_defs m3p_live_def)
  have tok: "m3p_token_equal x x" for x
    by (simp add: m3p_token_equal_def)
  let ?d = "op\<lparr>op_state := M3P_OPERATION_DRAINING, op_status := (op_status op)\<lparr>bst_state := FWLAB_BLOCK_V0_STATE_DRAINING\<rparr>\<rparr>"
  let ?e = "op\<lparr>op_state := M3P_OPERATION_DRAINED, op_status := (op_status op)\<lparr>bst_state := FWLAB_BLOCK_V0_STATE_DRAINED\<rparr>\<rparr>"
  have e1: "apply_event idle_nfc zero_port (Ev_Retire_Start (rq_operation_token zero_block_request)) (sample_cancelled, (), ()) =
     (sample_checkpointing\<lparr>operation := ?d\<rparr>, (), ())"
    by (simp add: apply_event_def block_retire_start_def slot_check_def c live tok Let_def)
  have e2: "apply_event idle_nfc zero_port (Ev_Step 1) (sample_checkpointing\<lparr>operation := ?d\<rparr>, (), ()) =
     (sample_checkpointing\<lparr>operation := ?e, fair_cursor := 1\<rparr>, (), ())"
    by (simp add: apply_event_def fwlab_m3p_step_def step_once_def m3p_runtime_drive_def operation_drive_def live Let_def)
  have e3: "apply_event idle_nfc zero_port (Ev_Retire_Query (rq_operation_token zero_block_request))
     (sample_checkpointing\<lparr>operation := ?e, fair_cursor := 1\<rparr>, (), ()) = (sample_retired, (), ())"
    by (simp add: apply_event_def block_retire_query_def slot_check_def c live tok sample_retired_def Let_def)
  show "fold (apply_event idle_nfc zero_port) sample_retire (sample_cancelled, (), ()) = (sample_retired, (), ())"
    "no_maintenance idle_nfc zero_port sample_retire (sample_cancelled, (), ())"
    by (simp_all add: sample_retire_def e1 e2 e3 live) (simp add: sample_retired_def live)
qed

lemma sample_retired_page:
  assumes "page < 32"
  shows "p2l_at sample_retired 7 (of_nat page) = (if page = 0 then M3P_P2L_ORPHAN else M3P_P2L_FREE)"
proof -
  have p2l: "p2l sample_retired = (replicate 512 M3P_P2L_FREE)[224 := M3P_P2L_ORPHAN]"
    by (simp add: sample_retired_def sample_checkpointing_def)
  have "unat (m3p_physical_index 7 (of_nat page)) = 224 + page"
    using assms by (simp add: m3p_physical_index_def unat_word_ariths unsigned_of_nat take_bit_nat_eq_self
        unsigned_ucast_eq)
  then show ?thesis
    using assms by (simp add: p2l_at_def p2l nth_list_update)
qed

lemma sample_retired_victim: "select_victim sample_retired = Some (7, 0, 1)"
proof -
  have next_page: "block_next_page sample_retired ! b = (if b = 7 then 1 else 0)" if "b < 16" for b
    using that by (simp add: sample_retired_def sample_checkpointing_def nth_list_update)
  have role: "block_role sample_retired ! 7 = M3P_ROLE_DATA"
    by (simp add: sample_retired_def sample_checkpointing_def sample_defs initial_role_def)
  have "map (\<lambda>page. p2l_at sample_retired (of_nat 7) (of_nat page)) [0..<32] =
      M3P_P2L_ORPHAN # replicate 31 M3P_P2L_FREE"
    by (rule nth_equalityI) (auto simp: sample_retired_page nth_Cons split: nat.split)
  then have scan: "scan_block sample_retired 7 = (0, 1)"
    by (simp add: scan_block_def p2l_pinned_def numeral_eq_Suc)
  have skip: "foldl (victim_step sample_retired) best bs = best"
    if "\<forall>b \<in> set bs. b < 16 \<and> b \<noteq> 7" for best bs
    using that by (induction bs) (simp_all add: victim_step_def next_page)
  have "[0..<16] = [0..<7] @ 7 # [8..<16]"
    using upt_add_eq_append [of 0 7 9] by simp
  then have "foldl (victim_step sample_retired) None [0..<16] = Some (7, 1, 0)"
    by (simp only: foldl_append foldl_Cons) (simp add: skip victim_step_def role next_page scan)
  then show ?thesis
    by (simp add: select_victim_def)
qed

lemma sample_retired_collects:
  "\<exists>g. fwlab_m3p_force_gc_start sample_retired = (FWLAB_SPINE_V0_OK, g)"
proof -
  let ?t = "gc_begin 7 0 1 sample_retired"
  have ready: "gc_start_ready sample_retired"
    by (simp add: gc_start_ready_def sample_retired_def sample_checkpointing_def sample_defs
        zero_operation_def zero_child_def initial_role_def)
  have none: "collect_pages ps k ?t = (Some k, ?t)"
    if "\<forall>p \<in> set ps. p2l_at sample_retired 7 p \<noteq> M3P_P2L_LIVE" for ps k
    using that by (induction ps) (simp_all add: gc_begin_def p2l_at_def)
  have "p2l_at sample_retired 7 p \<noteq> M3P_P2L_LIVE" if "p \<in> set (map of_nat [0..<32])" for p
    using that sample_retired_page by (auto split: if_splits)
  then have "m3p_gc_collect_live_pages ?t = (True, ?t)"
    by (simp add: m3p_gc_collect_live_pages_def none) (simp add: gc_begin_def)
  moreover have "gc_credit_available sample_retired 68"
    "record_sequence sample_retired = 0" "map_sequence sample_retired = 0"
    "cfg_record_sequence_limit (config sample_retired) = 2048"
    by (simp_all add: gc_credit_available_def sample_retired_def sample_checkpointing_def sample_defs)
  ultimately have "fwlab_m3p_force_gc_start sample_retired = (FWLAB_SPINE_V0_OK, ?t)"
    using ready sample_retired_victim by (simp add: fwlab_m3p_force_gc_start_def Let_def)
  then show ?thesis
    by blast
qed

theorem cancelled_checkpoint_resumed_stale_witness:
  "\<exists>g c. fwlab_m3p_force_gc_start sample_retired = (FWLAB_SPINE_V0_OK, g) \<and>
    frame_main (snd (m3p_gc_drive g)) ! 0 = m3p_encode_checkpoint_commit c \<and>
    cc_covered_map_sequence c = map_sequence sample_retired \<and> cc_body_main_crc c = 99"
proof -
  have f: "journal_generation sample_retired \<noteq> UINT32_MAX"
    "record_sequence sample_retired < cfg_record_sequence_limit (config sample_retired)"
    by (simp_all add: sample_retired_def sample_checkpointing_def sample_defs)
  obtain g where g: "fwlab_m3p_force_gc_start sample_retired = (FWLAB_SPINE_V0_OK, g)"
    using sample_retired_collects by blast
  have "\<exists>c. frame_main (snd (m3p_gc_drive g)) ! 0 = m3p_encode_checkpoint_commit c \<and>
      cc_covered_map_sequence c = map_sequence sample_retired \<and>
      cc_body_main_crc c = checkpoint_body_main_crc sample_checkpointing"
    using cancelled_checkpoint_resumed_stale [of sample_checkpointing sample_cancelled zero_port "()"
        idle_nfc sample_retire "()" sample_retired, OF _ _ _ _ _ _ sample_cancelled_def sample_retire_run(2)]
      f g by (simp add: sample_retire_run(1)) (simp add: sample_checkpointing_def sample_defs zero_child_def zero_operation_def)
  then show ?thesis
    using g by (auto simp: sample_checkpointing_def)
qed

end
