(* ===== verification/M3p_Data_Laws.thy ===== *)
theory M3p_Data_Laws
  imports M3p_Codec_Laws M3p_Cancel
begin

text \<open>
  What happens to user data inside a page: the sector mask of a request, the overlay of a partial
  write on the old page, the copy of a read into the transfer buffer, and their round trip. The
  three loops of \<open>m3p_runtime.c\<close> that copy sectors share one law, \<open>sector_loop\<close>.
\<close>

section \<open>Sectors of a page\<close>

abbreviation (input) in_request :: "nat \<Rightarrow> block_request \<Rightarrow> bool" where
  "in_request k rq \<equiv> unat (rq_lba rq) \<le> k \<and> k < unat (rq_lba rq) + unat (rq_lba_count rq)"

lemma unat_lpn_sector:
  fixes lpn :: u16
  shows "unat (ucast lpn * 8 :: u64) = unat lpn * 8" and "unat (ucast lpn * 8 + 8 :: u64) = unat lpn * 8 + 8"
  using unat_u16_less [of lpn] by (simp_all add: unat_word_ariths del: unat_u16_less)

lemma sector_first_nat: "unat (sector_first lba lpn) = max (unat lba) (unat lpn * 8)"
  by (simp add: sector_first_def Let_def word_less_nat_alt unat_lpn_sector max_def)

lemma sector_last_nat:
  assumes "unat lba + unat count < 2 ^ 64"
  shows "unat (sector_last lba count lpn) = min (unat lba + unat count) (unat lpn * 8 + 8)"
proof -
  have "unat (lba + ucast count) = unat lba + unat count"
    using assms by (simp add: unat_word_ariths)
  then show ?thesis
    by (simp add: sector_last_def Let_def word_less_nat_alt unat_lpn_sector min_def)
qed

text \<open>The sectors a request has on a page.\<close>

lemma sectors_of_page:
  assumes "unat (rq_lba rq) + unat (rq_lba_count rq) < 2 ^ 64"
  shows "set [unat (sector_first (rq_lba rq) lpn)..<unat (sector_last (rq_lba rq) (rq_lba_count rq) lpn)]
    = {k. in_request k rq \<and> unat lpn * 8 \<le> k \<and> k < unat lpn * 8 + 8}"
  by (auto simp: sector_first_nat sector_last_nat [OF assms])

lemma bit_mask_loop:
  "bit (foldl (\<lambda>m k. m OR push_bit (k - base) (1 :: u8)) a ks) i \<longleftrightarrow>
     bit a i \<or> (i < 8 \<and> (\<exists>k \<in> set ks. k - base = i))"
proof (induction ks arbitrary: a)
  case Nil
  then show ?case by simp
next
  case (Cons k ks)
  have "bit (a OR push_bit (k - base) (1 :: u8)) i \<longleftrightarrow> bit a i \<or> (i < 8 \<and> k - base = i)"
    by (auto simp: bit_simps)
  then show ?case
    using Cons by auto
qed

lemma bit_sector_mask:
  assumes "unat (rq_lba rq) + unat (rq_lba_count rq) < 2 ^ 64" and "i < 8"
  shows "bit (sector_mask (rq_lba rq) (rq_lba_count rq) lpn) i \<longleftrightarrow> in_request (unat lpn * 8 + i) rq"
proof -
  have "bit (sector_mask (rq_lba rq) (rq_lba_count rq) lpn) i \<longleftrightarrow>
      (\<exists>k. in_request k rq \<and> unat lpn * 8 \<le> k \<and> k < unat lpn * 8 + 8 \<and> k - unat lpn * 8 = i)"
    unfolding sector_mask_def bit_mask_loop sectors_of_page [OF assms(1)] using assms(2) by auto
  also have "\<dots> \<longleftrightarrow> in_request (unat lpn * 8 + i) rq"
    using assms(2) by (auto intro: exI [of _ "unat lpn * 8 + i"])
  finally show ?thesis .
qed

lemma mask_bit_test: "i < 8 \<Longrightarrow> (m AND push_bit i (1 :: u8) \<noteq> 0) = bit m i"
proof -
  assume "i < 8"
  then have "m AND push_bit i 1 = (if bit m i then push_bit i 1 else 0)"
    by (intro bit_word_eqI) (auto simp: bit_simps)
  moreover have "push_bit i (1 :: u8) \<noteq> 0"
  proof -
    have "bit (push_bit i (1 :: u8)) i \<noteq> bit (0 :: u8) i"
      using \<open>i < 8\<close> by (simp add: bit_simps)
    then show ?thesis by metis
  qed
  ultimately show ?thesis by simp
qed

lemma mask_bit_zero: "i < 8 \<Longrightarrow> ((m :: u8) AND 2 ^ i = 0) = (\<not> bit m i)"
  using mask_bit_test [of i m] by auto

section \<open>Copying sectors\<close>

lemma sector_loop:
  assumes "\<And>k. k \<in> set [a..<b] \<Longrightarrow> length (src k) = 512" and "base \<le> a"
    and "(b - base) * 512 \<le> length pg"
  defines "r \<equiv> foldl (\<lambda>pg k. put_bytes pg ((k - base) * 512) (src k)) pg [a..<b]"
  shows "length r = length pg" and "\<forall>i < length pg. r ! i =
    (if a \<le> base + i div 512 \<and> base + i div 512 < b then src (base + i div 512) ! (i mod 512) else pg ! i)"
proof -
  have "length (foldl (\<lambda>pg k. put_bytes pg ((k - base) * 512) (src k)) pg [a..<b]) = length pg \<and>
    (\<forall>i < length pg. foldl (\<lambda>pg k. put_bytes pg ((k - base) * 512) (src k)) pg [a..<b] ! i =
      (if a \<le> base + i div 512 \<and> base + i div 512 < b then src (base + i div 512) ! (i mod 512) else pg ! i))"
    using assms(1,3)
  proof (induction b)
    case 0
    then show ?case by simp
  next
    case (Suc b)
    show ?case
    proof (cases "a \<le> b")
      case False
      then show ?thesis by auto
    next
      case True
      let ?r = "foldl (\<lambda>pg k. put_bytes pg ((k - base) * 512) (src k)) pg [a..<b]"
      have pre: "(b - base) * 512 \<le> length pg" and fit: "(b - base) * 512 + 512 \<le> length pg"
        using Suc.prems(2) True assms(2) by (simp_all add: Suc_diff_le)
      have IH: "length ?r = length pg" "\<forall>i < length pg. ?r ! i =
        (if a \<le> base + i div 512 \<and> base + i div 512 < b then src (base + i div 512) ! (i mod 512) else pg ! i)"
        using Suc.IH Suc.prems(1) pre by simp_all
      have len: "length (src b) = 512"
        using Suc.prems(1) True by simp
      have eq: "foldl (\<lambda>pg k. put_bytes pg ((k - base) * 512) (src k)) pg [a..<Suc b]
          = put_bytes ?r ((b - base) * 512) (src b)"
        using True by simp
      have "put_bytes ?r ((b - base) * 512) (src b) ! i =
        (if a \<le> base + i div 512 \<and> base + i div 512 < Suc b then src (base + i div 512) ! (i mod 512) else pg ! i)"
        if i: "i < length pg" for i
      proof (cases "base + i div 512 = b")
        case at: True
        then have "(b - base) * 512 \<le> i" and "i < (b - base) * 512 + 512" and "i - (b - base) * 512 = i mod 512"
          by (auto simp: minus_div_mult_eq_mod [symmetric])
        then show ?thesis
          using nth_put_bytes_in [of "(b - base) * 512" "src b" ?r i] fit len IH(1) at True by simp
      next
        case off: False
        have "i < (b - base) * 512 \<or> (b - base) * 512 + 512 \<le> i"
        proof (rule ccontr)
          assume "\<not> (i < (b - base) * 512 \<or> (b - base) * 512 + 512 \<le> i)"
          then have "i div 512 = b - base"
            by (intro div_nat_eqI) (simp_all add: mult.commute)
          then show False
            using off True assms(2) by simp
        qed
        then have "put_bytes ?r ((b - base) * 512) (src b) ! i = ?r ! i"
          using fit len IH(1) by (intro nth_put_bytes_out) simp_all
        then show ?thesis
          using IH(2) i off by auto
      qed
      then show ?thesis
        using eq IH(1) fit len by simp
    qed
  qed
  then show "length r = length pg" and "\<forall>i < length pg. r ! i =
    (if a \<le> base + i div 512 \<and> base + i div 512 < b then src (base + i div 512) ! (i mod 512) else pg ! i)"
    unfolding r_def by blast+
qed

section \<open>Overlay and read\<close>

abbreviation (input) request_fits :: "block_request \<Rightarrow> bool" where
  "request_fits rq \<equiv> unat (rq_lba rq) + unat (rq_lba_count rq) < 2 ^ 64 \<and> unat (rq_lba_count rq) \<le> 16"

lemma overlay_nth:
  assumes fits: "request_fits (op_request op)" and io: "length (op_io_bytes op) = 8192"
    and page: "length page = 4096" and i: "i < 4096"
  shows "length (overlay_request_page op lpn page) = 4096"
    and "overlay_request_page op lpn page ! i =
      (if in_request (unat lpn * 8 + i div 512) (op_request op)
       then op_io_bytes op ! ((unat lpn * 8 + i div 512 - unat (rq_lba (op_request op))) * 512 + i mod 512)
       else page ! i)"
proof -
  let ?rq = "op_request op"
  let ?a = "unat (sector_first (rq_lba ?rq) lpn)" and ?b = "unat (sector_last (rq_lba ?rq) (rq_lba_count ?rq) lpn)"
  let ?src = "\<lambda>k. slice (op_io_bytes op) ((k - unat (rq_lba ?rq)) * 512) 512"
  have f: "?a = max (unat (rq_lba ?rq)) (unat lpn * 8)"
    and l: "?b = min (unat (rq_lba ?rq) + unat (rq_lba_count ?rq)) (unat lpn * 8 + 8)"
    using fits by (simp_all add: sector_first_nat sector_last_nat)
  have room: "(k - unat (rq_lba ?rq)) * 512 + 512 \<le> 8192" if "in_request k ?rq" for k
    using that fits by linarith
  have len: "length (?src k) = 512" if "k \<in> set [?a..<?b]" for k
    using that room [of k] f l io by (intro length_slice) auto
  note loop = sector_loop [of ?a ?b ?src "unat lpn * 8" page, OF len]
  have pre: "unat lpn * 8 \<le> ?a" "(?b - unat lpn * 8) * 512 \<le> length page"
    using f l page by auto
  have eq: "overlay_request_page op lpn page =
      foldl (\<lambda>pg k. put_bytes pg ((k - unat lpn * 8) * 512) (?src k)) page [?a..<?b]"
    by (simp add: overlay_request_page_def Let_def)
  show "length (overlay_request_page op lpn page) = 4096"
    using loop(1) [OF _ pre] page by (simp add: eq)
  have "i div 512 < 8"
    using i by simp
  then have iff: "?a \<le> unat lpn * 8 + i div 512 \<and> unat lpn * 8 + i div 512 < ?b \<longleftrightarrow>
      in_request (unat lpn * 8 + i div 512) ?rq"
    using f l by auto
  have "slice (op_io_bytes op) off 512 ! j = op_io_bytes op ! (off + j)" if "j < 512" "off + 512 \<le> 8192" for off j
    using that io by (simp add: slice_def)
  then have src: "?src k ! (i mod 512) = op_io_bytes op ! ((k - unat (rq_lba ?rq)) * 512 + i mod 512)"
    if "in_request k ?rq" for k
    using room [OF that] by simp
  show "overlay_request_page op lpn page ! i =
      (if in_request (unat lpn * 8 + i div 512) ?rq
       then op_io_bytes op ! ((unat lpn * 8 + i div 512 - unat (rq_lba ?rq)) * 512 + i mod 512)
       else page ! i)"
    using loop(2) [OF _ pre] i page iff src by (simp add: eq)
qed

lemma read_nth:
  assumes fits: "request_fits (op_request op)" and io: "length (op_io_bytes op) = 8192"
    and page: "length page = 4096" and k: "in_request k (op_request op)"
      "unat (op_current_lpn op) * 8 \<le> k" "k < unat (op_current_lpn op) * 8 + 8" and j: "j < 512"
  shows "length (read_sectors e page op) = 8192"
    and "read_sectors e page op ! ((k - unat (rq_lba (op_request op))) * 512 + j) =
      (if me_state e = M3P_L2P_VALUE \<and> bit (me_valid_mask e) (k - unat (op_current_lpn op) * 8)
       then page ! ((k - unat (op_current_lpn op) * 8) * 512 + j) else 0)"
proof -
  let ?rq = "op_request op" and ?lpn = "op_current_lpn op"
  let ?f = "unat (rq_lba ?rq)"
  let ?a = "unat (sector_first (rq_lba ?rq) ?lpn)" and ?b = "unat (sector_last (rq_lba ?rq) (rq_lba_count ?rq) ?lpn)"
  let ?src = "\<lambda>k. if me_state e = M3P_L2P_VALUE \<and> me_valid_mask e AND push_bit (k - unat ?lpn * 8) 1 \<noteq> 0
              then slice page ((k - unat ?lpn * 8) * 512) 512 else replicate 512 0"
  have f: "?a = max ?f (unat ?lpn * 8)" and l: "?b = min (?f + unat (rq_lba_count ?rq)) (unat ?lpn * 8 + 8)"
    using fits by (simp_all add: sector_first_nat sector_last_nat)
  have len: "length (?src k) = 512" if "k \<in> set [?a..<?b]" for k
    using that f l page by (auto intro!: length_slice)
  note loop = sector_loop [of ?a ?b ?src ?f "op_io_bytes op", OF len]
  have pre: "?f \<le> ?a" "(?b - ?f) * 512 \<le> length (op_io_bytes op)"
    using f l io fits by auto
  have eq: "read_sectors e page op =
      foldl (\<lambda>pg k. put_bytes pg ((k - ?f) * 512) (?src k)) (op_io_bytes op) [?a..<?b]"
    by (simp add: read_sectors_def Let_def)
  show "length (read_sectors e page op) = 8192"
    using loop(1) [OF _ pre] io by (simp add: eq)
  let ?i = "(k - ?f) * 512 + j"
  have i: "?i < 8192" "?f + ?i div 512 = k" "?i mod 512 = j"
    using k(1) j fits by auto
  have "?a \<le> k" and "k < ?b"
    using k f l by auto
  then have "read_sectors e page op ! ?i = ?src k ! j"
    using loop(2) [OF _ pre] i io by (simp add: eq)
  moreover have "k - unat ?lpn * 8 < 8" and "slice page ((k - unat ?lpn * 8) * 512) 512 ! j
      = page ! ((k - unat ?lpn * 8) * 512 + j)"
    using k j page by (auto simp: slice_def)
  ultimately show "read_sectors e page op ! ?i =
      (if me_state e = M3P_L2P_VALUE \<and> bit (me_valid_mask e) (k - unat ?lpn * 8)
       then page ! ((k - unat ?lpn * 8) * 512 + j) else 0)"
    using j by (simp add: mask_bit_zero)
qed

section \<open>Round trip\<close>

text \<open>
  C18. The sector mask of a request is exact: bit \<open>i\<close> of the mask for a page is set if and only if
  sector \<open>8 * page + i\<close> lies in the request.
\<close>

theorem sector_mask_exact:
  fixes rq :: block_request
  assumes "unat (rq_lba rq) + unat (rq_lba_count rq) < 2 ^ 64" and "i < 8"
  shows "bit (sector_mask (rq_lba rq) (rq_lba_count rq) lpn) i \<longleftrightarrow>
    unat (rq_lba rq) \<le> 8 * unat lpn + i \<and> 8 * unat lpn + i < unat (rq_lba rq) + unat (rq_lba_count rq)"
  using bit_sector_mask [OF assms] by (simp add: mult.commute)

theorem sector_mask_exact_witness:
  "bit (sector_mask (rq_lba sample_trim) (rq_lba_count sample_trim) 0) 5"
  using sector_mask_exact [of sample_trim 5 0] by (simp add: sample_trim_def)

text \<open>
  C4. A read returns what a write put into the page. Let a write request be overlaid on any old page
  content, and let a read request take its sectors from the resulting page through a map entry whose
  valid mask contains the sectors written. Then for every sector that both requests cover on this
  page, the bytes read are the bytes of the write request, and for a sector the write does not cover
  the read returns the old bytes if the sector is valid in the entry and zeroes if not.
\<close>

theorem read_returns_written:
  assumes "request_fits (op_request w)" and "length (op_io_bytes w) = 8192"
    and "request_fits (op_request r)" and "length (op_io_bytes r) = 8192" and "length page = 4096"
    and "me_state e = M3P_L2P_VALUE"
    and "me_valid_mask e = old_mask OR
      sector_mask (rq_lba (op_request w)) (rq_lba_count (op_request w)) (op_current_lpn r)"
    and "in_request k (op_request r)" and "k div 8 = unat (op_current_lpn r)" and "j < 512"
  shows "read_sectors e (overlay_request_page w (op_current_lpn r) page) r
      ! ((k - unat (rq_lba (op_request r))) * 512 + j) =
    (if in_request k (op_request w)
     then op_io_bytes w ! ((k - unat (rq_lba (op_request w))) * 512 + j)
     else if bit old_mask (k mod 8) then page ! (k mod 8 * 512 + j) else 0)"
proof -
  let ?lpn = "op_current_lpn r" and ?s = "k mod 8"
  have k: "k = unat ?lpn * 8 + ?s" "?s < 8"
    using assms(9) by (metis div_mult_mod_eq) simp
  have off: "k - unat ?lpn * 8 = ?s"
    using k by simp
  let ?i = "?s * 512 + j"
  have i: "?i < 4096" "?i div 512 = ?s" "?i mod 512 = j"
    using assms(10) by auto
  note ov = overlay_nth [OF assms(1,2,5) i(1), of ?lpn, unfolded i(2,3), folded k(1)]
  have rd: "read_sectors e (overlay_request_page w ?lpn page) r ! ((k - unat (rq_lba (op_request r))) * 512 + j) =
      (if bit (me_valid_mask e) ?s then overlay_request_page w ?lpn page ! ?i else 0)"
    using read_nth(2) [OF assms(3,4) ov(1) assms(8) _ _ assms(10), of e] k assms(6) off by simp
  have "bit (me_valid_mask e) ?s \<longleftrightarrow> bit old_mask ?s \<or> in_request k (op_request w)"
    using bit_sector_mask [of "op_request w" ?s ?lpn] assms(1,7) k by (simp add: bit_simps)
  then show ?thesis
    using rd ov(2) by auto
qed

definition sample_io :: "u64 \<Rightarrow> u8 \<Rightarrow> m3p_operation" where
  "sample_io lba fill = zero_operation\<lparr>op_request := zero_block_request\<lparr>rq_lba := lba, rq_lba_count := 2\<rparr>,
     op_io_bytes := replicate 8192 fill\<rparr>"

theorem read_returns_written_witness:
  "read_sectors (zero_map_entry\<lparr>me_state := M3P_L2P_VALUE,
      me_valid_mask := 0 OR sector_mask (rq_lba (op_request (sample_io 2 9))) (rq_lba_count (op_request (sample_io 2 9)))
        (op_current_lpn (sample_io 3 0))\<rparr>)
     (overlay_request_page (sample_io 2 9) (op_current_lpn (sample_io 3 0)) (replicate 4096 5)) (sample_io 3 0)
     ! ((3 - unat (rq_lba (op_request (sample_io 3 0)))) * 512 + 7) = 9"
  using read_returns_written [of "sample_io 2 9" "sample_io 3 0" "replicate 4096 5"
      "zero_map_entry\<lparr>me_state := M3P_L2P_VALUE, me_valid_mask := 0 OR sector_mask
         (rq_lba (op_request (sample_io 2 9))) (rq_lba_count (op_request (sample_io 2 9)))
         (op_current_lpn (sample_io 3 0))\<rparr>" 0 3 7]
  by (simp add: sample_io_def zero_operation_def zero_block_request_def)

end
