(* ===== verification/M3p_Gc_Laws.thy ===== *)
theory M3p_Gc_Laws
  imports M3p_Cancel
begin

text \<open>
  Garbage collection: the victim is an unpinned data block with the most reclaimable pages, and the
  collected list names exactly its live pages.
\<close>

section \<open>Counting the pages of a block\<close>

abbreviation (input) page_states :: "fwlab_m3p \<Rightarrow> nat \<Rightarrow> m3p_p2l_state list" where
  "page_states s b \<equiv> map (\<lambda>page. p2l_at s (of_nat b) (of_nat page)) [0..<32]"

definition live_pages :: "m3p_p2l_state list \<Rightarrow> nat" where
  "live_pages sts = length (filter (\<lambda>st. st = M3P_P2L_LIVE) sts)"

definition dead_pages :: "m3p_p2l_state list \<Rightarrow> nat" where
  "dead_pages sts = length (filter (\<lambda>st. st = M3P_P2L_STALE \<or> st = M3P_P2L_ORPHAN) sts)"

lemma scan_pages_pinned:
  "list_ex p2l_pinned sts \<Longrightarrow> fst (scan_pages sts l r) = UINT8_MAX"
  by (induction sts arbitrary: l r) (auto simp: p2l_pinned_def)

lemma scan_pages_count:
  "\<not> list_ex p2l_pinned sts \<Longrightarrow>
    scan_pages sts l r = (l + of_nat (live_pages sts), r + of_nat (dead_pages sts))"
  by (induction sts arbitrary: l r) (auto simp: live_pages_def dead_pages_def p2l_pinned_def)

lemma count_bounds: "live_pages sts \<le> length sts" "dead_pages sts \<le> length sts"
  by (simp_all add: live_pages_def dead_pages_def)

lemma unat_small_u8: "n \<le> 32 \<Longrightarrow> unat (of_nat n :: u8) = n"
  by (simp add: unsigned_of_nat take_bit_nat_eq_self)

text \<open>A block the collector may take.\<close>

definition gc_eligible :: "fwlab_m3p \<Rightarrow> nat \<Rightarrow> bool" where
  "gc_eligible s b \<longleftrightarrow> block_role s ! b = M3P_ROLE_DATA \<and> block_next_page s ! b \<noteq> 0 \<and>
     \<not> list_ex p2l_pinned (page_states s b) \<and> live_pages (page_states s b) \<le> 25 \<and>
     dead_pages (page_states s b) \<noteq> 0"

definition gc_candidate :: "fwlab_m3p \<Rightarrow> nat \<Rightarrow> nat \<times> u8 \<times> u8" where
  "gc_candidate s b = (b, of_nat (dead_pages (page_states s b)), of_nat (live_pages (page_states s b)))"

lemma scan_block_eligible:
  "gc_eligible s b \<longleftrightarrow> block_role s ! b = M3P_ROLE_DATA \<and> block_next_page s ! b \<noteq> 0 \<and>
     \<not> fst (scan_block s b) > 25 \<and> snd (scan_block s b) \<noteq> 0"
proof (cases "list_ex p2l_pinned (page_states s b)")
  case True
  then show ?thesis
    using scan_pages_pinned [OF True, of 0 0] by (simp add: gc_eligible_def scan_block_def)
next
  case False
  have b: "live_pages (page_states s b) \<le> 32" "dead_pages (page_states s b) \<le> 32"
    using count_bounds [of "page_states s b"] by simp_all
  have "scan_block s b = (of_nat (live_pages (page_states s b)), of_nat (dead_pages (page_states s b)))"
    using scan_pages_count [OF False, of 0 0] by (simp add: scan_block_def)
  moreover have "\<not> (of_nat (live_pages (page_states s b)) :: u8) > 25 \<longleftrightarrow> live_pages (page_states s b) \<le> 25"
    using unat_small_u8 [OF b(1)] by (simp add: word_less_nat_alt not_less)
  moreover have "(of_nat (dead_pages (page_states s b)) :: u8) \<noteq> 0 \<longleftrightarrow> dead_pages (page_states s b) \<noteq> 0"
    using unat_small_u8 [OF b(2)] by (metis unat_0 unat_of_nat word_unat_eq_iff of_nat_0)
  ultimately show ?thesis
    using False by (simp add: gc_eligible_def)
qed

lemma scan_block_candidate:
  assumes "gc_eligible s b"
  shows "scan_block s b = (snd (snd (gc_candidate s b)), fst (snd (gc_candidate s b)))"
  using assms scan_pages_count [of "page_states s b" 0 0]
  by (simp add: gc_eligible_def gc_candidate_def scan_block_def)

section \<open>The choice of the victim\<close>

definition gc_better :: "fwlab_m3p \<Rightarrow> nat \<Rightarrow> nat \<Rightarrow> bool" where
  "gc_better s c b \<longleftrightarrow> dead_pages (page_states s c) > dead_pages (page_states s b) \<or>
     (dead_pages (page_states s c) = dead_pages (page_states s b) \<and>
      (block_erase_count s ! c < block_erase_count s ! b \<or>
       (block_erase_count s ! c = block_erase_count s ! b \<and> c \<le> b)))"

lemma dead_less_word:
  "(of_nat (dead_pages (page_states s b)) :: u8) < of_nat (dead_pages (page_states s c)) \<longleftrightarrow>
    dead_pages (page_states s b) < dead_pages (page_states s c)"
  "(of_nat (dead_pages (page_states s b)) :: u8) = of_nat (dead_pages (page_states s c)) \<longleftrightarrow>
    dead_pages (page_states s b) = dead_pages (page_states s c)"
proof -
  have u: "unat (of_nat (dead_pages (page_states s x)) :: u8) = dead_pages (page_states s x)" for x
    using count_bounds(2) [of "page_states s x"] by (intro unat_small_u8) simp
  show "(of_nat (dead_pages (page_states s b)) :: u8) < of_nat (dead_pages (page_states s c)) \<longleftrightarrow>
      dead_pages (page_states s b) < dead_pages (page_states s c)"
    "(of_nat (dead_pages (page_states s b)) :: u8) = of_nat (dead_pages (page_states s c)) \<longleftrightarrow>
      dead_pages (page_states s b) = dead_pages (page_states s c)"
    unfolding word_less_nat_alt word_unat_eq_iff u by (rule refl)+
qed

lemma victim_step_eq:
  "victim_step s best b = (if \<not> gc_eligible s b then best
     else case best of None \<Rightarrow> Some (gc_candidate s b)
      | Some (c, r, l) \<Rightarrow>
          if fst (snd (gc_candidate s b)) > r \<or>
             (fst (snd (gc_candidate s b)) = r \<and> block_erase_count s ! b < block_erase_count s ! c) \<or>
             (fst (snd (gc_candidate s b)) = r \<and> block_erase_count s ! b = block_erase_count s ! c \<and> b < c)
          then Some (gc_candidate s b) else best)"
proof (cases "gc_eligible s b")
  case True
  then show ?thesis
    using scan_block_candidate [OF True] scan_block_eligible [of s b]
    by (simp add: victim_step_def gc_candidate_def split: option.split)
next
  case False
  then show ?thesis
    using scan_block_eligible [of s b] by (auto simp: victim_step_def split_beta Let_def)
qed

lemma victim_prefix:
  "case foldl (victim_step s) None [0..<n] of
     None \<Rightarrow> \<forall>b < n. \<not> gc_eligible s b
   | Some best \<Rightarrow> \<exists>c < n. gc_eligible s c \<and> best = gc_candidate s c \<and>
       (\<forall>b < n. gc_eligible s b \<longrightarrow> gc_better s c b)"
proof (induction n)
  case 0
  then show ?case by simp
next
  case (Suc n)
  show ?case
  proof (cases "foldl (victim_step s) None [0..<n]")
    case None
    moreover have "victim_step s None n = (if gc_eligible s n then Some (gc_candidate s n) else None)"
      by (simp add: victim_step_eq)
    ultimately show ?thesis
      using Suc by (auto simp: less_Suc_eq gc_better_def)
  next
    case (Some best)
    then obtain c where c: "c < n" "gc_eligible s c" "best = gc_candidate s c"
      "\<forall>b < n. gc_eligible s b \<longrightarrow> gc_better s c b"
      using Suc by auto
    show ?thesis
    proof (cases "gc_eligible s n \<and> \<not> gc_better s c n")
      case True
      then have "victim_step s (Some best) n = Some (gc_candidate s n)"
        using c by (auto simp: victim_step_eq gc_candidate_def gc_better_def dead_less_word not_less)
      moreover have "gc_better s n b" if "b < Suc n" "gc_eligible s b" for b
        using that c True by (cases "b = n") (auto simp: gc_better_def not_less less_Suc_eq)
      ultimately show ?thesis
        using Some True by auto
    next
      case False
      then have "victim_step s (Some best) n = Some best"
        using c by (auto simp: victim_step_eq gc_candidate_def gc_better_def dead_less_word not_less)
      then show ?thesis
        using Some c False by (auto simp: less_Suc_eq)
    qed
  qed
qed

lemma select_victim_best:
  assumes "select_victim s = Some (v, live, reclaim)"
  shows "\<exists>c < 16. v = of_nat c \<and> gc_eligible s c \<and> (\<forall>b < 16. gc_eligible s b \<longrightarrow> gc_better s c b) \<and>
    live = of_nat (live_pages (page_states s c)) \<and> reclaim = of_nat (dead_pages (page_states s c))"
proof (cases "foldl (victim_step s) None [0..<16]")
  case None
  then show ?thesis
    using assms by (simp add: select_victim_def)
next
  case (Some best)
  then obtain c where "c < 16" "gc_eligible s c" "best = gc_candidate s c"
    "\<forall>b < 16. gc_eligible s b \<longrightarrow> gc_better s c b"
    using victim_prefix [of 16 s] by auto
  moreover from this have "v = of_nat c \<and> live = of_nat (live_pages (page_states s c)) \<and>
      reclaim = of_nat (dead_pages (page_states s c))"
    using assms Some by (auto simp: select_victim_def gc_candidate_def split: if_splits)
  ultimately show ?thesis
    by blast
qed

text \<open>
  C12. The collector takes the right block: the victim is one of the 16 blocks, holds data, has been
  written, has no page that a pending transaction or an earlier collection pins, has at most 25 live
  pages and at least one reclaimable page; the counts returned are those of the block; and no other
  such block has more reclaimable pages, or as many with fewer erases.
\<close>

theorem victim_is_best_unpinned_block:
  assumes "select_victim s = Some (v, live, reclaim)"
  shows "unat v < 16 \<and> block_role s ! unat v = M3P_ROLE_DATA \<and> block_next_page s ! unat v \<noteq> 0 \<and>
    (\<forall>p < 32. \<not> p2l_pinned (p2l_at s v (of_nat p))) \<and>
    unat live = card {p. p < 32 \<and> p2l_at s v (of_nat p) = M3P_P2L_LIVE} \<and> unat live \<le> 25 \<and>
    unat reclaim = dead_pages (page_states s (unat v)) \<and> 0 < unat reclaim \<and>
    (\<forall>b < 16. gc_eligible s b \<longrightarrow> dead_pages (page_states s b) \<le> unat reclaim \<and>
       (dead_pages (page_states s b) = unat reclaim \<longrightarrow> block_erase_count s ! unat v \<le> block_erase_count s ! b))"
proof -
  obtain c where c: "c < 16" "v = of_nat c" "gc_eligible s c" and best: "\<forall>b < 16. gc_eligible s b \<longrightarrow> gc_better s c b"
    and live: "live = of_nat (live_pages (page_states s c))" and rec: "reclaim = of_nat (dead_pages (page_states s c))"
    using select_victim_best [OF assms] by blast
  have v: "unat v = c"
    using c by (simp add: unsigned_of_nat take_bit_nat_eq_self)
  have ul: "unat live = live_pages (page_states s c)" and ur: "unat reclaim = dead_pages (page_states s c)"
    using count_bounds [of "page_states s c"] unat_small_u8 by (simp_all add: live rec)
  have "live_pages (page_states s c) = card {p. p < 32 \<and> p2l_at s v (of_nat p) = M3P_P2L_LIVE}"
    unfolding live_pages_def by (simp add: length_filter_conv_card c(2) cong: conj_cong)
  moreover have "\<forall>p < 32. \<not> p2l_pinned (p2l_at s v (of_nat p))"
    using c(2,3) by (auto simp: gc_eligible_def list_ex_iff)
  moreover have "dead_pages (page_states s b) \<le> unat reclaim \<and>
       (dead_pages (page_states s b) = unat reclaim \<longrightarrow> block_erase_count s ! unat v \<le> block_erase_count s ! b)"
    if "b < 16" "gc_eligible s b" for b
    using best that unfolding ur v gc_better_def by fastforce
  ultimately show ?thesis
    using c ul ur v by (auto simp: gc_eligible_def)
qed

definition sample_dirty :: fwlab_m3p where
  "sample_dirty = sample_m3p\<lparr>block_next_page := (block_next_page sample_m3p)[3 := 2],
     p2l := (p2l sample_m3p)[96 := M3P_P2L_STALE, 97 := M3P_P2L_LIVE]\<rparr>"

lemma sample_dirty_victim: "select_victim sample_dirty = Some (3, 1, 1)"
  by (simp add: select_victim_def sample_dirty_def sample_defs upt_rec victim_step_def scan_block_def
      initial_role_def p2l_at_def m3p_physical_index_def p2l_pinned_def nth_list_update)

theorem victim_is_best_unpinned_block_witness:
  "block_role sample_dirty ! 3 = M3P_ROLE_DATA \<and> \<not> p2l_pinned (p2l_at sample_dirty 3 (of_nat 1))"
  using victim_is_best_unpinned_block [OF sample_dirty_victim] by simp

section \<open>Collecting the live pages\<close>

abbreviation (input) victim_live :: "fwlab_m3p \<Rightarrow> u8 \<Rightarrow> bool" where
  "victim_live s p \<equiv> p2l_at s (gc_victim s) p = M3P_P2L_LIVE"

definition collected :: "fwlab_m3p \<Rightarrow> nat \<Rightarrow> u8 list \<Rightarrow> nat \<Rightarrow> fwlab_m3p \<Rightarrow> bool" where
  "collected s c ps m t \<longleftrightarrow> m \<le> 25 \<and> c \<le> m \<and>
     take m (gc_source_page t) = take c (gc_source_page s) @ filter (victim_live s) ps \<and>
     take c (gc_source_lpn t) = take c (gc_source_lpn s) \<and>
     (\<forall>i. c \<le> i \<and> i < m \<longrightarrow> unat (gc_source_lpn t ! i) < 256 \<and>
        durable_at s (gc_victim s) (gc_source_page t ! i) (unat (gc_source_lpn t ! i)))"

lemma collect_pages_exact:
  assumes "collect_pages ps c s = (Some m, t)" and "length (gc_source_page s) = 25"
    and "length (gc_source_lpn s) = 25" and "unat c \<le> 25"
  shows "collected s (unat c) ps (unat m) t"
  using assms
proof (induction ps c s rule: collect_pages.induct)
  case (1 c s)
  then show ?case
    by (auto simp: collected_def)
next
  case (2 p ps c s)
  show ?case
  proof (cases "victim_live s p")
    case False
    then show ?thesis
      using 2 by (simp add: collected_def)
  next
    case True
    obtain lpn where lpn: "find (durable_at s (gc_victim s) p) [0..<M3P_LPN_COUNT] = Some lpn" and c: "\<not> c \<ge> 25"
      using "2.prems"(1) True by (auto split: option.splits if_splits)
    let ?s = "s\<lparr>gc_source_page := (gc_source_page s)[unat c := p],
                gc_source_lpn := (gc_source_lpn s)[unat c := of_nat lpn]\<rparr>"
    have c': "unat (c + 1) = Suc (unat c)" "unat c < 25"
      using c by (auto simp: unat_succ_less [of c 25] word_le_nat_alt not_le word_less_nat_alt)
    have rec: "collect_pages ps (c + 1) ?s = (Some m, t)"
      using "2.prems"(1) True lpn c by simp
    have IH: "collected ?s (Suc (unat c)) ps (unat m) t"
      using "2.IH"(2) [OF _ lpn c] True rec "2.prems" c' by simp
    have l: "lpn < 256" "durable_at s (gc_victim s) p lpn"
      using find_eq_Some_nth [OF lpn] by auto
    have ul: "unat (of_nat lpn :: u16) = lpn"
      using l(1) by (simp add: unsigned_of_nat take_bit_nat_eq_self)
    note h = IH [unfolded collected_def]
    have tk: "take (unat m) (gc_source_page t) = take (Suc (unat c)) ((gc_source_page s)[unat c := p]) @
        filter (victim_live s) ps"
      using h by (simp add: p2l_at_def)
    have tks: "take (Suc (unat c)) ((gc_source_page s)[unat c := p]) = take (unat c) (gc_source_page s) @ [p]"
      using "2.prems"(2) c'(2) by (simp add: take_Suc_conv_app_nth)
    have at: "gc_source_page t ! unat c = p"
    proof -
      have "unat c < unat m"
        using h by simp
      then have "gc_source_page t ! unat c = take (unat m) (gc_source_page t) ! unat c"
        by (rule nth_take [symmetric])
      then show ?thesis
        unfolding tk tks using "2.prems"(2) c'(2) by (simp add: nth_append)
    qed
    have tl: "take (Suc (unat c)) (gc_source_lpn t) = take (Suc (unat c)) ((gc_source_lpn s)[unat c := of_nat lpn])"
      using h by simp
    have lat: "gc_source_lpn t ! unat c = of_nat lpn"
      using arg_cong [OF tl, of "\<lambda>xs. xs ! unat c"] "2.prems"(3) c'(2) by simp
    have tl': "take (unat c) (gc_source_lpn t) = take (unat c) (gc_source_lpn s)"
      using arg_cong [OF tl, of "take (unat c)"] by (simp add: min_def)
    have "unat (gc_source_lpn t ! i) < 256 \<and> durable_at s (gc_victim s) (gc_source_page t ! i) (unat (gc_source_lpn t ! i))"
      if "unat c \<le> i" "i < unat m" for i
      using h that l ul at lat by (cases "i = unat c") (auto simp: durable_at_def)
    then show ?thesis
      unfolding collected_def using h tk tks tl' True by auto
  qed
qed

text \<open>
  C13. The collected list is exact: when the collection of live pages succeeds, the first
  \<open>gc_live_count\<close> source pages are the live pages of the victim in ascending order, and each comes with
  a logical page whose durable entry is that very page.
\<close>

theorem collected_pages_exact:
  assumes "m3p_gc_collect_live_pages s = (True, t)"
    and "length (gc_source_page s) = 25" and "length (gc_source_lpn s) = 25"
    and "n = unat (gc_live_count s)"
  shows "take n (gc_source_page t) = filter (victim_live s) (map of_nat [0..<32]) \<and>
    (\<forall>i < n. unat (gc_source_lpn t ! i) < 256 \<and>
       durable_at s (gc_victim s) (gc_source_page t ! i) (unat (gc_source_lpn t ! i)))"
proof -
  obtain r where c: "collect_pages (map of_nat [0..<M3P_PAGES_PER_BLOCK]) 0 s = (r, t)" and "r = Some (gc_live_count t)"
    using assms(1) by (auto simp: m3p_gc_collect_live_pages_def Let_def split: prod.splits)
  moreover have "gc_live_count (snd (collect_pages ps k u)) = gc_live_count u" for ps k u
    by (induction ps k u rule: collect_pages.induct) (simp_all split: option.split)
  from this [of "map of_nat [0..<M3P_PAGES_PER_BLOCK]" 0 s] have "gc_live_count t = gc_live_count s"
    using c by simp
  ultimately show ?thesis
    using collect_pages_exact [of "map of_nat [0..<M3P_PAGES_PER_BLOCK]" 0 s "gc_live_count s" t] assms(2-4)
    by (simp add: collected_def)
qed

text \<open>The sample block 3 has one live page, page 1, mapped by logical page 7.\<close>

definition sample_victim :: fwlab_m3p where
  "sample_victim = sample_dirty\<lparr>gc_victim := 3, gc_live_count := 1,
     durable := (durable sample_m3p)[7 := zero_map_entry\<lparr>me_state := M3P_L2P_VALUE, me_block := 3, me_page := 1\<rparr>]\<rparr>"

lemma collect_no_live: "\<forall>p \<in> set ps. \<not> victim_live s p \<Longrightarrow> collect_pages ps c s = (Some c, s)"
  by (induction ps) simp_all

lemma sample_victim_states:
  assumes "p < 32"
  shows "p2l_at sample_victim 3 (of_nat p) =
    (if p = 0 then M3P_P2L_STALE else if p = 1 then M3P_P2L_LIVE else M3P_P2L_FREE)"
proof -
  have "unat (of_nat p :: u8) = p"
    using assms by (simp add: unat_small_u8)
  then show ?thesis
    using assms by (simp add: p2l_at_def unat_physical_index sample_victim_def sample_dirty_def sample_defs
        nth_list_update)
qed

lemma sample_victim_collected:
  "m3p_gc_collect_live_pages sample_victim = (True, snd (m3p_gc_collect_live_pages sample_victim))"
proof -
  have f: "find (durable_at sample_victim 3 1) [0..<256] = Some 7"
    by (auto simp: find_Some_iff durable_at_def sample_victim_def sample_dirty_def sample_defs
        unmapped_entry_def zero_map_entry_def nth_list_update intro!: exI [of _ 7])
  have split: "map of_nat [0..<32] = (0 :: u8) # 1 # map of_nat [2..<32]"
    by (simp add: upt_conv_Cons numeral_2_eq_2)
  have st: "p2l_at sample_victim 3 0 = M3P_P2L_STALE" "p2l_at sample_victim 3 1 = M3P_P2L_LIVE"
    using sample_victim_states [of 0] sample_victim_states [of 1] by simp_all
  have v: "gc_victim sample_victim = 3" "gc_live_count sample_victim = 1"
    by (simp_all add: sample_victim_def)
  let ?t = "sample_victim\<lparr>gc_source_page := (gc_source_page sample_victim)[0 := 1],
      gc_source_lpn := (gc_source_lpn sample_victim)[0 := of_nat 7]\<rparr>"
  have "\<forall>p \<in> set (map of_nat [2..<32]). \<not> victim_live ?t p"
  proof (rule ballI)
    fix p :: u8 assume "p \<in> set (map of_nat [2..<32])"
    then obtain q where q: "q \<in> {2..<32}" "p = of_nat q"
      unfolding set_map set_upt by blast
    then show "\<not> victim_live ?t p"
      using sample_victim_states [of q] v(1) by (simp add: p2l_at_def)
  qed
  then have "collect_pages (map of_nat [2..<32]) 1 ?t = (Some 1, ?t)"
    by (rule collect_no_live)
  then have "collect_pages (map of_nat [0..<32]) 0 sample_victim = (Some 1, ?t)"
    unfolding split using st f by (simp add: v)
  then show ?thesis
    by (simp add: m3p_gc_collect_live_pages_def v)
qed

theorem collected_pages_exact_witness:
  "take 1 (gc_source_page (snd (m3p_gc_collect_live_pages sample_victim))) =
    filter (victim_live sample_victim) (map of_nat [0..<32])"
proof -
  have "length (gc_source_page sample_victim) = 25" "length (gc_source_lpn sample_victim) = 25"
    "gc_live_count sample_victim = 1"
    by (simp_all add: sample_victim_def sample_dirty_def sample_defs)
  then show ?thesis
    using collected_pages_exact [OF sample_victim_collected _ _ refl] by simp
qed

end
