(* ===== verification/M3p_Replay_Laws.thy ===== *)
theory M3p_Replay_Laws
  imports M3p_Codec_Laws M3p_Cancel
begin

text \<open>
  Recovery: the replay loop follows the chain of map transactions and ends within its bound, and
  replaying a transaction that the commit stage wrote to the journal makes the same change to the
  durable map as the commit made.
\<close>

section \<open>The replay loop ends\<close>

definition predecessors :: "fwlab_m3p \<Rightarrow> u32 list" where
  "predecessors s = map (\<lambda>r. mr_predecessor_map_sequence (rr_map r)) (recovered_map s)"

abbreviation (input) same_chain :: "fwlab_m3p \<Rightarrow> fwlab_m3p \<Rightarrow> bool" where
  "same_chain t s \<equiv> predecessors t = predecessors s \<and> recovery_map_count t = recovery_map_count s"

lemma publish_durable_chain: "same_chain (m3p_publish_durable_delta d seq s) s"
  by (simp add: m3p_publish_durable_delta_def p2l_set_def predecessors_def Let_def)

lemma set_record_chain: "same_chain (set_record_target i j e s) s"
  by (simp add: set_record_target_def predecessors_def Let_def map_update_same)

lemma apply_moves_chain: "same_chain (snd (apply_moves rs uid seq s)) s"
  by (induction rs uid seq s rule: apply_moves.induct)
    (simp_all add: Let_def publish_durable_chain set_record_chain split: option.split)

lemma apply_deltas_chain: "same_chain (snd (apply_deltas i js seq s)) s"
  by (induction i js seq s rule: apply_deltas.induct)
    (simp_all add: Let_def publish_durable_chain set_record_chain split: option.split)

lemma apply_record_chain: "same_chain (snd (apply_recovered_record i s)) s"
proof -
  have "same_chain (snd (and_then (apply_moves rs u q s) (\<lambda>s. (True, s\<lparr>block_role := f s, reserve_block := y\<rparr>)))) s"
    for rs u q f y
    using apply_moves_chain [of rs u q s] by (simp add: and_then_def split_beta predecessors_def)
  then show ?thesis
    by (simp add: apply_recovered_record_def Let_def apply_deltas_chain)
qed

lemma replay_step_chain:
  assumes "replay_step ms l s = (r, t)"
  shows "same_chain t s"
proof -
  have "same_chain (snd (replay_step ms l s)) s"
    using apply_record_chain [of "last ms" s]
    by (simp add: replay_step_def replay_advance_def predecessors_def Let_def split_beta split: option.split)
  then show ?thesis
    using assms by simp
qed

lemma replay_step_current:
  assumes "replay_step ms l s = (Some l', t)"
  shows "rl_current l' = mr_resulting_map_sequence (rr_map (recovered_map s ! last ms))"
  using assms by (auto simp: replay_step_def Let_def split: option.splits prod.splits if_splits)

lemma found_record:
  assumes "i \<in> set (find_recovery_record s res pred)"
  shows "i < unat (recovery_map_count s)" and "mr_resulting_map_sequence (rr_map (recovered_map s ! i)) = res"
    and "mr_predecessor_map_sequence (rr_map (recovered_map s ! i)) = pred"
  using assms by (auto simp: find_recovery_record_def Let_def)

text \<open>Running out of fuel means that a record was found for each of the \<open>n\<close> next sequences.\<close>

lemma out_of_fuel_chain:
  assumes "replay_loop n l s = Replay_Out_Of_Fuel" and "unat (recovery_map_count s) \<le> length (recovered_map s)"
  shows "\<forall>k < n. \<exists>i < unat (recovery_map_count s). predecessors s ! i = rl_current l + of_nat k"
  using assms
proof (induction n arbitrary: l s)
  case 0
  then show ?case by simp
next
  case (Suc n)
  let ?ms = "find_recovery_record s (rl_current l + 1) (rl_current l)"
  have ne: "?ms \<noteq> []"
    using Suc.prems(1) by auto
  then have m: "last ?ms \<in> set ?ms"
    by simp
  obtain l' t where step: "replay_step ?ms l s = (Some l', t)" and rec: "replay_loop n l' t = Replay_Out_Of_Fuel"
    using Suc.prems(1) ne by (auto simp: Let_def split: prod.splits option.splits)
  note chain = replay_step_chain [OF step]
  have cur: "rl_current l' = rl_current l + 1"
    using replay_step_current [OF step] found_record(2) [OF m] by simp
  have len: "length (recovered_map t) = length (recovered_map s)"
    using chain by (metis predecessors_def length_map)
  have IH: "\<forall>k < n. \<exists>i < unat (recovery_map_count s). predecessors s ! i = rl_current l + 1 + of_nat k"
    using Suc.IH [OF rec] chain cur len Suc.prems(2) by simp
  have zero: "last ?ms < unat (recovery_map_count s)" "predecessors s ! last ?ms = rl_current l"
    using found_record [OF m] Suc.prems(2) by (simp_all add: predecessors_def)
  show ?case
  proof (intro allI impI)
    fix k assume "k < Suc n"
    then show "\<exists>i < unat (recovery_map_count s). predecessors s ! i = rl_current l + of_nat k"
      using zero IH by (cases k) (auto simp: add.assoc)
  qed
qed

lemma chain_pigeonhole:
  fixes c :: u32 and p :: "u32 list"
  assumes "\<forall>k < n. \<exists>i < m. p ! i = c + of_nat k" and "n \<le> 4294967296"
  shows "n \<le> m"
proof -
  obtain f where f: "\<forall>k < n. f k < m \<and> p ! f k = c + of_nat k"
    using assms(1) by metis
  have "inj_on f {..<n}"
  proof (rule inj_onI)
    fix a b assume "a \<in> {..<n}" and "b \<in> {..<n}" and "f a = f b"
    then have "(of_nat a :: u32) = of_nat b" and "a < 2 ^ LENGTH(32)" and "b < 2 ^ LENGTH(32)"
      using f assms(2) by (auto, metis add_left_cancel)
    then show "a = b"
      by (simp add: word_of_nat_eq_iff take_bit_nat_eq_self)
  qed
  then have "card (f ` {..<n}) = n"
    by (simp add: card_image)
  moreover have "f ` {..<n} \<subseteq> {..<m}"
    using f by auto
  ultimately show ?thesis
    using card_mono [of "{..<m}" "f ` {..<n}"] by simp
qed

text \<open>
  C15. Replay terminates within its bound: the table of recovered transactions has 64 slots, and with
  at most 64 of them in use the loop of \<open>finalize_recovery\<close> ends, by reaching the end of the chain or
  by rejecting a record, before 65 iterations.
\<close>

theorem replay_ends_within_bound:
  assumes "recovery_map_count s \<le> 64" and "length (recovered_map s) = 64"
  shows "replay_loop (M3P_MAX_RECOVERED_MAPS + 1) l s \<noteq> Replay_Out_Of_Fuel"
proof
  assume out: "replay_loop (M3P_MAX_RECOVERED_MAPS + 1) l s = Replay_Out_Of_Fuel"
  have c: "unat (recovery_map_count s) \<le> 64"
    using assms(1) by (simp add: word_le_nat_alt)
  have "unat (recovery_map_count s) \<le> length (recovered_map s)"
    using c assms(2) by simp
  note chain = out_of_fuel_chain [OF out this]
  have "M3P_MAX_RECOVERED_MAPS + 1 \<le> unat (recovery_map_count s)"
    by (rule chain_pigeonhole [OF chain]) simp
  then show False
    using c by simp
qed

theorem replay_ends_within_bound_witness:
  "replay_loop (M3P_MAX_RECOVERED_MAPS + 1) (replay_start sample_m3p) sample_m3p \<noteq> Replay_Out_Of_Fuel"
  by (rule replay_ends_within_bound) (simp_all add: sample_defs)

section \<open>Replay redoes the commit\<close>

text \<open>The entries of a map apart from the checksum of the data page, which the scan reads back from
  the page itself.\<close>

definition forget_crc :: "m3p_map_entry \<Rightarrow> m3p_map_entry" where
  "forget_crc e = e\<lparr>me_main_crc := 0\<rparr>"

lemma patch_map: "map g (patch f ds m) = patch (\<lambda>d. g (f d)) ds (map g m)"
  by (induction ds arbitrary: m) (simp_all add: map_update)

lemma patch_cong:
  assumes "list_all2 (\<lambda>d e. d_lpn d = d_lpn e \<and> f d = g e) ds es"
  shows "patch f ds m = patch g es m"
  using assms by (induction arbitrary: m rule: list_all2_induct) simp_all

lemma matched_entry:
  assumes "data_record_matches s lpn e = Some e'" and "me_state e = M3P_L2P_VALUE \<longrightarrow> me_logical_version e \<noteq> 0"
  shows "forget_crc (e'\<lparr>me_map_sequence := q\<rparr>) = forget_crc (e\<lparr>me_map_sequence := q\<rparr>)"
  using assms by (auto simp: data_record_matches_def Let_def forget_crc_def split: if_splits)

lemma record_delta_other:
  "j \<noteq> j' \<Longrightarrow> record_delta (m3p_publish_durable_delta d seq (set_record_target i j e s)) i j' = record_delta s i j'"
  by (cases "i < length (recovered_map s)")
    (simp_all add: record_delta_def m3p_publish_durable_delta_def set_record_target_def p2l_set_def Let_def
      list_update_beyond)

lemma durable_published:
  "durable (m3p_publish_durable_delta d seq (set_record_target i j e s)) =
    (durable s)[unat (d_lpn d) := committed seq d]"
  "visible (m3p_publish_durable_delta d seq (set_record_target i j e s)) =
    (visible s)[unat (d_lpn d) := committed seq d]"
  by (simp_all add: m3p_publish_durable_delta_def set_record_target_def p2l_set_def committed_def Let_def)

lemma apply_deltas_patch:
  assumes "apply_deltas i js seq s = (True, t)" and "distinct js"
    and "\<forall>j \<in> set js. me_state (d_target (record_delta s i j)) = M3P_L2P_VALUE \<longrightarrow>
      me_logical_version (d_target (record_delta s i j)) \<noteq> 0"
  shows "map forget_crc (durable t) =
      patch (\<lambda>d. forget_crc (committed seq d)) (map (record_delta s i) js) (map forget_crc (durable s))"
  using assms
proof (induction i js seq s rule: apply_deltas.induct)
  case (1 i seq s)
  then show ?case by simp
next
  case (2 i j js seq s)
  let ?d = "record_delta s i j"
  have agrees: "\<not> \<not> prior_agrees s ?d"
    using "2.prems"(1) by (auto simp: Let_def split: if_splits)
  obtain e where e: "data_record_matches s (d_lpn ?d) (d_target ?d) = Some e"
    using "2.prems"(1) agrees by (auto simp: Let_def split: option.splits)
  let ?s = "m3p_publish_durable_delta (?d\<lparr>d_target := e\<rparr>) seq (set_record_target i j e s)"
  have rec: "apply_deltas i js seq ?s = (True, t)"
    using "2.prems"(1) agrees e by (simp add: Let_def)
  have same: "record_delta ?s i j' = record_delta s i j'" if "j' \<in> set js" for j'
    using "2.prems"(2) that by (intro record_delta_other) auto
  have IH: "map forget_crc (durable t) =
      patch (\<lambda>d. forget_crc (committed seq d)) (map (record_delta ?s i) js) (map forget_crc (durable ?s))"
    using "2.IH" [OF refl agrees e rec] "2.prems"(2,3) same by simp
  have deltas: "map (record_delta ?s i) js = map (record_delta s i) js"
    using same by (rule map_cong [OF refl])
  have "forget_crc (committed seq (?d\<lparr>d_target := e\<rparr>)) = forget_crc (committed seq ?d)"
    using matched_entry [OF e, of seq] "2.prems"(3) by (simp add: committed_def)
  then show ?case
    unfolding IH deltas durable_published by (simp add: map_update)
qed

text \<open>A target the write and trim paths produce: a page that holds no value has no other content.\<close>

definition tidy_target :: "m3p_map_entry \<Rightarrow> bool" where
  "tidy_target e \<longleftrightarrow> me_state e = M3P_L2P_VALUE \<or> canon_target e = e\<lparr>me_map_sequence := 0\<rparr>"

lemma committed_canon:
  assumes "tidy_target (d_target d)"
  shows "committed seq (canon_delta d) = committed seq d"
  using assms by (auto simp: tidy_target_def committed_def canon_delta_def canon_target_def)

lemma canon_lpn: "d_lpn (canon_delta d) = d_lpn d"
  by (simp add: canon_delta_def)

lemma commit_programmed_durable:
  "durable (commit_programmed pd s) = patch (committed (map_sequence s + 1)) (pending_deltas pd) (durable s)"
proof -
  let ?j = "journal_advance s"
  have j: "map_sequence ?j = map_sequence s + 1" "durable ?j = durable s"
    by (simp_all add: journal_advance_def m3p_child_consume_def Let_def)
  obtain p where "publish_durable_all (pd_delta pd) (unat (pd_delta_count pd)) (map_sequence ?j) ?j =
     ?j\<lparr>durable := patch (committed (map_sequence ?j)) (pending_deltas pd) (durable ?j),
       visible := patch (committed (map_sequence ?j)) (pending_deltas pd) (visible ?j), p2l := p\<rparr>"
    unfolding pending_deltas_def using publish_durable_all_eq by blast
  then show ?thesis
    by (simp add: commit_programmed_def Let_def set_op_state_def frame_simps j)
qed

text \<open>
  C3. Replay redoes the commit. Let a well-formed transaction of a write or trim be committed: its
  record is written to the journal page and its changes go to the durable map. If recovery finds that
  page, decodes it into slot \<open>i\<close> and replays it on the same durable map, and accepts it, then it
  arrives at the same durable map, entry for entry, up to the data checksum, which recovery takes
  from the data page itself.
\<close>

theorem replay_redoes_commit:
  assumes "map_wf (pending_record pd s)"
    and "pd_subtype pd = M3P_MAP_WRITE \<or> pd_subtype pd = M3P_MAP_TRIM"
    and "\<forall>d \<in> set (pending_deltas pd). tidy_target (d_target d)"
    and "m3p_decode_map (m3p_encode_map (pending_record pd s)) = Some (rr_map (recovered_map u ! i))"
    and "durable u = durable s" and "apply_recovered_record i u = (True, t)"
  shows "map forget_crc (durable t) = map forget_crc (durable (commit_programmed pd s))"
proof -
  let ?r = "pending_record pd s" and ?m = "rr_map (recovered_map u ! i)"
  let ?n = "unat (pd_delta_count pd)" and ?seq = "map_sequence s + 1"
  have m: "?m = canon_map ?r"
    using assms(4) map_codec.dec_enc [OF assms(1)] by simp
  have n: "?n \<le> 3" and wf: "\<forall>j < ?n. delta_wf (mr_delta ?r ! j)" and len: "length (mr_delta ?r) = 3"
    using assms(1) by (auto simp: map_wf_def pending_record_def word_le_nat_alt)
  have plen: "length (pending_deltas pd) = ?n"
    using len n by (simp add: pending_record_def pending_deltas_def)
  have del: "mr_delta ?r ! j = pending_deltas pd ! j" if "j < ?n" for j
    using that plen by (simp add: pending_record_def pending_deltas_def nth_append)
  have canon: "record_delta u i j = canon_delta (pending_deltas pd ! j)" if "j < ?n" for j
  proof -
    have "mr_delta ?m ! j = map canon_delta (take ?n (mr_delta ?r)) ! j"
      using that n len by (simp add: m canon_map_def pending_record_def nth_append)
    then show ?thesis
      using that n len del [OF that] by (simp add: record_delta_def)
  qed
  have sub: "mr_subtype ?m = pd_subtype pd" and cnt: "mr_delta_count ?m = pd_delta_count pd"
    and res: "mr_resulting_map_sequence ?m = ?seq"
    by (simp_all add: m canon_map_def pending_record_def)
  have app: "apply_deltas i [0..<?n] ?seq u = (True, t)"
    using assms(2,6) by (auto simp: apply_recovered_record_def Let_def sub cnt res)
  have ver: "\<forall>j \<in> set [0..<?n]. me_state (d_target (record_delta u i j)) = M3P_L2P_VALUE \<longrightarrow>
      me_logical_version (d_target (record_delta u i j)) \<noteq> 0"
    using wf del by (auto simp: canon canon_delta_def canon_target_def delta_wf_def zero_map_entry_def
        split: if_splits)
  have "map (record_delta u i) [0..<?n] = map canon_delta (pending_deltas pd)"
    using canon plen by (intro nth_equalityI) simp_all
  then have "map forget_crc (durable t) = patch (\<lambda>d. forget_crc (committed ?seq d))
      (map canon_delta (pending_deltas pd)) (map forget_crc (durable s))"
    using apply_deltas_patch [OF app _ ver] assms(5) by simp
  also have "\<dots> = patch (\<lambda>d. forget_crc (committed ?seq d)) (pending_deltas pd) (map forget_crc (durable s))"
    using assms(3) by (intro patch_cong) (simp add: list_all2_conv_all_nth committed_canon canon_lpn)
  also have "\<dots> = map forget_crc (durable (commit_programmed pd s))"
    by (simp add: commit_programmed_durable patch_map)
  finally show ?thesis .
qed

text \<open>A trim of page 7, as the journal holds it and as the scan of the medium finds it again.\<close>

definition sample_trimmed :: m3p_pending where
  "sample_trimmed = zero_pending\<lparr>pd_active := True, pd_subtype := M3P_MAP_TRIM, pd_delta_count := 1,
     pd_host_sequence := 1, pd_transaction_sequence := 1,
     pd_delta := [\<lparr>d_lpn = 7, d_target = unmapped_entry\<lparr>me_state := M3P_L2P_TOMBSTONE, me_logical_version := 1\<rparr>,
       d_prior = unmapped_entry\<rparr>, zero_delta, zero_delta]\<rparr>"

definition sample_found :: fwlab_m3p where
  "sample_found = sample_m3p\<lparr>recovery_map_count := 1, recovered_map := (recovered_map sample_m3p)
     [0 := zero_recovery_record\<lparr>rr_valid := True, rr_map := canon_map (pending_record sample_trimmed sample_m3p)\<rparr>]\<rparr>"

lemmas sample_found_defs = sample_found_def sample_trimmed_def pending_record_def sample_defs zero_pending_def
  zero_map_record_def zero_delta_def unmapped_entry_def zero_map_entry_def

theorem replay_redoes_commit_witness:
  "map forget_crc (durable (snd (apply_recovered_record 0 sample_found))) =
   map forget_crc (durable (commit_programmed sample_trimmed sample_m3p))"
proof -
  have wf: "map_wf (pending_record sample_trimmed sample_m3p)"
    by (simp add: map_wf_def delta_wf_def sample_found_defs)
  have tidy: "\<forall>d \<in> set (pending_deltas sample_trimmed). tidy_target (d_target d)"
    by (simp add: pending_deltas_def tidy_target_def canon_target_def sample_found_defs)
  have found: "rr_map (recovered_map sample_found ! 0) = canon_map (pending_record sample_trimmed sample_m3p)"
    by (simp add: sample_found_def sample_defs)
  have sub: "pd_subtype sample_trimmed = M3P_MAP_WRITE \<or> pd_subtype sample_trimmed = M3P_MAP_TRIM"
    by (simp add: sample_trimmed_def)
  have same: "durable sample_found = durable sample_m3p"
    by (simp add: sample_found_def)
  have delta: "record_delta sample_found 0 0 = canon_delta (pd_delta sample_trimmed ! 0)"
    by (simp add: record_delta_def found) (simp add: canon_map_def pending_record_def sample_trimmed_def)
  have "apply_recovered_record 0 sample_found = (True, snd (apply_recovered_record 0 sample_found))"
    by (simp add: apply_recovered_record_def found Let_def)
      (simp add: canon_map_def pending_record_def sample_trimmed_def delta Let_def prior_agrees_def
        data_record_matches_def canon_delta_def canon_target_def canon_prior_def unmapped_entry_def zero_map_entry_def)
  moreover have "m3p_decode_map (m3p_encode_map (pending_record sample_trimmed sample_m3p)) =
      Some (rr_map (recovered_map sample_found ! 0))"
    using map_codec.dec_enc [OF wf] found by simp
  ultimately show ?thesis
    using replay_redoes_commit [OF wf sub tidy _ same] by blast
qed

end
