(* ===== verification/M3p_Device_Laws.thy ===== *)
theory M3p_Device_Laws
  imports M3p_Cancel
begin

text \<open>
  The resources of the translation layer: data pages are handed out in wear order and never twice, the
  pending transactions form a first-in first-out queue, the numbers of controller operations never
  repeat, and a controller operation counts as done only if the controller reported the success of
  exactly that operation.
\<close>

section \<open>Pages\<close>

text \<open>
  C28. Page allocation: a page is handed out exactly when some data block has a free page; it is the next
  free page of the open data block with the fewest erases (the lowest such block on a tie), it is
  marked as pending, the block's write pointer moves past it, so it is not handed out again before an
  erase, and no other page changes its state. A refused allocation changes nothing.
\<close>

theorem allocation_least_worn:
  assumes "length (p2l s) = 512" and "length (block_next_page s) = 16"
  shows "case m3p_allocate_data_page s of
      (None, t) \<Rightarrow> t = s \<and> (\<forall>b < 16. \<not> open_block s b)
    | (Some ppa, t) \<Rightarrow> (\<exists>b < 16. least_worn s 16 b \<and>
        ppa = ppa_at (of_nat b) (ucast (block_next_page s ! b)) \<and>
        block_next_page t = (block_next_page s)[b := block_next_page s ! b + 1] \<and>
        block_next_page s ! b < block_next_page t ! b \<and>
        (\<forall>b' p. p < 32 \<longrightarrow> p2l_at t b' p =
          (if b' = of_nat b \<and> p = block_next_page s ! b then M3P_P2L_VISIBLE_PENDING else p2l_at s b' p)))"
proof (cases "m3p_allocate_data_page s")
  case (Pair r t)
  show ?thesis
  proof (cases r)
    case None
    then have "select_data_block s = None"
      using Pair by (auto simp: m3p_allocate_data_page_def Let_def split: option.splits)
    then show ?thesis
      using Pair None allocate_None by (auto simp: select_data_block_None)
  next
    case (Some ppa)
    obtain b where b: "least_worn s 16 b" "ppa = ppa_at (of_nat b) (ucast (block_next_page s ! b))"
      and t: "t = p2l_set (of_nat b) (block_next_page s ! b) M3P_P2L_VISIBLE_PENDING
        (s\<lparr>block_next_page := (block_next_page s)[b := block_next_page s ! b + 1]\<rparr>)"
      using Pair Some allocate_Some by metis
    have b16: "b < 16" and free: "block_next_page s ! b < 32"
      using b(1) by (simp_all add: least_worn_def open_block_def)
    have "(of_nat b :: u8) < 16"
      using b16 by (simp add: word_less_nat_alt unat_of_nat)
    then have "p2l_at t b' p = (if b' = of_nat b \<and> p = block_next_page s ! b
        then M3P_P2L_VISIBLE_PENDING else p2l_at s b' p)" if "p < 32" for b' p
      unfolding t using assms(1) free that by (subst p2l_at_set) (auto simp: p2l_at_def)
    moreover have "unat (block_next_page s ! b + 1) = Suc (unat (block_next_page s ! b))"
      using free by (rule unat_succ_less)
    then have "block_next_page s ! b < block_next_page t ! b"
      using b16 assms(2) by (simp add: t p2l_set_def word_less_nat_alt)
    ultimately show ?thesis
      using Pair Some b b16 by (intro case_prodI2) (auto simp: t p2l_set_def)
  qed
qed

theorem allocation_least_worn_witness:
  "\<exists>b < 16. fst (m3p_allocate_data_page sample_m3p) =
     Some (ppa_at (of_nat b) (ucast (block_next_page sample_m3p ! b)))"
proof -
  have "length (p2l sample_m3p) = 512" and "length (block_next_page sample_m3p) = 16"
    and "open_block sample_m3p 0"
    by (simp_all add: sample_defs open_block_def initial_role_def)
  then show ?thesis
    using allocation_least_worn [of sample_m3p]
    by (cases "m3p_allocate_data_page sample_m3p"; cases "fst (m3p_allocate_data_page sample_m3p)") auto
qed

section \<open>Pending transactions\<close>

text \<open>
  C29. The ring of pending transactions refines a first-in first-out queue of capacity four: the front is
  the oldest entry, popping removes it, appending adds an entry at the end or, when four are pending,
  refuses and changes nothing, and both keep the ring well formed.
\<close>

theorem ring_refines_fifo:
  assumes "ring_inv s" and "pending_ok pd"
    and "r = m3p_pending_append (pd_subtype pd) (pd_host_sequence pd) (pd_delta pd) (pd_delta_count pd) s"
  shows "length (ring_abs s) \<le> 4 \<and>
    m3p_pending_front s = (case ring_abs s of [] \<Rightarrow> None | x # _ \<Rightarrow> Some x) \<and>
    ring_inv (m3p_pending_pop s) \<and> ring_abs (m3p_pending_pop s) = tl (ring_abs s) \<and>
    (if length (ring_abs s) < 4
     then fst r \<and> ring_inv (snd r) \<and> ring_abs (snd r) = ring_abs s @ [pd] else r = (False, s))"
proof -
  have r: "r = ring_put pd s"
    using assms(3) by (simp add: ring_put_def)
  show ?thesis
    unfolding r using assms(1,2) ring.abs_bound [of s] ring.front_abs [of s] ring.pop_inv [of s]
      ring.pop_abs [of s] ring.put_taken [of s pd] ring.put_full [of s pd] by auto
qed

definition sample_pending :: m3p_pending where
  "sample_pending = zero_pending\<lparr>pd_active := True, pd_subtype := M3P_MAP_TRIM, pd_delta_count := 1\<rparr>"

theorem ring_refines_fifo_witness:
  "ring_abs (snd (m3p_pending_append M3P_MAP_TRIM 0 (pd_delta sample_pending) 1 sample_m3p)) = [sample_pending]"
proof -
  have "ring_inv sample_m3p" and e: "ring_abs sample_m3p = []"
    by (auto simp: ring_inv_def ring_slot_def ring_abs_def sample_defs zero_pending_def)
  moreover have "replicate 3 zero_delta = zero_delta # replicate 2 zero_delta"
    by (simp add: eval_nat_numeral)
  then have "pending_ok sample_pending"
    by (simp add: pending_ok_def sample_pending_def zero_pending_def)
  moreover have "pd_subtype sample_pending = M3P_MAP_TRIM" "pd_host_sequence sample_pending = 0"
    "pd_delta_count sample_pending = 1"
    by (simp_all add: sample_pending_def zero_pending_def)
  ultimately show ?thesis
    using ring_refines_fifo [of sample_m3p sample_pending, OF _ _ refl] by simp
qed

section \<open>Controller operations\<close>

text \<open>
  Operation numbers never repeat: a started page read has taken the next two operation numbers, both
  within the configured limit, and the counter is past them; no addition wraps around, so the numbers
  of later operations are larger.
\<close>

theorem operation_numbers_increase:
  assumes "m3p_child_read_start frame ppa s = (FWLAB_SPINE_V0_OK, t)"
  shows "tok_operation_uid (nr_operation (ch_first (child t))) = next_child_uid s \<and>
    unat (tok_operation_uid (nr_operation (ch_second (child t)))) = unat (next_child_uid s) + 1 \<and>
    unat (next_child_uid t) = unat (next_child_uid s) + 2 \<and>
    next_child_uid s \<noteq> 0 \<and>
    unat (next_child_uid s) + 1 \<le> unat (cfg_nfc_operation_uid_limit (config s)) \<and>
    nr_kind (ch_first (child t)) = FWLAB_NFC_READ_TRIGGER \<and>
    nr_kind (ch_second (child t)) = FWLAB_NFC_READ_TRANSFER \<and>
    nr_ppa (ch_first (child t)) = ppa \<and> nr_ppa (ch_second (child t)) = ppa"
proof -
  let ?u = "next_child_uid s" and ?l = "ucast (cfg_nfc_operation_uid_limit (config s)) :: u64"
  have "token_available s 2"
    using assms by (auto simp: m3p_child_read_start_def split: if_splits)
  then have nz: "?u \<noteq> 0" and le: "?u \<le> ?l" and "(1 :: u64) \<le> ?l - ?u"
    by (simp_all add: token_available_def Let_def)
  then have "1 \<le> unat ?l - unat ?u"
    by (simp add: word_le_nat_alt unat_sub)
  then have bound: "unat ?u + 1 \<le> unat ?l"
    by linarith
  have "unat ?l < 4294967296"
    by simp
  then have "unat ?u + 2 < 18446744073709551616"
    using bound by linarith
  then have "unat (?u + 1) = unat ?u + 1" and "unat (?u + 1 + 1) = unat ?u + 2"
    by (simp_all add: unat_word_ariths)
  then show ?thesis
    using assms nz bound
    by (auto simp: m3p_child_read_start_def request_common_def allocate_token_def Let_def split: if_splits)
qed

theorem operation_numbers_increase_witness:
  "unat (next_child_uid (snd (m3p_child_read_start 0 (ppa_at 0 0) sample_m3p))) = 3"
proof -
  have "fst (m3p_child_read_start 0 (ppa_at 0 0) sample_m3p) = FWLAB_SPINE_V0_OK"
    by (simp add: m3p_child_read_start_def request_common_def allocate_token_def sample_defs token_available_def
        zero_child_def)
  then have "m3p_child_read_start 0 (ppa_at 0 0) sample_m3p =
      (FWLAB_SPINE_V0_OK, snd (m3p_child_read_start 0 (ppa_at 0 0) sample_m3p))"
    by (metis prod.collapse)
  moreover have "next_child_uid sample_m3p = 1"
    by (simp add: sample_defs)
  ultimately show ?thesis
    using operation_numbers_increase by fastforce
qed

text \<open>
  C27. Done means done: whatever the controller reports, polling moves the outstanding operation to its
  final success state only if the controller returned exactly one completion and that completion
  carries the token, the kind and the address of the outstanding request, is a success, and, for a
  program or an erase, reports a physical effect. Otherwise the operation fails or goes on.
\<close>

theorem done_only_on_success:
  assumes "ch_state (child s) = M3P_CHILD_WAIT_FIRST \<or> ch_state (child s) = M3P_CHILD_WAIT_SECOND"
    and "m3p_nfc_poll nfc (s, n) events = (moved, events', t, n')"
    and "ch_state (child t) = M3P_CHILD_DONE"
    and "rq = child_request (child s) (ch_state (child s) = M3P_CHILD_WAIT_FIRST)"
  shows "\<exists>cp. np_poll nfc 1 zero_completion 1 n = (FWLAB_NFC_API_OK, cp, 1, n') \<and>
    nc_operation cp = nr_operation rq \<and> nc_operation_kind cp = nr_kind rq \<and> nc_ppa cp = nr_ppa rq \<and>
    nc_terminal cp = FWLAB_NFC_TERMINAL_SUCCESS \<and>
    (nr_kind rq = FWLAB_NFC_PROGRAM_EXECUTE \<or> nr_kind rq = FWLAB_NFC_ERASE \<longrightarrow>
       nc_physical_outcome cp \<noteq> FWLAB_NFC_PHYS_NO_EFFECT) \<and>
    (ch_state (child s) = M3P_CHILD_WAIT_FIRST \<longrightarrow> ch_kind (child s) = M3P_CHILD_ERASE)"
proof -
  obtain result cp count m where poll: "np_poll nfc 1 zero_completion 1 n = (result, cp, count, m)"
    by (metis prod_cases4)
  have "result = FWLAB_NFC_API_OK" and m: "m = n'" and t: "child t = child_complete count cp (child s)"
    using assms(1-3) by (auto simp: m3p_nfc_poll_def poll Let_def split: if_splits)
  moreover have "count = 1" and "completion_matches rq cp"
    and "ch_state (child s) = M3P_CHILD_WAIT_FIRST \<longrightarrow> ch_kind (child s) = M3P_CHILD_ERASE"
    using assms(3,4) unfolding t by (auto simp: child_complete_def Let_def split: if_splits)
  ultimately show ?thesis
    using poll by (auto simp: completion_matches_def operation_token_equal_def)
qed

text \<open>An erase waiting for its completion, and a controller that reports it.\<close>

definition sample_erasing :: fwlab_m3p where
  "sample_erasing = sample_m3p\<lparr>child := zero_child\<lparr>ch_state := M3P_CHILD_WAIT_FIRST, ch_kind := M3P_CHILD_ERASE,
     ch_first := zero_request\<lparr>nr_kind := FWLAB_NFC_ERASE\<rparr>\<rparr>\<rparr>"

definition sample_completion :: nfc_completion where
  "sample_completion = zero_completion\<lparr>nc_operation := nr_operation zero_request, nc_operation_kind := FWLAB_NFC_ERASE,
     nc_ppa := nr_ppa zero_request, nc_terminal := FWLAB_NFC_TERMINAL_SUCCESS,
     nc_physical_outcome := FWLAB_NFC_PHYS_APPLIED\<rparr>"

definition finishing_nfc :: "unit nfc_provider" where
  "finishing_nfc = idle_nfc\<lparr>np_poll := \<lambda>_ _ _ n. (FWLAB_NFC_API_OK, sample_completion, 1, n)\<rparr>"

theorem done_only_on_success_witness:
  "\<exists>cp. np_poll finishing_nfc 1 zero_completion 1 () = (FWLAB_NFC_API_OK, cp, 1, ()) \<and>
     nc_terminal cp = FWLAB_NFC_TERMINAL_SUCCESS"
proof -
  let ?t = "sample_erasing\<lparr>child := child_complete 1 sample_completion (child sample_erasing)\<rparr>"
  have "ch_state (child sample_erasing) = M3P_CHILD_WAIT_FIRST"
    by (simp add: sample_erasing_def)
  moreover from this have "m3p_nfc_poll finishing_nfc (sample_erasing, ()) 0 = (True, 1, ?t, ())"
    by (simp add: m3p_nfc_poll_def finishing_nfc_def)
  moreover have "ch_state (child ?t) = M3P_CHILD_DONE"
    by (simp add: child_complete_def sample_erasing_def completion_matches_def sample_completion_def child_request_def
        operation_token_equal_def)
  ultimately show ?thesis
    using done_only_on_success [of sample_erasing finishing_nfc "()" 0 True 1 ?t "()", OF _ _ _ refl] by blast
qed

end
