(* ===== verification/Nvme_Types.thy ===== *)
theory Nvme_Types
  imports Block_Contract
begin

text \<open>
  The values the NVMe command core works on: the address-free commands, completions and the fixed
  profile (\<open>include/fwlab/portable/nvme_types.h\<close>), the policy requests and plans with their transfer
  shapes, Identify recipes, block intents and completion witnesses (\<open>nvme_policy.h\<close>), and the actions
  the core exchanges with its providers (\<open>hif_action.h\<close>, \<open>hif_command_port.h\<close>,
  \<open>block_action_port.h\<close>, \<open>hif_queue_effect_port.h\<close>, \<open>hif_target_resolver_port.h\<close>). Every field of
  the C structures is kept, the reserved ones too, because the validators read them. Enumerations are
  numbers of the width of the field that holds them, as the code compares them with bounds. A token
  of two 64-bit words is a pair.
\<close>

section \<open>Enumerations\<close>

abbreviation (input) FWLAB_NVME_QUEUE_ADMIN :: u8 where "FWLAB_NVME_QUEUE_ADMIN \<equiv> 1"
abbreviation (input) FWLAB_NVME_QUEUE_IO :: u8 where "FWLAB_NVME_QUEUE_IO \<equiv> 2"

abbreviation (input) FWLAB_NVME_FUSE_NONE :: u8 where "FWLAB_NVME_FUSE_NONE \<equiv> 0"
abbreviation (input) FWLAB_NVME_FUSE_FIRST :: u8 where "FWLAB_NVME_FUSE_FIRST \<equiv> 1"
abbreviation (input) FWLAB_NVME_FUSE_SECOND :: u8 where "FWLAB_NVME_FUSE_SECOND \<equiv> 2"
abbreviation (input) FWLAB_NVME_FUSE_RESERVED :: u8 where "FWLAB_NVME_FUSE_RESERVED \<equiv> 3"

abbreviation (input) FWLAB_NVME_DATA_POINTER_PRP :: u8 where "FWLAB_NVME_DATA_POINTER_PRP \<equiv> 0"
abbreviation (input) FWLAB_NVME_DATA_POINTER_UNSUPPORTED_1 :: u8 where "FWLAB_NVME_DATA_POINTER_UNSUPPORTED_1 \<equiv> 1"
abbreviation (input) FWLAB_NVME_DATA_POINTER_UNSUPPORTED_2 :: u8 where "FWLAB_NVME_DATA_POINTER_UNSUPPORTED_2 \<equiv> 2"
abbreviation (input) FWLAB_NVME_DATA_POINTER_RESERVED :: u8 where "FWLAB_NVME_DATA_POINTER_RESERVED \<equiv> 3"

abbreviation (input) FWLAB_NVME_TRANSPORT_NONE :: u32 where "FWLAB_NVME_TRANSPORT_NONE \<equiv> 0"
abbreviation (input) FWLAB_NVME_TRANSPORT_UNSAFE_GRAPH :: u32 where "FWLAB_NVME_TRANSPORT_UNSAFE_GRAPH \<equiv> 1"
abbreviation (input) FWLAB_NVME_TRANSPORT_UNSUPPORTED_FORMAT :: u32 where "FWLAB_NVME_TRANSPORT_UNSUPPORTED_FORMAT \<equiv> 2"
abbreviation (input) FWLAB_NVME_TRANSPORT_QUEUE_MEMORY :: u32 where "FWLAB_NVME_TRANSPORT_QUEUE_MEMORY \<equiv> 3"
abbreviation (input) FWLAB_NVME_TRANSPORT_STALE_GENERATION :: u32 where "FWLAB_NVME_TRANSPORT_STALE_GENERATION \<equiv> 4"

abbreviation (input) FWLAB_NVME_EFFECT_NONE :: u8 where "FWLAB_NVME_EFFECT_NONE \<equiv> 0"
abbreviation (input) FWLAB_NVME_EFFECT_FULL :: u8 where "FWLAB_NVME_EFFECT_FULL \<equiv> 1"
abbreviation (input) FWLAB_NVME_EFFECT_EXACT_PREFIX :: u8 where "FWLAB_NVME_EFFECT_EXACT_PREFIX \<equiv> 2"
abbreviation (input) FWLAB_NVME_EFFECT_UNKNOWN_PREFIX :: u8 where "FWLAB_NVME_EFFECT_UNKNOWN_PREFIX \<equiv> 3"

abbreviation (input) FWLAB_NVME_PROFILE_READ :: u32 where "FWLAB_NVME_PROFILE_READ \<equiv> 1"
abbreviation (input) FWLAB_NVME_PROFILE_WRITE :: u32 where "FWLAB_NVME_PROFILE_WRITE \<equiv> 2"
abbreviation (input) FWLAB_NVME_PROFILE_FLUSH :: u32 where "FWLAB_NVME_PROFILE_FLUSH \<equiv> 4"
abbreviation (input) FWLAB_NVME_PROFILE_FUA :: u32 where "FWLAB_NVME_PROFILE_FUA \<equiv> 8"
abbreviation (input) FWLAB_NVME_PROFILE_VOLATILE_WRITE_CACHE :: u32 where "FWLAB_NVME_PROFILE_VOLATILE_WRITE_CACHE \<equiv> 16"
abbreviation (input) FWLAB_NVME_PROFILE_PRP_DIRECT :: u32 where "FWLAB_NVME_PROFILE_PRP_DIRECT \<equiv> 32"

abbreviation (input) FWLAB_C43_REQUEST_IDENTIFY_CONTROLLER :: u8 where "FWLAB_C43_REQUEST_IDENTIFY_CONTROLLER \<equiv> 1"
abbreviation (input) FWLAB_C43_REQUEST_IDENTIFY_NAMESPACE :: u8 where "FWLAB_C43_REQUEST_IDENTIFY_NAMESPACE \<equiv> 2"
abbreviation (input) FWLAB_C43_REQUEST_IDENTIFY_ACTIVE_NAMESPACE_LIST :: u8 where "FWLAB_C43_REQUEST_IDENTIFY_ACTIVE_NAMESPACE_LIST \<equiv> 3"
abbreviation (input) FWLAB_C43_REQUEST_IDENTIFY_NAMESPACE_DESCRIPTOR_LIST :: u8 where "FWLAB_C43_REQUEST_IDENTIFY_NAMESPACE_DESCRIPTOR_LIST \<equiv> 4"
abbreviation (input) FWLAB_C43_REQUEST_SET_NUMBER_OF_QUEUES :: u8 where "FWLAB_C43_REQUEST_SET_NUMBER_OF_QUEUES \<equiv> 5"
abbreviation (input) FWLAB_C43_REQUEST_CREATE_IO_CQ :: u8 where "FWLAB_C43_REQUEST_CREATE_IO_CQ \<equiv> 6"
abbreviation (input) FWLAB_C43_REQUEST_CREATE_IO_SQ :: u8 where "FWLAB_C43_REQUEST_CREATE_IO_SQ \<equiv> 7"
abbreviation (input) FWLAB_C43_REQUEST_DELETE_IO_CQ :: u8 where "FWLAB_C43_REQUEST_DELETE_IO_CQ \<equiv> 8"
abbreviation (input) FWLAB_C43_REQUEST_DELETE_IO_SQ :: u8 where "FWLAB_C43_REQUEST_DELETE_IO_SQ \<equiv> 9"
abbreviation (input) FWLAB_C43_REQUEST_ABORT :: u8 where "FWLAB_C43_REQUEST_ABORT \<equiv> 10"
abbreviation (input) FWLAB_C43_REQUEST_READ :: u8 where "FWLAB_C43_REQUEST_READ \<equiv> 11"
abbreviation (input) FWLAB_C43_REQUEST_WRITE :: u8 where "FWLAB_C43_REQUEST_WRITE \<equiv> 12"
abbreviation (input) FWLAB_C43_REQUEST_FLUSH :: u8 where "FWLAB_C43_REQUEST_FLUSH \<equiv> 13"
abbreviation (input) FWLAB_C43_REQUEST_UNSUPPORTED :: u8 where "FWLAB_C43_REQUEST_UNSUPPORTED \<equiv> 14"

abbreviation (input) FWLAB_C43_PLAN_IMMEDIATE :: u32 where "FWLAB_C43_PLAN_IMMEDIATE \<equiv> 1"
abbreviation (input) FWLAB_C43_PLAN_QUEUE_EFFECT :: u32 where "FWLAB_C43_PLAN_QUEUE_EFFECT \<equiv> 2"
abbreviation (input) FWLAB_C43_PLAN_ABORT_RESOLVE :: u32 where "FWLAB_C43_PLAN_ABORT_RESOLVE \<equiv> 3"
abbreviation (input) FWLAB_C43_PLAN_PAYLOAD :: u32 where "FWLAB_C43_PLAN_PAYLOAD \<equiv> 4"
abbreviation (input) FWLAB_C43_PLAN_BLOCK :: u32 where "FWLAB_C43_PLAN_BLOCK \<equiv> 5"

abbreviation (input) FWLAB_C43_STATUS_SUCCESS :: u32 where "FWLAB_C43_STATUS_SUCCESS \<equiv> 0"
abbreviation (input) FWLAB_C43_STATUS_UNSUPPORTED_COMMAND :: u32 where "FWLAB_C43_STATUS_UNSUPPORTED_COMMAND \<equiv> 1"
abbreviation (input) FWLAB_C43_STATUS_INVALID_FIELD :: u32 where "FWLAB_C43_STATUS_INVALID_FIELD \<equiv> 2"
abbreviation (input) FWLAB_C43_STATUS_INVALID_NAMESPACE :: u32 where "FWLAB_C43_STATUS_INVALID_NAMESPACE \<equiv> 3"
abbreviation (input) FWLAB_C43_STATUS_LBA_RANGE :: u32 where "FWLAB_C43_STATUS_LBA_RANGE \<equiv> 4"
abbreviation (input) FWLAB_C43_STATUS_COMMAND_SEQUENCE :: u32 where "FWLAB_C43_STATUS_COMMAND_SEQUENCE \<equiv> 5"
abbreviation (input) FWLAB_C43_STATUS_INVALID_QUEUE :: u32 where "FWLAB_C43_STATUS_INVALID_QUEUE \<equiv> 6"
abbreviation (input) FWLAB_C43_STATUS_INVALID_QUEUE_SIZE :: u32 where "FWLAB_C43_STATUS_INVALID_QUEUE_SIZE \<equiv> 7"
abbreviation (input) FWLAB_C43_STATUS_INVALID_QUEUE_DELETE :: u32 where "FWLAB_C43_STATUS_INVALID_QUEUE_DELETE \<equiv> 8"
abbreviation (input) FWLAB_C43_STATUS_ABORTED :: u32 where "FWLAB_C43_STATUS_ABORTED \<equiv> 9"
abbreviation (input) FWLAB_C43_STATUS_TRANSFER_FAILURE :: u32 where "FWLAB_C43_STATUS_TRANSFER_FAILURE \<equiv> 10"
abbreviation (input) FWLAB_C43_STATUS_MEDIA_FAILURE :: u32 where "FWLAB_C43_STATUS_MEDIA_FAILURE \<equiv> 11"
abbreviation (input) FWLAB_C43_STATUS_RESOURCE_FAILURE :: u32 where "FWLAB_C43_STATUS_RESOURCE_FAILURE \<equiv> 12"
abbreviation (input) FWLAB_C43_STATUS_INTERNAL_FAILURE :: u32 where "FWLAB_C43_STATUS_INTERNAL_FAILURE \<equiv> 13"

abbreviation (input) FWLAB_C43_TRANSFER_NONE :: u32 where "FWLAB_C43_TRANSFER_NONE \<equiv> 0"
abbreviation (input) FWLAB_C43_TRANSFER_HOST_TO_CONTROLLER :: u32 where "FWLAB_C43_TRANSFER_HOST_TO_CONTROLLER \<equiv> 1"
abbreviation (input) FWLAB_C43_TRANSFER_CONTROLLER_TO_HOST :: u32 where "FWLAB_C43_TRANSFER_CONTROLLER_TO_HOST \<equiv> 2"

abbreviation (input) FWLAB_C43_DURABILITY_NONE :: u32 where "FWLAB_C43_DURABILITY_NONE \<equiv> 0"
abbreviation (input) FWLAB_C43_DURABILITY_DEFAULT :: u32 where "FWLAB_C43_DURABILITY_DEFAULT \<equiv> 1"
abbreviation (input) FWLAB_C43_DURABILITY_REQUIRE_SELF :: u32 where "FWLAB_C43_DURABILITY_REQUIRE_SELF \<equiv> 2"
abbreviation (input) FWLAB_C43_DURABILITY_FIXED_FRONTIER :: u32 where "FWLAB_C43_DURABILITY_FIXED_FRONTIER \<equiv> 3"

abbreviation (input) FWLAB_C43_BLOCK_READ :: u32 where "FWLAB_C43_BLOCK_READ \<equiv> 1"
abbreviation (input) FWLAB_C43_BLOCK_WRITE :: u32 where "FWLAB_C43_BLOCK_WRITE \<equiv> 2"
abbreviation (input) FWLAB_C43_BLOCK_FLUSH :: u32 where "FWLAB_C43_BLOCK_FLUSH \<equiv> 3"

abbreviation (input) FWLAB_C43_IDENTIFY_CONTROLLER :: u32 where "FWLAB_C43_IDENTIFY_CONTROLLER \<equiv> 1"
abbreviation (input) FWLAB_C43_IDENTIFY_NAMESPACE :: u32 where "FWLAB_C43_IDENTIFY_NAMESPACE \<equiv> 2"
abbreviation (input) FWLAB_C43_IDENTIFY_ACTIVE_NAMESPACE_LIST :: u32 where "FWLAB_C43_IDENTIFY_ACTIVE_NAMESPACE_LIST \<equiv> 3"
abbreviation (input) FWLAB_C43_IDENTIFY_NAMESPACE_DESCRIPTOR_LIST :: u32 where "FWLAB_C43_IDENTIFY_NAMESPACE_DESCRIPTOR_LIST \<equiv> 4"

abbreviation (input) FWLAB_C43_WITNESS_VALIDATED_ONLY :: u32 where "FWLAB_C43_WITNESS_VALIDATED_ONLY \<equiv> 1"
abbreviation (input) FWLAB_C43_WITNESS_QUEUE_EFFECT_COMMITTED :: u32 where "FWLAB_C43_WITNESS_QUEUE_EFFECT_COMMITTED \<equiv> 2"
abbreviation (input) FWLAB_C43_WITNESS_PAYLOAD_READY :: u32 where "FWLAB_C43_WITNESS_PAYLOAD_READY \<equiv> 4"
abbreviation (input) FWLAB_C43_WITNESS_DMA_IN_COMPLETE :: u32 where "FWLAB_C43_WITNESS_DMA_IN_COMPLETE \<equiv> 8"
abbreviation (input) FWLAB_C43_WITNESS_BLOCK_READ_READY :: u32 where "FWLAB_C43_WITNESS_BLOCK_READ_READY \<equiv> 16"
abbreviation (input) FWLAB_C43_WITNESS_BLOCK_WRITE_COMPLETE :: u32 where "FWLAB_C43_WITNESS_BLOCK_WRITE_COMPLETE \<equiv> 32"
abbreviation (input) FWLAB_C43_WITNESS_DMA_OUT_COMPLETE :: u32 where "FWLAB_C43_WITNESS_DMA_OUT_COMPLETE \<equiv> 64"
abbreviation (input) FWLAB_C43_WITNESS_DURABILITY_COMPLETE :: u32 where "FWLAB_C43_WITNESS_DURABILITY_COMPLETE \<equiv> 128"

abbreviation (input) FWLAB_C43_WITNESS_ALL :: u32 where "FWLAB_C43_WITNESS_ALL \<equiv> 0xff"
abbreviation (input) FWLAB_C43_IDENTIFY_BYTES :: u32 where "FWLAB_C43_IDENTIFY_BYTES \<equiv> 4096"
abbreviation (input) FWLAB_C43_FEATURE_NUMBER_OF_QUEUES :: u32 where "FWLAB_C43_FEATURE_NUMBER_OF_QUEUES \<equiv> 7"

abbreviation (input) FWLAB_HIF_ACTION_QUEUE_EFFECT :: u16 where "FWLAB_HIF_ACTION_QUEUE_EFFECT \<equiv> 1"
abbreviation (input) FWLAB_HIF_ACTION_DMA :: u16 where "FWLAB_HIF_ACTION_DMA \<equiv> 2"
abbreviation (input) FWLAB_HIF_ACTION_BLOCK :: u16 where "FWLAB_HIF_ACTION_BLOCK \<equiv> 3"

abbreviation (input) FWLAB_HIF_ACTION_ACCEPTED :: u32 where "FWLAB_HIF_ACTION_ACCEPTED \<equiv> 0"
abbreviation (input) FWLAB_HIF_ACTION_BACKPRESSURE :: u32 where "FWLAB_HIF_ACTION_BACKPRESSURE \<equiv> 1"
abbreviation (input) FWLAB_HIF_ACTION_REJECTED :: u32 where "FWLAB_HIF_ACTION_REJECTED \<equiv> 2"

abbreviation (input) FWLAB_HIF_ACTION_SUCCESS :: u8 where "FWLAB_HIF_ACTION_SUCCESS \<equiv> 0"
abbreviation (input) FWLAB_HIF_ACTION_CANCELLED :: u8 where "FWLAB_HIF_ACTION_CANCELLED \<equiv> 1"
abbreviation (input) FWLAB_HIF_ACTION_FAILED :: u8 where "FWLAB_HIF_ACTION_FAILED \<equiv> 2"

abbreviation (input) FWLAB_HIF_ACTION_RETRY_NONE :: u8 where "FWLAB_HIF_ACTION_RETRY_NONE \<equiv> 0"
abbreviation (input) FWLAB_HIF_ACTION_RETRY_SAME_TOKEN :: u8 where "FWLAB_HIF_ACTION_RETRY_SAME_TOKEN \<equiv> 1"
abbreviation (input) FWLAB_HIF_ACTION_RETRY_LATER :: u8 where "FWLAB_HIF_ACTION_RETRY_LATER \<equiv> 2"
abbreviation (input) FWLAB_HIF_ACTION_RETRY_NEVER :: u8 where "FWLAB_HIF_ACTION_RETRY_NEVER \<equiv> 3"

abbreviation (input) FWLAB_C43_BLOCK_VALIDATED_ONLY :: u32 where "FWLAB_C43_BLOCK_VALIDATED_ONLY \<equiv> 1"
abbreviation (input) FWLAB_C43_BLOCK_FAILED_NO_EFFECT :: u32 where "FWLAB_C43_BLOCK_FAILED_NO_EFFECT \<equiv> 2"
abbreviation (input) FWLAB_C43_BLOCK_CANCELLED :: u32 where "FWLAB_C43_BLOCK_CANCELLED \<equiv> 3"
abbreviation (input) FWLAB_C43_BLOCK_COMPLETED :: u32 where "FWLAB_C43_BLOCK_COMPLETED \<equiv> 4"

abbreviation (input) FWLAB_C43_BLOCK_CAP_VALIDATION_ONLY :: u32 where "FWLAB_C43_BLOCK_CAP_VALIDATION_ONLY \<equiv> 1"
abbreviation (input) FWLAB_C43_BLOCK_CAP_DATA_EFFECT :: u32 where "FWLAB_C43_BLOCK_CAP_DATA_EFFECT \<equiv> 2"
abbreviation (input) FWLAB_C43_BLOCK_CAP_DURABILITY :: u32 where "FWLAB_C43_BLOCK_CAP_DURABILITY \<equiv> 4"

abbreviation (input) FWLAB_C43_BLOCK_CAP_ALL :: u32 where "FWLAB_C43_BLOCK_CAP_ALL \<equiv> 7"

abbreviation (input) FWLAB_C43_QUEUE_CREATE_CQ :: u32 where "FWLAB_C43_QUEUE_CREATE_CQ \<equiv> 1"
abbreviation (input) FWLAB_C43_QUEUE_CREATE_SQ :: u32 where "FWLAB_C43_QUEUE_CREATE_SQ \<equiv> 2"
abbreviation (input) FWLAB_C43_QUEUE_DELETE_CQ :: u32 where "FWLAB_C43_QUEUE_DELETE_CQ \<equiv> 3"
abbreviation (input) FWLAB_C43_QUEUE_DELETE_SQ :: u32 where "FWLAB_C43_QUEUE_DELETE_SQ \<equiv> 4"

abbreviation (input) FWLAB_C43_QUEUE_ROLE_IO_CQ :: u32 where "FWLAB_C43_QUEUE_ROLE_IO_CQ \<equiv> 1"
abbreviation (input) FWLAB_C43_QUEUE_ROLE_IO_SQ :: u32 where "FWLAB_C43_QUEUE_ROLE_IO_SQ \<equiv> 2"

abbreviation (input) FWLAB_C43_QUEUE_FINISH_COMMIT :: u32 where "FWLAB_C43_QUEUE_FINISH_COMMIT \<equiv> 1"
abbreviation (input) FWLAB_C43_QUEUE_FINISH_ABORT :: u32 where "FWLAB_C43_QUEUE_FINISH_ABORT \<equiv> 2"

abbreviation (input) FWLAB_C43_QUEUE_EFFECT_PREPARE_PENDING :: u32 where "FWLAB_C43_QUEUE_EFFECT_PREPARE_PENDING \<equiv> 1"
abbreviation (input) FWLAB_C43_QUEUE_EFFECT_PREPARED :: u32 where "FWLAB_C43_QUEUE_EFFECT_PREPARED \<equiv> 2"
abbreviation (input) FWLAB_C43_QUEUE_EFFECT_COMMIT_PENDING :: u32 where "FWLAB_C43_QUEUE_EFFECT_COMMIT_PENDING \<equiv> 3"
abbreviation (input) FWLAB_C43_QUEUE_EFFECT_ABORT_PENDING :: u32 where "FWLAB_C43_QUEUE_EFFECT_ABORT_PENDING \<equiv> 4"
abbreviation (input) FWLAB_C43_QUEUE_EFFECT_COMMITTED :: u32 where "FWLAB_C43_QUEUE_EFFECT_COMMITTED \<equiv> 5"
abbreviation (input) FWLAB_C43_QUEUE_EFFECT_ABORTED :: u32 where "FWLAB_C43_QUEUE_EFFECT_ABORTED \<equiv> 6"
abbreviation (input) FWLAB_C43_QUEUE_EFFECT_TOO_LATE :: u32 where "FWLAB_C43_QUEUE_EFFECT_TOO_LATE \<equiv> 7"
abbreviation (input) FWLAB_C43_QUEUE_EFFECT_RESET_SUPERSEDED :: u32 where "FWLAB_C43_QUEUE_EFFECT_RESET_SUPERSEDED \<equiv> 8"
abbreviation (input) FWLAB_C43_QUEUE_EFFECT_FAILED :: u32 where "FWLAB_C43_QUEUE_EFFECT_FAILED \<equiv> 9"
abbreviation (input) FWLAB_C43_QUEUE_EFFECT_POISONED :: u32 where "FWLAB_C43_QUEUE_EFFECT_POISONED \<equiv> 10"
abbreviation (input) FWLAB_C43_QUEUE_EFFECT_RETIRED :: u32 where "FWLAB_C43_QUEUE_EFFECT_RETIRED \<equiv> 11"

abbreviation (input) FWLAB_C43_TARGET_RESOLVE_ABORT :: u32 where "FWLAB_C43_TARGET_RESOLVE_ABORT \<equiv> 1"

abbreviation (input) FWLAB_C43_TARGET_FOUND :: u32 where "FWLAB_C43_TARGET_FOUND \<equiv> 1"
abbreviation (input) FWLAB_C43_TARGET_NOT_FOUND :: u32 where "FWLAB_C43_TARGET_NOT_FOUND \<equiv> 2"
abbreviation (input) FWLAB_C43_TARGET_TOO_LATE :: u32 where "FWLAB_C43_TARGET_TOO_LATE \<equiv> 3"
abbreviation (input) FWLAB_C43_TARGET_STALE :: u32 where "FWLAB_C43_TARGET_STALE \<equiv> 4"
abbreviation (input) FWLAB_C43_TARGET_SUPERSEDED :: u32 where "FWLAB_C43_TARGET_SUPERSEDED \<equiv> 5"
abbreviation (input) FWLAB_C43_TARGET_FAULT :: u32 where "FWLAB_C43_TARGET_FAULT \<equiv> 6"
abbreviation (input) FWLAB_C43_TARGET_RELEASED :: u32 where "FWLAB_C43_TARGET_RELEASED \<equiv> 7"

text \<open>The \<open>sizeof\<close> of the structures, which each of them carries in its header.\<close>

abbreviation (input) sizeof_nvme_command :: u16 where "sizeof_nvme_command \<equiv> 128"
abbreviation (input) sizeof_nvme_completion :: u16 where "sizeof_nvme_completion \<equiv> 64"
abbreviation (input) sizeof_nvme_profile :: u16 where "sizeof_nvme_profile \<equiv> 64"
abbreviation (input) sizeof_c43_policy_request :: u16 where "sizeof_c43_policy_request \<equiv> 128"
abbreviation (input) sizeof_c43_transfer_shape :: u16 where "sizeof_c43_transfer_shape \<equiv> 48"
abbreviation (input) sizeof_c43_identify_recipe :: u16 where "sizeof_c43_identify_recipe \<equiv> 48"
abbreviation (input) sizeof_c43_block_intent :: u16 where "sizeof_c43_block_intent \<equiv> 104"
abbreviation (input) sizeof_c43_policy_plan :: u16 where "sizeof_c43_policy_plan \<equiv> 304"
abbreviation (input) sizeof_c43_completion_witness :: u16 where "sizeof_c43_completion_witness \<equiv> 104"
abbreviation (input) sizeof_hif_action_envelope :: u16 where "sizeof_hif_action_envelope \<equiv> 96"
abbreviation (input) sizeof_hif_action_terminal :: u16 where "sizeof_hif_action_terminal \<equiv> 96"
abbreviation (input) sizeof_hif_action_submit_result :: u16 where "sizeof_hif_action_submit_result \<equiv> 96"
abbreviation (input) sizeof_c43_block_action_request :: u16 where "sizeof_c43_block_action_request \<equiv> 248"
abbreviation (input) sizeof_c43_block_action_terminal :: u16 where "sizeof_c43_block_action_terminal \<equiv> 232"
abbreviation (input) sizeof_c43_queue_facts :: u16 where "sizeof_c43_queue_facts \<equiv> 96"
abbreviation (input) sizeof_c43_queue_effect_request :: u16 where "sizeof_c43_queue_effect_request \<equiv> 128"
abbreviation (input) sizeof_c43_queue_finish_request :: u16 where "sizeof_c43_queue_finish_request \<equiv> 104"
abbreviation (input) sizeof_c43_queue_effect_terminal :: u16 where "sizeof_c43_queue_effect_terminal \<equiv> 224"
abbreviation (input) sizeof_c43_target_request :: u16 where "sizeof_c43_target_request \<equiv> 176"
abbreviation (input) sizeof_c43_target_terminal :: u16 where "sizeof_c43_target_terminal \<equiv> 208"
abbreviation (input) sizeof_c43_block_action_port_ops :: u16 where "sizeof_c43_block_action_port_ops \<equiv> 72"

section \<open>Structures\<close>

type_synonym nvme_origin_token = "u64 \<times> u64"
type_synonym c43_opaque_ref = "u64 \<times> u64"

definition zero_handle :: nvme_command_handle where
  "zero_handle = \<lparr>cmd_instance_nonce = 0, cmd_command_uid = 0, cmd_controller_epoch = 0, cmd_generation = 0\<rparr>"

record nvme_command =
  nvc_version :: u16
  nvc_size :: u16
  nvc_reserved0 :: u32
  nvc_handle :: nvme_command_handle
  nvc_origin :: nvme_origin_token
  nvc_trace_cookie :: u64
  nvc_safety_generation :: u32
  nvc_namespace_id :: u32
  nvc_command_dword2 :: u32
  nvc_command_dword3 :: u32
  nvc_command_dword10_15 :: "u32 list"
  nvc_transport_fault :: u32
  nvc_opcode :: u8
  nvc_queue_class :: u8
  nvc_fuse :: u8
  nvc_data_pointer_format :: u8
  nvc_data_address_present :: u8
  nvc_metadata_address_present :: u8
  nvc_command_flags_reserved :: u8
  nvc_reserved1 :: u8
  nvc_reserved2 :: "u32 list"

definition zero_nvme_command :: nvme_command where
  "zero_nvme_command = \<lparr>nvc_version = 0, nvc_size = 0, nvc_reserved0 = 0,
     nvc_handle = zero_handle, nvc_origin = (0, 0), nvc_trace_cookie = 0, nvc_safety_generation = 0,
     nvc_namespace_id = 0, nvc_command_dword2 = 0, nvc_command_dword3 = 0,
     nvc_command_dword10_15 = replicate 6 0, nvc_transport_fault = 0, nvc_opcode = 0,
     nvc_queue_class = 0, nvc_fuse = 0, nvc_data_pointer_format = 0, nvc_data_address_present = 0,
     nvc_metadata_address_present = 0, nvc_command_flags_reserved = 0, nvc_reserved1 = 0,
     nvc_reserved2 = replicate 5 0\<rparr>"

record nvme_completion_intent =
  ci_version :: u16
  ci_size :: u16
  ci_reserved0 :: u32
  ci_handle :: nvme_command_handle
  ci_origin :: nvme_origin_token
  ci_result_dword0 :: u32
  ci_actual_length :: u32
  ci_status_code :: u16
  ci_status_code_type :: u8
  ci_command_retry_delay :: u8
  ci_more :: u8
  ci_do_not_retry :: u8
  ci_effect_class :: u8
  ci_reserved1 :: u8

definition zero_nvme_completion_intent :: nvme_completion_intent where
  "zero_nvme_completion_intent = \<lparr>ci_version = 0, ci_size = 0, ci_reserved0 = 0,
     ci_handle = zero_handle, ci_origin = (0, 0), ci_result_dword0 = 0, ci_actual_length = 0,
     ci_status_code = 0, ci_status_code_type = 0, ci_command_retry_delay = 0, ci_more = 0,
     ci_do_not_retry = 0, ci_effect_class = 0, ci_reserved1 = 0\<rparr>"

record nvme_profile =
  pf_version :: u16
  pf_size :: u16
  pf_reserved0 :: u32
  pf_namespace_count :: u32
  pf_lba_bytes :: u32
  pf_lba_count :: u32
  pf_memory_page_bytes :: u32
  pf_maximum_transfer_bytes :: u32
  pf_maximum_io_queue_pairs :: u16
  pf_integration_queue_depth :: u16
  pf_queue_depth_hard_maximum :: u16
  pf_data_segments_hard_maximum :: u16
  pf_feature_flags :: u32
  pf_reserved1 :: "u32 list"

definition zero_nvme_profile :: nvme_profile where
  "zero_nvme_profile = \<lparr>pf_version = 0, pf_size = 0, pf_reserved0 = 0,
     pf_namespace_count = 0, pf_lba_bytes = 0, pf_lba_count = 0, pf_memory_page_bytes = 0,
     pf_maximum_transfer_bytes = 0, pf_maximum_io_queue_pairs = 0, pf_integration_queue_depth = 0,
     pf_queue_depth_hard_maximum = 0, pf_data_segments_hard_maximum = 0, pf_feature_flags = 0,
     pf_reserved1 = replicate 6 0\<rparr>"

record c43_policy_request =
  pr_version :: u16
  pr_size :: u16
  pr_reserved0 :: u32
  pr_handle :: nvme_command_handle
  pr_origin :: nvme_origin_token
  pr_transaction_uid :: u64
  pr_slba :: u64
  pr_namespace_id :: u32
  pr_zero_based_nlb :: u32
  pr_feature_selector :: u32
  pr_requested_cq_count :: u32
  pr_requested_sq_count :: u32
  pr_queue_entries :: u32
  pr_transport_fault :: u32
  pr_kind :: u8
  pr_queue_class :: u8
  pr_fuse :: u8
  pr_pointer_format :: u8
  pr_data_present :: u8
  pr_metadata_present :: u8
  pr_fua :: u8
  pr_save :: u8
  pr_reserved_bits_present :: u8
  pr_reserved_flag_padding :: "u8 list"
  pr_reserved1 :: "u32 list"
  pr_reserved2 :: u32

definition zero_c43_policy_request :: c43_policy_request where
  "zero_c43_policy_request = \<lparr>pr_version = 0, pr_size = 0, pr_reserved0 = 0,
     pr_handle = zero_handle, pr_origin = (0, 0), pr_transaction_uid = 0, pr_slba = 0,
     pr_namespace_id = 0, pr_zero_based_nlb = 0, pr_feature_selector = 0,
     pr_requested_cq_count = 0, pr_requested_sq_count = 0, pr_queue_entries = 0,
     pr_transport_fault = 0, pr_kind = 0, pr_queue_class = 0, pr_fuse = 0, pr_pointer_format = 0,
     pr_data_present = 0, pr_metadata_present = 0, pr_fua = 0, pr_save = 0,
     pr_reserved_bits_present = 0, pr_reserved_flag_padding = replicate 3 0,
     pr_reserved1 = replicate 5 0, pr_reserved2 = 0\<rparr>"

record c43_transfer_shape =
  sh_version :: u16
  sh_size :: u16
  sh_reserved0 :: u32
  sh_direction :: u32
  sh_data_bytes :: u32
  sh_metadata_bytes :: u32
  sh_lba_bytes :: u32
  sh_lba_count :: u32
  sh_data_pointer_required :: u8
  sh_metadata_pointer_required :: u8
  sh_reserved1 :: "u8 list"
  sh_reserved2 :: "u32 list"

definition zero_c43_transfer_shape :: c43_transfer_shape where
  "zero_c43_transfer_shape = \<lparr>sh_version = 0, sh_size = 0, sh_reserved0 = 0,
     sh_direction = 0, sh_data_bytes = 0, sh_metadata_bytes = 0, sh_lba_bytes = 0,
     sh_lba_count = 0, sh_data_pointer_required = 0, sh_metadata_pointer_required = 0,
     sh_reserved1 = replicate 2 0, sh_reserved2 = replicate 4 0\<rparr>"

record c43_identify_recipe =
  ir_version :: u16
  ir_size :: u16
  ir_reserved0 :: u32
  ir_kind :: u32
  ir_namespace_id :: u32
  ir_payload_bytes :: u32
  ir_identity_version :: u32
  ir_reserved1 :: "u32 list"

definition zero_c43_identify_recipe :: c43_identify_recipe where
  "zero_c43_identify_recipe = \<lparr>ir_version = 0, ir_size = 0, ir_reserved0 = 0, ir_kind = 0,
     ir_namespace_id = 0, ir_payload_bytes = 0, ir_identity_version = 0,
     ir_reserved1 = replicate 6 0\<rparr>"

record c43_block_intent =
  bi_version :: u16
  bi_size :: u16
  bi_reserved0 :: u32
  bi_command :: nvme_command_handle
  bi_origin :: nvme_origin_token
  bi_frontier :: c43_opaque_ref
  bi_slba :: u64
  bi_namespace_id :: u32
  bi_operation :: u32
  bi_durability :: u32
  bi_lba_count :: u32
  bi_data_bytes :: u32
  bi_reserved1 :: "u32 list"

definition zero_c43_block_intent :: c43_block_intent where
  "zero_c43_block_intent = \<lparr>bi_version = 0, bi_size = 0, bi_reserved0 = 0,
     bi_command = zero_handle, bi_origin = (0, 0), bi_frontier = (0, 0), bi_slba = 0,
     bi_namespace_id = 0, bi_operation = 0, bi_durability = 0, bi_lba_count = 0,
     bi_data_bytes = 0, bi_reserved1 = replicate 3 0\<rparr>"

record c43_policy_plan =
  pl_version :: u16
  pl_size :: u16
  pl_reserved0 :: u32
  pl_command :: nvme_command_handle
  pl_origin :: nvme_origin_token
  pl_transaction_uid :: u64
  pl_kind :: u32
  pl_semantic_status :: u32
  pl_result_dword0 :: u32
  pl_actual_length :: u32
  pl_required_witness_mask :: u32
  pl_satisfied_witness_mask :: u32
  pl_dnr :: u8
  pl_more :: u8
  pl_crd :: u8
  pl_effect_class :: u8
  pl_shape :: c43_transfer_shape
  pl_identify :: c43_identify_recipe
  pl_reserved_branch_padding :: u32
  pl_block :: c43_block_intent
  pl_reserved1 :: "u32 list"

definition zero_c43_policy_plan :: c43_policy_plan where
  "zero_c43_policy_plan = \<lparr>pl_version = 0, pl_size = 0, pl_reserved0 = 0,
     pl_command = zero_handle, pl_origin = (0, 0), pl_transaction_uid = 0, pl_kind = 0,
     pl_semantic_status = 0, pl_result_dword0 = 0, pl_actual_length = 0,
     pl_required_witness_mask = 0, pl_satisfied_witness_mask = 0, pl_dnr = 0, pl_more = 0,
     pl_crd = 0, pl_effect_class = 0, pl_shape = zero_c43_transfer_shape,
     pl_identify = zero_c43_identify_recipe, pl_reserved_branch_padding = 0,
     pl_block = zero_c43_block_intent, pl_reserved1 = replicate 4 0\<rparr>"

record c43_completion_witness =
  cw_version :: u16
  cw_size :: u16
  cw_reserved0 :: u32
  cw_command :: nvme_command_handle
  cw_origin :: nvme_origin_token
  cw_predecessor :: c43_opaque_ref
  cw_provider_generation :: u64
  cw_witness_mask :: u32
  cw_units_completed :: u32
  cw_effect_class :: u8
  cw_terminal_kind :: u8
  cw_reserved1 :: "u8 list"
  cw_reserved2 :: "u32 list"
  cw_reserved3 :: u32

definition zero_c43_completion_witness :: c43_completion_witness where
  "zero_c43_completion_witness = \<lparr>cw_version = 0, cw_size = 0, cw_reserved0 = 0,
     cw_command = zero_handle, cw_origin = (0, 0), cw_predecessor = (0, 0),
     cw_provider_generation = 0, cw_witness_mask = 0, cw_units_completed = 0, cw_effect_class = 0,
     cw_terminal_kind = 0, cw_reserved1 = replicate 2 0, cw_reserved2 = replicate 4 0,
     cw_reserved3 = 0\<rparr>"

record hif_action_token =
  tk_command :: nvme_command_handle
  tk_origin :: nvme_origin_token
  tk_action_uid :: u64
  tk_generation :: u32
  tk_kind :: u16
  tk_reserved :: u16

definition zero_hif_action_token :: hif_action_token where
  "zero_hif_action_token = \<lparr>tk_command = zero_handle, tk_origin = (0, 0),
     tk_action_uid = 0, tk_generation = 0, tk_kind = 0, tk_reserved = 0\<rparr>"

record hif_action_envelope =
  ae_version :: u16
  ae_size :: u16
  ae_reserved0 :: u32
  ae_token :: hif_action_token
  ae_cookie :: u64
  ae_dependency_ordinal :: u32
  ae_requested_units :: u32
  ae_reserved1 :: "u32 list"

definition zero_hif_action_envelope :: hif_action_envelope where
  "zero_hif_action_envelope = \<lparr>ae_version = 0, ae_size = 0, ae_reserved0 = 0,
     ae_token = zero_hif_action_token, ae_cookie = 0, ae_dependency_ordinal = 0,
     ae_requested_units = 0, ae_reserved1 = replicate 4 0\<rparr>"

record hif_action_submit_result =
  as_version :: u16
  as_size :: u16
  as_reserved0 :: u32
  as_token :: hif_action_token
  as_disposition :: u32
  as_fault_domain :: u32
  as_fault_code :: u32
  as_retry :: u8
  as_effect_class :: u8
  as_reserved1 :: "u8 list"
  as_reserved2 :: "u32 list"

definition zero_hif_action_submit_result :: hif_action_submit_result where
  "zero_hif_action_submit_result = \<lparr>as_version = 0, as_size = 0, as_reserved0 = 0,
     as_token = zero_hif_action_token, as_disposition = 0, as_fault_domain = 0, as_fault_code = 0,
     as_retry = 0, as_effect_class = 0, as_reserved1 = replicate 2 0,
     as_reserved2 = replicate 4 0\<rparr>"

record hif_action_terminal =
  te_version :: u16
  te_size :: u16
  te_reserved0 :: u32
  te_token :: hif_action_token
  te_cookie :: u64
  te_units_completed :: u32
  te_fault_domain :: u32
  te_fault_code :: u32
  te_terminal_kind :: u8
  te_effect_class :: u8
  te_retry :: u8
  te_reserved1 :: u8
  te_reserved2 :: "u32 list"

definition zero_hif_action_terminal :: hif_action_terminal where
  "zero_hif_action_terminal = \<lparr>te_version = 0, te_size = 0, te_reserved0 = 0,
     te_token = zero_hif_action_token, te_cookie = 0, te_units_completed = 0, te_fault_domain = 0,
     te_fault_code = 0, te_terminal_kind = 0, te_effect_class = 0, te_retry = 0, te_reserved1 = 0,
     te_reserved2 = replicate 2 0\<rparr>"

record hif_command_ticket =
  ct_handle :: nvme_command_handle
  ct_origin :: nvme_origin_token
  ct_ticket_uid :: u64
  ct_generation :: u32
  ct_reserved :: u32

definition zero_hif_command_ticket :: hif_command_ticket where
  "zero_hif_command_ticket = \<lparr>ct_handle = zero_handle, ct_origin = (0, 0),
     ct_ticket_uid = 0, ct_generation = 0, ct_reserved = 0\<rparr>"

record c43_block_action_request =
  bq_version :: u16
  bq_size :: u16
  bq_reserved0 :: u32
  bq_common :: hif_action_envelope
  bq_intent :: c43_block_intent
  bq_predecessor :: c43_opaque_ref
  bq_requested_witness_mask :: u32
  bq_reserved :: "u32 list"

definition zero_c43_block_action_request :: c43_block_action_request where
  "zero_c43_block_action_request = \<lparr>bq_version = 0, bq_size = 0, bq_reserved0 = 0,
     bq_common = zero_hif_action_envelope, bq_intent = zero_c43_block_intent, bq_predecessor = (0,
     0), bq_requested_witness_mask = 0, bq_reserved = replicate 5 0\<rparr>"

record c43_block_action_terminal =
  bx_version :: u16
  bx_size :: u16
  bx_reserved0 :: u32
  bx_common :: hif_action_terminal
  bx_witness :: c43_completion_witness
  bx_block_terminal_kind :: u32
  bx_reserved :: "u32 list"

definition zero_c43_block_action_terminal :: c43_block_action_terminal where
  "zero_c43_block_action_terminal = \<lparr>bx_version = 0, bx_size = 0, bx_reserved0 = 0,
     bx_common = zero_hif_action_terminal, bx_witness = zero_c43_completion_witness,
     bx_block_terminal_kind = 0, bx_reserved = replicate 5 0\<rparr>"

record c43_queue_facts =
  qf_version :: u16
  qf_size :: u16
  qf_reserved0 :: u32
  qf_transaction :: c43_opaque_ref
  qf_queue :: c43_opaque_ref
  qf_associated_cq :: c43_opaque_ref
  qf_operation :: u32
  qf_role :: u32
  qf_queue_entries :: u32
  qf_address_present :: u8
  qf_queue_exists :: u8
  qf_associated_cq_exists :: u8
  qf_association_matches :: u8
  qf_active_commands_zero :: u8
  qf_target_refs_zero :: u8
  qf_reserved_publications_zero :: u8
  qf_unacked_completions_zero :: u8
  qf_current_relation :: u8
  qf_reserved1 :: "u8 list"
  qf_reserved2 :: "u32 list"

definition zero_c43_queue_facts :: c43_queue_facts where
  "zero_c43_queue_facts = \<lparr>qf_version = 0, qf_size = 0, qf_reserved0 = 0,
     qf_transaction = (0, 0), qf_queue = (0, 0), qf_associated_cq = (0, 0), qf_operation = 0,
     qf_role = 0, qf_queue_entries = 0, qf_address_present = 0, qf_queue_exists = 0,
     qf_associated_cq_exists = 0, qf_association_matches = 0, qf_active_commands_zero = 0,
     qf_target_refs_zero = 0, qf_reserved_publications_zero = 0, qf_unacked_completions_zero = 0,
     qf_current_relation = 0, qf_reserved1 = replicate 3 0, qf_reserved2 = replicate 4 0\<rparr>"

record c43_queue_effect_request =
  qr_version :: u16
  qr_size :: u16
  qr_reserved0 :: u32
  qr_common :: hif_action_envelope
  qr_operation :: u32
  qr_role :: u32
  qr_reserved :: "u32 list"

definition zero_c43_queue_effect_request :: c43_queue_effect_request where
  "zero_c43_queue_effect_request = \<lparr>qr_version = 0, qr_size = 0, qr_reserved0 = 0,
     qr_common = zero_hif_action_envelope, qr_operation = 0, qr_role = 0,
     qr_reserved = replicate 4 0\<rparr>"

record c43_queue_finish_request =
  qn_version :: u16
  qn_size :: u16
  qn_reserved0 :: u32
  qn_token :: hif_action_token
  qn_transaction :: c43_opaque_ref
  qn_decision :: u32
  qn_reserved1 :: "u32 list"

definition zero_c43_queue_finish_request :: c43_queue_finish_request where
  "zero_c43_queue_finish_request = \<lparr>qn_version = 0, qn_size = 0, qn_reserved0 = 0,
     qn_token = zero_hif_action_token, qn_transaction = (0, 0), qn_decision = 0,
     qn_reserved1 = replicate 5 0\<rparr>"

record c43_queue_effect_terminal =
  qt_version :: u16
  qt_size :: u16
  qt_reserved0 :: u32
  qt_common :: hif_action_terminal
  qt_facts :: c43_queue_facts
  qt_state :: u32
  qt_decision :: u32
  qt_reserved :: "u32 list"

definition zero_c43_queue_effect_terminal :: c43_queue_effect_terminal where
  "zero_c43_queue_effect_terminal = \<lparr>qt_version = 0, qt_size = 0, qt_reserved0 = 0,
     qt_common = zero_hif_action_terminal, qt_facts = zero_c43_queue_facts, qt_state = 0,
     qt_decision = 0, qt_reserved = replicate 4 0\<rparr>"

record c43_target_request =
  tr_version :: u16
  tr_size :: u16
  tr_reserved0 :: u32
  tr_common :: hif_action_envelope
  tr_abort_command :: hif_command_ticket
  tr_operation :: u32
  tr_reserved :: "u32 list"

definition zero_c43_target_request :: c43_target_request where
  "zero_c43_target_request = \<lparr>tr_version = 0, tr_size = 0, tr_reserved0 = 0,
     tr_common = zero_hif_action_envelope, tr_abort_command = zero_hif_command_ticket,
     tr_operation = 0, tr_reserved = replicate 3 0\<rparr>"

record c43_target_terminal =
  tt_version :: u16
  tt_size :: u16
  tt_reserved0 :: u32
  tt_common :: hif_action_terminal
  tt_target :: hif_command_ticket
  tt_reference :: c43_opaque_ref
  tt_outcome :: u32
  tt_reserved :: "u32 list"

definition zero_c43_target_terminal :: c43_target_terminal where
  "zero_c43_target_terminal = \<lparr>tt_version = 0, tt_size = 0, tt_reserved0 = 0,
     tt_common = zero_hif_action_terminal, tt_target = zero_hif_command_ticket, tt_reference = (0,
     0), tt_outcome = 0, tt_reserved = replicate 7 0\<rparr>"

text \<open>
  The block provider: its operation table (version, size and reserved words, and whether each of the
  six function pointers is set), generation and capabilities. The operations themselves belong to the
  provider.
\<close>

record c43_block_action_port =
  bp_ops_present :: bool
  bp_ops_version :: u16
  bp_ops_size :: u16
  bp_ops_reserved0 :: u32
  bp_ops_functions :: "bool list"
  bp_ops_reserved1 :: "u32 list"
  bp_context_present :: bool
  bp_generation :: u64
  bp_capability_bits :: u32
  bp_reserved :: u32

end
