(* ===== verification/Nvme_Codec.thy ===== *)
theory Nvme_Codec
  imports Nvme_Types M3p_Codec
begin

text \<open>
  The wire format of NVMe commands, completions and profiles, \<open>core/c4-nvme/c41_codec.c\<close> and
  \<open>c41_profile.c\<close>. A codec call returns \<open>Inl\<close> of its error code or \<open>Inr\<close> of the value it writes to
  its output argument; on an error the C functions leave the output untouched. The length of a byte
  list is the size argument of a decoder; an encoder takes the size of its output buffer. The static
  functions \<open>put_u16\<close>, \<open>put_u32\<close>, \<open>get_u16\<close> and \<open>get_u32\<close> of the file store bytes exactly as
  \<open>m3p_put_le16\<close> and its companions do, so those are used.
\<close>

datatype nvme_codec_error =
    FWLAB_NVME_CODEC_INVALID_ARGUMENT
  | FWLAB_NVME_CODEC_INVALID_VALUE
  | FWLAB_NVME_CODEC_UNSUPPORTED_VERSION
  | FWLAB_NVME_CODEC_BAD_ENCODING

abbreviation (input) FWLAB_NVME_COMMAND_WIRE_BYTES :: nat where "FWLAB_NVME_COMMAND_WIRE_BYTES \<equiv> 128"
abbreviation (input) FWLAB_NVME_COMPLETION_WIRE_BYTES :: nat where "FWLAB_NVME_COMPLETION_WIRE_BYTES \<equiv> 64"
abbreviation (input) FWLAB_NVME_PROFILE_WIRE_BYTES :: nat where "FWLAB_NVME_PROFILE_WIRE_BYTES \<equiv> 64"
abbreviation (input) FWLAB_NVME_COMMAND_VERSION :: u16 where "FWLAB_NVME_COMMAND_VERSION \<equiv> 1"
abbreviation (input) FWLAB_NVME_COMPLETION_VERSION :: u16 where "FWLAB_NVME_COMPLETION_VERSION \<equiv> 1"
abbreviation (input) FWLAB_NVME_PROFILE_VERSION :: u16 where "FWLAB_NVME_PROFILE_VERSION \<equiv> 1"

section \<open>Fields\<close>

definition put_u64 :: "bytes \<Rightarrow> nat \<Rightarrow> u64 \<Rightarrow> bytes" where
  "put_u64 bs off v = m3p_put_le32 (m3p_put_le32 bs off (ucast v)) (off + 4) (ucast (drop_bit 32 v))"

definition get_u64 :: "bytes \<Rightarrow> nat \<Rightarrow> u64" where
  "get_u64 bs off = ucast (m3p_get_le32 bs off) OR push_bit 32 (ucast (m3p_get_le32 bs (off + 4)))"

definition put_magic :: "bytes \<Rightarrow> u8 \<Rightarrow> u8 \<Rightarrow> bytes" where
  "put_magic bs m2 m3 = bs[0 := 0x46, 1 := 0x34, 2 := m2, 3 := m3]"

definition magic_ok :: "bytes \<Rightarrow> u8 \<Rightarrow> u8 \<Rightarrow> bool" where
  "magic_ok bs m2 m3 \<longleftrightarrow> bs ! 0 = 0x46 \<and> bs ! 1 = 0x34 \<and> bs ! 2 = m2 \<and> bs ! 3 = m3"

definition put_handle :: "bytes \<Rightarrow> nvme_command_handle \<Rightarrow> nvme_origin_token \<Rightarrow> bytes" where
  "put_handle b h origin =
     (let b = put_u64 b 8 (cmd_instance_nonce h);
          b = put_u64 b 16 (cmd_command_uid h);
          b = m3p_put_le32 b 24 (cmd_controller_epoch h);
          b = m3p_put_le32 b 28 (cmd_generation h);
          b = put_u64 b 32 (fst origin)
      in put_u64 b 40 (snd origin))"

definition get_handle :: "bytes \<Rightarrow> nvme_command_handle" where
  "get_handle bs = \<lparr>cmd_instance_nonce = get_u64 bs 8, cmd_command_uid = get_u64 bs 16,
     cmd_controller_epoch = m3p_get_le32 bs 24, cmd_generation = m3p_get_le32 bs 28\<rparr>"

definition get_origin :: "bytes \<Rightarrow> nvme_origin_token" where
  "get_origin bs = (get_u64 bs 32, get_u64 bs 40)"

section \<open>Validity\<close>

definition handle_valid :: "nvme_command_handle \<Rightarrow> bool" where
  "handle_valid h \<longleftrightarrow> cmd_instance_nonce h \<noteq> 0 \<and> cmd_command_uid h \<noteq> 0 \<and>
     cmd_controller_epoch h \<noteq> 0 \<and> cmd_generation h \<noteq> 0"

definition origin_valid :: "nvme_origin_token \<Rightarrow> bool" where
  "origin_valid origin \<longleftrightarrow> fst origin \<noteq> 0 \<or> snd origin \<noteq> 0"

definition fwlab_nvme_command_valid :: "nvme_command \<Rightarrow> bool" where
  "fwlab_nvme_command_valid c \<longleftrightarrow>
     (if nvc_version c \<noteq> FWLAB_NVME_COMMAND_VERSION \<or> nvc_size c \<noteq> sizeof_nvme_command \<or>
         nvc_reserved0 c \<noteq> 0 \<or> \<not> handle_valid (nvc_handle c) \<or> \<not> origin_valid (nvc_origin c) \<or>
         nvc_trace_cookie c = 0 \<or> nvc_safety_generation c = 0 then False
      else if nvc_queue_class c \<noteq> FWLAB_NVME_QUEUE_ADMIN \<and> nvc_queue_class c \<noteq> FWLAB_NVME_QUEUE_IO
      then False
      else \<not> (nvc_fuse c > FWLAB_NVME_FUSE_RESERVED \<or>
              nvc_data_pointer_format c > FWLAB_NVME_DATA_POINTER_RESERVED \<or>
              nvc_data_address_present c > 1 \<or> nvc_metadata_address_present c > 1 \<or>
              nvc_command_flags_reserved c > 0x0f \<or> nvc_reserved1 c \<noteq> 0 \<or>
              nvc_transport_fault c > FWLAB_NVME_TRANSPORT_STALE_GENERATION \<or>
              \<not> words_zero (nvc_reserved2 c)))"

definition fwlab_nvme_completion_valid :: "nvme_completion_intent \<Rightarrow> bool" where
  "fwlab_nvme_completion_valid c \<longleftrightarrow>
     (if ci_version c \<noteq> FWLAB_NVME_COMPLETION_VERSION \<or> ci_size c \<noteq> sizeof_nvme_completion \<or>
         ci_reserved0 c \<noteq> 0 \<or> \<not> handle_valid (ci_handle c) \<or> \<not> origin_valid (ci_origin c)
      then False
      else \<not> (ci_status_code c > 0xff \<or> ci_status_code_type c > 7 \<or> ci_command_retry_delay c > 3 \<or>
              ci_more c > 1 \<or> ci_do_not_retry c > 1 \<or>
              ci_effect_class c > FWLAB_NVME_EFFECT_UNKNOWN_PREFIX \<or> ci_reserved1 c \<noteq> 0))"

definition profile_features :: u32 where
  "profile_features = FWLAB_NVME_PROFILE_READ OR FWLAB_NVME_PROFILE_WRITE OR FWLAB_NVME_PROFILE_FLUSH
     OR FWLAB_NVME_PROFILE_FUA OR FWLAB_NVME_PROFILE_VOLATILE_WRITE_CACHE OR FWLAB_NVME_PROFILE_PRP_DIRECT"

definition fwlab_nvme_profile_valid :: "nvme_profile \<Rightarrow> bool" where
  "fwlab_nvme_profile_valid p \<longleftrightarrow>
     pf_version p = FWLAB_NVME_PROFILE_VERSION \<and> pf_size p = sizeof_nvme_profile \<and>
     pf_reserved0 p = 0 \<and> pf_namespace_count p = 1 \<and> pf_lba_bytes p = 512 \<and> pf_lba_count p = 8 \<and>
     pf_memory_page_bytes p = 4096 \<and> pf_maximum_transfer_bytes p = 4096 \<and>
     pf_maximum_io_queue_pairs p = 1 \<and> pf_integration_queue_depth p = 4 \<and>
     pf_queue_depth_hard_maximum p = 32 \<and> pf_data_segments_hard_maximum p = 2 \<and>
     pf_feature_flags p = profile_features \<and> words_zero (pf_reserved1 p)"

definition fwlab_nvme_profile_fixed :: nvme_profile where
  "fwlab_nvme_profile_fixed = zero_nvme_profile
     \<lparr>pf_version := FWLAB_NVME_PROFILE_VERSION, pf_size := sizeof_nvme_profile,
      pf_namespace_count := 1, pf_lba_bytes := 512, pf_lba_count := 8, pf_memory_page_bytes := 4096,
      pf_maximum_transfer_bytes := 4096, pf_maximum_io_queue_pairs := 1,
      pf_integration_queue_depth := 4, pf_queue_depth_hard_maximum := 32,
      pf_data_segments_hard_maximum := 2, pf_feature_flags := profile_features\<rparr>"

section \<open>Commands\<close>

definition command_wire :: "nvme_command \<Rightarrow> bytes" where
  "command_wire c =
     (let b = put_magic (replicate FWLAB_NVME_COMMAND_WIRE_BYTES 0) 0x4e 0x43;
          b = m3p_put_le16 b 4 (nvc_version c);
          b = m3p_put_le16 b 6 128;
          b = put_handle b (nvc_handle c) (nvc_origin c);
          b = put_u64 b 48 (nvc_trace_cookie c);
          b = m3p_put_le32 b 56 (nvc_safety_generation c);
          b = m3p_put_le32 b 60 (nvc_namespace_id c);
          b = m3p_put_le32 b 64 (nvc_command_dword2 c);
          b = m3p_put_le32 b 68 (nvc_command_dword3 c);
          b = foldl (\<lambda>b i. m3p_put_le32 b (72 + i * 4) (nvc_command_dword10_15 c ! i)) b [0..<6];
          b = m3p_put_le32 b 96 (nvc_transport_fault c)
      in b[100 := nvc_opcode c, 101 := nvc_queue_class c, 102 := nvc_fuse c,
           103 := nvc_data_pointer_format c, 104 := nvc_data_address_present c,
           105 := nvc_metadata_address_present c, 106 := nvc_command_flags_reserved c])"

definition fwlab_nvme_command_encode :: "nvme_command \<Rightarrow> nat \<Rightarrow> nvme_codec_error + bytes" where
  "fwlab_nvme_command_encode c output_size =
     (if output_size \<noteq> FWLAB_NVME_COMMAND_WIRE_BYTES then Inl FWLAB_NVME_CODEC_INVALID_ARGUMENT
      else if \<not> fwlab_nvme_command_valid c then Inl FWLAB_NVME_CODEC_INVALID_VALUE
      else Inr (command_wire c))"

definition command_read :: "bytes \<Rightarrow> nvme_command" where
  "command_read bs = zero_nvme_command
     \<lparr>nvc_version := m3p_get_le16 bs 4, nvc_size := sizeof_nvme_command, nvc_handle := get_handle bs,
      nvc_origin := get_origin bs, nvc_trace_cookie := get_u64 bs 48,
      nvc_safety_generation := m3p_get_le32 bs 56, nvc_namespace_id := m3p_get_le32 bs 60,
      nvc_command_dword2 := m3p_get_le32 bs 64, nvc_command_dword3 := m3p_get_le32 bs 68,
      nvc_command_dword10_15 := map (\<lambda>i. m3p_get_le32 bs (72 + i * 4)) [0..<6],
      nvc_transport_fault := m3p_get_le32 bs 96, nvc_opcode := bs ! 100, nvc_queue_class := bs ! 101,
      nvc_fuse := bs ! 102, nvc_data_pointer_format := bs ! 103, nvc_data_address_present := bs ! 104,
      nvc_metadata_address_present := bs ! 105, nvc_command_flags_reserved := bs ! 106\<rparr>"

definition fwlab_nvme_command_decode :: "bytes \<Rightarrow> nvme_codec_error + nvme_command" where
  "fwlab_nvme_command_decode bs =
     (if length bs \<noteq> FWLAB_NVME_COMMAND_WIRE_BYTES then Inl FWLAB_NVME_CODEC_INVALID_ARGUMENT
      else if \<not> magic_ok bs 0x4e 0x43 \<or> m3p_get_le16 bs 6 \<noteq> 128 \<or> \<not> m3p_bytes_zero bs 107 21
      then Inl FWLAB_NVME_CODEC_BAD_ENCODING
      else if m3p_get_le16 bs 4 \<noteq> FWLAB_NVME_COMMAND_VERSION
      then Inl FWLAB_NVME_CODEC_UNSUPPORTED_VERSION
      else if \<not> fwlab_nvme_command_valid (command_read bs) then Inl FWLAB_NVME_CODEC_INVALID_VALUE
      else Inr (command_read bs))"

section \<open>Completions\<close>

definition completion_wire :: "nvme_completion_intent \<Rightarrow> bytes" where
  "completion_wire c =
     (let b = put_magic (replicate FWLAB_NVME_COMPLETION_WIRE_BYTES 0) 0x43 0x49;
          b = m3p_put_le16 b 4 (ci_version c);
          b = m3p_put_le16 b 6 64;
          b = put_handle b (ci_handle c) (ci_origin c);
          b = m3p_put_le32 b 48 (ci_result_dword0 c);
          b = m3p_put_le32 b 52 (ci_actual_length c);
          b = m3p_put_le16 b 56 (ci_status_code c)
      in b[58 := ci_status_code_type c, 59 := ci_command_retry_delay c, 60 := ci_more c,
           61 := ci_do_not_retry c, 62 := ci_effect_class c])"

definition fwlab_nvme_completion_encode ::
  "nvme_completion_intent \<Rightarrow> nat \<Rightarrow> nvme_codec_error + bytes" where
  "fwlab_nvme_completion_encode c output_size =
     (if output_size \<noteq> FWLAB_NVME_COMPLETION_WIRE_BYTES then Inl FWLAB_NVME_CODEC_INVALID_ARGUMENT
      else if \<not> fwlab_nvme_completion_valid c then Inl FWLAB_NVME_CODEC_INVALID_VALUE
      else Inr (completion_wire c))"

definition completion_read :: "bytes \<Rightarrow> nvme_completion_intent" where
  "completion_read bs = zero_nvme_completion_intent
     \<lparr>ci_version := m3p_get_le16 bs 4, ci_size := sizeof_nvme_completion, ci_handle := get_handle bs,
      ci_origin := get_origin bs, ci_result_dword0 := m3p_get_le32 bs 48,
      ci_actual_length := m3p_get_le32 bs 52, ci_status_code := m3p_get_le16 bs 56,
      ci_status_code_type := bs ! 58, ci_command_retry_delay := bs ! 59, ci_more := bs ! 60,
      ci_do_not_retry := bs ! 61, ci_effect_class := bs ! 62\<rparr>"

definition fwlab_nvme_completion_decode :: "bytes \<Rightarrow> nvme_codec_error + nvme_completion_intent" where
  "fwlab_nvme_completion_decode bs =
     (if length bs \<noteq> FWLAB_NVME_COMPLETION_WIRE_BYTES then Inl FWLAB_NVME_CODEC_INVALID_ARGUMENT
      else if \<not> magic_ok bs 0x43 0x49 \<or> m3p_get_le16 bs 6 \<noteq> 64 \<or> bs ! 63 \<noteq> 0
      then Inl FWLAB_NVME_CODEC_BAD_ENCODING
      else if m3p_get_le16 bs 4 \<noteq> FWLAB_NVME_COMPLETION_VERSION
      then Inl FWLAB_NVME_CODEC_UNSUPPORTED_VERSION
      else if \<not> fwlab_nvme_completion_valid (completion_read bs)
      then Inl FWLAB_NVME_CODEC_INVALID_VALUE
      else Inr (completion_read bs))"

section \<open>Profiles\<close>

definition profile_wire :: "nvme_profile \<Rightarrow> bytes" where
  "profile_wire p =
     (let b = put_magic (replicate FWLAB_NVME_PROFILE_WIRE_BYTES 0) 0x50 0x46;
          b = m3p_put_le16 b 4 (pf_version p);
          b = m3p_put_le16 b 6 64;
          b = m3p_put_le32 b 8 (pf_namespace_count p);
          b = m3p_put_le32 b 12 (pf_lba_bytes p);
          b = m3p_put_le32 b 16 (pf_lba_count p);
          b = m3p_put_le32 b 20 (pf_memory_page_bytes p);
          b = m3p_put_le32 b 24 (pf_maximum_transfer_bytes p);
          b = m3p_put_le16 b 28 (pf_maximum_io_queue_pairs p);
          b = m3p_put_le16 b 30 (pf_integration_queue_depth p);
          b = m3p_put_le16 b 32 (pf_queue_depth_hard_maximum p);
          b = m3p_put_le16 b 34 (pf_data_segments_hard_maximum p)
      in m3p_put_le32 b 36 (pf_feature_flags p))"

definition fwlab_nvme_profile_encode :: "nvme_profile \<Rightarrow> nat \<Rightarrow> nvme_codec_error + bytes" where
  "fwlab_nvme_profile_encode p output_size =
     (if output_size \<noteq> FWLAB_NVME_PROFILE_WIRE_BYTES then Inl FWLAB_NVME_CODEC_INVALID_ARGUMENT
      else if \<not> fwlab_nvme_profile_valid p then Inl FWLAB_NVME_CODEC_INVALID_VALUE
      else Inr (profile_wire p))"

definition profile_read :: "bytes \<Rightarrow> nvme_profile" where
  "profile_read bs = zero_nvme_profile
     \<lparr>pf_version := m3p_get_le16 bs 4, pf_size := sizeof_nvme_profile,
      pf_namespace_count := m3p_get_le32 bs 8, pf_lba_bytes := m3p_get_le32 bs 12,
      pf_lba_count := m3p_get_le32 bs 16, pf_memory_page_bytes := m3p_get_le32 bs 20,
      pf_maximum_transfer_bytes := m3p_get_le32 bs 24,
      pf_maximum_io_queue_pairs := m3p_get_le16 bs 28,
      pf_integration_queue_depth := m3p_get_le16 bs 30,
      pf_queue_depth_hard_maximum := m3p_get_le16 bs 32,
      pf_data_segments_hard_maximum := m3p_get_le16 bs 34, pf_feature_flags := m3p_get_le32 bs 36\<rparr>"

definition fwlab_nvme_profile_decode :: "bytes \<Rightarrow> nvme_codec_error + nvme_profile" where
  "fwlab_nvme_profile_decode bs =
     (if length bs \<noteq> FWLAB_NVME_PROFILE_WIRE_BYTES then Inl FWLAB_NVME_CODEC_INVALID_ARGUMENT
      else if \<not> magic_ok bs 0x50 0x46 \<or> m3p_get_le16 bs 6 \<noteq> 64 \<or> \<not> m3p_bytes_zero bs 40 24
      then Inl FWLAB_NVME_CODEC_BAD_ENCODING
      else if m3p_get_le16 bs 4 \<noteq> FWLAB_NVME_PROFILE_VERSION
      then Inl FWLAB_NVME_CODEC_UNSUPPORTED_VERSION
      else if \<not> fwlab_nvme_profile_valid (profile_read bs) then Inl FWLAB_NVME_CODEC_INVALID_VALUE
      else Inr (profile_read bs))"

end
