(* ===== verification/Nvme_Policy.thy ===== *)
theory Nvme_Policy
  imports Nvme_Codec
begin

text \<open>
  The command policy of the NVMe core: which plan a sanitized request gets
  (\<open>core/c4-nvme/c43_policy.c\<close>), the validators of plans, transfer shapes, block intents and completion
  witnesses (\<open>c43_policy.c\<close>, \<open>c43_completion.c\<close>), and the Identify payloads (\<open>c43_identify.c\<close>), with
  the helpers of \<open>c43_instance.c\<close> and \<open>c43_control.c\<close> they use. The functions are pure. Pointer
  arguments are values here: null and overlapping arguments, which the C functions refuse, do not
  occur. \<open>c43_bytes_zero\<close> of a whole structure is equality with the zero structure, \<open>c43_handle_equal\<close>,
  \<open>c43_origin_equal\<close> and \<open>c43_ref_equal\<close> are equality, and \<open>c43_handle_valid\<close> and \<open>c43_origin_valid\<close>
  are the functions of the codec.
\<close>

datatype c43_api_error =
    FWLAB_C43_API_INVALID
  | FWLAB_C43_API_POISONED

abbreviation (input) FWLAB_C43_POLICY_VERSION :: u16 where "FWLAB_C43_POLICY_VERSION \<equiv> 1"

section \<open>Helpers\<close>

definition c43_ref_zero :: "c43_opaque_ref \<Rightarrow> bool" where
  "c43_ref_zero r \<longleftrightarrow> fst r = 0 \<and> snd r = 0"

definition c43_profile_is_fixed :: "nvme_profile \<Rightarrow> bool" where
  "c43_profile_is_fixed p \<longleftrightarrow> fwlab_nvme_profile_valid p \<and> p = fwlab_nvme_profile_fixed"

definition c43_semantic_status_valid :: "u32 \<Rightarrow> bool" where
  "c43_semantic_status_valid status \<longleftrightarrow> status \<le> FWLAB_C43_STATUS_INTERNAL_FAILURE"

definition c43_witness_mask_valid :: "u32 \<Rightarrow> bool" where
  "c43_witness_mask_valid m \<longleftrightarrow> m AND NOT FWLAB_C43_WITNESS_ALL = 0"

definition boolean_valid :: "u8 \<Rightarrow> bool" where
  "boolean_valid v \<longleftrightarrow> v \<le> 1"

section \<open>Validators\<close>

definition request_branch_valid :: "c43_policy_request \<Rightarrow> bool" where
  "request_branch_valid rq \<longleftrightarrow>
     (let block_fields_zero = (pr_slba rq = 0 \<and> pr_zero_based_nlb rq = 0);
          feature_fields_zero = (pr_feature_selector rq = 0 \<and> pr_requested_cq_count rq = 0 \<and>
            pr_requested_sq_count rq = 0);
          kind = pr_kind rq
      in if kind = FWLAB_C43_REQUEST_SET_NUMBER_OF_QUEUES
         then block_fields_zero \<and> pr_queue_entries rq = 0
         else if kind = FWLAB_C43_REQUEST_CREATE_IO_CQ \<or> kind = FWLAB_C43_REQUEST_CREATE_IO_SQ
         then block_fields_zero \<and> feature_fields_zero
         else if kind = FWLAB_C43_REQUEST_READ \<or> kind = FWLAB_C43_REQUEST_WRITE
         then feature_fields_zero \<and> pr_queue_entries rq = 0
         else if kind \<in> {FWLAB_C43_REQUEST_IDENTIFY_CONTROLLER, FWLAB_C43_REQUEST_IDENTIFY_NAMESPACE,
                FWLAB_C43_REQUEST_IDENTIFY_ACTIVE_NAMESPACE_LIST,
                FWLAB_C43_REQUEST_IDENTIFY_NAMESPACE_DESCRIPTOR_LIST, FWLAB_C43_REQUEST_DELETE_IO_CQ,
                FWLAB_C43_REQUEST_DELETE_IO_SQ, FWLAB_C43_REQUEST_ABORT, FWLAB_C43_REQUEST_FLUSH,
                FWLAB_C43_REQUEST_UNSUPPORTED}
         then block_fields_zero \<and> feature_fields_zero \<and> pr_queue_entries rq = 0
         else False)"

definition fwlab_c43_policy_request_valid :: "c43_policy_request \<Rightarrow> bool" where
  "fwlab_c43_policy_request_valid rq \<longleftrightarrow>
     pr_version rq = FWLAB_C43_POLICY_VERSION \<and> pr_size rq = sizeof_c43_policy_request \<and>
     pr_reserved0 rq = 0 \<and> handle_valid (pr_handle rq) \<and> origin_valid (pr_origin rq) \<and>
     pr_transaction_uid rq \<noteq> 0 \<and> pr_kind rq \<ge> FWLAB_C43_REQUEST_IDENTIFY_CONTROLLER \<and>
     pr_kind rq \<le> FWLAB_C43_REQUEST_UNSUPPORTED \<and>
     (pr_queue_class rq = FWLAB_NVME_QUEUE_ADMIN \<or> pr_queue_class rq = FWLAB_NVME_QUEUE_IO) \<and>
     pr_fuse rq \<le> FWLAB_NVME_FUSE_RESERVED \<and>
     pr_pointer_format rq \<le> FWLAB_NVME_DATA_POINTER_RESERVED \<and> boolean_valid (pr_data_present rq) \<and>
     boolean_valid (pr_metadata_present rq) \<and> boolean_valid (pr_fua rq) \<and> boolean_valid (pr_save rq) \<and>
     pr_transport_fault rq \<le> FWLAB_NVME_TRANSPORT_STALE_GENERATION \<and>
     boolean_valid (pr_reserved_bits_present rq) \<and> words_zero (pr_reserved_flag_padding rq) \<and>
     words_zero (pr_reserved1 rq) \<and> pr_reserved2 rq = 0 \<and> request_branch_valid rq"

definition fwlab_c43_transfer_shape_valid :: "c43_transfer_shape \<Rightarrow> bool" where
  "fwlab_c43_transfer_shape_valid sh \<longleftrightarrow>
     (let profile = fwlab_nvme_profile_fixed
      in if sh_version sh \<noteq> FWLAB_C43_POLICY_VERSION \<or> sh_size sh \<noteq> sizeof_c43_transfer_shape \<or>
            sh_reserved0 sh \<noteq> 0 \<or> sh_direction sh > FWLAB_C43_TRANSFER_CONTROLLER_TO_HOST \<or>
            sh_metadata_bytes sh \<noteq> 0 \<or> sh_metadata_pointer_required sh \<noteq> 0 \<or>
            sh_data_pointer_required sh > 1 \<or> \<not> words_zero (sh_reserved1 sh) \<or>
            \<not> words_zero (sh_reserved2 sh) then False
         else if sh_direction sh = FWLAB_C43_TRANSFER_NONE
         then sh_data_bytes sh = 0 \<and> sh_lba_bytes sh = 0 \<and> sh_lba_count sh = 0 \<and>
              sh_data_pointer_required sh = 0
         else if sh_data_pointer_required sh \<noteq> 1 \<or> sh_data_bytes sh = 0 \<or>
                 sh_data_bytes sh > pf_maximum_transfer_bytes profile then False
         else if sh_lba_count sh = 0
         then sh_direction sh = FWLAB_C43_TRANSFER_CONTROLLER_TO_HOST \<and> sh_lba_bytes sh = 0 \<and>
              sh_data_bytes sh = pf_maximum_transfer_bytes profile
         else sh_lba_bytes sh = pf_lba_bytes profile \<and> sh_lba_count sh \<le> pf_lba_count profile \<and>
              (ucast (sh_lba_count sh) :: u64) * ucast (pf_lba_bytes profile) = ucast (sh_data_bytes sh))"

definition fwlab_c43_block_intent_valid :: "c43_block_intent \<Rightarrow> bool" where
  "fwlab_c43_block_intent_valid bi \<longleftrightarrow>
     (let profile = fwlab_nvme_profile_fixed
      in if bi_version bi \<noteq> FWLAB_C43_POLICY_VERSION \<or> bi_size bi \<noteq> sizeof_c43_block_intent \<or>
            bi_reserved0 bi \<noteq> 0 \<or> \<not> handle_valid (bi_command bi) \<or> \<not> origin_valid (bi_origin bi) \<or>
            bi_namespace_id bi \<noteq> 1 \<or> bi_operation bi < FWLAB_C43_BLOCK_READ \<or>
            bi_operation bi > FWLAB_C43_BLOCK_FLUSH \<or> \<not> c43_ref_zero (bi_frontier bi) \<or>
            \<not> words_zero (bi_reserved1 bi) then False
         else if bi_operation bi = FWLAB_C43_BLOCK_FLUSH
         then bi_slba bi = 0 \<and> bi_lba_count bi = 0 \<and> bi_data_bytes bi = 0 \<and>
              bi_durability bi = FWLAB_C43_DURABILITY_FIXED_FRONTIER
         else if bi_lba_count bi = 0 \<or> bi_lba_count bi > pf_lba_count profile \<or>
                 bi_slba bi \<ge> ucast (pf_lba_count profile) \<or>
                 bi_slba bi > ucast (pf_lba_count profile - bi_lba_count bi) then False
         else if (ucast (bi_lba_count bi) :: u64) * ucast (pf_lba_bytes profile) \<noteq> ucast (bi_data_bytes bi)
         then False
         else if bi_operation bi = FWLAB_C43_BLOCK_READ
         then bi_durability bi = FWLAB_C43_DURABILITY_DEFAULT
         else bi_durability bi = FWLAB_C43_DURABILITY_DEFAULT \<or>
              bi_durability bi = FWLAB_C43_DURABILITY_REQUIRE_SELF)"

definition fwlab_c43_identify_recipe_valid :: "c43_identify_recipe \<Rightarrow> bool" where
  "fwlab_c43_identify_recipe_valid ir \<longleftrightarrow>
     (if ir_version ir \<noteq> FWLAB_C43_POLICY_VERSION \<or> ir_size ir \<noteq> sizeof_c43_identify_recipe \<or>
         ir_reserved0 ir \<noteq> 0 \<or> ir_kind ir < FWLAB_C43_IDENTIFY_CONTROLLER \<or>
         ir_kind ir > FWLAB_C43_IDENTIFY_NAMESPACE_DESCRIPTOR_LIST \<or>
         ir_payload_bytes ir \<noteq> FWLAB_C43_IDENTIFY_BYTES \<or> ir_identity_version ir \<noteq> 1 \<or>
         \<not> words_zero (ir_reserved1 ir) then False
      else if ir_kind ir = FWLAB_C43_IDENTIFY_CONTROLLER then ir_namespace_id ir = 0
      else if ir_kind ir = FWLAB_C43_IDENTIFY_NAMESPACE \<or>
              ir_kind ir = FWLAB_C43_IDENTIFY_NAMESPACE_DESCRIPTOR_LIST
      then ir_namespace_id ir = 1
      else True)"

section \<open>Plans\<close>

definition plan_header_valid :: "c43_policy_plan \<Rightarrow> bool" where
  "plan_header_valid pl \<longleftrightarrow> \<not> (
     pl_version pl \<noteq> FWLAB_C43_POLICY_VERSION \<or> pl_size pl \<noteq> sizeof_c43_policy_plan \<or>
     pl_reserved0 pl \<noteq> 0 \<or> \<not> handle_valid (pl_command pl) \<or> \<not> origin_valid (pl_origin pl) \<or>
     pl_transaction_uid pl = 0 \<or> pl_kind pl < FWLAB_C43_PLAN_IMMEDIATE \<or>
     pl_kind pl > FWLAB_C43_PLAN_BLOCK \<or> \<not> c43_semantic_status_valid (pl_semantic_status pl) \<or>
     \<not> c43_witness_mask_valid (pl_required_witness_mask pl) \<or>
     \<not> c43_witness_mask_valid (pl_satisfied_witness_mask pl) \<or>
     pl_required_witness_mask pl AND FWLAB_C43_WITNESS_VALIDATED_ONLY \<noteq> 0 \<or>
     pl_satisfied_witness_mask pl
       AND NOT (pl_required_witness_mask pl OR FWLAB_C43_WITNESS_VALIDATED_ONLY) \<noteq> 0 \<or>
     pl_dnr pl > 1 \<or> pl_more pl \<noteq> 0 \<or> pl_crd pl \<noteq> 0 \<or>
     pl_effect_class pl \<noteq> FWLAB_NVME_EFFECT_NONE \<or> pl_reserved_branch_padding pl \<noteq> 0 \<or>
     \<not> words_zero (pl_reserved1 pl))"

definition plan_bare :: "c43_policy_plan \<Rightarrow> bool" where
  "plan_bare pl \<longleftrightarrow> pl_shape pl = zero_c43_transfer_shape \<and> pl_identify pl = zero_c43_identify_recipe \<and>
     pl_block pl = zero_c43_block_intent"

definition plan_payload_valid :: "c43_policy_plan \<Rightarrow> bool" where
  "plan_payload_valid pl \<longleftrightarrow>
     fwlab_c43_transfer_shape_valid (pl_shape pl) \<and> fwlab_c43_identify_recipe_valid (pl_identify pl) \<and>
     pl_block pl = zero_c43_block_intent \<and>
     sh_direction (pl_shape pl) = FWLAB_C43_TRANSFER_CONTROLLER_TO_HOST \<and>
     sh_lba_count (pl_shape pl) = 0 \<and> sh_data_bytes (pl_shape pl) = FWLAB_C43_IDENTIFY_BYTES \<and>
     pl_required_witness_mask pl = FWLAB_C43_WITNESS_PAYLOAD_READY OR FWLAB_C43_WITNESS_DMA_OUT_COMPLETE \<and>
     pl_satisfied_witness_mask pl
       AND NOT (FWLAB_C43_WITNESS_PAYLOAD_READY OR FWLAB_C43_WITNESS_DMA_OUT_COMPLETE) = 0 \<and>
     pl_result_dword0 pl = 0 \<and> pl_actual_length pl = FWLAB_C43_IDENTIFY_BYTES"

definition block_witness :: "c43_block_intent \<Rightarrow> u32" where
  "block_witness bi =
     (if bi_operation bi = FWLAB_C43_BLOCK_READ
      then FWLAB_C43_WITNESS_BLOCK_READ_READY OR FWLAB_C43_WITNESS_DMA_OUT_COMPLETE
      else if bi_operation bi = FWLAB_C43_BLOCK_WRITE
      then (FWLAB_C43_WITNESS_DMA_IN_COMPLETE OR FWLAB_C43_WITNESS_BLOCK_WRITE_COMPLETE) OR
           (if bi_durability bi = FWLAB_C43_DURABILITY_REQUIRE_SELF
            then FWLAB_C43_WITNESS_DURABILITY_COMPLETE else 0)
      else FWLAB_C43_WITNESS_DURABILITY_COMPLETE)"

definition block_direction :: "c43_block_intent \<Rightarrow> u32" where
  "block_direction bi =
     (if bi_operation bi = FWLAB_C43_BLOCK_READ then FWLAB_C43_TRANSFER_CONTROLLER_TO_HOST
      else if bi_operation bi = FWLAB_C43_BLOCK_WRITE then FWLAB_C43_TRANSFER_HOST_TO_CONTROLLER
      else FWLAB_C43_TRANSFER_NONE)"

definition plan_block_valid :: "c43_policy_plan \<Rightarrow> bool" where
  "plan_block_valid pl \<longleftrightarrow>
     (if \<not> fwlab_c43_transfer_shape_valid (pl_shape pl) \<or> pl_identify pl \<noteq> zero_c43_identify_recipe \<or>
         \<not> fwlab_c43_block_intent_valid (pl_block pl) \<or> pl_command pl \<noteq> bi_command (pl_block pl) \<or>
         pl_origin pl \<noteq> bi_origin (pl_block pl) \<or> pl_result_dword0 pl \<noteq> 0 then False
      else if sh_direction (pl_shape pl) \<noteq> block_direction (pl_block pl) then False
      else pl_required_witness_mask pl = block_witness (pl_block pl) \<and>
           sh_lba_count (pl_shape pl) = bi_lba_count (pl_block pl) \<and>
           sh_data_bytes (pl_shape pl) = bi_data_bytes (pl_block pl) \<and>
           pl_actual_length pl = bi_data_bytes (pl_block pl))"

definition fwlab_c43_policy_plan_valid :: "c43_policy_plan \<Rightarrow> bool" where
  "fwlab_c43_policy_plan_valid pl \<longleftrightarrow>
     (if \<not> plan_header_valid pl then False
      else if pl_semantic_status pl = FWLAB_C43_STATUS_SUCCESS \<and> pl_dnr pl \<noteq> 0 then False
      else if pl_semantic_status pl \<noteq> FWLAB_C43_STATUS_SUCCESS \<and>
              (pl_kind pl \<noteq> FWLAB_C43_PLAN_IMMEDIATE \<or> pl_result_dword0 pl \<noteq> 0 \<or>
               pl_actual_length pl \<noteq> 0) then False
      else if pl_kind pl = FWLAB_C43_PLAN_IMMEDIATE
      then pl_required_witness_mask pl = 0 \<and> pl_satisfied_witness_mask pl = 0 \<and>
           pl_result_dword0 pl = 0 \<and> pl_actual_length pl = 0 \<and> plan_bare pl
      else if pl_kind pl = FWLAB_C43_PLAN_QUEUE_EFFECT
      then pl_required_witness_mask pl = FWLAB_C43_WITNESS_QUEUE_EFFECT_COMMITTED \<and>
           pl_satisfied_witness_mask pl AND NOT FWLAB_C43_WITNESS_QUEUE_EFFECT_COMMITTED = 0 \<and>
           pl_result_dword0 pl = 0 \<and> pl_actual_length pl = 0 \<and> plan_bare pl
      else if pl_kind pl = FWLAB_C43_PLAN_ABORT_RESOLVE
      then pl_required_witness_mask pl = 0 \<and> pl_satisfied_witness_mask pl = 0 \<and>
           pl_result_dword0 pl \<le> 1 \<and> pl_actual_length pl = 0 \<and> plan_bare pl
      else if pl_kind pl = FWLAB_C43_PLAN_PAYLOAD then plan_payload_valid pl
      else if pl_kind pl = FWLAB_C43_PLAN_BLOCK then plan_block_valid pl
      else False)"

section \<open>Policy\<close>

definition policy_plan_base :: "c43_policy_request \<Rightarrow> u32 \<Rightarrow> u32 \<Rightarrow> u8 \<Rightarrow> c43_policy_plan" where
  "policy_plan_base rq kind status dnr = zero_c43_policy_plan
     \<lparr>pl_version := FWLAB_C43_POLICY_VERSION, pl_size := sizeof_c43_policy_plan,
      pl_command := pr_handle rq, pl_origin := pr_origin rq, pl_transaction_uid := pr_transaction_uid rq,
      pl_kind := kind, pl_semantic_status := status, pl_dnr := dnr\<rparr>"

definition policy_plan_emit :: "c43_policy_plan \<Rightarrow> c43_api_error + c43_policy_plan" where
  "policy_plan_emit pl =
     (if \<not> fwlab_c43_policy_plan_valid pl then Inl FWLAB_C43_API_POISONED else Inr pl)"

definition policy_error :: "c43_policy_request \<Rightarrow> u32 \<Rightarrow> u8 \<Rightarrow> c43_api_error + c43_policy_plan" where
  "policy_error rq status dnr =
     policy_plan_emit (policy_plan_base rq FWLAB_C43_PLAN_IMMEDIATE status dnr)"

definition request_expected_queue :: "u8 \<Rightarrow> u8" where
  "request_expected_queue kind =
     (if kind \<in> {FWLAB_C43_REQUEST_READ, FWLAB_C43_REQUEST_WRITE, FWLAB_C43_REQUEST_FLUSH}
      then FWLAB_NVME_QUEUE_IO else FWLAB_NVME_QUEUE_ADMIN)"

definition request_namespace_valid :: "c43_policy_request \<Rightarrow> bool" where
  "request_namespace_valid rq \<longleftrightarrow>
     (if pr_kind rq \<in> {FWLAB_C43_REQUEST_IDENTIFY_NAMESPACE,
           FWLAB_C43_REQUEST_IDENTIFY_NAMESPACE_DESCRIPTOR_LIST, FWLAB_C43_REQUEST_READ,
           FWLAB_C43_REQUEST_WRITE, FWLAB_C43_REQUEST_FLUSH}
      then pr_namespace_id rq = 1
      else if pr_kind rq = FWLAB_C43_REQUEST_IDENTIFY_ACTIVE_NAMESPACE_LIST then True
      else pr_namespace_id rq = 0)"

definition request_data_required :: "u8 \<Rightarrow> bool" where
  "request_data_required kind \<longleftrightarrow>
     kind = FWLAB_C43_REQUEST_IDENTIFY_CONTROLLER \<or> kind = FWLAB_C43_REQUEST_IDENTIFY_NAMESPACE \<or>
     kind = FWLAB_C43_REQUEST_IDENTIFY_ACTIVE_NAMESPACE_LIST \<or>
     kind = FWLAB_C43_REQUEST_IDENTIFY_NAMESPACE_DESCRIPTOR_LIST \<or>
     kind = FWLAB_C43_REQUEST_READ \<or> kind = FWLAB_C43_REQUEST_WRITE"

text \<open>\<open>request_common_error\<close>: the status and the do-not-retry bit it stores when it returns 1.\<close>

definition request_common_error :: "c43_policy_request \<Rightarrow> (u32 \<times> u8) option" where
  "request_common_error rq =
     (if pr_transport_fault rq \<noteq> FWLAB_NVME_TRANSPORT_NONE then
        Some (if pr_transport_fault rq = FWLAB_NVME_TRANSPORT_UNSUPPORTED_FORMAT
              then FWLAB_C43_STATUS_INVALID_FIELD
              else if pr_transport_fault rq = FWLAB_NVME_TRANSPORT_STALE_GENERATION
              then FWLAB_C43_STATUS_COMMAND_SEQUENCE
              else FWLAB_C43_STATUS_TRANSFER_FAILURE,
              if pr_transport_fault rq = FWLAB_NVME_TRANSPORT_QUEUE_MEMORY then 0 else 1)
      else if pr_kind rq = FWLAB_C43_REQUEST_UNSUPPORTED \<or>
              pr_queue_class rq \<noteq> request_expected_queue (pr_kind rq)
      then Some (FWLAB_C43_STATUS_UNSUPPORTED_COMMAND, 1)
      else if pr_reserved_bits_present rq \<noteq> 0 \<or> pr_fuse rq \<noteq> FWLAB_NVME_FUSE_NONE \<or>
              pr_pointer_format rq \<noteq> FWLAB_NVME_DATA_POINTER_PRP \<or> pr_metadata_present rq \<noteq> 0 \<or>
              pr_save rq \<noteq> 0 \<or> (pr_fua rq \<noteq> 0 \<and> pr_kind rq \<noteq> FWLAB_C43_REQUEST_WRITE) \<or>
              (request_data_required (pr_kind rq) \<and> pr_data_present rq = 0) \<or>
              (\<not> request_data_required (pr_kind rq) \<and> pr_data_present rq \<noteq> 0)
      then Some (FWLAB_C43_STATUS_INVALID_FIELD, 1)
      else if \<not> request_namespace_valid rq then Some (FWLAB_C43_STATUS_INVALID_NAMESPACE, 1)
      else None)"

definition identify_kind_of :: "u8 \<Rightarrow> u32" where
  "identify_kind_of kind =
     (if kind = FWLAB_C43_REQUEST_IDENTIFY_CONTROLLER then FWLAB_C43_IDENTIFY_CONTROLLER
      else if kind = FWLAB_C43_REQUEST_IDENTIFY_NAMESPACE then FWLAB_C43_IDENTIFY_NAMESPACE
      else if kind = FWLAB_C43_REQUEST_IDENTIFY_ACTIVE_NAMESPACE_LIST
      then FWLAB_C43_IDENTIFY_ACTIVE_NAMESPACE_LIST
      else FWLAB_C43_IDENTIFY_NAMESPACE_DESCRIPTOR_LIST)"

definition identify_plan :: "c43_policy_request \<Rightarrow> c43_policy_plan" where
  "identify_plan rq =
     (policy_plan_base rq FWLAB_C43_PLAN_PAYLOAD FWLAB_C43_STATUS_SUCCESS 0)
       \<lparr>pl_actual_length := FWLAB_C43_IDENTIFY_BYTES,
        pl_required_witness_mask := FWLAB_C43_WITNESS_PAYLOAD_READY OR FWLAB_C43_WITNESS_DMA_OUT_COMPLETE,
        pl_shape := zero_c43_transfer_shape\<lparr>sh_version := FWLAB_C43_POLICY_VERSION,
          sh_size := sizeof_c43_transfer_shape, sh_direction := FWLAB_C43_TRANSFER_CONTROLLER_TO_HOST,
          sh_data_bytes := FWLAB_C43_IDENTIFY_BYTES, sh_data_pointer_required := 1\<rparr>,
        pl_identify := zero_c43_identify_recipe\<lparr>ir_version := FWLAB_C43_POLICY_VERSION,
          ir_size := sizeof_c43_identify_recipe, ir_namespace_id := pr_namespace_id rq,
          ir_payload_bytes := FWLAB_C43_IDENTIFY_BYTES, ir_identity_version := 1,
          ir_kind := identify_kind_of (pr_kind rq)\<rparr>\<rparr>"

definition checked_transfer :: "nvme_profile \<Rightarrow> c43_policy_request \<Rightarrow> (u32 \<times> u32) option" where
  "checked_transfer profile rq =
     (let count = ucast (pr_zero_based_nlb rq) + 1 :: u64;
          blocks = ucast (pf_lba_count profile);
          block_end = pr_slba rq + count;
          nbytes = count * ucast (pf_lba_bytes profile)
      in if count > blocks \<or> pr_slba rq \<ge> blocks \<or> pr_slba rq > 0xFFFFFFFFFFFFFFFF - count then None
         else if block_end > blocks \<or> count > 0xFFFFFFFFFFFFFFFF div ucast (pf_lba_bytes profile) then None
         else if nbytes > ucast (pf_maximum_transfer_bytes profile) \<or> nbytes > 0xFFFFFFFF then None
         else Some (ucast count, ucast nbytes))"

definition block_plan ::
  "nvme_profile \<Rightarrow> c43_policy_request \<Rightarrow> u32 \<Rightarrow> u32 \<Rightarrow> u32 \<Rightarrow> c43_policy_plan" where
  "block_plan profile rq operation lba_count data_bytes =
     (let fua = pr_fua rq \<noteq> 0;
          durability =
            (if operation = FWLAB_C43_BLOCK_READ then FWLAB_C43_DURABILITY_DEFAULT
             else if operation = FWLAB_C43_BLOCK_WRITE
             then (if fua then FWLAB_C43_DURABILITY_REQUIRE_SELF else FWLAB_C43_DURABILITY_DEFAULT)
             else FWLAB_C43_DURABILITY_FIXED_FRONTIER);
          direction =
            (if operation = FWLAB_C43_BLOCK_READ then FWLAB_C43_TRANSFER_CONTROLLER_TO_HOST
             else if operation = FWLAB_C43_BLOCK_WRITE then FWLAB_C43_TRANSFER_HOST_TO_CONTROLLER
             else FWLAB_C43_TRANSFER_NONE);
          witness =
            (if operation = FWLAB_C43_BLOCK_READ
             then FWLAB_C43_WITNESS_BLOCK_READ_READY OR FWLAB_C43_WITNESS_DMA_OUT_COMPLETE
             else if operation = FWLAB_C43_BLOCK_WRITE
             then (let w = FWLAB_C43_WITNESS_DMA_IN_COMPLETE OR FWLAB_C43_WITNESS_BLOCK_WRITE_COMPLETE
                   in if fua then w OR FWLAB_C43_WITNESS_DURABILITY_COMPLETE else w)
             else FWLAB_C43_WITNESS_DURABILITY_COMPLETE);
          shape = zero_c43_transfer_shape\<lparr>sh_version := FWLAB_C43_POLICY_VERSION,
            sh_size := sizeof_c43_transfer_shape, sh_direction := direction\<rparr>;
          shape = (if operation \<noteq> FWLAB_C43_BLOCK_FLUSH
            then shape\<lparr>sh_data_bytes := data_bytes, sh_lba_bytes := pf_lba_bytes profile,
                   sh_lba_count := lba_count, sh_data_pointer_required := 1\<rparr>
            else shape)
      in (policy_plan_base rq FWLAB_C43_PLAN_BLOCK FWLAB_C43_STATUS_SUCCESS 0)
           \<lparr>pl_actual_length := data_bytes, pl_shape := shape, pl_required_witness_mask := witness,
            pl_block := zero_c43_block_intent\<lparr>bi_version := FWLAB_C43_POLICY_VERSION,
              bi_size := sizeof_c43_block_intent, bi_command := pr_handle rq, bi_origin := pr_origin rq,
              bi_slba := pr_slba rq, bi_namespace_id := 1, bi_operation := operation,
              bi_lba_count := lba_count, bi_data_bytes := data_bytes, bi_durability := durability\<rparr>\<rparr>)"

definition fwlab_c43_policy_begin ::
  "nvme_profile \<Rightarrow> c43_policy_request \<Rightarrow> c43_api_error + c43_policy_plan" where
  "fwlab_c43_policy_begin profile rq =
     (let kind = pr_kind rq
      in if \<not> c43_profile_is_fixed profile \<or> \<not> fwlab_c43_policy_request_valid rq
         then Inl FWLAB_C43_API_INVALID
         else case request_common_error rq of
             Some (status, dnr) \<Rightarrow> policy_error rq status dnr
           | None \<Rightarrow>
               if kind \<in> {FWLAB_C43_REQUEST_IDENTIFY_CONTROLLER, FWLAB_C43_REQUEST_IDENTIFY_NAMESPACE,
                    FWLAB_C43_REQUEST_IDENTIFY_ACTIVE_NAMESPACE_LIST,
                    FWLAB_C43_REQUEST_IDENTIFY_NAMESPACE_DESCRIPTOR_LIST}
               then policy_plan_emit (identify_plan rq)
               else if kind = FWLAB_C43_REQUEST_SET_NUMBER_OF_QUEUES then
                 if pr_feature_selector rq \<noteq> FWLAB_C43_FEATURE_NUMBER_OF_QUEUES \<or>
                    pr_requested_cq_count rq > 0xFFFF \<or> pr_requested_sq_count rq > 0xFFFF
                 then policy_error rq FWLAB_C43_STATUS_INVALID_FIELD 1
                 else policy_plan_emit
                        (policy_plan_base rq FWLAB_C43_PLAN_IMMEDIATE FWLAB_C43_STATUS_SUCCESS 0)
               else if kind = FWLAB_C43_REQUEST_CREATE_IO_CQ \<or> kind = FWLAB_C43_REQUEST_CREATE_IO_SQ then
                 if pr_queue_entries rq \<noteq> ucast (pf_integration_queue_depth profile)
                 then policy_error rq FWLAB_C43_STATUS_INVALID_QUEUE_SIZE 1
                 else policy_plan_emit
                   ((policy_plan_base rq FWLAB_C43_PLAN_QUEUE_EFFECT FWLAB_C43_STATUS_SUCCESS 0)
                      \<lparr>pl_required_witness_mask := FWLAB_C43_WITNESS_QUEUE_EFFECT_COMMITTED\<rparr>)
               else if kind = FWLAB_C43_REQUEST_DELETE_IO_CQ \<or> kind = FWLAB_C43_REQUEST_DELETE_IO_SQ
               then policy_plan_emit
                   ((policy_plan_base rq FWLAB_C43_PLAN_QUEUE_EFFECT FWLAB_C43_STATUS_SUCCESS 0)
                      \<lparr>pl_required_witness_mask := FWLAB_C43_WITNESS_QUEUE_EFFECT_COMMITTED\<rparr>)
               else if kind = FWLAB_C43_REQUEST_ABORT
               then policy_plan_emit
                      (policy_plan_base rq FWLAB_C43_PLAN_ABORT_RESOLVE FWLAB_C43_STATUS_SUCCESS 0)
               else if kind = FWLAB_C43_REQUEST_READ \<or> kind = FWLAB_C43_REQUEST_WRITE then
                 (case checked_transfer profile rq of
                    None \<Rightarrow> policy_error rq FWLAB_C43_STATUS_LBA_RANGE 1
                  | Some (lba_count, data_bytes) \<Rightarrow>
                      policy_plan_emit (block_plan profile rq
                        (if kind = FWLAB_C43_REQUEST_READ then FWLAB_C43_BLOCK_READ else FWLAB_C43_BLOCK_WRITE)
                        lba_count data_bytes))
               else if kind = FWLAB_C43_REQUEST_FLUSH
               then policy_plan_emit (block_plan profile rq FWLAB_C43_BLOCK_FLUSH 0 0)
               else Inl FWLAB_C43_API_POISONED)"

section \<open>Completion witnesses\<close>

definition effect_units_agree :: "u8 \<Rightarrow> u32 \<Rightarrow> bool" where
  "effect_units_agree effect units \<longleftrightarrow>
     (effect = FWLAB_NVME_EFFECT_NONE \<and> units = 0) \<or> effect = FWLAB_NVME_EFFECT_UNKNOWN_PREFIX \<or>
     ((effect = FWLAB_NVME_EFFECT_FULL \<or> effect = FWLAB_NVME_EFFECT_EXACT_PREFIX) \<and> units \<noteq> 0)"

definition strong_witness :: u32 where
  "strong_witness = FWLAB_C43_WITNESS_DMA_IN_COMPLETE OR FWLAB_C43_WITNESS_BLOCK_READ_READY OR
     FWLAB_C43_WITNESS_BLOCK_WRITE_COMPLETE OR FWLAB_C43_WITNESS_DMA_OUT_COMPLETE OR
     FWLAB_C43_WITNESS_DURABILITY_COMPLETE"

definition fwlab_c43_completion_witness_valid :: "c43_completion_witness \<Rightarrow> bool" where
  "fwlab_c43_completion_witness_valid cw \<longleftrightarrow>
     (if cw_version cw \<noteq> FWLAB_C43_POLICY_VERSION \<or> cw_size cw \<noteq> sizeof_c43_completion_witness \<or>
         cw_reserved0 cw \<noteq> 0 \<or> \<not> handle_valid (cw_command cw) \<or> \<not> origin_valid (cw_origin cw) \<or>
         cw_provider_generation cw = 0 \<or> \<not> c43_witness_mask_valid (cw_witness_mask cw) \<or>
         cw_effect_class cw > FWLAB_NVME_EFFECT_UNKNOWN_PREFIX \<or>
         cw_terminal_kind cw > FWLAB_HIF_ACTION_FAILED \<or> \<not> words_zero (cw_reserved1 cw) \<or>
         \<not> words_zero (cw_reserved2 cw) \<or> cw_reserved3 cw \<noteq> 0 then False
      else if cw_terminal_kind cw \<noteq> FWLAB_HIF_ACTION_SUCCESS
      then cw_witness_mask cw = 0 \<and> c43_ref_zero (cw_predecessor cw) \<and>
           effect_units_agree (cw_effect_class cw) (cw_units_completed cw)
      else if cw_witness_mask cw = 0 then False
      else if cw_witness_mask cw = FWLAB_C43_WITNESS_VALIDATED_ONLY
      then c43_ref_zero (cw_predecessor cw) \<and> cw_effect_class cw = FWLAB_NVME_EFFECT_NONE \<and>
           cw_units_completed cw = 0
      else if cw_witness_mask cw AND FWLAB_C43_WITNESS_VALIDATED_ONLY \<noteq> 0 then False
      else if cw_witness_mask cw AND strong_witness \<noteq> 0 \<and> c43_ref_zero (cw_predecessor cw) then False
      else if cw_witness_mask cw AND strong_witness = 0 \<and> \<not> c43_ref_zero (cw_predecessor cw) then False
      else effect_units_agree (cw_effect_class cw) (cw_units_completed cw))"

section \<open>Identify payloads\<close>

text \<open>\<open>copy_space_padded\<close>: the text in a field of the given width, filled up with spaces.\<close>

definition copy_space_padded :: "bytes \<Rightarrow> nat \<Rightarrow> nat \<Rightarrow> string \<Rightarrow> bytes" where
  "copy_space_padded output offset width value =
     put_bytes (put_bytes output offset (replicate width 0x20)) offset (map of_char value)"

definition fwlab_c43_identify_encode ::
  "c43_identify_recipe \<Rightarrow> nat \<Rightarrow> c43_api_error + bytes" where
  "fwlab_c43_identify_encode ir output_size =
     (let payload = replicate 4096 0
      in if \<not> fwlab_c43_identify_recipe_valid ir \<or> output_size \<noteq> 4096 then Inl FWLAB_C43_API_INVALID
         else if ir_kind ir = FWLAB_C43_IDENTIFY_CONTROLLER then
           let payload = copy_space_padded payload 4 20 ''FWLABC43P1-000000001'';
               payload = copy_space_padded payload 24 40 ''SSD Firmware Lab C43-P1'';
               payload = copy_space_padded payload 64 8 ''C43P1'';
               payload = m3p_put_le32 payload 516 1
           in Inr (payload[525 := 1])
         else if ir_kind ir = FWLAB_C43_IDENTIFY_NAMESPACE then
           let payload = put_u64 payload 0 8;
               payload = put_u64 payload 8 8;
               payload = put_u64 payload 16 8
           in Inr (payload[130 := 9])
         else if ir_kind ir = FWLAB_C43_IDENTIFY_ACTIVE_NAMESPACE_LIST
         then Inr (if ir_namespace_id ir < 1 then m3p_put_le32 payload 0 1 else payload)
         else if ir_kind ir = FWLAB_C43_IDENTIFY_NAMESPACE_DESCRIPTOR_LIST then Inr payload
         else Inl FWLAB_C43_API_POISONED)"

end
