(* ===== verification/Nvme_Action.thy ===== *)
theory Nvme_Action
  imports Nvme_Policy
begin

text \<open>
  The actions the NVMe core hands to its providers and the terminals they answer with: the common
  envelope (\<open>core/c4-nvme/c41_action.c\<close>) and the queue, target and block actions
  (\<open>c43_actions.c\<close>). All functions are validators of values that cross the boundary to a provider; the
  core believes a terminal only if it matches the request it sent.
\<close>

abbreviation (input) FWLAB_HIF_ACTION_VERSION :: u16 where "FWLAB_HIF_ACTION_VERSION \<equiv> 1"
abbreviation (input) FWLAB_C43_QUEUE_EFFECT_PORT_VERSION :: u16 where "FWLAB_C43_QUEUE_EFFECT_PORT_VERSION \<equiv> 1"
abbreviation (input) FWLAB_C43_TARGET_RESOLVER_PORT_VERSION :: u16 where "FWLAB_C43_TARGET_RESOLVER_PORT_VERSION \<equiv> 1"
abbreviation (input) FWLAB_C43_BLOCK_ACTION_PORT_VERSION :: u16 where "FWLAB_C43_BLOCK_ACTION_PORT_VERSION \<equiv> 1"

section \<open>Common envelope\<close>

definition fwlab_hif_action_token_valid :: "hif_action_token \<Rightarrow> bool" where
  "fwlab_hif_action_token_valid tk \<longleftrightarrow> \<not> (
     cmd_instance_nonce (tk_command tk) = 0 \<or> cmd_command_uid (tk_command tk) = 0 \<or>
     cmd_controller_epoch (tk_command tk) = 0 \<or> cmd_generation (tk_command tk) = 0 \<or>
     (fst (tk_origin tk) = 0 \<and> snd (tk_origin tk) = 0) \<or> tk_action_uid tk = 0 \<or>
     tk_generation tk = 0 \<or> tk_kind tk < FWLAB_HIF_ACTION_QUEUE_EFFECT \<or>
     tk_kind tk > FWLAB_HIF_ACTION_BLOCK \<or> tk_reserved tk \<noteq> 0)"

definition fwlab_hif_action_envelope_valid :: "hif_action_envelope \<Rightarrow> bool" where
  "fwlab_hif_action_envelope_valid ae \<longleftrightarrow>
     ae_version ae = FWLAB_HIF_ACTION_VERSION \<and> ae_size ae = sizeof_hif_action_envelope \<and>
     ae_reserved0 ae = 0 \<and> fwlab_hif_action_token_valid (ae_token ae) \<and> ae_cookie ae \<noteq> 0 \<and>
     ae_requested_units ae \<noteq> 0 \<and> words_zero (ae_reserved1 ae)"

definition fwlab_hif_action_terminal_valid :: "hif_action_terminal \<Rightarrow> bool" where
  "fwlab_hif_action_terminal_valid te \<longleftrightarrow>
     te_version te = FWLAB_HIF_ACTION_VERSION \<and> te_size te = sizeof_hif_action_terminal \<and>
     te_reserved0 te = 0 \<and> fwlab_hif_action_token_valid (te_token te) \<and> te_cookie te \<noteq> 0 \<and>
     te_terminal_kind te \<le> FWLAB_HIF_ACTION_FAILED \<and>
     te_effect_class te \<le> FWLAB_NVME_EFFECT_UNKNOWN_PREFIX \<and>
     te_retry te \<le> FWLAB_HIF_ACTION_RETRY_NEVER \<and> te_reserved1 te = 0 \<and> words_zero (te_reserved2 te)"

definition fwlab_hif_action_submit_result_valid :: "hif_action_submit_result \<Rightarrow> bool" where
  "fwlab_hif_action_submit_result_valid r \<longleftrightarrow>
     as_version r = FWLAB_HIF_ACTION_VERSION \<and> as_size r = sizeof_hif_action_submit_result \<and>
     as_reserved0 r = 0 \<and> fwlab_hif_action_token_valid (as_token r) \<and>
     as_disposition r \<le> FWLAB_HIF_ACTION_REJECTED \<and> as_retry r \<le> FWLAB_HIF_ACTION_RETRY_NEVER \<and>
     as_effect_class r \<le> FWLAB_NVME_EFFECT_UNKNOWN_PREFIX \<and> words_zero (as_reserved1 r) \<and>
     words_zero (as_reserved2 r)"

definition terminal_matches_envelope :: "hif_action_terminal \<Rightarrow> hif_action_envelope \<Rightarrow> bool" where
  "terminal_matches_envelope te ae \<longleftrightarrow> te_token te = ae_token ae \<and> te_cookie te = ae_cookie ae"

definition effect_units_valid :: "u8 \<Rightarrow> u32 \<Rightarrow> bool" where
  "effect_units_valid effect units \<longleftrightarrow>
     (if effect = FWLAB_NVME_EFFECT_NONE then units = 0
      else if effect = FWLAB_NVME_EFFECT_UNKNOWN_PREFIX then True
      else units \<noteq> 0)"

definition pair_nonzero :: "c43_opaque_ref \<Rightarrow> bool" where
  "pair_nonzero r \<longleftrightarrow> fst r \<noteq> 0 \<or> snd r \<noteq> 0"

definition c43_ticket_valid :: "hif_command_ticket \<Rightarrow> bool" where
  "c43_ticket_valid ct \<longleftrightarrow> handle_valid (ct_handle ct) \<and> origin_valid (ct_origin ct) \<and>
     ct_ticket_uid ct \<noteq> 0 \<and> ct_generation ct \<noteq> 0 \<and> ct_reserved ct = 0"

section \<open>Queue effects\<close>

definition queue_operation_role_valid :: "u32 \<Rightarrow> u32 \<Rightarrow> bool" where
  "queue_operation_role_valid operation role \<longleftrightarrow>
     (if operation = FWLAB_C43_QUEUE_CREATE_CQ \<or> operation = FWLAB_C43_QUEUE_DELETE_CQ
      then role = FWLAB_C43_QUEUE_ROLE_IO_CQ
      else if operation = FWLAB_C43_QUEUE_CREATE_SQ \<or> operation = FWLAB_C43_QUEUE_DELETE_SQ
      then role = FWLAB_C43_QUEUE_ROLE_IO_SQ
      else False)"

definition fwlab_c43_queue_facts_valid :: "c43_queue_facts \<Rightarrow> bool" where
  "fwlab_c43_queue_facts_valid qf \<longleftrightarrow>
     (if qf_version qf \<noteq> FWLAB_C43_QUEUE_EFFECT_PORT_VERSION \<or> qf_size qf \<noteq> sizeof_c43_queue_facts \<or>
         qf_reserved0 qf \<noteq> 0 \<or> \<not> pair_nonzero (qf_transaction qf) \<or>
         qf_operation qf < FWLAB_C43_QUEUE_CREATE_CQ \<or> qf_operation qf > FWLAB_C43_QUEUE_DELETE_SQ \<or>
         qf_role qf < FWLAB_C43_QUEUE_ROLE_IO_CQ \<or> qf_role qf > FWLAB_C43_QUEUE_ROLE_IO_SQ \<or>
         \<not> queue_operation_role_valid (qf_operation qf) (qf_role qf) \<or>
         \<not> boolean_valid (qf_address_present qf) \<or> \<not> boolean_valid (qf_queue_exists qf) \<or>
         \<not> boolean_valid (qf_associated_cq_exists qf) \<or> \<not> boolean_valid (qf_association_matches qf) \<or>
         \<not> boolean_valid (qf_active_commands_zero qf) \<or> \<not> boolean_valid (qf_target_refs_zero qf) \<or>
         \<not> boolean_valid (qf_reserved_publications_zero qf) \<or>
         \<not> boolean_valid (qf_unacked_completions_zero qf) \<or> \<not> boolean_valid (qf_current_relation qf) \<or>
         \<not> words_zero (qf_reserved1 qf) \<or> \<not> words_zero (qf_reserved2 qf) then False
      else if qf_queue_exists qf \<noteq> of_bool (pair_nonzero (qf_queue qf)) \<or>
              qf_associated_cq_exists qf \<noteq> of_bool (pair_nonzero (qf_associated_cq qf)) then False
      else if qf_role qf = FWLAB_C43_QUEUE_ROLE_IO_CQ
      then qf_associated_cq_exists qf = 0 \<and> qf_association_matches qf = 0
      else qf_association_matches qf = 0 \<or>
           (qf_queue_exists qf \<noteq> 0 \<and> qf_associated_cq_exists qf \<noteq> 0))"

definition fwlab_c43_queue_effect_request_valid :: "c43_queue_effect_request \<Rightarrow> bool" where
  "fwlab_c43_queue_effect_request_valid qr \<longleftrightarrow>
     qr_version qr = FWLAB_C43_QUEUE_EFFECT_PORT_VERSION \<and> qr_size qr = sizeof_c43_queue_effect_request \<and>
     qr_reserved0 qr = 0 \<and> fwlab_hif_action_envelope_valid (qr_common qr) \<and>
     tk_kind (ae_token (qr_common qr)) = FWLAB_HIF_ACTION_QUEUE_EFFECT \<and>
     ae_requested_units (qr_common qr) = 1 \<and> qr_operation qr \<ge> FWLAB_C43_QUEUE_CREATE_CQ \<and>
     qr_operation qr \<le> FWLAB_C43_QUEUE_DELETE_SQ \<and> qr_role qr \<ge> FWLAB_C43_QUEUE_ROLE_IO_CQ \<and>
     qr_role qr \<le> FWLAB_C43_QUEUE_ROLE_IO_SQ \<and>
     queue_operation_role_valid (qr_operation qr) (qr_role qr) \<and> words_zero (qr_reserved qr)"

definition fwlab_c43_queue_finish_request_valid :: "c43_queue_finish_request \<Rightarrow> bool" where
  "fwlab_c43_queue_finish_request_valid qn \<longleftrightarrow>
     qn_version qn = FWLAB_C43_QUEUE_EFFECT_PORT_VERSION \<and> qn_size qn = sizeof_c43_queue_finish_request \<and>
     qn_reserved0 qn = 0 \<and> fwlab_hif_action_token_valid (qn_token qn) \<and>
     tk_kind (qn_token qn) = FWLAB_HIF_ACTION_QUEUE_EFFECT \<and> pair_nonzero (qn_transaction qn) \<and>
     qn_decision qn \<ge> FWLAB_C43_QUEUE_FINISH_COMMIT \<and> qn_decision qn \<le> FWLAB_C43_QUEUE_FINISH_ABORT \<and>
     words_zero (qn_reserved1 qn)"

definition queue_state_valid :: "u32 \<Rightarrow> u32 \<Rightarrow> hif_action_terminal \<Rightarrow> bool" where
  "queue_state_valid state decision te \<longleftrightarrow>
     (let kind = te_terminal_kind te; effect = te_effect_class te; units = te_units_completed te
      in if state = FWLAB_C43_QUEUE_EFFECT_PREPARED
         then decision = 0 \<and> kind = FWLAB_HIF_ACTION_SUCCESS \<and> effect = FWLAB_NVME_EFFECT_NONE \<and> units = 0
         else if state = FWLAB_C43_QUEUE_EFFECT_COMMITTED
         then decision = FWLAB_C43_QUEUE_FINISH_COMMIT \<and> kind = FWLAB_HIF_ACTION_SUCCESS \<and>
              effect = FWLAB_NVME_EFFECT_FULL \<and> units \<noteq> 0
         else if state = FWLAB_C43_QUEUE_EFFECT_ABORTED
         then decision = FWLAB_C43_QUEUE_FINISH_ABORT \<and> kind = FWLAB_HIF_ACTION_SUCCESS \<and>
              effect = FWLAB_NVME_EFFECT_NONE \<and> units = 0
         else if state = FWLAB_C43_QUEUE_EFFECT_TOO_LATE
         then decision = FWLAB_C43_QUEUE_FINISH_ABORT \<and> kind = FWLAB_HIF_ACTION_SUCCESS \<and>
              effect = FWLAB_NVME_EFFECT_FULL \<and> units \<noteq> 0
         else if state = FWLAB_C43_QUEUE_EFFECT_RESET_SUPERSEDED
         then kind = FWLAB_HIF_ACTION_CANCELLED \<and> effect_units_valid effect units
         else if state = FWLAB_C43_QUEUE_EFFECT_FAILED
         then kind = FWLAB_HIF_ACTION_FAILED \<and> effect = FWLAB_NVME_EFFECT_NONE \<and> units = 0
         else if state = FWLAB_C43_QUEUE_EFFECT_POISONED
         then kind = FWLAB_HIF_ACTION_FAILED \<and> effect = FWLAB_NVME_EFFECT_UNKNOWN_PREFIX
         else False)"

definition fwlab_c43_queue_effect_terminal_valid :: "c43_queue_effect_terminal \<Rightarrow> bool" where
  "fwlab_c43_queue_effect_terminal_valid qt \<longleftrightarrow>
     (if qt_version qt \<noteq> FWLAB_C43_QUEUE_EFFECT_PORT_VERSION \<or>
         qt_size qt \<noteq> sizeof_c43_queue_effect_terminal \<or> qt_reserved0 qt \<noteq> 0 \<or>
         \<not> fwlab_hif_action_terminal_valid (qt_common qt) \<or>
         tk_kind (te_token (qt_common qt)) \<noteq> FWLAB_HIF_ACTION_QUEUE_EFFECT \<or>
         \<not> fwlab_c43_queue_facts_valid (qt_facts qt) \<or>
         qt_decision qt > FWLAB_C43_QUEUE_FINISH_ABORT \<or> \<not> words_zero (qt_reserved qt) then False
      else queue_state_valid (qt_state qt) (qt_decision qt) (qt_common qt))"

definition fwlab_c43_queue_effect_terminal_matches_request ::
  "c43_queue_effect_request \<Rightarrow> c43_queue_effect_terminal \<Rightarrow> bool" where
  "fwlab_c43_queue_effect_terminal_matches_request qr qt \<longleftrightarrow>
     fwlab_c43_queue_effect_request_valid qr \<and> fwlab_c43_queue_effect_terminal_valid qt \<and>
     terminal_matches_envelope (qt_common qt) (qr_common qr) \<and>
     qf_operation (qt_facts qt) = qr_operation qr \<and> qf_role (qt_facts qt) = qr_role qr \<and>
     ((qt_state qt \<noteq> FWLAB_C43_QUEUE_EFFECT_COMMITTED \<and> qt_state qt \<noteq> FWLAB_C43_QUEUE_EFFECT_TOO_LATE) \<or>
      te_units_completed (qt_common qt) = ae_requested_units (qr_common qr))"

definition fwlab_c43_queue_finish_terminal_matches_request ::
  "c43_queue_finish_request \<Rightarrow> c43_queue_effect_terminal \<Rightarrow> bool" where
  "fwlab_c43_queue_finish_terminal_matches_request qn qt \<longleftrightarrow>
     fwlab_c43_queue_finish_request_valid qn \<and> fwlab_c43_queue_effect_terminal_valid qt \<and>
     qn_token qn = te_token (qt_common qt) \<and> qn_transaction qn = qf_transaction (qt_facts qt) \<and>
     qn_decision qn = qt_decision qt"

section \<open>Abort targets\<close>

definition fwlab_c43_target_request_valid :: "c43_target_request \<Rightarrow> bool" where
  "fwlab_c43_target_request_valid tr \<longleftrightarrow>
     tr_version tr = FWLAB_C43_TARGET_RESOLVER_PORT_VERSION \<and> tr_size tr = sizeof_c43_target_request \<and>
     tr_reserved0 tr = 0 \<and> fwlab_hif_action_envelope_valid (tr_common tr) \<and>
     tk_kind (ae_token (tr_common tr)) = FWLAB_HIF_ACTION_QUEUE_EFFECT \<and>
     ae_requested_units (tr_common tr) = 1 \<and> c43_ticket_valid (tr_abort_command tr) \<and>
     tk_command (ae_token (tr_common tr)) = ct_handle (tr_abort_command tr) \<and>
     tk_origin (ae_token (tr_common tr)) = ct_origin (tr_abort_command tr) \<and>
     tr_operation tr = FWLAB_C43_TARGET_RESOLVE_ABORT \<and> words_zero (tr_reserved tr)"

definition fwlab_c43_target_terminal_valid :: "c43_target_terminal \<Rightarrow> bool" where
  "fwlab_c43_target_terminal_valid tt \<longleftrightarrow>
     (let te = tt_common tt; outcome = tt_outcome tt; kind = te_terminal_kind te
      in if tt_version tt \<noteq> FWLAB_C43_TARGET_RESOLVER_PORT_VERSION \<or>
            tt_size tt \<noteq> sizeof_c43_target_terminal \<or> tt_reserved0 tt \<noteq> 0 \<or>
            \<not> fwlab_hif_action_terminal_valid te \<or>
            tk_kind (te_token te) \<noteq> FWLAB_HIF_ACTION_QUEUE_EFFECT \<or>
            te_effect_class te \<noteq> FWLAB_NVME_EFFECT_NONE \<or> te_units_completed te \<noteq> 0 \<or>
            outcome < FWLAB_C43_TARGET_FOUND \<or> outcome > FWLAB_C43_TARGET_RELEASED \<or>
            \<not> words_zero (tt_reserved tt) then False
         else if outcome = FWLAB_C43_TARGET_FOUND
         then c43_ticket_valid (tt_target tt) \<and> pair_nonzero (tt_reference tt) \<and>
              cmd_instance_nonce (ct_handle (tt_target tt)) = cmd_instance_nonce (tk_command (te_token te)) \<and>
              cmd_controller_epoch (ct_handle (tt_target tt)) = cmd_controller_epoch (tk_command (te_token te)) \<and>
              ct_handle (tt_target tt) \<noteq> tk_command (te_token te) \<and> kind = FWLAB_HIF_ACTION_SUCCESS
         else if tt_target tt \<noteq> zero_hif_command_ticket \<or> pair_nonzero (tt_reference tt) then False
         else if outcome = FWLAB_C43_TARGET_NOT_FOUND \<or> outcome = FWLAB_C43_TARGET_TOO_LATE \<or>
                 outcome = FWLAB_C43_TARGET_RELEASED then kind = FWLAB_HIF_ACTION_SUCCESS
         else if outcome = FWLAB_C43_TARGET_STALE \<or> outcome = FWLAB_C43_TARGET_SUPERSEDED
         then kind = FWLAB_HIF_ACTION_CANCELLED
         else if outcome = FWLAB_C43_TARGET_FAULT then kind = FWLAB_HIF_ACTION_FAILED
         else False)"

definition fwlab_c43_target_terminal_matches_request ::
  "c43_target_request \<Rightarrow> c43_target_terminal \<Rightarrow> bool" where
  "fwlab_c43_target_terminal_matches_request tr tt \<longleftrightarrow>
     fwlab_c43_target_request_valid tr \<and> fwlab_c43_target_terminal_valid tt \<and>
     terminal_matches_envelope (tt_common tt) (tr_common tr)"

section \<open>Block actions\<close>

definition block_expected_witness :: "c43_block_intent \<Rightarrow> u32" where
  "block_expected_witness bi =
     (if bi_operation bi = FWLAB_C43_BLOCK_READ then FWLAB_C43_WITNESS_BLOCK_READ_READY
      else if bi_operation bi = FWLAB_C43_BLOCK_WRITE
      then (if bi_durability bi = FWLAB_C43_DURABILITY_REQUIRE_SELF
            then FWLAB_C43_WITNESS_BLOCK_WRITE_COMPLETE OR FWLAB_C43_WITNESS_DURABILITY_COMPLETE
            else FWLAB_C43_WITNESS_BLOCK_WRITE_COMPLETE)
      else FWLAB_C43_WITNESS_DURABILITY_COMPLETE)"

definition fwlab_c43_block_action_request_valid :: "c43_block_action_request \<Rightarrow> bool" where
  "fwlab_c43_block_action_request_valid bq \<longleftrightarrow>
     (let ae = bq_common bq; bi = bq_intent bq
      in if bq_version bq \<noteq> FWLAB_C43_BLOCK_ACTION_PORT_VERSION \<or>
            bq_size bq \<noteq> sizeof_c43_block_action_request \<or> bq_reserved0 bq \<noteq> 0 \<or>
            \<not> fwlab_hif_action_envelope_valid ae \<or> tk_kind (ae_token ae) \<noteq> FWLAB_HIF_ACTION_BLOCK \<or>
            \<not> fwlab_c43_block_intent_valid bi \<or> tk_command (ae_token ae) \<noteq> bi_command bi \<or>
            tk_origin (ae_token ae) \<noteq> bi_origin bi \<or>
            \<not> c43_witness_mask_valid (bq_requested_witness_mask bq) \<or> \<not> words_zero (bq_reserved bq)
         then False
         else if ae_requested_units ae \<noteq> (if bi_lba_count bi = 0 then 1 else bi_lba_count bi) then False
         else if bq_requested_witness_mask bq = FWLAB_C43_WITNESS_VALIDATED_ONLY
         then c43_ref_zero (bq_predecessor bq)
         else bq_requested_witness_mask bq = block_expected_witness bi \<and>
              \<not> c43_ref_zero (bq_predecessor bq))"

definition fwlab_c43_block_action_terminal_valid :: "c43_block_action_terminal \<Rightarrow> bool" where
  "fwlab_c43_block_action_terminal_valid bx \<longleftrightarrow>
     (let te = bx_common bx; cw = bx_witness bx; kind = bx_block_terminal_kind bx
      in if bx_version bx \<noteq> FWLAB_C43_BLOCK_ACTION_PORT_VERSION \<or>
            bx_size bx \<noteq> sizeof_c43_block_action_terminal \<or> bx_reserved0 bx \<noteq> 0 \<or>
            \<not> fwlab_hif_action_terminal_valid te \<or> tk_kind (te_token te) \<noteq> FWLAB_HIF_ACTION_BLOCK \<or>
            \<not> fwlab_c43_completion_witness_valid cw \<or> tk_command (te_token te) \<noteq> cw_command cw \<or>
            tk_origin (te_token te) \<noteq> cw_origin cw \<or> te_terminal_kind te \<noteq> cw_terminal_kind cw \<or>
            te_effect_class te \<noteq> cw_effect_class cw \<or> te_units_completed te \<noteq> cw_units_completed cw \<or>
            kind < FWLAB_C43_BLOCK_VALIDATED_ONLY \<or> kind > FWLAB_C43_BLOCK_COMPLETED \<or>
            \<not> words_zero (bx_reserved bx) then False
         else if kind = FWLAB_C43_BLOCK_VALIDATED_ONLY
         then te_terminal_kind te = FWLAB_HIF_ACTION_SUCCESS \<and>
              cw_witness_mask cw = FWLAB_C43_WITNESS_VALIDATED_ONLY \<and>
              te_effect_class te = FWLAB_NVME_EFFECT_NONE \<and> cw_effect_class cw = FWLAB_NVME_EFFECT_NONE \<and>
              cw_units_completed cw = 0
         else if kind = FWLAB_C43_BLOCK_FAILED_NO_EFFECT
         then te_terminal_kind te = FWLAB_HIF_ACTION_FAILED \<and> te_effect_class te = FWLAB_NVME_EFFECT_NONE \<and>
              cw_witness_mask cw = 0 \<and> cw_effect_class cw = FWLAB_NVME_EFFECT_NONE \<and>
              cw_units_completed cw = 0
         else if kind = FWLAB_C43_BLOCK_CANCELLED
         then te_terminal_kind te = FWLAB_HIF_ACTION_CANCELLED \<and> cw_witness_mask cw = 0 \<and>
              effect_units_valid (te_effect_class te) (te_units_completed te)
         else te_terminal_kind te = FWLAB_HIF_ACTION_SUCCESS \<and> cw_witness_mask cw \<noteq> 0 \<and>
              cw_witness_mask cw AND NOT (FWLAB_C43_WITNESS_BLOCK_READ_READY OR
                FWLAB_C43_WITNESS_BLOCK_WRITE_COMPLETE OR FWLAB_C43_WITNESS_DURABILITY_COMPLETE) = 0 \<and>
              \<not> c43_ref_zero (cw_predecessor cw) \<and>
              effect_units_valid (te_effect_class te) (te_units_completed te))"

definition fwlab_c43_block_action_port_valid :: "c43_block_action_port \<Rightarrow> bool" where
  "fwlab_c43_block_action_port_valid bp \<longleftrightarrow>
     (if \<not> bp_ops_present bp \<or> \<not> bp_context_present bp \<or> bp_generation bp = 0 \<or>
         bp_capability_bits bp = 0 \<or> bp_capability_bits bp AND NOT FWLAB_C43_BLOCK_CAP_ALL \<noteq> 0 \<or>
         bp_reserved bp \<noteq> 0 then False
      else bp_ops_version bp = FWLAB_C43_BLOCK_ACTION_PORT_VERSION \<and>
           bp_ops_size bp = sizeof_c43_block_action_port_ops \<and> bp_ops_reserved0 bp = 0 \<and>
           list_all id (bp_ops_functions bp) \<and> words_zero (bp_ops_reserved1 bp))"

definition required_capability :: "u32 \<Rightarrow> u32" where
  "required_capability m =
     (if m = FWLAB_C43_WITNESS_VALIDATED_ONLY then FWLAB_C43_BLOCK_CAP_VALIDATION_ONLY
      else (if m AND (FWLAB_C43_WITNESS_BLOCK_READ_READY OR FWLAB_C43_WITNESS_BLOCK_WRITE_COMPLETE) \<noteq> 0
            then FWLAB_C43_BLOCK_CAP_DATA_EFFECT else 0) OR
           (if m AND FWLAB_C43_WITNESS_DURABILITY_COMPLETE \<noteq> 0
            then FWLAB_C43_BLOCK_CAP_DURABILITY else 0))"

definition fwlab_c43_block_action_request_valid_for_port ::
  "c43_block_action_request \<Rightarrow> c43_block_action_port \<Rightarrow> bool" where
  "fwlab_c43_block_action_request_valid_for_port bq bp \<longleftrightarrow>
     (if \<not> fwlab_c43_block_action_request_valid bq \<or> \<not> fwlab_c43_block_action_port_valid bp then False
      else bp_capability_bits bp AND required_capability (bq_requested_witness_mask bq) =
           required_capability (bq_requested_witness_mask bq))"

definition fwlab_c43_block_action_terminal_matches_request ::
  "c43_block_action_request \<Rightarrow> c43_block_action_terminal \<Rightarrow> c43_block_action_port \<Rightarrow> bool" where
  "fwlab_c43_block_action_terminal_matches_request bq bx bp \<longleftrightarrow>
     (if \<not> fwlab_c43_block_action_request_valid_for_port bq bp \<or>
         \<not> fwlab_c43_block_action_terminal_valid bx \<or>
         \<not> terminal_matches_envelope (bx_common bx) (bq_common bq) \<or>
         cw_provider_generation (bx_witness bx) \<noteq> bp_generation bp then False
      else if bx_block_terminal_kind bx = FWLAB_C43_BLOCK_FAILED_NO_EFFECT \<or>
              bx_block_terminal_kind bx = FWLAB_C43_BLOCK_CANCELLED then True
      else cw_predecessor (bx_witness bx) = bq_predecessor bq \<and>
           cw_witness_mask (bx_witness bx) = bq_requested_witness_mask bq)"

end
