(* ===== verification/Nvme_Codec_Laws.thy ===== *)
theory Nvme_Codec_Laws
  imports Nvme_Codec M3p_Codec_Laws
begin

text \<open>
  The NVMe wire formats are exact: encoder and decoder are inverse to each other, in both directions,
  for commands, completions and profiles. Each format is an interpretation of \<open>wire_codec\<close>.
\<close>

section \<open>Fields\<close>

lemma length_put_u64 [simp]: "length (put_u64 bs off v) = length bs"
  by (simp add: put_u64_def)

lemma length_put_magic [simp]: "length (put_magic bs m n) = length bs"
  by (simp add: put_magic_def)

lemma length_put_handle [simp]: "length (put_handle bs h w) = length bs"
  by (simp add: put_handle_def)

lemma get_u64_put_u64 [codec_simps]: "off + 7 < length bs \<Longrightarrow> get_u64 (put_u64 bs off v) off = v"
  by (simp add: get_u64_def put_u64_def codec_simps le64_of_words)

lemma get_u64_frame [codec_simps]:
  "off' < off \<or> off + 8 \<le> off' \<Longrightarrow> get_u64 (bs[off' := b]) off = get_u64 bs off"
  "off' + 2 \<le> off \<or> off + 8 \<le> off' \<Longrightarrow> get_u64 (m3p_put_le16 bs off' w) off = get_u64 bs off"
  "off' + 4 \<le> off \<or> off + 8 \<le> off' \<Longrightarrow> get_u64 (m3p_put_le32 bs off' v) off = get_u64 bs off"
  "off' + 8 \<le> off \<or> off + 8 \<le> off' \<Longrightarrow> get_u64 (put_u64 bs off' x) off = get_u64 bs off"
  by (auto simp: get_u64_def put_u64_def codec_simps)

lemma put_u64_frame [codec_simps]:
  "off' + 8 \<le> off \<or> off + 2 \<le> off' \<Longrightarrow> m3p_get_le16 (put_u64 bs off' x) off = m3p_get_le16 bs off"
  "off' + 8 \<le> off \<or> off + 4 \<le> off' \<Longrightarrow> m3p_get_le32 (put_u64 bs off' x) off = m3p_get_le32 bs off"
  "off' + 8 \<le> off \<or> off + n \<le> off' \<Longrightarrow> slice (put_u64 bs off' x) off n = slice bs off n"
  "off' + 8 \<le> i \<or> i < off' \<Longrightarrow> put_u64 bs off' x ! i = bs ! i"
  by (auto simp: put_u64_def codec_simps)

section \<open>Canonical bytes\<close>

text \<open>Writing back what was read extends the prefix on which two arrays agree.\<close>

lemma bytes_of_le16:
  fixes a b :: u8
  shows "(ucast ((ucast a :: u16) OR push_bit 8 (ucast b)) :: u8) = a"
    and "(ucast (drop_bit 8 ((ucast a :: u16) OR push_bit 8 (ucast b))) :: u8) = b"
  by (rule bit_word_eqI, auto simp: bit_simps dest: bit_imp_le_length)+

lemma bytes_of_le32:
  fixes a b c d :: u8
  defines "v \<equiv> (ucast a :: u32) OR push_bit 8 (ucast b) OR push_bit 16 (ucast c) OR push_bit 24 (ucast d)"
  shows "(ucast v :: u8) = a" and "(ucast (drop_bit 8 v) :: u8) = b"
    and "(ucast (drop_bit 16 v) :: u8) = c" and "(ucast (drop_bit 24 v) :: u8) = d"
  unfolding v_def by (rule bit_word_eqI, auto simp: bit_simps dest: bit_imp_le_length)+

lemma words_of_le64:
  fixes a b :: u32
  shows "(ucast ((ucast a :: u64) OR push_bit 32 (ucast b)) :: u32) = a"
    and "(ucast (drop_bit 32 ((ucast a :: u64) OR push_bit 32 (ucast b))) :: u32) = b"
  by (rule bit_word_eqI, auto simp: bit_simps dest: bit_imp_le_length)+

lemma extend_byte:
  assumes "take off b = take off bs" and "k = Suc off" and "k \<le> length b" and "length bs = length b"
    and "x = bs ! off"
  shows "take k (b[off := x]) = take k bs"
  using assms by (simp add: take_Suc_conv_app_nth)

lemma extend_le16:
  assumes "take off b = take off bs" and "k = off + 2" and "k \<le> length b" and "length bs = length b"
    and "v = m3p_get_le16 bs off"
  shows "take k (m3p_put_le16 b off v) = take k bs"
  unfolding m3p_put_le16_def assms(5) m3p_get_le16_def bytes_of_le16
  by (intro extend_byte assms(1)) (use assms in auto)

lemma extend_le32:
  assumes "take off b = take off bs" and "k = off + 4" and "k \<le> length b" and "length bs = length b"
    and "v = m3p_get_le32 bs off"
  shows "take k (m3p_put_le32 b off v) = take k bs"
  unfolding m3p_put_le32_def assms(5) m3p_get_le32_def bytes_of_le32
  by (intro extend_byte assms(1)) (use assms in auto)

lemma extend_u64:
  assumes "take off b = take off bs" and "k = off + 8" and "k \<le> length b" and "length bs = length b"
    and "v = get_u64 bs off"
  shows "take k (put_u64 b off v) = take k bs"
  unfolding put_u64_def assms(5) get_u64_def words_of_le64
  by (intro extend_le32 assms(1)) (use assms in auto)

lemma zero_tail:
  assumes "m3p_bytes_zero bs off n" and "length bs = off + n"
  shows "drop off bs = replicate n 0"
  using assms replicate_length_same [of "drop off bs" 0]
  by (simp add: m3p_bytes_zero_def slice_def list_all_iff)

lemma magic_bytes:
  assumes "magic_ok bs m n"
  shows "bs ! 0 = 0x46" "bs ! Suc 0 = 0x34" "bs ! 2 = m" "bs ! 3 = n"
  using assms by (simp_all add: magic_ok_def)

lemmas extend = extend_byte extend_le16 extend_le32 extend_u64

section \<open>Commands\<close>

definition command_typed :: "nvme_command \<Rightarrow> bool" where
  "command_typed c \<longleftrightarrow> length (nvc_command_dword10_15 c) = 6 \<and> length (nvc_reserved2 c) = 5"

lemma words_zero_replicate: "words_zero xs \<longleftrightarrow> xs = replicate (length xs) 0"
  by (auto simp: words_zero_def replicate_length_same intro!: replicate_eqI) (metis in_set_replicate)

lemma upt_6: "[0..<6] = [0, 1, 2, 3, 4, 5]"
  by (simp add: upt_rec)

lemma length_command_wire [simp]: "length (command_wire c) = 128"
  by (simp add: command_wire_def Let_def upt_6)

lemma list_of_six: "length xs = 6 \<Longrightarrow> [xs ! 0, xs ! 1, xs ! 2, xs ! 3, xs ! 4, xs ! 5] = xs"
  by (rule nth_equalityI) (auto simp: less_Suc_eq numeral_eq_Suc)

lemma command_read_wire:
  assumes "command_typed c" and "nvc_size c = 128" and "nvc_reserved0 c = 0" and "nvc_reserved1 c = 0"
    and "words_zero (nvc_reserved2 c)"
  shows "command_read (command_wire c) = c"
proof -
  have "nvc_reserved2 c = replicate 5 0"
    using assms(1,5) words_zero_replicate [of "nvc_reserved2 c"] by (simp add: command_typed_def)
  then show ?thesis
    using assms(1-4) list_of_six [of "nvc_command_dword10_15 c"]
    by (cases c) (simp add: command_read_def command_wire_def Let_def get_handle_def get_origin_def
        put_handle_def put_magic_def upt_6 codec_simps command_typed_def zero_nvme_command_def)
qed

lemma command_wire_header:
  "magic_ok (command_wire c) 0x4e 0x43" "m3p_get_le16 (command_wire c) 6 = 128"
  "m3p_get_le16 (command_wire c) 4 = nvc_version c" "m3p_bytes_zero (command_wire c) 107 21"
  by (simp_all add: magic_ok_def m3p_bytes_zero_def command_wire_def Let_def put_handle_def put_magic_def
      upt_6 codec_simps)

lemma command_wire_read:
  assumes "length bs = 128" and "magic_ok bs 0x4e 0x43" and "m3p_get_le16 bs 6 = 128"
    and "m3p_bytes_zero bs 107 21"
  shows "command_wire (command_read bs) = bs"
proof -
  note read = assms(1,3) magic_bytes [OF assms(2)] command_read_def get_handle_def get_origin_def
  have "take 107 (command_wire (command_read bs)) = take 107 bs"
    unfolding command_wire_def Let_def put_handle_def put_magic_def upt_6 foldl.simps
    by (rule extend take_0 | simp add: read)+
  moreover have "drop 107 (command_wire (command_read bs)) = drop 107 bs"
    using zero_tail [OF assms(4)] zero_tail [OF command_wire_header(4)] assms(1) by simp
  ultimately show ?thesis
    by (metis append_take_drop_id)
qed

interpretation command_codec: wire_codec "\<lambda>c. fwlab_nvme_command_encode c 128"
  fwlab_nvme_command_decode command_typed
proof
  fix c bs
  assume "command_typed c" and enc: "fwlab_nvme_command_encode c 128 = Inr bs"
  then have "fwlab_nvme_command_valid c" and bs: "bs = command_wire c"
    by (auto simp: fwlab_nvme_command_encode_def split: if_splits)
  moreover from this have "command_read bs = c" and "nvc_version c = 1"
    using command_read_wire [OF \<open>command_typed c\<close>] by (auto simp: fwlab_nvme_command_valid_def split: if_splits)
  ultimately show "fwlab_nvme_command_decode bs = Inr c"
    using command_wire_header [of c] by (simp add: fwlab_nvme_command_decode_def)
next
  fix c bs
  assume dec: "fwlab_nvme_command_decode bs = Inr c"
  then have "fwlab_nvme_command_valid c" and "c = command_read bs"
    and "length bs = 128" "magic_ok bs 0x4e 0x43" "m3p_get_le16 bs 6 = 128" "m3p_bytes_zero bs 107 21"
    by (auto simp: fwlab_nvme_command_decode_def split: if_splits)
  then show "command_typed c \<and> fwlab_nvme_command_encode c 128 = Inr bs"
    using command_wire_read
    by (simp add: fwlab_nvme_command_encode_def command_typed_def command_read_def zero_nvme_command_def)
qed

section \<open>Completions\<close>

lemma length_completion_wire [simp]: "length (completion_wire c) = 64"
  by (simp add: completion_wire_def Let_def)

lemma completion_read_wire:
  assumes "ci_size c = 64" and "ci_reserved0 c = 0" and "ci_reserved1 c = 0"
  shows "completion_read (completion_wire c) = c"
  using assms by (cases c) (simp add: completion_read_def completion_wire_def Let_def get_handle_def
      get_origin_def put_handle_def put_magic_def codec_simps zero_nvme_completion_intent_def)

lemma completion_wire_header:
  "magic_ok (completion_wire c) 0x43 0x49" "m3p_get_le16 (completion_wire c) 6 = 64"
  "m3p_get_le16 (completion_wire c) 4 = ci_version c" "completion_wire c ! 63 = 0"
  by (simp_all add: magic_ok_def completion_wire_def Let_def put_handle_def put_magic_def codec_simps)

lemma take_Suc_all:
  assumes "take n xs = take n ys" and "length xs = Suc n" and "length ys = Suc n" and "xs ! n = ys ! n"
  shows "xs = ys"
  using assms take_Suc_conv_app_nth [of n xs] take_Suc_conv_app_nth [of n ys] by simp

lemma completion_wire_read:
  assumes "length bs = 64" and "magic_ok bs 0x43 0x49" and "m3p_get_le16 bs 6 = 64" and "bs ! 63 = 0"
  shows "completion_wire (completion_read bs) = bs"
proof (rule take_Suc_all)
  note read = assms(1,3) magic_bytes [OF assms(2)] completion_read_def get_handle_def get_origin_def
  show "take 63 (completion_wire (completion_read bs)) = take 63 bs"
    unfolding completion_wire_def Let_def put_handle_def put_magic_def
    by (rule extend take_0 | simp add: read)+
qed (simp_all add: assms completion_wire_header)

interpretation completion_codec: wire_codec "\<lambda>c. fwlab_nvme_completion_encode c 64"
  fwlab_nvme_completion_decode "\<lambda>_. True"
proof
  fix c bs
  assume "fwlab_nvme_completion_encode c 64 = Inr bs"
  then have "fwlab_nvme_completion_valid c" and bs: "bs = completion_wire c"
    by (auto simp: fwlab_nvme_completion_encode_def split: if_splits)
  moreover from this have "completion_read bs = c" and "ci_version c = 1"
    using completion_read_wire by (auto simp: fwlab_nvme_completion_valid_def split: if_splits)
  ultimately show "fwlab_nvme_completion_decode bs = Inr c"
    using completion_wire_header [of c] by (simp add: fwlab_nvme_completion_decode_def)
next
  fix c bs
  assume "fwlab_nvme_completion_decode bs = Inr c"
  then have "fwlab_nvme_completion_valid c" and "c = completion_read bs"
    and "length bs = 64" "magic_ok bs 0x43 0x49" "m3p_get_le16 bs 6 = 64" "bs ! 63 = 0"
    by (auto simp: fwlab_nvme_completion_decode_def split: if_splits)
  then show "True \<and> fwlab_nvme_completion_encode c 64 = Inr bs"
    using completion_wire_read by (simp add: fwlab_nvme_completion_encode_def)
qed

section \<open>Profiles\<close>

definition profile_typed :: "nvme_profile \<Rightarrow> bool" where
  "profile_typed p \<longleftrightarrow> length (pf_reserved1 p) = 6"

lemma profile_valid_fixed:
  assumes "profile_typed p"
  shows "fwlab_nvme_profile_valid p \<longleftrightarrow> p = fwlab_nvme_profile_fixed"
  using assms words_zero_replicate [of "pf_reserved1 p"]
  by (cases p) (auto simp: fwlab_nvme_profile_valid_def fwlab_nvme_profile_fixed_def profile_typed_def
      zero_nvme_profile_def)

lemma profile_fixed_valid: "profile_typed fwlab_nvme_profile_fixed" "fwlab_nvme_profile_valid fwlab_nvme_profile_fixed"
  by (simp_all add: profile_typed_def fwlab_nvme_profile_valid_def fwlab_nvme_profile_fixed_def
      zero_nvme_profile_def words_zero_def)

lemma length_profile_wire [simp]: "length (profile_wire p) = 64"
  by (simp add: profile_wire_def Let_def)

lemma profile_read_wire:
  "profile_read (profile_wire fwlab_nvme_profile_fixed) = fwlab_nvme_profile_fixed"
  by (simp add: profile_read_def profile_wire_def Let_def put_magic_def codec_simps
      fwlab_nvme_profile_fixed_def zero_nvme_profile_def)

lemma profile_wire_header:
  "magic_ok (profile_wire p) 0x50 0x46" "m3p_get_le16 (profile_wire p) 6 = 64"
  "m3p_get_le16 (profile_wire p) 4 = pf_version p" "m3p_bytes_zero (profile_wire p) 40 24"
  by (simp_all add: magic_ok_def m3p_bytes_zero_def profile_wire_def Let_def put_magic_def codec_simps)

lemma profile_wire_read:
  assumes "length bs = 64" and "magic_ok bs 0x50 0x46" and "m3p_get_le16 bs 6 = 64"
    and "m3p_bytes_zero bs 40 24"
  shows "profile_wire (profile_read bs) = bs"
proof -
  note read = assms(1,3) magic_bytes [OF assms(2)] profile_read_def
  have "take 40 (profile_wire (profile_read bs)) = take 40 bs"
    unfolding profile_wire_def Let_def put_magic_def
    by (rule extend take_0 | simp add: read)+
  moreover have "drop 40 (profile_wire (profile_read bs)) = drop 40 bs"
    using zero_tail [OF assms(4)] zero_tail [OF profile_wire_header(4)] assms(1) by simp
  ultimately show ?thesis
    by (metis append_take_drop_id)
qed

interpretation profile_codec: wire_codec "\<lambda>p. fwlab_nvme_profile_encode p 64"
  fwlab_nvme_profile_decode profile_typed
proof
  fix p bs
  assume "profile_typed p" and "fwlab_nvme_profile_encode p 64 = Inr bs"
  then have "p = fwlab_nvme_profile_fixed" and "bs = profile_wire p"
    using profile_valid_fixed by (auto simp: fwlab_nvme_profile_encode_def split: if_splits)
  then show "fwlab_nvme_profile_decode bs = Inr p"
    using profile_wire_header [of p] profile_read_wire profile_fixed_valid
    by (simp add: fwlab_nvme_profile_decode_def fwlab_nvme_profile_fixed_def)
next
  fix p bs
  assume "fwlab_nvme_profile_decode bs = Inr p"
  then have "fwlab_nvme_profile_valid p" and "p = profile_read bs"
    and "length bs = 64" "magic_ok bs 0x50 0x46" "m3p_get_le16 bs 6 = 64" "m3p_bytes_zero bs 40 24"
    by (auto simp: fwlab_nvme_profile_decode_def split: if_splits)
  then show "profile_typed p \<and> fwlab_nvme_profile_encode p 64 = Inr bs"
    using profile_wire_read
    by (simp add: fwlab_nvme_profile_encode_def profile_typed_def profile_read_def zero_nvme_profile_def)
qed

section \<open>Properties\<close>

text \<open>
  C25. The command format is exact: a command with arrays of the declared lengths encodes to a byte
  string if and only if that byte string decodes to the command. So no information is lost, no two
  valid commands share an encoding, and a decoder never accepts a byte string other than the one the
  encoder produces.
\<close>

theorem command_wire_exact:
  assumes "command_typed c"
  shows "fwlab_nvme_command_encode c 128 = Inr bs \<longleftrightarrow> fwlab_nvme_command_decode bs = Inr c"
  using assms by (rule command_codec.enc_iff_dec)

definition sample_handle :: nvme_command_handle where
  "sample_handle = \<lparr>cmd_instance_nonce = 7, cmd_command_uid = 1, cmd_controller_epoch = 1, cmd_generation = 1\<rparr>"

definition sample_command :: nvme_command where
  "sample_command = zero_nvme_command\<lparr>nvc_version := 1, nvc_size := 128, nvc_handle := sample_handle,
     nvc_origin := (3, 0), nvc_trace_cookie := 9, nvc_safety_generation := 1, nvc_namespace_id := 1,
     nvc_opcode := 2, nvc_queue_class := FWLAB_NVME_QUEUE_IO, nvc_data_address_present := 1\<rparr>"

theorem command_wire_exact_witness:
  "fwlab_nvme_command_decode (command_wire sample_command) = Inr sample_command"
proof -
  have "command_typed sample_command"
    by (simp add: command_typed_def sample_command_def zero_nvme_command_def)
  moreover have "fwlab_nvme_command_encode sample_command 128 = Inr (command_wire sample_command)"
    by (simp add: fwlab_nvme_command_encode_def fwlab_nvme_command_valid_def sample_command_def
        zero_nvme_command_def sample_handle_def handle_valid_def origin_valid_def words_zero_def)
  ultimately show ?thesis
    using command_wire_exact by blast
qed

text \<open>
  C26. The completion format is exact in the same sense, without any condition: a completion encodes to
  a byte string if and only if that byte string decodes to the completion.
\<close>

theorem completion_wire_exact:
  "fwlab_nvme_completion_encode c 64 = Inr bs \<longleftrightarrow> fwlab_nvme_completion_decode bs = Inr c"
  using completion_codec.enc_iff_dec [of c bs] by simp

text \<open>
  There is one profile: the profile decoder accepts exactly one byte string, the encoding of the
  fixed profile, and returns the fixed profile.
\<close>

theorem profile_unique:
  "fwlab_nvme_profile_decode bs = Inr p \<longleftrightarrow>
     bs = profile_wire fwlab_nvme_profile_fixed \<and> p = fwlab_nvme_profile_fixed"
proof
  assume dec: "fwlab_nvme_profile_decode bs = Inr p"
  then have "profile_typed p" and "fwlab_nvme_profile_encode p 64 = Inr bs"
    using profile_codec.enc_of_dec by blast+
  then show "bs = profile_wire fwlab_nvme_profile_fixed \<and> p = fwlab_nvme_profile_fixed"
    using profile_valid_fixed by (auto simp: fwlab_nvme_profile_encode_def split: if_splits)
next
  assume "bs = profile_wire fwlab_nvme_profile_fixed \<and> p = fwlab_nvme_profile_fixed"
  then show "fwlab_nvme_profile_decode bs = Inr p"
    using profile_codec.dec_of_enc profile_fixed_valid by (simp add: fwlab_nvme_profile_encode_def)
qed

end
