(* ===== verification/Nvme_Policy_Laws.thy ===== *)
theory Nvme_Policy_Laws
  imports Nvme_Policy Nvme_Codec_Laws
begin

text \<open>
  The policy is total on valid requests: every plan it builds passes its own validator, so the
  \<open>POISONED\<close> exit is never taken. Reads and writes are planned exactly when their sectors lie in the
  namespace, and the plan asks for the durability witness exactly when the host asked for durability.
\<close>

section \<open>Building blocks\<close>

lemmas zero_struct_defs = zero_c43_policy_plan_def zero_c43_transfer_shape_def
  zero_c43_identify_recipe_def zero_c43_block_intent_def

lemma words_zero_replicate_0 [simp]: "words_zero (replicate n (0 :: 'a::len word))"
  by (simp add: words_zero_def)

lemma request_valid_identity:
  assumes "fwlab_c43_policy_request_valid rq"
  shows "handle_valid (pr_handle rq)" and "origin_valid (pr_origin rq)" and "pr_transaction_uid rq \<noteq> 0"
    and "request_branch_valid rq" and "pr_fua rq \<le> 1"
  using assms by (simp_all add: fwlab_c43_policy_request_valid_def boolean_valid_def)

lemma immediate_plan_valid:
  assumes "fwlab_c43_policy_request_valid rq" and "status \<le> FWLAB_C43_STATUS_INTERNAL_FAILURE"
    and "dnr \<le> 1" and "status = 0 \<longrightarrow> dnr = 0"
  shows "fwlab_c43_policy_plan_valid (policy_plan_base rq FWLAB_C43_PLAN_IMMEDIATE status dnr)"
  using assms request_valid_identity [OF assms(1)]
  by (simp add: fwlab_c43_policy_plan_valid_def plan_header_valid_def policy_plan_base_def plan_bare_def
      zero_c43_policy_plan_def c43_semantic_status_valid_def c43_witness_mask_valid_def linorder_not_le)

lemma policy_error_ok:
  assumes "fwlab_c43_policy_request_valid rq" and "status \<le> FWLAB_C43_STATUS_INTERNAL_FAILURE"
    and "dnr \<le> 1" and "status \<noteq> 0"
  shows "policy_error rq status dnr = Inr (policy_plan_base rq FWLAB_C43_PLAN_IMMEDIATE status dnr)"
  using immediate_plan_valid [OF assms(1-3)] assms(4) by (simp add: policy_error_def policy_plan_emit_def)

lemma queue_plan_valid:
  assumes "fwlab_c43_policy_request_valid rq"
  shows "fwlab_c43_policy_plan_valid ((policy_plan_base rq FWLAB_C43_PLAN_QUEUE_EFFECT FWLAB_C43_STATUS_SUCCESS 0)
     \<lparr>pl_required_witness_mask := FWLAB_C43_WITNESS_QUEUE_EFFECT_COMMITTED\<rparr>)"
  using request_valid_identity [OF assms]
  by (simp add: fwlab_c43_policy_plan_valid_def plan_header_valid_def policy_plan_base_def plan_bare_def
      zero_c43_policy_plan_def c43_semantic_status_valid_def c43_witness_mask_valid_def)

lemma abort_plan_valid:
  assumes "fwlab_c43_policy_request_valid rq"
  shows "fwlab_c43_policy_plan_valid (policy_plan_base rq FWLAB_C43_PLAN_ABORT_RESOLVE FWLAB_C43_STATUS_SUCCESS 0)"
  using request_valid_identity [OF assms]
  by (simp add: fwlab_c43_policy_plan_valid_def plan_header_valid_def policy_plan_base_def plan_bare_def
      zero_c43_policy_plan_def c43_semantic_status_valid_def c43_witness_mask_valid_def)

lemma identify_plan_valid:
  assumes "fwlab_c43_policy_request_valid rq" and "pr_kind rq \<in> {1, 2, 3, 4}" and "request_namespace_valid rq"
  shows "fwlab_c43_policy_plan_valid (identify_plan rq)"
  using assms(2,3) request_valid_identity [OF assms(1)]
  by (auto simp: fwlab_c43_policy_plan_valid_def plan_header_valid_def identify_plan_def policy_plan_base_def
      plan_payload_valid_def zero_struct_defs c43_semantic_status_valid_def c43_witness_mask_valid_def
      fwlab_c43_transfer_shape_valid_def fwlab_c43_identify_recipe_valid_def identify_kind_of_def
      fwlab_nvme_profile_fixed_def request_namespace_valid_def Let_def)

text \<open>The sectors a read or write names, as natural numbers.\<close>

lemma word_below_8:
  fixes x :: "'a::len word"
  assumes "unat x < 8"
  shows "x \<in> {0, 1, 2, 3, 4, 5, 6, 7}"
proof -
  have "unat x \<in> {0, 1, 2, 3, 4, 5, 6, 7}"
    using assms by auto
  then have "(of_nat (unat x) :: 'a word) \<in> of_nat ` {0, 1, 2, 3, 4, 5, 6, 7}"
    by (rule imageI)
  then show ?thesis
    by simp
qed

lemma profile_limits:
  "pf_lba_count fwlab_nvme_profile_fixed = 8" "pf_lba_bytes fwlab_nvme_profile_fixed = 512"
  "pf_maximum_transfer_bytes fwlab_nvme_profile_fixed = 4096"
  "pf_integration_queue_depth fwlab_nvme_profile_fixed = 4"
  by (simp_all add: fwlab_nvme_profile_fixed_def)

lemma ucast_of_unat: "(ucast (w :: 'a::len word) :: 'b::len word) = of_nat (unat w)"
  by simp

definition transfer_of :: "u32 \<Rightarrow> u64 \<Rightarrow> (u32 \<times> u32) option" where
  "transfer_of nlb slba =
     (let count = ucast nlb + 1 :: u64
      in if count > 8 \<or> slba \<ge> 8 \<or> slba > 0xFFFFFFFFFFFFFFFF - count then None
         else if slba + count > 8 \<or> count > 0xFFFFFFFFFFFFFFFF div 512 then None
         else if count * 512 > 4096 \<or> count * 512 > 0xFFFFFFFF then None
         else Some (ucast count, ucast (count * 512)))"

lemma checked_transfer_of:
  "checked_transfer fwlab_nvme_profile_fixed rq = transfer_of (pr_zero_based_nlb rq) (pr_slba rq)"
  unfolding checked_transfer_def transfer_of_def profile_limits Let_def by simp

lemma count_of_nlb: "unat (ucast (nlb :: u32) + 1 :: u64) = unat nlb + 1"
proof -
  have "unat nlb + 1 < 18446744073709551616"
    using unat_u32_less [of nlb] by linarith
  then show ?thesis
    by (simp add: unat_word_ariths)
qed

lemma transfer_of_small:
  assumes "unat nlb < 8" and "unat slba < 8"
  shows "transfer_of nlb slba =
    (if unat slba + (unat nlb + 1) \<le> 8 then Some (of_nat (unat nlb + 1), of_nat ((unat nlb + 1) * 512)) else None)"
proof -
  define c where "c = (ucast nlb + 1 :: u64)"
  let ?n = "unat nlb + 1"
  have n: "unat c = ?n"
    using count_of_nlb [of nlb] by (simp only: c_def)
  have le: "c \<le> 8" "slba < 8"
    using n assms by (simp_all add: word_le_nat_alt word_less_nat_alt)
  have "c \<le> 0xFFFFFFFFFFFFFFFF"
    using n assms(1) by (simp add: word_le_nat_alt)
  then have "unat (0xFFFFFFFFFFFFFFFF - c) = 0xFFFFFFFFFFFFFFFF - ?n"
    using n by (simp add: unat_sub)
  then have room: "slba \<le> 0xFFFFFFFFFFFFFFFF - c"
    using assms by (simp add: word_le_nat_alt)
  have quot: "c \<le> 0xFFFFFFFFFFFFFFFF div 512"
    using n assms(1) by (simp add: word_le_nat_alt unat_div)
  have "unat (slba + c) = unat slba + ?n"
    using n assms by (simp add: unat_word_ariths)
  then have sum: "slba + c \<le> 8 \<longleftrightarrow> unat slba + ?n \<le> 8"
    by (simp add: word_le_nat_alt)
  have "unat (c * 512) = ?n * 512"
    using n assms(1) by (simp add: unat_word_ariths)
  then have bytes: "c * 512 \<le> 4096" "c * 512 \<le> 0xFFFFFFFF" "(ucast (c * 512) :: u32) = of_nat (?n * 512)"
    using assms(1) by (simp_all add: word_le_nat_alt ucast_of_unat del: of_nat_mult of_nat_Suc)
  have out: "(ucast c :: u32) = of_nat ?n"
    using n by (simp only: ucast_of_unat)
  show ?thesis
    unfolding transfer_of_def Let_def c_def [symmetric] using le room quot sum bytes out
    by (simp add: linorder_not_less [symmetric] del: of_nat_Suc)
qed

lemma checked_transfer_fixed:
  "checked_transfer fwlab_nvme_profile_fixed rq =
    (let n = unat (pr_zero_based_nlb rq) + 1
     in if unat (pr_slba rq) + n \<le> 8 then Some (of_nat n, of_nat (n * 512)) else None)"
proof (cases "unat (pr_zero_based_nlb rq) < 8 \<and> unat (pr_slba rq) < 8")
  case True
  then show ?thesis
    by (simp add: checked_transfer_of transfer_of_small Let_def)
next
  case False
  then have "(ucast (pr_zero_based_nlb rq) + 1 :: u64) > 8 \<or> pr_slba rq \<ge> 8"
    using count_of_nlb [of "pr_zero_based_nlb rq"] by (auto simp: word_less_nat_alt word_le_nat_alt)
  then show ?thesis
    using False by (auto simp: checked_transfer_of transfer_of_def Let_def)
qed

lemma block_numbers:
  fixes slba :: u64
  assumes "n \<in> {1..8}" and "unat slba + n \<le> 8"
  defines "count \<equiv> of_nat n :: u32" and "len \<equiv> of_nat (n * 512) :: u32"
  shows "count \<noteq> 0" "count \<le> 8" "len \<noteq> 0" "len \<le> 4096" "(ucast count :: u64) * 512 = ucast len"
    "slba < 8" "slba \<le> ucast (8 - count)"
proof -
  have "n \<in> {1, 2, 3, 4, 5, 6, 7, 8}"
    using assms(1) by auto
  then have num: "count \<noteq> 0" "count \<le> 8" "len \<noteq> 0" "len \<le> 4096" "(ucast count :: u64) * 512 = ucast len"
    "unat (ucast (8 - count) :: u64) = 8 - n"
    unfolding count_def len_def by (elim insertE emptyE; simp)+
  then show "count \<noteq> 0" "count \<le> 8" "len \<noteq> 0" "len \<le> 4096" "(ucast count :: u64) * 512 = ucast len"
    by simp_all
  show "slba < 8"
    using assms(1,2) by (simp add: word_less_nat_alt)
  show "slba \<le> ucast (8 - count)"
    unfolding word_le_nat_alt using assms(2) num(6) by simp
qed

lemma block_plan_valid:
  assumes "fwlab_c43_policy_request_valid rq" and "op = FWLAB_C43_BLOCK_READ \<or> op = FWLAB_C43_BLOCK_WRITE"
    and "n \<in> {1..8}" and "unat (pr_slba rq) + n \<le> 8"
  shows "fwlab_c43_policy_plan_valid (block_plan fwlab_nvme_profile_fixed rq op (of_nat n) (of_nat (n * 512)))"
proof -
  define count where "count = (of_nat n :: u32)"
  define len where "len = (of_nat (n * 512) :: u32)"
  note numbers = block_numbers [OF assms(3,4), folded count_def len_def]
  show ?thesis
    unfolding count_def [symmetric] len_def [symmetric]
    using assms(2) request_valid_identity [OF assms(1)] numbers
    by (auto simp: fwlab_c43_policy_plan_valid_def plan_header_valid_def block_plan_def policy_plan_base_def
        plan_block_valid_def zero_struct_defs c43_semantic_status_valid_def c43_witness_mask_valid_def
        fwlab_c43_transfer_shape_valid_def fwlab_c43_block_intent_valid_def block_witness_def
        block_direction_def c43_ref_zero_def Let_def profile_limits linorder_not_le linorder_not_less)
qed

lemma flush_plan_valid:
  assumes "fwlab_c43_policy_request_valid rq" and "pr_slba rq = 0"
  shows "fwlab_c43_policy_plan_valid (block_plan fwlab_nvme_profile_fixed rq FWLAB_C43_BLOCK_FLUSH 0 0)"
  using assms(2) request_valid_identity [OF assms(1)]
  by (simp add: fwlab_c43_policy_plan_valid_def plan_header_valid_def block_plan_def policy_plan_base_def
      plan_block_valid_def zero_struct_defs c43_semantic_status_valid_def c43_witness_mask_valid_def
      fwlab_c43_transfer_shape_valid_def fwlab_c43_block_intent_valid_def block_witness_def block_direction_def
      c43_ref_zero_def Let_def)

section \<open>The policy on each kind of request\<close>

lemma fixed_profile: "c43_profile_is_fixed p \<longleftrightarrow> p = fwlab_nvme_profile_fixed"
  using profile_fixed_valid(2) by (auto simp: c43_profile_is_fixed_def)

lemma common_error_status:
  assumes "request_common_error rq = Some (status, dnr)"
  shows "status \<le> FWLAB_C43_STATUS_INTERNAL_FAILURE" and "status \<noteq> 0" and "dnr \<le> 1"
  using assms by (auto simp: request_common_error_def split: if_splits)

lemma no_common_error:
  assumes "request_common_error rq = None"
  shows "request_namespace_valid rq" and "pr_kind rq \<noteq> FWLAB_C43_REQUEST_UNSUPPORTED"
    and "pr_fua rq \<noteq> 0 \<longrightarrow> pr_kind rq = FWLAB_C43_REQUEST_WRITE"
  using assms by (auto simp: request_common_error_def split: if_splits)

lemma emit_valid: "fwlab_c43_policy_plan_valid pl \<Longrightarrow> policy_plan_emit pl = Inr pl"
  by (simp add: policy_plan_emit_def)

lemma policy_refused:
  assumes "fwlab_c43_policy_request_valid rq" and "request_common_error rq = Some (status, dnr)"
  shows "fwlab_c43_policy_begin fwlab_nvme_profile_fixed rq =
    Inr (policy_plan_base rq FWLAB_C43_PLAN_IMMEDIATE status dnr)"
  using assms common_error_status [OF assms(2)] policy_error_ok [OF assms(1)]
  by (simp add: fwlab_c43_policy_begin_def fixed_profile)

lemma success_no_error:
  assumes "fwlab_c43_policy_request_valid rq"
    and "fwlab_c43_policy_begin fwlab_nvme_profile_fixed rq = Inr pl"
    and "pl_semantic_status pl = FWLAB_C43_STATUS_SUCCESS"
  shows "request_common_error rq = None"
proof (rule ccontr)
  assume "request_common_error rq \<noteq> None"
  then obtain status dnr where e: "request_common_error rq = Some (status, dnr)"
    by auto
  then show False
    using policy_refused [OF assms(1) e] common_error_status(2) [OF e] assms(2,3)
    by (simp add: policy_plan_base_def)
qed

lemma policy_read_write:
  assumes "fwlab_c43_policy_request_valid rq" and "request_common_error rq = None"
    and "pr_kind rq = FWLAB_C43_REQUEST_READ \<or> pr_kind rq = FWLAB_C43_REQUEST_WRITE"
    and "n = unat (pr_zero_based_nlb rq) + 1"
    and "op = (if pr_kind rq = FWLAB_C43_REQUEST_READ then FWLAB_C43_BLOCK_READ else FWLAB_C43_BLOCK_WRITE)"
  shows "fwlab_c43_policy_begin fwlab_nvme_profile_fixed rq =
    Inr (if unat (pr_slba rq) + n \<le> 8
         then block_plan fwlab_nvme_profile_fixed rq op (of_nat n) (of_nat (n * 512))
         else policy_plan_base rq FWLAB_C43_PLAN_IMMEDIATE FWLAB_C43_STATUS_LBA_RANGE 1)"
proof (cases "unat (pr_slba rq) + n \<le> 8")
  case True
  then have "fwlab_c43_policy_plan_valid (block_plan fwlab_nvme_profile_fixed rq op (of_nat n) (of_nat (n * 512)))"
    using assms(4,5) by (intro block_plan_valid assms(1)) auto
  note emit = emit_valid [OF this]
  then show ?thesis
    using True assms(1-3) unfolding fwlab_c43_policy_begin_def Let_def assms(5)
    by (auto simp: fixed_profile checked_transfer_fixed assms(4) Let_def)
next
  case False
  then show ?thesis
    using assms(1-3) policy_error_ok [OF assms(1), of FWLAB_C43_STATUS_LBA_RANGE 1]
    by (auto simp: fwlab_c43_policy_begin_def fixed_profile checked_transfer_fixed assms(4) Let_def)
qed

lemma policy_flush:
  assumes "fwlab_c43_policy_request_valid rq" and "request_common_error rq = None"
    and "pr_kind rq = FWLAB_C43_REQUEST_FLUSH"
  shows "fwlab_c43_policy_begin fwlab_nvme_profile_fixed rq =
    Inr (block_plan fwlab_nvme_profile_fixed rq FWLAB_C43_BLOCK_FLUSH 0 0)"
proof -
  have "pr_slba rq = 0"
    using request_valid_identity(4) [OF assms(1)] assms(3) by (simp add: request_branch_valid_def)
  then show ?thesis
    using assms emit_valid [OF flush_plan_valid [OF assms(1)]]
    by (simp add: fwlab_c43_policy_begin_def fixed_profile)
qed

lemma request_kinds:
  assumes "fwlab_c43_policy_request_valid rq"
  shows "pr_kind rq \<in> {1, 2, 3, 4} \<or> pr_kind rq = 5 \<or> pr_kind rq = 6 \<or> pr_kind rq = 7 \<or> pr_kind rq = 8 \<or>
    pr_kind rq = 9 \<or> pr_kind rq = 10 \<or> pr_kind rq = 11 \<or> pr_kind rq = 12 \<or> pr_kind rq = 13 \<or> pr_kind rq = 14"
  using request_valid_identity(4) [OF assms] by (auto simp: request_branch_valid_def Let_def split: if_splits)

lemma policy_admin:
  assumes "fwlab_c43_policy_request_valid rq" and "request_common_error rq = None"
    and "pr_kind rq \<notin> {FWLAB_C43_REQUEST_READ, FWLAB_C43_REQUEST_WRITE, FWLAB_C43_REQUEST_FLUSH}"
  obtains pl where "fwlab_c43_policy_begin fwlab_nvme_profile_fixed rq = Inr pl"
    and "pl_required_witness_mask pl AND FWLAB_C43_WITNESS_DURABILITY_COMPLETE = 0"
proof -
  note err = policy_error_ok [OF assms(1)]
  note ident = emit_valid [OF identify_plan_valid [OF assms(1) _ no_common_error(1) [OF assms(2)]]]
  note imm = emit_valid [OF immediate_plan_valid [OF assms(1), of 0 0]]
  note others = emit_valid [OF queue_plan_valid [OF assms(1)]] emit_valid [OF abort_plan_valid [OF assms(1)]]
  from request_kinds [OF assms(1)] assms(2,3) no_common_error(2) [OF assms(2)]
  have "\<exists>pl. fwlab_c43_policy_begin fwlab_nvme_profile_fixed rq = Inr pl \<and>
      pl_required_witness_mask pl AND FWLAB_C43_WITNESS_DURABILITY_COMPLETE = 0"
    unfolding fwlab_c43_policy_begin_def fixed_profile Let_def using assms(1) ident imm others err
    by (auto simp: profile_limits policy_plan_base_def identify_plan_def zero_c43_policy_plan_def)
  then show thesis
    using that by blast
qed

lemma plan_identity:
  assumes "fwlab_c43_policy_begin profile rq = Inr pl"
  shows "pl_command pl = pr_handle rq \<and> pl_origin pl = pr_origin rq \<and> pl_transaction_uid pl = pr_transaction_uid rq"
  using assms
  by (auto simp: fwlab_c43_policy_begin_def policy_error_def policy_plan_emit_def Let_def policy_plan_base_def
      identify_plan_def block_plan_def split: if_splits option.splits prod.splits)

section \<open>Properties\<close>

text \<open>
  C22. The policy is total: for the fixed profile every valid request gets a plan; the plan passes the
  plan validator and carries the identity of the request. In particular the \<open>POISONED\<close> exit, taken
  when the policy builds a plan its own validator refuses, is unreachable.
\<close>

theorem policy_total:
  assumes "c43_profile_is_fixed profile" and "fwlab_c43_policy_request_valid rq"
  shows "\<exists>pl. fwlab_c43_policy_begin profile rq = Inr pl \<and> fwlab_c43_policy_plan_valid pl \<and>
    pl_command pl = pr_handle rq \<and> pl_origin pl = pr_origin rq \<and>
    pl_transaction_uid pl = pr_transaction_uid rq"
proof -
  have profile: "profile = fwlab_nvme_profile_fixed"
    using assms(1) by (simp add: fixed_profile)
  obtain pl where pl: "fwlab_c43_policy_begin profile rq = Inr pl"
  proof (cases "request_common_error rq")
    case (Some e)
    then show thesis
      using that policy_refused [OF assms(2)] profile by (cases e) simp
  next
    case None
    then show thesis
      using that policy_read_write [OF assms(2) None _ refl refl] policy_flush [OF assms(2) None]
        policy_admin [OF assms(2) None] profile by blast
  qed
  moreover have "fwlab_c43_policy_plan_valid pl"
    using pl by (auto simp: fwlab_c43_policy_begin_def policy_error_def policy_plan_emit_def Let_def
        split: if_splits option.splits)
  ultimately show ?thesis
    using plan_identity by blast
qed

definition sample_request :: "u8 \<Rightarrow> c43_policy_request" where
  "sample_request kind = zero_c43_policy_request\<lparr>pr_version := 1, pr_size := 128, pr_handle := sample_handle,
     pr_origin := (3, 0), pr_transaction_uid := 5, pr_namespace_id := 1, pr_kind := kind,
     pr_queue_class := FWLAB_NVME_QUEUE_IO, pr_data_present := 1, pr_slba := 2, pr_zero_based_nlb := 3,
     pr_fua := (if kind = FWLAB_C43_REQUEST_WRITE then 1 else 0)\<rparr>"

lemmas sample_request_defs = sample_request_def zero_c43_policy_request_def sample_handle_def

lemma sample_request_valid:
  "fwlab_c43_policy_request_valid (sample_request FWLAB_C43_REQUEST_READ)"
  "fwlab_c43_policy_request_valid (sample_request FWLAB_C43_REQUEST_WRITE)"
  by (simp_all add: fwlab_c43_policy_request_valid_def sample_request_defs handle_valid_def origin_valid_def
      boolean_valid_def request_branch_valid_def)

theorem policy_total_witness:
  "\<exists>pl. fwlab_c43_policy_begin fwlab_nvme_profile_fixed (sample_request FWLAB_C43_REQUEST_READ) = Inr pl \<and>
     fwlab_c43_policy_plan_valid pl"
  using policy_total [OF _ sample_request_valid(1), of fwlab_nvme_profile_fixed] by (auto simp: fixed_profile)

text \<open>
  C24. Reads and writes are planned exactly in range: a valid read or write without a common error gets a
  successful plan if and only if all its sectors lie in the namespace of 8; the plan's block intent
  then has exactly the request's sectors, 512 bytes each, and the operation of the request, and
  otherwise the plan is the immediate \<open>LBA_RANGE\<close> error. No 64-bit start or 32-bit count makes the
  range check wrap around.
\<close>

theorem read_write_in_range:
  assumes "fwlab_c43_policy_request_valid rq" and "request_common_error rq = None"
    and "pr_kind rq = FWLAB_C43_REQUEST_READ \<or> pr_kind rq = FWLAB_C43_REQUEST_WRITE"
    and "fwlab_c43_policy_begin fwlab_nvme_profile_fixed rq = Inr pl"
    and "n = unat (pr_zero_based_nlb rq) + 1"
  shows "if unat (pr_slba rq) + n \<le> 8
    then pl_semantic_status pl = FWLAB_C43_STATUS_SUCCESS \<and> pl_kind pl = FWLAB_C43_PLAN_BLOCK \<and>
      bi_slba (pl_block pl) = pr_slba rq \<and> unat (bi_lba_count (pl_block pl)) = n \<and>
      unat (bi_data_bytes (pl_block pl)) = n * 512 \<and>
      (bi_operation (pl_block pl) = FWLAB_C43_BLOCK_READ \<longleftrightarrow> pr_kind rq = FWLAB_C43_REQUEST_READ)
    else pl_semantic_status pl = FWLAB_C43_STATUS_LBA_RANGE \<and> pl_kind pl = FWLAB_C43_PLAN_IMMEDIATE"
proof -
  have small: "unat (of_nat n :: u32) = n" "unat (of_nat (n * 512) :: u32) = n * 512"
    if "unat (pr_slba rq) + n \<le> 8"
    using that by (simp_all add: unat_of_nat take_bit_nat_eq_self del: of_nat_mult)
  show ?thesis
    using assms(4) small unfolding policy_read_write [OF assms(1-3,5) refl]
    by (auto simp: block_plan_def policy_plan_base_def Let_def split: if_splits)
qed

theorem read_write_in_range_witness:
  "unat (bi_lba_count (pl_block (projr (fwlab_c43_policy_begin fwlab_nvme_profile_fixed
     (sample_request FWLAB_C43_REQUEST_READ))))) = 4"
proof -
  let ?rq = "sample_request FWLAB_C43_REQUEST_READ"
  obtain pl where pl: "fwlab_c43_policy_begin fwlab_nvme_profile_fixed ?rq = Inr pl"
    using policy_read_write [OF sample_request_valid(1) _ _ refl refl]
    by (auto simp: request_common_error_def sample_request_defs request_expected_queue_def
        request_data_required_def request_namespace_valid_def)
  have "request_common_error ?rq = None"
    by (simp add: request_common_error_def sample_request_defs request_expected_queue_def
        request_data_required_def request_namespace_valid_def)
  from read_write_in_range [OF sample_request_valid(1) this _ pl refl] show ?thesis
    unfolding pl by (simp add: sample_request_defs)
qed

text \<open>
  Durability is asked for exactly when the host wants it: the plan of a valid request that ends
  in success requires the durability witness if and only if the request is a flush or a write with
  force unit access.
\<close>

theorem durability_witness_required:
  assumes "fwlab_c43_policy_request_valid rq"
    and "fwlab_c43_policy_begin fwlab_nvme_profile_fixed rq = Inr pl"
    and "pl_semantic_status pl = FWLAB_C43_STATUS_SUCCESS"
  shows "pl_required_witness_mask pl AND FWLAB_C43_WITNESS_DURABILITY_COMPLETE \<noteq> 0 \<longleftrightarrow>
    pr_kind rq = FWLAB_C43_REQUEST_FLUSH \<or> (pr_kind rq = FWLAB_C43_REQUEST_WRITE \<and> pr_fua rq \<noteq> 0)"
proof -
  have none: "request_common_error rq = None"
    by (rule success_no_error [OF assms])
  consider "pr_kind rq = FWLAB_C43_REQUEST_READ \<or> pr_kind rq = FWLAB_C43_REQUEST_WRITE"
    | "pr_kind rq = FWLAB_C43_REQUEST_FLUSH"
    | "pr_kind rq \<notin> {FWLAB_C43_REQUEST_READ, FWLAB_C43_REQUEST_WRITE, FWLAB_C43_REQUEST_FLUSH}"
    by blast
  then show ?thesis
  proof cases
    case 1
    then show ?thesis
      using assms(2,3) policy_read_write [OF assms(1) none 1 refl refl]
      by (auto simp: block_plan_def policy_plan_base_def Let_def split: if_splits)
  next
    case 2
    then show ?thesis
      using assms(2) policy_flush [OF assms(1) none 2]
      by (auto simp: block_plan_def policy_plan_base_def Let_def)
  next
    case 3
    then show ?thesis
      using assms(2) policy_admin [OF assms(1) none 3] by auto
  qed
qed

theorem durability_witness_required_witness:
  "pl_required_witness_mask (projr (fwlab_c43_policy_begin fwlab_nvme_profile_fixed
     (sample_request FWLAB_C43_REQUEST_WRITE))) AND FWLAB_C43_WITNESS_DURABILITY_COMPLETE \<noteq> 0"
proof -
  let ?rq = "sample_request FWLAB_C43_REQUEST_WRITE"
  have "request_common_error ?rq = None"
    by (simp add: request_common_error_def sample_request_defs request_expected_queue_def
        request_data_required_def request_namespace_valid_def)
  then obtain pl where pl: "fwlab_c43_policy_begin fwlab_nvme_profile_fixed ?rq = Inr pl"
    and "pl_semantic_status pl = FWLAB_C43_STATUS_SUCCESS"
    using policy_read_write [OF sample_request_valid(2) _ _ refl refl]
    by (auto simp: sample_request_defs block_plan_def policy_plan_base_def Let_def)
  from durability_witness_required [OF sample_request_valid(2) this] show ?thesis
    unfolding pl by (simp add: sample_request_defs)
qed

lemma length_copy_space_padded:
  assumes "off + width \<le> length bs" and "length value \<le> width"
  shows "length (copy_space_padded bs off width value) = length bs"
  using assms by (simp add: copy_space_padded_def)

text \<open>
  C32. Identify tells the truth: every valid Identify recipe is encoded, as exactly 4096 bytes, and the
  Identify Namespace payload announces the size, capacity and sector size that the policy enforces.
\<close>

theorem identify_agrees_with_policy:
  assumes "fwlab_c43_identify_recipe_valid ir"
  shows "\<exists>payload. fwlab_c43_identify_encode ir 4096 = Inr payload \<and> length payload = 4096 \<and>
    (ir_kind ir = FWLAB_C43_IDENTIFY_NAMESPACE \<longrightarrow>
       get_u64 payload 0 = ucast (pf_lba_count fwlab_nvme_profile_fixed) \<and>
       get_u64 payload 8 = ucast (pf_lba_count fwlab_nvme_profile_fixed) \<and>
       2 ^ unat (payload ! 130) = unat (pf_lba_bytes fwlab_nvme_profile_fixed))"
proof -
  have "ir_kind ir \<in> {1, 2, 3, 4}"
  proof -
    have "1 \<le> unat (ir_kind ir)" and "unat (ir_kind ir) \<le> 4"
      using assms by (auto simp: fwlab_c43_identify_recipe_valid_def word_le_nat_alt word_less_nat_alt
          split: if_splits)
    then have "unat (ir_kind ir) \<in> {1, 2, 3, 4}"
      by auto
    then show ?thesis
      by (auto simp: word_unat_eq_iff)
  qed
  then show ?thesis
    using assms by (auto simp: fwlab_c43_identify_encode_def Let_def length_copy_space_padded codec_simps
        profile_limits)
qed

theorem identify_agrees_with_policy_witness:
  "\<exists>payload. fwlab_c43_identify_encode (zero_c43_identify_recipe\<lparr>ir_version := 1, ir_size := 48,
     ir_kind := FWLAB_C43_IDENTIFY_NAMESPACE, ir_namespace_id := 1, ir_payload_bytes := 4096,
     ir_identity_version := 1\<rparr>) 4096 = Inr payload \<and> get_u64 payload 0 = 8"
proof -
  let ?ir = "zero_c43_identify_recipe\<lparr>ir_version := 1, ir_size := 48, ir_kind := FWLAB_C43_IDENTIFY_NAMESPACE,
     ir_namespace_id := 1, ir_payload_bytes := 4096, ir_identity_version := 1\<rparr>"
  have "fwlab_c43_identify_recipe_valid ?ir"
    by (simp add: fwlab_c43_identify_recipe_valid_def zero_c43_identify_recipe_def)
  from identify_agrees_with_policy [OF this] show ?thesis
    by (auto simp: profile_limits)
qed

end
