(* ===== verification/Nvme_Action_Laws.thy ===== *)
theory Nvme_Action_Laws
  imports Nvme_Action Nvme_Policy_Laws
begin

text \<open>
  What the core may believe of a provider's answer: a completed block action carries exactly the
  witnesses the plan asked for, from the provider generation the core talks to, for the command it
  belongs to; and a provider without the capability cannot produce them.
\<close>

lemma and_part_of_or:
  fixes c x y :: "'a::len word"
  assumes "c AND (x OR y) = x OR y"
  shows "c AND y = y"
proof (rule bit_word_eqI)
  fix n
  have "bit (c AND (x OR y)) n = bit (x OR y) n"
    using assms by simp
  then show "bit (c AND y) n = bit y n"
    by (auto simp: bit_simps)
qed

lemma durability_capability:
  assumes "m AND FWLAB_C43_WITNESS_DURABILITY_COMPLETE \<noteq> 0"
    and "caps AND required_capability m = required_capability m"
  shows "caps AND FWLAB_C43_BLOCK_CAP_DURABILITY = FWLAB_C43_BLOCK_CAP_DURABILITY"
proof -
  have "m \<noteq> FWLAB_C43_WITNESS_VALIDATED_ONLY"
    using assms(1) by auto
  then have "required_capability m =
      (if m AND (FWLAB_C43_WITNESS_BLOCK_READ_READY OR FWLAB_C43_WITNESS_BLOCK_WRITE_COMPLETE) \<noteq> 0
       then FWLAB_C43_BLOCK_CAP_DATA_EFFECT else 0) OR FWLAB_C43_BLOCK_CAP_DURABILITY"
    using assms(1) by (simp add: required_capability_def)
  then show ?thesis
    using assms(2) and_part_of_or by metis
qed

lemma matched_completed:
  assumes "fwlab_c43_block_action_terminal_matches_request bq bx bp"
    and "bx_block_terminal_kind bx = FWLAB_C43_BLOCK_COMPLETED"
  shows "fwlab_c43_block_action_request_valid bq" and "fwlab_c43_block_action_terminal_valid bx"
    and "cw_provider_generation (bx_witness bx) = bp_generation bp"
    and "cw_predecessor (bx_witness bx) = bq_predecessor bq"
    and "cw_witness_mask (bx_witness bx) = bq_requested_witness_mask bq"
    and "te_token (bx_common bx) = ae_token (bq_common bq)"
    and "bp_capability_bits bp AND required_capability (bq_requested_witness_mask bq) =
      required_capability (bq_requested_witness_mask bq)"
  using assms by (auto simp: fwlab_c43_block_action_terminal_matches_request_def terminal_matches_envelope_def
      fwlab_c43_block_action_request_valid_for_port_def split: if_splits)

lemma completed_terminal:
  assumes "fwlab_c43_block_action_terminal_valid bx" and "bx_block_terminal_kind bx = FWLAB_C43_BLOCK_COMPLETED"
  shows "tk_command (te_token (bx_common bx)) = cw_command (bx_witness bx)"
    and "\<not> c43_ref_zero (cw_predecessor (bx_witness bx))"
  using assms by (auto simp: fwlab_c43_block_action_terminal_valid_def Let_def split: if_splits)

lemma block_request_mask:
  assumes "fwlab_c43_block_action_request_valid bq" and "\<not> c43_ref_zero (bq_predecessor bq)"
  shows "bq_requested_witness_mask bq = block_expected_witness (bq_intent bq)"
    and "tk_command (ae_token (bq_common bq)) = bi_command (bq_intent bq)"
  using assms by (auto simp: fwlab_c43_block_action_request_valid_def Let_def split: if_splits)

lemma planned_block_fields:
  assumes "fwlab_c43_policy_request_valid rq" and "fwlab_c43_policy_begin fwlab_nvme_profile_fixed rq = Inr pl"
    and "pr_kind rq = FWLAB_C43_REQUEST_FLUSH \<or> (pr_kind rq = FWLAB_C43_REQUEST_WRITE \<and> pr_fua rq \<noteq> 0)"
    and "pl_semantic_status pl = FWLAB_C43_STATUS_SUCCESS"
  shows "block_expected_witness (pl_block pl) AND FWLAB_C43_WITNESS_DURABILITY_COMPLETE \<noteq> 0 \<and>
    bi_command (pl_block pl) = pr_handle rq"
proof (cases "pr_kind rq = FWLAB_C43_REQUEST_FLUSH")
  case True
  have none: "request_common_error rq = None"
    using success_no_error [OF assms(1,2,4)] .
  show ?thesis
    using True assms(2) policy_flush [OF assms(1) none]
    by (auto simp: block_expected_witness_def block_plan_def policy_plan_base_def)
next
  case False
  then have kind: "pr_kind rq = FWLAB_C43_REQUEST_WRITE" "pr_fua rq \<noteq> 0"
    using assms(3) by simp_all
  have none: "request_common_error rq = None"
    using success_no_error [OF assms(1,2,4)] .
  have "pl = block_plan fwlab_nvme_profile_fixed rq FWLAB_C43_BLOCK_WRITE (of_nat (unat (pr_zero_based_nlb rq) + 1))
      (of_nat ((unat (pr_zero_based_nlb rq) + 1) * 512))"
    using kind assms(2,4) policy_read_write [OF assms(1) none _ refl refl]
    by (auto simp: policy_plan_base_def split: if_splits)
  then show ?thesis
    using kind by (simp add: block_expected_witness_def block_plan_def)
qed

lemma planned_block:
  assumes "fwlab_c43_policy_request_valid rq" and "fwlab_c43_policy_begin fwlab_nvme_profile_fixed rq = Inr pl"
    and "pr_kind rq = FWLAB_C43_REQUEST_FLUSH \<or> (pr_kind rq = FWLAB_C43_REQUEST_WRITE \<and> pr_fua rq \<noteq> 0)"
    and "pl_semantic_status pl = FWLAB_C43_STATUS_SUCCESS"
  shows "block_expected_witness (pl_block pl) AND FWLAB_C43_WITNESS_DURABILITY_COMPLETE \<noteq> 0"
    and "bi_command (pl_block pl) = pr_handle rq"
  using planned_block_fields [OF assms] by simp_all

text \<open>
  C23. No durability without proof: let a flush or a write with force unit access get a successful plan,
  and let a block action for its intent be answered by a matching terminal of kind \<open>COMPLETED\<close>. Then
  the witness in the terminal names the command of the request, comes from the current generation of
  the provider, refers to the predecessor the core named, and includes the durability witness; and the
  provider has the durability capability.
\<close>

theorem durability_needs_proof:
  assumes "fwlab_c43_policy_request_valid rq" and "fwlab_c43_policy_begin fwlab_nvme_profile_fixed rq = Inr pl"
    and "pr_kind rq = FWLAB_C43_REQUEST_FLUSH \<or> (pr_kind rq = FWLAB_C43_REQUEST_WRITE \<and> pr_fua rq \<noteq> 0)"
    and "pl_semantic_status pl = FWLAB_C43_STATUS_SUCCESS" and "bq_intent bq = pl_block pl"
    and "fwlab_c43_block_action_terminal_matches_request bq bx bp"
    and "bx_block_terminal_kind bx = FWLAB_C43_BLOCK_COMPLETED"
  shows "cw_command (bx_witness bx) = pr_handle rq \<and>
    cw_provider_generation (bx_witness bx) = bp_generation bp \<and>
    cw_predecessor (bx_witness bx) = bq_predecessor bq \<and>
    cw_witness_mask (bx_witness bx) AND FWLAB_C43_WITNESS_DURABILITY_COMPLETE \<noteq> 0 \<and>
    bp_capability_bits bp AND FWLAB_C43_BLOCK_CAP_DURABILITY \<noteq> 0"
proof -
  note m = matched_completed [OF assms(6,7)]
  note t = completed_terminal [OF m(2) assms(7)]
  have "\<not> c43_ref_zero (bq_predecessor bq)"
    using t(2) m(4) by simp
  note q = block_request_mask [OF m(1) this]
  note p = planned_block [OF assms(1-4)]
  have mask: "cw_witness_mask (bx_witness bx) AND FWLAB_C43_WITNESS_DURABILITY_COMPLETE \<noteq> 0"
    using p(1) q(1) m(5) assms(5) by simp
  moreover have "bp_capability_bits bp AND FWLAB_C43_BLOCK_CAP_DURABILITY \<noteq> 0"
    using durability_capability [OF mask] m(5,7) by simp
  ultimately show ?thesis
    using m t q p assms(5) by simp
qed

text \<open>The force-unit-access write of the sample request, completed by a capable provider.\<close>

definition sample_plan :: c43_policy_plan where
  "sample_plan = block_plan fwlab_nvme_profile_fixed (sample_request FWLAB_C43_REQUEST_WRITE)
     FWLAB_C43_BLOCK_WRITE 4 2048"

definition sample_token :: hif_action_token where
  "sample_token = \<lparr>tk_command = sample_handle, tk_origin = (3, 0), tk_action_uid = 4, tk_generation = 1,
     tk_kind = FWLAB_HIF_ACTION_BLOCK, tk_reserved = 0\<rparr>"

definition sample_block_request :: c43_block_action_request where
  "sample_block_request = zero_c43_block_action_request\<lparr>bq_version := 1, bq_size := 248,
     bq_common := zero_hif_action_envelope\<lparr>ae_version := 1, ae_size := 96, ae_token := sample_token,
       ae_cookie := 6, ae_requested_units := 4\<rparr>,
     bq_intent := pl_block sample_plan, bq_predecessor := (8, 0), bq_requested_witness_mask := 160\<rparr>"

definition sample_block_terminal :: c43_block_action_terminal where
  "sample_block_terminal = zero_c43_block_action_terminal\<lparr>bx_version := 1, bx_size := 232,
     bx_common := zero_hif_action_terminal\<lparr>te_version := 1, te_size := 96, te_token := sample_token,
       te_cookie := 6, te_units_completed := 4, te_effect_class := FWLAB_NVME_EFFECT_FULL\<rparr>,
     bx_witness := zero_c43_completion_witness\<lparr>cw_version := 1, cw_size := 104, cw_command := sample_handle,
       cw_origin := (3, 0), cw_predecessor := (8, 0), cw_provider_generation := 2, cw_witness_mask := 160,
       cw_units_completed := 4, cw_effect_class := FWLAB_NVME_EFFECT_FULL\<rparr>,
     bx_block_terminal_kind := FWLAB_C43_BLOCK_COMPLETED\<rparr>"

definition sample_port :: "u32 \<Rightarrow> c43_block_action_port" where
  "sample_port caps = \<lparr>bp_ops_present = True, bp_ops_version = 1, bp_ops_size = 72, bp_ops_reserved0 = 0,
     bp_ops_functions = replicate 6 True, bp_ops_reserved1 = replicate 4 0, bp_context_present = True,
     bp_generation = 2, bp_capability_bits = caps, bp_reserved = 0\<rparr>"

lemmas sample_action_defs = sample_token_def sample_block_request_def sample_block_terminal_def sample_port_def
  zero_c43_block_action_request_def zero_hif_action_envelope_def zero_c43_block_action_terminal_def
  zero_hif_action_terminal_def zero_c43_completion_witness_def sample_handle_def

lemma sample_plan_block:
  "pl_block sample_plan = zero_c43_block_intent\<lparr>bi_version := 1, bi_size := 104, bi_command := sample_handle,
     bi_origin := (3, 0), bi_slba := 2, bi_namespace_id := 1, bi_operation := FWLAB_C43_BLOCK_WRITE,
     bi_lba_count := 4, bi_data_bytes := 2048, bi_durability := FWLAB_C43_DURABILITY_REQUIRE_SELF\<rparr>"
  by (simp add: sample_plan_def block_plan_def sample_request_def Let_def)

lemma sample_block_request_valid: "fwlab_c43_block_action_request_valid sample_block_request"
proof -
  have "fwlab_c43_block_intent_valid (pl_block sample_plan)"
    by (simp add: sample_plan_block fwlab_c43_block_intent_valid_def zero_c43_block_intent_def sample_handle_def
        handle_valid_def origin_valid_def c43_ref_zero_def profile_limits Let_def)
  then show ?thesis
    by (simp add: fwlab_c43_block_action_request_valid_def sample_action_defs fwlab_hif_action_envelope_valid_def
        fwlab_hif_action_token_valid_def c43_witness_mask_valid_def c43_ref_zero_def)
      (simp add: sample_plan_block block_expected_witness_def sample_handle_def)
qed

lemma sample_terminal_matches:
  "fwlab_c43_block_action_terminal_matches_request sample_block_request sample_block_terminal (sample_port 6)"
proof -
  have "fwlab_c43_block_action_terminal_valid sample_block_terminal"
    by (simp add: fwlab_c43_block_action_terminal_valid_def sample_action_defs fwlab_hif_action_terminal_valid_def
        fwlab_hif_action_token_valid_def fwlab_c43_completion_witness_valid_def handle_valid_def origin_valid_def
        c43_witness_mask_valid_def c43_ref_zero_def effect_units_agree_def effect_units_valid_def
        strong_witness_def)
  moreover have "fwlab_c43_block_action_request_valid_for_port sample_block_request (sample_port 6)"
    using sample_block_request_valid
    by (simp add: fwlab_c43_block_action_request_valid_for_port_def fwlab_c43_block_action_port_valid_def
        required_capability_def) (simp add: sample_action_defs list_all_iff)
  ultimately show ?thesis
    by (simp add: fwlab_c43_block_action_terminal_matches_request_def)
      (simp add: sample_action_defs terminal_matches_envelope_def)
qed

theorem durability_needs_proof_witness:
  "cw_witness_mask (bx_witness sample_block_terminal) AND FWLAB_C43_WITNESS_DURABILITY_COMPLETE \<noteq> 0"
proof -
  let ?rq = "sample_request FWLAB_C43_REQUEST_WRITE"
  have "request_common_error ?rq = None"
    by (simp add: request_common_error_def sample_request_defs request_expected_queue_def
        request_data_required_def request_namespace_valid_def)
  then have plan: "fwlab_c43_policy_begin fwlab_nvme_profile_fixed ?rq = Inr sample_plan"
    using policy_read_write [OF sample_request_valid(2) _ _ refl refl]
    by (simp add: sample_plan_def) (simp add: sample_request_def)
  have "pr_kind ?rq = FWLAB_C43_REQUEST_FLUSH \<or> (pr_kind ?rq = FWLAB_C43_REQUEST_WRITE \<and> pr_fua ?rq \<noteq> 0)"
    and "pl_semantic_status sample_plan = FWLAB_C43_STATUS_SUCCESS"
    and "bq_intent sample_block_request = pl_block sample_plan"
    and "bx_block_terminal_kind sample_block_terminal = FWLAB_C43_BLOCK_COMPLETED"
    by (simp_all add: sample_request_def sample_plan_def block_plan_def policy_plan_base_def Let_def
        sample_block_request_def sample_block_terminal_def)
  then show ?thesis
    using durability_needs_proof [OF sample_request_valid(2) plan _ _ _ sample_terminal_matches] by blast
qed

text \<open>
  A provider that only validates completes nothing: if its only capability is validation, the
  terminals it can answer with are the validation, a failure without effect and a cancellation, and a
  validation moves no data.
\<close>

theorem validation_only_provider:
  assumes "fwlab_c43_block_action_terminal_matches_request bq bx bp"
    and "bp_capability_bits bp = FWLAB_C43_BLOCK_CAP_VALIDATION_ONLY"
  shows "bx_block_terminal_kind bx \<noteq> FWLAB_C43_BLOCK_COMPLETED \<and>
    (bx_block_terminal_kind bx = FWLAB_C43_BLOCK_VALIDATED_ONLY \<longrightarrow>
       te_effect_class (bx_common bx) = FWLAB_NVME_EFFECT_NONE \<and> te_units_completed (bx_common bx) = 0)"
proof
  show "bx_block_terminal_kind bx \<noteq> FWLAB_C43_BLOCK_COMPLETED"
  proof
    assume c: "bx_block_terminal_kind bx = FWLAB_C43_BLOCK_COMPLETED"
    note m = matched_completed [OF assms(1) c]
    have "\<not> c43_ref_zero (bq_predecessor bq)"
      using completed_terminal(2) [OF m(2) c] m(4) by simp
    then have "bq_requested_witness_mask bq = block_expected_witness (bq_intent bq)"
      by (rule block_request_mask(1) [OF m(1)])
    then show False
      using m(7) assms(2) by (simp add: required_capability_def block_expected_witness_def split: if_splits)
  qed
next
  show "bx_block_terminal_kind bx = FWLAB_C43_BLOCK_VALIDATED_ONLY \<longrightarrow>
       te_effect_class (bx_common bx) = FWLAB_NVME_EFFECT_NONE \<and> te_units_completed (bx_common bx) = 0"
    using assms(1) by (auto simp: fwlab_c43_block_action_terminal_matches_request_def
        fwlab_c43_block_action_terminal_valid_def Let_def split: if_splits)
qed

definition sample_check_request :: c43_block_action_request where
  "sample_check_request = sample_block_request\<lparr>bq_predecessor := (0, 0),
     bq_requested_witness_mask := FWLAB_C43_WITNESS_VALIDATED_ONLY\<rparr>"

definition sample_check_terminal :: c43_block_action_terminal where
  "sample_check_terminal = sample_block_terminal
     \<lparr>bx_common := (bx_common sample_block_terminal)\<lparr>te_units_completed := 0, te_effect_class := 0\<rparr>,
      bx_witness := (bx_witness sample_block_terminal)\<lparr>cw_predecessor := (0, 0), cw_units_completed := 0,
        cw_effect_class := 0, cw_witness_mask := FWLAB_C43_WITNESS_VALIDATED_ONLY\<rparr>,
      bx_block_terminal_kind := FWLAB_C43_BLOCK_VALIDATED_ONLY\<rparr>"

theorem validation_only_provider_witness: "te_units_completed (bx_common sample_check_terminal) = 0"
proof -
  have "fwlab_c43_block_action_terminal_valid sample_check_terminal"
    by (simp add: fwlab_c43_block_action_terminal_valid_def sample_check_terminal_def sample_action_defs
        fwlab_hif_action_terminal_valid_def fwlab_hif_action_token_valid_def
        fwlab_c43_completion_witness_valid_def handle_valid_def origin_valid_def c43_witness_mask_valid_def
        c43_ref_zero_def)
  moreover have "fwlab_c43_block_action_request_valid sample_check_request"
    using sample_block_request_valid
    by (auto simp: fwlab_c43_block_action_request_valid_def sample_check_request_def Let_def c43_ref_zero_def
        c43_witness_mask_valid_def split: if_splits)
  then have "fwlab_c43_block_action_request_valid_for_port sample_check_request (sample_port 1)"
    by (simp add: fwlab_c43_block_action_request_valid_for_port_def fwlab_c43_block_action_port_valid_def
        sample_port_def list_all_iff) (simp add: required_capability_def sample_check_request_def)
  ultimately have "fwlab_c43_block_action_terminal_matches_request sample_check_request sample_check_terminal
      (sample_port 1)"
    by (simp add: fwlab_c43_block_action_terminal_matches_request_def)
      (simp add: sample_check_request_def sample_check_terminal_def sample_action_defs terminal_matches_envelope_def)
  moreover have "bx_block_terminal_kind sample_check_terminal = FWLAB_C43_BLOCK_VALIDATED_ONLY"
    and "bp_capability_bits (sample_port 1) = FWLAB_C43_BLOCK_CAP_VALIDATION_ONLY"
    by (simp_all add: sample_check_terminal_def sample_port_def)
  ultimately show ?thesis
    using validation_only_provider by blast
qed

end
