(* ===== verification/Nvme_Graph_Types.thy ===== *)
theory Nvme_Graph_Types
  imports Nvme_Action_Laws
begin

text \<open>
  The state of the NVMe command graph: its configuration, results and public observer
  (\<open>include/fwlab/portable/c4_command_graph.h\<close>), the reservation values of
  \<open>include/fwlab/contracts/hif_command_port.h\<close> and the internal records of
  \<open>core/c4-nvme/c43_internal.h\<close>, with every field. An array of the C structures is a list; the
  invariants fix its length.

  The three transaction records of a command share storage in the code, and the kind of the plan says
  which of them is meant. Here they are three fields; clearing the storage clears all three, and it is
  zero if all three are.
\<close>

section \<open>Enumerations\<close>

datatype c43_graph_result =
    FWLAB_C43_GRAPH_OK
  | FWLAB_C43_GRAPH_INVALID
  | FWLAB_C43_GRAPH_WRONG_STATE
  | FWLAB_C43_GRAPH_STALE
  | FWLAB_C43_GRAPH_NO_CAPACITY
  | FWLAB_C43_GRAPH_IN_PROGRESS
  | FWLAB_C43_GRAPH_SUPERSEDED
  | FWLAB_C43_GRAPH_POISONED
  | FWLAB_C43_GRAPH_COUNTER_EXHAUSTED
  | FWLAB_C43_GRAPH_NOT_IMPLEMENTED

abbreviation (input) FWLAB_C43_API_OK :: u32 where "FWLAB_C43_API_OK \<equiv> 0"
abbreviation (input) FWLAB_C43_API_IN_PROGRESS :: u32 where "FWLAB_C43_API_IN_PROGRESS \<equiv> 5"
abbreviation (input) FWLAB_HIF_COMMAND_PORT_VERSION :: u16 where "FWLAB_HIF_COMMAND_PORT_VERSION \<equiv> 1"
abbreviation (input) FWLAB_C43_GRAPH_VERSION :: u16 where "FWLAB_C43_GRAPH_VERSION \<equiv> 1"
abbreviation (input) FWLAB_C43_PROVIDER_BUNDLE_VERSION :: u16 where "FWLAB_C43_PROVIDER_BUNDLE_VERSION \<equiv> 1"
abbreviation (input) FWLAB_C43_ADMIT_RESULT_VERSION :: u16 where "FWLAB_C43_ADMIT_RESULT_VERSION \<equiv> 1"
abbreviation (input) FWLAB_C43_INTERNAL_MAGIC :: u64 where "FWLAB_C43_INTERNAL_MAGIC \<equiv> 0x4334334752415031"
abbreviation (input) UINT64_MAX :: u64 where "UINT64_MAX \<equiv> 0xFFFFFFFFFFFFFFFF"

abbreviation (input) FWLAB_C43_MAX_COMMANDS :: nat where "FWLAB_C43_MAX_COMMANDS \<equiv> 4"
abbreviation (input) FWLAB_C43_ACTIONS_PER_COMMAND :: nat where "FWLAB_C43_ACTIONS_PER_COMMAND \<equiv> 8"

abbreviation (input) FWLAB_HIF_PREPARE_RESERVED :: u32 where "FWLAB_HIF_PREPARE_RESERVED \<equiv> 0"
abbreviation (input) FWLAB_HIF_PREPARE_BACKPRESSURE :: u32 where "FWLAB_HIF_PREPARE_BACKPRESSURE \<equiv> 1"
abbreviation (input) FWLAB_HIF_PREPARE_REJECTED :: u32 where "FWLAB_HIF_PREPARE_REJECTED \<equiv> 2"

abbreviation (input) FWLAB_HIF_ADMISSION_NOT_STARTED :: u32 where "FWLAB_HIF_ADMISSION_NOT_STARTED \<equiv> 0"
abbreviation (input) FWLAB_HIF_ADMISSION_COMMITTED :: u32 where "FWLAB_HIF_ADMISSION_COMMITTED \<equiv> 1"
abbreviation (input) FWLAB_HIF_ADMISSION_ABORTED :: u32 where "FWLAB_HIF_ADMISSION_ABORTED \<equiv> 2"
abbreviation (input) FWLAB_HIF_ADMISSION_POISONED :: u32 where "FWLAB_HIF_ADMISSION_POISONED \<equiv> 3"

abbreviation (input) FWLAB_C43_PHASE_FREE :: u32 where "FWLAB_C43_PHASE_FREE \<equiv> 0"
abbreviation (input) FWLAB_C43_PHASE_PREPARED :: u32 where "FWLAB_C43_PHASE_PREPARED \<equiv> 1"
abbreviation (input) FWLAB_C43_PHASE_ADMITTED_POLICY :: u32 where "FWLAB_C43_PHASE_ADMITTED_POLICY \<equiv> 2"
abbreviation (input) FWLAB_C43_PHASE_RESOLVE_WAIT :: u32 where "FWLAB_C43_PHASE_RESOLVE_WAIT \<equiv> 3"
abbreviation (input) FWLAB_C43_PHASE_ACTION_WAIT :: u32 where "FWLAB_C43_PHASE_ACTION_WAIT \<equiv> 4"
abbreviation (input) FWLAB_C43_PHASE_CANCEL_PENDING :: u32 where "FWLAB_C43_PHASE_CANCEL_PENDING \<equiv> 5"
abbreviation (input) FWLAB_C43_PHASE_TERMINAL_LATCHED_DRAIN :: u32 where "FWLAB_C43_PHASE_TERMINAL_LATCHED_DRAIN \<equiv> 6"
abbreviation (input) FWLAB_C43_PHASE_INTENT_READY :: u32 where "FWLAB_C43_PHASE_INTENT_READY \<equiv> 7"
abbreviation (input) FWLAB_C43_PHASE_LEASED :: u32 where "FWLAB_C43_PHASE_LEASED \<equiv> 8"
abbreviation (input) FWLAB_C43_PHASE_CONSUME_PREPARED :: u32 where "FWLAB_C43_PHASE_CONSUME_PREPARED \<equiv> 9"
abbreviation (input) FWLAB_C43_PHASE_COMMIT_UNKNOWN :: u32 where "FWLAB_C43_PHASE_COMMIT_UNKNOWN \<equiv> 10"
abbreviation (input) FWLAB_C43_PHASE_CLEANUP_PENDING :: u32 where "FWLAB_C43_PHASE_CLEANUP_PENDING \<equiv> 11"
abbreviation (input) FWLAB_C43_PHASE_RESET_DRAIN :: u32 where "FWLAB_C43_PHASE_RESET_DRAIN \<equiv> 12"
abbreviation (input) FWLAB_C43_PHASE_RETIRED_TOMBSTONE :: u32 where "FWLAB_C43_PHASE_RETIRED_TOMBSTONE \<equiv> 13"

abbreviation (input) FWLAB_C43_WINNER_NONE :: u32 where "FWLAB_C43_WINNER_NONE \<equiv> 0"
abbreviation (input) FWLAB_C43_WINNER_NORMAL :: u32 where "FWLAB_C43_WINNER_NORMAL \<equiv> 1"
abbreviation (input) FWLAB_C43_WINNER_ABORT :: u32 where "FWLAB_C43_WINNER_ABORT \<equiv> 2"
abbreviation (input) FWLAB_C43_WINNER_RESET :: u32 where "FWLAB_C43_WINNER_RESET \<equiv> 3"
abbreviation (input) FWLAB_C43_WINNER_FAULT :: u32 where "FWLAB_C43_WINNER_FAULT \<equiv> 4"

abbreviation (input) FWLAB_C43_PUBLICATION_ELIGIBLE :: u32 where "FWLAB_C43_PUBLICATION_ELIGIBLE \<equiv> 0"
abbreviation (input) FWLAB_C43_PUBLICATION_LEASED :: u32 where "FWLAB_C43_PUBLICATION_LEASED \<equiv> 1"
abbreviation (input) FWLAB_C43_PUBLICATION_CONSUME_PREPARED :: u32 where "FWLAB_C43_PUBLICATION_CONSUME_PREPARED \<equiv> 2"
abbreviation (input) FWLAB_C43_PUBLICATION_CONSUMED :: u32 where "FWLAB_C43_PUBLICATION_CONSUMED \<equiv> 3"
abbreviation (input) FWLAB_C43_PUBLICATION_SUPPRESSED :: u32 where "FWLAB_C43_PUBLICATION_SUPPRESSED \<equiv> 4"

abbreviation (input) FWLAB_C43_CREDIT_ALL :: u32 where "FWLAB_C43_CREDIT_ALL \<equiv> 0x3FF"

abbreviation (input) FWLAB_C43_ACTION_DOMAIN_NONE :: u8 where "FWLAB_C43_ACTION_DOMAIN_NONE \<equiv> 0"
abbreviation (input) FWLAB_C43_ACTION_DOMAIN_QUEUE :: u8 where "FWLAB_C43_ACTION_DOMAIN_QUEUE \<equiv> 1"
abbreviation (input) FWLAB_C43_ACTION_DOMAIN_TARGET :: u8 where "FWLAB_C43_ACTION_DOMAIN_TARGET \<equiv> 2"
abbreviation (input) FWLAB_C43_ACTION_DOMAIN_BLOCK :: u8 where "FWLAB_C43_ACTION_DOMAIN_BLOCK \<equiv> 3"

abbreviation (input) FWLAB_C43_ACTION_STATE_NONE :: u8 where "FWLAB_C43_ACTION_STATE_NONE \<equiv> 0"
abbreviation (input) FWLAB_C43_ACTION_STATE_SUBMIT_READY :: u8 where "FWLAB_C43_ACTION_STATE_SUBMIT_READY \<equiv> 1"
abbreviation (input) FWLAB_C43_ACTION_STATE_PREPARE_QUERY :: u8 where "FWLAB_C43_ACTION_STATE_PREPARE_QUERY \<equiv> 2"
abbreviation (input) FWLAB_C43_ACTION_STATE_DECIDE :: u8 where "FWLAB_C43_ACTION_STATE_DECIDE \<equiv> 3"
abbreviation (input) FWLAB_C43_ACTION_STATE_FINISH_READY :: u8 where "FWLAB_C43_ACTION_STATE_FINISH_READY \<equiv> 4"
abbreviation (input) FWLAB_C43_ACTION_STATE_FINISH_QUERY :: u8 where "FWLAB_C43_ACTION_STATE_FINISH_QUERY \<equiv> 5"
abbreviation (input) FWLAB_C43_ACTION_STATE_APPLY_COMMIT :: u8 where "FWLAB_C43_ACTION_STATE_APPLY_COMMIT \<equiv> 6"
abbreviation (input) FWLAB_C43_ACTION_STATE_APPLY_ABORT :: u8 where "FWLAB_C43_ACTION_STATE_APPLY_ABORT \<equiv> 7"
abbreviation (input) FWLAB_C43_ACTION_STATE_RETIRE :: u8 where "FWLAB_C43_ACTION_STATE_RETIRE \<equiv> 8"
abbreviation (input) FWLAB_C43_ACTION_STATE_TERMINAL_HELD :: u8 where "FWLAB_C43_ACTION_STATE_TERMINAL_HELD \<equiv> 9"
abbreviation (input) FWLAB_C43_ACTION_STATE_REJECTED_NO_EFFECT :: u8 where "FWLAB_C43_ACTION_STATE_REJECTED_NO_EFFECT \<equiv> 10"
abbreviation (input) FWLAB_C43_ACTION_STATE_FAULT :: u8 where "FWLAB_C43_ACTION_STATE_FAULT \<equiv> 11"
abbreviation (input) FWLAB_C43_ACTION_STATE_ACCEPTED_WAIT :: u8 where "FWLAB_C43_ACTION_STATE_ACCEPTED_WAIT \<equiv> 12"

abbreviation (input) FWLAB_C43_NQ_UNNEGOTIATED :: "'a::len word" where "FWLAB_C43_NQ_UNNEGOTIATED \<equiv> 0"
abbreviation (input) FWLAB_C43_NQ_NEGOTIATED :: "'a::len word" where "FWLAB_C43_NQ_NEGOTIATED \<equiv> 1"

abbreviation (input) C43_ACTION_RECORD_FREE :: u16 where "C43_ACTION_RECORD_FREE \<equiv> 0"
abbreviation (input) C43_ACTION_RECORD_RESERVED :: u16 where "C43_ACTION_RECORD_RESERVED \<equiv> 1"

abbreviation (input) C43_COMMAND_RECORD_FREE :: u8 where "C43_COMMAND_RECORD_FREE \<equiv> 0"
abbreviation (input) C43_COMMAND_RECORD_PREPARED :: u8 where "C43_COMMAND_RECORD_PREPARED \<equiv> 1"
abbreviation (input) C43_COMMAND_RECORD_ADMITTED :: u8 where "C43_COMMAND_RECORD_ADMITTED \<equiv> 2"

abbreviation (input) C43_QUEUE_FLOW_NONE :: "'a::len word" where "C43_QUEUE_FLOW_NONE \<equiv> 0"
abbreviation (input) C43_QUEUE_FLOW_PREPARE_START :: "'a::len word" where "C43_QUEUE_FLOW_PREPARE_START \<equiv> 1"
abbreviation (input) C43_QUEUE_FLOW_PREPARE_QUERY :: "'a::len word" where "C43_QUEUE_FLOW_PREPARE_QUERY \<equiv> 2"
abbreviation (input) C43_QUEUE_FLOW_DECIDE :: "'a::len word" where "C43_QUEUE_FLOW_DECIDE \<equiv> 3"
abbreviation (input) C43_QUEUE_FLOW_FINISH_START :: "'a::len word" where "C43_QUEUE_FLOW_FINISH_START \<equiv> 4"
abbreviation (input) C43_QUEUE_FLOW_FINISH_QUERY :: "'a::len word" where "C43_QUEUE_FLOW_FINISH_QUERY \<equiv> 5"
abbreviation (input) C43_QUEUE_FLOW_APPLY_COMMIT :: "'a::len word" where "C43_QUEUE_FLOW_APPLY_COMMIT \<equiv> 6"
abbreviation (input) C43_QUEUE_FLOW_APPLY_ABORT :: "'a::len word" where "C43_QUEUE_FLOW_APPLY_ABORT \<equiv> 7"
abbreviation (input) C43_QUEUE_FLOW_RETIRE :: "'a::len word" where "C43_QUEUE_FLOW_RETIRE \<equiv> 8"
abbreviation (input) C43_QUEUE_FLOW_DONE :: "'a::len word" where "C43_QUEUE_FLOW_DONE \<equiv> 9"
abbreviation (input) C43_QUEUE_FLOW_REJECTED_NO_EFFECT :: "'a::len word" where "C43_QUEUE_FLOW_REJECTED_NO_EFFECT \<equiv> 10"
abbreviation (input) C43_QUEUE_FLOW_FAULT :: "'a::len word" where "C43_QUEUE_FLOW_FAULT \<equiv> 11"

abbreviation (input) C43_TARGET_FLOW_NONE :: "'a::len word" where "C43_TARGET_FLOW_NONE \<equiv> 0"
abbreviation (input) C43_TARGET_FLOW_SUBMIT_START :: "'a::len word" where "C43_TARGET_FLOW_SUBMIT_START \<equiv> 1"
abbreviation (input) C43_TARGET_FLOW_QUERY :: "'a::len word" where "C43_TARGET_FLOW_QUERY \<equiv> 2"
abbreviation (input) C43_TARGET_FLOW_DONE :: "'a::len word" where "C43_TARGET_FLOW_DONE \<equiv> 3"
abbreviation (input) C43_TARGET_FLOW_FAULT :: "'a::len word" where "C43_TARGET_FLOW_FAULT \<equiv> 4"

abbreviation (input) C43_BLOCK_FLOW_NONE :: "'a::len word" where "C43_BLOCK_FLOW_NONE \<equiv> 0"
abbreviation (input) C43_BLOCK_FLOW_SUBMIT_START :: "'a::len word" where "C43_BLOCK_FLOW_SUBMIT_START \<equiv> 1"
abbreviation (input) C43_BLOCK_FLOW_QUERY :: "'a::len word" where "C43_BLOCK_FLOW_QUERY \<equiv> 2"
abbreviation (input) C43_BLOCK_FLOW_DONE :: "'a::len word" where "C43_BLOCK_FLOW_DONE \<equiv> 3"
abbreviation (input) C43_BLOCK_FLOW_REJECTED_NO_EFFECT :: "'a::len word" where "C43_BLOCK_FLOW_REJECTED_NO_EFFECT \<equiv> 4"
abbreviation (input) C43_BLOCK_FLOW_FAULT :: "'a::len word" where "C43_BLOCK_FLOW_FAULT \<equiv> 5"

abbreviation (input) sizeof_hif_prepare_key :: u16 where "sizeof_hif_prepare_key \<equiv> 64"
abbreviation (input) sizeof_hif_prepare_result :: u16 where "sizeof_hif_prepare_result \<equiv> 80"
abbreviation (input) sizeof_c43_graph_config :: u16 where "sizeof_c43_graph_config \<equiv> 232"
abbreviation (input) sizeof_c43_graph_providers :: u16 where "sizeof_c43_graph_providers \<equiv> 112"
abbreviation (input) sizeof_c43_graph_observer :: u16 where "sizeof_c43_graph_observer \<equiv> 984"
abbreviation (input) sizeof_c43_step_result :: u16 where "sizeof_c43_step_result \<equiv> 40"
abbreviation (input) sizeof_c43_admit_result :: u16 where "sizeof_c43_admit_result \<equiv> 96"
abbreviation (input) sizeof_c43_queue_effect_port_ops :: u16 where "sizeof_c43_queue_effect_port_ops \<equiv> 88"
abbreviation (input) sizeof_c43_target_resolver_port_ops :: u16 where "sizeof_c43_target_resolver_port_ops \<equiv> 80"

section \<open>Structures\<close>

record hif_prepare_key =
  pk_version :: u16
  pk_size :: u16
  pk_reserved0 :: u32
  pk_origin :: nvme_origin_token
  pk_client_uid :: u64
  pk_instance_nonce :: u64
  pk_controller_epoch :: u32
  pk_client_generation :: u32
  pk_queue_class :: u16
  pk_worst_case_actions :: u16
  pk_reserved1 :: "u32 list"

definition zero_hif_prepare_key :: hif_prepare_key where
  "zero_hif_prepare_key = \<lparr>pk_version = 0, pk_size = 0, pk_reserved0 = 0,
     pk_origin = (0, 0), pk_client_uid = 0, pk_instance_nonce = 0, pk_controller_epoch = 0,
     pk_client_generation = 0, pk_queue_class = 0, pk_worst_case_actions = 0,
     pk_reserved1 = replicate 2 0\<rparr>"

record hif_prepared_token =
  pt_handle :: nvme_command_handle
  pt_origin :: nvme_origin_token
  pt_reservation_uid :: u64
  pt_generation :: u32
  pt_reserved :: u32

definition zero_hif_prepared_token :: hif_prepared_token where
  "zero_hif_prepared_token = \<lparr>pt_handle = zero_handle, pt_origin = (0, 0),
     pt_reservation_uid = 0, pt_generation = 0, pt_reserved = 0\<rparr>"

record hif_prepare_result =
  pu_version :: u16
  pu_size :: u16
  pu_disposition :: u32
  pu_prepared :: hif_prepared_token
  pu_fault_domain :: u32
  pu_fault_code :: u32
  pu_reserved :: "u32 list"

definition zero_hif_prepare_result :: hif_prepare_result where
  "zero_hif_prepare_result = \<lparr>pu_version = 0, pu_size = 0, pu_disposition = 0,
     pu_prepared = zero_hif_prepared_token, pu_fault_domain = 0, pu_fault_code = 0,
     pu_reserved = replicate 2 0\<rparr>"

record c43_counter_seed =
  seed_next :: u64
  seed_maximum :: u64

definition zero_c43_counter_seed :: c43_counter_seed where
  "zero_c43_counter_seed = \<lparr>seed_next = 0, seed_maximum = 0\<rparr>"

record c43_graph_config =
  gc_version :: u16
  gc_size :: u16
  gc_reserved_header :: u32
  gc_profile :: nvme_profile
  gc_command_capacity :: u16
  gc_actions_per_command :: u16
  gc_queue_mailbox_capacity :: u16
  gc_target_mailbox_capacity :: u16
  gc_block_mailbox_capacity :: u16
  gc_dma_mailbox_capacity :: u16
  gc_service_gap_maximum :: u32
  gc_ordinary_progress_maximum :: u32
  gc_control_progress_maximum :: u32
  gc_safety_generation :: u32
  gc_reserved_alignment :: u32
  gc_instance_nonce :: u64
  gc_controller_epoch :: u32
  gc_reserved0 :: u32
  gc_command_uid :: c43_counter_seed
  gc_action_uid :: c43_counter_seed
  gc_transaction_uid :: c43_counter_seed
  gc_lease_uid :: c43_counter_seed
  gc_consume_uid :: c43_counter_seed
  gc_finalizer_uid :: c43_counter_seed
  gc_reserved1 :: "u32 list"

record c43_command_observer =
  co_handle :: nvme_command_handle
  co_origin :: nvme_origin_token
  co_transaction_uid :: u64
  co_phase :: u32
  co_terminal_winner :: u32
  co_publication :: u32
  co_required_witness_mask :: u32
  co_satisfied_witness_mask :: u32
  co_action_count :: u16
  co_in_use :: u8
  co_success_eligible :: u8
  co_provider_generation_current :: u8
  co_action_domain :: u8
  co_action_state :: u8
  co_resolution_valid :: u8
  co_reservation_credit_mask :: u32
  co_first_action_uid :: u64
  co_action_generation :: u32
  co_resolved_status :: u32
  co_action_outcome :: u32
  co_block_terminal_kind :: u32
  co_target_ticket :: hif_command_ticket
  co_target_reference :: c43_opaque_ref
  co_incoming_target_pins :: u16
  co_target_pin_present :: u8
  co_reserved_action_flags :: u8
  co_reserved_action :: "u32 list"

definition zero_c43_command_observer :: c43_command_observer where
  "zero_c43_command_observer = \<lparr>co_handle = zero_handle, co_origin = (0, 0),
     co_transaction_uid = 0, co_phase = 0, co_terminal_winner = 0, co_publication = 0,
     co_required_witness_mask = 0, co_satisfied_witness_mask = 0, co_action_count = 0,
     co_in_use = 0, co_success_eligible = 0, co_provider_generation_current = 0,
     co_action_domain = 0, co_action_state = 0, co_resolution_valid = 0,
     co_reservation_credit_mask = 0, co_first_action_uid = 0, co_action_generation = 0,
     co_resolved_status = 0, co_action_outcome = 0, co_block_terminal_kind = 0,
     co_target_ticket = zero_hif_command_ticket, co_target_reference = (0, 0),
     co_incoming_target_pins = 0, co_target_pin_present = 0, co_reserved_action_flags = 0,
     co_reserved_action = replicate 5 0\<rparr>"

record c43_graph_observer =
  go_version :: u16
  go_size :: u16
  go_controller_epoch :: u32
  go_instance_nonce :: u64
  go_active_commands :: u32
  go_active_actions :: u32
  go_ready_count :: u32
  go_cleanup_count :: u32
  go_provider_generation :: "u64 list"
  go_admission_closed :: u8
  go_resetting :: u8
  go_tearing_down :: u8
  go_dead :: u8
  go_reserved_intent_credits :: u32
  go_commands :: "c43_command_observer list"
  go_reserved_ready_credits :: u32
  go_reserved_lease_credits :: u32
  go_reserved_consume_credits :: u32
  go_reserved_finalizer_credits :: u32
  go_reserved_abort_credits :: u32
  go_reserved_target_credits :: u32
  go_reserved_queue_transaction_credits :: u32
  go_reserved_block_intent_credits :: u32
  go_nq_state :: u32
  go_queue_owner_slot_plus_one :: u16
  go_queue_txn_active :: u8
  go_io_cq_present :: u8
  go_io_sq_present :: u8
  go_reserved_queue_flags :: "u8 list"
  go_io_cq :: c43_opaque_ref
  go_io_sq :: c43_opaque_ref
  go_sq_associated_cq :: c43_opaque_ref
  go_reserved_queue :: "u32 list"

definition zero_c43_graph_observer :: c43_graph_observer where
  "zero_c43_graph_observer = \<lparr>go_version = 0, go_size = 0, go_controller_epoch = 0,
     go_instance_nonce = 0, go_active_commands = 0, go_active_actions = 0, go_ready_count = 0,
     go_cleanup_count = 0, go_provider_generation = replicate 4 0, go_admission_closed = 0,
     go_resetting = 0, go_tearing_down = 0, go_dead = 0, go_reserved_intent_credits = 0,
     go_commands = replicate 4 zero_c43_command_observer, go_reserved_ready_credits = 0,
     go_reserved_lease_credits = 0, go_reserved_consume_credits = 0,
     go_reserved_finalizer_credits = 0, go_reserved_abort_credits = 0,
     go_reserved_target_credits = 0, go_reserved_queue_transaction_credits = 0,
     go_reserved_block_intent_credits = 0, go_nq_state = 0, go_queue_owner_slot_plus_one = 0,
     go_queue_txn_active = 0, go_io_cq_present = 0, go_io_sq_present = 0,
     go_reserved_queue_flags = replicate 7 0, go_io_cq = (0, 0), go_io_sq = (0, 0),
     go_sq_associated_cq = (0, 0), go_reserved_queue = replicate 4 0\<rparr>"

record c43_step_result =
  sr_version :: u16
  sr_size :: u16
  sr_reserved0 :: u32
  sr_requested_budget :: u32
  sr_units_executed :: u32
  sr_transitions :: u32
  sr_ready_events :: u32
  sr_service_gap_maximum :: u32
  sr_reserved :: "u32 list"

definition zero_c43_step_result :: c43_step_result where
  "zero_c43_step_result = \<lparr>sr_version = 0, sr_size = 0, sr_reserved0 = 0,
     sr_requested_budget = 0, sr_units_executed = 0, sr_transitions = 0, sr_ready_events = 0,
     sr_service_gap_maximum = 0, sr_reserved = replicate 3 0\<rparr>"

record c43_admit_result =
  ar_version :: u16
  ar_size :: u16
  ar_reserved0 :: u32
  ar_state :: u32
  ar_reserved1 :: u32
  ar_ticket :: hif_command_ticket
  ar_reserved2 :: "u32 list"

definition zero_c43_admit_result :: c43_admit_result where
  "zero_c43_admit_result = \<lparr>ar_version = 0, ar_size = 0, ar_reserved0 = 0, ar_state = 0,
     ar_reserved1 = 0, ar_ticket = zero_hif_command_ticket, ar_reserved2 = replicate 6 0\<rparr>"

record c43_queue_authority =
  qa_nq_state :: u8
  qa_txn_active :: u8
  qa_owner_slot_plus_one :: u16
  qa_io_cq_present :: u8
  qa_io_sq_present :: u8
  qa_reserved0 :: "u8 list"
  qa_io_cq :: c43_opaque_ref
  qa_io_sq :: c43_opaque_ref
  qa_sq_associated_cq :: c43_opaque_ref
  qa_reserved1 :: "u32 list"

definition zero_c43_queue_authority :: c43_queue_authority where
  "zero_c43_queue_authority = \<lparr>qa_nq_state = 0, qa_txn_active = 0,
     qa_owner_slot_plus_one = 0, qa_io_cq_present = 0, qa_io_sq_present = 0,
     qa_reserved0 = replicate 2 0, qa_io_cq = (0, 0), qa_io_sq = (0, 0),
     qa_sq_associated_cq = (0, 0), qa_reserved1 = replicate 4 0\<rparr>"

record c43_queue_txn_record =
  qx_flow :: u32
  qx_decision :: u32
  qx_resolved_status :: u32
  qx_resolution_valid :: u8
  qx_local_effect_applied :: u8
  qx_provider_owned :: u8
  qx_fault_from_flow :: u8
  qx_provider_generation :: u64
  qx_prepare_request :: c43_queue_effect_request
  qx_prepared_facts :: c43_queue_facts
  qx_finish_request :: c43_queue_finish_request
  qx_terminal :: c43_queue_effect_terminal
  qx_reserved1 :: "u32 list"

definition zero_c43_queue_txn_record :: c43_queue_txn_record where
  "zero_c43_queue_txn_record = \<lparr>qx_flow = 0, qx_decision = 0, qx_resolved_status = 0,
     qx_resolution_valid = 0, qx_local_effect_applied = 0, qx_provider_owned = 0,
     qx_fault_from_flow = 0, qx_provider_generation = 0,
     qx_prepare_request = zero_c43_queue_effect_request, qx_prepared_facts = zero_c43_queue_facts,
     qx_finish_request = zero_c43_queue_finish_request,
     qx_terminal = zero_c43_queue_effect_terminal, qx_reserved1 = replicate 4 0\<rparr>"

record c43_target_txn_record =
  tx_flow :: u32
  tx_outcome :: u32
  tx_resolved_status :: u32
  tx_resolution_valid :: u8
  tx_provider_owned :: u8
  tx_pin_installed :: u8
  tx_fault_from_flow :: u8
  tx_target_slot_plus_one :: u16
  tx_reserved0 :: u16
  tx_reserved1 :: u32
  tx_provider_generation :: u64
  tx_request :: c43_target_request
  tx_terminal :: c43_target_terminal
  tx_reserved2 :: "u32 list"
  tx_reserved_tail :: "u32 list"

definition zero_c43_target_txn_record :: c43_target_txn_record where
  "zero_c43_target_txn_record = \<lparr>tx_flow = 0, tx_outcome = 0, tx_resolved_status = 0,
     tx_resolution_valid = 0, tx_provider_owned = 0, tx_pin_installed = 0, tx_fault_from_flow = 0,
     tx_target_slot_plus_one = 0, tx_reserved0 = 0, tx_reserved1 = 0, tx_provider_generation = 0,
     tx_request = zero_c43_target_request, tx_terminal = zero_c43_target_terminal,
     tx_reserved2 = replicate 4 0, tx_reserved_tail = replicate 40 0\<rparr>"

record c43_block_txn_record =
  bt_flow :: u32
  bt_terminal_kind :: u32
  bt_resolved_status :: u32
  bt_resolution_valid :: u8
  bt_provider_owned :: u8
  bt_fault_from_flow :: u8
  bt_reserved0 :: u8
  bt_reserved1 :: u32
  bt_reserved_alignment :: u32
  bt_provider_generation :: u64
  bt_request :: c43_block_action_request
  bt_terminal :: c43_block_action_terminal
  bt_reserved2 :: "u32 list"
  bt_reserved_tail :: "u32 list"

definition zero_c43_block_txn_record :: c43_block_txn_record where
  "zero_c43_block_txn_record = \<lparr>bt_flow = 0, bt_terminal_kind = 0, bt_resolved_status = 0,
     bt_resolution_valid = 0, bt_provider_owned = 0, bt_fault_from_flow = 0, bt_reserved0 = 0,
     bt_reserved1 = 0, bt_reserved_alignment = 0, bt_provider_generation = 0,
     bt_request = zero_c43_block_action_request, bt_terminal = zero_c43_block_action_terminal,
     bt_reserved2 = replicate 4 0, bt_reserved_tail = replicate 16 0\<rparr>"

record c43_counter_cursor =
  cur_next :: u64
  cur_maximum :: u64
  cur_exhausted :: u8
  cur_reserved :: "u8 list"

definition zero_c43_counter_cursor :: c43_counter_cursor where
  "zero_c43_counter_cursor = \<lparr>cur_next = 0, cur_maximum = 0, cur_exhausted = 0,
     cur_reserved = replicate 7 0\<rparr>"

record c43_action_record =
  act_action_uid :: u64
  act_generation :: u32
  act_ordinal :: u16
  act_state :: u16
  act_reserved :: "u32 list"

definition zero_c43_action_record :: c43_action_record where
  "zero_c43_action_record = \<lparr>act_action_uid = 0, act_generation = 0, act_ordinal = 0,
     act_state = 0, act_reserved = replicate 4 0\<rparr>"

record c43_command_record =
  cr_key :: hif_prepare_key
  cr_prepared :: hif_prepared_token
  cr_ticket :: hif_command_ticket
  cr_request :: c43_policy_request
  cr_plan :: c43_policy_plan
  cr_queue_txn :: c43_queue_txn_record
  cr_target_txn :: c43_target_txn_record
  cr_block_txn :: c43_block_txn_record
  cr_transaction_uid :: u64
  cr_lease_uid :: u64
  cr_consume_uid :: u64
  cr_finalizer_uid :: u64
  cr_actions :: "c43_action_record list"
  cr_reservation_credit_mask :: u32
  cr_state :: u8
  cr_in_use :: u8
  cr_incoming_target_pins :: u16
  cr_reserved1 :: "u32 list"

definition zero_c43_command_record :: c43_command_record where
  "zero_c43_command_record = \<lparr>cr_key = zero_hif_prepare_key,
     cr_prepared = zero_hif_prepared_token, cr_ticket = zero_hif_command_ticket,
     cr_request = zero_c43_policy_request, cr_plan = zero_c43_policy_plan,
     cr_queue_txn = zero_c43_queue_txn_record, cr_target_txn = zero_c43_target_txn_record,
     cr_block_txn = zero_c43_block_txn_record, cr_transaction_uid = 0, cr_lease_uid = 0,
     cr_consume_uid = 0, cr_finalizer_uid = 0, cr_actions = replicate 8 zero_c43_action_record,
     cr_reservation_credit_mask = 0, cr_state = 0, cr_in_use = 0, cr_incoming_target_pins = 0,
     cr_reserved1 = replicate 4 0\<rparr>"

text \<open>
  The provider ports. An operation table carries a version, a size, reserved words and function
  pointers; what the graph checks of it is kept, with a flag for each pointer that is set. The
  operations are the functions of \<open>c43_provider_ops\<close> below.
\<close>

record c43_port =
  po_ops_present :: bool
  po_ops_version :: u16
  po_ops_size :: u16
  po_ops_reserved0 :: u32
  po_ops_functions :: "bool list"
  po_ops_reserved1 :: "u32 list"
  po_context_present :: bool
  po_generation :: u64

record c43_graph_providers =
  pv_version :: u16
  pv_size :: u16
  pv_reserved0 :: u32
  pv_queue :: c43_port
  pv_target :: c43_port
  pv_block :: c43_block_action_port
  pv_dma_generation :: u64
  pv_dma_bound :: u32
  pv_reserved :: "u32 list"

text \<open>The graph itself. The operation tables it copies are the same as those of \<open>gr_providers\<close>.\<close>

record c43_graph =
  gr_magic :: u64
  gr_config :: c43_graph_config
  gr_providers :: c43_graph_providers
  gr_command_uid :: c43_counter_cursor
  gr_action_uid :: c43_counter_cursor
  gr_transaction_uid :: c43_counter_cursor
  gr_lease_uid :: c43_counter_cursor
  gr_consume_uid :: c43_counter_cursor
  gr_finalizer_uid :: c43_counter_cursor
  gr_commands :: "c43_command_record list"
  gr_queue_authority :: c43_queue_authority
  gr_next_service_slot :: u32
  gr_reserved_scheduler :: "u32 list"
  gr_observer :: c43_graph_observer

text \<open>
  The operations of the three providers, functions of an unknown state \<open>'p\<close> behind the context
  pointers. Each gets the contents of the output buffers as the graph prepared them and returns the
  result code and what the buffers hold afterwards.
\<close>

record 'p c43_provider_ops =
  op_queue_prepare_start :: "'p \<Rightarrow> c43_queue_effect_request \<Rightarrow> hif_action_submit_result \<Rightarrow> u32 \<times> hif_action_submit_result \<times> 'p"
  op_queue_prepare_query :: "'p \<Rightarrow> hif_action_token \<Rightarrow> c43_queue_effect_terminal \<Rightarrow> bool \<Rightarrow> u32 \<times> c43_queue_effect_terminal \<times> bool \<times> 'p"
  op_queue_finish_start :: "'p \<Rightarrow> c43_queue_finish_request \<Rightarrow> hif_action_submit_result \<Rightarrow> u32 \<times> hif_action_submit_result \<times> 'p"
  op_queue_finish_query :: "'p \<Rightarrow> hif_action_token \<Rightarrow> c43_queue_effect_terminal \<Rightarrow> bool \<Rightarrow> u32 \<times> c43_queue_effect_terminal \<times> bool \<times> 'p"
  op_queue_retire :: "'p \<Rightarrow> hif_action_token \<Rightarrow> u32 \<times> 'p"
  op_target_submit :: "'p \<Rightarrow> c43_target_request \<Rightarrow> hif_action_submit_result \<Rightarrow> u32 \<times> hif_action_submit_result \<times> 'p"
  op_target_query :: "'p \<Rightarrow> hif_action_token \<Rightarrow> c43_target_terminal \<Rightarrow> bool \<Rightarrow> u32 \<times> c43_target_terminal \<times> bool \<times> 'p"
  op_block_submit :: "'p \<Rightarrow> c43_block_action_request \<Rightarrow> hif_action_submit_result \<Rightarrow> u32 \<times> hif_action_submit_result \<times> 'p"
  op_block_query :: "'p \<Rightarrow> hif_action_token \<Rightarrow> c43_block_action_terminal \<Rightarrow> bool \<Rightarrow> u32 \<times> c43_block_action_terminal \<times> bool \<times> 'p"

text \<open>
  Output buffers are filled with the byte \<open>0xa5\<close> before a call. The structures have no padding, so a
  buffer the provider has not touched equals the structure all of whose bytes are \<open>0xa5\<close>.
\<close>

definition poison_handle :: nvme_command_handle where
  "poison_handle = \<lparr>cmd_instance_nonce = 0xA5A5A5A5A5A5A5A5, cmd_command_uid = 0xA5A5A5A5A5A5A5A5,
     cmd_controller_epoch = 0xA5A5A5A5, cmd_generation = 0xA5A5A5A5\<rparr>"

definition poison_pair :: "u64 \<times> u64" where
  "poison_pair = (0xA5A5A5A5A5A5A5A5, 0xA5A5A5A5A5A5A5A5)"

definition poison_hif_action_token :: hif_action_token where
  "poison_hif_action_token = \<lparr>tk_command = poison_handle, tk_origin = poison_pair,
     tk_action_uid = 0xA5A5A5A5A5A5A5A5, tk_generation = 0xA5A5A5A5, tk_kind = 0xA5A5,
     tk_reserved = 0xA5A5\<rparr>"

definition poison_hif_action_submit_result :: hif_action_submit_result where
  "poison_hif_action_submit_result = \<lparr>as_version = 0xA5A5, as_size = 0xA5A5,
     as_reserved0 = 0xA5A5A5A5, as_token = poison_hif_action_token, as_disposition = 0xA5A5A5A5,
     as_fault_domain = 0xA5A5A5A5, as_fault_code = 0xA5A5A5A5, as_retry = 0xA5,
     as_effect_class = 0xA5, as_reserved1 = replicate 2 0xA5,
     as_reserved2 = replicate 4 0xA5A5A5A5\<rparr>"

definition poison_hif_action_terminal :: hif_action_terminal where
  "poison_hif_action_terminal = \<lparr>te_version = 0xA5A5, te_size = 0xA5A5,
     te_reserved0 = 0xA5A5A5A5, te_token = poison_hif_action_token,
     te_cookie = 0xA5A5A5A5A5A5A5A5, te_units_completed = 0xA5A5A5A5,
     te_fault_domain = 0xA5A5A5A5, te_fault_code = 0xA5A5A5A5, te_terminal_kind = 0xA5,
     te_effect_class = 0xA5, te_retry = 0xA5, te_reserved1 = 0xA5,
     te_reserved2 = replicate 2 0xA5A5A5A5\<rparr>"

definition poison_hif_command_ticket :: hif_command_ticket where
  "poison_hif_command_ticket = \<lparr>ct_handle = poison_handle, ct_origin = poison_pair,
     ct_ticket_uid = 0xA5A5A5A5A5A5A5A5, ct_generation = 0xA5A5A5A5,
     ct_reserved = 0xA5A5A5A5\<rparr>"

definition poison_c43_queue_facts :: c43_queue_facts where
  "poison_c43_queue_facts = \<lparr>qf_version = 0xA5A5, qf_size = 0xA5A5,
     qf_reserved0 = 0xA5A5A5A5, qf_transaction = poison_pair, qf_queue = poison_pair,
     qf_associated_cq = poison_pair, qf_operation = 0xA5A5A5A5, qf_role = 0xA5A5A5A5,
     qf_queue_entries = 0xA5A5A5A5, qf_address_present = 0xA5, qf_queue_exists = 0xA5,
     qf_associated_cq_exists = 0xA5, qf_association_matches = 0xA5,
     qf_active_commands_zero = 0xA5, qf_target_refs_zero = 0xA5,
     qf_reserved_publications_zero = 0xA5, qf_unacked_completions_zero = 0xA5,
     qf_current_relation = 0xA5, qf_reserved1 = replicate 3 0xA5,
     qf_reserved2 = replicate 4 0xA5A5A5A5\<rparr>"

definition poison_c43_queue_effect_terminal :: c43_queue_effect_terminal where
  "poison_c43_queue_effect_terminal = \<lparr>qt_version = 0xA5A5, qt_size = 0xA5A5,
     qt_reserved0 = 0xA5A5A5A5, qt_common = poison_hif_action_terminal,
     qt_facts = poison_c43_queue_facts, qt_state = 0xA5A5A5A5, qt_decision = 0xA5A5A5A5,
     qt_reserved = replicate 4 0xA5A5A5A5\<rparr>"

definition poison_c43_target_terminal :: c43_target_terminal where
  "poison_c43_target_terminal = \<lparr>tt_version = 0xA5A5, tt_size = 0xA5A5,
     tt_reserved0 = 0xA5A5A5A5, tt_common = poison_hif_action_terminal,
     tt_target = poison_hif_command_ticket, tt_reference = poison_pair, tt_outcome = 0xA5A5A5A5,
     tt_reserved = replicate 7 0xA5A5A5A5\<rparr>"

definition poison_c43_completion_witness :: c43_completion_witness where
  "poison_c43_completion_witness = \<lparr>cw_version = 0xA5A5, cw_size = 0xA5A5,
     cw_reserved0 = 0xA5A5A5A5, cw_command = poison_handle, cw_origin = poison_pair,
     cw_predecessor = poison_pair, cw_provider_generation = 0xA5A5A5A5A5A5A5A5,
     cw_witness_mask = 0xA5A5A5A5, cw_units_completed = 0xA5A5A5A5, cw_effect_class = 0xA5,
     cw_terminal_kind = 0xA5, cw_reserved1 = replicate 2 0xA5,
     cw_reserved2 = replicate 4 0xA5A5A5A5, cw_reserved3 = 0xA5A5A5A5\<rparr>"

definition poison_c43_block_action_terminal :: c43_block_action_terminal where
  "poison_c43_block_action_terminal = \<lparr>bx_version = 0xA5A5, bx_size = 0xA5A5,
     bx_reserved0 = 0xA5A5A5A5, bx_common = poison_hif_action_terminal,
     bx_witness = poison_c43_completion_witness, bx_block_terminal_kind = 0xA5A5A5A5,
     bx_reserved = replicate 5 0xA5A5A5A5\<rparr>"

end
