(* ===== verification/Nvme_Observer.thy ===== *)
theory Nvme_Observer
  imports Nvme_Graph_Types
begin

text \<open>
  The validator of the graph's public observer (\<open>core/c4-nvme/c43_control.c\<close>, first part): what the
  graph shows of each command, of the queue authority and of its credits, and the conditions under
  which that picture is consistent. \<open>queue_ref_nonzero\<close> and \<open>target_ref_nonzero\<close> of the code are
  \<open>pair_nonzero\<close>; \<open>queue_ref_equal\<close>, \<open>queue_txn_ref_equal\<close> and \<open>command_ticket_equal\<close> are equality.
\<close>

section \<open>Commands\<close>

definition target_fields_zero :: "c43_command_observer \<Rightarrow> bool" where
  "target_fields_zero c \<longleftrightarrow>
     co_action_outcome c = 0 \<and> co_target_pin_present c = 0 \<and>
     co_target_ticket c = zero_hif_command_ticket \<and> \<not> pair_nonzero (co_target_reference c)"

definition observer_ticket_matches_command :: "hif_command_ticket \<Rightarrow> c43_command_observer \<Rightarrow> bool" where
  "observer_ticket_matches_command ticket c \<longleftrightarrow>
     c43_ticket_valid ticket \<and> co_in_use c \<noteq> 0 \<and> co_phase c \<ge> FWLAB_C43_PHASE_ADMITTED_POLICY \<and>
     ct_handle ticket = co_handle c \<and> ct_origin ticket = co_origin c \<and>
     ct_ticket_uid ticket = co_transaction_uid c \<and> ct_generation ticket = co_action_generation c"

definition queue_public_state_needs_owner :: "u8 \<Rightarrow> bool" where
  "queue_public_state_needs_owner state \<longleftrightarrow>
     (state \<ge> FWLAB_C43_ACTION_STATE_SUBMIT_READY \<and> state \<le> FWLAB_C43_ACTION_STATE_RETIRE) \<or>
     state = FWLAB_C43_ACTION_STATE_FAULT"

definition observer_owner :: "c43_graph_observer \<Rightarrow> nat \<Rightarrow> bool" where
  "observer_owner ob slot \<longleftrightarrow>
     go_queue_txn_active ob \<noteq> 0 \<and> unat (go_queue_owner_slot_plus_one ob) = slot + 1"

text \<open>The phase and resolution flag a queue command shows in each of its action states.\<close>

definition queue_public_expected :: "u8 \<Rightarrow> (u32 \<times> u8) option" where
  "queue_public_expected state =
     (if state \<in> {FWLAB_C43_ACTION_STATE_SUBMIT_READY, FWLAB_C43_ACTION_STATE_PREPARE_QUERY,
                  FWLAB_C43_ACTION_STATE_DECIDE}
      then Some (FWLAB_C43_PHASE_RESOLVE_WAIT, 0)
      else if state \<in> {FWLAB_C43_ACTION_STATE_FINISH_READY, FWLAB_C43_ACTION_STATE_FINISH_QUERY,
                       FWLAB_C43_ACTION_STATE_APPLY_COMMIT, FWLAB_C43_ACTION_STATE_APPLY_ABORT}
      then Some (FWLAB_C43_PHASE_RESOLVE_WAIT, 1)
      else if state \<in> {FWLAB_C43_ACTION_STATE_RETIRE, FWLAB_C43_ACTION_STATE_TERMINAL_HELD,
                       FWLAB_C43_ACTION_STATE_REJECTED_NO_EFFECT, FWLAB_C43_ACTION_STATE_FAULT}
      then Some (FWLAB_C43_PHASE_ACTION_WAIT, 1)
      else None)"

definition queue_public_command_valid ::
  "c43_graph_observer \<Rightarrow> nat \<Rightarrow> c43_command_observer \<Rightarrow> bool" where
  "queue_public_command_valid ob slot c \<longleftrightarrow>
     (if co_action_domain c \<noteq> FWLAB_C43_ACTION_DOMAIN_QUEUE then True
      else if co_action_state c = FWLAB_C43_ACTION_STATE_NONE \<or>
              co_terminal_winner c \<noteq> FWLAB_C43_WINNER_NONE \<or>
              co_publication c \<noteq> FWLAB_C43_PUBLICATION_ELIGIBLE \<or>
              co_required_witness_mask c AND NOT FWLAB_C43_WITNESS_QUEUE_EFFECT_COMMITTED \<noteq> 0 \<or>
              co_satisfied_witness_mask c AND NOT FWLAB_C43_WITNESS_QUEUE_EFFECT_COMMITTED \<noteq> 0 \<or>
              \<not> target_fields_zero c \<or> co_block_terminal_kind c \<noteq> 0 \<or>
              queue_public_state_needs_owner (co_action_state c) \<noteq> observer_owner ob slot
      then False
      else case queue_public_expected (co_action_state c) of
          None \<Rightarrow> False
        | Some (expected_phase, expected_resolution) \<Rightarrow>
            let witness_complete = (co_required_witness_mask c = 0 \<or>
                  co_satisfied_witness_mask c AND co_required_witness_mask c = co_required_witness_mask c);
                expected_success = (co_resolution_valid c \<noteq> 0 \<and>
                  co_resolved_status c = FWLAB_C43_STATUS_SUCCESS \<and> witness_complete)
            in co_phase c = expected_phase \<and> co_resolution_valid c = expected_resolution \<and>
               co_success_eligible c = of_bool expected_success \<and>
               (co_satisfied_witness_mask c = 0 \<or> co_action_state c = FWLAB_C43_ACTION_STATE_RETIRE \<or>
                co_action_state c = FWLAB_C43_ACTION_STATE_TERMINAL_HELD \<or>
                co_action_state c = FWLAB_C43_ACTION_STATE_FAULT))"

text \<open>
  The scan of a found abort target over the other commands: every match claims the one pin of its
  slot in \<open>expected\<close>, and there is at most one.
\<close>

fun target_pin_scan ::
  "c43_graph_observer \<Rightarrow> nat \<Rightarrow> hif_command_ticket \<Rightarrow> nat list \<Rightarrow> bool \<Rightarrow> u16 list \<Rightarrow> (bool \<times> u16 list) option" where
  "target_pin_scan ob slot ticket [] found expected = Some (found, expected)"
| "target_pin_scan ob slot ticket (target # targets) found expected =
     (if target \<noteq> slot \<and> observer_ticket_matches_command ticket (go_commands ob ! target)
      then if found \<or> expected ! target \<noteq> 0 then None
           else target_pin_scan ob slot ticket targets True (expected[target := 1])
      else target_pin_scan ob slot ticket targets found expected)"

definition target_public_command_valid ::
  "c43_graph_observer \<Rightarrow> nat \<Rightarrow> c43_command_observer \<Rightarrow> u16 list \<Rightarrow> u16 list option" where
  "target_public_command_valid ob slot c expected =
     (let check = (\<lambda>b. if b then Some expected else None)
      in if co_action_domain c \<noteq> FWLAB_C43_ACTION_DOMAIN_TARGET then Some expected
         else if co_terminal_winner c \<noteq> FWLAB_C43_WINNER_NONE \<or>
                 co_publication c \<noteq> FWLAB_C43_PUBLICATION_ELIGIBLE \<or> co_required_witness_mask c \<noteq> 0 \<or>
                 co_satisfied_witness_mask c \<noteq> 0 \<or> co_block_terminal_kind c \<noteq> 0 \<or> observer_owner ob slot
         then None
         else if co_action_state c = FWLAB_C43_ACTION_STATE_SUBMIT_READY \<or>
                 co_action_state c = FWLAB_C43_ACTION_STATE_ACCEPTED_WAIT
         then check (co_phase c = FWLAB_C43_PHASE_RESOLVE_WAIT \<and> co_resolution_valid c = 0 \<and>
                     co_success_eligible c = 0 \<and> target_fields_zero c)
         else if co_action_state c = FWLAB_C43_ACTION_STATE_TERMINAL_HELD
         then if co_phase c \<noteq> FWLAB_C43_PHASE_ACTION_WAIT \<or> co_resolution_valid c = 0 \<or>
                 co_resolved_status c \<noteq> FWLAB_C43_STATUS_SUCCESS \<or> co_success_eligible c = 0 \<or>
                 co_action_outcome c < FWLAB_C43_TARGET_FOUND \<or>
                 co_action_outcome c > FWLAB_C43_TARGET_SUPERSEDED then None
              else if co_action_outcome c \<noteq> FWLAB_C43_TARGET_FOUND
              then check (co_target_pin_present c = 0 \<and> co_target_ticket c = zero_hif_command_ticket \<and>
                          \<not> pair_nonzero (co_target_reference c))
              else if co_target_pin_present c = 0 \<or> \<not> pair_nonzero (co_target_reference c) then None
              else case target_pin_scan ob slot (co_target_ticket c) [0..<FWLAB_C43_MAX_COMMANDS] False expected of
                  None \<Rightarrow> None
                | Some (found, expected') \<Rightarrow> if found then Some expected' else None
         else if co_action_state c = FWLAB_C43_ACTION_STATE_FAULT
         then check (co_phase c = FWLAB_C43_PHASE_ACTION_WAIT \<and> co_resolution_valid c \<noteq> 0 \<and>
                     co_resolved_status c = FWLAB_C43_STATUS_INTERNAL_FAILURE \<and> co_success_eligible c = 0 \<and>
                     (co_action_outcome c = 0 \<or> co_action_outcome c = FWLAB_C43_TARGET_FAULT) \<and>
                     co_target_pin_present c = 0 \<and> co_target_ticket c = zero_hif_command_ticket \<and>
                     \<not> pair_nonzero (co_target_reference c))
         else None)"

definition block_public_command_valid ::
  "c43_graph_observer \<Rightarrow> nat \<Rightarrow> c43_command_observer \<Rightarrow> bool" where
  "block_public_command_valid ob slot c \<longleftrightarrow>
     (if co_action_domain c \<noteq> FWLAB_C43_ACTION_DOMAIN_BLOCK then True
      else if co_terminal_winner c \<noteq> FWLAB_C43_WINNER_NONE \<or>
              co_publication c \<noteq> FWLAB_C43_PUBLICATION_ELIGIBLE \<or> co_required_witness_mask c = 0 \<or>
              co_required_witness_mask c AND FWLAB_C43_WITNESS_VALIDATED_ONLY \<noteq> 0 \<or>
              co_satisfied_witness_mask c AND NOT FWLAB_C43_WITNESS_VALIDATED_ONLY \<noteq> 0 \<or>
              co_success_eligible c \<noteq> 0 \<or> \<not> target_fields_zero c \<or> observer_owner ob slot
      then False
      else if co_action_state c = FWLAB_C43_ACTION_STATE_SUBMIT_READY \<or>
              co_action_state c = FWLAB_C43_ACTION_STATE_ACCEPTED_WAIT
      then co_phase c = FWLAB_C43_PHASE_RESOLVE_WAIT \<and> co_resolution_valid c = 0 \<and>
           co_block_terminal_kind c = 0 \<and> co_satisfied_witness_mask c = 0
      else if co_action_state c = FWLAB_C43_ACTION_STATE_TERMINAL_HELD
      then (if co_phase c \<noteq> FWLAB_C43_PHASE_ACTION_WAIT \<or> co_resolution_valid c = 0 then False
            else if co_block_terminal_kind c = FWLAB_C43_BLOCK_VALIDATED_ONLY
            then co_resolved_status c = FWLAB_C43_STATUS_SUCCESS \<and>
                 co_satisfied_witness_mask c = FWLAB_C43_WITNESS_VALIDATED_ONLY
            else co_block_terminal_kind c = FWLAB_C43_BLOCK_FAILED_NO_EFFECT \<and>
                 co_resolved_status c = FWLAB_C43_STATUS_MEDIA_FAILURE \<and> co_satisfied_witness_mask c = 0)
      else if co_action_state c = FWLAB_C43_ACTION_STATE_REJECTED_NO_EFFECT
      then co_phase c = FWLAB_C43_PHASE_ACTION_WAIT \<and> co_resolution_valid c \<noteq> 0 \<and>
           co_resolved_status c = FWLAB_C43_STATUS_RESOURCE_FAILURE \<and> co_block_terminal_kind c = 0 \<and>
           co_satisfied_witness_mask c = 0
      else if co_action_state c = FWLAB_C43_ACTION_STATE_FAULT
      then co_phase c = FWLAB_C43_PHASE_ACTION_WAIT \<and> co_resolution_valid c \<noteq> 0 \<and>
           co_resolved_status c = FWLAB_C43_STATUS_INTERNAL_FAILURE \<and> co_block_terminal_kind c = 0 \<and>
           co_satisfied_witness_mask c = 0
      else False)"

section \<open>The observer\<close>

text \<open>The tests of \<open>fwlab_c43_graph_observer_valid\<close> on the fields outside the command array.\<close>

definition observer_header_valid :: "c43_graph_observer \<Rightarrow> bool" where
  "observer_header_valid ob \<longleftrightarrow> \<not> (
     go_version ob \<noteq> FWLAB_C43_GRAPH_VERSION \<or> go_size ob \<noteq> sizeof_c43_graph_observer \<or>
     go_controller_epoch ob = 0 \<or> go_instance_nonce ob = 0 \<or> go_active_commands ob > 4 \<or>
     go_active_actions ob > 32 \<or> go_ready_count ob > 4 \<or> go_cleanup_count ob > 4 \<or>
     go_admission_closed ob > 1 \<or> go_resetting ob > 1 \<or> go_tearing_down ob > 1 \<or> go_dead ob > 1 \<or>
     go_reserved_intent_credits ob > 4 \<or> go_reserved_ready_credits ob > 4 \<or>
     go_reserved_lease_credits ob > 4 \<or> go_reserved_consume_credits ob > 4 \<or>
     go_reserved_finalizer_credits ob > 4 \<or> go_reserved_abort_credits ob > 4 \<or>
     go_reserved_target_credits ob > 4 \<or> go_reserved_queue_transaction_credits ob > 4 \<or>
     go_reserved_block_intent_credits ob > 4 \<or> go_nq_state ob > FWLAB_C43_NQ_NEGOTIATED \<or>
     go_queue_txn_active ob > 1 \<or> go_io_cq_present ob > 1 \<or> go_io_sq_present ob > 1 \<or>
     \<not> words_zero (go_reserved_queue_flags ob) \<or> \<not> words_zero (go_reserved_queue ob))"

definition observer_queues_valid :: "c43_graph_observer \<Rightarrow> bool" where
  "observer_queues_valid ob \<longleftrightarrow> \<not> (
     (go_queue_txn_active ob = 0) \<noteq> (go_queue_owner_slot_plus_one ob = 0) \<or>
     go_queue_owner_slot_plus_one ob > 4 \<or>
     go_io_cq_present ob \<noteq> of_bool (pair_nonzero (go_io_cq ob)) \<or>
     go_io_sq_present ob \<noteq> of_bool (pair_nonzero (go_io_sq ob)) \<or>
     ((go_io_cq_present ob \<noteq> 0 \<or> go_io_sq_present ob \<noteq> 0) \<and> go_nq_state ob \<noteq> FWLAB_C43_NQ_NEGOTIATED) \<or>
     (go_io_sq_present ob = 0 \<and> pair_nonzero (go_sq_associated_cq ob)) \<or>
     (go_io_sq_present ob \<noteq> 0 \<and>
      (go_io_cq_present ob = 0 \<or> go_sq_associated_cq ob \<noteq> go_io_cq ob)))"

text \<open>The tests on every entry of the command array, used or free.\<close>

definition observer_command_ranges :: "c43_command_observer \<Rightarrow> bool" where
  "observer_command_ranges c \<longleftrightarrow> \<not> (
     co_phase c > FWLAB_C43_PHASE_RETIRED_TOMBSTONE \<or> co_terminal_winner c > FWLAB_C43_WINNER_FAULT \<or>
     co_publication c > FWLAB_C43_PUBLICATION_SUPPRESSED \<or>
     \<not> c43_witness_mask_valid (co_required_witness_mask c) \<or>
     \<not> c43_witness_mask_valid (co_satisfied_witness_mask c) \<or>
     co_required_witness_mask c AND FWLAB_C43_WITNESS_VALIDATED_ONLY \<noteq> 0 \<or>
     co_satisfied_witness_mask c
       AND NOT (co_required_witness_mask c OR FWLAB_C43_WITNESS_VALIDATED_ONLY) \<noteq> 0 \<or>
     co_action_count c > 8 \<or> co_in_use c > 1 \<or> co_success_eligible c > 1 \<or>
     co_provider_generation_current c > 1 \<or> co_action_domain c > FWLAB_C43_ACTION_DOMAIN_BLOCK \<or>
     co_action_state c > FWLAB_C43_ACTION_STATE_ACCEPTED_WAIT \<or> co_resolution_valid c > 1 \<or>
     co_action_outcome c > FWLAB_C43_TARGET_RELEASED \<or>
     co_block_terminal_kind c > FWLAB_C43_BLOCK_COMPLETED \<or> co_incoming_target_pins c > 1 \<or>
     co_target_pin_present c > 1 \<or> co_reserved_action_flags c \<noteq> 0 \<or> \<not> words_zero (co_reserved_action c) \<or>
     (co_action_domain c \<noteq> FWLAB_C43_ACTION_DOMAIN_TARGET \<and> \<not> target_fields_zero c) \<or>
     (co_action_domain c \<noteq> FWLAB_C43_ACTION_DOMAIN_BLOCK \<and> co_block_terminal_kind c \<noteq> 0) \<or>
     (co_resolution_valid c = 0 \<and> co_resolved_status c \<noteq> 0) \<or>
     (co_resolution_valid c \<noteq> 0 \<and> \<not> c43_semantic_status_valid (co_resolved_status c)) \<or>
     (co_action_domain c = FWLAB_C43_ACTION_DOMAIN_NONE) \<noteq>
       (co_action_state c = FWLAB_C43_ACTION_STATE_NONE) \<or>
     co_reservation_credit_mask c AND NOT FWLAB_C43_CREDIT_ALL \<noteq> 0 \<or>
     (co_action_count c = 0) \<noteq> (co_first_action_uid c = 0) \<or>
     (co_action_count c = 0) \<noteq> (co_action_generation c = 0) \<or>
     (co_action_count c \<noteq> 0 \<and>
      co_first_action_uid c > UINT64_MAX - (ucast (co_action_count c) - 1)))"

text \<open>The tests on an entry in use that read only the entry and the controller's identity.\<close>

definition observer_command_in_use :: "c43_graph_observer \<Rightarrow> c43_command_observer \<Rightarrow> bool" where
  "observer_command_in_use ob c \<longleftrightarrow>
     (let witness_complete = (co_required_witness_mask c \<noteq> 0 \<and>
            co_satisfied_witness_mask c AND co_required_witness_mask c = co_required_witness_mask c);
          initial_phase = (co_phase c = FWLAB_C43_PHASE_PREPARED \<or>
            co_phase c = FWLAB_C43_PHASE_ADMITTED_POLICY)
      in \<not> (co_phase c = FWLAB_C43_PHASE_FREE \<or>
        (initial_phase \<and>
         (co_action_count c \<noteq> 8 \<or> co_reservation_credit_mask c \<noteq> FWLAB_C43_CREDIT_ALL \<or>
          co_terminal_winner c \<noteq> FWLAB_C43_WINNER_NONE \<or>
          co_publication c \<noteq> FWLAB_C43_PUBLICATION_ELIGIBLE \<or> co_provider_generation_current c \<noteq> 1 \<or>
          co_action_domain c \<noteq> FWLAB_C43_ACTION_DOMAIN_NONE \<or>
          co_action_state c \<noteq> FWLAB_C43_ACTION_STATE_NONE \<or> co_resolution_valid c \<noteq> 0 \<or>
          co_resolved_status c \<noteq> 0)) \<or>
        (co_phase c = FWLAB_C43_PHASE_PREPARED \<and>
         (co_required_witness_mask c \<noteq> 0 \<or> co_satisfied_witness_mask c \<noteq> 0 \<or> co_success_eligible c \<noteq> 0)) \<or>
        (co_phase c = FWLAB_C43_PHASE_ADMITTED_POLICY \<and>
         (co_satisfied_witness_mask c \<noteq> 0 \<or> co_success_eligible c \<noteq> 0)) \<or>
        \<not> handle_valid (co_handle c) \<or> \<not> origin_valid (co_origin c) \<or> co_transaction_uid c = 0 \<or>
        cmd_instance_nonce (co_handle c) \<noteq> go_instance_nonce ob \<or>
        cmd_controller_epoch (co_handle c) \<noteq> go_controller_epoch ob \<or>
        (co_action_domain c \<noteq> FWLAB_C43_ACTION_DOMAIN_QUEUE \<and> co_required_witness_mask c \<noteq> 0 \<and>
         co_success_eligible c \<noteq> of_bool witness_complete) \<or>
        (co_success_eligible c \<noteq> 0 \<and>
         (co_satisfied_witness_mask c AND co_required_witness_mask c \<noteq> co_required_witness_mask c \<or>
          co_satisfied_witness_mask c AND FWLAB_C43_WITNESS_VALIDATED_ONLY \<noteq> 0))))"

definition observer_commands_apart :: "c43_command_observer \<Rightarrow> c43_command_observer \<Rightarrow> bool" where
  "observer_commands_apart c prior \<longleftrightarrow>
     \<not> (co_in_use prior \<noteq> 0 \<and>
        (co_handle c = co_handle prior \<or> co_transaction_uid c = co_transaction_uid prior)) \<and>
     \<not> (co_in_use prior \<noteq> 0 \<and> co_action_count c \<noteq> 0 \<and> co_action_count prior \<noteq> 0 \<and>
        co_first_action_uid c \<le> co_first_action_uid prior + ucast (co_action_count prior) - 1 \<and>
        co_first_action_uid prior \<le> co_first_action_uid c + ucast (co_action_count c) - 1)"

definition observer_command_free :: "c43_command_observer \<Rightarrow> bool" where
  "observer_command_free c \<longleftrightarrow> \<not> (
     co_phase c \<noteq> FWLAB_C43_PHASE_FREE \<or> co_handle c \<noteq> zero_handle \<or> co_origin c \<noteq> (0, 0) \<or>
     co_transaction_uid c \<noteq> 0 \<or> co_action_count c \<noteq> 0 \<or>
     co_terminal_winner c \<noteq> FWLAB_C43_WINNER_NONE \<or> co_required_witness_mask c \<noteq> 0 \<or>
     co_satisfied_witness_mask c \<noteq> 0 \<or> co_success_eligible c \<noteq> 0 \<or>
     co_provider_generation_current c \<noteq> 0 \<or> co_reservation_credit_mask c \<noteq> 0 \<or>
     co_first_action_uid c \<noteq> 0 \<or> co_action_generation c \<noteq> 0 \<or>
     co_action_domain c \<noteq> FWLAB_C43_ACTION_DOMAIN_NONE \<or>
     co_action_state c \<noteq> FWLAB_C43_ACTION_STATE_NONE \<or> co_resolution_valid c \<noteq> 0 \<or>
     co_resolved_status c \<noteq> 0 \<or> co_action_outcome c \<noteq> 0 \<or> co_block_terminal_kind c \<noteq> 0 \<or>
     co_target_ticket c \<noteq> zero_hif_command_ticket \<or> pair_nonzero (co_target_reference c) \<or>
     co_incoming_target_pins c \<noteq> 0 \<or> co_target_pin_present c \<noteq> 0 \<or> co_reserved_action_flags c \<noteq> 0 \<or>
     \<not> words_zero (co_reserved_action c) \<or> co_publication c \<noteq> FWLAB_C43_PUBLICATION_ELIGIBLE)"

text \<open>One round of the loop over the commands; it returns the pins expected so far.\<close>

definition observer_command_round ::
  "c43_graph_observer \<Rightarrow> nat \<Rightarrow> u16 list \<Rightarrow> u16 list option" where
  "observer_command_round ob index expected =
     (let c = go_commands ob ! index
      in if \<not> observer_command_ranges c then None
         else if co_in_use c \<noteq> 0
         then if \<not> observer_command_in_use ob c \<or> \<not> queue_public_command_valid ob index c then None
              else case target_public_command_valid ob index c expected of
                  None \<Rightarrow> None
                | Some expected' \<Rightarrow>
                    if \<not> block_public_command_valid ob index c then None
                    else if list_all (\<lambda>other. observer_commands_apart c (go_commands ob ! other)) [0..<index]
                    then Some expected' else None
         else if observer_command_free c then Some expected else None)"

fun observer_command_rounds ::
  "c43_graph_observer \<Rightarrow> nat list \<Rightarrow> u16 list \<Rightarrow> u16 list option" where
  "observer_command_rounds ob [] expected = Some expected"
| "observer_command_rounds ob (index # rest) expected =
     (case observer_command_round ob index expected of
        None \<Rightarrow> None
      | Some expected' \<Rightarrow> observer_command_rounds ob rest expected')"

definition observer_count :: "(c43_command_observer \<Rightarrow> bool) \<Rightarrow> c43_graph_observer \<Rightarrow> u32" where
  "observer_count P ob = of_nat (length (filter (\<lambda>c. co_in_use c \<noteq> 0 \<and> P c) (go_commands ob)))"

definition observer_credit_count :: "nat \<Rightarrow> c43_graph_observer \<Rightarrow> u32" where
  "observer_credit_count credit ob =
     observer_count (\<lambda>c. co_reservation_credit_mask c AND push_bit credit 1 \<noteq> 0) ob"

definition observer_action_count :: "c43_graph_observer \<Rightarrow> u32" where
  "observer_action_count ob =
     sum_list (map (\<lambda>c. ucast (co_action_count c)) (filter (\<lambda>c. co_in_use c \<noteq> 0) (go_commands ob)))"

definition observer_counts_valid :: "c43_graph_observer \<Rightarrow> bool" where
  "observer_counts_valid ob \<longleftrightarrow>
     go_active_commands ob = observer_count (\<lambda>c. True) ob \<and> go_active_actions ob = observer_action_count ob \<and>
     go_ready_count ob = observer_count (\<lambda>c. co_phase c = FWLAB_C43_PHASE_INTENT_READY) ob \<and>
     go_cleanup_count ob = observer_count (\<lambda>c. co_phase c = FWLAB_C43_PHASE_CLEANUP_PENDING \<or>
       co_phase c = FWLAB_C43_PHASE_RETIRED_TOMBSTONE) ob \<and>
     observer_credit_count 0 ob = observer_count (\<lambda>c. True) ob \<and>
     go_reserved_intent_credits ob = observer_credit_count 1 ob \<and>
     go_reserved_ready_credits ob = observer_credit_count 2 ob \<and>
     go_reserved_lease_credits ob = observer_credit_count 3 ob \<and>
     go_reserved_consume_credits ob = observer_credit_count 4 ob \<and>
     go_reserved_finalizer_credits ob = observer_credit_count 5 ob \<and>
     go_reserved_abort_credits ob = observer_credit_count 6 ob \<and>
     go_reserved_target_credits ob = observer_credit_count 7 ob \<and>
     go_reserved_queue_transaction_credits ob = observer_credit_count 8 ob \<and>
     go_reserved_block_intent_credits ob = observer_credit_count 9 ob"

definition observer_owner_valid :: "c43_graph_observer \<Rightarrow> bool" where
  "observer_owner_valid ob \<longleftrightarrow>
     (if go_queue_txn_active ob \<noteq> 0
      then let owner = go_commands ob ! (unat (go_queue_owner_slot_plus_one ob) - 1)
           in \<not> (co_in_use owner = 0 \<or> co_action_domain owner \<noteq> FWLAB_C43_ACTION_DOMAIN_QUEUE \<or>
                 co_action_state owner = FWLAB_C43_ACTION_STATE_NONE \<or>
                 co_action_state owner = FWLAB_C43_ACTION_STATE_TERMINAL_HELD \<or>
                 co_action_state owner = FWLAB_C43_ACTION_STATE_REJECTED_NO_EFFECT)
      else True)"

definition fwlab_c43_graph_observer_valid :: "c43_graph_observer \<Rightarrow> bool" where
  "fwlab_c43_graph_observer_valid ob \<longleftrightarrow>
     observer_header_valid ob \<and> observer_queues_valid ob \<and>
     list_all (\<lambda>index. go_provider_generation ob ! index \<noteq> 0) [0..<4] \<and>
     (case observer_command_rounds ob [0..<FWLAB_C43_MAX_COMMANDS] (replicate FWLAB_C43_MAX_COMMANDS 0) of
        None \<Rightarrow> False
      | Some expected \<Rightarrow>
          list_all (\<lambda>index. co_incoming_target_pins (go_commands ob ! index) = expected ! index)
            [0..<FWLAB_C43_MAX_COMMANDS]) \<and>
     observer_owner_valid ob \<and> observer_counts_valid ob"

end
