(* ===== verification/Nvme_Control.thy ===== *)
theory Nvme_Control
  imports Nvme_Observer
begin

text \<open>
  The control flows of the NVMe command graph (\<open>core/c4-nvme/c43_control.c\<close>, second part): the
  validators of the queue authority and of the transaction records, the queue flow (negotiation,
  creation and deletion of the I/O queues through the queue provider), the target flow (resolution of
  an Abort), the block flow, and \<open>c43_phase4_step\<close>, which serves one command in round-robin order.
  A step gets the provider operations and the providers' state, and returns the new graph, the new
  providers' state and the number of transitions.
\<close>

definition graph_command :: "c43_graph \<Rightarrow> nat \<Rightarrow> c43_command_record" where
  "graph_command g slot = gr_commands g ! slot"

definition graph_observed :: "c43_graph \<Rightarrow> nat \<Rightarrow> c43_command_observer" where
  "graph_observed g slot = go_commands (gr_observer g) ! slot"

text \<open>Writing the record of a slot and its observer entry.\<close>

definition graph_put :: "c43_graph \<Rightarrow> nat \<Rightarrow> c43_command_record \<Rightarrow> c43_command_observer \<Rightarrow> c43_graph" where
  "graph_put g slot record observed =
     g\<lparr>gr_commands := (gr_commands g)[slot := record],
       gr_observer := (gr_observer g)\<lparr>go_commands := (go_commands (gr_observer g))[slot := observed]\<rparr>\<rparr>"

text \<open>The storage the three transaction records share.\<close>

definition storage_zero :: "c43_command_record \<Rightarrow> bool" where
  "storage_zero r \<longleftrightarrow> cr_queue_txn r = zero_c43_queue_txn_record \<and>
     cr_target_txn r = zero_c43_target_txn_record \<and> cr_block_txn r = zero_c43_block_txn_record"

definition storage_clear :: "c43_command_record \<Rightarrow> c43_command_record" where
  "storage_clear r = r\<lparr>cr_queue_txn := zero_c43_queue_txn_record,
     cr_target_txn := zero_c43_target_txn_record, cr_block_txn := zero_c43_block_txn_record\<rparr>"

section \<open>Validators\<close>

definition queue_command_kind :: "u8 \<Rightarrow> bool" where
  "queue_command_kind kind \<longleftrightarrow>
     kind \<ge> FWLAB_C43_REQUEST_CREATE_IO_CQ \<and> kind \<le> FWLAB_C43_REQUEST_DELETE_IO_SQ"

definition queue_operation :: "u8 \<Rightarrow> u32" where
  "queue_operation kind =
     (if kind = FWLAB_C43_REQUEST_CREATE_IO_CQ then FWLAB_C43_QUEUE_CREATE_CQ
      else if kind = FWLAB_C43_REQUEST_CREATE_IO_SQ then FWLAB_C43_QUEUE_CREATE_SQ
      else if kind = FWLAB_C43_REQUEST_DELETE_IO_CQ then FWLAB_C43_QUEUE_DELETE_CQ
      else FWLAB_C43_QUEUE_DELETE_SQ)"

definition queue_role :: "u32 \<Rightarrow> u32" where
  "queue_role operation =
     (if operation = FWLAB_C43_QUEUE_CREATE_CQ \<or> operation = FWLAB_C43_QUEUE_DELETE_CQ
      then FWLAB_C43_QUEUE_ROLE_IO_CQ else FWLAB_C43_QUEUE_ROLE_IO_SQ)"

definition queue_public_action_state :: "u32 \<Rightarrow> u8" where
  "queue_public_action_state flow =
     (if flow = C43_QUEUE_FLOW_PREPARE_START then FWLAB_C43_ACTION_STATE_SUBMIT_READY
      else if flow = C43_QUEUE_FLOW_PREPARE_QUERY then FWLAB_C43_ACTION_STATE_PREPARE_QUERY
      else if flow = C43_QUEUE_FLOW_DECIDE then FWLAB_C43_ACTION_STATE_DECIDE
      else if flow = C43_QUEUE_FLOW_FINISH_START then FWLAB_C43_ACTION_STATE_FINISH_READY
      else if flow = C43_QUEUE_FLOW_FINISH_QUERY then FWLAB_C43_ACTION_STATE_FINISH_QUERY
      else if flow = C43_QUEUE_FLOW_APPLY_COMMIT then FWLAB_C43_ACTION_STATE_APPLY_COMMIT
      else if flow = C43_QUEUE_FLOW_APPLY_ABORT then FWLAB_C43_ACTION_STATE_APPLY_ABORT
      else if flow = C43_QUEUE_FLOW_RETIRE then FWLAB_C43_ACTION_STATE_RETIRE
      else if flow = C43_QUEUE_FLOW_DONE then FWLAB_C43_ACTION_STATE_TERMINAL_HELD
      else if flow = C43_QUEUE_FLOW_REJECTED_NO_EFFECT then FWLAB_C43_ACTION_STATE_REJECTED_NO_EFFECT
      else if flow = C43_QUEUE_FLOW_FAULT then FWLAB_C43_ACTION_STATE_FAULT
      else FWLAB_C43_ACTION_STATE_NONE)"

text \<open>The two halves of \<open>queue_authority_valid\<close>: the authority itself, and that the observer shows it.\<close>

definition authority_consistent :: "c43_queue_authority \<Rightarrow> bool" where
  "authority_consistent qa \<longleftrightarrow> \<not> (
     qa_nq_state qa > FWLAB_C43_NQ_NEGOTIATED \<or> qa_txn_active qa > 1 \<or> qa_io_cq_present qa > 1 \<or>
     qa_io_sq_present qa > 1 \<or> \<not> words_zero (qa_reserved0 qa) \<or> \<not> words_zero (qa_reserved1 qa) \<or>
     (qa_txn_active qa = 0) \<noteq> (qa_owner_slot_plus_one qa = 0) \<or> qa_owner_slot_plus_one qa > 4 \<or>
     qa_io_cq_present qa \<noteq> of_bool (pair_nonzero (qa_io_cq qa)) \<or>
     qa_io_sq_present qa \<noteq> of_bool (pair_nonzero (qa_io_sq qa)) \<or>
     ((qa_io_cq_present qa \<noteq> 0 \<or> qa_io_sq_present qa \<noteq> 0) \<and> qa_nq_state qa \<noteq> FWLAB_C43_NQ_NEGOTIATED) \<or>
     (qa_io_sq_present qa = 0 \<and> pair_nonzero (qa_sq_associated_cq qa)) \<or>
     (qa_io_sq_present qa \<noteq> 0 \<and>
      (qa_io_cq_present qa = 0 \<or> qa_sq_associated_cq qa \<noteq> qa_io_cq qa)))"

definition authority_observed :: "c43_graph_observer \<Rightarrow> c43_queue_authority \<Rightarrow> bool" where
  "authority_observed ob qa \<longleftrightarrow>
     go_nq_state ob = ucast (qa_nq_state qa) \<and> go_queue_txn_active ob = qa_txn_active qa \<and>
     go_queue_owner_slot_plus_one ob = qa_owner_slot_plus_one qa \<and>
     go_io_cq_present ob = qa_io_cq_present qa \<and> go_io_sq_present ob = qa_io_sq_present qa \<and>
     go_io_cq ob = qa_io_cq qa \<and> go_io_sq ob = qa_io_sq qa \<and>
     go_sq_associated_cq ob = qa_sq_associated_cq qa"

definition queue_authority_valid :: "c43_graph \<Rightarrow> c43_queue_authority \<Rightarrow> bool" where
  "queue_authority_valid g qa \<longleftrightarrow> authority_consistent qa \<and> authority_observed (gr_observer g) qa"

definition queue_token_matches_record :: "hif_action_token \<Rightarrow> c43_command_record \<Rightarrow> bool" where
  "queue_token_matches_record tk r \<longleftrightarrow>
     tk_command tk = ct_handle (cr_ticket r) \<and> tk_origin tk = ct_origin (cr_ticket r) \<and>
     tk_action_uid tk = act_action_uid (cr_actions r ! 0) \<and>
     tk_generation tk = act_generation (cr_actions r ! 0) \<and>
     tk_kind tk = FWLAB_HIF_ACTION_QUEUE_EFFECT \<and> tk_reserved tk = 0"

definition queue_facts_immutable_equal :: "c43_queue_facts \<Rightarrow> c43_queue_facts \<Rightarrow> bool" where
  "queue_facts_immutable_equal prepared facts \<longleftrightarrow>
     qf_transaction prepared = qf_transaction facts \<and> qf_queue prepared = qf_queue facts \<and>
     qf_associated_cq prepared = qf_associated_cq facts \<and> qf_operation prepared = qf_operation facts \<and>
     qf_role prepared = qf_role facts \<and> qf_queue_entries prepared = qf_queue_entries facts \<and>
     qf_address_present prepared = qf_address_present facts"

definition queue_flow_requires_owner :: "u32 \<Rightarrow> bool" where
  "queue_flow_requires_owner flow \<longleftrightarrow>
     (flow \<ge> C43_QUEUE_FLOW_PREPARE_START \<and> flow \<le> C43_QUEUE_FLOW_RETIRE) \<or> flow = C43_QUEUE_FLOW_FAULT"

definition queue_terminal_is_commit :: "c43_queue_txn_record \<Rightarrow> bool" where
  "queue_terminal_is_commit qx \<longleftrightarrow>
     (qt_state (qx_terminal qx) = FWLAB_C43_QUEUE_EFFECT_COMMITTED \<and>
      qx_decision qx = FWLAB_C43_QUEUE_FINISH_COMMIT) \<or>
     (qt_state (qx_terminal qx) = FWLAB_C43_QUEUE_EFFECT_TOO_LATE \<and>
      qx_decision qx = FWLAB_C43_QUEUE_FINISH_ABORT)"

definition queue_regular_request_valid :: "c43_graph \<Rightarrow> c43_command_record \<Rightarrow> bool" where
  "queue_regular_request_valid g r \<longleftrightarrow>
     (let qx = cr_queue_txn r; rq = qx_prepare_request qx
      in queue_command_kind (pr_kind (cr_request r)) \<and>
         qx_provider_generation qx = po_generation (pv_queue (gr_providers g)) \<and>
         fwlab_c43_queue_effect_request_valid rq \<and>
         queue_token_matches_record (ae_token (qr_common rq)) r \<and>
         ae_cookie (qr_common rq) = cr_transaction_uid r \<and>
         qr_operation rq = queue_operation (pr_kind (cr_request r)))"

text \<open>\<open>queue_record_valid\<close>, with its common tests, the negotiation record and the flow table apart.\<close>

definition queue_record_common :: "c43_queue_txn_record \<Rightarrow> c43_command_observer \<Rightarrow> bool" where
  "queue_record_common qx ob \<longleftrightarrow> \<not> (
     qx_flow qx > C43_QUEUE_FLOW_FAULT \<or> qx_decision qx > FWLAB_C43_QUEUE_FINISH_ABORT \<or>
     qx_resolution_valid qx > 1 \<or> qx_local_effect_applied qx > 1 \<or> qx_provider_owned qx > 1 \<or>
     \<not> words_zero (qx_reserved1 qx) \<or>
     (qx_flow qx \<noteq> C43_QUEUE_FLOW_FAULT \<and> qx_fault_from_flow qx \<noteq> C43_QUEUE_FLOW_NONE) \<or>
     (qx_flow qx = C43_QUEUE_FLOW_FAULT \<and>
      (qx_fault_from_flow qx < C43_QUEUE_FLOW_PREPARE_START \<or> qx_fault_from_flow qx > C43_QUEUE_FLOW_RETIRE)) \<or>
     (qx_resolution_valid qx = 0 \<and> qx_resolved_status qx \<noteq> 0) \<or>
     (qx_resolution_valid qx \<noteq> 0 \<and> \<not> c43_semantic_status_valid (qx_resolved_status qx)) \<or>
     co_action_domain ob \<noteq> FWLAB_C43_ACTION_DOMAIN_QUEUE \<or>
     co_action_state ob \<noteq> queue_public_action_state (qx_flow qx) \<or>
     co_resolution_valid ob \<noteq> qx_resolution_valid qx \<or> co_resolved_status ob \<noteq> qx_resolved_status qx)"

definition queue_no_facts :: "c43_queue_txn_record \<Rightarrow> bool" where
  "queue_no_facts qx \<longleftrightarrow> qx_prepared_facts qx = zero_c43_queue_facts \<and>
     qx_finish_request qx = zero_c43_queue_finish_request \<and> qx_terminal qx = zero_c43_queue_effect_terminal"

definition queue_nq_record_valid :: "c43_command_record \<Rightarrow> bool" where
  "queue_nq_record_valid r \<longleftrightarrow>
     (let qx = cr_queue_txn r
      in qx_flow qx = C43_QUEUE_FLOW_DONE \<and> qx_decision qx = 0 \<and> qx_resolution_valid qx \<noteq> 0 \<and>
         qx_local_effect_applied qx = 0 \<and> qx_provider_owned qx = 0 \<and> qx_provider_generation qx = 0 \<and>
         (qx_resolved_status qx = pl_semantic_status (cr_plan r) \<or>
          (pl_semantic_status (cr_plan r) = FWLAB_C43_STATUS_SUCCESS \<and>
           qx_resolved_status qx = FWLAB_C43_STATUS_COMMAND_SEQUENCE)) \<and>
         qx_prepare_request qx = zero_c43_queue_effect_request \<and> queue_no_facts qx)"

definition queue_rejected_record_valid :: "c43_graph \<Rightarrow> c43_command_record \<Rightarrow> bool" where
  "queue_rejected_record_valid g r \<longleftrightarrow>
     (let qx = cr_queue_txn r
      in queue_command_kind (pr_kind (cr_request r)) \<and> qx_resolution_valid qx \<noteq> 0 \<and>
         qx_provider_owned qx = 0 \<and> qx_local_effect_applied qx = 0 \<and> qx_decision qx = 0 \<and>
         qx_resolved_status qx \<noteq> FWLAB_C43_STATUS_SUCCESS \<and> queue_no_facts qx \<and>
         ((qx_provider_generation qx = 0 \<and> qx_prepare_request qx = zero_c43_queue_effect_request) \<or>
          queue_regular_request_valid g r))"

definition queue_record_parts_valid :: "c43_queue_txn_record \<Rightarrow> bool" where
  "queue_record_parts_valid qx \<longleftrightarrow>
     (let prepared_zero = (qx_prepared_facts qx = zero_c43_queue_facts);
          finish_zero = (qx_finish_request qx = zero_c43_queue_finish_request);
          terminal_zero = (qx_terminal qx = zero_c43_queue_effect_terminal)
      in (finish_zero \<or>
          (fwlab_c43_queue_finish_request_valid (qx_finish_request qx) \<and>
           qn_token (qx_finish_request qx) = ae_token (qr_common (qx_prepare_request qx)) \<and>
           qn_decision (qx_finish_request qx) = qx_decision qx)) \<and>
         (prepared_zero \<or> fwlab_c43_queue_facts_valid (qx_prepared_facts qx)) \<and>
         (terminal_zero \<or>
          (fwlab_c43_queue_effect_terminal_valid (qx_terminal qx) \<and>
           queue_facts_immutable_equal (qx_prepared_facts qx) (qt_facts (qx_terminal qx)))))"

definition queue_flow_valid :: "c43_queue_txn_record \<Rightarrow> bool" where
  "queue_flow_valid qx \<longleftrightarrow>
     (let prepared_zero = (qx_prepared_facts qx = zero_c43_queue_facts);
          finish_zero = (qx_finish_request qx = zero_c43_queue_finish_request);
          terminal_zero = (qx_terminal qx = zero_c43_queue_effect_terminal);
          terminal_valid = (\<not> terminal_zero \<and> fwlab_c43_queue_effect_terminal_valid (qx_terminal qx));
          resolved = (qx_resolution_valid qx \<noteq> 0);
          owned = (qx_provider_owned qx \<noteq> 0);
          applied = (qx_local_effect_applied qx \<noteq> 0);
          flow = qx_flow qx;
          from = qx_fault_from_flow qx
      in if flow = C43_QUEUE_FLOW_PREPARE_START
         then qx_decision qx = 0 \<and> \<not> resolved \<and> \<not> owned \<and> \<not> applied \<and> prepared_zero \<and> finish_zero \<and>
              terminal_zero
         else if flow = C43_QUEUE_FLOW_PREPARE_QUERY
         then qx_decision qx = 0 \<and> \<not> resolved \<and> owned \<and> \<not> applied \<and> prepared_zero \<and> finish_zero \<and>
              terminal_zero
         else if flow = C43_QUEUE_FLOW_DECIDE
         then qx_decision qx = 0 \<and> \<not> resolved \<and> owned \<and> \<not> applied \<and> \<not> prepared_zero \<and> finish_zero \<and>
              terminal_zero
         else if flow = C43_QUEUE_FLOW_FINISH_START \<or> flow = C43_QUEUE_FLOW_FINISH_QUERY
         then qx_decision qx \<ge> FWLAB_C43_QUEUE_FINISH_COMMIT \<and> resolved \<and> owned \<and> \<not> applied \<and>
              \<not> prepared_zero \<and> \<not> finish_zero \<and> terminal_zero
         else if flow = C43_QUEUE_FLOW_APPLY_COMMIT
         then resolved \<and> owned \<and> \<not> applied \<and> \<not> prepared_zero \<and> \<not> finish_zero \<and> terminal_valid \<and>
              queue_terminal_is_commit qx \<and> qx_resolved_status qx = FWLAB_C43_STATUS_SUCCESS
         else if flow = C43_QUEUE_FLOW_APPLY_ABORT
         then qx_decision qx = FWLAB_C43_QUEUE_FINISH_ABORT \<and> resolved \<and> owned \<and> \<not> applied \<and>
              \<not> prepared_zero \<and> \<not> finish_zero \<and> terminal_valid \<and>
              qt_state (qx_terminal qx) = FWLAB_C43_QUEUE_EFFECT_ABORTED \<and>
              qx_resolved_status qx \<noteq> FWLAB_C43_STATUS_SUCCESS
         else if flow = C43_QUEUE_FLOW_RETIRE \<or> flow = C43_QUEUE_FLOW_DONE
         then resolved \<and> qx_provider_owned qx = of_bool (flow = C43_QUEUE_FLOW_RETIRE) \<and>
              \<not> prepared_zero \<and> \<not> finish_zero \<and> terminal_valid \<and>
              ((queue_terminal_is_commit qx \<and> applied \<and> qx_resolved_status qx = FWLAB_C43_STATUS_SUCCESS) \<or>
               (qt_state (qx_terminal qx) = FWLAB_C43_QUEUE_EFFECT_ABORTED \<and> \<not> applied \<and>
                qx_resolved_status qx \<noteq> FWLAB_C43_STATUS_SUCCESS))
         else if flow = C43_QUEUE_FLOW_FAULT
         then (if \<not> resolved \<or> qx_resolved_status qx \<noteq> FWLAB_C43_STATUS_INTERNAL_FAILURE \<or>
                  (from \<noteq> C43_QUEUE_FLOW_PREPARE_START \<and> \<not> owned) \<or>
                  (applied \<and> (from \<noteq> C43_QUEUE_FLOW_RETIRE \<or> \<not> terminal_valid \<or>
                              \<not> queue_terminal_is_commit qx)) then False
               else if from \<le> C43_QUEUE_FLOW_PREPARE_QUERY
               then qx_decision qx = 0 \<and> prepared_zero \<and> finish_zero \<and> terminal_zero
               else if from = C43_QUEUE_FLOW_DECIDE then \<not> prepared_zero \<and> finish_zero \<and> terminal_zero
               else if from \<le> C43_QUEUE_FLOW_FINISH_QUERY
               then \<not> prepared_zero \<and> \<not> finish_zero \<and> (terminal_zero \<or> terminal_valid)
               else \<not> prepared_zero \<and> \<not> finish_zero \<and> terminal_valid)
         else False)"

definition record_idle_observed :: "c43_command_record \<Rightarrow> c43_command_observer \<Rightarrow> bool" where
  "record_idle_observed r ob \<longleftrightarrow>
     storage_zero r \<and> co_action_domain ob = FWLAB_C43_ACTION_DOMAIN_NONE \<and>
     co_action_state ob = FWLAB_C43_ACTION_STATE_NONE \<and> co_resolution_valid ob = 0 \<and>
     co_resolved_status ob = 0"

definition queue_record_valid :: "c43_graph \<Rightarrow> c43_command_record \<Rightarrow> c43_command_observer \<Rightarrow> bool" where
  "queue_record_valid g r ob \<longleftrightarrow>
     (let qx = cr_queue_txn r
      in if qx_flow qx = C43_QUEUE_FLOW_NONE then record_idle_observed r ob
         else if \<not> queue_record_common qx ob then False
         else if pr_kind (cr_request r) = FWLAB_C43_REQUEST_SET_NUMBER_OF_QUEUES
         then queue_nq_record_valid r
         else if qx_flow qx = C43_QUEUE_FLOW_REJECTED_NO_EFFECT then queue_rejected_record_valid g r
         else if \<not> queue_regular_request_valid g r \<or>
                 qx_local_effect_applied qx \<noteq>
                   of_bool (co_satisfied_witness_mask ob AND FWLAB_C43_WITNESS_QUEUE_EFFECT_COMMITTED \<noteq> 0)
         then False
         else queue_record_parts_valid qx \<and> queue_flow_valid qx)"

definition target_public_action_state :: "u32 \<Rightarrow> u8" where
  "target_public_action_state flow =
     (if flow = C43_TARGET_FLOW_SUBMIT_START then FWLAB_C43_ACTION_STATE_SUBMIT_READY
      else if flow = C43_TARGET_FLOW_QUERY then FWLAB_C43_ACTION_STATE_ACCEPTED_WAIT
      else if flow = C43_TARGET_FLOW_DONE then FWLAB_C43_ACTION_STATE_TERMINAL_HELD
      else if flow = C43_TARGET_FLOW_FAULT then FWLAB_C43_ACTION_STATE_FAULT
      else FWLAB_C43_ACTION_STATE_NONE)"

definition target_find_slot :: "c43_graph \<Rightarrow> nat \<Rightarrow> hif_command_ticket \<Rightarrow> nat option" where
  "target_find_slot g abort_slot ticket =
     (case filter (\<lambda>slot. slot \<noteq> abort_slot \<and> cr_in_use (graph_command g slot) \<noteq> 0 \<and>
             cr_state (graph_command g slot) = C43_COMMAND_RECORD_ADMITTED \<and>
             ticket = cr_ticket (graph_command g slot)) [0..<FWLAB_C43_MAX_COMMANDS] of
        [slot] \<Rightarrow> Some slot
      | _ \<Rightarrow> None)"

definition target_record_common ::
  "c43_graph \<Rightarrow> c43_command_record \<Rightarrow> c43_command_observer \<Rightarrow> bool" where
  "target_record_common g r ob \<longleftrightarrow>
     (let tx = cr_target_txn r; rq = tx_request tx
      in \<not> (pr_kind (cr_request r) \<noteq> FWLAB_C43_REQUEST_ABORT \<or>
            pl_kind (cr_plan r) \<noteq> FWLAB_C43_PLAN_ABORT_RESOLVE \<or> tx_flow tx > C43_TARGET_FLOW_FAULT \<or>
            tx_outcome tx > FWLAB_C43_TARGET_FAULT \<or> tx_resolution_valid tx > 1 \<or>
            tx_provider_owned tx > 1 \<or> tx_pin_installed tx > 1 \<or> tx_reserved0 tx \<noteq> 0 \<or>
            tx_reserved1 tx \<noteq> 0 \<or> \<not> words_zero (tx_reserved2 tx) \<or> \<not> words_zero (tx_reserved_tail tx) \<or>
            (tx_flow tx \<noteq> C43_TARGET_FLOW_FAULT \<and> tx_fault_from_flow tx \<noteq> C43_TARGET_FLOW_NONE) \<or>
            (tx_flow tx = C43_TARGET_FLOW_FAULT \<and>
             (tx_fault_from_flow tx < C43_TARGET_FLOW_SUBMIT_START \<or>
              tx_fault_from_flow tx > C43_TARGET_FLOW_QUERY)) \<or>
            (tx_resolution_valid tx = 0 \<and> tx_resolved_status tx \<noteq> 0) \<or>
            (tx_resolution_valid tx \<noteq> 0 \<and> \<not> c43_semantic_status_valid (tx_resolved_status tx)) \<or>
            tx_provider_generation tx \<noteq> po_generation (pv_target (gr_providers g)) \<or>
            \<not> fwlab_c43_target_request_valid rq \<or>
            \<not> queue_token_matches_record (ae_token (tr_common rq)) r \<or>
            ae_cookie (tr_common rq) \<noteq> cr_transaction_uid r \<or>
            ae_dependency_ordinal (tr_common rq) \<noteq> UINT32_MAX \<or> tr_abort_command rq \<noteq> cr_ticket r \<or>
            co_action_domain ob \<noteq> FWLAB_C43_ACTION_DOMAIN_TARGET \<or>
            co_action_state ob \<noteq> target_public_action_state (tx_flow tx) \<or>
            co_resolution_valid ob \<noteq> tx_resolution_valid tx \<or>
            co_resolved_status ob \<noteq> tx_resolved_status tx \<or> co_action_outcome ob \<noteq> tx_outcome tx \<or>
            co_target_pin_present ob \<noteq> tx_pin_installed tx))"

definition target_pin_observed :: "c43_target_txn_record \<Rightarrow> c43_command_observer \<Rightarrow> bool" where
  "target_pin_observed tx ob \<longleftrightarrow>
     (if tx_pin_installed tx \<noteq> 0
      then \<not> (tx_target_slot_plus_one tx = 0 \<or> tx_target_slot_plus_one tx > 4 \<or>
              tx_terminal tx = zero_c43_target_terminal \<or>
              co_target_ticket ob \<noteq> tt_target (tx_terminal tx) \<or>
              co_target_reference ob \<noteq> tt_reference (tx_terminal tx))
      else \<not> (tx_target_slot_plus_one tx \<noteq> 0 \<or> co_target_ticket ob \<noteq> zero_hif_command_ticket \<or>
              pair_nonzero (co_target_reference ob)))"

definition target_flow_valid :: "c43_graph \<Rightarrow> nat \<Rightarrow> c43_target_txn_record \<Rightarrow> bool" where
  "target_flow_valid g slot tx \<longleftrightarrow>
     (let terminal_zero = (tx_terminal tx = zero_c43_target_terminal)
      in if tx_flow tx = C43_TARGET_FLOW_SUBMIT_START
         then tx_resolution_valid tx = 0 \<and> tx_provider_owned tx = 0 \<and> tx_pin_installed tx = 0 \<and>
              tx_outcome tx = 0 \<and> terminal_zero
         else if tx_flow tx = C43_TARGET_FLOW_QUERY
         then tx_resolution_valid tx = 0 \<and> tx_provider_owned tx \<noteq> 0 \<and> tx_pin_installed tx = 0 \<and>
              tx_outcome tx = 0 \<and> terminal_zero
         else if tx_flow tx = C43_TARGET_FLOW_DONE
         then (if tx_resolution_valid tx = 0 \<or> tx_provider_owned tx = 0 \<or>
                  tx_resolved_status tx \<noteq> FWLAB_C43_STATUS_SUCCESS \<or>
                  \<not> fwlab_c43_target_terminal_matches_request (tx_request tx) (tx_terminal tx) \<or>
                  tx_outcome tx \<noteq> tt_outcome (tx_terminal tx) \<or> tx_outcome tx < FWLAB_C43_TARGET_FOUND \<or>
                  tx_outcome tx > FWLAB_C43_TARGET_SUPERSEDED then False
               else if tx_outcome tx \<noteq> FWLAB_C43_TARGET_FOUND then tx_pin_installed tx = 0
               else tx_pin_installed tx \<noteq> 0 \<and>
                    (case target_find_slot g slot (tt_target (tx_terminal tx)) of
                       None \<Rightarrow> False
                     | Some target_slot \<Rightarrow> unat (tx_target_slot_plus_one tx) = target_slot + 1 \<and>
                         cr_incoming_target_pins (graph_command g target_slot) = 1))
         else if tx_flow tx = C43_TARGET_FLOW_FAULT
         then tx_resolution_valid tx \<noteq> 0 \<and> tx_resolved_status tx = FWLAB_C43_STATUS_INTERNAL_FAILURE \<and>
              tx_pin_installed tx = 0 \<and>
              (tx_fault_from_flow tx = C43_TARGET_FLOW_SUBMIT_START \<or> tx_provider_owned tx \<noteq> 0) \<and>
              ((terminal_zero \<and> tx_outcome tx = 0) \<or>
               (fwlab_c43_target_terminal_matches_request (tx_request tx) (tx_terminal tx) \<and>
                tt_outcome (tx_terminal tx) = FWLAB_C43_TARGET_FAULT \<and>
                tx_outcome tx = FWLAB_C43_TARGET_FAULT))
         else False)"

definition target_record_valid ::
  "c43_graph \<Rightarrow> nat \<Rightarrow> c43_command_record \<Rightarrow> c43_command_observer \<Rightarrow> bool" where
  "target_record_valid g slot r ob \<longleftrightarrow>
     (let tx = cr_target_txn r
      in if tx_flow tx = C43_TARGET_FLOW_NONE then record_idle_observed r ob
         else target_record_common g r ob \<and> target_pin_observed tx ob \<and> target_flow_valid g slot tx)"

definition block_public_action_state :: "u32 \<Rightarrow> u8" where
  "block_public_action_state flow =
     (if flow = C43_BLOCK_FLOW_SUBMIT_START then FWLAB_C43_ACTION_STATE_SUBMIT_READY
      else if flow = C43_BLOCK_FLOW_QUERY then FWLAB_C43_ACTION_STATE_ACCEPTED_WAIT
      else if flow = C43_BLOCK_FLOW_DONE then FWLAB_C43_ACTION_STATE_TERMINAL_HELD
      else if flow = C43_BLOCK_FLOW_REJECTED_NO_EFFECT then FWLAB_C43_ACTION_STATE_REJECTED_NO_EFFECT
      else if flow = C43_BLOCK_FLOW_FAULT then FWLAB_C43_ACTION_STATE_FAULT
      else FWLAB_C43_ACTION_STATE_NONE)"

definition block_token_matches_record :: "hif_action_token \<Rightarrow> c43_command_record \<Rightarrow> bool" where
  "block_token_matches_record tk r \<longleftrightarrow>
     tk_command tk = ct_handle (cr_ticket r) \<and> tk_origin tk = ct_origin (cr_ticket r) \<and>
     tk_action_uid tk = act_action_uid (cr_actions r ! 0) \<and>
     tk_generation tk = act_generation (cr_actions r ! 0) \<and> tk_kind tk = FWLAB_HIF_ACTION_BLOCK \<and>
     tk_reserved tk = 0"

definition block_record_common ::
  "c43_graph \<Rightarrow> c43_command_record \<Rightarrow> c43_command_observer \<Rightarrow> bool" where
  "block_record_common g r ob \<longleftrightarrow>
     (let bt = cr_block_txn r; rq = bt_request bt
      in \<not> (pl_kind (cr_plan r) \<noteq> FWLAB_C43_PLAN_BLOCK \<or> bt_flow bt > C43_BLOCK_FLOW_FAULT \<or>
            bt_terminal_kind bt > FWLAB_C43_BLOCK_COMPLETED \<or> bt_resolution_valid bt > 1 \<or>
            bt_provider_owned bt > 1 \<or> bt_reserved0 bt \<noteq> 0 \<or> bt_reserved1 bt \<noteq> 0 \<or>
            bt_reserved_alignment bt \<noteq> 0 \<or> \<not> words_zero (bt_reserved2 bt) \<or>
            \<not> words_zero (bt_reserved_tail bt) \<or>
            (bt_flow bt \<noteq> C43_BLOCK_FLOW_FAULT \<and> bt_fault_from_flow bt \<noteq> C43_BLOCK_FLOW_NONE) \<or>
            (bt_flow bt = C43_BLOCK_FLOW_FAULT \<and>
             (bt_fault_from_flow bt < C43_BLOCK_FLOW_SUBMIT_START \<or>
              bt_fault_from_flow bt > C43_BLOCK_FLOW_QUERY)) \<or>
            (bt_resolution_valid bt = 0 \<and> bt_resolved_status bt \<noteq> 0) \<or>
            (bt_resolution_valid bt \<noteq> 0 \<and> \<not> c43_semantic_status_valid (bt_resolved_status bt)) \<or>
            bt_provider_generation bt \<noteq> bp_generation (pv_block (gr_providers g)) \<or>
            \<not> fwlab_c43_block_action_request_valid_for_port rq (pv_block (gr_providers g)) \<or>
            \<not> block_token_matches_record (ae_token (bq_common rq)) r \<or>
            ae_cookie (bq_common rq) \<noteq> cr_transaction_uid r \<or>
            ae_dependency_ordinal (bq_common rq) \<noteq> UINT32_MAX \<or>
            bq_requested_witness_mask rq \<noteq> FWLAB_C43_WITNESS_VALIDATED_ONLY \<or>
            \<not> c43_ref_zero (bq_predecessor rq) \<or> bq_intent rq \<noteq> pl_block (cr_plan r) \<or>
            co_action_domain ob \<noteq> FWLAB_C43_ACTION_DOMAIN_BLOCK \<or>
            co_action_state ob \<noteq> block_public_action_state (bt_flow bt) \<or>
            co_resolution_valid ob \<noteq> bt_resolution_valid bt \<or>
            co_resolved_status ob \<noteq> bt_resolved_status bt \<or>
            co_block_terminal_kind ob \<noteq> bt_terminal_kind bt))"

definition block_flow_valid ::
  "c43_graph \<Rightarrow> c43_block_txn_record \<Rightarrow> c43_command_observer \<Rightarrow> bool" where
  "block_flow_valid g bt ob \<longleftrightarrow>
     (let terminal_zero = (bt_terminal bt = zero_c43_block_action_terminal)
      in if bt_flow bt = C43_BLOCK_FLOW_SUBMIT_START
         then bt_resolution_valid bt = 0 \<and> bt_provider_owned bt = 0 \<and> bt_terminal_kind bt = 0 \<and>
              terminal_zero
         else if bt_flow bt = C43_BLOCK_FLOW_QUERY
         then bt_resolution_valid bt = 0 \<and> bt_provider_owned bt \<noteq> 0 \<and> bt_terminal_kind bt = 0 \<and>
              terminal_zero
         else if bt_flow bt = C43_BLOCK_FLOW_DONE
         then (if bt_resolution_valid bt = 0 \<or> bt_provider_owned bt = 0 \<or>
                  \<not> fwlab_c43_block_action_terminal_matches_request (bt_request bt) (bt_terminal bt)
                      (pv_block (gr_providers g)) \<or>
                  bt_terminal_kind bt \<noteq> bx_block_terminal_kind (bt_terminal bt) then False
               else if bt_terminal_kind bt = FWLAB_C43_BLOCK_VALIDATED_ONLY
               then bt_resolved_status bt = FWLAB_C43_STATUS_SUCCESS \<and>
                    co_satisfied_witness_mask ob = FWLAB_C43_WITNESS_VALIDATED_ONLY
               else bt_terminal_kind bt = FWLAB_C43_BLOCK_FAILED_NO_EFFECT \<and>
                    bt_resolved_status bt = FWLAB_C43_STATUS_MEDIA_FAILURE \<and>
                    co_satisfied_witness_mask ob = 0)
         else if bt_flow bt = C43_BLOCK_FLOW_REJECTED_NO_EFFECT
         then bt_resolution_valid bt \<noteq> 0 \<and> bt_provider_owned bt = 0 \<and>
              bt_resolved_status bt = FWLAB_C43_STATUS_RESOURCE_FAILURE \<and> bt_terminal_kind bt = 0 \<and>
              terminal_zero \<and> co_satisfied_witness_mask ob = 0
         else if bt_flow bt = C43_BLOCK_FLOW_FAULT
         then bt_resolution_valid bt \<noteq> 0 \<and> bt_resolved_status bt = FWLAB_C43_STATUS_INTERNAL_FAILURE \<and>
              bt_terminal_kind bt = 0 \<and> terminal_zero \<and> co_satisfied_witness_mask ob = 0 \<and>
              (bt_fault_from_flow bt = C43_BLOCK_FLOW_SUBMIT_START \<or> bt_provider_owned bt \<noteq> 0)
         else False)"

definition block_record_valid :: "c43_graph \<Rightarrow> c43_command_record \<Rightarrow> c43_command_observer \<Rightarrow> bool" where
  "block_record_valid g r ob \<longleftrightarrow>
     (let bt = cr_block_txn r
      in if bt_flow bt = C43_BLOCK_FLOW_NONE then record_idle_observed r ob
         else block_record_common g r ob \<and> block_flow_valid g bt ob)"

text \<open>
  One round of the loop of \<open>c43_phase4_state_valid\<close>; it threads the expected pins, the number of
  transaction owners and the last owner.
\<close>

definition phase4_round ::
  "c43_graph \<Rightarrow> nat \<Rightarrow> u16 list \<times> nat \<times> nat \<Rightarrow> (u16 list \<times> nat \<times> nat) option" where
  "phase4_round g index acc =
     (let (expected, owners, owner) = acc; r = graph_command g index; ob = graph_observed g index;
          target = unat (tx_target_slot_plus_one (cr_target_txn r)) - 1
      in if cr_in_use r = 0 then (if storage_zero r then Some acc else None)
         else if cr_state r = C43_COMMAND_RECORD_ADMITTED \<and>
                 pl_kind (cr_plan r) = FWLAB_C43_PLAN_ABORT_RESOLVE
         then if \<not> target_record_valid g index r ob then None
              else if tx_flow (cr_target_txn r) = C43_TARGET_FLOW_DONE \<and>
                      tx_outcome (cr_target_txn r) = FWLAB_C43_TARGET_FOUND
              then if tx_target_slot_plus_one (cr_target_txn r) = 0 \<or> target \<ge> FWLAB_C43_MAX_COMMANDS \<or>
                      expected ! target \<noteq> 0 then None
                   else Some (expected[target := 1], owners, owner)
              else Some acc
         else if cr_state r = C43_COMMAND_RECORD_ADMITTED \<and> pl_kind (cr_plan r) = FWLAB_C43_PLAN_BLOCK
         then if block_record_valid g r ob then Some acc else None
         else if \<not> queue_record_valid g r ob then None
         else if queue_flow_requires_owner (qx_flow (cr_queue_txn r))
         then Some (expected, owners + 1, index + 1)
         else Some acc)"

fun phase4_rounds ::
  "c43_graph \<Rightarrow> nat list \<Rightarrow> u16 list \<times> nat \<times> nat \<Rightarrow> (u16 list \<times> nat \<times> nat) option" where
  "phase4_rounds g [] acc = Some acc"
| "phase4_rounds g (index # rest) acc =
     (case phase4_round g index acc of None \<Rightarrow> None | Some acc' \<Rightarrow> phase4_rounds g rest acc')"

definition c43_phase4_state_valid :: "c43_graph \<Rightarrow> bool" where
  "c43_phase4_state_valid g \<longleftrightarrow>
     (if gr_next_service_slot g \<ge> 4 \<or> \<not> words_zero (gr_reserved_scheduler g) \<or>
         \<not> queue_authority_valid g (gr_queue_authority g) then False
      else case phase4_rounds g [0..<FWLAB_C43_MAX_COMMANDS] (replicate FWLAB_C43_MAX_COMMANDS 0, 0, 0) of
          None \<Rightarrow> False
        | Some (expected, owners, owner) \<Rightarrow>
            list_all (\<lambda>index. cr_incoming_target_pins (graph_command g index) = expected ! index)
              [0..<FWLAB_C43_MAX_COMMANDS] \<and>
            owners \<le> 1 \<and> qa_txn_active (gr_queue_authority g) = of_bool (owners = 1) \<and>
            (owners = 0 \<or> unat (qa_owner_slot_plus_one (gr_queue_authority g)) = owner))"

end
