(* ===== verification/Nvme_Flow.thy ===== *)
theory Nvme_Flow
  imports Nvme_Control
begin

text \<open>
  The steps of the three flows (\<open>core/c4-nvme/c43_control.c\<close>, last part) and the round-robin service
  of \<open>c43_phase4_step\<close>.
\<close>

section \<open>Queue flow\<close>

definition queue_authority_sync :: "c43_graph \<Rightarrow> c43_graph" where
  "queue_authority_sync g =
     (let qa = gr_queue_authority g
      in g\<lparr>gr_observer := (gr_observer g)\<lparr>go_nq_state := ucast (qa_nq_state qa),
           go_queue_txn_active := qa_txn_active qa, go_queue_owner_slot_plus_one := qa_owner_slot_plus_one qa,
           go_io_cq_present := qa_io_cq_present qa, go_io_sq_present := qa_io_sq_present qa,
           go_io_cq := qa_io_cq qa, go_io_sq := qa_io_sq qa,
           go_sq_associated_cq := qa_sq_associated_cq qa\<rparr>\<rparr>)"

definition queue_record_sync :: "c43_command_record \<Rightarrow> c43_command_observer \<Rightarrow> c43_command_observer" where
  "queue_record_sync r ob = ob\<lparr>co_action_domain := FWLAB_C43_ACTION_DOMAIN_QUEUE,
     co_action_state := queue_public_action_state (qx_flow (cr_queue_txn r)),
     co_resolution_valid := qx_resolution_valid (cr_queue_txn r),
     co_resolved_status := qx_resolved_status (cr_queue_txn r)\<rparr>"

text \<open>Storing a queue transaction and synchronising the observer entry, whose other changes are \<open>f\<close>.\<close>

definition queue_store ::
  "c43_graph \<Rightarrow> nat \<Rightarrow> c43_queue_txn_record \<Rightarrow> (c43_command_observer \<Rightarrow> c43_command_observer) \<Rightarrow> c43_graph" where
  "queue_store g slot qx f =
     (let r = (graph_command g slot)\<lparr>cr_queue_txn := qx\<rparr>
      in graph_put g slot r (queue_record_sync r (f (graph_observed g slot))))"

definition queue_release_owner :: "c43_graph \<Rightarrow> nat \<Rightarrow> c43_graph" where
  "queue_release_owner g slot =
     (let qa = gr_queue_authority g
      in if qa_txn_active qa \<noteq> 0 \<and> unat (qa_owner_slot_plus_one qa) = slot + 1
         then queue_authority_sync (g\<lparr>gr_queue_authority := qa\<lparr>qa_txn_active := 0, qa_owner_slot_plus_one := 0\<rparr>\<rparr>)
         else g)"

definition queue_resolve_no_effect :: "c43_graph \<Rightarrow> nat \<Rightarrow> u32 \<Rightarrow> c43_graph" where
  "queue_resolve_no_effect g slot status =
     (let qx = (cr_queue_txn (graph_command g slot))\<lparr>qx_flow := C43_QUEUE_FLOW_REJECTED_NO_EFFECT,
            qx_resolution_valid := 1, qx_resolved_status := status,
            qx_fault_from_flow := C43_QUEUE_FLOW_NONE, qx_provider_owned := 0\<rparr>
      in queue_release_owner
           (queue_store g slot qx (\<lambda>ob. ob\<lparr>co_phase := FWLAB_C43_PHASE_ACTION_WAIT, co_success_eligible := 0\<rparr>))
           slot)"

definition queue_faulted :: "c43_queue_txn_record \<Rightarrow> c43_queue_txn_record" where
  "queue_faulted qx =
     (if qx_flow qx \<noteq> C43_QUEUE_FLOW_FAULT then qx\<lparr>qx_fault_from_flow := ucast (qx_flow qx)\<rparr> else qx)
     \<lparr>qx_flow := C43_QUEUE_FLOW_FAULT, qx_resolution_valid := 1,
      qx_resolved_status := FWLAB_C43_STATUS_INTERNAL_FAILURE\<rparr>"

definition queue_fault :: "c43_graph \<Rightarrow> nat \<Rightarrow> c43_graph" where
  "queue_fault g slot = queue_store g slot (queue_faulted (cr_queue_txn (graph_command g slot)))
     (\<lambda>ob. ob\<lparr>co_phase := FWLAB_C43_PHASE_ACTION_WAIT, co_success_eligible := 0\<rparr>)"

definition queue_action_token :: "c43_command_record \<Rightarrow> hif_action_token" where
  "queue_action_token r = zero_hif_action_token\<lparr>tk_command := ct_handle (cr_ticket r),
     tk_origin := ct_origin (cr_ticket r), tk_action_uid := act_action_uid (cr_actions r ! 0),
     tk_generation := act_generation (cr_actions r ! 0), tk_kind := FWLAB_HIF_ACTION_QUEUE_EFFECT\<rparr>"

definition queue_prepare_request_build :: "c43_command_record \<Rightarrow> c43_queue_effect_request \<times> bool" where
  "queue_prepare_request_build r =
     (let operation = queue_operation (pr_kind (cr_request r));
          request = zero_c43_queue_effect_request
            \<lparr>qr_version := FWLAB_C43_QUEUE_EFFECT_PORT_VERSION, qr_size := sizeof_c43_queue_effect_request,
             qr_common := zero_hif_action_envelope\<lparr>ae_version := FWLAB_HIF_ACTION_VERSION,
               ae_size := sizeof_hif_action_envelope, ae_token := queue_action_token r,
               ae_cookie := cr_transaction_uid r, ae_requested_units := 1\<rparr>,
             qr_operation := operation, qr_role := queue_role operation\<rparr>
      in (request, fwlab_c43_queue_effect_request_valid request))"

definition queue_precondition_status :: "c43_graph \<Rightarrow> c43_command_record \<Rightarrow> u32" where
  "queue_precondition_status g r =
     (let qa = gr_queue_authority g; kind = pr_kind (cr_request r);
          cq = (qa_io_cq_present qa \<noteq> 0); sq = (qa_io_sq_present qa \<noteq> 0)
      in if pl_semantic_status (cr_plan r) \<noteq> FWLAB_C43_STATUS_SUCCESS then pl_semantic_status (cr_plan r)
         else if kind = FWLAB_C43_REQUEST_CREATE_IO_CQ
         then if qa_nq_state qa \<noteq> FWLAB_C43_NQ_NEGOTIATED then FWLAB_C43_STATUS_COMMAND_SEQUENCE
              else if cq \<or> sq then FWLAB_C43_STATUS_INVALID_QUEUE else FWLAB_C43_STATUS_SUCCESS
         else if kind = FWLAB_C43_REQUEST_CREATE_IO_SQ
         then if qa_nq_state qa \<noteq> FWLAB_C43_NQ_NEGOTIATED then FWLAB_C43_STATUS_COMMAND_SEQUENCE
              else if \<not> cq \<or> sq then FWLAB_C43_STATUS_INVALID_QUEUE else FWLAB_C43_STATUS_SUCCESS
         else if kind = FWLAB_C43_REQUEST_DELETE_IO_SQ
         then if sq then FWLAB_C43_STATUS_SUCCESS else FWLAB_C43_STATUS_INVALID_QUEUE_DELETE
         else if kind = FWLAB_C43_REQUEST_DELETE_IO_CQ
         then if cq \<and> \<not> sq then FWLAB_C43_STATUS_SUCCESS else FWLAB_C43_STATUS_INVALID_QUEUE_DELETE
         else FWLAB_C43_STATUS_INTERNAL_FAILURE)"

definition queue_begin_nq :: "c43_graph \<Rightarrow> nat \<Rightarrow> c43_graph" where
  "queue_begin_nq g slot =
     (let qa = gr_queue_authority g;
          planned = pl_semantic_status (cr_plan (graph_command g slot));
          status = (if planned = FWLAB_C43_STATUS_SUCCESS \<and>
              (qa_txn_active qa \<noteq> 0 \<or> qa_io_cq_present qa \<noteq> 0 \<or> qa_io_sq_present qa \<noteq> 0)
            then FWLAB_C43_STATUS_COMMAND_SEQUENCE else planned);
          g = (if status = FWLAB_C43_STATUS_SUCCESS
            then g\<lparr>gr_queue_authority := qa\<lparr>qa_nq_state := FWLAB_C43_NQ_NEGOTIATED\<rparr>\<rparr> else g);
          qx = (cr_queue_txn (graph_command g slot))\<lparr>qx_flow := C43_QUEUE_FLOW_DONE,
            qx_resolution_valid := 1, qx_resolved_status := status\<rparr>
      in queue_authority_sync
           (queue_store g slot qx (\<lambda>ob. ob\<lparr>co_phase := FWLAB_C43_PHASE_ACTION_WAIT,
              co_success_eligible := of_bool (status = FWLAB_C43_STATUS_SUCCESS)\<rparr>)))"

definition queue_begin_transaction :: "c43_graph \<Rightarrow> nat \<Rightarrow> c43_graph" where
  "queue_begin_transaction g slot =
     (let r = graph_command g slot; status = queue_precondition_status g r; qa = gr_queue_authority g
      in if status \<noteq> FWLAB_C43_STATUS_SUCCESS then queue_resolve_no_effect g slot status
         else if qa_txn_active qa \<noteq> 0 then g
         else let r = storage_clear r;
                  r = r\<lparr>cr_queue_txn := (cr_queue_txn r)\<lparr>qx_flow := C43_QUEUE_FLOW_PREPARE_START,
                    qx_provider_generation := po_generation (pv_queue (gr_providers g))\<rparr>\<rparr>;
                  g = g\<lparr>gr_queue_authority := qa\<lparr>qa_txn_active := 1,
                    qa_owner_slot_plus_one := of_nat (slot + 1)\<rparr>\<rparr>;
                  ob = queue_record_sync r ((graph_observed g slot)\<lparr>co_phase := FWLAB_C43_PHASE_RESOLVE_WAIT\<rparr>);
                  (request, built) = queue_prepare_request_build r;
                  r = r\<lparr>cr_queue_txn := (cr_queue_txn r)\<lparr>qx_prepare_request := request\<rparr>\<rparr>;
                  g = queue_authority_sync (graph_put g slot r ob)
              in if \<not> built then queue_fault g slot else g)"

definition queue_submit_result_valid :: "hif_action_submit_result \<Rightarrow> hif_action_token \<Rightarrow> bool" where
  "queue_submit_result_valid result tk \<longleftrightarrow>
     fwlab_hif_action_submit_result_valid result \<and> as_disposition result = FWLAB_HIF_ACTION_ACCEPTED \<and>
     as_token result = tk \<and> as_fault_domain result = 0 \<and> as_fault_code result = 0 \<and>
     as_retry result = FWLAB_HIF_ACTION_RETRY_NONE \<and> as_effect_class result = FWLAB_NVME_EFFECT_NONE"

definition queue_prepare_start_step ::
  "'p c43_provider_ops \<Rightarrow> c43_graph \<Rightarrow> 'p \<Rightarrow> nat \<Rightarrow> c43_graph \<times> 'p \<times> u32" where
  "queue_prepare_start_step ops g p slot =
     (let qx = cr_queue_txn (graph_command g slot);
          (disposition, result, p) =
            op_queue_prepare_start ops p (qx_prepare_request qx) poison_hif_action_submit_result
      in if disposition = FWLAB_HIF_ACTION_BACKPRESSURE then (g, p, 0)
         else if disposition = FWLAB_HIF_ACTION_REJECTED
         then (queue_resolve_no_effect g slot FWLAB_C43_STATUS_RESOURCE_FAILURE, p, 1)
         else let qx' = (if disposition = FWLAB_HIF_ACTION_ACCEPTED then qx\<lparr>qx_provider_owned := 1\<rparr> else qx);
                  g' = graph_put g slot ((graph_command g slot)\<lparr>cr_queue_txn := qx'\<rparr>) (graph_observed g slot)
              in if disposition \<noteq> FWLAB_HIF_ACTION_ACCEPTED \<or>
                    \<not> queue_submit_result_valid result (ae_token (qr_common (qx_prepare_request qx)))
                 then (queue_fault g' slot, p, 1)
                 else (queue_store g' slot (qx'\<lparr>qx_flow := C43_QUEUE_FLOW_PREPARE_QUERY\<rparr>) id, p, 1))"

definition queue_prepare_query_step ::
  "'p c43_provider_ops \<Rightarrow> c43_graph \<Rightarrow> 'p \<Rightarrow> nat \<Rightarrow> c43_graph \<times> 'p \<times> u32" where
  "queue_prepare_query_step ops g p slot =
     (let qx = cr_queue_txn (graph_command g slot);
          (result, reply, ready, p) = op_queue_prepare_query ops p
            (ae_token (qr_common (qx_prepare_request qx))) poison_c43_queue_effect_terminal True
      in if result = FWLAB_C43_API_IN_PROGRESS
         then if \<not> ready \<or> reply \<noteq> poison_c43_queue_effect_terminal
              then (queue_fault g slot, p, 1) else (g, p, 0)
         else if result \<noteq> FWLAB_C43_API_OK then (queue_fault g slot, p, 1)
         else if \<not> ready
         then if reply \<noteq> poison_c43_queue_effect_terminal then (queue_fault g slot, p, 1) else (g, p, 0)
         else if \<not> fwlab_c43_queue_effect_terminal_matches_request (qx_prepare_request qx) reply \<or>
                 qt_state reply \<noteq> FWLAB_C43_QUEUE_EFFECT_PREPARED \<or> qt_decision reply \<noteq> 0
         then (queue_fault g slot, p, 1)
         else (queue_store g slot (qx\<lparr>qx_prepared_facts := qt_facts reply,
                 qx_flow := C43_QUEUE_FLOW_DECIDE\<rparr>) id, p, 1))"

text \<open>Whether facts permit the commit, and the status if they do not.\<close>

definition queue_facts_commit_ready ::
  "c43_graph \<Rightarrow> c43_command_record \<Rightarrow> c43_queue_facts \<Rightarrow> bool \<times> u32" where
  "queue_facts_commit_ready g r qf =
     (let qa = gr_queue_authority g; kind = pr_kind (cr_request r);
          cq = (qa_io_cq_present qa \<noteq> 0); sq = (qa_io_sq_present qa \<noteq> 0);
          depth = ucast (pf_integration_queue_depth (gc_profile (gr_config g)))
      in if kind = FWLAB_C43_REQUEST_CREATE_IO_CQ
         then if qf_address_present qf = 0 then (False, FWLAB_C43_STATUS_INVALID_FIELD)
              else if qf_queue_entries qf \<noteq> depth then (False, FWLAB_C43_STATUS_INVALID_QUEUE_SIZE)
              else (qf_queue_exists qf \<noteq> 0 \<and> qf_associated_cq_exists qf = 0 \<and> \<not> cq \<and> \<not> sq,
                    FWLAB_C43_STATUS_INVALID_QUEUE)
         else if kind = FWLAB_C43_REQUEST_CREATE_IO_SQ
         then if qf_address_present qf = 0 then (False, FWLAB_C43_STATUS_INVALID_FIELD)
              else if qf_queue_entries qf \<noteq> depth then (False, FWLAB_C43_STATUS_INVALID_QUEUE_SIZE)
              else (qf_queue_exists qf \<noteq> 0 \<and> qf_associated_cq_exists qf \<noteq> 0 \<and>
                    qf_association_matches qf \<noteq> 0 \<and> qf_current_relation qf \<noteq> 0 \<and> cq \<and> \<not> sq \<and>
                    qf_associated_cq qf = qa_io_cq qa, FWLAB_C43_STATUS_INVALID_QUEUE)
         else if kind = FWLAB_C43_REQUEST_DELETE_IO_SQ
         then (sq \<and> cq \<and> qf_queue_exists qf \<noteq> 0 \<and> qf_associated_cq_exists qf \<noteq> 0 \<and>
               qf_association_matches qf \<noteq> 0 \<and> qf_current_relation qf \<noteq> 0 \<and> qf_queue qf = qa_io_sq qa \<and>
               qf_associated_cq qf = qa_io_cq qa \<and> qf_active_commands_zero qf \<noteq> 0 \<and>
               qf_target_refs_zero qf \<noteq> 0 \<and> qf_reserved_publications_zero qf \<noteq> 0,
               FWLAB_C43_STATUS_INVALID_QUEUE_DELETE)
         else if kind = FWLAB_C43_REQUEST_DELETE_IO_CQ
         then (cq \<and> \<not> sq \<and> qf_queue_exists qf \<noteq> 0 \<and> qf_associated_cq_exists qf = 0 \<and>
               qf_current_relation qf \<noteq> 0 \<and> qf_queue qf = qa_io_cq qa \<and>
               qf_reserved_publications_zero qf \<noteq> 0 \<and> qf_unacked_completions_zero qf \<noteq> 0,
               FWLAB_C43_STATUS_INVALID_QUEUE_DELETE)
         else (False, FWLAB_C43_STATUS_INTERNAL_FAILURE))"

definition queue_facts_decision_commit ::
  "c43_graph \<Rightarrow> c43_command_record \<Rightarrow> c43_queue_facts \<Rightarrow> bool \<times> u32" where
  "queue_facts_decision_commit g r qf =
     (let qa = gr_queue_authority g; kind = pr_kind (cr_request r);
          cq = (qa_io_cq_present qa \<noteq> 0); sq = (qa_io_sq_present qa \<noteq> 0)
      in if kind = FWLAB_C43_REQUEST_DELETE_IO_SQ
         then (sq \<and> cq \<and> qf_queue_exists qf \<noteq> 0 \<and> qf_associated_cq_exists qf \<noteq> 0 \<and>
               qf_association_matches qf \<noteq> 0 \<and> qf_current_relation qf \<noteq> 0 \<and> qf_queue qf = qa_io_sq qa \<and>
               qf_associated_cq qf = qa_io_cq qa, FWLAB_C43_STATUS_INVALID_QUEUE_DELETE)
         else if kind = FWLAB_C43_REQUEST_DELETE_IO_CQ
         then (cq \<and> \<not> sq \<and> qf_queue_exists qf \<noteq> 0 \<and> qf_associated_cq_exists qf = 0 \<and>
               qf_current_relation qf \<noteq> 0 \<and> qf_queue qf = qa_io_cq qa,
               FWLAB_C43_STATUS_INVALID_QUEUE_DELETE)
         else queue_facts_commit_ready g r qf)"

definition queue_decide_step :: "c43_graph \<Rightarrow> nat \<Rightarrow> c43_graph" where
  "queue_decide_step g slot =
     (let r = graph_command g slot; qx = cr_queue_txn r;
          (commit, failure_status) = queue_facts_decision_commit g r (qx_prepared_facts qx);
          qx = qx\<lparr>qx_resolution_valid := 1,
            qx_decision := (if commit then FWLAB_C43_QUEUE_FINISH_COMMIT else FWLAB_C43_QUEUE_FINISH_ABORT),
            qx_resolved_status := (if commit then FWLAB_C43_STATUS_SUCCESS else failure_status)\<rparr>;
          request = zero_c43_queue_finish_request
            \<lparr>qn_version := FWLAB_C43_QUEUE_EFFECT_PORT_VERSION, qn_size := sizeof_c43_queue_finish_request,
             qn_token := ae_token (qr_common (qx_prepare_request qx)),
             qn_transaction := qf_transaction (qx_prepared_facts qx), qn_decision := qx_decision qx\<rparr>
      in if \<not> fwlab_c43_queue_finish_request_valid request
         then let qx = qx\<lparr>qx_finish_request := zero_c43_queue_finish_request\<rparr>
              in queue_fault (graph_put g slot (r\<lparr>cr_queue_txn := qx\<rparr>) (graph_observed g slot)) slot
         else queue_store g slot (qx\<lparr>qx_finish_request := request,
                qx_flow := C43_QUEUE_FLOW_FINISH_START\<rparr>) id)"

definition queue_finish_start_step ::
  "'p c43_provider_ops \<Rightarrow> c43_graph \<Rightarrow> 'p \<Rightarrow> nat \<Rightarrow> c43_graph \<times> 'p \<times> u32" where
  "queue_finish_start_step ops g p slot =
     (let qx = cr_queue_txn (graph_command g slot);
          (disposition, result, p) =
            op_queue_finish_start ops p (qx_finish_request qx) poison_hif_action_submit_result
      in if disposition = FWLAB_HIF_ACTION_BACKPRESSURE then (g, p, 0)
         else if disposition \<noteq> FWLAB_HIF_ACTION_ACCEPTED \<or>
                 \<not> queue_submit_result_valid result (qn_token (qx_finish_request qx))
         then (queue_fault g slot, p, 1)
         else (queue_store g slot (qx\<lparr>qx_flow := C43_QUEUE_FLOW_FINISH_QUERY\<rparr>) id, p, 1))"

definition queue_finish_query_step ::
  "'p c43_provider_ops \<Rightarrow> c43_graph \<Rightarrow> 'p \<Rightarrow> nat \<Rightarrow> c43_graph \<times> 'p \<times> u32" where
  "queue_finish_query_step ops g p slot =
     (let r = graph_command g slot; qx = cr_queue_txn r; prepare = qx_prepare_request qx;
          (result, reply, ready, p) = op_queue_finish_query ops p
            (qn_token (qx_finish_request qx)) poison_c43_queue_effect_terminal True
      in if result = FWLAB_C43_API_IN_PROGRESS
         then if \<not> ready \<or> reply \<noteq> poison_c43_queue_effect_terminal
              then (queue_fault g slot, p, 1) else (g, p, 0)
         else if result \<noteq> FWLAB_C43_API_OK then (queue_fault g slot, p, 1)
         else if \<not> ready
         then if reply \<noteq> poison_c43_queue_effect_terminal then (queue_fault g slot, p, 1) else (g, p, 0)
         else if \<not> fwlab_c43_queue_finish_terminal_matches_request (qx_finish_request qx) reply \<or>
                 te_cookie (qt_common reply) \<noteq> ae_cookie (qr_common prepare) \<or>
                 qf_operation (qt_facts reply) \<noteq> qr_operation prepare \<or>
                 qf_role (qt_facts reply) \<noteq> qr_role prepare \<or>
                 \<not> queue_facts_immutable_equal (qx_prepared_facts qx) (qt_facts reply)
         then (queue_fault g slot, p, 1)
         else let qx = qx\<lparr>qx_terminal := reply\<rparr>
              in if qt_state reply = FWLAB_C43_QUEUE_EFFECT_COMMITTED
                 then (queue_store g slot (qx\<lparr>qx_flow := C43_QUEUE_FLOW_APPLY_COMMIT\<rparr>) id, p, 1)
                 else if qt_state reply = FWLAB_C43_QUEUE_EFFECT_ABORTED
                 then (queue_store g slot (qx\<lparr>qx_flow := C43_QUEUE_FLOW_APPLY_ABORT\<rparr>) id, p, 1)
                 else if qt_state reply = FWLAB_C43_QUEUE_EFFECT_TOO_LATE
                 then (queue_store g slot (qx\<lparr>qx_flow := C43_QUEUE_FLOW_APPLY_COMMIT,
                         qx_resolved_status := FWLAB_C43_STATUS_SUCCESS\<rparr>) id, p, 1)
                 else (queue_fault (graph_put g slot (r\<lparr>cr_queue_txn := qx\<rparr>) (graph_observed g slot)) slot, p, 1))"

text \<open>The change of the authority that a committed queue effect makes; no change for another kind.\<close>

definition authority_apply :: "c43_queue_authority \<Rightarrow> u8 \<Rightarrow> c43_opaque_ref \<Rightarrow> c43_queue_authority option" where
  "authority_apply qa kind queue =
     (if kind = FWLAB_C43_REQUEST_CREATE_IO_CQ then Some (qa\<lparr>qa_io_cq := queue, qa_io_cq_present := 1\<rparr>)
      else if kind = FWLAB_C43_REQUEST_CREATE_IO_SQ
      then Some (qa\<lparr>qa_io_sq := queue, qa_sq_associated_cq := qa_io_cq qa, qa_io_sq_present := 1\<rparr>)
      else if kind = FWLAB_C43_REQUEST_DELETE_IO_SQ
      then Some (qa\<lparr>qa_io_sq := (0, 0), qa_sq_associated_cq := (0, 0), qa_io_sq_present := 0\<rparr>)
      else if kind = FWLAB_C43_REQUEST_DELETE_IO_CQ
      then Some (qa\<lparr>qa_io_cq := (0, 0), qa_io_cq_present := 0\<rparr>)
      else None)"

definition queue_apply_commit_step :: "c43_graph \<Rightarrow> nat \<Rightarrow> c43_graph" where
  "queue_apply_commit_step g slot =
     (let r = graph_command g slot; qx = cr_queue_txn r; facts = qt_facts (qx_terminal qx)
      in if \<not> queue_facts_immutable_equal (qx_prepared_facts qx) facts \<or>
            \<not> fst (queue_facts_commit_ready g r facts)
         then queue_fault g slot
         else case authority_apply (gr_queue_authority g) (pr_kind (cr_request r)) (qf_queue facts) of
             None \<Rightarrow> queue_fault g slot
           | Some qa \<Rightarrow> queue_authority_sync
               (queue_store (g\<lparr>gr_queue_authority := qa\<rparr>) slot
                  (qx\<lparr>qx_local_effect_applied := 1, qx_flow := C43_QUEUE_FLOW_RETIRE\<rparr>)
                  (\<lambda>ob. ob\<lparr>co_phase := FWLAB_C43_PHASE_ACTION_WAIT,
                     co_satisfied_witness_mask :=
                       co_satisfied_witness_mask ob OR FWLAB_C43_WITNESS_QUEUE_EFFECT_COMMITTED,
                     co_success_eligible := of_bool (qx_resolved_status qx = FWLAB_C43_STATUS_SUCCESS)\<rparr>)))"

definition queue_apply_abort_step :: "c43_graph \<Rightarrow> nat \<Rightarrow> c43_graph" where
  "queue_apply_abort_step g slot =
     queue_store g slot ((cr_queue_txn (graph_command g slot))\<lparr>qx_flow := C43_QUEUE_FLOW_RETIRE\<rparr>)
       (\<lambda>ob. ob\<lparr>co_phase := FWLAB_C43_PHASE_ACTION_WAIT, co_success_eligible := 0\<rparr>)"

definition queue_retire_step ::
  "'p c43_provider_ops \<Rightarrow> c43_graph \<Rightarrow> 'p \<Rightarrow> nat \<Rightarrow> c43_graph \<times> 'p \<times> u32" where
  "queue_retire_step ops g p slot =
     (let qx = cr_queue_txn (graph_command g slot);
          (result, p) = op_queue_retire ops p (ae_token (qr_common (qx_prepare_request qx)))
      in if result = FWLAB_C43_API_IN_PROGRESS then (g, p, 0)
         else if result \<noteq> FWLAB_C43_API_OK then (queue_fault g slot, p, 1)
         else (queue_release_owner
                 (queue_store g slot (qx\<lparr>qx_provider_owned := 0, qx_flow := C43_QUEUE_FLOW_DONE\<rparr>) id) slot,
               p, 1))"

text \<open>\<open>None\<close> is the return value 0: the record has nothing to do.\<close>

definition queue_record_step ::
  "'p c43_provider_ops \<Rightarrow> c43_graph \<Rightarrow> 'p \<Rightarrow> nat \<Rightarrow> (c43_graph \<times> 'p \<times> u32) option" where
  "queue_record_step ops g p slot =
     (let r = graph_command g slot; flow = qx_flow (cr_queue_txn r)
      in if flow = C43_QUEUE_FLOW_NONE
         then if pr_kind (cr_request r) = FWLAB_C43_REQUEST_SET_NUMBER_OF_QUEUES
              then Some (queue_begin_nq g slot, p, 1)
              else if \<not> queue_command_kind (pr_kind (cr_request r)) then None
              else if qa_txn_active (gr_queue_authority g) \<noteq> 0 then None
              else Some (queue_begin_transaction g slot, p, 1)
         else if flow = C43_QUEUE_FLOW_PREPARE_START then Some (queue_prepare_start_step ops g p slot)
         else if flow = C43_QUEUE_FLOW_PREPARE_QUERY then Some (queue_prepare_query_step ops g p slot)
         else if flow = C43_QUEUE_FLOW_DECIDE then Some (queue_decide_step g slot, p, 1)
         else if flow = C43_QUEUE_FLOW_FINISH_START then Some (queue_finish_start_step ops g p slot)
         else if flow = C43_QUEUE_FLOW_FINISH_QUERY then Some (queue_finish_query_step ops g p slot)
         else if flow = C43_QUEUE_FLOW_APPLY_COMMIT then Some (queue_apply_commit_step g slot, p, 1)
         else if flow = C43_QUEUE_FLOW_APPLY_ABORT then Some (queue_apply_abort_step g slot, p, 1)
         else if flow = C43_QUEUE_FLOW_RETIRE then Some (queue_retire_step ops g p slot)
         else None)"

section \<open>Target flow\<close>

definition target_record_sync :: "c43_command_record \<Rightarrow> c43_command_observer \<Rightarrow> c43_command_observer" where
  "target_record_sync r ob =
     (let tx = cr_target_txn r
      in ob\<lparr>co_action_domain := FWLAB_C43_ACTION_DOMAIN_TARGET,
           co_action_state := target_public_action_state (tx_flow tx),
           co_resolution_valid := tx_resolution_valid tx, co_resolved_status := tx_resolved_status tx,
           co_action_outcome := tx_outcome tx, co_block_terminal_kind := 0,
           co_target_pin_present := tx_pin_installed tx,
           co_target_ticket := (if tx_pin_installed tx \<noteq> 0 then tt_target (tx_terminal tx)
             else zero_hif_command_ticket),
           co_target_reference := (if tx_pin_installed tx \<noteq> 0 then tt_reference (tx_terminal tx)
             else (0, 0))\<rparr>)"

definition target_store ::
  "c43_graph \<Rightarrow> nat \<Rightarrow> c43_target_txn_record \<Rightarrow> (c43_command_observer \<Rightarrow> c43_command_observer) \<Rightarrow> c43_graph" where
  "target_store g slot tx f =
     (let r = (graph_command g slot)\<lparr>cr_target_txn := tx\<rparr>
      in graph_put g slot r (target_record_sync r (f (graph_observed g slot))))"

definition target_faulted :: "u32 \<Rightarrow> c43_target_txn_record \<Rightarrow> c43_target_txn_record" where
  "target_faulted outcome tx =
     (if tx_flow tx \<noteq> C43_TARGET_FLOW_FAULT then tx\<lparr>tx_fault_from_flow := ucast (tx_flow tx)\<rparr> else tx)
     \<lparr>tx_flow := C43_TARGET_FLOW_FAULT, tx_outcome := outcome, tx_resolution_valid := 1,
      tx_resolved_status := FWLAB_C43_STATUS_INTERNAL_FAILURE, tx_pin_installed := 0,
      tx_target_slot_plus_one := 0\<rparr>"

definition target_fault :: "c43_graph \<Rightarrow> nat \<Rightarrow> u32 \<Rightarrow> c43_graph" where
  "target_fault g slot outcome =
     target_store g slot (target_faulted outcome (cr_target_txn (graph_command g slot)))
       (\<lambda>ob. ob\<lparr>co_phase := FWLAB_C43_PHASE_ACTION_WAIT, co_success_eligible := 0\<rparr>)"

definition target_request_build :: "c43_command_record \<Rightarrow> c43_target_request \<times> bool" where
  "target_request_build r =
     (let request = zero_c43_target_request
            \<lparr>tr_version := FWLAB_C43_TARGET_RESOLVER_PORT_VERSION, tr_size := sizeof_c43_target_request,
             tr_common := zero_hif_action_envelope\<lparr>ae_version := FWLAB_HIF_ACTION_VERSION,
               ae_size := sizeof_hif_action_envelope, ae_token := queue_action_token r,
               ae_cookie := cr_transaction_uid r, ae_dependency_ordinal := UINT32_MAX,
               ae_requested_units := 1\<rparr>,
             tr_abort_command := cr_ticket r, tr_operation := FWLAB_C43_TARGET_RESOLVE_ABORT\<rparr>
      in (request, fwlab_c43_target_request_valid request))"

definition target_begin :: "c43_graph \<Rightarrow> nat \<Rightarrow> c43_graph" where
  "target_begin g slot =
     (let r = storage_clear (graph_command g slot);
          r = r\<lparr>cr_target_txn := (cr_target_txn r)\<lparr>tx_flow := C43_TARGET_FLOW_SUBMIT_START,
            tx_provider_generation := po_generation (pv_target (gr_providers g))\<rparr>\<rparr>;
          ob = target_record_sync r ((graph_observed g slot)\<lparr>co_phase := FWLAB_C43_PHASE_RESOLVE_WAIT\<rparr>);
          (request, built) = target_request_build r;
          r = r\<lparr>cr_target_txn := (cr_target_txn r)\<lparr>tx_request := request\<rparr>\<rparr>;
          g = graph_put g slot r ob
      in if \<not> built then target_fault g slot 0 else g)"

definition target_submit_step ::
  "'p c43_provider_ops \<Rightarrow> c43_graph \<Rightarrow> 'p \<Rightarrow> nat \<Rightarrow> c43_graph \<times> 'p \<times> u32" where
  "target_submit_step ops g p slot =
     (let tx = cr_target_txn (graph_command g slot);
          (disposition, result, p) =
            op_target_submit ops p (tx_request tx) poison_hif_action_submit_result
      in if disposition = FWLAB_HIF_ACTION_BACKPRESSURE then (g, p, 0)
         else let tx' = (if disposition = FWLAB_HIF_ACTION_ACCEPTED then tx\<lparr>tx_provider_owned := 1\<rparr> else tx);
                  g' = graph_put g slot ((graph_command g slot)\<lparr>cr_target_txn := tx'\<rparr>) (graph_observed g slot)
              in if disposition \<noteq> FWLAB_HIF_ACTION_ACCEPTED \<or>
                    \<not> queue_submit_result_valid result (ae_token (tr_common (tx_request tx)))
                 then (target_fault g' slot 0, p, 1)
                 else (target_store g' slot (tx'\<lparr>tx_flow := C43_TARGET_FLOW_QUERY\<rparr>) id, p, 1))"

text \<open>The pin on the target: the record and the observer entry of the target's slot count one.\<close>

definition target_pin :: "c43_graph \<Rightarrow> nat \<Rightarrow> c43_graph" where
  "target_pin g target_slot =
     graph_put g target_slot ((graph_command g target_slot)\<lparr>cr_incoming_target_pins := 1\<rparr>)
       ((graph_observed g target_slot)\<lparr>co_incoming_target_pins := 1\<rparr>)"

definition target_resolved :: "c43_graph \<Rightarrow> nat \<Rightarrow> c43_target_txn_record \<Rightarrow> u32 \<Rightarrow> c43_graph" where
  "target_resolved g slot tx outcome =
     target_store g slot (tx\<lparr>tx_flow := C43_TARGET_FLOW_DONE, tx_outcome := outcome,
       tx_resolution_valid := 1, tx_resolved_status := FWLAB_C43_STATUS_SUCCESS\<rparr>)
       (\<lambda>ob. ob\<lparr>co_phase := FWLAB_C43_PHASE_ACTION_WAIT, co_success_eligible := 1\<rparr>)"

definition target_query_step ::
  "'p c43_provider_ops \<Rightarrow> c43_graph \<Rightarrow> 'p \<Rightarrow> nat \<Rightarrow> c43_graph \<times> 'p \<times> u32" where
  "target_query_step ops g p slot =
     (let r = graph_command g slot; tx = cr_target_txn r;
          (result, reply, ready, p) = op_target_query ops p
            (ae_token (tr_common (tx_request tx))) poison_c43_target_terminal True;
          tx' = tx\<lparr>tx_terminal := reply\<rparr>
      in if result = FWLAB_C43_API_IN_PROGRESS
         then if \<not> ready \<or> reply \<noteq> poison_c43_target_terminal
              then (target_fault g slot 0, p, 1) else (g, p, 0)
         else if result \<noteq> FWLAB_C43_API_OK then (target_fault g slot 0, p, 1)
         else if \<not> ready
         then if reply \<noteq> poison_c43_target_terminal then (target_fault g slot 0, p, 1) else (g, p, 0)
         else if \<not> fwlab_c43_target_terminal_matches_request (tx_request tx) reply
         then (target_fault g slot 0, p, 1)
         else if tt_outcome reply = FWLAB_C43_TARGET_FOUND
         then case target_find_slot g slot (tt_target reply) of
             None \<Rightarrow> (target_fault g slot 0, p, 1)
           | Some target_slot \<Rightarrow>
               if cr_incoming_target_pins (graph_command g target_slot) \<noteq> 0
               then (target_fault g slot 0, p, 1)
               else (target_resolved (target_pin g target_slot) slot
                       (tx'\<lparr>tx_pin_installed := 1, tx_target_slot_plus_one := of_nat (target_slot + 1)\<rparr>)
                       (tt_outcome reply), p, 1)
         else if tt_outcome reply \<ge> FWLAB_C43_TARGET_NOT_FOUND \<and>
                 tt_outcome reply \<le> FWLAB_C43_TARGET_SUPERSEDED
         then (target_resolved g slot tx' (tt_outcome reply), p, 1)
         else if tt_outcome reply = FWLAB_C43_TARGET_FAULT
         then (target_fault (graph_put g slot (r\<lparr>cr_target_txn := tx'\<rparr>) (graph_observed g slot)) slot
                 FWLAB_C43_TARGET_FAULT, p, 1)
         else (target_fault g slot 0, p, 1))"

definition target_record_step ::
  "'p c43_provider_ops \<Rightarrow> c43_graph \<Rightarrow> 'p \<Rightarrow> nat \<Rightarrow> (c43_graph \<times> 'p \<times> u32) option" where
  "target_record_step ops g p slot =
     (let flow = tx_flow (cr_target_txn (graph_command g slot))
      in if flow = C43_TARGET_FLOW_NONE then Some (target_begin g slot, p, 1)
         else if flow = C43_TARGET_FLOW_SUBMIT_START then Some (target_submit_step ops g p slot)
         else if flow = C43_TARGET_FLOW_QUERY then Some (target_query_step ops g p slot)
         else None)"

section \<open>Block flow\<close>

definition block_record_sync :: "c43_command_record \<Rightarrow> c43_command_observer \<Rightarrow> c43_command_observer" where
  "block_record_sync r ob =
     (let bt = cr_block_txn r
      in ob\<lparr>co_action_domain := FWLAB_C43_ACTION_DOMAIN_BLOCK,
           co_action_state := block_public_action_state (bt_flow bt),
           co_resolution_valid := bt_resolution_valid bt, co_resolved_status := bt_resolved_status bt,
           co_action_outcome := 0, co_block_terminal_kind := bt_terminal_kind bt,
           co_target_pin_present := 0, co_target_ticket := zero_hif_command_ticket,
           co_target_reference := (0, 0)\<rparr>)"

definition block_store ::
  "c43_graph \<Rightarrow> nat \<Rightarrow> c43_block_txn_record \<Rightarrow> (c43_command_observer \<Rightarrow> c43_command_observer) \<Rightarrow> c43_graph" where
  "block_store g slot bt f =
     (let r = (graph_command g slot)\<lparr>cr_block_txn := bt\<rparr>
      in graph_put g slot r (block_record_sync r (f (graph_observed g slot))))"

definition block_faulted :: "c43_block_txn_record \<Rightarrow> c43_block_txn_record" where
  "block_faulted bt =
     (if bt_flow bt \<noteq> C43_BLOCK_FLOW_FAULT then bt\<lparr>bt_fault_from_flow := ucast (bt_flow bt)\<rparr> else bt)
     \<lparr>bt_flow := C43_BLOCK_FLOW_FAULT, bt_terminal_kind := 0, bt_resolution_valid := 1,
      bt_resolved_status := FWLAB_C43_STATUS_INTERNAL_FAILURE,
      bt_terminal := zero_c43_block_action_terminal\<rparr>"

definition block_fault :: "c43_graph \<Rightarrow> nat \<Rightarrow> c43_graph" where
  "block_fault g slot = block_store g slot (block_faulted (cr_block_txn (graph_command g slot)))
     (\<lambda>ob. ob\<lparr>co_phase := FWLAB_C43_PHASE_ACTION_WAIT, co_satisfied_witness_mask := 0,
        co_success_eligible := 0\<rparr>)"

definition block_rejected :: "c43_graph \<Rightarrow> nat \<Rightarrow> c43_graph" where
  "block_rejected g slot =
     block_store g slot ((cr_block_txn (graph_command g slot))
         \<lparr>bt_flow := C43_BLOCK_FLOW_REJECTED_NO_EFFECT, bt_resolution_valid := 1,
          bt_resolved_status := FWLAB_C43_STATUS_RESOURCE_FAILURE, bt_provider_owned := 0\<rparr>)
       (\<lambda>ob. ob\<lparr>co_phase := FWLAB_C43_PHASE_ACTION_WAIT, co_satisfied_witness_mask := 0,
          co_success_eligible := 0\<rparr>)"

definition block_request_build ::
  "c43_command_record \<Rightarrow> c43_block_action_port \<Rightarrow> c43_block_action_request \<times> bool" where
  "block_request_build r port =
     (let intent = pl_block (cr_plan r);
          request = zero_c43_block_action_request
            \<lparr>bq_version := FWLAB_C43_BLOCK_ACTION_PORT_VERSION, bq_size := sizeof_c43_block_action_request,
             bq_common := zero_hif_action_envelope\<lparr>ae_version := FWLAB_HIF_ACTION_VERSION,
               ae_size := sizeof_hif_action_envelope,
               ae_token := (queue_action_token r)\<lparr>tk_kind := FWLAB_HIF_ACTION_BLOCK\<rparr>,
               ae_cookie := cr_transaction_uid r, ae_dependency_ordinal := UINT32_MAX,
               ae_requested_units := (if bi_lba_count intent = 0 then 1 else bi_lba_count intent)\<rparr>,
             bq_intent := intent, bq_requested_witness_mask := FWLAB_C43_WITNESS_VALIDATED_ONLY\<rparr>
      in (request, fwlab_c43_block_action_request_valid_for_port request port))"

definition block_begin :: "c43_graph \<Rightarrow> nat \<Rightarrow> c43_graph" where
  "block_begin g slot =
     (let r = storage_clear (graph_command g slot);
          r = r\<lparr>cr_block_txn := (cr_block_txn r)\<lparr>bt_flow := C43_BLOCK_FLOW_SUBMIT_START,
            bt_provider_generation := bp_generation (pv_block (gr_providers g))\<rparr>\<rparr>;
          ob = block_record_sync r ((graph_observed g slot)\<lparr>co_phase := FWLAB_C43_PHASE_RESOLVE_WAIT\<rparr>);
          (request, built) = block_request_build r (pv_block (gr_providers g));
          r = r\<lparr>cr_block_txn := (cr_block_txn r)\<lparr>bt_request := request\<rparr>\<rparr>;
          g = graph_put g slot r ob
      in if \<not> built then block_fault g slot else g)"

definition block_submit_step ::
  "'p c43_provider_ops \<Rightarrow> c43_graph \<Rightarrow> 'p \<Rightarrow> nat \<Rightarrow> c43_graph \<times> 'p \<times> u32" where
  "block_submit_step ops g p slot =
     (let bt = cr_block_txn (graph_command g slot);
          (disposition, result, p) =
            op_block_submit ops p (bt_request bt) poison_hif_action_submit_result
      in if disposition = FWLAB_HIF_ACTION_BACKPRESSURE then (g, p, 0)
         else if disposition = FWLAB_HIF_ACTION_REJECTED then (block_rejected g slot, p, 1)
         else let bt' = (if disposition = FWLAB_HIF_ACTION_ACCEPTED then bt\<lparr>bt_provider_owned := 1\<rparr> else bt);
                  g' = graph_put g slot ((graph_command g slot)\<lparr>cr_block_txn := bt'\<rparr>) (graph_observed g slot)
              in if disposition \<noteq> FWLAB_HIF_ACTION_ACCEPTED \<or>
                    \<not> queue_submit_result_valid result (ae_token (bq_common (bt_request bt)))
                 then (block_fault g' slot, p, 1)
                 else (block_store g' slot (bt'\<lparr>bt_flow := C43_BLOCK_FLOW_QUERY\<rparr>) id, p, 1))"

definition block_query_step ::
  "'p c43_provider_ops \<Rightarrow> c43_graph \<Rightarrow> 'p \<Rightarrow> nat \<Rightarrow> c43_graph \<times> 'p \<times> u32" where
  "block_query_step ops g p slot =
     (let bt = cr_block_txn (graph_command g slot);
          (result, reply, ready, p) = op_block_query ops p
            (ae_token (bq_common (bt_request bt))) poison_c43_block_action_terminal True;
          settle = (\<lambda>status satisfied. block_store g slot (bt\<lparr>bt_resolved_status := status,
              bt_terminal := reply, bt_terminal_kind := bx_block_terminal_kind reply,
              bt_resolution_valid := 1, bt_flow := C43_BLOCK_FLOW_DONE\<rparr>)
            (\<lambda>ob. ob\<lparr>co_satisfied_witness_mask := co_satisfied_witness_mask ob OR satisfied,
               co_phase := FWLAB_C43_PHASE_ACTION_WAIT, co_success_eligible := 0\<rparr>))
      in if result = FWLAB_C43_API_IN_PROGRESS
         then if \<not> ready \<or> reply \<noteq> poison_c43_block_action_terminal
              then (block_fault g slot, p, 1) else (g, p, 0)
         else if result \<noteq> FWLAB_C43_API_OK then (block_fault g slot, p, 1)
         else if \<not> ready
         then if reply \<noteq> poison_c43_block_action_terminal then (block_fault g slot, p, 1) else (g, p, 0)
         else if \<not> fwlab_c43_block_action_terminal_matches_request (bt_request bt) reply
                     (pv_block (gr_providers g))
         then (block_fault g slot, p, 1)
         else if bx_block_terminal_kind reply = FWLAB_C43_BLOCK_VALIDATED_ONLY
         then (settle FWLAB_C43_STATUS_SUCCESS FWLAB_C43_WITNESS_VALIDATED_ONLY, p, 1)
         else if bx_block_terminal_kind reply = FWLAB_C43_BLOCK_FAILED_NO_EFFECT
         then (settle FWLAB_C43_STATUS_MEDIA_FAILURE 0, p, 1)
         else (block_fault g slot, p, 1))"

definition block_record_step ::
  "'p c43_provider_ops \<Rightarrow> c43_graph \<Rightarrow> 'p \<Rightarrow> nat \<Rightarrow> (c43_graph \<times> 'p \<times> u32) option" where
  "block_record_step ops g p slot =
     (let flow = bt_flow (cr_block_txn (graph_command g slot))
      in if flow = C43_BLOCK_FLOW_NONE then Some (block_begin g slot, p, 1)
         else if flow = C43_BLOCK_FLOW_SUBMIT_START then Some (block_submit_step ops g p slot)
         else if flow = C43_BLOCK_FLOW_QUERY then Some (block_query_step ops g p slot)
         else None)"

section \<open>Service\<close>

definition phase4_record_step ::
  "'p c43_provider_ops \<Rightarrow> c43_graph \<Rightarrow> 'p \<Rightarrow> nat \<Rightarrow> (c43_graph \<times> 'p \<times> u32) option" where
  "phase4_record_step ops g p slot =
     (let r = graph_command g slot; kind = pl_kind (cr_plan r)
      in if cr_in_use r = 0 \<or> cr_state r \<noteq> C43_COMMAND_RECORD_ADMITTED then None
         else if kind = FWLAB_C43_PLAN_ABORT_RESOLVE then target_record_step ops g p slot
         else if kind = FWLAB_C43_PLAN_BLOCK then block_record_step ops g p slot
         else queue_record_step ops g p slot)"

text \<open>
  The loop over the slots from \<open>next_service_slot\<close> on: the first record with something to do is
  served and the service slot moves behind it. The result is the number of units executed.
\<close>

fun phase4_scan ::
  "'p c43_provider_ops \<Rightarrow> c43_graph \<Rightarrow> 'p \<Rightarrow> nat list \<Rightarrow> c43_graph \<times> 'p \<times> u32 \<times> u32" where
  "phase4_scan ops g p [] = (g, p, 0, 0)"
| "phase4_scan ops g p (offset # offsets) =
     (let slot = (unat (gr_next_service_slot g) + offset) mod FWLAB_C43_MAX_COMMANDS
      in case phase4_record_step ops g p slot of
           None \<Rightarrow> phase4_scan ops g p offsets
         | Some (g', p', transitions) \<Rightarrow>
             (g'\<lparr>gr_next_service_slot := of_nat ((slot + 1) mod FWLAB_C43_MAX_COMMANDS)\<rparr>, p', transitions, 1))"

definition c43_phase4_step ::
  "'p c43_provider_ops \<Rightarrow> c43_graph \<Rightarrow> 'p \<Rightarrow> c43_graph \<times> 'p \<times> u32 \<times> u32" where
  "c43_phase4_step ops g p = phase4_scan ops g p [0..<FWLAB_C43_MAX_COMMANDS]"

end
