(* ===== verification/Nvme_Graph.thy ===== *)
theory Nvme_Graph
  imports Nvme_Flow
begin

text \<open>
  The NVMe command graph as its clients see it: creation and validity
  (\<open>core/c4-nvme/c43_instance.c\<close>), and reservation, admission and the bounded step
  (\<open>core/c4-nvme/c43_graph.c\<close>). Pointers are values here, so the tests for null, for overlapping
  arguments and for the size and alignment of the arena have nothing to test. An operation returns
  its result code, the graph, and the output if the code writes one.
\<close>

section \<open>Instance\<close>

definition counter_seed_valid :: "c43_counter_seed \<Rightarrow> bool" where
  "counter_seed_valid sd \<longleftrightarrow> seed_next sd \<noteq> 0 \<and> seed_maximum sd \<noteq> 0 \<and> seed_next sd \<le> seed_maximum sd"

definition counter_cursor_init :: "c43_counter_seed \<Rightarrow> c43_counter_cursor" where
  "counter_cursor_init sd = zero_c43_counter_cursor\<lparr>cur_next := seed_next sd, cur_maximum := seed_maximum sd\<rparr>"

definition fwlab_c43_graph_config_valid :: "c43_graph_config \<Rightarrow> bool" where
  "fwlab_c43_graph_config_valid gc \<longleftrightarrow>
     gc_version gc = FWLAB_C43_GRAPH_VERSION \<and> gc_size gc = sizeof_c43_graph_config \<and>
     gc_reserved_header gc = 0 \<and> c43_profile_is_fixed (gc_profile gc) \<and> gc_command_capacity gc = 4 \<and>
     gc_actions_per_command gc = 8 \<and> gc_queue_mailbox_capacity gc = 8 \<and>
     gc_target_mailbox_capacity gc = 4 \<and> gc_block_mailbox_capacity gc = 20 \<and>
     gc_dma_mailbox_capacity gc = 0 \<and> gc_service_gap_maximum gc = 64 \<and>
     gc_ordinary_progress_maximum gc = 128 \<and> gc_control_progress_maximum gc = 256 \<and>
     gc_safety_generation gc \<noteq> 0 \<and> gc_reserved_alignment gc = 0 \<and> gc_instance_nonce gc \<noteq> 0 \<and>
     gc_controller_epoch gc \<noteq> 0 \<and> gc_reserved0 gc = 0 \<and> counter_seed_valid (gc_command_uid gc) \<and>
     counter_seed_valid (gc_action_uid gc) \<and> counter_seed_valid (gc_transaction_uid gc) \<and>
     counter_seed_valid (gc_lease_uid gc) \<and> counter_seed_valid (gc_consume_uid gc) \<and>
     counter_seed_valid (gc_finalizer_uid gc) \<and> words_zero (gc_reserved1 gc)"

definition fwlab_c43_queue_effect_port_valid :: "c43_port \<Rightarrow> bool" where
  "fwlab_c43_queue_effect_port_valid po \<longleftrightarrow>
     (if \<not> po_ops_present po \<or> \<not> po_context_present po \<or> po_generation po = 0 then False
      else po_ops_version po = FWLAB_C43_QUEUE_EFFECT_PORT_VERSION \<and>
           po_ops_size po = sizeof_c43_queue_effect_port_ops \<and> po_ops_reserved0 po = 0 \<and>
           list_all id (po_ops_functions po) \<and> words_zero (po_ops_reserved1 po))"

definition fwlab_c43_target_resolver_port_valid :: "c43_port \<Rightarrow> bool" where
  "fwlab_c43_target_resolver_port_valid po \<longleftrightarrow>
     (if \<not> po_ops_present po \<or> \<not> po_context_present po \<or> po_generation po = 0 then False
      else po_ops_version po = FWLAB_C43_TARGET_RESOLVER_PORT_VERSION \<and>
           po_ops_size po = sizeof_c43_target_resolver_port_ops \<and> po_ops_reserved0 po = 0 \<and>
           list_all id (po_ops_functions po) \<and> words_zero (po_ops_reserved1 po))"

definition providers_valid :: "c43_graph_providers \<Rightarrow> bool" where
  "providers_valid pv \<longleftrightarrow>
     pv_version pv = FWLAB_C43_PROVIDER_BUNDLE_VERSION \<and> pv_size pv = sizeof_c43_graph_providers \<and>
     pv_reserved0 pv = 0 \<and> fwlab_c43_queue_effect_port_valid (pv_queue pv) \<and>
     fwlab_c43_target_resolver_port_valid (pv_target pv) \<and>
     fwlab_c43_block_action_port_valid (pv_block pv) \<and>
     bp_capability_bits (pv_block pv) = FWLAB_C43_BLOCK_CAP_VALIDATION_ONLY \<and>
     pv_dma_generation pv \<noteq> 0 \<and> pv_dma_bound pv = 0 \<and> words_zero (pv_reserved pv)"

definition fwlab_c43_graph_init ::
  "c43_graph_config \<Rightarrow> c43_graph_providers \<Rightarrow> c43_graph_result \<times> c43_graph option" where
  "fwlab_c43_graph_init config providers =
     (if \<not> fwlab_c43_graph_config_valid config \<or> \<not> providers_valid providers
      then (FWLAB_C43_GRAPH_INVALID, None)
      else (FWLAB_C43_GRAPH_OK, Some
        \<lparr>gr_magic = FWLAB_C43_INTERNAL_MAGIC, gr_config = config, gr_providers = providers,
         gr_command_uid = counter_cursor_init (gc_command_uid config),
         gr_action_uid = counter_cursor_init (gc_action_uid config),
         gr_transaction_uid = counter_cursor_init (gc_transaction_uid config),
         gr_lease_uid = counter_cursor_init (gc_lease_uid config),
         gr_consume_uid = counter_cursor_init (gc_consume_uid config),
         gr_finalizer_uid = counter_cursor_init (gc_finalizer_uid config),
         gr_commands = replicate 4 zero_c43_command_record,
         gr_queue_authority = zero_c43_queue_authority, gr_next_service_slot = 0,
         gr_reserved_scheduler = replicate 3 0,
         gr_observer = zero_c43_graph_observer
           \<lparr>go_version := FWLAB_C43_GRAPH_VERSION, go_size := sizeof_c43_graph_observer,
            go_controller_epoch := gc_controller_epoch config,
            go_instance_nonce := gc_instance_nonce config,
            go_provider_generation := [po_generation (pv_queue providers), pv_dma_generation providers,
              bp_generation (pv_block providers), po_generation (pv_target providers)],
            go_commands := replicate 4 (zero_c43_command_observer
              \<lparr>co_phase := FWLAB_C43_PHASE_FREE, co_publication := FWLAB_C43_PUBLICATION_ELIGIBLE\<rparr>)\<rparr>\<rparr>))"

section \<open>Keys and identity counters\<close>

definition prepare_key_structural_valid :: "hif_prepare_key \<Rightarrow> bool" where
  "prepare_key_structural_valid key \<longleftrightarrow>
     pk_version key = FWLAB_HIF_COMMAND_PORT_VERSION \<and> pk_size key = sizeof_hif_prepare_key \<and>
     pk_reserved0 key = 0 \<and> origin_valid (pk_origin key) \<and> pk_client_uid key \<noteq> 0 \<and>
     pk_instance_nonce key \<noteq> 0 \<and> pk_controller_epoch key \<noteq> 0 \<and> pk_client_generation key \<noteq> 0 \<and>
     (pk_queue_class key = ucast FWLAB_NVME_QUEUE_ADMIN \<or> pk_queue_class key = ucast FWLAB_NVME_QUEUE_IO) \<and>
     pk_worst_case_actions key = 8 \<and> words_zero (pk_reserved1 key)"

definition c43_prepare_key_valid :: "c43_graph_config \<Rightarrow> hif_prepare_key \<Rightarrow> bool" where
  "c43_prepare_key_valid gc key \<longleftrightarrow> prepare_key_structural_valid key \<and>
     pk_instance_nonce key = gc_instance_nonce gc \<and> pk_controller_epoch key = gc_controller_epoch gc"

definition prepare_key_identity_equal :: "hif_prepare_key \<Rightarrow> hif_prepare_key \<Rightarrow> bool" where
  "prepare_key_identity_equal left right \<longleftrightarrow>
     pk_instance_nonce left = pk_instance_nonce right \<and>
     pk_controller_epoch left = pk_controller_epoch right \<and>
     pk_client_uid left = pk_client_uid right \<and> pk_client_generation left = pk_client_generation right"

definition prepare_key_equal :: "hif_prepare_key \<Rightarrow> hif_prepare_key \<Rightarrow> bool" where
  "prepare_key_equal left right \<longleftrightarrow>
     prepare_key_identity_equal left right \<and> pk_origin left = pk_origin right \<and>
     pk_queue_class left = pk_queue_class right \<and>
     pk_worst_case_actions left = pk_worst_case_actions right"

definition prepare_key_copy :: "hif_prepare_key \<Rightarrow> hif_prepare_key" where
  "prepare_key_copy key = zero_hif_prepare_key
     \<lparr>pk_version := pk_version key, pk_size := pk_size key, pk_origin := pk_origin key,
      pk_client_uid := pk_client_uid key, pk_instance_nonce := pk_instance_nonce key,
      pk_controller_epoch := pk_controller_epoch key, pk_client_generation := pk_client_generation key,
      pk_queue_class := pk_queue_class key, pk_worst_case_actions := pk_worst_case_actions key\<rparr>"

definition cursor_valid :: "c43_counter_cursor \<Rightarrow> c43_counter_seed \<Rightarrow> bool" where
  "cursor_valid cur sd \<longleftrightarrow>
     (if cur_maximum cur \<noteq> seed_maximum sd \<or> \<not> words_zero (cur_reserved cur) then False
      else if cur_exhausted cur \<noteq> 0 then cur_exhausted cur = 1 \<and> cur_next cur = 0
      else cur_next cur \<ge> seed_next sd \<and> cur_next cur \<noteq> 0 \<and> cur_next cur \<le> cur_maximum cur)"

definition cursor_can_take :: "c43_counter_cursor \<Rightarrow> u64 \<Rightarrow> bool" where
  "cursor_can_take cur count \<longleftrightarrow>
     cur_exhausted cur = 0 \<and> count \<noteq> 0 \<and> cur_next cur \<noteq> 0 \<and> cur_next cur \<le> cur_maximum cur \<and>
     count - 1 \<le> cur_maximum cur - cur_next cur"

definition cursor_consumed :: "c43_counter_cursor \<Rightarrow> c43_counter_seed \<Rightarrow> u64 \<Rightarrow> bool" where
  "cursor_consumed cur sd value \<longleftrightarrow>
     value \<ge> seed_next sd \<and> value \<le> cur_maximum cur \<and> (cur_exhausted cur \<noteq> 0 \<or> value < cur_next cur)"

definition cursor_take :: "c43_counter_cursor \<Rightarrow> u64 \<Rightarrow> u64 \<times> c43_counter_cursor" where
  "cursor_take cur count =
     (cur_next cur,
      if count - 1 = cur_maximum cur - cur_next cur
      then cur\<lparr>cur_next := 0, cur_exhausted := 1\<rparr>
      else cur\<lparr>cur_next := cur_next cur + count\<rparr>)"

section \<open>Validity of reservations\<close>

definition prepared_identity_valid :: "c43_graph \<Rightarrow> c43_command_record \<Rightarrow> bool" where
  "prepared_identity_valid g r \<longleftrightarrow>
     (let gc = gr_config g; pt = cr_prepared r
      in \<not> (\<not> c43_prepare_key_valid gc (cr_key r) \<or> \<not> handle_valid (pt_handle pt) \<or>
            \<not> origin_valid (pt_origin pt) \<or> pt_reservation_uid pt = 0 \<or>
            pt_generation pt \<noteq> gc_safety_generation gc \<or> pt_reserved pt \<noteq> 0 \<or>
            cmd_instance_nonce (pt_handle pt) \<noteq> gc_instance_nonce gc \<or>
            cmd_controller_epoch (pt_handle pt) \<noteq> gc_controller_epoch gc \<or>
            cmd_generation (pt_handle pt) \<noteq> gc_safety_generation gc \<or>
            pt_origin pt \<noteq> pk_origin (cr_key r) \<or> cr_transaction_uid r \<noteq> pt_reservation_uid pt \<or>
            cr_lease_uid r = 0 \<or> cr_consume_uid r = 0 \<or> cr_finalizer_uid r = 0 \<or>
            cr_reservation_credit_mask r \<noteq> FWLAB_C43_CREDIT_ALL \<or> cr_incoming_target_pins r > 1 \<or>
            \<not> words_zero (cr_reserved1 r)))"

definition action_reserved :: "c43_graph \<Rightarrow> c43_command_record \<Rightarrow> nat \<Rightarrow> bool" where
  "action_reserved g r index \<longleftrightarrow>
     (let action = cr_actions r ! index
      in \<not> (act_action_uid action = 0 \<or>
            act_action_uid action \<noteq> act_action_uid (cr_actions r ! 0) + of_nat index \<or>
            act_generation action \<noteq> gc_safety_generation (gr_config g) \<or>
            act_ordinal action \<noteq> of_nat index \<or> act_state action \<noteq> C43_ACTION_RECORD_RESERVED \<or>
            \<not> words_zero (act_reserved action)))"

definition admitted_identity_valid :: "c43_graph \<Rightarrow> c43_command_record \<Rightarrow> bool" where
  "admitted_identity_valid g r \<longleftrightarrow>
     (let pt = cr_prepared r; ct = cr_ticket r; rq = cr_request r; pl = cr_plan r
      in \<not> (cr_state r \<noteq> C43_COMMAND_RECORD_ADMITTED \<or> \<not> c43_ticket_valid ct \<or>
            \<not> fwlab_c43_policy_request_valid rq \<or> \<not> fwlab_c43_policy_plan_valid pl \<or>
            ct_handle ct \<noteq> pt_handle pt \<or> ct_origin ct \<noteq> pt_origin pt \<or>
            ct_ticket_uid ct \<noteq> cr_transaction_uid r \<or>
            ct_generation ct \<noteq> gc_safety_generation (gr_config g) \<or> pr_handle rq \<noteq> pt_handle pt \<or>
            pr_origin rq \<noteq> pt_origin pt \<or> pr_transaction_uid rq \<noteq> cr_transaction_uid r \<or>
            ucast (pr_queue_class rq) \<noteq> pk_queue_class (cr_key r) \<or> pl_command pl \<noteq> pt_handle pt \<or>
            pl_origin pl \<noteq> pt_origin pt \<or> pl_transaction_uid pl \<noteq> cr_transaction_uid r))"

definition prepared_valid :: "c43_graph \<Rightarrow> c43_command_record \<Rightarrow> bool" where
  "prepared_valid g r \<longleftrightarrow>
     (if \<not> prepared_identity_valid g r \<or> \<not> list_all (action_reserved g r) [0..<FWLAB_C43_ACTIONS_PER_COMMAND]
      then False
      else if cr_state r = C43_COMMAND_RECORD_PREPARED
      then cr_incoming_target_pins r = 0 \<and> cr_ticket r = zero_hif_command_ticket \<and>
           cr_request r = zero_c43_policy_request \<and> cr_plan r = zero_c43_policy_plan
      else if \<not> admitted_identity_valid g r then False
      else fwlab_c43_policy_begin (gc_profile (gr_config g)) (cr_request r) = Inr (cr_plan r))"

definition observer_matches_record :: "c43_command_record \<Rightarrow> c43_command_observer \<Rightarrow> bool" where
  "observer_matches_record r ob \<longleftrightarrow>
     (let common = (co_in_use ob = 1 \<and> co_handle ob = pt_handle (cr_prepared r) \<and>
            co_origin ob = pt_origin (cr_prepared r) \<and> co_transaction_uid ob = cr_transaction_uid r \<and>
            co_terminal_winner ob = FWLAB_C43_WINNER_NONE \<and>
            co_publication ob = FWLAB_C43_PUBLICATION_ELIGIBLE \<and> co_action_count ob = 8 \<and>
            co_reservation_credit_mask ob = FWLAB_C43_CREDIT_ALL \<and>
            co_first_action_uid ob = act_action_uid (cr_actions r ! 0) \<and>
            co_action_generation ob = act_generation (cr_actions r ! 0) \<and>
            co_provider_generation_current ob = 1 \<and>
            co_incoming_target_pins ob = cr_incoming_target_pins r)
      in if \<not> common then False
         else if cr_state r = C43_COMMAND_RECORD_PREPARED
         then co_phase ob = FWLAB_C43_PHASE_PREPARED \<and> co_required_witness_mask ob = 0 \<and>
              co_satisfied_witness_mask ob = 0 \<and> co_success_eligible ob = 0
         else cr_state r = C43_COMMAND_RECORD_ADMITTED \<and>
              co_phase ob \<ge> FWLAB_C43_PHASE_ADMITTED_POLICY \<and>
              co_required_witness_mask ob = pl_required_witness_mask (cr_plan r))"

definition records_apart :: "c43_command_record \<Rightarrow> c43_command_record \<Rightarrow> bool" where
  "records_apart r prior \<longleftrightarrow>
     (if cr_in_use prior \<noteq> 0
      then \<not> (prepare_key_identity_equal (cr_key r) (cr_key prior) \<or>
              pk_origin (cr_key r) = pk_origin (cr_key prior) \<or>
              pt_handle (cr_prepared r) = pt_handle (cr_prepared prior) \<or>
              cr_transaction_uid r = cr_transaction_uid prior \<or> cr_lease_uid r = cr_lease_uid prior \<or>
              cr_consume_uid r = cr_consume_uid prior \<or> cr_finalizer_uid r = cr_finalizer_uid prior) \<and>
           list_all (\<lambda>left_action. list_all (\<lambda>right_action.
               act_action_uid (cr_actions r ! left_action) \<noteq> act_action_uid (cr_actions prior ! right_action))
             [0..<FWLAB_C43_ACTIONS_PER_COMMAND]) [0..<FWLAB_C43_ACTIONS_PER_COMMAND]
      else True)"

definition identities_consumed :: "c43_graph \<Rightarrow> c43_command_record \<Rightarrow> bool" where
  "identities_consumed g r \<longleftrightarrow>
     (let gc = gr_config g
      in cursor_consumed (gr_command_uid g) (gc_command_uid gc) (cmd_command_uid (pt_handle (cr_prepared r))) \<and>
         cursor_consumed (gr_action_uid g) (gc_action_uid gc) (act_action_uid (cr_actions r ! 0)) \<and>
         cursor_consumed (gr_action_uid g) (gc_action_uid gc)
           (act_action_uid (cr_actions r ! (FWLAB_C43_ACTIONS_PER_COMMAND - 1))) \<and>
         cursor_consumed (gr_transaction_uid g) (gc_transaction_uid gc) (cr_transaction_uid r) \<and>
         cursor_consumed (gr_lease_uid g) (gc_lease_uid gc) (cr_lease_uid r) \<and>
         cursor_consumed (gr_consume_uid g) (gc_consume_uid gc) (cr_consume_uid r) \<and>
         cursor_consumed (gr_finalizer_uid g) (gc_finalizer_uid gc) (cr_finalizer_uid r))"

definition reservation_round :: "c43_graph \<Rightarrow> nat \<Rightarrow> bool" where
  "reservation_round g left \<longleftrightarrow>
     (let r = graph_command g left
      in if cr_in_use r = 0
         then r = zero_c43_command_record \<and> co_in_use (graph_observed g left) = 0
         else \<not> (cr_in_use r \<noteq> 1 \<or> \<not> prepared_valid g r \<or>
                 \<not> observer_matches_record r (graph_observed g left)) \<and>
              list_all (\<lambda>right. records_apart r (graph_command g right)) [0..<left] \<and>
              identities_consumed g r)"

definition cursors_valid :: "c43_graph \<Rightarrow> bool" where
  "cursors_valid g \<longleftrightarrow>
     (let gc = gr_config g
      in cursor_valid (gr_command_uid g) (gc_command_uid gc) \<and>
         cursor_valid (gr_action_uid g) (gc_action_uid gc) \<and>
         cursor_valid (gr_transaction_uid g) (gc_transaction_uid gc) \<and>
         cursor_valid (gr_lease_uid g) (gc_lease_uid gc) \<and>
         cursor_valid (gr_consume_uid g) (gc_consume_uid gc) \<and>
         cursor_valid (gr_finalizer_uid g) (gc_finalizer_uid gc))"

definition active_commands :: "c43_graph \<Rightarrow> nat" where
  "active_commands g = length (filter (\<lambda>r. cr_in_use r \<noteq> 0) (gr_commands g))"

definition c43_reservation_state_valid :: "c43_graph \<Rightarrow> bool" where
  "c43_reservation_state_valid g \<longleftrightarrow>
     cursors_valid g \<and> list_all (reservation_round g) [0..<FWLAB_C43_MAX_COMMANDS] \<and>
     go_active_commands (gr_observer g) = of_nat (active_commands g) \<and>
     go_active_actions (gr_observer g) = of_nat (active_commands g * FWLAB_C43_ACTIONS_PER_COMMAND)"

definition c43_graph_valid :: "c43_graph \<Rightarrow> bool" where
  "c43_graph_valid g \<longleftrightarrow>
     gr_magic g = FWLAB_C43_INTERNAL_MAGIC \<and> fwlab_c43_graph_config_valid (gr_config g) \<and>
     providers_valid (gr_providers g) \<and> c43_reservation_state_valid g \<and> c43_phase4_state_valid g \<and>
     fwlab_c43_graph_observer_valid (gr_observer g)"

definition fwlab_c43_graph_observer_read :: "c43_graph \<Rightarrow> c43_graph_result \<times> c43_graph_observer option" where
  "fwlab_c43_graph_observer_read g =
     (if \<not> c43_graph_valid g then (FWLAB_C43_GRAPH_INVALID, None)
      else (FWLAB_C43_GRAPH_OK, Some (gr_observer g)))"

section \<open>Reservation\<close>

definition prepare_result_set :: "u32 \<Rightarrow> hif_prepared_token option \<Rightarrow> hif_prepare_result" where
  "prepare_result_set disposition prepared =
     (let local = zero_hif_prepare_result\<lparr>pu_version := FWLAB_HIF_COMMAND_PORT_VERSION,
            pu_size := sizeof_hif_prepare_result, pu_disposition := disposition\<rparr>
      in case prepared of None \<Rightarrow> local | Some pt \<Rightarrow> local\<lparr>pu_prepared := pt\<rparr>)"

fun existing_key_scan ::
  "c43_command_record list \<Rightarrow> nat \<Rightarrow> hif_prepare_key \<Rightarrow> c43_graph_result \<times> nat" where
  "existing_key_scan [] index key = (FWLAB_C43_GRAPH_STALE, FWLAB_C43_MAX_COMMANDS)"
| "existing_key_scan (r # rs) index key =
     (if cr_in_use r = 0 then existing_key_scan rs (index + 1) key
      else if prepare_key_identity_equal (cr_key r) key
      then if \<not> prepare_key_equal (cr_key r) key then (FWLAB_C43_GRAPH_POISONED, FWLAB_C43_MAX_COMMANDS)
           else (FWLAB_C43_GRAPH_OK, index)
      else if pk_origin (cr_key r) = pk_origin key then (FWLAB_C43_GRAPH_POISONED, FWLAB_C43_MAX_COMMANDS)
      else existing_key_scan rs (index + 1) key)"

definition existing_key_result :: "c43_graph \<Rightarrow> hif_prepare_key \<Rightarrow> c43_graph_result \<times> nat" where
  "existing_key_result g key = existing_key_scan (gr_commands g) 0 key"

definition prepared_token_structural_valid :: "hif_prepared_token \<Rightarrow> bool" where
  "prepared_token_structural_valid pt \<longleftrightarrow>
     handle_valid (pt_handle pt) \<and> origin_valid (pt_origin pt) \<and> pt_reservation_uid pt \<noteq> 0 \<and>
     pt_generation pt \<noteq> 0 \<and> pt_reserved pt = 0"

text \<open>\<open>prepared_token_equal\<close> is equality of tokens.\<close>

fun find_prepared_scan ::
  "c43_command_record list \<Rightarrow> nat \<Rightarrow> hif_prepared_token \<Rightarrow> c43_graph_result \<times> nat" where
  "find_prepared_scan [] index pt = (FWLAB_C43_GRAPH_STALE, FWLAB_C43_MAX_COMMANDS)"
| "find_prepared_scan (r # rs) index pt =
     (if cr_in_use r = 0 then find_prepared_scan rs (index + 1) pt
      else if pt_handle (cr_prepared r) = pt_handle pt \<or>
              pt_reservation_uid (cr_prepared r) = pt_reservation_uid pt
      then if cr_prepared r \<noteq> pt then (FWLAB_C43_GRAPH_POISONED, FWLAB_C43_MAX_COMMANDS)
           else (FWLAB_C43_GRAPH_OK, index)
      else if pt_origin (cr_prepared r) = pt_origin pt then (FWLAB_C43_GRAPH_POISONED, FWLAB_C43_MAX_COMMANDS)
      else find_prepared_scan rs (index + 1) pt)"

definition find_prepared_record :: "c43_graph \<Rightarrow> hif_prepared_token \<Rightarrow> c43_graph_result \<times> nat" where
  "find_prepared_record g pt = find_prepared_scan (gr_commands g) 0 pt"

definition request_matches_prepared :: "c43_policy_request \<Rightarrow> hif_prepared_token \<Rightarrow> u16 \<Rightarrow> bool" where
  "request_matches_prepared rq pt queue_class \<longleftrightarrow>
     pr_handle rq = pt_handle pt \<and> pr_origin rq = pt_origin pt \<and>
     pr_transaction_uid rq = pt_reservation_uid pt \<and> ucast (pr_queue_class rq) = queue_class"

text \<open>The cursors a reservation takes from, and the record and observer entry it creates.\<close>

definition reservation_counters :: "c43_graph \<Rightarrow> bool" where
  "reservation_counters g \<longleftrightarrow>
     cursor_can_take (gr_command_uid g) 1 \<and> cursor_can_take (gr_action_uid g) 8 \<and>
     cursor_can_take (gr_transaction_uid g) 1 \<and> cursor_can_take (gr_lease_uid g) 1 \<and>
     cursor_can_take (gr_consume_uid g) 1 \<and> cursor_can_take (gr_finalizer_uid g) 1"

definition reservation_advance :: "c43_graph \<Rightarrow> c43_graph" where
  "reservation_advance g =
     g\<lparr>gr_command_uid := snd (cursor_take (gr_command_uid g) 1),
       gr_action_uid := snd (cursor_take (gr_action_uid g) 8),
       gr_transaction_uid := snd (cursor_take (gr_transaction_uid g) 1),
       gr_lease_uid := snd (cursor_take (gr_lease_uid g) 1),
       gr_consume_uid := snd (cursor_take (gr_consume_uid g) 1),
       gr_finalizer_uid := snd (cursor_take (gr_finalizer_uid g) 1)\<rparr>"

definition reservation_record :: "c43_graph \<Rightarrow> hif_prepare_key \<Rightarrow> c43_command_record" where
  "reservation_record g key =
     (let gc = gr_config g;
          command_uid = fst (cursor_take (gr_command_uid g) 1);
          action_uid = fst (cursor_take (gr_action_uid g) 8);
          transaction_uid = fst (cursor_take (gr_transaction_uid g) 1)
      in zero_c43_command_record
           \<lparr>cr_lease_uid := fst (cursor_take (gr_lease_uid g) 1),
            cr_consume_uid := fst (cursor_take (gr_consume_uid g) 1),
            cr_finalizer_uid := fst (cursor_take (gr_finalizer_uid g) 1),
            cr_key := prepare_key_copy key,
            cr_prepared := zero_hif_prepared_token
              \<lparr>pt_handle := \<lparr>cmd_instance_nonce = gc_instance_nonce gc, cmd_command_uid = command_uid,
                 cmd_controller_epoch = gc_controller_epoch gc, cmd_generation = gc_safety_generation gc\<rparr>,
               pt_origin := pk_origin key, pt_reservation_uid := transaction_uid,
               pt_generation := gc_safety_generation gc\<rparr>,
            cr_transaction_uid := transaction_uid, cr_reservation_credit_mask := FWLAB_C43_CREDIT_ALL,
            cr_state := C43_COMMAND_RECORD_PREPARED, cr_in_use := 1,
            cr_actions := map (\<lambda>index. zero_c43_action_record
              \<lparr>act_action_uid := action_uid + of_nat index, act_generation := gc_safety_generation gc,
               act_ordinal := of_nat index, act_state := C43_ACTION_RECORD_RESERVED\<rparr>)
              [0..<FWLAB_C43_ACTIONS_PER_COMMAND]\<rparr>)"

definition reservation_observed :: "c43_graph \<Rightarrow> c43_command_record \<Rightarrow> c43_command_observer" where
  "reservation_observed g r = zero_c43_command_observer
     \<lparr>co_handle := pt_handle (cr_prepared r), co_origin := pt_origin (cr_prepared r),
      co_transaction_uid := cr_transaction_uid r, co_phase := FWLAB_C43_PHASE_PREPARED,
      co_publication := FWLAB_C43_PUBLICATION_ELIGIBLE, co_action_count := 8, co_in_use := 1,
      co_reservation_credit_mask := FWLAB_C43_CREDIT_ALL,
      co_first_action_uid := fst (cursor_take (gr_action_uid g) 8),
      co_action_generation := gc_safety_generation (gr_config g), co_provider_generation_current := 1\<rparr>"

definition reservation_credits :: "c43_graph_observer \<Rightarrow> c43_graph_observer" where
  "reservation_credits ob = ob
     \<lparr>go_active_commands := go_active_commands ob + 1, go_active_actions := go_active_actions ob + 8,
      go_reserved_intent_credits := go_reserved_intent_credits ob + 1,
      go_reserved_ready_credits := go_reserved_ready_credits ob + 1,
      go_reserved_lease_credits := go_reserved_lease_credits ob + 1,
      go_reserved_consume_credits := go_reserved_consume_credits ob + 1,
      go_reserved_finalizer_credits := go_reserved_finalizer_credits ob + 1,
      go_reserved_abort_credits := go_reserved_abort_credits ob + 1,
      go_reserved_target_credits := go_reserved_target_credits ob + 1,
      go_reserved_queue_transaction_credits := go_reserved_queue_transaction_credits ob + 1,
      go_reserved_block_intent_credits := go_reserved_block_intent_credits ob + 1\<rparr>"

definition reservation_store :: "c43_graph \<Rightarrow> nat \<Rightarrow> hif_prepare_key \<Rightarrow> c43_graph" where
  "reservation_store g index key =
     (let r = reservation_record g key;
          stored = graph_put (reservation_advance g) index r (reservation_observed g r)
      in stored\<lparr>gr_observer := reservation_credits (gr_observer stored)\<rparr>)"

definition free_slot :: "c43_graph \<Rightarrow> nat option" where
  "free_slot g = find (\<lambda>index. cr_in_use (graph_command g index) = 0) [0..<FWLAB_C43_MAX_COMMANDS]"

definition fwlab_c43_graph_prepare_start ::
  "c43_graph \<Rightarrow> hif_prepare_key \<Rightarrow> c43_graph_result \<times> c43_graph \<times> hif_prepare_result option" where
  "fwlab_c43_graph_prepare_start g key =
     (if \<not> c43_graph_valid g \<or> \<not> prepare_key_structural_valid key then (FWLAB_C43_GRAPH_INVALID, g, None)
      else if pk_instance_nonce key \<noteq> gc_instance_nonce (gr_config g) \<or>
              pk_controller_epoch key \<noteq> gc_controller_epoch (gr_config g)
      then (FWLAB_C43_GRAPH_STALE, g, None)
      else let existing = fst (existing_key_result g key)
           in if existing = FWLAB_C43_GRAPH_OK then (FWLAB_C43_GRAPH_IN_PROGRESS, g, None)
              else if existing = FWLAB_C43_GRAPH_POISONED then (existing, g, None)
              else case free_slot g of
                  None \<Rightarrow> (FWLAB_C43_GRAPH_OK, g, Some (prepare_result_set FWLAB_HIF_PREPARE_BACKPRESSURE None))
                | Some index \<Rightarrow>
                    if \<not> reservation_counters g then (FWLAB_C43_GRAPH_COUNTER_EXHAUSTED, g, None)
                    else (FWLAB_C43_GRAPH_OK, reservation_store g index key,
                          Some (prepare_result_set FWLAB_HIF_PREPARE_RESERVED
                                  (Some (cr_prepared (reservation_record g key))))))"

definition fwlab_c43_graph_prepare_query ::
  "c43_graph \<Rightarrow> hif_prepare_key \<Rightarrow> c43_graph_result \<times> hif_prepare_result option" where
  "fwlab_c43_graph_prepare_query g key =
     (if \<not> c43_graph_valid g \<or> \<not> prepare_key_structural_valid key then (FWLAB_C43_GRAPH_INVALID, None)
      else if pk_instance_nonce key \<noteq> gc_instance_nonce (gr_config g) \<or>
              pk_controller_epoch key \<noteq> gc_controller_epoch (gr_config g)
      then (FWLAB_C43_GRAPH_STALE, None)
      else let (existing, index) = existing_key_result g key
           in if existing \<noteq> FWLAB_C43_GRAPH_OK then (existing, None)
              else (FWLAB_C43_GRAPH_OK, Some (prepare_result_set FWLAB_HIF_PREPARE_RESERVED
                      (Some (cr_prepared (graph_command g index))))))"

section \<open>Admission\<close>

definition fwlab_c43_admit_result_valid :: "c43_admit_result \<Rightarrow> bool" where
  "fwlab_c43_admit_result_valid ar \<longleftrightarrow>
     ar_version ar = FWLAB_C43_ADMIT_RESULT_VERSION \<and> ar_size ar = sizeof_c43_admit_result \<and>
     ar_reserved0 ar = 0 \<and> ar_state ar = FWLAB_HIF_ADMISSION_COMMITTED \<and> ar_reserved1 ar = 0 \<and>
     c43_ticket_valid (ar_ticket ar) \<and> words_zero (ar_reserved2 ar)"

definition admit_result_set :: "hif_command_ticket \<Rightarrow> c43_admit_result" where
  "admit_result_set ticket = zero_c43_admit_result
     \<lparr>ar_version := FWLAB_C43_ADMIT_RESULT_VERSION, ar_size := sizeof_c43_admit_result,
      ar_state := FWLAB_HIF_ADMISSION_COMMITTED, ar_ticket := ticket\<rparr>"

definition admission_ticket :: "c43_graph \<Rightarrow> c43_command_record \<Rightarrow> hif_command_ticket" where
  "admission_ticket g r = zero_hif_command_ticket
     \<lparr>ct_handle := pt_handle (cr_prepared r), ct_origin := pt_origin (cr_prepared r),
      ct_ticket_uid := cr_transaction_uid r, ct_generation := gc_safety_generation (gr_config g)\<rparr>"

definition admission_store ::
  "c43_graph \<Rightarrow> nat \<Rightarrow> c43_policy_request \<Rightarrow> c43_policy_plan \<Rightarrow> c43_graph" where
  "admission_store g index request plan =
     graph_put g index
       ((graph_command g index)\<lparr>cr_request := request, cr_plan := plan,
          cr_ticket := admission_ticket g (graph_command g index), cr_state := C43_COMMAND_RECORD_ADMITTED\<rparr>)
       ((graph_observed g index)\<lparr>co_phase := FWLAB_C43_PHASE_ADMITTED_POLICY,
          co_required_witness_mask := pl_required_witness_mask plan,
          co_satisfied_witness_mask := pl_satisfied_witness_mask plan, co_success_eligible := 0\<rparr>)"

definition admit_stale :: "c43_graph \<Rightarrow> hif_prepared_token \<Rightarrow> bool" where
  "admit_stale g pt \<longleftrightarrow>
     cmd_instance_nonce (pt_handle pt) \<noteq> gc_instance_nonce (gr_config g) \<or>
     cmd_controller_epoch (pt_handle pt) \<noteq> gc_controller_epoch (gr_config g) \<or>
     cmd_generation (pt_handle pt) \<noteq> gc_safety_generation (gr_config g) \<or>
     pt_generation pt \<noteq> gc_safety_generation (gr_config g)"

definition fwlab_c43_graph_admit_start ::
  "c43_graph \<Rightarrow> hif_prepared_token \<Rightarrow> c43_policy_request \<Rightarrow> c43_graph_result \<times> c43_graph \<times> c43_admit_result option" where
  "fwlab_c43_graph_admit_start g prepared request =
     (if \<not> c43_graph_valid g \<or> \<not> prepared_token_structural_valid prepared \<or>
         \<not> fwlab_c43_policy_request_valid request then (FWLAB_C43_GRAPH_INVALID, g, None)
      else if admit_stale g prepared then (FWLAB_C43_GRAPH_STALE, g, None)
      else let (found, index) = find_prepared_record g prepared; r = graph_command g index
           in if found \<noteq> FWLAB_C43_GRAPH_OK then (found, g, None)
              else if \<not> request_matches_prepared request (cr_prepared r) (pk_queue_class (cr_key r))
              then (FWLAB_C43_GRAPH_POISONED, g, None)
              else if cr_state r = C43_COMMAND_RECORD_ADMITTED
              then (if cr_request r = request then FWLAB_C43_GRAPH_IN_PROGRESS else FWLAB_C43_GRAPH_POISONED,
                    g, None)
              else if cr_state r \<noteq> C43_COMMAND_RECORD_PREPARED then (FWLAB_C43_GRAPH_WRONG_STATE, g, None)
              else case fwlab_c43_policy_begin (gc_profile (gr_config g)) request of
                  Inl error \<Rightarrow>
                    (if error = FWLAB_C43_API_INVALID then FWLAB_C43_GRAPH_INVALID else FWLAB_C43_GRAPH_POISONED,
                     g, None)
                | Inr plan \<Rightarrow>
                    if \<not> c43_ticket_valid (admission_ticket g r) then (FWLAB_C43_GRAPH_POISONED, g, None)
                    else (FWLAB_C43_GRAPH_OK, admission_store g index request plan,
                          Some (admit_result_set (admission_ticket g r))))"

definition fwlab_c43_graph_admit_query ::
  "c43_graph \<Rightarrow> hif_prepared_token \<Rightarrow> c43_policy_request \<Rightarrow> c43_graph_result \<times> c43_admit_result option" where
  "fwlab_c43_graph_admit_query g prepared request =
     (if \<not> c43_graph_valid g \<or> \<not> prepared_token_structural_valid prepared \<or>
         \<not> fwlab_c43_policy_request_valid request then (FWLAB_C43_GRAPH_INVALID, None)
      else if admit_stale g prepared then (FWLAB_C43_GRAPH_STALE, None)
      else let (found, index) = find_prepared_record g prepared; r = graph_command g index
           in if found \<noteq> FWLAB_C43_GRAPH_OK then (found, None)
              else if \<not> request_matches_prepared request (cr_prepared r) (pk_queue_class (cr_key r)) \<or>
                      (cr_state r = C43_COMMAND_RECORD_ADMITTED \<and> cr_request r \<noteq> request)
              then (FWLAB_C43_GRAPH_POISONED, None)
              else if cr_state r \<noteq> C43_COMMAND_RECORD_ADMITTED then (FWLAB_C43_GRAPH_WRONG_STATE, None)
              else (FWLAB_C43_GRAPH_OK, Some (admit_result_set (cr_ticket r))))"

section \<open>Step\<close>

definition fwlab_c43_graph_step ::
  "'p c43_provider_ops \<Rightarrow> c43_graph \<Rightarrow> 'p \<Rightarrow> u32 \<Rightarrow> c43_graph_result \<times> c43_graph \<times> 'p \<times> c43_step_result option" where
  "fwlab_c43_graph_step ops g p budget =
     (if \<not> c43_graph_valid g \<or> budget = 0 \<or> budget > gc_ordinary_progress_maximum (gr_config g)
      then (FWLAB_C43_GRAPH_INVALID, g, p, None)
      else let (g', p', transitions, units) = c43_phase4_step ops g p
           in (FWLAB_C43_GRAPH_OK, g', p', Some (zero_c43_step_result
                 \<lparr>sr_version := FWLAB_C43_GRAPH_VERSION, sr_size := sizeof_c43_step_result,
                  sr_requested_budget := budget, sr_units_executed := units, sr_transitions := transitions,
                  sr_service_gap_maximum := units\<rparr>)))"

end
