(* ===== verification/Nvme_Graph_Wf.thy ===== *)
theory Nvme_Graph_Wf
  imports Nvme_Graph
begin

text \<open>
  The validity test of the command graph, taken apart: the two loops that thread the expected pins and
  the owner count are shown equal to conditions on single slots, on the pins and on the owner, so that
  the proofs about the operations can argue slot by slot.
\<close>

lemma less_slots: "i < FWLAB_C43_MAX_COMMANDS \<longleftrightarrow> i = 0 \<or> i = 1 \<or> i = 2 \<or> i = 3"
  by auto

lemma word_le_1: "w \<le> 1 \<longleftrightarrow> w = 0 \<or> w = 1" for w :: "'a::len word"
proof
  assume "w \<le> 1"
  then have "unat w = 0 \<or> unat w = 1"
    by (auto simp: word_le_nat_alt)
  then show "w = 0 \<or> w = 1"
    by (auto simp: word_unat_eq_iff)
qed auto

lemma all_slots: "(\<forall>i<FWLAB_C43_MAX_COMMANDS. P i) \<longleftrightarrow> P 0 \<and> P 1 \<and> P 2 \<and> P 3"
  by (auto simp: less_slots)

section \<open>Pins\<close>

text \<open>Claiming one pin of each slot in a list, as both loops do.\<close>

fun claim_pins :: "nat option list \<Rightarrow> u16 list \<Rightarrow> u16 list option" where
  "claim_pins [] expected = Some expected"
| "claim_pins (None # pins) expected = claim_pins pins expected"
| "claim_pins (Some target # pins) expected =
     (if target \<ge> FWLAB_C43_MAX_COMMANDS \<or> expected ! target \<noteq> 0 then None
      else claim_pins pins (expected[target := 1]))"

fun pins_apart :: "nat option list \<Rightarrow> bool" where
  "pins_apart [] \<longleftrightarrow> True"
| "pins_apart (None # pins) \<longleftrightarrow> pins_apart pins"
| "pins_apart (Some target # pins) \<longleftrightarrow>
     target < FWLAB_C43_MAX_COMMANDS \<and> Some target \<notin> set pins \<and> pins_apart pins"

lemma pins_apart_bound: "pins_apart pins \<Longrightarrow> Some t \<in> set pins \<Longrightarrow> t < FWLAB_C43_MAX_COMMANDS"
  by (induction pins rule: pins_apart.induct) auto

lemma pins_apart_snoc:
  "pins_apart (pins @ [p]) \<longleftrightarrow>
     pins_apart pins \<and> (\<forall>t. p = Some t \<longrightarrow> t < FWLAB_C43_MAX_COMMANDS \<and> Some t \<notin> set pins)"
  by (induction pins rule: pins_apart.induct) (cases p; auto)+

lemma claim_pins_general:
  assumes "length expected = FWLAB_C43_MAX_COMMANDS"
  shows "claim_pins pins expected =
    (if pins_apart pins \<and> (\<forall>t. Some t \<in> set pins \<longrightarrow> expected ! t = 0)
     then Some (map (\<lambda>j. if Some j \<in> set pins then 1 else expected ! j) [0..<FWLAB_C43_MAX_COMMANDS])
     else None)"
  using assms
proof (induction pins expected rule: claim_pins.induct)
  case (1 expected)
  then have "map ((!) expected) [0..<FWLAB_C43_MAX_COMMANDS] = expected"
    by (metis map_nth)
  then show ?case
    by (simp del: upt_rec_numeral)
next
  case (2 pins expected)
  then show ?case
    by simp
next
  case (3 target pins expected)
  show ?case
  proof (cases "target \<ge> FWLAB_C43_MAX_COMMANDS \<or> expected ! target \<noteq> 0")
    case True
    then show ?thesis
      by auto
  next
    case False
    then have IH: "claim_pins pins (expected[target := 1]) =
      (if pins_apart pins \<and> (\<forall>t. Some t \<in> set pins \<longrightarrow> expected[target := 1] ! t = 0)
       then Some (map (\<lambda>j. if Some j \<in> set pins then 1 else expected[target := 1] ! j) [0..<FWLAB_C43_MAX_COMMANDS])
       else None)"
      using 3 by simp
    have new: "(\<forall>t. Some t \<in> set pins \<longrightarrow> expected[target := 1] ! t = 0) \<longleftrightarrow>
        (\<forall>t. Some t \<in> set pins \<longrightarrow> t \<noteq> target \<and> expected ! t = 0)" if "pins_apart pins"
      using False 3(2) that by (auto simp: nth_list_update dest: pins_apart_bound)
    have vals: "map (\<lambda>j. if Some j \<in> set pins then 1 else expected[target := 1] ! j) [0..<FWLAB_C43_MAX_COMMANDS]
      = map (\<lambda>j. if Some j \<in> set (Some target # pins) then 1 else expected ! j) [0..<FWLAB_C43_MAX_COMMANDS]"
      using 3(2) by (auto simp: nth_list_update)
    show ?thesis
      using False IH new vals by auto
  qed
qed

lemma claim_pins_fresh:
  "claim_pins pins (replicate FWLAB_C43_MAX_COMMANDS 0) =
    (if pins_apart pins
     then Some (map (\<lambda>j. of_bool (Some j \<in> set pins)) [0..<FWLAB_C43_MAX_COMMANDS]) else None)"
proof -
  have "claim_pins pins (replicate FWLAB_C43_MAX_COMMANDS 0) =
    (if pins_apart pins \<and> (\<forall>t. Some t \<in> set pins \<longrightarrow> replicate FWLAB_C43_MAX_COMMANDS (0::u16) ! t = 0)
     then Some (map (\<lambda>j. if Some j \<in> set pins then 1 else replicate FWLAB_C43_MAX_COMMANDS 0 ! j)
       [0..<FWLAB_C43_MAX_COMMANDS]) else None)"
    by (rule claim_pins_general) simp
  then show ?thesis
    by (auto dest: pins_apart_bound)
qed

lemma pins_apart_upt:
  "pins_apart (map f [0..<n]) \<longleftrightarrow>
     (\<forall>i<n. \<forall>t. f i = Some t \<longrightarrow> t < FWLAB_C43_MAX_COMMANDS) \<and>
     (\<forall>i<n. \<forall>j<n. \<forall>t. f i = Some t \<and> f j = Some t \<longrightarrow> i = j)"
proof (induction n)
  case 0
  then show ?case by simp
next
  case (Suc n)
  have mem: "Some t \<in> set (map f [0..<n]) \<longleftrightarrow> (\<exists>i<n. f i = Some t)" for t
    by (force simp: image_iff)
  have split: "pins_apart (map f [0..<Suc n]) \<longleftrightarrow> pins_apart (map f [0..<n]) \<and>
      (\<forall>t. f n = Some t \<longrightarrow> t < FWLAB_C43_MAX_COMMANDS) \<and> (\<forall>t. f n = Some t \<longrightarrow> (\<forall>i<n. f i \<noteq> Some t))"
    unfolding upt_Suc_append [OF le0] map_append list.map pins_apart_snoc mem by blast
  have bound: "(\<forall>i<Suc n. \<forall>t. f i = Some t \<longrightarrow> t < FWLAB_C43_MAX_COMMANDS) \<longleftrightarrow>
      (\<forall>i<n. \<forall>t. f i = Some t \<longrightarrow> t < FWLAB_C43_MAX_COMMANDS) \<and>
      (\<forall>t. f n = Some t \<longrightarrow> t < FWLAB_C43_MAX_COMMANDS)"
    by (simp add: All_less_Suc conj_ac)
  have single: "(\<forall>i<Suc n. \<forall>j<Suc n. \<forall>t. f i = Some t \<and> f j = Some t \<longrightarrow> i = j) \<longleftrightarrow>
      (\<forall>i<n. \<forall>j<n. \<forall>t. f i = Some t \<and> f j = Some t \<longrightarrow> i = j) \<and>
      (\<forall>t. f n = Some t \<longrightarrow> (\<forall>i<n. f i \<noteq> Some t))"
    (is "?L \<longleftrightarrow> ?R")
  proof
    assume d: ?L
    have "f i \<noteq> Some t" if "f n = Some t" and "i < n" for i t
      using d that by (metis lessI less_SucI less_irrefl)
    moreover have "\<forall>i<n. \<forall>j<n. \<forall>t. f i = Some t \<and> f j = Some t \<longrightarrow> i = j"
      using d less_SucI by blast
    ultimately show ?R by blast
  next
    assume r: ?R
    have "i = j" if "i < Suc n" and "j < Suc n" and "f i = Some t" and "f j = Some t" for i j t
      using r that by (cases "i = n"; cases "j = n") (simp_all add: less_Suc_eq)
    then show ?L by blast
  qed
  show ?case
    unfolding split bound single Suc.IH by (simp only: conj_ac)
qed

section \<open>The loop over the transaction records\<close>

definition pin_of :: "c43_graph \<Rightarrow> nat \<Rightarrow> nat option" where
  "pin_of g i =
     (let r = graph_command g i; tx = cr_target_txn r
      in if cr_in_use r \<noteq> 0 \<and> cr_state r = C43_COMMAND_RECORD_ADMITTED \<and>
            pl_kind (cr_plan r) = FWLAB_C43_PLAN_ABORT_RESOLVE \<and> tx_flow tx = C43_TARGET_FLOW_DONE \<and>
            tx_outcome tx = FWLAB_C43_TARGET_FOUND
         then Some (if tx_target_slot_plus_one tx = 0 then FWLAB_C43_MAX_COMMANDS
                    else unat (tx_target_slot_plus_one tx) - 1)
         else None)"

definition record_kind :: "c43_command_record \<Rightarrow> u32" where
  "record_kind r = (if cr_state r = C43_COMMAND_RECORD_ADMITTED then pl_kind (cr_plan r) else 0)"

definition needs_owner :: "c43_graph \<Rightarrow> nat \<Rightarrow> bool" where
  "needs_owner g i \<longleftrightarrow>
     (let r = graph_command g i
      in cr_in_use r \<noteq> 0 \<and> record_kind r \<noteq> FWLAB_C43_PLAN_ABORT_RESOLVE \<and>
         record_kind r \<noteq> FWLAB_C43_PLAN_BLOCK \<and> queue_flow_requires_owner (qx_flow (cr_queue_txn r)))"

definition phase4_local :: "c43_graph \<Rightarrow> nat \<Rightarrow> bool" where
  "phase4_local g i \<longleftrightarrow>
     (let r = graph_command g i; ob = graph_observed g i
      in if cr_in_use r = 0 then storage_zero r
         else if record_kind r = FWLAB_C43_PLAN_ABORT_RESOLVE then target_record_valid g i r ob
         else if record_kind r = FWLAB_C43_PLAN_BLOCK then block_record_valid g r ob
         else queue_record_valid g r ob)"

lemma phase4_round_eq:
  "phase4_round g i (expected, owners, owner) =
     (if \<not> phase4_local g i then None
      else case claim_pins [pin_of g i] expected of
          None \<Rightarrow> None
        | Some expected' \<Rightarrow> Some (expected', if needs_owner g i then owners + 1 else owners,
            if needs_owner g i then i + 1 else owner))"
  by (simp add: phase4_round_def phase4_local_def pin_of_def needs_owner_def record_kind_def Let_def)

lemma claim_pins_Cons:
  "claim_pins (p # pins) e = (case claim_pins [p] e of None \<Rightarrow> None | Some e' \<Rightarrow> claim_pins pins e')"
  by (cases p) auto

definition last_owner :: "c43_graph \<Rightarrow> nat list \<Rightarrow> nat \<Rightarrow> nat" where
  "last_owner g is owner = foldl (\<lambda>owner i. if needs_owner g i then i + 1 else owner) owner is"

lemma phase4_rounds_eq:
  "phase4_rounds g is (expected, owners, owner) =
     (if list_all (phase4_local g) is
      then map_option (\<lambda>e. (e, owners + length (filter (needs_owner g) is), last_owner g is owner))
             (claim_pins (map (pin_of g) is) expected)
      else None)"
proof (induction "is" arbitrary: expected owners owner)
  case Nil
  then show ?case by (simp add: last_owner_def)
next
  case (Cons i "is")
  have step: "last_owner g (i # is) owner = last_owner g is (if needs_owner g i then i + 1 else owner)"
    by (simp add: last_owner_def)
  show ?case
  proof (cases "phase4_local g i")
    case False
    then show ?thesis by (simp add: phase4_round_eq)
  next
    case True
    then show ?thesis
      unfolding list.map claim_pins_Cons [of "pin_of g i" "map (pin_of g) is"] step
      by (simp add: phase4_round_eq Cons.IH split: option.splits)
  qed
qed

text \<open>The owner recorded in the authority is the one command whose transaction needs one.\<close>

definition owner_at :: "c43_queue_authority \<Rightarrow> nat \<Rightarrow> bool" where
  "owner_at qa i \<longleftrightarrow> qa_txn_active qa \<noteq> 0 \<and> unat (qa_owner_slot_plus_one qa) = i + 1"

lemma owner_count_iff:
  assumes qa: "authority_consistent qa"
  shows "(let n = length (filter (needs_owner g) [0..<FWLAB_C43_MAX_COMMANDS])
          in n \<le> 1 \<and> qa_txn_active qa = of_bool (n = 1) \<and>
             (n = 0 \<or> unat (qa_owner_slot_plus_one qa) = last_owner g [0..<FWLAB_C43_MAX_COMMANDS] 0)) \<longleftrightarrow>
    (\<forall>i<FWLAB_C43_MAX_COMMANDS. needs_owner g i \<longleftrightarrow> owner_at qa i)"
proof -
  have slots: "[0..<FWLAB_C43_MAX_COMMANDS] = [0, 1, 2, 3]"
    by (simp add: upt_rec)
  have active: "qa_txn_active qa = 0 \<or> qa_txn_active qa = 1"
    using qa by (auto simp: authority_consistent_def not_less word_le_1)
  have idle: "qa_txn_active qa = 0 \<longleftrightarrow> qa_owner_slot_plus_one qa = 0"
    using qa by (simp add: authority_consistent_def)
  have bound: "unat (qa_owner_slot_plus_one qa) \<le> 4"
    using qa by (simp add: authority_consistent_def not_less word_le_nat_alt)
  have pos: "unat (qa_owner_slot_plus_one qa) = 0 \<longleftrightarrow> qa_owner_slot_plus_one qa = 0"
    by (simp add: unat_eq_zero)
  obtain n where n: "unat (qa_owner_slot_plus_one qa) = n" by blast
  consider "n = 0" | "n = 1" | "n = 2" | "n = 3" | "n = 4"
    using bound n by linarith
  then show ?thesis
    using active idle pos n unfolding slots all_slots
    by cases (auto simp: last_owner_def owner_at_def Let_def)
qed

section \<open>The loop over the observer\<close>

definition target_matches :: "c43_graph_observer \<Rightarrow> nat \<Rightarrow> hif_command_ticket \<Rightarrow> nat list \<Rightarrow> nat list" where
  "target_matches ob slot ticket targets =
     filter (\<lambda>t. t \<noteq> slot \<and> observer_ticket_matches_command ticket (go_commands ob ! t)) targets"

lemma target_pin_scan_eq:
  "target_pin_scan ob slot ticket targets found expected =
     (case target_matches ob slot ticket targets of
        [] \<Rightarrow> Some (found, expected)
      | t # ts \<Rightarrow> if found \<or> ts \<noteq> [] \<or> expected ! t \<noteq> 0 then None else Some (True, expected[t := 1]))"
proof (induction targets arbitrary: found expected)
  case Nil
  then show ?case by (simp add: target_matches_def)
next
  case (Cons t targets)
  then show ?case
    by (simp add: target_matches_def split: list.splits)
qed

text \<open>The pin an observer entry shows, and the test of a target entry without the claim on it.\<close>

definition observer_pins :: "c43_command_observer \<Rightarrow> bool" where
  "observer_pins c \<longleftrightarrow> co_in_use c \<noteq> 0 \<and> co_action_domain c = FWLAB_C43_ACTION_DOMAIN_TARGET \<and>
     co_action_state c = FWLAB_C43_ACTION_STATE_TERMINAL_HELD \<and> co_action_outcome c = FWLAB_C43_TARGET_FOUND"

definition observer_pin :: "c43_graph_observer \<Rightarrow> nat \<Rightarrow> nat option" where
  "observer_pin ob i =
     (let c = go_commands ob ! i
      in if observer_pins c
         then case target_matches ob i (co_target_ticket c) [0..<FWLAB_C43_MAX_COMMANDS] of
             [] \<Rightarrow> None
           | t # _ \<Rightarrow> Some t
         else None)"

definition target_public_local :: "c43_graph_observer \<Rightarrow> nat \<Rightarrow> c43_command_observer \<Rightarrow> bool" where
  "target_public_local ob slot c \<longleftrightarrow>
     (if co_action_domain c \<noteq> FWLAB_C43_ACTION_DOMAIN_TARGET then True
      else if co_terminal_winner c \<noteq> FWLAB_C43_WINNER_NONE \<or>
              co_publication c \<noteq> FWLAB_C43_PUBLICATION_ELIGIBLE \<or> co_required_witness_mask c \<noteq> 0 \<or>
              co_satisfied_witness_mask c \<noteq> 0 \<or> co_block_terminal_kind c \<noteq> 0 \<or> observer_owner ob slot
      then False
      else if co_action_state c = FWLAB_C43_ACTION_STATE_SUBMIT_READY \<or>
              co_action_state c = FWLAB_C43_ACTION_STATE_ACCEPTED_WAIT
      then co_phase c = FWLAB_C43_PHASE_RESOLVE_WAIT \<and> co_resolution_valid c = 0 \<and>
           co_success_eligible c = 0 \<and> target_fields_zero c
      else if co_action_state c = FWLAB_C43_ACTION_STATE_TERMINAL_HELD
      then \<not> (co_phase c \<noteq> FWLAB_C43_PHASE_ACTION_WAIT \<or> co_resolution_valid c = 0 \<or>
              co_resolved_status c \<noteq> FWLAB_C43_STATUS_SUCCESS \<or> co_success_eligible c = 0 \<or>
              co_action_outcome c < FWLAB_C43_TARGET_FOUND \<or>
              co_action_outcome c > FWLAB_C43_TARGET_SUPERSEDED) \<and>
           (if co_action_outcome c \<noteq> FWLAB_C43_TARGET_FOUND
            then co_target_pin_present c = 0 \<and> co_target_ticket c = zero_hif_command_ticket \<and>
                 \<not> pair_nonzero (co_target_reference c)
            else co_target_pin_present c \<noteq> 0 \<and> pair_nonzero (co_target_reference c) \<and>
                 length (target_matches ob slot (co_target_ticket c) [0..<FWLAB_C43_MAX_COMMANDS]) = 1)
      else if co_action_state c = FWLAB_C43_ACTION_STATE_FAULT
      then co_phase c = FWLAB_C43_PHASE_ACTION_WAIT \<and> co_resolution_valid c \<noteq> 0 \<and>
           co_resolved_status c = FWLAB_C43_STATUS_INTERNAL_FAILURE \<and> co_success_eligible c = 0 \<and>
           (co_action_outcome c = 0 \<or> co_action_outcome c = FWLAB_C43_TARGET_FAULT) \<and>
           co_target_pin_present c = 0 \<and> co_target_ticket c = zero_hif_command_ticket \<and>
           \<not> pair_nonzero (co_target_reference c)
      else False)"

lemma target_matches_bound:
  "target_matches ob slot ticket [0..<FWLAB_C43_MAX_COMMANDS] = t # ts \<Longrightarrow> t < FWLAB_C43_MAX_COMMANDS"
proof -
  assume "target_matches ob slot ticket [0..<FWLAB_C43_MAX_COMMANDS] = t # ts"
  then have "t \<in> set (target_matches ob slot ticket [0..<FWLAB_C43_MAX_COMMANDS])"
    by simp
  then show ?thesis
    by (simp only: target_matches_def set_filter mem_Collect_eq set_upt atLeastLessThan_iff)
qed

lemma target_public_eq:
  assumes "co_in_use (go_commands ob ! slot) \<noteq> 0"
  shows "target_public_command_valid ob slot (go_commands ob ! slot) expected =
    (if target_public_local ob slot (go_commands ob ! slot)
     then claim_pins [observer_pin ob slot] expected else None)"
proof (cases "observer_pins (go_commands ob ! slot)")
  case False
  then show ?thesis
    using assms
    by (simp add: target_public_command_valid_def target_public_local_def observer_pin_def Let_def
        observer_pins_def)
next
  case True
  define ms where "ms = target_matches ob slot (co_target_ticket (go_commands ob ! slot)) [0..<FWLAB_C43_MAX_COMMANDS]"
  have bound: "t < FWLAB_C43_MAX_COMMANDS" if "ms = t # ts" for t ts
    using that target_matches_bound unfolding ms_def by blast
  show ?thesis
    using True bound
    by (cases ms)
      (auto simp: target_public_command_valid_def target_public_local_def observer_pin_def Let_def
        observer_pins_def target_pin_scan_eq ms_def [symmetric] simp del: upt_rec_numeral)
qed

definition observer_local :: "c43_graph_observer \<Rightarrow> nat \<Rightarrow> bool" where
  "observer_local ob i \<longleftrightarrow>
     (let c = go_commands ob ! i
      in observer_command_ranges c \<and>
         (if co_in_use c \<noteq> 0
          then observer_command_in_use ob c \<and> queue_public_command_valid ob i c \<and>
               target_public_local ob i c \<and> block_public_command_valid ob i c \<and>
               (\<forall>j<i. observer_commands_apart c (go_commands ob ! j))
          else observer_command_free c))"

lemma observer_command_round_eq:
  "observer_command_round ob i expected =
     (if observer_local ob i then claim_pins [observer_pin ob i] expected else None)"
proof (cases "co_in_use (go_commands ob ! i) = 0")
  case True
  then show ?thesis
    by (simp add: observer_command_round_def observer_local_def observer_pin_def observer_pins_def Let_def)
next
  case False
  then show ?thesis
    by (simp add: observer_command_round_def observer_local_def Let_def target_public_eq list_all_iff
        split: option.splits)
qed

lemma observer_command_rounds_eq:
  "observer_command_rounds ob is expected =
     (if list_all (observer_local ob) is then claim_pins (map (observer_pin ob) is) expected else None)"
proof (induction "is" arbitrary: expected)
  case Nil
  then show ?case by simp
next
  case (Cons i "is")
  show ?case
    unfolding list.map claim_pins_Cons [of "observer_pin ob i" "map (observer_pin ob) is"]
    by (simp add: observer_command_round_eq Cons.IH split: option.splits)
qed

section \<open>The graph\<close>

definition observer_identity :: "c43_command_record \<Rightarrow> c43_command_observer \<Rightarrow> bool" where
  "observer_identity r ob \<longleftrightarrow>
     co_in_use ob = 1 \<and> co_handle ob = pt_handle (cr_prepared r) \<and>
     co_origin ob = pt_origin (cr_prepared r) \<and> co_transaction_uid ob = cr_transaction_uid r \<and>
     co_terminal_winner ob = FWLAB_C43_WINNER_NONE \<and>
     co_publication ob = FWLAB_C43_PUBLICATION_ELIGIBLE \<and> co_action_count ob = 8 \<and>
     co_reservation_credit_mask ob = FWLAB_C43_CREDIT_ALL \<and>
     co_first_action_uid ob = act_action_uid (cr_actions r ! 0) \<and>
     co_action_generation ob = act_generation (cr_actions r ! 0) \<and>
     co_provider_generation_current ob = 1 \<and> co_incoming_target_pins ob = cr_incoming_target_pins r"

lemma observer_matches_iff:
  "observer_matches_record r ob \<longleftrightarrow> observer_identity r ob \<and>
     (cr_state r = C43_COMMAND_RECORD_PREPARED \<and> co_phase ob = FWLAB_C43_PHASE_PREPARED \<and>
      co_required_witness_mask ob = 0 \<and> co_satisfied_witness_mask ob = 0 \<and> co_success_eligible ob = 0 \<or>
      cr_state r = C43_COMMAND_RECORD_ADMITTED \<and> co_phase ob \<ge> FWLAB_C43_PHASE_ADMITTED_POLICY \<and>
      co_required_witness_mask ob = pl_required_witness_mask (cr_plan r))"
  by (cases "observer_identity r ob")
    (auto simp: observer_matches_record_def observer_identity_def Let_def)

lemma prepared_iff:
  "prepared_valid g r \<longleftrightarrow> prepared_identity_valid g r \<and>
     (\<forall>index<FWLAB_C43_ACTIONS_PER_COMMAND. action_reserved g r index) \<and>
     (cr_state r = C43_COMMAND_RECORD_PREPARED \<and> cr_incoming_target_pins r = 0 \<and>
      cr_ticket r = zero_hif_command_ticket \<and> cr_request r = zero_c43_policy_request \<and>
      cr_plan r = zero_c43_policy_plan \<or>
      admitted_identity_valid g r \<and>
      fwlab_c43_policy_begin (gc_profile (gr_config g)) (cr_request r) = Inr (cr_plan r))"
proof -
  have "admitted_identity_valid g r \<Longrightarrow> cr_state r \<noteq> C43_COMMAND_RECORD_PREPARED"
    by (auto simp: admitted_identity_valid_def)
  then show ?thesis
    by (auto simp: prepared_valid_def list_all_iff simp del: upt_rec_numeral)
qed

lemma reservation_round_iff:
  "reservation_round g i \<longleftrightarrow>
     (if cr_in_use (graph_command g i) = 0
      then graph_command g i = zero_c43_command_record \<and> co_in_use (graph_observed g i) = 0
      else cr_in_use (graph_command g i) = 1 \<and> prepared_valid g (graph_command g i) \<and>
           observer_matches_record (graph_command g i) (graph_observed g i) \<and>
           (\<forall>j<i. records_apart (graph_command g i) (graph_command g j)) \<and>
           identities_consumed g (graph_command g i))"
  by (auto simp: reservation_round_def Let_def list_all_iff)

text \<open>A ticket matches an observer entry exactly if it is the ticket of the admitted command there.\<close>

lemma ticket_matches_iff:
  assumes "reservation_round g j"
  shows "observer_ticket_matches_command ticket (graph_observed g j) \<longleftrightarrow>
    c43_ticket_valid ticket \<and> cr_in_use (graph_command g j) \<noteq> 0 \<and>
    cr_state (graph_command g j) = C43_COMMAND_RECORD_ADMITTED \<and> ticket = cr_ticket (graph_command g j)"
proof (cases "cr_in_use (graph_command g j) = 0")
  case True
  then show ?thesis
    using assms by (simp add: reservation_round_iff observer_ticket_matches_command_def)
next
  case used: False
  let ?r = "graph_command g j" and ?c = "graph_observed g j"
  have match: "observer_matches_record ?r ?c" and valid: "prepared_valid g ?r"
    using assms used by (simp_all add: reservation_round_iff)
  show ?thesis
  proof (cases "cr_state ?r = C43_COMMAND_RECORD_PREPARED")
    case True
    then show ?thesis
      using match by (auto simp: observer_matches_iff observer_ticket_matches_command_def word_le_nat_alt)
  next
    case False
    have adm: "admitted_identity_valid g ?r"
      and act: "act_generation (cr_actions ?r ! 0) = gc_safety_generation (gr_config g)"
      using valid False by (auto simp: prepared_iff action_reserved_def Let_def)
    have ticket: "c43_ticket_valid (cr_ticket ?r)" "ct_handle (cr_ticket ?r) = co_handle ?c"
        "ct_origin (cr_ticket ?r) = co_origin ?c" "ct_ticket_uid (cr_ticket ?r) = co_transaction_uid ?c"
        "ct_generation (cr_ticket ?r) = co_action_generation ?c"
        "cr_state ?r = C43_COMMAND_RECORD_ADMITTED"
        "co_phase ?c \<ge> FWLAB_C43_PHASE_ADMITTED_POLICY" "co_in_use ?c = 1"
      using adm act match False
      by (auto simp: admitted_identity_valid_def observer_matches_iff observer_identity_def Let_def)
    have "ticket = cr_ticket ?r \<longleftrightarrow> ct_handle ticket = co_handle ?c \<and> ct_origin ticket = co_origin ?c \<and>
        ct_ticket_uid ticket = co_transaction_uid ?c \<and> ct_generation ticket = co_action_generation ?c"
      if "c43_ticket_valid ticket"
      using that ticket by (auto simp: c43_ticket_valid_def)
    then show ?thesis
      using ticket used by (auto simp: observer_ticket_matches_command_def)
  qed
qed

lemma target_matches_find:
  assumes "\<forall>j<FWLAB_C43_MAX_COMMANDS. reservation_round g j" and "c43_ticket_valid ticket"
  shows "target_matches (gr_observer g) i ticket [0..<FWLAB_C43_MAX_COMMANDS] =
    filter (\<lambda>slot. slot \<noteq> i \<and> cr_in_use (graph_command g slot) \<noteq> 0 \<and>
      cr_state (graph_command g slot) = C43_COMMAND_RECORD_ADMITTED \<and>
      ticket = cr_ticket (graph_command g slot)) [0..<FWLAB_C43_MAX_COMMANDS]"
  unfolding target_matches_def graph_observed_def [symmetric]
  using assms by (intro filter_cong) (simp_all add: ticket_matches_iff del: upt_rec_numeral)

text \<open>What a target record in its last state says.\<close>

lemma target_doneD:
  assumes "target_record_valid g i r ob" and "tx_flow (cr_target_txn r) = C43_TARGET_FLOW_DONE"
    and "tx_outcome (cr_target_txn r) = FWLAB_C43_TARGET_FOUND"
  obtains t where "target_find_slot g i (tt_target (tx_terminal (cr_target_txn r))) = Some t"
    and "unat (tx_target_slot_plus_one (cr_target_txn r)) = t + 1"
    and "co_target_ticket ob = tt_target (tx_terminal (cr_target_txn r))"
    and "c43_ticket_valid (co_target_ticket ob)"
proof -
  let ?tx = "cr_target_txn r"
  have pin: "tx_pin_installed ?tx \<noteq> 0" and
    find: "case target_find_slot g i (tt_target (tx_terminal ?tx)) of
        None \<Rightarrow> False
      | Some t \<Rightarrow> unat (tx_target_slot_plus_one ?tx) = t + 1 \<and>
          cr_incoming_target_pins (graph_command g t) = 1" and
    mtch: "fwlab_c43_target_terminal_matches_request (tx_request ?tx) (tx_terminal ?tx)" and
    outcome: "tt_outcome (tx_terminal ?tx) = FWLAB_C43_TARGET_FOUND" and
    obs: "target_pin_observed ?tx ob"
    using assms by (simp_all add: target_record_valid_def Let_def target_flow_valid_def split: if_splits)
  have valid: "c43_ticket_valid (tt_target (tx_terminal ?tx))"
    using mtch outcome
    by (simp add: fwlab_c43_target_terminal_matches_request_def fwlab_c43_target_terminal_valid_def Let_def
        split: if_splits)
  have shown: "co_target_ticket ob = tt_target (tx_terminal ?tx)"
    using obs pin by (simp add: target_pin_observed_def)
  obtain t where t: "target_find_slot g i (tt_target (tx_terminal ?tx)) = Some t"
      "unat (tx_target_slot_plus_one ?tx) = t + 1"
    using find by (auto split: option.splits)
  show ?thesis
    by (rule that [OF t shown]) (simp add: shown valid)
qed

lemma target_find_slotD:
  assumes "target_find_slot g i ticket = Some t"
  shows "filter (\<lambda>slot. slot \<noteq> i \<and> cr_in_use (graph_command g slot) \<noteq> 0 \<and>
      cr_state (graph_command g slot) = C43_COMMAND_RECORD_ADMITTED \<and>
      ticket = cr_ticket (graph_command g slot)) [0..<FWLAB_C43_MAX_COMMANDS] = [t]"
    and "t < FWLAB_C43_MAX_COMMANDS" and "t \<noteq> i"
    and "cr_in_use (graph_command g t) \<noteq> 0" and "cr_state (graph_command g t) = C43_COMMAND_RECORD_ADMITTED"
    and "ticket = cr_ticket (graph_command g t)"
proof -
  show list: "filter (\<lambda>slot. slot \<noteq> i \<and> cr_in_use (graph_command g slot) \<noteq> 0 \<and>
      cr_state (graph_command g slot) = C43_COMMAND_RECORD_ADMITTED \<and>
      ticket = cr_ticket (graph_command g slot)) [0..<FWLAB_C43_MAX_COMMANDS] = [t]"
    using assms unfolding target_find_slot_def by (simp only: split: list.splits) simp_all
  have "t \<in> set (filter (\<lambda>slot. slot \<noteq> i \<and> cr_in_use (graph_command g slot) \<noteq> 0 \<and>
      cr_state (graph_command g slot) = C43_COMMAND_RECORD_ADMITTED \<and>
      ticket = cr_ticket (graph_command g slot)) [0..<FWLAB_C43_MAX_COMMANDS])"
    unfolding list by simp
  then show "t < FWLAB_C43_MAX_COMMANDS" and "t \<noteq> i"
    and "cr_in_use (graph_command g t) \<noteq> 0" and "cr_state (graph_command g t) = C43_COMMAND_RECORD_ADMITTED"
    and "ticket = cr_ticket (graph_command g t)"
    by (auto simp: set_filter)
qed

text \<open>The domain an entry shows tells which of the three validators its record passed.\<close>

lemma phase4_local_domain:
  assumes "phase4_local g i" and "cr_in_use (graph_command g i) \<noteq> 0"
  shows "co_action_domain (graph_observed g i) = FWLAB_C43_ACTION_DOMAIN_TARGET \<longleftrightarrow>
      record_kind (graph_command g i) = FWLAB_C43_PLAN_ABORT_RESOLVE \<and>
      tx_flow (cr_target_txn (graph_command g i)) \<noteq> C43_TARGET_FLOW_NONE"
  using assms
  by (auto simp: phase4_local_def Let_def target_record_valid_def block_record_valid_def
      queue_record_valid_def record_idle_observed_def target_record_common_def block_record_common_def
      queue_record_common_def split: if_splits)

lemma observer_pin_eq:
  assumes rounds: "\<forall>j<FWLAB_C43_MAX_COMMANDS. reservation_round g j"
    and local: "phase4_local g i" and i: "i < FWLAB_C43_MAX_COMMANDS"
  shows "observer_pin (gr_observer g) i = pin_of g i"
proof -
  let ?r = "graph_command g i" and ?c = "graph_observed g i"
  have used: "co_in_use ?c \<noteq> 0 \<longleftrightarrow> cr_in_use ?r \<noteq> 0"
    using rounds i by (auto simp: reservation_round_iff observer_matches_iff observer_identity_def split: if_splits)
  show ?thesis
  proof (cases "cr_in_use ?r \<noteq> 0 \<and> record_kind ?r = FWLAB_C43_PLAN_ABORT_RESOLVE \<and>
      tx_flow (cr_target_txn ?r) \<noteq> C43_TARGET_FLOW_NONE")
    case False
    have "\<not> observer_pins ?c"
    proof (cases "cr_in_use ?r = 0")
      case True
      then show ?thesis
        using used by (simp add: observer_pins_def)
    next
      case False
      then show ?thesis
        using \<open>\<not> (_ \<and> _ \<and> _)\<close> phase4_local_domain [OF local] by (auto simp: observer_pins_def)
    qed
    then have "observer_pin (gr_observer g) i = None"
      by (simp add: observer_pin_def graph_observed_def [symmetric])
    moreover have "pin_of g i = None"
      using False by (auto simp: pin_of_def record_kind_def Let_def split: if_splits)
    ultimately show ?thesis by simp
  next
    case True
    have valid: "target_record_valid g i ?r ?c"
      using local True by (simp add: phase4_local_def Let_def)
    have shown: "co_action_domain ?c = FWLAB_C43_ACTION_DOMAIN_TARGET"
        "co_action_state ?c = target_public_action_state (tx_flow (cr_target_txn ?r))"
        "co_action_outcome ?c = tx_outcome (cr_target_txn ?r)"
      using valid True by (simp_all add: target_record_valid_def Let_def target_record_common_def)
    have pins: "observer_pins ?c \<longleftrightarrow> tx_flow (cr_target_txn ?r) = C43_TARGET_FLOW_DONE \<and>
        tx_outcome (cr_target_txn ?r) = FWLAB_C43_TARGET_FOUND"
      using True used shown by (auto simp: observer_pins_def target_public_action_state_def)
    have kind: "cr_state ?r = C43_COMMAND_RECORD_ADMITTED" "pl_kind (cr_plan ?r) = FWLAB_C43_PLAN_ABORT_RESOLVE"
      using True by (auto simp: record_kind_def split: if_splits)
    show ?thesis
    proof (cases "observer_pins ?c")
      case False
      then show ?thesis
        using pins by (auto simp: observer_pin_def pin_of_def graph_observed_def [symmetric] Let_def)
    next
      case p: True
      then obtain t where t: "target_find_slot g i (tt_target (tx_terminal (cr_target_txn ?r))) = Some t"
          "unat (tx_target_slot_plus_one (cr_target_txn ?r)) = t + 1"
          "co_target_ticket ?c = tt_target (tx_terminal (cr_target_txn ?r))"
          "c43_ticket_valid (co_target_ticket ?c)"
        using target_doneD [OF valid] pins by blast
      have "target_matches (gr_observer g) i (co_target_ticket ?c) [0..<FWLAB_C43_MAX_COMMANDS] = [t]"
        unfolding target_matches_find [OF rounds t(4)] using target_find_slotD(1) [OF t(1)] t(3) by simp
      then have "observer_pin (gr_observer g) i = Some t"
        using p by (simp add: observer_pin_def graph_observed_def [symmetric] Let_def del: upt_rec_numeral)
      moreover have "pin_of g i = Some t"
        using p pins True kind t(2) by (auto simp: pin_of_def Let_def)
      ultimately show ?thesis by simp
    qed
  qed
qed

section \<open>Well-formed graphs\<close>

definition graph_arrays :: "c43_graph \<Rightarrow> bool" where
  "graph_arrays g \<longleftrightarrow> length (gr_commands g) = FWLAB_C43_MAX_COMMANDS \<and>
     length (go_commands (gr_observer g)) = FWLAB_C43_MAX_COMMANDS"

definition pins_ok :: "c43_graph \<Rightarrow> bool" where
  "pins_ok g \<longleftrightarrow> pins_apart (map (pin_of g) [0..<FWLAB_C43_MAX_COMMANDS]) \<and>
     (\<forall>j<FWLAB_C43_MAX_COMMANDS. cr_incoming_target_pins (graph_command g j) =
        of_bool (Some j \<in> set (map (pin_of g) [0..<FWLAB_C43_MAX_COMMANDS])))"

text \<open>The parts of a graph outside its command slots.\<close>

definition graph_frame_ok :: "c43_graph \<Rightarrow> bool" where
  "graph_frame_ok g \<longleftrightarrow>
     gr_magic g = FWLAB_C43_INTERNAL_MAGIC \<and> fwlab_c43_graph_config_valid (gr_config g) \<and>
     providers_valid (gr_providers g) \<and> cursors_valid g \<and> observer_header_valid (gr_observer g) \<and>
     list_all (\<lambda>index. go_provider_generation (gr_observer g) ! index \<noteq> 0) [0..<4] \<and>
     gr_next_service_slot g < 4 \<and> words_zero (gr_reserved_scheduler g) \<and>
     queue_authority_valid g (gr_queue_authority g)"

definition slot_ok :: "c43_graph \<Rightarrow> nat \<Rightarrow> bool" where
  "slot_ok g i \<longleftrightarrow> reservation_round g i \<and> phase4_local g i \<and> observer_local (gr_observer g) i"

definition graph_wf :: "c43_graph \<Rightarrow> bool" where
  "graph_wf g \<longleftrightarrow>
     graph_frame_ok g \<and> (\<forall>i<FWLAB_C43_MAX_COMMANDS. slot_ok g i) \<and> pins_ok g \<and>
     (\<forall>i<FWLAB_C43_MAX_COMMANDS. needs_owner g i \<longleftrightarrow> owner_at (gr_queue_authority g) i) \<and>
     observer_counts_valid (gr_observer g)"

lemma four_nth: "length xs = FWLAB_C43_MAX_COMMANDS \<Longrightarrow> xs = [xs ! 0, xs ! 1, xs ! 2, xs ! 3]"
  by (auto simp: list_eq_iff_nth_eq less_slots nth_Cons')

lemma used_iff:
  "reservation_round g i \<Longrightarrow> co_in_use (graph_observed g i) \<noteq> 0 \<longleftrightarrow> cr_in_use (graph_command g i) \<noteq> 0"
  by (auto simp: reservation_round_iff observer_matches_iff observer_identity_def split: if_splits)

lemma used_count:
  assumes "graph_arrays g" and "\<forall>i<FWLAB_C43_MAX_COMMANDS. reservation_round g i"
  shows "length (filter (\<lambda>c. co_in_use c \<noteq> 0) (go_commands (gr_observer g))) = active_commands g"
proof -
  have used: "\<forall>i<FWLAB_C43_MAX_COMMANDS. co_in_use (go_commands (gr_observer g) ! i) \<noteq> 0 \<longleftrightarrow>
      cr_in_use (gr_commands g ! i) \<noteq> 0"
    using assms used_iff by (simp add: graph_observed_def graph_command_def)
  obtain a b c d where cs: "gr_commands g = [a, b, c, d]"
    using assms four_nth unfolding graph_arrays_def by blast
  obtain e f h k where os: "go_commands (gr_observer g) = [e, f, h, k]"
    using assms four_nth unfolding graph_arrays_def by blast
  show ?thesis
    using used unfolding all_slots active_commands_def cs os by simp
qed

lemma used_actions:
  assumes "graph_arrays g" and "\<forall>i<FWLAB_C43_MAX_COMMANDS. reservation_round g i"
  shows "observer_action_count (gr_observer g) = of_nat (active_commands g * FWLAB_C43_ACTIONS_PER_COMMAND)"
proof -
  have count: "\<forall>i<FWLAB_C43_MAX_COMMANDS. co_in_use (go_commands (gr_observer g) ! i) \<noteq> 0 \<longrightarrow>
      co_action_count (go_commands (gr_observer g) ! i) = 8"
    using assms by (auto simp: graph_observed_def reservation_round_iff observer_matches_iff
        observer_identity_def split: if_splits)
  obtain e f h k where os: "go_commands (gr_observer g) = [e, f, h, k]"
    using assms four_nth unfolding graph_arrays_def by blast
  have "observer_action_count (gr_observer g) =
      of_nat (length (filter (\<lambda>c. co_in_use c \<noteq> 0) (go_commands (gr_observer g))) * FWLAB_C43_ACTIONS_PER_COMMAND)"
    using count unfolding all_slots observer_action_count_def os by simp
  then show ?thesis
    using used_count [OF assms] by simp
qed

lemma owner_observed:
  assumes "authority_observed (gr_observer g) qa"
  shows "observer_owner (gr_observer g) i \<longleftrightarrow> owner_at qa i"
  using assms by (simp add: observer_owner_def owner_at_def authority_observed_def)

lemma observer_queues_of_authority:
  assumes "authority_observed ob qa" and "authority_consistent qa"
  shows "observer_queues_valid ob"
  using assms
  by (auto simp: observer_queues_valid_def authority_observed_def authority_consistent_def)

text \<open>The flows are the numbers up to eleven.\<close>

lemma flow_cases:
  fixes w :: u32
  shows "w \<le> C43_QUEUE_FLOW_FAULT \<longleftrightarrow>
    w = 0 \<or> w = 1 \<or> w = 2 \<or> w = 3 \<or> w = 4 \<or> w = 5 \<or> w = 6 \<or> w = 7 \<or> w = 8 \<or> w = 9 \<or> w = 10 \<or> w = 11"
proof
  assume "w \<le> C43_QUEUE_FLOW_FAULT"
  then have "unat w = 0 \<or> unat w = 1 \<or> unat w = 2 \<or> unat w = 3 \<or> unat w = 4 \<or> unat w = 5 \<or>
      unat w = 6 \<or> unat w = 7 \<or> unat w = 8 \<or> unat w = 9 \<or> unat w = 10 \<or> unat w = 11"
    by (simp add: word_le_nat_alt) arith
  then show "w = 0 \<or> w = 1 \<or> w = 2 \<or> w = 3 \<or> w = 4 \<or> w = 5 \<or> w = 6 \<or> w = 7 \<or> w = 8 \<or> w = 9 \<or> w = 10 \<or> w = 11"
    by (simp add: word_unat_eq_iff)
qed (auto simp: word_le_nat_alt)

lemma requires_owner_iff:
  "queue_flow_requires_owner flow \<longleftrightarrow>
     flow \<in> {C43_QUEUE_FLOW_PREPARE_START, C43_QUEUE_FLOW_PREPARE_QUERY, C43_QUEUE_FLOW_DECIDE,
       C43_QUEUE_FLOW_FINISH_START, C43_QUEUE_FLOW_FINISH_QUERY, C43_QUEUE_FLOW_APPLY_COMMIT,
       C43_QUEUE_FLOW_APPLY_ABORT, C43_QUEUE_FLOW_RETIRE, C43_QUEUE_FLOW_FAULT}"
proof
  assume "queue_flow_requires_owner flow"
  then have "flow \<le> C43_QUEUE_FLOW_FAULT" and
    "flow = C43_QUEUE_FLOW_FAULT \<or> (unat flow \<ge> 1 \<and> unat flow \<le> 8)"
    by (auto simp: queue_flow_requires_owner_def word_le_nat_alt)
  then show "flow \<in> {C43_QUEUE_FLOW_PREPARE_START, C43_QUEUE_FLOW_PREPARE_QUERY, C43_QUEUE_FLOW_DECIDE,
       C43_QUEUE_FLOW_FINISH_START, C43_QUEUE_FLOW_FINISH_QUERY, C43_QUEUE_FLOW_APPLY_COMMIT,
       C43_QUEUE_FLOW_APPLY_ABORT, C43_QUEUE_FLOW_RETIRE, C43_QUEUE_FLOW_FAULT}"
    unfolding flow_cases by auto
qed (auto simp: queue_flow_requires_owner_def word_le_nat_alt)

lemma needs_ownerD:
  assumes "needs_owner g i" and "phase4_local g i"
  shows "co_action_domain (graph_observed g i) = FWLAB_C43_ACTION_DOMAIN_QUEUE"
    and "co_action_state (graph_observed g i) = queue_public_action_state (qx_flow (cr_queue_txn (graph_command g i)))"
    and "queue_flow_requires_owner (qx_flow (cr_queue_txn (graph_command g i)))"
proof -
  show req: "queue_flow_requires_owner (qx_flow (cr_queue_txn (graph_command g i)))"
    using assms by (simp add: needs_owner_def Let_def)
  then have "qx_flow (cr_queue_txn (graph_command g i)) \<noteq> C43_QUEUE_FLOW_NONE"
    by (auto simp: requires_owner_iff)
  then have "queue_record_common (cr_queue_txn (graph_command g i)) (graph_observed g i)"
    using assms by (simp add: needs_owner_def phase4_local_def Let_def queue_record_valid_def split: if_splits)
  then show "co_action_domain (graph_observed g i) = FWLAB_C43_ACTION_DOMAIN_QUEUE"
    and "co_action_state (graph_observed g i) = queue_public_action_state (qx_flow (cr_queue_txn (graph_command g i)))"
    by (simp_all add: queue_record_common_def)
qed

lemma observer_owner_valid_of_owner:
  assumes "authority_observed (gr_observer g) qa" and "authority_consistent qa"
    and "\<forall>i<FWLAB_C43_MAX_COMMANDS. needs_owner g i \<longleftrightarrow> owner_at qa i"
    and "\<forall>i<FWLAB_C43_MAX_COMMANDS. phase4_local g i \<and> reservation_round g i"
  shows "observer_owner_valid (gr_observer g)"
proof (cases "qa_txn_active qa = 0")
  case True
  then show ?thesis
    using assms(1) by (simp add: observer_owner_valid_def authority_observed_def)
next
  case False
  define i where "i = unat (qa_owner_slot_plus_one qa) - 1"
  have "qa_owner_slot_plus_one qa \<noteq> 0" and "unat (qa_owner_slot_plus_one qa) \<le> 4"
    using False assms(2) by (auto simp: authority_consistent_def not_less word_le_nat_alt)
  then have i: "unat (qa_owner_slot_plus_one qa) = i + 1" "i < FWLAB_C43_MAX_COMMANDS"
    unfolding i_def using unat_eq_zero [of "qa_owner_slot_plus_one qa"] by linarith+
  have own: "needs_owner g i"
    using assms(3) i False by (simp add: owner_at_def)
  have loc: "phase4_local g i" and res: "reservation_round g i"
    using assms(4) i by simp_all
  have used: "co_in_use (graph_observed g i) \<noteq> 0"
    using used_iff [OF res] own by (simp add: needs_owner_def Let_def)
  have "observer_owner_valid (gr_observer g) \<longleftrightarrow>
      \<not> (co_in_use (graph_observed g i) = 0 \<or>
         co_action_domain (graph_observed g i) \<noteq> FWLAB_C43_ACTION_DOMAIN_QUEUE \<or>
         co_action_state (graph_observed g i) = FWLAB_C43_ACTION_STATE_NONE \<or>
         co_action_state (graph_observed g i) = FWLAB_C43_ACTION_STATE_TERMINAL_HELD \<or>
         co_action_state (graph_observed g i) = FWLAB_C43_ACTION_STATE_REJECTED_NO_EFFECT)"
    using False i assms(1)
    by (simp add: observer_owner_valid_def authority_observed_def graph_observed_def Let_def)
  then show ?thesis
    using needs_ownerD [OF own loc] used by (auto simp: requires_owner_iff queue_public_action_state_def)
qed

lemma pins_observed:
  assumes "reservation_round g j" and "observer_local (gr_observer g) j"
  shows "co_incoming_target_pins (go_commands (gr_observer g) ! j) = cr_incoming_target_pins (graph_command g j)"
proof (cases "cr_in_use (graph_command g j) = 0")
  case True
  then show ?thesis
    using assms by (simp add: reservation_round_iff observer_local_def graph_observed_def
        observer_command_free_def zero_c43_command_record_def Let_def)
next
  case False
  then show ?thesis
    using assms(1) by (simp add: reservation_round_iff observer_matches_iff observer_identity_def
        graph_observed_def [symmetric])
qed

lemma graph_valid_wf:
  assumes v: "c43_graph_valid g"
  shows "graph_wf g"
proof -
  have auth: "queue_authority_valid g (gr_queue_authority g)" and serv: "gr_next_service_slot g < 4"
    and sched: "words_zero (gr_reserved_scheduler g)"
    using v by (simp_all add: c43_graph_valid_def c43_phase4_state_valid_def not_le split: if_splits)
  have cons: "authority_consistent (gr_queue_authority g)"
    using auth by (simp add: queue_authority_valid_def)
  obtain expected owners owner where p4:
      "phase4_rounds g [0..<FWLAB_C43_MAX_COMMANDS] (replicate FWLAB_C43_MAX_COMMANDS 0, 0, 0) =
         Some (expected, owners, owner)"
      "\<forall>i<FWLAB_C43_MAX_COMMANDS. cr_incoming_target_pins (graph_command g i) = expected ! i"
      "owners \<le> 1 \<and> qa_txn_active (gr_queue_authority g) = of_bool (owners = 1) \<and>
         (owners = 0 \<or> unat (qa_owner_slot_plus_one (gr_queue_authority g)) = owner)"
    using v by (auto simp: c43_graph_valid_def c43_phase4_state_valid_def list_all_iff
        simp del: upt_rec_numeral split: if_splits option.splits)
  have "\<forall>i<FWLAB_C43_MAX_COMMANDS. phase4_local g i"
    and claim: "claim_pins (map (pin_of g) [0..<FWLAB_C43_MAX_COMMANDS]) (replicate FWLAB_C43_MAX_COMMANDS 0) = Some expected"
    and own: "owners = length (filter (needs_owner g) [0..<FWLAB_C43_MAX_COMMANDS])"
      "owner = last_owner g [0..<FWLAB_C43_MAX_COMMANDS] 0"
    using p4(1) unfolding phase4_rounds_eq
    by (auto simp: list_all_iff simp del: upt_rec_numeral split: if_splits)
  moreover have "\<forall>i<FWLAB_C43_MAX_COMMANDS. needs_owner g i \<longleftrightarrow> owner_at (gr_queue_authority g) i"
    using owner_count_iff [OF cons, of g] p4(3) unfolding own Let_def by blast
  moreover have "pins_ok g"
    using claim p4(2) unfolding pins_ok_def claim_pins_fresh
    by (auto simp del: upt_rec_numeral split: if_splits)
  moreover have "\<forall>i<FWLAB_C43_MAX_COMMANDS. reservation_round g i" "cursors_valid g"
    using v by (auto simp: c43_graph_valid_def c43_reservation_state_valid_def list_all_iff
        simp del: upt_rec_numeral)
  moreover have "\<forall>i<FWLAB_C43_MAX_COMMANDS. observer_local (gr_observer g) i"
    using v unfolding c43_graph_valid_def fwlab_c43_graph_observer_valid_def observer_command_rounds_eq
    by (auto simp: list_all_iff simp del: upt_rec_numeral split: if_splits)
  ultimately show ?thesis
    using v auth serv sched
    by (simp add: graph_wf_def slot_ok_def graph_frame_ok_def c43_graph_valid_def
        fwlab_c43_graph_observer_valid_def del: upt_rec_numeral)
qed

lemma graph_wf_valid:
  assumes arrays: "graph_arrays g" and w: "graph_wf g"
  shows "c43_graph_valid g"
proof -
  let ?qa = "gr_queue_authority g" and ?ob = "gr_observer g"
  have res: "\<forall>i<FWLAB_C43_MAX_COMMANDS. reservation_round g i" and loc: "\<forall>i<FWLAB_C43_MAX_COMMANDS. phase4_local g i"
    and obs: "\<forall>i<FWLAB_C43_MAX_COMMANDS. observer_local ?ob i" and pins: "pins_ok g"
    and own: "\<forall>i<FWLAB_C43_MAX_COMMANDS. needs_owner g i \<longleftrightarrow> owner_at ?qa i"
    and counts: "observer_counts_valid ?ob" and frame: "graph_frame_ok g"
    using w by (simp_all add: graph_wf_def slot_ok_def)
  have auth: "authority_consistent ?qa" "authority_observed ?ob ?qa"
    using frame by (simp_all add: graph_frame_ok_def queue_authority_valid_def)
  have claim: "claim_pins (map (pin_of g) [0..<FWLAB_C43_MAX_COMMANDS]) (replicate FWLAB_C43_MAX_COMMANDS 0) =
      Some (map (\<lambda>j. of_bool (Some j \<in> set (map (pin_of g) [0..<FWLAB_C43_MAX_COMMANDS]))) [0..<FWLAB_C43_MAX_COMMANDS])"
    using pins unfolding claim_pins_fresh pins_ok_def by (simp del: upt_rec_numeral)
  have "c43_reservation_state_valid g"
    using frame counts res used_count [OF arrays res] used_actions [OF arrays res]
    by (simp add: c43_reservation_state_valid_def graph_frame_ok_def observer_counts_valid_def
        observer_count_def list_all_iff del: upt_rec_numeral)
  moreover have "c43_phase4_state_valid g"
    using frame loc pins own claim owner_count_iff [OF auth(1), of g]
    by (simp add: c43_phase4_state_valid_def graph_frame_ok_def phase4_rounds_eq list_all_iff pins_ok_def
        Let_def not_le del: upt_rec_numeral)
  moreover have same: "map (observer_pin ?ob) [0..<FWLAB_C43_MAX_COMMANDS] = map (pin_of g) [0..<FWLAB_C43_MAX_COMMANDS]"
    using observer_pin_eq [OF res] loc by (simp del: upt_rec_numeral)
  moreover have "\<forall>j<FWLAB_C43_MAX_COMMANDS. co_incoming_target_pins (go_commands ?ob ! j) =
      cr_incoming_target_pins (graph_command g j)"
    using pins_observed res obs by blast
  moreover have "observer_command_rounds ?ob [0..<FWLAB_C43_MAX_COMMANDS] (replicate FWLAB_C43_MAX_COMMANDS 0) =
      Some (map (\<lambda>j. of_bool (Some j \<in> set (map (pin_of g) [0..<FWLAB_C43_MAX_COMMANDS]))) [0..<FWLAB_C43_MAX_COMMANDS])"
    unfolding observer_command_rounds_eq same claim using obs by (simp add: list_all_iff del: upt_rec_numeral)
  ultimately have "fwlab_c43_graph_observer_valid ?ob"
    using frame counts pins observer_queues_of_authority [OF auth(2,1)]
      observer_owner_valid_of_owner [OF auth(2,1) own] loc res
    by (simp add: fwlab_c43_graph_observer_valid_def graph_frame_ok_def list_all_iff pins_ok_def
        del: upt_rec_numeral)
  then show ?thesis
    using frame \<open>c43_reservation_state_valid g\<close> \<open>c43_phase4_state_valid g\<close>
    by (simp add: c43_graph_valid_def graph_frame_ok_def)
qed

theorem graph_valid_iff_wf:
  assumes "graph_arrays g"
  shows "c43_graph_valid g \<longleftrightarrow> graph_wf g"
  using graph_valid_wf graph_wf_valid [OF assms] by blast

end
