(* ===== verification/Nvme_Graph_Frame.thy ===== *)
theory Nvme_Graph_Frame
  imports Nvme_Graph_Wf
begin

text \<open>
  The invariant of the command graph and its frame rule: a step that changes the transaction of one
  slot, its observer entry, the queue authority and possibly a pin keeps the invariant of the whole
  graph if it re-establishes the conditions on that slot.
\<close>

section \<open>Invariant\<close>

text \<open>
  The validity test is not inductive by itself. A transaction in flight also has the following: its
  plan asks for the queue witness, a creation of the completion queue runs only after negotiation, and
  the resolution follows the decision.
\<close>

definition queue_promise :: "c43_queue_authority \<Rightarrow> c43_command_record \<Rightarrow> bool" where
  "queue_promise qa r \<longleftrightarrow>
     pl_required_witness_mask (cr_plan r) = FWLAB_C43_WITNESS_QUEUE_EFFECT_COMMITTED \<and>
     (pr_kind (cr_request r) = FWLAB_C43_REQUEST_CREATE_IO_CQ \<longrightarrow> qa_nq_state qa = FWLAB_C43_NQ_NEGOTIATED) \<and>
     (qx_flow (cr_queue_txn r) \<in> {C43_QUEUE_FLOW_FINISH_START, C43_QUEUE_FLOW_FINISH_QUERY} \<longrightarrow>
       (qx_decision (cr_queue_txn r) = FWLAB_C43_QUEUE_FINISH_COMMIT \<longleftrightarrow>
        qx_resolved_status (cr_queue_txn r) = FWLAB_C43_STATUS_SUCCESS))"

text \<open>An admitted command waits for its policy step, its resolution or its action.\<close>

definition phase_promise :: "c43_command_observer \<Rightarrow> bool" where
  "phase_promise c \<longleftrightarrow>
     co_phase c \<in> {FWLAB_C43_PHASE_ADMITTED_POLICY, FWLAB_C43_PHASE_RESOLVE_WAIT, FWLAB_C43_PHASE_ACTION_WAIT} \<and>
     (co_action_domain c = FWLAB_C43_ACTION_DOMAIN_NONE \<longrightarrow> co_phase c = FWLAB_C43_PHASE_ADMITTED_POLICY)"

text \<open>The observer carries the identity of the configuration, which the tokens are made of.\<close>

definition graph_named :: "c43_graph \<Rightarrow> bool" where
  "graph_named g \<longleftrightarrow> go_instance_nonce (gr_observer g) = gc_instance_nonce (gr_config g) \<and>
     go_controller_epoch (gr_observer g) = gc_controller_epoch (gr_config g)"

definition graph_inv :: "c43_graph \<Rightarrow> bool" where
  "graph_inv g \<longleftrightarrow> graph_arrays g \<and> graph_wf g \<and> graph_named g \<and>
     (\<forall>i<FWLAB_C43_MAX_COMMANDS. cr_in_use (graph_command g i) \<noteq> 0 \<and>
        cr_state (graph_command g i) = C43_COMMAND_RECORD_ADMITTED \<longrightarrow> phase_promise (graph_observed g i)) \<and>
     (\<forall>i<FWLAB_C43_MAX_COMMANDS. needs_owner g i \<longrightarrow> queue_promise (gr_queue_authority g) (graph_command g i))"

section \<open>Frames\<close>

definition record_frame :: "c43_command_record \<Rightarrow> c43_command_record \<Rightarrow> bool" where
  "record_frame r r' \<longleftrightarrow> r' = r\<lparr>cr_queue_txn := cr_queue_txn r', cr_target_txn := cr_target_txn r',
     cr_block_txn := cr_block_txn r', cr_incoming_target_pins := cr_incoming_target_pins r'\<rparr>"

definition observed_frame :: "c43_command_observer \<Rightarrow> c43_command_observer \<Rightarrow> bool" where
  "observed_frame c c' \<longleftrightarrow> c' = c\<lparr>co_phase := co_phase c',
     co_satisfied_witness_mask := co_satisfied_witness_mask c',
     co_success_eligible := co_success_eligible c', co_action_domain := co_action_domain c',
     co_action_state := co_action_state c', co_resolution_valid := co_resolution_valid c',
     co_resolved_status := co_resolved_status c', co_action_outcome := co_action_outcome c',
     co_block_terminal_kind := co_block_terminal_kind c', co_target_ticket := co_target_ticket c',
     co_target_reference := co_target_reference c', co_incoming_target_pins := co_incoming_target_pins c',
     co_target_pin_present := co_target_pin_present c'\<rparr>"

lemma record_frame_fields:
  assumes "record_frame r r'"
  shows "cr_key r' = cr_key r" "cr_prepared r' = cr_prepared r" "cr_ticket r' = cr_ticket r"
    "cr_request r' = cr_request r" "cr_plan r' = cr_plan r" "cr_transaction_uid r' = cr_transaction_uid r"
    "cr_lease_uid r' = cr_lease_uid r" "cr_consume_uid r' = cr_consume_uid r"
    "cr_finalizer_uid r' = cr_finalizer_uid r" "cr_actions r' = cr_actions r"
    "cr_reservation_credit_mask r' = cr_reservation_credit_mask r" "cr_state r' = cr_state r"
    "cr_in_use r' = cr_in_use r" "cr_reserved1 r' = cr_reserved1 r"
  using assms by (cases r; cases r'; simp add: record_frame_def)+

lemma observed_frame_fields:
  assumes "observed_frame c c'"
  shows "co_handle c' = co_handle c" "co_origin c' = co_origin c"
    "co_transaction_uid c' = co_transaction_uid c" "co_terminal_winner c' = co_terminal_winner c"
    "co_publication c' = co_publication c" "co_required_witness_mask c' = co_required_witness_mask c"
    "co_action_count c' = co_action_count c" "co_in_use c' = co_in_use c"
    "co_provider_generation_current c' = co_provider_generation_current c"
    "co_reservation_credit_mask c' = co_reservation_credit_mask c"
    "co_first_action_uid c' = co_first_action_uid c" "co_action_generation c' = co_action_generation c"
    "co_reserved_action_flags c' = co_reserved_action_flags c" "co_reserved_action c' = co_reserved_action c"
  using assms by (cases c; cases c'; simp add: observed_frame_def)+

text \<open>A graph that differs from another only in its commands, authority and their observation.\<close>

definition graph_frame :: "c43_graph \<Rightarrow> c43_graph \<Rightarrow> bool" where
  "graph_frame g g' \<longleftrightarrow>
     g' = g\<lparr>gr_commands := gr_commands g', gr_queue_authority := gr_queue_authority g',
       gr_observer := gr_observer g'\<rparr> \<and>
     gr_observer g' = (gr_observer g)\<lparr>go_commands := go_commands (gr_observer g'),
       go_nq_state := go_nq_state (gr_observer g'), go_queue_txn_active := go_queue_txn_active (gr_observer g'),
       go_queue_owner_slot_plus_one := go_queue_owner_slot_plus_one (gr_observer g'),
       go_io_cq_present := go_io_cq_present (gr_observer g'), go_io_sq_present := go_io_sq_present (gr_observer g'),
       go_io_cq := go_io_cq (gr_observer g'), go_io_sq := go_io_sq (gr_observer g'),
       go_sq_associated_cq := go_sq_associated_cq (gr_observer g')\<rparr> \<and>
     graph_arrays g'"

lemma graph_frame_fields:
  assumes "graph_frame g g'"
  shows "gr_magic g' = gr_magic g" "gr_config g' = gr_config g" "gr_providers g' = gr_providers g"
    "gr_command_uid g' = gr_command_uid g" "gr_action_uid g' = gr_action_uid g"
    "gr_transaction_uid g' = gr_transaction_uid g" "gr_lease_uid g' = gr_lease_uid g"
    "gr_consume_uid g' = gr_consume_uid g" "gr_finalizer_uid g' = gr_finalizer_uid g"
    "gr_next_service_slot g' = gr_next_service_slot g" "gr_reserved_scheduler g' = gr_reserved_scheduler g"
  using assms unfolding graph_frame_def by (cases g; cases g'; simp)+

lemma observer_frame_fields:
  assumes "graph_frame g g'"
  shows "go_version (gr_observer g') = go_version (gr_observer g)"
    "go_size (gr_observer g') = go_size (gr_observer g)"
    "go_controller_epoch (gr_observer g') = go_controller_epoch (gr_observer g)"
    "go_instance_nonce (gr_observer g') = go_instance_nonce (gr_observer g)"
    "go_active_commands (gr_observer g') = go_active_commands (gr_observer g)"
    "go_active_actions (gr_observer g') = go_active_actions (gr_observer g)"
    "go_ready_count (gr_observer g') = go_ready_count (gr_observer g)"
    "go_cleanup_count (gr_observer g') = go_cleanup_count (gr_observer g)"
    "go_provider_generation (gr_observer g') = go_provider_generation (gr_observer g)"
    "go_admission_closed (gr_observer g') = go_admission_closed (gr_observer g)"
    "go_resetting (gr_observer g') = go_resetting (gr_observer g)"
    "go_tearing_down (gr_observer g') = go_tearing_down (gr_observer g)"
    "go_dead (gr_observer g') = go_dead (gr_observer g)"
    "go_reserved_intent_credits (gr_observer g') = go_reserved_intent_credits (gr_observer g)"
    "go_reserved_ready_credits (gr_observer g') = go_reserved_ready_credits (gr_observer g)"
    "go_reserved_lease_credits (gr_observer g') = go_reserved_lease_credits (gr_observer g)"
    "go_reserved_consume_credits (gr_observer g') = go_reserved_consume_credits (gr_observer g)"
    "go_reserved_finalizer_credits (gr_observer g') = go_reserved_finalizer_credits (gr_observer g)"
    "go_reserved_abort_credits (gr_observer g') = go_reserved_abort_credits (gr_observer g)"
    "go_reserved_target_credits (gr_observer g') = go_reserved_target_credits (gr_observer g)"
    "go_reserved_queue_transaction_credits (gr_observer g') = go_reserved_queue_transaction_credits (gr_observer g)"
    "go_reserved_block_intent_credits (gr_observer g') = go_reserved_block_intent_credits (gr_observer g)"
    "go_reserved_queue_flags (gr_observer g') = go_reserved_queue_flags (gr_observer g)"
    "go_reserved_queue (gr_observer g') = go_reserved_queue (gr_observer g)"
  using assms unfolding graph_frame_def by (cases "gr_observer g"; cases "gr_observer g'"; simp)+

section \<open>Steps of one slot\<close>

text \<open>
  The shape of a step for the command in slot \<open>s\<close>: only its transaction and what is shown of it
  change, besides the authority and pins that other admitted commands receive.
\<close>

definition slot_step :: "c43_graph \<Rightarrow> nat \<Rightarrow> c43_graph \<Rightarrow> bool" where
  "slot_step g s g' \<longleftrightarrow>
     graph_frame g g' \<and> s < FWLAB_C43_MAX_COMMANDS \<and> cr_in_use (graph_command g s) \<noteq> 0 \<and>
     cr_state (graph_command g s) = C43_COMMAND_RECORD_ADMITTED \<and>
     record_frame (graph_command g s) (graph_command g' s) \<and>
     observed_frame (graph_observed g s) (graph_observed g' s) \<and>
     (\<forall>j<FWLAB_C43_MAX_COMMANDS. j \<noteq> s \<longrightarrow>
        graph_command g' j = (graph_command g j)\<lparr>cr_incoming_target_pins := cr_incoming_target_pins (graph_command g' j)\<rparr> \<and>
        graph_observed g' j = (graph_observed g j)\<lparr>co_incoming_target_pins := co_incoming_target_pins (graph_observed g' j)\<rparr>) \<and>
     (\<forall>j<FWLAB_C43_MAX_COMMANDS.
        cr_incoming_target_pins (graph_command g' j) = cr_incoming_target_pins (graph_command g j) \<and>
        co_incoming_target_pins (graph_observed g' j) = co_incoming_target_pins (graph_observed g j) \<or>
        cr_in_use (graph_command g j) \<noteq> 0 \<and> cr_state (graph_command g j) = C43_COMMAND_RECORD_ADMITTED \<and>
        cr_incoming_target_pins (graph_command g' j) = 1 \<and> co_incoming_target_pins (graph_observed g' j) = 1) \<and>
     co_phase (graph_observed g' s) \<in> {FWLAB_C43_PHASE_RESOLVE_WAIT, FWLAB_C43_PHASE_ACTION_WAIT}"

lemma slot_step_frames:
  assumes "slot_step g s g'" and "j < FWLAB_C43_MAX_COMMANDS"
  shows "record_frame (graph_command g j) (graph_command g' j)"
    and "observed_frame (graph_observed g j) (graph_observed g' j)"
proof -
  show "record_frame (graph_command g j) (graph_command g' j)"
  proof (cases "j = s")
    case False
    then have "graph_command g' j = (graph_command g j)\<lparr>cr_incoming_target_pins := cr_incoming_target_pins (graph_command g' j)\<rparr>"
      using assms by (simp add: slot_step_def)
    then show ?thesis
      unfolding record_frame_def by (cases "graph_command g j"; cases "graph_command g' j") simp
  qed (use assms in \<open>simp add: slot_step_def\<close>)
  show "observed_frame (graph_observed g j) (graph_observed g' j)"
  proof (cases "j = s")
    case False
    then have "graph_observed g' j = (graph_observed g j)\<lparr>co_incoming_target_pins := co_incoming_target_pins (graph_observed g' j)\<rparr>"
      using assms by (simp add: slot_step_def)
    then show ?thesis
      unfolding observed_frame_def by (cases "graph_observed g j"; cases "graph_observed g' j") simp
  qed (use assms in \<open>simp add: slot_step_def\<close>)
qed

lemmas slot_step_records = slot_step_frames(1) [THEN record_frame_fields(1)]
  slot_step_frames(1) [THEN record_frame_fields(2)] slot_step_frames(1) [THEN record_frame_fields(3)]
  slot_step_frames(1) [THEN record_frame_fields(4)] slot_step_frames(1) [THEN record_frame_fields(5)]
  slot_step_frames(1) [THEN record_frame_fields(6)] slot_step_frames(1) [THEN record_frame_fields(7)]
  slot_step_frames(1) [THEN record_frame_fields(8)] slot_step_frames(1) [THEN record_frame_fields(9)]
  slot_step_frames(1) [THEN record_frame_fields(10)] slot_step_frames(1) [THEN record_frame_fields(11)]
  slot_step_frames(1) [THEN record_frame_fields(12)] slot_step_frames(1) [THEN record_frame_fields(13)]
  slot_step_frames(1) [THEN record_frame_fields(14)]

lemmas slot_step_observed = slot_step_frames(2) [THEN observed_frame_fields(1)]
  slot_step_frames(2) [THEN observed_frame_fields(2)] slot_step_frames(2) [THEN observed_frame_fields(3)]
  slot_step_frames(2) [THEN observed_frame_fields(4)] slot_step_frames(2) [THEN observed_frame_fields(5)]
  slot_step_frames(2) [THEN observed_frame_fields(6)] slot_step_frames(2) [THEN observed_frame_fields(7)]
  slot_step_frames(2) [THEN observed_frame_fields(8)] slot_step_frames(2) [THEN observed_frame_fields(9)]
  slot_step_frames(2) [THEN observed_frame_fields(10)] slot_step_frames(2) [THEN observed_frame_fields(11)]
  slot_step_frames(2) [THEN observed_frame_fields(12)] slot_step_frames(2) [THEN observed_frame_fields(13)]
  slot_step_frames(2) [THEN observed_frame_fields(14)]

lemma slot_step_frame: "slot_step g s g' \<Longrightarrow> graph_frame g g'"
  by (simp add: slot_step_def)

lemmas slot_step_graph = slot_step_frame [THEN graph_frame_fields(1)]
  slot_step_frame [THEN graph_frame_fields(2)] slot_step_frame [THEN graph_frame_fields(3)]
  slot_step_frame [THEN graph_frame_fields(4)] slot_step_frame [THEN graph_frame_fields(5)]
  slot_step_frame [THEN graph_frame_fields(6)] slot_step_frame [THEN graph_frame_fields(7)]
  slot_step_frame [THEN graph_frame_fields(8)] slot_step_frame [THEN graph_frame_fields(9)]
  slot_step_frame [THEN graph_frame_fields(10)] slot_step_frame [THEN graph_frame_fields(11)]

lemma slot_step_other:
  assumes "slot_step g s g'" and "j < FWLAB_C43_MAX_COMMANDS" and "j \<noteq> s"
  obtains p q where "graph_command g' j = (graph_command g j)\<lparr>cr_incoming_target_pins := p\<rparr>"
    and "graph_observed g' j = (graph_observed g j)\<lparr>co_incoming_target_pins := q\<rparr>"
    and "(p = cr_incoming_target_pins (graph_command g j) \<and> q = co_incoming_target_pins (graph_observed g j)) \<or>
      (cr_in_use (graph_command g j) \<noteq> 0 \<and> cr_state (graph_command g j) = C43_COMMAND_RECORD_ADMITTED \<and>
       p = 1 \<and> q = 1)"
  using assms unfolding slot_step_def by blast

text \<open>Identities and reservations do not change.\<close>

lemma slot_step_prepared:
  assumes "slot_step g s g'" and "j < FWLAB_C43_MAX_COMMANDS" and "cr_in_use (graph_command g j) \<noteq> 0"
    and "prepared_valid g (graph_command g j)"
  shows "prepared_valid g' (graph_command g' j)"
proof -
  have pins: "cr_incoming_target_pins (graph_command g' j) = cr_incoming_target_pins (graph_command g j) \<or>
      cr_state (graph_command g j) = C43_COMMAND_RECORD_ADMITTED \<and>
      cr_incoming_target_pins (graph_command g' j) = 1"
    using assms(1,2) unfolding slot_step_def by blast
  have id: "prepared_identity_valid g' (graph_command g' j)"
    using assms(4) pins unfolding prepared_iff
    by (auto simp: prepared_identity_valid_def slot_step_records [OF assms(1,2)] slot_step_graph [OF assms(1)] Let_def)
  have acts: "action_reserved g' (graph_command g' j) k = action_reserved g (graph_command g j) k" for k
    by (simp add: action_reserved_def slot_step_records [OF assms(1,2)] slot_step_graph [OF assms(1)])
  have adm: "admitted_identity_valid g' (graph_command g' j) = admitted_identity_valid g (graph_command g j)"
    by (simp add: admitted_identity_valid_def slot_step_records [OF assms(1,2)] slot_step_graph [OF assms(1)])
  show ?thesis
    using assms(4) id pins unfolding prepared_iff acts adm
    by (auto simp: slot_step_records [OF assms(1,2)] slot_step_graph [OF assms(1)])
qed

lemma slot_step_matches:
  assumes "slot_step g s g'" and "j < FWLAB_C43_MAX_COMMANDS" and "cr_in_use (graph_command g j) \<noteq> 0"
    and "observer_matches_record (graph_command g j) (graph_observed g j)"
  shows "observer_matches_record (graph_command g' j) (graph_observed g' j)"
proof (cases "j = s")
  case True
  have "cr_state (graph_command g s) = C43_COMMAND_RECORD_ADMITTED"
    and "co_phase (graph_observed g' s) \<ge> FWLAB_C43_PHASE_ADMITTED_POLICY"
    and "co_incoming_target_pins (graph_observed g s) = cr_incoming_target_pins (graph_command g s) \<longrightarrow>
      co_incoming_target_pins (graph_observed g' s) = cr_incoming_target_pins (graph_command g' s)"
    using assms(1) unfolding slot_step_def by (auto simp: word_le_nat_alt)
  moreover have "s < FWLAB_C43_MAX_COMMANDS"
    using assms(2) True by simp
  ultimately show ?thesis
    using assms(4) unfolding True
    by (simp add: observer_matches_iff observer_identity_def slot_step_records [OF assms(1)]
        slot_step_observed [OF assms(1)])
next
  case False
  obtain p q where "graph_command g' j = (graph_command g j)\<lparr>cr_incoming_target_pins := p\<rparr>"
      "graph_observed g' j = (graph_observed g j)\<lparr>co_incoming_target_pins := q\<rparr>"
      "(p = cr_incoming_target_pins (graph_command g j) \<and> q = co_incoming_target_pins (graph_observed g j)) \<or>
       (cr_in_use (graph_command g j) \<noteq> 0 \<and> cr_state (graph_command g j) = C43_COMMAND_RECORD_ADMITTED \<and>
        p = 1 \<and> q = 1)"
    by (rule slot_step_other [OF assms(1,2) False])
  then show ?thesis
    using assms(4) by (auto simp: observer_matches_iff observer_identity_def)
qed

lemma slot_step_reservation:
  assumes "slot_step g s g'" and "j < FWLAB_C43_MAX_COMMANDS" and "reservation_round g j"
  shows "reservation_round g' j"
proof (cases "cr_in_use (graph_command g j) = 0")
  case True
  then have ne: "j \<noteq> s"
    using assms(1) by (auto simp: slot_step_def)
  obtain p q where "graph_command g' j = (graph_command g j)\<lparr>cr_incoming_target_pins := p\<rparr>"
      "graph_observed g' j = (graph_observed g j)\<lparr>co_incoming_target_pins := q\<rparr>"
      "(p = cr_incoming_target_pins (graph_command g j) \<and> q = co_incoming_target_pins (graph_observed g j)) \<or>
       (cr_in_use (graph_command g j) \<noteq> 0 \<and> cr_state (graph_command g j) = C43_COMMAND_RECORD_ADMITTED \<and>
        p = 1 \<and> q = 1)"
    by (rule slot_step_other [OF assms(1,2) ne])
  then show ?thesis
    using assms(3) True by (simp add: reservation_round_iff)
next
  case False
  have apart: "records_apart (graph_command g' j) (graph_command g' k) =
      records_apart (graph_command g j) (graph_command g k)" if "k < j" for k
    using that assms(2)
    by (simp add: records_apart_def slot_step_records [OF assms(1,2)]
        slot_step_records [OF assms(1), of k])
  have used: "identities_consumed g' (graph_command g' j) = identities_consumed g (graph_command g j)"
    by (simp add: identities_consumed_def slot_step_records [OF assms(1,2)] slot_step_graph [OF assms(1)])
  show ?thesis
    using assms(3) False slot_step_prepared [OF assms(1,2) False] slot_step_matches [OF assms(1,2) False]
      apart used
    by (simp add: reservation_round_iff slot_step_records [OF assms(1,2)])
qed

text \<open>The records of the other slots stay valid.\<close>

lemma slot_step_find:
  assumes "slot_step g s g'"
  shows "target_find_slot g' i ticket = target_find_slot g i ticket"
proof -
  have "filter (\<lambda>slot. slot \<noteq> i \<and> cr_in_use (graph_command g' slot) \<noteq> 0 \<and>
      cr_state (graph_command g' slot) = C43_COMMAND_RECORD_ADMITTED \<and>
      ticket = cr_ticket (graph_command g' slot)) [0..<FWLAB_C43_MAX_COMMANDS] =
    filter (\<lambda>slot. slot \<noteq> i \<and> cr_in_use (graph_command g slot) \<noteq> 0 \<and>
      cr_state (graph_command g slot) = C43_COMMAND_RECORD_ADMITTED \<and>
      ticket = cr_ticket (graph_command g slot)) [0..<FWLAB_C43_MAX_COMMANDS]"
    by (rule filter_cong) (simp_all add: slot_step_records [OF assms] del: upt_rec_numeral)
  then show ?thesis
    by (simp only: target_find_slot_def)
qed

lemma slot_step_pin_kept:
  assumes "slot_step g s g'" and "t < FWLAB_C43_MAX_COMMANDS"
    and "cr_incoming_target_pins (graph_command g t) = 1"
  shows "cr_incoming_target_pins (graph_command g' t) = 1"
  using assms unfolding slot_step_def by metis

lemma target_flow_valid_mono:
  assumes "target_flow_valid g i tx"
    and "\<And>ticket. target_find_slot g' i ticket = target_find_slot g i ticket"
    and "\<And>t. t < FWLAB_C43_MAX_COMMANDS \<Longrightarrow> cr_incoming_target_pins (graph_command g t) = 1 \<Longrightarrow>
      cr_incoming_target_pins (graph_command g' t) = 1"
  shows "target_flow_valid g' i tx"
  using assms(1) target_find_slotD(2) [of g i] assms(3)
  by (auto simp: target_flow_valid_def assms(2) Let_def split: if_splits option.splits)

lemma slot_step_phase4:
  assumes step: "slot_step g s g'" and j: "j < FWLAB_C43_MAX_COMMANDS" "j \<noteq> s" and "phase4_local g j"
  shows "phase4_local g' j"
proof -
  obtain p q where r: "graph_command g' j = (graph_command g j)\<lparr>cr_incoming_target_pins := p\<rparr>"
      and o: "graph_observed g' j = (graph_observed g j)\<lparr>co_incoming_target_pins := q\<rparr>"
    by (rule slot_step_other [OF step j])
  let ?r = "graph_command g j" and ?o = "graph_observed g j"
  have prov: "gr_providers g' = gr_providers g"
    by (rule slot_step_graph(3) [OF step])
  have token: "queue_token_matches_record tk (?r\<lparr>cr_incoming_target_pins := p\<rparr>) = queue_token_matches_record tk ?r"
      "block_token_matches_record tk (?r\<lparr>cr_incoming_target_pins := p\<rparr>) = block_token_matches_record tk ?r" for tk
    by (simp_all add: queue_token_matches_record_def block_token_matches_record_def)
  have idle: "record_idle_observed (?r\<lparr>cr_incoming_target_pins := p\<rparr>) (?o\<lparr>co_incoming_target_pins := q\<rparr>) =
      record_idle_observed ?r ?o"
    by (simp add: record_idle_observed_def storage_zero_def)
  have queue: "queue_record_valid g' (?r\<lparr>cr_incoming_target_pins := p\<rparr>) (?o\<lparr>co_incoming_target_pins := q\<rparr>) =
      queue_record_valid g ?r ?o"
    by (simp add: queue_record_valid_def queue_record_common_def queue_nq_record_valid_def idle
        queue_rejected_record_valid_def queue_regular_request_valid_def token prov)
  have block: "block_record_valid g' (?r\<lparr>cr_incoming_target_pins := p\<rparr>) (?o\<lparr>co_incoming_target_pins := q\<rparr>) =
      block_record_valid g ?r ?o"
    by (simp add: block_record_valid_def block_record_common_def block_flow_valid_def token prov idle)
  have target: "target_record_valid g' j (?r\<lparr>cr_incoming_target_pins := p\<rparr>) (?o\<lparr>co_incoming_target_pins := q\<rparr>)"
    if "target_record_valid g j ?r ?o"
    using that target_flow_valid_mono [OF _ slot_step_find [OF step] slot_step_pin_kept [OF step]]
    by (simp add: target_record_valid_def target_record_common_def target_pin_observed_def token prov idle
        Let_def split: if_splits)
  show ?thesis
    using assms(4) unfolding phase4_local_def r o Let_def
    by (auto simp: queue block target storage_zero_def record_kind_def split: if_splits)
qed

text \<open>The entries of the other slots stay valid if the owner does not move to or from them.\<close>

lemma slot_step_ticket_matches:
  assumes step: "slot_step g s g'" and t: "t < FWLAB_C43_MAX_COMMANDS"
    and phase: "co_phase (graph_observed g s) \<ge> FWLAB_C43_PHASE_ADMITTED_POLICY"
  shows "observer_ticket_matches_command ticket (graph_observed g' t) =
    observer_ticket_matches_command ticket (graph_observed g t)"
proof -
  have "co_phase (graph_observed g' t) \<ge> FWLAB_C43_PHASE_ADMITTED_POLICY \<longleftrightarrow>
      co_phase (graph_observed g t) \<ge> FWLAB_C43_PHASE_ADMITTED_POLICY"
  proof (cases "t = s")
    case True
    then show ?thesis
      using phase step unfolding slot_step_def by (auto simp: word_le_nat_alt)
  next
    case False
    obtain q where "graph_observed g' t = (graph_observed g t)\<lparr>co_incoming_target_pins := q\<rparr>"
      by (rule slot_step_other [OF step t False])
    then show ?thesis by simp
  qed
  then show ?thesis
    by (simp add: observer_ticket_matches_command_def slot_step_observed [OF step t])
qed

lemma slot_step_target_matches:
  assumes "slot_step g s g'" and "co_phase (graph_observed g s) \<ge> FWLAB_C43_PHASE_ADMITTED_POLICY"
  shows "target_matches (gr_observer g') i ticket [0..<FWLAB_C43_MAX_COMMANDS] =
    target_matches (gr_observer g) i ticket [0..<FWLAB_C43_MAX_COMMANDS]"
  unfolding target_matches_def graph_observed_def [symmetric]
  by (rule filter_cong) (simp_all add: slot_step_ticket_matches [OF assms(1) _ assms(2)] del: upt_rec_numeral)

lemma slot_step_apart:
  assumes "slot_step g s g'" and "j < FWLAB_C43_MAX_COMMANDS" and "k < FWLAB_C43_MAX_COMMANDS"
  shows "observer_commands_apart (graph_observed g' j) (graph_observed g' k) =
    observer_commands_apart (graph_observed g j) (graph_observed g k)"
  by (simp add: observer_commands_apart_def slot_step_observed [OF assms(1,2)]
      slot_step_observed [OF assms(1,3)])

lemma slot_step_observer_local:
  assumes step: "slot_step g s g'" and j: "j < FWLAB_C43_MAX_COMMANDS" "j \<noteq> s"
    and phase: "co_phase (graph_observed g s) \<ge> FWLAB_C43_PHASE_ADMITTED_POLICY"
    and owner: "observer_owner (gr_observer g') j = observer_owner (gr_observer g) j"
    and used: "co_in_use (graph_observed g j) \<noteq> 0 \<longleftrightarrow> cr_in_use (graph_command g j) \<noteq> 0"
    and loc: "observer_local (gr_observer g) j"
  shows "observer_local (gr_observer g') j"
proof -
  obtain p q where o: "graph_observed g' j = (graph_observed g j)\<lparr>co_incoming_target_pins := q\<rparr>"
      and q: "(p = cr_incoming_target_pins (graph_command g j) \<and> q = co_incoming_target_pins (graph_observed g j)) \<or>
       (cr_in_use (graph_command g j) \<noteq> 0 \<and> cr_state (graph_command g j) = C43_COMMAND_RECORD_ADMITTED \<and>
        p = 1 \<and> q = 1)"
    by (rule slot_step_other [OF step j])
  let ?c = "graph_observed g j"
  let ?c' = "?c\<lparr>co_incoming_target_pins := q\<rparr>"
  have ids: "go_instance_nonce (gr_observer g') = go_instance_nonce (gr_observer g)"
      "go_controller_epoch (gr_observer g') = go_controller_epoch (gr_observer g)"
    using observer_frame_fields [OF slot_step_frame [OF step]] by simp_all
  have zero: "target_fields_zero ?c' = target_fields_zero ?c"
    by (simp add: target_fields_zero_def)
  have ranges: "observer_command_ranges ?c \<Longrightarrow> observer_command_ranges ?c'"
    using q by (auto simp: observer_command_ranges_def zero)
  have in_use: "observer_command_in_use (gr_observer g') ?c' = observer_command_in_use (gr_observer g) ?c"
    by (simp add: observer_command_in_use_def ids)
  have queue: "queue_public_command_valid (gr_observer g') j ?c' = queue_public_command_valid (gr_observer g) j ?c"
    by (simp add: queue_public_command_valid_def zero owner Let_def split: option.splits prod.splits)
  have block: "block_public_command_valid (gr_observer g') j ?c' = block_public_command_valid (gr_observer g) j ?c"
    by (simp add: block_public_command_valid_def zero owner)
  have target: "target_public_local (gr_observer g') j ?c' = target_public_local (gr_observer g) j ?c"
    by (simp add: target_public_local_def zero owner slot_step_target_matches [OF step phase] del: upt_rec_numeral)
  have apart: "(\<forall>k<j. observer_commands_apart (graph_observed g' j) (graph_observed g' k)) =
      (\<forall>k<j. observer_commands_apart ?c (graph_observed g k))"
    using j(1) slot_step_apart [OF step j(1)] by simp
  show ?thesis
  proof (cases "co_in_use ?c = 0")
    case True
    then have "q = co_incoming_target_pins ?c"
      using q used by auto
    then have "graph_observed g' j = ?c"
      using o by simp
    then show ?thesis
      using True loc by (simp add: observer_local_def graph_observed_def)
  next
    case False
    then show ?thesis
      using loc ranges apart unfolding observer_local_def graph_observed_def [symmetric] Let_def o
      by (simp add: in_use queue block target)
  qed
qed

section \<open>The frame rule\<close>

definition entry_ok :: "c43_graph_observer \<Rightarrow> nat \<Rightarrow> c43_command_observer \<Rightarrow> bool" where
  "entry_ok ob i c \<longleftrightarrow> observer_command_ranges c \<and> observer_command_in_use ob c \<and>
     queue_public_command_valid ob i c \<and> target_public_local ob i c \<and> block_public_command_valid ob i c"

lemma count_cong:
  assumes "graph_arrays g" and "graph_arrays g'"
    and "\<And>i. i < FWLAB_C43_MAX_COMMANDS \<Longrightarrow> Q (graph_observed g' i) = Q (graph_observed g i)"
  shows "length (filter Q (go_commands (gr_observer g'))) = length (filter Q (go_commands (gr_observer g)))"
proof -
  have same: "\<forall>i<FWLAB_C43_MAX_COMMANDS. Q (go_commands (gr_observer g') ! i) = Q (go_commands (gr_observer g) ! i)"
    using assms(3) by (simp add: graph_observed_def)
  obtain a b c d where g': "go_commands (gr_observer g') = [a, b, c, d]"
    using assms four_nth unfolding graph_arrays_def by blast
  obtain e f h k where g: "go_commands (gr_observer g) = [e, f, h, k]"
    using assms four_nth unfolding graph_arrays_def by blast
  show ?thesis
    using same unfolding all_slots g g' by simp
qed

lemma action_count_cong:
  assumes "graph_arrays g" and "graph_arrays g'"
    and "\<And>i. i < FWLAB_C43_MAX_COMMANDS \<Longrightarrow> co_in_use (graph_observed g' i) = co_in_use (graph_observed g i)"
    and "\<And>i. i < FWLAB_C43_MAX_COMMANDS \<Longrightarrow> co_action_count (graph_observed g' i) = co_action_count (graph_observed g i)"
  shows "observer_action_count (gr_observer g') = observer_action_count (gr_observer g)"
proof -
  have same: "\<forall>i<FWLAB_C43_MAX_COMMANDS. co_in_use (go_commands (gr_observer g') ! i) = co_in_use (go_commands (gr_observer g) ! i)"
      "\<forall>i<FWLAB_C43_MAX_COMMANDS. co_action_count (go_commands (gr_observer g') ! i) = co_action_count (go_commands (gr_observer g) ! i)"
    using assms(3,4) by (simp_all add: graph_observed_def)
  obtain a b c d where g': "go_commands (gr_observer g') = [a, b, c, d]"
    using assms four_nth unfolding graph_arrays_def by blast
  obtain e f h k where g: "go_commands (gr_observer g) = [e, f, h, k]"
    using assms four_nth unfolding graph_arrays_def by blast
  show ?thesis
    using same unfolding all_slots g g' observer_action_count_def by simp
qed

lemma slot_step_counts:
  assumes step: "slot_step g s g'" and arrays: "graph_arrays g" and "phase_promise (graph_observed g s)"
    and "observer_counts_valid (gr_observer g)"
  shows "observer_counts_valid (gr_observer g')"
proof -
  have arrays': "graph_arrays g'"
    using slot_step_frame [OF step] by (simp add: graph_frame_def)
  have static: "observer_count P (gr_observer g') = observer_count P (gr_observer g)"
    if "\<And>i. i < FWLAB_C43_MAX_COMMANDS \<Longrightarrow> P (graph_observed g' i) = P (graph_observed g i)" for P
    unfolding observer_count_def
    using count_cong [OF arrays arrays', of "\<lambda>c. co_in_use c \<noteq> 0 \<and> P c"] that
    by (simp add: slot_step_observed [OF step])
  have phases: "(co_phase (graph_observed g' i) = w) = (co_phase (graph_observed g i) = w)"
    if "w \<notin> {FWLAB_C43_PHASE_ADMITTED_POLICY, FWLAB_C43_PHASE_RESOLVE_WAIT, FWLAB_C43_PHASE_ACTION_WAIT}"
      and i: "i < FWLAB_C43_MAX_COMMANDS" for w i
  proof (cases "i = s")
    case True
    then show ?thesis
      using that(1) step assms(3) unfolding slot_step_def phase_promise_def by auto
  next
    case False
    obtain q where "graph_observed g' i = (graph_observed g i)\<lparr>co_incoming_target_pins := q\<rparr>"
      by (rule slot_step_other [OF step i False])
    then show ?thesis by simp
  qed
  have credits: "observer_credit_count k (gr_observer g') = observer_credit_count k (gr_observer g)" for k
    unfolding observer_credit_count_def by (rule static) (simp add: slot_step_observed [OF step])
  have acts: "observer_action_count (gr_observer g') = observer_action_count (gr_observer g)"
    by (rule action_count_cong [OF arrays arrays']) (simp_all add: slot_step_observed [OF step])
  have all: "observer_count (\<lambda>c. True) (gr_observer g') = observer_count (\<lambda>c. True) (gr_observer g)"
      "observer_count (\<lambda>c. co_phase c = FWLAB_C43_PHASE_INTENT_READY) (gr_observer g') =
       observer_count (\<lambda>c. co_phase c = FWLAB_C43_PHASE_INTENT_READY) (gr_observer g)"
      "observer_count (\<lambda>c. co_phase c = FWLAB_C43_PHASE_CLEANUP_PENDING \<or>
         co_phase c = FWLAB_C43_PHASE_RETIRED_TOMBSTONE) (gr_observer g') =
       observer_count (\<lambda>c. co_phase c = FWLAB_C43_PHASE_CLEANUP_PENDING \<or>
         co_phase c = FWLAB_C43_PHASE_RETIRED_TOMBSTONE) (gr_observer g)"
    by (rule static; simp add: phases)+
  show ?thesis
    using assms(4) unfolding observer_counts_valid_def credits acts all
    by (simp add: observer_frame_fields [OF slot_step_frame [OF step]])
qed

lemma slot_step_header:
  assumes step: "slot_step g s g'" and "graph_frame_ok g"
    and "queue_authority_valid g' (gr_queue_authority g')"
  shows "graph_frame_ok g'"
proof -
  let ?qa = "gr_queue_authority g'"
  have shown: "authority_observed (gr_observer g') ?qa"
    using assms(3) by (simp add: queue_authority_valid_def)
  have qa: "qa_nq_state ?qa = 0 \<or> qa_nq_state ?qa = 1" "qa_txn_active ?qa \<le> 1" "qa_io_cq_present ?qa \<le> 1"
      "qa_io_sq_present ?qa \<le> 1"
    using assms(3) word_le_1 [of "qa_nq_state ?qa"]
    by (simp_all add: queue_authority_valid_def authority_consistent_def not_less)
  have "go_nq_state (gr_observer g') = 0 \<or> go_nq_state (gr_observer g') = 1"
    using qa(1) shown by (auto simp: authority_observed_def)
  then have bounds: "go_nq_state (gr_observer g') \<le> 1" "go_queue_txn_active (gr_observer g') \<le> 1"
      "go_io_cq_present (gr_observer g') \<le> 1" "go_io_sq_present (gr_observer g') \<le> 1"
    using qa shown by (simp_all add: authority_observed_def word_le_1)
  have "observer_header_valid (gr_observer g)"
    using assms(2) by (simp add: graph_frame_ok_def)
  then have "observer_header_valid (gr_observer g')"
    using bounds unfolding observer_header_valid_def
    by (simp add: observer_frame_fields [OF slot_step_frame [OF step]] not_less)
  moreover have "cursors_valid g' = cursors_valid g"
    by (simp add: cursors_valid_def slot_step_graph [OF step])
  ultimately show ?thesis
    using assms(2,3) unfolding graph_frame_ok_def
    by (simp add: slot_step_graph [OF step] observer_frame_fields [OF slot_step_frame [OF step]])
qed

lemma slot_step_needs:
  assumes "slot_step g s g'" and "j < FWLAB_C43_MAX_COMMANDS" and "j \<noteq> s"
  shows "needs_owner g' j = needs_owner g j"
proof -
  obtain p where "graph_command g' j = (graph_command g j)\<lparr>cr_incoming_target_pins := p\<rparr>"
    by (rule slot_step_other [OF assms])
  then show ?thesis
    by (simp add: needs_owner_def record_kind_def Let_def)
qed

lemma slot_step_own_local:
  assumes step: "slot_step g s g'" and ok: "slot_ok g s" and entry: "entry_ok (gr_observer g') s (graph_observed g' s)"
  shows "observer_local (gr_observer g') s"
proof -
  have s: "s < FWLAB_C43_MAX_COMMANDS" "cr_in_use (graph_command g s) \<noteq> 0"
    using step by (simp_all add: slot_step_def)
  have used: "co_in_use (graph_observed g s) \<noteq> 0"
    using used_iff [of g s] ok s(2) by (simp add: slot_ok_def)
  moreover have "observer_local (gr_observer g) s"
    using ok by (simp add: slot_ok_def)
  ultimately have "\<forall>k. k < s \<longrightarrow> observer_commands_apart (graph_observed g' s) (graph_observed g' k)"
    using slot_step_apart [OF step s(1)] s(1) by (simp add: observer_local_def graph_observed_def Let_def)
  moreover have "co_in_use (graph_observed g' s) \<noteq> 0"
    using used slot_step_observed(8) [OF step s(1)] by simp
  ultimately show ?thesis
    using entry by (simp add: observer_local_def entry_ok_def graph_observed_def Let_def)
qed

lemma slot_step_promise:
  assumes step: "slot_step g s g'" "i < FWLAB_C43_MAX_COMMANDS" "i \<noteq> s"
    and nq: "qa_nq_state (gr_queue_authority g) = FWLAB_C43_NQ_NEGOTIATED \<Longrightarrow>
      qa_nq_state (gr_queue_authority g') = FWLAB_C43_NQ_NEGOTIATED"
    and old: "queue_promise (gr_queue_authority g) (graph_command g i)"
  shows "queue_promise (gr_queue_authority g') (graph_command g' i)"
proof -
  obtain p where r: "graph_command g' i = (graph_command g i)\<lparr>cr_incoming_target_pins := p\<rparr>"
    by (rule slot_step_other [OF step])
  show ?thesis
    using old nq unfolding r by (auto simp: queue_promise_def)
qed

lemma slot_step_phase_promise:
  assumes inv: "graph_inv g" and step: "slot_step g s g'"
    and domain: "co_action_domain (graph_observed g' s) \<noteq> FWLAB_C43_ACTION_DOMAIN_NONE"
    and i: "i < FWLAB_C43_MAX_COMMANDS" and a: "cr_in_use (graph_command g' i) \<noteq> 0"
      "cr_state (graph_command g' i) = C43_COMMAND_RECORD_ADMITTED"
  shows "phase_promise (graph_observed g' i)"
proof (cases "i = s")
  case True
  then show ?thesis
    using step domain unfolding slot_step_def phase_promise_def by auto
next
  case False
  obtain p q where r: "graph_command g' i = (graph_command g i)\<lparr>cr_incoming_target_pins := p\<rparr>"
      and o: "graph_observed g' i = (graph_observed g i)\<lparr>co_incoming_target_pins := q\<rparr>"
    by (rule slot_step_other [OF step i False])
  have "phase_promise (graph_observed g i)"
    using inv i a unfolding r by (simp add: graph_inv_def)
  then show ?thesis
    unfolding o by (simp add: phase_promise_def)
qed

theorem slot_step_inv:
  assumes inv: "graph_inv g" and step: "slot_step g s g'"
    and auth: "queue_authority_valid g' (gr_queue_authority g')"
    and nq: "qa_nq_state (gr_queue_authority g) = FWLAB_C43_NQ_NEGOTIATED \<Longrightarrow>
      qa_nq_state (gr_queue_authority g') = FWLAB_C43_NQ_NEGOTIATED"
    and others: "\<And>j. j \<noteq> s \<Longrightarrow> owner_at (gr_queue_authority g') j = owner_at (gr_queue_authority g) j"
    and owner: "needs_owner g' s = owner_at (gr_queue_authority g') s"
    and promise: "needs_owner g' s \<Longrightarrow> queue_promise (gr_queue_authority g') (graph_command g' s)"
    and entry: "entry_ok (gr_observer g') s (graph_observed g' s)"
    and loc: "phase4_local g' s"
    and domain: "co_action_domain (graph_observed g' s) \<noteq> FWLAB_C43_ACTION_DOMAIN_NONE"
    and pins: "pins_ok g'"
  shows "graph_inv g'"
proof -
  have arrays: "graph_arrays g" and wf: "graph_wf g"
    using inv by (simp_all add: graph_inv_def)
  have arrays': "graph_arrays g'"
    using slot_step_frame [OF step] by (simp add: graph_frame_def)
  have s: "s < FWLAB_C43_MAX_COMMANDS" "cr_in_use (graph_command g s) \<noteq> 0"
      "cr_state (graph_command g s) = C43_COMMAND_RECORD_ADMITTED"
    using step by (simp_all add: slot_step_def)
  have prom: "phase_promise (graph_observed g s)"
    using inv s by (simp add: graph_inv_def)
  have ok: "\<And>i. i < FWLAB_C43_MAX_COMMANDS \<Longrightarrow> slot_ok g i" and frame: "graph_frame_ok g"
    using wf by (simp_all add: graph_wf_def)
  have phase: "co_phase (graph_observed g s) \<ge> FWLAB_C43_PHASE_ADMITTED_POLICY"
    using prom by (auto simp: phase_promise_def word_le_nat_alt)
  have obs: "authority_observed (gr_observer g) (gr_queue_authority g)"
      "authority_observed (gr_observer g') (gr_queue_authority g')"
    using auth frame by (simp_all add: graph_frame_ok_def queue_authority_valid_def)
  have same: "observer_owner (gr_observer g') j = observer_owner (gr_observer g) j" if "j \<noteq> s" for j
    using others [OF that] by (simp add: owner_observed [OF obs(1)] owner_observed [OF obs(2)])
  note needs = slot_step_needs [OF step]
  have slots: "slot_ok g' i" if i: "i < FWLAB_C43_MAX_COMMANDS" for i
  proof -
    have res: "reservation_round g' i"
      using slot_step_reservation [OF step i] ok [OF i] by (simp add: slot_ok_def)
    have "phase4_local g' i"
      using loc slot_step_phase4 [OF step i] ok [OF i] by (cases "i = s") (simp_all add: slot_ok_def)
    moreover have "observer_local (gr_observer g') i"
    proof (cases "i = s")
      case True
      show ?thesis
        unfolding True using slot_step_own_local [OF step _ entry] ok [OF s(1)] by simp
    next
      case False
      show ?thesis
        using ok [OF i] used_iff [of g i] same [OF False]
        by (intro slot_step_observer_local [OF step i False phase]) (simp_all add: slot_ok_def)
    qed
    ultimately show ?thesis
      using res by (simp add: slot_ok_def)
  qed
  have "needs_owner g' i \<longleftrightarrow> owner_at (gr_queue_authority g') i" if i: "i < FWLAB_C43_MAX_COMMANDS" for i
    using owner needs [OF i] others [of i] wf i by (cases "i = s") (simp_all add: graph_wf_def)
  then have "graph_wf g'"
    using slots pins slot_step_counts [OF step arrays prom] slot_step_header [OF step frame auth] wf
    by (simp add: graph_wf_def)
  moreover have "queue_promise (gr_queue_authority g') (graph_command g' i)"
    if i: "i < FWLAB_C43_MAX_COMMANDS" and n: "needs_owner g' i" for i
    using promise n slot_step_promise [OF step i _ nq] inv needs [OF i] i
    by (cases "i = s") (simp_all add: graph_inv_def)
  moreover have "phase_promise (graph_observed g' i)"
    if "i < FWLAB_C43_MAX_COMMANDS" "cr_in_use (graph_command g' i) \<noteq> 0"
      "cr_state (graph_command g' i) = C43_COMMAND_RECORD_ADMITTED" for i
    by (rule slot_step_phase_promise [OF inv step domain that])
  moreover have "graph_named g'"
    using inv by (simp add: graph_inv_def graph_named_def slot_step_graph [OF step]
        observer_frame_fields [OF slot_step_frame [OF step]])
  ultimately show ?thesis
    using arrays' by (simp add: graph_inv_def)
qed

end
