(* ===== verification/Nvme_Queue_Laws.thy ===== *)
theory Nvme_Queue_Laws
  imports Nvme_Graph_Frame
begin

text \<open>
  The queue flow keeps the invariant of the command graph, whatever the queue provider answers. Every
  step of the flow writes one transaction and one authority; \<open>queue_result\<close> is that write, and
  \<open>queue_result_inv\<close> the condition under which it keeps the invariant.
\<close>

section \<open>Plans\<close>

lemmas policy_cases = fwlab_c43_policy_begin_def policy_error_def policy_plan_emit_def Let_def
  policy_plan_base_def identify_plan_def block_plan_def zero_c43_policy_plan_def

lemma plan_satisfied_none:
  "fwlab_c43_policy_begin profile rq = Inr pl \<Longrightarrow> pl_satisfied_witness_mask pl = 0"
  by (auto simp: policy_cases split: if_splits option.splits prod.splits)

lemma plan_abort_kind:
  "fwlab_c43_policy_begin profile rq = Inr pl \<Longrightarrow> pl_kind pl = FWLAB_C43_PLAN_ABORT_RESOLVE \<Longrightarrow>
     pr_kind rq = FWLAB_C43_REQUEST_ABORT"
  by (auto simp: policy_cases split: if_splits option.splits prod.splits)

lemma plan_queue_kind:
  assumes "fwlab_c43_policy_begin profile rq = Inr pl"
    and "queue_command_kind (pr_kind rq) \<or> pr_kind rq = FWLAB_C43_REQUEST_SET_NUMBER_OF_QUEUES"
  shows "pl_required_witness_mask pl \<in> {0, FWLAB_C43_WITNESS_QUEUE_EFFECT_COMMITTED}"
    and "queue_command_kind (pr_kind rq) \<Longrightarrow> pl_semantic_status pl = FWLAB_C43_STATUS_SUCCESS \<Longrightarrow>
      pl_required_witness_mask pl = FWLAB_C43_WITNESS_QUEUE_EFFECT_COMMITTED"
    and "pr_kind rq = FWLAB_C43_REQUEST_SET_NUMBER_OF_QUEUES \<Longrightarrow> pl_required_witness_mask pl = 0"
proof -
  have kinds: "\<not> queue_command_kind 5" "\<not> queue_command_kind 10" "\<not> queue_command_kind 11"
      "\<not> queue_command_kind 12" "\<not> queue_command_kind 13" "\<not> queue_command_kind 14"
      "\<not> queue_command_kind 1" "\<not> queue_command_kind 2" "\<not> queue_command_kind 3" "\<not> queue_command_kind 4"
    by (simp_all add: queue_command_kind_def word_le_nat_alt)
  show "pl_required_witness_mask pl \<in> {0, FWLAB_C43_WITNESS_QUEUE_EFFECT_COMMITTED}"
    using assms by (auto simp: policy_cases kinds split: if_splits option.splits prod.splits)
  show "pl_required_witness_mask pl = FWLAB_C43_WITNESS_QUEUE_EFFECT_COMMITTED"
    if "queue_command_kind (pr_kind rq)" and "pl_semantic_status pl = FWLAB_C43_STATUS_SUCCESS"
    using assms that by (auto simp: policy_cases kinds request_common_error_def split: if_splits option.splits prod.splits)
  show "pl_required_witness_mask pl = 0" if "pr_kind rq = FWLAB_C43_REQUEST_SET_NUMBER_OF_QUEUES"
    using assms(1) that by (auto simp: policy_cases split: if_splits option.splits prod.splits)
qed

section \<open>The write of a queue step\<close>

definition entry_update :: "u32 \<Rightarrow> u32 \<Rightarrow> u8 \<Rightarrow> c43_command_observer \<Rightarrow> c43_command_observer" where
  "entry_update phase satisfied success c = c\<lparr>co_phase := phase, co_satisfied_witness_mask := satisfied,
     co_success_eligible := success\<rparr>"

definition queue_result ::
  "c43_graph \<Rightarrow> nat \<Rightarrow> c43_queue_authority \<Rightarrow> c43_queue_txn_record \<Rightarrow> u32 \<Rightarrow> u32 \<Rightarrow> u8 \<Rightarrow> c43_graph" where
  "queue_result g s qa qx phase satisfied success =
     queue_authority_sync (queue_store (g\<lparr>gr_queue_authority := qa\<rparr>) s qx (entry_update phase satisfied success))"

lemma graph_put_nth:
  assumes "graph_arrays g" and "j < FWLAB_C43_MAX_COMMANDS"
  shows "graph_command (graph_put g s r c) j = (if j = s then r else graph_command g j)"
    and "graph_observed (graph_put g s r c) j = (if j = s then c else graph_observed g j)"
  using assms by (auto simp: graph_put_def graph_command_def graph_observed_def graph_arrays_def nth_list_update)

lemma graph_put_arrays: "graph_arrays (graph_put g s r c) = graph_arrays g"
  by (simp add: graph_put_def graph_arrays_def)

lemma queue_result_fields:
  assumes "graph_arrays g" and "j < FWLAB_C43_MAX_COMMANDS"
  shows "graph_command (queue_result g s qa qx ph sat suc) j =
      (if j = s then (graph_command g s)\<lparr>cr_queue_txn := qx\<rparr> else graph_command g j)"
    and "graph_observed (queue_result g s qa qx ph sat suc) j =
      (if j = s then queue_record_sync ((graph_command g s)\<lparr>cr_queue_txn := qx\<rparr>)
         (entry_update ph sat suc (graph_observed g s)) else graph_observed g j)"
  using assms
  by (auto simp: queue_result_def queue_authority_sync_def queue_store_def graph_put_def graph_command_def
      graph_observed_def graph_arrays_def nth_list_update Let_def)

lemma queue_result_authority:
  "gr_queue_authority (queue_result g s qa qx ph sat suc) = qa"
  "authority_observed (gr_observer (queue_result g s qa qx ph sat suc)) qa"
  by (simp_all add: queue_result_def queue_authority_sync_def queue_store_def graph_put_def
      authority_observed_def Let_def)

lemma queue_result_frame:
  assumes "graph_arrays g"
  shows "graph_frame g (queue_result g s qa qx ph sat suc)"
  using assms
  by (simp add: graph_frame_def queue_result_def queue_authority_sync_def queue_store_def graph_put_def
      graph_arrays_def Let_def)

lemma queue_result_step:
  assumes "graph_arrays g" and "s < FWLAB_C43_MAX_COMMANDS" and "cr_in_use (graph_command g s) \<noteq> 0"
    and "cr_state (graph_command g s) = C43_COMMAND_RECORD_ADMITTED"
    and "ph \<in> {FWLAB_C43_PHASE_RESOLVE_WAIT, FWLAB_C43_PHASE_ACTION_WAIT}"
  shows "slot_step g s (queue_result g s qa qx ph sat suc)"
  using assms queue_result_frame [OF assms(1)]
  by (auto simp: slot_step_def queue_result_fields [OF assms(1)] record_frame_def observed_frame_def
      queue_record_sync_def entry_update_def)

text \<open>Steps that leave the pins alone.\<close>

lemma pins_ok_cong:
  assumes "pins_ok g"
    and "\<And>j. j < FWLAB_C43_MAX_COMMANDS \<Longrightarrow> pin_of g' j = pin_of g j"
    and "\<And>j. j < FWLAB_C43_MAX_COMMANDS \<Longrightarrow>
      cr_incoming_target_pins (graph_command g' j) = cr_incoming_target_pins (graph_command g j)"
  shows "pins_ok g'"
proof -
  have "map (pin_of g') [0..<FWLAB_C43_MAX_COMMANDS] = map (pin_of g) [0..<FWLAB_C43_MAX_COMMANDS]"
    using assms(2) by (simp del: upt_rec_numeral)
  then show ?thesis
    using assms(1,3) unfolding pins_ok_def by metis
qed

section \<open>Served slots\<close>

text \<open>A slot whose command is admitted, in a graph with the invariant.\<close>

definition served :: "c43_graph \<Rightarrow> nat \<Rightarrow> bool" where
  "served g s \<longleftrightarrow> graph_inv g \<and> s < FWLAB_C43_MAX_COMMANDS \<and> cr_in_use (graph_command g s) \<noteq> 0 \<and>
     cr_state (graph_command g s) = C43_COMMAND_RECORD_ADMITTED"

lemma served_arrays: "served g s \<Longrightarrow> graph_arrays g"
  by (simp add: served_def graph_inv_def)

lemma served_frame:
  assumes "served g s"
  shows "graph_frame_ok g" and "authority_consistent (gr_queue_authority g)"
    and "authority_observed (gr_observer g) (gr_queue_authority g)" and "pins_ok g"
    and "providers_valid (gr_providers g)" and "fwlab_c43_graph_config_valid (gr_config g)"
  using assms
  by (simp_all add: served_def graph_inv_def graph_wf_def graph_frame_ok_def queue_authority_valid_def)

lemma served_slot:
  assumes "served g s"
  shows "reservation_round g s" and "phase4_local g s" and "observer_local (gr_observer g) s"
    and "phase_promise (graph_observed g s)"
    and "needs_owner g s = owner_at (gr_queue_authority g) s"
    and "needs_owner g s \<Longrightarrow> queue_promise (gr_queue_authority g) (graph_command g s)"
  using assms by (simp_all add: served_def graph_inv_def graph_wf_def slot_ok_def)

lemma served_record:
  assumes "served g s"
  shows "cr_in_use (graph_command g s) = 1" and "prepared_valid g (graph_command g s)"
    and "observer_matches_record (graph_command g s) (graph_observed g s)"
    and "admitted_identity_valid g (graph_command g s)"
    and "fwlab_c43_policy_begin (gc_profile (gr_config g)) (cr_request (graph_command g s)) =
      Inr (cr_plan (graph_command g s))"
    and "prepared_identity_valid g (graph_command g s)"
    and "\<And>k. k < FWLAB_C43_ACTIONS_PER_COMMAND \<Longrightarrow> action_reserved g (graph_command g s) k"
proof -
  have used: "cr_in_use (graph_command g s) \<noteq> 0" and st: "cr_state (graph_command g s) = C43_COMMAND_RECORD_ADMITTED"
    using assms by (simp_all add: served_def)
  show "cr_in_use (graph_command g s) = 1" and prep: "prepared_valid g (graph_command g s)"
    and "observer_matches_record (graph_command g s) (graph_observed g s)"
    using served_slot(1) [OF assms] used by (simp_all add: reservation_round_iff)
  show "admitted_identity_valid g (graph_command g s)"
    and "fwlab_c43_policy_begin (gc_profile (gr_config g)) (cr_request (graph_command g s)) =
      Inr (cr_plan (graph_command g s))"
    and "prepared_identity_valid g (graph_command g s)"
    and "\<And>k. k < FWLAB_C43_ACTIONS_PER_COMMAND \<Longrightarrow> action_reserved g (graph_command g s) k"
    using prep st by (simp_all add: prepared_iff)
qed

lemma served_entry:
  assumes "served g s"
  shows "entry_ok (gr_observer g) s (graph_observed g s)"
    and "co_required_witness_mask (graph_observed g s) = pl_required_witness_mask (cr_plan (graph_command g s))"
    and "observer_identity (graph_command g s) (graph_observed g s)"
proof -
  have st: "cr_state (graph_command g s) = C43_COMMAND_RECORD_ADMITTED"
    using assms by (simp add: served_def)
  show req: "co_required_witness_mask (graph_observed g s) = pl_required_witness_mask (cr_plan (graph_command g s))"
    and id: "observer_identity (graph_command g s) (graph_observed g s)"
    using served_record(3) [OF assms] st by (simp_all add: observer_matches_iff)
  then show "entry_ok (gr_observer g) s (graph_observed g s)"
    using served_slot(3) [OF assms]
    by (simp add: entry_ok_def observer_local_def observer_identity_def graph_observed_def Let_def)
qed

lemma entry_fixed:
  assumes "served g s"
  shows "handle_valid (co_handle (graph_observed g s))" and "origin_valid (co_origin (graph_observed g s))"
    and "co_transaction_uid (graph_observed g s) \<noteq> 0"
    and "cmd_instance_nonce (co_handle (graph_observed g s)) = go_instance_nonce (gr_observer g)"
    and "cmd_controller_epoch (co_handle (graph_observed g s)) = go_controller_epoch (gr_observer g)"
  using served_entry(1) [OF assms] by (simp_all add: entry_ok_def observer_command_in_use_def Let_def)

definition queue_slot :: "c43_graph \<Rightarrow> nat \<Rightarrow> bool" where
  "queue_slot g s \<longleftrightarrow> served g s \<and> pl_kind (cr_plan (graph_command g s)) \<noteq> FWLAB_C43_PLAN_ABORT_RESOLVE \<and>
     pl_kind (cr_plan (graph_command g s)) \<noteq> FWLAB_C43_PLAN_BLOCK"

lemma queue_slot_record:
  assumes "queue_slot g s"
  shows "queue_record_valid g (graph_command g s) (graph_observed g s)"
    and "needs_owner g s = queue_flow_requires_owner (qx_flow (cr_queue_txn (graph_command g s)))"
  using assms served_slot(2) [of g s]
  by (auto simp: queue_slot_def served_def phase4_local_def record_kind_def needs_owner_def Let_def)

lemma queue_slot_zero:
  assumes "queue_slot g s"
  shows "target_fields_zero (graph_observed g s)" and "co_block_terminal_kind (graph_observed g s) = 0"
proof -
  have "co_action_domain (graph_observed g s) = FWLAB_C43_ACTION_DOMAIN_NONE \<or>
      co_action_domain (graph_observed g s) = FWLAB_C43_ACTION_DOMAIN_QUEUE"
    using queue_slot_record(1) [OF assms]
    by (auto simp: queue_record_valid_def record_idle_observed_def queue_record_common_def Let_def split: if_splits)
  moreover have "observer_command_ranges (graph_observed g s)"
    using assms served_entry(1) by (simp add: queue_slot_def entry_ok_def)
  ultimately show "target_fields_zero (graph_observed g s)" and "co_block_terminal_kind (graph_observed g s) = 0"
    by (auto simp: observer_command_ranges_def)
qed

text \<open>The range tests on the fields a step changes, apart from those on the fields it keeps.\<close>

definition ranges_kept :: "c43_command_observer \<Rightarrow> bool" where
  "ranges_kept c \<longleftrightarrow>
     co_terminal_winner c \<le> FWLAB_C43_WINNER_FAULT \<and> co_publication c \<le> FWLAB_C43_PUBLICATION_SUPPRESSED \<and>
     c43_witness_mask_valid (co_required_witness_mask c) \<and>
     co_required_witness_mask c AND FWLAB_C43_WITNESS_VALIDATED_ONLY = 0 \<and>
     co_action_count c \<le> 8 \<and> co_in_use c \<le> 1 \<and> co_provider_generation_current c \<le> 1 \<and>
     co_reserved_action_flags c = 0 \<and> words_zero (co_reserved_action c) \<and>
     co_reservation_credit_mask c AND NOT FWLAB_C43_CREDIT_ALL = 0 \<and>
     (co_action_count c = 0) = (co_first_action_uid c = 0) \<and>
     (co_action_count c = 0) = (co_action_generation c = 0) \<and>
     \<not> (co_action_count c \<noteq> 0 \<and> co_first_action_uid c > UINT64_MAX - (ucast (co_action_count c) - 1))"

definition ranges_changed :: "c43_command_observer \<Rightarrow> bool" where
  "ranges_changed c \<longleftrightarrow>
     co_phase c \<le> FWLAB_C43_PHASE_RETIRED_TOMBSTONE \<and> c43_witness_mask_valid (co_satisfied_witness_mask c) \<and>
     co_satisfied_witness_mask c AND NOT (co_required_witness_mask c OR FWLAB_C43_WITNESS_VALIDATED_ONLY) = 0 \<and>
     co_success_eligible c \<le> 1 \<and> co_action_domain c \<le> FWLAB_C43_ACTION_DOMAIN_BLOCK \<and>
     co_action_state c \<le> FWLAB_C43_ACTION_STATE_ACCEPTED_WAIT \<and> co_resolution_valid c \<le> 1 \<and>
     co_action_outcome c \<le> FWLAB_C43_TARGET_RELEASED \<and> co_block_terminal_kind c \<le> FWLAB_C43_BLOCK_COMPLETED \<and>
     co_incoming_target_pins c \<le> 1 \<and> co_target_pin_present c \<le> 1 \<and>
     (co_action_domain c \<noteq> FWLAB_C43_ACTION_DOMAIN_TARGET \<longrightarrow> target_fields_zero c) \<and>
     (co_action_domain c \<noteq> FWLAB_C43_ACTION_DOMAIN_BLOCK \<longrightarrow> co_block_terminal_kind c = 0) \<and>
     (co_resolution_valid c = 0 \<longrightarrow> co_resolved_status c = 0) \<and>
     (co_resolution_valid c \<noteq> 0 \<longrightarrow> c43_semantic_status_valid (co_resolved_status c)) \<and>
     (co_action_domain c = FWLAB_C43_ACTION_DOMAIN_NONE) = (co_action_state c = FWLAB_C43_ACTION_STATE_NONE)"

lemma ranges_split: "observer_command_ranges c \<longleftrightarrow> ranges_kept c \<and> ranges_changed c"
  unfolding observer_command_ranges_def ranges_kept_def ranges_changed_def by (simp only: not_less de_Morgan_disj
      not_not de_Morgan_conj) blast

lemma ranges_kept_frame: "observed_frame c c' \<Longrightarrow> ranges_kept c' = ranges_kept c"
  by (simp add: ranges_kept_def observed_frame_fields)

text \<open>What the entry of a queue command must show.\<close>

definition queue_shown :: "u32 \<Rightarrow> c43_queue_txn_record \<Rightarrow> u32 \<Rightarrow> u32 \<Rightarrow> u8 \<Rightarrow> bool" where
  "queue_shown required qx phase satisfied success \<longleftrightarrow>
     required \<in> {0, 2} \<and> satisfied \<in> {0, 2} \<and> (satisfied = 2 \<longrightarrow> required = 2) \<and>
     queue_public_expected (queue_public_action_state (qx_flow qx)) = Some (phase, qx_resolution_valid qx) \<and>
     success = of_bool (qx_resolution_valid qx \<noteq> 0 \<and> qx_resolved_status qx = 0 \<and> (required = 0 \<or> satisfied = 2)) \<and>
     (satisfied = 0 \<or> queue_public_action_state (qx_flow qx) \<in>
        {FWLAB_C43_ACTION_STATE_RETIRE, FWLAB_C43_ACTION_STATE_TERMINAL_HELD, FWLAB_C43_ACTION_STATE_FAULT})"

lemma queue_shown_phase:
  assumes "queue_shown required qx phase satisfied success"
  shows "phase \<in> {FWLAB_C43_PHASE_RESOLVE_WAIT, FWLAB_C43_PHASE_ACTION_WAIT} \<and>
     queue_public_action_state (qx_flow qx) \<noteq> 0 \<and> queue_public_action_state (qx_flow qx) \<le> 12"
proof -
  let ?st = "queue_public_action_state (qx_flow qx)"
  have "queue_public_expected ?st = Some (phase, qx_resolution_valid qx)"
    using assms by (simp add: queue_shown_def)
  then have "phase = FWLAB_C43_PHASE_RESOLVE_WAIT \<or> phase = FWLAB_C43_PHASE_ACTION_WAIT" "?st \<noteq> 0"
    by (auto simp: queue_public_expected_def split: if_splits)
  moreover have "?st \<le> 12"
    by (simp add: queue_public_action_state_def)
  ultimately show ?thesis
    by simp
qed

lemma queue_entry_ok:
  assumes slot: "queue_slot g s"
    and shown: "queue_shown (co_required_witness_mask (graph_observed g s)) qx ph sat suc"
    and res: "qx_resolution_valid qx \<le> 1" "qx_resolution_valid qx = 0 \<longrightarrow> qx_resolved_status qx = 0"
      "qx_resolution_valid qx \<noteq> 0 \<longrightarrow> c43_semantic_status_valid (qx_resolved_status qx)"
    and owner: "queue_public_state_needs_owner (queue_public_action_state (qx_flow qx)) = observer_owner ob s"
    and ids: "go_instance_nonce ob = go_instance_nonce (gr_observer g)"
      "go_controller_epoch ob = go_controller_epoch (gr_observer g)"
  shows "entry_ok ob s (queue_record_sync ((graph_command g s)\<lparr>cr_queue_txn := qx\<rparr>)
    (entry_update ph sat suc (graph_observed g s)))"
proof -
  have srv: "served g s"
    using slot by (simp add: queue_slot_def)
  let ?o = "graph_observed g s"
  let ?c = "queue_record_sync ((graph_command g s)\<lparr>cr_queue_txn := qx\<rparr>) (entry_update ph sat suc ?o)"
  have old: "observer_command_ranges ?o" and zero: "target_fields_zero ?o" "co_block_terminal_kind ?o = 0"
    using served_entry(1) [OF srv] queue_slot_zero [OF slot] by (simp_all add: entry_ok_def)
  have zero': "target_fields_zero ?c"
    using zero(1) by (simp add: target_fields_zero_def queue_record_sync_def entry_update_def)
  have masks: "co_required_witness_mask ?o = 0 \<and> sat = 0 \<or> co_required_witness_mask ?o = 2 \<and> sat = 0 \<or>
      co_required_witness_mask ?o = 2 \<and> sat = 2"
    using shown by (auto simp: queue_shown_def)
  have ph: "ph = 3 \<or> ph = 4" and st: "queue_public_action_state (qx_flow qx) \<noteq> 0"
      "queue_public_action_state (qx_flow qx) \<le> 12"
    using queue_shown_phase [OF shown] by simp_all
  have suc: "suc \<le> 1"
    using shown by (simp add: queue_shown_def)
  have fields: "co_phase ?c = ph" "co_satisfied_witness_mask ?c = sat" "co_success_eligible ?c = suc"
      "co_action_domain ?c = FWLAB_C43_ACTION_DOMAIN_QUEUE"
      "co_action_state ?c = queue_public_action_state (qx_flow qx)"
      "co_resolution_valid ?c = qx_resolution_valid qx" "co_resolved_status ?c = qx_resolved_status qx"
      "co_block_terminal_kind ?c = 0" "co_required_witness_mask ?c = co_required_witness_mask ?o"
      "co_action_outcome ?c = 0" "co_target_pin_present ?c = 0"
      "co_incoming_target_pins ?c = co_incoming_target_pins ?o" "co_terminal_winner ?c = FWLAB_C43_WINNER_NONE"
      "co_publication ?c = FWLAB_C43_PUBLICATION_ELIGIBLE" "co_handle ?c = co_handle ?o"
      "co_origin ?c = co_origin ?o" "co_transaction_uid ?c = co_transaction_uid ?o"
    using zero served_entry(3) [OF srv]
    by (simp_all add: queue_record_sync_def entry_update_def target_fields_zero_def observer_identity_def)
  have frame: "observed_frame ?o ?c"
    by (simp add: observed_frame_def queue_record_sync_def entry_update_def)
  have pin: "co_incoming_target_pins ?o \<le> 1"
    using old by (simp add: ranges_split ranges_changed_def)
  have mask: "c43_witness_mask_valid sat" "sat AND NOT (co_required_witness_mask ?o OR 1) = 0"
    using masks by (auto simp: c43_witness_mask_valid_def)
  have phases: "ph \<noteq> 0" "ph \<noteq> 1" "ph \<noteq> 2" "ph \<le> 13"
    using ph by auto
  have "suc = 0 \<or> co_required_witness_mask ?o = 0 \<or> sat = 2"
    using shown by (auto simp: queue_shown_def)
  then have complete: "suc = 0 \<or>
      sat AND co_required_witness_mask ?o = co_required_witness_mask ?o \<and> sat AND 1 = 0"
    using masks by auto
  have "ranges_changed ?c"
    unfolding ranges_changed_def fields using zero' mask st suc res pin phases(4) by simp
  then have "observer_command_ranges ?c"
    using old ranges_kept_frame [OF frame] by (simp add: ranges_split)
  moreover have "observer_command_in_use ob ?c"
    unfolding observer_command_in_use_def Let_def fields
    using entry_fixed [OF srv] ids phases complete by simp
  moreover have "queue_public_command_valid ob s ?c"
  proof -
    have "co_required_witness_mask ?o AND NOT 2 = 0" "sat AND NOT 2 = 0"
        "(co_required_witness_mask ?o = 0 \<or> sat AND co_required_witness_mask ?o = co_required_witness_mask ?o)
          = (co_required_witness_mask ?o = 0 \<or> sat = 2)"
      using masks by auto
    then show ?thesis
      unfolding queue_public_command_valid_def Let_def fields
      using zero' st owner shown by (simp add: queue_shown_def)
  qed
  moreover have "target_public_local ob s ?c" "block_public_command_valid ob s ?c"
    by (simp_all add: target_public_local_def block_public_command_valid_def fields)
  ultimately show ?thesis
    by (simp add: entry_ok_def)
qed

section \<open>The frame rule for queue steps\<close>

lemma public_needs_owner:
  "queue_public_state_needs_owner (queue_public_action_state flow) = queue_flow_requires_owner flow"
proof (cases "flow \<le> C43_QUEUE_FLOW_FAULT")
  case True
  then show ?thesis
    unfolding flow_cases
    by (auto simp: queue_public_state_needs_owner_def queue_public_action_state_def requires_owner_iff word_le_nat_alt)
next
  case False
  then have "flow \<noteq> 1" "flow \<noteq> 2" "flow \<noteq> 3" "flow \<noteq> 4" "flow \<noteq> 5" "flow \<noteq> 6" "flow \<noteq> 7" "flow \<noteq> 8" "flow \<noteq> 9"
      "flow \<noteq> 10" "flow \<noteq> 11"
    by (auto simp: word_le_nat_alt)
  then show ?thesis
    by (simp add: queue_public_state_needs_owner_def queue_public_action_state_def requires_owner_iff word_le_nat_alt)
qed

lemma queue_record_valid_cong:
  "gr_providers g' = gr_providers g \<Longrightarrow> queue_record_valid g' r c = queue_record_valid g r c"
  by (simp add: queue_record_valid_def queue_rejected_record_valid_def queue_regular_request_valid_def)

theorem queue_result_inv:
  assumes slot: "queue_slot g s" and qa: "authority_consistent qa"
    and nq: "qa_nq_state (gr_queue_authority g) = FWLAB_C43_NQ_NEGOTIATED \<Longrightarrow> qa_nq_state qa = FWLAB_C43_NQ_NEGOTIATED"
    and others: "\<And>j. j \<noteq> s \<Longrightarrow> owner_at qa j = owner_at (gr_queue_authority g) j"
    and owner: "owner_at qa s = queue_flow_requires_owner (qx_flow qx)"
    and flow: "qx_flow qx \<noteq> C43_QUEUE_FLOW_NONE"
    and shown: "queue_shown (co_required_witness_mask (graph_observed g s)) qx ph sat suc"
    and valid: "queue_record_valid g ((graph_command g s)\<lparr>cr_queue_txn := qx\<rparr>)
      (queue_record_sync ((graph_command g s)\<lparr>cr_queue_txn := qx\<rparr>) (entry_update ph sat suc (graph_observed g s)))"
    and promise: "queue_flow_requires_owner (qx_flow qx) \<Longrightarrow>
      queue_promise qa ((graph_command g s)\<lparr>cr_queue_txn := qx\<rparr>)"
  shows "graph_inv (queue_result g s qa qx ph sat suc)"
proof -
  let ?g = "queue_result g s qa qx ph sat suc"
  let ?r = "(graph_command g s)\<lparr>cr_queue_txn := qx\<rparr>"
  have srv: "served g s" and kind: "pl_kind (cr_plan (graph_command g s)) \<noteq> FWLAB_C43_PLAN_ABORT_RESOLVE"
      "pl_kind (cr_plan (graph_command g s)) \<noteq> FWLAB_C43_PLAN_BLOCK"
    using slot by (simp_all add: queue_slot_def)
  have s: "s < FWLAB_C43_MAX_COMMANDS" "cr_in_use (graph_command g s) \<noteq> 0"
      "cr_state (graph_command g s) = C43_COMMAND_RECORD_ADMITTED" and inv: "graph_inv g"
    using srv by (simp_all add: served_def)
  have arr: "graph_arrays g"
    by (rule served_arrays [OF srv])
  have phase: "ph \<in> {FWLAB_C43_PHASE_RESOLVE_WAIT, FWLAB_C43_PHASE_ACTION_WAIT}"
    using queue_shown_phase [OF shown] by simp
  have step: "slot_step g s ?g"
    by (rule queue_result_step [OF arr s phase])
  have rec: "graph_command ?g s = ?r"
      and obs: "graph_observed ?g s = queue_record_sync ?r (entry_update ph sat suc (graph_observed g s))"
    by (simp_all add: queue_result_fields [OF arr s(1)])
  have needs: "needs_owner ?g s = queue_flow_requires_owner (qx_flow qx)"
    using s kind by (simp add: needs_owner_def rec record_kind_def Let_def)
  have common: "queue_record_common qx (graph_observed ?g s)"
    using valid flow unfolding obs by (simp add: queue_record_valid_def Let_def split: if_splits)
  have own: "observer_owner (gr_observer ?g) s = owner_at qa s"
    by (rule owner_observed [OF queue_result_authority(2)])
  have pins: "pin_of ?g j = pin_of g j" if "j < FWLAB_C43_MAX_COMMANDS" for j
    using kind by (simp add: pin_of_def queue_result_fields [OF arr that] Let_def)
  show ?thesis
  proof (rule slot_step_inv [OF inv step])
    show "queue_authority_valid ?g (gr_queue_authority ?g)"
      using qa queue_result_authority(2) by (simp add: queue_authority_valid_def queue_result_authority(1))
    show "qa_nq_state (gr_queue_authority ?g) = FWLAB_C43_NQ_NEGOTIATED"
      if "qa_nq_state (gr_queue_authority g) = FWLAB_C43_NQ_NEGOTIATED"
      using nq [OF that] by (simp add: queue_result_authority(1))
    show "owner_at (gr_queue_authority ?g) j = owner_at (gr_queue_authority g) j" if "j \<noteq> s" for j
      using others [OF that] by (simp add: queue_result_authority(1))
    show "needs_owner ?g s = owner_at (gr_queue_authority ?g) s"
      by (simp add: needs owner queue_result_authority(1))
    show "queue_promise (gr_queue_authority ?g) (graph_command ?g s)" if "needs_owner ?g s"
      using promise that by (simp add: needs rec queue_result_authority(1))
    show "entry_ok (gr_observer ?g) s (graph_observed ?g s)"
      unfolding obs
    proof (rule queue_entry_ok [OF slot shown])
      show "qx_resolution_valid qx \<le> 1" "qx_resolution_valid qx = 0 \<longrightarrow> qx_resolved_status qx = 0"
        "qx_resolution_valid qx \<noteq> 0 \<longrightarrow> c43_semantic_status_valid (qx_resolved_status qx)"
        using common by (auto simp: queue_record_common_def not_less)
      show "queue_public_state_needs_owner (queue_public_action_state (qx_flow qx)) = observer_owner (gr_observer ?g) s"
        by (simp add: public_needs_owner own owner)
      show "go_instance_nonce (gr_observer ?g) = go_instance_nonce (gr_observer g)"
        "go_controller_epoch (gr_observer ?g) = go_controller_epoch (gr_observer g)"
        using observer_frame_fields [OF queue_result_frame [OF arr]] by simp_all
    qed
    show "phase4_local ?g s"
      using s kind valid queue_record_valid_cong [OF graph_frame_fields(3) [OF queue_result_frame [OF arr]]]
      by (simp add: phase4_local_def rec obs record_kind_def Let_def)
    show "co_action_domain (graph_observed ?g s) \<noteq> FWLAB_C43_ACTION_DOMAIN_NONE"
      by (simp add: obs queue_record_sync_def)
    show "pins_ok ?g"
    proof (rule pins_ok_cong [OF served_frame(4) [OF srv] pins])
      fix j assume "j < FWLAB_C43_MAX_COMMANDS"
      then show "cr_incoming_target_pins (graph_command ?g j) = cr_incoming_target_pins (graph_command g j)"
        by (simp add: queue_result_fields(1) [OF arr])
    qed
  qed
qed

section \<open>Stores that keep the authority\<close>

lemma queue_sync_same:
  "authority_observed (gr_observer g) (gr_queue_authority g) \<Longrightarrow> queue_authority_sync g = g"
  by (cases g; cases "gr_observer g") (simp add: queue_authority_sync_def authority_observed_def)

lemma queue_store_result:
  assumes "authority_observed (gr_observer g) (gr_queue_authority g)"
    and "f (graph_observed g s) = entry_update ph sat suc (graph_observed g s)"
  shows "queue_store g s qx f = queue_result g s (gr_queue_authority g) qx ph sat suc"
proof -
  have same: "queue_store g s qx f = queue_store g s qx (entry_update ph sat suc)"
    using assms(2) by (simp add: queue_store_def)
  have "authority_observed (gr_observer (queue_store g s qx f)) (gr_queue_authority (queue_store g s qx f))"
    using assms(1) by (simp add: queue_store_def graph_put_def authority_observed_def Let_def)
  then show ?thesis
    unfolding queue_result_def using queue_sync_same same by simp
qed

lemma and_two: "w AND 2 = (if bit w 1 then 2 else 0)" for w :: u32
proof -
  have two: "bit (2::int) n \<longleftrightarrow> n = 1" for n
    using bit_exp_iff [of 1 n, where ?'a = int] by (auto simp: possible_bit_def)
  show ?thesis
    by (rule bit_word_eqI) (auto simp: bit_and_iff two)
qed

text \<open>A queue command with a transaction in flight, and what its validity says.\<close>

definition queue_inflight :: "c43_graph \<Rightarrow> nat \<Rightarrow> bool" where
  "queue_inflight g s \<longleftrightarrow> queue_slot g s \<and> queue_flow_requires_owner (qx_flow (cr_queue_txn (graph_command g s)))"

lemma inflight_record:
  assumes "queue_inflight g s"
  defines "qx \<equiv> cr_queue_txn (graph_command g s)"
  shows "qx_flow qx \<noteq> 0" and "queue_record_common qx (graph_observed g s)"
    and "pr_kind (cr_request (graph_command g s)) \<noteq> FWLAB_C43_REQUEST_SET_NUMBER_OF_QUEUES"
    and "queue_regular_request_valid g (graph_command g s)"
    and "qx_local_effect_applied qx =
      of_bool (co_satisfied_witness_mask (graph_observed g s) AND FWLAB_C43_WITNESS_QUEUE_EFFECT_COMMITTED \<noteq> 0)"
    and "queue_record_parts_valid qx" and "queue_flow_valid qx"
    and "owner_at (gr_queue_authority g) s" and "queue_promise (gr_queue_authority g) (graph_command g s)"
proof -
  have slot: "queue_slot g s" and req: "queue_flow_requires_owner (qx_flow qx)"
    using assms by (simp_all add: queue_inflight_def)
  then show f: "qx_flow qx \<noteq> 0"
    by (auto simp: requires_owner_iff)
  have ne: "qx_flow qx \<noteq> C43_QUEUE_FLOW_DONE" "qx_flow qx \<noteq> C43_QUEUE_FLOW_REJECTED_NO_EFFECT"
    using req by (auto simp: requires_owner_iff)
  have valid: "queue_record_valid g (graph_command g s) (graph_observed g s)"
    by (rule queue_slot_record(1) [OF slot])
  then show kind: "pr_kind (cr_request (graph_command g s)) \<noteq> FWLAB_C43_REQUEST_SET_NUMBER_OF_QUEUES"
    using f ne by (auto simp: queue_record_valid_def queue_nq_record_valid_def Let_def qx_def split: if_splits)
  show "queue_record_common qx (graph_observed g s)"
    and "queue_regular_request_valid g (graph_command g s)"
    and "qx_local_effect_applied qx =
      of_bool (co_satisfied_witness_mask (graph_observed g s) AND FWLAB_C43_WITNESS_QUEUE_EFFECT_COMMITTED \<noteq> 0)"
    and "queue_record_parts_valid qx" and "queue_flow_valid qx"
    using valid f kind ne unfolding queue_record_valid_def Let_def qx_def [symmetric]
    by (simp_all split: if_splits)
  have srv: "served g s" and needs: "needs_owner g s"
    using slot req queue_slot_record(2) [OF slot] by (simp_all add: queue_slot_def qx_def)
  then show "owner_at (gr_queue_authority g) s" and "queue_promise (gr_queue_authority g) (graph_command g s)"
    using served_slot(5,6) [OF srv] by simp_all
qed

lemma inflight_shown:
  assumes "queue_inflight g s"
  defines "qx \<equiv> cr_queue_txn (graph_command g s)" and "c \<equiv> graph_observed g s"
  shows "co_required_witness_mask c = 2" and "co_satisfied_witness_mask c \<in> {0, 2}"
    and "queue_shown 2 qx (co_phase c) (co_satisfied_witness_mask c) (co_success_eligible c)"
    and "qx_local_effect_applied qx = of_bool (co_satisfied_witness_mask c = 2)"
    and "entry_update (co_phase c) (co_satisfied_witness_mask c) (co_success_eligible c) c = c"
proof -
  have srv: "served g s"
    using assms by (simp add: queue_inflight_def queue_slot_def)
  show req: "co_required_witness_mask c = 2"
    using inflight_record(9) [OF assms(1)] served_entry(2) [OF srv] by (simp add: queue_promise_def c_def)
  have dom: "co_action_domain c = FWLAB_C43_ACTION_DOMAIN_QUEUE"
      "co_action_state c = queue_public_action_state (qx_flow qx)" "co_resolution_valid c = qx_resolution_valid qx"
      "co_resolved_status c = qx_resolved_status qx"
    using inflight_record(2) [OF assms(1)] by (simp_all add: queue_record_common_def c_def qx_def)
  have pub: "queue_public_command_valid (gr_observer g) s c" and ran: "observer_command_ranges c"
    using served_entry(1) [OF srv] by (simp_all add: entry_ok_def c_def)
  have none: "co_satisfied_witness_mask c AND NOT 2 = 0"
    using pub dom by (simp add: queue_public_command_valid_def split: if_splits)
  have "co_satisfied_witness_mask c = co_satisfied_witness_mask c AND 2"
  proof -
    have "co_satisfied_witness_mask c = (co_satisfied_witness_mask c AND 2) OR (co_satisfied_witness_mask c AND NOT 2)"
      by (simp add: bit.conj_disj_distrib [symmetric])
    then show ?thesis
      using none by simp
  qed
  moreover have "co_satisfied_witness_mask c AND 2 = 0 \<or> co_satisfied_witness_mask c AND 2 = 2"
    by (simp add: and_two)
  ultimately show sat: "co_satisfied_witness_mask c \<in> {0, 2}"
    by auto
  then show "qx_local_effect_applied qx = of_bool (co_satisfied_witness_mask c = 2)"
    using inflight_record(5) [OF assms(1)] by (auto simp: qx_def c_def)
  show "queue_shown 2 qx (co_phase c) (co_satisfied_witness_mask c) (co_success_eligible c)"
    using pub dom req sat unfolding queue_public_command_valid_def queue_shown_def
    by (auto simp: Let_def split: if_splits option.splits prod.splits)
  show "entry_update (co_phase c) (co_satisfied_witness_mask c) (co_success_eligible c) c = c"
    by (simp add: entry_update_def)
qed

end
