(* ===== verification/Nvme_Queue_Steps.thy ===== *)
theory Nvme_Queue_Steps
  imports Nvme_Queue_Laws
begin

text \<open>
  The steps of the queue flow, one lemma for each: whatever the provider answers, the graph keeps its
  invariant.
\<close>

section \<open>Transactions in flight\<close>

text \<open>The range tests of \<open>queue_record_valid\<close> on the transaction alone.\<close>

definition queue_txn_ranges :: "c43_queue_txn_record \<Rightarrow> bool" where
  "queue_txn_ranges qx \<longleftrightarrow>
     qx_flow qx \<le> C43_QUEUE_FLOW_FAULT \<and> qx_decision qx \<le> FWLAB_C43_QUEUE_FINISH_ABORT \<and>
     qx_resolution_valid qx \<le> 1 \<and> qx_local_effect_applied qx \<le> 1 \<and> qx_provider_owned qx \<le> 1 \<and>
     words_zero (qx_reserved1 qx) \<and>
     (qx_flow qx \<noteq> C43_QUEUE_FLOW_FAULT \<longrightarrow> qx_fault_from_flow qx = C43_QUEUE_FLOW_NONE) \<and>
     (qx_flow qx = C43_QUEUE_FLOW_FAULT \<longrightarrow> qx_fault_from_flow qx \<noteq> C43_QUEUE_FLOW_NONE \<and>
        qx_fault_from_flow qx \<le> C43_QUEUE_FLOW_RETIRE) \<and>
     (qx_resolution_valid qx = 0 \<longrightarrow> qx_resolved_status qx = 0) \<and>
     (qx_resolution_valid qx \<noteq> 0 \<longrightarrow> c43_semantic_status_valid (qx_resolved_status qx))"

lemma queue_common_ranges: "queue_record_common qx c \<Longrightarrow> queue_txn_ranges qx"
  unfolding queue_record_common_def queue_txn_ranges_def by (auto simp: not_less)

lemma queue_common_sync:
  "queue_record_common qx (queue_record_sync (r\<lparr>cr_queue_txn := qx\<rparr>) c) \<longleftrightarrow> queue_txn_ranges qx"
  unfolding queue_record_common_def queue_txn_ranges_def by (auto simp: not_less queue_record_sync_def)

lemma inflight_result:
  assumes fl: "queue_inflight g s"
    and keep: "qx_provider_generation qx = qx_provider_generation (cr_queue_txn (graph_command g s))"
      "qx_prepare_request qx = qx_prepare_request (cr_queue_txn (graph_command g s))"
    and flow: "queue_flow_requires_owner (qx_flow qx)" and ranges: "queue_txn_ranges qx"
    and parts: "queue_record_parts_valid qx" "queue_flow_valid qx"
    and shown: "queue_shown 2 qx ph sat suc"
    and applied: "qx_local_effect_applied qx = of_bool (sat = 2)"
    and decided: "qx_flow qx \<in> {C43_QUEUE_FLOW_FINISH_START, C43_QUEUE_FLOW_FINISH_QUERY} \<longrightarrow>
      (qx_decision qx = FWLAB_C43_QUEUE_FINISH_COMMIT \<longleftrightarrow> qx_resolved_status qx = FWLAB_C43_STATUS_SUCCESS)"
    and qa: "authority_consistent qa" "qa_nq_state qa = qa_nq_state (gr_queue_authority g)"
      "qa_txn_active qa = qa_txn_active (gr_queue_authority g)"
      "qa_owner_slot_plus_one qa = qa_owner_slot_plus_one (gr_queue_authority g)"
  shows "graph_inv (queue_result g s qa qx ph sat suc)"
proof -
  have slot: "queue_slot g s"
    using fl by (simp add: queue_inflight_def)
  have own: "owner_at qa j = owner_at (gr_queue_authority g) j" for j
    using qa by (simp add: owner_at_def)
  let ?r = "(graph_command g s)\<lparr>cr_queue_txn := qx\<rparr>"
  have regular: "queue_regular_request_valid g ?r"
    using inflight_record(4) [OF fl] keep
    by (simp add: queue_regular_request_valid_def queue_token_matches_record_def Let_def)
  have ne: "qx_flow qx \<noteq> 0" "qx_flow qx \<noteq> C43_QUEUE_FLOW_REJECTED_NO_EFFECT"
    using flow by (auto simp: requires_owner_iff)
  have bits: "qx_local_effect_applied qx = of_bool (sat AND 2 \<noteq> 0)"
    using shown applied by (auto simp: queue_shown_def)
  show ?thesis
  proof (rule queue_result_inv [OF slot qa(1)])
    show "queue_shown (co_required_witness_mask (graph_observed g s)) qx ph sat suc"
      using shown inflight_shown(1) [OF fl] by simp
    show "queue_record_valid g ?r (queue_record_sync ?r (entry_update ph sat suc (graph_observed g s)))"
      using regular ne bits ranges parts inflight_record(3) [OF fl]
      by (simp add: queue_record_valid_def queue_common_sync)
        (simp add: queue_record_sync_def entry_update_def)
    show "queue_promise qa ?r"
      using inflight_record(9) [OF fl] decided qa(2) by (simp add: queue_promise_def)
    show "owner_at qa s = queue_flow_requires_owner (qx_flow qx)"
      using own inflight_record(8) [OF fl] flow by simp
  qed (use ne own qa in auto)
qed

lemma inflight_store:
  assumes fl: "queue_inflight g s"
    and "qx_provider_generation qx = qx_provider_generation (cr_queue_txn (graph_command g s))"
      "qx_prepare_request qx = qx_prepare_request (cr_queue_txn (graph_command g s))"
    and "queue_flow_requires_owner (qx_flow qx)" and "queue_txn_ranges qx"
    and "queue_record_parts_valid qx" "queue_flow_valid qx"
    and "queue_shown 2 qx ph sat suc" and "qx_local_effect_applied qx = of_bool (sat = 2)"
    and "qx_flow qx \<in> {C43_QUEUE_FLOW_FINISH_START, C43_QUEUE_FLOW_FINISH_QUERY} \<longrightarrow>
      (qx_decision qx = FWLAB_C43_QUEUE_FINISH_COMMIT \<longleftrightarrow> qx_resolved_status qx = FWLAB_C43_STATUS_SUCCESS)"
    and f: "f (graph_observed g s) = entry_update ph sat suc (graph_observed g s)"
  shows "graph_inv (queue_store g s qx f)"
proof -
  have srv: "served g s"
    using fl by (simp add: queue_inflight_def queue_slot_def)
  have "graph_inv (queue_result g s (gr_queue_authority g) qx ph sat suc)"
    using assms(2-10) served_frame(2) [OF srv] by (intro inflight_result [OF fl]) simp_all
  then show ?thesis
    using queue_store_result [of g f s ph sat suc qx, OF served_frame(3) [OF srv] f] by simp
qed

text \<open>What is known of the record of a transaction in flight.\<close>

lemma inflight_facts:
  assumes "queue_inflight g s"
  defines "qx \<equiv> cr_queue_txn (graph_command g s)"
  shows "queue_txn_ranges qx" and "queue_record_parts_valid qx" and "queue_flow_valid qx"
    and "fwlab_c43_queue_effect_request_valid (qx_prepare_request qx)"
    and "queue_command_kind (pr_kind (cr_request (graph_command g s)))"
    and "qr_operation (qx_prepare_request qx) = queue_operation (pr_kind (cr_request (graph_command g s)))"
  using inflight_record(2,4,6,7) [OF assms(1)] queue_common_ranges
  by (simp_all add: qx_def queue_regular_request_valid_def Let_def)

lemma inflight_move:
  assumes fl: "queue_inflight g s"
    and keep: "qx_provider_generation qx = qx_provider_generation (cr_queue_txn (graph_command g s))"
      "qx_prepare_request qx = qx_prepare_request (cr_queue_txn (graph_command g s))"
      "qx_local_effect_applied qx = qx_local_effect_applied (cr_queue_txn (graph_command g s))"
    and flow: "queue_flow_requires_owner (qx_flow qx)" and ranges: "queue_txn_ranges qx"
    and parts: "queue_record_parts_valid qx" "queue_flow_valid qx"
    and shown: "\<And>ph sat suc. queue_shown 2 (cr_queue_txn (graph_command g s)) ph sat suc \<Longrightarrow>
      queue_shown 2 qx ph sat suc"
    and decided: "qx_flow qx \<in> {C43_QUEUE_FLOW_FINISH_START, C43_QUEUE_FLOW_FINISH_QUERY} \<longrightarrow>
      (qx_decision qx = FWLAB_C43_QUEUE_FINISH_COMMIT \<longleftrightarrow> qx_resolved_status qx = FWLAB_C43_STATUS_SUCCESS)"
  shows "graph_inv (queue_store g s qx id)"
  using inflight_store [OF fl keep(1,2) flow ranges parts shown [OF inflight_shown(3) [OF fl]] _ decided, of id]
    inflight_shown(4,5) [OF fl] keep(3)
  by simp

section \<open>Faults\<close>

lemma queue_fault_put:
  assumes "graph_arrays g" and "s < FWLAB_C43_MAX_COMMANDS"
  shows "queue_fault (graph_put g s ((graph_command g s)\<lparr>cr_queue_txn := qx\<rparr>) (graph_observed g s)) s =
    queue_store g s (queue_faulted qx)
      (\<lambda>ob. ob\<lparr>co_phase := FWLAB_C43_PHASE_ACTION_WAIT, co_success_eligible := 0\<rparr>)"
  using assms
  by (simp add: queue_fault_def queue_store_def graph_put_def graph_command_def graph_observed_def
      graph_arrays_def Let_def)

lemma queue_store_put:
  assumes "graph_arrays g" and "s < FWLAB_C43_MAX_COMMANDS"
  shows "queue_store (graph_put g s ((graph_command g s)\<lparr>cr_queue_txn := qx'\<rparr>) (graph_observed g s)) s qx f =
    queue_store g s qx f"
  using assms
  by (simp add: queue_store_def graph_put_def graph_command_def graph_observed_def graph_arrays_def Let_def)

lemma queue_faulted_valid:
  assumes "queue_flow_valid qx" and "queue_flow_requires_owner (qx_flow qx)"
    and "qx_flow qx \<noteq> C43_QUEUE_FLOW_FAULT"
  shows "queue_flow_valid (queue_faulted qx)"
proof -
  let ?f = "queue_faulted qx"
  have fields: "qx_flow ?f = C43_QUEUE_FLOW_FAULT" "qx_fault_from_flow ?f = ucast (qx_flow qx)" "qx_resolution_valid ?f = 1"
      "qx_resolved_status ?f = FWLAB_C43_STATUS_INTERNAL_FAILURE" "qx_decision ?f = qx_decision qx"
      "qx_provider_owned ?f = qx_provider_owned qx" "qx_local_effect_applied ?f = qx_local_effect_applied qx"
      "qx_prepared_facts ?f = qx_prepared_facts qx" "qx_finish_request ?f = qx_finish_request qx" "qx_terminal ?f = qx_terminal qx"
      "queue_terminal_is_commit ?f = queue_terminal_is_commit qx"
    using assms(3) by (simp_all add: queue_faulted_def queue_terminal_is_commit_def)
  have "qx_flow qx = 1 \<or> qx_flow qx = 2 \<or> qx_flow qx = 3 \<or> qx_flow qx = 4 \<or> qx_flow qx = 5 \<or> qx_flow qx = 6 \<or>
      qx_flow qx = 7 \<or> qx_flow qx = 8"
    using assms(2,3) unfolding requires_owner_iff by auto
  then show ?thesis
    using assms(1) unfolding queue_flow_valid_def [of ?f] fields
    by (elim disjE) (simp_all add: queue_flow_valid_def word_le_nat_alt, auto)
qed

lemma inflight_fault:
  assumes fl: "queue_inflight g s"
    and keep: "qx_provider_generation qx = qx_provider_generation (cr_queue_txn (graph_command g s))"
      "qx_prepare_request qx = qx_prepare_request (cr_queue_txn (graph_command g s))"
      "qx_local_effect_applied qx = qx_local_effect_applied (cr_queue_txn (graph_command g s))"
      "qx_flow qx = qx_flow (cr_queue_txn (graph_command g s))"
    and flow: "qx_flow qx \<noteq> C43_QUEUE_FLOW_FAULT" and ranges: "queue_txn_ranges qx"
    and parts: "queue_record_parts_valid qx" "queue_flow_valid (queue_faulted qx)"
  shows "graph_inv (queue_store g s (queue_faulted qx)
    (\<lambda>ob. ob\<lparr>co_phase := FWLAB_C43_PHASE_ACTION_WAIT, co_success_eligible := 0\<rparr>))"
proof -
  let ?sat = "co_satisfied_witness_mask (graph_observed g s)"
  have req: "queue_flow_requires_owner (qx_flow qx)"
    using fl keep by (simp add: queue_inflight_def)
  have from_flow: "(ucast (qx_flow qx) :: u8) \<noteq> 0" "(ucast (qx_flow qx) :: u8) \<le> 8"
    using req flow unfolding requires_owner_iff by (auto simp: word_le_nat_alt)
  have status: "c43_semantic_status_valid FWLAB_C43_STATUS_INTERNAL_FAILURE"
    by (simp add: c43_semantic_status_valid_def)
  show ?thesis
  proof (rule inflight_store [OF fl])
    show "queue_txn_ranges (queue_faulted qx)"
      using ranges flow from_flow status by (simp add: queue_txn_ranges_def queue_faulted_def)
    show "queue_record_parts_valid (queue_faulted qx)"
      using parts(1) by (simp add: queue_record_parts_valid_def queue_faulted_def)
    show "queue_shown 2 (queue_faulted qx) FWLAB_C43_PHASE_ACTION_WAIT ?sat 0"
      using inflight_shown(2) [OF fl]
      by (auto simp: queue_shown_def queue_faulted_def queue_public_action_state_def queue_public_expected_def)
    show "qx_local_effect_applied (queue_faulted qx) = of_bool (?sat = 2)"
      using inflight_shown(4) [OF fl] keep by (simp add: queue_faulted_def)
  qed (use keep parts in \<open>simp_all add: queue_faulted_def queue_flow_requires_owner_def entry_update_def\<close>)
qed

lemma inflight_faults:
  assumes "queue_inflight g s" and "qx_flow (cr_queue_txn (graph_command g s)) \<noteq> C43_QUEUE_FLOW_FAULT"
  shows "graph_inv (queue_fault g s)"
  unfolding queue_fault_def
  using inflight_facts [OF assms(1)] assms
  by (intro inflight_fault [OF assms(1)] queue_faulted_valid) (simp_all add: queue_inflight_def)

section \<open>Steps towards the decision\<close>

lemmas shown_cases = queue_shown_def queue_public_action_state_def queue_public_expected_def

lemma queue_prepared_moves:
  assumes fl: "queue_inflight g s" and flow: "qx_flow (cr_queue_txn (graph_command g s)) = C43_QUEUE_FLOW_PREPARE_START"
  shows "graph_inv (queue_store g s ((cr_queue_txn (graph_command g s))\<lparr>qx_provider_owned := 1,
    qx_flow := C43_QUEUE_FLOW_PREPARE_QUERY\<rparr>) id)"
  using inflight_facts [OF fl] flow
  by (intro inflight_move [OF fl])
    (simp_all add: queue_txn_ranges_def queue_record_parts_valid_def queue_flow_valid_def
      queue_flow_requires_owner_def shown_cases word_le_nat_alt)

lemma queue_prepare_fault:
  assumes fl: "queue_inflight g s" and flow: "qx_flow (cr_queue_txn (graph_command g s)) = C43_QUEUE_FLOW_PREPARE_START"
    and w: "w \<le> 1"
  shows "graph_inv (queue_store g s (queue_faulted ((cr_queue_txn (graph_command g s))\<lparr>qx_provider_owned := w\<rparr>))
    (\<lambda>ob. ob\<lparr>co_phase := FWLAB_C43_PHASE_ACTION_WAIT, co_success_eligible := 0\<rparr>))"
  using inflight_facts [OF fl] flow w
  by (intro inflight_fault [OF fl])
    (simp_all add: queue_txn_ranges_def queue_record_parts_valid_def queue_flow_valid_def queue_faulted_def word_le_nat_alt)

lemma queue_prepare_query_inv:
  assumes fl: "queue_inflight g s" and flow: "qx_flow (cr_queue_txn (graph_command g s)) = C43_QUEUE_FLOW_PREPARE_QUERY"
  shows "graph_inv (fst (queue_prepare_query_step ops g p s))"
proof -
  let ?qx = "cr_queue_txn (graph_command g s)"
  have inv: "graph_inv g"
    using fl by (simp add: queue_inflight_def queue_slot_def served_def)
  have fault: "graph_inv (queue_fault g s)"
    by (rule inflight_faults [OF fl]) (simp add: flow)
  have stored: "graph_inv (queue_store g s (?qx\<lparr>qx_prepared_facts := qt_facts reply, qx_flow := C43_QUEUE_FLOW_DECIDE\<rparr>) id)"
    if "fwlab_c43_queue_effect_terminal_matches_request (qx_prepare_request ?qx) reply" for reply
  proof -
    have facts: "fwlab_c43_queue_facts_valid (qt_facts reply)"
      using that by (simp add: fwlab_c43_queue_effect_terminal_matches_request_def
          fwlab_c43_queue_effect_terminal_valid_def split: if_splits)
    then have "qt_facts reply \<noteq> zero_c43_queue_facts"
      by (auto simp: fwlab_c43_queue_facts_valid_def zero_c43_queue_facts_def)
    then show ?thesis
      using inflight_facts [OF fl] flow facts
      by (intro inflight_move [OF fl])
        (simp_all add: queue_txn_ranges_def queue_record_parts_valid_def queue_flow_valid_def
          queue_flow_requires_owner_def shown_cases word_le_nat_alt)
  qed
  show ?thesis
    using inv fault stored by (auto simp: queue_prepare_query_step_def Let_def split: prod.splits)
qed

lemma decision_failure:
  "snd (queue_facts_decision_commit g r qf) \<noteq> FWLAB_C43_STATUS_SUCCESS \<and>
   c43_semantic_status_valid (snd (queue_facts_decision_commit g r qf))"
  by (simp add: queue_facts_decision_commit_def queue_facts_commit_ready_def c43_semantic_status_valid_def Let_def)

lemma queue_decide_inv:
  assumes fl: "queue_inflight g s" and flow: "qx_flow (cr_queue_txn (graph_command g s)) = C43_QUEUE_FLOW_DECIDE"
  shows "graph_inv (queue_decide_step g s)"
proof -
  let ?qx = "cr_queue_txn (graph_command g s)"
  obtain commit status where dec: "queue_facts_decision_commit g (graph_command g s) (qx_prepared_facts ?qx) = (commit, status)"
    by fastforce
  define qx where "qx = ?qx\<lparr>qx_resolution_valid := 1,
    qx_decision := (if commit then FWLAB_C43_QUEUE_FINISH_COMMIT else FWLAB_C43_QUEUE_FINISH_ABORT),
    qx_resolved_status := (if commit then FWLAB_C43_STATUS_SUCCESS else status)\<rparr>"
  define request where "request = zero_c43_queue_finish_request
    \<lparr>qn_version := FWLAB_C43_QUEUE_EFFECT_PORT_VERSION, qn_size := sizeof_c43_queue_finish_request,
     qn_token := ae_token (qr_common (qx_prepare_request ?qx)), qn_transaction := qf_transaction (qx_prepared_facts ?qx),
     qn_decision := qx_decision qx\<rparr>"
  have status: "status \<noteq> FWLAB_C43_STATUS_SUCCESS" "c43_semantic_status_valid status"
    using decision_failure [of g "graph_command g s" "qx_prepared_facts ?qx"] dec by simp_all
  have facts: "fwlab_c43_queue_facts_valid (qx_prepared_facts ?qx)"
    using inflight_facts(2,3) [OF fl] flow by (simp add: queue_record_parts_valid_def queue_flow_valid_def Let_def)
  have token: "fwlab_hif_action_token_valid (ae_token (qr_common (qx_prepare_request ?qx)))"
      "tk_kind (ae_token (qr_common (qx_prepare_request ?qx))) = FWLAB_HIF_ACTION_QUEUE_EFFECT"
    using inflight_facts(4) [OF fl]
    by (simp_all add: fwlab_c43_queue_effect_request_valid_def fwlab_hif_action_envelope_valid_def)
  have valid: "fwlab_c43_queue_finish_request_valid request"
    using facts token
    by (simp add: request_def fwlab_c43_queue_finish_request_valid_def zero_c43_queue_finish_request_def
        fwlab_c43_queue_facts_valid_def qx_def word_le_nat_alt words_zero_def split: if_splits)
  then have "request \<noteq> zero_c43_queue_finish_request"
    by (auto simp: fwlab_c43_queue_finish_request_valid_def zero_c43_queue_finish_request_def)
  then have "graph_inv (queue_store g s (qx\<lparr>qx_finish_request := request, qx_flow := C43_QUEUE_FLOW_FINISH_START\<rparr>) id)"
    using inflight_facts [OF fl] flow valid status
    by (intro inflight_move [OF fl])
      (simp_all add: qx_def queue_txn_ranges_def queue_record_parts_valid_def queue_flow_valid_def
        queue_flow_requires_owner_def shown_cases word_le_nat_alt c43_semantic_status_valid_def, simp_all add: request_def qx_def)
  then show ?thesis
    using valid by (simp add: queue_decide_step_def dec qx_def request_def Let_def)
qed

lemma queue_finish_start_inv:
  assumes fl: "queue_inflight g s" and flow: "qx_flow (cr_queue_txn (graph_command g s)) = C43_QUEUE_FLOW_FINISH_START"
  shows "graph_inv (fst (queue_finish_start_step ops g p s))"
proof -
  let ?qx = "cr_queue_txn (graph_command g s)"
  have inv: "graph_inv g"
    using fl by (simp add: queue_inflight_def queue_slot_def served_def)
  have fault: "graph_inv (queue_fault g s)"
    by (rule inflight_faults [OF fl]) (simp add: flow)
  have "queue_promise (gr_queue_authority g) (graph_command g s)"
    by (rule inflight_record(9) [OF fl])
  then have "graph_inv (queue_store g s (?qx\<lparr>qx_flow := C43_QUEUE_FLOW_FINISH_QUERY\<rparr>) id)"
    using inflight_facts [OF fl] flow
    by (intro inflight_move [OF fl])
      (simp_all add: queue_txn_ranges_def queue_record_parts_valid_def queue_flow_valid_def
        queue_flow_requires_owner_def shown_cases word_le_nat_alt queue_promise_def)
  then show ?thesis
    using inv fault by (auto simp: queue_finish_start_step_def Let_def split: prod.splits)
qed

lemma queue_finish_query_inv:
  assumes fl: "queue_inflight g s" and flow: "qx_flow (cr_queue_txn (graph_command g s)) = C43_QUEUE_FLOW_FINISH_QUERY"
  shows "graph_inv (fst (queue_finish_query_step ops g p s))"
proof -
  let ?r = "graph_command g s" let ?qx = "cr_queue_txn ?r"
  have inv: "graph_inv g" and srv: "served g s" and s: "s < FWLAB_C43_MAX_COMMANDS"
    using fl by (simp_all add: queue_inflight_def queue_slot_def served_def)
  have fault: "graph_inv (queue_fault g s)"
    by (rule inflight_faults [OF fl]) (simp add: flow)
  have promise: "(qx_decision ?qx = FWLAB_C43_QUEUE_FINISH_COMMIT) = (qx_resolved_status ?qx = FWLAB_C43_STATUS_SUCCESS)"
    using inflight_record(9) [OF fl] flow by (simp add: queue_promise_def)
  have known: "qx_finish_request ?qx \<noteq> zero_c43_queue_finish_request" "qn_decision (qx_finish_request ?qx) = qx_decision ?qx"
    using inflight_facts(2,3) [OF fl] flow by (simp_all add: queue_record_parts_valid_def queue_flow_valid_def Let_def)
  have reply: "fwlab_c43_queue_effect_terminal_valid reply" "reply \<noteq> zero_c43_queue_effect_terminal"
      "queue_state_valid (qt_state reply) (qx_decision ?qx) (qt_common reply)"
    if "fwlab_c43_queue_finish_terminal_matches_request (qx_finish_request ?qx) reply" for reply
    using that known(2)
    by (auto simp: fwlab_c43_queue_finish_terminal_matches_request_def fwlab_c43_queue_effect_terminal_valid_def
        zero_c43_queue_effect_terminal_def split: if_splits)
  note facts = inflight_facts [OF fl] flow promise
  have committed: "graph_inv (queue_store g s (?qx\<lparr>qx_terminal := reply, qx_flow := C43_QUEUE_FLOW_APPLY_COMMIT\<rparr>) id)"
    if m: "fwlab_c43_queue_finish_terminal_matches_request (qx_finish_request ?qx) reply"
        "queue_facts_immutable_equal (qx_prepared_facts ?qx) (qt_facts reply)"
      and st: "qt_state reply = FWLAB_C43_QUEUE_EFFECT_COMMITTED" for reply
    proof -
      have "qx_decision ?qx = FWLAB_C43_QUEUE_FINISH_COMMIT"
        using reply(3) [OF m(1)] st by (simp add: queue_state_valid_def Let_def)
      then show ?thesis
        using facts m(2) reply(1,2) [OF m(1)] st
        by (intro inflight_move [OF fl])
          (simp_all add: queue_txn_ranges_def queue_record_parts_valid_def queue_flow_valid_def
            queue_flow_requires_owner_def shown_cases word_le_nat_alt queue_terminal_is_commit_def)
    qed
  have aborted: "graph_inv (queue_store g s (?qx\<lparr>qx_terminal := reply, qx_flow := C43_QUEUE_FLOW_APPLY_ABORT\<rparr>) id)"
    if m: "fwlab_c43_queue_finish_terminal_matches_request (qx_finish_request ?qx) reply"
        "queue_facts_immutable_equal (qx_prepared_facts ?qx) (qt_facts reply)"
      and st: "qt_state reply = FWLAB_C43_QUEUE_EFFECT_ABORTED" for reply
    proof -
      have "qx_decision ?qx = FWLAB_C43_QUEUE_FINISH_ABORT"
        using reply(3) [OF m(1)] st by (simp add: queue_state_valid_def Let_def)
      then show ?thesis
        using facts m(2) reply(1,2) [OF m(1)] st
        by (intro inflight_move [OF fl])
          (simp_all add: queue_txn_ranges_def queue_record_parts_valid_def queue_flow_valid_def
            queue_flow_requires_owner_def shown_cases word_le_nat_alt)
    qed
  have too_late: "graph_inv (queue_store g s (?qx\<lparr>qx_terminal := reply, qx_flow := C43_QUEUE_FLOW_APPLY_COMMIT,
          qx_resolved_status := FWLAB_C43_STATUS_SUCCESS\<rparr>) id)"
    if m: "fwlab_c43_queue_finish_terminal_matches_request (qx_finish_request ?qx) reply"
        "queue_facts_immutable_equal (qx_prepared_facts ?qx) (qt_facts reply)"
      and st: "qt_state reply = FWLAB_C43_QUEUE_EFFECT_TOO_LATE" for reply
    proof -
      have "qx_decision ?qx = FWLAB_C43_QUEUE_FINISH_ABORT"
        using reply(3) [OF m(1)] st by (simp add: queue_state_valid_def Let_def)
      then show ?thesis
        using facts m(2) reply(1,2) [OF m(1)] st
        by (intro inflight_move [OF fl])
          (auto simp: queue_txn_ranges_def queue_record_parts_valid_def queue_flow_valid_def
            queue_flow_requires_owner_def shown_cases word_le_nat_alt queue_terminal_is_commit_def c43_semantic_status_valid_def)
    qed
  have other: "graph_inv (queue_fault (graph_put g s (?r\<lparr>cr_queue_txn := ?qx\<lparr>qx_terminal := reply\<rparr>\<rparr>) (graph_observed g s)) s)"
    if m: "fwlab_c43_queue_finish_terminal_matches_request (qx_finish_request ?qx) reply"
        "queue_facts_immutable_equal (qx_prepared_facts ?qx) (qt_facts reply)" for reply
      unfolding queue_fault_put [OF served_arrays [OF srv] s]
      using facts m(2) reply(1,2) [OF m(1)]
      by (intro inflight_fault [OF fl])
        (simp_all add: queue_txn_ranges_def queue_record_parts_valid_def queue_flow_valid_def queue_faulted_def word_le_nat_alt)
  show ?thesis
    using inv fault committed aborted too_late other by (simp add: queue_finish_query_step_def Let_def split: prod.splits)
qed

section \<open>Giving up the ownership\<close>

definition released :: "c43_queue_authority \<Rightarrow> nat \<Rightarrow> c43_queue_authority" where
  "released qa s = (if owner_at qa s then qa\<lparr>qa_txn_active := 0, qa_owner_slot_plus_one := 0\<rparr> else qa)"

lemma released_owner:
  "\<not> owner_at (released qa s) s"
  "j \<noteq> s \<Longrightarrow> owner_at (released qa s) j = owner_at qa j"
  by (auto simp: released_def owner_at_def)

lemma released_consistent: "authority_consistent qa \<Longrightarrow> authority_consistent (released qa s)"
  by (auto simp: released_def authority_consistent_def)

lemma released_nq: "qa_nq_state (released qa s) = qa_nq_state qa"
  by (simp add: released_def)

lemma release_result:
  assumes "authority_observed (gr_observer g) (gr_queue_authority g)"
    and "f (graph_observed g s) = entry_update ph sat suc (graph_observed g s)"
  shows "queue_release_owner (queue_store g s qx f) s =
    queue_result g s (released (gr_queue_authority g) s) qx ph sat suc"
proof (cases "owner_at (gr_queue_authority g) s")
  case True
  then show ?thesis
    using assms(2)
    by (cases g) (simp add: queue_release_owner_def owner_at_def released_def queue_result_def queue_store_def
        graph_put_def graph_command_def graph_observed_def Let_def)
next
  case False
  then have "queue_release_owner (queue_store g s qx f) s = queue_store g s qx f"
    by (auto simp: queue_release_owner_def owner_at_def queue_store_def graph_put_def Let_def)
  then show ?thesis
    using False queue_store_result [of g f s ph sat suc qx, OF assms] by (simp add: released_def)
qed

lemma entry_update_unsatisfied:
  "co_satisfied_witness_mask c = 0 \<Longrightarrow> c\<lparr>co_phase := ph, co_success_eligible := suc\<rparr> = entry_update ph 0 suc c"
  by (cases c) (simp add: entry_update_def)

text \<open>A command that has not begun its transaction.\<close>

definition queue_idle :: "c43_graph \<Rightarrow> nat \<Rightarrow> bool" where
  "queue_idle g s \<longleftrightarrow> queue_slot g s \<and> qx_flow (cr_queue_txn (graph_command g s)) = C43_QUEUE_FLOW_NONE"

lemma queue_idle_record:
  assumes "queue_idle g s"
  shows "cr_queue_txn (graph_command g s) = zero_c43_queue_txn_record"
    and "storage_clear (graph_command g s) = graph_command g s"
    and "co_satisfied_witness_mask (graph_observed g s) = 0" and "co_success_eligible (graph_observed g s) = 0"
    and "\<not> owner_at (gr_queue_authority g) s"
proof -
  have slot: "queue_slot g s" and srv: "served g s" and flow: "qx_flow (cr_queue_txn (graph_command g s)) = 0"
    using assms by (simp_all add: queue_idle_def queue_slot_def)
  have idle: "record_idle_observed (graph_command g s) (graph_observed g s)"
    using queue_slot_record(1) [OF slot] flow by (simp add: queue_record_valid_def)
  then show "cr_queue_txn (graph_command g s) = zero_c43_queue_txn_record"
    and "storage_clear (graph_command g s) = graph_command g s"
    by (simp_all add: record_idle_observed_def storage_zero_def storage_clear_def)
  have "co_phase (graph_observed g s) = FWLAB_C43_PHASE_ADMITTED_POLICY"
    using served_slot(4) [OF srv] idle by (simp add: phase_promise_def record_idle_observed_def)
  then show "co_satisfied_witness_mask (graph_observed g s) = 0" and "co_success_eligible (graph_observed g s) = 0"
    using served_entry(1) [OF srv] by (simp_all add: entry_ok_def observer_command_in_use_def Let_def)
  show "\<not> owner_at (gr_queue_authority g) s"
    using queue_slot_record(2) [OF slot] served_slot(5) [OF srv] flow by (simp add: requires_owner_iff)
qed

lemma queue_kind_ne: "queue_command_kind kind \<Longrightarrow> kind \<noteq> FWLAB_C43_REQUEST_SET_NUMBER_OF_QUEUES"
  by (auto simp: queue_command_kind_def word_le_nat_alt)

lemma queue_resolve_inv:
  assumes slot: "queue_slot g s" and kind: "queue_command_kind (pr_kind (cr_request (graph_command g s)))"
    and state: "queue_idle g s \<or> queue_inflight g s \<and>
      qx_flow (cr_queue_txn (graph_command g s)) = C43_QUEUE_FLOW_PREPARE_START"
    and status: "status \<noteq> FWLAB_C43_STATUS_SUCCESS" "c43_semantic_status_valid status"
  shows "graph_inv (queue_resolve_no_effect g s status)"
proof -
  let ?r = "graph_command g s" let ?qa = "gr_queue_authority g" let ?o = "graph_observed g s"
  let ?qx = "(cr_queue_txn ?r)\<lparr>qx_flow := C43_QUEUE_FLOW_REJECTED_NO_EFFECT, qx_resolution_valid := 1,
    qx_resolved_status := status, qx_fault_from_flow := C43_QUEUE_FLOW_NONE, qx_provider_owned := 0\<rparr>"
  have srv: "served g s"
    using slot by (simp add: queue_slot_def)
  have required: "co_required_witness_mask ?o \<in> {0, 2}"
    using plan_queue_kind(1) [OF served_record(5) [OF srv]] kind served_entry(2) [OF srv] by simp
  have sat: "co_satisfied_witness_mask ?o = 0"
    using state queue_idle_record(3) inflight_shown(3) [of g s]
    by (auto simp: queue_shown_def queue_public_action_state_def)
  let ?known = "queue_txn_ranges ?qx \<and> qx_local_effect_applied ?qx = 0 \<and> qx_decision ?qx = 0 \<and> queue_no_facts ?qx \<and>
      (qx_provider_generation ?qx = 0 \<and> qx_prepare_request ?qx = zero_c43_queue_effect_request \<or>
       queue_regular_request_valid g (?r\<lparr>cr_queue_txn := ?qx\<rparr>))"
  have known: ?known
    using state
  proof
    assume "queue_idle g s"
    then show ?known
      using queue_idle_record(1) status
      by (simp add: zero_c43_queue_txn_record_def queue_txn_ranges_def queue_no_facts_def words_zero_def)
  next
    assume "queue_inflight g s \<and> qx_flow (cr_queue_txn ?r) = C43_QUEUE_FLOW_PREPARE_START"
    then show ?known
      using inflight_facts [of g s] inflight_record(4) [of g s] status
      by (simp add: queue_txn_ranges_def queue_no_facts_def queue_flow_valid_def queue_regular_request_valid_def
          queue_token_matches_record_def Let_def)
  qed
  have "graph_inv (queue_result g s (released ?qa s) ?qx FWLAB_C43_PHASE_ACTION_WAIT 0 0)"
  proof (rule queue_result_inv [OF slot released_consistent [OF served_frame(2) [OF srv]]])
    show "queue_shown (co_required_witness_mask ?o) ?qx FWLAB_C43_PHASE_ACTION_WAIT 0 0"
      using required status by (auto simp: shown_cases)
    show "queue_record_valid g (?r\<lparr>cr_queue_txn := ?qx\<rparr>) (queue_record_sync (?r\<lparr>cr_queue_txn := ?qx\<rparr>)
        (entry_update FWLAB_C43_PHASE_ACTION_WAIT 0 0 ?o))"
      unfolding queue_record_valid_def queue_rejected_record_valid_def Let_def
      using known kind queue_kind_ne status by (simp add: queue_common_sync)
  qed (simp_all add: released_owner released_nq requires_owner_iff)
  then show ?thesis
    unfolding queue_resolve_no_effect_def Let_def
    using release_result [of g "\<lambda>ob. ob\<lparr>co_phase := FWLAB_C43_PHASE_ACTION_WAIT, co_success_eligible := 0\<rparr>" s
        FWLAB_C43_PHASE_ACTION_WAIT 0 0 ?qx, OF served_frame(3) [OF srv]]
      entry_update_unsatisfied [OF sat]
    by simp
qed

lemma queue_prepare_start_inv:
  assumes fl: "queue_inflight g s" and flow: "qx_flow (cr_queue_txn (graph_command g s)) = C43_QUEUE_FLOW_PREPARE_START"
  shows "graph_inv (fst (queue_prepare_start_step ops g p s))"
proof -
  have slot: "queue_slot g s" and srv: "served g s" and inv: "graph_inv g" and s: "s < FWLAB_C43_MAX_COMMANDS"
    using fl by (simp_all add: queue_inflight_def queue_slot_def served_def)
  have reject: "graph_inv (queue_resolve_no_effect g s FWLAB_C43_STATUS_RESOURCE_FAILURE)"
    using fl flow inflight_facts(5) [OF fl]
    by (intro queue_resolve_inv [OF slot]) (simp_all add: c43_semantic_status_valid_def)
  have same: "(cr_queue_txn (graph_command g s))\<lparr>qx_provider_owned := 0\<rparr> = cr_queue_txn (graph_command g s)"
    using inflight_facts(3) [OF fl] flow by (simp add: queue_flow_valid_def)
  note fault = queue_prepare_fault [OF fl flow]
  show ?thesis
    using inv reject queue_prepared_moves [OF fl flow] fault [of 1] fault [of 0]
    by (simp add: queue_prepare_start_step_def Let_def queue_fault_put [OF served_arrays [OF srv] s]
        queue_store_put [OF served_arrays [OF srv] s] same split: prod.splits)
qed

section \<open>The beginning\<close>

lemma queue_begin_nq_inv:
  assumes idle: "queue_idle g s" and kind: "pr_kind (cr_request (graph_command g s)) = FWLAB_C43_REQUEST_SET_NUMBER_OF_QUEUES"
  shows "graph_inv (queue_begin_nq g s)"
proof -
  let ?r = "graph_command g s" let ?qa = "gr_queue_authority g" let ?o = "graph_observed g s"
  let ?planned = "pl_semantic_status (cr_plan ?r)"
  have slot: "queue_slot g s" and srv: "served g s"
    using idle by (simp_all add: queue_idle_def queue_slot_def)
  define status where "status = (if ?planned = FWLAB_C43_STATUS_SUCCESS \<and>
    (qa_txn_active ?qa \<noteq> 0 \<or> qa_io_cq_present ?qa \<noteq> 0 \<or> qa_io_sq_present ?qa \<noteq> 0)
    then FWLAB_C43_STATUS_COMMAND_SEQUENCE else ?planned)"
  define qa where "qa = (if status = FWLAB_C43_STATUS_SUCCESS then ?qa\<lparr>qa_nq_state := FWLAB_C43_NQ_NEGOTIATED\<rparr> else ?qa)"
  define qx where "qx = (cr_queue_txn ?r)\<lparr>qx_flow := C43_QUEUE_FLOW_DONE, qx_resolution_valid := 1, qx_resolved_status := status\<rparr>"
  have zero: "cr_queue_txn ?r = zero_c43_queue_txn_record" and sat: "co_satisfied_witness_mask ?o = 0"
    by (simp_all add: queue_idle_record [OF idle])
  have required: "co_required_witness_mask ?o = 0"
    using plan_queue_kind(3) [OF served_record(5) [OF srv] _ kind] kind served_entry(2) [OF srv] by simp
  have "fwlab_c43_policy_plan_valid (cr_plan ?r)"
    using served_record(4) [OF srv] by (simp add: admitted_identity_valid_def Let_def)
  then have planned: "c43_semantic_status_valid ?planned"
    by (simp add: fwlab_c43_policy_plan_valid_def plan_header_valid_def split: if_splits)
  then have status: "c43_semantic_status_valid status"
    by (simp add: status_def c43_semantic_status_valid_def)
  have "graph_inv (queue_result g s qa qx FWLAB_C43_PHASE_ACTION_WAIT 0 (of_bool (status = FWLAB_C43_STATUS_SUCCESS)))"
  proof (rule queue_result_inv [OF slot])
    show "authority_consistent qa"
      using served_frame(2) [OF srv] by (auto simp: qa_def status_def authority_consistent_def split: if_splits)
    show "queue_shown (co_required_witness_mask ?o) qx FWLAB_C43_PHASE_ACTION_WAIT 0
        (of_bool (status = FWLAB_C43_STATUS_SUCCESS))"
      by (simp add: required qx_def shown_cases)
    have "queue_txn_ranges qx"
      using status by (simp add: qx_def zero queue_txn_ranges_def zero_c43_queue_txn_record_def words_zero_def)
    moreover have "queue_nq_record_valid (?r\<lparr>cr_queue_txn := qx\<rparr>)"
      by (simp add: queue_nq_record_valid_def qx_def zero zero_c43_queue_txn_record_def status_def queue_no_facts_def)
    moreover have "qx_flow qx = C43_QUEUE_FLOW_DONE"
      by (simp add: qx_def)
    ultimately show "queue_record_valid g (?r\<lparr>cr_queue_txn := qx\<rparr>) (queue_record_sync (?r\<lparr>cr_queue_txn := qx\<rparr>)
        (entry_update FWLAB_C43_PHASE_ACTION_WAIT 0 (of_bool (status = FWLAB_C43_STATUS_SUCCESS)) ?o))"
      using kind by (simp add: queue_record_valid_def queue_common_sync)
    show "owner_at qa s = queue_flow_requires_owner (qx_flow qx)"
      using queue_idle_record(5) [OF idle] by (simp add: qa_def qx_def owner_at_def requires_owner_iff)
  qed (simp_all add: qa_def qx_def owner_at_def requires_owner_iff)
  moreover have "queue_begin_nq g s =
      queue_result g s qa qx FWLAB_C43_PHASE_ACTION_WAIT 0 (of_bool (status = FWLAB_C43_STATUS_SUCCESS))"
    unfolding queue_begin_nq_def Let_def status_def [symmetric] queue_result_def
    using entry_update_unsatisfied [OF sat] by (cases "status = FWLAB_C43_STATUS_SUCCESS")
      (simp_all add: qa_def qx_def queue_store_def graph_command_def graph_observed_def Let_def)
  ultimately show ?thesis
    by simp
qed

text \<open>The requests the graph builds pass their validators.\<close>

lemma served_token:
  assumes "served g s" and "tk_kind tk \<in> {FWLAB_HIF_ACTION_QUEUE_EFFECT, FWLAB_HIF_ACTION_BLOCK}"
    and "tk = (queue_action_token (graph_command g s))\<lparr>tk_kind := tk_kind tk\<rparr>"
  shows "fwlab_hif_action_token_valid tk" and "cr_transaction_uid (graph_command g s) \<noteq> 0"
    and "c43_ticket_valid (cr_ticket (graph_command g s))"
proof -
  show ticket: "c43_ticket_valid (cr_ticket (graph_command g s))" and
    uid: "cr_transaction_uid (graph_command g s) \<noteq> 0"
    using served_record(4) [OF assms(1)] by (auto simp: admitted_identity_valid_def c43_ticket_valid_def Let_def)
  have "action_reserved g (graph_command g s) 0"
    using served_record(7) [OF assms(1), of 0] by simp
  then have action: "act_action_uid (cr_actions (graph_command g s) ! 0) \<noteq> 0"
      "act_generation (cr_actions (graph_command g s) ! 0) \<noteq> 0"
    using served_frame(6) [OF assms(1)] by (auto simp: action_reserved_def fwlab_c43_graph_config_valid_def Let_def)
  have fields: "tk_command tk = ct_handle (cr_ticket (graph_command g s))" "tk_origin tk = ct_origin (cr_ticket (graph_command g s))"
      "tk_action_uid tk = act_action_uid (cr_actions (graph_command g s) ! 0)"
      "tk_generation tk = act_generation (cr_actions (graph_command g s) ! 0)" "tk_reserved tk = 0"
    by (subst assms(3), simp add: queue_action_token_def zero_hif_action_token_def)+
  show "fwlab_hif_action_token_valid tk"
    using ticket action assms(2)
    by (auto simp: fwlab_hif_action_token_valid_def fields c43_ticket_valid_def handle_valid_def origin_valid_def)
qed

lemma queue_request_built:
  assumes "served g s" and "queue_command_kind (pr_kind (cr_request (graph_command g s)))"
  shows "snd (queue_prepare_request_build (graph_command g s))"
proof -
  have op: "queue_operation kind \<in> {1, 2, 3, 4}" for kind
    by (simp add: queue_operation_def)
  have "tk_kind (queue_action_token (graph_command g s)) = FWLAB_HIF_ACTION_QUEUE_EFFECT"
    by (simp add: queue_action_token_def)
  then show ?thesis
    using served_token [OF assms(1), of "queue_action_token (graph_command g s)"] op
    by (auto simp: queue_prepare_request_build_def fwlab_c43_queue_effect_request_valid_def zero_c43_queue_effect_request_def
        fwlab_hif_action_envelope_valid_def zero_hif_action_envelope_def words_zero_def queue_role_def
        queue_operation_role_valid_def word_le_nat_alt Let_def)
qed

end
