(* ===== verification/Nvme_Queue_Service.thy ===== *)
theory Nvme_Queue_Service
  imports Nvme_Queue_Steps
begin

text \<open>
  The beginning and the end of a queue transaction: taking the ownership of the authority, applying
  the committed effect and retiring, and with these the whole service of a queue command.
\<close>

section \<open>Beginning a transaction\<close>

lemma precondition_failure:
  assumes "served g s"
  shows "c43_semantic_status_valid (queue_precondition_status g (graph_command g s))"
proof -
  have "fwlab_c43_policy_plan_valid (cr_plan (graph_command g s))"
    using served_record(4) [OF assms] by (simp add: admitted_identity_valid_def Let_def)
  then have "c43_semantic_status_valid (pl_semantic_status (cr_plan (graph_command g s)))"
    by (simp add: fwlab_c43_policy_plan_valid_def plan_header_valid_def split: if_splits)
  then show ?thesis
    by (simp add: queue_precondition_status_def c43_semantic_status_valid_def Let_def)
qed

lemma authority_update:
  "graph_command (g\<lparr>gr_queue_authority := qa\<rparr>) s = graph_command g s"
  "graph_observed (g\<lparr>gr_queue_authority := qa\<rparr>) s = graph_observed g s"
  by (simp_all add: graph_command_def graph_observed_def)

lemma queue_begin_owner:
  assumes idle: "queue_idle g s" and kind: "queue_command_kind (pr_kind (cr_request (graph_command g s)))"
    and status: "queue_precondition_status g (graph_command g s) = FWLAB_C43_STATUS_SUCCESS"
    and free: "qa_txn_active (gr_queue_authority g) = 0"
  defines "qx \<equiv> zero_c43_queue_txn_record\<lparr>qx_flow := C43_QUEUE_FLOW_PREPARE_START,
      qx_provider_generation := po_generation (pv_queue (gr_providers g)),
      qx_prepare_request := fst (queue_prepare_request_build (graph_command g s))\<rparr>"
    and "qa \<equiv> (gr_queue_authority g)\<lparr>qa_txn_active := 1, qa_owner_slot_plus_one := of_nat (s + 1)\<rparr>"
  shows "graph_inv (queue_result g s qa qx FWLAB_C43_PHASE_RESOLVE_WAIT 0 0)"
proof -
  let ?r = "graph_command g s" let ?o = "graph_observed g s"
  have slot: "queue_slot g s" and srv: "served g s" and s: "s < FWLAB_C43_MAX_COMMANDS"
    using idle by (simp_all add: queue_idle_def queue_slot_def served_def)
  have slot_word: "unat (of_nat (s + 1) :: u16) = s + 1" "of_nat (s + 1) \<noteq> (0::u16)" "of_nat (s + 1) \<le> (4::u16)"
    using s unfolding less_slots by auto
  have plan: "pl_semantic_status (cr_plan ?r) = FWLAB_C43_STATUS_SUCCESS"
    using status by (simp add: queue_precondition_status_def Let_def split: if_splits)
  have required: "co_required_witness_mask ?o = 2"
      "pl_required_witness_mask (cr_plan ?r) = FWLAB_C43_WITNESS_QUEUE_EFFECT_COMMITTED"
    using plan_queue_kind(2) [OF served_record(5) [OF srv] _ kind plan] kind served_entry(2) [OF srv] by simp_all
  have built: "fwlab_c43_queue_effect_request_valid (fst (queue_prepare_request_build ?r))"
    using queue_request_built [OF srv kind] by (simp add: queue_prepare_request_build_def Let_def)
  show ?thesis
  proof (rule queue_result_inv [OF slot])
    show "authority_consistent qa"
      using served_frame(2) [OF srv] slot_word(2,3) by (auto simp: qa_def authority_consistent_def)
    show "owner_at qa j = owner_at (gr_queue_authority g) j" if "j \<noteq> s" for j
      using that free slot_word(1) by (simp add: qa_def owner_at_def)
    show "owner_at qa s = queue_flow_requires_owner (qx_flow qx)"
      using slot_word(1) by (simp add: qa_def qx_def owner_at_def requires_owner_iff)
    show "queue_shown (co_required_witness_mask ?o) qx FWLAB_C43_PHASE_RESOLVE_WAIT 0 0"
      by (simp add: required qx_def shown_cases zero_c43_queue_txn_record_def)
    have "queue_txn_ranges qx" "queue_record_parts_valid qx" "queue_flow_valid qx"
      by (simp_all add: qx_def zero_c43_queue_txn_record_def queue_txn_ranges_def words_zero_def
          queue_record_parts_valid_def queue_flow_valid_def)
    moreover have "queue_regular_request_valid g (?r\<lparr>cr_queue_txn := qx\<rparr>)"
      using built kind
      by (simp add: queue_regular_request_valid_def qx_def queue_prepare_request_build_def queue_token_matches_record_def
          queue_action_token_def zero_hif_action_token_def Let_def)
    moreover have "qx_flow qx = C43_QUEUE_FLOW_PREPARE_START" "qx_local_effect_applied qx = 0"
      by (simp_all add: qx_def zero_c43_queue_txn_record_def)
    ultimately show "queue_record_valid g (?r\<lparr>cr_queue_txn := qx\<rparr>) (queue_record_sync (?r\<lparr>cr_queue_txn := qx\<rparr>)
        (entry_update FWLAB_C43_PHASE_RESOLVE_WAIT 0 0 ?o))"
      using queue_kind_ne [OF kind]
      by (simp add: queue_record_valid_def queue_common_sync) (simp add: queue_record_sync_def entry_update_def)
    have "pr_kind (cr_request ?r) = FWLAB_C43_REQUEST_CREATE_IO_CQ \<longrightarrow>
        qa_nq_state (gr_queue_authority g) = FWLAB_C43_NQ_NEGOTIATED"
      using status plan by (auto simp: queue_precondition_status_def Let_def split: if_splits)
    then show "queue_promise qa (?r\<lparr>cr_queue_txn := qx\<rparr>)"
      using required(2) by (simp add: queue_promise_def qa_def qx_def)
  qed (simp_all add: qa_def qx_def)
qed

lemma queue_begin_inv:
  assumes idle: "queue_idle g s" and kind: "queue_command_kind (pr_kind (cr_request (graph_command g s)))"
    and free: "qa_txn_active (gr_queue_authority g) = 0"
  shows "graph_inv (queue_begin_transaction g s)"
proof (cases "queue_precondition_status g (graph_command g s) = FWLAB_C43_STATUS_SUCCESS")
  case False
  have "queue_slot g s" and "served g s"
    using idle by (simp_all add: queue_idle_def queue_slot_def)
  then show ?thesis
    using False queue_resolve_inv [OF _ kind _ False] precondition_failure idle
    by (simp add: queue_begin_transaction_def Let_def)
next
  case True
  let ?r = "graph_command g s" let ?o = "graph_observed g s"
  have srv: "served g s"
    using idle by (simp add: queue_idle_def queue_slot_def)
  have zero: "cr_queue_txn ?r = zero_c43_queue_txn_record" and clear: "storage_clear ?r = ?r"
    and sat: "co_satisfied_witness_mask ?o = 0" "co_success_eligible ?o = 0"
    by (simp_all add: queue_idle_record [OF idle])
  have entry: "?o\<lparr>co_phase := ph\<rparr> = entry_update ph 0 0 ?o" for ph
    using sat by (cases ?o) (simp add: entry_update_def)
  have same: "queue_prepare_request_build (?r\<lparr>cr_queue_txn := qx\<rparr>) = queue_prepare_request_build ?r" for qx
    by (simp add: queue_prepare_request_build_def queue_action_token_def)
  obtain request where built: "queue_prepare_request_build ?r = (request, True)"
    using queue_request_built [OF srv kind] by (cases "queue_prepare_request_build ?r") simp
  have "queue_begin_transaction g s = queue_result g s
      ((gr_queue_authority g)\<lparr>qa_txn_active := 1, qa_owner_slot_plus_one := of_nat (s + 1)\<rparr>)
      (zero_c43_queue_txn_record\<lparr>qx_flow := C43_QUEUE_FLOW_PREPARE_START,
        qx_provider_generation := po_generation (pv_queue (gr_providers g)), qx_prepare_request := request\<rparr>)
      FWLAB_C43_PHASE_RESOLVE_WAIT 0 0"
    using True free built entry
    by (simp add: queue_begin_transaction_def clear zero same queue_result_def queue_store_def authority_update
        queue_record_sync_def Let_def del: of_nat_Suc of_nat_add)
  then show ?thesis
    using queue_begin_owner [OF idle kind True free] built by simp
qed

section \<open>Ending a transaction\<close>

lemma authority_apply_consistent:
  assumes qa: "authority_consistent (gr_queue_authority g)" and ready: "fst (queue_facts_commit_ready g r facts)"
    and facts: "fwlab_c43_queue_facts_valid facts"
    and nq: "pr_kind (cr_request r) = FWLAB_C43_REQUEST_CREATE_IO_CQ \<Longrightarrow>
      qa_nq_state (gr_queue_authority g) = FWLAB_C43_NQ_NEGOTIATED"
    and app: "authority_apply (gr_queue_authority g) (pr_kind (cr_request r)) (qf_queue facts) = Some qa"
  shows "authority_consistent qa"
proof -
  let ?kind = "pr_kind (cr_request r)" and ?qa = "gr_queue_authority g"
  have exists: "qf_queue_exists facts \<noteq> 0 \<longleftrightarrow> pair_nonzero (qf_queue facts)"
    using facts by (simp add: fwlab_c43_queue_facts_valid_def split: if_splits)
  have zero: "\<not> pair_nonzero (0, 0)"
    by (simp add: pair_nonzero_def)
  consider (ccq) "?kind = FWLAB_C43_REQUEST_CREATE_IO_CQ" | (csq) "?kind = FWLAB_C43_REQUEST_CREATE_IO_SQ"
    | (dsq) "?kind = FWLAB_C43_REQUEST_DELETE_IO_SQ" | (dcq) "?kind = FWLAB_C43_REQUEST_DELETE_IO_CQ"
    using app unfolding authority_apply_def by (metis option.distinct(1))
  then show ?thesis
  proof cases
    case ccq
    have "qa = ?qa\<lparr>qa_io_cq := qf_queue facts, qa_io_cq_present := 1\<rparr>"
      using app ccq by (simp add: authority_apply_def)
    moreover have "pair_nonzero (qf_queue facts)" "qa_io_sq_present ?qa = 0"
      using ready ccq exists by (simp_all add: queue_facts_commit_ready_def Let_def split: if_splits)
    ultimately show ?thesis
      using qa nq ccq unfolding authority_consistent_def by simp
  next
    case csq
    have "qa = ?qa\<lparr>qa_io_sq := qf_queue facts, qa_sq_associated_cq := qa_io_cq ?qa, qa_io_sq_present := 1\<rparr>"
      using app csq by (simp add: authority_apply_def)
    moreover have "pair_nonzero (qf_queue facts)" "qa_io_cq_present ?qa \<noteq> 0"
      using ready csq exists by (simp_all add: queue_facts_commit_ready_def Let_def split: if_splits)
    ultimately show ?thesis
      using qa unfolding authority_consistent_def by simp
  next
    case dsq
    have "qa = ?qa\<lparr>qa_io_sq := (0, 0), qa_sq_associated_cq := (0, 0), qa_io_sq_present := 0\<rparr>"
      using app dsq by (simp add: authority_apply_def)
    then show ?thesis
      using qa zero unfolding authority_consistent_def by (simp, blast)
  next
    case dcq
    have "qa = ?qa\<lparr>qa_io_cq := (0, 0), qa_io_cq_present := 0\<rparr>"
      using app dcq by (simp add: authority_apply_def)
    moreover have "qa_io_sq_present ?qa = 0"
      using ready dcq by (simp add: queue_facts_commit_ready_def Let_def)
    ultimately show ?thesis
      using qa zero unfolding authority_consistent_def by simp
  qed
qed

lemma authority_apply_owner:
  assumes "authority_apply qa kind queue = Some qa'"
  shows "qa_nq_state qa' = qa_nq_state qa" and "qa_txn_active qa' = qa_txn_active qa"
    and "qa_owner_slot_plus_one qa' = qa_owner_slot_plus_one qa"
  using assms by (auto simp: authority_apply_def split: if_splits)

lemma inflight_resolved:
  assumes fl: "queue_inflight g s"
    and flow: "qx_flow (cr_queue_txn (graph_command g s)) \<in> {C43_QUEUE_FLOW_APPLY_COMMIT, C43_QUEUE_FLOW_APPLY_ABORT}"
  shows "qx_provider_owned (cr_queue_txn (graph_command g s)) = 1"
    and "qx_resolution_valid (cr_queue_txn (graph_command g s)) = 1"
  using inflight_facts(1,3) [OF fl] flow by (auto simp: queue_txn_ranges_def queue_flow_valid_def word_le_1 Let_def)

lemma queue_apply_commit_inv:
  assumes fl: "queue_inflight g s" and flow: "qx_flow (cr_queue_txn (graph_command g s)) = C43_QUEUE_FLOW_APPLY_COMMIT"
  shows "graph_inv (queue_apply_commit_step g s)"
proof -
  let ?r = "graph_command g s" let ?qx = "cr_queue_txn ?r" let ?facts = "qt_facts (qx_terminal ?qx)"
  let ?qx' = "?qx\<lparr>qx_local_effect_applied := 1, qx_flow := C43_QUEUE_FLOW_RETIRE\<rparr>"
  have srv: "served g s"
    using fl by (simp add: queue_inflight_def queue_slot_def)
  have fault: "graph_inv (queue_fault g s)"
    by (rule inflight_faults [OF fl]) (simp add: flow)
  have known: "qx_resolved_status ?qx = FWLAB_C43_STATUS_SUCCESS" "fwlab_c43_queue_effect_terminal_valid (qx_terminal ?qx)"
    using inflight_facts(3) [OF fl] flow by (simp_all add: queue_flow_valid_def Let_def)
  have facts: "fwlab_c43_queue_facts_valid ?facts"
    using known(2) by (simp add: fwlab_c43_queue_effect_terminal_valid_def split: if_splits)
  have sat: "co_satisfied_witness_mask (graph_observed g s) = 0"
    using inflight_shown(3) [OF fl] flow by (auto simp: queue_shown_def queue_public_action_state_def)
  have nq: "pr_kind (cr_request ?r) = FWLAB_C43_REQUEST_CREATE_IO_CQ \<Longrightarrow>
      qa_nq_state (gr_queue_authority g) = FWLAB_C43_NQ_NEGOTIATED"
    using inflight_record(9) [OF fl] by (simp add: queue_promise_def)
  have effect: "graph_inv (queue_result g s qa ?qx' FWLAB_C43_PHASE_ACTION_WAIT 2 1)"
    if "fst (queue_facts_commit_ready g ?r ?facts)"
      and "authority_apply (gr_queue_authority g) (pr_kind (cr_request ?r)) (qf_queue ?facts) = Some qa" for qa
  proof (rule inflight_result [OF fl])
    show "authority_consistent qa"
      by (rule authority_apply_consistent [OF served_frame(2) [OF srv] that(1) facts nq that(2)])
    show "qa_nq_state qa = qa_nq_state (gr_queue_authority g)" "qa_txn_active qa = qa_txn_active (gr_queue_authority g)"
      "qa_owner_slot_plus_one qa = qa_owner_slot_plus_one (gr_queue_authority g)"
      using authority_apply_owner [OF that(2)] by simp_all
  qed (use inflight_facts [OF fl] inflight_resolved [OF fl] flow known in \<open>simp_all add: queue_txn_ranges_def queue_record_parts_valid_def
      queue_flow_valid_def queue_flow_requires_owner_def shown_cases word_le_nat_alt queue_terminal_is_commit_def\<close>)
  show ?thesis
    using fault effect sat known(1)
    by (simp add: queue_apply_commit_step_def queue_result_def entry_update_def queue_store_def authority_update
        Let_def split: option.splits)
qed

lemma queue_apply_abort_inv:
  assumes fl: "queue_inflight g s" and flow: "qx_flow (cr_queue_txn (graph_command g s)) = C43_QUEUE_FLOW_APPLY_ABORT"
  shows "graph_inv (queue_apply_abort_step g s)"
proof -
  have sat: "co_satisfied_witness_mask (graph_observed g s) = 0"
    using inflight_shown(3) [OF fl] flow by (auto simp: queue_shown_def queue_public_action_state_def)
  have applied: "qx_local_effect_applied (cr_queue_txn (graph_command g s)) = 0"
    using inflight_shown(4) [OF fl] sat by simp
  show ?thesis
    unfolding queue_apply_abort_step_def
  proof (rule inflight_store [OF fl, where ph = FWLAB_C43_PHASE_ACTION_WAIT and sat = 0 and suc = 0])
    show "(graph_observed g s)\<lparr>co_phase := FWLAB_C43_PHASE_ACTION_WAIT, co_success_eligible := 0\<rparr> =
        entry_update FWLAB_C43_PHASE_ACTION_WAIT 0 0 (graph_observed g s)"
      by (rule entry_update_unsatisfied [OF sat])
  qed (use inflight_facts [OF fl] inflight_resolved [OF fl] flow applied in \<open>simp_all add: queue_txn_ranges_def queue_record_parts_valid_def
      queue_flow_valid_def queue_flow_requires_owner_def shown_cases word_le_nat_alt\<close>)
qed

lemma queue_retired_inv:
  assumes fl: "queue_inflight g s" and flow: "qx_flow (cr_queue_txn (graph_command g s)) = C43_QUEUE_FLOW_RETIRE"
  shows "graph_inv (queue_release_owner (queue_store g s
    ((cr_queue_txn (graph_command g s))\<lparr>qx_provider_owned := 0, qx_flow := C43_QUEUE_FLOW_DONE\<rparr>) id) s)"
proof -
  let ?r = "graph_command g s" let ?qx = "cr_queue_txn ?r" let ?o = "graph_observed g s" let ?qa = "gr_queue_authority g"
  let ?qx' = "?qx\<lparr>qx_provider_owned := 0, qx_flow := C43_QUEUE_FLOW_DONE\<rparr>"
  let ?ph = "co_phase ?o" let ?sat = "co_satisfied_witness_mask ?o" let ?suc = "co_success_eligible ?o"
  have slot: "queue_slot g s" and srv: "served g s"
    using fl by (simp_all add: queue_inflight_def queue_slot_def)
  note facts = inflight_facts [OF fl] inflight_shown [OF fl] flow
  have "graph_inv (queue_result g s (released ?qa s) ?qx' ?ph ?sat ?suc)"
  proof (rule queue_result_inv [OF slot released_consistent [OF served_frame(2) [OF srv]]])
    show "queue_shown (co_required_witness_mask ?o) ?qx' ?ph ?sat ?suc"
      using facts by (simp add: shown_cases)
    have "queue_txn_ranges ?qx'" "queue_record_parts_valid ?qx'" "queue_flow_valid ?qx'"
      using inflight_facts [OF fl] flow by (simp_all add: queue_txn_ranges_def queue_record_parts_valid_def queue_flow_valid_def
          queue_terminal_is_commit_def word_le_nat_alt)
    moreover have "queue_regular_request_valid g (?r\<lparr>cr_queue_txn := ?qx'\<rparr>)"
      using inflight_record(4) [OF fl]
      by (simp add: queue_regular_request_valid_def queue_token_matches_record_def Let_def)
    ultimately show "queue_record_valid g (?r\<lparr>cr_queue_txn := ?qx'\<rparr>) (queue_record_sync (?r\<lparr>cr_queue_txn := ?qx'\<rparr>)
        (entry_update ?ph ?sat ?suc ?o))"
      using inflight_record(3,5) [OF fl]
      by (simp add: queue_record_valid_def queue_common_sync) (simp add: queue_record_sync_def entry_update_def)
  qed (simp_all add: released_owner released_nq requires_owner_iff)
  then show ?thesis
    using release_result [of g id s ?ph ?sat ?suc ?qx', OF served_frame(3) [OF srv]] inflight_shown(5) [OF fl] by simp
qed

lemma queue_retire_inv:
  assumes fl: "queue_inflight g s" and flow: "qx_flow (cr_queue_txn (graph_command g s)) = C43_QUEUE_FLOW_RETIRE"
  shows "graph_inv (fst (queue_retire_step ops g p s))"
proof -
  have inv: "graph_inv g"
    using fl by (simp add: queue_inflight_def queue_slot_def served_def)
  have fault: "graph_inv (queue_fault g s)"
    by (rule inflight_faults [OF fl]) (simp add: flow)
  show ?thesis
    using inv fault queue_retired_inv [OF fl flow]
    by (simp add: queue_retire_step_def Let_def split: prod.splits)
qed

section \<open>Service\<close>

theorem queue_record_step_inv:
  assumes slot: "queue_slot g s" and step: "queue_record_step ops g p s = Some (g', p', n)"
  shows "graph_inv g'"
proof -
  let ?flow = "qx_flow (cr_queue_txn (graph_command g s))"
  have idle: "queue_idle g s" if "?flow = 0"
    using slot that by (simp add: queue_idle_def)
  have fl: "queue_inflight g s" if "?flow \<in> {1, 2, 3, 4, 5, 6, 7, 8}"
    using slot that by (auto simp: queue_inflight_def requires_owner_iff)
  show ?thesis
    using step queue_begin_nq_inv [OF idle] queue_begin_inv [OF idle] queue_prepare_start_inv [OF fl, of ops p]
      queue_prepare_query_inv [OF fl, of ops p] queue_decide_inv [OF fl] queue_finish_start_inv [OF fl, of ops p]
      queue_finish_query_inv [OF fl, of ops p]
      queue_apply_commit_inv [OF fl] queue_apply_abort_inv [OF fl] queue_retire_inv [OF fl, of ops p]
    unfolding queue_record_step_def Let_def by (simp split: if_splits)
qed

end
