(* ===== verification/Nvme_Block_Laws.thy ===== *)
theory Nvme_Block_Laws
  imports Nvme_Queue_Service
begin

text \<open>
  The block flow keeps the invariant of the command graph. The steps of this flow and of the target
  flow leave the queue authority alone; \<open>quiet_inv\<close> is the frame rule for such steps.
\<close>

section \<open>Steps that leave the authority alone\<close>

definition quiet_kind :: "c43_command_record \<Rightarrow> bool" where
  "quiet_kind r \<longleftrightarrow> pl_kind (cr_plan r) = FWLAB_C43_PLAN_ABORT_RESOLVE \<or> pl_kind (cr_plan r) = FWLAB_C43_PLAN_BLOCK"

lemma quiet_inv:
  assumes srv: "served g s" and step: "slot_step g s g'" and kind: "quiet_kind (graph_command g s)"
    and auth: "gr_queue_authority g' = gr_queue_authority g"
      "authority_observed (gr_observer g') (gr_queue_authority g)"
    and entry: "entry_ok (gr_observer g) s (graph_observed g' s)" and loc: "phase4_local g' s"
    and domain: "co_action_domain (graph_observed g' s) \<noteq> FWLAB_C43_ACTION_DOMAIN_NONE" and pins: "pins_ok g'"
  shows "graph_inv g'"
proof -
  have inv: "graph_inv g" and s: "s < FWLAB_C43_MAX_COMMANDS" "cr_state (graph_command g s) = C43_COMMAND_RECORD_ADMITTED"
    using srv by (simp_all add: served_def)
  have none: "\<not> needs_owner g s"
    using kind s(2) by (auto simp: quiet_kind_def needs_owner_def record_kind_def Let_def)
  then have free: "\<not> owner_at (gr_queue_authority g) s"
    using served_slot(5) [OF srv] by simp
  have none': "\<not> needs_owner g' s"
    using kind s(2) slot_step_records [OF step s(1)]
    by (auto simp: quiet_kind_def needs_owner_def record_kind_def Let_def)
  have owner: "observer_owner (gr_observer g') s = observer_owner (gr_observer g) s"
    using owner_observed [OF auth(2)] owner_observed [OF served_frame(3) [OF srv]] by simp
  have ids: "go_instance_nonce (gr_observer g') = go_instance_nonce (gr_observer g)"
      "go_controller_epoch (gr_observer g') = go_controller_epoch (gr_observer g)"
    using observer_frame_fields [OF slot_step_frame [OF step]] by simp_all
  have phase: "co_phase (graph_observed g s) \<ge> FWLAB_C43_PHASE_ADMITTED_POLICY"
    using served_slot(4) [OF srv] by (auto simp: phase_promise_def word_le_nat_alt)
  let ?c = "graph_observed g' s"
  have "observer_command_in_use (gr_observer g') ?c = observer_command_in_use (gr_observer g) ?c"
    by (simp add: observer_command_in_use_def ids)
  moreover have "queue_public_command_valid (gr_observer g') s ?c = queue_public_command_valid (gr_observer g) s ?c"
    by (simp add: queue_public_command_valid_def owner)
  moreover have "block_public_command_valid (gr_observer g') s ?c = block_public_command_valid (gr_observer g) s ?c"
    by (simp add: block_public_command_valid_def owner)
  moreover have "target_public_local (gr_observer g') s ?c = target_public_local (gr_observer g) s ?c"
    by (simp add: target_public_local_def owner slot_step_target_matches [OF step phase] del: upt_rec_numeral)
  ultimately have entry': "entry_ok (gr_observer g') s ?c"
    using entry by (simp add: entry_ok_def)
  show ?thesis
    using none' free auth served_frame(2) [OF srv]
    by (intro slot_step_inv [OF inv step _ _ _ _ _ entry' loc domain pins]) (simp_all add: queue_authority_valid_def)
qed

text \<open>Storing a record and its entry in a slot, with the pins unchanged.\<close>

lemma put_step:
  assumes srv: "served g s" and "record_frame (graph_command g s) r" and "observed_frame (graph_observed g s) c"
    and "cr_incoming_target_pins r = cr_incoming_target_pins (graph_command g s)"
    and "co_incoming_target_pins c = co_incoming_target_pins (graph_observed g s)"
    and "co_phase c \<in> {FWLAB_C43_PHASE_RESOLVE_WAIT, FWLAB_C43_PHASE_ACTION_WAIT}"
  shows "slot_step g s (graph_put g s r c)"
proof -
  have arr: "graph_arrays g" and s: "s < FWLAB_C43_MAX_COMMANDS" "cr_in_use (graph_command g s) \<noteq> 0"
      "cr_state (graph_command g s) = C43_COMMAND_RECORD_ADMITTED"
    using srv served_arrays by (simp_all add: served_def)
  have "graph_frame g (graph_put g s r c)"
    using arr by (simp add: graph_frame_def graph_put_def graph_arrays_def)
  then show ?thesis
    using assms s by (auto simp: slot_step_def graph_put_nth [OF arr])
qed

lemma put_authority:
  "gr_queue_authority (graph_put g s r c) = gr_queue_authority g"
  "authority_observed (gr_observer (graph_put g s r c)) qa = authority_observed (gr_observer g) qa"
  by (simp_all add: graph_put_def authority_observed_def)

lemma mask_covered: "w AND NOT (m OR w) = 0" for w m :: u32
  by (rule bit_word_eqI) (simp add: bit_and_iff bit_not_iff bit_or_iff)

section \<open>Block commands\<close>

definition block_slot :: "c43_graph \<Rightarrow> nat \<Rightarrow> bool" where
  "block_slot g s \<longleftrightarrow> served g s \<and> pl_kind (cr_plan (graph_command g s)) = FWLAB_C43_PLAN_BLOCK"

lemma block_slot_record:
  assumes "block_slot g s"
  shows "block_record_valid g (graph_command g s) (graph_observed g s)"
    and "co_required_witness_mask (graph_observed g s) \<noteq> 0"
    and "co_required_witness_mask (graph_observed g s) AND 1 = 0"
    and "fwlab_c43_block_intent_valid (pl_block (cr_plan (graph_command g s)))"
    and "bi_command (pl_block (cr_plan (graph_command g s))) = ct_handle (cr_ticket (graph_command g s))"
    and "bi_origin (pl_block (cr_plan (graph_command g s))) = ct_origin (cr_ticket (graph_command g s))"
proof -
  have srv: "served g s" and kind: "pl_kind (cr_plan (graph_command g s)) = FWLAB_C43_PLAN_BLOCK"
    using assms by (simp_all add: block_slot_def)
  show "block_record_valid g (graph_command g s) (graph_observed g s)"
    using served_slot(2) [OF srv] srv kind by (simp add: phase4_local_def record_kind_def served_def Let_def)
  have plan: "fwlab_c43_policy_plan_valid (cr_plan (graph_command g s))"
    and ids: "pl_command (cr_plan (graph_command g s)) = ct_handle (cr_ticket (graph_command g s))"
      "pl_origin (cr_plan (graph_command g s)) = ct_origin (cr_ticket (graph_command g s))"
    using served_record(4) [OF srv] by (simp_all add: admitted_identity_valid_def Let_def)
  then have block: "plan_block_valid (cr_plan (graph_command g s))" and head: "plan_header_valid (cr_plan (graph_command g s))"
    using kind by (simp_all add: fwlab_c43_policy_plan_valid_def split: if_splits)
  show "fwlab_c43_block_intent_valid (pl_block (cr_plan (graph_command g s)))"
    and "bi_command (pl_block (cr_plan (graph_command g s))) = ct_handle (cr_ticket (graph_command g s))"
    and "bi_origin (pl_block (cr_plan (graph_command g s))) = ct_origin (cr_ticket (graph_command g s))"
    using block ids by (simp_all add: plan_block_valid_def split: if_splits)
  have "pl_required_witness_mask (cr_plan (graph_command g s)) \<noteq> 0"
    using block by (auto simp: plan_block_valid_def block_witness_def split: if_splits)
  moreover have "pl_required_witness_mask (cr_plan (graph_command g s)) AND 1 = 0"
    using head by (simp add: plan_header_valid_def)
  ultimately show "co_required_witness_mask (graph_observed g s) \<noteq> 0"
    and "co_required_witness_mask (graph_observed g s) AND 1 = 0"
    using served_entry(2) [OF srv] by simp_all
qed

text \<open>The tests of \<open>block_record_valid\<close> on the transaction alone.\<close>

definition block_txn_ok :: "c43_graph \<Rightarrow> c43_command_record \<Rightarrow> c43_block_txn_record \<Rightarrow> bool" where
  "block_txn_ok g r bt \<longleftrightarrow>
     bt_flow bt \<le> C43_BLOCK_FLOW_FAULT \<and> bt_terminal_kind bt \<le> FWLAB_C43_BLOCK_COMPLETED \<and>
     bt_resolution_valid bt \<le> 1 \<and> bt_provider_owned bt \<le> 1 \<and> bt_reserved0 bt = 0 \<and> bt_reserved1 bt = 0 \<and>
     bt_reserved_alignment bt = 0 \<and> words_zero (bt_reserved2 bt) \<and> words_zero (bt_reserved_tail bt) \<and>
     (bt_flow bt \<noteq> C43_BLOCK_FLOW_FAULT \<longrightarrow> bt_fault_from_flow bt = C43_BLOCK_FLOW_NONE) \<and>
     (bt_flow bt = C43_BLOCK_FLOW_FAULT \<longrightarrow> bt_fault_from_flow bt \<noteq> C43_BLOCK_FLOW_NONE \<and>
        bt_fault_from_flow bt \<le> C43_BLOCK_FLOW_QUERY) \<and>
     (bt_resolution_valid bt = 0 \<longrightarrow> bt_resolved_status bt = 0) \<and>
     (bt_resolution_valid bt \<noteq> 0 \<longrightarrow> c43_semantic_status_valid (bt_resolved_status bt)) \<and>
     bt_provider_generation bt = bp_generation (pv_block (gr_providers g)) \<and>
     fwlab_c43_block_action_request_valid_for_port (bt_request bt) (pv_block (gr_providers g)) \<and>
     block_token_matches_record (ae_token (bq_common (bt_request bt))) r \<and>
     ae_cookie (bq_common (bt_request bt)) = cr_transaction_uid r \<and>
     ae_dependency_ordinal (bq_common (bt_request bt)) = UINT32_MAX \<and>
     bq_requested_witness_mask (bt_request bt) = FWLAB_C43_WITNESS_VALIDATED_ONLY \<and>
     c43_ref_zero (bq_predecessor (bt_request bt)) \<and> bq_intent (bt_request bt) = pl_block (cr_plan r)"

lemma block_common_txn: "block_record_common g r c \<Longrightarrow> block_txn_ok g r (cr_block_txn r)"
  unfolding block_record_common_def block_txn_ok_def Let_def by (auto simp: not_less)

lemma block_common_sync:
  assumes "pl_kind (cr_plan r) = FWLAB_C43_PLAN_BLOCK" and "block_txn_ok g r bt"
  shows "block_record_common g (r\<lparr>cr_block_txn := bt\<rparr>) (block_record_sync (r\<lparr>cr_block_txn := bt\<rparr>) c)"
  using assms unfolding block_record_common_def block_txn_ok_def Let_def
  by (auto simp: not_less block_record_sync_def block_token_matches_record_def)

lemma block_record_valid_cong:
  "gr_providers g' = gr_providers g \<Longrightarrow> block_record_valid g' r c = block_record_valid g r c"
  by (simp add: block_record_valid_def block_record_common_def block_flow_valid_def)

definition block_phase :: "c43_block_txn_record \<Rightarrow> u32" where
  "block_phase bt = (if bt_flow bt = C43_BLOCK_FLOW_SUBMIT_START \<or> bt_flow bt = C43_BLOCK_FLOW_QUERY
     then FWLAB_C43_PHASE_RESOLVE_WAIT else FWLAB_C43_PHASE_ACTION_WAIT)"

definition block_entry :: "c43_graph \<Rightarrow> nat \<Rightarrow> c43_block_txn_record \<Rightarrow> u32 \<Rightarrow> c43_command_observer" where
  "block_entry g s bt sat = block_record_sync ((graph_command g s)\<lparr>cr_block_txn := bt\<rparr>)
     (entry_update (block_phase bt) sat 0 (graph_observed g s))"

lemma block_flow_cases:
  assumes "block_flow_valid g bt c" and "bt_flow bt \<noteq> C43_BLOCK_FLOW_NONE"
  shows "bt_flow bt = 1 \<or> bt_flow bt = 2 \<or> bt_flow bt = 3 \<or> bt_flow bt = 4 \<or> bt_flow bt = 5"
  using assms by (auto simp: block_flow_valid_def Let_def split: if_splits)

lemma block_entry_ok:
  assumes slot: "block_slot g s" and ok: "block_txn_ok g (graph_command g s) bt" and flow: "bt_flow bt \<noteq> C43_BLOCK_FLOW_NONE"
    and valid: "block_flow_valid g bt (block_entry g s bt sat)"
    and sat: "sat = 0 \<or> sat = 1 \<and> bt_flow bt = C43_BLOCK_FLOW_DONE"
  shows "entry_ok (gr_observer g) s (block_entry g s bt sat)"
proof -
  let ?o = "graph_observed g s" and ?c = "block_entry g s bt sat"
  have srv: "served g s" and kind: "quiet_kind (graph_command g s)"
    using slot by (simp_all add: block_slot_def quiet_kind_def)
  have "\<not> needs_owner g s"
    using kind srv by (auto simp: quiet_kind_def needs_owner_def record_kind_def served_def Let_def)
  then have free: "\<not> observer_owner (gr_observer g) s"
    using served_slot(5) [OF srv] owner_observed [OF served_frame(3) [OF srv]] by simp
  have old: "observer_command_ranges ?o"
    using served_entry(1) [OF srv] by (simp add: entry_ok_def)
  have req: "co_required_witness_mask ?o \<noteq> 0" "co_required_witness_mask ?o AND 1 = 0" "1 AND co_required_witness_mask ?o = 0"
    using block_slot_record(2,3) [OF slot] by (simp_all add: and.commute)
  have frame: "observed_frame ?o ?c"
    by (simp add: observed_frame_def block_entry_def block_record_sync_def entry_update_def)
  have fields: "co_phase ?c = block_phase bt" "co_satisfied_witness_mask ?c = sat" "co_success_eligible ?c = 0"
      "co_action_domain ?c = FWLAB_C43_ACTION_DOMAIN_BLOCK" "co_action_state ?c = block_public_action_state (bt_flow bt)"
      "co_resolution_valid ?c = bt_resolution_valid bt" "co_resolved_status ?c = bt_resolved_status bt"
      "co_block_terminal_kind ?c = bt_terminal_kind bt" "co_required_witness_mask ?c = co_required_witness_mask ?o"
      "co_action_outcome ?c = 0" "co_target_pin_present ?c = 0" "target_fields_zero ?c"
      "co_incoming_target_pins ?c = co_incoming_target_pins ?o" "co_terminal_winner ?c = FWLAB_C43_WINNER_NONE"
      "co_publication ?c = FWLAB_C43_PUBLICATION_ELIGIBLE" "co_handle ?c = co_handle ?o"
      "co_origin ?c = co_origin ?o" "co_transaction_uid ?c = co_transaction_uid ?o"
    using served_entry(3) [OF srv]
    by (simp_all add: block_entry_def block_record_sync_def entry_update_def target_fields_zero_def
        observer_identity_def pair_nonzero_def)
  have phase: "block_phase bt = 3 \<or> block_phase bt = 4"
    by (simp add: block_phase_def)
  then have phases: "block_phase bt \<noteq> 0" "block_phase bt \<noteq> 1" "block_phase bt \<noteq> 2" "block_phase bt \<le> 13"
    by auto
  have state: "block_public_action_state (bt_flow bt) \<noteq> 0" "block_public_action_state (bt_flow bt) \<le> 12"
    using valid flow by (auto simp: block_public_action_state_def block_flow_valid_def Let_def split: if_splits)
  have mask: "c43_witness_mask_valid sat" "sat AND co_required_witness_mask ?o \<noteq> co_required_witness_mask ?o"
      "sat AND NOT 1 = 0"
    using sat req by (auto simp: c43_witness_mask_valid_def)
  have covered: "sat AND NOT (co_required_witness_mask ?o OR 1) = 0"
    using sat mask_covered [of 1 "co_required_witness_mask ?o"] by (elim disjE conjE) (simp_all only: zero_and_eq)
  have "ranges_changed ?c"
    unfolding ranges_changed_def fields
    using phases mask covered state ok old fields(12)
    by (simp add: block_txn_ok_def ranges_split ranges_changed_def)
  then have "observer_command_ranges ?c"
    using old ranges_kept_frame [OF frame] by (simp add: ranges_split)
  moreover have "observer_command_in_use (gr_observer g) ?c"
    unfolding observer_command_in_use_def Let_def fields
    using entry_fixed [OF srv] phases mask by simp
  moreover have "queue_public_command_valid (gr_observer g) s ?c" "target_public_local (gr_observer g) s ?c"
    by (simp_all add: queue_public_command_valid_def target_public_local_def fields)
  moreover have "block_public_command_valid (gr_observer g) s ?c"
    unfolding block_public_command_valid_def fields
    using block_flow_cases [OF valid flow] valid sat req mask(3) free fields(2,12)
    by (elim disjE) (simp_all add: block_flow_valid_def block_public_action_state_def block_phase_def Let_def split: if_splits)
  ultimately show ?thesis
    by (simp add: entry_ok_def)
qed

lemma block_store_inv:
  assumes slot: "block_slot g s" and ok: "block_txn_ok g (graph_command g s) bt" and flow: "bt_flow bt \<noteq> C43_BLOCK_FLOW_NONE"
    and valid: "block_flow_valid g bt (block_entry g s bt sat)"
    and sat: "sat = 0 \<or> sat = 1 \<and> bt_flow bt = C43_BLOCK_FLOW_DONE"
    and f: "f (graph_observed g s) = entry_update (block_phase bt) sat 0 (graph_observed g s)"
  shows "graph_inv (block_store g s bt f)"
proof -
  let ?r = "(graph_command g s)\<lparr>cr_block_txn := bt\<rparr>" and ?c = "block_entry g s bt sat"
  let ?g = "graph_put g s ?r ?c"
  have srv: "served g s" and kind: "pl_kind (cr_plan (graph_command g s)) = FWLAB_C43_PLAN_BLOCK"
    and s: "s < FWLAB_C43_MAX_COMMANDS" "cr_in_use (graph_command g s) \<noteq> 0"
      "cr_state (graph_command g s) = C43_COMMAND_RECORD_ADMITTED"
    using slot by (simp_all add: block_slot_def served_def)
  have arr: "graph_arrays g"
    by (rule served_arrays [OF srv])
  note nth = graph_put_nth [OF arr]
  have step: "slot_step g s ?g"
    by (rule put_step [OF srv]) (simp_all add: record_frame_def observed_frame_def block_entry_def block_record_sync_def
        entry_update_def block_phase_def)
  have "phase4_local ?g s"
  proof -
    have "block_record_common g ?r ?c"
      unfolding block_entry_def by (rule block_common_sync [OF kind ok])
    then have "block_record_valid g ?r ?c"
      using flow valid by (simp add: block_record_valid_def)
    moreover have "block_record_valid ?g ?r ?c = block_record_valid g ?r ?c"
      by (rule block_record_valid_cong) (simp add: graph_put_def)
    ultimately show ?thesis
      using s kind by (simp add: phase4_local_def nth record_kind_def)
  qed
  moreover have "pins_ok ?g"
  proof (rule pins_ok_cong [OF served_frame(4) [OF srv]])
    fix j assume j: "j < FWLAB_C43_MAX_COMMANDS"
    show "pin_of ?g j = pin_of g j"
      using kind by (simp add: pin_of_def nth(1) [OF j] Let_def)
    show "cr_incoming_target_pins (graph_command ?g j) = cr_incoming_target_pins (graph_command g j)"
      by (simp add: nth(1) [OF j])
  qed
  ultimately have "graph_inv ?g"
    using block_entry_ok [OF slot ok flow valid sat] kind served_frame(3) [OF srv] s
    by (intro quiet_inv [OF srv step]) (simp_all add: nth put_authority quiet_kind_def block_entry_def block_record_sync_def)
  then show ?thesis
    using f by (simp add: block_store_def block_entry_def Let_def)
qed

section \<open>Block steps\<close>

text \<open>A block command that waits for its provider.\<close>

lemma block_live:
  assumes slot: "block_slot g s"
    and flow: "bt_flow (cr_block_txn (graph_command g s)) \<in> {C43_BLOCK_FLOW_SUBMIT_START, C43_BLOCK_FLOW_QUERY}"
  defines "bt \<equiv> cr_block_txn (graph_command g s)"
  shows "block_txn_ok g (graph_command g s) bt" and "bt_resolution_valid bt = 0" and "bt_resolved_status bt = 0"
    and "bt_terminal_kind bt = 0" and "bt_terminal bt = zero_c43_block_action_terminal"
    and "bt_provider_owned bt = of_bool (bt_flow bt = C43_BLOCK_FLOW_QUERY)"
    and "graph_observed g s = entry_update FWLAB_C43_PHASE_RESOLVE_WAIT 0 0 (graph_observed g s)"
proof -
  have srv: "served g s"
    using slot by (simp add: block_slot_def)
  have common: "block_record_common g (graph_command g s) (graph_observed g s)"
    and valid: "block_flow_valid g bt (graph_observed g s)"
    using block_slot_record(1) [OF slot] flow by (auto simp: block_record_valid_def bt_def Let_def)
  show ok: "block_txn_ok g (graph_command g s) bt"
    unfolding bt_def by (rule block_common_txn [OF common])
  show res: "bt_resolution_valid bt = 0" and "bt_terminal_kind bt = 0"
    and "bt_terminal bt = zero_c43_block_action_terminal"
    using valid flow by (auto simp: block_flow_valid_def bt_def Let_def)
  then show "bt_resolved_status bt = 0"
    using ok by (simp add: block_txn_ok_def)
  have owned: "bt_provider_owned bt = 0 \<or> bt_provider_owned bt = 1"
    using ok by (simp add: block_txn_ok_def word_le_1)
  then show "bt_provider_owned bt = of_bool (bt_flow bt = C43_BLOCK_FLOW_QUERY)"
    using valid flow by (auto simp: block_flow_valid_def bt_def Let_def)
  have "co_action_domain (graph_observed g s) = FWLAB_C43_ACTION_DOMAIN_BLOCK"
      "co_action_state (graph_observed g s) \<in> {FWLAB_C43_ACTION_STATE_SUBMIT_READY, FWLAB_C43_ACTION_STATE_ACCEPTED_WAIT}"
    using common flow by (auto simp: block_record_common_def block_public_action_state_def Let_def)
  moreover have "block_public_command_valid (gr_observer g) s (graph_observed g s)"
    using served_entry(1) [OF srv] by (simp add: entry_ok_def)
  ultimately have "co_phase (graph_observed g s) = 3" "co_satisfied_witness_mask (graph_observed g s) = 0"
      "co_success_eligible (graph_observed g s) = 0"
    by (auto simp: block_public_command_valid_def split: if_splits)
  then show "graph_observed g s = entry_update FWLAB_C43_PHASE_RESOLVE_WAIT 0 0 (graph_observed g s)"
    by (cases "graph_observed g s") (simp add: entry_update_def)
qed

lemma block_live_put:
  assumes "graph_arrays g" and "s < FWLAB_C43_MAX_COMMANDS"
  shows "block_store (graph_put g s ((graph_command g s)\<lparr>cr_block_txn := bt'\<rparr>) (graph_observed g s)) s bt f =
      block_store g s bt f"
    and "block_fault (graph_put g s ((graph_command g s)\<lparr>cr_block_txn := bt'\<rparr>) (graph_observed g s)) s =
      block_store g s (block_faulted bt') (\<lambda>ob. ob\<lparr>co_phase := FWLAB_C43_PHASE_ACTION_WAIT,
        co_satisfied_witness_mask := 0, co_success_eligible := 0\<rparr>)"
  using assms
  by (simp_all add: block_fault_def block_store_def graph_put_def graph_command_def graph_observed_def
      graph_arrays_def Let_def)

lemma block_fault_inv:
  assumes slot: "block_slot g s"
    and flow: "bt_flow (cr_block_txn (graph_command g s)) \<in> {C43_BLOCK_FLOW_SUBMIT_START, C43_BLOCK_FLOW_QUERY}"
    and owned: "w = bt_provider_owned (cr_block_txn (graph_command g s)) \<or> w = 1"
  shows "graph_inv (block_store g s (block_faulted ((cr_block_txn (graph_command g s))\<lparr>bt_provider_owned := w\<rparr>))
    (\<lambda>ob. ob\<lparr>co_phase := FWLAB_C43_PHASE_ACTION_WAIT, co_satisfied_witness_mask := 0, co_success_eligible := 0\<rparr>))"
proof -
  let ?bt = "(cr_block_txn (graph_command g s))\<lparr>bt_provider_owned := w\<rparr>"
  note known = block_live [OF slot flow]
  have w: "w \<le> 1"
    using owned known(6) by auto
  have from_flow: "(ucast (bt_flow ?bt) :: u8) = 1 \<or> (ucast (bt_flow ?bt) :: u8) = 2 \<and> w \<noteq> 0" and ne: "bt_flow ?bt \<noteq> 5"
    using flow owned known(6) by auto
  show ?thesis
  proof (rule block_store_inv [OF slot, where sat = 0])
    show "block_txn_ok g (graph_command g s) (block_faulted ?bt)"
      using known(1) from_flow ne w by (auto simp: block_faulted_def block_txn_ok_def c43_semantic_status_valid_def)
    show "block_flow_valid g (block_faulted ?bt) (block_entry g s (block_faulted ?bt) 0)"
      using from_flow ne by (auto simp: block_faulted_def block_flow_valid_def block_entry_def block_record_sync_def entry_update_def)
  qed (simp_all add: block_faulted_def block_phase_def entry_update_def)
qed

lemma block_faults:
  assumes "block_slot g s"
    and "bt_flow (cr_block_txn (graph_command g s)) \<in> {C43_BLOCK_FLOW_SUBMIT_START, C43_BLOCK_FLOW_QUERY}"
  shows "graph_inv (block_fault g s)"
  using block_fault_inv [OF assms, of "bt_provider_owned (cr_block_txn (graph_command g s))"]
  by (simp add: block_fault_def)

lemma block_submit_inv:
  assumes slot: "block_slot g s" and flow: "bt_flow (cr_block_txn (graph_command g s)) = C43_BLOCK_FLOW_SUBMIT_START"
  shows "graph_inv (fst (block_submit_step ops g p s))"
proof -
  let ?bt = "cr_block_txn (graph_command g s)"
  have srv: "served g s" and inv: "graph_inv g" and s: "s < FWLAB_C43_MAX_COMMANDS"
    using slot by (simp_all add: block_slot_def served_def)
  have live: "bt_flow ?bt \<in> {C43_BLOCK_FLOW_SUBMIT_START, C43_BLOCK_FLOW_QUERY}"
    using flow by simp
  note known = block_live [OF slot live]
  have same: "?bt\<lparr>bt_provider_owned := 0\<rparr> = ?bt"
    using known(6) flow by simp
  have reject: "graph_inv (block_rejected g s)"
    unfolding block_rejected_def using known flow
    by (intro block_store_inv [OF slot, where sat = 0])
      (simp_all add: block_txn_ok_def block_flow_valid_def block_entry_def block_record_sync_def entry_update_def
        block_phase_def c43_semantic_status_valid_def word_le_nat_alt)
  have accept: "graph_inv (block_store g s (?bt\<lparr>bt_provider_owned := 1, bt_flow := C43_BLOCK_FLOW_QUERY\<rparr>) id)"
    using known flow
    by (intro block_store_inv [OF slot, where sat = 0])
      (simp_all add: block_txn_ok_def block_flow_valid_def block_entry_def block_record_sync_def block_phase_def word_le_nat_alt)
  show ?thesis
    using inv reject accept block_fault_inv [OF slot live, of 1] block_faults [OF slot live, unfolded block_fault_def]
    by (simp add: block_submit_step_def Let_def block_live_put [OF served_arrays [OF srv] s] split: prod.splits)
qed

lemma block_query_inv:
  assumes slot: "block_slot g s" and flow: "bt_flow (cr_block_txn (graph_command g s)) = C43_BLOCK_FLOW_QUERY"
  shows "graph_inv (fst (block_query_step ops g p s))"
proof -
  let ?bt = "cr_block_txn (graph_command g s)"
  have srv: "served g s" and inv: "graph_inv g"
    using slot by (simp_all add: block_slot_def served_def)
  have live: "bt_flow ?bt \<in> {C43_BLOCK_FLOW_SUBMIT_START, C43_BLOCK_FLOW_QUERY}"
    using flow by simp
  note known = block_live [OF slot live]
  have zero: "co_satisfied_witness_mask (graph_observed g s) = 0"
    by (subst known(7)) (simp add: entry_update_def)
  let ?settled = "\<lambda>reply kind status sat. block_store g s (?bt\<lparr>bt_resolved_status := status, bt_terminal := reply,
        bt_terminal_kind := kind, bt_resolution_valid := 1, bt_flow := C43_BLOCK_FLOW_DONE\<rparr>)
      (\<lambda>ob. ob\<lparr>co_satisfied_witness_mask := co_satisfied_witness_mask ob OR sat,
         co_phase := FWLAB_C43_PHASE_ACTION_WAIT, co_success_eligible := 0\<rparr>)"
  have settled: "graph_inv (?settled reply kind status sat)"
    if m: "fwlab_c43_block_action_terminal_matches_request (bt_request ?bt) reply (pv_block (gr_providers g))"
        "bx_block_terminal_kind reply = kind"
      and "kind = FWLAB_C43_BLOCK_VALIDATED_ONLY \<and> status = FWLAB_C43_STATUS_SUCCESS \<and> sat = 1 \<or>
        kind = FWLAB_C43_BLOCK_FAILED_NO_EFFECT \<and> status = FWLAB_C43_STATUS_MEDIA_FAILURE \<and> sat = 0"
    for reply kind status sat
  proof (rule block_store_inv [OF slot, where sat = sat])
    let ?bt' = "?bt\<lparr>bt_resolved_status := status, bt_terminal := reply, bt_terminal_kind := kind,
      bt_resolution_valid := 1, bt_flow := C43_BLOCK_FLOW_DONE\<rparr>"
    have status: "c43_semantic_status_valid status" "kind \<le> FWLAB_C43_BLOCK_COMPLETED"
      using that(3) by (auto simp: c43_semantic_status_valid_def word_le_nat_alt)
    show "block_txn_ok g (graph_command g s) ?bt'"
      using known(1) flow status by (simp add: block_txn_ok_def word_le_nat_alt)
    show "block_flow_valid g ?bt' (block_entry g s ?bt' sat)"
      using known(6) flow that by (auto simp: block_flow_valid_def block_entry_def block_record_sync_def entry_update_def)
  qed (use that(3) zero in \<open>auto simp: entry_update_def block_phase_def\<close>)
  have validated: "graph_inv (?settled reply FWLAB_C43_BLOCK_VALIDATED_ONLY FWLAB_C43_STATUS_SUCCESS 1)"
    if "fwlab_c43_block_action_terminal_matches_request (bt_request ?bt) reply (pv_block (gr_providers g))"
      "bx_block_terminal_kind reply = FWLAB_C43_BLOCK_VALIDATED_ONLY" for reply
    using settled [OF that] by simp
  have failed: "graph_inv (?settled reply FWLAB_C43_BLOCK_FAILED_NO_EFFECT FWLAB_C43_STATUS_MEDIA_FAILURE 0)"
    if "fwlab_c43_block_action_terminal_matches_request (bt_request ?bt) reply (pv_block (gr_providers g))"
      "bx_block_terminal_kind reply = FWLAB_C43_BLOCK_FAILED_NO_EFFECT" for reply
    using settled [OF that] by simp
  show ?thesis
    using inv block_faults [OF slot live] validated failed
    by (simp add: block_query_step_def Let_def split: prod.splits)
qed

lemma block_begin_inv:
  assumes slot: "block_slot g s" and flow: "bt_flow (cr_block_txn (graph_command g s)) = C43_BLOCK_FLOW_NONE"
  shows "graph_inv (block_begin g s)"
proof -
  let ?r = "graph_command g s" and ?o = "graph_observed g s" and ?port = "pv_block (gr_providers g)"
  have srv: "served g s"
    using slot by (simp add: block_slot_def)
  have idle: "record_idle_observed ?r ?o"
    using block_slot_record(1) [OF slot] flow by (simp add: block_record_valid_def)
  then have zero: "cr_block_txn ?r = zero_c43_block_txn_record" and clear: "storage_clear ?r = ?r"
    by (simp_all add: record_idle_observed_def storage_zero_def storage_clear_def)
  have "co_phase ?o = FWLAB_C43_PHASE_ADMITTED_POLICY"
    using served_slot(4) [OF srv] idle by (simp add: phase_promise_def record_idle_observed_def)
  then have sat: "co_satisfied_witness_mask ?o = 0" "co_success_eligible ?o = 0"
    using served_entry(1) [OF srv] by (simp_all add: entry_ok_def observer_command_in_use_def Let_def)
  have entry: "?o\<lparr>co_phase := ph\<rparr> = entry_update ph 0 0 ?o" for ph
    using sat by (cases ?o) (simp add: entry_update_def)
  have same: "block_request_build (?r\<lparr>cr_block_txn := bt\<rparr>) port = block_request_build ?r port" for bt port
    by (simp add: block_request_build_def queue_action_token_def)
  obtain request built where req: "block_request_build ?r ?port = (request, built)"
    by fastforce
  have token: "fwlab_hif_action_token_valid ((queue_action_token ?r)\<lparr>tk_kind := FWLAB_HIF_ACTION_BLOCK\<rparr>)"
      "cr_transaction_uid ?r \<noteq> 0"
    using served_token [OF srv, of "(queue_action_token ?r)\<lparr>tk_kind := FWLAB_HIF_ACTION_BLOCK\<rparr>"] by simp_all
  have port: "fwlab_c43_block_action_port_valid ?port" "bp_capability_bits ?port = FWLAB_C43_BLOCK_CAP_VALIDATION_ONLY"
    using served_frame(5) [OF srv] by (simp_all add: providers_valid_def)
  have request: "request = fst (block_request_build ?r ?port)" and built: "built = fwlab_c43_block_action_request_valid_for_port request ?port"
    using req by (auto simp: block_request_build_def Let_def)
  have shape: "block_token_matches_record (ae_token (bq_common request)) ?r" "ae_cookie (bq_common request) = cr_transaction_uid ?r"
      "ae_dependency_ordinal (bq_common request) = UINT32_MAX"
      "bq_requested_witness_mask request = FWLAB_C43_WITNESS_VALIDATED_ONLY"
      "c43_ref_zero (bq_predecessor request)" "bq_intent request = pl_block (cr_plan ?r)"
    by (simp_all add: request block_request_build_def Let_def zero_c43_block_action_request_def
        block_token_matches_record_def queue_action_token_def zero_hif_action_token_def c43_ref_zero_def)
  have "fwlab_hif_action_envelope_valid (bq_common request)"
    using token by (simp add: request block_request_build_def Let_def fwlab_hif_action_envelope_valid_def
        zero_hif_action_envelope_def words_zero_def)
  then have "fwlab_c43_block_action_request_valid request"
    using block_slot_record(4-6) [OF slot] shape
    by (simp add: fwlab_c43_block_action_request_valid_def Let_def)
      (simp add: request block_request_build_def Let_def zero_c43_block_action_request_def words_zero_def
        c43_witness_mask_valid_def queue_action_token_def)
  then have valid: "fwlab_c43_block_action_request_valid_for_port request ?port"
    using port shape by (simp add: fwlab_c43_block_action_request_valid_for_port_def required_capability_def)
  let ?bt = "zero_c43_block_txn_record\<lparr>bt_flow := C43_BLOCK_FLOW_SUBMIT_START, bt_provider_generation := bp_generation ?port,
    bt_request := request\<rparr>"
  have "graph_inv (block_store g s ?bt (\<lambda>ob. ob\<lparr>co_phase := FWLAB_C43_PHASE_RESOLVE_WAIT\<rparr>))"
    using valid shape entry
    by (intro block_store_inv [OF slot, where sat = 0])
      (simp_all add: block_txn_ok_def zero_c43_block_txn_record_def block_flow_valid_def block_entry_def block_record_sync_def
        entry_update_def block_phase_def words_zero_def word_le_nat_alt)
  then show ?thesis
    using built valid by (simp add: block_begin_def clear zero same req block_store_def block_record_sync_def Let_def)
qed

theorem block_record_step_inv:
  assumes "block_slot g s" and "block_record_step ops g p s = Some (g', p', n)"
  shows "graph_inv g'"
  using assms(2) block_begin_inv [OF assms(1)] block_submit_inv [OF assms(1), of ops p] block_query_inv [OF assms(1), of ops p]
  unfolding block_record_step_def Let_def by (simp split: if_splits)

end
