(* ===== verification/Nvme_Target_Laws.thy ===== *)
theory Nvme_Target_Laws
  imports Nvme_Block_Laws
begin

text \<open>
  The target flow keeps the invariant of the command graph. A found target gets a pin in another
  slot; the pins of different Abort commands stay apart.
\<close>

section \<open>Abort commands\<close>

definition target_slot :: "c43_graph \<Rightarrow> nat \<Rightarrow> bool" where
  "target_slot g s \<longleftrightarrow> served g s \<and> pl_kind (cr_plan (graph_command g s)) = FWLAB_C43_PLAN_ABORT_RESOLVE"

lemma target_slot_record:
  assumes "target_slot g s"
  shows "target_record_valid g s (graph_command g s) (graph_observed g s)"
    and "co_required_witness_mask (graph_observed g s) = 0"
    and "pr_kind (cr_request (graph_command g s)) = FWLAB_C43_REQUEST_ABORT"
    and "\<not> observer_owner (gr_observer g) s"
proof -
  have srv: "served g s" and kind: "pl_kind (cr_plan (graph_command g s)) = FWLAB_C43_PLAN_ABORT_RESOLVE"
    using assms by (simp_all add: target_slot_def)
  show "target_record_valid g s (graph_command g s) (graph_observed g s)"
    using served_slot(2) [OF srv] srv kind by (simp add: phase4_local_def record_kind_def served_def Let_def)
  have "fwlab_c43_policy_plan_valid (cr_plan (graph_command g s))"
    using served_record(4) [OF srv] by (simp add: admitted_identity_valid_def Let_def)
  then have "pl_required_witness_mask (cr_plan (graph_command g s)) = 0"
    using kind by (simp add: fwlab_c43_policy_plan_valid_def split: if_splits)
  then show "co_required_witness_mask (graph_observed g s) = 0"
    using served_entry(2) [OF srv] by simp
  show "pr_kind (cr_request (graph_command g s)) = FWLAB_C43_REQUEST_ABORT"
    by (rule plan_abort_kind [OF served_record(5) [OF srv] kind])
  have "\<not> needs_owner g s"
    using kind srv by (auto simp: needs_owner_def record_kind_def served_def Let_def)
  then show "\<not> observer_owner (gr_observer g) s"
    using served_slot(5) [OF srv] owner_observed [OF served_frame(3) [OF srv]] by simp
qed

definition target_txn_ok :: "c43_graph \<Rightarrow> c43_command_record \<Rightarrow> c43_target_txn_record \<Rightarrow> bool" where
  "target_txn_ok g r tx \<longleftrightarrow>
     tx_flow tx \<le> C43_TARGET_FLOW_FAULT \<and> tx_outcome tx \<le> FWLAB_C43_TARGET_FAULT \<and> tx_resolution_valid tx \<le> 1 \<and>
     tx_provider_owned tx \<le> 1 \<and> tx_pin_installed tx \<le> 1 \<and> tx_reserved0 tx = 0 \<and> tx_reserved1 tx = 0 \<and>
     words_zero (tx_reserved2 tx) \<and> words_zero (tx_reserved_tail tx) \<and>
     (tx_flow tx \<noteq> C43_TARGET_FLOW_FAULT \<longrightarrow> tx_fault_from_flow tx = C43_TARGET_FLOW_NONE) \<and>
     (tx_flow tx = C43_TARGET_FLOW_FAULT \<longrightarrow> tx_fault_from_flow tx \<noteq> C43_TARGET_FLOW_NONE \<and>
        tx_fault_from_flow tx \<le> C43_TARGET_FLOW_QUERY) \<and>
     (tx_resolution_valid tx = 0 \<longrightarrow> tx_resolved_status tx = 0) \<and>
     (tx_resolution_valid tx \<noteq> 0 \<longrightarrow> c43_semantic_status_valid (tx_resolved_status tx)) \<and>
     tx_provider_generation tx = po_generation (pv_target (gr_providers g)) \<and>
     fwlab_c43_target_request_valid (tx_request tx) \<and>
     queue_token_matches_record (ae_token (tr_common (tx_request tx))) r \<and>
     ae_cookie (tr_common (tx_request tx)) = cr_transaction_uid r \<and>
     ae_dependency_ordinal (tr_common (tx_request tx)) = UINT32_MAX \<and> tr_abort_command (tx_request tx) = cr_ticket r"

lemma target_common_txn: "target_record_common g r c \<Longrightarrow> target_txn_ok g r (cr_target_txn r)"
  unfolding target_record_common_def target_txn_ok_def Let_def by (auto simp: not_less)

lemma target_common_sync:
  assumes "pl_kind (cr_plan r) = FWLAB_C43_PLAN_ABORT_RESOLVE" and "pr_kind (cr_request r) = FWLAB_C43_REQUEST_ABORT"
    and "target_txn_ok g r tx"
  shows "target_record_common g (r\<lparr>cr_target_txn := tx\<rparr>) (target_record_sync (r\<lparr>cr_target_txn := tx\<rparr>) c)"
  using assms unfolding target_record_common_def target_txn_ok_def Let_def
  by (auto simp: not_less target_record_sync_def queue_token_matches_record_def Let_def)

definition target_phase :: "c43_target_txn_record \<Rightarrow> u32" where
  "target_phase tx = (if tx_flow tx = C43_TARGET_FLOW_SUBMIT_START \<or> tx_flow tx = C43_TARGET_FLOW_QUERY
     then FWLAB_C43_PHASE_RESOLVE_WAIT else FWLAB_C43_PHASE_ACTION_WAIT)"

definition target_entry :: "c43_graph \<Rightarrow> nat \<Rightarrow> c43_target_txn_record \<Rightarrow> c43_command_observer" where
  "target_entry g s tx = target_record_sync ((graph_command g s)\<lparr>cr_target_txn := tx\<rparr>)
     (entry_update (target_phase tx) 0 (of_bool (tx_flow tx = C43_TARGET_FLOW_DONE)) (graph_observed g s))"

text \<open>The target slot recorded with a pin.\<close>

definition target_slot_ok :: "c43_target_txn_record \<Rightarrow> bool" where
  "target_slot_ok tx \<longleftrightarrow> (if tx_pin_installed tx \<noteq> 0
     then tx_target_slot_plus_one tx \<noteq> 0 \<and> tx_target_slot_plus_one tx \<le> 4 \<and> tx_terminal tx \<noteq> zero_c43_target_terminal
     else tx_target_slot_plus_one tx = 0)"

lemma target_entry_pins: "target_slot_ok tx \<Longrightarrow> target_pin_observed tx (target_entry g s tx)"
  by (auto simp: target_slot_ok_def target_pin_observed_def target_entry_def target_record_sync_def pair_nonzero_def
      not_less Let_def)

lemma target_entry_found:
  assumes srv: "served g s" and "target_find_slot g s ticket = Some t" and "c43_ticket_valid ticket"
  shows "length (target_matches (gr_observer g) s ticket [0..<FWLAB_C43_MAX_COMMANDS]) = 1"
proof -
  have "\<forall>j<FWLAB_C43_MAX_COMMANDS. reservation_round g j"
    using srv by (simp add: served_def graph_inv_def graph_wf_def slot_ok_def)
  then show ?thesis
    using target_matches_find [OF _ assms(3), of g s] target_find_slotD(1) [OF assms(2)] by (simp del: upt_rec_numeral)
qed

lemma target_flow_states:
  assumes "target_flow_valid g s tx"
  shows "target_public_action_state (tx_flow tx) \<noteq> 0" and "target_public_action_state (tx_flow tx) \<le> 12"
    and "tx_flow tx \<noteq> 0" and "tx_outcome tx \<le> FWLAB_C43_TARGET_RELEASED"
    and "tx_flow tx \<noteq> C43_TARGET_FLOW_DONE \<or> tx_outcome tx \<noteq> FWLAB_C43_TARGET_FOUND \<Longrightarrow> tx_pin_installed tx = 0"
  using assms
  by (auto simp: target_flow_valid_def target_public_action_state_def word_le_nat_alt word_less_nat_alt Let_def split: if_splits)

lemma found_terminal:
  assumes "fwlab_c43_target_terminal_matches_request rq tt" and "tt_outcome tt = FWLAB_C43_TARGET_FOUND"
  shows "c43_ticket_valid (tt_target tt)" and "pair_nonzero (tt_reference tt)"
  using assms by (simp_all add: fwlab_c43_target_terminal_matches_request_def fwlab_c43_target_terminal_valid_def
      Let_def split: if_splits)

lemma target_public_entry:
  assumes slot: "target_slot g s" and valid: "target_flow_valid g' s tx"
    and find: "\<And>ticket. target_find_slot g' s ticket = target_find_slot g s ticket"
  shows "target_public_local (gr_observer g) s (target_entry g s tx)"
proof -
  let ?c = "target_entry g s tx"
  have srv: "served g s"
    using slot by (simp add: target_slot_def)
  have fields: "co_phase ?c = target_phase tx" "co_satisfied_witness_mask ?c = 0"
      "co_success_eligible ?c = of_bool (tx_flow tx = C43_TARGET_FLOW_DONE)"
      "co_action_domain ?c = FWLAB_C43_ACTION_DOMAIN_TARGET" "co_action_state ?c = target_public_action_state (tx_flow tx)"
      "co_resolution_valid ?c = tx_resolution_valid tx" "co_resolved_status ?c = tx_resolved_status tx"
      "co_block_terminal_kind ?c = 0" "co_required_witness_mask ?c = 0"
      "co_action_outcome ?c = tx_outcome tx" "co_target_pin_present ?c = tx_pin_installed tx"
      "co_terminal_winner ?c = FWLAB_C43_WINNER_NONE" "co_publication ?c = FWLAB_C43_PUBLICATION_ELIGIBLE"
      "co_target_ticket ?c = (if tx_pin_installed tx \<noteq> 0 then tt_target (tx_terminal tx) else zero_hif_command_ticket)"
      "co_target_reference ?c = (if tx_pin_installed tx \<noteq> 0 then tt_reference (tx_terminal tx) else (0, 0))"
    using served_entry(3) [OF srv] target_slot_record(2) [OF slot]
    by (simp_all add: target_entry_def target_record_sync_def entry_update_def observer_identity_def Let_def)
  have zero: "tx_outcome tx = 0 \<Longrightarrow> tx_pin_installed tx = 0 \<Longrightarrow> target_fields_zero ?c"
    by (simp add: target_fields_zero_def fields pair_nonzero_def)
  have none: "\<not> pair_nonzero (0, 0)"
    by (simp add: pair_nonzero_def)
  show ?thesis
  proof (cases "tx_flow tx = C43_TARGET_FLOW_DONE \<and> tx_outcome tx = FWLAB_C43_TARGET_FOUND")
    case True
    then obtain t where t: "target_find_slot g s (tt_target (tx_terminal tx)) = Some t" and
      pin: "tx_pin_installed tx \<noteq> 0" and
      reply: "fwlab_c43_target_terminal_matches_request (tx_request tx) (tx_terminal tx)"
        "tt_outcome (tx_terminal tx) = FWLAB_C43_TARGET_FOUND"
        "tx_resolution_valid tx \<noteq> 0" "tx_resolved_status tx = FWLAB_C43_STATUS_SUCCESS"
      using valid find by (auto simp: target_flow_valid_def Let_def split: if_splits option.splits)
    then show ?thesis
      using True target_entry_found [OF srv t] found_terminal [OF reply(1,2)] target_slot_record(4) [OF slot]
      unfolding target_public_local_def fields
      by (simp add: target_public_action_state_def target_phase_def del: upt_rec_numeral)
  next
    case False
    have pin: "tx_pin_installed tx = 0"
      using target_flow_states(5) [OF valid] False by blast
    consider (wait) "tx_flow tx = 1 \<or> tx_flow tx = 2" | (held) "tx_flow tx = 3" | (faulted) "tx_flow tx = 4"
      using valid by (auto simp: target_flow_valid_def Let_def split: if_splits)
    then show ?thesis
    proof cases
      case wait
      then have "tx_resolution_valid tx = 0" "tx_outcome tx = 0"
        using valid by (auto simp: target_flow_valid_def Let_def)
      then show ?thesis
        using wait pin zero target_slot_record(4) [OF slot] unfolding target_public_local_def fields
        by (auto simp: target_public_action_state_def target_phase_def simp del: upt_rec_numeral)
    next
      case held
      then have "tx_resolution_valid tx \<noteq> 0" "tx_resolved_status tx = FWLAB_C43_STATUS_SUCCESS"
          "\<not> tx_outcome tx < FWLAB_C43_TARGET_FOUND" "\<not> tx_outcome tx > FWLAB_C43_TARGET_SUPERSEDED"
        using valid by (simp_all add: target_flow_valid_def Let_def split: if_splits)
      then show ?thesis
        using held False pin none target_slot_record(4) [OF slot] unfolding target_public_local_def fields
        by (simp add: target_public_action_state_def target_phase_def del: upt_rec_numeral)
    next
      case faulted
      then have "tx_resolution_valid tx \<noteq> 0" "tx_resolved_status tx = FWLAB_C43_STATUS_INTERNAL_FAILURE"
          "tx_outcome tx = 0 \<or> tx_outcome tx = FWLAB_C43_TARGET_FAULT"
        using valid by (auto simp: target_flow_valid_def Let_def)
      then show ?thesis
        using faulted pin none target_slot_record(4) [OF slot] unfolding target_public_local_def fields
        by (simp add: target_public_action_state_def target_phase_def del: upt_rec_numeral)
    qed
  qed
qed

lemma target_entry_ok:
  assumes slot: "target_slot g s" and ok: "target_txn_ok g (graph_command g s) tx" and valid: "target_flow_valid g' s tx"
    and find: "\<And>ticket. target_find_slot g' s ticket = target_find_slot g s ticket"
  shows "entry_ok (gr_observer g) s (target_entry g s tx)"
proof -
  let ?o = "graph_observed g s" and ?c = "target_entry g s tx"
  have srv: "served g s"
    using slot by (simp add: target_slot_def)
  have old: "observer_command_ranges ?o"
    using served_entry(1) [OF srv] by (simp add: entry_ok_def)
  have frame: "observed_frame ?o ?c"
    by (simp add: observed_frame_def target_entry_def target_record_sync_def entry_update_def Let_def)
  have fields: "co_phase ?c = target_phase tx" "co_satisfied_witness_mask ?c = 0"
      "co_success_eligible ?c = of_bool (tx_flow tx = C43_TARGET_FLOW_DONE)"
      "co_action_domain ?c = FWLAB_C43_ACTION_DOMAIN_TARGET" "co_action_state ?c = target_public_action_state (tx_flow tx)"
      "co_resolution_valid ?c = tx_resolution_valid tx" "co_resolved_status ?c = tx_resolved_status tx"
      "co_block_terminal_kind ?c = 0" "co_required_witness_mask ?c = 0"
      "co_action_outcome ?c = tx_outcome tx" "co_target_pin_present ?c = tx_pin_installed tx"
      "co_incoming_target_pins ?c = co_incoming_target_pins ?o" "co_handle ?c = co_handle ?o"
      "co_origin ?c = co_origin ?o" "co_transaction_uid ?c = co_transaction_uid ?o"
    using target_slot_record(2) [OF slot]
    by (simp_all add: target_entry_def target_record_sync_def entry_update_def Let_def)
  have "target_phase tx = 3 \<or> target_phase tx = 4"
    by (simp add: target_phase_def)
  then have phases: "target_phase tx \<noteq> 0" "target_phase tx \<noteq> 1" "target_phase tx \<noteq> 2" "target_phase tx \<le> 13"
    by auto
  have outcome: "tx_outcome tx \<le> 7"
    using target_flow_states(4) [OF valid] by simp
  have "ranges_changed ?c"
    unfolding ranges_changed_def fields
    using phases target_flow_states(1,2) [OF valid] outcome ok old
    by (simp add: target_txn_ok_def ranges_split ranges_changed_def c43_witness_mask_valid_def)
  then have "observer_command_ranges ?c"
    using old ranges_kept_frame [OF frame] by (simp add: ranges_split)
  moreover have "observer_command_in_use (gr_observer g) ?c"
    unfolding observer_command_in_use_def Let_def fields
    using entry_fixed [OF srv] phases by simp
  moreover have "queue_public_command_valid (gr_observer g) s ?c" "block_public_command_valid (gr_observer g) s ?c"
    by (simp_all add: queue_public_command_valid_def block_public_command_valid_def fields)
  ultimately show ?thesis
    using target_public_entry [OF slot valid find] by (simp add: entry_ok_def)
qed

section \<open>Pins\<close>

lemma pins_ok_iff:
  "pins_ok g \<longleftrightarrow>
     (\<forall>i<FWLAB_C43_MAX_COMMANDS. \<forall>t. pin_of g i = Some t \<longrightarrow> t < FWLAB_C43_MAX_COMMANDS) \<and>
     (\<forall>i<FWLAB_C43_MAX_COMMANDS. \<forall>j<FWLAB_C43_MAX_COMMANDS. \<forall>t. pin_of g i = Some t \<and> pin_of g j = Some t \<longrightarrow> i = j) \<and>
     (\<forall>j<FWLAB_C43_MAX_COMMANDS. cr_incoming_target_pins (graph_command g j) =
        of_bool (\<exists>i<FWLAB_C43_MAX_COMMANDS. pin_of g i = Some j))"
proof -
  have mem: "Some j \<in> set (map (pin_of g) [0..<FWLAB_C43_MAX_COMMANDS]) \<longleftrightarrow>
      (\<exists>i<FWLAB_C43_MAX_COMMANDS. pin_of g i = Some j)" for j
    by (force simp: image_iff simp del: upt_rec_numeral)
  show ?thesis
    unfolding pins_ok_def pins_apart_upt mem by (simp only: conj_assoc)
qed

lemma pins_okD:
  assumes "pins_ok g" and "i < FWLAB_C43_MAX_COMMANDS"
  shows "pin_of g i = Some t \<Longrightarrow> t < FWLAB_C43_MAX_COMMANDS"
    and "j < FWLAB_C43_MAX_COMMANDS \<Longrightarrow> pin_of g i = Some t \<Longrightarrow> pin_of g j = Some t \<Longrightarrow> i = j"
    and "cr_incoming_target_pins (graph_command g i) = of_bool (\<exists>k<FWLAB_C43_MAX_COMMANDS. pin_of g k = Some i)"
  using assms unfolding pins_ok_iff by blast+

lemma pins_ok_install:
  assumes old: "pins_ok g" and free: "cr_incoming_target_pins (graph_command g t) = 0"
    and t: "t < FWLAB_C43_MAX_COMMANDS" and s: "s < FWLAB_C43_MAX_COMMANDS" "pin_of g s = None"
    and new: "pin_of g' s = Some t"
    and others: "\<And>j. j < FWLAB_C43_MAX_COMMANDS \<Longrightarrow> j \<noteq> s \<Longrightarrow> pin_of g' j = pin_of g j"
    and incoming: "\<And>j. j < FWLAB_C43_MAX_COMMANDS \<Longrightarrow> cr_incoming_target_pins (graph_command g' j) =
      (if j = t then 1 else cr_incoming_target_pins (graph_command g j))"
  shows "pins_ok g'"
proof -
  have none: "pin_of g i \<noteq> Some t" if "i < FWLAB_C43_MAX_COMMANDS" for i
  proof
    assume "pin_of g i = Some t"
    then have "cr_incoming_target_pins (graph_command g t) = 1"
      using pins_okD(3) [OF old t] that by auto
    then show False
      using free by simp
  qed
  have pins: "pin_of g' j = (if j = s then Some t else pin_of g j)" if "j < FWLAB_C43_MAX_COMMANDS" for j
    using that new others by simp
  have bound: "u < FWLAB_C43_MAX_COMMANDS" if "i < FWLAB_C43_MAX_COMMANDS" "pin_of g' i = Some u" for i u
    using that t pins_okD(1) [OF old that(1)] by (simp add: pins split: if_splits)
  have single: "i = j" if "i < FWLAB_C43_MAX_COMMANDS" "j < FWLAB_C43_MAX_COMMANDS" "pin_of g' i = Some u" "pin_of g' j = Some u"
    for i j u
    using that pins_okD(2) [OF old that(1,2)] none by (auto simp: pins split: if_splits)
  have "(\<exists>i<FWLAB_C43_MAX_COMMANDS. pin_of g' i = Some j) \<longleftrightarrow> j = t \<or> (\<exists>i<FWLAB_C43_MAX_COMMANDS. pin_of g i = Some j)"
    for j
  proof
    assume "\<exists>i<FWLAB_C43_MAX_COMMANDS. pin_of g' i = Some j"
    then obtain i where "i < FWLAB_C43_MAX_COMMANDS" "pin_of g' i = Some j" by blast
    then show "j = t \<or> (\<exists>i<FWLAB_C43_MAX_COMMANDS. pin_of g i = Some j)"
      by (cases "i = s") (auto simp: pins)
  next
    assume "j = t \<or> (\<exists>i<FWLAB_C43_MAX_COMMANDS. pin_of g i = Some j)"
    then consider "j = t" | i where "i < FWLAB_C43_MAX_COMMANDS" "pin_of g i = Some j" by blast
    then show "\<exists>i<FWLAB_C43_MAX_COMMANDS. pin_of g' i = Some j"
    proof cases
      case 1
      then show ?thesis using s new by blast
    next
      case 2
      then have "i \<noteq> s"
        using s(2) by auto
      then show ?thesis
        using 2 pins by (intro exI [of _ i]) simp
    qed
  qed
  then have "cr_incoming_target_pins (graph_command g' j) = of_bool (\<exists>i<FWLAB_C43_MAX_COMMANDS. pin_of g' i = Some j)"
    if "j < FWLAB_C43_MAX_COMMANDS" for j
    using incoming [OF that] pins_okD(3) [OF old that] by simp
  then show ?thesis
    unfolding pins_ok_iff using bound single by blast
qed

section \<open>Storing a target transaction\<close>

lemma target_record_valid_step:
  assumes slot: "target_slot g s" and ok: "target_txn_ok g (graph_command g s) tx" and valid: "target_flow_valid g' s tx"
    and prov: "gr_providers g' = gr_providers g" and pins: "target_slot_ok tx"
  shows "target_record_valid g' s ((graph_command g s)\<lparr>cr_target_txn := tx\<rparr>) (target_entry g s tx)"
proof -
  have "target_record_common g ((graph_command g s)\<lparr>cr_target_txn := tx\<rparr>) (target_entry g s tx)"
    unfolding target_entry_def
    using slot by (intro target_common_sync [OF _ target_slot_record(3) [OF slot] ok]) (simp add: target_slot_def)
  then have "target_record_common g' ((graph_command g s)\<lparr>cr_target_txn := tx\<rparr>) (target_entry g s tx)"
    by (simp add: target_record_common_def prov)
  then show ?thesis
    using target_flow_states(3) [OF valid] valid target_entry_pins [OF pins] by (simp add: target_record_valid_def)
qed

lemma target_store_inv:
  assumes slot: "target_slot g s" and ok: "target_txn_ok g (graph_command g s) tx"
    and valid: "target_flow_valid g s tx" and pins: "target_slot_ok tx"
    and none: "pin_of g s = None" "tx_flow tx \<noteq> C43_TARGET_FLOW_DONE \<or> tx_outcome tx \<noteq> FWLAB_C43_TARGET_FOUND"
    and f: "f (graph_observed g s) = entry_update (target_phase tx) 0 (of_bool (tx_flow tx = C43_TARGET_FLOW_DONE)) (graph_observed g s)"
  shows "graph_inv (target_store g s tx f)"
proof -
  let ?r = "(graph_command g s)\<lparr>cr_target_txn := tx\<rparr>" and ?c = "target_entry g s tx"
  let ?g = "graph_put g s ?r ?c"
  have srv: "served g s" and kind: "pl_kind (cr_plan (graph_command g s)) = FWLAB_C43_PLAN_ABORT_RESOLVE"
    and s: "s < FWLAB_C43_MAX_COMMANDS" "cr_in_use (graph_command g s) \<noteq> 0"
      "cr_state (graph_command g s) = C43_COMMAND_RECORD_ADMITTED"
    using slot by (simp_all add: target_slot_def served_def)
  note nth = graph_put_nth [OF served_arrays [OF srv]]
  have step: "slot_step g s ?g"
    by (rule put_step [OF srv]) (simp_all add: record_frame_def observed_frame_def target_entry_def target_record_sync_def
        entry_update_def target_phase_def Let_def)
  have valid': "target_flow_valid ?g s tx"
    using valid slot_step_find [OF step] slot_step_pin_kept [OF step] by (rule target_flow_valid_mono)
  have "phase4_local ?g s"
    using target_record_valid_step [OF slot ok valid' slot_step_graph(3) [OF step] pins] s kind
    by (simp add: phase4_local_def nth record_kind_def)
  moreover have "pins_ok ?g"
  proof (rule pins_ok_cong [OF served_frame(4) [OF srv]])
    fix j assume j: "j < FWLAB_C43_MAX_COMMANDS"
    show "pin_of ?g j = pin_of g j"
    proof (cases "j = s")
      case True
      have "pin_of ?g s = None"
        using none(2) by (auto simp: pin_of_def nth(1) [OF s(1)] Let_def)
      then show ?thesis
        using none(1) True by simp
    qed (simp add: pin_of_def nth(1) [OF j])
    show "cr_incoming_target_pins (graph_command ?g j) = cr_incoming_target_pins (graph_command g j)"
      by (simp add: nth(1) [OF j])
  qed
  ultimately have "graph_inv ?g"
    using target_entry_ok [OF slot ok valid refl] kind served_frame(3) [OF srv] s
    by (intro quiet_inv [OF srv step])
      (simp_all add: nth put_authority quiet_kind_def target_entry_def target_record_sync_def Let_def)
  then show ?thesis
    using f by (simp add: target_store_def target_entry_def Let_def)
qed

lemma target_found_nth:
  assumes "graph_arrays g" and "j < FWLAB_C43_MAX_COMMANDS"
  shows "graph_command (graph_put (target_pin g t) s r c) j = (if j = s then r else if j = t
        then (graph_command g t)\<lparr>cr_incoming_target_pins := 1\<rparr> else graph_command g j)"
    and "graph_observed (graph_put (target_pin g t) s r c) j = (if j = s then c else if j = t
        then (graph_observed g t)\<lparr>co_incoming_target_pins := 1\<rparr> else graph_observed g j)"
proof -
  have "graph_arrays (target_pin g t)"
    using assms(1) by (simp add: target_pin_def graph_put_arrays)
  note nth = graph_put_nth [OF this assms(2), of s r c] graph_put_nth [OF assms, of t]
  show "graph_command (graph_put (target_pin g t) s r c) j = (if j = s then r else if j = t
        then (graph_command g t)\<lparr>cr_incoming_target_pins := 1\<rparr> else graph_command g j)"
    and "graph_observed (graph_put (target_pin g t) s r c) j = (if j = s then c else if j = t
        then (graph_observed g t)\<lparr>co_incoming_target_pins := 1\<rparr> else graph_observed g j)"
    using nth by (simp_all add: target_pin_def)
qed

lemma target_found_step:
  assumes srv: "served g s" and find: "target_find_slot g s h = Some t"
    and wait: "target_phase tx = FWLAB_C43_PHASE_ACTION_WAIT"
  shows "slot_step g s (graph_put (target_pin g t) s ((graph_command g s)\<lparr>cr_target_txn := tx\<rparr>) (target_entry g s tx))"
    (is "slot_step g s ?g")
proof -
  let ?c = "target_entry g s tx"
  have s: "s < FWLAB_C43_MAX_COMMANDS" "cr_in_use (graph_command g s) \<noteq> 0"
      "cr_state (graph_command g s) = C43_COMMAND_RECORD_ADMITTED"
    using srv by (simp_all add: served_def)
  have t: "t < FWLAB_C43_MAX_COMMANDS" "t \<noteq> s" "cr_in_use (graph_command g t) \<noteq> 0"
      "cr_state (graph_command g t) = C43_COMMAND_RECORD_ADMITTED"
    using target_find_slotD [OF find] by simp_all
  note fields = target_found_nth [OF served_arrays [OF srv]]
  have frame: "graph_frame g ?g"
    using served_arrays [OF srv] by (simp add: graph_frame_def target_pin_def graph_put_def graph_arrays_def)
  have rec: "graph_command ?g s = (graph_command g s)\<lparr>cr_target_txn := tx\<rparr>" and obs: "graph_observed ?g s = ?c"
    using fields [OF s(1)] by simp_all
  have phase: "co_phase ?c = FWLAB_C43_PHASE_ACTION_WAIT"
    using wait by (simp add: target_entry_def target_record_sync_def entry_update_def Let_def)
  show ?thesis
    unfolding slot_step_def
  proof (intro conjI allI impI)
    show "record_frame (graph_command g s) (graph_command ?g s)" "observed_frame (graph_observed g s) (graph_observed ?g s)"
      unfolding rec obs by (simp_all add: record_frame_def observed_frame_def target_entry_def target_record_sync_def
          entry_update_def Let_def)
    show "co_phase (graph_observed ?g s) \<in> {FWLAB_C43_PHASE_RESOLVE_WAIT, FWLAB_C43_PHASE_ACTION_WAIT}"
      unfolding obs using phase by simp
    fix j assume j: "j < FWLAB_C43_MAX_COMMANDS"
    show "graph_command ?g j = (graph_command g j)\<lparr>cr_incoming_target_pins := cr_incoming_target_pins (graph_command ?g j)\<rparr>"
      and "graph_observed ?g j = (graph_observed g j)\<lparr>co_incoming_target_pins := co_incoming_target_pins (graph_observed ?g j)\<rparr>"
      if "j \<noteq> s"
      using that t by (simp_all add: fields [OF j])
    show "cr_incoming_target_pins (graph_command ?g j) = cr_incoming_target_pins (graph_command g j) \<and>
        co_incoming_target_pins (graph_observed ?g j) = co_incoming_target_pins (graph_observed g j) \<or>
        cr_in_use (graph_command g j) \<noteq> 0 \<and> cr_state (graph_command g j) = C43_COMMAND_RECORD_ADMITTED \<and>
        cr_incoming_target_pins (graph_command ?g j) = 1 \<and> co_incoming_target_pins (graph_observed ?g j) = 1"
    proof (cases "j = s")
      case True
      then show ?thesis
        unfolding True rec obs by (simp add: target_entry_def target_record_sync_def entry_update_def Let_def)
    next
      case False
      then show ?thesis
        using t by (simp add: fields [OF j])
    qed
  qed (use frame s in simp_all)
qed

lemma target_found_inv:
  assumes slot: "target_slot g s" and ok: "target_txn_ok g (graph_command g s) tx"
    and find: "target_find_slot g s (tt_target (tx_terminal tx)) = Some t"
    and free: "cr_incoming_target_pins (graph_command g t) = 0"
    and flow: "tx_flow tx = C43_TARGET_FLOW_DONE" "tx_outcome tx = FWLAB_C43_TARGET_FOUND" "tx_pin_installed tx = 1"
      "tx_target_slot_plus_one tx = of_nat (t + 1)" "tx_resolution_valid tx = 1" "tx_provider_owned tx = 1"
      "tx_resolved_status tx = FWLAB_C43_STATUS_SUCCESS"
    and reply: "fwlab_c43_target_terminal_matches_request (tx_request tx) (tx_terminal tx)"
      "tt_outcome (tx_terminal tx) = FWLAB_C43_TARGET_FOUND"
    and none: "pin_of g s = None"
    and f: "f (graph_observed g s) = entry_update FWLAB_C43_PHASE_ACTION_WAIT 0 1 (graph_observed g s)"
  shows "graph_inv (target_store (target_pin g t) s tx f)"
proof -
  let ?r = "(graph_command g s)\<lparr>cr_target_txn := tx\<rparr>" and ?c = "target_entry g s tx"
  let ?p = "target_pin g t"
  let ?g = "graph_put ?p s ?r ?c"
  have srv: "served g s" and kind: "pl_kind (cr_plan (graph_command g s)) = FWLAB_C43_PLAN_ABORT_RESOLVE"
    and s: "s < FWLAB_C43_MAX_COMMANDS" "cr_in_use (graph_command g s) \<noteq> 0"
      "cr_state (graph_command g s) = C43_COMMAND_RECORD_ADMITTED"
    using slot by (simp_all add: target_slot_def served_def)
  have t: "t < FWLAB_C43_MAX_COMMANDS" "t \<noteq> s" "cr_in_use (graph_command g t) \<noteq> 0"
      "cr_state (graph_command g t) = C43_COMMAND_RECORD_ADMITTED"
    using target_find_slotD [OF find] by simp_all
  have arr: "graph_arrays g" "graph_arrays ?p"
    using served_arrays [OF srv] by (simp_all add: target_pin_def graph_put_arrays)
  note fields = target_found_nth [OF arr(1)]
  have rec: "graph_command ?g s = ?r" and obs: "graph_observed ?g s = ?c"
    using fields [OF s(1)] by simp_all
  have step: "slot_step g s ?g"
    by (rule target_found_step [OF srv find]) (use flow in \<open>simp add: target_phase_def\<close>)
  have find': "target_find_slot ?g s (tt_target (tx_terminal tx)) = Some t"
    using find slot_step_find [OF step] by simp
  have slot_word: "unat (of_nat (t + 1) :: u16) = t + 1" "of_nat (t + 1) \<noteq> (0::u16)" "of_nat (t + 1) \<le> (4::u16)"
    using t(1) unfolding less_slots by auto
  have pinned: "cr_incoming_target_pins (graph_command ?g t) = 1"
    using t by (simp add: fields)
  have valid: "target_flow_valid ?g s tx"
    using flow reply find' slot_word(1) pinned by (simp add: target_flow_valid_def)
  have "tx_terminal tx \<noteq> zero_c43_target_terminal"
    using reply(2) by (auto simp: zero_c43_target_terminal_def)
  then have slots: "target_slot_ok tx"
    using flow slot_word by (simp add: target_slot_ok_def)
  have "phase4_local ?g s"
    using target_record_valid_step [OF slot ok valid slot_step_graph(3) [OF step] slots] s kind
    by (simp add: phase4_local_def rec obs record_kind_def)
  moreover have "pins_ok ?g"
  proof (rule pins_ok_install [OF served_frame(4) [OF srv] free t(1) s(1) none])
    show "pin_of ?g s = Some t"
      using s kind flow slot_word(1,2) by (simp add: pin_of_def rec)
    show "pin_of ?g j = pin_of g j" if "j < FWLAB_C43_MAX_COMMANDS" "j \<noteq> s" for j
      using that by (simp add: pin_of_def fields Let_def)
    show "cr_incoming_target_pins (graph_command ?g j) = (if j = t then 1 else cr_incoming_target_pins (graph_command g j))"
      if "j < FWLAB_C43_MAX_COMMANDS" for j
      using that t by (simp add: fields)
  qed
  moreover have "gr_queue_authority ?g = gr_queue_authority g"
      "authority_observed (gr_observer ?g) (gr_queue_authority g)"
    using served_frame(3) [OF srv] by (simp_all add: put_authority target_pin_def)
  ultimately have "graph_inv ?g"
    using target_entry_ok [OF slot ok valid slot_step_find [OF step]] kind s
    by (intro quiet_inv [OF srv step]) (simp_all add: rec obs quiet_kind_def, simp_all add: target_entry_def target_record_sync_def Let_def)
  moreover have "graph_command ?p s = graph_command g s" "graph_observed ?p s = graph_observed g s"
    using graph_put_nth [OF arr(1) s(1), of t] t by (simp_all add: target_pin_def)
  ultimately show ?thesis
    using f flow by (simp add: target_store_def target_entry_def target_phase_def Let_def)
qed

section \<open>Target steps\<close>

lemma target_live:
  assumes slot: "target_slot g s"
    and flow: "tx_flow (cr_target_txn (graph_command g s)) \<in> {C43_TARGET_FLOW_SUBMIT_START, C43_TARGET_FLOW_QUERY}"
  defines "tx \<equiv> cr_target_txn (graph_command g s)"
  shows "target_txn_ok g (graph_command g s) tx" and "tx_resolution_valid tx = 0" and "tx_resolved_status tx = 0"
    and "tx_outcome tx = 0" and "tx_terminal tx = zero_c43_target_terminal" and "tx_pin_installed tx = 0"
    and "tx_target_slot_plus_one tx = 0"
    and "tx_provider_owned tx = of_bool (tx_flow tx = C43_TARGET_FLOW_QUERY)"
    and "graph_observed g s = entry_update FWLAB_C43_PHASE_RESOLVE_WAIT 0 0 (graph_observed g s)"
    and "pin_of g s = None"
proof -
  have srv: "served g s"
    using slot by (simp add: target_slot_def)
  have common: "target_record_common g (graph_command g s) (graph_observed g s)"
    and pin: "target_pin_observed tx (graph_observed g s)" and valid: "target_flow_valid g s tx"
    using target_slot_record(1) [OF slot] flow by (auto simp: target_record_valid_def tx_def Let_def)
  show ok: "target_txn_ok g (graph_command g s) tx"
    unfolding tx_def by (rule target_common_txn [OF common])
  show "tx_resolution_valid tx = 0" and "tx_outcome tx = 0" and "tx_terminal tx = zero_c43_target_terminal"
    and nopin: "tx_pin_installed tx = 0"
    using valid flow by (auto simp: target_flow_valid_def tx_def Let_def)
  then show "tx_resolved_status tx = 0" and "tx_target_slot_plus_one tx = 0"
    using ok pin by (simp_all add: target_txn_ok_def target_pin_observed_def)
  have "tx_provider_owned tx = 0 \<or> tx_provider_owned tx = 1"
    using ok by (simp add: target_txn_ok_def word_le_1)
  then show "tx_provider_owned tx = of_bool (tx_flow tx = C43_TARGET_FLOW_QUERY)"
    using valid flow by (auto simp: target_flow_valid_def tx_def Let_def)
  have shown: "co_action_domain (graph_observed g s) = FWLAB_C43_ACTION_DOMAIN_TARGET"
      "co_action_state (graph_observed g s) \<in> {FWLAB_C43_ACTION_STATE_SUBMIT_READY, FWLAB_C43_ACTION_STATE_ACCEPTED_WAIT}"
    using common flow by (auto simp: target_record_common_def target_public_action_state_def Let_def)
  have "target_public_local (gr_observer g) s (graph_observed g s)"
    using served_entry(1) [OF srv] by (simp add: entry_ok_def)
  then have "co_phase (graph_observed g s) = 3" "co_satisfied_witness_mask (graph_observed g s) = 0"
      "co_success_eligible (graph_observed g s) = 0"
    using shown unfolding target_public_local_def by (auto split: if_splits simp del: upt_rec_numeral)
  then show "graph_observed g s = entry_update FWLAB_C43_PHASE_RESOLVE_WAIT 0 0 (graph_observed g s)"
    by (cases "graph_observed g s") (simp add: entry_update_def)
  show "pin_of g s = None"
    using flow by (auto simp: pin_of_def Let_def)
qed

lemma target_put:
  assumes "graph_arrays g" and "s < FWLAB_C43_MAX_COMMANDS"
  shows "target_store (graph_put g s ((graph_command g s)\<lparr>cr_target_txn := tx'\<rparr>) (graph_observed g s)) s tx f =
      target_store g s tx f"
    and "target_fault (graph_put g s ((graph_command g s)\<lparr>cr_target_txn := tx'\<rparr>) (graph_observed g s)) s outcome =
      target_store g s (target_faulted outcome tx') (\<lambda>ob. ob\<lparr>co_phase := FWLAB_C43_PHASE_ACTION_WAIT, co_success_eligible := 0\<rparr>)"
  using assms
  by (simp_all add: target_fault_def target_store_def graph_put_def graph_command_def graph_observed_def
      graph_arrays_def Let_def)

lemma target_fault_inv:
  assumes slot: "target_slot g s"
    and flow: "tx_flow (cr_target_txn (graph_command g s)) \<in> {C43_TARGET_FLOW_SUBMIT_START, C43_TARGET_FLOW_QUERY}"
    and owned: "w = tx_provider_owned (cr_target_txn (graph_command g s)) \<or> w = 1"
    and reply: "outcome = 0 \<and> reply = zero_c43_target_terminal \<or> outcome = FWLAB_C43_TARGET_FAULT \<and>
      fwlab_c43_target_terminal_matches_request (tx_request (cr_target_txn (graph_command g s))) reply \<and>
      tt_outcome reply = FWLAB_C43_TARGET_FAULT"
  shows "graph_inv (target_store g s
    (target_faulted outcome ((cr_target_txn (graph_command g s))\<lparr>tx_provider_owned := w, tx_terminal := reply\<rparr>))
    (\<lambda>ob. ob\<lparr>co_phase := FWLAB_C43_PHASE_ACTION_WAIT, co_success_eligible := 0\<rparr>))"
proof -
  let ?tx = "(cr_target_txn (graph_command g s))\<lparr>tx_provider_owned := w, tx_terminal := reply\<rparr>"
  note known = target_live [OF slot flow]
  have w: "w \<le> 1"
    using owned known(8) by auto
  have from_flow: "(ucast (tx_flow ?tx) :: u8) = 1 \<or> (ucast (tx_flow ?tx) :: u8) = 2 \<and> w \<noteq> 0" and ne: "tx_flow ?tx \<noteq> 4"
    using flow owned known(8) by auto
  have outcome: "outcome \<le> FWLAB_C43_TARGET_FAULT"
    using reply by auto
  have sat: "co_satisfied_witness_mask (graph_observed g s) = 0"
    by (subst known(9)) (simp add: entry_update_def)
  show ?thesis
  proof (rule target_store_inv [OF slot])
    show "target_txn_ok g (graph_command g s) (target_faulted outcome ?tx)"
      using known(1) from_flow ne w outcome
      by (auto simp: target_faulted_def target_txn_ok_def c43_semantic_status_valid_def)
    show "target_flow_valid g s (target_faulted outcome ?tx)"
      using from_flow ne reply by (auto simp: target_faulted_def target_flow_valid_def Let_def)
    show "(graph_observed g s)\<lparr>co_phase := FWLAB_C43_PHASE_ACTION_WAIT, co_success_eligible := 0\<rparr> =
        entry_update (target_phase (target_faulted outcome ?tx)) 0
          (of_bool (tx_flow (target_faulted outcome ?tx) = C43_TARGET_FLOW_DONE)) (graph_observed g s)"
      using entry_update_unsatisfied [OF sat] by (simp add: target_faulted_def target_phase_def)
  qed (use known(10) in \<open>simp_all add: target_faulted_def target_slot_ok_def\<close>)
qed

lemma target_terminal_same: "tx_terminal tx = t \<Longrightarrow> tx\<lparr>tx_terminal := t\<rparr> = tx"
  by (cases tx) simp

lemma target_faults:
  assumes "target_slot g s"
    and "tx_flow (cr_target_txn (graph_command g s)) \<in> {C43_TARGET_FLOW_SUBMIT_START, C43_TARGET_FLOW_QUERY}"
  shows "graph_inv (target_fault g s 0)"
  using target_fault_inv [OF assms, of "tx_provider_owned (cr_target_txn (graph_command g s))" 0 zero_c43_target_terminal]
    target_terminal_same [OF target_live(5) [OF assms]]
  by (simp add: target_fault_def)

lemma target_submit_inv:
  assumes slot: "target_slot g s" and flow: "tx_flow (cr_target_txn (graph_command g s)) = C43_TARGET_FLOW_SUBMIT_START"
  shows "graph_inv (fst (target_submit_step ops g p s))"
proof -
  let ?tx = "cr_target_txn (graph_command g s)"
  have srv: "served g s" and inv: "graph_inv g" and s: "s < FWLAB_C43_MAX_COMMANDS"
    using slot by (simp_all add: target_slot_def served_def)
  have live: "tx_flow ?tx \<in> {C43_TARGET_FLOW_SUBMIT_START, C43_TARGET_FLOW_QUERY}"
    using flow by simp
  note known = target_live [OF slot live]
  have accept: "graph_inv (target_store g s (?tx\<lparr>tx_provider_owned := 1, tx_flow := C43_TARGET_FLOW_QUERY\<rparr>) id)"
  proof (rule target_store_inv [OF slot])
    show "target_txn_ok g (graph_command g s) (?tx\<lparr>tx_provider_owned := 1, tx_flow := C43_TARGET_FLOW_QUERY\<rparr>)"
      using known(1) flow by (simp add: target_txn_ok_def word_le_nat_alt)
    show "target_flow_valid g s (?tx\<lparr>tx_provider_owned := 1, tx_flow := C43_TARGET_FLOW_QUERY\<rparr>)"
      using known by (simp add: target_flow_valid_def)
    show "id (graph_observed g s) = entry_update (target_phase (?tx\<lparr>tx_provider_owned := 1, tx_flow := C43_TARGET_FLOW_QUERY\<rparr>)) 0
        (of_bool (tx_flow (?tx\<lparr>tx_provider_owned := 1, tx_flow := C43_TARGET_FLOW_QUERY\<rparr>) = C43_TARGET_FLOW_DONE)) (graph_observed g s)"
      using known(9) by (simp add: target_phase_def)
  qed (use known in \<open>simp_all add: target_slot_ok_def\<close>)
  have same: "?tx\<lparr>tx_provider_owned := w, tx_terminal := zero_c43_target_terminal\<rparr> = ?tx\<lparr>tx_provider_owned := w\<rparr>" for w
    using known(5) by (cases ?tx) simp
  show ?thesis
    using inv accept target_fault_inv [OF slot live, of 1 0 zero_c43_target_terminal] same [of 1]
      target_faults [OF slot live, unfolded target_fault_def]
    by (simp add: target_submit_step_def Let_def target_put [OF served_arrays [OF srv] s] split: prod.splits)
qed

lemma target_settled_inv:
  assumes slot: "target_slot g s" and flow: "tx_flow (cr_target_txn (graph_command g s)) = C43_TARGET_FLOW_QUERY"
    and reply: "fwlab_c43_target_terminal_matches_request (tx_request (cr_target_txn (graph_command g s))) reply"
    and outcome: "tt_outcome reply = outcome" "outcome \<noteq> FWLAB_C43_TARGET_FOUND" "outcome \<ge> FWLAB_C43_TARGET_NOT_FOUND"
      "outcome \<le> FWLAB_C43_TARGET_SUPERSEDED"
  shows "graph_inv (target_resolved g s ((cr_target_txn (graph_command g s))\<lparr>tx_terminal := reply\<rparr>) outcome)"
proof -
  let ?tx = "cr_target_txn (graph_command g s)"
  let ?tx' = "?tx\<lparr>tx_terminal := reply, tx_flow := C43_TARGET_FLOW_DONE, tx_outcome := outcome, tx_resolution_valid := 1,
    tx_resolved_status := FWLAB_C43_STATUS_SUCCESS\<rparr>"
  have live: "tx_flow ?tx \<in> {C43_TARGET_FLOW_SUBMIT_START, C43_TARGET_FLOW_QUERY}"
    using flow by simp
  note known = target_live [OF slot live]
  have sat: "co_satisfied_witness_mask (graph_observed g s) = 0"
    by (subst known(9)) (simp add: entry_update_def)
  have bound: "outcome \<le> FWLAB_C43_TARGET_FAULT" "\<not> outcome < FWLAB_C43_TARGET_FOUND" "\<not> outcome > FWLAB_C43_TARGET_SUPERSEDED"
    using outcome(3,4) by (simp_all add: word_le_nat_alt word_less_nat_alt unat_eq_zero [symmetric])
  have "graph_inv (target_store g s ?tx' (\<lambda>ob. ob\<lparr>co_phase := FWLAB_C43_PHASE_ACTION_WAIT, co_success_eligible := 1\<rparr>))"
  proof (rule target_store_inv [OF slot])
    show "target_txn_ok g (graph_command g s) ?tx'"
      using known(1) flow bound(1) by (simp add: target_txn_ok_def word_le_nat_alt c43_semantic_status_valid_def)
    show "target_flow_valid g s ?tx'"
      using known(6,8) flow reply outcome(1,2) bound by (simp add: target_flow_valid_def)
    show "(graph_observed g s)\<lparr>co_phase := FWLAB_C43_PHASE_ACTION_WAIT, co_success_eligible := 1\<rparr> =
        entry_update (target_phase ?tx') 0 (of_bool (tx_flow ?tx' = C43_TARGET_FLOW_DONE)) (graph_observed g s)"
      using entry_update_unsatisfied [OF sat] by (simp add: target_phase_def)
  qed (use known outcome in \<open>simp_all add: target_slot_ok_def\<close>)
  then show ?thesis
    by (simp add: target_resolved_def)
qed

lemma target_pinned_inv:
  assumes slot: "target_slot g s" and flow: "tx_flow (cr_target_txn (graph_command g s)) = C43_TARGET_FLOW_QUERY"
    and reply: "fwlab_c43_target_terminal_matches_request (tx_request (cr_target_txn (graph_command g s))) reply"
      "tt_outcome reply = FWLAB_C43_TARGET_FOUND"
    and find: "target_find_slot g s (tt_target reply) = Some t" and free: "cr_incoming_target_pins (graph_command g t) = 0"
  shows "graph_inv (target_resolved (target_pin g t) s ((cr_target_txn (graph_command g s))\<lparr>tx_terminal := reply,
    tx_pin_installed := 1, tx_target_slot_plus_one := of_nat (t + 1)\<rparr>) FWLAB_C43_TARGET_FOUND)"
proof -
  let ?tx = "cr_target_txn (graph_command g s)"
  have live: "tx_flow ?tx \<in> {C43_TARGET_FLOW_SUBMIT_START, C43_TARGET_FLOW_QUERY}"
    using flow by simp
  note known = target_live [OF slot live]
  have sat: "co_satisfied_witness_mask (graph_observed g s) = 0"
    by (subst known(9)) (simp add: entry_update_def)
  show ?thesis
    unfolding target_resolved_def
  proof (rule target_found_inv [OF slot, where t = t])
    show "(graph_observed g s)\<lparr>co_phase := FWLAB_C43_PHASE_ACTION_WAIT, co_success_eligible := 1\<rparr> =
        entry_update FWLAB_C43_PHASE_ACTION_WAIT 0 1 (graph_observed g s)"
      by (rule entry_update_unsatisfied [OF sat])
  qed (use known(1,8,10) flow reply find free in \<open>simp_all add: target_txn_ok_def word_le_nat_alt c43_semantic_status_valid_def\<close>)
qed

lemma target_query_inv:
  assumes slot: "target_slot g s" and flow: "tx_flow (cr_target_txn (graph_command g s)) = C43_TARGET_FLOW_QUERY"
  shows "graph_inv (fst (target_query_step ops g p s))"
proof -
  let ?tx = "cr_target_txn (graph_command g s)"
  have srv: "served g s" and inv: "graph_inv g" and s: "s < FWLAB_C43_MAX_COMMANDS"
    using slot by (simp_all add: target_slot_def served_def)
  have live: "tx_flow ?tx \<in> {C43_TARGET_FLOW_SUBMIT_START, C43_TARGET_FLOW_QUERY}"
    using flow by simp
  have fault: "graph_inv (target_fault g s 0)"
    by (rule target_faults [OF slot live])
  have told: "graph_inv (target_fault (graph_put g s ((graph_command g s)\<lparr>cr_target_txn := ?tx\<lparr>tx_terminal := reply\<rparr>\<rparr>)
      (graph_observed g s)) s FWLAB_C43_TARGET_FAULT)"
    if "fwlab_c43_target_terminal_matches_request (tx_request ?tx) reply" "tt_outcome reply = FWLAB_C43_TARGET_FAULT" for reply
    using target_fault_inv [OF slot live, of "tx_provider_owned ?tx" FWLAB_C43_TARGET_FAULT reply] that
    by (simp add: target_put [OF served_arrays [OF srv] s])
  obtain result reply ready p' where q: "op_target_query ops p (ae_token (tr_common (tx_request ?tx)))
      poison_c43_target_terminal True = (result, reply, ready, p')"
    by (metis prod_cases4)
  have poisoned: "\<not> fwlab_c43_target_terminal_matches_request rq poison_c43_target_terminal" for rq
    by (simp add: fwlab_c43_target_terminal_matches_request_def fwlab_c43_target_terminal_valid_def poison_c43_target_terminal_def)
  show ?thesis
    using inv fault told [of reply] target_settled_inv [OF slot flow, of reply] target_pinned_inv [OF slot flow, of reply] poisoned
    unfolding target_query_step_def Let_def q by (simp split: option.splits)
qed

lemma target_begin_inv:
  assumes slot: "target_slot g s" and flow: "tx_flow (cr_target_txn (graph_command g s)) = C43_TARGET_FLOW_NONE"
  shows "graph_inv (target_begin g s)"
proof -
  let ?r = "graph_command g s" and ?o = "graph_observed g s"
  have srv: "served g s"
    using slot by (simp add: target_slot_def)
  have idle: "record_idle_observed ?r ?o"
    using target_slot_record(1) [OF slot] flow by (simp add: target_record_valid_def)
  then have zero: "cr_target_txn ?r = zero_c43_target_txn_record" and clear: "storage_clear ?r = ?r"
    by (simp_all add: record_idle_observed_def storage_zero_def storage_clear_def)
  have "co_phase ?o = FWLAB_C43_PHASE_ADMITTED_POLICY"
    using served_slot(4) [OF srv] idle by (simp add: phase_promise_def record_idle_observed_def)
  then have sat: "co_satisfied_witness_mask ?o = 0" "co_success_eligible ?o = 0"
    using served_entry(1) [OF srv] by (simp_all add: entry_ok_def observer_command_in_use_def Let_def)
  have entry: "?o\<lparr>co_phase := ph\<rparr> = entry_update ph 0 0 ?o" for ph
    using sat by (cases ?o) (simp add: entry_update_def)
  have same: "target_request_build (?r\<lparr>cr_target_txn := tx\<rparr>) = target_request_build ?r" for tx
    by (simp add: target_request_build_def queue_action_token_def)
  define request where "request = fst (target_request_build ?r)"
  have build: "target_request_build ?r = (request, fwlab_c43_target_request_valid request)"
    by (simp add: request_def target_request_build_def Let_def)
  have token: "fwlab_hif_action_token_valid (queue_action_token ?r)" "cr_transaction_uid ?r \<noteq> 0" "c43_ticket_valid (cr_ticket ?r)"
    using served_token [OF srv, of "queue_action_token ?r"] by (simp_all add: queue_action_token_def)
  have shape: "queue_token_matches_record (ae_token (tr_common request)) ?r" "ae_cookie (tr_common request) = cr_transaction_uid ?r"
      "ae_dependency_ordinal (tr_common request) = UINT32_MAX" "tr_abort_command request = cr_ticket ?r"
    by (simp_all add: request_def target_request_build_def Let_def queue_token_matches_record_def queue_action_token_def
        zero_hif_action_token_def)
  have valid: "fwlab_c43_target_request_valid request"
    using token by (simp add: request_def target_request_build_def Let_def fwlab_c43_target_request_valid_def
        fwlab_hif_action_envelope_valid_def zero_c43_target_request_def zero_hif_action_envelope_def words_zero_def)
      (simp add: queue_action_token_def)
  let ?tx = "zero_c43_target_txn_record\<lparr>tx_flow := C43_TARGET_FLOW_SUBMIT_START,
    tx_provider_generation := po_generation (pv_target (gr_providers g)), tx_request := request\<rparr>"
  have "graph_inv (target_store g s ?tx (\<lambda>ob. ob\<lparr>co_phase := FWLAB_C43_PHASE_RESOLVE_WAIT\<rparr>))"
  proof (rule target_store_inv [OF slot])
    show "target_txn_ok g ?r ?tx" "target_flow_valid g s ?tx" "target_slot_ok ?tx"
      using valid shape by (simp_all add: target_txn_ok_def zero_c43_target_txn_record_def words_zero_def word_le_nat_alt
          target_flow_valid_def target_slot_ok_def)
    show "pin_of g s = None"
      using flow by (simp add: pin_of_def Let_def)
    show "?o\<lparr>co_phase := FWLAB_C43_PHASE_RESOLVE_WAIT\<rparr> =
        entry_update (target_phase ?tx) 0 (of_bool (tx_flow ?tx = C43_TARGET_FLOW_DONE)) ?o"
      using entry by (simp add: target_phase_def)
  qed (simp add: zero_c43_target_txn_record_def)
  then show ?thesis
    using valid by (simp add: target_begin_def clear zero same build target_store_def target_record_sync_def
        zero_c43_target_txn_record_def Let_def)
qed

theorem target_record_step_inv:
  assumes "target_slot g s" and "target_record_step ops g p s = Some (g', p', n)"
  shows "graph_inv g'"
  using assms(2) target_begin_inv [OF assms(1)] target_submit_inv [OF assms(1), of ops p] target_query_inv [OF assms(1), of ops p]
  unfolding target_record_step_def Let_def by (simp split: if_splits)

end
