(* ===== verification/Nvme_Reservation_Laws.thy ===== *)
theory Nvme_Reservation_Laws
  imports Nvme_Queue_Laws
begin

text \<open>
  The frame rule for a change of one slot, and the reservation of a command: the identities it takes
  are fresh, because every identity in use was taken from a cursor that has moved past it, so that a
  reservation keeps the invariant of the command graph.
\<close>

section \<open>Changes of one slot\<close>

text \<open>A change of the record and the entry of one slot, and of counters outside the slots.\<close>

definition slot_change :: "c43_graph \<Rightarrow> nat \<Rightarrow> c43_graph \<Rightarrow> bool" where
  "slot_change g s g' \<longleftrightarrow>
     graph_arrays g' \<and> s < FWLAB_C43_MAX_COMMANDS \<and> gr_magic g' = gr_magic g \<and> gr_config g' = gr_config g \<and>
     gr_providers g' = gr_providers g \<and> gr_next_service_slot g' = gr_next_service_slot g \<and>
     gr_reserved_scheduler g' = gr_reserved_scheduler g \<and> gr_queue_authority g' = gr_queue_authority g \<and>
     go_provider_generation (gr_observer g') = go_provider_generation (gr_observer g) \<and>
     go_instance_nonce (gr_observer g') = go_instance_nonce (gr_observer g) \<and>
     go_controller_epoch (gr_observer g') = go_controller_epoch (gr_observer g) \<and>
     authority_observed (gr_observer g') (gr_queue_authority g) \<and>
     (\<forall>j<FWLAB_C43_MAX_COMMANDS. j \<noteq> s \<longrightarrow>
        graph_command g' j = graph_command g j \<and> graph_observed g' j = graph_observed g j)"

text \<open>Found targets stay found.\<close>

definition finds_kept :: "c43_graph \<Rightarrow> nat \<Rightarrow> c43_graph \<Rightarrow> bool" where
  "finds_kept g s g' \<longleftrightarrow> (\<forall>i ticket t. i \<noteq> s \<longrightarrow> target_find_slot g i ticket = Some t \<longrightarrow>
     target_find_slot g' i ticket = Some t)"

lemma target_matches_one:
  assumes "\<forall>j<FWLAB_C43_MAX_COMMANDS. reservation_round g j"
  shows "length (target_matches (gr_observer g) i ticket [0..<FWLAB_C43_MAX_COMMANDS]) = 1 \<longleftrightarrow>
    c43_ticket_valid ticket \<and> (\<exists>t. target_find_slot g i ticket = Some t)"
proof (cases "c43_ticket_valid ticket")
  case True
  show ?thesis
    unfolding target_matches_find [OF assms True] target_find_slot_def
    by (simp add: True length_Suc_conv del: upt_rec_numeral split: list.splits)
next
  case False
  have "target_matches (gr_observer g) i ticket [0..<FWLAB_C43_MAX_COMMANDS] = []"
    using False ticket_matches_iff assms
    by (simp add: target_matches_def filter_empty_conv graph_observed_def [symmetric] del: upt_rec_numeral)
  then show ?thesis
    using False by simp
qed

lemma target_public_kept:
  assumes "target_public_local (gr_observer g) i c"
    and "\<forall>j<FWLAB_C43_MAX_COMMANDS. reservation_round g j" and "\<forall>j<FWLAB_C43_MAX_COMMANDS. reservation_round g' j"
    and "finds_kept g s g'" and "i \<noteq> s"
    and "observer_owner (gr_observer g') i = observer_owner (gr_observer g) i"
  shows "target_public_local (gr_observer g') i c"
proof -
  have "length (target_matches (gr_observer g') i ticket [0..<FWLAB_C43_MAX_COMMANDS]) = 1"
    if "length (target_matches (gr_observer g) i ticket [0..<FWLAB_C43_MAX_COMMANDS]) = 1" for ticket
    using that assms(4,5) unfolding target_matches_one [OF assms(2)] target_matches_one [OF assms(3)] finds_kept_def
    by blast
  then show ?thesis
    using assms(1) unfolding target_public_local_def assms(6) by (auto simp del: upt_rec_numeral split: if_splits)
qed

lemma target_flow_valid_kept:
  assumes "target_flow_valid g i tx" and "finds_kept g s g'" and "i \<noteq> s"
    and "\<And>t. t < FWLAB_C43_MAX_COMMANDS \<Longrightarrow>
      cr_incoming_target_pins (graph_command g' t) = cr_incoming_target_pins (graph_command g t)"
  shows "target_flow_valid g' i tx"
  using assms(1,2,3) target_find_slotD(2) [of g i] assms(4)
  by (auto simp: target_flow_valid_def finds_kept_def Let_def split: if_splits option.splits)

lemma slot_change_phase4:
  assumes change: "slot_change g s g'" and "finds_kept g s g'"
    and "cr_incoming_target_pins (graph_command g' s) = cr_incoming_target_pins (graph_command g s)"
    and j: "j < FWLAB_C43_MAX_COMMANDS" "j \<noteq> s" and "phase4_local g j"
  shows "phase4_local g' j"
proof -
  have prov: "gr_providers g' = gr_providers g"
    and same: "graph_command g' j = graph_command g j" "graph_observed g' j = graph_observed g j"
    using change j by (simp_all add: slot_change_def)
  have pins: "cr_incoming_target_pins (graph_command g' t) = cr_incoming_target_pins (graph_command g t)"
    if "t < FWLAB_C43_MAX_COMMANDS" for t
    using change assms(3) that by (cases "t = s") (simp_all add: slot_change_def)
  have queue: "queue_record_valid g' r ob = queue_record_valid g r ob" for r ob
    by (simp add: queue_record_valid_def queue_rejected_record_valid_def queue_regular_request_valid_def prov)
  have block: "block_record_valid g' r ob = block_record_valid g r ob" for r ob
    by (simp add: block_record_valid_def block_record_common_def block_flow_valid_def prov)
  have target: "target_record_valid g' j r ob" if "target_record_valid g j r ob" for r ob
    using that target_flow_valid_kept [OF _ assms(2) j(2) pins]
    by (simp add: target_record_valid_def target_record_common_def prov Let_def split: if_splits)
  show ?thesis
    using assms(6) unfolding phase4_local_def same Let_def by (auto simp: queue block target split: if_splits)
qed

lemma slot_change_reservation:
  assumes change: "slot_change g s g'" and "reservation_round g' s"
    and used: "\<And>r. identities_consumed g r \<Longrightarrow> identities_consumed g' r"
    and apart: "\<And>j. j < FWLAB_C43_MAX_COMMANDS \<Longrightarrow> j \<noteq> s \<Longrightarrow> cr_in_use (graph_command g j) \<noteq> 0 \<Longrightarrow>
      records_apart (graph_command g j) (graph_command g' s)"
    and j: "j < FWLAB_C43_MAX_COMMANDS" and "reservation_round g j"
  shows "reservation_round g' j"
proof (cases "j = s")
  case False
  have same: "graph_command g' k = graph_command g k" "graph_observed g' k = graph_observed g k"
    if "k < FWLAB_C43_MAX_COMMANDS" "k \<noteq> s" for k
    using change that by (simp_all add: slot_change_def)
  have "gr_config g' = gr_config g"
    using change by (simp add: slot_change_def)
  then have valid: "prepared_valid g' r = prepared_valid g r" for r
    by (simp add: prepared_iff prepared_identity_valid_def admitted_identity_valid_def action_reserved_def)
  have "records_apart (graph_command g j) (graph_command g' k)"
    if "k < j" "cr_in_use (graph_command g j) \<noteq> 0" "records_apart (graph_command g j) (graph_command g k)" for k
    using that apart [OF j False] same(1) [of k] j by (cases "k = s") simp_all
  then show ?thesis
    using assms(6) used by (simp add: reservation_round_iff same [OF j False] valid split: if_splits)
qed (use assms(2) in simp)

lemma idle_slot:
  assumes "\<forall>i<FWLAB_C43_MAX_COMMANDS. reservation_round g i" and "j < FWLAB_C43_MAX_COMMANDS"
    and "cr_in_use (graph_command g j) = 0"
  shows "co_in_use (graph_observed g j) = 0"
  using assms by (simp add: reservation_round_iff)

lemma slot_change_own_local:
  assumes change: "slot_change g s g'" and slot: "entry_ok (gr_observer g') s (graph_observed g' s)"
      "co_in_use (graph_observed g' s) \<noteq> 0"
    and rounds: "\<forall>i<FWLAB_C43_MAX_COMMANDS. reservation_round g i"
    and apart: "\<And>j. j < FWLAB_C43_MAX_COMMANDS \<Longrightarrow> j \<noteq> s \<Longrightarrow> cr_in_use (graph_command g j) \<noteq> 0 \<Longrightarrow>
        observer_commands_apart (graph_observed g' s) (graph_observed g j)"
  shows "observer_local (gr_observer g') s"
proof -
  have s: "s < FWLAB_C43_MAX_COMMANDS"
    and same: "\<And>j. j < FWLAB_C43_MAX_COMMANDS \<Longrightarrow> j \<noteq> s \<Longrightarrow> graph_observed g' j = graph_observed g j"
    using change by (simp_all add: slot_change_def)
  have "observer_commands_apart (graph_observed g' s) (graph_observed g' k)" if "k < s" for k
  proof (cases "cr_in_use (graph_command g k) = 0")
    case True
    then show ?thesis
      using idle_slot [OF rounds, of k] same [of k] that s by (simp add: observer_commands_apart_def)
  qed (use apart [of k] same [of k] that s in simp)
  then show ?thesis
    using slot unfolding observer_local_def entry_ok_def graph_observed_def by (simp add: Let_def)
qed

lemma slot_change_other_local:
  assumes change: "slot_change g s g'" and finds: "finds_kept g s g'"
    and rounds: "\<forall>i<FWLAB_C43_MAX_COMMANDS. reservation_round g i"
    and rounds': "\<forall>i<FWLAB_C43_MAX_COMMANDS. reservation_round g' i"
    and j: "j < FWLAB_C43_MAX_COMMANDS" "j \<noteq> s" and loc: "observer_local (gr_observer g) j"
    and old: "authority_observed (gr_observer g) (gr_queue_authority g)"
    and apart: "cr_in_use (graph_command g j) \<noteq> 0 \<Longrightarrow> observer_commands_apart (graph_observed g j) (graph_observed g' s)"
  shows "observer_local (gr_observer g') j"
proof -
  let ?c = "graph_observed g j"
  have shown: "authority_observed (gr_observer g') (gr_queue_authority g)"
    and ids: "go_instance_nonce (gr_observer g') = go_instance_nonce (gr_observer g)"
      "go_controller_epoch (gr_observer g') = go_controller_epoch (gr_observer g)"
    and same: "\<And>j. j < FWLAB_C43_MAX_COMMANDS \<Longrightarrow> j \<noteq> s \<Longrightarrow> graph_observed g' j = graph_observed g j"
    using change by (simp_all add: slot_change_def)
  have owners: "observer_owner (gr_observer g') k = observer_owner (gr_observer g) k" for k
    by (simp add: owner_observed [OF shown] owner_observed [OF old])
  have "observer_command_in_use (gr_observer g') ?c = observer_command_in_use (gr_observer g) ?c"
      "queue_public_command_valid (gr_observer g') j ?c = queue_public_command_valid (gr_observer g) j ?c"
      "block_public_command_valid (gr_observer g') j ?c = block_public_command_valid (gr_observer g) j ?c"
    by (simp_all add: observer_command_in_use_def queue_public_command_valid_def block_public_command_valid_def ids owners)
  moreover have "target_public_local (gr_observer g') j ?c" if "target_public_local (gr_observer g) j ?c"
    by (rule target_public_kept [OF that rounds rounds' finds j(2) owners])
  moreover have "observer_commands_apart ?c (graph_observed g' k)"
    if "k < j" "co_in_use ?c \<noteq> 0" "observer_commands_apart ?c (graph_observed g k)" for k
    using that apart idle_slot [OF rounds j(1)] same [of k] j
    by (cases "k = s"; cases "cr_in_use (graph_command g j) = 0") simp_all
  ultimately show ?thesis
    using loc unfolding observer_local_def graph_observed_def [symmetric] same [OF j]
    by (simp add: Let_def split: if_splits)
qed

theorem slot_change_inv:
  assumes inv: "graph_inv g" and change: "slot_change g s g'"
    and counts: "observer_header_valid (gr_observer g')" "observer_counts_valid (gr_observer g')"
    and cursors: "cursors_valid g'" "\<And>r. identities_consumed g r \<Longrightarrow> identities_consumed g' r"
    and slot: "reservation_round g' s" "phase4_local g' s" "entry_ok (gr_observer g') s (graph_observed g' s)"
      "co_in_use (graph_observed g' s) \<noteq> 0"
    and apart: "\<And>j. j < FWLAB_C43_MAX_COMMANDS \<Longrightarrow> j \<noteq> s \<Longrightarrow> cr_in_use (graph_command g j) \<noteq> 0 \<Longrightarrow>
        records_apart (graph_command g j) (graph_command g' s) \<and>
        observer_commands_apart (graph_observed g j) (graph_observed g' s) \<and>
        observer_commands_apart (graph_observed g' s) (graph_observed g j)"
    and finds: "finds_kept g s g'"
    and pins: "pin_of g s = None" "pin_of g' s = None"
      "cr_incoming_target_pins (graph_command g' s) = cr_incoming_target_pins (graph_command g s)"
    and owner: "\<not> needs_owner g s" "\<not> needs_owner g' s"
    and phase: "cr_state (graph_command g' s) = C43_COMMAND_RECORD_ADMITTED \<Longrightarrow> phase_promise (graph_observed g' s)"
  shows "graph_inv g'"
proof -
  have wf: "graph_wf g" and ok: "\<And>i. i < FWLAB_C43_MAX_COMMANDS \<Longrightarrow> slot_ok g i" and frame: "graph_frame_ok g"
    using inv by (simp_all add: graph_inv_def graph_wf_def)
  have s: "s < FWLAB_C43_MAX_COMMANDS" and shown: "authority_observed (gr_observer g') (gr_queue_authority g)"
    and auth: "gr_queue_authority g' = gr_queue_authority g"
    and same: "\<And>j. j < FWLAB_C43_MAX_COMMANDS \<Longrightarrow> j \<noteq> s \<Longrightarrow> graph_command g' j = graph_command g j"
      "\<And>j. j < FWLAB_C43_MAX_COMMANDS \<Longrightarrow> j \<noteq> s \<Longrightarrow> graph_observed g' j = graph_observed g j"
    using change by (simp_all add: slot_change_def)
  have rounds: "\<forall>i<FWLAB_C43_MAX_COMMANDS. reservation_round g i"
    using ok by (simp add: slot_ok_def)
  have rounds': "\<forall>i<FWLAB_C43_MAX_COMMANDS. reservation_round g' i"
    using slot_change_reservation [OF change slot(1) cursors(2)] apart rounds by blast
  have obs: "observer_local (gr_observer g') j" if j: "j < FWLAB_C43_MAX_COMMANDS" for j
  proof (cases "j = s")
    case True
    show ?thesis
      unfolding True by (rule slot_change_own_local [OF change slot(3,4) rounds]) (use apart in blast)
  next
    case False
    show ?thesis
      by (rule slot_change_other_local [OF change finds rounds rounds' j False])
        (use ok [OF j] frame apart [OF j False] in \<open>auto simp: slot_ok_def graph_frame_ok_def queue_authority_valid_def\<close>)
  qed
  have pin: "pin_of g' j = pin_of g j" if "j < FWLAB_C43_MAX_COMMANDS" for j
    using pins same(1) [OF that] by (cases "j = s") (simp_all add: pin_of_def)
  have pinned: "cr_incoming_target_pins (graph_command g' j) = cr_incoming_target_pins (graph_command g j)"
    if "j < FWLAB_C43_MAX_COMMANDS" for j
    using pins(3) same(1) [OF that] by (cases "j = s") simp_all
  have needs: "needs_owner g' j = needs_owner g j" if "j < FWLAB_C43_MAX_COMMANDS" for j
    using owner same(1) [OF that] by (cases "j = s") (simp_all add: needs_owner_def)
  have "slot_ok g' j" if j: "j < FWLAB_C43_MAX_COMMANDS" for j
    using rounds' obs [OF j] j slot(2) slot_change_phase4 [OF change finds pins(3) j] ok [OF j]
    by (cases "j = s") (simp_all add: slot_ok_def)
  moreover have "pins_ok g'"
    using pins_ok_cong [OF _ pin pinned] wf by (simp add: graph_wf_def)
  moreover have "graph_frame_ok g'"
    using frame counts(1) cursors(1) change shown by (simp add: graph_frame_ok_def slot_change_def queue_authority_valid_def)
  ultimately have "graph_wf g'"
    using wf counts(2) needs by (simp add: graph_wf_def auth)
  moreover have "queue_promise (gr_queue_authority g') (graph_command g' i)"
    if i: "i < FWLAB_C43_MAX_COMMANDS" and n: "needs_owner g' i" for i
  proof -
    have "i \<noteq> s"
      using n owner by auto
    then show ?thesis
      using inv i n needs [OF i] same(1) [OF i] by (simp add: graph_inv_def auth)
  qed
  moreover have "phase_promise (graph_observed g' i)"
    if "i < FWLAB_C43_MAX_COMMANDS" "cr_in_use (graph_command g' i) \<noteq> 0"
      "cr_state (graph_command g' i) = C43_COMMAND_RECORD_ADMITTED" for i
    using that inv phase same [OF that(1)] by (cases "i = s") (simp_all add: graph_inv_def)
  moreover have "graph_named g'"
    using inv change by (simp add: graph_inv_def graph_named_def slot_change_def)
  ultimately show ?thesis
    using change by (simp add: graph_inv_def slot_change_def)
qed

section \<open>Identity cursors\<close>

lemma unat_u64_less: "unat (x :: u64) < 18446744073709551616"
  using unsigned_less [of x] by simp

lemma cursor_take_next:
  assumes "cursor_can_take cur n"
  shows "unat (cur_next cur) + (unat n - 1) \<le> unat (cur_maximum cur)"
    and "cur_exhausted cur = 0" and "cur_next cur \<noteq> 0" and "n \<noteq> 0" and "cur_next cur \<le> cur_maximum cur"
proof -
  have a: "n \<noteq> 0" "cur_next cur \<le> cur_maximum cur" "n - 1 \<le> cur_maximum cur - cur_next cur"
    using assms by (simp_all add: cursor_can_take_def)
  have "unat (n - 1) = unat n - 1"
    using a(1) by (simp add: unat_sub word_le_nat_alt Suc_leI unat_gt_0)
  moreover have "unat (cur_maximum cur - cur_next cur) = unat (cur_maximum cur) - unat (cur_next cur)"
    by (rule unat_sub [OF a(2)])
  ultimately show "unat (cur_next cur) + (unat n - 1) \<le> unat (cur_maximum cur)"
    using a(2,3) by (simp add: word_le_nat_alt)
qed (use assms in \<open>simp_all add: cursor_can_take_def\<close>)

lemma cursor_take_moves:
  assumes "cursor_can_take cur n"
  shows "cur_exhausted (snd (cursor_take cur n)) = 1 \<and> cur_next (snd (cursor_take cur n)) = 0 \<or>
    cur_exhausted (snd (cursor_take cur n)) = 0 \<and>
    unat (cur_next (snd (cursor_take cur n))) = unat (cur_next cur) + unat n \<and>
    unat (cur_next cur) + unat n \<le> unat (cur_maximum cur)"
    and "cur_maximum (snd (cursor_take cur n)) = cur_maximum cur"
    and "cur_reserved (snd (cursor_take cur n)) = cur_reserved cur"
proof -
  note t = cursor_take_next [OF assms]
  have "unat (cur_next cur) + unat n \<le> unat (cur_maximum cur)" if "n - 1 \<noteq> cur_maximum cur - cur_next cur"
  proof -
    have "unat (n - 1) = unat n - 1"
      using t(4) by (simp add: unat_sub word_le_nat_alt Suc_leI unat_gt_0)
    then have "unat n - 1 \<noteq> unat (cur_maximum cur) - unat (cur_next cur)"
      using that t(5) by (metis unat_sub word_unat_eq_iff)
    moreover have "unat n \<noteq> 0"
      using t(4) by (simp add: unat_eq_zero)
    ultimately show ?thesis
      using t(1) by linarith
  qed
  moreover have "unat (cur_next cur + n) = unat (cur_next cur) + unat n"
    if "unat (cur_next cur) + unat n \<le> unat (cur_maximum cur)"
    using that unat_u64_less [of "cur_maximum cur"] by (simp add: unat_word_ariths)
  ultimately show "cur_exhausted (snd (cursor_take cur n)) = 1 \<and> cur_next (snd (cursor_take cur n)) = 0 \<or>
    cur_exhausted (snd (cursor_take cur n)) = 0 \<and>
    unat (cur_next (snd (cursor_take cur n))) = unat (cur_next cur) + unat n \<and>
    unat (cur_next cur) + unat n \<le> unat (cur_maximum cur)"
    using t(2) by (simp add: cursor_take_def)
qed (simp_all add: cursor_take_def)

lemma cursor_take_valid:
  assumes "cursor_valid cur sd" and "cursor_can_take cur n"
  shows "cursor_valid (snd (cursor_take cur n)) sd"
  using assms(1) cursor_take_moves [OF assms(2)] cursor_take_next(2,3) [OF assms(2)]
  by (auto simp: cursor_valid_def word_le_nat_alt unat_eq_zero split: if_splits)

text \<open>Taking keeps what was consumed and consumes what it returns, which was not consumed before.\<close>

lemma cursor_take_keeps:
  assumes "cursor_can_take cur n" and "cursor_consumed cur sd v"
  shows "cursor_consumed (snd (cursor_take cur n)) sd v"
  using assms(2) cursor_take_moves [OF assms(1)] cursor_take_next(2) [OF assms(1)]
  by (auto simp: cursor_consumed_def word_less_nat_alt)

lemma cursor_take_value:
  assumes "cursor_can_take cur n" and "unat k < unat n"
  shows "unat (cur_next cur + k) = unat (cur_next cur) + unat k" and "unat (cur_next cur) + unat k \<le> unat (cur_maximum cur)"
proof -
  show bound: "unat (cur_next cur) + unat k \<le> unat (cur_maximum cur)"
    using cursor_take_next(1) [OF assms(1)] assms(2) by linarith
  then show "unat (cur_next cur + k) = unat (cur_next cur) + unat k"
    using unat_u64_less [of "cur_maximum cur"] by (simp add: unat_word_ariths)
qed

lemma cursor_take_consumes:
  assumes "cursor_valid cur sd" and "cursor_can_take cur n" and "unat k < unat n"
  shows "cursor_consumed (snd (cursor_take cur n)) sd (cur_next cur + k)"
proof -
  have "seed_next sd \<le> cur_next cur"
    using assms(1) cursor_take_next(2) [OF assms(2)] by (auto simp: cursor_valid_def split: if_splits)
  then show ?thesis
    using cursor_take_moves [OF assms(2)] cursor_take_value [OF assms(2,3)] assms(3)
    by (auto simp: cursor_consumed_def word_le_nat_alt word_less_nat_alt)
qed

lemma cursor_consumed_below:
  "cursor_can_take cur n \<Longrightarrow> cursor_consumed cur sd v \<Longrightarrow> v < cur_next cur"
  by (auto simp: cursor_can_take_def cursor_consumed_def)

section \<open>Records apart\<close>

lemma records_apart_sym:
  "records_apart r p \<Longrightarrow> cr_in_use r \<noteq> 0 \<Longrightarrow> cr_in_use p \<noteq> 0 \<Longrightarrow> records_apart p r"
  unfolding records_apart_def prepare_key_identity_equal_def list_all_iff set_upt by (simp, metis)

lemma commands_apart_sym:
  "observer_commands_apart c p \<Longrightarrow> co_in_use c \<noteq> 0 \<Longrightarrow> co_in_use p \<noteq> 0 \<Longrightarrow> observer_commands_apart p c"
  unfolding observer_commands_apart_def by auto

lemma slots_apart:
  assumes inv: "graph_inv g" and i: "i < FWLAB_C43_MAX_COMMANDS" and j: "j < FWLAB_C43_MAX_COMMANDS" and "i \<noteq> j"
    and used: "cr_in_use (graph_command g i) \<noteq> 0" "cr_in_use (graph_command g j) \<noteq> 0"
  shows "records_apart (graph_command g i) (graph_command g j)"
    and "observer_commands_apart (graph_observed g i) (graph_observed g j)"
proof -
  have ok: "slot_ok g k" if "k < FWLAB_C43_MAX_COMMANDS" for k
    using inv that by (simp add: graph_inv_def graph_wf_def)
  have shown: "co_in_use (graph_observed g i) \<noteq> 0" "co_in_use (graph_observed g j) \<noteq> 0"
    using used_iff [of g] ok [OF i] ok [OF j] used by (simp_all add: slot_ok_def)
  have "records_apart (graph_command g b) (graph_command g a) \<and> observer_commands_apart (graph_observed g b) (graph_observed g a)"
    if "a < b" "b < FWLAB_C43_MAX_COMMANDS" "cr_in_use (graph_command g b) \<noteq> 0" "co_in_use (graph_observed g b) \<noteq> 0" for a b
    using ok [OF that(2)] that
    by (simp add: slot_ok_def reservation_round_iff observer_local_def graph_observed_def Let_def split: if_splits)
  note below = this
  show "records_apart (graph_command g i) (graph_command g j)"
    using below [of i j] below [of j i] assms shown records_apart_sym by (metis linorder_neqE_nat)
  show "observer_commands_apart (graph_observed g i) (graph_observed g j)"
    using below [of i j] below [of j i] assms shown commands_apart_sym by (metis linorder_neqE_nat)
qed

section \<open>Counts\<close>

lemma length_filter_update:
  "s < length xs \<Longrightarrow> \<not> Q (xs ! s) \<Longrightarrow> length (filter Q (xs[s := c])) = length (filter Q xs) + of_bool (Q c)"
proof (induction xs arbitrary: s)
  case (Cons x xs)
  then show ?case by (cases s) auto
qed simp

lemma sum_filter_update:
  fixes f :: "'a \<Rightarrow> 'b::comm_monoid_add"
  shows "s < length xs \<Longrightarrow> \<not> Q (xs ! s) \<Longrightarrow> Q c \<Longrightarrow>
    sum_list (map f (filter Q (xs[s := c]))) = sum_list (map f (filter Q xs)) + f c"
proof (induction xs arbitrary: s)
  case (Cons x xs)
  then show ?case by (cases s) (auto simp: ac_simps)
qed simp

lemma observer_count_bound:
  assumes "length (go_commands ob) = FWLAB_C43_MAX_COMMANDS"
  shows "observer_count P ob \<le> 4"
proof -
  have "length (filter (\<lambda>c. co_in_use c \<noteq> 0 \<and> P c) (go_commands ob)) \<le> 4"
    using length_filter_le [of "\<lambda>c. co_in_use c \<noteq> 0 \<and> P c" "go_commands ob"] assms by simp
  then show ?thesis
    by (simp add: observer_count_def word_le_nat_alt unsigned_of_nat take_bit_nat_eq_self)
qed

lemma action_count_bound:
  assumes "graph_arrays g" and "\<forall>i<FWLAB_C43_MAX_COMMANDS. reservation_round g i"
  shows "observer_action_count (gr_observer g) \<le> 32"
proof -
  have "active_commands g \<le> 4"
    using length_filter_le [of "\<lambda>r. cr_in_use r \<noteq> 0" "gr_commands g"] assms(1)
    unfolding active_commands_def graph_arrays_def by linarith
  then show ?thesis
    unfolding used_actions [OF assms]
    by (simp add: word_le_nat_alt unsigned_of_nat take_bit_nat_eq_self del: of_nat_mult)
qed

section \<open>Reservation\<close>

lemma existing_key_none:
  assumes "fst (existing_key_scan rs i key) \<noteq> FWLAB_C43_GRAPH_OK"
    and "fst (existing_key_scan rs i key) \<noteq> FWLAB_C43_GRAPH_POISONED" and "r \<in> set rs" and "cr_in_use r \<noteq> 0"
  shows "\<not> prepare_key_identity_equal (cr_key r) key \<and> pk_origin (cr_key r) \<noteq> pk_origin key"
  using assms by (induction rs i key rule: existing_key_scan.induct) (auto split: if_splits)

lemma free_slot_free:
  assumes "free_slot g = Some s"
  shows "s < FWLAB_C43_MAX_COMMANDS" and "cr_in_use (graph_command g s) = 0"
proof -
  have "s \<in> set [0..<FWLAB_C43_MAX_COMMANDS] \<and> cr_in_use (graph_command g s) = 0"
    using assms unfolding free_slot_def find_Some_iff by (auto simp del: upt_rec_numeral)
  then show "s < FWLAB_C43_MAX_COMMANDS" and "cr_in_use (graph_command g s) = 0"
    by (simp_all del: upt_rec_numeral)
qed

text \<open>The situation in which a reservation is made.\<close>

definition reservable :: "c43_graph \<Rightarrow> nat \<Rightarrow> hif_prepare_key \<Rightarrow> bool" where
  "reservable g s key \<longleftrightarrow> graph_inv g \<and> s < FWLAB_C43_MAX_COMMANDS \<and> cr_in_use (graph_command g s) = 0 \<and>
     c43_prepare_key_valid (gr_config g) key \<and> reservation_counters g \<and>
     (\<forall>j<FWLAB_C43_MAX_COMMANDS. cr_in_use (graph_command g j) \<noteq> 0 \<longrightarrow>
        \<not> prepare_key_identity_equal (cr_key (graph_command g j)) key \<and>
        pk_origin (cr_key (graph_command g j)) \<noteq> pk_origin key)"

lemma reservable_frame:
  assumes "reservable g s key"
  shows "graph_inv g" and "graph_arrays g" and "s < FWLAB_C43_MAX_COMMANDS" and "cr_in_use (graph_command g s) = 0"
    and "reservation_counters g" and "cursors_valid g" and "fwlab_c43_graph_config_valid (gr_config g)"
    and "\<And>i. i < FWLAB_C43_MAX_COMMANDS \<Longrightarrow> slot_ok g i"
  using assms by (simp_all add: reservable_def graph_inv_def graph_wf_def graph_frame_ok_def)

lemma reservation_record_actions:
  "k < FWLAB_C43_ACTIONS_PER_COMMAND \<Longrightarrow> cr_actions (reservation_record g key) ! k = zero_c43_action_record
     \<lparr>act_action_uid := cur_next (gr_action_uid g) + of_nat k, act_generation := gc_safety_generation (gr_config g),
      act_ordinal := of_nat k, act_state := C43_ACTION_RECORD_RESERVED\<rparr>"
  by (simp add: reservation_record_def cursor_take_def Let_def del: upt_rec_numeral)

lemma reservation_record_fields:
  "cr_key (reservation_record g key) = prepare_key_copy key"
  "cr_transaction_uid (reservation_record g key) = cur_next (gr_transaction_uid g)"
  "cr_lease_uid (reservation_record g key) = cur_next (gr_lease_uid g)"
  "cr_consume_uid (reservation_record g key) = cur_next (gr_consume_uid g)"
  "cr_finalizer_uid (reservation_record g key) = cur_next (gr_finalizer_uid g)"
  "cr_reservation_credit_mask (reservation_record g key) = FWLAB_C43_CREDIT_ALL"
  "cr_state (reservation_record g key) = C43_COMMAND_RECORD_PREPARED"
  "cr_in_use (reservation_record g key) = 1"
  "cr_incoming_target_pins (reservation_record g key) = 0"
  "cr_ticket (reservation_record g key) = zero_hif_command_ticket"
  "cr_request (reservation_record g key) = zero_c43_policy_request"
  "cr_plan (reservation_record g key) = zero_c43_policy_plan"
  "cr_queue_txn (reservation_record g key) = zero_c43_queue_txn_record"
  "cr_target_txn (reservation_record g key) = zero_c43_target_txn_record"
  "cr_block_txn (reservation_record g key) = zero_c43_block_txn_record"
  "words_zero (cr_reserved1 (reservation_record g key))"
  "pt_handle (cr_prepared (reservation_record g key)) = \<lparr>cmd_instance_nonce = gc_instance_nonce (gr_config g),
     cmd_command_uid = cur_next (gr_command_uid g), cmd_controller_epoch = gc_controller_epoch (gr_config g),
     cmd_generation = gc_safety_generation (gr_config g)\<rparr>"
  "pt_origin (cr_prepared (reservation_record g key)) = pk_origin key"
  "pt_reservation_uid (cr_prepared (reservation_record g key)) = cur_next (gr_transaction_uid g)"
  "pt_generation (cr_prepared (reservation_record g key)) = gc_safety_generation (gr_config g)"
  "pt_reserved (cr_prepared (reservation_record g key)) = 0"
  by (simp_all add: reservation_record_def cursor_take_def Let_def zero_c43_command_record_def words_zero_def
      zero_hif_prepared_token_def)

lemma prepare_key_copy_valid: "prepare_key_structural_valid key \<Longrightarrow> prepare_key_structural_valid (prepare_key_copy key)"
  by (simp add: prepare_key_structural_valid_def prepare_key_copy_def zero_hif_prepare_key_def words_zero_def)

lemma reservation_record_prepared:
  assumes "reservable g s key"
  shows "prepared_valid g (reservation_record g key)"
proof -
  note fr = reservable_frame [OF assms]
  have key: "prepare_key_structural_valid key" "pk_instance_nonce key = gc_instance_nonce (gr_config g)"
      "pk_controller_epoch key = gc_controller_epoch (gr_config g)"
    using assms by (simp_all add: reservable_def c43_prepare_key_valid_def)
  have take: "cursor_can_take (gr_action_uid g) 8" "cur_next (gr_command_uid g) \<noteq> 0" "cur_next (gr_transaction_uid g) \<noteq> 0"
      "cur_next (gr_lease_uid g) \<noteq> 0" "cur_next (gr_consume_uid g) \<noteq> 0" "cur_next (gr_finalizer_uid g) \<noteq> 0"
    using fr(5) by (simp_all add: reservation_counters_def cursor_can_take_def)
  have config: "gc_instance_nonce (gr_config g) \<noteq> 0" "gc_controller_epoch (gr_config g) \<noteq> 0" "gc_safety_generation (gr_config g) \<noteq> 0"
    using fr(7) by (simp_all add: fwlab_c43_graph_config_valid_def)
  have copy: "pk_instance_nonce (prepare_key_copy key) = pk_instance_nonce key"
      "pk_controller_epoch (prepare_key_copy key) = pk_controller_epoch key" "pk_origin (prepare_key_copy key) = pk_origin key"
    by (simp_all add: prepare_key_copy_def)
  have "prepared_identity_valid g (reservation_record g key)"
    using prepare_key_copy_valid [OF key(1)] key take config
    by (simp add: prepared_identity_valid_def reservation_record_fields c43_prepare_key_valid_def copy handle_valid_def
        prepare_key_structural_valid_def [of key])
  moreover have "action_reserved g (reservation_record g key) k" if k: "k < FWLAB_C43_ACTIONS_PER_COMMAND" for k
  proof -
    have "unat (cur_next (gr_action_uid g) + of_nat k) = unat (cur_next (gr_action_uid g)) + k"
      using cursor_take_value(1) [OF take(1), of "of_nat k"] k by (simp add: unsigned_of_nat take_bit_nat_eq_self)
    then have "cur_next (gr_action_uid g) + of_nat k \<noteq> 0"
      using cursor_take_next(3) [OF take(1)] by (metis add_is_0 unat_eq_zero)
    then show ?thesis
      using k reservation_record_actions [of 0 g key]
      by (simp add: action_reserved_def reservation_record_actions zero_c43_action_record_def words_zero_def)
  qed
  ultimately show ?thesis
    by (simp add: prepared_iff reservation_record_fields)
qed

text \<open>The action identities of a command in use are consecutive and lie below the cursor.\<close>

lemma reserved_actions:
  assumes valid: "prepared_valid g r" and k: "k < FWLAB_C43_ACTIONS_PER_COMMAND"
  shows "unat (act_action_uid (cr_actions r ! k)) = unat (act_action_uid (cr_actions r ! 0)) + k"
  using k
proof (induction k)
  case (Suc k)
  let ?u = "\<lambda>k. act_action_uid (cr_actions r ! k)"
  have act: "?u j = ?u 0 + of_nat j \<and> ?u j \<noteq> 0" if "j < FWLAB_C43_ACTIONS_PER_COMMAND" for j
  proof -
    have "action_reserved g r j"
      using valid that unfolding prepared_iff by blast
    then show ?thesis
      unfolding action_reserved_def Let_def by blast
  qed
  have step: "?u k = ?u 0 + of_nat k" "?u (Suc k) = ?u 0 + of_nat (Suc k)" "?u (Suc k) \<noteq> 0"
    using act [of k] act [of "Suc k"] Suc.prems by auto
  then have "?u (Suc k) = 1 + ?u k"
    by (metis add.left_commute of_nat_Suc)
  then have "unat (?u (Suc k)) = Suc (unat (?u k))"
    using step(3) unatSuc [of "?u k"] by simp
  then show ?case
    using Suc by simp
qed simp

lemma consumed_actions:
  assumes "prepared_valid g r" and "identities_consumed g r" and "cursor_can_take (gr_action_uid g) 8"
    and "k < FWLAB_C43_ACTIONS_PER_COMMAND"
  shows "act_action_uid (cr_actions r ! k) < cur_next (gr_action_uid g)"
proof -
  have "act_action_uid (cr_actions r ! (FWLAB_C43_ACTIONS_PER_COMMAND - 1)) < cur_next (gr_action_uid g)"
    using assms(2) cursor_consumed_below [OF assms(3)] unfolding identities_consumed_def Let_def by blast
  then show ?thesis
    using reserved_actions [OF assms(1), of "FWLAB_C43_ACTIONS_PER_COMMAND - 1"] reserved_actions [OF assms(1,4)] assms(4)
    by (simp add: word_less_nat_alt)
qed

lemma prepare_key_copy_identity:
  "prepare_key_identity_equal k (prepare_key_copy key) = prepare_key_identity_equal k key"
  "pk_origin (prepare_key_copy key) = pk_origin key"
  by (simp_all add: prepare_key_identity_equal_def prepare_key_copy_def)

lemma reservation_record_apart:
  assumes "reservable g s key" and j: "j < FWLAB_C43_MAX_COMMANDS" and used: "cr_in_use (graph_command g j) \<noteq> 0"
  shows "records_apart (graph_command g j) (reservation_record g key)"
proof -
  let ?r = "graph_command g j" and ?n = "reservation_record g key"
  note fr = reservable_frame [OF assms(1)]
  have round: "prepared_valid g ?r" "identities_consumed g ?r"
    using fr(8) [OF j] used by (simp_all add: slot_ok_def reservation_round_iff)
  have take: "cursor_can_take (gr_command_uid g) 1" "cursor_can_take (gr_action_uid g) 8" "cursor_can_take (gr_transaction_uid g) 1"
      "cursor_can_take (gr_lease_uid g) 1" "cursor_can_take (gr_consume_uid g) 1" "cursor_can_take (gr_finalizer_uid g) 1"
    using fr(5) by (simp_all add: reservation_counters_def)
  have key: "\<not> prepare_key_identity_equal (cr_key ?r) key" "pk_origin (cr_key ?r) \<noteq> pk_origin key"
    using assms by (simp_all add: reservable_def)
  have below: "cmd_command_uid (pt_handle (cr_prepared ?r)) < cur_next (gr_command_uid g)"
      "cr_transaction_uid ?r < cur_next (gr_transaction_uid g)" "cr_lease_uid ?r < cur_next (gr_lease_uid g)"
      "cr_consume_uid ?r < cur_next (gr_consume_uid g)" "cr_finalizer_uid ?r < cur_next (gr_finalizer_uid g)"
    using round(2) cursor_consumed_below take unfolding identities_consumed_def Let_def by blast+
  have "act_action_uid (cr_actions ?r ! a) \<noteq> act_action_uid (cr_actions ?n ! b)"
    if "a < FWLAB_C43_ACTIONS_PER_COMMAND" "b < FWLAB_C43_ACTIONS_PER_COMMAND" for a b
  proof -
    have "unat (act_action_uid (cr_actions ?n ! b)) = unat (cur_next (gr_action_uid g)) + b"
      using cursor_take_value(1) [OF take(2), of "of_nat b"] that(2)
      by (simp add: reservation_record_actions unsigned_of_nat take_bit_nat_eq_self)
    then show ?thesis
      using consumed_actions [OF round take(2) that(1)] by (auto simp: word_less_nat_alt)
  qed
  then show ?thesis
    using key below by (auto simp: records_apart_def reservation_record_fields prepare_key_copy_identity list_all_iff
        simp del: upt_rec_numeral)
qed

section \<open>The graph after a reservation\<close>

lemma reservation_fields:
  assumes "graph_arrays g" and "j < FWLAB_C43_MAX_COMMANDS"
  shows "graph_command (reservation_store g s key) j = (if j = s then reservation_record g key else graph_command g j)"
    and "graph_observed (reservation_store g s key) j =
      (if j = s then reservation_observed g (reservation_record g key) else graph_observed g j)"
  using assms by (auto simp: reservation_store_def reservation_advance_def reservation_credits_def graph_put_def
      graph_command_def graph_observed_def graph_arrays_def nth_list_update Let_def)

lemma reservation_graph:
  "gr_command_uid (reservation_store g s key) = snd (cursor_take (gr_command_uid g) 1)"
  "gr_action_uid (reservation_store g s key) = snd (cursor_take (gr_action_uid g) 8)"
  "gr_transaction_uid (reservation_store g s key) = snd (cursor_take (gr_transaction_uid g) 1)"
  "gr_lease_uid (reservation_store g s key) = snd (cursor_take (gr_lease_uid g) 1)"
  "gr_consume_uid (reservation_store g s key) = snd (cursor_take (gr_consume_uid g) 1)"
  "gr_finalizer_uid (reservation_store g s key) = snd (cursor_take (gr_finalizer_uid g) 1)"
  "gr_config (reservation_store g s key) = gr_config g"
  "gr_observer (reservation_store g s key) = reservation_credits ((gr_observer g)\<lparr>go_commands :=
     (go_commands (gr_observer g))[s := reservation_observed g (reservation_record g key)]\<rparr>)"
  by (simp_all add: reservation_store_def reservation_advance_def graph_put_def Let_def)

lemma reservation_change:
  assumes "reservable g s key"
  shows "slot_change g s (reservation_store g s key)"
proof -
  note fr = reservable_frame [OF assms]
  have "authority_observed (gr_observer g) (gr_queue_authority g)"
    using fr(1) by (simp add: graph_inv_def graph_wf_def graph_frame_ok_def queue_authority_valid_def)
  then show ?thesis
    using fr(2,3) reservation_fields [OF fr(2)]
    by (simp add: slot_change_def) (simp add: reservation_store_def reservation_advance_def reservation_credits_def graph_put_def
        graph_arrays_def authority_observed_def Let_def)
qed

lemma reservation_cursors:
  assumes "reservable g s key"
  shows "cursors_valid (reservation_store g s key)"
    and "\<And>r. identities_consumed g r \<Longrightarrow> identities_consumed (reservation_store g s key) r"
    and "identities_consumed (reservation_store g s key) (reservation_record g key)"
proof -
  note fr = reservable_frame [OF assms]
  note take = fr(5) [unfolded reservation_counters_def]
  note valid = fr(6) [unfolded cursors_valid_def Let_def]
  show "cursors_valid (reservation_store g s key)"
    using take valid by (simp add: cursors_valid_def reservation_graph cursor_take_valid)
  show "identities_consumed (reservation_store g s key) r" if "identities_consumed g r" for r
    using that take by (simp add: identities_consumed_def reservation_graph cursor_take_keeps Let_def)
  have one: "cursor_consumed (snd (cursor_take cur 1)) sd (cur_next cur)"
    if "cursor_valid cur sd" "cursor_can_take cur 1" for cur sd
    using cursor_take_consumes [OF that, of 0] by simp
  have eight: "cursor_consumed (snd (cursor_take (gr_action_uid g) 8)) (gc_action_uid (gr_config g)) (cur_next (gr_action_uid g) + of_nat k)"
    if "k < 8" for k
    using cursor_take_consumes [of "gr_action_uid g" "gc_action_uid (gr_config g)" 8 "of_nat k"] valid take that
    by (simp add: unsigned_of_nat take_bit_nat_eq_self)
  show "identities_consumed (reservation_store g s key) (reservation_record g key)"
    using take valid one eight [of 0] eight [of 7]
    by (simp add: identities_consumed_def reservation_graph reservation_record_fields reservation_record_actions)
qed

lemma reservation_counts:
  assumes "reservable g s key"
  shows "observer_counts_valid (gr_observer (reservation_store g s key))"
proof -
  note fr = reservable_frame [OF assms]
  let ?ob = "gr_observer g" and ?c = "reservation_observed g (reservation_record g key)"
  let ?ob' = "?ob\<lparr>go_commands := (go_commands ?ob)[s := ?c]\<rparr>"
  have s: "s < length (go_commands ?ob)" and free: "co_in_use (go_commands ?ob ! s) = 0"
    using fr(2,3,4) fr(8) [OF fr(3)]
    by (simp_all add: graph_arrays_def slot_ok_def reservation_round_iff graph_observed_def)
  have c: "co_in_use ?c = 1" "co_reservation_credit_mask ?c = FWLAB_C43_CREDIT_ALL" "co_phase ?c = FWLAB_C43_PHASE_PREPARED"
      "co_action_count ?c = 8"
    by (simp_all add: reservation_observed_def)
  have put: "observer_count P ?ob' = observer_count P ?ob + of_bool (P ?c)" for P
    using length_filter_update [OF s, of "\<lambda>c. co_in_use c \<noteq> 0 \<and> P c" ?c] free c by (simp add: observer_count_def)
  have credit: "observer_credit_count k ?ob' = observer_credit_count k ?ob + of_bool (FWLAB_C43_CREDIT_ALL AND push_bit k 1 \<noteq> 0)" for k
    unfolding observer_credit_count_def put c(2) ..
  have actions: "observer_action_count ?ob' = observer_action_count ?ob + 8"
    using sum_filter_update [OF s, of "\<lambda>c. co_in_use c \<noteq> 0" ?c "\<lambda>c. ucast (co_action_count c) :: u32"] free c
    by (simp add: observer_action_count_def)
  have same: "observer_count P (reservation_credits ob) = observer_count P ob"
      "observer_credit_count k (reservation_credits ob) = observer_credit_count k ob"
      "observer_action_count (reservation_credits ob) = observer_action_count ob" for P k ob
    by (simp_all add: observer_credit_count_def observer_count_def observer_action_count_def reservation_credits_def)
  have "observer_counts_valid ?ob"
    using fr(1) by (simp add: graph_inv_def graph_wf_def)
  then show ?thesis
    unfolding observer_counts_valid_def reservation_graph same put credit actions c
    by (simp add: reservation_credits_def)
qed

lemma reservation_rounds:
  assumes "reservable g s key"
  shows "reservation_round (reservation_store g s key) s"
    and "\<forall>j<FWLAB_C43_MAX_COMMANDS. reservation_round (reservation_store g s key) j"
proof -
  note fr = reservable_frame [OF assms]
  let ?g = "reservation_store g s key" and ?r = "reservation_record g key"
  have slot: "graph_command ?g s = ?r" "graph_observed ?g s = reservation_observed g ?r"
    by (simp_all add: reservation_fields [OF fr(2,3)])
  have "prepared_valid ?g ?r = prepared_valid g ?r"
    by (simp add: prepared_iff prepared_identity_valid_def admitted_identity_valid_def action_reserved_def reservation_graph)
  moreover have "observer_matches_record ?r (reservation_observed g ?r)"
    by (simp add: observer_matches_iff observer_identity_def reservation_observed_def reservation_record_fields
        reservation_record_actions cursor_take_def zero_c43_command_observer_def)
  moreover have "records_apart ?r (graph_command ?g k)" if "k < s" for k
  proof (cases "cr_in_use (graph_command g k) = 0")
    case True
    then show ?thesis
      using that fr(3) by (simp add: reservation_fields [OF fr(2)] records_apart_def)
  next
    case False
    then show ?thesis
      using that fr(3) records_apart_sym [OF reservation_record_apart [OF assms _ False]]
      by (simp add: reservation_fields [OF fr(2)] reservation_record_fields)
  qed
  ultimately show round: "reservation_round ?g s"
    using reservation_record_prepared [OF assms] reservation_cursors(3) [OF assms]
    by (simp add: reservation_round_iff slot reservation_record_fields)
  have "records_apart (graph_command g j) (graph_command ?g s)"
    if "j < FWLAB_C43_MAX_COMMANDS" "j \<noteq> s" "cr_in_use (graph_command g j) \<noteq> 0" for j
    using reservation_record_apart [OF assms that(1,3)] slot by simp
  then show "\<forall>j<FWLAB_C43_MAX_COMMANDS. reservation_round ?g j"
    using slot_change_reservation [OF reservation_change [OF assms] round reservation_cursors(2) [OF assms]] fr(8)
    by (simp add: slot_ok_def)
qed

lemma reservation_header:
  assumes "reservable g s key"
  shows "observer_header_valid (gr_observer (reservation_store g s key))"
proof -
  note fr = reservable_frame [OF assms]
  let ?g = "reservation_store g s key"
  have arrays: "graph_arrays ?g"
    using reservation_change [OF assms] by (simp add: slot_change_def)
  have counts: "observer_count P (gr_observer ?g) \<le> 4" "observer_credit_count k (gr_observer ?g) \<le> 4" for P k
    unfolding observer_credit_count_def by (rule observer_count_bound; use arrays in \<open>simp add: graph_arrays_def\<close>)+
  have actions: "observer_action_count (gr_observer ?g) \<le> 32"
    by (rule action_count_bound [OF arrays reservation_rounds(2) [OF assms]])
  have header: "observer_header_valid (gr_observer g)"
    using fr(1) by (simp add: graph_inv_def graph_wf_def graph_frame_ok_def)
  have kept: "go_version (gr_observer ?g) = go_version (gr_observer g)" "go_size (gr_observer ?g) = go_size (gr_observer g)"
      "go_controller_epoch (gr_observer ?g) = go_controller_epoch (gr_observer g)"
      "go_instance_nonce (gr_observer ?g) = go_instance_nonce (gr_observer g)"
      "go_admission_closed (gr_observer ?g) = go_admission_closed (gr_observer g)" "go_resetting (gr_observer ?g) = go_resetting (gr_observer g)"
      "go_tearing_down (gr_observer ?g) = go_tearing_down (gr_observer g)" "go_dead (gr_observer ?g) = go_dead (gr_observer g)"
      "go_nq_state (gr_observer ?g) = go_nq_state (gr_observer g)" "go_queue_txn_active (gr_observer ?g) = go_queue_txn_active (gr_observer g)"
      "go_io_cq_present (gr_observer ?g) = go_io_cq_present (gr_observer g)" "go_io_sq_present (gr_observer ?g) = go_io_sq_present (gr_observer g)"
      "go_reserved_queue_flags (gr_observer ?g) = go_reserved_queue_flags (gr_observer g)"
      "go_reserved_queue (gr_observer ?g) = go_reserved_queue (gr_observer g)"
    by (simp_all add: reservation_graph reservation_credits_def)
  show ?thesis
    using header reservation_counts [OF assms] counts actions
    unfolding observer_header_valid_def observer_counts_valid_def kept by (simp add: not_less)
qed

lemma reservation_entry:
  assumes "reservable g s key"
  shows "entry_ok (gr_observer (reservation_store g s key)) s (graph_observed (reservation_store g s key) s)"
    and "phase4_local (reservation_store g s key) s"
proof -
  note fr = reservable_frame [OF assms]
  let ?g = "reservation_store g s key" and ?r = "reservation_record g key"
  let ?c = "reservation_observed g ?r"
  have slot: "graph_command ?g s = ?r" "graph_observed ?g s = ?c"
    by (simp_all add: reservation_fields [OF fr(2,3)])
  have take: "cursor_can_take (gr_action_uid g) 8" "cur_next (gr_command_uid g) \<noteq> 0" "cur_next (gr_transaction_uid g) \<noteq> 0"
    using fr(5) by (simp_all add: reservation_counters_def cursor_can_take_def)
  have config: "gc_instance_nonce (gr_config g) \<noteq> 0" "gc_controller_epoch (gr_config g) \<noteq> 0" "gc_safety_generation (gr_config g) \<noteq> 0"
    using fr(7) by (simp_all add: fwlab_c43_graph_config_valid_def)
  have named: "go_instance_nonce (gr_observer ?g) = gc_instance_nonce (gr_config g)"
      "go_controller_epoch (gr_observer ?g) = gc_controller_epoch (gr_config g)"
    using fr(1) by (simp_all add: reservation_graph reservation_credits_def graph_inv_def graph_named_def)
  have origin: "origin_valid (pk_origin key)"
    using assms by (simp add: reservable_def c43_prepare_key_valid_def prepare_key_structural_valid_def)
  have fields: "target_fields_zero ?c"
    by (simp add: target_fields_zero_def reservation_observed_def zero_c43_command_observer_def pair_nonzero_def)
  have "unat (cur_next (gr_action_uid g)) + 7 \<le> 18446744073709551615"
    using cursor_take_next(1) [OF take(1)] unat_u64_less [of "cur_maximum (gr_action_uid g)"] by simp
  then have first: "\<not> cur_next (gr_action_uid g) > UINT64_MAX - (ucast (8 :: u16) - 1)"
    by (simp add: word_less_nat_alt)
  have "observer_command_ranges ?c"
    using fields first cursor_take_next(3) [OF take(1)] config
    by (simp add: observer_command_ranges_def reservation_observed_def zero_c43_command_observer_def cursor_take_def
        c43_witness_mask_valid_def words_zero_def)
  moreover have "observer_command_in_use (gr_observer ?g) ?c"
    using take config origin
    by (simp add: observer_command_in_use_def named reservation_observed_def reservation_record_fields
        zero_c43_command_observer_def handle_valid_def)
  moreover have "co_action_domain ?c = FWLAB_C43_ACTION_DOMAIN_NONE"
    by (simp add: reservation_observed_def zero_c43_command_observer_def)
  ultimately show "entry_ok (gr_observer ?g) s (graph_observed ?g s)"
    by (simp add: slot entry_ok_def queue_public_command_valid_def target_public_local_def block_public_command_valid_def)
  show "phase4_local ?g s"
    by (simp add: phase4_local_def slot reservation_record_fields record_kind_def queue_record_valid_def
        record_idle_observed_def storage_zero_def reservation_observed_def zero_c43_command_observer_def
        zero_c43_queue_txn_record_def)
qed

lemma reservation_finds:
  assumes "reservable g s key"
  shows "finds_kept g s (reservation_store g s key)"
proof -
  note fr = reservable_frame [OF assms]
  have "filter (\<lambda>slot. slot \<noteq> i \<and> cr_in_use (graph_command (reservation_store g s key) slot) \<noteq> 0 \<and>
      cr_state (graph_command (reservation_store g s key) slot) = C43_COMMAND_RECORD_ADMITTED \<and>
      ticket = cr_ticket (graph_command (reservation_store g s key) slot)) [0..<FWLAB_C43_MAX_COMMANDS] =
    filter (\<lambda>slot. slot \<noteq> i \<and> cr_in_use (graph_command g slot) \<noteq> 0 \<and>
      cr_state (graph_command g slot) = C43_COMMAND_RECORD_ADMITTED \<and>
      ticket = cr_ticket (graph_command g slot)) [0..<FWLAB_C43_MAX_COMMANDS]" for i ticket
    using fr(4) by (intro filter_cong)
      (auto simp: reservation_fields [OF fr(2)] reservation_record_fields simp del: upt_rec_numeral)
  then show ?thesis
    unfolding finds_kept_def target_find_slot_def by simp
qed

theorem reservation_inv:
  assumes "reservable g s key"
  shows "graph_inv (reservation_store g s key)"
proof -
  note fr = reservable_frame [OF assms]
  let ?g = "reservation_store g s key" and ?r = "reservation_record g key"
  let ?c = "reservation_observed g ?r"
  have slot: "graph_command ?g s = ?r" "graph_observed ?g s = ?c"
    by (simp_all add: reservation_fields [OF fr(2,3)])
  have zero: "graph_command g s = zero_c43_command_record"
    using fr(4) fr(8) [OF fr(3)] by (simp add: slot_ok_def reservation_round_iff)
  have take: "cursor_can_take (gr_command_uid g) 1" "cursor_can_take (gr_action_uid g) 8" "cursor_can_take (gr_transaction_uid g) 1"
    using fr(5) by (simp_all add: reservation_counters_def)
  have apart: "observer_commands_apart (graph_observed g j) ?c \<and> observer_commands_apart ?c (graph_observed g j)"
    if j: "j < FWLAB_C43_MAX_COMMANDS" and used: "cr_in_use (graph_command g j) \<noteq> 0" for j
  proof -
    have r: "prepared_valid g (graph_command g j)" "identities_consumed g (graph_command g j)"
        "observer_identity (graph_command g j) (graph_observed g j)"
      using fr(8) [OF j] used by (simp_all add: slot_ok_def reservation_round_iff observer_matches_iff)
    have "cmd_command_uid (co_handle (graph_observed g j)) < cur_next (gr_command_uid g)"
        "co_transaction_uid (graph_observed g j) < cur_next (gr_transaction_uid g)"
      using r(2,3) cursor_consumed_below take unfolding identities_consumed_def observer_identity_def Let_def by auto
    moreover have "co_first_action_uid (graph_observed g j) + 8 - 1 < cur_next (gr_action_uid g)"
    proof -
      have "action_reserved g (graph_command g j) 7"
        using r(1) by (simp add: prepared_iff)
      then have "act_action_uid (cr_actions (graph_command g j) ! 7) = co_first_action_uid (graph_observed g j) + 7"
        using r(3) by (simp add: action_reserved_def observer_identity_def Let_def)
      then show ?thesis
        using consumed_actions [OF r(1,2) take(2), of 7] by (simp add: add_diff_eq [symmetric])
    qed
    ultimately have "co_handle (graph_observed g j) \<noteq> co_handle ?c" "co_transaction_uid (graph_observed g j) \<noteq> co_transaction_uid ?c"
        "\<not> co_first_action_uid ?c \<le> co_first_action_uid (graph_observed g j) + ucast (co_action_count (graph_observed g j)) - 1"
      using r(3) by (auto simp: observer_identity_def reservation_observed_def reservation_record_fields cursor_take_def not_le)
    then show ?thesis
      unfolding observer_commands_apart_def by metis
  qed
  show ?thesis
  proof (rule slot_change_inv [OF fr(1) reservation_change [OF assms] reservation_header [OF assms]
        reservation_counts [OF assms] reservation_cursors(1,2) [OF assms] reservation_rounds(1) [OF assms]
        reservation_entry(2,1) [OF assms]])
    show "finds_kept g s ?g"
      by (rule reservation_finds [OF assms])
    show "records_apart (graph_command g j) (graph_command ?g s) \<and>
        observer_commands_apart (graph_observed g j) (graph_observed ?g s) \<and>
        observer_commands_apart (graph_observed ?g s) (graph_observed g j)"
      if "j < FWLAB_C43_MAX_COMMANDS" "j \<noteq> s" "cr_in_use (graph_command g j) \<noteq> 0" for j
      using reservation_record_apart [OF assms that(1,3)] apart [OF that(1,3)] slot by simp
  qed (simp_all add: slot reservation_record_fields zero pin_of_def needs_owner_def record_kind_def
      zero_c43_command_record_def zero_c43_target_txn_record_def zero_c43_queue_txn_record_def
      queue_flow_requires_owner_def reservation_observed_def Let_def)
qed

lemma start_reservable:
  assumes inv: "graph_inv g" and s: "free_slot g = Some s" and key: "prepare_key_structural_valid key"
      "pk_instance_nonce key = gc_instance_nonce (gr_config g)" "pk_controller_epoch key = gc_controller_epoch (gr_config g)"
    and none: "fst (existing_key_result g key) \<noteq> FWLAB_C43_GRAPH_OK" "fst (existing_key_result g key) \<noteq> FWLAB_C43_GRAPH_POISONED"
    and counters: "reservation_counters g"
  shows "reservable g s key"
proof -
  have arrays: "graph_arrays g"
    using inv by (simp add: graph_inv_def)
  have "\<not> prepare_key_identity_equal (cr_key (graph_command g j)) key \<and> pk_origin (cr_key (graph_command g j)) \<noteq> pk_origin key"
    if "j < FWLAB_C43_MAX_COMMANDS" "cr_in_use (graph_command g j) \<noteq> 0" for j
  proof (rule existing_key_none [OF none [unfolded existing_key_result_def]])
    show "graph_command g j \<in> set (gr_commands g)"
      using that arrays by (simp add: graph_command_def graph_arrays_def)
  qed (rule that(2))
  then show ?thesis
    using inv free_slot_free [OF s] key counters by (simp add: reservable_def c43_prepare_key_valid_def)
qed

lemma prepare_start_change:
  assumes inv: "graph_inv g" and start: "fwlab_c43_graph_prepare_start g key = (result, g', out)"
  shows "g' = g \<or> (\<exists>s. reservable g s key \<and> g' = reservation_store g s key)"
  using start start_reservable [OF inv] unfolding fwlab_c43_graph_prepare_start_def
  by (auto simp: Let_def split: if_splits option.splits)

theorem prepare_start_inv:
  assumes "graph_inv g" and "fwlab_c43_graph_prepare_start g key = (result, g', out)"
  shows "graph_inv g'"
  using prepare_start_change [OF assms] assms(1) reservation_inv by auto

end
