(* ===== verification/Nvme_Admission_Laws.thy ===== *)
theory Nvme_Admission_Laws
  imports Nvme_Reservation_Laws
begin

text \<open>
  Admission keeps the invariant of the command graph: the command is admitted with the plan the policy
  gives its request, and no found abort target can be confused with it.
\<close>

section \<open>Admission\<close>

lemma find_prepared_scan_found:
  "find_prepared_scan rs i pt = (FWLAB_C43_GRAPH_OK, index) \<Longrightarrow>
     i \<le> index \<and> index < i + length rs \<and> cr_in_use (rs ! (index - i)) \<noteq> 0 \<and> cr_prepared (rs ! (index - i)) = pt"
proof (induction rs i pt rule: find_prepared_scan.induct)
  case (2 r rs i pt)
  have "i + 1 \<le> index \<and> index < i + 1 + length rs \<and> cr_in_use (rs ! (index - (i + 1))) \<noteq> 0 \<and>
      cr_prepared (rs ! (index - (i + 1))) = pt \<or> index = i \<and> cr_in_use r \<noteq> 0 \<and> cr_prepared r = pt"
    using 2 by (auto split: if_splits)
  then show ?case
    by (auto simp: nth_Cons' )
qed simp

lemma policy_begin_plan_valid: "fwlab_c43_policy_begin profile rq = Inr pl \<Longrightarrow> fwlab_c43_policy_plan_valid pl"
  by (auto simp: fwlab_c43_policy_begin_def policy_error_def policy_plan_emit_def Let_def split: if_splits option.splits prod.splits)

text \<open>The situation in which a command is admitted.\<close>

definition admissible :: "c43_graph \<Rightarrow> nat \<Rightarrow> c43_policy_request \<Rightarrow> c43_policy_plan \<Rightarrow> bool" where
  "admissible g s rq pl \<longleftrightarrow> graph_inv g \<and> s < FWLAB_C43_MAX_COMMANDS \<and> cr_in_use (graph_command g s) \<noteq> 0 \<and>
     cr_state (graph_command g s) = C43_COMMAND_RECORD_PREPARED \<and> fwlab_c43_policy_request_valid rq \<and>
     request_matches_prepared rq (cr_prepared (graph_command g s)) (pk_queue_class (cr_key (graph_command g s))) \<and>
     fwlab_c43_policy_begin (gc_profile (gr_config g)) rq = Inr pl \<and>
     c43_ticket_valid (admission_ticket g (graph_command g s))"

lemma admissible_frame:
  assumes "admissible g s rq pl"
  shows "graph_inv g" and "graph_arrays g" and "s < FWLAB_C43_MAX_COMMANDS" and "cr_in_use (graph_command g s) = 1"
    and "cr_state (graph_command g s) = C43_COMMAND_RECORD_PREPARED"
    and "prepared_valid g (graph_command g s)" and "observer_identity (graph_command g s) (graph_observed g s)"
    and "co_phase (graph_observed g s) = FWLAB_C43_PHASE_PREPARED" and "identities_consumed g (graph_command g s)"
    and "entry_ok (gr_observer g) s (graph_observed g s)"
    and "\<And>i. i < FWLAB_C43_MAX_COMMANDS \<Longrightarrow> slot_ok g i"
proof -
  show frame: "graph_inv g" "graph_arrays g" "s < FWLAB_C43_MAX_COMMANDS" "cr_state (graph_command g s) = C43_COMMAND_RECORD_PREPARED"
    and ok: "\<And>i. i < FWLAB_C43_MAX_COMMANDS \<Longrightarrow> slot_ok g i"
    using assms by (simp_all add: admissible_def graph_inv_def graph_wf_def)
  have used: "cr_in_use (graph_command g s) \<noteq> 0"
    using assms by (simp add: admissible_def)
  show "cr_in_use (graph_command g s) = 1" "prepared_valid g (graph_command g s)" "identities_consumed g (graph_command g s)"
    and match: "observer_identity (graph_command g s) (graph_observed g s)" "co_phase (graph_observed g s) = FWLAB_C43_PHASE_PREPARED"
    using ok [OF frame(3)] used frame(4) by (auto simp: slot_ok_def reservation_round_iff observer_matches_iff)
  show "entry_ok (gr_observer g) s (graph_observed g s)"
    using ok [OF frame(3)] match(1)
    by (simp add: slot_ok_def observer_local_def entry_ok_def graph_observed_def observer_identity_def Let_def)
qed

text \<open>A prepared command has no transaction and shows no action.\<close>

lemma admissible_idle:
  assumes "admissible g s rq pl"
  shows "storage_zero (graph_command g s)" and "record_idle_observed (graph_command g s) (graph_observed g s)"
    and "cr_incoming_target_pins (graph_command g s) = 0"
proof -
  note fr = admissible_frame [OF assms]
  have "queue_record_valid g (graph_command g s) (graph_observed g s)"
    using fr(11) [OF fr(3)] fr(4,5) by (simp add: slot_ok_def phase4_local_def record_kind_def Let_def)
  moreover have "co_action_domain (graph_observed g s) = FWLAB_C43_ACTION_DOMAIN_NONE"
    using fr(8,10) by (simp add: entry_ok_def observer_command_in_use_def Let_def)
  ultimately show idle: "record_idle_observed (graph_command g s) (graph_observed g s)"
    by (auto simp: queue_record_valid_def queue_record_common_def Let_def split: if_splits)
  then show "storage_zero (graph_command g s)"
    by (simp add: record_idle_observed_def)
  show "cr_incoming_target_pins (graph_command g s) = 0"
    using fr(5,6) by (auto simp: prepared_iff admitted_identity_valid_def Let_def)
qed

lemma admission_fields:
  assumes "graph_arrays g" and "j < FWLAB_C43_MAX_COMMANDS"
  shows "graph_command (admission_store g s rq pl) j = (if j = s then (graph_command g s)\<lparr>cr_request := rq, cr_plan := pl,
      cr_ticket := admission_ticket g (graph_command g s), cr_state := C43_COMMAND_RECORD_ADMITTED\<rparr> else graph_command g j)"
    and "graph_observed (admission_store g s rq pl) j = (if j = s then (graph_observed g s)\<lparr>co_phase := FWLAB_C43_PHASE_ADMITTED_POLICY,
      co_required_witness_mask := pl_required_witness_mask pl, co_satisfied_witness_mask := pl_satisfied_witness_mask pl,
      co_success_eligible := 0\<rparr> else graph_observed g j)"
  using assms by (simp_all add: admission_store_def graph_put_nth)

lemma admission_graph:
  "gr_config (admission_store g s rq pl) = gr_config g"
  "gr_observer (admission_store g s rq pl) = (gr_observer g)\<lparr>go_commands := go_commands (gr_observer (admission_store g s rq pl))\<rparr>"
  "identities_consumed (admission_store g s rq pl) = identities_consumed g"
  "cursors_valid (admission_store g s rq pl) = cursors_valid g"
  by (simp_all add: admission_store_def graph_put_def identities_consumed_def cursors_valid_def fun_eq_iff)

lemma admission_change:
  assumes "admissible g s rq pl"
  shows "slot_change g s (admission_store g s rq pl)"
proof -
  note fr = admissible_frame [OF assms]
  have "authority_observed (gr_observer g) (gr_queue_authority g)"
    using fr(1) by (simp add: graph_inv_def graph_wf_def graph_frame_ok_def queue_authority_valid_def)
  then show ?thesis
    using fr(2,3) admission_fields [OF fr(2)]
    by (simp add: slot_change_def) (simp add: admission_store_def graph_put_def graph_arrays_def authority_observed_def)
qed

lemma admission_record:
  assumes "admissible g s rq pl"
  defines "r \<equiv> graph_command (admission_store g s rq pl) s"
  shows "prepared_valid (admission_store g s rq pl) r"
    and "observer_matches_record r (graph_observed (admission_store g s rq pl) s)"
proof -
  note fr = admissible_frame [OF assms(1)]
  have a: "fwlab_c43_policy_request_valid rq" "fwlab_c43_policy_begin (gc_profile (gr_config g)) rq = Inr pl"
      "request_matches_prepared rq (cr_prepared (graph_command g s)) (pk_queue_class (cr_key (graph_command g s)))"
      "c43_ticket_valid (admission_ticket g (graph_command g s))"
    using assms by (simp_all add: admissible_def)
  have r: "r = (graph_command g s)\<lparr>cr_request := rq, cr_plan := pl,
      cr_ticket := admission_ticket g (graph_command g s), cr_state := C43_COMMAND_RECORD_ADMITTED\<rparr>"
    by (simp add: r_def admission_fields [OF fr(2,3)])
  have id: "prepared_identity_valid g (graph_command g s)" "\<forall>k<FWLAB_C43_ACTIONS_PER_COMMAND. action_reserved g (graph_command g s) k"
    using fr(6) unfolding prepared_iff by auto
  have uid: "cr_transaction_uid (graph_command g s) = pt_reservation_uid (cr_prepared (graph_command g s))"
    using id(1) by (simp add: prepared_identity_valid_def Let_def)
  have "prepared_identity_valid (admission_store g s rq pl) r = prepared_identity_valid g (graph_command g s)"
      "action_reserved (admission_store g s rq pl) r k = action_reserved g (graph_command g s) k" for k
    by (simp_all add: prepared_identity_valid_def action_reserved_def admission_graph(1) r)
  moreover have "admitted_identity_valid (admission_store g s rq pl) r"
    using a policy_begin_plan_valid [OF a(2)] plan_identity [OF a(2)] uid
    by (simp add: admitted_identity_valid_def admission_graph(1) r admission_ticket_def request_matches_prepared_def)
  ultimately show "prepared_valid (admission_store g s rq pl) r"
    unfolding prepared_iff using id a(2) by (simp add: admission_graph(1) r)
  show "observer_matches_record r (graph_observed (admission_store g s rq pl) s)"
    using fr(7) by (simp add: observer_matches_iff admission_fields [OF fr(2,3)] r observer_identity_def)
qed

lemma plan_required_mask:
  assumes "fwlab_c43_policy_plan_valid pl"
  shows "c43_witness_mask_valid (pl_required_witness_mask pl)"
    and "pl_required_witness_mask pl AND FWLAB_C43_WITNESS_VALIDATED_ONLY = 0"
  using assms by (auto simp: fwlab_c43_policy_plan_valid_def plan_header_valid_def Let_def split: if_splits)

lemma admission_entry:
  assumes "admissible g s rq pl"
  shows "entry_ok (gr_observer (admission_store g s rq pl)) s (graph_observed (admission_store g s rq pl) s)"
    and "phase4_local (admission_store g s rq pl) s"
    and "phase_promise (graph_observed (admission_store g s rq pl) s)"
proof -
  note fr = admissible_frame [OF assms]
  let ?g = "admission_store g s rq pl" and ?c = "graph_observed g s"
  have plan: "fwlab_c43_policy_begin (gc_profile (gr_config g)) rq = Inr pl"
    using assms by (simp add: admissible_def)
  have slot: "graph_observed ?g s = ?c\<lparr>co_phase := FWLAB_C43_PHASE_ADMITTED_POLICY,
      co_required_witness_mask := pl_required_witness_mask pl, co_satisfied_witness_mask := 0, co_success_eligible := 0\<rparr>"
    using plan_satisfied_none [OF plan] by (simp add: admission_fields [OF fr(2,3)])
  have idle: "co_action_domain ?c = FWLAB_C43_ACTION_DOMAIN_NONE" "co_action_state ?c = FWLAB_C43_ACTION_STATE_NONE"
      "co_resolution_valid ?c = 0" "co_resolved_status ?c = 0"
    using admissible_idle(2) [OF assms] by (simp_all add: record_idle_observed_def)
  have ok: "observer_command_ranges ?c" "observer_command_in_use (gr_observer g) ?c"
    using fr(10) by (simp_all add: entry_ok_def)
  have zero: "target_fields_zero (?c\<lparr>co_phase := p, co_required_witness_mask := m, co_satisfied_witness_mask := 0, co_success_eligible := 0\<rparr>) =
      target_fields_zero ?c" for p m
    by (simp add: target_fields_zero_def)
  have "observer_command_ranges (graph_observed ?g s)"
    using ok(1) plan_required_mask [OF policy_begin_plan_valid [OF plan]] fr(7) [unfolded observer_identity_def]
    by (simp add: slot observer_command_ranges_def zero c43_witness_mask_valid_def)
  moreover have "observer_command_in_use (gr_observer ?g) (graph_observed ?g s)"
    using ok(2) fr(8) idle
    by (subst admission_graph(2)) (simp add: slot observer_command_in_use_def Let_def eq_commute [of 0])
  ultimately show "entry_ok (gr_observer ?g) s (graph_observed ?g s)"
    using idle by (simp add: entry_ok_def slot queue_public_command_valid_def target_public_local_def block_public_command_valid_def)
  show "phase_promise (graph_observed ?g s)"
    by (simp add: slot phase_promise_def)
  have "record_idle_observed (graph_command ?g s) (graph_observed ?g s)"
    using admissible_idle(1) [OF assms] idle
    by (simp add: record_idle_observed_def slot admission_fields(1) [OF fr(2,3)] storage_zero_def)
  then show "phase4_local ?g s"
    using fr(4) by (simp add: phase4_local_def queue_record_valid_def target_record_valid_def block_record_valid_def Let_def
        admission_fields(1) [OF fr(2,3)]) (simp add: record_idle_observed_def storage_zero_def zero_c43_queue_txn_record_def
        zero_c43_target_txn_record_def zero_c43_block_txn_record_def)
qed

lemma admission_finds:
  assumes "admissible g s rq pl"
  shows "finds_kept g s (admission_store g s rq pl)"
  unfolding finds_kept_def
proof (intro allI impI)
  note fr = admissible_frame [OF assms]
  let ?g = "admission_store g s rq pl"
  fix i ticket t
  assume found: "target_find_slot g i ticket = Some t"
  note t = target_find_slotD [OF found]
  have ne: "t \<noteq> s"
    using t(5) fr(5) by auto
  have "prepared_valid g (graph_command g t)"
    using fr(11) [OF t(2)] t(4) by (simp add: slot_ok_def reservation_round_iff)
  then have "ct_handle (cr_ticket (graph_command g t)) = pt_handle (cr_prepared (graph_command g t))"
    using t(5) by (auto simp: prepared_iff admitted_identity_valid_def Let_def)
  moreover have "pt_handle (cr_prepared (graph_command g t)) \<noteq> pt_handle (cr_prepared (graph_command g s))"
    using slots_apart(1) [OF fr(1) t(2) fr(3) ne t(4)] fr(4) by (auto simp: records_apart_def)
  ultimately have other: "ticket \<noteq> admission_ticket g (graph_command g s)"
    using t(6) by (auto simp: admission_ticket_def)
  have "filter (\<lambda>slot. slot \<noteq> i \<and> cr_in_use (graph_command ?g slot) \<noteq> 0 \<and>
      cr_state (graph_command ?g slot) = C43_COMMAND_RECORD_ADMITTED \<and>
      ticket = cr_ticket (graph_command ?g slot)) [0..<FWLAB_C43_MAX_COMMANDS] =
    filter (\<lambda>slot. slot \<noteq> i \<and> cr_in_use (graph_command g slot) \<noteq> 0 \<and>
      cr_state (graph_command g slot) = C43_COMMAND_RECORD_ADMITTED \<and>
      ticket = cr_ticket (graph_command g slot)) [0..<FWLAB_C43_MAX_COMMANDS]"
    using fr(5) other by (intro filter_cong) (auto simp: admission_fields [OF fr(2)] simp del: upt_rec_numeral)
  then show "target_find_slot ?g i ticket = Some t"
    using found unfolding target_find_slot_def by simp
qed

theorem admission_inv:
  assumes "admissible g s rq pl"
  shows "graph_inv (admission_store g s rq pl)"
proof -
  note fr = admissible_frame [OF assms]
  let ?g = "admission_store g s rq pl"
  note slot = admission_fields [OF fr(2,3), of s rq pl, simplified]
  have arrays: "graph_arrays ?g"
    using admission_change [OF assms] by (simp add: slot_change_def)
  have wf: "observer_header_valid (gr_observer g)" "observer_counts_valid (gr_observer g)" "cursors_valid g"
    using fr(1) by (simp_all add: graph_inv_def graph_wf_def graph_frame_ok_def)
  have apart: "records_apart (graph_command g j) (graph_command ?g s) \<and>
      observer_commands_apart (graph_observed g j) (graph_observed ?g s) \<and>
      observer_commands_apart (graph_observed ?g s) (graph_observed g j)"
    if "j < FWLAB_C43_MAX_COMMANDS" "j \<noteq> s" "cr_in_use (graph_command g j) \<noteq> 0" for j
    using slots_apart [OF fr(1) that(1) fr(3) that(2,3)] slots_apart [OF fr(1) fr(3) that(1) that(2) [symmetric] _ that(3)] fr(4)
    by (simp add: slot records_apart_def observer_commands_apart_def)
  have "records_apart (graph_command ?g s) (graph_command ?g k)" if "k < s" for k
  proof (cases "cr_in_use (graph_command g k) = 0")
    case True
    then show ?thesis
      using that fr(3) by (simp add: admission_fields [OF fr(2)] records_apart_def)
  next
    case False
    then show ?thesis
      using that fr(3,4) apart [of k] records_apart_sym [of "graph_command g k" "graph_command ?g s"]
      by (simp add: admission_fields [OF fr(2)])
  qed
  then have round: "reservation_round ?g s"
    using admission_record [OF assms] fr(4,9) by (simp add: reservation_round_iff admission_graph slot) (simp add: identities_consumed_def Let_def)
  have static: "observer_count P (gr_observer ?g) = observer_count P (gr_observer g)"
    if "\<And>i. i < FWLAB_C43_MAX_COMMANDS \<Longrightarrow> P (graph_observed ?g i) = P (graph_observed g i)" for P
    unfolding observer_count_def
    using count_cong [OF fr(2) arrays, of "\<lambda>c. co_in_use c \<noteq> 0 \<and> P c"] that by (simp add: admission_fields [OF fr(2)])
  have same: "observer_count (\<lambda>c. True) (gr_observer ?g) = observer_count (\<lambda>c. True) (gr_observer g)"
      "observer_count (\<lambda>c. co_phase c = FWLAB_C43_PHASE_INTENT_READY) (gr_observer ?g) =
       observer_count (\<lambda>c. co_phase c = FWLAB_C43_PHASE_INTENT_READY) (gr_observer g)"
      "observer_count (\<lambda>c. co_phase c = FWLAB_C43_PHASE_CLEANUP_PENDING \<or> co_phase c = FWLAB_C43_PHASE_RETIRED_TOMBSTONE) (gr_observer ?g) =
       observer_count (\<lambda>c. co_phase c = FWLAB_C43_PHASE_CLEANUP_PENDING \<or> co_phase c = FWLAB_C43_PHASE_RETIRED_TOMBSTONE) (gr_observer g)"
      "observer_credit_count k (gr_observer ?g) = observer_credit_count k (gr_observer g)" for k
    unfolding observer_credit_count_def by (rule static; simp add: admission_fields [OF fr(2)] fr(8))+
  have actions: "observer_action_count (gr_observer ?g) = observer_action_count (gr_observer g)"
    by (rule action_count_cong [OF fr(2) arrays]) (simp_all add: admission_fields [OF fr(2)])
  have counts: "observer_counts_valid (gr_observer ?g)"
    using wf(2) unfolding observer_counts_valid_def same actions by (subst (1 2 3 4 5 6 7 8 9 10 11 12 13) admission_graph(2)) simp
  have header: "observer_header_valid (gr_observer ?g)"
    using wf(1) by (subst admission_graph(2)) (simp add: observer_header_valid_def)
  show ?thesis
  proof (rule slot_change_inv [OF fr(1) admission_change [OF assms] header counts _ _ round admission_entry(2,1) [OF assms] _ apart
        admission_finds [OF assms] _ _ _ _ _ admission_entry(3) [OF assms]])
    show "\<not> needs_owner g s" "\<not> needs_owner ?g s" "pin_of g s = None" "pin_of ?g s = None"
      using admissible_idle(1) [OF assms] fr(5)
      by (simp_all add: needs_owner_def pin_of_def slot storage_zero_def queue_flow_requires_owner_def Let_def
          zero_c43_queue_txn_record_def zero_c43_target_txn_record_def)
  qed (use fr(7) wf(3) in \<open>simp_all add: admission_graph slot observer_identity_def\<close>)
qed

theorem admit_start_inv:
  assumes inv: "graph_inv g" and start: "fwlab_c43_graph_admit_start g prepared rq = (result, g', out)"
  shows "graph_inv g'"
proof (cases "g' = g")
  case False
  obtain s pl where found: "find_prepared_record g prepared = (FWLAB_C43_GRAPH_OK, s)" and store: "g' = admission_store g s rq pl"
    and a: "fwlab_c43_policy_request_valid rq" "cr_state (graph_command g s) = C43_COMMAND_RECORD_PREPARED"
      "request_matches_prepared rq (cr_prepared (graph_command g s)) (pk_queue_class (cr_key (graph_command g s)))"
      "fwlab_c43_policy_begin (gc_profile (gr_config g)) rq = Inr pl"
      "c43_ticket_valid (admission_ticket g (graph_command g s))"
    using start False unfolding fwlab_c43_graph_admit_start_def
    by (cases "find_prepared_record g prepared") (auto simp: Let_def split: if_splits sum.splits)
  have "s < FWLAB_C43_MAX_COMMANDS \<and> cr_in_use (graph_command g s) \<noteq> 0"
    using find_prepared_scan_found [OF found [unfolded find_prepared_record_def]] inv
    by (simp add: graph_command_def graph_inv_def graph_arrays_def)
  then have "admissible g s rq pl"
    using inv a by (simp add: admissible_def)
  then show ?thesis
    unfolding store by (rule admission_inv)
qed (use inv in simp)

end
