(* ===== verification/Nvme_Graph_Laws.thy ===== *)
theory Nvme_Graph_Laws
  imports Nvme_Queue_Service Nvme_Block_Laws Nvme_Target_Laws Nvme_Admission_Laws
begin

text \<open>
  The invariant of the command graph holds after its creation and is kept by every call of a client:
  the events of the graph, its reachable states and the invariant in all of them.
\<close>

section \<open>Creation\<close>

lemma init_graph:
  assumes "fwlab_c43_graph_init config providers = (result, Some g)"
  shows "fwlab_c43_graph_config_valid config" and "providers_valid providers" and "gr_config g = config"
    and "gr_providers g = providers" and "graph_arrays g" and "gr_magic g = FWLAB_C43_INTERNAL_MAGIC"
    and "gr_queue_authority g = zero_c43_queue_authority" and "gr_next_service_slot g = 0"
    and "gr_reserved_scheduler g = replicate 3 0"
    and "\<And>i. i < FWLAB_C43_MAX_COMMANDS \<Longrightarrow> graph_command g i = zero_c43_command_record"
    and "\<And>i. i < FWLAB_C43_MAX_COMMANDS \<Longrightarrow> graph_observed g i = zero_c43_command_observer
      \<lparr>co_phase := FWLAB_C43_PHASE_FREE, co_publication := FWLAB_C43_PUBLICATION_ELIGIBLE\<rparr>"
  using assms by (auto simp: fwlab_c43_graph_init_def graph_arrays_def graph_command_def graph_observed_def split: if_splits)

lemma init_cursor: "counter_seed_valid sd \<Longrightarrow> cursor_valid (counter_cursor_init sd) sd"
  by (simp add: counter_seed_valid_def cursor_valid_def counter_cursor_init_def zero_c43_counter_cursor_def words_zero_def)

theorem graph_init_inv:
  assumes init: "fwlab_c43_graph_init config providers = (result, Some g)"
  shows "graph_inv g"
proof -
  note g = init_graph [OF init]
  let ?ob = "gr_observer g"
  have ob: "?ob = zero_c43_graph_observer
      \<lparr>go_version := FWLAB_C43_GRAPH_VERSION, go_size := sizeof_c43_graph_observer,
       go_controller_epoch := gc_controller_epoch config, go_instance_nonce := gc_instance_nonce config,
       go_provider_generation := [po_generation (pv_queue providers), pv_dma_generation providers,
         bp_generation (pv_block providers), po_generation (pv_target providers)],
       go_commands := replicate 4 (zero_c43_command_observer
         \<lparr>co_phase := FWLAB_C43_PHASE_FREE, co_publication := FWLAB_C43_PUBLICATION_ELIGIBLE\<rparr>)\<rparr>"
    using init by (auto simp: fwlab_c43_graph_init_def split: if_splits)
  have config: "gc_controller_epoch config \<noteq> 0" "gc_instance_nonce config \<noteq> 0"
    using g(1) by (simp_all add: fwlab_c43_graph_config_valid_def)
  have "cursors_valid g"
    using init by (auto simp: fwlab_c43_graph_init_def fwlab_c43_graph_config_valid_def cursors_valid_def init_cursor split: if_splits)
  moreover have "observer_header_valid ?ob"
    using config by (simp add: ob observer_header_valid_def zero_c43_graph_observer_def words_zero_def)
  moreover have "list_all (\<lambda>index. go_provider_generation ?ob ! index \<noteq> 0) [0..<4]"
  proof -
    have "po_generation (pv_queue providers) \<noteq> 0" "pv_dma_generation providers \<noteq> 0" "bp_generation (pv_block providers) \<noteq> 0"
        "po_generation (pv_target providers) \<noteq> 0"
      using g(2) by (auto simp: providers_valid_def fwlab_c43_queue_effect_port_valid_def fwlab_c43_target_resolver_port_valid_def
          fwlab_c43_block_action_port_valid_def split: if_splits)
    then show ?thesis
      by (simp add: ob upt_rec)
  qed
  moreover have "queue_authority_valid g (gr_queue_authority g)"
    by (simp add: g(7) queue_authority_valid_def authority_consistent_def authority_observed_def ob zero_c43_graph_observer_def
        zero_c43_queue_authority_def words_zero_def pair_nonzero_def)
  ultimately have frame: "graph_frame_ok g"
    using g(1,2) by (simp add: graph_frame_ok_def g words_zero_def)
  have slots: "slot_ok g i" if i: "i < FWLAB_C43_MAX_COMMANDS" for i
  proof -
    have "reservation_round g i"
      by (simp add: reservation_round_iff g(10,11) [OF i] zero_c43_command_record_def zero_c43_command_observer_def)
    moreover have "phase4_local g i"
      by (simp add: phase4_local_def g(10) [OF i] zero_c43_command_record_def storage_zero_def)
    moreover have "observer_local ?ob i"
      using g(11) [OF i] unfolding graph_observed_def
      by (simp add: observer_local_def observer_command_ranges_def observer_command_free_def zero_c43_command_observer_def
          target_fields_zero_def pair_nonzero_def words_zero_def c43_witness_mask_valid_def)
    ultimately show ?thesis
      by (simp add: slot_ok_def)
  qed
  have none: "pin_of g i = None" "\<not> needs_owner g i" "cr_incoming_target_pins (graph_command g i) = 0"
    if "i < FWLAB_C43_MAX_COMMANDS" for i
    by (simp_all add: pin_of_def needs_owner_def g(10) [OF that] zero_c43_command_record_def)
  have "map (pin_of g) [0..<FWLAB_C43_MAX_COMMANDS] = [None, None, None, None]"
    using none(1) by (simp add: upt_rec)
  then have "pins_ok g"
    using none(3) by (simp add: pins_ok_def del: upt_rec_numeral)
  moreover have "observer_counts_valid ?ob"
    by (simp add: observer_counts_valid_def observer_credit_count_def observer_count_def observer_action_count_def ob
        zero_c43_graph_observer_def zero_c43_command_observer_def)
  moreover have "\<not> owner_at (gr_queue_authority g) i" for i
    by (simp add: owner_at_def g(7) zero_c43_queue_authority_def)
  ultimately have "graph_wf g"
    using frame slots none(2) by (simp add: graph_wf_def)
  then show ?thesis
    using g(5,10) none(2) by (simp add: graph_inv_def graph_named_def g(3) ob zero_c43_command_record_def)
qed

section \<open>Service\<close>

lemma service_slot_inv:
  assumes inv: "graph_inv g" and "w < 4"
  shows "graph_inv (g\<lparr>gr_next_service_slot := w\<rparr>)"
proof -
  let ?g = "g\<lparr>gr_next_service_slot := w\<rparr>"
  have slot: "graph_command ?g i = graph_command g i" "graph_observed ?g i = graph_observed g i" for i
    by (simp_all add: graph_command_def graph_observed_def)
  have find: "target_find_slot ?g i ticket = target_find_slot g i ticket" for i ticket
    by (simp add: target_find_slot_def slot)
  have flow: "target_flow_valid ?g i tx = target_flow_valid g i tx" for i tx
    by (simp only: target_flow_valid_def find slot)
  have records: "queue_record_valid ?g r c = queue_record_valid g r c" "block_record_valid ?g r c = block_record_valid g r c"
      "target_record_valid ?g i r c = target_record_valid g i r c" for i r c
    by (simp_all add: queue_record_valid_def queue_rejected_record_valid_def queue_regular_request_valid_def
        block_record_valid_def block_record_common_def block_flow_valid_def target_record_valid_def target_record_common_def flow)
  have res: "prepared_valid ?g r = prepared_valid g r" "identities_consumed ?g r = identities_consumed g r" for r
    by (simp_all add: prepared_iff prepared_identity_valid_def admitted_identity_valid_def action_reserved_def identities_consumed_def)
  have ok: "slot_ok ?g i = slot_ok g i" for i
    by (simp add: slot_ok_def reservation_round_iff phase4_local_def slot records res)
  have pins: "pin_of ?g = pin_of g" "needs_owner ?g = needs_owner g"
    by (simp_all add: fun_eq_iff pin_of_def needs_owner_def slot)
  have "graph_frame_ok ?g"
    using inv assms(2) by (simp add: graph_inv_def graph_wf_def graph_frame_ok_def cursors_valid_def queue_authority_valid_def)
  then show ?thesis
    using inv by (simp add: graph_inv_def graph_wf_def ok pins pins_ok_def slot graph_arrays_def graph_named_def del: upt_rec_numeral)
qed

lemma phase4_record_step_inv:
  assumes "graph_inv g" and "s < FWLAB_C43_MAX_COMMANDS" and step: "phase4_record_step ops g p s = Some (g', p', n)"
  shows "graph_inv g'"
proof -
  let ?kind = "pl_kind (cr_plan (graph_command g s))"
  have srv: "served g s"
    using assms by (simp add: served_def phase4_record_step_def Let_def split: if_splits)
  consider "?kind = FWLAB_C43_PLAN_ABORT_RESOLVE" | "?kind = FWLAB_C43_PLAN_BLOCK"
    | "?kind \<noteq> FWLAB_C43_PLAN_ABORT_RESOLVE" "?kind \<noteq> FWLAB_C43_PLAN_BLOCK"
    by blast
  then show ?thesis
  proof cases
    case 1
    then show ?thesis
      using step target_record_step_inv [of g s ops p g' p' n] srv
      by (simp add: phase4_record_step_def target_slot_def Let_def split: if_splits)
  next
    case 2
    then show ?thesis
      using step block_record_step_inv [of g s ops p g' p' n] srv
      by (simp add: phase4_record_step_def block_slot_def Let_def split: if_splits)
  next
    case 3
    then show ?thesis
      using step queue_record_step_inv [of g s ops p g' p' n] srv
      by (simp add: phase4_record_step_def queue_slot_def Let_def split: if_splits)
  qed
qed

lemma phase4_scan_inv:
  "graph_inv g \<Longrightarrow> phase4_scan ops g p offsets = (g', p', t, n) \<Longrightarrow> graph_inv g'"
proof (induction ops g p offsets rule: phase4_scan.induct)
  case (2 ops g p offset offsets)
  let ?s = "(unat (gr_next_service_slot g) + offset) mod FWLAB_C43_MAX_COMMANDS"
  have s: "?s < FWLAB_C43_MAX_COMMANDS"
    by simp
  have "of_nat (Suc ?s mod FWLAB_C43_MAX_COMMANDS) < (4 :: u32)"
    by (simp add: word_less_nat_alt unsigned_of_nat take_bit_nat_eq_self)
  then have "graph_inv (a\<lparr>gr_next_service_slot := of_nat (Suc ?s mod FWLAB_C43_MAX_COMMANDS)\<rparr>)"
    if "phase4_record_step ops g p ?s = Some (a, p', t)" for a p' t
    by (intro service_slot_inv phase4_record_step_inv [OF 2(2) s that])
  then show ?case
    using 2 by (auto simp: Let_def split: option.splits)
qed simp

theorem graph_step_inv:
  assumes "graph_inv g" and "fwlab_c43_graph_step ops g p budget = (result, g', p', out)"
  shows "graph_inv g'"
  using assms phase4_scan_inv [OF assms(1)]
  by (auto simp: fwlab_c43_graph_step_def c43_phase4_step_def simp del: upt_rec_numeral split: if_splits prod.splits)

section \<open>Events\<close>

text \<open>
  The calls that change a graph; the queries and the observer read it. Between two calls the state of
  the providers may change in any way.
\<close>

datatype graph_event =
    GraphPrepare hif_prepare_key
  | GraphAdmit hif_prepared_token c43_policy_request
  | GraphStep u32

fun graph_apply :: "'p c43_provider_ops \<Rightarrow> graph_event \<Rightarrow> c43_graph \<times> 'p \<Rightarrow> c43_graph \<times> 'p" where
  "graph_apply ops (GraphPrepare key) (g, p) = (fst (snd (fwlab_c43_graph_prepare_start g key)), p)"
| "graph_apply ops (GraphAdmit prepared request) (g, p) =
     (fst (snd (fwlab_c43_graph_admit_start g prepared request)), p)"
| "graph_apply ops (GraphStep budget) (g, p) =
     (let (result, g', p', out) = fwlab_c43_graph_step ops g p budget in (g', p'))"

inductive graph_reachable :: "'p c43_provider_ops \<Rightarrow> c43_graph \<times> 'p \<Rightarrow> bool" for ops where
  created: "fwlab_c43_graph_init config providers = (FWLAB_C43_GRAPH_OK, Some g) \<Longrightarrow> graph_reachable ops (g, p)"
| called: "graph_reachable ops w \<Longrightarrow> graph_reachable ops (graph_apply ops e w)"
| moved: "graph_reachable ops (g, p) \<Longrightarrow> graph_reachable ops (g, p')"

lemma graph_apply_inv:
  assumes "graph_inv (fst w)"
  shows "graph_inv (fst (graph_apply ops e w))"
proof -
  obtain g p where w: "w = (g, p)"
    by (cases w)
  show ?thesis
  proof (cases e)
    case (GraphPrepare key)
    then show ?thesis
      using prepare_start_inv [of g key] assms w by (cases "fwlab_c43_graph_prepare_start g key") auto
  next
    case (GraphAdmit prepared request)
    then show ?thesis
      using admit_start_inv [of g prepared request] assms w by (cases "fwlab_c43_graph_admit_start g prepared request") auto
  next
    case (GraphStep budget)
    then show ?thesis
      using graph_step_inv [of g ops p budget] assms w by (cases "fwlab_c43_graph_step ops g p budget") auto
  qed
qed

interpretation graph: kept_invariant "graph_apply ops" "\<lambda>w. graph_inv (fst w)" "\<lambda>_ _. True"
  for ops :: "'p c43_provider_ops"
  by unfold_locales (rule graph_apply_inv)

lemma graph_reachable_inv: "graph_reachable ops w \<Longrightarrow> graph_inv (fst w)"
proof (induction rule: graph_reachable.induct)
  case (called w e)
  then show ?case
    by (simp add: graph.step_keeps)
qed (auto intro: graph_init_inv)

lemma graph_inv_valid: "graph_inv g \<Longrightarrow> c43_graph_valid g"
  using graph_valid_iff_wf by (simp add: graph_inv_def)

end
