(* ===== verification/Nvme_Graph_Service.thy ===== *)
theory Nvme_Graph_Service
  imports Nvme_Graph_Laws
begin

text \<open>
  What a step of the command graph leaves alone and whom it serves: the records of the other commands
  and the identity cursors, the distance of a command from its service, the reservations, and the
  queues, which only a committed queue effect changes.
\<close>

section \<open>What a step leaves alone\<close>

text \<open>The record of a command without the pins other commands put on it.\<close>

definition unpinned :: "c43_command_record \<Rightarrow> c43_command_record" where
  "unpinned r = r\<lparr>cr_incoming_target_pins := 0\<rparr>"

text \<open>
  Two graphs with the same service slot, cursors and configuration, whose records agree outside slot
  \<open>s\<close> up to pins.
\<close>

definition same_but :: "nat \<Rightarrow> c43_graph \<Rightarrow> c43_graph \<Rightarrow> bool" where
  "same_but s g g' \<longleftrightarrow> gr_next_service_slot g' = gr_next_service_slot g \<and> gr_config g' = gr_config g \<and>
     gr_command_uid g' = gr_command_uid g \<and> gr_transaction_uid g' = gr_transaction_uid g \<and>
     (\<forall>j. j \<noteq> s \<longrightarrow> unpinned (graph_command g' j) = unpinned (graph_command g j))"

lemma same_but_refl: "same_but s g g"
  by (simp add: same_but_def)

lemma same_but_trans: "same_but s a b \<Longrightarrow> same_but s b c \<Longrightarrow> same_but s a c"
  by (simp add: same_but_def)

lemma put_same_but: "same_but s g (graph_put g s r c)"
  by (simp add: same_but_def graph_put_def graph_command_def)

lemma authority_same_but: "same_but s g (g\<lparr>gr_queue_authority := qa\<rparr>)"
  by (simp add: same_but_def graph_command_def)

lemma sync_same_but: "same_but s g (queue_authority_sync g)"
  by (simp add: same_but_def queue_authority_sync_def graph_command_def Let_def)

lemma pin_same_but: "same_but s g (target_pin g t)"
proof -
  have "unpinned (graph_command (target_pin g t) j) = unpinned (graph_command g j)" for j
    by (cases "t < length (gr_commands g)"; cases "j = t")
      (simp_all add: target_pin_def graph_put_def graph_command_def unpinned_def list_update_beyond)
  then show ?thesis
    by (simp add: same_but_def target_pin_def graph_put_def)
qed

lemma store_same_but:
  "same_but s g (queue_store g s qx f)" "same_but s g (target_store g s tx f)" "same_but s g (block_store g s bt f)"
  by (simp_all add: queue_store_def target_store_def block_store_def Let_def put_same_but)

lemma owner_same_but: "same_but s g (queue_release_owner g s)"
  by (simp add: queue_release_owner_def Let_def same_but_refl same_but_trans [OF authority_same_but sync_same_but])

lemma fault_same_but:
  "same_but s g g' \<Longrightarrow> same_but s g (queue_fault g' s)" "same_but s g g' \<Longrightarrow> same_but s g (target_fault g' s outcome)"
  "same_but s g g' \<Longrightarrow> same_but s g (block_fault g' s)"
  by (auto simp: queue_fault_def target_fault_def block_fault_def intro: same_but_trans store_same_but)

lemma resolve_same_but:
  "same_but s g (queue_resolve_no_effect g s status)" "same_but s g (block_rejected g s)"
  "same_but s g (target_resolved g s tx outcome)" "same_but s g (target_resolved (target_pin g t) s tx outcome)"
  by (auto simp: queue_resolve_no_effect_def block_rejected_def target_resolved_def Let_def
      intro: same_but_trans store_same_but owner_same_but pin_same_but)

lemmas same_but_rules = same_but_refl put_same_but sync_same_but store_same_but fault_same_but resolve_same_but
  authority_same_but owner_same_but

lemma queue_step_same_but:
  "same_but s g (fst (queue_prepare_start_step ops g p s))" "same_but s g (fst (queue_prepare_query_step ops g p s))"
  "same_but s g (fst (queue_finish_start_step ops g p s))" "same_but s g (fst (queue_finish_query_step ops g p s))"
  "same_but s g (fst (queue_retire_step ops g p s))" "same_but s g (queue_decide_step g s)"
  "same_but s g (queue_apply_commit_step g s)" "same_but s g (queue_apply_abort_step g s)"
  "same_but s g (queue_begin_nq g s)" "same_but s g (queue_begin_transaction g s)"
proof -
  have put: "same_but s g (queue_store (graph_put g s r c) s qx f)" for r c qx f
    by (rule same_but_trans [OF put_same_but store_same_but(1)])
  have released: "same_but s g (queue_release_owner (queue_store g s qx f) s)" for qx f
    by (rule same_but_trans [OF store_same_but(1) owner_same_but])
  have auth: "same_but s g (queue_authority_sync (queue_store (g\<lparr>gr_queue_authority := qa\<rparr>) s qx f))" for qa qx f
    by (rule same_but_trans [OF authority_same_but same_but_trans [OF store_same_but(1) sync_same_but]])
  have plain: "same_but s g (queue_authority_sync (queue_store g s qx f))" for qx f
    by (rule same_but_trans [OF store_same_but(1) sync_same_but])
  have start: "same_but s g (queue_authority_sync (graph_put (g\<lparr>gr_queue_authority := qa\<rparr>) s r c))" for qa r c
    by (rule same_but_trans [OF authority_same_but same_but_trans [OF put_same_but sync_same_but]])
  show "same_but s g (fst (queue_prepare_start_step ops g p s))"
    by (simp add: queue_prepare_start_step_def Let_def same_but_rules put split: prod.splits)
  show "same_but s g (fst (queue_prepare_query_step ops g p s))"
    by (simp add: queue_prepare_query_step_def Let_def same_but_rules split: prod.splits)
  show "same_but s g (fst (queue_finish_start_step ops g p s))"
    by (simp add: queue_finish_start_step_def Let_def same_but_rules split: prod.splits)
  show "same_but s g (fst (queue_finish_query_step ops g p s))"
    by (simp add: queue_finish_query_step_def Let_def same_but_rules split: prod.splits)
  show "same_but s g (fst (queue_retire_step ops g p s))"
    by (simp add: queue_retire_step_def Let_def same_but_rules released split: prod.splits)
  show "same_but s g (queue_decide_step g s)"
    by (simp add: queue_decide_step_def Let_def same_but_rules split: prod.splits)
  show "same_but s g (queue_apply_commit_step g s)"
    by (simp add: queue_apply_commit_step_def Let_def same_but_rules auth split: option.splits)
  show "same_but s g (queue_apply_abort_step g s)"
    by (simp add: queue_apply_abort_step_def same_but_rules)
  show "same_but s g (queue_begin_nq g s)"
    by (simp add: queue_begin_nq_def Let_def auth plain)
  show "same_but s g (queue_begin_transaction g s)"
    by (simp add: queue_begin_transaction_def Let_def same_but_rules start split: prod.splits)
qed

lemma other_step_same_but:
  "same_but s g (target_begin g s)" "same_but s g (fst (target_submit_step ops g p s))"
  "same_but s g (fst (target_query_step ops g p s))" "same_but s g (block_begin g s)"
  "same_but s g (fst (block_submit_step ops g p s))" "same_but s g (fst (block_query_step ops g p s))"
proof -
  have put: "same_but s g (target_store (graph_put g s r c) s tx f)" "same_but s g (block_store (graph_put g s r c) s bt f)" for r c tx bt f
    by (rule same_but_trans [OF put_same_but store_same_but(2)] same_but_trans [OF put_same_but store_same_but(3)])+
  show "same_but s g (target_begin g s)"
    by (simp add: target_begin_def Let_def same_but_rules split: prod.splits)
  show "same_but s g (fst (target_submit_step ops g p s))"
    by (simp add: target_submit_step_def Let_def same_but_rules put split: prod.splits)
  show "same_but s g (fst (target_query_step ops g p s))"
    by (simp add: target_query_step_def Let_def same_but_rules split: prod.splits option.splits)
  show "same_but s g (block_begin g s)"
    by (simp add: block_begin_def Let_def same_but_rules split: prod.splits)
  show "same_but s g (fst (block_submit_step ops g p s))"
    by (simp add: block_submit_step_def Let_def same_but_rules put split: prod.splits)
  show "same_but s g (fst (block_query_step ops g p s))"
    by (simp add: block_query_step_def Let_def same_but_rules split: prod.splits)
qed

lemma record_step_same_but:
  assumes "phase4_record_step ops g p s = Some (g', p', n)"
  shows "same_but s g g'"
  using assms queue_step_same_but(1-5) [where s = s and g = g and ops = ops and p = p] queue_step_same_but(6-10) [of s g]
    other_step_same_but(2,3,5,6) [where s = s and g = g and ops = ops and p = p] other_step_same_but(1,4) [of s g]
  unfolding phase4_record_step_def target_record_step_def block_record_step_def queue_record_step_def Let_def
  by (auto split: if_splits)

section \<open>Round robin\<close>

text \<open>
  A command has work to do when its transaction has begun and not ended, or can begin at once: an
  abort or block command, or a negotiation of the number of queues. A queue command that has not begun
  waits for the one queue transaction of the graph.
\<close>

definition step_pending :: "c43_command_record \<Rightarrow> bool" where
  "step_pending r \<longleftrightarrow> cr_in_use r \<noteq> 0 \<and> cr_state r = C43_COMMAND_RECORD_ADMITTED \<and>
     (if pl_kind (cr_plan r) = FWLAB_C43_PLAN_ABORT_RESOLVE
      then tx_flow (cr_target_txn r) \<in> {C43_TARGET_FLOW_NONE, C43_TARGET_FLOW_SUBMIT_START, C43_TARGET_FLOW_QUERY}
      else if pl_kind (cr_plan r) = FWLAB_C43_PLAN_BLOCK
      then bt_flow (cr_block_txn r) \<in> {C43_BLOCK_FLOW_NONE, C43_BLOCK_FLOW_SUBMIT_START, C43_BLOCK_FLOW_QUERY}
      else qx_flow (cr_queue_txn r) \<in> {C43_QUEUE_FLOW_PREPARE_START, C43_QUEUE_FLOW_PREPARE_QUERY, C43_QUEUE_FLOW_DECIDE,
             C43_QUEUE_FLOW_FINISH_START, C43_QUEUE_FLOW_FINISH_QUERY, C43_QUEUE_FLOW_APPLY_COMMIT,
             C43_QUEUE_FLOW_APPLY_ABORT, C43_QUEUE_FLOW_RETIRE} \<or>
           qx_flow (cr_queue_txn r) = C43_QUEUE_FLOW_NONE \<and>
           pr_kind (cr_request r) = FWLAB_C43_REQUEST_SET_NUMBER_OF_QUEUES)"

lemma pending_has_step:
  assumes "step_pending (graph_command g s)"
  shows "phase4_record_step ops g p s \<noteq> None"
proof -
  let ?r = "graph_command g s"
  have "target_record_step ops g p s \<noteq> None" if "tx_flow (cr_target_txn ?r) \<in> {0, 1, 2}"
    using that by (auto simp: target_record_step_def simp del: not_None_eq)
  moreover have "block_record_step ops g p s \<noteq> None" if "bt_flow (cr_block_txn ?r) \<in> {0, 1, 2}"
    using that by (auto simp: block_record_step_def simp del: not_None_eq)
  moreover have "queue_record_step ops g p s \<noteq> None"
    if "qx_flow (cr_queue_txn ?r) \<in> {1, 2, 3, 4, 5, 6, 7, 8} \<or>
      qx_flow (cr_queue_txn ?r) = 0 \<and> pr_kind (cr_request ?r) = FWLAB_C43_REQUEST_SET_NUMBER_OF_QUEUES"
    using that by (auto simp: queue_record_step_def simp del: not_None_eq)
  ultimately show ?thesis
    using assms unfolding step_pending_def phase4_record_step_def Let_def by (simp split: if_splits)
qed

lemma pending_unpinned:
  assumes "unpinned r = unpinned r'"
  shows "step_pending r = step_pending r'"
proof -
  have "step_pending (unpinned r) = step_pending r" for r
    by (simp add: unpinned_def step_pending_def)
  then show ?thesis
    using assms by metis
qed

text \<open>The scan serves the first offset that has a step.\<close>

lemma phase4_scan_first:
  assumes "offset \<in> set offsets"
    and "phase4_record_step ops g p ((unat (gr_next_service_slot g) + offset) mod FWLAB_C43_MAX_COMMANDS) \<noteq> None"
  obtains xs x ys g' p' n where "offsets = xs @ x # ys" and "offset \<notin> set xs"
    and "phase4_record_step ops g p ((unat (gr_next_service_slot g) + x) mod FWLAB_C43_MAX_COMMANDS) = Some (g', p', n)"
    and "phase4_scan ops g p offsets = (g'\<lparr>gr_next_service_slot :=
      of_nat (((unat (gr_next_service_slot g) + x) mod FWLAB_C43_MAX_COMMANDS + 1) mod FWLAB_C43_MAX_COMMANDS)\<rparr>, p', n, 1)"
  using assms(1)
proof (induction offsets arbitrary: thesis)
  case (Cons y offsets)
  let ?s = "\<lambda>x. (unat (gr_next_service_slot g) + x) mod FWLAB_C43_MAX_COMMANDS"
  show ?case
  proof (cases "phase4_record_step ops g p (?s y)")
    case None
    then have mem: "offset \<in> set offsets" "offset \<noteq> y"
      using Cons.prems(2) assms(2) by auto
    show ?thesis
    proof (rule Cons.IH [OF _ mem(1)])
      fix xs x ys g' p' n
      assume first: "offsets = xs @ x # ys" "offset \<notin> set xs" "phase4_record_step ops g p (?s x) = Some (g', p', n)"
        "phase4_scan ops g p offsets = (g'\<lparr>gr_next_service_slot := of_nat ((?s x + 1) mod FWLAB_C43_MAX_COMMANDS)\<rparr>, p', n, 1)"
      show ?thesis
        by (rule Cons.prems(1) [of "y # xs" x ys]) (use first None mem(2) in simp_all)
    qed
  next
    case (Some t)
    obtain g' p' n where "t = (g', p', n)"
      by (rule prod_cases3)
    then show ?thesis
      using Some Cons.prems(1) [of "[]" y offsets g' p' n] by simp
  qed
qed simp

lemma service_distance:
  fixes b d x :: nat
  assumes "b < 4" and "x < d" and "d < 4"
  shows "((((b + x) mod 4 + 1) mod 4) + (d - x - 1)) mod 4 = (b + d) mod 4"
proof -
  have "((((b + x) mod 4 + 1) mod 4) + (d - x - 1)) mod 4 = (b + x + 1 + (d - x - 1)) mod 4"
    by (simp add: mod_simps)
  then show ?thesis
    using assms(2) by simp
qed

lemma step_serves_first:
  assumes inv: "graph_inv g" and s: "s < FWLAB_C43_MAX_COMMANDS" and pend: "step_pending (graph_command g s)"
    and d: "d < FWLAB_C43_MAX_COMMANDS" "(unat (gr_next_service_slot g) + d) mod FWLAB_C43_MAX_COMMANDS = s"
    and budget: "budget \<noteq> 0" "budget \<le> 128"
  obtains x g' p' n where "x \<le> d"
    and "phase4_record_step ops g p ((unat (gr_next_service_slot g) + x) mod FWLAB_C43_MAX_COMMANDS) = Some (g', p', n)"
    and "graph_apply ops (GraphStep budget) (g, p) = (g'\<lparr>gr_next_service_slot :=
      of_nat (((unat (gr_next_service_slot g) + x) mod FWLAB_C43_MAX_COMMANDS + 1) mod FWLAB_C43_MAX_COMMANDS)\<rparr>, p')"
proof -
  have some: "phase4_record_step ops g p ((unat (gr_next_service_slot g) + d) mod FWLAB_C43_MAX_COMMANDS) \<noteq> None"
    using pending_has_step [OF pend, of ops p] d(2) by simp
  have mem: "d \<in> set [0..<FWLAB_C43_MAX_COMMANDS]"
    using d(1) by (simp del: upt_rec_numeral)
  obtain xs x ys g' p' n where first: "[0..<FWLAB_C43_MAX_COMMANDS] = xs @ x # ys" "d \<notin> set xs"
      "phase4_record_step ops g p ((unat (gr_next_service_slot g) + x) mod FWLAB_C43_MAX_COMMANDS) = Some (g', p', n)"
      "phase4_scan ops g p [0..<FWLAB_C43_MAX_COMMANDS] = (g'\<lparr>gr_next_service_slot :=
        of_nat (((unat (gr_next_service_slot g) + x) mod FWLAB_C43_MAX_COMMANDS + 1) mod FWLAB_C43_MAX_COMMANDS)\<rparr>, p', n, 1)"
    by (rule phase4_scan_first [OF mem some])
  have "x \<le> d"
  proof (rule ccontr)
    assume "\<not> x \<le> d"
    moreover have "sorted (xs @ x # ys)"
      unfolding first(1) [symmetric] by (rule sorted_upt)
    moreover have "d \<in> set (xs @ x # ys)"
      using mem unfolding first(1) .
    ultimately show False
      using first(2) by (auto simp: sorted_append)
  qed
  moreover have "gc_ordinary_progress_maximum (gr_config g) = 128"
    using inv by (simp add: graph_inv_def graph_wf_def graph_frame_ok_def fwlab_c43_graph_config_valid_def)
  moreover have "\<not> 128 < budget"
    using budget(2) by simp
  ultimately show thesis
    using that first(3,4) graph_inv_valid [OF inv] budget(1)
    by (simp add: fwlab_c43_graph_step_def c43_phase4_step_def del: upt_rec_numeral)
qed

lemma served_within:
  assumes "graph_inv g" and s: "s < FWLAB_C43_MAX_COMMANDS" and "step_pending (graph_command g s)"
    and "d < FWLAB_C43_MAX_COMMANDS" and "(unat (gr_next_service_slot g) + d) mod FWLAB_C43_MAX_COMMANDS = s"
    and budget: "budget \<noteq> 0" "budget \<le> 128"
  shows "\<exists>k\<le>d. \<exists>h q h' q' n. (graph_apply ops (GraphStep budget) ^^ k) (g, p) = (h, q) \<and>
    phase4_record_step ops h q s = Some (h', q', n) \<and>
    graph_apply ops (GraphStep budget) (h, q) = (h'\<lparr>gr_next_service_slot := of_nat ((s + 1) mod FWLAB_C43_MAX_COMMANDS)\<rparr>, q')"
  using assms(1,3,4,5)
proof (induction d arbitrary: g p rule: less_induct)
  case (less d)
  let ?b = "unat (gr_next_service_slot g)"
  obtain x g' p' n where x: "x \<le> d" and step: "phase4_record_step ops g p ((?b + x) mod FWLAB_C43_MAX_COMMANDS) = Some (g', p', n)"
    and app: "graph_apply ops (GraphStep budget) (g, p) = (g'\<lparr>gr_next_service_slot :=
      of_nat (((?b + x) mod FWLAB_C43_MAX_COMMANDS + 1) mod FWLAB_C43_MAX_COMMANDS)\<rparr>, p')"
    by (rule step_serves_first [OF less.prems(1) s less.prems(2,3,4) budget])
  show ?case
  proof (cases "x = d")
    case True
    then show ?thesis
      using step app less.prems(4) by (intro exI [of _ 0]) auto
  next
    case False
    let ?t = "(?b + x) mod FWLAB_C43_MAX_COMMANDS"
    let ?h = "g'\<lparr>gr_next_service_slot := of_nat ((?t + 1) mod FWLAB_C43_MAX_COMMANDS)\<rparr>"
    have b: "?b < 4"
      using less.prems(1) by (simp add: graph_inv_def graph_wf_def graph_frame_ok_def word_less_nat_alt)
    have lt: "x < d" "d < 4"
      using x False less.prems(3) by simp_all
    have ne: "?t \<noteq> s"
    proof
      assume "?t = s"
      then have "(?b + x) mod 4 = (?b + d) mod 4"
        using less.prems(4) by simp
      then have "(d - x) mod 4 = 0"
        using lt by (metis add_diff_cancel_left less_imp_le mod_eq_dvd_iff_nat dvd_eq_mod_eq_0 add_le_cancel_left)
      then show False
        using lt by simp
    qed
    have inv: "graph_inv ?h"
      using graph_apply_inv [of "(g, p)" ops "GraphStep budget"] less.prems(1) unfolding app by simp
    have "unpinned (graph_command ?h s) = unpinned (graph_command g s)"
      using record_step_same_but [OF step] ne by (simp add: same_but_def graph_command_def)
    then have pend: "step_pending (graph_command ?h s)"
      using pending_unpinned less.prems(2) by blast
    have dist: "(unat (gr_next_service_slot ?h) + (d - x - 1)) mod FWLAB_C43_MAX_COMMANDS = s"
      using service_distance [OF b lt] less.prems(4) by (simp add: unsigned_of_nat take_bit_nat_eq_self)
    have "\<exists>k\<le>d - x - 1. \<exists>h q h' q' n. (graph_apply ops (GraphStep budget) ^^ k) (?h, p') = (h, q) \<and>
      phase4_record_step ops h q s = Some (h', q', n) \<and>
      graph_apply ops (GraphStep budget) (h, q) = (h'\<lparr>gr_next_service_slot := of_nat ((s + 1) mod FWLAB_C43_MAX_COMMANDS)\<rparr>, q')"
      by (rule less.IH [OF _ inv pend _ dist]) (use lt in simp_all)
    then obtain k h q g2 p2 n2 where k: "k \<le> d - x - 1" "(graph_apply ops (GraphStep budget) ^^ k) (?h, p') = (h, q)"
      "phase4_record_step ops h q s = Some (g2, p2, n2)"
      "graph_apply ops (GraphStep budget) (h, q) = (g2\<lparr>gr_next_service_slot := of_nat ((s + 1) mod FWLAB_C43_MAX_COMMANDS)\<rparr>, p2)"
      by blast
    then have "(graph_apply ops (GraphStep budget) ^^ Suc k) (g, p) = (h, q)"
      using app by (simp add: funpow_swap1)
    then show ?thesis
      using k lt by (intro exI [of _ "Suc k"] conjI) auto
  qed
qed

section \<open>Reservations\<close>

lemma reserved_start:
  assumes inv: "graph_inv g" and start: "fwlab_c43_graph_prepare_start g key = (FWLAB_C43_GRAPH_OK, g', Some out)"
    and reserved: "pu_disposition out = FWLAB_HIF_PREPARE_RESERVED"
  obtains s where "reservable g s key" and "g' = reservation_store g s key"
    and "out = prepare_result_set FWLAB_HIF_PREPARE_RESERVED (Some (cr_prepared (reservation_record g key)))"
proof -
  have "FWLAB_HIF_PREPARE_BACKPRESSURE \<noteq> FWLAB_HIF_PREPARE_RESERVED"
    by simp
  then have full: "pu_disposition (prepare_result_set FWLAB_HIF_PREPARE_BACKPRESSURE None) \<noteq> FWLAB_HIF_PREPARE_RESERVED"
    by (simp add: prepare_result_set_def)
  obtain s where s: "free_slot g = Some s" and store: "g' = reservation_store g s key"
    and key: "prepare_key_structural_valid key" "pk_instance_nonce key = gc_instance_nonce (gr_config g)"
      "pk_controller_epoch key = gc_controller_epoch (gr_config g)"
    and none: "fst (existing_key_result g key) \<noteq> FWLAB_C43_GRAPH_OK" "fst (existing_key_result g key) \<noteq> FWLAB_C43_GRAPH_POISONED"
    and counters: "reservation_counters g"
    and out: "out = prepare_result_set FWLAB_HIF_PREPARE_RESERVED (Some (cr_prepared (reservation_record g key)))"
    using start reserved full unfolding fwlab_c43_graph_prepare_start_def
    by (auto simp: Let_def split: if_splits option.splits)
  show thesis
    by (rule that [OF start_reservable [OF inv s key none counters] store out])
qed

lemma existing_key_found:
  assumes "index < length rs" and "cr_in_use (rs ! index) \<noteq> 0" and "prepare_key_equal (cr_key (rs ! index)) key"
    and "\<And>j. j < index \<Longrightarrow> cr_in_use (rs ! j) \<noteq> 0 \<Longrightarrow>
      \<not> prepare_key_identity_equal (cr_key (rs ! j)) key \<and> pk_origin (cr_key (rs ! j)) \<noteq> pk_origin key"
  shows "existing_key_scan rs i key = (FWLAB_C43_GRAPH_OK, i + index)"
  using assms
proof (induction rs arbitrary: i index)
  case (Cons r rs)
  show ?case
  proof (cases index)
    case 0
    then show ?thesis
      using Cons.prems by (simp add: prepare_key_equal_def)
  next
    case (Suc n)
    have "existing_key_scan rs (i + 1) key = (FWLAB_C43_GRAPH_OK, i + 1 + n)"
      by (rule Cons.IH) (use Cons.prems Cons.prems(4) [of "Suc _"] Suc in auto)
    then show ?thesis
      using Cons.prems(4) [of 0] Suc by auto
  qed
qed simp

lemma reservation_found:
  assumes "reservable g s key"
  shows "existing_key_result (reservation_store g s key) key = (FWLAB_C43_GRAPH_OK, s)"
proof -
  note fr = reservable_frame [OF assms]
  let ?g = "reservation_store g s key"
  have cmd: "gr_commands ?g ! j = (if j = s then reservation_record g key else graph_command g j)" if "j < FWLAB_C43_MAX_COMMANDS" for j
    using reservation_fields(1) [OF fr(2) that] by (simp add: graph_command_def)
  have len: "length (gr_commands ?g) = FWLAB_C43_MAX_COMMANDS"
    using reservation_change [OF assms] by (simp add: slot_change_def graph_arrays_def)
  have "existing_key_scan (gr_commands ?g) 0 key = (FWLAB_C43_GRAPH_OK, 0 + s)"
  proof (rule existing_key_found)
    show "s < length (gr_commands ?g)" "cr_in_use (gr_commands ?g ! s) \<noteq> 0"
      using fr(3) len by (simp_all add: cmd reservation_record_fields)
    show "prepare_key_equal (cr_key (gr_commands ?g ! s)) key"
      using fr(3) by (simp add: cmd reservation_record_fields prepare_key_equal_def prepare_key_identity_equal_def prepare_key_copy_def)
    show "\<not> prepare_key_identity_equal (cr_key (gr_commands ?g ! j)) key \<and> pk_origin (cr_key (gr_commands ?g ! j)) \<noteq> pk_origin key"
      if "j < s" "cr_in_use (gr_commands ?g ! j) \<noteq> 0" for j
      using that fr(3) assms by (simp add: cmd reservable_def)
  qed
  then show ?thesis
    by (simp add: existing_key_result_def)
qed

text \<open>What was consumed stays consumed.\<close>

definition tokens_consumed :: "c43_graph \<Rightarrow> u64 \<Rightarrow> u64 \<Rightarrow> bool" where
  "tokens_consumed g command_uid transaction_uid \<longleftrightarrow>
     cursor_consumed (gr_command_uid g) (gc_command_uid (gr_config g)) command_uid \<and>
     cursor_consumed (gr_transaction_uid g) (gc_transaction_uid (gr_config g)) transaction_uid"

lemma scan_cursors:
  "phase4_scan ops g p offsets = (g', p', t, n) \<Longrightarrow> tokens_consumed g' u v = tokens_consumed g u v"
proof (induction ops g p offsets rule: phase4_scan.induct)
  case (2 ops g p offset offsets)
  let ?s = "(unat (gr_next_service_slot g) + offset) mod FWLAB_C43_MAX_COMMANDS"
  show ?case
  proof (cases "phase4_record_step ops g p ?s")
    case None
    then show ?thesis
      using 2 by (simp add: Let_def)
  next
    case (Some r)
    obtain h q m where r: "r = (h, q, m)"
      by (rule prod_cases3)
    have "same_but ?s g h"
      by (rule record_step_same_but) (use Some r in simp)
    then have "tokens_consumed (h\<lparr>gr_next_service_slot := k\<rparr>) u v = tokens_consumed g u v" for k
      unfolding tokens_consumed_def same_but_def by (simp del: mod_simps)
    then show ?thesis
      using "2.prems" Some r by (auto simp: Let_def)
  qed
qed simp

lemma apply_cursors:
  assumes "graph_inv (fst w)" and "tokens_consumed (fst w) u v"
  shows "tokens_consumed (fst (graph_apply ops e w)) u v"
proof -
  obtain g p where w: "w = (g, p)"
    by (cases w)
  show ?thesis
  proof (cases e)
    case (GraphPrepare key)
    obtain result g' out where start: "fwlab_c43_graph_prepare_start g key = (result, g', out)"
      by (rule prod_cases3)
    have "g' = g \<or> (\<exists>s. reservable g s key \<and> g' = reservation_store g s key)"
      using prepare_start_change [OF _ start] assms(1) w by auto
    then show ?thesis
      using GraphPrepare assms(2) w start
      by (auto simp: tokens_consumed_def reservation_graph reservable_def reservation_counters_def intro: cursor_take_keeps)
  next
    case (GraphAdmit prepared request)
    have "tokens_consumed (admission_store g s rq pl) u v = tokens_consumed g u v" for s rq pl
      by (simp add: tokens_consumed_def admission_store_def graph_put_def)
    then show ?thesis
      using GraphAdmit assms(2) w
      by (auto simp: fwlab_c43_graph_admit_start_def Let_def split: prod.splits sum.splits)
  next
    case (GraphStep budget)
    then show ?thesis
      using assms(2) w scan_cursors [of ops g p "[0..<FWLAB_C43_MAX_COMMANDS]"]
      by (auto simp: fwlab_c43_graph_step_def c43_phase4_step_def simp del: upt_rec_numeral split: prod.splits)
  qed
qed

lemma run_cursors:
  assumes "graph_inv (fst w)" and "tokens_consumed (fst w) u v"
  shows "tokens_consumed (fst (fold (graph_apply ops) es w)) u v"
  using assms by (induction es arbitrary: w) (simp_all add: apply_cursors graph_apply_inv)

section \<open>The queues\<close>

text \<open>The queues an authority knows, and the operations that leave them alone.\<close>

definition io_queues :: "c43_queue_authority \<Rightarrow> (u8 \<times> c43_opaque_ref) \<times> (u8 \<times> c43_opaque_ref) \<times> c43_opaque_ref" where
  "io_queues qa = ((qa_io_cq_present qa, qa_io_cq qa), (qa_io_sq_present qa, qa_io_sq qa), qa_sq_associated_cq qa)"

lemma authority_kept:
  "gr_queue_authority (graph_put g s r c) = gr_queue_authority g"
  "gr_queue_authority (queue_authority_sync g) = gr_queue_authority g"
  "gr_queue_authority (queue_store g s qx f) = gr_queue_authority g"
  "gr_queue_authority (target_store g s tx f) = gr_queue_authority g"
  "gr_queue_authority (block_store g s bt f) = gr_queue_authority g"
  "gr_queue_authority (queue_fault g s) = gr_queue_authority g"
  "gr_queue_authority (target_fault g s outcome) = gr_queue_authority g"
  "gr_queue_authority (block_fault g s) = gr_queue_authority g"
  "gr_queue_authority (block_rejected g s) = gr_queue_authority g"
  "gr_queue_authority (target_pin g t) = gr_queue_authority g"
  "gr_queue_authority (target_resolved g s tx outcome) = gr_queue_authority g"
  by (simp_all add: graph_put_def queue_authority_sync_def queue_store_def target_store_def block_store_def queue_fault_def
      target_fault_def block_fault_def block_rejected_def target_pin_def target_resolved_def Let_def)

lemma queues_kept:
  "io_queues (qa\<lparr>qa_txn_active := a, qa_owner_slot_plus_one := w\<rparr>) = io_queues qa"
  "io_queues (gr_queue_authority (queue_release_owner g s)) = io_queues (gr_queue_authority g)"
  "io_queues (gr_queue_authority (queue_resolve_no_effect g s status)) = io_queues (gr_queue_authority g)"
  by (simp_all add: queue_release_owner_def queue_resolve_no_effect_def authority_kept io_queues_def Let_def)

lemma queue_step_queues:
  "io_queues (gr_queue_authority (fst (queue_prepare_start_step ops g p s))) = io_queues (gr_queue_authority g)"
  "io_queues (gr_queue_authority (fst (queue_prepare_query_step ops g p s))) = io_queues (gr_queue_authority g)"
  "io_queues (gr_queue_authority (fst (queue_finish_start_step ops g p s))) = io_queues (gr_queue_authority g)"
  "io_queues (gr_queue_authority (fst (queue_finish_query_step ops g p s))) = io_queues (gr_queue_authority g)"
  "io_queues (gr_queue_authority (fst (queue_retire_step ops g p s))) = io_queues (gr_queue_authority g)"
  "io_queues (gr_queue_authority (queue_decide_step g s)) = io_queues (gr_queue_authority g)"
  "io_queues (gr_queue_authority (queue_apply_abort_step g s)) = io_queues (gr_queue_authority g)"
  "io_queues (gr_queue_authority (queue_begin_nq g s)) = io_queues (gr_queue_authority g)"
  "io_queues (gr_queue_authority (queue_begin_transaction g s)) = io_queues (gr_queue_authority g)"
  by (simp add: queue_prepare_start_step_def authority_kept queues_kept Let_def split: prod.splits)
    (simp add: queue_prepare_query_step_def authority_kept Let_def split: prod.splits,
     simp add: queue_finish_start_step_def authority_kept Let_def split: prod.splits,
     simp add: queue_finish_query_step_def authority_kept Let_def split: prod.splits,
     simp add: queue_retire_step_def authority_kept queues_kept Let_def split: prod.splits,
     simp add: queue_decide_step_def authority_kept Let_def split: prod.splits,
     simp add: queue_apply_abort_step_def authority_kept,
     simp add: queue_begin_nq_def authority_kept io_queues_def Let_def,
     simp add: queue_begin_transaction_def authority_kept queues_kept Let_def split: prod.splits)

lemma other_step_queues:
  "gr_queue_authority (target_begin g s) = gr_queue_authority g"
  "gr_queue_authority (fst (target_submit_step ops g p s)) = gr_queue_authority g"
  "gr_queue_authority (fst (target_query_step ops g p s)) = gr_queue_authority g"
  "gr_queue_authority (block_begin g s) = gr_queue_authority g"
  "gr_queue_authority (fst (block_submit_step ops g p s)) = gr_queue_authority g"
  "gr_queue_authority (fst (block_query_step ops g p s)) = gr_queue_authority g"
  by (simp add: target_begin_def authority_kept Let_def split: prod.splits)
    (simp add: target_submit_step_def authority_kept Let_def split: prod.splits,
     simp add: target_query_step_def authority_kept Let_def split: prod.splits option.splits,
     simp add: block_begin_def authority_kept Let_def split: prod.splits,
     simp add: block_submit_step_def authority_kept Let_def split: prod.splits,
     simp add: block_query_step_def authority_kept Let_def split: prod.splits)

text \<open>The step that changes the queues, and what it needs.\<close>

lemma record_step_queues:
  assumes "phase4_record_step ops g p s = Some (g', p', n)"
    and "io_queues (gr_queue_authority g') \<noteq> io_queues (gr_queue_authority g)"
  shows "g' = queue_apply_commit_step g s" and "qx_flow (cr_queue_txn (graph_command g s)) = C43_QUEUE_FLOW_APPLY_COMMIT"
    and "cr_in_use (graph_command g s) \<noteq> 0" and "cr_state (graph_command g s) = C43_COMMAND_RECORD_ADMITTED"
    and "pl_kind (cr_plan (graph_command g s)) \<noteq> FWLAB_C43_PLAN_ABORT_RESOLVE"
    and "pl_kind (cr_plan (graph_command g s)) \<noteq> FWLAB_C43_PLAN_BLOCK"
proof -
  have eq: "io_queues (gr_queue_authority g') = io_queues (gr_queue_authority g)"
    if "io_queues (gr_queue_authority (fst r)) = io_queues (gr_queue_authority g)" "r = (g', p', n)" for r
    using that by simp
  note kept = queue_step_queues(1-5) [where g = g and s = s and ops = ops and p = p, THEN eq]
    other_step_queues(2,3,5,6) [where g = g and s = s and ops = ops and p = p, THEN arg_cong [of _ _ io_queues], THEN eq]
  have "g' = queue_apply_commit_step g s \<and> qx_flow (cr_queue_txn (graph_command g s)) = C43_QUEUE_FLOW_APPLY_COMMIT \<and>
    cr_in_use (graph_command g s) \<noteq> 0 \<and> cr_state (graph_command g s) = C43_COMMAND_RECORD_ADMITTED \<and>
    pl_kind (cr_plan (graph_command g s)) \<noteq> FWLAB_C43_PLAN_ABORT_RESOLVE \<and>
    pl_kind (cr_plan (graph_command g s)) \<noteq> FWLAB_C43_PLAN_BLOCK"
    using assms kept queue_step_queues(6-9) [of g s] other_step_queues(1,4) [of g s]
    unfolding phase4_record_step_def target_record_step_def block_record_step_def queue_record_step_def Let_def
    by (auto split: if_splits)
  then show "g' = queue_apply_commit_step g s" and "qx_flow (cr_queue_txn (graph_command g s)) = C43_QUEUE_FLOW_APPLY_COMMIT"
    and "cr_in_use (graph_command g s) \<noteq> 0" and "cr_state (graph_command g s) = C43_COMMAND_RECORD_ADMITTED"
    and "pl_kind (cr_plan (graph_command g s)) \<noteq> FWLAB_C43_PLAN_ABORT_RESOLVE"
    and "pl_kind (cr_plan (graph_command g s)) \<noteq> FWLAB_C43_PLAN_BLOCK"
    by blast+
qed

lemma apply_commit_queues:
  assumes "io_queues (gr_queue_authority (queue_apply_commit_step g s)) \<noteq> io_queues (gr_queue_authority g)"
  shows "authority_apply (gr_queue_authority g) (pr_kind (cr_request (graph_command g s)))
      (qf_queue (qt_facts (qx_terminal (cr_queue_txn (graph_command g s))))) =
      Some (gr_queue_authority (queue_apply_commit_step g s))"
    and "queue_facts_immutable_equal (qx_prepared_facts (cr_queue_txn (graph_command g s)))
      (qt_facts (qx_terminal (cr_queue_txn (graph_command g s))))"
    and "fst (queue_facts_commit_ready g (graph_command g s) (qt_facts (qx_terminal (cr_queue_txn (graph_command g s)))))"
  using assms by (auto simp: queue_apply_commit_step_def authority_kept Let_def split: if_splits option.splits)

lemma commit_terminal:
  assumes inv: "graph_inv g" and s: "s < FWLAB_C43_MAX_COMMANDS" and used: "cr_in_use (graph_command g s) \<noteq> 0"
      "cr_state (graph_command g s) = C43_COMMAND_RECORD_ADMITTED"
    and kind: "pl_kind (cr_plan (graph_command g s)) \<noteq> FWLAB_C43_PLAN_ABORT_RESOLVE"
      "pl_kind (cr_plan (graph_command g s)) \<noteq> FWLAB_C43_PLAN_BLOCK"
    and flow: "qx_flow (cr_queue_txn (graph_command g s)) = C43_QUEUE_FLOW_APPLY_COMMIT"
  shows "owner_at (gr_queue_authority g) s"
    and "fwlab_c43_queue_effect_terminal_valid (qx_terminal (cr_queue_txn (graph_command g s)))"
    and "queue_terminal_is_commit (cr_queue_txn (graph_command g s))"
proof -
  have slot: "queue_slot g s"
    using assms by (simp add: queue_slot_def served_def)
  have "needs_owner g s"
    using queue_slot_record(2) [OF slot] flow by (simp add: queue_flow_requires_owner_def)
  then show "owner_at (gr_queue_authority g) s"
    using inv s by (simp add: graph_inv_def graph_wf_def)
  have "queue_flow_valid (cr_queue_txn (graph_command g s))"
    using queue_slot_record(1) [OF slot] flow
    by (auto simp: queue_record_valid_def queue_nq_record_valid_def Let_def split: if_splits)
  then show "fwlab_c43_queue_effect_terminal_valid (qx_terminal (cr_queue_txn (graph_command g s)))"
    and "queue_terminal_is_commit (cr_queue_txn (graph_command g s))"
    using flow by (simp_all add: queue_flow_valid_def)
qed

lemma scan_queues:
  assumes "phase4_scan ops g p offsets = (g', p', t, n)"
    and "io_queues (gr_queue_authority g') \<noteq> io_queues (gr_queue_authority g)"
  obtains s h where "s < FWLAB_C43_MAX_COMMANDS" and "phase4_record_step ops g p s = Some (h, p', t)"
    and "gr_queue_authority g' = gr_queue_authority h"
  using assms
proof (induction ops g p offsets rule: phase4_scan.induct)
  case (2 ops g p offset offsets)
  let ?s = "(unat (gr_next_service_slot g) + offset) mod FWLAB_C43_MAX_COMMANDS"
  show ?case
  proof (cases "phase4_record_step ops g p ?s")
    case None
    then show ?thesis
      using 2 by (simp add: Let_def)
  next
    case (Some r)
    obtain h q m where r: "r = (h, q, m)"
      by (rule prod_cases3)
    have scan: "g' = h\<lparr>gr_next_service_slot := of_nat ((?s + 1) mod FWLAB_C43_MAX_COMMANDS)\<rparr>" "p' = q" "t = m"
      using "2.prems"(2) Some r by (simp_all add: Let_def)
    show ?thesis
      by (rule "2.prems"(1) [of ?s h]) (use scan Some r in simp_all)
  qed
qed simp

end
