(* ===== verification/Nvme_Graph_Guarantees.thy ===== *)
theory Nvme_Graph_Guarantees
  imports Nvme_Graph_Service
begin

text \<open>
  What the command graph guarantees to its clients: it stays valid whatever the providers answer, a
  command with work to do is served within four steps, a reservation can be asked for again and its
  token is never issued twice, the queues change only after a committed queue effect, and a block
  command is never reported as successful.
\<close>

section \<open>A small graph\<close>

definition sample_seed :: "u64 \<Rightarrow> c43_counter_seed" where
  "sample_seed w = \<lparr>seed_next = w, seed_maximum = 1000\<rparr>"

definition sample_graph_config :: c43_graph_config where
  "sample_graph_config = \<lparr>gc_version = FWLAB_C43_GRAPH_VERSION, gc_size = sizeof_c43_graph_config,
     gc_reserved_header = 0, gc_profile = fwlab_nvme_profile_fixed, gc_command_capacity = 4,
     gc_actions_per_command = 8, gc_queue_mailbox_capacity = 8, gc_target_mailbox_capacity = 4,
     gc_block_mailbox_capacity = 20, gc_dma_mailbox_capacity = 0, gc_service_gap_maximum = 64,
     gc_ordinary_progress_maximum = 128, gc_control_progress_maximum = 256, gc_safety_generation = 1,
     gc_reserved_alignment = 0, gc_instance_nonce = 7, gc_controller_epoch = 1, gc_reserved0 = 0,
     gc_command_uid = sample_seed 1, gc_action_uid = sample_seed 1, gc_transaction_uid = sample_seed 5,
     gc_lease_uid = sample_seed 1, gc_consume_uid = sample_seed 1, gc_finalizer_uid = sample_seed 1,
     gc_reserved1 = [0, 0, 0, 0]\<rparr>"

definition sample_bound_port :: "u16 \<Rightarrow> nat \<Rightarrow> c43_port" where
  "sample_bound_port bytes functions = \<lparr>po_ops_present = True, po_ops_version = 1, po_ops_size = bytes,
     po_ops_reserved0 = 0, po_ops_functions = replicate functions True, po_ops_reserved1 = [0, 0],
     po_context_present = True, po_generation = 1\<rparr>"

definition sample_graph_providers :: c43_graph_providers where
  "sample_graph_providers = \<lparr>pv_version = FWLAB_C43_PROVIDER_BUNDLE_VERSION, pv_size = sizeof_c43_graph_providers,
     pv_reserved0 = 0, pv_queue = sample_bound_port sizeof_c43_queue_effect_port_ops 8,
     pv_target = sample_bound_port sizeof_c43_target_resolver_port_ops 7,
     pv_block = sample_port FWLAB_C43_BLOCK_CAP_VALIDATION_ONLY, pv_dma_generation = 1, pv_dma_bound = 0,
     pv_reserved = [0, 0, 0]\<rparr>"

definition sample_graph :: c43_graph where
  "sample_graph = the (snd (fwlab_c43_graph_init sample_graph_config sample_graph_providers))"

text \<open>A provider that is always busy.\<close>

definition busy_ops :: "unit c43_provider_ops" where
  "busy_ops = \<lparr>op_queue_prepare_start = \<lambda>p request result. (FWLAB_HIF_ACTION_BACKPRESSURE, result, p),
     op_queue_prepare_query = \<lambda>p token reply ready. (FWLAB_C43_API_IN_PROGRESS, reply, ready, p),
     op_queue_finish_start = \<lambda>p request result. (FWLAB_HIF_ACTION_BACKPRESSURE, result, p),
     op_queue_finish_query = \<lambda>p token reply ready. (FWLAB_C43_API_IN_PROGRESS, reply, ready, p),
     op_queue_retire = \<lambda>p token. (FWLAB_C43_API_IN_PROGRESS, p),
     op_target_submit = \<lambda>p request result. (FWLAB_HIF_ACTION_BACKPRESSURE, result, p),
     op_target_query = \<lambda>p token reply ready. (FWLAB_C43_API_IN_PROGRESS, reply, ready, p),
     op_block_submit = \<lambda>p request result. (FWLAB_HIF_ACTION_BACKPRESSURE, result, p),
     op_block_query = \<lambda>p token reply ready. (FWLAB_C43_API_IN_PROGRESS, reply, ready, p)\<rparr>"

definition sample_key :: "u64 \<Rightarrow> hif_prepare_key" where
  "sample_key uid = zero_hif_prepare_key\<lparr>pk_version := FWLAB_HIF_COMMAND_PORT_VERSION,
     pk_size := sizeof_hif_prepare_key, pk_origin := (uid, 0), pk_client_uid := uid, pk_instance_nonce := 7,
     pk_controller_epoch := 1, pk_client_generation := 1, pk_queue_class := ucast FWLAB_NVME_QUEUE_IO,
     pk_worst_case_actions := 8\<rparr>"

lemma sample_graph_init: "fwlab_c43_graph_init sample_graph_config sample_graph_providers = (FWLAB_C43_GRAPH_OK, Some sample_graph)"
proof -
  have "fwlab_c43_graph_config_valid sample_graph_config"
    by (simp add: fwlab_c43_graph_config_valid_def sample_graph_config_def sample_seed_def counter_seed_valid_def
        fixed_profile words_zero_def)
  moreover have "providers_valid sample_graph_providers"
    by (simp add: providers_valid_def sample_graph_providers_def sample_bound_port_def sample_port_def words_zero_def list_all_iff
        fwlab_c43_queue_effect_port_valid_def fwlab_c43_target_resolver_port_valid_def fwlab_c43_block_action_port_valid_def)
  ultimately show ?thesis
    by (simp add: sample_graph_def fwlab_c43_graph_init_def)
qed

lemmas sample_graph_facts = init_graph [OF sample_graph_init]

lemma init_cursors:
  assumes "fwlab_c43_graph_init config providers = (result, Some g)"
  shows "gr_command_uid g = counter_cursor_init (gc_command_uid config)" "gr_action_uid g = counter_cursor_init (gc_action_uid config)"
    "gr_transaction_uid g = counter_cursor_init (gc_transaction_uid config)" "gr_lease_uid g = counter_cursor_init (gc_lease_uid config)"
    "gr_consume_uid g = counter_cursor_init (gc_consume_uid config)" "gr_finalizer_uid g = counter_cursor_init (gc_finalizer_uid config)"
  using assms by (auto simp: fwlab_c43_graph_init_def split: if_splits)

lemmas sample_graph_cursors = init_cursors [OF sample_graph_init, unfolded sample_graph_config_def c43_graph_config.select_convs]

lemma sample_graph_reachable: "graph_reachable busy_ops (sample_graph, ())"
  by (rule created [OF sample_graph_init])

lemma sample_reservable: "uid \<noteq> 0 \<Longrightarrow> reservable sample_graph 0 (sample_key uid)"
  using graph_reachable_inv [OF sample_graph_reachable]
  by (simp add: reservable_def sample_graph_facts all_slots zero_c43_command_record_def c43_prepare_key_valid_def
      prepare_key_structural_valid_def sample_key_def zero_hif_prepare_key_def sample_graph_config_def origin_valid_def
      words_zero_def reservation_counters_def sample_graph_cursors cursor_can_take_def counter_cursor_init_def
      zero_c43_counter_cursor_def sample_seed_def)

lemma start_reserves:
  assumes "reservable g s key" and "free_slot g = Some s"
  shows "fwlab_c43_graph_prepare_start g key = (FWLAB_C43_GRAPH_OK, reservation_store g s key,
    Some (prepare_result_set FWLAB_HIF_PREPARE_RESERVED (Some (cr_prepared (reservation_record g key)))))"
proof -
  have key: "prepare_key_structural_valid key" "pk_instance_nonce key = gc_instance_nonce (gr_config g)"
      "pk_controller_epoch key = gc_controller_epoch (gr_config g)" "reservation_counters g"
    using assms(1) by (simp_all add: reservable_def c43_prepare_key_valid_def)
  have "existing_key_scan rs i key = (FWLAB_C43_GRAPH_STALE, FWLAB_C43_MAX_COMMANDS)"
    if "\<And>r. r \<in> set rs \<Longrightarrow> cr_in_use r \<noteq> 0 \<Longrightarrow> \<not> prepare_key_identity_equal (cr_key r) key \<and> pk_origin (cr_key r) \<noteq> pk_origin key" for rs i
    using that by (induction rs arbitrary: i) auto
  moreover have "\<not> prepare_key_identity_equal (cr_key r) key \<and> pk_origin (cr_key r) \<noteq> pk_origin key"
    if "r \<in> set (gr_commands g)" "cr_in_use r \<noteq> 0" for r
    using that assms(1) reservable_frame(2) [OF assms(1)]
    by (auto simp: reservable_def in_set_conv_nth graph_arrays_def graph_command_def)
  ultimately have "existing_key_result g key = (FWLAB_C43_GRAPH_STALE, FWLAB_C43_MAX_COMMANDS)"
    unfolding existing_key_result_def by blast
  then show ?thesis
    using key assms(2) graph_inv_valid [OF reservable_frame(1) [OF assms(1)]]
    by (simp add: fwlab_c43_graph_prepare_start_def)
qed

lemma sample_free: "free_slot sample_graph = Some 0"
  by (simp add: free_slot_def sample_graph_facts upt_rec zero_c43_command_record_def)

lemmas sample_start = start_reserves [OF sample_reservable sample_free]

section \<open>Guarantees\<close>

text \<open>
  C6. The command graph never fails its own validity test: in every state that clients and providers
  can bring about, \<open>c43_graph_valid\<close> holds, so that no later call is refused on its account.
\<close>

theorem reachable_graph_valid:
  assumes "graph_reachable ops w"
  shows "c43_graph_valid (fst w)"
  by (rule graph_inv_valid [OF graph_reachable_inv [OF assms]])

lemma sample_step: "graph_reachable busy_ops (graph_apply busy_ops (GraphPrepare (sample_key 3)) (sample_graph, ()))"
  by (rule called [OF sample_graph_reachable])

theorem reachable_graph_valid_witness:
  "c43_graph_valid (fst (graph_apply busy_ops (GraphPrepare (sample_key 3)) (sample_graph, ())))"
  using reachable_graph_valid [OF sample_step] by simp

text \<open>
  C8. Round-robin service is fair: a command with work to do is served by one of the next four steps,
  whatever the other commands and the providers do. The step that serves it applies the step of its
  flow and moves the service slot behind it.
\<close>

theorem pending_command_served:
  assumes "graph_reachable ops (g, p)" and "s < FWLAB_C43_MAX_COMMANDS" and "step_pending (graph_command g s)"
    and "budget \<noteq> 0" and "budget \<le> 128"
  shows "\<exists>k<4. \<exists>h q h' q' n. (graph_apply ops (GraphStep budget) ^^ k) (g, p) = (h, q) \<and>
    phase4_record_step ops h q s = Some (h', q', n) \<and>
    graph_apply ops (GraphStep budget) (h, q) = (h'\<lparr>gr_next_service_slot := of_nat ((s + 1) mod FWLAB_C43_MAX_COMMANDS)\<rparr>, q')"
proof -
  have inv: "graph_inv g"
    using graph_reachable_inv [OF assms(1)] by simp
  let ?b = "unat (gr_next_service_slot g)"
  have b: "?b < 4"
    using inv by (simp add: graph_inv_def graph_wf_def graph_frame_ok_def word_less_nat_alt)
  have "(?b + (s + 4 - ?b) mod 4) mod 4 = s"
  proof -
    have "(?b + (s + 4 - ?b) mod 4) mod 4 = (?b + (s + 4 - ?b)) mod 4"
      by (simp add: mod_simps)
    then show ?thesis
      using b assms(2) by simp
  qed
  then have "\<exists>k\<le>(s + 4 - ?b) mod 4. \<exists>h q h' q' n. (graph_apply ops (GraphStep budget) ^^ k) (g, p) = (h, q) \<and>
    phase4_record_step ops h q s = Some (h', q', n) \<and>
    graph_apply ops (GraphStep budget) (h, q) = (h'\<lparr>gr_next_service_slot := of_nat ((s + 1) mod FWLAB_C43_MAX_COMMANDS)\<rparr>, q')"
    by (intro served_within [OF inv assms(2,3) _ _ assms(4,5)]) simp_all
  moreover have "(s + 4 - ?b) mod 4 < 4"
    by simp
  ultimately show ?thesis
    by (meson le_less_trans)
qed

definition sample_reserved :: c43_graph where
  "sample_reserved = reservation_store sample_graph 0 (sample_key 3)"

definition sample_admitted :: c43_graph where
  "sample_admitted = fst (snd (fwlab_c43_graph_admit_start sample_reserved
     (cr_prepared (reservation_record sample_graph (sample_key 3))) (sample_request FWLAB_C43_REQUEST_READ)))"

lemma sample_reserved_start:
  "graph_apply busy_ops (GraphPrepare (sample_key 3)) (sample_graph, ()) = (sample_reserved, ())"
  using sample_start [of 3] by (simp add: sample_reserved_def)

lemma sample_admitted_start:
  "graph_apply busy_ops (GraphAdmit (cr_prepared (reservation_record sample_graph (sample_key 3))) (sample_request FWLAB_C43_REQUEST_READ))
     (sample_reserved, ()) = (sample_admitted, ())"
  by (simp add: sample_admitted_def)

lemma sample_admitted_reachable: "graph_reachable busy_ops (sample_admitted, ())"
  using called [OF called [OF sample_graph_reachable]] sample_reserved_start sample_admitted_start by metis

lemma sample_plan:
  "fwlab_c43_policy_begin fwlab_nvme_profile_fixed (sample_request FWLAB_C43_REQUEST_READ) =
     Inr (block_plan fwlab_nvme_profile_fixed (sample_request FWLAB_C43_REQUEST_READ) FWLAB_C43_BLOCK_READ 4 2048)"
proof -
  have "request_common_error (sample_request FWLAB_C43_REQUEST_READ) = None"
    by (simp add: sample_request_defs request_common_error_def request_namespace_valid_def request_data_required_def
        request_expected_queue_def)
  then show ?thesis
    using policy_read_write [OF sample_request_valid(1), of 4 FWLAB_C43_BLOCK_READ] by (simp add: sample_request_defs)
qed

lemma sample_admitted_record:
  "cr_in_use (graph_command sample_admitted 0) = 1" "cr_state (graph_command sample_admitted 0) = C43_COMMAND_RECORD_ADMITTED"
  "pl_kind (cr_plan (graph_command sample_admitted 0)) = FWLAB_C43_PLAN_BLOCK"
  "cr_block_txn (graph_command sample_admitted 0) = zero_c43_block_txn_record"
proof -
  let ?r = "reservation_record sample_graph (sample_key 3)" and ?rq = "sample_request FWLAB_C43_REQUEST_READ"
  note fr = reservable_frame [OF sample_reservable [of 3]]
  have valid: "c43_graph_valid sample_reserved"
    using graph_inv_valid [OF reservation_inv [OF sample_reservable [of 3]]] by (simp add: sample_reserved_def)
  have slot: "graph_command sample_reserved 0 = ?r" and head: "gr_commands sample_reserved = ?r # tl (gr_commands sample_reserved)"
    using fr(2) by (simp_all add: sample_reserved_def reservation_fields)
      (cases "gr_commands sample_graph", simp_all add: graph_arrays_def reservation_store_def reservation_advance_def graph_put_def Let_def)
  have config: "gr_config sample_reserved = sample_graph_config" "gr_config sample_graph = sample_graph_config"
    by (simp_all add: sample_reserved_def reservation_graph sample_graph_facts)
  have uid: "cur_next (gr_command_uid sample_graph) = 1" "cur_next (gr_transaction_uid sample_graph) = 5"
    by (simp_all add: sample_graph_cursors counter_cursor_init_def sample_seed_def)
  have found: "find_prepared_record sample_reserved (cr_prepared ?r) = (FWLAB_C43_GRAPH_OK, 0)"
    unfolding find_prepared_record_def by (subst head) (simp add: reservation_record_fields)
  have pt: "prepared_token_structural_valid (cr_prepared ?r)" "\<not> admit_stale sample_reserved (cr_prepared ?r)"
    by (simp_all add: prepared_token_structural_valid_def admit_stale_def reservation_record_fields config handle_valid_def origin_valid_def uid)
      (simp_all add: sample_graph_config_def sample_key_def)
  have match: "request_matches_prepared ?rq (cr_prepared ?r) (pk_queue_class (cr_key ?r))"
    by (simp add: request_matches_prepared_def reservation_record_fields uid config prepare_key_copy_def sample_request_defs)
      (simp add: sample_graph_config_def sample_key_def)
  have ticket: "c43_ticket_valid (admission_ticket sample_reserved ?r)"
    by (simp add: c43_ticket_valid_def admission_ticket_def reservation_record_fields config handle_valid_def origin_valid_def uid
        zero_hif_command_ticket_def) (simp add: sample_graph_config_def sample_key_def)
  have store: "sample_admitted = admission_store sample_reserved 0 ?rq (block_plan fwlab_nvme_profile_fixed ?rq FWLAB_C43_BLOCK_READ 4 2048)"
    using valid pt sample_request_valid(1) found match ticket sample_plan
    by (simp add: sample_admitted_def fwlab_c43_graph_admit_start_def slot reservation_record_fields config)
      (simp add: sample_graph_config_def)
  have "graph_arrays sample_reserved"
    using reservation_inv [OF sample_reservable [of 3]] by (simp add: sample_reserved_def graph_inv_def)
  then have "graph_command sample_admitted 0 = ?r\<lparr>cr_request := ?rq,
      cr_plan := block_plan fwlab_nvme_profile_fixed ?rq FWLAB_C43_BLOCK_READ 4 2048,
      cr_ticket := admission_ticket sample_reserved ?r, cr_state := C43_COMMAND_RECORD_ADMITTED\<rparr>"
    unfolding store by (subst admission_fields(1)) (simp_all add: slot)
  then show "cr_in_use (graph_command sample_admitted 0) = 1" "cr_state (graph_command sample_admitted 0) = C43_COMMAND_RECORD_ADMITTED"
    "pl_kind (cr_plan (graph_command sample_admitted 0)) = FWLAB_C43_PLAN_BLOCK"
    "cr_block_txn (graph_command sample_admitted 0) = zero_c43_block_txn_record"
    by (simp_all add: reservation_record_fields block_plan_def policy_plan_base_def)
qed

theorem pending_command_served_witness:
  "\<exists>k<4. \<exists>h q h' q' n. (graph_apply busy_ops (GraphStep 1) ^^ k) (sample_admitted, ()) = (h, q) \<and>
    phase4_record_step busy_ops h q 0 = Some (h', q', n) \<and>
    graph_apply busy_ops (GraphStep 1) (h, q) = (h'\<lparr>gr_next_service_slot := of_nat ((0 + 1) mod FWLAB_C43_MAX_COMMANDS)\<rparr>, q')"
  by (rule pending_command_served [OF sample_admitted_reachable])
    (simp_all add: step_pending_def sample_admitted_record zero_c43_block_txn_record_def)

text \<open>
  C20. A reservation can be asked for again: after a reservation was made, a query with its key returns
  the same result with the same token, and a second start with that key changes nothing.
\<close>

theorem reservation_is_idempotent:
  assumes "graph_reachable ops (g, p)"
    and "fwlab_c43_graph_prepare_start g key = (FWLAB_C43_GRAPH_OK, g', Some out)"
    and "pu_disposition out = FWLAB_HIF_PREPARE_RESERVED"
  shows "fwlab_c43_graph_prepare_query g' key = (FWLAB_C43_GRAPH_OK, Some out) \<and>
    fwlab_c43_graph_prepare_start g' key = (FWLAB_C43_GRAPH_IN_PROGRESS, g', None)"
proof -
  have inv: "graph_inv g"
    using graph_reachable_inv [OF assms(1)] by simp
  obtain s where s: "reservable g s key" and g': "g' = reservation_store g s key"
    and out: "out = prepare_result_set FWLAB_HIF_PREPARE_RESERVED (Some (cr_prepared (reservation_record g key)))"
    by (rule reserved_start [OF inv assms(2,3)])
  have key: "prepare_key_structural_valid key" "pk_instance_nonce key = gc_instance_nonce (gr_config g)"
      "pk_controller_epoch key = gc_controller_epoch (gr_config g)"
    using s by (simp_all add: reservable_def c43_prepare_key_valid_def)
  have slot: "graph_command g' s = reservation_record g key"
    using reservation_fields(1) [OF reservable_frame(2,3) [OF s]] g' by simp
  show ?thesis
    using key graph_inv_valid [OF reservation_inv [OF s]] reservation_found [OF s] slot
    by (simp add: fwlab_c43_graph_prepare_query_def fwlab_c43_graph_prepare_start_def g' out reservation_graph)
qed

theorem reservation_is_idempotent_witness:
  "fwlab_c43_graph_prepare_start sample_reserved (sample_key 3) = (FWLAB_C43_GRAPH_IN_PROGRESS, sample_reserved, None)"
proof -
  have "pu_disposition (prepare_result_set FWLAB_HIF_PREPARE_RESERVED (Some pt)) = FWLAB_HIF_PREPARE_RESERVED" for pt
    by (simp add: prepare_result_set_def)
  then show ?thesis
    using reservation_is_idempotent [OF sample_graph_reachable sample_start [of 3]] by (simp add: sample_reserved_def)
qed

lemma graph_run_inv: "graph_inv (fst w) \<Longrightarrow> graph_inv (fst (fold (graph_apply ops) es w))"
proof (rule graph.run_keeps)
  show "graph.run_ok ops es w"
    by (induction es arbitrary: w) simp_all
qed

text \<open>
  C19. Tokens are never issued twice: of two reservations of one graph, the later one has the larger
  command identity and the larger reservation identity, whatever happens between them.
\<close>

theorem tokens_never_reissued:
  assumes "graph_reachable ops (g, p)"
    and "fwlab_c43_graph_prepare_start g key = (FWLAB_C43_GRAPH_OK, g', Some out)"
    and "pu_disposition out = FWLAB_HIF_PREPARE_RESERVED"
    and "fold (graph_apply ops) events (g', p') = (h, q)"
    and "fwlab_c43_graph_prepare_start h key2 = (FWLAB_C43_GRAPH_OK, h', Some out2)"
    and "pu_disposition out2 = FWLAB_HIF_PREPARE_RESERVED"
  shows "cmd_command_uid (pt_handle (pu_prepared out)) < cmd_command_uid (pt_handle (pu_prepared out2)) \<and>
    pt_reservation_uid (pu_prepared out) < pt_reservation_uid (pu_prepared out2)"
proof -
  have inv: "graph_inv g"
    using graph_reachable_inv [OF assms(1)] by simp
  obtain s where s: "reservable g s key" and g': "g' = reservation_store g s key"
    and out: "out = prepare_result_set FWLAB_HIF_PREPARE_RESERVED (Some (cr_prepared (reservation_record g key)))"
    by (rule reserved_start [OF inv assms(2,3)])
  have inv': "graph_inv (fst (g', p'))"
    using reservation_inv [OF s] g' by simp
  have "graph_inv h"
    using graph_run_inv [OF inv', of ops events] assms(4) by simp
  then obtain t where t: "reservable h t key2"
    and out2: "out2 = prepare_result_set FWLAB_HIF_PREPARE_RESERVED (Some (cr_prepared (reservation_record h key2)))"
    by (rule reserved_start [OF _ assms(5,6)])
  have "tokens_consumed g' (cur_next (gr_command_uid g)) (cur_next (gr_transaction_uid g))"
    using reservation_cursors(3) [OF s] g'
    by (simp add: tokens_consumed_def identities_consumed_def reservation_record_fields reservation_graph Let_def)
  then have "tokens_consumed h (cur_next (gr_command_uid g)) (cur_next (gr_transaction_uid g))"
    using run_cursors [OF inv', of _ _ ops events] assms(4) by simp
  then have "cur_next (gr_command_uid g) < cur_next (gr_command_uid h)" "cur_next (gr_transaction_uid g) < cur_next (gr_transaction_uid h)"
    using reservable_frame(5) [OF t] cursor_consumed_below unfolding tokens_consumed_def reservation_counters_def by blast+
  then show ?thesis
    by (simp add: out out2 prepare_result_set_def reservation_record_fields)
qed

lemma sample_second_reservable: "reservable sample_reserved 1 (sample_key 4)"
proof -
  note fr = reservable_frame [OF sample_reservable [of 3]]
  have slot: "graph_command sample_reserved j = (if j = 0 then reservation_record sample_graph (sample_key 3) else zero_c43_command_record)"
    if "j < FWLAB_C43_MAX_COMMANDS" for j
    using that fr(2) by (simp add: sample_reserved_def reservation_fields sample_graph_facts)
  have inv: "graph_inv sample_reserved"
    using reservation_inv [OF sample_reservable [of 3]] by (simp add: sample_reserved_def)
  have config: "gr_config sample_reserved = sample_graph_config"
    by (simp add: sample_reserved_def reservation_graph sample_graph_facts)
  have key: "c43_prepare_key_valid sample_graph_config (sample_key 4)"
    by (simp add: c43_prepare_key_valid_def prepare_key_structural_valid_def sample_key_def zero_hif_prepare_key_def
        sample_graph_config_def origin_valid_def words_zero_def)
  have counters: "reservation_counters sample_reserved"
    by (simp add: reservation_counters_def sample_reserved_def reservation_graph sample_graph_cursors cursor_can_take_def
        cursor_take_def counter_cursor_init_def zero_c43_counter_cursor_def sample_seed_def)
  have "cr_in_use zero_c43_command_record = 0"
    by (simp add: zero_c43_command_record_def)
  then show ?thesis
    using inv key counters
    by (simp add: reservable_def all_slots slot config reservation_record_fields prepare_key_identity_equal_def prepare_key_copy_def)
      (simp add: sample_key_def)
qed

lemma sample_second_free: "free_slot sample_reserved = Some 1"
proof -
  have "graph_command sample_reserved 0 = reservation_record sample_graph (sample_key 3)"
    using reservable_frame(2) [OF sample_reservable [of 3]] by (simp add: sample_reserved_def reservation_fields)
  then show ?thesis
    using sample_second_reservable by (simp add: free_slot_def upt_rec reservation_record_fields reservable_def)
qed

theorem tokens_never_reissued_witness:
  "cmd_command_uid (pt_handle (cr_prepared (reservation_record sample_graph (sample_key 3)))) <
   cmd_command_uid (pt_handle (cr_prepared (reservation_record sample_reserved (sample_key 4))))"
proof -
  have reserved: "pu_disposition (prepare_result_set FWLAB_HIF_PREPARE_RESERVED (Some pt)) = FWLAB_HIF_PREPARE_RESERVED"
      "pu_prepared (prepare_result_set FWLAB_HIF_PREPARE_RESERVED (Some pt)) = pt" for pt
    by (simp_all add: prepare_result_set_def)
  have run: "fold (graph_apply busy_ops) [] (reservation_store sample_graph 0 (sample_key 3), ()) = (sample_reserved, ())"
    by (simp add: sample_reserved_def)
  show ?thesis
    using tokens_never_reissued [OF sample_graph_reachable sample_start [of 3] reserved(1) run
      start_reserves [OF sample_second_reservable sample_second_free] reserved(1)]
    by (simp add: reserved(2))
qed

text \<open>
  C7. The queues the graph knows change only by a committed effect: a step leaves them as they are,
  or applies to the authority exactly the effect of the one command that owns the queue transaction,
  for which the provider gave a valid terminal that is committed, or too late to be aborted, with the
  facts it had prepared, and the facts permit the change.
\<close>

theorem queues_change_only_on_commit:
  assumes "graph_reachable ops (g, p)" and "fwlab_c43_graph_step ops g p budget = (result, g', p', out)"
  shows "io_queues (gr_queue_authority g') = io_queues (gr_queue_authority g) \<or>
    (\<exists>s<FWLAB_C43_MAX_COMMANDS. let r = graph_command g s; qx = cr_queue_txn r; facts = qt_facts (qx_terminal qx)
      in owner_at (gr_queue_authority g) s \<and> fwlab_c43_queue_effect_terminal_valid (qx_terminal qx) \<and>
         queue_terminal_is_commit qx \<and> queue_facts_immutable_equal (qx_prepared_facts qx) facts \<and>
         fst (queue_facts_commit_ready g r facts) \<and>
         authority_apply (gr_queue_authority g) (pr_kind (cr_request r)) (qf_queue facts) = Some (gr_queue_authority g'))"
proof (cases "io_queues (gr_queue_authority g') = io_queues (gr_queue_authority g)")
  case False
  have inv: "graph_inv g"
    using graph_reachable_inv [OF assms(1)] by simp
  obtain t n where scan: "phase4_scan ops g p [0..<FWLAB_C43_MAX_COMMANDS] = (g', p', t, n)"
    using assms(2) False
    by (auto simp: fwlab_c43_graph_step_def c43_phase4_step_def simp del: upt_rec_numeral split: if_splits prod.splits)
  obtain s h where s: "s < FWLAB_C43_MAX_COMMANDS" and step: "phase4_record_step ops g p s = Some (h, p', t)"
    and h: "gr_queue_authority g' = gr_queue_authority h"
    by (rule scan_queues [OF scan False])
  have changed: "io_queues (gr_queue_authority h) \<noteq> io_queues (gr_queue_authority g)"
    using False h by simp
  note commit = record_step_queues [OF step changed]
  note applied = apply_commit_queues [OF changed [unfolded commit(1)]]
  note terminal = commit_terminal [OF inv s commit(3,4,5,6,2)]
  show ?thesis
    using s applied terminal by (auto simp: Let_def h commit(1))
qed simp

theorem queues_change_only_on_commit_witness:
  "io_queues (gr_queue_authority (fst (snd (fwlab_c43_graph_step busy_ops sample_admitted () 1)))) =
     io_queues (gr_queue_authority sample_admitted) \<or>
   (\<exists>s<FWLAB_C43_MAX_COMMANDS. owner_at (gr_queue_authority sample_admitted) s)"
  using queues_change_only_on_commit [OF sample_admitted_reachable, of 1]
  by (cases "fwlab_c43_graph_step busy_ops sample_admitted () 1") (auto simp: Let_def)

text \<open>
  C21. A block command is never eligible for success: this graph is bound to a provider that only
  validates, so that for a read, write or flush the observer never shows the command as
  success-eligible and never shows any witness but that of the validation as satisfied. (The resolved
  status of a validated command may still read as success.)
\<close>

theorem block_never_success_eligible:
  assumes "graph_reachable ops (g, p)" and "s < FWLAB_C43_MAX_COMMANDS" and "cr_in_use (graph_command g s) \<noteq> 0"
    and "cr_state (graph_command g s) = C43_COMMAND_RECORD_ADMITTED"
    and "pl_kind (cr_plan (graph_command g s)) = FWLAB_C43_PLAN_BLOCK"
  shows "co_success_eligible (graph_observed g s) = 0 \<and>
    co_satisfied_witness_mask (graph_observed g s) AND NOT FWLAB_C43_WITNESS_VALIDATED_ONLY = 0"
proof -
  have slot: "block_slot g s"
    using graph_reachable_inv [OF assms(1)] assms by (simp add: block_slot_def served_def)
  then have srv: "served g s"
    by (simp add: block_slot_def)
  have entry: "entry_ok (gr_observer g) s (graph_observed g s)"
    by (rule served_entry(1) [OF srv])
  show ?thesis
  proof (cases "bt_flow (cr_block_txn (graph_command g s)) = C43_BLOCK_FLOW_NONE")
    case True
    then have "co_action_domain (graph_observed g s) = FWLAB_C43_ACTION_DOMAIN_NONE"
      using block_slot_record(1) [OF slot] by (simp add: block_record_valid_def record_idle_observed_def)
    then have "co_phase (graph_observed g s) = FWLAB_C43_PHASE_ADMITTED_POLICY"
      using served_slot(4) [OF srv] by (simp add: phase_promise_def)
    then show ?thesis
      using entry by (simp add: entry_ok_def observer_command_in_use_def Let_def)
  next
    case False
    then have "co_action_domain (graph_observed g s) = FWLAB_C43_ACTION_DOMAIN_BLOCK"
      using block_slot_record(1) [OF slot] by (simp add: block_record_valid_def block_record_common_def Let_def)
    then show ?thesis
      using entry by (simp add: entry_ok_def block_public_command_valid_def split: if_splits)
  qed
qed

theorem block_never_success_eligible_witness:
  "co_success_eligible (graph_observed sample_admitted 0) = 0"
  using block_never_success_eligible [OF sample_admitted_reachable, of 0] by (simp add: sample_admitted_record)

end
