(* ===== verification/Scale_Types.thy ===== *)
theory Scale_Types
  imports M3p_State
begin

text \<open>
  Data of the scaled flash translation layer (\<open>core/ftl-scale\<close>): the constants and structures of
  \<open>ftl_scale_internal.h\<close>, \<open>ftl_scale_heads.h\<close> and \<open>ftl_scale.h\<close> that the mapping, the allocation
  heads and the layout use. A \<open>uint32_t\<close> that counts or numbers blocks, pages or heap slots is a
  natural number below \<open>2 ^ 32\<close>, with \<open>SF_NONE\<close> the largest of them; where the sources compute with
  such a number and the result could leave the range, it is reduced by \<open>w32\<close>. The 16-bit page
  counters are natural numbers in the same way (\<open>w16\<close>). Sequence numbers, identities and the
  8-bit state codes are words. \<open>struct fwlab_ftl_scale\<close> is the part of that structure which these
  files read or write.
\<close>

section \<open>Constants\<close>

definition w32 :: "nat \<Rightarrow> nat" where
  "w32 n = n mod 4294967296"

definition w16 :: "nat \<Rightarrow> nat" where
  "w16 n = n mod 65536"

lemma w32_small [simp]: "n < 4294967296 \<Longrightarrow> w32 n = n"
  by (simp add: w32_def)

lemma w16_small [simp]: "n < 65536 \<Longrightarrow> w16 n = n"
  by (simp add: w16_def)

lemma w32_pred: "0 < n \<Longrightarrow> n < 4294967296 \<Longrightarrow> w32 (n + 4294967295) = n - 1"
  by (cases n) (simp_all add: w32_def)

lemma w16_pred: "0 < n \<Longrightarrow> n < 65536 \<Longrightarrow> w16 (n + 65535) = n - 1"
  by (cases n) (simp_all add: w16_def)

abbreviation (input) SF_NONE :: nat where "SF_NONE \<equiv> 4294967295"
abbreviation (input) SF_HEAP_NONE :: nat where "SF_HEAP_NONE \<equiv> 4294967295"
abbreviation (input) UINT64_MAX :: u64 where "UINT64_MAX \<equiv> 0xFFFFFFFFFFFFFFFF"

abbreviation (input) SF_FORMAT_VERSION :: u16 where "SF_FORMAT_VERSION \<equiv> 1"
abbreviation (input) SF_WINDOW_FORMAT_VERSION :: u16 where "SF_WINDOW_FORMAT_VERSION \<equiv> 2"
abbreviation (input) SF_MULTIHEAD_FORMAT_VERSION :: u16 where "SF_MULTIHEAD_FORMAT_VERSION \<equiv> 3"
abbreviation (input) SF_HEAD_DOMAINS :: nat where "SF_HEAD_DOMAINS \<equiv> 4"
abbreviation (input) SF_MAX_HOST_DELTAS :: nat where "SF_MAX_HOST_DELTAS \<equiv> 3"
abbreviation (input) SF_MAX_DELTAS :: nat where "SF_MAX_DELTAS \<equiv> 64"

abbreviation (input) SF_UNMAPPED :: u8 where "SF_UNMAPPED \<equiv> 0"
abbreviation (input) SF_VALUE :: u8 where "SF_VALUE \<equiv> 1"
abbreviation (input) SF_TOMBSTONE :: u8 where "SF_TOMBSTONE \<equiv> 2"

abbreviation (input) SF_META :: u8 where "SF_META \<equiv> 1"
abbreviation (input) SF_FREE :: u8 where "SF_FREE \<equiv> 2"
abbreviation (input) SF_HOST_OPEN :: u8 where "SF_HOST_OPEN \<equiv> 3"
abbreviation (input) SF_GC_DEST :: u8 where "SF_GC_DEST \<equiv> 4"
abbreviation (input) SF_CLOSED :: u8 where "SF_CLOSED \<equiv> 5"
abbreviation (input) SF_RECLAIM_PENDING :: u8 where "SF_RECLAIM_PENDING \<equiv> 6"
abbreviation (input) SF_BAD :: u8 where "SF_BAD \<equiv> 7"

abbreviation (input) SF_OPEN_HOST :: u8 where "SF_OPEN_HOST \<equiv> 1"
abbreviation (input) SF_OPEN_GC_DEST :: u8 where "SF_OPEN_GC_DEST \<equiv> 2"
abbreviation (input) SF_CLOSE :: u8 where "SF_CLOSE \<equiv> 3"
abbreviation (input) SF_MAP_GROUP :: u8 where "SF_MAP_GROUP \<equiv> 4"
abbreviation (input) SF_GC_COMMIT :: u8 where "SF_GC_COMMIT \<equiv> 5"
abbreviation (input) SF_ERASE_INTENT :: u8 where "SF_ERASE_INTENT \<equiv> 6"
abbreviation (input) SF_ERASE_DONE :: u8 where "SF_ERASE_DONE \<equiv> 7"
abbreviation (input) SF_MAP_WINDOW :: u8 where "SF_MAP_WINDOW \<equiv> 8"

abbreviation (input) SF_BLOCK_GOOD :: u8 where "SF_BLOCK_GOOD \<equiv> 0"
abbreviation (input) SF_BLOCK_RUNTIME_BAD :: u8 where "SF_BLOCK_RUNTIME_BAD \<equiv> 2"

section \<open>Structures\<close>

record sf_map_entry =
  sm_ppa :: nat
  sm_erase_generation :: u16
  sm_valid_mask :: u8
  sm_state :: u8
  sm_data_uid :: u64

record sf_block_disk =
  sd_block_uid :: u64
  sd_erase_generation :: u16
  sd_allocation_end :: nat
  sd_role :: u8
  sd_health :: u8
  sd_flags :: u16

record sf_block =
  sb_disk :: sf_block_disk
  sb_free_heap_pos :: nat
  sb_victim_heap_pos :: nat
  sb_wear :: nat
  sb_live_pages :: nat
  sb_reserved_pages :: nat

record sf_delta =
  sx_lpn :: nat
  sx_reserved :: u32
  sx_before :: sf_map_entry
  sx_after :: sf_map_entry

record sf_layout =
  sl_geometry :: nfc_geometry
  sl_lba_count :: nat
  sl_lpn_count :: nat
  sl_physical_pages :: nat
  sl_physical_blocks :: nat
  sl_cp_map_pages :: nat
  sl_cp_block_pages :: nat
  sl_cp_blocks :: nat
  sl_journal_slots :: nat
  sl_journal_blocks :: nat
  sl_cp_base :: "nat list"
  sl_journal_base :: "nat list list"
  sl_data_first_block :: nat

record sf_root =
  sr_layout :: sf_layout
  sr_generation :: u64
  sr_disk_format :: u16

record sf_record =
  sj_epoch :: u64
  sj_sequence :: u64
  sj_predecessor :: u64
  sj_before_map_seq :: u64
  sj_after_map_seq :: u64
  sj_durable_frontier :: u64
  sj_block_uid :: u64
  sj_other_block_uid :: u64
  sj_intent_sequence :: u64
  sj_block :: nat
  sj_other_block :: nat
  sj_erase_generation :: u16
  sj_final_erase_generation :: u16
  sj_count :: nat
  sj_kind :: u8
  sj_health :: u8
  sj_delta :: "sf_delta list"

record sf_head_domain_index =
  hd_head :: nat
  hd_heap_offset :: nat
  hd_heap_capacity :: nat
  hd_free_count :: nat

record sf_heads =
  hs_domain :: "sf_head_domain_index list"
  hs_count :: nat
  hs_per_channel :: nat
  hs_gc_destination :: nat

record sf_head_span =
  sp_block_uid :: u64
  sp_domain :: nat
  sp_block :: nat
  sp_first_ppa :: nat
  sp_page_count :: nat
  sp_erase_generation :: u16
  sp_reservation_end :: nat
  sp_reserved :: u16

record ftl_scale =
  sf_geometry :: nfc_geometry
  sf_root :: sf_root
  sf_map :: "sf_map_entry list"
  sf_blocks :: "sf_block list"
  sf_validity :: bytes
  sf_free_heap :: "nat list"
  sf_victim_heap :: "nat list"
  sf_free_count :: nat
  sf_victim_count :: nat
  sf_host_head :: nat
  sf_heads :: sf_heads
  sf_physical_blocks :: nat
  sf_physical_pages :: nat
  sf_disk_format :: u16
  sf_record_sequence :: u64
  sf_map_sequence :: u64
  sf_durable_frontier :: u64
  sf_next_block_uid :: u64
  sf_erase_intent_sequence :: u64
  sf_erase_intent_block :: nat
  sf_garbage_collections :: u64

section \<open>Shorthands for the fields the code reads most\<close>

definition sf_ppb :: "ftl_scale \<Rightarrow> nat" where
  "sf_ppb f = unat (g_pages_per_block (sf_geometry f))"

definition sf_data_first :: "ftl_scale \<Rightarrow> nat" where
  "sf_data_first f = sl_data_first_block (sr_layout (sf_root f))"

definition sf_lpn_count :: "ftl_scale \<Rightarrow> nat" where
  "sf_lpn_count f = sl_lpn_count (sr_layout (sf_root f))"

text \<open>\<open>f->blocks[b]\<close>, \<open>f->blocks[b].disk\<close> and writes to them.\<close>

definition sf_block_at :: "ftl_scale \<Rightarrow> nat \<Rightarrow> sf_block" where
  "sf_block_at f b = sf_blocks f ! b"

abbreviation sf_disk :: "ftl_scale \<Rightarrow> nat \<Rightarrow> sf_block_disk" where
  "sf_disk f b \<equiv> sb_disk (sf_block_at f b)"

definition sf_block_put :: "nat \<Rightarrow> (sf_block \<Rightarrow> sf_block) \<Rightarrow> ftl_scale \<Rightarrow> ftl_scale" where
  "sf_block_put b u f = f\<lparr>sf_blocks := (sf_blocks f)[b := u (sf_blocks f ! b)]\<rparr>"

definition sf_disk_put :: "nat \<Rightarrow> (sf_block_disk \<Rightarrow> sf_block_disk) \<Rightarrow> ftl_scale \<Rightarrow> ftl_scale" where
  "sf_disk_put b u = sf_block_put b (\<lambda>x. x\<lparr>sb_disk := u (sb_disk x)\<rparr>)"

definition sf_domain_put :: "nat \<Rightarrow> (sf_head_domain_index \<Rightarrow> sf_head_domain_index) \<Rightarrow> ftl_scale \<Rightarrow> ftl_scale" where
  "sf_domain_put d u f = f\<lparr>sf_heads := (sf_heads f)\<lparr>hs_domain := (hs_domain (sf_heads f))[d := u (hs_domain (sf_heads f) ! d)]\<rparr>\<rparr>"

definition sf_domain_at :: "ftl_scale \<Rightarrow> nat \<Rightarrow> sf_head_domain_index" where
  "sf_domain_at f d = hs_domain (sf_heads f) ! d"

definition zero_domain_index :: sf_head_domain_index where
  "zero_domain_index = \<lparr>hd_head = 0, hd_heap_offset = 0, hd_heap_capacity = 0, hd_free_count = 0\<rparr>"

lemma sf_block_at_put:
  "sf_block_at (sf_block_put b u f) c =
     (if c = b \<and> b < length (sf_blocks f) then u (sf_block_at f b) else sf_block_at f c)"
  by (auto simp: sf_block_at_def sf_block_put_def list_update_beyond nth_list_update)

lemma sf_domain_at_put:
  "sf_domain_at (sf_domain_put d u f) e =
     (if e = d \<and> d < length (hs_domain (sf_heads f)) then u (sf_domain_at f d) else sf_domain_at f e)"
  by (auto simp: sf_domain_at_def sf_domain_put_def list_update_beyond nth_list_update)

end
