(* ===== verification/Scale_Heads.thy ===== *)
theory Scale_Heads
  imports Scale_Types
begin

text \<open>
  Geometry and layout (\<open>sf_geometry_counts\<close> and \<open>sf_layout_make\<close> of \<open>core/ftl-scale/ftl_scale_codec.c\<close>)
  and the allocation heads of \<open>ftl_scale_heads.c\<close>: the domains of a volume, the open block of each
  domain, and the reservation of pages at its tail. A function that fails and may have written its
  output returns the truth value beside the new state.
\<close>

section \<open>Geometry and layout\<close>

definition sf_format_windowed :: "u16 \<Rightarrow> bool" where
  "sf_format_windowed format \<longleftrightarrow> format = SF_WINDOW_FORMAT_VERSION \<or> format = SF_MULTIHEAD_FORMAT_VERSION"

definition sf_multihead :: "ftl_scale \<Rightarrow> bool" where
  "sf_multihead f \<longleftrightarrow> sf_disk_format f = SF_MULTIHEAD_FORMAT_VERSION"

text \<open>The number of blocks and of pages, or \<open>None\<close> where the C function answers false.\<close>

definition sf_geometry_counts :: "nfc_geometry \<Rightarrow> (nat \<times> nat) option" where
  "sf_geometry_counts g =
     (if g_version g \<noteq> 1 \<or> g_size g \<noteq> 36 \<or> g_channels g = 0 \<or> g_channels g > 4 \<or>
         g_luns_per_channel g = 0 \<or> g_luns_per_channel g > 4 \<or> g_planes_per_lun g = 0 \<or>
         g_planes_per_lun g > 4 \<or> g_blocks_per_plane g = 0 \<or>
         (g_pages_per_block g \<noteq> 32 \<and> g_pages_per_block g \<noteq> 64) \<or>
         g_plane_parallelism_per_lun g = 0 \<or> g_plane_parallelism_per_lun g > g_planes_per_lun g \<or>
         g_main_bytes_per_page g \<noteq> 4096 \<or> g_oob_bytes_per_page g \<noteq> 128 \<or>
         g_max_programs_per_erase g \<noteq> 1 \<or> g_program_order g \<noteq> 1 \<or>
         g_reserved0 g \<noteq> 0 \<or> g_reserved1 g ! 0 \<noteq> 0 \<or> g_reserved1 g ! 1 \<noteq> 0
      then None
      else let n = unat (g_channels g) * unat (g_luns_per_channel g) * unat (g_planes_per_lun g) * unat (g_blocks_per_plane g)
        in if n > 4294967295 \<or> n > 4294967295 div unat (g_pages_per_block g) then None
           else Some (w32 n, w32 (n * unat (g_pages_per_block g))))"

text \<open>
  The layout of a volume of \<open>lbas\<close> sectors: two root blocks, two checkpoint banks, two banks of two
  journal rails, and the data blocks after them.
\<close>

definition sf_layout_make :: "nfc_geometry \<Rightarrow> nat \<Rightarrow> sf_layout option" where
  "sf_layout_make g lbas =
     (case sf_geometry_counts g of None \<Rightarrow> None
      | Some (blocks, pages) \<Rightarrow>
        if lbas = 0 \<or> lbas mod 8 \<noteq> 0 \<or> lbas div 8 > 4294967295 then None
        else let ppb = unat (g_pages_per_block g);
                 lpns = w32 (lbas div 8);
                 cp_map = w32 ((lpns + 255) div 256);
                 cp_block = w32 ((blocks + 255) div 256);
                 cp_blocks = w32 ((cp_map + cp_block + ppb - 1) div ppb);
                 slots = (let s = min (lpns div 64) 65536 in if s < 2 * ppb then 2 * ppb else s);
                 journal_blocks = w32 ((slots + ppb - 1) div ppb);
                 base = 2 + 2 * cp_blocks;
                 first = base + 4 * journal_blocks
          in if first + 2 \<ge> blocks \<or> lpns > (blocks - first - 2) * (ppb - 3) then None
             else Some \<lparr>sl_geometry = g, sl_lba_count = lbas, sl_lpn_count = lpns,
               sl_physical_pages = pages, sl_physical_blocks = blocks, sl_cp_map_pages = cp_map,
               sl_cp_block_pages = cp_block, sl_cp_blocks = cp_blocks, sl_journal_slots = w32 slots,
               sl_journal_blocks = journal_blocks,
               sl_cp_base = [2, w32 (2 + cp_blocks)],
               sl_journal_base = [[w32 base, w32 (base + journal_blocks)],
                 [w32 (base + 2 * journal_blocks), w32 (base + 3 * journal_blocks)]],
               sl_data_first_block = w32 first\<rparr>)"

section \<open>Head domains\<close>

text \<open>The loop of \<open>sf_heads_init\<close>: the heap segments of the domains and the end of the last one.\<close>

definition sf_domain_capacity :: "nfc_geometry \<Rightarrow> nat \<Rightarrow> nat \<Rightarrow> nat" where
  "sf_domain_capacity g per_channel d =
     (1 + (unat (g_luns_per_channel g) - 1 - d mod per_channel) div per_channel) *
       unat (g_planes_per_lun g) * unat (g_blocks_per_plane g)"

fun sf_domain_segments :: "nfc_geometry \<Rightarrow> nat \<Rightarrow> nat list \<Rightarrow> nat \<Rightarrow> sf_head_domain_index list \<times> nat" where
  "sf_domain_segments g pc [] offset = ([], offset)"
| "sf_domain_segments g pc (d # ds) offset =
     (let capacity = sf_domain_capacity g pc d;
          rest = sf_domain_segments g pc ds (w32 (offset + capacity))
      in (\<lparr>hd_head = SF_NONE, hd_heap_offset = offset, hd_heap_capacity = capacity, hd_free_count = 0\<rparr> # fst rest,
          snd rest))"

definition sf_heads_init :: "ftl_scale \<Rightarrow> bool \<times> ftl_scale" where
  "sf_heads_init f =
     (if sf_geometry_counts (sf_geometry f) \<noteq> Some (sf_physical_blocks f, sf_physical_pages f) \<or>
         (sf_disk_format f \<noteq> SF_FORMAT_VERSION \<and> \<not> sf_format_windowed (sf_disk_format f)) then (False, f)
      else let g = sf_geometry f; idle = zero_domain_index\<lparr>hd_head := SF_NONE\<rparr>
        in if \<not> sf_multihead f
           then (True, f\<lparr>sf_heads := \<lparr>hs_domain = (replicate SF_HEAD_DOMAINS idle)[0 := idle\<lparr>hd_heap_capacity := sf_physical_blocks f\<rparr>],
               hs_count = 1, hs_per_channel = 1, hs_gc_destination = SF_NONE\<rparr>\<rparr>)
           else let pc = min (SF_HEAD_DOMAINS div unat (g_channels g)) (unat (g_luns_per_channel g));
                    count = unat (g_channels g) * pc;
                    segments = sf_domain_segments g pc [0..<count] 0
             in (snd segments = sf_physical_blocks f,
                 f\<lparr>sf_heads := \<lparr>hs_domain = fst segments @ replicate (SF_HEAD_DOMAINS - count) idle,
                   hs_count = count, hs_per_channel = pc, hs_gc_destination = SF_NONE\<rparr>\<rparr>))"

definition sf_head_domain :: "ftl_scale \<Rightarrow> nat \<Rightarrow> nat" where
  "sf_head_domain f block =
     (if block \<ge> sf_physical_blocks f \<or> hs_count (sf_heads f) = 0 then SF_NONE
      else if \<not> sf_multihead f then 0
      else let g = sf_geometry f;
               linear_lun = block div (unat (g_planes_per_lun g) * unat (g_blocks_per_plane g));
               channel = linear_lun div unat (g_luns_per_channel g);
               lun = linear_lun mod unat (g_luns_per_channel g)
        in channel * hs_per_channel (sf_heads f) + lun mod hs_per_channel (sf_heads f))"

definition sf_head_first :: "ftl_scale \<Rightarrow> nat" where
  "sf_head_first f =
     (if \<not> sf_multihead f then sf_host_head f
      else case find (\<lambda>d. hd_head (sf_domain_at f d) \<noteq> SF_NONE) [0..<hs_count (sf_heads f)] of
             None \<Rightarrow> SF_NONE | Some d \<Rightarrow> hd_head (sf_domain_at f d))"

definition sf_heads_empty :: "ftl_scale \<Rightarrow> bool" where
  "sf_heads_empty f \<longleftrightarrow> sf_head_first f = SF_NONE"

definition sf_heads_unreserved :: "ftl_scale \<Rightarrow> bool" where
  "sf_heads_unreserved f \<longleftrightarrow>
     (if \<not> sf_multihead f
      then sf_host_head f = SF_NONE \<or> sb_reserved_pages (sf_block_at f (sf_host_head f)) = 0
      else list_all (\<lambda>d. hd_head (sf_domain_at f d) = SF_NONE \<or>
             sb_reserved_pages (sf_block_at f (hd_head (sf_domain_at f d))) = 0) [0..<hs_count (sf_heads f)])"

definition sf_head_tail :: "ftl_scale \<Rightarrow> nat \<Rightarrow> nat" where
  "sf_head_tail f domain =
     (if domain \<ge> hs_count (sf_heads f) then 0
      else let block = (if sf_multihead f then hd_head (sf_domain_at f domain) else sf_host_head f)
        in if block = SF_NONE \<or> block \<ge> sf_physical_blocks f then 0
           else let b = sf_block_at f block; ppb = sf_ppb f
             in if sd_role (sb_disk b) \<noteq> SF_HOST_OPEN \<or> sd_health (sb_disk b) \<noteq> SF_BLOCK_GOOD \<or>
                   sb_reserved_pages b \<noteq> 0 \<or> sd_allocation_end (sb_disk b) > ppb then 0
                else ppb - sd_allocation_end (sb_disk b))"

text \<open>The domain to write next and whether its head has to be opened first.\<close>

definition sf_head_select :: "ftl_scale \<Rightarrow> u32 \<Rightarrow> nat \<Rightarrow> nat \<times> bool" where
  "sf_head_select f excluded preferred =
     (if \<not> sf_multihead f \<or> hs_count (sf_heads f) = 0 \<or> hs_gc_destination (sf_heads f) \<noteq> SF_NONE
      then (SF_NONE, False)
      else let count = hs_count (sf_heads f);
               openable = (\<lambda>d. hd_head (sf_domain_at f d) = SF_NONE \<and> sf_free_count f > 1 \<and>
                  hd_free_count (sf_domain_at f d) \<noteq> 0)
        in case find (\<lambda>d. \<not> bit excluded d \<and> (sf_head_tail f d \<noteq> 0 \<or> openable d))
                  (map (\<lambda>n. (preferred mod count + n) mod count) [0..<count]) of
             None \<Rightarrow> (SF_NONE, False) | Some d \<Rightarrow> (d, sf_head_tail f d = 0))"

definition sf_head_reserve :: "ftl_scale \<Rightarrow> nat \<Rightarrow> nat \<Rightarrow> (ftl_scale \<times> sf_head_span) option" where
  "sf_head_reserve f domain pages =
     (if \<not> sf_multihead f \<or> pages = 0 \<or> pages > sf_head_tail f domain then None
      else let b = hd_head (sf_domain_at f domain); d = sf_disk f b; ppb = sf_ppb f
        in if sd_block_uid d = 0 \<or> unat (sd_block_uid d) > (18446744073709551615 - (ppb - 1)) div ppb then None
           else Some (sf_block_put b (\<lambda>x. x\<lparr>sb_reserved_pages := pages\<rparr>) f,
             \<lparr>sp_block_uid = sd_block_uid d, sp_domain = domain, sp_block = b,
              sp_first_ppa = w32 (b * ppb + sd_allocation_end d), sp_page_count = pages,
              sp_erase_generation = sd_erase_generation d,
              sp_reservation_end = w16 (sd_allocation_end d + pages), sp_reserved = 0\<rparr>))"

definition sf_head_unreserve :: "ftl_scale \<Rightarrow> sf_head_span \<Rightarrow> ftl_scale option" where
  "sf_head_unreserve f span =
     (if \<not> sf_multihead f \<or> sp_reserved span \<noteq> 0 \<or> sp_page_count span = 0 \<or>
         sp_domain span \<ge> hs_count (sf_heads f) \<or> sp_block span \<ge> sf_physical_blocks f \<or>
         hd_head (sf_domain_at f (sp_domain span)) \<noteq> sp_block span then None
      else let x = sf_block_at f (sp_block span); d = sb_disk x; ppb = sf_ppb f
        in if sd_role d \<noteq> SF_HOST_OPEN \<or> sd_block_uid d \<noteq> sp_block_uid span \<or>
              sd_erase_generation d \<noteq> sp_erase_generation span \<or>
              sp_first_ppa span \<noteq> w32 (sp_block span * ppb + sd_allocation_end d) \<or>
              sb_reserved_pages x \<noteq> sp_page_count span \<or>
              sp_reservation_end span \<noteq> sd_allocation_end d + sp_page_count span \<or>
              sp_reservation_end span > ppb then None
           else Some (sf_block_put (sp_block span) (\<lambda>x. x\<lparr>sb_reserved_pages := 0\<rparr>) f))"

end
