(* ===== verification/Scale_Mapping.thy ===== *)
theory Scale_Mapping
  imports Scale_Heads
begin

text \<open>
  The mapping of the scaled translation layer, \<open>core/ftl-scale/ftl_scale_mapping.c\<close>: the indexed
  heaps of free and of victim blocks, the validity bitmap, the rebuild of all indexes from the
  persistent map and block facts, and the one routine that validates a journal record and applies
  it. A heap is a segment of an array that starts at \<open>off\<close>; the position of a block in its heap is
  stored with the block.
\<close>

section \<open>Indexed heaps\<close>

definition heap_array :: "bool \<Rightarrow> ftl_scale \<Rightarrow> nat list" where
  "heap_array victim f = (if victim then sf_victim_heap f else sf_free_heap f)"

definition heap_put :: "bool \<Rightarrow> nat \<Rightarrow> nat \<Rightarrow> ftl_scale \<Rightarrow> ftl_scale" where
  "heap_put victim i b f =
     (if victim then f\<lparr>sf_victim_heap := (sf_victim_heap f)[i := b]\<rparr>
      else f\<lparr>sf_free_heap := (sf_free_heap f)[i := b]\<rparr>)"

definition heap_position :: "ftl_scale \<Rightarrow> nat \<Rightarrow> bool \<Rightarrow> nat" where
  "heap_position f b victim =
     (if victim then sb_victim_heap_pos (sf_block_at f b) else sb_free_heap_pos (sf_block_at f b))"

definition heap_position_put :: "nat \<Rightarrow> bool \<Rightarrow> nat \<Rightarrow> ftl_scale \<Rightarrow> ftl_scale" where
  "heap_position_put b victim p =
     sf_block_put b (\<lambda>x. if victim then x\<lparr>sb_victim_heap_pos := p\<rparr> else x\<lparr>sb_free_heap_pos := p\<rparr>)"

definition sf_less :: "ftl_scale \<Rightarrow> nat \<Rightarrow> nat \<Rightarrow> bool \<Rightarrow> bool" where
  "sf_less f a b victim =
     (let x = sf_block_at f a; y = sf_block_at f b
      in if victim \<and> sb_live_pages x \<noteq> sb_live_pages y then sb_live_pages x < sb_live_pages y
         else if sb_wear x \<noteq> sb_wear y then sb_wear x < sb_wear y
         else a < b)"

definition heap_swap :: "nat \<Rightarrow> nat \<Rightarrow> nat \<Rightarrow> bool \<Rightarrow> ftl_scale \<Rightarrow> ftl_scale" where
  "heap_swap off a b victim f =
     (let x = heap_array victim f ! (off + a); y = heap_array victim f ! (off + b)
      in heap_position_put x victim b (heap_position_put y victim a
           (heap_put victim (off + b) x (heap_put victim (off + a) y f))))"

text \<open>The two loops of \<open>heap_fix\<close>.\<close>

fun heap_up :: "nat \<Rightarrow> nat \<Rightarrow> bool \<Rightarrow> ftl_scale \<Rightarrow> nat \<times> ftl_scale" where
  "heap_up off position victim f =
     (let parent = (position - 1) div 2
      in if position \<noteq> 0 \<and> sf_less f (heap_array victim f ! (off + position)) (heap_array victim f ! (off + parent)) victim
         then heap_up off parent victim (heap_swap off position parent victim f)
         else (position, f))"

function heap_down :: "nat \<Rightarrow> nat \<Rightarrow> nat \<Rightarrow> bool \<Rightarrow> ftl_scale \<Rightarrow> ftl_scale" where
  "heap_down off n position victim f =
     (let child = position * 2 + 1; at = (\<lambda>i. heap_array victim f ! (off + i))
      in if child \<ge> n then f
         else let selected = (if child + 1 < n \<and> sf_less f (at (child + 1)) (at child) victim then child + 1 else child)
           in if \<not> sf_less f (at selected) (at position) victim then f
              else heap_down off n selected victim (heap_swap off selected position victim f))"
  by pat_completeness auto
termination
  by (relation "measure (\<lambda>(off, n, position, victim, f). n - position)") (auto split: if_splits)

declare heap_up.simps [simp del] heap_down.simps [simp del]

definition heap_fix :: "nat \<Rightarrow> nat \<Rightarrow> nat \<Rightarrow> bool \<Rightarrow> ftl_scale \<Rightarrow> ftl_scale" where
  "heap_fix off n position victim f =
     (let r = heap_up off position victim f in heap_down off n (fst r) victim (snd r))"

text \<open>Start and size of the heap a block belongs to, and the write of the size.\<close>

definition heap_partitioned :: "ftl_scale \<Rightarrow> bool \<Rightarrow> bool" where
  "heap_partitioned f victim \<longleftrightarrow> \<not> victim \<and> sf_multihead f"

definition heap_offset :: "ftl_scale \<Rightarrow> nat \<Rightarrow> bool \<Rightarrow> nat" where
  "heap_offset f b victim =
     (if heap_partitioned f victim then hd_heap_offset (sf_domain_at f (sf_head_domain f b)) else 0)"

definition heap_size :: "ftl_scale \<Rightarrow> nat \<Rightarrow> bool \<Rightarrow> nat" where
  "heap_size f b victim =
     (if heap_partitioned f victim then hd_free_count (sf_domain_at f (sf_head_domain f b))
      else if victim then sf_victim_count f else sf_free_count f)"

definition heap_size_put :: "nat \<Rightarrow> bool \<Rightarrow> nat \<Rightarrow> ftl_scale \<Rightarrow> ftl_scale" where
  "heap_size_put b victim n f =
     (if heap_partitioned f victim then sf_domain_put (sf_head_domain f b) (\<lambda>d. d\<lparr>hd_free_count := n\<rparr>) f
      else if victim then f\<lparr>sf_victim_count := n\<rparr> else f\<lparr>sf_free_count := n\<rparr>)"

definition heap_remove :: "nat \<Rightarrow> bool \<Rightarrow> ftl_scale \<Rightarrow> ftl_scale" where
  "heap_remove b victim f =
     (let off = heap_offset f b victim; position = heap_position f b victim; n = w32 (heap_size f b victim + 4294967295);
          f1 = heap_position_put b victim SF_HEAP_NONE (heap_size_put b victim n f)
      in if position < n
         then let last = heap_array victim f1 ! (off + n)
           in heap_fix off n position victim (heap_position_put last victim position (heap_put victim (off + position) last f1))
         else f1)"

definition heap_insert :: "nat \<Rightarrow> bool \<Rightarrow> ftl_scale \<Rightarrow> ftl_scale" where
  "heap_insert b victim f =
     (let off = heap_offset f b victim; position = heap_position f b victim; n = heap_size f b victim
      in if position = SF_HEAP_NONE
         then heap_fix off (w32 (n + 1)) n victim
                (heap_position_put b victim n (heap_put victim (off + n) b (heap_size_put b victim (w32 (n + 1)) f)))
         else heap_fix off n position victim f)"

definition heap_update :: "nat \<Rightarrow> bool \<Rightarrow> bool \<Rightarrow> ftl_scale \<Rightarrow> ftl_scale" where
  "heap_update b victim eligible f =
     (let before = heap_size f b victim;
          f1 = (if heap_position f b victim \<noteq> SF_HEAP_NONE \<and> \<not> eligible then heap_remove b victim f
                else if eligible then heap_insert b victim f else f);
          after = heap_size f1 b victim
      in if heap_partitioned f victim
         then if after > before then f1\<lparr>sf_free_count := w32 (sf_free_count f1 + 1)\<rparr>
              else if after < before then f1\<lparr>sf_free_count := w32 (sf_free_count f1 + 4294967295)\<rparr>
              else f1
         else f1)"

definition free_best_step :: "ftl_scale \<Rightarrow> nat \<Rightarrow> nat \<Rightarrow> nat" where
  "free_best_step f best d =
     (let domain = sf_domain_at f d; candidate = sf_free_heap f ! hd_heap_offset domain
      in if hd_free_count domain \<noteq> 0 \<and> (best = SF_NONE \<or> sf_less f candidate best False) then candidate else best)"

definition sf_free_best :: "ftl_scale \<Rightarrow> nat" where
  "sf_free_best f =
     (if sf_free_count f = 0 then SF_NONE
      else if \<not> sf_multihead f then sf_free_heap f ! 0
      else foldl (free_best_step f) SF_NONE [0..<hs_count (sf_heads f)])"

text \<open>\<open>*head_slot(f, block)\<close> read and written.\<close>

definition head_slot :: "ftl_scale \<Rightarrow> nat \<Rightarrow> nat" where
  "head_slot f block = (if sf_multihead f then hd_head (sf_domain_at f (sf_head_domain f block)) else sf_host_head f)"

definition head_slot_put :: "nat \<Rightarrow> nat \<Rightarrow> ftl_scale \<Rightarrow> ftl_scale" where
  "head_slot_put block v f =
     (if sf_multihead f then sf_domain_put (sf_head_domain f block) (\<lambda>d. d\<lparr>hd_head := v\<rparr>) f
      else f\<lparr>sf_host_head := v\<rparr>)"

definition block_usable :: "ftl_scale \<Rightarrow> nat \<Rightarrow> bool" where
  "block_usable f b \<longleftrightarrow> b \<ge> sf_data_first f \<and> sd_health (sf_disk f b) = SF_BLOCK_GOOD \<and>
     sb_reserved_pages (sf_block_at f b) = 0"

definition free_eligible :: "ftl_scale \<Rightarrow> nat \<Rightarrow> bool" where
  "free_eligible f b \<longleftrightarrow> block_usable f b \<and> sd_role (sf_disk f b) = SF_FREE"

definition victim_eligible :: "ftl_scale \<Rightarrow> nat \<Rightarrow> bool" where
  "victim_eligible f b \<longleftrightarrow> block_usable f b \<and> sd_role (sf_disk f b) = SF_CLOSED \<and>
     sb_live_pages (sf_block_at f b) < sf_ppb f"

definition sf_heap_refresh :: "nat \<Rightarrow> ftl_scale \<Rightarrow> ftl_scale" where
  "sf_heap_refresh b f =
     heap_update b True (victim_eligible f b) (heap_update b False (free_eligible f b) f)"

section \<open>Validity bitmap and map entries\<close>

definition sf_validity_get :: "ftl_scale \<Rightarrow> nat \<Rightarrow> bool" where
  "sf_validity_get f ppa \<longleftrightarrow> ppa < sf_physical_pages f \<and>
     (sf_validity f ! (ppa div 8)) AND push_bit (ppa mod 8) 1 \<noteq> 0"

definition validity_set :: "nat \<Rightarrow> bool \<Rightarrow> ftl_scale \<Rightarrow> ftl_scale" where
  "validity_set ppa value f =
     (let mask = push_bit (ppa mod 8) 1; old = sf_validity f ! (ppa div 8)
      in f\<lparr>sf_validity := (sf_validity f)[ppa div 8 := (if value then old OR mask else old AND NOT mask)]\<rparr>)"

definition empty_entry :: "sf_map_entry \<Rightarrow> bool" where
  "empty_entry e \<longleftrightarrow> (sm_state e = SF_UNMAPPED \<or> sm_state e = SF_TOMBSTONE) \<and>
     sm_ppa e = SF_NONE \<and> sm_erase_generation e = 0 \<and> sm_valid_mask e = 0 \<and> sm_data_uid e = 0"

definition value_entry :: "ftl_scale \<Rightarrow> sf_map_entry \<Rightarrow> bool" where
  "value_entry f e \<longleftrightarrow>
     (let ppb = sf_ppb f; b = sm_ppa e div ppb; d = sf_disk f b
      in sm_state e = SF_VALUE \<and> sm_valid_mask e \<noteq> 0 \<and> sm_ppa e < sf_physical_pages f \<and>
         b \<ge> sf_data_first f \<and> sd_role d \<noteq> SF_FREE \<and> sd_role d \<noteq> SF_META \<and> sd_role d \<noteq> SF_BAD \<and>
         sd_block_uid d \<noteq> 0 \<and> unat (sd_block_uid d) \<le> (18446744073709551615 - (ppb - 1)) div ppb \<and>
         sm_erase_generation e = sd_erase_generation d \<and>
         sm_data_uid e = sd_block_uid d * of_nat ppb + of_nat (sm_ppa e mod ppb))"

section \<open>Rebuild of the indexes\<close>

text \<open>A loop that stops at the first step that answers false.\<close>

fun sf_each :: "(nat \<Rightarrow> ftl_scale \<Rightarrow> bool \<times> ftl_scale) \<Rightarrow> nat list \<Rightarrow> ftl_scale \<Rightarrow> bool \<times> ftl_scale" where
  "sf_each step [] f = (True, f)"
| "sf_each step (i # is) f = (let r = step i f in if fst r then sf_each step is (snd r) else r)"

text \<open>The checks of \<open>sf_rebuild_indexes\<close> on the persistent facts of one block.\<close>

definition block_facts_valid :: "ftl_scale \<Rightarrow> nat \<Rightarrow> bool" where
  "block_facts_valid f b \<longleftrightarrow>
     (let d = sf_disk f b
      in sd_flags d = 0 \<and> sd_allocation_end d \<le> sf_ppb f \<and> sd_health d \<le> SF_BLOCK_RUNTIME_BAD \<and>
         SF_META \<le> sd_role d \<and> sd_role d \<le> SF_BAD \<and> (b < sf_data_first f \<longleftrightarrow> sd_role d = SF_META) \<and>
         (sd_role d = SF_FREE \<longrightarrow> sd_block_uid d = 0 \<and> sd_allocation_end d = 0 \<and> sd_health d = 0) \<and>
         (sd_role d \<noteq> SF_META \<and> sd_role d \<noteq> SF_FREE \<longrightarrow>
            sd_block_uid d \<noteq> 0 \<and> sd_block_uid d < sf_next_block_uid f))"

definition rebuild_block :: "nat \<Rightarrow> ftl_scale \<Rightarrow> bool \<times> ftl_scale" where
  "rebuild_block b f =
     (let f1 = sf_block_put b (\<lambda>x. x\<lparr>sb_free_heap_pos := SF_HEAP_NONE, sb_victim_heap_pos := SF_HEAP_NONE,
            sb_live_pages := 0, sb_reserved_pages := 0, sb_wear := unat (sd_erase_generation (sb_disk x))\<rparr>) f
      in if \<not> block_facts_valid f1 b then (False, f1)
         else if sd_role (sf_disk f1 b) = SF_HOST_OPEN \<and> head_slot f1 b \<noteq> SF_NONE then (False, f1)
         else let f2 = (if sd_role (sf_disk f1 b) = SF_HOST_OPEN then head_slot_put b b f1 else f1)
           in if sf_multihead f2 \<and> sd_role (sf_disk f2 b) = SF_GC_DEST
              then if hs_gc_destination (sf_heads f2) \<noteq> SF_NONE \<or> sd_allocation_end (sf_disk f2 b) \<noteq> 0 then (False, f2)
                   else (True, f2\<lparr>sf_heads := (sf_heads f2)\<lparr>hs_gc_destination := b\<rparr>\<rparr>)
              else (True, f2))"

definition rebuild_entry :: "nat \<Rightarrow> ftl_scale \<Rightarrow> bool \<times> ftl_scale" where
  "rebuild_entry lpn f =
     (let e = sf_map f ! lpn; b = sm_ppa e div sf_ppb f
      in if sm_state e \<noteq> SF_VALUE then (empty_entry e, f)
         else if \<not> value_entry f e \<or> sf_validity_get f (sm_ppa e) then (False, f)
         else if sm_ppa e mod sf_ppb f \<ge> sd_allocation_end (sf_disk f b) then (False, f)
         else (True, sf_block_put b (\<lambda>x. x\<lparr>sb_live_pages := w16 (sb_live_pages x + 1)\<rparr>)
                (validity_set (sm_ppa e) True f)))"

definition rebuild_heap :: "nat \<Rightarrow> ftl_scale \<Rightarrow> bool \<times> ftl_scale" where
  "rebuild_heap b f =
     (if sd_role (sf_disk f b) = SF_RECLAIM_PENDING \<and> sb_live_pages (sf_block_at f b) \<noteq> 0 then (False, f)
      else (True, sf_heap_refresh b f))"

definition sf_rebuild_indexes :: "ftl_scale \<Rightarrow> bool \<times> ftl_scale" where
  "sf_rebuild_indexes f =
     (let r0 = sf_heads_init (f\<lparr>sf_free_count := 0, sf_victim_count := 0, sf_host_head := SF_NONE\<rparr>)
      in if \<not> fst r0 then r0
         else let f0 = (snd r0)\<lparr>sf_validity := replicate ((sf_physical_pages f + 7) div 8) 0\<rparr>;
                  r1 = sf_each rebuild_block [0..<sf_physical_blocks f] f0
           in if \<not> fst r1 then r1
              else if sf_multihead (snd r1) \<and> hs_gc_destination (sf_heads (snd r1)) \<noteq> SF_NONE \<and>
                  \<not> sf_heads_empty (snd r1) then (False, snd r1)
              else let r2 = sf_each rebuild_entry [0..<sf_lpn_count f] (snd r1)
                in if \<not> fst r2 then r2
                   else sf_each rebuild_heap [sf_data_first f..<sf_physical_blocks f] (snd r2))"

definition seal_block :: "nat \<Rightarrow> ftl_scale \<Rightarrow> ftl_scale" where
  "seal_block b f =
     (let f1 = (if sd_role (sf_disk f b) = SF_HOST_OPEN \<or> sd_role (sf_disk f b) = SF_GC_DEST
                then sf_disk_put b (\<lambda>d. d\<lparr>sd_role := SF_CLOSED, sd_allocation_end := sf_ppb f\<rparr>) f else f);
          f2 = (if sd_role (sf_disk f1 b) = SF_CLOSED \<and> sb_live_pages (sf_block_at f1 b) = 0
                then sf_disk_put b (\<lambda>d. d\<lparr>sd_role := SF_RECLAIM_PENDING\<rparr>) f1 else f1)
      in sf_heap_refresh b f2)"

definition sf_seal_recovered_heads :: "ftl_scale \<Rightarrow> ftl_scale" where
  "sf_seal_recovered_heads f =
     (let f1 = fold seal_block [sf_data_first f..<sf_physical_blocks f] f;
          f2 = fold (\<lambda>d. sf_domain_put d (\<lambda>x. x\<lparr>hd_head := SF_NONE\<rparr>)) [0..<hs_count (sf_heads f1)]
                 (f1\<lparr>sf_host_head := SF_NONE\<rparr>)
      in f2\<lparr>sf_heads := (sf_heads f2)\<lparr>hs_gc_destination := SF_NONE\<rparr>\<rparr>)"

definition sf_next_reclaim_pending :: "ftl_scale \<Rightarrow> nat option" where
  "sf_next_reclaim_pending f =
     find (\<lambda>b. sd_role (sf_disk f b) = SF_RECLAIM_PENDING \<and> sb_live_pages (sf_block_at f b) = 0)
       [sf_data_first f..<sf_physical_blocks f]"

section \<open>Validation of a journal record\<close>

definition record_window :: "sf_record \<Rightarrow> bool" where
  "record_window r \<longleftrightarrow> sj_kind r = SF_MAP_WINDOW"

definition record_mapping :: "sf_record \<Rightarrow> bool" where
  "record_mapping r \<longleftrightarrow> sj_kind r = SF_MAP_GROUP \<or> sj_kind r = SF_GC_COMMIT \<or> record_window r"

definition record_header_valid :: "ftl_scale \<Rightarrow> sf_record \<Rightarrow> bool" where
  "record_header_valid f r \<longleftrightarrow>
     sf_disk_format f = sr_disk_format (sf_root f) \<and>
     (sf_disk_format f = SF_FORMAT_VERSION \<or> sf_format_windowed (sf_disk_format f)) \<and>
     (record_window r \<longrightarrow> sf_format_windowed (sf_disk_format f)) \<and>
     sj_epoch r = sr_generation (sf_root f) \<and> sj_predecessor r = sf_record_sequence f \<and>
     sf_record_sequence f \<noteq> UINT64_MAX \<and> sj_sequence r = sf_record_sequence f + 1 \<and>
     sj_before_map_seq r = sf_map_sequence f \<and>
     (record_mapping r \<longrightarrow> sf_map_sequence f \<noteq> UINT64_MAX) \<and>
     sj_after_map_seq r = sf_map_sequence f + (if record_mapping r then 1 else 0) \<and>
     sf_durable_frontier f \<le> sj_durable_frontier r \<and>
     sf_data_first f \<le> sj_block r \<and> sj_block r < sf_physical_blocks f \<and>
     (record_mapping r \<or> sj_durable_frontier r = sf_durable_frontier f)"

definition open_valid :: "ftl_scale \<Rightarrow> sf_record \<Rightarrow> bool" where
  "open_valid f r \<longleftrightarrow>
     (let x = sf_block_at f (sj_block r); d = sb_disk x
      in sj_count r = 0 \<and> sd_role d = SF_FREE \<and> sb_live_pages x = 0 \<and>
         sj_erase_generation r = sd_erase_generation d \<and> sj_block_uid r = sf_next_block_uid f \<and>
         sj_block_uid r \<noteq> 0 \<and> unat (sj_block_uid r) < 18446744073709551615 div sf_ppb f \<and>
         (sj_kind r = SF_OPEN_HOST \<longrightarrow> head_slot f (sj_block r) = SF_NONE) \<and>
         (sf_multihead f \<longrightarrow> hs_gc_destination (sf_heads f) = SF_NONE \<and>
            (sj_kind r = SF_OPEN_GC_DEST \<longrightarrow> sf_heads_empty f)))"

definition close_valid :: "ftl_scale \<Rightarrow> sf_record \<Rightarrow> bool" where
  "close_valid f r \<longleftrightarrow>
     (let x = sf_block_at f (sj_block r); d = sb_disk x
      in sj_count r = 0 \<and> sd_role d = SF_HOST_OPEN \<and> sj_block_uid r = sd_block_uid d \<and> sb_reserved_pages x = 0 \<and>
         (sf_multihead f \<longrightarrow> head_slot f (sj_block r) = sj_block r \<and> sj_erase_generation r = sd_erase_generation d))"

text \<open>One change of a mapping record: change number \<open>i\<close> of \<open>r\<close>, to be written at \<open>start + i\<close>.\<close>

definition record_destination :: "sf_record \<Rightarrow> nat" where
  "record_destination r = (if sj_kind r = SF_GC_COMMIT then sj_other_block r else sj_block r)"

definition delta_valid :: "ftl_scale \<Rightarrow> sf_record \<Rightarrow> nat \<Rightarrow> nat \<Rightarrow> bool" where
  "delta_valid f r start i \<longleftrightarrow>
     (let ppb = sf_ppb f; d = sj_delta r ! i
      in sx_reserved d = 0 \<and> sx_lpn d < sf_lpn_count f \<and> sx_before d = sf_map f ! sx_lpn d \<and>
         value_entry f (sx_after d) \<and> sm_ppa (sx_after d) = w32 (record_destination r * ppb + start + i) \<and>
         \<not> sf_validity_get f (sm_ppa (sx_after d)) \<and>
         (if sm_state (sx_before d) = SF_VALUE
          then value_entry f (sx_before d) \<and> sf_validity_get f (sm_ppa (sx_before d))
          else empty_entry (sx_before d)) \<and>
         (sj_kind r = SF_GC_COMMIT \<longrightarrow> sm_state (sx_before d) = SF_VALUE \<and>
            sm_ppa (sx_before d) div ppb = sj_block r \<and> sm_valid_mask (sx_after d) = sm_valid_mask (sx_before d)) \<and>
         (if record_window r then sx_lpn d = sx_lpn (sj_delta r ! 0) + i
          else list_all (\<lambda>j. sx_lpn (sj_delta r ! j) \<noteq> sx_lpn d) [0..<i]))"

definition mapping_valid :: "ftl_scale \<Rightarrow> sf_record \<Rightarrow> bool" where
  "mapping_valid f r \<longleftrightarrow>
     (let ppb = sf_ppb f; destination = record_destination r;
          x = sf_block_at f (sj_block r); y = sf_block_at f destination; start = sd_allocation_end (sb_disk y);
          max_count = (if record_window r then SF_MAX_DELTAS else if sj_kind r = SF_GC_COMMIT then 61 else SF_MAX_HOST_DELTAS)
      in sj_count r \<noteq> 0 \<and> sj_count r \<le> max_count \<and> sf_data_first f \<le> destination \<and> destination < sf_physical_blocks f \<and>
         (if sj_kind r = SF_GC_COMMIT
          then destination \<noteq> sj_block r \<and> sd_role (sb_disk x) = SF_CLOSED \<and> sj_block_uid r = sd_block_uid (sb_disk x) \<and>
            sb_live_pages x = sj_count r \<and> sd_role (sb_disk y) = SF_GC_DEST \<and>
            sj_other_block_uid r = sd_block_uid (sb_disk y) \<and> start = 0 \<and> sf_heads_empty f \<and>
            (sf_multihead f \<longrightarrow> hs_gc_destination (sf_heads f) = destination \<and> head_slot f destination = SF_NONE \<and>
               sj_erase_generation r = sd_erase_generation (sb_disk x))
          else sd_role (sb_disk y) = SF_HOST_OPEN \<and> sj_block_uid r = sd_block_uid (sb_disk y) \<and>
            head_slot f destination = destination \<and>
            (sf_multihead f \<longrightarrow> sj_erase_generation r = sd_erase_generation (sb_disk y) \<and>
               (sb_reserved_pages y = 0 \<or> sb_reserved_pages y = sj_count r))) \<and>
         start \<le> ppb \<and> sj_count r \<le> ppb - start \<and>
         list_all (delta_valid f r start) [0..<sj_count r])"

definition erase_intent_valid :: "ftl_scale \<Rightarrow> sf_record \<Rightarrow> bool" where
  "erase_intent_valid f r \<longleftrightarrow>
     (let x = sf_block_at f (sj_block r); d = sb_disk x
      in sj_count r = 0 \<and> sb_live_pages x = 0 \<and> sb_reserved_pages x = 0 \<and>
         (sd_role d = SF_CLOSED \<or> sd_role d = SF_RECLAIM_PENDING) \<and> sj_block_uid r = sd_block_uid d \<and>
         sj_erase_generation r = sd_erase_generation d \<and> sj_intent_sequence r = sj_sequence r \<and>
         (sf_erase_intent_block f = SF_NONE \<or> sf_erase_intent_block f = sj_block r))"

definition erase_done_valid :: "ftl_scale \<Rightarrow> sf_record \<Rightarrow> bool" where
  "erase_done_valid f r \<longleftrightarrow>
     (let x = sf_block_at f (sj_block r); d = sb_disk x
      in sj_count r = 0 \<and> sb_live_pages x = 0 \<and> sd_role d = SF_RECLAIM_PENDING \<and> sj_block_uid r = sd_block_uid d \<and>
         sf_erase_intent_block f = sj_block r \<and> sj_intent_sequence r \<noteq> 0 \<and>
         sj_intent_sequence r = sf_erase_intent_sequence f \<and> sj_erase_generation r = sd_erase_generation d \<and>
         sj_final_erase_generation r > sj_erase_generation r \<and> sj_health r = SF_BLOCK_GOOD)"

definition record_valid :: "ftl_scale \<Rightarrow> sf_record \<Rightarrow> bool" where
  "record_valid f r \<longleftrightarrow> record_header_valid f r \<and>
     (if sj_kind r = SF_OPEN_HOST \<or> sj_kind r = SF_OPEN_GC_DEST then open_valid f r
      else if sj_kind r = SF_CLOSE then close_valid f r
      else if record_mapping r then mapping_valid f r
      else if sj_kind r = SF_ERASE_INTENT then erase_intent_valid f r
      else sj_kind r = SF_ERASE_DONE \<and> erase_done_valid f r)"

section \<open>Application of a journal record\<close>

definition open_apply :: "sf_record \<Rightarrow> ftl_scale \<Rightarrow> ftl_scale" where
  "open_apply r f =
     (let b = sj_block r;
          f1 = sf_disk_put b (\<lambda>d. d\<lparr>sd_block_uid := sj_block_uid r,
                 sd_role := (if sj_kind r = SF_OPEN_HOST then SF_HOST_OPEN else SF_GC_DEST), sd_allocation_end := 0\<rparr>) f;
          f2 = f1\<lparr>sf_next_block_uid := sf_next_block_uid f1 + 1\<rparr>
      in if sj_kind r = SF_OPEN_HOST then head_slot_put b b f2
         else if sf_multihead f2 then f2\<lparr>sf_heads := (sf_heads f2)\<lparr>hs_gc_destination := b\<rparr>\<rparr>
         else f2)"

definition close_apply :: "sf_record \<Rightarrow> ftl_scale \<Rightarrow> ftl_scale" where
  "close_apply r f =
     head_slot_put (sj_block r) SF_NONE
       (sf_disk_put (sj_block r) (\<lambda>d. d\<lparr>sd_role := SF_CLOSED, sd_allocation_end := w16 (sf_ppb f)\<rparr>) f)"

definition delta_release :: "sf_delta \<Rightarrow> ftl_scale \<Rightarrow> ftl_scale" where
  "delta_release d f =
     (if sm_state (sx_before d) = SF_VALUE
      then let old = sm_ppa (sx_before d) div sf_ppb f
        in sf_heap_refresh old (sf_block_put old (\<lambda>x. x\<lparr>sb_live_pages := w16 (sb_live_pages x + 65535)\<rparr>)
             (validity_set (sm_ppa (sx_before d)) False f))
      else f)"

definition delta_install :: "sf_delta \<Rightarrow> ftl_scale \<Rightarrow> ftl_scale" where
  "delta_install d f =
     (let ppa = sm_ppa (sx_after d); destination = ppa div sf_ppb f
      in sf_block_put destination (\<lambda>x. x\<lparr>sb_live_pages := w16 (sb_live_pages x + 1),
             sb_disk := (sb_disk x)\<lparr>sd_allocation_end := w16 (ppa mod sf_ppb f + 1)\<rparr>\<rparr>)
           (validity_set ppa True (f\<lparr>sf_map := (sf_map f)[sx_lpn d := sx_after d]\<rparr>)))"

definition delta_apply :: "sf_delta \<Rightarrow> ftl_scale \<Rightarrow> ftl_scale" where
  "delta_apply d f = delta_install d (delta_release d f)"

definition gc_finish :: "sf_record \<Rightarrow> ftl_scale \<Rightarrow> ftl_scale" where
  "gc_finish r f =
     (let c = sj_other_block r;
          f1 = head_slot_put c c (sf_disk_put c (\<lambda>d. d\<lparr>sd_role := SF_HOST_OPEN\<rparr>)
                 (sf_disk_put (sj_block r) (\<lambda>d. d\<lparr>sd_role := SF_RECLAIM_PENDING\<rparr>) f));
          f2 = (if sf_multihead f1 then f1\<lparr>sf_heads := (sf_heads f1)\<lparr>hs_gc_destination := SF_NONE\<rparr>\<rparr> else f1);
          f3 = sf_heap_refresh c f2
      in f3\<lparr>sf_garbage_collections := sf_garbage_collections f3 + 1\<rparr>)"

definition host_finish :: "sf_record \<Rightarrow> ftl_scale \<Rightarrow> ftl_scale" where
  "host_finish r f =
     (let b = sj_block r; f1 = sf_block_put b (\<lambda>x. x\<lparr>sb_reserved_pages := 0\<rparr>) f
      in if record_window r \<and> sd_allocation_end (sf_disk f1 b) = sf_ppb f1
         then head_slot_put b SF_NONE (sf_disk_put b (\<lambda>d. d\<lparr>sd_role := SF_CLOSED\<rparr>) f1)
         else f1)"

definition mapping_apply :: "sf_record \<Rightarrow> ftl_scale \<Rightarrow> ftl_scale" where
  "mapping_apply r f =
     (let f1 = fold (\<lambda>i. delta_apply (sj_delta r ! i)) [0..<sj_count r] f
      in if sj_kind r = SF_GC_COMMIT then gc_finish r f1 else host_finish r f1)"

definition erase_intent_apply :: "sf_record \<Rightarrow> ftl_scale \<Rightarrow> ftl_scale" where
  "erase_intent_apply r f =
     (sf_disk_put (sj_block r) (\<lambda>d. d\<lparr>sd_role := SF_RECLAIM_PENDING\<rparr>) f)
       \<lparr>sf_erase_intent_block := sj_block r, sf_erase_intent_sequence := sj_sequence r\<rparr>"

definition erase_done_apply :: "sf_record \<Rightarrow> ftl_scale \<Rightarrow> ftl_scale" where
  "erase_done_apply r f =
     (sf_block_put (sj_block r) (\<lambda>x. x\<lparr>sb_wear := unat (sj_final_erase_generation r),
        sb_disk := (sb_disk x)\<lparr>sd_role := SF_FREE, sd_block_uid := 0, sd_allocation_end := 0,
          sd_erase_generation := sj_final_erase_generation r, sd_health := sj_health r\<rparr>\<rparr>) f)
       \<lparr>sf_erase_intent_block := SF_NONE, sf_erase_intent_sequence := 0\<rparr>"

definition record_apply :: "sf_record \<Rightarrow> ftl_scale \<Rightarrow> ftl_scale" where
  "record_apply r f =
     (let f1 = (if sj_kind r = SF_OPEN_HOST \<or> sj_kind r = SF_OPEN_GC_DEST then open_apply r f
                else if sj_kind r = SF_CLOSE then close_apply r f
                else if record_mapping r then mapping_apply r f
                else if sj_kind r = SF_ERASE_INTENT then erase_intent_apply r f
                else if sj_kind r = SF_ERASE_DONE then erase_done_apply r f
                else f)
      in (sf_heap_refresh (sj_block r) f1)\<lparr>sf_record_sequence := sj_sequence r,
           sf_map_sequence := sj_after_map_seq r, sf_durable_frontier := sj_durable_frontier r\<rparr>)"

text \<open>\<open>None\<close> where the C function answers false; it has then changed nothing.\<close>

definition sf_record_validate_apply :: "ftl_scale \<Rightarrow> sf_record \<Rightarrow> ftl_scale option" where
  "sf_record_validate_apply f r = (if record_valid f r then Some (record_apply r f) else None)"

end
