(* ===== verification/Scale_Heap.thy ===== *)
theory Scale_Heap
  imports Fwlab_Prelude "HOL-Library.Multiset"
begin

text \<open>
  A reference heap on lists: sifting an entry up and down a binary heap whose entries are ordered by
  a key. The heaps of the scaled translation layer refine it. While an entry is out of place the
  order holds everywhere but at it; what is left is that its children are no smaller than its parent.
\<close>

section \<open>Definitions\<close>

definition list_swap :: "'a list \<Rightarrow> nat \<Rightarrow> nat \<Rightarrow> 'a list" where
  "list_swap h i j = h[i := h ! j, j := h ! i]"

text \<open>The index of the parent.\<close>

definition heap_parent :: "nat \<Rightarrow> nat" where
  "heap_parent i = (i - 1) div 2"

lemma heap_parent_less [simp]: "i \<noteq> 0 \<Longrightarrow> heap_parent i < i"
  by (auto simp: heap_parent_def)

lemma heap_parent_bound [simp]: "i < n \<Longrightarrow> heap_parent i < n"
  by (auto simp: heap_parent_def)

lemma heap_parent_neq [simp]: "i \<noteq> 0 \<Longrightarrow> heap_parent i \<noteq> i"
  by (metis heap_parent_less less_irrefl)

lemma heap_parent_le: "heap_parent i \<le> i"
  by (simp add: heap_parent_def)

lemma heap_children: "i \<noteq> 0 \<and> heap_parent i = p \<longleftrightarrow> i = p * 2 + 1 \<or> i = p * 2 + 2"
  by (auto simp: heap_parent_def)

definition heap_ordered :: "('a \<Rightarrow> 'k::linorder) \<Rightarrow> 'a list \<Rightarrow> bool" where
  "heap_ordered k h \<longleftrightarrow> (\<forall>i<length h. i \<noteq> 0 \<longrightarrow> k (h ! heap_parent i) \<le> k (h ! i))"

fun sift_up :: "('a \<Rightarrow> 'k::linorder) \<Rightarrow> nat \<Rightarrow> 'a list \<Rightarrow> nat \<times> 'a list" where
  "sift_up k p h =
     (let q = heap_parent p
      in if p \<noteq> 0 \<and> k (h ! p) < k (h ! q) then sift_up k q (list_swap h p q) else (p, h))"

function sift_down :: "('a \<Rightarrow> 'k::linorder) \<Rightarrow> nat \<Rightarrow> 'a list \<Rightarrow> 'a list" where
  "sift_down k p h =
     (let c = p * 2 + 1
      in if c \<ge> length h then h
         else let s = (if c + 1 < length h \<and> k (h ! (c + 1)) < k (h ! c) then c + 1 else c)
           in if \<not> k (h ! s) < k (h ! p) then h else sift_down k s (list_swap h s p))"
  by pat_completeness auto
termination
  by (relation "measure (\<lambda>(k, p, h). length h - p)") (auto simp: list_swap_def split: if_splits)

declare sift_up.simps [simp del] sift_down.simps [simp del]

definition sift :: "('a \<Rightarrow> 'k::linorder) \<Rightarrow> nat \<Rightarrow> 'a list \<Rightarrow> 'a list" where
  "sift k p h = (let r = sift_up k p h in sift_down k (fst r) (snd r))"

text \<open>The order everywhere but at \<open>p\<close>, and everywhere but below \<open>p\<close>.\<close>

definition heap_skips :: "('a \<Rightarrow> 'k::linorder) \<Rightarrow> nat \<Rightarrow> 'a list \<Rightarrow> bool" where
  "heap_skips k p h \<longleftrightarrow>
     (\<forall>i<length h. i \<noteq> 0 \<longrightarrow> heap_parent i = p \<longrightarrow> p \<noteq> 0 \<longrightarrow> k (h ! heap_parent p) \<le> k (h ! i))"

definition heap_but :: "('a \<Rightarrow> 'k::linorder) \<Rightarrow> nat \<Rightarrow> 'a list \<Rightarrow> bool" where
  "heap_but k p h \<longleftrightarrow> heap_skips k p h \<and>
     (\<forall>i<length h. i \<noteq> 0 \<longrightarrow> i \<noteq> p \<longrightarrow> heap_parent i \<noteq> p \<longrightarrow> k (h ! heap_parent i) \<le> k (h ! i))"

definition heap_above :: "('a \<Rightarrow> 'k::linorder) \<Rightarrow> nat \<Rightarrow> 'a list \<Rightarrow> bool" where
  "heap_above k p h \<longleftrightarrow> heap_skips k p h \<and>
     (\<forall>i<length h. i \<noteq> 0 \<longrightarrow> heap_parent i \<noteq> p \<longrightarrow> k (h ! heap_parent i) \<le> k (h ! i))"

section \<open>Swaps\<close>

lemma list_swap_length [simp]: "length (list_swap h i j) = length h"
  by (simp add: list_swap_def)

lemma list_swap_nth:
  "i < length h \<Longrightarrow> j < length h \<Longrightarrow> list_swap h i j ! m = (if m = i then h ! j else if m = j then h ! i else h ! m)"
  by (auto simp: list_swap_def nth_list_update)

lemma list_swap_mset: "i < length h \<Longrightarrow> j < length h \<Longrightarrow> mset (list_swap h i j) = mset h"
  by (simp add: list_swap_def mset_swap)

section \<open>Sifting up\<close>

lemma heap_but_up:
  assumes b: "heap_but k p h" and p: "p \<noteq> 0" "p < length h" and lt: "k (h ! p) < k (h ! heap_parent p)"
  shows "heap_but k (heap_parent p) (list_swap h p (heap_parent p))"
proof -
  let ?q = "heap_parent p"
  let ?h = "list_swap h p ?q"
  have q: "?q < p" "?q < length h"
    using p by auto
  note nth = list_swap_nth [OF p(2) q(2)]
  have pair: "k (h ! heap_parent i) \<le> k (h ! i)" if "i < length h" "i \<noteq> 0" "i \<noteq> p" "heap_parent i \<noteq> p" for i
    using b that unfolding heap_but_def by blast
  have skip: "k (h ! ?q) \<le> k (h ! i)" if "i < length h" "i \<noteq> 0" "heap_parent i = p" for i
    using b that p unfolding heap_but_def heap_skips_def by blast
  have "k (?h ! heap_parent ?q) \<le> k (?h ! i)" if i: "i < length h" "i \<noteq> 0" "heap_parent i = ?q" "?q \<noteq> 0" for i
  proof -
    have "heap_parent ?q \<noteq> p"
      using heap_parent_le [of ?q] q by linarith
    then have top: "k (h ! heap_parent ?q) \<le> k (h ! ?q)"
      using pair [of ?q] q i(4) by auto
    have "heap_parent ?q < ?q"
      using i(4) by auto
    then have above: "?h ! heap_parent ?q = h ! heap_parent ?q"
      using q by (simp add: nth)
    show ?thesis
    proof (cases "i = p")
      case True
      then show ?thesis
        unfolding above using top by (simp add: nth)
    next
      case False
      have "i \<noteq> ?q"
        using i by auto
      then have "k (h ! ?q) \<le> k (h ! i)" "?h ! i = h ! i"
        using pair [of i] i False q by (simp_all add: nth)
      then show ?thesis
        unfolding above using top by simp
    qed
  qed
  moreover have "k (?h ! heap_parent i) \<le> k (?h ! i)"
    if i: "i < length h" "i \<noteq> 0" "i \<noteq> ?q" "heap_parent i \<noteq> ?q" for i
  proof -
    have ip: "i \<noteq> p"
      using i(4) by auto
    show ?thesis
      using pair [of i] skip [of i] i ip q by (auto simp: nth)
  qed
  ultimately show ?thesis
    unfolding heap_but_def heap_skips_def by simp
qed

lemma sift_up_but:
  "heap_but k p h \<Longrightarrow> p < length h \<Longrightarrow>
     heap_above k (fst (sift_up k p h)) (snd (sift_up k p h)) \<and> fst (sift_up k p h) < length h \<and>
     mset (snd (sift_up k p h)) = mset h"
proof (induction k p h rule: sift_up.induct)
  case (1 k p h)
  let ?q = "heap_parent p"
  show ?case
  proof (cases "p \<noteq> 0 \<and> k (h ! p) < k (h ! ?q)")
    case True
    then have q: "?q < length h"
      using 1(3) by auto
    have "mset (list_swap h p ?q) = mset h"
      by (rule list_swap_mset [OF 1(3) q])
    then show ?thesis
      using 1(1) [OF refl True] heap_but_up [OF 1(2) _ 1(3)] True q by (simp add: sift_up.simps [of k p h] Let_def)
  next
    case False
    have "heap_above k p h"
      using 1(2) False unfolding heap_but_def heap_above_def by (auto simp: not_less)
    then show ?thesis
      using False 1(3) by (auto simp: sift_up.simps [of k p h] Let_def)
  qed
qed

section \<open>Sifting down\<close>

lemma heap_above_leaf:
  assumes "heap_above k p h" and "\<And>i. i < length h \<Longrightarrow> i \<noteq> 0 \<Longrightarrow> heap_parent i = p \<Longrightarrow> k (h ! p) \<le> k (h ! i)"
  shows "heap_ordered k h"
  using assms unfolding heap_above_def heap_ordered_def by metis

lemma heap_above_down:
  assumes a: "heap_above k p h" and s: "s < length h" "s \<noteq> 0" "heap_parent s = p" and lt: "k (h ! s) < k (h ! p)"
    and least: "\<And>i. i < length h \<Longrightarrow> i \<noteq> 0 \<Longrightarrow> heap_parent i = p \<Longrightarrow> k (h ! s) \<le> k (h ! i)"
  shows "heap_above k s (list_swap h s p)"
proof -
  let ?h = "list_swap h s p"
  have p: "p < s" "p < length h"
    using s by auto
  note nth = list_swap_nth [OF s(1) p(2)]
  have pair: "k (h ! heap_parent i) \<le> k (h ! i)" if "i < length h" "i \<noteq> 0" "heap_parent i \<noteq> p" for i
    using a that unfolding heap_above_def by blast
  have skip: "k (h ! heap_parent p) \<le> k (h ! i)" if "i < length h" "i \<noteq> 0" "heap_parent i = p" "p \<noteq> 0" for i
    using a that unfolding heap_above_def heap_skips_def by blast
  have "k (?h ! heap_parent s) \<le> k (?h ! i)" if i: "i < length h" "i \<noteq> 0" "heap_parent i = s" for i
  proof -
    have "i \<noteq> s" "i \<noteq> p" "heap_parent i \<noteq> p"
      using i p s heap_parent_le [of i] by auto
    then show ?thesis
      using pair [OF i(1,2)] p by (simp add: nth i(3) s(3))
  qed
  moreover have "k (?h ! heap_parent i) \<le> k (?h ! i)" if i: "i < length h" "i \<noteq> 0" "heap_parent i \<noteq> s" for i
  proof (cases "heap_parent i = p")
    case True
    then have "i \<noteq> p"
      using heap_parent_neq [OF i(2)] by auto
    then show ?thesis
      using least [OF i(1,2) True] lt p by (auto simp: nth True)
  next
    case False
    then have "i \<noteq> s"
      using s by auto
    then show ?thesis
      using pair [OF i(1,2) False] skip [OF s(1-3)] False i by (auto simp: nth)
  qed
  ultimately show ?thesis
    unfolding heap_above_def heap_skips_def by simp
qed

lemma sift_down_above:
  "heap_above k p h \<Longrightarrow> p < length h \<Longrightarrow> heap_ordered k (sift_down k p h) \<and> mset (sift_down k p h) = mset h"
proof (induction k p h rule: sift_down.induct)
  case (1 k p h)
  let ?c = "p * 2 + 1"
  let ?s = "if ?c + 1 < length h \<and> k (h ! (?c + 1)) < k (h ! ?c) then ?c + 1 else ?c"
  show ?case
  proof (cases "?c \<ge> length h")
    case True
    then have "heap_ordered k h"
      by (intro heap_above_leaf [OF 1(2)]) (auto simp: heap_parent_def)
    then show ?thesis
      using True by (simp add: sift_down.simps [of k p h])
  next
    case False
    define s where "s = ?s"
    have s: "s < length h" "s \<noteq> 0" "heap_parent s = p"
      using False by (auto simp: s_def heap_parent_def)
    have least: "k (h ! s) \<le> k (h ! i)" if i: "i < length h" "i \<noteq> 0" "heap_parent i = p" for i
    proof -
      consider "i = p * 2 + 1" | "i = p * 2 + 2"
        using heap_children [of i p] i by blast
      then show ?thesis
        using i(1) by cases (auto simp: s_def)
    qed
    have eq: "sift_down k p h = (if \<not> k (h ! s) < k (h ! p) then h else sift_down k s (list_swap h s p))"
      unfolding sift_down.simps [of k p h] Let_def s_def using False by (simp only: if_False)
    show ?thesis
    proof (cases "k (h ! s) < k (h ! p)")
      case True
      have "heap_above k s (list_swap h s p)" "mset (list_swap h s p) = mset h"
        using heap_above_down [OF 1(2) s True least] list_swap_mset [OF s(1) 1(3)] by blast+
      moreover have "heap_above k s (list_swap h s p) \<Longrightarrow> s < length (list_swap h s p) \<Longrightarrow>
          heap_ordered k (sift_down k s (list_swap h s p)) \<and> mset (sift_down k s (list_swap h s p)) = mset (list_swap h s p)"
        using 1(1) [OF refl False s_def] True by blast
      ultimately show ?thesis
        using True s(1) by (simp add: eq)
    next
      case stop: False
      have "heap_ordered k h"
      proof (rule heap_above_leaf [OF 1(2)])
        show "k (h ! p) \<le> k (h ! i)" if "i < length h" "i \<noteq> 0" "heap_parent i = p" for i
          using least [OF that] stop by (simp only: not_less)
      qed
      then show ?thesis
        using stop by (simp add: eq)
    qed
  qed
qed

theorem sift_ordered:
  assumes "heap_but k p h" and "p < length h"
  shows "heap_ordered k (sift k p h)" and "mset (sift k p h) = mset h"
proof -
  note u = sift_up_but [OF assms]
  have "length (snd (sift_up k p h)) = length h"
    using u by (metis size_mset)
  then show "heap_ordered k (sift k p h)" and "mset (sift k p h) = mset h"
    using sift_down_above [of k "fst (sift_up k p h)" "snd (sift_up k p h)"] u by (simp_all add: sift_def Let_def)
qed

section \<open>Where an entry gets out of place\<close>

text \<open>The key of one entry changes: the heap is ordered but at that entry.\<close>

lemma heap_but_key:
  assumes "heap_ordered k0 h" and "distinct h" and "p < length h" and "\<And>x. x \<in> set h \<Longrightarrow> x \<noteq> h ! p \<Longrightarrow> k x = k0 x"
  shows "heap_but k p h"
proof -
  have key: "k (h ! i) = k0 (h ! i)" if "i < length h" "i \<noteq> p" for i
    using assms(2-4) that by (simp add: nth_eq_iff_index_eq)
  have ord: "k0 (h ! heap_parent i) \<le> k0 (h ! i)" if "i < length h" "i \<noteq> 0" for i
    using assms(1) that unfolding heap_ordered_def by blast
  have up: "heap_parent i < i" if "i \<noteq> 0" for i :: nat
    using that by auto
  have "k (h ! heap_parent p) \<le> k (h ! i)" if i: "i < length h" "i \<noteq> 0" "heap_parent i = p" "p \<noteq> 0" for i
    using ord [OF i(1,2)] ord [OF assms(3) i(4)] key [of i] key [of "heap_parent p"] up [OF i(2)] up [OF i(4)] i assms(3)
    by (metis less_trans not_less_iff_gr_or_eq order.trans)
  moreover have "k (h ! heap_parent i) \<le> k (h ! i)" if i: "i < length h" "i \<noteq> 0" "i \<noteq> p" "heap_parent i \<noteq> p" for i
    using ord [OF i(1,2)] key [of i] key [of "heap_parent i"] up [OF i(2)] i by simp
  ultimately show ?thesis
    unfolding heap_but_def heap_skips_def by blast
qed

text \<open>An entry is appended.\<close>

lemma heap_but_append:
  assumes "heap_ordered k h"
  shows "heap_but k (length h) (h @ [x])"
proof -
  have "heap_parent i \<noteq> length h" if "i < Suc (length h)" "i \<noteq> 0" for i
    using that heap_parent_less [of i] by linarith
  moreover have "(h @ [x]) ! i = h ! i \<and> (h @ [x]) ! heap_parent i = h ! heap_parent i" if "i < length h" for i
    using that by (simp add: nth_append less_imp_diff_less)
  ultimately show ?thesis
    using assms unfolding heap_but_def heap_skips_def heap_ordered_def by (auto simp: less_Suc_eq)
qed

text \<open>The entry at \<open>p\<close> is replaced by the last one.\<close>

lemma heap_but_replace:
  assumes h: "heap_ordered k (h @ [x])" and p: "p < length h"
  shows "heap_but k p (h[p := x])"
proof -
  have nth: "(h @ [x]) ! i = h ! i" if "i < length h" for i
    using that by (simp add: nth_append)
  have ord: "k (h ! heap_parent i) \<le> k (h ! i)" if "i < length h" "i \<noteq> 0" for i
    using h that nth [of i] nth [of "heap_parent i"] unfolding heap_ordered_def by (auto dest!: spec [of _ i])
  have up: "heap_parent i < i" if "i \<noteq> 0" for i :: nat
    using that by auto
  have "k (h[p := x] ! heap_parent p) \<le> k (h[p := x] ! i)"
    if i: "i < length h" "i \<noteq> 0" "heap_parent i = p" "p \<noteq> 0" for i
  proof -
    have "k (h ! heap_parent p) \<le> k (h ! i)"
      using ord [OF i(1,2)] ord [OF p i(4)] i(3) by simp
    then show ?thesis
      using up [OF i(2)] up [OF i(4)] i(3) by simp
  qed
  moreover have "k (h[p := x] ! heap_parent i) \<le> k (h[p := x] ! i)"
    if i: "i < length h" "i \<noteq> 0" "i \<noteq> p" "heap_parent i \<noteq> p" for i
    using ord [OF i(1,2)] i by simp
  ultimately show ?thesis
    unfolding heap_but_def heap_skips_def by simp
qed

lemma heap_ordered_butlast: "heap_ordered k (h @ [x]) \<Longrightarrow> heap_ordered k h"
proof -
  assume h: "heap_ordered k (h @ [x])"
  have "k (h ! heap_parent i) \<le> k (h ! i)" if "i < length h" "i \<noteq> 0" for i
    using h that unfolding heap_ordered_def by (auto simp: nth_append less_imp_diff_less dest!: spec [of _ i] split: if_splits)
  then show ?thesis
    unfolding heap_ordered_def by blast
qed

text \<open>The first entry is a least one.\<close>

lemma heap_first_least:
  "heap_ordered k h \<Longrightarrow> i < length h \<Longrightarrow> k (h ! 0) \<le> k (h ! i)"
proof (induction i rule: less_induct)
  case (less i)
  show ?case
  proof (cases "i = 0")
    case False
    then have "k (h ! 0) \<le> k (h ! heap_parent i)"
      using less.IH [of "heap_parent i"] less.prems by auto
    also have "\<dots> \<le> k (h ! i)"
      using less.prems False unfolding heap_ordered_def by blast
    finally show ?thesis .
  qed simp
qed

lemma heap_ordered_cong: "(\<And>x. x \<in> set h \<Longrightarrow> k x = k' x) \<Longrightarrow> heap_ordered k h = heap_ordered k' h"
  unfolding heap_ordered_def by (auto simp: less_imp_diff_less)

lemma heap_but_cong: "(\<And>x. x \<in> set h \<Longrightarrow> k x = k' x) \<Longrightarrow> p < length h \<Longrightarrow> heap_but k p h = heap_but k' p h"
  unfolding heap_but_def heap_skips_def by (intro arg_cong2 [of _ _ _ _ "(\<and>)"] all_cong1 imp_cong refl) simp_all

end
