(* ===== verification/Scale_Heap_Laws.thy ===== *)
theory Scale_Heap_Laws
  imports Scale_Mapping Scale_Heap "HOL-Library.Product_Lexorder"
begin

text \<open>
  The heaps of the scaled translation layer refine the reference heap: a heap segment is the list of
  the blocks in it, \<open>heap_fix\<close> is \<open>sift\<close> on that list, and every block in it stores its own
  position.
\<close>

lemma map_update_kept: "g v = g (xs ! b) \<Longrightarrow> map g (xs[b := v]) = map g xs"
  by (cases "b < length xs") (simp_all add: map_update list_update_same_conv list_update_beyond)

section \<open>Keys, segments and positions\<close>

definition block_key :: "ftl_scale \<Rightarrow> bool \<Rightarrow> nat \<Rightarrow> nat \<times> nat \<times> nat" where
  "block_key f victim b =
     (if victim then sb_live_pages (sf_block_at f b) else 0, sb_wear (sf_block_at f b), b)"

lemma sf_less_key: "sf_less f a b victim \<longleftrightarrow> block_key f victim a < block_key f victim b"
  by (auto simp: sf_less_def block_key_def Let_def)

lemma block_key_inject: "block_key f victim a = block_key f victim b \<longleftrightarrow> a = b"
  by (auto simp: block_key_def)

definition heap_seg :: "bool \<Rightarrow> nat \<Rightarrow> nat \<Rightarrow> ftl_scale \<Rightarrow> nat list" where
  "heap_seg victim off n f = map (\<lambda>i. heap_array victim f ! (off + i)) [0..<n]"

lemma heap_seg_length [simp]: "length (heap_seg victim off n f) = n"
  by (simp add: heap_seg_def)

lemma heap_seg_nth [simp]: "i < n \<Longrightarrow> heap_seg victim off n f ! i = heap_array victim f ! (off + i)"
  by (simp add: heap_seg_def)

text \<open>Every block of the segment is a block of the device and stores its position.\<close>

definition heap_indexed :: "bool \<Rightarrow> nat \<Rightarrow> nat \<Rightarrow> ftl_scale \<Rightarrow> bool" where
  "heap_indexed victim off n f \<longleftrightarrow> off + n \<le> length (heap_array victim f) \<and>
     (\<forall>i<n. heap_array victim f ! (off + i) < length (sf_blocks f) \<and>
        heap_position f (heap_array victim f ! (off + i)) victim = i)"

lemma heap_indexed_distinct: "heap_indexed victim off n f \<Longrightarrow> distinct (heap_seg victim off n f)"
  unfolding distinct_conv_nth heap_indexed_def by (metis heap_seg_length heap_seg_nth)

section \<open>What the heaps leave alone\<close>

definition heap_core :: "ftl_scale \<Rightarrow> ftl_scale" where
  "heap_core f = f\<lparr>sf_free_heap := [], sf_victim_heap := [], sf_free_count := 0, sf_victim_count := 0,
     sf_blocks := map (\<lambda>x. x\<lparr>sb_free_heap_pos := 0, sb_victim_heap_pos := 0\<rparr>) (sf_blocks f),
     sf_heads := (sf_heads f)\<lparr>hs_domain := map (\<lambda>d. d\<lparr>hd_free_count := 0\<rparr>) (hs_domain (sf_heads f))\<rparr>\<rparr>"

text \<open>A rearrangement of one segment.\<close>

definition heap_moved :: "bool \<Rightarrow> nat \<Rightarrow> nat \<Rightarrow> ftl_scale \<Rightarrow> ftl_scale \<Rightarrow> bool" where
  "heap_moved victim off n f f' \<longleftrightarrow> heap_core f' = heap_core f \<and> sf_heads f' = sf_heads f \<and>
     sf_free_count f' = sf_free_count f \<and> sf_victim_count f' = sf_victim_count f \<and>
     heap_array (\<not> victim) f' = heap_array (\<not> victim) f \<and>
     (\<forall>b. heap_position f' b (\<not> victim) = heap_position f b (\<not> victim)) \<and>
     length (heap_array victim f') = length (heap_array victim f) \<and>
     (\<forall>i. i < off \<or> off + n \<le> i \<longrightarrow> heap_array victim f' ! i = heap_array victim f ! i) \<and>
     (\<forall>b. b \<notin> set (heap_seg victim off n f) \<longrightarrow> heap_position f' b victim = heap_position f b victim) \<and>
     set (heap_seg victim off n f') = set (heap_seg victim off n f)"

lemma heap_moved_refl [simp]: "heap_moved victim off n f f"
  by (simp add: heap_moved_def)

lemma heap_moved_trans: "heap_moved victim off n f g \<Longrightarrow> heap_moved victim off n g h \<Longrightarrow> heap_moved victim off n f h"
  by (simp add: heap_moved_def)

lemma heap_core_blocks:
  assumes "heap_core f' = heap_core f"
  shows "length (sf_blocks f') = length (sf_blocks f)"
    and "b < length (sf_blocks f) \<Longrightarrow> sf_disk f' b = sf_disk f b"
    and "b < length (sf_blocks f) \<Longrightarrow> sb_live_pages (sf_block_at f' b) = sb_live_pages (sf_block_at f b)"
    and "b < length (sf_blocks f) \<Longrightarrow> sb_wear (sf_block_at f' b) = sb_wear (sf_block_at f b)"
    and "b < length (sf_blocks f) \<Longrightarrow> sb_reserved_pages (sf_block_at f' b) = sb_reserved_pages (sf_block_at f b)"
proof -
  let ?c = "\<lambda>x. x\<lparr>sb_free_heap_pos := 0, sb_victim_heap_pos := 0\<rparr>"
  have eq: "map ?c (sf_blocks f') = map ?c (sf_blocks f)"
    using arg_cong [OF assms, of sf_blocks] by (simp add: heap_core_def)
  then show len: "length (sf_blocks f') = length (sf_blocks f)"
    by (rule map_eq_imp_length_eq)
  have nth: "?c (sf_block_at f' b) = ?c (sf_block_at f b)" if "b < length (sf_blocks f)"
    using arg_cong [OF eq, of "\<lambda>xs. xs ! b"] that len by (simp add: sf_block_at_def)
  show "b < length (sf_blocks f) \<Longrightarrow> sf_disk f' b = sf_disk f b"
    and "b < length (sf_blocks f) \<Longrightarrow> sb_live_pages (sf_block_at f' b) = sb_live_pages (sf_block_at f b)"
    and "b < length (sf_blocks f) \<Longrightarrow> sb_wear (sf_block_at f' b) = sb_wear (sf_block_at f b)"
    and "b < length (sf_blocks f) \<Longrightarrow> sb_reserved_pages (sf_block_at f' b) = sb_reserved_pages (sf_block_at f b)"
    using arg_cong [OF nth, of sb_disk] arg_cong [OF nth, of sb_live_pages] arg_cong [OF nth, of sb_wear]
      arg_cong [OF nth, of sb_reserved_pages] by simp_all
qed

lemma heap_core_key:
  "heap_core f' = heap_core f \<Longrightarrow> b < length (sf_blocks f) \<Longrightarrow> block_key f' victim b = block_key f victim b"
  using heap_core_blocks(3,4) [of f' f b] by (simp add: block_key_def)

section \<open>The basic writes\<close>

lemma heap_put_fields [simp]:
  "heap_array victim (heap_put victim i b f) = (heap_array victim f)[i := b]"
  "heap_array (\<not> victim) (heap_put victim i b f) = heap_array (\<not> victim) f"
  "heap_position (heap_put victim i b f) c v = heap_position f c v"
  "sf_blocks (heap_put victim i b f) = sf_blocks f" "sf_heads (heap_put victim i b f) = sf_heads f"
  "sf_free_count (heap_put victim i b f) = sf_free_count f"
  "sf_victim_count (heap_put victim i b f) = sf_victim_count f"
  "heap_core (heap_put victim i b f) = heap_core f"
  by (simp_all add: heap_put_def heap_array_def heap_position_def sf_block_at_def heap_core_def)

lemma heap_position_put_fields [simp]:
  "heap_array v (heap_position_put b victim p f) = heap_array v f"
  "length (sf_blocks (heap_position_put b victim p f)) = length (sf_blocks f)"
  "sf_heads (heap_position_put b victim p f) = sf_heads f"
  "sf_free_count (heap_position_put b victim p f) = sf_free_count f"
  "sf_victim_count (heap_position_put b victim p f) = sf_victim_count f"
  by (simp_all add: heap_position_put_def sf_block_put_def heap_array_def)

lemma heap_position_put_other [simp]:
  "heap_position (heap_position_put b victim p f) c (\<not> victim) = heap_position f c (\<not> victim)"
  by (simp add: heap_position_put_def heap_position_def sf_block_at_put)

lemma heap_position_put_core [simp]: "heap_core (heap_position_put b victim p f) = heap_core f"
proof -
  have "map (\<lambda>x. x\<lparr>sb_free_heap_pos := 0, sb_victim_heap_pos := 0\<rparr>)
      ((sf_blocks f)[b := (if victim then (sf_blocks f ! b)\<lparr>sb_victim_heap_pos := p\<rparr> else (sf_blocks f ! b)\<lparr>sb_free_heap_pos := p\<rparr>)])
    = map (\<lambda>x. x\<lparr>sb_free_heap_pos := 0, sb_victim_heap_pos := 0\<rparr>) (sf_blocks f)"
    by (rule map_update_kept) simp
  then show ?thesis
    by (simp add: heap_position_put_def sf_block_put_def heap_core_def)
qed

lemma heap_position_put_at:
  "heap_position (heap_position_put b victim p f) c victim =
     (if c = b \<and> b < length (sf_blocks f) then p else heap_position f c victim)"
  by (auto simp: heap_position_put_def heap_position_def sf_block_at_put)

section \<open>Swaps and sifting\<close>

lemma heap_swap_array:
  "heap_array victim (heap_swap off a b victim f) = list_swap (heap_array victim f) (off + a) (off + b)"
  by (simp add: heap_swap_def Let_def list_swap_def)

lemma heap_swap_seg:
  assumes "off + n \<le> length (heap_array victim f)" and "a < n" "b < n"
  shows "heap_seg victim off n (heap_swap off a b victim f) = list_swap (heap_seg victim off n f) a b"
  by (rule nth_equalityI) (use assms in \<open>auto simp: heap_swap_array list_swap_nth\<close>)

lemma heap_swap_moved:
  assumes ix: "heap_indexed victim off n f" and "a < n" "b < n"
  shows "heap_moved victim off n f (heap_swap off a b victim f)"
proof -
  let ?f = "heap_swap off a b victim f"
  have len: "off + n \<le> length (heap_array victim f)"
    using ix by (simp add: heap_indexed_def)
  have mem: "heap_array victim f ! (off + a) \<in> set (heap_seg victim off n f)"
    "heap_array victim f ! (off + b) \<in> set (heap_seg victim off n f)"
    using assms(2,3) by (auto simp: heap_seg_def)
  have "mset (heap_seg victim off n ?f) = mset (heap_seg victim off n f)"
    unfolding heap_swap_seg [OF len assms(2,3)] by (rule list_swap_mset) (use assms in simp_all)
  then have "set (heap_seg victim off n ?f) = set (heap_seg victim off n f)"
    by (metis set_mset_mset)
  moreover have "heap_array victim ?f ! i = heap_array victim f ! i" if "i < off \<or> off + n \<le> i" for i
    using that assms(2,3) by (auto simp: heap_swap_array list_swap_def)
  moreover have "heap_position ?f c victim = heap_position f c victim" if "c \<notin> set (heap_seg victim off n f)" for c
  proof -
    have "c \<noteq> heap_array victim f ! (off + a)" "c \<noteq> heap_array victim f ! (off + b)"
      using that mem by auto
    then show ?thesis
      by (simp add: heap_swap_def Let_def heap_position_put_at)
  qed
  ultimately show ?thesis
    by (simp add: heap_moved_def heap_swap_array) (simp add: heap_swap_def Let_def)
qed

lemma heap_swap_indexed:
  assumes ix: "heap_indexed victim off n f" and ab: "a < n" "b < n" "a \<noteq> b"
  shows "heap_indexed victim off n (heap_swap off a b victim f)"
proof -
  let ?h = "heap_array victim f" and ?f = "heap_swap off a b victim f"
  have len: "off + n \<le> length ?h"
    and at: "\<And>i. i < n \<Longrightarrow> ?h ! (off + i) < length (sf_blocks f) \<and> heap_position f (?h ! (off + i)) victim = i"
    using ix by (auto simp: heap_indexed_def)
  have blocks: "length (sf_blocks ?f) = length (sf_blocks f)"
    by (simp add: heap_swap_def Let_def)
  have pos: "heap_position ?f c victim = (if c = ?h ! (off + a) then b else if c = ?h ! (off + b) then a else heap_position f c victim)" for c
    using at ab by (auto simp: heap_swap_def Let_def heap_position_put_at)
  have nth: "heap_array victim ?f ! (off + i) = (if i = a then ?h ! (off + b) else if i = b then ?h ! (off + a) else ?h ! (off + i))"
    if "i < n" for i
    using len ab that by (simp add: heap_swap_array list_swap_nth)
  have neq: "?h ! (off + i) \<noteq> ?h ! (off + j)" if "i < n" "j < n" "i \<noteq> j" for i j
    using at that by metis
  show ?thesis
    unfolding heap_indexed_def
  proof (intro conjI allI impI)
    show "off + n \<le> length (heap_array victim ?f)"
      using len by (simp add: heap_swap_array)
    fix i assume i: "i < n"
    show "heap_array victim ?f ! (off + i) < length (sf_blocks ?f)"
      using at i ab by (simp add: nth blocks)
    show "heap_position ?f (heap_array victim ?f ! (off + i)) victim = i"
      using at i ab neq by (auto simp: nth pos)
  qed
qed

text \<open>What a loop of \<open>heap_fix\<close> does to one segment.\<close>

definition heap_sifted :: "bool \<Rightarrow> nat \<Rightarrow> nat \<Rightarrow> nat list \<Rightarrow> ftl_scale \<Rightarrow> ftl_scale \<Rightarrow> bool" where
  "heap_sifted victim off n h f f' \<longleftrightarrow>
     heap_seg victim off n f' = h \<and> heap_indexed victim off n f' \<and> heap_moved victim off n f f'"

lemma heap_swap_key:
  assumes "heap_indexed victim off n f" and "a < n" "b < n" and "x \<in> set (heap_seg victim off n f)"
  shows "block_key (heap_swap off a b victim f) victim x = block_key f victim x"
  by (rule heap_core_key) (use assms heap_swap_moved [OF assms(1-3)] in
      \<open>auto simp: heap_moved_def heap_indexed_def heap_seg_def\<close>)

text \<open>A loop that swaps and goes on.\<close>

lemma heap_sifted_swap:
  assumes ix: "heap_indexed victim off n f" and ab: "a < n" "b < n" "a \<noteq> b"
    and rest: "heap_sifted victim off n h (heap_swap off a b victim f) f'"
  shows "heap_sifted victim off n h f f'"
  using rest heap_moved_trans [OF heap_swap_moved [OF ix ab(1,2)]] by (simp add: heap_sifted_def)

lemma sift_up_cong:
  "(\<And>x. x \<in> set h \<Longrightarrow> k x = k' x) \<Longrightarrow> p < length h \<Longrightarrow> sift_up k p h = sift_up k' p h"
proof (induction k p h rule: sift_up.induct)
  case (1 k p h)
  have keys: "k (h ! i) = k' (h ! i)" if "i < length h" for i
    using 1(2) that by simp
  have set: "set (list_swap h p (heap_parent p)) = set h"
    using list_swap_mset [OF 1(3), of "heap_parent p"] 1(3) by (metis heap_parent_bound set_mset_mset)
  show ?case
    using 1(1) [OF refl] keys 1(2,3) set by (auto simp: sift_up.simps [of _ p h] Let_def)
qed

lemma sift_down_cong:
  "(\<And>x. x \<in> set h \<Longrightarrow> k x = k' x) \<Longrightarrow> p < length h \<Longrightarrow> sift_down k p h = sift_down k' p h"
proof (induction k p h rule: sift_down.induct)
  case (1 k p h)
  let ?c = "p * 2 + 1"
  define s where "s = (if ?c + 1 < length h \<and> k (h ! (?c + 1)) < k (h ! ?c) then ?c + 1 else ?c)"
  have keys: "k (h ! i) = k' (h ! i)" if "i < length h" for i
    using 1(2) that by simp
  show ?case
  proof (cases "?c \<ge> length h")
    case True
    then show ?thesis
      by (simp add: sift_down.simps [of _ p h])
  next
    case False
    have s': "s = (if ?c + 1 < length h \<and> k' (h ! (?c + 1)) < k' (h ! ?c) then ?c + 1 else ?c)"
      using keys False by (simp add: s_def cong: conj_cong)
    have s: "s < length h"
      using False by (simp add: s_def)
    have eq: "sift_down k p h = (if \<not> k (h ! s) < k (h ! p) then h else sift_down k s (list_swap h s p))"
      unfolding sift_down.simps [of k p h] Let_def s_def using False by (simp only: if_False)
    have eq': "sift_down k' p h = (if \<not> k' (h ! s) < k' (h ! p) then h else sift_down k' s (list_swap h s p))"
      unfolding sift_down.simps [of k' p h] Let_def s' using False by (simp only: if_False)
    have set: "set (list_swap h s p) = set h"
      using list_swap_mset [OF s 1(3)] by (metis set_mset_mset)
    show ?thesis
      using 1(1) [OF refl False s_def] 1(2,3) set s keys by (simp add: eq eq')
  qed
qed

lemma heap_up_sifted:
  "heap_indexed victim off n f \<Longrightarrow> p < n \<Longrightarrow>
     fst (heap_up off p victim f) = fst (sift_up (block_key f victim) p (heap_seg victim off n f)) \<and>
     heap_sifted victim off n (snd (sift_up (block_key f victim) p (heap_seg victim off n f))) f (snd (heap_up off p victim f))"
proof (induction off p victim f rule: heap_up.induct)
  case (1 off p victim f)
  let ?q = "heap_parent p" and ?h = "heap_seg victim off n f" and ?k = "block_key f victim"
  let ?f = "heap_swap off p ?q victim f"
  have q: "?q < n" and len: "off + n \<le> length (heap_array victim f)"
    using 1(2,3) by (simp_all add: heap_indexed_def)
  have cond: "(p \<noteq> 0 \<and> sf_less f (heap_array victim f ! (off + p)) (heap_array victim f ! (off + ?q)) victim)
      \<longleftrightarrow> (p \<noteq> 0 \<and> ?k (?h ! p) < ?k (?h ! ?q))"
    using q 1(3) by (simp add: sf_less_key)
  have up: "heap_up off p victim f = (if p \<noteq> 0 \<and> ?k (?h ! p) < ?k (?h ! ?q) then heap_up off ?q victim ?f else (p, f))"
    unfolding heap_up.simps [of off p victim f] Let_def heap_parent_def [symmetric] cond ..
  show ?case
  proof (cases "p \<noteq> 0 \<and> ?k (?h ! p) < ?k (?h ! ?q)")
    case True
    then have ne: "p \<noteq> ?q"
      using heap_parent_neq [of p] by metis
    have IH: "fst (heap_up off ?q victim ?f) = fst (sift_up (block_key ?f victim) ?q (heap_seg victim off n ?f)) \<and>
      heap_sifted victim off n (snd (sift_up (block_key ?f victim) ?q (heap_seg victim off n ?f))) ?f (snd (heap_up off ?q victim ?f))"
      using 1(1) [OF heap_parent_def] True cond heap_swap_indexed [OF 1(2,3) q ne] q by blast
    have "sift_up (block_key ?f victim) ?q (heap_seg victim off n ?f) = sift_up ?k ?q (list_swap ?h p ?q)"
      unfolding heap_swap_seg [OF len 1(3) q]
      by (rule sift_up_cong) (use heap_swap_key [OF 1(2,3) q] list_swap_mset [of p ?h ?q] 1(3) q in
          \<open>auto dest!: mset_eq_setD\<close>)
    then show ?thesis
      using IH True heap_sifted_swap [OF 1(2,3) q ne] by (simp add: up sift_up.simps [of ?k p ?h] Let_def)
  next
    case False
    then have "heap_up off p victim f = (p, f)" "sift_up ?k p ?h = (p, ?h)"
      unfolding up sift_up.simps [of ?k p ?h] Let_def by (simp_all only: if_False)
    then show ?thesis
      using 1(2) by (simp add: heap_sifted_def)
  qed
qed

lemma heap_down_sifted:
  "heap_indexed victim off n f \<Longrightarrow> p < n \<Longrightarrow>
     heap_sifted victim off n (sift_down (block_key f victim) p (heap_seg victim off n f)) f (heap_down off n p victim f)"
proof (induction off n p victim f rule: heap_down.induct)
  case (1 off n p victim f)
  let ?c = "p * 2 + 1" and ?h = "heap_seg victim off n f" and ?k = "block_key f victim"
  define s where "s = (if ?c + 1 < n \<and> ?k (?h ! (?c + 1)) < ?k (?h ! ?c) then ?c + 1 else ?c)"
  let ?f = "heap_swap off s p victim f"
  have len: "off + n \<le> length (heap_array victim f)"
    using 1(2) by (simp add: heap_indexed_def)
  show ?case
  proof (cases "?c \<ge> n")
    case True
    then show ?thesis
      using 1(2) by (simp add: heap_down.simps [of off n p] sift_down.simps [of ?k p ?h] heap_sifted_def)
  next
    case False
    have s: "s < n" "s \<noteq> p"
      using False by (auto simp: s_def)
    have s': "s = (if ?c + 1 < n \<and> sf_less f (heap_array victim f ! (off + (?c + 1))) (heap_array victim f ! (off + ?c)) victim
        then ?c + 1 else ?c)"
      using False by (simp add: s_def sf_less_key cong: conj_cong)
    have down: "heap_down off n p victim f = (if \<not> ?k (?h ! s) < ?k (?h ! p) then f else heap_down off n s victim ?f)"
      unfolding heap_down.simps [of off n p] Let_def s' [symmetric] using False s 1(3) by (simp add: sf_less_key)
    have eq: "sift_down ?k p ?h = (if \<not> ?k (?h ! s) < ?k (?h ! p) then ?h else sift_down ?k s (list_swap ?h s p))"
      unfolding sift_down.simps [of ?k p ?h] Let_def s_def heap_seg_length using False by (simp only: if_False)
    show ?thesis
    proof (cases "?k (?h ! s) < ?k (?h ! p)")
      case True
      have IH: "heap_sifted victim off n (sift_down (block_key ?f victim) s (heap_seg victim off n ?f)) ?f (heap_down off n s victim ?f)"
        using 1(1) [OF refl refl False s'] True heap_swap_indexed [OF 1(2) s(1) 1(3) s(2)] s(1) 1(3)
        by (simp add: sf_less_key)
      have "sift_down (block_key ?f victim) s (heap_seg victim off n ?f) = sift_down ?k s (list_swap ?h s p)"
        unfolding heap_swap_seg [OF len s(1) 1(3)]
        by (rule sift_down_cong) (use heap_swap_key [OF 1(2) s(1) 1(3)] list_swap_mset [of s ?h p] 1(3) s in
            \<open>auto dest!: mset_eq_setD\<close>)
      then show ?thesis
        using IH True heap_sifted_swap [OF 1(2) s(1) 1(3) s(2)] by (simp add: down eq)
    next
      case stop: False
      then show ?thesis
        using 1(2) by (simp add: down eq heap_sifted_def)
    qed
  qed
qed

theorem heap_fix_sifted:
  assumes ix: "heap_indexed victim off n f" and p: "p < n"
    and but: "heap_but (block_key f victim) p (heap_seg victim off n f)"
  shows "heap_sifted victim off n (sift (block_key f victim) p (heap_seg victim off n f)) f (heap_fix off n p victim f)"
proof -
  let ?k = "block_key f victim" and ?h = "heap_seg victim off n f"
  let ?u = "heap_up off p victim f" and ?s = "sift_up ?k p ?h"
  have up: "fst ?u = fst ?s" "heap_sifted victim off n (snd ?s) f (snd ?u)"
    using heap_up_sifted [OF ix p] by simp_all
  have q: "fst ?s < n" and m: "mset (snd ?s) = mset ?h"
    using sift_up_but [OF but] p by simp_all
  have set: "set (snd ?s) = set ?h"
    by (rule mset_eq_setD [OF m])
  have ix': "heap_indexed victim off n (snd ?u)" and seg: "heap_seg victim off n (snd ?u) = snd ?s"
    and moved: "heap_moved victim off n f (snd ?u)"
    using up(2) by (simp_all add: heap_sifted_def)
  have "block_key (snd ?u) victim x = ?k x" if "x \<in> set (snd ?s)" for x
  proof (rule heap_core_key)
    show "heap_core (snd ?u) = heap_core f"
      using moved by (simp add: heap_moved_def)
    show "x < length (sf_blocks f)"
      using that ix unfolding set by (auto simp: heap_indexed_def heap_seg_def)
  qed
  then have "sift_down (block_key (snd ?u) victim) (fst ?s) (snd ?s) = sift_down ?k (fst ?s) (snd ?s)"
    using q arg_cong [OF seg, of length] by (intro sift_down_cong) simp_all
  then show ?thesis
    using heap_down_sifted [OF ix' q] heap_moved_trans [OF moved] up(1) seg
    by (simp add: heap_fix_def sift_def Let_def heap_sifted_def)
qed

end
