(* ===== verification/Scale_Heap_Update.thy ===== *)
theory Scale_Heap_Update
  imports Scale_Heap_Laws
begin

text \<open>
  The update of one block in one of the heaps (\<open>heap_update\<close>): insertion, removal and a changed key,
  each restores the order of the heap and leaves the other heaps alone.
\<close>

section \<open>What depends on the unchanged part only\<close>

lemma heap_core_fields:
  assumes "heap_core f' = heap_core f"
  shows "sf_geometry f' = sf_geometry f" "sf_root f' = sf_root f" "sf_map f' = sf_map f" "sf_validity f' = sf_validity f"
    "sf_host_head f' = sf_host_head f" "sf_physical_blocks f' = sf_physical_blocks f"
    "sf_physical_pages f' = sf_physical_pages f" "sf_disk_format f' = sf_disk_format f"
    "sf_record_sequence f' = sf_record_sequence f" "sf_map_sequence f' = sf_map_sequence f"
    "sf_durable_frontier f' = sf_durable_frontier f" "sf_next_block_uid f' = sf_next_block_uid f"
    "sf_erase_intent_sequence f' = sf_erase_intent_sequence f" "sf_erase_intent_block f' = sf_erase_intent_block f"
    "sf_garbage_collections f' = sf_garbage_collections f"
    "hs_count (sf_heads f') = hs_count (sf_heads f)" "hs_per_channel (sf_heads f') = hs_per_channel (sf_heads f)"
    "hs_gc_destination (sf_heads f') = hs_gc_destination (sf_heads f)"
    "map (\<lambda>d. d\<lparr>hd_free_count := 0\<rparr>) (hs_domain (sf_heads f')) = map (\<lambda>d. d\<lparr>hd_free_count := 0\<rparr>) (hs_domain (sf_heads f))"
proof -
  note eq = arg_cong [OF assms]
  show "sf_geometry f' = sf_geometry f" "sf_root f' = sf_root f" "sf_map f' = sf_map f" "sf_validity f' = sf_validity f"
    "sf_host_head f' = sf_host_head f" "sf_physical_blocks f' = sf_physical_blocks f"
    "sf_physical_pages f' = sf_physical_pages f" "sf_disk_format f' = sf_disk_format f"
    "sf_record_sequence f' = sf_record_sequence f" "sf_map_sequence f' = sf_map_sequence f"
    "sf_durable_frontier f' = sf_durable_frontier f" "sf_next_block_uid f' = sf_next_block_uid f"
    "sf_erase_intent_sequence f' = sf_erase_intent_sequence f" "sf_erase_intent_block f' = sf_erase_intent_block f"
    "sf_garbage_collections f' = sf_garbage_collections f"
    using eq [of sf_geometry] eq [of sf_root] eq [of sf_map] eq [of sf_validity] eq [of sf_host_head]
      eq [of sf_physical_blocks] eq [of sf_physical_pages] eq [of sf_disk_format] eq [of sf_record_sequence]
      eq [of sf_map_sequence] eq [of sf_durable_frontier] eq [of sf_next_block_uid]
      eq [of sf_erase_intent_sequence] eq [of sf_erase_intent_block] eq [of sf_garbage_collections]
    by (simp_all add: heap_core_def)
  show "hs_count (sf_heads f') = hs_count (sf_heads f)" "hs_per_channel (sf_heads f') = hs_per_channel (sf_heads f)"
    "hs_gc_destination (sf_heads f') = hs_gc_destination (sf_heads f)"
    "map (\<lambda>d. d\<lparr>hd_free_count := 0\<rparr>) (hs_domain (sf_heads f')) = map (\<lambda>d. d\<lparr>hd_free_count := 0\<rparr>) (hs_domain (sf_heads f))"
    using eq [of "\<lambda>f. hs_count (sf_heads f)"] eq [of "\<lambda>f. hs_per_channel (sf_heads f)"]
      eq [of "\<lambda>f. hs_gc_destination (sf_heads f)"] eq [of "\<lambda>f. hs_domain (sf_heads f)"]
    by (simp_all add: heap_core_def)
qed

lemma heap_core_domains:
  assumes "heap_core f' = heap_core f"
  shows "length (hs_domain (sf_heads f')) = length (hs_domain (sf_heads f))"
    and "d < length (hs_domain (sf_heads f)) \<Longrightarrow> hd_heap_offset (sf_domain_at f' d) = hd_heap_offset (sf_domain_at f d)"
    and "d < length (hs_domain (sf_heads f)) \<Longrightarrow> hd_heap_capacity (sf_domain_at f' d) = hd_heap_capacity (sf_domain_at f d)"
    and "d < length (hs_domain (sf_heads f)) \<Longrightarrow> hd_head (sf_domain_at f' d) = hd_head (sf_domain_at f d)"
    and "sf_head_domain f' b = sf_head_domain f b" and "sf_multihead f' = sf_multihead f"
    and "sf_ppb f' = sf_ppb f" and "sf_data_first f' = sf_data_first f" and "sf_lpn_count f' = sf_lpn_count f"
proof -
  note fields = heap_core_fields [OF assms]
  show len: "length (hs_domain (sf_heads f')) = length (hs_domain (sf_heads f))"
    by (rule map_eq_imp_length_eq [OF fields(19)])
  have nth: "(sf_domain_at f' d)\<lparr>hd_free_count := 0\<rparr> = (sf_domain_at f d)\<lparr>hd_free_count := 0\<rparr>"
    if "d < length (hs_domain (sf_heads f))"
    using arg_cong [OF fields(19), of "\<lambda>xs. xs ! d"] that len by (simp add: sf_domain_at_def)
  show "d < length (hs_domain (sf_heads f)) \<Longrightarrow> hd_heap_offset (sf_domain_at f' d) = hd_heap_offset (sf_domain_at f d)"
    and "d < length (hs_domain (sf_heads f)) \<Longrightarrow> hd_heap_capacity (sf_domain_at f' d) = hd_heap_capacity (sf_domain_at f d)"
    and "d < length (hs_domain (sf_heads f)) \<Longrightarrow> hd_head (sf_domain_at f' d) = hd_head (sf_domain_at f d)"
    using arg_cong [OF nth, of hd_heap_offset] arg_cong [OF nth, of hd_heap_capacity] arg_cong [OF nth, of hd_head] by simp_all
  show "sf_head_domain f' b = sf_head_domain f b" and "sf_multihead f' = sf_multihead f"
    and "sf_ppb f' = sf_ppb f" and "sf_data_first f' = sf_data_first f" and "sf_lpn_count f' = sf_lpn_count f"
    by (simp_all add: sf_head_domain_def sf_multihead_def sf_ppb_def sf_data_first_def sf_lpn_count_def fields)
qed

lemma heap_partitioned_core: "heap_core f' = heap_core f \<Longrightarrow> heap_partitioned f' victim = heap_partitioned f victim"
  using heap_core_domains(6) [of f' f] by (simp add: heap_partitioned_def)

section \<open>Sizes\<close>

text \<open>A block whose heap has a size: in a partitioned heap, its domain exists.\<close>

definition heap_known :: "ftl_scale \<Rightarrow> nat \<Rightarrow> bool \<Rightarrow> bool" where
  "heap_known f b victim \<longleftrightarrow> b < length (sf_blocks f) \<and>
     (heap_partitioned f victim \<longrightarrow> sf_head_domain f b < length (hs_domain (sf_heads f)))"

lemma heap_known_core: "heap_core f' = heap_core f \<Longrightarrow> heap_known f' b victim = heap_known f b victim"
  using heap_core_domains(1,5) [of f' f] heap_core_blocks(1) [of f' f] heap_partitioned_core [of f' f]
  by (simp add: heap_known_def)

lemma heap_offset_core:
  "heap_core f' = heap_core f \<Longrightarrow> heap_known f b victim \<Longrightarrow> heap_offset f' b victim = heap_offset f b victim"
  using heap_core_domains(2,5) [of f' f] heap_partitioned_core [of f' f] by (auto simp: heap_offset_def heap_known_def)

lemma heap_size_put_fields [simp]:
  "heap_array v (heap_size_put b victim n f) = heap_array v f"
  "heap_position (heap_size_put b victim n f) c v = heap_position f c v"
  "sf_blocks (heap_size_put b victim n f) = sf_blocks f"
  by (simp_all add: heap_size_put_def heap_array_def heap_position_def sf_block_at_def sf_domain_put_def)

lemma heap_size_put_core [simp]: "heap_core (heap_size_put b victim n f) = heap_core f"
proof -
  let ?d = "sf_head_domain f b"
  have "map (\<lambda>d. d\<lparr>hd_free_count := 0\<rparr>) ((hs_domain (sf_heads f))[?d := (hs_domain (sf_heads f) ! ?d)\<lparr>hd_free_count := n\<rparr>])
      = map (\<lambda>d. d\<lparr>hd_free_count := 0\<rparr>) (hs_domain (sf_heads f))"
    by (rule map_update_kept) simp
  then show ?thesis
    by (simp add: heap_size_put_def heap_core_def sf_domain_put_def)
qed

lemma heap_size_put_at:
  "heap_known f b victim \<Longrightarrow> heap_size (heap_size_put b victim n f) b victim = n"
  using heap_core_domains(5) [OF heap_size_put_core, of b victim n f] heap_partitioned_core [OF heap_size_put_core, of b victim n f]
  by (auto simp: heap_size_def heap_known_def) (simp_all add: heap_size_put_def sf_domain_at_put)

text \<open>The sizes a write of another size leaves alone.\<close>

lemma heap_size_put_free_count:
  "sf_victim_count (heap_size_put b False n f) = sf_victim_count f"
  "sf_free_count (heap_size_put b True n f) = sf_free_count f"
  "sf_heads (heap_size_put b True n f) = sf_heads f"
  "sf_multihead f \<Longrightarrow> sf_free_count (heap_size_put b False n f) = sf_free_count f"
  "d \<noteq> sf_head_domain f b \<Longrightarrow> sf_domain_at (heap_size_put b False n f) d = sf_domain_at f d"
  by (simp_all add: heap_size_put_def heap_partitioned_def sf_domain_put_def sf_domain_at_def)

section \<open>One heap\<close>

text \<open>The segment holds exactly the blocks of \<open>M\<close>, ordered by the key \<open>k\<close>.\<close>

definition heap_holds :: "(nat \<Rightarrow> nat \<times> nat \<times> nat) \<Rightarrow> nat set \<Rightarrow> bool \<Rightarrow> nat \<Rightarrow> nat \<Rightarrow> ftl_scale \<Rightarrow> bool" where
  "heap_holds k M victim off n f \<longleftrightarrow> heap_indexed victim off n f \<and> set (heap_seg victim off n f) = M \<and>
     heap_ordered k (heap_seg victim off n f)"

lemma heap_holds_card: "heap_holds k M victim off n f \<Longrightarrow> card M = n"
  using distinct_card [OF heap_indexed_distinct, of victim off n f] by (auto simp: heap_holds_def)

lemma heap_holds_finite: "heap_holds k M victim off n f \<Longrightarrow> finite M"
  unfolding heap_holds_def by (metis List.finite_set)

lemma heap_holds_position:
  assumes "heap_holds k M victim off n f" and "b \<in> M"
  shows "heap_position f b victim < n" and "heap_array victim f ! (off + heap_position f b victim) = b"
    and "b < length (sf_blocks f)"
  using assms by (auto simp: heap_holds_def heap_indexed_def heap_seg_def)

lemma heap_holds_first:
  assumes "heap_holds k M victim off n f" and "b \<in> M"
  shows "heap_array victim f ! off \<in> M" and "k (heap_array victim f ! off) \<le> k b"
proof -
  have n: "0 < n" and b: "heap_position f b victim < n" "heap_array victim f ! (off + heap_position f b victim) = b"
    using heap_holds_position [OF assms] by auto
  have "heap_seg victim off n f ! 0 \<in> M"
    using assms(1) n unfolding heap_holds_def by (metis heap_seg_length nth_mem)
  then show "heap_array victim f ! off \<in> M"
    using n by simp
  show "k (heap_array victim f ! off) \<le> k b"
    using heap_first_least [of k "heap_seg victim off n f" "heap_position f b victim"] assms(1) b n
    by (simp add: heap_holds_def)
qed

text \<open>A segment that is rearranged by \<open>heap_fix\<close>.\<close>

lemma heap_fix_holds:
  assumes "heap_indexed victim off n f" and "p < n" and "heap_but (block_key f victim) p (heap_seg victim off n f)"
    and "set (heap_seg victim off n f) = M"
  shows "heap_holds (block_key f victim) M victim off n (heap_fix off n p victim f)"
    and "heap_moved victim off n f (heap_fix off n p victim f)"
proof -
  note s = heap_fix_sifted [OF assms(1-3)] and o = sift_ordered [OF assms(3)]
  show "heap_holds (block_key f victim) M victim off n (heap_fix off n p victim f)"
    using s o mset_eq_setD [OF o(2)] assms(2,4) by (simp add: heap_holds_def heap_sifted_def)
  show "heap_moved victim off n f (heap_fix off n p victim f)"
    using s by (simp add: heap_sifted_def)
qed

section \<open>Changes of one heap\<close>

text \<open>
  A change of the heap of \<open>b\<close> between two states: nothing but the segment of that heap, the
  positions of \<open>b\<close> and of the blocks of the heap, and its size.
\<close>

definition heap_changed :: "nat \<Rightarrow> nat set \<Rightarrow> bool \<Rightarrow> nat \<Rightarrow> nat \<Rightarrow> ftl_scale \<Rightarrow> ftl_scale \<Rightarrow> bool" where
  "heap_changed b M victim off n f f' \<longleftrightarrow> heap_core f' = heap_core f \<and>
     heap_array (\<not> victim) f' = heap_array (\<not> victim) f \<and>
     (\<forall>c. heap_position f' c (\<not> victim) = heap_position f c (\<not> victim)) \<and>
     length (heap_array victim f') = length (heap_array victim f) \<and>
     (\<forall>i. i < off \<or> off + n \<le> i \<longrightarrow> heap_array victim f' ! i = heap_array victim f ! i) \<and>
     (\<forall>c. c \<noteq> b \<longrightarrow> c \<notin> M \<longrightarrow> heap_position f' c victim = heap_position f c victim)"

lemma heap_moved_changed:
  assumes "heap_moved victim off n f f'" and "set (heap_seg victim off n f) \<subseteq> insert b M"
  shows "heap_changed b M victim off n f f'"
  using assms by (auto simp: heap_moved_def heap_changed_def)

lemma heap_changed_trans:
  "heap_changed b M victim off n f g \<Longrightarrow> heap_changed b M victim off n g h \<Longrightarrow> heap_changed b M victim off n f h"
  by (simp add: heap_changed_def)

lemma heap_changed_wide: "heap_changed b M victim off n f f' \<Longrightarrow> n \<le> m \<Longrightarrow> heap_changed b M victim off m f f'"
  by (auto simp: heap_changed_def)

lemma heap_moved_sizes: "heap_moved victim off n f f' \<Longrightarrow> heap_size f' c v = heap_size f c v"
  using heap_core_domains(5) [of f' f] heap_partitioned_core [of f' f]
  by (simp add: heap_moved_def heap_size_def sf_domain_at_def)

text \<open>A key that changed: only the key of \<open>b\<close> may differ.\<close>

definition key_but :: "nat \<Rightarrow> ftl_scale \<Rightarrow> bool \<Rightarrow> (nat \<Rightarrow> nat \<times> nat \<times> nat) \<Rightarrow> nat set \<Rightarrow> bool" where
  "key_but b f victim k M \<longleftrightarrow> (\<forall>x\<in>M. x \<noteq> b \<longrightarrow> k x = block_key f victim x)"

lemma heap_refix:
  assumes h: "heap_holds k M victim off n f" and "key_but b f victim k M" and b: "b \<in> M"
  shows "heap_holds (block_key f victim) M victim off n (heap_fix off n (heap_position f b victim) victim f)"
    and "heap_moved victim off n f (heap_fix off n (heap_position f b victim) victim f)"
proof -
  note pos = heap_holds_position [OF h b]
  have ix: "heap_indexed victim off n f" and set: "set (heap_seg victim off n f) = M"
    and ord: "heap_ordered k (heap_seg victim off n f)"
    using h by (simp_all add: heap_holds_def)
  have "heap_but (block_key f victim) (heap_position f b victim) (heap_seg victim off n f)"
    by (rule heap_but_key [OF ord heap_indexed_distinct [OF ix]]) (use pos set assms(2) in \<open>auto simp: key_but_def\<close>)
  then show "heap_holds (block_key f victim) M victim off n (heap_fix off n (heap_position f b victim) victim f)"
    and "heap_moved victim off n f (heap_fix off n (heap_position f b victim) victim f)"
    using heap_fix_holds [OF ix pos(1) _ set] by blast+
qed

lemma heap_holds_cong: "(\<And>x. x \<in> M \<Longrightarrow> k x = k' x) \<Longrightarrow> heap_holds k M victim off n f = heap_holds k' M victim off n f"
  unfolding heap_holds_def by (metis heap_ordered_cong)

text \<open>The sizes after a change of the heap of \<open>b\<close> to \<open>m\<close> blocks.\<close>

definition heap_resized :: "nat \<Rightarrow> bool \<Rightarrow> nat \<Rightarrow> ftl_scale \<Rightarrow> ftl_scale \<Rightarrow> bool" where
  "heap_resized b victim m f f' \<longleftrightarrow> sf_heads f' = sf_heads (heap_size_put b victim m f) \<and>
     sf_free_count f' = sf_free_count (heap_size_put b victim m f) \<and>
     sf_victim_count f' = sf_victim_count (heap_size_put b victim m f)"

lemma heap_resized_size:
  assumes "heap_core f' = heap_core f" and "heap_known f b victim" and "heap_resized b victim m f f'"
  shows "heap_size f' b victim = m"
proof -
  let ?g = "heap_size_put b victim m f"
  have "heap_core f' = heap_core ?g"
    using assms(1) by simp
  then have "heap_size f' b victim = heap_size ?g b victim"
    using heap_core_domains(5) [of f' ?g b] heap_partitioned_core [of f' ?g victim] assms(3)
    by (simp add: heap_size_def heap_resized_def sf_domain_at_def)
  then show ?thesis
    using heap_size_put_at [OF assms(2)] by simp
qed

lemma heap_seg_snoc: "heap_seg victim off (Suc m) f = heap_seg victim off m f @ [heap_array victim f ! (off + m)]"
  by (simp add: heap_seg_def)

lemma block_key_core:
  "heap_core f' = heap_core f \<Longrightarrow> heap_indexed victim off n f \<Longrightarrow> x \<in> set (heap_seg victim off n f) \<Longrightarrow>
     block_key f' victim x = block_key f victim x"
  by (rule heap_core_key) (auto simp: heap_indexed_def heap_seg_def)

lemma heap_indexed_less: "heap_indexed victim off n f \<Longrightarrow> m \<le> n \<Longrightarrow> heap_indexed victim off m f"
  by (auto simp: heap_indexed_def)

text \<open>The last block takes the place of the removed one.\<close>

lemma heap_replace_indexed:
  assumes ix: "heap_indexed victim off (Suc m) f" and p: "p < m" and b: "b = heap_array victim f ! (off + p)"
    and ev: "e = heap_array victim f ! (off + m)"
    and arr: "heap_array victim f1 = heap_array victim f" and len: "length (sf_blocks f1) = length (sf_blocks f)"
    and pos: "\<And>c. c \<noteq> b \<Longrightarrow> heap_position f1 c victim = heap_position f c victim"
    and f2: "f2 = heap_position_put e victim p (heap_put victim (off + p) e f1)"
  shows "heap_indexed victim off m f2" and "heap_seg victim off m f2 = (heap_seg victim off m f)[p := e]"
proof -
  let ?h = "heap_array victim f"
  have at: "\<And>i. i < Suc m \<Longrightarrow> ?h ! (off + i) < length (sf_blocks f) \<and> heap_position f (?h ! (off + i)) victim = i"
    and long: "off + Suc m \<le> length ?h"
    using ix by (auto simp: heap_indexed_def)
  have neq: "?h ! (off + i) \<noteq> ?h ! (off + j)" if "i < Suc m" "j < Suc m" "i \<noteq> j" for i j
    using at that by metis
  have arr2: "heap_array victim f2 = ?h[off + p := e]"
    by (simp add: f2 arr)
  show "heap_seg victim off m f2 = (heap_seg victim off m f)[p := e]"
    using long p by (intro nth_equalityI) (auto simp: arr2 nth_list_update)
  have pos2: "heap_position f2 c victim = (if c = e then p else heap_position f1 c victim)" for c
    using at [of m] by (simp add: f2 heap_position_put_at len ev)
  show "heap_indexed victim off m f2"
    unfolding heap_indexed_def
  proof (intro conjI allI impI)
    show "off + m \<le> length (heap_array victim f2)"
      using long by (simp add: arr2)
    fix i assume i: "i < m"
    have nth: "heap_array victim f2 ! (off + i) = (if i = p then e else ?h ! (off + i))"
      using long p by (simp add: arr2 nth_list_update)
    show "heap_array victim f2 ! (off + i) < length (sf_blocks f2)"
      using at [of i] at [of m] i by (simp add: nth ev) (simp add: f2 len)
    show "heap_position f2 (heap_array victim f2 ! (off + i)) victim = i"
      using at [of i] neq [of i m] neq [of i p] pos i p by (simp add: nth pos2 ev b)
  qed
qed

lemma heap_remove_holds:
  assumes h: "heap_holds k M victim off n f" and key: "key_but b f victim k M" and b: "b \<in> M"
    and known: "heap_known f b victim" and off: "off = heap_offset f b victim" and n: "n = heap_size f b victim" "n < 4294967296"
    and f': "f' = heap_remove b victim f"
  shows "heap_holds (block_key f victim) (M - {b}) victim off (n - 1) f'" and "heap_changed b M victim off n f f'"
    and "heap_position f' b victim = SF_HEAP_NONE" and "heap_resized b victim (n - 1) f f'"
proof -
  note pos = heap_holds_position [OF h b]
  have ix: "heap_indexed victim off n f" and set: "set (heap_seg victim off n f) = M"
    and ord: "heap_ordered k (heap_seg victim off n f)"
    using h by (simp_all add: heap_holds_def)
  obtain m where m: "n = Suc m"
    using pos(1) by (cases n) auto
  have w: "w32 (heap_size f b victim + 4294967295) = m"
    using n m w32_pred [of n] by simp
  let ?p = "heap_position f b victim" and ?last = "heap_array victim f ! (off + m)"
  let ?f1 = "heap_position_put b victim SF_HEAP_NONE (heap_size_put b victim m f)"
  let ?f2 = "heap_position_put ?last victim ?p (heap_put victim (off + ?p) ?last ?f1)"
  have ix': "heap_indexed victim off (Suc m) f" and dist: "distinct (heap_seg victim off m f @ [?last])"
    using ix heap_indexed_distinct [OF ix] unfolding m heap_seg_snoc by simp_all
  have M: "M = set (heap_seg victim off m f) \<union> {?last}"
    using set unfolding m heap_seg_snoc by auto
  have eq: "f' = (if ?p < m then heap_fix off m ?p victim ?f2 else ?f1)"
    unfolding f' heap_remove_def Let_def w off [symmetric] by simp
  have pos1: "heap_position ?f1 c victim = (if c = b then SF_HEAP_NONE else heap_position f c victim)" for c
    using pos(3) by (simp add: heap_position_put_at)
  show "heap_holds (block_key f victim) (M - {b}) victim off (n - 1) f'" and "heap_changed b M victim off n f f'"
    and "heap_position f' b victim = SF_HEAP_NONE" and "heap_resized b victim (n - 1) f f'"
  proof -
    consider (inner) "?p < m" | (last) "?p = m"
      using pos(1) m by linarith
    then have "heap_holds (block_key f victim) (M - {b}) victim off m f' \<and> heap_changed b M victim off n f f' \<and>
      heap_position f' b victim = SF_HEAP_NONE \<and> heap_resized b victim m f f'"
    proof cases
      case inner
      note r = heap_replace_indexed [OF ix' inner pos(2) [symmetric] refl _ _ _ refl, of ?f1]
      have ix2: "heap_indexed victim off m ?f2" and seg2: "heap_seg victim off m ?f2 = (heap_seg victim off m f)[?p := ?last]"
        using r pos1 by simp_all
      have at: "heap_seg victim off m f ! ?p = b"
        using inner pos(2) by simp
      have "b \<in> set (heap_seg victim off m f)"
        using inner at by (metis heap_seg_length nth_mem)
      then have bl: "b \<noteq> ?last"
        using dist by auto
      have set2: "set (heap_seg victim off m ?f2) = M - {b}"
        unfolding seg2 M using dist inner at bl by (auto simp: set_update_distinct)
      have core: "heap_core ?f2 = heap_core f"
        by simp
      have keys: "block_key ?f2 victim x = block_key f victim x" if "x \<in> M" for x
        using block_key_core [OF core ix] that set by blast
      have "heap_but k ?p (heap_seg victim off m ?f2)"
        unfolding seg2 by (rule heap_but_replace) (use ord inner in \<open>simp_all add: m heap_seg_snoc\<close>)
      then have but: "heap_but (block_key ?f2 victim) ?p (heap_seg victim off m ?f2)"
        using key keys set2 inner by (subst heap_but_cong [of _ _ k]) (auto simp: key_but_def)
      note fx = heap_fix_holds [OF ix2 inner but set2]
      have "heap_holds (block_key f victim) (M - {b}) victim off m f'"
        using fx(1) heap_holds_cong [of "M - {b}" "block_key ?f2 victim" "block_key f victim"] keys inner by (simp add: eq)
      moreover have "heap_changed b M victim off n ?f2 f'"
      proof (rule heap_changed_wide)
        have "f' = heap_fix off m ?p victim ?f2"
          using inner by (simp only: eq if_True)
        then show "heap_changed b M victim off m ?f2 f'"
          using heap_moved_changed [OF fx(2), of b M] set2 by blast
      qed (simp add: m)
      moreover have "heap_changed b M victim off n f ?f2"
        using M inner pos(3) by (auto simp: heap_changed_def heap_position_put_at m)
      moreover have "heap_position f' b victim = SF_HEAP_NONE"
      proof -
        have "heap_position ?f2 b victim = SF_HEAP_NONE"
          using pos1 [of b] bl by (simp add: heap_position_put_at)
        then show ?thesis
          using fx(2) set2 inner by (simp add: eq heap_moved_def)
      qed
      moreover have "heap_resized b victim m f f'"
        using fx(2) inner by (simp add: eq heap_moved_def heap_resized_def)
      ultimately show ?thesis
        using heap_changed_trans by blast
    next
      case last
      then have lb: "?last = b"
        using pos(2) by simp
      have f1: "f' = ?f1"
        using last by (simp add: eq)
      have seg1: "heap_seg victim off m ?f1 = heap_seg victim off m f"
        by (simp add: heap_seg_def)
      have set1: "set (heap_seg victim off m f) = M - {b}"
        using M dist lb by auto
      have ne: "heap_array victim f ! (off + i) \<noteq> b" if "i < m" for i
        using dist that unfolding lb by (auto simp: heap_seg_def)
      have "heap_indexed victim off m ?f1"
        using ix' ne unfolding heap_indexed_def pos1 by simp
      moreover have "heap_ordered (block_key f victim) (heap_seg victim off m f)"
        using heap_ordered_butlast [of k] ord key set1 by (subst heap_ordered_cong [of _ _ k]) (auto simp: m heap_seg_snoc key_but_def)
      ultimately have "heap_holds (block_key f victim) (M - {b}) victim off m f'"
        by (simp add: heap_holds_def f1 seg1 set1)
      moreover have "heap_changed b M victim off n f f'" "heap_position f' b victim = SF_HEAP_NONE" "heap_resized b victim m f f'"
        using pos(3) by (simp_all add: f1 heap_changed_def heap_resized_def heap_position_put_at)
      ultimately show ?thesis
        by blast
    qed
    then show "heap_holds (block_key f victim) (M - {b}) victim off (n - 1) f'" and "heap_changed b M victim off n f f'"
      and "heap_position f' b victim = SF_HEAP_NONE" and "heap_resized b victim (n - 1) f f'"
      by (simp_all add: m)
  qed
qed

text \<open>A new block goes to the end of the segment and is sifted.\<close>

lemma heap_insert_holds:
  assumes h: "heap_holds k M victim off n f" and key: "key_but b f victim k M" and b: "b \<notin> M"
    and none: "heap_position f b victim = SF_HEAP_NONE"
    and known: "heap_known f b victim" and off: "off = heap_offset f b victim" and n: "n = heap_size f b victim"
    and room: "off + Suc n \<le> length (heap_array victim f)" "Suc n < 4294967296"
    and f': "f' = heap_insert b victim f"
  shows "heap_holds (block_key f victim) (insert b M) victim off (Suc n) f'" and "heap_changed b M victim off (Suc n) f f'"
    and "heap_resized b victim (Suc n) f f'"
proof -
  have ix: "heap_indexed victim off n f" and set: "set (heap_seg victim off n f) = M"
    and ord: "heap_ordered k (heap_seg victim off n f)"
    using h by (simp_all add: heap_holds_def)
  have lb: "b < length (sf_blocks f)"
    using known by (simp add: heap_known_def)
  have at: "heap_array victim f ! (off + i) < length (sf_blocks f) \<and> heap_array victim f ! (off + i) \<noteq> b \<and>
      heap_position f (heap_array victim f ! (off + i)) victim = i" if "i < n" for i
    using ix that b set by (auto simp: heap_indexed_def heap_seg_def)
  let ?f1 = "heap_position_put b victim n (heap_put victim (off + n) b (heap_size_put b victim (Suc n) f))"
  have w: "w32 (n + 1) = Suc n"
    using room(2) by simp
  have eq: "f' = heap_fix off (Suc n) n victim ?f1"
    unfolding f' heap_insert_def Let_def off [symmetric] n [symmetric] w using none by simp
  have seg1: "heap_seg victim off (Suc n) ?f1 = heap_seg victim off n f @ [b]"
    using room(1) by (intro nth_equalityI) (auto simp: nth_append less_Suc_eq)
  have ix1: "heap_indexed victim off (Suc n) ?f1"
    using at lb room(1) by (auto simp: heap_indexed_def less_Suc_eq heap_position_put_at)
  have core: "heap_core ?f1 = heap_core f"
    by simp
  have keys: "block_key ?f1 victim x = block_key f victim x" if "x \<in> insert b M" for x
    using heap_core_key [OF core] lb that set at by (auto simp: heap_seg_def)
  have "heap_ordered (block_key ?f1 victim) (heap_seg victim off n f)"
    using ord key keys set b by (subst heap_ordered_cong [of _ _ k]) (auto simp: key_but_def)
  then have but: "heap_but (block_key ?f1 victim) n (heap_seg victim off (Suc n) ?f1)"
    unfolding seg1 using heap_but_append [of _ "heap_seg victim off n f"] by simp
  have set1: "set (heap_seg victim off (Suc n) ?f1) = insert b M"
    unfolding seg1 using set by simp
  note fx = heap_fix_holds [OF ix1 lessI but set1]
  show "heap_holds (block_key f victim) (insert b M) victim off (Suc n) f'"
    using fx(1) heap_holds_cong [of "insert b M" "block_key ?f1 victim" "block_key f victim"] keys unfolding eq by blast
  have "heap_changed b M victim off (Suc n) ?f1 f'"
    using heap_moved_changed [OF fx(2)] set1 unfolding eq by blast
  moreover have "heap_changed b M victim off (Suc n) f ?f1"
    by (auto simp: heap_changed_def heap_position_put_at)
  ultimately show "heap_changed b M victim off (Suc n) f f'"
    by (rule heap_changed_trans [rotated])
  show "heap_resized b victim (Suc n) f f'"
    using fx(2) by (simp add: eq heap_moved_def heap_resized_def)
qed

lemma heap_insert_present:
  assumes h: "heap_holds k M victim off n f" and key: "key_but b f victim k M" and b: "b \<in> M"
    and some: "heap_position f b victim \<noteq> SF_HEAP_NONE" and off: "off = heap_offset f b victim" and n: "n = heap_size f b victim"
    and f': "f' = heap_insert b victim f"
  shows "heap_holds (block_key f victim) M victim off n f'" and "heap_changed b M victim off n f f'"
    and "heap_moved victim off n f f'"
proof -
  have eq: "f' = heap_fix off n (heap_position f b victim) victim f"
    unfolding f' heap_insert_def Let_def off [symmetric] n [symmetric] using some by simp
  note r = heap_refix [OF h key b]
  show "heap_holds (block_key f victim) M victim off n f'" and "heap_moved victim off n f f'"
    using r by (simp_all add: eq)
  show "heap_changed b M victim off n f f'"
    using heap_moved_changed [OF r(2)] h unfolding eq heap_holds_def by blast
qed

section \<open>The update of one block\<close>

definition member_update :: "nat \<Rightarrow> bool \<Rightarrow> nat set \<Rightarrow> nat set" where
  "member_update b e M = (if e then insert b M else M - {b})"

text \<open>What \<open>heap_update\<close> needs of the heap of \<open>b\<close>, whose key may be out of date.\<close>

definition heap_ready :: "(nat \<Rightarrow> nat \<times> nat \<times> nat) \<Rightarrow> nat set \<Rightarrow> nat \<Rightarrow> bool \<Rightarrow> nat \<Rightarrow> ftl_scale \<Rightarrow> bool" where
  "heap_ready k M b victim cap f \<longleftrightarrow> heap_known f b victim \<and> key_but b f victim k M \<and>
     heap_holds k M victim (heap_offset f b victim) (heap_size f b victim) f \<and>
     (b \<notin> M \<longrightarrow> heap_position f b victim = SF_HEAP_NONE) \<and>
     card (insert b M) \<le> cap \<and> heap_offset f b victim + cap \<le> length (heap_array victim f) \<and>
     length (heap_array victim f) < 4294967295 \<and>
     (heap_partitioned f victim \<longrightarrow> card M \<le> sf_free_count f \<and> sf_free_count f < 4294967295)"

lemma heap_size_put_same: "heap_size_put b victim (heap_size f b victim) f = f"
  by (simp add: heap_size_put_def heap_size_def sf_domain_put_def sf_domain_at_def)

text \<open>The first half of \<open>heap_update\<close>: the heap, before the total of the free blocks is adjusted.\<close>

definition heap_update_core :: "nat \<Rightarrow> bool \<Rightarrow> bool \<Rightarrow> ftl_scale \<Rightarrow> ftl_scale" where
  "heap_update_core b victim e f =
     (if heap_position f b victim \<noteq> SF_HEAP_NONE \<and> \<not> e then heap_remove b victim f
      else if e then heap_insert b victim f else f)"

lemma heap_update_core_holds:
  assumes ready: "heap_ready k M b victim cap f" and f': "f' = heap_update_core b victim e f"
    and off: "off = heap_offset f b victim"
  shows "heap_holds (block_key f victim) (member_update b e M) victim off (card (member_update b e M)) f' \<and>
    heap_changed b M victim off cap f f' \<and> (\<not> e \<longrightarrow> heap_position f' b victim = SF_HEAP_NONE) \<and>
    heap_resized b victim (card (member_update b e M)) f f'"
proof -
  define n where "n = heap_size f b victim"
  have known: "heap_known f b victim" and key: "key_but b f victim k M" and h: "heap_holds k M victim off n f"
    and none: "b \<notin> M \<Longrightarrow> heap_position f b victim = SF_HEAP_NONE" and cap: "card (insert b M) \<le> cap"
    and room: "off + cap \<le> length (heap_array victim f)" "length (heap_array victim f) < 4294967295"
    using ready by (simp_all add: heap_ready_def off n_def)
  have M: "card M = n" "finite M"
    using heap_holds_card [OF h] heap_holds_finite [OF h] by simp_all
  have nc: "n \<le> cap"
    using cap M by (metis card_mono finite_insert le_trans subset_insertI)
  note wide = heap_changed_wide [of b M victim off _ f f' cap]
  consider (drop) "b \<in> M" "\<not> e" | (out) "b \<notin> M" "\<not> e" | (stay) "b \<in> M" "e" | (add) "b \<notin> M" "e"
    by blast
  then show ?thesis
  proof cases
    case drop
    have p: "heap_position f b victim \<noteq> SF_HEAP_NONE"
      using heap_holds_position(1) [OF h drop(1)] nc room by simp
    have "n < 4294967296" "card (M - {b}) = n - 1"
      using nc room M drop by simp_all
    then show ?thesis
      using heap_remove_holds [OF h key drop(1) known off n_def _ refl] p drop f' wide nc
      by (simp add: heap_update_core_def member_update_def)
  next
    case out
    then have "f' = f"
      using none f' by (simp add: heap_update_core_def)
    moreover have "k x = block_key f victim x" if "x \<in> M" for x
      using key out that by (auto simp: key_but_def)
    then have "heap_holds (block_key f victim) M victim off n f"
      using h heap_holds_cong [of M k "block_key f victim"] by simp
    ultimately show ?thesis
      using out none M heap_size_put_same [of b victim f]
      by (simp add: member_update_def heap_changed_def heap_resized_def n_def)
  next
    case stay
    have p: "heap_position f b victim \<noteq> SF_HEAP_NONE"
      using heap_holds_position(1) [OF h stay(1)] nc room by simp
    note s = heap_insert_present [OF h key stay(1) p off n_def refl]
    have "f' = heap_insert b victim f"
      using stay by (simp add: f' heap_update_core_def)
    then show ?thesis
      using s stay M wide [OF _ nc] heap_size_put_same [of b victim f]
      by (simp add: member_update_def insert_absorb heap_resized_def heap_moved_def n_def)
  next
    case add
    have c: "card (insert b M) = Suc n"
      using add M by simp
    have "off + Suc n \<le> length (heap_array victim f)" "Suc n < 4294967296"
      using c cap room by simp_all
    note s = heap_insert_holds [OF h key add(1) none [OF add(1)] known off n_def this refl]
    have "f' = heap_insert b victim f"
      using add by (simp add: f' heap_update_core_def)
    then show ?thesis
      using s add c cap wide by (simp add: member_update_def)
  qed
qed

lemma heap_update_holds:
  assumes ready: "heap_ready k M b victim cap f" and f': "f' = heap_update b victim e f"
    and off: "off = heap_offset f b victim"
  shows "heap_holds (block_key f victim) (member_update b e M) victim off (card (member_update b e M)) f'"
    and "heap_changed b M victim off cap f f'" and "\<not> e \<Longrightarrow> heap_position f' b victim = SF_HEAP_NONE"
    and "heap_size f' b victim = card (member_update b e M)"
    and "victim \<Longrightarrow> sf_free_count f' = sf_free_count f \<and> sf_heads f' = sf_heads f"
    and "\<not> victim \<Longrightarrow> sf_victim_count f' = sf_victim_count f"
    and "\<not> victim \<Longrightarrow> d \<noteq> sf_head_domain f b \<Longrightarrow> sf_domain_at f' d = sf_domain_at f d"
    and "heap_partitioned f victim \<Longrightarrow> sf_free_count f' + card M = sf_free_count f + card (member_update b e M)"
proof -
  let ?M = "member_update b e M" and ?g = "heap_update_core b victim e f"
  note c = heap_update_core_holds [OF ready refl off, of e]
  have core: "heap_core ?g = heap_core f" and res: "heap_resized b victim (card ?M) f ?g"
    using c by (simp_all add: heap_changed_def)
  have known: "heap_known f b victim" and before: "heap_size f b victim = card M"
    using ready heap_holds_card by (fastforce simp: heap_ready_def)+
  have after: "heap_size ?g b victim = card ?M"
    by (rule heap_resized_size [OF core known res])
  define x where "x = (if heap_partitioned f victim then if card M < card ?M then w32 (sf_free_count ?g + 1)
    else if card ?M < card M then w32 (sf_free_count ?g + 4294967295) else sf_free_count ?g else sf_free_count ?g)"
  have eq: "f' = ?g\<lparr>sf_free_count := x\<rparr>"
    unfolding f' heap_update_def heap_update_core_def [symmetric] Let_def after before x_def by simp
  have seg: "heap_array v f' = heap_array v ?g" "heap_position f' a v = heap_position ?g a v" "heap_core f' = heap_core ?g"
    "sf_blocks f' = sf_blocks ?g" for v a
    by (simp_all add: eq heap_array_def heap_position_def sf_block_at_def heap_core_def)
  show "heap_holds (block_key f victim) ?M victim off (card ?M) f'" and "heap_changed b M victim off cap f f'"
    and "\<not> e \<Longrightarrow> heap_position f' b victim = SF_HEAP_NONE"
    using c by (simp_all add: heap_holds_def heap_changed_def heap_indexed_def heap_seg_def seg)
  have total: "x = sf_free_count f" if "victim"
    using res that by (simp add: x_def heap_resized_def heap_partitioned_def heap_size_put_free_count)
  then show "victim \<Longrightarrow> sf_free_count f' = sf_free_count f \<and> sf_heads f' = sf_heads f"
    using res by (simp add: eq heap_resized_def heap_size_put_free_count)
  show "\<not> victim \<Longrightarrow> sf_victim_count f' = sf_victim_count f"
    using res by (simp add: eq heap_resized_def heap_size_put_free_count)
  show "\<not> victim \<Longrightarrow> d \<noteq> sf_head_domain f b \<Longrightarrow> sf_domain_at f' d = sf_domain_at f d"
    using res heap_size_put_free_count(5) [of d f b] by (simp add: eq heap_resized_def sf_domain_at_def)
  have part: "heap_partitioned f' victim = heap_partitioned f victim"
    using heap_partitioned_core [of f' f] core seg(3) by simp
  show "heap_size f' b victim = card ?M"
  proof (cases "heap_partitioned f victim \<or> victim")
    case True
    then show ?thesis
      using after part heap_core_domains(5) [OF seg(3)] heap_partitioned_core [OF seg(3)]
      by (auto simp: heap_size_def eq sf_domain_at_def)
  next
    case False
    then have np: "\<not> heap_partitioned f victim" and nv: "\<not> victim"
      by blast+
    have "x = sf_free_count ?g"
      by (simp add: x_def np)
    moreover have "heap_size ?g b victim = sf_free_count ?g"
      unfolding heap_size_def heap_partitioned_core [OF core] if_not_P [OF np] if_not_P [OF nv] ..
    moreover have "heap_size f' b victim = sf_free_count f'"
      unfolding heap_size_def part if_not_P [OF np] if_not_P [OF nv] ..
    ultimately show ?thesis
      using after by (simp add: eq)
  qed
  show "sf_free_count f' + card M = sf_free_count f + card ?M" if "heap_partitioned f victim"
  proof -
    have bounds: "card M \<le> sf_free_count f" "sf_free_count f < 4294967295"
      using ready that by (simp_all add: heap_ready_def)
    have same: "sf_free_count ?g = sf_free_count f"
      using res that by (simp add: heap_resized_def heap_partitioned_def heap_size_put_free_count)
    have fin: "finite M"
      using ready heap_holds_finite by (auto simp: heap_ready_def)
    have "card ?M = card M \<or> card ?M = Suc (card M) \<or> Suc (card ?M) = card M"
      using fin card_Suc_Diff1 [OF fin, of b] by (cases "b \<in> M") (simp_all add: member_update_def insert_absorb)
    then show ?thesis
      using bounds that same w32_pred [of "sf_free_count f"] by (auto simp: eq x_def)
  qed
qed

end
