(* ===== verification/Scale_Index.thy ===== *)
theory Scale_Index
  imports Scale_Heap_Update
begin

text \<open>
  All heaps together: the victim heap and the free heap of every domain hold the blocks they should,
  and \<open>sf_heap_refresh\<close> restores that after the facts of one block have changed.
\<close>

section \<open>The segments of the domains\<close>

definition domain_offset :: "ftl_scale \<Rightarrow> nat \<Rightarrow> nat" where
  "domain_offset f d = (if sf_multihead f then hd_heap_offset (sf_domain_at f d) else 0)"

definition domain_size :: "ftl_scale \<Rightarrow> nat \<Rightarrow> nat" where
  "domain_size f d = (if sf_multihead f then hd_free_count (sf_domain_at f d) else sf_free_count f)"

definition domain_capacity :: "ftl_scale \<Rightarrow> nat \<Rightarrow> nat" where
  "domain_capacity f d = (if sf_multihead f then hd_heap_capacity (sf_domain_at f d) else sf_physical_blocks f)"

definition domain_blocks :: "ftl_scale \<Rightarrow> nat \<Rightarrow> nat set" where
  "domain_blocks f d = {b. b < sf_physical_blocks f \<and> sf_head_domain f b = d}"

text \<open>
  The segments are disjoint, lie in the heap array and are large enough for the blocks of their
  domains.
\<close>

definition heads_laid :: "ftl_scale \<Rightarrow> bool" where
  "heads_laid f \<longleftrightarrow> length (sf_blocks f) = sf_physical_blocks f \<and> sf_physical_blocks f < 4294967295 \<and>
     length (sf_free_heap f) = sf_physical_blocks f \<and> length (sf_victim_heap f) = sf_physical_blocks f \<and>
     0 < hs_count (sf_heads f) \<and> hs_count (sf_heads f) \<le> length (hs_domain (sf_heads f)) \<and>
     (\<not> sf_multihead f \<longrightarrow> hs_count (sf_heads f) = 1) \<and>
     (\<forall>b < sf_physical_blocks f. sf_head_domain f b < hs_count (sf_heads f)) \<and>
     (\<forall>d<hs_count (sf_heads f). domain_offset f d + domain_capacity f d \<le> sf_physical_blocks f \<and>
        card (domain_blocks f d) \<le> domain_capacity f d \<and>
        (\<forall>e<hs_count (sf_heads f). d \<noteq> e \<longrightarrow> domain_offset f d + domain_capacity f d \<le> domain_offset f e \<or>
           domain_offset f e + domain_capacity f e \<le> domain_offset f d))"

lemma heads_laid_domain: "heads_laid f \<Longrightarrow> b < sf_physical_blocks f \<Longrightarrow> sf_head_domain f b < hs_count (sf_heads f)"
  by (simp add: heads_laid_def)

lemma heap_offset_domain: "heap_offset f b False = domain_offset f (sf_head_domain f b)"
  by (simp add: heap_offset_def heap_partitioned_def domain_offset_def)

lemma heap_size_domain: "heap_size f b False = domain_size f (sf_head_domain f b)"
  by (simp add: heap_size_def heap_partitioned_def domain_size_def)

lemma heap_victim: "heap_offset f b True = 0" "heap_size f b True = sf_victim_count f" "\<not> heap_partitioned f True"
  by (simp_all add: heap_offset_def heap_size_def heap_partitioned_def)

lemma heads_laid_known: "heads_laid f \<Longrightarrow> b < sf_physical_blocks f \<Longrightarrow> heap_known f b victim"
  by (auto simp: heads_laid_def heap_known_def)

lemma heads_laid_core:
  assumes core: "heap_core f' = heap_core f" and laid: "heads_laid f"
    and len: "length (sf_free_heap f') = length (sf_free_heap f)" "length (sf_victim_heap f') = length (sf_victim_heap f)"
  shows "heads_laid f'" and "d < hs_count (sf_heads f) \<Longrightarrow> domain_offset f' d = domain_offset f d"
    and "domain_blocks f' d = domain_blocks f d"
proof -
  note c = heap_core_fields [OF core] heap_core_domains [OF core] heap_core_blocks(1) [OF core]
  have d: "d < length (hs_domain (sf_heads f))" if "d < hs_count (sf_heads f)" for d
    using laid that by (simp add: heads_laid_def)
  have same: "domain_offset f' d = domain_offset f d" "domain_capacity f' d = domain_capacity f d"
    if "d < hs_count (sf_heads f)" for d
    using c d [OF that] by (simp_all add: domain_offset_def domain_capacity_def)
  have blocks: "domain_blocks f' d = domain_blocks f d" for d
    by (simp add: domain_blocks_def c)
  then show "domain_blocks f' d = domain_blocks f d" .
  show "d < hs_count (sf_heads f) \<Longrightarrow> domain_offset f' d = domain_offset f d"
    by (rule same(1))
  show "heads_laid f'"
    using laid len same blocks unfolding heads_laid_def by (simp add: c)
qed

lemma member_update_card:
  assumes "finite F" and "M \<subseteq> F" and "b \<in> F \<longleftrightarrow> b \<in> M"
  shows "card (member_update b e F) + card M = card F + card (member_update b e M)"
proof -
  have fin: "finite M"
    using assms(1,2) by (rule rev_finite_subset)
  have "b \<in> F \<Longrightarrow> Suc (card (F - {b})) = card F" "b \<in> M \<Longrightarrow> Suc (card (M - {b})) = card M"
    by (rule card_Suc_Diff1 [OF assms(1)], assumption) (rule card_Suc_Diff1 [OF fin], assumption)
  then show ?thesis
    using assms(1,3) fin by (cases e; cases "b \<in> M") (simp_all add: member_update_def insert_absorb del: card_Diff_insert)
qed

section \<open>What the heaps hold\<close>

definition heaps_hold :: "(bool \<Rightarrow> nat \<Rightarrow> nat \<times> nat \<times> nat) \<Rightarrow> nat set \<Rightarrow> nat set \<Rightarrow> ftl_scale \<Rightarrow> bool" where
  "heaps_hold k F V f \<longleftrightarrow> F \<subseteq> {..<sf_physical_blocks f} \<and> V \<subseteq> {..<sf_physical_blocks f} \<and>
     heap_holds (k True) V True 0 (sf_victim_count f) f \<and>
     (\<forall>d<hs_count (sf_heads f). heap_holds (k False) (F \<inter> domain_blocks f d) False (domain_offset f d) (domain_size f d) f) \<and>
     sf_free_count f = card F \<and>
     (\<forall>b < sf_physical_blocks f. b \<notin> V \<longrightarrow> heap_position f b True = SF_HEAP_NONE) \<and>
     (\<forall>b < sf_physical_blocks f. b \<notin> F \<longrightarrow> heap_position f b False = SF_HEAP_NONE)"

lemma heap_holds_frame:
  assumes h: "heap_holds k M victim off n f" and "length (heap_array victim f') = length (heap_array victim f)"
    and "length (sf_blocks f') = length (sf_blocks f)"
    and arr: "\<And>i. off \<le> i \<Longrightarrow> i < off + n \<Longrightarrow> heap_array victim f' ! i = heap_array victim f ! i"
    and pos: "\<And>b. b \<in> M \<Longrightarrow> heap_position f' b victim = heap_position f b victim"
  shows "heap_holds k M victim off n f'"
proof -
  have seg: "heap_seg victim off n f' = heap_seg victim off n f"
    using arr by (simp add: heap_seg_def)
  have "heap_array victim f ! (off + i) \<in> M" if "i < n" for i
    using h that by (auto simp: heap_holds_def heap_seg_def)
  then show ?thesis
    using h assms(2-) seg by (simp add: heap_holds_def heap_indexed_def)
qed

text \<open>The update of the victim heap.\<close>

lemma victim_update_holds:
  assumes laid: "heads_laid f" and hold: "heaps_hold k F V f" and key: "key_but b f True (k True) V"
    and b: "b < sf_physical_blocks f" and f': "f' = heap_update b True e f"
  shows "heaps_hold (k(True := block_key f True)) F (member_update b e V) f'" and "heads_laid f'" and "heap_core f' = heap_core f"
proof -
  let ?N = "sf_physical_blocks f"
  have V: "V \<subseteq> {..<?N}" "heap_holds (k True) V True 0 (sf_victim_count f) f"
    and none: "b \<notin> V \<Longrightarrow> heap_position f b True = SF_HEAP_NONE"
    using hold b by (simp_all add: heaps_hold_def)
  have len: "length (heap_array True f) = ?N" "?N < 4294967295"
    using laid by (simp_all add: heads_laid_def heap_array_def)
  have "card (insert b V) \<le> ?N"
    using card_mono [of "{..<?N}" "insert b V"] V(1) b by simp
  then have ready: "heap_ready (k True) V b True ?N f"
    using V key none len heads_laid_known [OF laid b] by (simp add: heap_ready_def heap_victim)
  note u = heap_update_holds [OF ready f' refl, unfolded heap_victim]
  have changed: "heap_changed b V True 0 ?N f f'"
    by (rule u(2))
  show core: "heap_core f' = heap_core f"
    using changed by (simp add: heap_changed_def)
  have free: "sf_free_heap f' = sf_free_heap f" and vlen: "length (sf_victim_heap f') = length (sf_victim_heap f)"
    using changed by (simp_all add: heap_changed_def heap_array_def)
  show laid': "heads_laid f'"
    using heads_laid_core(1) [OF core laid] free vlen by simp
  note c = heap_core_fields [OF core] heap_core_blocks(1) [OF core] heap_core_domains(5,6) [OF core]
  have off: "domain_offset f' d = domain_offset f d" and size: "domain_size f' d = domain_size f d" if "d < hs_count (sf_heads f)" for d
    using u(5) c by (simp_all add: domain_offset_def domain_size_def sf_domain_at_def)
  have blocks: "domain_blocks f' d = domain_blocks f d" for d
    by (simp add: domain_blocks_def c)
  have pos: "heap_position f' c False = heap_position f c False" for c
    using changed by (simp add: heap_changed_def)
  have "heap_holds (k False) (F \<inter> domain_blocks f d) False (domain_offset f d) (domain_size f d) f'" if "d < hs_count (sf_heads f)" for d
    by (rule heap_holds_frame [of _ _ _ _ _ f]) (use hold that pos free c in \<open>simp_all add: heaps_hold_def heap_array_def\<close>)
  moreover have "heap_position f' c True = SF_HEAP_NONE" if "c < ?N" "c \<notin> member_update b e V" for c
  proof (cases "c = b")
    case True
    then show ?thesis
      using u(3) that by (simp add: member_update_def split: if_splits)
  next
    case False
    then have "heap_position f' c True = heap_position f c True" "c \<notin> V"
      using changed that by (auto simp: heap_changed_def member_update_def split: if_splits)
    then show ?thesis
      using hold that by (simp add: heaps_hold_def)
  qed
  moreover have "sf_victim_count f' = card (member_update b e V)"
    using u(4) by (simp add: heap_victim)
  moreover have "member_update b e V \<subseteq> {..<?N}"
    using V(1) b by (auto simp: member_update_def)
  ultimately show "heaps_hold (k(True := block_key f True)) F (member_update b e V) f'"
    using hold u(1,5) pos off size blocks unfolding heaps_hold_def by (simp add: c)
qed

text \<open>The update of the free heap of the domain of a block.\<close>

lemma free_update_holds:
  assumes laid: "heads_laid f" and hold: "heaps_hold k F V f" and key: "key_but b f False (k False) F"
    and b: "b < sf_physical_blocks f" and f': "f' = heap_update b False e f"
  shows "heaps_hold (k(False := block_key f False)) (member_update b e F) V f'" and "heads_laid f'" and "heap_core f' = heap_core f"
proof -
  let ?N = "sf_physical_blocks f" and ?d = "sf_head_domain f b"
  let ?M = "F \<inter> domain_blocks f ?d"
  have d: "?d < hs_count (sf_heads f)"
    by (rule heads_laid_domain [OF laid b])
  have F: "F \<subseteq> {..<?N}" "heap_holds (k False) ?M False (domain_offset f ?d) (domain_size f ?d) f"
    and none: "b \<notin> ?M \<Longrightarrow> heap_position f b False = SF_HEAP_NONE" and total: "sf_free_count f = card F"
    using hold b d by (auto simp: heaps_hold_def domain_blocks_def)
  have fin: "finite F" "finite (domain_blocks f ?d)"
    using F(1) finite_subset by (auto simp: domain_blocks_def)
  have len: "length (heap_array False f) = ?N" "?N < 4294967295" "domain_offset f ?d + domain_capacity f ?d \<le> ?N"
    "card (domain_blocks f ?d) \<le> domain_capacity f ?d"
    using laid d by (simp_all add: heads_laid_def heap_array_def)
  have "card (insert b ?M) \<le> card (domain_blocks f ?d)"
    by (rule card_mono [OF fin(2)]) (use b in \<open>auto simp: domain_blocks_def\<close>)
  moreover have "card ?M \<le> sf_free_count f" "sf_free_count f < 4294967295"
    unfolding total using card_mono [OF fin(1), of ?M] card_mono [of "{..<?N}" F] F(1) len(2) by simp_all
  moreover have "key_but b f False (k False) ?M"
    using key by (simp add: key_but_def)
  ultimately have ready: "heap_ready (k False) ?M b False (domain_capacity f ?d) f"
    using F(2) none len heads_laid_known [OF laid b] by (simp add: heap_ready_def heap_offset_domain heap_size_domain)
  note u = heap_update_holds [OF ready f' refl, unfolded heap_offset_domain]
  have changed: "heap_changed b ?M False (domain_offset f ?d) (domain_capacity f ?d) f f'"
    by (rule u(2))
  show core: "heap_core f' = heap_core f"
    using changed by (simp add: heap_changed_def)
  have vic: "sf_victim_heap f' = sf_victim_heap f" and flen: "length (sf_free_heap f') = length (sf_free_heap f)"
    using changed by (simp_all add: heap_changed_def heap_array_def)
  show laid': "heads_laid f'"
    using heads_laid_core(1) [OF core laid] vic flen by simp
  note c = heap_core_fields [OF core] heap_core_blocks(1) [OF core] heap_core_domains(5,6) [OF core]
  have off: "domain_offset f' e = domain_offset f e" if "e < hs_count (sf_heads f)" for e
    using heads_laid_core(2) [OF core laid] vic flen that by simp
  have blocks: "domain_blocks f' e = domain_blocks f e" for e
    by (simp add: domain_blocks_def c)
  have split: "member_update b e F \<inter> domain_blocks f x = (if x = ?d then member_update b e ?M else F \<inter> domain_blocks f x)" for x
    using b by (auto simp: member_update_def domain_blocks_def)
  have holds: "heap_holds (block_key f False) (member_update b e F \<inter> domain_blocks f x) False (domain_offset f x) (domain_size f' x) f'"
    if x: "x < hs_count (sf_heads f)" for x
  proof (cases "x = ?d")
    case True
    have "domain_size f' ?d = card (member_update b e ?M)"
      using u(4) heap_size_domain [of f' b] by (simp add: c)
    then show ?thesis
      using u(1) by (simp add: split True)
  next
    case False
    have old: "heap_holds (k False) (F \<inter> domain_blocks f x) False (domain_offset f x) (domain_size f x) f"
      using hold x by (simp add: heaps_hold_def)
    have out: "y \<noteq> b" "y \<notin> ?M" if "y \<in> F \<inter> domain_blocks f x" for y
      using that False by (auto simp: domain_blocks_def)
    have multi: "sf_multihead f"
      using laid False d x by (cases "sf_multihead f") (simp_all add: heads_laid_def)
    have "card (F \<inter> domain_blocks f x) \<le> card (domain_blocks f x)"
      by (rule card_mono) (auto simp: domain_blocks_def)
    then have cap: "domain_size f x \<le> domain_capacity f x"
      using heap_holds_card [OF old] laid x by (auto simp: heads_laid_def)
    have "heap_holds (k False) (F \<inter> domain_blocks f x) False (domain_offset f x) (domain_size f x) f'"
    proof (rule heap_holds_frame [OF old])
      show "heap_array False f' ! i = heap_array False f ! i"
        if "domain_offset f x \<le> i" "i < domain_offset f x + domain_size f x" for i
      proof -
        have "domain_offset f x + domain_capacity f x \<le> domain_offset f ?d \<or> domain_offset f ?d + domain_capacity f ?d \<le> domain_offset f x"
          using laid x d False unfolding heads_laid_def by blast
        then show ?thesis
          using changed that cap unfolding heap_changed_def by auto
      qed
      show "heap_position f' y False = heap_position f y False" if "y \<in> F \<inter> domain_blocks f x" for y
        using changed out [OF that] by (simp add: heap_changed_def)
    qed (use flen c in \<open>simp_all add: heap_array_def\<close>)
    moreover have "domain_size f' x = domain_size f x"
      using u(7) [of x] False multi c by (simp add: domain_size_def)
    ultimately show ?thesis
      using heap_holds_cong [of "F \<inter> domain_blocks f x" "k False" "block_key f False"] key out by (simp add: split False key_but_def)
  qed
  have "heap_holds (k True) V True 0 (sf_victim_count f') f'"
    by (rule heap_holds_frame [of _ _ _ _ _ f]) (use hold changed vic c u(6) in
        \<open>simp_all add: heaps_hold_def heap_changed_def heap_array_def\<close>)
  moreover have "heap_position f' y False = SF_HEAP_NONE" if "y < ?N" "y \<notin> member_update b e F" for y
  proof (cases "y = b")
    case True
    then show ?thesis
      using u(3) that by (simp add: member_update_def split: if_splits)
  next
    case False
    then have "heap_position f' y False = heap_position f y False" "y \<notin> F"
      using changed that by (auto simp: heap_changed_def member_update_def split: if_splits)
    then show ?thesis
      using hold that by (simp add: heaps_hold_def)
  qed
  moreover have "heap_position f' y True = SF_HEAP_NONE" if "y < ?N" "y \<notin> V" for y
    using hold changed that by (simp add: heaps_hold_def heap_changed_def)
  moreover have "sf_free_count f' = card (member_update b e F)"
  proof (cases "sf_multihead f")
    case True
    then have "sf_free_count f' + card ?M = card F + card (member_update b e ?M)"
      using u(8) total by (simp add: heap_partitioned_def)
    moreover have "card (member_update b e F) + card ?M = card F + card (member_update b e ?M)"
      by (rule member_update_card [OF fin(1)]) (use b in \<open>auto simp: domain_blocks_def\<close>)
    ultimately show ?thesis
      by linarith
  next
    case False
    then have "?d = 0"
      using laid d by (simp add: heads_laid_def)
    moreover have "F \<subseteq> domain_blocks f 0"
      using F(1) laid False by (auto simp: domain_blocks_def heads_laid_def)
    then have "F \<inter> domain_blocks f 0 = F"
      by blast
    ultimately show ?thesis
      using u(4) False heap_size_domain [of f' b] c by (simp add: domain_size_def)
  qed
  moreover have "member_update b e F \<subseteq> {..<?N}"
    using F(1) b by (auto simp: member_update_def)
  ultimately show "heaps_hold (k(False := block_key f False)) (member_update b e F) V f'"
    using hold holds off blocks unfolding heaps_hold_def by (simp add: c)
qed

section \<open>The heaps of the eligible blocks\<close>

definition free_set :: "ftl_scale \<Rightarrow> nat set" where
  "free_set f = {b. b < sf_physical_blocks f \<and> free_eligible f b}"

definition victim_set :: "ftl_scale \<Rightarrow> nat set" where
  "victim_set f = {b. b < sf_physical_blocks f \<and> victim_eligible f b}"

definition heaps_ok :: "ftl_scale \<Rightarrow> bool" where
  "heaps_ok f \<longleftrightarrow> heads_laid f \<and> heaps_hold (block_key f) (free_set f) (victim_set f) f"

text \<open>Eligibility and key of every block but one are those the heaps were built with.\<close>

definition heaps_upto :: "nat \<Rightarrow> ftl_scale \<Rightarrow> bool" where
  "heaps_upto b f \<longleftrightarrow> heads_laid f \<and> (\<exists>k F V. heaps_hold k F V f \<and> key_but b f True (k True) V \<and>
     key_but b f False (k False) F \<and> F - {b} = free_set f - {b} \<and> V - {b} = victim_set f - {b})"

lemma eligible_core:
  assumes "heap_core f' = heap_core f" and "b < length (sf_blocks f)"
  shows "free_eligible f' b = free_eligible f b" and "victim_eligible f' b = victim_eligible f b"
  using heap_core_blocks(2-5) [OF assms] heap_core_domains(7,8) [OF assms(1)]
  by (simp_all add: free_eligible_def victim_eligible_def block_usable_def)

lemma heaps_hold_cong:
  assumes "\<And>b. b \<in> F \<Longrightarrow> k False b = k' False b" and "\<And>b. b \<in> V \<Longrightarrow> k True b = k' True b"
  shows "heaps_hold k F V f = heaps_hold k' F V f"
proof -
  have "heap_holds (k False) (F \<inter> D) v off n f = heap_holds (k' False) (F \<inter> D) v off n f" for D v off n
    by (rule heap_holds_cong) (use assms(1) in simp)
  moreover have "heap_holds (k True) V v off n f = heap_holds (k' True) V v off n f" for v off n
    by (rule heap_holds_cong) (use assms(2) in simp)
  ultimately show ?thesis
    by (simp add: heaps_hold_def)
qed

lemma heap_refresh_holds:
  assumes laid: "heads_laid f" and hold: "heaps_hold k F V f" and keys: "key_but b f True (k True) V" "key_but b f False (k False) F"
    and b: "b < sf_physical_blocks f" and f': "f' = sf_heap_refresh b f"
  shows "heaps_hold (block_key f') (member_update b (free_eligible f b) F) (member_update b (victim_eligible f b) V) f'"
    and "heads_laid f'" and "heap_core f' = heap_core f"
proof -
  let ?g = "heap_update b False (free_eligible f b) f"
  let ?F = "member_update b (free_eligible f b) F" and ?V = "member_update b (victim_eligible f b) V"
  note g = free_update_holds [OF laid hold keys(2) b refl, of "free_eligible f b"]
  have N: "length (sf_blocks f) = sf_physical_blocks f" and sub: "F \<subseteq> {..<sf_physical_blocks f}" "V \<subseteq> {..<sf_physical_blocks f}"
    using laid hold by (simp_all add: heads_laid_def heaps_hold_def)
  have key: "block_key ?g v x = block_key f v x" if "x < sf_physical_blocks f" for v x
    using heap_core_key [OF g(3)] that N by simp
  have bg: "b < sf_physical_blocks ?g"
    using b heap_core_fields(6) [OF g(3)] by simp
  have keyg: "key_but b ?g True ((k(False := block_key f False)) True) V"
    using keys(1) key sub(2) by (auto simp: key_but_def)
  have eq: "f' = heap_update b True (victim_eligible f b) ?g"
    by (simp add: f' sf_heap_refresh_def)
  note v = victim_update_holds [OF g(2,1) keyg bg eq]
  show core: "heap_core f' = heap_core f"
    using v(3) g(3) by simp
  show "heads_laid f'"
    by (rule v(2))
  have key': "block_key f' v x = block_key f v x" if "x < sf_physical_blocks f" for v x
    using heap_core_key [OF core] that N by simp
  have in_range: "x < sf_physical_blocks f" if "x \<in> ?F \<or> x \<in> ?V" for x
    using that sub b by (auto simp: member_update_def split: if_splits)
  have same: "heaps_hold (block_key f') ?F ?V f' = heaps_hold (k(False := block_key f False, True := block_key ?g True)) ?F ?V f'"
    by (rule heaps_hold_cong) (use key key' in_range in auto)
  show "heaps_hold (block_key f') ?F ?V f'"
    unfolding same by (rule v(1))
qed

theorem heap_refresh_ok:
  assumes upto: "heaps_upto b f" and b: "b < sf_physical_blocks f" and f': "f' = sf_heap_refresh b f"
  shows "heaps_ok f'" and "heap_core f' = heap_core f"
proof -
  obtain k F V where hold: "heaps_hold k F V f" and keys: "key_but b f True (k True) V" "key_but b f False (k False) F"
    and sets: "F - {b} = free_set f - {b}" "V - {b} = victim_set f - {b}"
    using upto by (auto simp: heaps_upto_def)
  have laid: "heads_laid f"
    using upto by (simp add: heaps_upto_def)
  note r = heap_refresh_holds [OF laid hold keys b f']
  show core: "heap_core f' = heap_core f"
    by (rule r(3))
  have N: "length (sf_blocks f) = sf_physical_blocks f"
    using laid by (simp add: heads_laid_def)
  have mem: "member_update b (free_eligible f b) F = free_set f" "member_update b (victim_eligible f b) V = victim_set f"
    using sets b by (auto simp: member_update_def free_set_def victim_set_def)
  have "free_set f' = free_set f" "victim_set f' = victim_set f"
    using eligible_core [OF core] N heap_core_fields(6) [OF core] by (auto simp: free_set_def victim_set_def)
  then show "heaps_ok f'"
    using r(1,2) unfolding mem by (simp add: heaps_ok_def)
qed

text \<open>A block that belongs to no heap and is in none: the refresh does nothing.\<close>

lemma heap_refresh_idle:
  assumes "\<not> free_eligible f b" and "\<not> victim_eligible f b" and "heap_position f b False = SF_HEAP_NONE"
    and "heap_position f b True = SF_HEAP_NONE"
  shows "sf_heap_refresh b f = f"
  using assms by (simp add: sf_heap_refresh_def heap_update_def Let_def)

section \<open>Changes of the facts of blocks\<close>

text \<open>
  A change that keeps the heaps as arrays and, outside the set \<open>X\<close>, the eligibility of every block and
  the key of every eligible block.
\<close>

definition heaps_kept :: "nat set \<Rightarrow> ftl_scale \<Rightarrow> ftl_scale \<Rightarrow> bool" where
  "heaps_kept X f f' \<longleftrightarrow> sf_free_heap f' = sf_free_heap f \<and> sf_victim_heap f' = sf_victim_heap f \<and>
     sf_free_count f' = sf_free_count f \<and> sf_victim_count f' = sf_victim_count f \<and>
     length (sf_blocks f') = length (sf_blocks f) \<and> sf_physical_blocks f' = sf_physical_blocks f \<and>
     sf_multihead f' = sf_multihead f \<and> sf_geometry f' = sf_geometry f \<and>
     hs_count (sf_heads f') = hs_count (sf_heads f) \<and> hs_per_channel (sf_heads f') = hs_per_channel (sf_heads f) \<and>
     length (hs_domain (sf_heads f')) = length (hs_domain (sf_heads f)) \<and>
     (\<forall>d<length (hs_domain (sf_heads f)). (sf_domain_at f' d)\<lparr>hd_head := 0\<rparr> = (sf_domain_at f d)\<lparr>hd_head := 0\<rparr>) \<and>
     (\<forall>b v. heap_position f' b v = heap_position f b v) \<and>
     (\<forall>b. b < sf_physical_blocks f \<longrightarrow> b \<notin> X \<longrightarrow> free_eligible f' b = free_eligible f b \<and>
        victim_eligible f' b = victim_eligible f b \<and>
        (free_eligible f b \<or> victim_eligible f b \<longrightarrow> (\<forall>v. block_key f' v b = block_key f v b)))"

lemma heaps_kept_domains:
  assumes kept: "heaps_kept X f f'"
  shows "d < length (hs_domain (sf_heads f)) \<Longrightarrow> domain_offset f' d = domain_offset f d"
    and "d < length (hs_domain (sf_heads f)) \<Longrightarrow> domain_size f' d = domain_size f d"
    and "d < length (hs_domain (sf_heads f)) \<Longrightarrow> domain_capacity f' d = domain_capacity f d"
    and "domain_blocks f' e = domain_blocks f e" and "sf_head_domain f' b = sf_head_domain f b"
proof -
  have dom: "(sf_domain_at f' d)\<lparr>hd_head := 0\<rparr> = (sf_domain_at f d)\<lparr>hd_head := 0\<rparr>" if "d < length (hs_domain (sf_heads f))" for d
    using kept that by (simp add: heaps_kept_def)
  show "d < length (hs_domain (sf_heads f)) \<Longrightarrow> domain_offset f' d = domain_offset f d"
    and "d < length (hs_domain (sf_heads f)) \<Longrightarrow> domain_size f' d = domain_size f d"
    and "d < length (hs_domain (sf_heads f)) \<Longrightarrow> domain_capacity f' d = domain_capacity f d"
    using arg_cong [OF dom, of d hd_heap_offset] arg_cong [OF dom, of d hd_free_count] arg_cong [OF dom, of d hd_heap_capacity] kept
    by (simp_all add: domain_offset_def domain_size_def domain_capacity_def heaps_kept_def)
  show dom: "sf_head_domain f' b = sf_head_domain f b" for b
    using kept by (simp add: sf_head_domain_def heaps_kept_def)
  then show "domain_blocks f' e = domain_blocks f e"
    using kept by (simp add: domain_blocks_def heaps_kept_def)
qed

lemma heaps_kept_laid:
  assumes "heaps_kept X f f'" and "heads_laid f"
  shows "heads_laid f'"
proof -
  note d = heaps_kept_domains [OF assms(1)]
  have "i < length (hs_domain (sf_heads f))" if "i < hs_count (sf_heads f)" for i
    using assms(2) that by (simp add: heads_laid_def)
  note d' = this [THEN d(1)] this [THEN d(3)] d(4,5)
  show ?thesis
    using assms d' unfolding heads_laid_def heaps_kept_def by simp
qed

lemma heaps_kept_hold:
  assumes "heaps_kept X f f'" and "heads_laid f" and "heaps_hold k F V f"
  shows "heaps_hold k F V f'"
proof -
  note d = heaps_kept_domains [OF assms(1)]
  have len: "i < length (hs_domain (sf_heads f))" if "i < hs_count (sf_heads f)" for i
    using assms(2) that by (simp add: heads_laid_def)
  have arr: "heap_array v f' = heap_array v f" "heap_position f' b v = heap_position f b v" for v b
    using assms(1) by (simp_all add: heaps_kept_def heap_array_def)
  have holds: "heap_holds k' M v off n f' = heap_holds k' M v off n f" for k' M v off n
    using assms(1) by (simp add: heap_holds_def heap_indexed_def heap_seg_def arr heaps_kept_def)
  show ?thesis
    using assms(1,3) len d unfolding heaps_hold_def holds arr by (simp add: heaps_kept_def)
qed

lemma heaps_kept_upto:
  assumes ok: "heaps_ok f" and kept: "heaps_kept {b} f f'"
  shows "heaps_upto b f'"
proof -
  have laid: "heads_laid f" and hold: "heaps_hold (block_key f) (free_set f) (victim_set f) f"
    using ok by (simp_all add: heaps_ok_def)
  have "key_but b f' True (block_key f True) (victim_set f)" "key_but b f' False (block_key f False) (free_set f)"
    "free_set f - {b} = free_set f' - {b}" "victim_set f - {b} = victim_set f' - {b}"
    using kept by (auto simp: key_but_def free_set_def victim_set_def heaps_kept_def)
  then show ?thesis
    using heaps_kept_laid [OF kept laid] heaps_kept_hold [OF kept laid hold] unfolding heaps_upto_def by blast
qed

lemma heaps_kept_ok:
  assumes ok: "heaps_ok f" and kept: "heaps_kept {} f f'"
  shows "heaps_ok f'"
proof -
  have laid: "heads_laid f" and hold: "heaps_hold (block_key f) (free_set f) (victim_set f) f"
    using ok by (simp_all add: heaps_ok_def)
  have keys: "block_key f' v c = block_key f v c" if "c \<in> free_set f \<union> victim_set f" for c v
    using kept that by (auto simp: free_set_def victim_set_def heaps_kept_def)
  have sets: "free_set f' = free_set f" "victim_set f' = victim_set f"
    using kept by (auto simp: free_set_def victim_set_def heaps_kept_def)
  have "heaps_hold (block_key f') (free_set f) (victim_set f) f'"
    using heaps_kept_hold [OF kept laid hold] by (subst heaps_hold_cong [of _ _ "block_key f"]) (use keys in auto)
  then show ?thesis
    using heaps_kept_laid [OF kept laid] by (simp add: heaps_ok_def sets)
qed

lemma heaps_kept_refresh:
  assumes "heaps_ok f" and "heaps_kept {b} f f1" and "b < sf_physical_blocks f" and "f' = sf_heap_refresh b f1"
  shows "heaps_ok f'" and "heap_core f' = heap_core f1"
  using heap_refresh_ok [OF heaps_kept_upto [OF assms(1,2)] _ assms(4)] assms(2,3) by (simp_all add: heaps_kept_def)

lemma heaps_ok_position:
  assumes "heaps_ok f" and "b < sf_physical_blocks f"
  shows "\<not> free_eligible f b \<Longrightarrow> heap_position f b False = SF_HEAP_NONE"
    and "\<not> victim_eligible f b \<Longrightarrow> heap_position f b True = SF_HEAP_NONE"
  using assms by (simp_all add: heaps_ok_def heaps_hold_def free_set_def victim_set_def)

end
