(* ===== verification/Scale_Map_Inv.thy ===== *)
theory Scale_Map_Inv
  imports Scale_Index
begin

text \<open>
  The invariant of the map of the scaled translation layer and its indexes: every mapped page is a
  written page of a data block, no two logical pages share a physical page, the validity bitmap
  marks exactly the mapped pages, and every block counts its mapped pages.
\<close>

section \<open>The invariant\<close>

definition mapped :: "ftl_scale \<Rightarrow> nat \<Rightarrow> bool" where
  "mapped f l \<longleftrightarrow> l < sf_lpn_count f \<and> sm_state (sf_map f ! l) = SF_VALUE"

abbreviation sf_ppa_of :: "ftl_scale \<Rightarrow> nat \<Rightarrow> nat" where
  "sf_ppa_of f l \<equiv> sm_ppa (sf_map f ! l)"

definition live_ppas :: "ftl_scale \<Rightarrow> nat set" where
  "live_ppas f = sf_ppa_of f ` {l. mapped f l}"

definition live_in :: "ftl_scale \<Rightarrow> nat \<Rightarrow> nat set" where
  "live_in f b = {p \<in> live_ppas f. p div sf_ppb f = b}"

definition sf_shape :: "ftl_scale \<Rightarrow> bool" where
  "sf_shape f \<longleftrightarrow> (sf_ppb f = 32 \<or> sf_ppb f = 64) \<and> sf_physical_pages f = sf_physical_blocks f * sf_ppb f \<and>
     sf_physical_pages f < 4294967296 \<and> length (sf_blocks f) = sf_physical_blocks f \<and>
     length (sf_validity f) = (sf_physical_pages f + 7) div 8 \<and> sf_lpn_count f \<le> length (sf_map f)"

definition entry_sound :: "ftl_scale \<Rightarrow> sf_map_entry \<Rightarrow> bool" where
  "entry_sound f e \<longleftrightarrow>
     (if sm_state e = SF_VALUE
      then value_entry f e \<and> sm_ppa e mod sf_ppb f < sd_allocation_end (sf_disk f (sm_ppa e div sf_ppb f))
      else empty_entry e)"

definition map_inv :: "ftl_scale \<Rightarrow> bool" where
  "map_inv f \<longleftrightarrow> sf_shape f \<and> (\<forall>l < sf_lpn_count f. entry_sound f (sf_map f ! l)) \<and>
     inj_on (sf_ppa_of f) {l. mapped f l} \<and>
     (\<forall>p < sf_physical_pages f. sf_validity_get f p \<longleftrightarrow> p \<in> live_ppas f) \<and>
     (\<forall>b < sf_physical_blocks f. sb_live_pages (sf_block_at f b) = card (live_in f b))"

text \<open>The facts of the blocks.\<close>

definition blocks_inv :: "ftl_scale \<Rightarrow> bool" where
  "blocks_inv f \<longleftrightarrow> (\<forall>b < sf_physical_blocks f. block_facts_valid f b \<and>
     sb_wear (sf_block_at f b) = unat (sd_erase_generation (sf_disk f b)) \<and>
     (sd_role (sf_disk f b) = SF_RECLAIM_PENDING \<longrightarrow> sb_live_pages (sf_block_at f b) = 0))"

section \<open>The bitmap\<close>

lemma sf_shape_ppb: "sf_shape f \<Longrightarrow> 0 < sf_ppb f \<and> sf_ppb f \<le> 64"
  by (auto simp: sf_shape_def)

lemma page_block: "sf_shape f \<Longrightarrow> p < sf_physical_pages f \<Longrightarrow> p div sf_ppb f < sf_physical_blocks f"
  using sf_shape_ppb [of f] by (simp add: sf_shape_def less_mult_imp_div_less)

lemma validity_set_fields [simp]:
  "sf_map (validity_set p v f) = sf_map f" "sf_blocks (validity_set p v f) = sf_blocks f"
  "sf_root (validity_set p v f) = sf_root f" "sf_geometry (validity_set p v f) = sf_geometry f"
  "sf_physical_pages (validity_set p v f) = sf_physical_pages f"
  "sf_physical_blocks (validity_set p v f) = sf_physical_blocks f" "sf_heads (validity_set p v f) = sf_heads f"
  "sf_disk_format (validity_set p v f) = sf_disk_format f" "sf_host_head (validity_set p v f) = sf_host_head f"
  "sf_free_heap (validity_set p v f) = sf_free_heap f" "sf_victim_heap (validity_set p v f) = sf_victim_heap f"
  "sf_free_count (validity_set p v f) = sf_free_count f" "sf_victim_count (validity_set p v f) = sf_victim_count f"
  "length (sf_validity (validity_set p v f)) = length (sf_validity f)"
  "sf_next_block_uid (validity_set p v f) = sf_next_block_uid f"
  by (simp_all add: validity_set_def Let_def)

lemma validity_get_bit:
  "sf_validity_get f q \<longleftrightarrow> q < sf_physical_pages f \<and> bit (sf_validity f ! (q div 8)) (q mod 8)"
  by (simp add: sf_validity_get_def bit_iff_and_push_bit_not_eq_0)

lemma validity_set_get:
  assumes len: "length (sf_validity f) = (sf_physical_pages f + 7) div 8"
    and p: "p < sf_physical_pages f" and q: "q < sf_physical_pages f"
  shows "sf_validity_get (validity_set p v f) q \<longleftrightarrow> (if q = p then v else sf_validity_get f q)"
proof -
  have bound: "p div 8 < length (sf_validity f)"
    using len p by linarith
  have eq: "q = p \<longleftrightarrow> q div 8 = p div 8 \<and> q mod 8 = p mod 8"
    by (metis div_mult_mod_eq)
  have "q mod 8 < 8"
    by simp
  then show ?thesis
    using bound p q eq by (auto simp: validity_get_bit validity_set_def Let_def nth_list_update bit_simps)
qed

section \<open>Consequences\<close>

lemma live_ppas_bound:
  assumes "map_inv f" and "p \<in> live_ppas f"
  shows "p < sf_physical_pages f" and "p mod sf_ppb f < sd_allocation_end (sf_disk f (p div sf_ppb f))"
    and "sd_role (sf_disk f (p div sf_ppb f)) \<notin> {SF_FREE, SF_META, SF_BAD}"
proof -
  obtain l where l: "mapped f l" "p = sf_ppa_of f l"
    using assms(2) by (auto simp: live_ppas_def)
  then have "entry_sound f (sf_map f ! l)"
    using assms(1) by (simp add: map_inv_def mapped_def)
  then show "p < sf_physical_pages f" and "p mod sf_ppb f < sd_allocation_end (sf_disk f (p div sf_ppb f))"
    and "sd_role (sf_disk f (p div sf_ppb f)) \<notin> {SF_FREE, SF_META, SF_BAD}"
    using l by (simp_all add: entry_sound_def mapped_def value_entry_def Let_def)
qed

lemma live_in_finite: "finite (live_in f b)"
  by (rule finite_subset [of _ "sf_ppa_of f ` {..<sf_lpn_count f}"]) (auto simp: live_in_def live_ppas_def mapped_def)

lemma card_block_pages:
  assumes "0 < n"
  shows "card {p \<in> S. p div n = b} \<le> n"
proof -
  have "(\<lambda>p. p mod n) ` {p \<in> S. p div n = b} \<subseteq> {..<n}"
    using assms by auto
  moreover have "inj_on (\<lambda>p. p mod n) {p \<in> S. p div n = b}"
    by (rule inj_onI) (metis (mono_tags, lifting) div_mult_mod_eq mem_Collect_eq)
  ultimately show ?thesis
    using card_inj_on_le [of "\<lambda>p. p mod n" "{p \<in> S. p div n = b}" "{..<n}"] by simp
qed

lemma live_in_card: "sf_shape f \<Longrightarrow> card (live_in f b) \<le> sf_ppb f"
  unfolding live_in_def by (rule card_block_pages) (use sf_shape_ppb in blast)

lemma live_zero_empty:
  assumes "map_inv f" and "b < sf_physical_blocks f" and "sb_live_pages (sf_block_at f b) = 0"
  shows "live_in f b = {}"
  using assms live_in_finite [of f b] by (simp add: map_inv_def)

text \<open>A free, meta or bad block holds no mapped page.\<close>

lemma role_empty:
  assumes "map_inv f" and "sd_role (sf_disk f b) \<in> {SF_FREE, SF_META, SF_BAD}"
  shows "live_in f b = {}"
  using live_ppas_bound(3) [OF assms(1)] assms(2) by (auto simp: live_in_def)

section \<open>Changes of the facts of one block\<close>

text \<open>
  What the map invariant reads of a block: its facts may change where no mapped page lies in it, or
  in ways its mapped pages do not see.
\<close>

definition disk_serves :: "sf_block_disk \<Rightarrow> sf_block_disk \<Rightarrow> bool" where
  "disk_serves d d' \<longleftrightarrow> sd_role d' \<notin> {SF_FREE, SF_META, SF_BAD} \<and> sd_block_uid d' = sd_block_uid d \<and>
     sd_erase_generation d' = sd_erase_generation d \<and> sd_allocation_end d \<le> sd_allocation_end d'"

definition map_frame :: "ftl_scale \<Rightarrow> ftl_scale \<Rightarrow> bool" where
  "map_frame f f' \<longleftrightarrow> sf_map f' = sf_map f \<and> sf_validity f' = sf_validity f \<and> sf_geometry f' = sf_geometry f \<and>
     sf_physical_pages f' = sf_physical_pages f \<and> sf_physical_blocks f' = sf_physical_blocks f \<and>
     sf_root f' = sf_root f \<and> length (sf_blocks f') = length (sf_blocks f)"

lemma map_frame_sets:
  assumes "map_frame f f'"
  shows "mapped f' = mapped f" "live_ppas f' = live_ppas f" "live_in f' = live_in f" "sf_ppb f' = sf_ppb f"
    "sf_lpn_count f' = sf_lpn_count f" "sf_data_first f' = sf_data_first f" "sf_validity_get f' = sf_validity_get f"
    "sf_shape f' = sf_shape f"
  using assms by (simp_all add: map_frame_def mapped_def fun_eq_iff live_ppas_def live_in_def sf_ppb_def sf_lpn_count_def
      sf_data_first_def sf_validity_get_def sf_shape_def)

lemma map_inv_frame:
  assumes inv: "map_inv f" and frame: "map_frame f f'"
    and live: "\<And>b. b < sf_physical_blocks f \<Longrightarrow> sb_live_pages (sf_block_at f' b) = sb_live_pages (sf_block_at f b)"
    and disk: "\<And>b. b < sf_physical_blocks f \<Longrightarrow> live_in f b = {} \<or> sf_disk f' b = sf_disk f b \<or> disk_serves (sf_disk f b) (sf_disk f' b)"
  shows "map_inv f'"
proof -
  note s = map_frame_sets [OF frame]
  have shape: "sf_shape f"
    using inv by (simp add: map_inv_def)
  have same: "sf_map f' = sf_map f" "sf_physical_pages f' = sf_physical_pages f" "sf_physical_blocks f' = sf_physical_blocks f"
    using frame by (simp_all add: map_frame_def)
  have "entry_sound f' (sf_map f ! l)" if l: "l < sf_lpn_count f" for l
  proof (cases "sm_state (sf_map f ! l) = SF_VALUE")
    case True
    let ?e = "sf_map f ! l"
    let ?b = "sm_ppa ?e div sf_ppb f"
    have e: "value_entry f ?e" "sm_ppa ?e mod sf_ppb f < sd_allocation_end (sf_disk f ?b)"
      using inv l True by (auto simp: map_inv_def entry_sound_def)
    then have b: "?b < sf_physical_blocks f"
      using page_block [OF shape] by (simp add: value_entry_def Let_def)
    have "sm_ppa ?e \<in> live_in f ?b"
      using True l by (auto simp: live_in_def live_ppas_def mapped_def)
    then have "sf_disk f' ?b = sf_disk f ?b \<or> disk_serves (sf_disk f ?b) (sf_disk f' ?b)"
      using disk [OF b] by blast
    then show ?thesis
      using e True by (auto simp: entry_sound_def value_entry_def Let_def s same disk_serves_def)
  next
    case False
    then show ?thesis
      using inv l by (auto simp: map_inv_def entry_sound_def)
  qed
  then show ?thesis
    using inv live unfolding map_inv_def s same by simp
qed

lemma map_frame_core:
  assumes "heap_core f' = heap_core f"
  shows "map_frame f f'"
  using heap_core_fields [OF assms] heap_core_blocks(1) [OF assms] by (simp add: map_frame_def)

lemma map_inv_core:
  assumes core: "heap_core f' = heap_core f" and inv: "map_inv f"
  shows "map_inv f'"
proof (rule map_inv_frame [OF inv map_frame_core [OF core]])
  have len: "length (sf_blocks f) = sf_physical_blocks f"
    using inv by (simp add: map_inv_def sf_shape_def)
  show "sb_live_pages (sf_block_at f' b) = sb_live_pages (sf_block_at f b)" if "b < sf_physical_blocks f" for b
    using heap_core_blocks(3) [OF core] that len by simp
  show "live_in f b = {} \<or> sf_disk f' b = sf_disk f b \<or> disk_serves (sf_disk f b) (sf_disk f' b)" if "b < sf_physical_blocks f" for b
    using heap_core_blocks(2) [OF core] that len by simp
qed

lemma blocks_inv_core:
  assumes core: "heap_core f' = heap_core f" and len: "length (sf_blocks f) = sf_physical_blocks f" and inv: "blocks_inv f"
  shows "blocks_inv f'"
proof -
  have same: "sf_disk f' b = sf_disk f b" "sb_live_pages (sf_block_at f' b) = sb_live_pages (sf_block_at f b)"
    "sb_wear (sf_block_at f' b) = sb_wear (sf_block_at f b)" if "b < sf_physical_blocks f" for b
    using heap_core_blocks(2-4) [OF core] that len by simp_all
  note c = heap_core_fields [OF core] heap_core_domains(7,8) [OF core]
  show ?thesis
    using inv same by (simp add: blocks_inv_def block_facts_valid_def Let_def c)
qed

end
