(* ===== verification/Scale_Delta.thy ===== *)
theory Scale_Delta
  imports Scale_Map_Inv
begin

text \<open>
  One change of a mapping record (\<open>delta_apply\<close>): the old page is released, the new one installed,
  and map, bitmap, live counts and heaps agree again.
\<close>

section \<open>Changes of one block and the heaps\<close>

text \<open>What the heaps read of the state besides the blocks.\<close>

definition heap_frame :: "ftl_scale \<Rightarrow> ftl_scale" where
  "heap_frame f = f\<lparr>sf_map := [], sf_blocks := [], sf_validity := [], sf_host_head := 0,
     sf_heads := (sf_heads f)\<lparr>hs_domain := map (\<lambda>d. d\<lparr>hd_head := 0\<rparr>) (hs_domain (sf_heads f)), hs_gc_destination := 0\<rparr>,
     sf_record_sequence := 0, sf_map_sequence := 0, sf_durable_frontier := 0, sf_next_block_uid := 0,
     sf_erase_intent_sequence := 0, sf_erase_intent_block := 0, sf_garbage_collections := 0\<rparr>"

lemma heap_frame_fields:
  assumes "heap_frame f' = heap_frame f"
  shows "sf_geometry f' = sf_geometry f" "sf_root f' = sf_root f" "sf_free_heap f' = sf_free_heap f"
    "sf_victim_heap f' = sf_victim_heap f" "sf_free_count f' = sf_free_count f" "sf_victim_count f' = sf_victim_count f"
    "sf_physical_blocks f' = sf_physical_blocks f" "sf_physical_pages f' = sf_physical_pages f"
    "sf_disk_format f' = sf_disk_format f" "hs_count (sf_heads f') = hs_count (sf_heads f)"
    "hs_per_channel (sf_heads f') = hs_per_channel (sf_heads f)"
    "map (\<lambda>d. d\<lparr>hd_head := 0\<rparr>) (hs_domain (sf_heads f')) = map (\<lambda>d. d\<lparr>hd_head := 0\<rparr>) (hs_domain (sf_heads f))"
  using arg_cong [OF assms, of sf_geometry] arg_cong [OF assms, of sf_root] arg_cong [OF assms, of sf_free_heap]
    arg_cong [OF assms, of sf_victim_heap] arg_cong [OF assms, of sf_free_count] arg_cong [OF assms, of sf_victim_count]
    arg_cong [OF assms, of sf_physical_blocks] arg_cong [OF assms, of sf_physical_pages] arg_cong [OF assms, of sf_disk_format]
    arg_cong [OF assms, of "\<lambda>f. hs_count (sf_heads f)"] arg_cong [OF assms, of "\<lambda>f. hs_per_channel (sf_heads f)"]
    arg_cong [OF assms, of "\<lambda>f. hs_domain (sf_heads f)"]
  by (simp_all add: heap_frame_def)

lemma heap_frame_domain:
  assumes "heap_frame f' = heap_frame f" and "d < length (hs_domain (sf_heads f))"
  shows "(sf_domain_at f' d)\<lparr>hd_head := 0\<rparr> = (sf_domain_at f d)\<lparr>hd_head := 0\<rparr>"
    and "length (hs_domain (sf_heads f')) = length (hs_domain (sf_heads f))"
proof -
  note s = heap_frame_fields(12) [OF assms(1)]
  show len: "length (hs_domain (sf_heads f')) = length (hs_domain (sf_heads f))"
    by (rule map_eq_imp_length_eq [OF s])
  show "(sf_domain_at f' d)\<lparr>hd_head := 0\<rparr> = (sf_domain_at f d)\<lparr>hd_head := 0\<rparr>"
    using arg_cong [OF s, of "\<lambda>xs. xs ! d"] assms(2) len by (simp add: sf_domain_at_def)
qed

lemma heads_laid_frame:
  assumes frame: "heap_frame f' = heap_frame f" and len: "length (sf_blocks f') = length (sf_blocks f)" and laid: "heads_laid f"
  shows "heads_laid f'" and "\<And>d. d < hs_count (sf_heads f) \<Longrightarrow> domain_size f' d = domain_size f d"
proof -
  note s = heap_frame_fields [OF frame]
  have d: "d < length (hs_domain (sf_heads f))" if "d < hs_count (sf_heads f)" for d
    using laid that by (simp add: heads_laid_def)
  have multi: "sf_multihead f' = sf_multihead f"
    by (simp add: sf_multihead_def s)
  have dom: "sf_head_domain f' b = sf_head_domain f b" for b
    by (simp add: sf_head_domain_def s multi)
  have same: "domain_offset f' d = domain_offset f d" "domain_capacity f' d = domain_capacity f d" "domain_size f' d = domain_size f d"
    if "d < hs_count (sf_heads f)" for d
    using arg_cong [OF heap_frame_domain(1) [OF frame d [OF that]], of hd_heap_offset]
      arg_cong [OF heap_frame_domain(1) [OF frame d [OF that]], of hd_heap_capacity]
      arg_cong [OF heap_frame_domain(1) [OF frame d [OF that]], of hd_free_count]
    by (simp_all add: domain_offset_def domain_capacity_def domain_size_def multi s)
  then show "\<And>d. d < hs_count (sf_heads f) \<Longrightarrow> domain_size f' d = domain_size f d"
    by simp
  have "hs_count (sf_heads f') \<le> length (hs_domain (sf_heads f'))"
    using laid map_eq_imp_length_eq [OF s(12)] by (simp add: heads_laid_def s)
  then show "heads_laid f'"
    using laid same len unfolding heads_laid_def domain_blocks_def s multi dom by simp
qed

lemma heaps_kept_blocks:
  assumes frame: "heap_frame f' = heap_frame f" and len: "length (sf_blocks f') = length (sf_blocks f)"
    and pos: "\<And>b v. heap_position f' b v = heap_position f b v"
    and out: "\<And>c. c < sf_physical_blocks f \<Longrightarrow> c \<notin> X \<Longrightarrow> sf_block_at f' c = sf_block_at f c \<or>
      \<not> free_eligible f c \<and> \<not> victim_eligible f c \<and> \<not> free_eligible f' c \<and> \<not> victim_eligible f' c"
  shows "heaps_kept X f f'"
proof -
  note s = heap_frame_fields [OF frame]
  have dom: "length (hs_domain (sf_heads f')) = length (hs_domain (sf_heads f))"
    by (rule map_eq_imp_length_eq [OF s(12)])
  note doms = heap_frame_domain(1) [OF frame]
  have elig: "free_eligible f' c = free_eligible f c" "victim_eligible f' c = victim_eligible f c" "block_key f' v c = block_key f v c"
    if "sf_block_at f' c = sf_block_at f c" for c v
    using that s(1,2) by (simp_all add: free_eligible_def victim_eligible_def block_usable_def sf_data_first_def sf_ppb_def block_key_def)
  have "free_eligible f' c = free_eligible f c \<and> victim_eligible f' c = victim_eligible f c \<and>
      (free_eligible f c \<or> victim_eligible f c \<longrightarrow> (\<forall>v. block_key f' v c = block_key f v c))"
    if "c < sf_physical_blocks f" "c \<notin> X" for c
    using out [OF that] elig [of c] by blast
  then show ?thesis
    using s len dom doms pos by (simp add: heaps_kept_def sf_multihead_def)
qed

section \<open>Everything but map, bitmap and blocks\<close>

definition plain_core :: "ftl_scale \<Rightarrow> ftl_scale" where
  "plain_core f = (heap_core f)\<lparr>sf_map := [], sf_validity := [], sf_blocks := []\<rparr>"

lemma plain_core_heap: "heap_core f' = heap_core f \<Longrightarrow> plain_core f' = plain_core f"
  by (simp add: plain_core_def)

lemma plain_core_fields:
  assumes "plain_core f' = plain_core f"
  shows "sf_geometry f' = sf_geometry f" "sf_root f' = sf_root f" "sf_host_head f' = sf_host_head f"
    "sf_physical_blocks f' = sf_physical_blocks f" "sf_physical_pages f' = sf_physical_pages f"
    "sf_disk_format f' = sf_disk_format f" "sf_record_sequence f' = sf_record_sequence f"
    "sf_map_sequence f' = sf_map_sequence f" "sf_durable_frontier f' = sf_durable_frontier f"
    "sf_next_block_uid f' = sf_next_block_uid f" "sf_erase_intent_sequence f' = sf_erase_intent_sequence f"
    "sf_erase_intent_block f' = sf_erase_intent_block f" "hs_count (sf_heads f') = hs_count (sf_heads f)"
    "hs_per_channel (sf_heads f') = hs_per_channel (sf_heads f)" "hs_gc_destination (sf_heads f') = hs_gc_destination (sf_heads f)"
    "map (\<lambda>d. d\<lparr>hd_free_count := 0\<rparr>) (hs_domain (sf_heads f')) = map (\<lambda>d. d\<lparr>hd_free_count := 0\<rparr>) (hs_domain (sf_heads f))"
    "sf_garbage_collections f' = sf_garbage_collections f"
  using arg_cong [OF assms, of sf_geometry] arg_cong [OF assms, of sf_root] arg_cong [OF assms, of sf_host_head]
    arg_cong [OF assms, of sf_physical_blocks] arg_cong [OF assms, of sf_physical_pages] arg_cong [OF assms, of sf_disk_format]
    arg_cong [OF assms, of sf_record_sequence] arg_cong [OF assms, of sf_map_sequence] arg_cong [OF assms, of sf_durable_frontier]
    arg_cong [OF assms, of sf_next_block_uid] arg_cong [OF assms, of sf_erase_intent_sequence] arg_cong [OF assms, of sf_erase_intent_block]
    arg_cong [OF assms, of "\<lambda>f. hs_count (sf_heads f)"] arg_cong [OF assms, of "\<lambda>f. hs_per_channel (sf_heads f)"]
    arg_cong [OF assms, of "\<lambda>f. hs_gc_destination (sf_heads f)"] arg_cong [OF assms, of "\<lambda>f. hs_domain (sf_heads f)"]
    arg_cong [OF assms, of sf_garbage_collections]
  by (simp_all add: plain_core_def heap_core_def)

section \<open>Release of the old page\<close>

text \<open>The state between the release of the old page and the refresh of its block.\<close>

definition delta_released :: "sf_delta \<Rightarrow> ftl_scale \<Rightarrow> ftl_scale" where
  "delta_released d f =
     (if sm_state (sx_before d) = SF_VALUE
      then sf_block_put (sm_ppa (sx_before d) div sf_ppb f) (\<lambda>x. x\<lparr>sb_live_pages := w16 (sb_live_pages x + 65535)\<rparr>)
             (validity_set (sm_ppa (sx_before d)) False f)
      else f)"

lemma sf_block_put_fields [simp]:
  "sf_map (sf_block_put b u f) = sf_map f" "sf_validity (sf_block_put b u f) = sf_validity f"
  "sf_geometry (sf_block_put b u f) = sf_geometry f" "sf_root (sf_block_put b u f) = sf_root f"
  "sf_physical_pages (sf_block_put b u f) = sf_physical_pages f" "sf_physical_blocks (sf_block_put b u f) = sf_physical_blocks f"
  "length (sf_blocks (sf_block_put b u f)) = length (sf_blocks f)" "sf_heads (sf_block_put b u f) = sf_heads f"
  "sf_disk_format (sf_block_put b u f) = sf_disk_format f" "sf_host_head (sf_block_put b u f) = sf_host_head f"
  "sf_next_block_uid (sf_block_put b u f) = sf_next_block_uid f" "heap_frame (sf_block_put b u f) = heap_frame f"
  "plain_core (sf_block_put b u f) = plain_core f" "sf_free_heap (sf_block_put b u f) = sf_free_heap f"
  "sf_victim_heap (sf_block_put b u f) = sf_victim_heap f"
  by (simp_all add: sf_block_put_def heap_frame_def plain_core_def heap_core_def)

lemma validity_set_frame [simp]:
  "heap_frame (validity_set p v f) = heap_frame f" "plain_core (validity_set p v f) = plain_core f"
  "sf_block_at (validity_set p v f) b = sf_block_at f b"
  by (simp_all add: validity_set_def Let_def heap_frame_def plain_core_def heap_core_def sf_block_at_def)

lemma delta_release_eq:
  "delta_release d f = (if sm_state (sx_before d) = SF_VALUE
     then sf_heap_refresh (sm_ppa (sx_before d) div sf_ppb f) (delta_released d f) else f)"
  by (simp add: delta_release_def delta_released_def Let_def)

lemma delta_release_heaps:
  assumes ok: "heaps_ok f" and bound: "sm_state (sx_before d) = SF_VALUE \<Longrightarrow> sm_ppa (sx_before d) div sf_ppb f < sf_physical_blocks f"
  shows "heaps_ok (delta_release d f)" and "heap_core (delta_release d f) = heap_core (delta_released d f)"
proof -
  let ?b = "sm_ppa (sx_before d) div sf_ppb f" and ?g = "delta_released d f"
  have kept: "heaps_kept {?b} f ?g"
    by (rule heaps_kept_blocks) (auto simp: delta_released_def heap_position_def sf_block_at_put)
  show "heaps_ok (delta_release d f)" and "heap_core (delta_release d f) = heap_core ?g"
    using heaps_kept_refresh [OF ok kept bound refl] ok by (auto simp: delta_release_eq delta_released_def)
qed

section \<open>The change as a whole\<close>

definition delta_fit :: "ftl_scale \<Rightarrow> sf_delta \<Rightarrow> bool" where
  "delta_fit f d \<longleftrightarrow> sx_lpn d < sf_lpn_count f \<and> sx_before d = sf_map f ! sx_lpn d \<and> value_entry f (sx_after d) \<and>
     (let b = sm_ppa (sx_after d) div sf_ppb f
      in (sd_role (sf_disk f b) = SF_HOST_OPEN \<or> sd_role (sf_disk f b) = SF_GC_DEST) \<and>
         sm_ppa (sx_after d) mod sf_ppb f = sd_allocation_end (sf_disk f b))"

abbreviation delta_dest :: "ftl_scale \<Rightarrow> sf_delta \<Rightarrow> nat" where
  "delta_dest f d \<equiv> sm_ppa (sx_after d) div sf_ppb f"

text \<open>The blocks after the change.\<close>

lemma delta_apply_blocks:
  assumes shape: "sf_shape f" and ok: "heaps_ok f" and fit: "delta_fit f d"
    and old: "sm_state (sx_before d) = SF_VALUE \<Longrightarrow> sm_ppa (sx_before d) < sf_physical_pages f"
    and b: "b < sf_physical_blocks f"
  shows "sf_disk (delta_apply d f) b = (if b = delta_dest f d
      then (sf_disk f b)\<lparr>sd_allocation_end := w16 (sm_ppa (sx_after d) mod sf_ppb f + 1)\<rparr> else sf_disk f b)"
    and "sb_live_pages (sf_block_at (delta_apply d f) b) =
      (let n = (if sm_state (sx_before d) = SF_VALUE \<and> b = sm_ppa (sx_before d) div sf_ppb f
                then w16 (sb_live_pages (sf_block_at f b) + 65535) else sb_live_pages (sf_block_at f b))
       in if b = delta_dest f d then w16 (n + 1) else n)"
    and "sb_wear (sf_block_at (delta_apply d f) b) = sb_wear (sf_block_at f b)"
    and "sb_reserved_pages (sf_block_at (delta_apply d f) b) = sb_reserved_pages (sf_block_at f b)"
proof -
  let ?g = "delta_release d f" and ?h = "delta_released d f"
  have core: "heap_core ?g = heap_core ?h"
    using delta_release_heaps(2) [OF ok] page_block [OF shape] old by blast
  have len: "length (sf_blocks ?h) = sf_physical_blocks f" "length (sf_blocks f) = sf_physical_blocks f"
    using shape by (simp_all add: delta_released_def sf_shape_def)
  have ppb: "sf_ppb ?g = sf_ppb f"
    using heap_core_domains(7) [OF core] by (simp add: delta_released_def sf_ppb_def)
  have g: "sf_disk ?g b = sf_disk ?h b" "sb_live_pages (sf_block_at ?g b) = sb_live_pages (sf_block_at ?h b)"
    "sb_wear (sf_block_at ?g b) = sb_wear (sf_block_at ?h b)"
    "sb_reserved_pages (sf_block_at ?g b) = sb_reserved_pages (sf_block_at ?h b)"
    using heap_core_blocks(2-5) [OF core] b len by simp_all
  have glen: "length (sf_blocks ?g) = sf_physical_blocks f"
    using heap_core_blocks(1) [OF core] len by simp
  have at: "sf_block_at (delta_apply d f) b = (if b = delta_dest f d then (sf_block_at ?g b)
      \<lparr>sb_live_pages := w16 (sb_live_pages (sf_block_at ?g b) + 1),
       sb_disk := (sf_disk ?g b)\<lparr>sd_allocation_end := w16 (sm_ppa (sx_after d) mod sf_ppb f + 1)\<rparr>\<rparr> else sf_block_at ?g b)"
    using b glen by (simp add: delta_apply_def delta_install_def Let_def ppb sf_block_at_put) (simp add: sf_block_at_def)
  have hat: "sf_block_at ?h b = (if sm_state (sx_before d) = SF_VALUE \<and> b = sm_ppa (sx_before d) div sf_ppb f
      then (sf_block_at f b)\<lparr>sb_live_pages := w16 (sb_live_pages (sf_block_at f b) + 65535)\<rparr> else sf_block_at f b)"
    using b len by (auto simp: delta_released_def sf_block_at_put)
  show "sf_disk (delta_apply d f) b = (if b = delta_dest f d
      then (sf_disk f b)\<lparr>sd_allocation_end := w16 (sm_ppa (sx_after d) mod sf_ppb f + 1)\<rparr> else sf_disk f b)"
    using g(1) at hat by (cases "b = delta_dest f d") simp_all
  show "sb_wear (sf_block_at (delta_apply d f) b) = sb_wear (sf_block_at f b)"
    using g(3) at hat by (cases "b = delta_dest f d") simp_all
  show "sb_reserved_pages (sf_block_at (delta_apply d f) b) = sb_reserved_pages (sf_block_at f b)"
    using g(4) at hat by (cases "b = delta_dest f d") simp_all
  show "sb_live_pages (sf_block_at (delta_apply d f) b) =
      (let n = (if sm_state (sx_before d) = SF_VALUE \<and> b = sm_ppa (sx_before d) div sf_ppb f
                then w16 (sb_live_pages (sf_block_at f b) + 65535) else sb_live_pages (sf_block_at f b))
       in if b = delta_dest f d then w16 (n + 1) else n)"
    using g(2) at hat by (cases "b = delta_dest f d") (simp_all add: Let_def)
qed

lemma delta_apply_fields:
  assumes shape: "sf_shape f" and ok: "heaps_ok f"
    and old: "sm_state (sx_before d) = SF_VALUE \<Longrightarrow> sm_ppa (sx_before d) < sf_physical_pages f"
  shows "sf_map (delta_apply d f) = (sf_map f)[sx_lpn d := sx_after d]"
    and "sf_validity (delta_apply d f) = sf_validity (validity_set (sm_ppa (sx_after d)) True
      (if sm_state (sx_before d) = SF_VALUE then validity_set (sm_ppa (sx_before d)) False f else f))"
    and "plain_core (delta_apply d f) = plain_core f" and "length (sf_blocks (delta_apply d f)) = length (sf_blocks f)"
proof -
  let ?g = "delta_release d f" and ?h = "delta_released d f"
  have core: "heap_core ?g = heap_core ?h"
    using delta_release_heaps(2) [OF ok] page_block [OF shape] old by blast
  note c = heap_core_fields [OF core]
  show "sf_map (delta_apply d f) = (sf_map f)[sx_lpn d := sx_after d]"
    by (simp add: delta_apply_def delta_install_def Let_def c) (simp add: delta_released_def)
  show "sf_validity (delta_apply d f) = sf_validity (validity_set (sm_ppa (sx_after d)) True
      (if sm_state (sx_before d) = SF_VALUE then validity_set (sm_ppa (sx_before d)) False f else f))"
    by (simp add: delta_apply_def delta_install_def Let_def validity_set_def c) (simp add: delta_released_def validity_set_def Let_def)
  have "plain_core ?g = plain_core f"
    using plain_core_heap [OF core] by (simp add: delta_released_def)
  then show "plain_core (delta_apply d f) = plain_core f"
    by (simp add: delta_apply_def delta_install_def Let_def) (simp add: plain_core_def heap_core_def)
  show "length (sf_blocks (delta_apply d f)) = length (sf_blocks f)"
    using heap_core_blocks(1) [OF core] by (simp add: delta_apply_def delta_install_def Let_def) (simp add: delta_released_def)
qed

text \<open>The page a change releases.\<close>

definition delta_old :: "sf_delta \<Rightarrow> nat set" where
  "delta_old d = (if sm_state (sx_before d) = SF_VALUE then {sm_ppa (sx_before d)} else {})"

lemma delta_fit_facts:
  assumes inv: "map_inv f" and fit: "delta_fit f d"
  shows "sf_shape f" and "delta_old d \<subseteq> live_ppas f" and "sm_ppa (sx_after d) \<notin> live_ppas f"
    and "sm_ppa (sx_after d) < sf_physical_pages f" and "delta_dest f d < sf_physical_blocks f"
    and "sm_state (sx_before d) = SF_VALUE \<Longrightarrow> sm_ppa (sx_before d) < sf_physical_pages f"
proof -
  show shape: "sf_shape f"
    using inv by (simp add: map_inv_def)
  show old: "delta_old d \<subseteq> live_ppas f"
    using fit by (auto simp: delta_old_def delta_fit_def live_ppas_def mapped_def)
  show "sm_ppa (sx_after d) \<notin> live_ppas f"
    using live_ppas_bound(2) [OF inv, of "sm_ppa (sx_after d)"] fit unfolding delta_fit_def Let_def
    by (metis less_irrefl)
  show new: "sm_ppa (sx_after d) < sf_physical_pages f"
    using fit by (simp add: delta_fit_def value_entry_def Let_def)
  show "delta_dest f d < sf_physical_blocks f"
    by (rule page_block [OF shape new])
  show "sm_state (sx_before d) = SF_VALUE \<Longrightarrow> sm_ppa (sx_before d) < sf_physical_pages f"
    using live_ppas_bound(1) [OF inv] old by (auto simp: delta_old_def)
qed

lemma delta_apply_sets:
  assumes inv: "map_inv f" and ok: "heaps_ok f" and fit: "delta_fit f d" and f': "f' = delta_apply d f"
  shows "live_ppas f' = insert (sm_ppa (sx_after d)) (live_ppas f - delta_old d)"
    and "inj_on (sf_ppa_of f') {l. mapped f' l}" and "sf_ppb f' = sf_ppb f" and "sf_lpn_count f' = sf_lpn_count f"
    and "sf_shape f'" and "sf_data_first f' = sf_data_first f"
proof -
  note facts = delta_fit_facts [OF inv fit]
  note fields = delta_apply_fields [OF facts(1) ok facts(6), folded f']
  note p = plain_core_fields [OF fields(3)]
  show ppb: "sf_ppb f' = sf_ppb f" and lpns: "sf_lpn_count f' = sf_lpn_count f" and "sf_data_first f' = sf_data_first f"
    by (simp_all add: sf_ppb_def sf_lpn_count_def sf_data_first_def p)
  have lpn: "sx_lpn d < length (sf_map f)" "sx_before d = sf_map f ! sx_lpn d" "sm_state (sx_after d) = SF_VALUE" "sx_lpn d < sf_lpn_count f"
    using fit facts(1) by (simp_all add: delta_fit_def value_entry_def Let_def sf_shape_def)
  have nth: "sf_map f' ! l = (if l = sx_lpn d then sx_after d else sf_map f ! l)" for l
    using lpn(1) by (simp add: fields(1))
  have mapped: "{l. mapped f' l} = insert (sx_lpn d) ({l. mapped f l} - {sx_lpn d})"
    using lpn by (auto simp: mapped_def nth lpns)
  have inj: "inj_on (sf_ppa_of f) {l. mapped f l}"
    using inv by (simp add: map_inv_def)
  have img: "sf_ppa_of f' ` ({l. mapped f l} - {sx_lpn d}) = sf_ppa_of f ` ({l. mapped f l} - {sx_lpn d})"
    by (simp add: nth)
  have rest: "sf_ppa_of f ` ({l. mapped f l} - {sx_lpn d}) = live_ppas f - delta_old d"
  proof (cases "mapped f (sx_lpn d)")
    case True
    then have "delta_old d = sf_ppa_of f ` {sx_lpn d}"
      using lpn by (simp add: delta_old_def mapped_def)
    then show ?thesis
      using inj_on_image_set_diff [OF inj, of "{l. mapped f l}" "{sx_lpn d}"] True by (simp add: live_ppas_def)
  next
    case False
    then have "delta_old d = {}"
      using lpn by (simp add: delta_old_def mapped_def)
    then show ?thesis
      using False by (simp add: live_ppas_def)
  qed
  show "live_ppas f' = insert (sm_ppa (sx_after d)) (live_ppas f - delta_old d)"
    unfolding live_ppas_def [of f'] mapped image_insert img rest by (simp add: nth)
  have "inj_on (sf_ppa_of f') ({l. mapped f l} - {sx_lpn d})"
    using inj by (auto simp: inj_on_def nth)
  moreover have "sf_ppa_of f' (sx_lpn d) \<notin> sf_ppa_of f' ` ({l. mapped f l} - {sx_lpn d})"
    unfolding img rest using facts(3) by (simp add: nth)
  ultimately show "inj_on (sf_ppa_of f') {l. mapped f' l}"
    unfolding mapped by (simp only: inj_on_insert Diff_idemp simp_thms)
  show "sf_shape f'"
    using facts(1) fields by (simp add: sf_shape_def ppb lpns p)
qed

lemma delta_apply_entries:
  assumes inv: "map_inv f" and ok: "heaps_ok f" and fit: "delta_fit f d" and f': "f' = delta_apply d f"
    and l: "l < sf_lpn_count f"
  shows "entry_sound f' (sf_map f' ! l)"
proof -
  note facts = delta_fit_facts [OF inv fit]
  note fields = delta_apply_fields [OF facts(1) ok facts(6), folded f']
  note p = plain_core_fields [OF fields(3)] and s = delta_apply_sets(3,6) [OF inv ok fit f']
  have ppb: "0 < sf_ppb f" "sf_ppb f \<le> 64"
    using sf_shape_ppb [OF facts(1)] by simp_all
  let ?pg = "sm_ppa (sx_after d) mod sf_ppb f"
  have pg: "?pg < sf_ppb f"
    using ppb by simp
  have at: "?pg = sd_allocation_end (sf_disk f (delta_dest f d))"
    using fit unfolding delta_fit_def Let_def by blast
  have disk: "sf_disk f' b = (if b = delta_dest f d then (sf_disk f b)\<lparr>sd_allocation_end := ?pg + 1\<rparr> else sf_disk f b)"
    if "b < sf_physical_blocks f" for b
  proof -
    have "w16 (?pg + 1) = ?pg + 1"
      using pg ppb by (intro w16_small) linarith
    then show ?thesis
      using delta_apply_blocks(1) [OF facts(1) ok fit facts(6) that] by (simp only: f')
  qed
  have val: "value_entry f' e = value_entry f e" for e
  proof (cases "sm_ppa e < sf_physical_pages f")
    case True
    then show ?thesis
      using disk [OF page_block [OF facts(1) True]] by (simp add: value_entry_def Let_def s p)
  next
    case False
    then show ?thesis
      by (simp add: value_entry_def Let_def p)
  qed
  have "sx_lpn d < length (sf_map f)"
    using fit facts(1) by (simp add: delta_fit_def sf_shape_def)
  then have nth: "sf_map f' ! l = (if l = sx_lpn d then sx_after d else sf_map f ! l)"
    by (simp add: fields(1))
  show ?thesis
  proof (cases "l = sx_lpn d")
    case True
    have "value_entry f' (sx_after d)" "sm_state (sx_after d) = SF_VALUE"
      using fit by (simp_all add: val delta_fit_def) (simp add: value_entry_def Let_def)
    moreover have "?pg < sd_allocation_end (sf_disk f' (delta_dest f d))"
      using disk [OF facts(5)] by simp
    moreover have "sf_map f' ! l = sx_after d"
      using nth True by simp
    ultimately show ?thesis
      by (simp add: entry_sound_def s)
  next
    case False
    have e: "entry_sound f (sf_map f ! l)"
      using inv l by (simp add: map_inv_def)
    show ?thesis
    proof (cases "sm_state (sf_map f ! l) = SF_VALUE")
      case True
      then have v: "value_entry f (sf_map f ! l)"
        "sf_ppa_of f l mod sf_ppb f < sd_allocation_end (sf_disk f (sf_ppa_of f l div sf_ppb f))"
        using e by (simp_all add: entry_sound_def)
      then have "sf_ppa_of f l div sf_ppb f < sf_physical_blocks f"
        using page_block [OF facts(1)] by (simp add: value_entry_def Let_def)
      then show ?thesis
        using v disk at True False by (auto simp: nth entry_sound_def val s)
    next
      case unmapped: False
      then show ?thesis
        using e False by (simp add: nth entry_sound_def)
    qed
  qed
qed

lemma delta_apply_live:
  assumes inv: "map_inv f" and ok: "heaps_ok f" and fit: "delta_fit f d" and f': "f' = delta_apply d f"
    and b: "b < sf_physical_blocks f"
  shows "sb_live_pages (sf_block_at f' b) = card (live_in f' b)"
proof -
  note facts = delta_fit_facts [OF inv fit] and sets = delta_apply_sets [OF inv ok fit f']
  let ?p0 = "sm_ppa (sx_before d)" and ?p1 = "sm_ppa (sx_after d)"
  let ?v = "sm_state (sx_before d) = SF_VALUE \<and> b = ?p0 div sf_ppb f"
  let ?old = "if ?v then {?p0} else {}" and ?new = "if b = delta_dest f d then {?p1} else {}"
  have live: "sb_live_pages (sf_block_at f b) = card (live_in f b)"
    using inv b by (simp add: map_inv_def)
  have in': "live_in f' b = (live_in f b - ?old) \<union> ?new"
    unfolding live_in_def sets(1,3) by (auto simp: delta_old_def)
  have sub: "?old \<subseteq> live_in f b"
    using facts(2) by (auto simp: delta_old_def live_in_def)
  have new: "?new \<inter> live_in f b = {}"
    using facts(3) by (auto simp: live_in_def)
  have fin: "finite (live_in f b)"
    by (rule live_in_finite)
  have card: "card (live_in f b - ?old) + card ?old = card (live_in f b)"
    using card_Diff_subset [OF _ sub] card_mono [OF fin sub] by simp
  have card': "card (live_in f' b) = card (live_in f b - ?old) + card ?new"
    unfolding in' by (rule card_Un_disjoint) (use fin new in auto)
  have small: "card (live_in f b) \<le> 64"
    using live_in_card [OF facts(1), of b] sf_shape_ppb [OF facts(1)] by linarith
  have rel: "(if ?v then w16 (card (live_in f b) + 65535) else card (live_in f b)) = card (live_in f b - ?old)"
  proof (cases ?v)
    case True
    have "card (live_in f b - {?p0}) + card {?p0} = card (live_in f b)"
      using card unfolding if_P [OF True] .
    moreover from this have "w16 (card (live_in f b) + 65535) = card (live_in f b) - 1"
      using small by (intro w16_pred) simp_all
    ultimately show ?thesis
      unfolding if_P [OF True] by simp
  next
    case False
    then show ?thesis
      by (simp only: if_False Diff_empty)
  qed
  have "card (live_in f b - ?old) \<le> 64"
    using card small by linarith
  then have wrap: "w16 (card (live_in f b - ?old) + 1) = card (live_in f b - ?old) + 1"
    by simp
  have "sb_live_pages (sf_block_at f' b) =
      (if b = delta_dest f d then w16 (card (live_in f b - ?old) + 1) else card (live_in f b - ?old))"
    using delta_apply_blocks(2) [OF facts(1) ok fit facts(6) b] unfolding Let_def live rel f' .
  also have "\<dots> = card (live_in f b - ?old) + card ?new"
    unfolding wrap by (cases "b = delta_dest f d") (simp_all only: if_True if_False card.empty add_0_right, simp)
  finally show ?thesis
    using card' by simp
qed

theorem delta_apply_map_inv:
  assumes inv: "map_inv f" and ok: "heaps_ok f" and fit: "delta_fit f d" and f': "f' = delta_apply d f"
  shows "map_inv f'"
proof -
  note facts = delta_fit_facts [OF inv fit] and sets = delta_apply_sets [OF inv ok fit f']
  note fields = delta_apply_fields [OF facts(1) ok facts(6), folded f']
  note p = plain_core_fields [OF fields(3)]
  let ?g = "if sm_state (sx_before d) = SF_VALUE then validity_set (sm_ppa (sx_before d)) False f else f"
  have len: "length (sf_validity f) = (sf_physical_pages f + 7) div 8"
    using facts(1) by (simp add: sf_shape_def)
  have "sf_validity_get f' q \<longleftrightarrow> q \<in> live_ppas f'" if q: "q < sf_physical_pages f" for q
  proof -
    have "sf_validity_get f' q \<longleftrightarrow> sf_validity_get (validity_set (sm_ppa (sx_after d)) True ?g) q"
      by (simp add: sf_validity_get_def p fields(2))
    also have "\<dots> \<longleftrightarrow> q = sm_ppa (sx_after d) \<or> sf_validity_get ?g q"
      using validity_set_get [of ?g "sm_ppa (sx_after d)" q True] len facts(4) q by auto
    also have "sf_validity_get ?g q \<longleftrightarrow> sf_validity_get f q \<and> q \<notin> delta_old d"
      using validity_set_get [OF len facts(6) q, of False] by (auto simp: delta_old_def)
    also have "sf_validity_get f q \<longleftrightarrow> q \<in> live_ppas f"
      using inv q by (simp add: map_inv_def)
    finally show ?thesis
      by (auto simp: sets(1))
  qed
  then show ?thesis
    using sets delta_apply_entries [OF inv ok fit f'] delta_apply_live [OF inv ok fit f'] by (simp add: map_inv_def p)
qed

text \<open>A block that takes host or collected data is in no heap.\<close>

lemma open_not_eligible:
  "sd_role (sf_disk f b) = SF_HOST_OPEN \<or> sd_role (sf_disk f b) = SF_GC_DEST \<Longrightarrow> \<not> free_eligible f b \<and> \<not> victim_eligible f b"
  by (auto simp: free_eligible_def victim_eligible_def)

lemma delta_apply_heaps:
  assumes inv: "map_inv f" and ok: "heaps_ok f" and fit: "delta_fit f d" and f': "f' = delta_apply d f"
  shows "heaps_ok f'"
proof -
  note facts = delta_fit_facts [OF inv fit]
  let ?g = "delta_release d f"
  have g: "heaps_ok ?g" and core: "heap_core ?g = heap_core (delta_released d f)"
    using delta_release_heaps [OF ok] page_block [OF facts(1)] facts(6) by blast+
  have ppb: "sf_ppb ?g = sf_ppb f" and blocks: "sf_physical_blocks ?g = sf_physical_blocks f"
    using heap_core_domains(7) [OF core] heap_core_fields(6) [OF core] by (simp_all add: delta_released_def sf_ppb_def)
  have len: "length (sf_blocks f) = sf_physical_blocks f"
    using facts(1) by (simp add: sf_shape_def)
  have role: "sd_role (sf_disk ?g (delta_dest f d)) = sd_role (sf_disk f (delta_dest f d))"
    using heap_core_blocks(2) [OF core, of "delta_dest f d"] facts(5) len by (simp add: delta_released_def sf_block_at_put)
  have role': "sd_role (sf_disk f' (delta_dest f d)) = sd_role (sf_disk f (delta_dest f d))"
    using delta_apply_blocks(1) [OF facts(1) ok fit facts(6) facts(5)] by (simp add: f')
  have dest: "sd_role (sf_disk f (delta_dest f d)) = SF_HOST_OPEN \<or> sd_role (sf_disk f (delta_dest f d)) = SF_GC_DEST"
    using fit unfolding delta_fit_def Let_def by blast
  have "heaps_kept {} ?g f'"
  proof (rule heaps_kept_blocks)
    show "heap_frame f' = heap_frame ?g" "length (sf_blocks f') = length (sf_blocks ?g)"
      by (simp_all add: f' delta_apply_def delta_install_def Let_def) (simp add: heap_frame_def)
    show "heap_position f' b v = heap_position ?g b v" for b v
      by (simp add: f' delta_apply_def delta_install_def Let_def heap_position_def sf_block_at_put) (simp add: sf_block_at_def)
    show "sf_block_at f' c = sf_block_at ?g c \<or>
      \<not> free_eligible ?g c \<and> \<not> victim_eligible ?g c \<and> \<not> free_eligible f' c \<and> \<not> victim_eligible f' c" for c
    proof (cases "c = delta_dest f d")
      case True
      show ?thesis
        unfolding True using open_not_eligible [of ?g "delta_dest f d"] open_not_eligible [of f' "delta_dest f d"] dest
        unfolding role role' by blast
    next
      case False
      then show ?thesis
        by (simp add: f' delta_apply_def delta_install_def Let_def ppb sf_block_at_put) (simp add: sf_block_at_def)
    qed
  qed
  then show ?thesis
    by (rule heaps_kept_ok [OF g])
qed

lemma delta_apply_blocks_inv:
  assumes inv: "map_inv f" and ok: "heaps_ok f" and fit: "delta_fit f d" and f': "f' = delta_apply d f" and blocks: "blocks_inv f"
  shows "blocks_inv f'"
  unfolding blocks_inv_def
proof (intro allI impI)
  note facts = delta_fit_facts [OF inv fit] and sets = delta_apply_sets [OF inv ok fit f']
  note p = plain_core_fields [OF delta_apply_fields(3) [OF facts(1) ok facts(6)], folded f']
  fix b assume "b < sf_physical_blocks f'"
  then have b: "b < sf_physical_blocks f"
    by (simp add: p)
  note at = delta_apply_blocks [OF facts(1) ok fit facts(6) b, folded f']
  have old: "block_facts_valid f b" "sb_wear (sf_block_at f b) = unat (sd_erase_generation (sf_disk f b))"
    "sd_role (sf_disk f b) = SF_RECLAIM_PENDING \<Longrightarrow> sb_live_pages (sf_block_at f b) = 0"
    using blocks b by (simp_all add: blocks_inv_def)
  have ppb: "0 < sf_ppb f" "sf_ppb f \<le> 64"
    using sf_shape_ppb [OF facts(1)] by simp_all
  have "sm_ppa (sx_after d) mod sf_ppb f < sf_ppb f"
    using ppb by simp
  then have w: "w16 (sm_ppa (sx_after d) mod sf_ppb f + 1) \<le> sf_ppb f"
    using ppb w16_small [of "sm_ppa (sx_after d) mod sf_ppb f + 1"] by linarith
  have role: "sd_role (sf_disk f' b) = sd_role (sf_disk f b)"
    using at(1) by simp
  have dest: "sd_role (sf_disk f (delta_dest f d)) = SF_HOST_OPEN \<or> sd_role (sf_disk f (delta_dest f d)) = SF_GC_DEST"
    using fit unfolding delta_fit_def Let_def by blast
  have "block_facts_valid f' b"
    using old(1) w dest by (auto simp: block_facts_valid_def Let_def at(1) sets(3,6) p)
  moreover have "sb_live_pages (sf_block_at f' b) = 0" if r: "sd_role (sf_disk f b) = SF_RECLAIM_PENDING"
  proof -
    have empty: "live_in f b = {}"
      by (rule live_zero_empty [OF inv b old(3) [OF r]])
    have "b \<noteq> delta_dest f d"
      using dest r by auto
    then have "live_in f' b = {}"
      using empty by (auto simp: live_in_def sets(1,3))
    then show ?thesis
      using delta_apply_live [OF inv ok fit f' b] by simp
  qed
  ultimately show "block_facts_valid f' b \<and> sb_wear (sf_block_at f' b) = unat (sd_erase_generation (sf_disk f' b)) \<and>
      (sd_role (sf_disk f' b) = SF_RECLAIM_PENDING \<longrightarrow> sb_live_pages (sf_block_at f' b) = 0)"
    using old(2) role at(1,3) by simp
qed

end
