(* ===== verification/Scale_Apply.thy ===== *)
theory Scale_Apply
  imports Scale_Delta
begin

text \<open>
  The application of journal records keeps the invariant of the scaled translation layer: the map and
  its indexes, the facts of the blocks, the allocation heads and the heaps.
\<close>

section \<open>The heads\<close>

text \<open>The open block of a domain.\<close>

definition slot_of :: "ftl_scale \<Rightarrow> nat \<Rightarrow> nat" where
  "slot_of f d = (if sf_multihead f then hd_head (sf_domain_at f d) else sf_host_head f)"

lemma head_slot_domain: "head_slot f b = slot_of f (sf_head_domain f b)"
  by (simp add: head_slot_def slot_of_def)

definition heads_inv :: "ftl_scale \<Rightarrow> bool" where
  "heads_inv f \<longleftrightarrow>
     (\<forall>d<hs_count (sf_heads f). slot_of f d = SF_NONE \<or>
        slot_of f d < sf_physical_blocks f \<and> sf_head_domain f (slot_of f d) = d) \<and>
     (\<forall>b < sf_physical_blocks f. sd_role (sf_disk f b) = SF_HOST_OPEN \<longleftrightarrow> head_slot f b = b) \<and>
     (sf_multihead f \<longrightarrow>
        (\<forall>b < sf_physical_blocks f. sd_role (sf_disk f b) = SF_GC_DEST \<longleftrightarrow> hs_gc_destination (sf_heads f) = b) \<and>
        (hs_gc_destination (sf_heads f) = SF_NONE \<or>
           hs_gc_destination (sf_heads f) < sf_physical_blocks f \<and>
           sd_allocation_end (sf_disk f (hs_gc_destination (sf_heads f))) = 0 \<and> sf_heads_empty f))"

definition sf_inv :: "ftl_scale \<Rightarrow> bool" where
  "sf_inv f \<longleftrightarrow> map_inv f \<and> blocks_inv f \<and> heads_inv f \<and> heaps_ok f"

lemma sf_inv_parts:
  assumes "sf_inv f"
  shows "map_inv f" and "blocks_inv f" and "heads_inv f" and "heaps_ok f"
  using assms by (simp_all add: sf_inv_def)

lemma heads_empty_iff:
  assumes "heads_laid f"
  shows "sf_heads_empty f \<longleftrightarrow> (\<forall>d<hs_count (sf_heads f). slot_of f d = SF_NONE)"
proof (cases "sf_multihead f")
  case True
  show ?thesis
  proof (cases "find (\<lambda>d. hd_head (sf_domain_at f d) \<noteq> SF_NONE) [0..<hs_count (sf_heads f)]")
    case None
    then have "\<forall>d<hs_count (sf_heads f). hd_head (sf_domain_at f d) = SF_NONE"
      unfolding find_None_iff by auto
    then show ?thesis
      using True None by (simp add: sf_heads_empty_def sf_head_first_def slot_of_def)
  next
    case (Some d)
    then have "d < hs_count (sf_heads f)" "hd_head (sf_domain_at f d) \<noteq> SF_NONE"
      by (auto simp: find_Some_iff)
    then show ?thesis
      using True Some by (auto simp: sf_heads_empty_def sf_head_first_def slot_of_def)
  qed
next
  case False
  then show ?thesis
    using assms by (simp add: sf_heads_empty_def sf_head_first_def slot_of_def heads_laid_def)
qed

text \<open>The heads depend on the open blocks, the roles and the ends of allocation.\<close>

definition heads_same :: "ftl_scale \<Rightarrow> ftl_scale \<Rightarrow> bool" where
  "heads_same f f' \<longleftrightarrow> sf_physical_blocks f' = sf_physical_blocks f \<and> sf_multihead f' = sf_multihead f \<and>
     sf_geometry f' = sf_geometry f \<and>
     hs_count (sf_heads f') = hs_count (sf_heads f) \<and> hs_per_channel (sf_heads f') = hs_per_channel (sf_heads f)"

lemma heads_same_domain: "heads_same f f' \<Longrightarrow> sf_head_domain f' b = sf_head_domain f b"
  by (simp add: heads_same_def sf_head_domain_def)

lemma heads_inv_frame:
  assumes inv: "heads_inv f" and laid: "heads_laid f" "heads_laid f'" and same: "heads_same f f'"
    and gc: "hs_gc_destination (sf_heads f') = hs_gc_destination (sf_heads f)"
    and slots: "\<And>d. d < hs_count (sf_heads f) \<Longrightarrow> slot_of f' d = slot_of f d"
    and roles: "\<And>b. b < sf_physical_blocks f \<Longrightarrow> sd_role (sf_disk f' b) = sd_role (sf_disk f b)"
    and ends: "\<And>b. b < sf_physical_blocks f \<Longrightarrow> sd_role (sf_disk f b) = SF_GC_DEST \<Longrightarrow>
      sd_allocation_end (sf_disk f' b) = sd_allocation_end (sf_disk f b)"
  shows "heads_inv f'"
proof -
  note dom = heads_same_domain [OF same]
  have slot: "head_slot f' b = head_slot f b" if "b < sf_physical_blocks f" for b
    using slots heads_laid_domain [OF laid(1) that] by (simp add: head_slot_domain dom)
  have "sf_heads_empty f' = sf_heads_empty f"
    using slots same by (simp add: heads_empty_iff [OF laid(1)] heads_empty_iff [OF laid(2)] heads_same_def)
  then show ?thesis
    using inv slots roles ends slot gc same dom unfolding heads_inv_def heads_same_def by auto
qed

lemma heads_inv_core:
  assumes core: "heap_core f' = heap_core f" and laid: "heads_laid f" "heads_laid f'" and inv: "heads_inv f"
  shows "heads_inv f'"
proof (rule heads_inv_frame [OF inv laid])
  have len: "length (sf_blocks f) = sf_physical_blocks f" and dlen: "hs_count (sf_heads f) \<le> length (hs_domain (sf_heads f))"
    using laid(1) by (simp_all add: heads_laid_def)
  note c = heap_core_fields [OF core] heap_core_domains [OF core]
  show "heads_same f f'" "hs_gc_destination (sf_heads f') = hs_gc_destination (sf_heads f)"
    by (simp_all add: heads_same_def c)
  show "slot_of f' d = slot_of f d" if "d < hs_count (sf_heads f)" for d
    using that dlen c(4) c(23) by (simp add: slot_of_def c)
  show "sd_role (sf_disk f' b) = sd_role (sf_disk f b)" if "b < sf_physical_blocks f" for b
    using heap_core_blocks(2) [OF core] that len by simp
  show "sd_allocation_end (sf_disk f' b) = sd_allocation_end (sf_disk f b)" if "b < sf_physical_blocks f" for b
    using heap_core_blocks(2) [OF core] that len by simp
qed

lemma heaps_ok_laid: "heaps_ok f \<Longrightarrow> heads_laid f"
  by (simp add: heaps_ok_def)

section \<open>A record that changes one block\<close>

text \<open>
  The facts of block \<open>b\<close> and the heads are changed, then the heaps refreshed.
\<close>

lemma block_change_parts:
  assumes parts: "map_inv f" "blocks_inv f" "heaps_ok f" and b: "b < sf_physical_blocks f" and g: "heap_frame g = heap_frame f" "map_frame f g"
    and others: "\<And>c. c \<noteq> b \<Longrightarrow> sf_block_at g c = sf_block_at f c"
    and pos: "\<And>v. heap_position g b v = heap_position f b v"
    and live: "sb_live_pages (sf_block_at g b) = sb_live_pages (sf_block_at f b)"
    and disk: "live_in f b = {} \<or> disk_serves (sf_disk f b) (sf_disk g b)"
    and facts: "\<And>c. c < sf_physical_blocks f \<Longrightarrow> block_facts_valid g c"
    and wear: "sb_wear (sf_block_at g b) = unat (sd_erase_generation (sf_disk g b))"
    and pend: "sd_role (sf_disk g b) = SF_RECLAIM_PENDING \<Longrightarrow> sb_live_pages (sf_block_at f b) = 0"
    and f': "f' = sf_heap_refresh b g"
  shows "map_inv f'" and "blocks_inv f'" and "heaps_ok f'" and "heads_laid g" and "heap_core f' = heap_core g"
proof -
  have blen: "sf_physical_blocks g = sf_physical_blocks f" "length (sf_blocks g) = length (sf_blocks f)"
    using g(2) by (simp_all add: map_frame_def)
  have "heap_position g c v = heap_position f c v" for c v
    using others [of c] pos [of v] by (cases "c = b") (simp_all add: heap_position_def)
  then have kept: "heaps_kept {b} f g"
    by (rule heaps_kept_blocks [OF g(1) blen(2)]) (use others in auto)
  note r = heaps_kept_refresh [OF parts(3) kept b f']
  show "heaps_ok f'" and "heap_core f' = heap_core g"
    by (rule r)+
  show laid: "heads_laid g"
    by (rule heads_laid_frame(1) [OF g(1) blen(2) heaps_ok_laid [OF parts(3)]])
  have "map_inv g"
    by (rule map_inv_frame [OF parts(1) g(2)]) (use others live disk in metis)+
  then show "map_inv f'"
    by (rule map_inv_core [OF r(2)])
  have "blocks_inv g"
    using parts(2) facts wear pend live others unfolding blocks_inv_def blen(1) by metis
  then show "blocks_inv f'"
    using blocks_inv_core [OF r(2)] laid by (simp add: heads_laid_def)
qed

lemma block_change_inv:
  assumes parts: "map_inv f" "blocks_inv f" "heaps_ok f" and b: "b < sf_physical_blocks f" and g: "heap_frame g = heap_frame f" "map_frame f g"
    and others: "\<And>c. c \<noteq> b \<Longrightarrow> sf_block_at g c = sf_block_at f c"
    and pos: "\<And>v. heap_position g b v = heap_position f b v"
    and live: "sb_live_pages (sf_block_at g b) = sb_live_pages (sf_block_at f b)"
    and disk: "live_in f b = {} \<or> disk_serves (sf_disk f b) (sf_disk g b)"
    and facts: "\<And>c. c < sf_physical_blocks f \<Longrightarrow> block_facts_valid g c"
    and wear: "sb_wear (sf_block_at g b) = unat (sd_erase_generation (sf_disk g b))"
    and pend: "sd_role (sf_disk g b) = SF_RECLAIM_PENDING \<Longrightarrow> sb_live_pages (sf_block_at f b) = 0"
    and heads: "heads_laid g \<Longrightarrow> heads_inv g" and f': "f' = sf_heap_refresh b g"
  shows "sf_inv f'"
proof -
  note p = block_change_parts [OF parts b g others pos live disk facts wear pend f']
  show ?thesis
    using p heads_inv_core [OF p(5,4) heaps_ok_laid [OF p(3)] heads [OF p(4)]] by (simp add: sf_inv_def)
qed

lemmas block_record_inv = block_change_inv [OF sf_inv_parts(1,2,4)]

text \<open>The sequence numbers and counters are not part of the invariant.\<close>

lemma sf_inv_counters:
  assumes "sf_inv f" and "f' = f\<lparr>sf_record_sequence := a, sf_map_sequence := b, sf_durable_frontier := c\<rparr>"
  shows "sf_inv f'"
proof -
  have parts: "map_inv f" "blocks_inv f" "heads_inv f" "heaps_ok f"
    using assms(1) by (simp_all add: sf_inv_def)
  have at: "sf_block_at f' x = sf_block_at f x" for x
    by (simp add: assms(2) sf_block_at_def)
  have ok: "heaps_ok f'"
    by (rule heaps_kept_ok [OF parts(4) heaps_kept_blocks])
      (simp_all add: at heap_position_def, simp_all add: assms(2) heap_frame_def)
  have "map_inv f'"
    by (rule map_inv_frame [OF parts(1)]) (simp_all add: at, simp add: assms(2) map_frame_def)
  moreover have "blocks_inv f'"
    using parts(2) by (simp add: blocks_inv_def block_facts_valid_def at) (simp add: assms(2) sf_data_first_def sf_ppb_def)
  moreover have "heads_inv f'"
    by (rule heads_inv_frame [OF parts(3) heaps_ok_laid [OF parts(4)] heaps_ok_laid [OF ok]])
      (simp_all add: at, simp_all add: assms(2) heads_same_def slot_of_def sf_multihead_def sf_domain_at_def)
  ultimately show ?thesis
    using ok by (simp add: sf_inv_def)
qed

section \<open>Changes of the heads\<close>

lemma head_slot_put_frame [simp]:
  "heap_frame (head_slot_put b v f) = heap_frame f" "map_frame f (head_slot_put b v f)" "sf_block_at (head_slot_put b v f) c = sf_block_at f c"
  "hs_gc_destination (sf_heads (head_slot_put b v f)) = hs_gc_destination (sf_heads f)" "heads_same f (head_slot_put b v f)"
  "sf_next_block_uid (head_slot_put b v f) = sf_next_block_uid f" "sf_multihead (head_slot_put b v f) = sf_multihead f"
proof -
  have "map (\<lambda>d. d\<lparr>hd_head := 0\<rparr>) ((hs_domain (sf_heads f))[e := (hs_domain (sf_heads f) ! e)\<lparr>hd_head := v\<rparr>]) =
      map (\<lambda>d. d\<lparr>hd_head := 0\<rparr>) (hs_domain (sf_heads f))" for e
    by (rule map_update_kept) simp
  then show "heap_frame (head_slot_put b v f) = heap_frame f"
    by (simp add: head_slot_put_def heap_frame_def sf_domain_put_def)
qed (simp_all add: head_slot_put_def sf_domain_put_def map_frame_def sf_block_at_def heads_same_def sf_multihead_def)

lemma head_slot_put_slot:
  assumes "heads_laid f" and "b < sf_physical_blocks f" and "d < hs_count (sf_heads f)"
  shows "slot_of (head_slot_put b v f) d = (if d = sf_head_domain f b then v else slot_of f d)"
proof (cases "sf_multihead f")
  case True
  have "sf_head_domain f b < length (hs_domain (sf_heads f))"
    using assms by (auto simp: heads_laid_def)
  then show ?thesis
    using True by (simp add: slot_of_def) (simp add: head_slot_put_def sf_domain_at_put)
next
  case False
  then have "sf_head_domain f b = d"
    using assms heads_laid_domain [OF assms(1,2)] by (simp add: heads_laid_def)
  then show ?thesis
    using False by (simp add: slot_of_def) (simp add: head_slot_put_def)
qed

lemma heads_inv_open:
  assumes inv: "heads_inv f" and laid: "heads_laid f" and b: "b < sf_physical_blocks f" and same: "heads_same f g"
    and free: "slot_of f (sf_head_domain f b) = SF_NONE"
    and slots: "\<And>d. d < hs_count (sf_heads f) \<Longrightarrow> slot_of g d = (if d = sf_head_domain f b then b else slot_of f d)"
    and role: "sd_role (sf_disk g b) = SF_HOST_OPEN"
    and roles: "\<And>c r. c < sf_physical_blocks f \<Longrightarrow> c \<noteq> b \<Longrightarrow> r \<in> {SF_HOST_OPEN, SF_GC_DEST} \<Longrightarrow>
      sd_role (sf_disk g c) = r \<longleftrightarrow> sd_role (sf_disk f c) = r"
    and gc: "sf_multihead f \<Longrightarrow> hs_gc_destination (sf_heads g) = SF_NONE \<and>
      (\<forall>c. c < sf_physical_blocks f \<longrightarrow> c \<noteq> b \<longrightarrow> sd_role (sf_disk f c) \<noteq> SF_GC_DEST)"
  shows "heads_inv g"
proof -
  note dom = heads_same_domain [OF same]
  have N: "sf_physical_blocks f < SF_NONE"
    using laid by (simp add: heads_laid_def)
  have slot: "head_slot g c = (if sf_head_domain f c = sf_head_domain f b then b else head_slot f c)" if "c < sf_physical_blocks f" for c
    using slots heads_laid_domain [OF laid that] by (simp add: head_slot_domain dom)
  have "sd_role (sf_disk g c) = SF_HOST_OPEN \<longleftrightarrow> head_slot g c = c" if c: "c < sf_physical_blocks f" for c
  proof (cases "c = b")
    case True
    then show ?thesis
      using role b slot by simp
  next
    case False
    have "sd_role (sf_disk f c) = SF_HOST_OPEN \<longleftrightarrow> head_slot f c = c"
      using inv c by (simp add: heads_inv_def)
    moreover have "head_slot f c \<noteq> c" if "sf_head_domain f c = sf_head_domain f b"
      using that free c N by (simp add: head_slot_domain)
    ultimately show ?thesis
      using roles [OF c False, of SF_HOST_OPEN] c False slot by auto
  qed
  moreover have "hs_gc_destination (sf_heads g) \<noteq> c" "sd_role (sf_disk g c) \<noteq> SF_GC_DEST" if "sf_multihead f" "c < sf_physical_blocks f" for c
    using gc [OF that(1)] that(2) N role roles [OF that(2), of SF_GC_DEST] by (cases "c = b"; auto)+
  ultimately show ?thesis
    using inv slots b gc same dom unfolding heads_inv_def heads_same_def by auto
qed

lemma heads_inv_close:
  assumes inv: "heads_inv f" and laid: "heads_laid f" "heads_laid g" and b: "b < sf_physical_blocks f" and same: "heads_same f g"
    and open_b: "sd_role (sf_disk f b) = SF_HOST_OPEN"
    and slots: "\<And>d. d < hs_count (sf_heads f) \<Longrightarrow> slot_of g d = (if d = sf_head_domain f b then SF_NONE else slot_of f d)"
    and gc: "hs_gc_destination (sf_heads g) = hs_gc_destination (sf_heads f)"
    and others: "\<And>c. c < sf_physical_blocks f \<Longrightarrow> c \<noteq> b \<Longrightarrow> sf_disk g c = sf_disk f c"
    and closed: "sd_role (sf_disk g b) \<noteq> SF_HOST_OPEN" "sd_role (sf_disk g b) \<noteq> SF_GC_DEST"
  shows "heads_inv g"
proof -
  note dom = heads_same_domain [OF same]
  have N: "sf_physical_blocks f < SF_NONE"
    using laid by (simp add: heads_laid_def)
  have head: "slot_of f (sf_head_domain f b) = b"
    using inv b open_b by (simp add: heads_inv_def head_slot_domain)
  have slot: "head_slot g c = (if sf_head_domain f c = sf_head_domain f b then SF_NONE else head_slot f c)" if "c < sf_physical_blocks f" for c
    using slots heads_laid_domain [OF laid(1) that] by (simp add: head_slot_domain dom)
  have "sd_role (sf_disk g c) = SF_HOST_OPEN \<longleftrightarrow> head_slot g c = c" if c: "c < sf_physical_blocks f" for c
  proof (cases "c = b")
    case True
    then show ?thesis
      using closed slot [OF c] N b by simp
  next
    case False
    have "sd_role (sf_disk f c) = SF_HOST_OPEN \<longleftrightarrow> head_slot f c = c"
      using inv c by (simp add: heads_inv_def)
    moreover have "head_slot f c \<noteq> c" if "sf_head_domain f c = sf_head_domain f b"
      using that head False by (simp add: head_slot_domain)
    ultimately show ?thesis
      using others [OF c False] slot [OF c] c N by auto
  qed
  moreover have none: "hs_gc_destination (sf_heads f) = SF_NONE" if "sf_multihead f"
  proof -
    have "slot_of f (sf_head_domain f b) \<noteq> SF_NONE"
      using head b N by simp
    then have "\<not> sf_heads_empty f"
      using heads_empty_iff [OF laid(1)] heads_laid_domain [OF laid(1) b] by blast
    then show ?thesis
      using inv that by (auto simp: heads_inv_def)
  qed
  moreover have "sd_role (sf_disk g c) = SF_GC_DEST \<longleftrightarrow> hs_gc_destination (sf_heads f) = c" if "sf_multihead f" "c < sf_physical_blocks f" for c
  proof (cases "c = b")
    case True
    then show ?thesis
      using closed none [OF that(1)] b N by simp
  next
    case False
    then show ?thesis
      using inv that others by (simp add: heads_inv_def)
  qed
  ultimately show ?thesis
    using inv slots gc same dom unfolding heads_inv_def heads_same_def by auto
qed

text \<open>A change between roles that no head uses.\<close>

lemma heads_inv_role:
  assumes inv: "heads_inv f" and laid: "heads_laid f" "heads_laid g" and same: "heads_same f g"
    and slots: "\<And>d. d < hs_count (sf_heads f) \<Longrightarrow> slot_of g d = slot_of f d"
    and gc: "hs_gc_destination (sf_heads g) = hs_gc_destination (sf_heads f)"
    and others: "\<And>c. c < sf_physical_blocks f \<Longrightarrow> c \<noteq> b \<Longrightarrow> sf_disk g c = sf_disk f c"
    and plain: "sd_role (sf_disk f b) \<notin> {SF_HOST_OPEN, SF_GC_DEST}" "sd_role (sf_disk g b) \<notin> {SF_HOST_OPEN, SF_GC_DEST}"
  shows "heads_inv g"
proof -
  note dom = heads_same_domain [OF same]
  have slot: "head_slot g c = head_slot f c" if "c < sf_physical_blocks f" for c
    using slots heads_laid_domain [OF laid(1) that] by (simp add: head_slot_domain dom)
  have role: "sd_role (sf_disk g c) = r \<longleftrightarrow> sd_role (sf_disk f c) = r" if "c < sf_physical_blocks f" "r \<in> {SF_HOST_OPEN, SF_GC_DEST}" for c r
    using others [OF that(1)] plain that(2) by (cases "c = b") auto
  have "sd_allocation_end (sf_disk g c) = sd_allocation_end (sf_disk f c)"
    if "c < sf_physical_blocks f" "sd_role (sf_disk f c) = SF_GC_DEST" for c
    using others [OF that(1)] plain that(2) by (cases "c = b") auto
  moreover have "sf_heads_empty g = sf_heads_empty f"
    using slots same by (simp add: heads_empty_iff [OF laid(1)] heads_empty_iff [OF laid(2)] heads_same_def)
  ultimately show ?thesis
    using inv slots slot role gc same dom unfolding heads_inv_def heads_same_def by auto
qed

section \<open>Opening and closing a block\<close>

lemma sf_disk_put_at:
  "b < length (sf_blocks f) \<Longrightarrow> sf_block_at (sf_disk_put b u f) c =
     (if c = b then (sf_block_at f b)\<lparr>sb_disk := u (sf_disk f b)\<rparr> else sf_block_at f c)"
  by (simp add: sf_disk_put_def sf_block_at_put)

lemma sf_block_at_scalars [simp]:
  "sf_block_at (f\<lparr>sf_next_block_uid := x\<rparr>) c = sf_block_at f c" "sf_block_at (f\<lparr>sf_heads := y\<rparr>) c = sf_block_at f c"
  "sf_block_at (f\<lparr>sf_erase_intent_block := i, sf_erase_intent_sequence := z\<rparr>) c = sf_block_at f c"
  "sf_block_at (f\<lparr>sf_garbage_collections := w\<rparr>) c = sf_block_at f c"
  by (simp_all add: sf_block_at_def)

lemma sf_disk_put_fields [simp]:
  "sf_heads (sf_disk_put b u f) = sf_heads f" "sf_host_head (sf_disk_put b u f) = sf_host_head f"
  "sf_physical_blocks (sf_disk_put b u f) = sf_physical_blocks f" "sf_geometry (sf_disk_put b u f) = sf_geometry f"
  "sf_disk_format (sf_disk_put b u f) = sf_disk_format f" "sf_next_block_uid (sf_disk_put b u f) = sf_next_block_uid f"
  "heap_frame (sf_disk_put b u f) = heap_frame f" "length (sf_blocks (sf_disk_put b u f)) = length (sf_blocks f)"
  "map_frame f (sf_disk_put b u f)" "heads_same f (sf_disk_put b u f)" "sf_multihead (sf_disk_put b u f) = sf_multihead f"
  "heap_position (sf_disk_put b u f) c v = heap_position f c v"
  by (simp_all add: sf_disk_put_def map_frame_def heads_same_def sf_multihead_def heap_position_def sf_block_at_put)

lemma heads_laid_disk:
  assumes "heads_laid f"
  shows "heads_laid (sf_disk_put b u f)" and "heads_laid ((sf_disk_put b u f)\<lparr>sf_next_block_uid := x\<rparr>)"
  using heads_laid_frame(1) [OF _ _ assms, of "sf_disk_put b u f"]
    heads_laid_frame(1) [OF _ _ assms, of "(sf_disk_put b u f)\<lparr>sf_next_block_uid := x\<rparr>"] sf_disk_put_fields(7) [of b u f]
  by (simp_all add: heap_frame_def)

lemma sf_inv_length: "sf_inv f \<Longrightarrow> length (sf_blocks f) = sf_physical_blocks f"
  by (simp add: sf_inv_def map_inv_def sf_shape_def)

lemma sf_inv_facts:
  assumes "sf_inv f" and "b < sf_physical_blocks f"
  shows "block_facts_valid f b" and "sb_wear (sf_block_at f b) = unat (sd_erase_generation (sf_disk f b))"
    and "sf_shape f"
  using assms by (simp_all add: sf_inv_def blocks_inv_def map_inv_def)

lemma map_frame_trans: "map_frame f g \<Longrightarrow> map_frame g h \<Longrightarrow> map_frame f h"
  by (simp add: map_frame_def)

text \<open>The block facts read the identity counter as an upper bound.\<close>

lemma block_facts_uid:
  assumes "block_facts_valid f b" and "sf_disk g b = sf_disk f b" and "sf_ppb g = sf_ppb f" and "sf_data_first g = sf_data_first f"
    and "sf_next_block_uid f \<le> sf_next_block_uid g"
  shows "block_facts_valid g b"
  using assms by (auto simp: block_facts_valid_def Let_def)

lemma open_record_inv:
  assumes inv: "sf_inv f" and header: "record_header_valid f r" and valid: "open_valid f r"
    and kind: "sj_kind r = SF_OPEN_HOST \<or> sj_kind r = SF_OPEN_GC_DEST" and f': "f' = sf_heap_refresh (sj_block r) (open_apply r f)"
  shows "sf_inv f'"
proof -
  let ?b = "sj_block r" and ?g = "open_apply r f"
  let ?role = "if sj_kind r = SF_OPEN_HOST then SF_HOST_OPEN else SF_GC_DEST"
  have b: "?b < sf_physical_blocks f" "sf_data_first f \<le> ?b" and len: "length (sf_blocks f) = sf_physical_blocks f"
    using header sf_inv_length [OF inv] by (simp_all add: record_header_valid_def)
  have parts: "map_inv f" "heads_inv f" "heads_laid f"
    using inv by (simp_all add: sf_inv_def heaps_ok_laid)
  have N: "sf_physical_blocks f < SF_NONE"
    using parts(3) by (simp add: heads_laid_def)
  have role: "sd_role (sf_disk f ?b) = SF_FREE" and uid: "sj_block_uid r = sf_next_block_uid f" "sj_block_uid r \<noteq> 0"
    "unat (sj_block_uid r) < 18446744073709551615 div sf_ppb f"
    using valid unfolding open_valid_def Let_def by blast+
  have at: "sf_block_at ?g c = (if c = ?b then (sf_block_at f ?b)\<lparr>sb_disk := (sf_disk f ?b)
      \<lparr>sd_block_uid := sj_block_uid r, sd_role := ?role, sd_allocation_end := 0\<rparr>\<rparr> else sf_block_at f c)" for c
    using b len by (simp add: open_apply_def Let_def sf_disk_put_at)
  have frame: "heap_frame ?g = heap_frame f" "map_frame f ?g" "heads_same f ?g" "sf_next_block_uid ?g = sf_next_block_uid f + 1"
    by (simp_all add: open_apply_def Let_def sf_disk_put_def)
      (simp_all add: heap_frame_def map_frame_def heads_same_def head_slot_put_def sf_domain_put_def sf_block_put_def sf_multihead_def)
  note sets = map_frame_sets(4,6) [OF frame(2)]
  have "unat (sf_next_block_uid f) < 18446744073709551615"
    using uid sf_shape_ppb [OF sf_inv_facts(3) [OF inv b(1)]] by (metis div_le_dividend less_le_trans)
  then have next_uid: "sf_next_block_uid f < sf_next_block_uid f + 1"
    using unat_succ_less [of "sf_next_block_uid f" UINT64_MAX] by (simp add: word_less_nat_alt)
  have facts: "block_facts_valid ?g c" if c: "c < sf_physical_blocks f" for c
  proof (cases "c = ?b")
    case True
    show ?thesis
      using sf_inv_facts(1) [OF inv b(1)] role uid b next_uid kind unfolding True
      by (auto simp: block_facts_valid_def Let_def at sets frame(4))
  next
    case False
    then show ?thesis
      using next_uid by (intro block_facts_uid [OF sf_inv_facts(1) [OF inv c]]) (simp_all add: at sets frame(4))
  qed
  have heads: "heads_inv ?g" if laid: "heads_laid ?g"
  proof (cases "sj_kind r = SF_OPEN_HOST")
    case True
    let ?h = "(sf_disk_put ?b (\<lambda>d. d\<lparr>sd_block_uid := sj_block_uid r, sd_role := ?role, sd_allocation_end := 0\<rparr>) f)
      \<lparr>sf_next_block_uid := sf_next_block_uid f + 1\<rparr>"
    have g: "?g = head_slot_put ?b ?b ?h"
      using True by (simp add: open_apply_def Let_def sf_disk_put_def)
    have same: "heads_same f ?h" "sf_heads ?h = sf_heads f" "sf_host_head ?h = sf_host_head f"
      by (simp_all add: heads_same_def sf_disk_put_def sf_multihead_def)
    have hlaid: "heads_laid ?h"
      by (rule heads_laid_disk(2) [OF parts(3)])
    have slots: "slot_of ?g d = (if d = sf_head_domain f ?b then ?b else slot_of f d)" if "d < hs_count (sf_heads f)" for d
    proof -
      have "slot_of ?h d = slot_of f d"
        using same by (simp add: slot_of_def sf_domain_at_def heads_same_def)
      moreover have "?b < sf_physical_blocks ?h" "d < hs_count (sf_heads ?h)"
        using b(1) that same by (simp_all add: heads_same_def)
      ultimately show ?thesis
        unfolding g using head_slot_put_slot [OF hlaid, of ?b d ?b] by (simp add: heads_same_domain [OF same(1)])
    qed
    have gc: "hs_gc_destination (sf_heads ?g) = SF_NONE \<and> (\<forall>c. c < sf_physical_blocks f \<longrightarrow> c \<noteq> ?b \<longrightarrow> sd_role (sf_disk f c) \<noteq> SF_GC_DEST)"
      if "sf_multihead f"
      using valid that parts(2) N by (auto simp: open_valid_def Let_def heads_inv_def g same)
    have free: "slot_of f (sf_head_domain f ?b) = SF_NONE"
      using valid True by (simp add: open_valid_def Let_def head_slot_domain)
    show ?thesis
      by (rule heads_inv_open [OF parts(2,3) b(1) frame(3) free slots _ _ gc]) (use True in \<open>simp_all add: at\<close>)
  next
    case gcd: False
    have slots: "slot_of ?g d = slot_of f d" for d
      using gcd by (simp add: open_apply_def Let_def slot_of_def sf_disk_put_def sf_multihead_def sf_domain_at_def)
    have slot: "head_slot ?g c = head_slot f c" for c
      by (simp add: head_slot_domain slots heads_same_domain [OF frame(3)])
    have empty: "sf_heads_empty ?g = sf_heads_empty f"
      using slots frame(3) by (simp add: heads_empty_iff [OF parts(3)] heads_empty_iff [OF laid] heads_same_def)
    have dest: "hs_gc_destination (sf_heads ?g) = ?b" "hs_gc_destination (sf_heads f) = SF_NONE" "sf_heads_empty f" if "sf_multihead f"
      using gcd that valid kind by (auto simp: open_apply_def Let_def sf_disk_put_def sf_multihead_def open_valid_def)
    have "sd_role (sf_disk ?g c) = SF_HOST_OPEN \<longleftrightarrow> head_slot f c = c" if "c < sf_physical_blocks f" for c
      using parts(2) role that gcd by (cases "c = ?b") (auto simp: heads_inv_def at)
    moreover have "sd_role (sf_disk ?g c) = SF_GC_DEST \<longleftrightarrow> c = ?b" if "sf_multihead f" "c < sf_physical_blocks f" for c
      using parts(2) dest [OF that(1)] that gcd N by (cases "c = ?b") (auto simp: heads_inv_def at)
    ultimately show ?thesis
      using parts(2) slots slot empty dest b frame(3) heads_same_domain [OF frame(3)] unfolding heads_inv_def heads_same_def
      by (auto simp: at)
  qed
  show ?thesis
    by (rule block_record_inv [OF inv inv inv b(1) frame(1,2) _ _ _ _ facts _ _ heads f'])
      (use role kind role_empty [OF parts(1), of ?b] sf_inv_facts(2) [OF inv b(1)] in \<open>auto simp: at heap_position_def\<close>)
qed

lemma close_record_inv:
  assumes inv: "sf_inv f" and header: "record_header_valid f r" and valid: "close_valid f r"
    and f': "f' = sf_heap_refresh (sj_block r) (close_apply r f)"
  shows "sf_inv f'"
proof -
  let ?b = "sj_block r" and ?g = "close_apply r f"
  let ?h = "sf_disk_put ?b (\<lambda>d. d\<lparr>sd_role := SF_CLOSED, sd_allocation_end := w16 (sf_ppb f)\<rparr>) f"
  have b: "?b < sf_physical_blocks f" "sf_data_first f \<le> ?b" and len: "length (sf_blocks f) = sf_physical_blocks f"
    using header sf_inv_length [OF inv] by (simp_all add: record_header_valid_def)
  have parts: "map_inv f" "heads_inv f" "heads_laid f"
    using inv by (simp_all add: sf_inv_def heaps_ok_laid)
  have role: "sd_role (sf_disk f ?b) = SF_HOST_OPEN"
    using valid by (simp add: close_valid_def Let_def)
  have w: "w16 (sf_ppb f) = sf_ppb f"
    using sf_shape_ppb [OF sf_inv_facts(3) [OF inv b(1)]] by simp
  have at: "sf_block_at ?g c = (if c = ?b then (sf_block_at f ?b)\<lparr>sb_disk := (sf_disk f ?b)
      \<lparr>sd_role := SF_CLOSED, sd_allocation_end := sf_ppb f\<rparr>\<rparr> else sf_block_at f c)" for c
    using b len by (simp add: close_apply_def w sf_disk_put_at)
  have same: "heads_same f ?h" "sf_heads ?h = sf_heads f" "sf_host_head ?h = sf_host_head f" "heap_frame ?h = heap_frame f" "map_frame f ?h"
    by (simp_all add: heads_same_def sf_disk_put_def sf_multihead_def map_frame_def)
  have frame: "heap_frame ?g = heap_frame f" "map_frame f ?g" "heads_same f ?g" "sf_next_block_uid ?g = sf_next_block_uid f"
    using map_frame_trans [OF same(5) head_slot_put_frame(2)] same head_slot_put_frame(5) [of ?h ?b SF_NONE]
    by (simp_all add: close_apply_def heads_same_def)
  note sets = map_frame_sets(4,6) [OF frame(2)]
  have end_le: "sd_allocation_end (sf_disk f ?b) \<le> sf_ppb f"
    using sf_inv_facts(1) [OF inv b(1)] by (simp add: block_facts_valid_def Let_def)
  have facts: "block_facts_valid ?g c" if c: "c < sf_physical_blocks f" for c
  proof (cases "c = ?b")
    case True
    show ?thesis
      using sf_inv_facts(1) [OF inv b(1)] role b unfolding True by (auto simp: block_facts_valid_def Let_def at sets frame(4))
  next
    case False
    then show ?thesis
      by (intro block_facts_uid [OF sf_inv_facts(1) [OF inv c]]) (simp_all add: at sets frame(4))
  qed
  have hlaid: "heads_laid ?h"
    by (rule heads_laid_disk(1) [OF parts(3)])
  have slots: "slot_of ?g d = (if d = sf_head_domain f ?b then SF_NONE else slot_of f d)" if "d < hs_count (sf_heads f)" for d
  proof -
    have "slot_of ?h d = slot_of f d"
      using same by (simp add: slot_of_def sf_domain_at_def heads_same_def)
    moreover have "?b < sf_physical_blocks ?h" "d < hs_count (sf_heads ?h)"
      using b(1) that same by (simp_all add: heads_same_def)
    ultimately show ?thesis
      unfolding close_apply_def using head_slot_put_slot [OF hlaid, of ?b d SF_NONE] by (simp add: heads_same_domain [OF same(1)])
  qed
  have heads: "heads_inv ?g" if "heads_laid ?g"
    by (rule heads_inv_close [OF parts(2,3) that b(1) frame(3) role slots]) (simp_all add: at, simp add: close_apply_def same(2))
  show ?thesis
    by (rule block_record_inv [OF inv inv inv b(1) frame(1,2) _ _ _ _ facts _ _ heads f'])
      (use role end_le sf_inv_facts(2) [OF inv b(1)] in \<open>auto simp: at heap_position_def disk_serves_def\<close>)
qed

section \<open>Erasing a block\<close>

lemma erase_intent_record_inv:
  assumes inv: "sf_inv f" and header: "record_header_valid f r" and valid: "erase_intent_valid f r"
    and f': "f' = sf_heap_refresh (sj_block r) (erase_intent_apply r f)"
  shows "sf_inv f'"
proof -
  let ?b = "sj_block r" and ?g = "erase_intent_apply r f"
  have b: "?b < sf_physical_blocks f" and len: "length (sf_blocks f) = sf_physical_blocks f"
    using header sf_inv_length [OF inv] by (simp_all add: record_header_valid_def)
  have parts: "map_inv f" "heads_inv f" "heads_laid f"
    using inv by (simp_all add: sf_inv_def heaps_ok_laid)
  have role: "sd_role (sf_disk f ?b) = SF_CLOSED \<or> sd_role (sf_disk f ?b) = SF_RECLAIM_PENDING" and live: "sb_live_pages (sf_block_at f ?b) = 0"
    using valid by (simp_all add: erase_intent_valid_def Let_def)
  have at: "sf_block_at ?g c = (if c = ?b then (sf_block_at f ?b)\<lparr>sb_disk := (sf_disk f ?b)\<lparr>sd_role := SF_RECLAIM_PENDING\<rparr>\<rparr>
      else sf_block_at f c)" for c
    using b len by (simp add: erase_intent_apply_def sf_disk_put_at)
  have frame: "heap_frame ?g = heap_frame f" "map_frame f ?g" "heads_same f ?g" "sf_next_block_uid ?g = sf_next_block_uid f"
    "sf_heads ?g = sf_heads f" "sf_host_head ?g = sf_host_head f"
    by (simp_all add: erase_intent_apply_def sf_disk_put_def)
      (simp_all add: heap_frame_def map_frame_def heads_same_def sf_block_put_def sf_multihead_def)
  note sets = map_frame_sets(4,6) [OF frame(2)]
  have facts: "block_facts_valid ?g c" if c: "c < sf_physical_blocks f" for c
  proof (cases "c = ?b")
    case True
    show ?thesis
      using sf_inv_facts(1) [OF inv b] role unfolding True by (auto simp: block_facts_valid_def Let_def at sets frame(4))
  next
    case False
    then show ?thesis
      by (intro block_facts_uid [OF sf_inv_facts(1) [OF inv c]]) (simp_all add: at sets frame(4))
  qed
  have slots: "slot_of ?g d = slot_of f d" for d
    using frame(3,5,6) by (simp add: slot_of_def sf_domain_at_def heads_same_def)
  have heads: "heads_inv ?g" if "heads_laid ?g"
    by (rule heads_inv_role [OF parts(2,3) that frame(3) slots, of ?b]) (use role in \<open>auto simp: at frame(5)\<close>)
  show ?thesis
    by (rule block_record_inv [OF inv inv inv b frame(1,2) _ _ _ _ facts _ _ heads f'])
      (use role live live_zero_empty [OF parts(1) b live] sf_inv_facts(2) [OF inv b] in \<open>auto simp: at heap_position_def\<close>)
qed

lemma erase_done_record_inv:
  assumes inv: "sf_inv f" and header: "record_header_valid f r" and valid: "erase_done_valid f r"
    and f': "f' = sf_heap_refresh (sj_block r) (erase_done_apply r f)"
  shows "sf_inv f'"
proof -
  let ?b = "sj_block r" and ?g = "erase_done_apply r f"
  have b: "?b < sf_physical_blocks f" "sf_data_first f \<le> ?b" and len: "length (sf_blocks f) = sf_physical_blocks f"
    using header sf_inv_length [OF inv] by (simp_all add: record_header_valid_def)
  have parts: "map_inv f" "heads_inv f" "heads_laid f"
    using inv by (simp_all add: sf_inv_def heaps_ok_laid)
  have role: "sd_role (sf_disk f ?b) = SF_RECLAIM_PENDING" and live: "sb_live_pages (sf_block_at f ?b) = 0"
    and health: "sj_health r = SF_BLOCK_GOOD"
    using valid by (simp_all add: erase_done_valid_def Let_def)
  have at: "sf_block_at ?g c = (if c = ?b then (sf_block_at f ?b)\<lparr>sb_wear := unat (sj_final_erase_generation r),
      sb_disk := (sf_disk f ?b)\<lparr>sd_role := SF_FREE, sd_block_uid := 0, sd_allocation_end := 0,
        sd_erase_generation := sj_final_erase_generation r, sd_health := SF_BLOCK_GOOD\<rparr>\<rparr> else sf_block_at f c)" for c
    using b len health by (simp add: erase_done_apply_def sf_block_at_put)
  have frame: "heap_frame ?g = heap_frame f" "map_frame f ?g" "heads_same f ?g" "sf_next_block_uid ?g = sf_next_block_uid f"
    "sf_heads ?g = sf_heads f" "sf_host_head ?g = sf_host_head f"
    by (simp_all add: erase_done_apply_def)
      (simp_all add: heap_frame_def map_frame_def heads_same_def sf_block_put_def sf_multihead_def)
  note sets = map_frame_sets(4,6) [OF frame(2)]
  have facts: "block_facts_valid ?g c" if c: "c < sf_physical_blocks f" for c
  proof (cases "c = ?b")
    case True
    show ?thesis
      using sf_inv_facts(1) [OF inv b(1)] role b unfolding True by (auto simp: block_facts_valid_def Let_def at sets frame(4))
  next
    case False
    then show ?thesis
      by (intro block_facts_uid [OF sf_inv_facts(1) [OF inv c]]) (simp_all add: at sets frame(4))
  qed
  have slots: "slot_of ?g d = slot_of f d" for d
    using frame(3,5,6) by (simp add: slot_of_def sf_domain_at_def heads_same_def)
  have heads: "heads_inv ?g" if "heads_laid ?g"
    by (rule heads_inv_role [OF parts(2,3) that frame(3) slots, of ?b]) (use role in \<open>auto simp: at frame(5)\<close>)
  show ?thesis
    by (rule block_record_inv [OF inv inv inv b(1) frame(1,2) _ _ _ _ facts _ _ heads f'])
      (use role live live_zero_empty [OF parts(1) b(1) live] in \<open>auto simp: at heap_position_def\<close>)
qed

end
