(* ===== verification/Scale_Record.thy ===== *)
theory Scale_Record
  imports Scale_Apply
begin

text \<open>
  A mapping record as a whole: the loop over its changes, the end of a collection and of a host
  write, and the application of any record.
\<close>

section \<open>The loop over the changes\<close>

definition mapping_upto :: "sf_record \<Rightarrow> nat \<Rightarrow> ftl_scale \<Rightarrow> ftl_scale" where
  "mapping_upto r i f = fold (\<lambda>i. delta_apply (sj_delta r ! i)) [0..<i] f"

definition record_lpn :: "sf_record \<Rightarrow> nat \<Rightarrow> nat" where
  "record_lpn r i = sx_lpn (sj_delta r ! i)"

lemma mapping_upto_simps [simp]:
  "mapping_upto r 0 f = f" "mapping_upto r (Suc i) f = delta_apply (sj_delta r ! i) (mapping_upto r i f)"
  by (simp_all add: mapping_upto_def)

text \<open>What the loop has kept and done after \<open>i\<close> changes.\<close>

definition mapping_at :: "ftl_scale \<Rightarrow> sf_record \<Rightarrow> nat \<Rightarrow> ftl_scale \<Rightarrow> bool" where
  "mapping_at f r i g \<longleftrightarrow> map_inv g \<and> blocks_inv g \<and> heaps_ok g \<and> plain_core g = plain_core f \<and>
     (\<forall>b < sf_physical_blocks f. sb_reserved_pages (sf_block_at g b) = sb_reserved_pages (sf_block_at f b) \<and>
        sf_disk g b = (if b = record_destination r
          then (sf_disk f b)\<lparr>sd_allocation_end := sd_allocation_end (sf_disk f b) + i\<rparr> else sf_disk f b)) \<and>
     length (sf_map g) = length (sf_map f) \<and>
     (\<forall>l. sf_map g ! l = (case find (\<lambda>j. record_lpn r j = l) [0..<i] of
        None \<Rightarrow> sf_map f ! l | Some j \<Rightarrow> sx_after (sj_delta r ! j)))"

lemma mapping_valid_facts:
  assumes "mapping_valid f r"
  shows "i < sj_count r \<Longrightarrow> delta_valid f r (sd_allocation_end (sf_disk f (record_destination r))) i"
    and "record_destination r < sf_physical_blocks f" and "sf_data_first f \<le> record_destination r"
    and "sd_allocation_end (sf_disk f (record_destination r)) + sj_count r \<le> sf_ppb f"
    and "sd_role (sf_disk f (record_destination r)) = (if sj_kind r = SF_GC_COMMIT then SF_GC_DEST else SF_HOST_OPEN)"
    and "sj_kind r = SF_GC_COMMIT \<Longrightarrow> record_destination r \<noteq> sj_block r \<and> sd_role (sf_disk f (sj_block r)) = SF_CLOSED \<and>
      sb_live_pages (sf_block_at f (sj_block r)) = sj_count r \<and> sf_heads_empty f \<and>
      (sf_multihead f \<longrightarrow> hs_gc_destination (sf_heads f) = record_destination r)"
  using assms by (auto simp: mapping_valid_def Let_def list_all_iff split: if_splits)

lemma record_lpn_distinct:
  assumes "mapping_valid f r"
  shows "inj_on (record_lpn r) {..<sj_count r}"
proof -
  note valid = mapping_valid_facts(1) [OF assms]
  show ?thesis
  proof (cases "record_window r")
    case True
    then have "record_lpn r i = record_lpn r 0 + i" if "i < sj_count r" for i
      using valid [OF that] by (simp add: delta_valid_def Let_def record_lpn_def)
    then show ?thesis
      unfolding inj_on_def by (metis add_left_cancel lessThan_iff)
  next
    case False
    then have "record_lpn r j \<noteq> record_lpn r i" if "i < sj_count r" "j < i" for i j
      using valid [OF that(1)] that(2) by (simp add: delta_valid_def Let_def record_lpn_def list_all_iff)
    then show ?thesis
      unfolding inj_on_def by (metis lessThan_iff linorder_neqE_nat)
  qed
qed

text \<open>The next change fits the state the loop has reached.\<close>

lemma mapping_next_fits:
  assumes inv: "sf_inv f" and valid: "mapping_valid f r" and at: "mapping_at f r i g" and i: "i < sj_count r"
  shows "delta_fit g (sj_delta r ! i)" and "delta_dest g (sj_delta r ! i) = record_destination r"
    and "sm_ppa (sx_after (sj_delta r ! i)) mod sf_ppb g = sd_allocation_end (sf_disk f (record_destination r)) + i"
proof -
  let ?d = "sj_delta r ! i" and ?c = "record_destination r"
  let ?s = "sd_allocation_end (sf_disk f ?c)"
  have v: "delta_valid f r ?s i" and c: "?c < sf_physical_blocks f" and room: "?s + i < sf_ppb f"
    and role: "sd_role (sf_disk f ?c) = SF_HOST_OPEN \<or> sd_role (sf_disk f ?c) = SF_GC_DEST"
    using mapping_valid_facts [OF valid] i by auto
  have shape: "sf_shape f"
    using inv by (simp add: sf_inv_def map_inv_def)
  have p: "plain_core g = plain_core f" "\<And>b. b < sf_physical_blocks f \<Longrightarrow>
      sf_disk g b = (if b = ?c then (sf_disk f b)\<lparr>sd_allocation_end := sd_allocation_end (sf_disk f b) + i\<rparr> else sf_disk f b)"
    and m: "\<And>l. sf_map g ! l = (case find (\<lambda>j. record_lpn r j = l) [0..<i] of
        None \<Rightarrow> sf_map f ! l | Some j \<Rightarrow> sx_after (sj_delta r ! j))"
    using at unfolding mapping_at_def by blast+
  note s = plain_core_fields [OF p(1)]
  have ppb: "sf_ppb g = sf_ppb f" and lpns: "sf_lpn_count g = sf_lpn_count f" and first: "sf_data_first g = sf_data_first f"
    by (simp_all add: sf_ppb_def sf_lpn_count_def sf_data_first_def s)
  have "?c * sf_ppb f + (?s + i) < sf_physical_blocks f * sf_ppb f"
    using mult_le_mono1 [of "Suc ?c" "sf_physical_blocks f" "sf_ppb f"] c room by simp
  then have page: "?c * sf_ppb f + ?s + i < 4294967296"
    using shape by (simp add: sf_shape_def)
  have ppa: "sm_ppa (sx_after ?d) = ?c * sf_ppb f + (?s + i)"
    using v page by (simp add: delta_valid_def Let_def)
  show dest: "delta_dest g ?d = ?c"
    using ppa room by (simp add: ppb)
  show at': "sm_ppa (sx_after ?d) mod sf_ppb g = ?s + i"
    using ppa room by (simp add: ppb)
  have after: "value_entry f (sx_after ?d)"
    using v by (simp add: delta_valid_def Let_def)
  have "sm_ppa (sx_after ?d) < sf_physical_pages f"
    using after by (simp add: value_entry_def Let_def)
  note b = page_block [OF shape this]
  have "sd_role (sf_disk g (delta_dest f ?d)) = sd_role (sf_disk f (delta_dest f ?d))"
    "sd_block_uid (sf_disk g (delta_dest f ?d)) = sd_block_uid (sf_disk f (delta_dest f ?d))"
    "sd_erase_generation (sf_disk g (delta_dest f ?d)) = sd_erase_generation (sf_disk f (delta_dest f ?d))"
    using p(2) [OF b] by simp_all
  then have "value_entry g (sx_after ?d)"
    using after by (simp add: value_entry_def Let_def ppb first s)
  moreover have "find (\<lambda>j. record_lpn r j = sx_lpn ?d) [0..<i] = None"
    using record_lpn_distinct [OF valid] i unfolding find_None_iff inj_on_def by (auto simp: record_lpn_def)
  then have "sx_before ?d = sf_map g ! sx_lpn ?d"
    using v m [of "sx_lpn ?d"] by (simp add: delta_valid_def Let_def)
  moreover have "sx_lpn ?d < sf_lpn_count g"
    using v by (simp add: delta_valid_def Let_def lpns)
  ultimately show "delta_fit g ?d"
    using role p(2) [OF c] at' unfolding delta_fit_def Let_def dest by simp
qed

lemma find_upt_Suc:
  "find P [0..<Suc i] = (case find P [0..<i] of None \<Rightarrow> if P i then Some i else None | Some j \<Rightarrow> Some j)"
proof -
  have "find P (xs @ [x]) = (case find P xs of None \<Rightarrow> if P x then Some x else None | Some j \<Rightarrow> Some j)" for xs x
    by (induction xs) auto
  then show ?thesis
    by simp
qed

lemma mapping_step:
  assumes inv: "sf_inv f" and valid: "mapping_valid f r" and at: "mapping_at f r i g" and i: "i < sj_count r"
  shows "mapping_at f r (Suc i) (delta_apply (sj_delta r ! i) g)"
proof -
  let ?d = "sj_delta r ! i" and ?c = "record_destination r"
  let ?s = "sd_allocation_end (sf_disk f ?c)"
  note fit = mapping_next_fits [OF inv valid at i]
  have parts: "map_inv g" "blocks_inv g" "heaps_ok g" "plain_core g = plain_core f" "length (sf_map g) = length (sf_map f)"
    using at by (simp_all add: mapping_at_def)
  note facts = delta_fit_facts [OF parts(1) fit(1)]
  note fields = delta_apply_fields [OF facts(1) parts(3) facts(6)] and N = plain_core_fields(4) [OF parts(4)]
  note blocks = delta_apply_blocks [OF facts(1) parts(3) fit(1) facts(6)]
  have room: "?s + i < 64"
    using mapping_valid_facts(4) [OF valid] i sf_shape_ppb [of f] inv by (simp add: sf_inv_def map_inv_def)
  have "sf_disk (delta_apply ?d g) b = (if b = ?c
      then (sf_disk f b)\<lparr>sd_allocation_end := sd_allocation_end (sf_disk f b) + Suc i\<rparr> else sf_disk f b)"
    if b: "b < sf_physical_blocks f" for b
    using blocks(1) [of b] at b room by (simp add: N fit(2,3) mapping_at_def)
  moreover have "sb_reserved_pages (sf_block_at (delta_apply ?d g) b) = sb_reserved_pages (sf_block_at f b)"
    if b: "b < sf_physical_blocks f" for b
    using blocks(4) [of b] at b by (simp add: N mapping_at_def)
  moreover have "sf_map (delta_apply ?d g) ! l = (case find (\<lambda>j. record_lpn r j = l) [0..<Suc i] of
      None \<Rightarrow> sf_map f ! l | Some j \<Rightarrow> sx_after (sj_delta r ! j))" for l
  proof -
    have lpn: "sx_lpn ?d < length (sf_map g)"
      using fit(1) facts(1) by (simp add: delta_fit_def sf_shape_def)
    have new: "find (\<lambda>j. record_lpn r j = sx_lpn ?d) [0..<i] = None"
      using record_lpn_distinct [OF valid] i unfolding find_None_iff inj_on_def by (auto simp: record_lpn_def)
    have m: "sf_map g ! l = (case find (\<lambda>j. record_lpn r j = l) [0..<i] of
        None \<Rightarrow> sf_map f ! l | Some j \<Rightarrow> sx_after (sj_delta r ! j))"
      using at by (simp add: mapping_at_def)
    show ?thesis
      unfolding find_upt_Suc using lpn new m
      by (cases "l = sx_lpn ?d") (auto simp: fields(1) record_lpn_def split: option.split)
  qed
  ultimately show ?thesis
    using delta_apply_map_inv [OF parts(1,3) fit(1) refl] delta_apply_blocks_inv [OF parts(1,3) fit(1) refl parts(2)]
      delta_apply_heaps [OF parts(1,3) fit(1) refl] fields parts(4,5)
    unfolding mapping_at_def by simp
qed

lemma mapping_loop:
  assumes inv: "sf_inv f" and valid: "mapping_valid f r" and "i \<le> sj_count r"
  shows "mapping_at f r i (mapping_upto r i f)"
  using assms(3)
proof (induction i)
  case 0
  then show ?case
    using inv by (simp add: mapping_at_def sf_inv_def)
next
  case (Suc i)
  then show ?case
    using mapping_step [OF inv valid] by simp
qed

text \<open>A collection releases a page of the victim with every change.\<close>

lemma mapping_victim:
  assumes inv: "sf_inv f" and valid: "mapping_valid f r" and gc: "sj_kind r = SF_GC_COMMIT" and "i \<le> sj_count r"
    and b: "sj_block r < sf_physical_blocks f"
  shows "sb_live_pages (sf_block_at (mapping_upto r i f) (sj_block r)) = sj_count r - i"
  using assms(4)
proof (induction i)
  case 0
  then show ?case
    using mapping_valid_facts(6) [OF valid gc] by simp
next
  case (Suc i)
  let ?g = "mapping_upto r i f" and ?d = "sj_delta r ! i"
  have i: "i < sj_count r" "i \<le> sj_count r"
    using Suc by simp_all
  have at: "mapping_at f r i ?g"
    by (rule mapping_loop [OF inv valid i(2)])
  note fit = mapping_next_fits [OF inv valid at i(1)]
  have parts: "map_inv ?g" "heaps_ok ?g" "plain_core ?g = plain_core f"
    using at by (simp_all add: mapping_at_def)
  note facts = delta_fit_facts [OF parts(1) fit(1)] and s = plain_core_fields [OF parts(3)]
  have "sm_state (sx_before ?d) = SF_VALUE" "sm_ppa (sx_before ?d) div sf_ppb f = sj_block r"
    using mapping_valid_facts(1) [OF valid i(1)] gc unfolding delta_valid_def Let_def by blast+
  moreover have "sf_ppb ?g = sf_ppb f" "sj_block r < sf_physical_blocks ?g"
    using b by (simp_all add: sf_ppb_def s)
  moreover have "sj_block r \<noteq> record_destination r"
    using mapping_valid_facts(6) [OF valid gc] by simp
  moreover have "sj_count r \<le> 64"
    using mapping_valid_facts(4) [OF valid] sf_shape_ppb [of f] inv by (simp add: sf_inv_def map_inv_def)
  then have "w16 (sj_count r - i + 65535) = sj_count r - Suc i"
    using w16_pred [of "sj_count r - i"] i(1) by simp
  ultimately show ?case
    using delta_apply_blocks(2) [OF facts(1) parts(2) fit(1) facts(6), of "sj_block r"] Suc.IH [OF i(2)] fit(2)
    by (simp add: Let_def)
qed

section \<open>The end of a host write\<close>

lemma plain_core_heads:
  assumes core: "plain_core g = plain_core f" and laid: "heads_laid f"
  shows "heads_same f g" and "\<And>d. d < hs_count (sf_heads f) \<Longrightarrow> slot_of g d = slot_of f d"
    and "hs_gc_destination (sf_heads g) = hs_gc_destination (sf_heads f)"
proof -
  note s = plain_core_fields [OF core]
  show "heads_same f g" and "hs_gc_destination (sf_heads g) = hs_gc_destination (sf_heads f)"
    by (simp_all add: heads_same_def sf_multihead_def s)
  show "slot_of g d = slot_of f d" if "d < hs_count (sf_heads f)" for d
  proof -
    have d: "d < length (hs_domain (sf_heads f))"
      using that laid by (simp add: heads_laid_def)
    have len: "length (hs_domain (sf_heads g)) = length (hs_domain (sf_heads f))"
      by (rule map_eq_imp_length_eq [OF s(16)])
    have "hd_head (sf_domain_at g d) = hd_head (sf_domain_at f d)"
      using arg_cong [OF s(16), of "\<lambda>xs. hd_head (xs ! d)"] d len by (simp add: sf_domain_at_def)
    then show ?thesis
      by (simp add: slot_of_def sf_multihead_def s)
  qed
qed

lemma heads_same_trans: "heads_same f g \<Longrightarrow> heads_same g h \<Longrightarrow> heads_same f h"
  by (simp add: heads_same_def)

text \<open>A host write that fills its block closes it.\<close>

abbreviation host_full :: "sf_record \<Rightarrow> ftl_scale \<Rightarrow> bool" where
  "host_full r g \<equiv> record_window r \<and> sd_allocation_end (sf_disk g (sj_block r)) = sf_ppb g"

lemma host_finish_frame:
  assumes laid: "heads_laid g" and b: "sj_block r < sf_physical_blocks g" and h: "h = host_finish r g"
  shows "sf_block_at h c = (if c = sj_block r then (sf_block_at g c)\<lparr>sb_reserved_pages := 0,
      sb_disk := (if host_full r g then (sf_disk g c)\<lparr>sd_role := SF_CLOSED\<rparr> else sf_disk g c)\<rparr> else sf_block_at g c)"
    and "heap_frame h = heap_frame g" and "map_frame g h" and "heads_same g h" and "sf_next_block_uid h = sf_next_block_uid g"
    and "hs_gc_destination (sf_heads h) = hs_gc_destination (sf_heads g)"
    and "d < hs_count (sf_heads g) \<Longrightarrow>
      slot_of h d = (if host_full r g \<and> d = sf_head_domain g (sj_block r) then SF_NONE else slot_of g d)"
proof -
  let ?b = "sj_block r" and ?u = "sf_block_put (sj_block r) (\<lambda>x. x\<lparr>sb_reserved_pages := 0\<rparr>) g"
  let ?v = "sf_disk_put ?b (\<lambda>d. d\<lparr>sd_role := SF_CLOSED\<rparr>) ?u"
  have bl: "?b < length (sf_blocks g)"
    using laid b by (simp add: heads_laid_def)
  have ppb: "sf_ppb ?u = sf_ppb g"
    by (simp add: sf_ppb_def)
  have u: "sf_block_at ?u c = (if c = ?b then (sf_block_at g c)\<lparr>sb_reserved_pages := 0\<rparr> else sf_block_at g c)" for c
    using bl by (simp add: sf_block_at_put)
  have frame: "map_frame g ?u" "heads_same g ?u" "sf_multihead ?u = sf_multihead g"
    by (simp_all add: map_frame_def heads_same_def sf_multihead_def)
  have "heads_laid ?u"
    by (rule heads_laid_frame(1) [OF _ _ laid]) simp_all
  then have vlaid: "heads_laid ?v"
    by (rule heads_laid_disk(1))
  have hdef: "h = (if host_full r g then head_slot_put ?b SF_NONE ?v else ?u)"
    by (simp add: h host_finish_def Let_def u ppb)
  show "sf_block_at h c = (if c = sj_block r then (sf_block_at g c)\<lparr>sb_reserved_pages := 0,
      sb_disk := (if host_full r g then (sf_disk g c)\<lparr>sd_role := SF_CLOSED\<rparr> else sf_disk g c)\<rparr> else sf_block_at g c)"
    using bl by (simp add: hdef sf_disk_put_at u)
  show "heap_frame h = heap_frame g" "sf_next_block_uid h = sf_next_block_uid g"
    "hs_gc_destination (sf_heads h) = hs_gc_destination (sf_heads g)"
    by (simp_all add: hdef)
  show "map_frame g h"
    using map_frame_trans [OF map_frame_trans [OF frame(1) sf_disk_put_fields(9)] head_slot_put_frame(2)] frame(1) by (simp add: hdef)
  have vsame: "heads_same g ?v"
    by (rule heads_same_trans [OF frame(2) sf_disk_put_fields(10)])
  show "heads_same g h"
    using heads_same_trans [OF vsame head_slot_put_frame(5)] frame(2) by (simp add: hdef)
  have slot: "slot_of ?u d = slot_of g d" "slot_of ?v d = slot_of g d" for d
    using frame(3) by (simp_all add: slot_of_def sf_domain_at_def)
  have put: "slot_of (head_slot_put ?b SF_NONE ?v) d = (if d = sf_head_domain g ?b then SF_NONE else slot_of g d)" if "d < hs_count (sf_heads g)"
    using head_slot_put_slot [OF vlaid, of ?b d SF_NONE] that b unfolding slot(2) heads_same_domain [OF vsame] by simp
  show "slot_of h d = (if host_full r g \<and> d = sf_head_domain g ?b then SF_NONE else slot_of g d)" if "d < hs_count (sf_heads g)"
    using put [OF that] slot(1) [of d] unfolding hdef by auto
qed

lemma host_record_inv:
  assumes inv: "sf_inv f" and valid: "mapping_valid f r" and kind: "sj_kind r \<noteq> SF_GC_COMMIT"
    and f': "f' = sf_heap_refresh (sj_block r) (mapping_apply r f)"
  shows "sf_inv f'"
proof -
  let ?b = "sj_block r" and ?g = "mapping_upto r (sj_count r) f"
  let ?h = "mapping_apply r f"
  have h: "?h = host_finish r ?g"
    using kind by (simp add: mapping_apply_def mapping_upto_def)
  have dest: "record_destination r = ?b"
    using kind by (simp add: record_destination_def)
  have b: "?b < sf_physical_blocks f" and role: "sd_role (sf_disk f ?b) = SF_HOST_OPEN"
    using mapping_valid_facts(2,5) [OF valid] kind by (simp_all add: dest)
  have at: "mapping_at f r (sj_count r) ?g"
    by (rule mapping_loop [OF inv valid order_refl])
  have parts: "map_inv ?g" "blocks_inv ?g" "heaps_ok ?g" "plain_core ?g = plain_core f"
    using at by (simp_all add: mapping_at_def)
  have disk: "sf_disk ?g c = (if c = ?b then (sf_disk f c)\<lparr>sd_allocation_end := sd_allocation_end (sf_disk f c) + sj_count r\<rparr> else sf_disk f c)"
    if "c < sf_physical_blocks f" for c
    using at that by (simp add: mapping_at_def dest)
  have laid: "heads_laid f" "heads_laid ?g" and finv: "heads_inv f"
    using inv parts(3) by (simp_all add: sf_inv_def heaps_ok_laid)
  note s = plain_core_fields [OF parts(4)] and heads = plain_core_heads [OF parts(4) laid(1)]
  have gb: "?b < sf_physical_blocks ?g"
    using b by (simp add: s)
  note frame = host_finish_frame [OF laid(2) gb h]
  note sets = map_frame_sets(4,6) [OF frame(3)] and same = heads_same_trans [OF heads(1) frame(4)]
  have facts: "block_facts_valid ?h c" if c: "c < sf_physical_blocks ?g" for c
  proof -
    have "block_facts_valid ?g c"
      using parts(2) c by (simp add: blocks_inv_def)
    then show ?thesis
      using disk [OF b] role by (cases "c = ?b") (auto simp: block_facts_valid_def Let_def frame(1,5) sets)
  qed
  have slots: "slot_of ?h d = (if host_full r ?g \<and> d = sf_head_domain f ?b then SF_NONE else slot_of f d)" if "d < hs_count (sf_heads f)" for d
    using frame(7) [of d] that heads(2) [OF that] by (simp add: s heads_same_domain [OF heads(1)])
  have "heads_inv ?h" if hlaid: "heads_laid ?h"
  proof (cases "host_full r ?g")
    case True
    then show ?thesis
      using heads_inv_close [OF finv laid(1) hlaid b same role] slots frame(1) disk by (simp add: frame(6) heads(3))
  next
    case False
    then have "sd_role (sf_disk ?h c) = sd_role (sf_disk f c)" "sd_role (sf_disk f c) = SF_GC_DEST \<Longrightarrow>
        sd_allocation_end (sf_disk ?h c) = sd_allocation_end (sf_disk f c)" if "c < sf_physical_blocks f" for c
      using disk [OF that] role by (cases "c = ?b"; simp add: frame(1))+
    then show ?thesis
      using heads_inv_frame [OF finv laid(1) hlaid same] slots False by (simp add: frame(6) heads(3))
  qed
  moreover have "sb_wear (sf_block_at ?g ?b) = unat (sd_erase_generation (sf_disk ?g ?b))"
    using parts(2) gb by (simp add: blocks_inv_def)
  ultimately show ?thesis
    by (intro block_change_inv [OF parts(1-3) gb frame(2,3) _ _ _ _ facts _ _ _ f'])
      (use disk [OF b] role in \<open>auto simp: frame(1) heap_position_def disk_serves_def split: if_splits\<close>)
qed

section \<open>The end of a collection\<close>

lemma gc_scalars [simp]:
  fixes f :: ftl_scale and n :: nat and m :: u64
  defines "a \<equiv> f\<lparr>sf_garbage_collections := m\<rparr>" and "b \<equiv> f\<lparr>sf_heads := (sf_heads f)\<lparr>hs_gc_destination := n\<rparr>\<rparr>"
  shows "slot_of a d = slot_of f d" and "slot_of b d = slot_of f d" and "heap_frame a = heap_frame f" and "heap_frame b = heap_frame f"
    and "map_frame g a = map_frame g f" and "map_frame g b = map_frame g f" and "heads_same g a = heads_same g f" and "heads_same g b = heads_same g f"
  by (simp_all add: a_def b_def slot_of_def sf_domain_at_def sf_multihead_def heap_frame_def map_frame_def heads_same_def)

lemma gc_finish_frame:
  assumes ok: "heaps_ok g" and b: "sj_block r < sf_physical_blocks g" and c: "sj_other_block r < sf_physical_blocks g"
    and neq: "sj_other_block r \<noteq> sj_block r" and role: "sd_role (sf_disk g (sj_other_block r)) = SF_GC_DEST" and h: "h = gc_finish r g"
  shows "sf_block_at h x =
      (if x = sj_other_block r then (sf_block_at g x)\<lparr>sb_disk := (sf_disk g x)\<lparr>sd_role := SF_HOST_OPEN\<rparr>\<rparr>
       else if x = sj_block r then (sf_block_at g x)\<lparr>sb_disk := (sf_disk g x)\<lparr>sd_role := SF_RECLAIM_PENDING\<rparr>\<rparr> else sf_block_at g x)"
    and "heap_frame h = heap_frame g" and "map_frame g h" and "heads_same g h" and "sf_next_block_uid h = sf_next_block_uid g"
    and "hs_gc_destination (sf_heads h) = (if sf_multihead g then SF_NONE else hs_gc_destination (sf_heads g))"
    and "d < hs_count (sf_heads g) \<Longrightarrow>
      slot_of h d = (if d = sf_head_domain g (sj_other_block r) then sj_other_block r else slot_of g d)"
proof -
  let ?b = "sj_block r" and ?c = "sj_other_block r"
  let ?u = "sf_disk_put ?b (\<lambda>d. d\<lparr>sd_role := SF_RECLAIM_PENDING\<rparr>) g"
  let ?v = "sf_disk_put ?c (\<lambda>d. d\<lparr>sd_role := SF_HOST_OPEN\<rparr>) ?u"
  let ?w = "head_slot_put ?c ?c ?v"
  let ?y = "if sf_multihead ?w then ?w\<lparr>sf_heads := (sf_heads ?w)\<lparr>hs_gc_destination := SF_NONE\<rparr>\<rparr> else ?w"
  have laid: "heads_laid g"
    by (rule heaps_ok_laid [OF ok])
  have bl: "?b < length (sf_blocks g)" "?c < length (sf_blocks g)"
    using laid b c by (simp_all add: heads_laid_def)
  have vlaid: "heads_laid ?v"
    by (intro heads_laid_disk(1) laid)
  have at: "sf_block_at ?y x = (if x = ?c then (sf_block_at g x)\<lparr>sb_disk := (sf_disk g x)\<lparr>sd_role := SF_HOST_OPEN\<rparr>\<rparr>
       else if x = ?b then (sf_block_at g x)\<lparr>sb_disk := (sf_disk g x)\<lparr>sd_role := SF_RECLAIM_PENDING\<rparr>\<rparr> else sf_block_at g x)" for x
    using bl neq by (simp add: sf_disk_put_at)
  have "heap_position ?y ?c v = SF_HEAP_NONE" for v
    using heaps_ok_position [OF ok c] open_not_eligible [of g ?c] role unfolding heap_position_def at by (cases v) simp_all
  then have "sf_heap_refresh ?c ?y = ?y"
    using open_not_eligible [of ?y ?c] unfolding at by (intro heap_refresh_idle) simp_all
  then have hdef: "h = ?y\<lparr>sf_garbage_collections := sf_garbage_collections ?y + 1\<rparr>"
    by (simp only: h gc_finish_def Let_def)
  show "sf_block_at h x =
      (if x = ?c then (sf_block_at g x)\<lparr>sb_disk := (sf_disk g x)\<lparr>sd_role := SF_HOST_OPEN\<rparr>\<rparr>
       else if x = ?b then (sf_block_at g x)\<lparr>sb_disk := (sf_disk g x)\<lparr>sd_role := SF_RECLAIM_PENDING\<rparr>\<rparr> else sf_block_at g x)"
    unfolding hdef sf_block_at_scalars by (rule at)
  have w: "heap_frame ?w = heap_frame g" "map_frame g ?w" "heads_same g ?w" "sf_multihead ?w = sf_multihead g"
    using map_frame_trans [OF map_frame_trans [OF sf_disk_put_fields(9) sf_disk_put_fields(9)] head_slot_put_frame(2)]
      heads_same_trans [OF heads_same_trans [OF sf_disk_put_fields(10) sf_disk_put_fields(10)] head_slot_put_frame(5)] by simp_all
  show "heap_frame h = heap_frame g" "map_frame g h" "heads_same g h" "sf_next_block_uid h = sf_next_block_uid g"
    "hs_gc_destination (sf_heads h) = (if sf_multihead g then SF_NONE else hs_gc_destination (sf_heads g))"
    using w by (simp_all add: hdef del: sf_disk_put_fields(9,10) head_slot_put_frame(2,5))
  have slot: "slot_of ?v d = slot_of g d" for d
    by (simp add: slot_of_def sf_domain_at_def)
  have same: "heads_same g ?v"
    by (rule heads_same_trans [OF sf_disk_put_fields(10) sf_disk_put_fields(10)])
  have "slot_of ?w d = (if d = sf_head_domain g ?c then ?c else slot_of g d)" if "d < hs_count (sf_heads g)"
    using head_slot_put_slot [OF vlaid, of ?c d ?c] that c unfolding slot heads_same_domain [OF same] by simp
  moreover have "slot_of h d = slot_of ?w d"
    by (simp add: hdef)
  ultimately show "slot_of h d = (if d = sf_head_domain g ?c then ?c else slot_of g d)" if "d < hs_count (sf_heads g)"
    using that by simp
qed

text \<open>The destination of a collection becomes an open block.\<close>

lemma gc_dest_opened:
  assumes parts: "map_inv g" "blocks_inv g" "heaps_ok g" and c: "c < sf_physical_blocks g" and role: "sd_role (sf_disk g c) = SF_GC_DEST"
    and k: "k = sf_disk_put c (\<lambda>d. d\<lparr>sd_role := SF_HOST_OPEN\<rparr>) g"
  shows "map_inv k" and "blocks_inv k" and "heaps_ok k"
proof -
  have len: "c < length (sf_blocks g)"
    using parts(1) c by (simp add: map_inv_def sf_shape_def)
  have at: "sf_block_at k x = (if x = c then (sf_block_at g x)\<lparr>sb_disk := (sf_disk g x)\<lparr>sd_role := SF_HOST_OPEN\<rparr>\<rparr> else sf_block_at g x)" for x
    using len by (simp add: k sf_disk_put_at)
  have frame: "map_frame g k" "heap_frame k = heap_frame g" "sf_next_block_uid k = sf_next_block_uid g" "length (sf_blocks k) = length (sf_blocks g)"
    "\<And>b v. heap_position k b v = heap_position g b v" "sf_physical_blocks k = sf_physical_blocks g"
    by (simp_all add: k)
  show "map_inv k"
    by (rule map_inv_frame [OF parts(1) frame(1)]) (use role in \<open>auto simp: at disk_serves_def\<close>)
  have "heaps_kept {} g k"
    by (rule heaps_kept_blocks [OF frame(2,4,5)]) (use role open_not_eligible [of g c] open_not_eligible [of k c] at in auto)
  then show "heaps_ok k"
    by (rule heaps_kept_ok [OF parts(3)])
  show "blocks_inv k"
    unfolding blocks_inv_def frame(6)
  proof (intro allI impI)
    fix b assume b: "b < sf_physical_blocks g"
    then have "block_facts_valid g b \<and> sb_wear (sf_block_at g b) = unat (sd_erase_generation (sf_disk g b)) \<and>
        (sd_role (sf_disk g b) = SF_RECLAIM_PENDING \<longrightarrow> sb_live_pages (sf_block_at g b) = 0)"
      using parts(2) by (simp add: blocks_inv_def)
    then show "block_facts_valid k b \<and> sb_wear (sf_block_at k b) = unat (sd_erase_generation (sf_disk k b)) \<and>
        (sd_role (sf_disk k b) = SF_RECLAIM_PENDING \<longrightarrow> sb_live_pages (sf_block_at k b) = 0)"
      using role by (cases "b = c") (auto simp: at block_facts_valid_def Let_def map_frame_sets(4,6) [OF frame(1)] frame(3))
  qed
qed

lemma gc_record_inv:
  assumes inv: "sf_inv f" and valid: "mapping_valid f r" and kind: "sj_kind r = SF_GC_COMMIT" and b: "sj_block r < sf_physical_blocks f"
    and f': "f' = sf_heap_refresh (sj_block r) (mapping_apply r f)"
  shows "sf_inv f'"
proof -
  let ?b = "sj_block r" and ?c = "sj_other_block r" and ?g = "mapping_upto r (sj_count r) f"
  let ?h = "mapping_apply r f" and ?k = "sf_disk_put ?c (\<lambda>d. d\<lparr>sd_role := SF_HOST_OPEN\<rparr>) ?g"
  have h: "?h = gc_finish r ?g"
    using kind by (simp add: mapping_apply_def mapping_upto_def)
  have dest: "record_destination r = ?c"
    using kind by (simp add: record_destination_def)
  note v = mapping_valid_facts [OF valid, unfolded dest]
  have c: "?c < sf_physical_blocks f" and role: "sd_role (sf_disk f ?c) = SF_GC_DEST" and neq: "?c \<noteq> ?b"
    using v(2,5,6) kind by simp_all
  have at: "mapping_at f r (sj_count r) ?g"
    by (rule mapping_loop [OF inv valid order_refl])
  have parts: "map_inv ?g" "blocks_inv ?g" "heaps_ok ?g" "plain_core ?g = plain_core f"
    using at by (simp_all add: mapping_at_def)
  have disk: "sf_disk ?g x = (if x = ?c then (sf_disk f x)\<lparr>sd_allocation_end := sd_allocation_end (sf_disk f x) + sj_count r\<rparr> else sf_disk f x)"
    if "x < sf_physical_blocks f" for x
    using at that by (simp add: mapping_at_def dest)
  have laid: "heads_laid f" and finv: "heads_inv f"
    using inv by (simp_all add: sf_inv_def heaps_ok_laid)
  note s = plain_core_fields [OF parts(4)] and heads = plain_core_heads [OF parts(4) laid]
  have gbc: "?b < sf_physical_blocks ?g" "?c < sf_physical_blocks ?g" "sd_role (sf_disk ?g ?c) = SF_GC_DEST"
    using b c role disk [OF c] by (simp_all add: s)
  note frame = gc_finish_frame [OF parts(3) gbc(1,2) neq gbc(3) h]
  note k = gc_dest_opened [OF parts(1-3) gbc(2,3) refl]
  have kat: "sf_block_at ?k x = (if x = ?c then (sf_block_at ?g x)\<lparr>sb_disk := (sf_disk ?g x)\<lparr>sd_role := SF_HOST_OPEN\<rparr>\<rparr> else sf_block_at ?g x)" for x
    using gbc(2) heaps_ok_laid [OF parts(3)] by (simp add: sf_disk_put_at heads_laid_def)
  have kb: "?b < sf_physical_blocks ?k" "heap_frame ?h = heap_frame ?k" "map_frame ?k ?h"
    using gbc(1) frame(2,3) by (simp_all add: map_frame_def sf_disk_put_def)
  note sets = map_frame_sets(4,6) [OF kb(3)]
  have live: "sb_live_pages (sf_block_at ?k ?b) = 0"
    using mapping_victim [OF inv valid kind order_refl b] neq by (simp add: kat)
  have facts: "block_facts_valid ?h x \<and> sb_wear (sf_block_at ?h x) = unat (sd_erase_generation (sf_disk ?h x))"
    if x: "x < sf_physical_blocks ?k" for x
  proof -
    have "block_facts_valid ?k x \<and> sb_wear (sf_block_at ?k x) = unat (sd_erase_generation (sf_disk ?k x))"
      using k(2) x by (simp add: blocks_inv_def)
    then show ?thesis
      using neq v(6) kind disk [OF b] by (cases "x = ?b") (auto simp: block_facts_valid_def Let_def frame(1,5) kat sets)
  qed
  have slots: "slot_of ?h d = (if d = sf_head_domain f ?c then ?c else slot_of f d)" if "d < hs_count (sf_heads f)" for d
    using frame(7) [of d] that heads(2) [OF that] by (simp add: s heads_same_domain [OF heads(1)])
  have free: "slot_of f (sf_head_domain f ?c) = SF_NONE"
    using v(6) kind heads_empty_iff [OF laid] heads_laid_domain [OF laid c] by blast
  have roles: "sd_role (sf_disk ?h x) = y \<longleftrightarrow> sd_role (sf_disk f x) = y"
    if "x < sf_physical_blocks f" "x \<noteq> ?c" "y \<in> {SF_HOST_OPEN, SF_GC_DEST}" for x y
    using disk [OF that(1)] that v(6) kind by (cases "x = ?b") (auto simp: frame(1))
  have gcs: "hs_gc_destination (sf_heads ?h) = SF_NONE \<and> (\<forall>x. x < sf_physical_blocks f \<longrightarrow> x \<noteq> ?c \<longrightarrow> sd_role (sf_disk f x) \<noteq> SF_GC_DEST)"
    if "sf_multihead f"
    using that v(6) kind finv heads(1) by (auto simp: frame(6) heads_inv_def heads_same_def)
  have "heads_inv ?h"
    by (rule heads_inv_open [OF finv laid c heads_same_trans [OF heads(1) frame(4)] free slots _ roles gcs]) (simp_all add: frame(1))
  moreover have "block_facts_valid ?h x" if "x < sf_physical_blocks ?k" for x
    using facts [OF that] by simp
  moreover have "sb_wear (sf_block_at ?h ?b) = unat (sd_erase_generation (sf_disk ?h ?b))"
    using facts [OF kb(1)] by simp
  ultimately show ?thesis
    using live live_zero_empty [OF k(1) kb(1) live] neq
    by (intro block_change_inv [OF k kb(1-3) _ _ _ _ _ _ _ _ f']) (simp_all add: frame(1) kat heap_position_def)
qed

section \<open>Any record\<close>

lemma record_kinds:
  assumes "record_valid f r"
  shows "(sj_kind r = SF_OPEN_HOST \<or> sj_kind r = SF_OPEN_GC_DEST) \<and> open_valid f r \<or> sj_kind r = SF_CLOSE \<and> close_valid f r \<or>
    record_mapping r \<and> mapping_valid f r \<or> sj_kind r = SF_ERASE_INTENT \<and> erase_intent_valid f r \<or>
    sj_kind r = SF_ERASE_DONE \<and> erase_done_valid f r"
  using assms unfolding record_valid_def by argo

theorem record_apply_inv:
  assumes inv: "sf_inv f" and valid: "record_valid f r"
  shows "sf_inv (record_apply r f)"
proof -
  have header: "record_header_valid f r"
    using valid by (simp add: record_valid_def)
  have b: "sj_block r < sf_physical_blocks f"
    using header by (simp add: record_header_valid_def)
  consider (open_block) "sj_kind r = SF_OPEN_HOST \<or> sj_kind r = SF_OPEN_GC_DEST" "open_valid f r"
    | (close_block) "sj_kind r = SF_CLOSE" "close_valid f r"
    | (collection) "record_mapping r" "mapping_valid f r" "sj_kind r = SF_GC_COMMIT"
    | (host) "record_mapping r" "mapping_valid f r" "sj_kind r \<noteq> SF_GC_COMMIT"
    | (erase_start) "sj_kind r = SF_ERASE_INTENT" "erase_intent_valid f r"
    | (erase_end) "sj_kind r = SF_ERASE_DONE" "erase_done_valid f r"
    using record_kinds [OF valid] by blast
  then obtain g where "sf_inv g"
    and "record_apply r f = g\<lparr>sf_record_sequence := sj_sequence r, sf_map_sequence := sj_after_map_seq r,
      sf_durable_frontier := sj_durable_frontier r\<rparr>"
  proof cases
    case open_block
    then show ?thesis
      using that [OF open_record_inv [OF inv header open_block(2,1) refl]] by (simp add: record_apply_def)
  next
    case close_block
    then show ?thesis
      using that [OF close_record_inv [OF inv header close_block(2) refl]] by (simp add: record_apply_def)
  next
    case collection
    then show ?thesis
      using that [OF gc_record_inv [OF inv collection(2,3) b refl]] by (simp add: record_apply_def record_mapping_def)
  next
    case host
    then show ?thesis
      using that [OF host_record_inv [OF inv host(2,3) refl]] by (auto simp: record_apply_def record_mapping_def record_window_def)
  next
    case erase_start
    then show ?thesis
      using that [OF erase_intent_record_inv [OF inv header erase_start(2) refl]]
      by (simp add: record_apply_def record_mapping_def record_window_def)
  next
    case erase_end
    then show ?thesis
      using that [OF erase_done_record_inv [OF inv header erase_end(2) refl]]
      by (simp add: record_apply_def record_mapping_def record_window_def)
  qed
  then show ?thesis
    by (rule sf_inv_counters)
qed

end
