(* ===== verification/Scale_Domains.thy ===== *)
theory Scale_Domains
  imports Scale_Record
begin

text \<open>
  The domains of the allocation heads: the logical units of a geometry, the heap segments the domains
  get (\<open>sf_heads_init\<close>), and that they are disjoint and large enough for the blocks of their domains.
\<close>

section \<open>The domains of a geometry\<close>

text \<open>The domain of a logical unit and the number of units of a domain.\<close>

definition unit_domain :: "nat \<Rightarrow> nat \<Rightarrow> nat \<Rightarrow> nat" where
  "unit_domain luns pc l = l div luns * pc + l mod luns mod pc"

definition units_per_channel :: "nat \<Rightarrow> nat \<Rightarrow> nat" where
  "units_per_channel channels luns = min (SF_HEAD_DOMAINS div channels) luns"

definition domain_units :: "nat \<Rightarrow> nat \<Rightarrow> nat \<Rightarrow> nat" where
  "domain_units luns pc d = 1 + (luns - 1 - d mod pc) div pc"

lemma units_table:
  "list_all (\<lambda>channels. list_all (\<lambda>luns. let pc = units_per_channel channels luns; count = channels * pc
     in 0 < pc \<and> count \<le> 4 \<and> list_all (\<lambda>l. unit_domain luns pc l < count) [0..<channels * luns] \<and>
        list_all (\<lambda>d. length (filter (\<lambda>l. unit_domain luns pc l = d) [0..<channels * luns]) = domain_units luns pc d) [0..<count] \<and>
        sum_list (map (domain_units luns pc) [0..<count]) = channels * luns)
     [1..<5]) [1..<5]"
  by code_simp

lemma units_facts:
  assumes "0 < channels" "channels \<le> 4" "0 < luns" "luns \<le> 4" and pc: "pc = units_per_channel channels luns"
  shows "0 < pc" and "channels * pc \<le> 4"
    and "l < channels * luns \<Longrightarrow> unit_domain luns pc l < channels * pc"
    and "d < channels * pc \<Longrightarrow> card {l. l < channels * luns \<and> unit_domain luns pc l = d} = domain_units luns pc d"
    and "sum_list (map (domain_units luns pc) [0..<channels * pc]) = channels * luns"
proof -
  have "channels \<in> set [1..<5]" "luns \<in> set [1..<5]"
    using assms by auto
  then have t: "0 < pc \<and> channels * pc \<le> 4 \<and> list_all (\<lambda>l. unit_domain luns pc l < channels * pc) [0..<channels * luns] \<and>
      list_all (\<lambda>d. length (filter (\<lambda>l. unit_domain luns pc l = d) [0..<channels * luns]) = domain_units luns pc d) [0..<channels * pc] \<and>
      sum_list (map (domain_units luns pc) [0..<channels * pc]) = channels * luns"
    using units_table unfolding pc list_all_iff [of _ "[1..<5]"] Let_def by blast
  then show "0 < pc" and "channels * pc \<le> 4" and "sum_list (map (domain_units luns pc) [0..<channels * pc]) = channels * luns"
    by simp_all
  show "unit_domain luns pc l < channels * pc" if "l < channels * luns"
    using t that by (simp add: list_all_iff)
  show "card {l. l < channels * luns \<and> unit_domain luns pc l = d} = domain_units luns pc d" if "d < channels * pc"
  proof -
    have "card {l. l < channels * luns \<and> unit_domain luns pc l = d} = length (filter (\<lambda>l. unit_domain luns pc l = d) [0..<channels * luns])"
      using length_filter_conv_card [of "\<lambda>l. unit_domain luns pc l = d" "[0..<channels * luns]"]
      by (simp cong: conj_cong)
    then show ?thesis
      using t that by (simp add: list_all_iff)
  qed
qed

text \<open>The blocks of some logical units.\<close>

lemma card_units:
  assumes "0 < p"
  shows "card {b. b < n * p \<and> P (b div p)} = card {l. l < n \<and> P l} * p"
proof -
  let ?L = "{l. l < n \<and> P l}"
  have "bij_betw (\<lambda>(l, r). l * p + r) (?L \<times> {..<p}) {b. b < n * p \<and> P (b div p)}"
  proof (rule bij_betw_byWitness [where f' = "\<lambda>b. (b div p, b mod p)"])
    show "(\<lambda>(l, r). l * p + r) ` (?L \<times> {..<p}) \<subseteq> {b. b < n * p \<and> P (b div p)}"
    proof clarify
      fix l r assume l: "l < n" "P l" and r: "r < p"
      have "Suc l * p \<le> n * p"
        using l by (intro mult_le_mono1) simp
      then show "l * p + r < n * p \<and> P ((l * p + r) div p)"
        using l r by simp
    qed
  qed (use assms in \<open>auto simp: less_mult_imp_div_less\<close>)
  from bij_betw_same_card [OF this] show ?thesis
    by (simp add: card_cartesian_product)
qed

section \<open>The heap segments\<close>

lemma sf_domain_segments_nth:
  assumes "off + sum_list (map (sf_domain_capacity g pc) ds) < 4294967296"
  shows "length (fst (sf_domain_segments g pc ds off)) = length ds"
    and "snd (sf_domain_segments g pc ds off) = off + sum_list (map (sf_domain_capacity g pc) ds)"
    and "i < length ds \<Longrightarrow> fst (sf_domain_segments g pc ds off) ! i =
      \<lparr>hd_head = SF_NONE, hd_heap_offset = off + sum_list (map (sf_domain_capacity g pc) (take i ds)),
       hd_heap_capacity = sf_domain_capacity g pc (ds ! i), hd_free_count = 0\<rparr>"
proof -
  have "length (fst (sf_domain_segments g pc ds off)) = length ds \<and>
      snd (sf_domain_segments g pc ds off) = off + sum_list (map (sf_domain_capacity g pc) ds) \<and>
      (\<forall>i<length ds. fst (sf_domain_segments g pc ds off) ! i =
        \<lparr>hd_head = SF_NONE, hd_heap_offset = off + sum_list (map (sf_domain_capacity g pc) (take i ds)),
         hd_heap_capacity = sf_domain_capacity g pc (ds ! i), hd_free_count = 0\<rparr>)"
    using assms
  proof (induction ds arbitrary: off)
    case (Cons d ds)
    have "w32 (off + sf_domain_capacity g pc d) = off + sf_domain_capacity g pc d"
      using Cons.prems by (intro w32_small) simp
    then show ?case
      using Cons.IH [of "off + sf_domain_capacity g pc d"] Cons.prems
      by (auto simp: Let_def nth_Cons add.assoc split: nat.split)
  qed simp
  then show "length (fst (sf_domain_segments g pc ds off)) = length ds"
    and "snd (sf_domain_segments g pc ds off) = off + sum_list (map (sf_domain_capacity g pc) ds)"
    and "i < length ds \<Longrightarrow> fst (sf_domain_segments g pc ds off) ! i =
      \<lparr>hd_head = SF_NONE, hd_heap_offset = off + sum_list (map (sf_domain_capacity g pc) (take i ds)),
       hd_heap_capacity = sf_domain_capacity g pc (ds ! i), hd_free_count = 0\<rparr>"
    by blast+
qed

text \<open>What an accepted geometry is.\<close>

lemma sf_geometry_facts:
  assumes "sf_geometry_counts g = Some (n, p)"
  shows "0 < unat (g_channels g)" "unat (g_channels g) \<le> 4" "0 < unat (g_luns_per_channel g)" "unat (g_luns_per_channel g) \<le> 4"
    and "0 < unat (g_planes_per_lun g) * unat (g_blocks_per_plane g)"
    and "n = unat (g_channels g) * unat (g_luns_per_channel g) * (unat (g_planes_per_lun g) * unat (g_blocks_per_plane g))"
    and "unat (g_pages_per_block g) = 32 \<or> unat (g_pages_per_block g) = 64" and "p = n * unat (g_pages_per_block g)" and "p < 4294967296"
proof -
  let ?n = "unat (g_channels g) * unat (g_luns_per_channel g) * unat (g_planes_per_lun g) * unat (g_blocks_per_plane g)"
  have c: "g_channels g \<noteq> 0" "g_channels g \<le> 4" "g_luns_per_channel g \<noteq> 0" "g_luns_per_channel g \<le> 4" "g_planes_per_lun g \<noteq> 0"
    "g_blocks_per_plane g \<noteq> 0" "g_pages_per_block g = 32 \<or> g_pages_per_block g = 64"
    and n: "?n \<le> 4294967295 div unat (g_pages_per_block g)" "n = w32 ?n" "p = w32 (?n * unat (g_pages_per_block g))"
    using assms unfolding sf_geometry_counts_def Let_def by (auto simp: not_less split: if_splits)
  show ppb: "unat (g_pages_per_block g) = 32 \<or> unat (g_pages_per_block g) = 64"
    using c(7) by auto
  have "?n * unat (g_pages_per_block g) \<le> 4294967295"
    using n(1) ppb by (auto simp: less_eq_div_iff_mult_less_eq)
  then have small: "?n * unat (g_pages_per_block g) < 4294967296" "?n < 4294967296"
    using ppb by auto
  show "n = unat (g_channels g) * unat (g_luns_per_channel g) * (unat (g_planes_per_lun g) * unat (g_blocks_per_plane g))"
    and "p = n * unat (g_pages_per_block g)" and "p < 4294967296"
    using n small by (simp_all add: mult.assoc)
  show "0 < unat (g_channels g)" "unat (g_channels g) \<le> 4" "0 < unat (g_luns_per_channel g)" "unat (g_luns_per_channel g) \<le> 4"
    "0 < unat (g_planes_per_lun g) * unat (g_blocks_per_plane g)"
    using c(1-6) by (simp_all add: unat_gt_0 word_le_nat_alt)
qed

section \<open>The initial heads\<close>

text \<open>The arrays of the instance have the sizes of the geometry.\<close>

definition sf_allocated :: "ftl_scale \<Rightarrow> bool" where
  "sf_allocated f \<longleftrightarrow> length (sf_blocks f) = sf_physical_blocks f \<and> length (sf_free_heap f) = sf_physical_blocks f \<and>
     length (sf_victim_heap f) = sf_physical_blocks f \<and> sf_lpn_count f \<le> length (sf_map f)"

definition heads_idle :: "ftl_scale \<Rightarrow> bool" where
  "heads_idle f \<longleftrightarrow> hs_gc_destination (sf_heads f) = SF_NONE \<and>
     (\<forall>d<hs_count (sf_heads f). slot_of f d = SF_NONE \<and> domain_size f d = 0)"

lemma heads_init_facts:
  assumes "sf_heads_init f = (True, g)"
  shows "sf_geometry_counts (sf_geometry f) = Some (sf_physical_blocks f, sf_physical_pages f)" and "g = f\<lparr>sf_heads := sf_heads g\<rparr>"
  using assms by (auto simp: sf_heads_init_def Let_def split: if_splits)

lemma heads_init_single:
  assumes init: "sf_heads_init f = (True, g)" and alloc: "sf_allocated f" and "\<not> sf_multihead f"
    and zero: "sf_host_head f = SF_NONE" "sf_free_count f = 0"
  shows "heads_laid g" and "heads_idle g"
proof -
  note g = sf_geometry_facts [OF heads_init_facts(1) [OF init]] and eq = heads_init_facts(2) [OF init]
  let ?idle = "zero_domain_index\<lparr>hd_head := SF_NONE\<rparr>"
  have multi: "\<not> sf_multihead g"
    using assms(3) by (subst eq) (simp add: sf_multihead_def)
  have heads: "sf_heads g = \<lparr>hs_domain = (replicate SF_HEAD_DOMAINS ?idle)[0 := ?idle\<lparr>hd_heap_capacity := sf_physical_blocks f\<rparr>],
      hs_count = 1, hs_per_channel = 1, hs_gc_destination = SF_NONE\<rparr>"
    using init assms(3) by (auto simp: sf_heads_init_def Let_def split: if_splits)
  have N: "sf_physical_blocks f < SF_NONE"
    using g(7-9) by auto
  have fields: "sf_physical_blocks g = sf_physical_blocks f" "sf_blocks g = sf_blocks f" "sf_free_heap g = sf_free_heap f"
    "sf_victim_heap g = sf_victim_heap f" "sf_host_head g = sf_host_head f" "sf_free_count g = sf_free_count f"
    by (subst eq, simp)+
  have "sf_head_domain g b = 0" if "b < sf_physical_blocks f" for b
    using multi that by (simp add: sf_head_domain_def heads fields)
  moreover have "card (domain_blocks g 0) \<le> sf_physical_blocks f"
    using card_mono [of "{..<sf_physical_blocks f}" "domain_blocks g 0"] by (auto simp: domain_blocks_def fields)
  ultimately show "heads_laid g"
    using multi alloc N by (simp add: heads_laid_def heads fields sf_allocated_def domain_offset_def domain_capacity_def)
  show "heads_idle g"
    using multi zero by (simp add: heads_idle_def heads fields slot_of_def domain_size_def)
qed

lemma domain_capacity_units:
  "sf_domain_capacity g pc d = domain_units (unat (g_luns_per_channel g)) pc d * (unat (g_planes_per_lun g) * unat (g_blocks_per_plane g))"
  unfolding sf_domain_capacity_def domain_units_def by (simp only: mult.assoc)

lemma domain_capacity_sum:
  assumes "sf_geometry_counts g = Some (n, p)" and "pc = units_per_channel (unat (g_channels g)) (unat (g_luns_per_channel g))"
  shows "sum_list (map (sf_domain_capacity g pc) [0..<unat (g_channels g) * pc]) = n" and "n < SF_NONE"
proof -
  note g = sf_geometry_facts [OF assms(1)]
  show "sum_list (map (sf_domain_capacity g pc) [0..<unat (g_channels g) * pc]) = n"
    unfolding ext [OF domain_capacity_units] sum_list_mult_const units_facts(5) [OF g(1-4) assms(2)] by (rule g(6) [symmetric])
  show "n < SF_NONE"
    using g(7-9) by auto
qed

text \<open>The heads depend on the geometry and the format, and a known geometry and format are accepted.\<close>

lemma heads_init_accepts:
  assumes "sf_geometry_counts (sf_geometry f) = Some (sf_physical_blocks f, sf_physical_pages f)"
    and "sf_disk_format f = SF_FORMAT_VERSION \<or> sf_format_windowed (sf_disk_format f)"
  shows "fst (sf_heads_init f)"
proof (cases "sf_multihead f")
  case True
  let ?g = "sf_geometry f"
  let ?pc = "units_per_channel (unat (g_channels ?g)) (unat (g_luns_per_channel ?g))"
  have "0 + sum_list (map (sf_domain_capacity ?g ?pc) [0..<unat (g_channels ?g) * ?pc]) < 4294967296"
    using domain_capacity_sum [OF assms(1) refl] by simp
  then have "snd (sf_domain_segments ?g ?pc [0..<unat (g_channels ?g) * ?pc] 0) = sf_physical_blocks f"
    using sf_domain_segments_nth(2) domain_capacity_sum(1) [OF assms(1) refl] by simp
  then show ?thesis
    using assms True by (auto simp: sf_heads_init_def Let_def units_per_channel_def)
next
  case False
  then show ?thesis
    using assms by (auto simp: sf_heads_init_def Let_def)
qed

lemma heads_init_multi:
  assumes init: "sf_heads_init f = (True, g)" and alloc: "sf_allocated f" and multi: "sf_multihead f"
  shows "heads_laid g" and "heads_idle g"
proof -
  let ?geo = "sf_geometry f"
  let ?ch = "unat (g_channels ?geo)" and ?lu = "unat (g_luns_per_channel ?geo)"
    and ?P = "unat (g_planes_per_lun (sf_geometry f)) * unat (g_blocks_per_plane (sf_geometry f))" and ?N = "sf_physical_blocks f"
  let ?pc = "units_per_channel ?ch ?lu"
  let ?count = "?ch * ?pc" and ?cap = "sf_domain_capacity ?geo ?pc"
  let ?seg = "sf_domain_segments ?geo ?pc [0..<?count] 0"
  note g = sf_geometry_facts [OF heads_init_facts(1) [OF init]] and eq = heads_init_facts(2) [OF init]
  note u = units_facts [OF g(1-4) refl]
  have heads: "sf_heads g = \<lparr>hs_domain = fst ?seg @ replicate (4 - ?count) (zero_domain_index\<lparr>hd_head := SF_NONE\<rparr>),
      hs_count = ?count, hs_per_channel = ?pc, hs_gc_destination = SF_NONE\<rparr>"
    using init multi by (auto simp: sf_heads_init_def Let_def units_per_channel_def split: if_splits)
  have "?N < SF_NONE"
    using g(7-9) by auto
  note N = this g(6)
  note cap = domain_capacity_units [of ?geo ?pc]
  have sum: "sum_list (map ?cap [0..<?count]) = ?N"
    by (rule domain_capacity_sum(1) [OF heads_init_facts(1) [OF init] refl])
  then have small: "0 + sum_list (map ?cap [0..<?count]) < 4294967296"
    using N(1) by simp
  note seg = sf_domain_segments_nth [OF small]
  have fields: "sf_physical_blocks g = ?N" "sf_blocks g = sf_blocks f" "sf_free_heap g = sf_free_heap f"
    "sf_victim_heap g = sf_victim_heap f" "sf_geometry g = ?geo" "sf_multihead g"
    by (subst eq, simp add: sf_multihead_def multi [unfolded sf_multihead_def])+
  have at: "sf_domain_at g d = \<lparr>hd_head = SF_NONE, hd_heap_offset = sum_list (map ?cap [0..<d]),
      hd_heap_capacity = ?cap d, hd_free_count = 0\<rparr>" if "d < ?count" for d
    using seg(1) seg(3) [of d] that by (simp add: sf_domain_at_def heads nth_append)
  have dom: "sf_head_domain g b = unit_domain ?lu ?pc (b div ?P)" if "b < ?N" for b
    using that fields u(1) g(1) by (simp add: sf_head_domain_def unit_domain_def heads Let_def)
  have blocks: "card (domain_blocks g d) = ?cap d" if "d < ?count" for d
  proof -
    have "domain_blocks g d = {b. b < ?ch * ?lu * ?P \<and> unit_domain ?lu ?pc (b div ?P) = d}"
      using dom N(2) by (auto simp: domain_blocks_def fields)
    then show ?thesis
      using card_units [OF g(5), of "?ch * ?lu" "\<lambda>l. unit_domain ?lu ?pc l = d"] u(4) [OF that] by (simp add: cap)
  qed
  have ends: "sum_list (map ?cap [0..<d]) + ?cap d \<le> sum_list (map ?cap [0..<e])" if "d < e" for d e
  proof -
    have "[0..<e] = [0..<d] @ d # [Suc d..<e]"
      using that upt_add_eq_append [of 0 d "e - d"] by (simp add: upt_conv_Cons)
    then show ?thesis
      by simp
  qed
  show "heads_laid g"
    unfolding heads_laid_def
  proof (intro conjI allI impI)
    show "sf_head_domain g b < hs_count (sf_heads g)" if "b < sf_physical_blocks g" for b
      using u(3) [of "b div ?P"] dom that N(2) by (simp add: fields heads less_mult_imp_div_less)
    fix d assume d: "d < hs_count (sf_heads g)"
    then have d': "d < ?count"
      by (simp add: heads)
    show "domain_offset g d + domain_capacity g d \<le> sf_physical_blocks g"
      using ends [OF d'] sum by (simp add: domain_offset_def domain_capacity_def fields at [OF d'])
    show "card (domain_blocks g d) \<le> domain_capacity g d"
      using blocks [OF d'] by (simp add: domain_capacity_def fields at [OF d'])
    show "domain_offset g d + domain_capacity g d \<le> domain_offset g e \<or> domain_offset g e + domain_capacity g e \<le> domain_offset g d"
      if "e < hs_count (sf_heads g)" "d \<noteq> e" for e
    proof -
      have "e < ?count" "d < e \<or> e < d"
        using that by (simp_all add: heads) linarith
      then show ?thesis
        using ends [of d e] ends [of e d] fields(6) at [OF d'] at [of e] unfolding domain_offset_def domain_capacity_def
        by (elim disjE) simp_all
    qed
  qed (use N alloc u(1,2) g(1) seg(1) in \<open>simp_all add: fields heads sf_allocated_def\<close>)
  show "heads_idle g"
    using at by (simp add: heads_idle_def heads slot_of_def domain_size_def fields)
qed

end
