(* ===== verification/Scale_Rebuild.thy ===== *)
theory Scale_Rebuild
  imports Scale_Domains
begin

text \<open>
  The rebuild of the indexes from the persistent map and block facts (\<open>sf_rebuild_indexes\<close>): where it
  answers true, the invariant of the translation layer holds. The three loops in turn: over the
  blocks, over the logical pages, over the data blocks.
\<close>

lemma sf_each_upt:
  assumes "sf_each step [a..<n] f = (True, g)" and "a \<le> n" and "P a f"
    and "\<And>i f g. a \<le> i \<Longrightarrow> i < n \<Longrightarrow> P i f \<Longrightarrow> step i f = (True, g) \<Longrightarrow> P (Suc i) g"
  shows "P n g"
  using assms
proof (induction "n - a" arbitrary: a f)
  case 0
  then show ?case
    by simp
next
  case (Suc k)
  then have a: "a < n"
    by simp
  obtain h where h: "step a f = (True, h)" "sf_each step [Suc a..<n] h = (True, g)"
    using Suc.prems(1) a by (cases "step a f") (auto simp: upt_conv_Cons Let_def split: if_splits)
  show ?case
    using Suc.hyps(1) [of "Suc a" h] Suc.hyps(2) Suc.prems(3) Suc.prems(4) [OF _ _ _ h(1)] Suc.prems(4) h(2) a by simp
qed

section \<open>The blocks\<close>

text \<open>The blocks below \<open>i\<close> are cleared and checked, and the heads are those among them.\<close>

definition blocks_upto :: "ftl_scale \<Rightarrow> nat \<Rightarrow> ftl_scale \<Rightarrow> bool" where
  "blocks_upto f i g \<longleftrightarrow> heap_frame g = heap_frame f \<and> map_frame f g \<and> sf_next_block_uid g = sf_next_block_uid f \<and>
     (\<forall>b < sf_physical_blocks f. sf_disk g b = sf_disk f b) \<and>
     (\<forall>b<i. block_facts_valid g b \<and> sb_wear (sf_block_at g b) = unat (sd_erase_generation (sf_disk g b)) \<and>
        sb_live_pages (sf_block_at g b) = 0 \<and> (\<forall>v. heap_position g b v = SF_HEAP_NONE)) \<and>
     (\<forall>d<hs_count (sf_heads f). slot_of g d = SF_NONE \<or> slot_of g d < i \<and> sf_head_domain f (slot_of g d) = d) \<and>
     (\<forall>b<i. sd_role (sf_disk f b) = SF_HOST_OPEN \<longleftrightarrow> head_slot g b = b) \<and>
     (sf_multihead f \<longrightarrow> (\<forall>b<i. sd_role (sf_disk f b) = SF_GC_DEST \<longleftrightarrow> hs_gc_destination (sf_heads g) = b) \<and>
        (hs_gc_destination (sf_heads g) = SF_NONE \<or> hs_gc_destination (sf_heads g) < i \<and>
           sd_allocation_end (sf_disk f (hs_gc_destination (sf_heads g))) = 0))"

definition block_cleared :: "nat \<Rightarrow> ftl_scale \<Rightarrow> ftl_scale" where
  "block_cleared b = sf_block_put b (\<lambda>x. x\<lparr>sb_free_heap_pos := SF_HEAP_NONE, sb_victim_heap_pos := SF_HEAP_NONE,
     sb_live_pages := 0, sb_reserved_pages := 0, sb_wear := unat (sd_erase_generation (sb_disk x))\<rparr>)"

lemma block_cleared_frame [simp]:
  "heap_frame (block_cleared b f) = heap_frame f" "map_frame f (block_cleared b f)" "heads_same f (block_cleared b f)"
  "sf_next_block_uid (block_cleared b f) = sf_next_block_uid f"
  "slot_of (block_cleared b f) d = slot_of f d" "sf_multihead (block_cleared b f) = sf_multihead f"
  by (simp_all add: block_cleared_def map_frame_def heads_same_def slot_of_def sf_domain_at_def sf_multihead_def)

lemma block_cleared_heads: "sf_heads (block_cleared b f) = sf_heads f"
  by (simp add: block_cleared_def)

lemma block_cleared_at:
  "b < length (sf_blocks f) \<Longrightarrow> sf_block_at (block_cleared b f) c = (if c = b then (sf_block_at f b)\<lparr>sb_free_heap_pos := SF_HEAP_NONE,
     sb_victim_heap_pos := SF_HEAP_NONE, sb_live_pages := 0, sb_reserved_pages := 0,
     sb_wear := unat (sd_erase_generation (sf_disk f b))\<rparr> else sf_block_at f c)"
  by (simp add: block_cleared_def sf_block_at_put)

text \<open>What one accepted step does.\<close>

lemma rebuild_block_step:
  assumes step: "rebuild_block b f = (True, g)" and laid: "heads_laid f" and b: "b < sf_physical_blocks f"
  shows "block_facts_valid (block_cleared b f) b" and "heap_frame g = heap_frame f" and "map_frame f g" and "heads_same f g"
    and "sf_next_block_uid g = sf_next_block_uid f" and "sf_block_at g c = sf_block_at (block_cleared b f) c"
    and "d < hs_count (sf_heads f) \<Longrightarrow>
      slot_of g d = (if sd_role (sf_disk f b) = SF_HOST_OPEN \<and> d = sf_head_domain f b then b else slot_of f d)"
    and "sd_role (sf_disk f b) = SF_HOST_OPEN \<Longrightarrow> slot_of f (sf_head_domain f b) = SF_NONE"
    and "hs_gc_destination (sf_heads g) =
      (if sf_multihead f \<and> sd_role (sf_disk f b) = SF_GC_DEST then b else hs_gc_destination (sf_heads f))"
    and "sf_multihead f \<Longrightarrow> sd_role (sf_disk f b) = SF_GC_DEST \<Longrightarrow>
      hs_gc_destination (sf_heads f) = SF_NONE \<and> sd_allocation_end (sf_disk f b) = 0"
proof -
  let ?u = "block_cleared b f"
  let ?v = "if sd_role (sf_disk f b) = SF_HOST_OPEN then head_slot_put b b ?u else ?u"
  have len: "b < length (sf_blocks f)"
    using laid b by (simp add: heads_laid_def)
  have disk: "sf_disk ?u b = sf_disk f b" "sf_disk ?v b = sf_disk f b" "sf_multihead ?v = sf_multihead f"
    "hs_gc_destination (sf_heads ?v) = hs_gc_destination (sf_heads f)"
    using len by (simp_all add: block_cleared_at block_cleared_heads)
  let ?gc = "sf_multihead f \<and> sd_role (sf_disk f b) = SF_GC_DEST"
  have unfold: "rebuild_block b f = (if \<not> block_facts_valid ?u b then (False, ?u)
      else if sd_role (sf_disk f b) = SF_HOST_OPEN \<and> head_slot ?u b \<noteq> SF_NONE then (False, ?u)
      else if ?gc
        then if hs_gc_destination (sf_heads f) \<noteq> SF_NONE \<or> sd_allocation_end (sf_disk f b) \<noteq> 0 then (False, ?v)
             else (True, ?v\<lparr>sf_heads := (sf_heads ?v)\<lparr>hs_gc_destination := b\<rparr>\<rparr>)
      else (True, ?v))"
    by (simp only: rebuild_block_def Let_def block_cleared_def [symmetric] disk)
  have facts: "block_facts_valid ?u b"
    and free: "sd_role (sf_disk f b) = SF_HOST_OPEN \<Longrightarrow> head_slot ?u b = SF_NONE"
    and gc: "sf_multihead f \<Longrightarrow> sd_role (sf_disk f b) = SF_GC_DEST \<Longrightarrow>
      hs_gc_destination (sf_heads f) = SF_NONE \<and> sd_allocation_end (sf_disk f b) = 0"
    and gdef: "g = (if sf_multihead f \<and> sd_role (sf_disk f b) = SF_GC_DEST
      then ?v\<lparr>sf_heads := (sf_heads ?v)\<lparr>hs_gc_destination := b\<rparr>\<rparr> else ?v)"
    using step unfolding unfold by (simp_all only: split: if_split_asm) simp_all
  show "block_facts_valid ?u b"
    by (rule facts)
  show "heap_frame g = heap_frame f" "sf_next_block_uid g = sf_next_block_uid f"
    by (simp_all add: gdef)
  show "hs_gc_destination (sf_heads g) =
      (if sf_multihead f \<and> sd_role (sf_disk f b) = SF_GC_DEST then b else hs_gc_destination (sf_heads f))"
    by (simp add: gdef block_cleared_heads)
  show "sf_block_at g c = sf_block_at ?u c"
    by (simp add: gdef)
  show "map_frame f g" "heads_same f g"
    using map_frame_trans [OF block_cleared_frame(2) head_slot_put_frame(2)]
      heads_same_trans [OF block_cleared_frame(3) head_slot_put_frame(5)] by (simp_all add: gdef)
  have dom: "sf_head_domain ?u c = sf_head_domain f c" for c
    by (rule heads_same_domain) simp
  show "slot_of f (sf_head_domain f b) = SF_NONE" if "sd_role (sf_disk f b) = SF_HOST_OPEN"
    using free [OF that] by (simp add: head_slot_domain dom)
  have ulaid: "heads_laid ?u"
    by (rule heads_laid_frame(1) [OF _ _ laid]) (simp_all add: block_cleared_def)
  show "slot_of g d = (if sd_role (sf_disk f b) = SF_HOST_OPEN \<and> d = sf_head_domain f b then b else slot_of f d)"
    if d: "d < hs_count (sf_heads f)"
  proof -
    have "b < sf_physical_blocks ?u" "d < hs_count (sf_heads ?u)"
      using b d by (simp_all add: block_cleared_def)
    then have "slot_of (head_slot_put b b ?u) d = (if d = sf_head_domain f b then b else slot_of f d)"
      using head_slot_put_slot [OF ulaid, of b d b] unfolding dom block_cleared_frame by simp
    then show ?thesis
      by (auto simp: gdef)
  qed
  show "sf_multihead f \<Longrightarrow> sd_role (sf_disk f b) = SF_GC_DEST \<Longrightarrow>
      hs_gc_destination (sf_heads f) = SF_NONE \<and> sd_allocation_end (sf_disk f b) = 0"
    by (rule gc)
qed

lemma blocks_upto_step:
  assumes upto: "blocks_upto f i g" and step: "rebuild_block i g = (True, h)" and laid: "heads_laid f" and i: "i < sf_physical_blocks f"
  shows "blocks_upto f (Suc i) h"
proof -
  have frame: "heap_frame g = heap_frame f" "map_frame f g" "sf_next_block_uid g = sf_next_block_uid f"
    and disk: "\<And>b. b < sf_physical_blocks f \<Longrightarrow> sf_disk g b = sf_disk f b"
    and old: "\<And>b. b < i \<Longrightarrow> block_facts_valid g b \<and> sb_wear (sf_block_at g b) = unat (sd_erase_generation (sf_disk g b)) \<and>
        sb_live_pages (sf_block_at g b) = 0 \<and> (\<forall>v. heap_position g b v = SF_HEAP_NONE)"
    and slots: "\<And>d. d < hs_count (sf_heads f) \<Longrightarrow> slot_of g d = SF_NONE \<or> slot_of g d < i \<and> sf_head_domain f (slot_of g d) = d"
    and roles: "\<And>b. b < i \<Longrightarrow> sd_role (sf_disk f b) = SF_HOST_OPEN \<longleftrightarrow> head_slot g b = b"
    and gc: "sf_multihead f \<Longrightarrow> (\<forall>b<i. sd_role (sf_disk f b) = SF_GC_DEST \<longleftrightarrow> hs_gc_destination (sf_heads g) = b) \<and>
        (hs_gc_destination (sf_heads g) = SF_NONE \<or> hs_gc_destination (sf_heads g) < i \<and>
           sd_allocation_end (sf_disk f (hs_gc_destination (sf_heads g))) = 0)"
    using upto unfolding blocks_upto_def by blast+
  have N: "sf_physical_blocks f < SF_NONE" "sf_physical_blocks g = sf_physical_blocks f" "i < sf_physical_blocks g"
    and len: "length (sf_blocks g) = length (sf_blocks f)" "i < length (sf_blocks g)"
    using laid i frame(2) by (simp_all add: heads_laid_def map_frame_def)
  have glaid: "heads_laid g"
    by (rule heads_laid_frame(1) [OF frame(1) len(1) laid])
  have same: "heads_same f g" "sf_multihead g = sf_multihead f"
    using heap_frame_fields [OF frame(1)] by (simp_all add: heads_same_def sf_multihead_def)
  note dom = heads_same_domain [OF same(1)]
  note s = rebuild_block_step [OF step glaid N(3)]
  have count: "hs_count (sf_heads g) = hs_count (sf_heads f)"
    using same(1) by (simp add: heads_same_def)
  have at: "sf_block_at h c = (if c = i then (sf_block_at g i)\<lparr>sb_free_heap_pos := SF_HEAP_NONE,
     sb_victim_heap_pos := SF_HEAP_NONE, sb_live_pages := 0, sb_reserved_pages := 0,
     sb_wear := unat (sd_erase_generation (sf_disk g i))\<rparr> else sf_block_at g c)" for c
    unfolding s(6) by (rule block_cleared_at [OF len(2)])
  have hmap: "map_frame f h"
    by (rule map_frame_trans [OF frame(2) s(3)])
  have disk': "sf_disk h b = sf_disk g b" for b
    by (simp add: at)
  have facts: "block_facts_valid h b = block_facts_valid g b" for b
    by (simp add: block_facts_valid_def disk' s(5) map_frame_sets [OF s(3)])
  have "block_facts_valid g i"
    using s(1) len(2) map_frame_sets(4,6) [OF block_cleared_frame(2), of i g]
    by (simp add: block_facts_valid_def block_cleared_at)
  then have cleared: "block_facts_valid h b \<and> sb_wear (sf_block_at h b) = unat (sd_erase_generation (sf_disk h b)) \<and>
        sb_live_pages (sf_block_at h b) = 0 \<and> (\<forall>v. heap_position h b v = SF_HEAP_NONE)" if "b < Suc i" for b
    using old [of b] that by (cases "b = i") (simp_all add: facts at heap_position_def all_bool_eq)
  have role: "sd_role (sf_disk g i) = sd_role (sf_disk f i)" "sd_allocation_end (sf_disk g i) = sd_allocation_end (sf_disk f i)"
    using disk [OF i] by simp_all
  have slot: "slot_of h d = (if sd_role (sf_disk f i) = SF_HOST_OPEN \<and> d = sf_head_domain f i then i else slot_of g d)"
    if "d < hs_count (sf_heads f)" for d
    using s(7) that by (simp add: count role dom)
  have hdom: "sf_head_domain h b = sf_head_domain f b" for b
    using heads_same_domain [OF s(4)] dom by simp
  have idom: "sf_head_domain f b < hs_count (sf_heads f)" if "b < sf_physical_blocks f" for b
    by (rule heads_laid_domain [OF laid that])
  have slots': "slot_of h d = SF_NONE \<or> slot_of h d < Suc i \<and> sf_head_domain f (slot_of h d) = d" if "d < hs_count (sf_heads f)" for d
    using slots [OF that] slot [OF that] by auto
  have roles': "sd_role (sf_disk f b) = SF_HOST_OPEN \<longleftrightarrow> head_slot h b = b" if b: "b < Suc i" for b
  proof -
    have h: "head_slot h b = (if sd_role (sf_disk f i) = SF_HOST_OPEN \<and> sf_head_domain f b = sf_head_domain f i then i else slot_of g (sf_head_domain f b))"
      using slot [of "sf_head_domain f b"] idom [of b] b i by (simp add: head_slot_domain hdom)
    have none: "slot_of g (sf_head_domain f i) = SF_NONE" if "sd_role (sf_disk f i) = SF_HOST_OPEN"
      using s(8) that by (simp add: role dom)
    have "slot_of g (sf_head_domain f i) \<noteq> i"
      using slots [OF idom [OF i]] N(1) i by auto
    moreover have "head_slot g b = slot_of g (sf_head_domain f b)"
      by (simp add: head_slot_domain dom)
    ultimately show ?thesis
      using h none roles [of b] b N(1) i by (cases "b = i") auto
  qed
  have gc': "(\<forall>b<Suc i. sd_role (sf_disk f b) = SF_GC_DEST \<longleftrightarrow> hs_gc_destination (sf_heads h) = b) \<and>
        (hs_gc_destination (sf_heads h) = SF_NONE \<or> hs_gc_destination (sf_heads h) < Suc i \<and>
           sd_allocation_end (sf_disk f (hs_gc_destination (sf_heads h))) = 0)" if "sf_multihead f"
  proof (cases "sd_role (sf_disk f i) = SF_GC_DEST")
    case True
    then have "hs_gc_destination (sf_heads h) = i" "hs_gc_destination (sf_heads g) = SF_NONE" "sd_allocation_end (sf_disk f i) = 0"
      using s(9,10) that same(2) role by simp_all
    then show ?thesis
      using gc [OF that] True N(1) i by (simp add: less_Suc_eq)
  next
    case False
    then have "hs_gc_destination (sf_heads h) = hs_gc_destination (sf_heads g)"
      using s(9) role by simp
    then show ?thesis
      using gc [OF that] False N(1) i by (simp add: less_Suc_eq) linarith
  qed
  have "heap_frame h = heap_frame f" "sf_next_block_uid h = sf_next_block_uid f"
    "\<forall>b < sf_physical_blocks f. sf_disk h b = sf_disk f b"
    using s(2,5) frame disk disk' by simp_all
  then show ?thesis
    using hmap cleared slots' roles' gc' unfolding blocks_upto_def by blast
qed

section \<open>The logical pages\<close>

definition mapped_upto :: "ftl_scale \<Rightarrow> nat \<Rightarrow> nat set" where
  "mapped_upto f k = {l. l < k \<and> sm_state (sf_map f ! l) = SF_VALUE}"

text \<open>The entries below \<open>k\<close> are checked, marked and counted.\<close>

definition entries_upto :: "ftl_scale \<Rightarrow> nat \<Rightarrow> ftl_scale \<Rightarrow> bool" where
  "entries_upto f k g \<longleftrightarrow> heap_frame g = heap_frame f \<and> sf_map g = sf_map f \<and> sf_next_block_uid g = sf_next_block_uid f \<and>
     sf_heads g = sf_heads f \<and> sf_host_head g = sf_host_head f \<and> length (sf_blocks g) = length (sf_blocks f) \<and>
     length (sf_validity g) = length (sf_validity f) \<and>
     (\<forall>b. (sf_block_at g b)\<lparr>sb_live_pages := 0\<rparr> = (sf_block_at f b)\<lparr>sb_live_pages := 0\<rparr>) \<and>
     (\<forall>l<k. entry_sound g (sf_map f ! l)) \<and> inj_on (sf_ppa_of f) (mapped_upto f k) \<and>
     (\<forall>p < sf_physical_pages f. sf_validity_get g p \<longleftrightarrow> p \<in> sf_ppa_of f ` mapped_upto f k) \<and>
     (\<forall>b < sf_physical_blocks f. sb_live_pages (sf_block_at g b) = card {p \<in> sf_ppa_of f ` mapped_upto f k. p div sf_ppb f = b})"

lemma entries_upto_disk:
  assumes "entries_upto f k g"
  shows "sf_disk g b = sf_disk f b" and "sb_wear (sf_block_at g b) = sb_wear (sf_block_at f b)"
    and "heap_position g b v = heap_position f b v" and "sb_reserved_pages (sf_block_at g b) = sb_reserved_pages (sf_block_at f b)"
proof -
  have "(sf_block_at g b)\<lparr>sb_live_pages := 0\<rparr> = (sf_block_at f b)\<lparr>sb_live_pages := 0\<rparr>"
    using assms by (simp add: entries_upto_def)
  from arg_cong [OF this, of sb_disk] arg_cong [OF this, of sb_wear] arg_cong [OF this, of sb_free_heap_pos]
    arg_cong [OF this, of sb_victim_heap_pos] arg_cong [OF this, of sb_reserved_pages]
  show "sf_disk g b = sf_disk f b" and "sb_wear (sf_block_at g b) = sb_wear (sf_block_at f b)"
    and "heap_position g b v = heap_position f b v" and "sb_reserved_pages (sf_block_at g b) = sb_reserved_pages (sf_block_at f b)"
    by (simp_all add: heap_position_def)
qed

lemma entries_upto_sound:
  assumes "entries_upto f k g"
  shows "entry_sound g e = entry_sound f e" and "value_entry g e = value_entry f e" and "sf_ppb g = sf_ppb f"
proof -
  have s: "heap_frame g = heap_frame f"
    using assms by (simp add: entries_upto_def)
  note h = heap_frame_fields [OF s]
  show ppb: "sf_ppb g = sf_ppb f"
    by (simp add: sf_ppb_def h)
  have "sf_data_first g = sf_data_first f"
    by (simp add: sf_data_first_def h)
  then show val: "value_entry g e = value_entry f e"
    by (simp add: value_entry_def ppb h entries_upto_disk(1) [OF assms])
  show "entry_sound g e = entry_sound f e"
    by (simp add: entry_sound_def val ppb entries_upto_disk(1) [OF assms])
qed

lemma mapped_upto_Suc:
  "mapped_upto f (Suc k) = (if sm_state (sf_map f ! k) = SF_VALUE then insert k (mapped_upto f k) else mapped_upto f k)"
  by (auto simp: mapped_upto_def less_Suc_eq)

lemma entries_upto_step:
  assumes upto: "entries_upto f k g" and step: "rebuild_entry k g = (True, h)" and shape: "sf_shape f"
  shows "entries_upto f (Suc k) h"
proof (cases "sm_state (sf_map f ! k) = SF_VALUE")
  case False
  have "sf_map g = sf_map f"
    using upto by (simp add: entries_upto_def)
  then have h: "h = g" "empty_entry (sf_map f ! k)"
    using step False by (simp_all add: rebuild_entry_def)
  then show ?thesis
    using upto False by (auto simp: entries_upto_def mapped_upto_Suc less_Suc_eq entry_sound_def)
next
  case True
  let ?e = "sf_map f ! k"
  let ?p = "sm_ppa ?e" and ?S = "sf_ppa_of f ` mapped_upto f k"
  let ?b = "?p div sf_ppb f"
  note same = entries_upto_sound [OF upto]
  have map: "sf_map g = sf_map f" and frame: "heap_frame g = heap_frame f" and len: "length (sf_blocks g) = length (sf_blocks f)"
      "length (sf_validity g) = length (sf_validity f)"
    and valid: "\<And>p. p < sf_physical_pages f \<Longrightarrow> sf_validity_get g p \<longleftrightarrow> p \<in> ?S"
    and live: "\<And>b. b < sf_physical_blocks f \<Longrightarrow> sb_live_pages (sf_block_at g b) = card {p \<in> ?S. p div sf_ppb f = b}"
    and inj: "inj_on (sf_ppa_of f) (mapped_upto f k)"
    using upto by (simp_all add: entries_upto_def)
  note fr = heap_frame_fields [OF frame]
  have e: "value_entry f ?e" "\<not> sf_validity_get g ?p" "?p mod sf_ppb f < sd_allocation_end (sf_disk f ?b)"
    and h: "h = sf_block_put ?b (\<lambda>x. x\<lparr>sb_live_pages := w16 (sb_live_pages x + 1)\<rparr>) (validity_set ?p True g)"
    using step True by (auto simp: rebuild_entry_def Let_def map same entries_upto_disk(1) [OF upto] not_le split: if_splits)
  have p: "?p < sf_physical_pages f"
    using e(1) by (simp add: value_entry_def Let_def)
  have b: "?b < sf_physical_blocks f"
    by (rule page_block [OF shape p])
  have new: "?p \<notin> ?S"
    using e(2) valid [OF p] by simp
  have bl: "?b < length (sf_blocks g)"
    using b shape len by (simp add: sf_shape_def)
  have at: "sf_block_at h c = (if c = ?b then (sf_block_at g c)\<lparr>sb_live_pages := w16 (sb_live_pages (sf_block_at g c) + 1)\<rparr> else sf_block_at g c)" for c
    using bl by (simp add: h sf_block_at_put)
  have img: "sf_ppa_of f ` mapped_upto f (Suc k) = insert ?p ?S"
    using True by (simp add: mapped_upto_Suc)
  have get: "sf_validity_get h q \<longleftrightarrow> q \<in> insert ?p ?S" if q: "q < sf_physical_pages f" for q
  proof -
    have "sf_validity_get h q = sf_validity_get (validity_set ?p True g) q"
      by (simp add: h sf_validity_get_def)
    then show ?thesis
      using validity_set_get [of g ?p q True] valid [OF q] p q shape len by (simp add: fr sf_shape_def)
  qed
  have cards: "sb_live_pages (sf_block_at h c) = card {p \<in> insert ?p ?S. p div sf_ppb f = c}" if c: "c < sf_physical_blocks f" for c
  proof (cases "c = ?b")
    case True
    have "{p \<in> insert ?p ?S. p div sf_ppb f = c} = insert ?p {p \<in> ?S. p div sf_ppb f = c}"
      using True by auto
    moreover have "card {p \<in> ?S. p div sf_ppb f = c} \<le> 64"
      using card_block_pages [of "sf_ppb f" ?S c] sf_shape_ppb [OF shape] by linarith
    moreover have "finite {p \<in> ?S. p div sf_ppb f = c}"
      by (simp add: mapped_upto_def)
    ultimately show ?thesis
      using live [OF c] new True by (simp add: at)
  next
    case False
    then have "{p \<in> insert ?p ?S. p div sf_ppb f = c} = {p \<in> ?S. p div sf_ppb f = c}"
      by auto
    then show ?thesis
      using live [OF c] False by (simp add: at)
  qed
  have sound: "entry_sound h x = entry_sound g x" for x
    by (simp add: entry_sound_def value_entry_def Let_def h sf_ppb_def sf_data_first_def sf_block_at_put)
  have "entry_sound h (sf_map f ! l)" if "l < Suc k" for l
    using that upto e True by (cases "l = k") (simp_all add: sound same entries_upto_def, simp add: entry_sound_def)
  moreover have "inj_on (sf_ppa_of f) (mapped_upto f (Suc k))"
    using inj new True by (simp add: mapped_upto_Suc) (auto simp: mapped_upto_def)
  moreover have "(sf_block_at h c)\<lparr>sb_live_pages := 0\<rparr> = (sf_block_at f c)\<lparr>sb_live_pages := 0\<rparr>" for c
    using upto by (simp add: at entries_upto_def)
  moreover have "heap_frame h = heap_frame f" "sf_map h = sf_map f" "sf_next_block_uid h = sf_next_block_uid f" "sf_heads h = sf_heads f"
    "sf_host_head h = sf_host_head f" "length (sf_blocks h) = length (sf_blocks f)" "length (sf_validity h) = length (sf_validity f)"
    using upto by (simp_all add: h entries_upto_def)
  ultimately show ?thesis
    using get cards unfolding entries_upto_def img by blast
qed

section \<open>The heaps\<close>

text \<open>The heaps hold the eligible blocks below \<open>i\<close>.\<close>

definition built_upto :: "ftl_scale \<Rightarrow> nat \<Rightarrow> ftl_scale \<Rightarrow> bool" where
  "built_upto f i g \<longleftrightarrow> heap_core g = heap_core f \<and> heads_laid g \<and>
     heaps_hold (block_key g) (free_set f \<inter> {..<i}) (victim_set f \<inter> {..<i}) g \<and>
     (\<forall>b<i. b < sf_physical_blocks f \<longrightarrow> sd_role (sf_disk f b) = SF_RECLAIM_PENDING \<longrightarrow> sb_live_pages (sf_block_at f b) = 0)"

lemma built_upto_start:
  assumes laid: "heads_laid f" and none: "\<And>b v. b < sf_physical_blocks f \<Longrightarrow> heap_position f b v = SF_HEAP_NONE"
    and zero: "sf_free_count f = 0" "sf_victim_count f = 0" "\<And>d. d < hs_count (sf_heads f) \<Longrightarrow> domain_size f d = 0"
    and meta: "\<And>b. b < sf_data_first f \<Longrightarrow> b < sf_physical_blocks f \<Longrightarrow> sd_role (sf_disk f b) = SF_META"
  shows "built_upto f (sf_data_first f) f"
proof -
  have sets: "free_set f \<inter> {..<sf_data_first f} = {}" "victim_set f \<inter> {..<sf_data_first f} = {}"
    by (auto simp: free_set_def victim_set_def free_eligible_def victim_eligible_def block_usable_def)
  have "domain_offset f d \<le> length (heap_array False f)" if "d < hs_count (sf_heads f)" for d
    using laid that by (auto simp: heads_laid_def heap_array_def)
  then have "heaps_hold (block_key f) {} {} f"
    using none zero by (simp add: heaps_hold_def heap_holds_def heap_indexed_def heap_seg_def heap_ordered_def)
  then show ?thesis
    using laid meta sets by (auto simp: built_upto_def)
qed

lemma built_upto_step:
  assumes built: "built_upto f i g" and step: "rebuild_heap i g = (True, h)" and i: "i < sf_physical_blocks f"
  shows "built_upto f (Suc i) h"
proof -
  have core: "heap_core g = heap_core f" and laid: "heads_laid g"
    and hold: "heaps_hold (block_key g) (free_set f \<inter> {..<i}) (victim_set f \<inter> {..<i}) g"
    using built by (simp_all add: built_upto_def)
  have N: "sf_physical_blocks g = sf_physical_blocks f" "length (sf_blocks f) = sf_physical_blocks f"
    using heap_core_fields(6) [OF core] heap_core_blocks(1) [OF core] laid by (simp_all add: heads_laid_def)
  have same: "sf_disk g i = sf_disk f i" "sb_live_pages (sf_block_at g i) = sb_live_pages (sf_block_at f i)"
    using heap_core_blocks(2,3) [OF core] i N(2) by simp_all
  have h: "h = sf_heap_refresh i g" and pend: "sd_role (sf_disk f i) = SF_RECLAIM_PENDING \<Longrightarrow> sb_live_pages (sf_block_at f i) = 0"
    using step by (auto simp: rebuild_heap_def same split: if_splits)
  have elig: "free_eligible g i = free_eligible f i" "victim_eligible g i = victim_eligible f i"
    using eligible_core [OF core] i N(2) by simp_all
  have keys: "key_but i g v (block_key g v) M" for v M
    by (simp add: key_but_def)
  have ig: "i < sf_physical_blocks g"
    using i N(1) by simp
  note r = heap_refresh_holds [OF laid hold keys keys ig h]
  have "member_update i (free_eligible g i) (free_set f \<inter> {..<i}) = free_set f \<inter> {..<Suc i}"
    "member_update i (victim_eligible g i) (victim_set f \<inter> {..<i}) = victim_set f \<inter> {..<Suc i}"
    using i by (auto simp: member_update_def elig free_set_def victim_set_def less_Suc_eq)
  then show ?thesis
    using r core built pend by (auto simp: built_upto_def less_Suc_eq)
qed

lemma built_upto_end:
  assumes built: "built_upto f n g" and n: "sf_physical_blocks f \<le> n"
  shows "heaps_ok g" and "heap_core g = heap_core f"
proof -
  have core: "heap_core g = heap_core f" and laid: "heads_laid g"
    and hold: "heaps_hold (block_key g) (free_set f \<inter> {..<n}) (victim_set f \<inter> {..<n}) g"
    using built by (simp_all add: built_upto_def)
  have N: "sf_physical_blocks g = sf_physical_blocks f" "length (sf_blocks f) = sf_physical_blocks f"
    using heap_core_fields(6) [OF core] heap_core_blocks(1) [OF core] laid by (simp_all add: heads_laid_def)
  have "free_set f \<inter> {..<n} = free_set g" "victim_set f \<inter> {..<n} = victim_set g"
    using eligible_core [OF core] N n by (auto simp: free_set_def victim_set_def)
  then show "heaps_ok g"
    using laid hold by (simp add: heaps_ok_def)
  show "heap_core g = heap_core f"
    by (rule core)
qed

lemma sf_each_from:
  assumes "sf_each step [a..<n] f = (True, g)" and "P a f"
    and "\<And>i f g. a \<le> i \<Longrightarrow> i < n \<Longrightarrow> P i f \<Longrightarrow> step i f = (True, g) \<Longrightarrow> P (Suc i) g"
  shows "P (max a n) g"
proof (cases "a \<le> n")
  case True
  then show ?thesis
    using sf_each_upt [of step a n f g P] assms by (simp add: max_def)
next
  case False
  then show ?thesis
    using assms(1,2) by (simp add: max_def)
qed

section \<open>The rebuild as a whole\<close>

definition rebuild_base :: "ftl_scale \<Rightarrow> ftl_scale" where
  "rebuild_base f = (snd (sf_heads_init (f\<lparr>sf_free_count := 0, sf_victim_count := 0, sf_host_head := SF_NONE\<rparr>)))
     \<lparr>sf_validity := replicate ((sf_physical_pages f + 7) div 8) 0\<rparr>"

lemma rebuild_phases:
  assumes "sf_rebuild_indexes f = (True, g)"
  obtains f2 f3 where "fst (sf_heads_init (f\<lparr>sf_free_count := 0, sf_victim_count := 0, sf_host_head := SF_NONE\<rparr>))"
    and "sf_each rebuild_block [0..<sf_physical_blocks f] (rebuild_base f) = (True, f2)"
    and "\<not> sf_multihead f2 \<or> hs_gc_destination (sf_heads f2) = SF_NONE \<or> sf_heads_empty f2"
    and "sf_each rebuild_entry [0..<sf_lpn_count f] f2 = (True, f3)"
    and "sf_each rebuild_heap [sf_data_first f..<sf_physical_blocks f] f3 = (True, g)"
proof -
  let ?r0 = "sf_heads_init (f\<lparr>sf_free_count := 0, sf_victim_count := 0, sf_host_head := SF_NONE\<rparr>)"
  let ?r1 = "sf_each rebuild_block [0..<sf_physical_blocks f] (rebuild_base f)"
  let ?r2 = "sf_each rebuild_entry [0..<sf_lpn_count f] (snd ?r1)"
  have "fst ?r0" "fst ?r1" "fst ?r2" "\<not> (sf_multihead (snd ?r1) \<and> hs_gc_destination (sf_heads (snd ?r1)) \<noteq> SF_NONE \<and> \<not> sf_heads_empty (snd ?r1))"
    "sf_each rebuild_heap [sf_data_first f..<sf_physical_blocks f] (snd ?r2) = (True, g)"
    using assms unfolding sf_rebuild_indexes_def Let_def rebuild_base_def [symmetric] by (auto split: if_splits)
  then show ?thesis
    by (intro that [of "snd ?r1" "snd ?r2"]) (auto simp: prod_eq_iff)
qed

lemma rebuild_base_facts:
  assumes ok: "fst (sf_heads_init (f\<lparr>sf_free_count := 0, sf_victim_count := 0, sf_host_head := SF_NONE\<rparr>))" and alloc: "sf_allocated f"
  shows "heads_laid (rebuild_base f)" and "heads_idle (rebuild_base f)" and "sf_shape (rebuild_base f)"
    and "sf_map (rebuild_base f) = sf_map f" and "sf_blocks (rebuild_base f) = sf_blocks f" and "sf_physical_blocks (rebuild_base f) = sf_physical_blocks f"
    and "sf_root (rebuild_base f) = sf_root f" and "sf_free_count (rebuild_base f) = 0" and "sf_victim_count (rebuild_base f) = 0"
    and "\<not> sf_validity_get (rebuild_base f) p" and "sf_next_block_uid (rebuild_base f) = sf_next_block_uid f"
    and "sf_geometry (rebuild_base f) = sf_geometry f" and "sf_physical_pages (rebuild_base f) = sf_physical_pages f"
    and "sf_disk_format (rebuild_base f) = sf_disk_format f"
proof -
  let ?f = "f\<lparr>sf_free_count := 0, sf_victim_count := 0, sf_host_head := SF_NONE\<rparr>" and ?b = "rebuild_base f"
  obtain g where init: "sf_heads_init ?f = (True, g)"
    using ok by (cases "sf_heads_init ?f") simp
  have base: "?b = g\<lparr>sf_validity := replicate ((sf_physical_pages f + 7) div 8) 0\<rparr>"
    by (simp add: rebuild_base_def init)
  note g = sf_geometry_facts [OF heads_init_facts(1) [OF init]] and eq = heads_init_facts(2) [OF init]
  have al: "sf_allocated ?f"
    using alloc by (simp add: sf_allocated_def sf_lpn_count_def)
  have laid: "heads_laid g" "heads_idle g"
    using heads_init_single [OF init al] heads_init_multi [OF init al] by (cases "sf_multihead ?f"; simp)+
  show "heads_laid ?b"
    by (rule heads_laid_frame(1) [OF _ _ laid(1)]) (simp_all add: base heap_frame_def)
  show "heads_idle ?b"
  proof -
    have "slot_of ?b d = slot_of g d" "domain_size ?b d = domain_size g d" for d
      by (simp_all add: base slot_of_def domain_size_def sf_multihead_def sf_domain_at_def)
    then show ?thesis
      using laid(2) by (simp add: heads_idle_def) (simp add: base)
  qed
  have fields: "sf_map ?b = sf_map f" "sf_blocks ?b = sf_blocks f" "sf_physical_blocks ?b = sf_physical_blocks f"
    "sf_root ?b = sf_root f" "sf_free_count ?b = 0" "sf_victim_count ?b = 0" "sf_next_block_uid ?b = sf_next_block_uid f"
    "sf_geometry ?b = sf_geometry f" "sf_physical_pages ?b = sf_physical_pages f" "sf_disk_format ?b = sf_disk_format f"
    by (simp add: base, subst eq, simp)+
  show "sf_map ?b = sf_map f" "sf_blocks ?b = sf_blocks f" "sf_physical_blocks ?b = sf_physical_blocks f"
    "sf_root ?b = sf_root f" "sf_free_count ?b = 0" "sf_victim_count ?b = 0" "sf_next_block_uid ?b = sf_next_block_uid f"
    "sf_geometry ?b = sf_geometry f" "sf_physical_pages ?b = sf_physical_pages f" "sf_disk_format ?b = sf_disk_format f"
    by (rule fields)+
  show "sf_shape ?b"
    using g alloc by (simp add: sf_shape_def sf_ppb_def sf_lpn_count_def sf_allocated_def fields) (simp add: base)
  show "\<not> sf_validity_get ?b p"
    by (simp add: validity_get_bit fields) (simp add: base)
qed

lemma rebuild_blocks:
  assumes ok: "fst (sf_heads_init (f\<lparr>sf_free_count := 0, sf_victim_count := 0, sf_host_head := SF_NONE\<rparr>))" and alloc: "sf_allocated f"
    and each: "sf_each rebuild_block [0..<sf_physical_blocks f] (rebuild_base f) = (True, g)"
  shows "blocks_upto (rebuild_base f) (sf_physical_blocks f) g" and "entries_upto g 0 g" and "heads_laid g" and "sf_shape g"
proof -
  note base = rebuild_base_facts [OF ok alloc]
  show upto: "blocks_upto (rebuild_base f) (sf_physical_blocks f) g"
  proof (rule sf_each_upt [OF each])
    show "blocks_upto (rebuild_base f) 0 (rebuild_base f)"
      using base(2) by (simp add: blocks_upto_def heads_idle_def map_frame_def)
    show "blocks_upto (rebuild_base f) (Suc i) k" if "i < sf_physical_blocks f" "blocks_upto (rebuild_base f) i h" "rebuild_block i h = (True, k)" for i h k
      using blocks_upto_step [OF that(2,3) base(1)] that(1) base(6) by simp
  qed simp
  have frame: "map_frame (rebuild_base f) g" "heap_frame g = heap_frame (rebuild_base f)"
    and live: "\<And>b. b < sf_physical_blocks f \<Longrightarrow> sb_live_pages (sf_block_at g b) = 0"
    using upto by (simp_all add: blocks_upto_def)
  have "length (sf_blocks g) = length (sf_blocks (rebuild_base f))" "sf_physical_blocks g = sf_physical_blocks f"
    using frame(1) base(6) by (simp_all add: map_frame_def)
  note N = this
  show "heads_laid g"
    by (rule heads_laid_frame(1) [OF frame(2) N(1) base(1)])
  show "sf_shape g"
    using base(3) map_frame_sets(8) [OF frame(1)] by simp
  show "entries_upto g 0 g"
    using base(10) map_frame_sets(7) [OF frame(1)] live by (simp add: entries_upto_def mapped_upto_def N)
qed

text \<open>The state after the loop over the logical pages.\<close>

lemma rebuild_entries:
  assumes upto: "blocks_upto b (sf_physical_blocks b) f" and idle: "heads_idle b" and blaid: "heads_laid b" and laid: "heads_laid f"
    and shape: "sf_shape f" and gc: "\<not> sf_multihead f \<or> hs_gc_destination (sf_heads f) = SF_NONE \<or> sf_heads_empty f"
    and entries: "entries_upto f (sf_lpn_count f) g" and zero: "sf_free_count b = 0" "sf_victim_count b = 0"
  shows "map_inv g" and "heads_inv g" and "heads_laid g" and "c < sf_physical_blocks b \<Longrightarrow> heap_position g c v = SF_HEAP_NONE"
    and "c < sf_physical_blocks b \<Longrightarrow> block_facts_valid g c \<and> sb_wear (sf_block_at g c) = unat (sd_erase_generation (sf_disk g c))"
    and "d < hs_count (sf_heads g) \<Longrightarrow> domain_size g d = 0" and "heap_frame g = heap_frame b" and "sf_map g = sf_map b"
    and "c < sf_physical_blocks b \<Longrightarrow> sf_disk g c = sf_disk b c" and "built_upto g (sf_data_first g) g"
    and "sf_next_block_uid g = sf_next_block_uid b"
proof -
  note disk = entries_upto_disk [OF entries] and sound = entries_upto_sound [OF entries]
  have frame: "heap_frame f = heap_frame b" "map_frame b f" "heap_frame g = heap_frame f" "sf_map g = sf_map f" "sf_heads g = sf_heads f"
    "sf_host_head g = sf_host_head f" "length (sf_blocks g) = length (sf_blocks f)" "sf_next_block_uid g = sf_next_block_uid f"
    "length (sf_validity g) = length (sf_validity f)" "\<And>c. c < sf_physical_blocks b \<Longrightarrow> sf_disk f c = sf_disk b c"
    using upto entries by (simp_all add: blocks_upto_def entries_upto_def)
  show "heap_frame g = heap_frame b" "sf_map g = sf_map b" "sf_next_block_uid g = sf_next_block_uid b"
    using frame upto by (simp_all add: map_frame_def blocks_upto_def)
  show "c < sf_physical_blocks b \<Longrightarrow> sf_disk g c = sf_disk b c"
    using frame(10) disk(1) by simp
  note hb = heap_frame_fields [OF frame(1)] and hf = heap_frame_fields [OF frame(3)]
  have counts: "sf_lpn_count g = sf_lpn_count f" "sf_data_first g = sf_data_first f" "sf_multihead g = sf_multihead f" "sf_multihead f = sf_multihead b"
    by (simp_all add: sf_lpn_count_def sf_data_first_def sf_multihead_def hb hf)
  show glaid: "heads_laid g"
    by (rule heads_laid_frame(1) [OF frame(3,7) laid])
  have blen: "length (sf_blocks f) = length (sf_blocks b)"
    using frame(2) by (simp add: map_frame_def)
  have size: "domain_size g d = 0" if "d < hs_count (sf_heads g)" for d
    using heads_laid_frame(2) [OF frame(3,7) laid, of d] heads_laid_frame(2) [OF frame(1) blen blaid, of d] idle that
    by (simp add: heads_idle_def hb hf)
  then show "d < hs_count (sf_heads g) \<Longrightarrow> domain_size g d = 0" .
  have none: "heap_position g c v = SF_HEAP_NONE" if "c < sf_physical_blocks b" for c v
    using upto that by (simp add: blocks_upto_def disk(3))
  then show "c < sf_physical_blocks b \<Longrightarrow> heap_position g c v = SF_HEAP_NONE" .
  have facts: "block_facts_valid g c \<and> sb_wear (sf_block_at g c) = unat (sd_erase_generation (sf_disk g c))"
    if "c < sf_physical_blocks b" for c
  proof -
    have "block_facts_valid g c = block_facts_valid f c"
      by (simp add: block_facts_valid_def disk(1) sound(3) counts frame(8))
    then show ?thesis
      using upto that by (simp add: blocks_upto_def disk(1,2))
  qed
  then show "c < sf_physical_blocks b \<Longrightarrow>
      block_facts_valid g c \<and> sb_wear (sf_block_at g c) = unat (sd_erase_generation (sf_disk g c))" .
  show "built_upto g (sf_data_first g) g"
    using built_upto_start [OF glaid] none size zero facts by (simp add: hb hf block_facts_valid_def Let_def)
  have "mapped_upto f (sf_lpn_count f) = {l. mapped g l}"
    by (simp add: mapped_upto_def mapped_def counts frame(4))
  then have "sf_ppa_of f ` mapped_upto f (sf_lpn_count f) = live_ppas g" "inj_on (sf_ppa_of g) {l. mapped g l}"
    using entries by (simp_all add: live_ppas_def frame(4) entries_upto_def)
  then show "map_inv g"
    using entries shape unfolding map_inv_def live_in_def
    by (simp add: entries_upto_def counts sound(3) hf frame(4)) (simp add: sf_shape_def sound(3) counts hf frame(4,7,9))
  have same: "heads_same f g" "heads_same b f"
    by (simp_all add: heads_same_def counts hb hf)
  have slot: "slot_of g d = slot_of f d" for d
    by (simp add: slot_of_def counts sf_domain_at_def frame(5,6))
  have fdom: "sf_head_domain f c = sf_head_domain b c" for c
    by (rule heads_same_domain [OF same(2)])
  have fphys: "sf_physical_blocks f = sf_physical_blocks b" "hs_count (sf_heads f) = hs_count (sf_heads b)"
    by (simp_all add: hb)
  let ?gc = "hs_gc_destination (sf_heads f)"
  have dest: "\<forall>c < sf_physical_blocks b. sd_role (sf_disk b c) = SF_GC_DEST \<longleftrightarrow> ?gc = c"
    "?gc = SF_NONE \<or> ?gc < sf_physical_blocks b \<and> sd_allocation_end (sf_disk b ?gc) = 0" if "sf_multihead b"
    using upto that unfolding blocks_upto_def by blast+
  have "?gc = SF_NONE \<or> ?gc < sf_physical_blocks b \<and> sd_allocation_end (sf_disk f ?gc) = 0 \<and> sf_heads_empty f" if "sf_multihead b"
    using dest(2) [OF that] frame(10) [of ?gc] gc that counts(4) by auto
  then have "heads_inv f"
    using upto dest(1) unfolding heads_inv_def blocks_upto_def fphys fdom counts(4) by (simp add: frame(10))
  then show "heads_inv g"
    by (rule heads_inv_frame [OF _ laid glaid same(1)]) (simp_all add: frame(5) slot disk(1))
qed

text \<open>Two states with the same persistent facts.\<close>

definition facts_agree :: "ftl_scale \<Rightarrow> ftl_scale \<Rightarrow> bool" where
  "facts_agree f b \<longleftrightarrow> sf_physical_blocks b = sf_physical_blocks f \<and> sf_physical_pages b = sf_physical_pages f \<and>
     sf_geometry b = sf_geometry f \<and> sf_root b = sf_root f \<and> sf_disk_format b = sf_disk_format f \<and>
     sf_next_block_uid b = sf_next_block_uid f \<and> sf_map b = sf_map f \<and>
     hs_count (sf_heads b) = hs_count (sf_heads f) \<and> hs_per_channel (sf_heads b) = hs_per_channel (sf_heads f) \<and>
     (\<forall>c < sf_physical_blocks f. sf_disk b c = sf_disk f c)"

lemma facts_agree_trans: "facts_agree f g \<Longrightarrow> facts_agree g h \<Longrightarrow> facts_agree f h"
  by (simp add: facts_agree_def)

lemma facts_agree_frame:
  assumes "facts_agree f b" and "heap_frame g = heap_frame b" and "sf_next_block_uid g = sf_next_block_uid b" and "sf_map g = sf_map b"
    and "\<And>c. c < sf_physical_blocks b \<Longrightarrow> sf_disk g c = sf_disk b c"
  shows "facts_agree f g"
  using assms heap_frame_fields [OF assms(2)] by (simp add: facts_agree_def)

theorem rebuild_inv:
  assumes rebuild: "sf_rebuild_indexes f = (True, g)" and alloc: "sf_allocated f"
  shows "sf_inv g" and "sf_map g = sf_map f" and "b < sf_physical_blocks f \<Longrightarrow> sf_disk g b = sf_disk f b"
    and "sf_physical_blocks g = sf_physical_blocks f" and "facts_agree (rebuild_base f) g"
proof -
  obtain f2 f3 where ok: "fst (sf_heads_init (f\<lparr>sf_free_count := 0, sf_victim_count := 0, sf_host_head := SF_NONE\<rparr>))"
    and e1: "sf_each rebuild_block [0..<sf_physical_blocks f] (rebuild_base f) = (True, f2)"
    and gc: "\<not> sf_multihead f2 \<or> hs_gc_destination (sf_heads f2) = SF_NONE \<or> sf_heads_empty f2"
    and e2: "sf_each rebuild_entry [0..<sf_lpn_count f] f2 = (True, f3)"
    and e3: "sf_each rebuild_heap [sf_data_first f..<sf_physical_blocks f] f3 = (True, g)"
    by (rule rebuild_phases [OF rebuild])
  note base = rebuild_base_facts [OF ok alloc] and r1 = rebuild_blocks [OF ok alloc e1]
  have frame: "heap_frame f2 = heap_frame (rebuild_base f)"
    using r1(1) by (simp add: blocks_upto_def)
  have lpns: "sf_lpn_count f2 = sf_lpn_count f"
    by (simp add: sf_lpn_count_def heap_frame_fields [OF frame] base)
  have "entries_upto f2 (sf_lpn_count f2) f3"
    unfolding lpns by (rule sf_each_upt [OF e2, where P = "entries_upto f2"]) (simp, rule r1(2), rule entries_upto_step [OF _ _ r1(4)])
  note r2 = rebuild_entries [OF r1(1) [folded base(6)] base(2,1) r1(3,4) gc this base(8,9), unfolded base(6)]
  note h = heap_frame_fields [OF r2(7)]
  have N: "sf_physical_blocks f3 = sf_physical_blocks f" "sf_data_first f3 = sf_data_first f"
    by (simp_all add: h base sf_data_first_def)
  have built: "built_upto f3 (max (sf_data_first f) (sf_physical_blocks f)) g"
    by (rule sf_each_from [OF e3, where P = "built_upto f3"], rule r2(10) [unfolded N]) (rule built_upto_step, auto simp: N)
  have "sf_physical_blocks f3 \<le> max (sf_data_first f) (sf_physical_blocks f)"
    by (simp add: N)
  note g = built_upto_end [OF built this]
  have len: "length (sf_blocks f3) = sf_physical_blocks f3"
    using r2(3) by (simp add: heads_laid_def)
  have "blocks_inv f3"
    using r2(5) built by (simp add: blocks_inv_def N built_upto_def)
  then show "sf_inv g"
    using map_inv_core [OF g(2) r2(1)] blocks_inv_core [OF g(2) len] heads_inv_core [OF g(2) r2(3) heaps_ok_laid [OF g(1)] r2(2)] g(1)
    by (simp add: sf_inv_def)
  show "sf_map g = sf_map f" "sf_physical_blocks g = sf_physical_blocks f"
    using heap_core_fields [OF g(2)] r2(8) by (simp_all add: base N)
  show "sf_disk g b = sf_disk f b" if "b < sf_physical_blocks f"
    using heap_core_blocks(2) [OF g(2), of b] len that r2(9) [OF that] by (simp add: N base(5) sf_block_at_def)
  have "facts_agree (rebuild_base f) f3"
    using r2(8,9,11) by (simp add: facts_agree_def h base(6))
  then show "facts_agree (rebuild_base f) g"
    using heap_core_fields [OF g(2)] heap_core_domains [OF g(2)] heap_core_blocks(2) [OF g(2)] len
    by (simp add: facts_agree_def)
qed

text \<open>A state whose heads have the number of domains the geometry gives.\<close>

definition sf_mounted :: "ftl_scale \<Rightarrow> bool" where
  "sf_mounted f \<longleftrightarrow> sf_allocated f \<and> fst (sf_heads_init f) \<and>
     hs_count (sf_heads (snd (sf_heads_init f))) = hs_count (sf_heads f) \<and>
     hs_per_channel (sf_heads (snd (sf_heads_init f))) = hs_per_channel (sf_heads f)"

lemma heads_init_frame:
  assumes "sf_geometry g = sf_geometry f" "sf_physical_blocks g = sf_physical_blocks f" "sf_physical_pages g = sf_physical_pages f"
    "sf_disk_format g = sf_disk_format f"
  shows "fst (sf_heads_init g) = fst (sf_heads_init f)"
    and "fst (sf_heads_init f) \<Longrightarrow> sf_heads (snd (sf_heads_init g)) = sf_heads (snd (sf_heads_init f))"
  by (auto simp: sf_heads_init_def Let_def assms sf_multihead_def)

lemma rebuild_mounted:
  assumes rebuild: "sf_rebuild_indexes f = (True, g)" and alloc: "sf_allocated f"
  shows "sf_mounted g"
proof -
  let ?f = "f\<lparr>sf_free_count := 0, sf_victim_count := 0, sf_host_head := SF_NONE\<rparr>" and ?b = "rebuild_base f"
  note r = rebuild_inv [OF rebuild alloc]
  have ok: "fst (sf_heads_init ?f)"
    by (rule rebuild_phases [OF rebuild])
  note base = rebuild_base_facts [OF ok alloc]
  have "sf_heads ?b = sf_heads (snd (sf_heads_init ?f))"
    by (simp add: rebuild_base_def)
  moreover have "sf_geometry g = sf_geometry ?b" "sf_physical_blocks g = sf_physical_blocks ?b" "sf_physical_pages g = sf_physical_pages ?b"
    "sf_disk_format g = sf_disk_format ?b" "hs_count (sf_heads g) = hs_count (sf_heads ?b)" "hs_per_channel (sf_heads g) = hs_per_channel (sf_heads ?b)"
    using r(5) by (simp_all add: facts_agree_def)
  moreover have "sf_allocated g"
    using r(1) by (simp add: sf_inv_def map_inv_def sf_shape_def heaps_ok_def heads_laid_def sf_allocated_def)
  ultimately show ?thesis
    using ok heads_init_frame [of g ?f] by (simp add: sf_mounted_def base)
qed

end
