(* ===== verification/Scale_Frame.thy ===== *)
theory Scale_Frame
  imports Scale_Mapping
begin

text \<open>
  What no operation of the mapping changes: geometry, layout, format, the number of head domains and
  the sizes of the arrays.
\<close>

definition sf_frame :: "ftl_scale \<Rightarrow> nfc_geometry \<times> sf_root \<times> nat \<times> nat \<times> u16 \<times> nat \<times> nat \<times> nat \<times> nat \<times> nat \<times> nat" where
  "sf_frame f = (sf_geometry f, sf_root f, sf_physical_blocks f, sf_physical_pages f, sf_disk_format f,
     hs_count (sf_heads f), hs_per_channel (sf_heads f), length (sf_blocks f), length (sf_free_heap f),
     length (sf_victim_heap f), length (sf_map f))"

lemma sf_frame_writes [simp]:
  "sf_frame (sf_block_put b u f) = sf_frame f" "sf_frame (sf_disk_put b w f) = sf_frame f" "sf_frame (sf_domain_put d x f) = sf_frame f"
  "sf_frame (heap_put v i c f) = sf_frame f" "sf_frame (heap_position_put b v i f) = sf_frame f"
  "sf_frame (validity_set p y f) = sf_frame f"
  "sf_frame (f\<lparr>sf_free_count := n\<rparr>) = sf_frame f" "sf_frame (f\<lparr>sf_victim_count := n\<rparr>) = sf_frame f"
  "sf_frame (f\<lparr>sf_host_head := n\<rparr>) = sf_frame f" "sf_frame (f\<lparr>sf_next_block_uid := q\<rparr>) = sf_frame f"
  "sf_frame (f\<lparr>sf_garbage_collections := q\<rparr>) = sf_frame f" "sf_frame (f\<lparr>sf_map := (sf_map f)[l := e]\<rparr>) = sf_frame f"
  "sf_frame (f\<lparr>sf_heads := (sf_heads f)\<lparr>hs_gc_destination := n\<rparr>\<rparr>) = sf_frame f"
  "sf_frame (f\<lparr>sf_erase_intent_block := n, sf_erase_intent_sequence := q\<rparr>) = sf_frame f"
  "sf_frame (f\<lparr>sf_record_sequence := q, sf_map_sequence := r, sf_durable_frontier := t\<rparr>) = sf_frame f"
  by (simp_all add: sf_frame_def sf_block_put_def sf_disk_put_def sf_domain_put_def heap_put_def heap_position_put_def validity_set_def Let_def)

section \<open>What the heaps do not touch\<close>

text \<open>
  An observation of the state that the basic writes to the heaps leave alone is left alone by every
  heap operation.
\<close>

locale heap_blind =
  fixes ob :: "ftl_scale \<Rightarrow> 'a"
  assumes ob_put: "ob (heap_put v i c f) = ob f"
    and ob_position: "ob (heap_position_put b v i f) = ob f"
    and ob_size: "ob (heap_size_put b v n f) = ob f"
    and ob_count: "ob (f\<lparr>sf_free_count := n\<rparr>) = ob f"
begin

lemma ob_swap: "ob (heap_swap off a b v f) = ob f"
  by (simp add: heap_swap_def Let_def ob_put ob_position)

lemma ob_up: "ob (snd (heap_up off p v f)) = ob f"
  by (induction off p v f rule: heap_up.induct) (subst heap_up.simps, simp add: Let_def ob_swap)

lemma ob_down: "ob (heap_down off n p v f) = ob f"
  by (induction off n p v f rule: heap_down.induct) (subst heap_down.simps, simp add: Let_def ob_swap)

lemma ob_fix: "ob (heap_fix off n p v f) = ob f"
  by (simp add: heap_fix_def Let_def ob_up ob_down)

lemma ob_update: "ob (heap_update b v e f) = ob f"
proof -
  have "ob (heap_remove b v f) = ob f" "ob (heap_insert b v f) = ob f"
    by (simp_all add: heap_remove_def heap_insert_def Let_def ob_fix ob_put ob_position ob_size)
  then show ?thesis
    by (simp add: heap_update_def Let_def ob_count)
qed

lemma ob_refresh: "ob (sf_heap_refresh b f) = ob f"
  by (simp add: sf_heap_refresh_def ob_update)

end

interpretation fixed_part: heap_blind sf_frame
  by unfold_locales (simp_all add: heap_size_put_def)

interpretation logical_map: heap_blind sf_map
  by unfold_locales (simp_all add: heap_put_def heap_position_put_def sf_block_put_def heap_size_put_def sf_domain_put_def)

interpretation disk_facts: heap_blind "\<lambda>f. map sb_disk (sf_blocks f)"
proof
  have "map sb_disk ((sf_blocks f)[b := x]) = map sb_disk (sf_blocks f)" if "sb_disk x = sb_disk (sf_blocks f ! b)" for f :: ftl_scale and b x
    using that by (cases "b < length (sf_blocks f)") (simp_all add: map_update list_update_beyond, metis list_update_id map_update nth_map length_map)
  then show "map sb_disk (sf_blocks (heap_position_put b v i f)) = map sb_disk (sf_blocks f)" for b v i f
    by (simp add: heap_position_put_def sf_block_put_def)
qed (simp_all add: heap_put_def heap_size_put_def sf_domain_put_def)

lemma sf_disk_refresh:
  assumes "c < length (sf_blocks f)"
  shows "sf_disk (sf_heap_refresh b f) c = sf_disk f c"
proof -
  have "length (sf_blocks (sf_heap_refresh b f)) = length (sf_blocks f)"
    using disk_facts.ob_refresh [of b f] by (rule map_eq_imp_length_eq)
  then show ?thesis
    using arg_cong [OF disk_facts.ob_refresh [of b f], of "\<lambda>xs. xs ! c"] assms by (simp add: sf_block_at_def)
qed

declare fixed_part.ob_refresh [simp] logical_map.ob_refresh [simp]

section \<open>The operations\<close>

lemma sf_frame_slot [simp]: "sf_frame (head_slot_put b n f) = sf_frame f"
  by (simp add: head_slot_put_def)

lemma sf_frame_delta [simp]: "sf_frame (delta_apply d f) = sf_frame f"
  by (simp add: delta_apply_def delta_install_def delta_release_def Let_def)

lemma sf_frame_deltas [simp]: "sf_frame (fold (\<lambda>i. delta_apply (ds ! i)) is f) = sf_frame f"
  by (induction "is" arbitrary: f) simp_all

lemma sf_frame_open [simp]: "sf_frame (open_apply r f) = sf_frame f"
  by (simp add: open_apply_def Let_def) (simp add: sf_frame_def sf_disk_put_def sf_block_put_def)

lemma sf_frame_mapping [simp]: "sf_frame (mapping_apply r f) = sf_frame f"
  by (simp add: mapping_apply_def gc_finish_def host_finish_def Let_def)

lemma sf_frame_others [simp]:
  "sf_frame (close_apply r f) = sf_frame f" "sf_frame (erase_intent_apply r f) = sf_frame f" "sf_frame (erase_done_apply r f) = sf_frame f"
  by (simp_all add: close_apply_def erase_intent_apply_def erase_done_apply_def)

lemma sf_frame_record [simp]: "sf_frame (record_apply r f) = sf_frame f"
  by (simp add: record_apply_def Let_def)

lemma sf_frame_seal [simp]: "sf_frame (seal_block b f) = sf_frame f"
  by (simp add: seal_block_def Let_def)

text \<open>Only mapping records write the map.\<close>

lemma sf_map_writes [simp]:
  "sf_map (sf_disk_put b w f) = sf_map f" "sf_map (head_slot_put b n f) = sf_map f"
  by (simp_all add: sf_disk_put_def sf_block_put_def head_slot_put_def sf_domain_put_def)

lemma sf_map_record:
  "sf_map (record_apply r f) = (if record_mapping r then sf_map (fold (\<lambda>i. delta_apply (sj_delta r ! i)) [0..<sj_count r] f) else sf_map f)"
proof -
  have "sf_map (open_apply r f) = sf_map f" "sf_map (close_apply r f) = sf_map f" "sf_map (erase_intent_apply r f) = sf_map f"
    "sf_map (erase_done_apply r f) = sf_map f"
    by (simp_all add: open_apply_def close_apply_def erase_intent_apply_def erase_done_apply_def sf_block_put_def Let_def)
  moreover have "sf_map (mapping_apply r f) = sf_map (fold (\<lambda>i. delta_apply (sj_delta r ! i)) [0..<sj_count r] f)"
    by (simp add: mapping_apply_def gc_finish_def host_finish_def sf_block_put_def Let_def)
  ultimately show ?thesis
    by (auto simp: record_apply_def record_mapping_def record_window_def Let_def)
qed

end
