(* ===== verification/Scale_Rebuild_Total.thy ===== *)
theory Scale_Rebuild_Total
  imports Scale_Rebuild Scale_Frame
begin

text \<open>
  The rebuild accepts the persistent part of every state in which the invariant holds, and computes the
  indexes that were kept incrementally.
\<close>

lemma sf_each_total:
  assumes "a \<le> n" and "P a f"
    and "\<And>i f. a \<le> i \<Longrightarrow> i < n \<Longrightarrow> P i f \<Longrightarrow> fst (step i f) \<and> P (Suc i) (snd (step i f))"
  shows "\<exists>g. sf_each step [a..<n] f = (True, g) \<and> P n g"
  using assms
proof (induction "n - a" arbitrary: a f)
  case 0
  then show ?case
    by simp
next
  case (Suc k)
  then have "a < n" "fst (step a f)" "P (Suc a) (snd (step a f))"
    using Suc.prems(3) [of a f] by simp_all
  then show ?case
    using Suc.hyps(1) [of "Suc a" "snd (step a f)"] Suc.hyps(2) Suc.prems(3) by (simp add: upt_conv_Cons Let_def)
qed

lemma facts_agree_domain: "facts_agree f b \<Longrightarrow> sf_head_domain b c = sf_head_domain f c"
  by (simp add: facts_agree_def sf_head_domain_def sf_multihead_def)

lemma facts_agree_block: "facts_agree f b \<Longrightarrow> c < sf_physical_blocks f \<Longrightarrow> block_facts_valid b c = block_facts_valid f c"
  by (simp add: facts_agree_def block_facts_valid_def sf_ppb_def sf_data_first_def)

lemma rebuild_block_accepts:
  assumes inv: "sf_inv f" and agree: "facts_agree f b" and laid: "heads_laid b" and upto: "blocks_upto b i g" and i: "i < sf_physical_blocks b"
  shows "fst (rebuild_block i g)"
proof -
  let ?u = "block_cleared i g"
  have N: "sf_physical_blocks b = sf_physical_blocks f" and disk: "sf_disk b i = sf_disk f i"
    using agree i by (simp_all add: facts_agree_def)
  have frame: "heap_frame g = heap_frame b" "map_frame b g" "sf_next_block_uid g = sf_next_block_uid b" "sf_disk g i = sf_disk b i"
    using upto i by (simp_all add: blocks_upto_def)
  note h = heap_frame_fields [OF frame(1)]
  have len: "i < length (sf_blocks g)" and big: "sf_physical_blocks b < SF_NONE"
    using frame(2) laid i by (simp_all add: map_frame_def heads_laid_def)
  have multi: "sf_multihead g = sf_multihead b" "sf_multihead b = sf_multihead f"
    using agree by (simp_all add: sf_multihead_def h facts_agree_def)
  have finv: "heads_inv f" "block_facts_valid f i"
    using inv i N by (simp_all add: sf_inv_def blocks_inv_def)
  have dom: "sf_head_domain g c = sf_head_domain b c" "sf_head_domain b c = sf_head_domain f c" for c
    using facts_agree_domain [OF agree] heads_same_domain [of b g] by (simp_all add: heads_same_def h multi)
  have cleared: "sf_disk ?u i = sf_disk f i"
    using len by (simp add: block_cleared_at frame(4) disk)
  have "block_facts_valid ?u i = block_facts_valid b i"
    using map_frame_sets(4,6) [OF map_frame_trans [OF frame(2) block_cleared_frame(2)]]
    by (simp add: block_facts_valid_def cleared disk frame(3))
  then have facts: "block_facts_valid ?u i"
    using facts_agree_block [OF agree] finv(2) i N by simp
  have slot: "head_slot ?u i = slot_of g (sf_head_domain b i)"
    using heads_same_domain [OF block_cleared_frame(3), of i g] dom by (simp add: head_slot_domain)
  have roles: "\<And>c. c < i \<Longrightarrow> sd_role (sf_disk b c) = SF_HOST_OPEN \<longleftrightarrow> head_slot g c = c"
    and slots: "\<And>d. d < hs_count (sf_heads b) \<Longrightarrow> slot_of g d = SF_NONE \<or> slot_of g d < i \<and> sf_head_domain b (slot_of g d) = d"
    using upto by (simp_all add: blocks_upto_def)
  have free: "head_slot ?u i = SF_NONE" if role: "sd_role (sf_disk f i) = SF_HOST_OPEN"
  proof (rule ccontr)
    assume "\<not> ?thesis"
    then have c: "slot_of g (sf_head_domain b i) < i" "sf_head_domain b (slot_of g (sf_head_domain b i)) = sf_head_domain b i"
      using slots [OF heads_laid_domain [OF laid i]] slot by auto
    let ?c = "slot_of g (sf_head_domain b i)"
    have "sd_role (sf_disk b ?c) = SF_HOST_OPEN"
      using roles [OF c(1)] c(2) by (simp add: head_slot_domain dom)
    then have "head_slot f ?c = ?c" "head_slot f i = i"
      using finv(1) c(1) i role agree by (simp_all add: heads_inv_def facts_agree_def)
    then show False
      using c dom by (simp add: head_slot_domain)
  qed
  have "hs_gc_destination (sf_heads g) = SF_NONE \<and> sd_allocation_end (sf_disk f i) = 0"
    if gc: "sf_multihead f" "sd_role (sf_disk f i) = SF_GC_DEST"
  proof -
    have "hs_gc_destination (sf_heads f) = i" "sd_allocation_end (sf_disk f i) = 0"
      using finv(1) gc i N big by (auto simp: heads_inv_def)
    moreover have "\<forall>c<i. sd_role (sf_disk b c) = SF_GC_DEST \<longleftrightarrow> hs_gc_destination (sf_heads g) = c"
      "hs_gc_destination (sf_heads g) = SF_NONE \<or> hs_gc_destination (sf_heads g) < i"
      using upto gc(1) multi(2) unfolding blocks_upto_def by blast+
    moreover have "sd_role (sf_disk b c) = SF_GC_DEST \<longleftrightarrow> hs_gc_destination (sf_heads f) = c" if "c < i" for c
      using finv(1) gc(1) that i N agree by (simp add: heads_inv_def facts_agree_def)
    ultimately show ?thesis
      by auto
  qed
  then show ?thesis
    using facts free unfolding rebuild_block_def block_cleared_def [symmetric] Let_def
    by (auto simp: cleared multi block_cleared_heads)
qed

lemma rebuild_entry_accepts:
  assumes inv: "map_inv f" and agree: "facts_agree f b" and upto: "entries_upto b k g" and k: "k < sf_lpn_count f"
  shows "fst (rebuild_entry k g)"
proof -
  let ?e = "sf_map f ! k"
  note same = entries_upto_sound [OF upto]
  have shape: "sf_shape f"
    using inv by (simp add: map_inv_def)
  have map: "sf_map g = sf_map f" "sf_map b = sf_map f" and ppb: "sf_ppb b = sf_ppb f" "sf_data_first b = sf_data_first f"
    "sf_physical_pages b = sf_physical_pages f"
    using upto agree by (simp_all add: entries_upto_def facts_agree_def sf_ppb_def sf_data_first_def)
  have disk: "sf_disk b c = sf_disk f c" if "c < sf_physical_blocks f" for c
    using agree that by (simp add: facts_agree_def)
  have sound: "entry_sound f ?e"
    using inv k by (simp add: map_inv_def)
  show ?thesis
  proof (cases "sm_state ?e = SF_VALUE")
    case True
    then have e: "value_entry f ?e" "sm_ppa ?e mod sf_ppb f < sd_allocation_end (sf_disk f (sm_ppa ?e div sf_ppb f))"
      using sound by (simp_all add: entry_sound_def)
    then have p: "sm_ppa ?e < sf_physical_pages f"
      by (simp add: value_entry_def Let_def)
    note c = page_block [OF shape p]
    have "value_entry b ?e"
      using e(1) disk [OF c] by (simp add: value_entry_def Let_def ppb)
    moreover have "sm_ppa ?e \<notin> sf_ppa_of b ` mapped_upto b k"
    proof
      assume "sm_ppa ?e \<in> sf_ppa_of b ` mapped_upto b k"
      then obtain l where l: "l < k" "mapped f l" "sf_ppa_of f l = sf_ppa_of f k"
        using k by (auto simp: mapped_upto_def map mapped_def)
      moreover have "mapped f k"
        using True k by (simp add: mapped_def)
      ultimately show False
        using inv by (auto simp: map_inv_def inj_on_def)
    qed
    then have "\<not> sf_validity_get g (sm_ppa ?e)"
      using upto p by (simp add: entries_upto_def ppb)
    ultimately show ?thesis
      using e(2) disk [OF c] True by (simp add: rebuild_entry_def Let_def map same entries_upto_disk(1) [OF upto] ppb not_le)
  next
    case False
    then show ?thesis
      using sound by (simp add: rebuild_entry_def map entry_sound_def)
  qed
qed

lemma sf_mounted_frame:
  assumes "sf_frame g = sf_frame f" and "sf_mounted f"
  shows "sf_mounted g"
proof -
  have "sf_allocated g" "hs_count (sf_heads g) = hs_count (sf_heads f)" "hs_per_channel (sf_heads g) = hs_per_channel (sf_heads f)"
    "sf_geometry g = sf_geometry f" "sf_physical_blocks g = sf_physical_blocks f" "sf_physical_pages g = sf_physical_pages f"
    "sf_disk_format g = sf_disk_format f"
    using assms by (simp_all add: sf_frame_def sf_mounted_def sf_allocated_def sf_lpn_count_def)
  then show ?thesis
    using assms(2) heads_init_frame [of g f] by (simp add: sf_mounted_def)
qed

text \<open>The heads are determined by the roles of the blocks.\<close>

definition heads_match :: "ftl_scale \<Rightarrow> bool" where
  "heads_match f \<longleftrightarrow>
     (\<forall>d<hs_count (sf_heads f). slot_of f d = SF_NONE \<or> slot_of f d < sf_physical_blocks f \<and> sf_head_domain f (slot_of f d) = d) \<and>
     (\<forall>b < sf_physical_blocks f. sd_role (sf_disk f b) = SF_HOST_OPEN \<longleftrightarrow> head_slot f b = b) \<and>
     (sf_multihead f \<longrightarrow> (\<forall>b < sf_physical_blocks f. sd_role (sf_disk f b) = SF_GC_DEST \<longleftrightarrow> hs_gc_destination (sf_heads f) = b) \<and>
        (hs_gc_destination (sf_heads f) = SF_NONE \<or> hs_gc_destination (sf_heads f) < sf_physical_blocks f))"

lemma heads_inv_match: "heads_inv f \<Longrightarrow> heads_match f"
  unfolding heads_inv_def heads_match_def by blast

lemma blocks_upto_match:
  assumes "blocks_upto b (sf_physical_blocks b) g"
  shows "heads_match g"
proof -
  have frame: "heap_frame g = heap_frame b" and disk: "\<And>c. c < sf_physical_blocks b \<Longrightarrow> sf_disk g c = sf_disk b c"
    using assms by (simp_all add: blocks_upto_def)
  note h = heap_frame_fields [OF frame]
  have multi: "sf_multihead g = sf_multihead b"
    by (simp add: sf_multihead_def h)
  have dom: "sf_head_domain g c = sf_head_domain b c" for c
    by (rule heads_same_domain) (simp add: heads_same_def h multi)
  show ?thesis
    using assms unfolding heads_match_def blocks_upto_def by (simp add: h multi dom disk) blast
qed

lemma heads_determined:
  assumes match: "heads_match f" "heads_match g" and agree: "facts_agree f g"
  shows "d < hs_count (sf_heads f) \<Longrightarrow> slot_of g d = slot_of f d"
    and "sf_multihead f \<Longrightarrow> hs_gc_destination (sf_heads g) = hs_gc_destination (sf_heads f)"
proof -
  have N: "sf_physical_blocks g = sf_physical_blocks f" "hs_count (sf_heads g) = hs_count (sf_heads f)" "sf_multihead g = sf_multihead f"
    and role: "\<And>c. c < sf_physical_blocks f \<Longrightarrow> sf_disk g c = sf_disk f c"
    using agree by (simp_all add: facts_agree_def sf_multihead_def)
  note dom = facts_agree_domain [OF agree]
  have slot: "slot_of g d = c \<longleftrightarrow> slot_of f d = c" if c: "c < sf_physical_blocks f" and d: "sf_head_domain f c = d" for c d
  proof -
    have "sd_role (sf_disk f c) = SF_HOST_OPEN \<longleftrightarrow> slot_of f d = c"
      using match(1) c d by (simp add: heads_match_def head_slot_domain)
    moreover have "sd_role (sf_disk g c) = SF_HOST_OPEN \<longleftrightarrow> slot_of g d = c"
      using match(2) c d by (simp add: heads_match_def head_slot_domain N dom)
    ultimately show ?thesis
      using role [OF c] by simp
  qed
  show "slot_of g d = slot_of f d" if d: "d < hs_count (sf_heads f)"
  proof -
    have "slot_of f d = SF_NONE \<or> slot_of f d < sf_physical_blocks f \<and> sf_head_domain f (slot_of f d) = d"
      "slot_of g d = SF_NONE \<or> slot_of g d < sf_physical_blocks f \<and> sf_head_domain f (slot_of g d) = d"
      using match d by (simp_all add: heads_match_def N dom)
    then show ?thesis
      using slot [of "slot_of f d" d] slot [of "slot_of g d" d] by auto
  qed
  show "hs_gc_destination (sf_heads g) = hs_gc_destination (sf_heads f)" if multi: "sf_multihead f"
  proof -
    let ?x = "hs_gc_destination (sf_heads f)" and ?y = "hs_gc_destination (sf_heads g)"
    have "?x = c \<longleftrightarrow> ?y = c" if c: "c < sf_physical_blocks f" for c
    proof -
      have "sd_role (sf_disk f c) = SF_GC_DEST \<longleftrightarrow> ?x = c" "sd_role (sf_disk g c) = SF_GC_DEST \<longleftrightarrow> ?y = c"
        using match multi c unfolding heads_match_def N by blast+
      then show ?thesis
        using role [OF c] by simp
    qed
    moreover have "?x = SF_NONE \<or> ?x < sf_physical_blocks f" "?y = SF_NONE \<or> ?y < sf_physical_blocks f"
      using match multi by (auto simp: heads_match_def N)
    ultimately show ?thesis
      by auto
  qed
qed

lemma rebuild_base_agrees:
  assumes mounted: "sf_mounted f"
  shows "fst (sf_heads_init (f\<lparr>sf_free_count := 0, sf_victim_count := 0, sf_host_head := SF_NONE\<rparr>))" and "facts_agree f (rebuild_base f)"
proof -
  let ?f = "f\<lparr>sf_free_count := 0, sf_victim_count := 0, sf_host_head := SF_NONE\<rparr>" and ?b = "rebuild_base f"
  have ok: "fst (sf_heads_init f)" and alloc: "sf_allocated f"
    using mounted by (simp_all add: sf_mounted_def)
  show ok': "fst (sf_heads_init ?f)"
    using ok heads_init_frame(1) [of ?f f] by simp
  note base = rebuild_base_facts [OF ok' alloc]
  have "sf_heads ?b = sf_heads (snd (sf_heads_init f))"
    using heads_init_frame(2) [of ?f f, OF _ _ _ _ ok] by (simp add: rebuild_base_def)
  then show "facts_agree f ?b"
    using mounted by (simp add: facts_agree_def base sf_mounted_def sf_block_at_def)
qed

text \<open>The bitmap and the live counts are determined by the map.\<close>

lemma map_determined:
  assumes f: "map_inv f" and g: "map_inv g" and agree: "facts_agree f g"
  shows "p < sf_physical_pages f \<Longrightarrow> sf_validity_get g p = sf_validity_get f p"
    and "b < sf_physical_blocks f \<Longrightarrow> sb_live_pages (sf_block_at g b) = sb_live_pages (sf_block_at f b)"
proof -
  have "live_ppas g = live_ppas f" "live_in g b = live_in f b"
    using agree by (simp_all add: facts_agree_def live_ppas_def live_in_def mapped_def sf_lpn_count_def sf_ppb_def)
  then show "p < sf_physical_pages f \<Longrightarrow> sf_validity_get g p = sf_validity_get f p"
    and "b < sf_physical_blocks f \<Longrightarrow> sb_live_pages (sf_block_at g b) = sb_live_pages (sf_block_at f b)"
    using f g agree by (simp_all add: map_inv_def facts_agree_def)
qed

section \<open>No loop fails\<close>

lemma blocks_total:
  assumes inv: "sf_inv f" and mounted: "sf_mounted f"
  obtains g where "sf_each rebuild_block [0..<sf_physical_blocks f] (rebuild_base f) = (True, g)" and "facts_agree f g"
    and "\<not> sf_multihead g \<or> hs_gc_destination (sf_heads g) = SF_NONE \<or> sf_heads_empty g"
proof -
  let ?b = "rebuild_base f"
  have alloc: "sf_allocated f" and finv: "heads_inv f" "heads_laid f"
    using sf_inv_parts [OF inv] mounted by (simp_all add: sf_mounted_def heaps_ok_laid)
  note ok = rebuild_base_agrees [OF mounted]
  note base = rebuild_base_facts [OF ok(1) alloc]
  have "\<exists>g. sf_each rebuild_block [0..<sf_physical_blocks f] ?b = (True, g) \<and> blocks_upto ?b (sf_physical_blocks f) g"
  proof (rule sf_each_total)
    show "blocks_upto ?b 0 ?b"
      using base(2) by (simp add: blocks_upto_def heads_idle_def map_frame_def)
    show "fst (rebuild_block i g) \<and> blocks_upto ?b (Suc i) (snd (rebuild_block i g))"
      if "i < sf_physical_blocks f" "blocks_upto ?b i g" for i g
    proof -
      have i: "i < sf_physical_blocks ?b" and acc: "fst (rebuild_block i g)"
        using that(1) rebuild_block_accepts [OF inv ok(2) base(1) that(2)] by (simp_all add: base(6))
      then have "rebuild_block i g = (True, snd (rebuild_block i g))"
        by (simp add: prod_eq_iff)
      then show ?thesis
        using blocks_upto_step [OF that(2) _ base(1) i] acc by blast
    qed
  qed simp
  then obtain g where each: "sf_each rebuild_block [0..<sf_physical_blocks f] ?b = (True, g)"
    by blast
  note r = rebuild_blocks [OF ok(1) alloc each]
  have agree: "facts_agree f g"
    by (rule facts_agree_frame [OF ok(2)]) (use r(1) in \<open>simp_all add: blocks_upto_def map_frame_def\<close>)
  note same = heads_determined [OF heads_inv_match [OF finv(1)] blocks_upto_match [OF r(1) [folded base(6)]] agree]
  have "sf_multihead g = sf_multihead f" "hs_count (sf_heads g) = hs_count (sf_heads f)"
    using agree by (simp_all add: facts_agree_def sf_multihead_def)
  then have "\<not> sf_multihead g \<or> hs_gc_destination (sf_heads g) = SF_NONE \<or> sf_heads_empty g"
    using finv same by (auto simp: heads_inv_def heads_empty_iff [OF finv(2)] heads_empty_iff [OF r(3)])
  then show ?thesis
    using that each agree by blast
qed

lemma entries_total:
  assumes inv: "map_inv f" and agree: "facts_agree f b" and start: "entries_upto b 0 b" and shape: "sf_shape b"
  obtains g where "sf_each rebuild_entry [0..<sf_lpn_count f] b = (True, g)" and "entries_upto b (sf_lpn_count b) g"
proof -
  have lpns: "sf_lpn_count b = sf_lpn_count f"
    using agree by (simp add: facts_agree_def sf_lpn_count_def)
  have "\<exists>g. sf_each rebuild_entry [0..<sf_lpn_count f] b = (True, g) \<and> entries_upto b (sf_lpn_count f) g"
  proof (rule sf_each_total)
    show "fst (rebuild_entry i g) \<and> entries_upto b (Suc i) (snd (rebuild_entry i g))"
      if "i < sf_lpn_count f" "entries_upto b i g" for i g
    proof -
      have acc: "fst (rebuild_entry i g)"
        by (rule rebuild_entry_accepts [OF inv agree that(2,1)])
      then have "rebuild_entry i g = (True, snd (rebuild_entry i g))"
        by (simp add: prod_eq_iff)
      then show ?thesis
        using entries_upto_step [OF that(2) _ shape] acc by blast
    qed
  qed (simp, rule start)
  then show ?thesis
    using that lpns by auto
qed

lemma heaps_total:
  assumes start: "built_upto f a f"
    and pend: "\<And>b. b < n \<Longrightarrow> sd_role (sf_disk f b) = SF_RECLAIM_PENDING \<Longrightarrow> sb_live_pages (sf_block_at f b) = 0"
    and n: "n = sf_physical_blocks f"
  obtains g where "sf_each rebuild_heap [a..<n] f = (True, g)"
proof (cases "a \<le> n")
  case True
  have "\<exists>g. sf_each rebuild_heap [a..<n] f = (True, g) \<and> built_upto f n g"
  proof (rule sf_each_total [OF True, where P = "built_upto f"], rule start)
    show "fst (rebuild_heap i g) \<and> built_upto f (Suc i) (snd (rebuild_heap i g))" if i: "i < n" and built: "built_upto f i g" for i g
    proof -
      have core: "heap_core g = heap_core f" and "heads_laid g"
        using built by (simp_all add: built_upto_def)
      then have "i < length (sf_blocks f)"
        using i n heap_core_blocks(1) [OF core] heap_core_fields(6) [OF core] by (simp add: heads_laid_def)
      then have acc: "fst (rebuild_heap i g)"
        using pend [OF i] heap_core_blocks(2,3) [OF core] by (simp add: rebuild_heap_def)
      then have "rebuild_heap i g = (True, snd (rebuild_heap i g))"
        by (simp add: prod_eq_iff)
      then show ?thesis
        using built_upto_step [OF built] i n acc by blast
    qed
  qed
  then show ?thesis
    using that by blast
qed (use that in simp)

theorem rebuild_total:
  assumes inv: "sf_inv f" and mounted: "sf_mounted f"
  obtains g where "sf_rebuild_indexes f = (True, g)" and "facts_agree f g"
proof -
  have parts: "map_inv f" "blocks_inv f" and alloc: "sf_allocated f"
    using sf_inv_parts [OF inv] mounted by (simp_all add: sf_mounted_def)
  note ok = rebuild_base_agrees [OF mounted]
  note base = rebuild_base_facts [OF ok(1) alloc]
  obtain f2 where e1: "sf_each rebuild_block [0..<sf_physical_blocks f] (rebuild_base f) = (True, f2)" "facts_agree f f2"
    and gc: "\<not> sf_multihead f2 \<or> hs_gc_destination (sf_heads f2) = SF_NONE \<or> sf_heads_empty f2"
    by (rule blocks_total [OF inv mounted])
  note r1 = rebuild_blocks [OF ok(1) alloc e1(1)]
  obtain f3 where e2: "sf_each rebuild_entry [0..<sf_lpn_count f] f2 = (True, f3)" "entries_upto f2 (sf_lpn_count f2) f3"
    by (rule entries_total [OF parts(1) e1(2) r1(2,4)])
  note r2 = rebuild_entries [OF r1(1) [folded base(6)] base(2,1) r1(3,4) gc e2(2) base(8,9), unfolded base(6)]
  have agree: "facts_agree f f3"
    by (rule facts_agree_frame [OF e1(2)]) (use e2(2) entries_upto_disk(1) [OF e2(2)] in \<open>simp_all add: entries_upto_def\<close>)
  have N: "sf_physical_blocks f3 = sf_physical_blocks f" "sf_data_first f3 = sf_data_first f"
    using agree by (simp_all add: facts_agree_def sf_data_first_def)
  have pend: "sb_live_pages (sf_block_at f3 b) = 0" if "b < sf_physical_blocks f" "sd_role (sf_disk f3 b) = SF_RECLAIM_PENDING" for b
    using map_determined(2) [OF parts(1) r2(1) agree that(1)] parts(2) agree that by (simp add: blocks_inv_def facts_agree_def)
  obtain g where e3: "sf_each rebuild_heap [sf_data_first f..<sf_physical_blocks f] f3 = (True, g)"
    using heaps_total [OF r2(10) [unfolded N] pend N(1) [symmetric]] by blast
  have rebuild: "sf_rebuild_indexes f = (True, g)"
    using ok(1) e1(1) e2(1) e3 gc unfolding sf_rebuild_indexes_def Let_def rebuild_base_def [symmetric] by auto
  show ?thesis
    by (rule that [OF rebuild facts_agree_trans [OF ok(2) rebuild_inv(5) [OF rebuild alloc]]])
qed

end
