(* ===== verification/Scale_Heads_Laws.thy ===== *)
theory Scale_Heads_Laws
  imports Scale_Rebuild_Total
begin

text \<open>
  The allocation heads: sealing the open blocks after a recovery, reserving and returning pages at the
  tail of a head, and the choice of the free block to open next.
\<close>

section \<open>Sealing\<close>

abbreviation sealed :: "ftl_scale \<Rightarrow> nat \<Rightarrow> bool" where
  "sealed f b \<equiv> sd_role (sf_disk f b) \<notin> {SF_HOST_OPEN, SF_GC_DEST}"

definition sealed_disk :: "ftl_scale \<Rightarrow> nat \<Rightarrow> sf_block_disk" where
  "sealed_disk f b =
     (let d = (if sealed f b then sf_disk f b else (sf_disk f b)\<lparr>sd_role := SF_CLOSED, sd_allocation_end := sf_ppb f\<rparr>)
      in if sd_role d = SF_CLOSED \<and> sb_live_pages (sf_block_at f b) = 0 then d\<lparr>sd_role := SF_RECLAIM_PENDING\<rparr> else d)"

lemma seal_block_eq:
  assumes "b < length (sf_blocks f)"
  shows "seal_block b f = sf_heap_refresh b (sf_disk_put b (\<lambda>_. sealed_disk f b) f)"
  using assms
  by (simp add: seal_block_def Let_def sealed_disk_def sf_disk_put_at)
     (simp add: sf_disk_put_def sf_block_put_def sf_block_at_def)

lemma sealed_disk_cases:
  assumes "sd_allocation_end (sf_disk f b) \<le> sf_ppb f"
  obtains "sealed_disk f b = sf_disk f b"
  | r e where "sealed_disk f b = (sf_disk f b)\<lparr>sd_role := r, sd_allocation_end := e\<rparr>" and "r = SF_CLOSED \<or> r = SF_RECLAIM_PENDING"
    and "e \<le> sf_ppb f" and "sd_role (sf_disk f b) = SF_HOST_OPEN \<or> sd_role (sf_disk f b) = SF_GC_DEST \<or> sd_role (sf_disk f b) = SF_CLOSED"
proof (cases "sealed f b \<and> \<not> (sd_role (sf_disk f b) = SF_CLOSED \<and> sb_live_pages (sf_block_at f b) = 0)")
  case True
  then show ?thesis
    using that(1) by (auto simp: sealed_disk_def Let_def)
next
  case False
  let ?e = "if sealed f b then sd_allocation_end (sf_disk f b) else sf_ppb f"
  have "sealed_disk f b = (sf_disk f b)\<lparr>sd_role := sd_role (sealed_disk f b), sd_allocation_end := ?e\<rparr>"
    "sd_role (sealed_disk f b) = SF_CLOSED \<or> sd_role (sealed_disk f b) = SF_RECLAIM_PENDING"
    using False by (auto simp: sealed_disk_def Let_def)
  then show ?thesis
    using that(2) [where r = "sd_role (sealed_disk f b)" and e = ?e] assms False by auto
qed

lemma sealed_disk_facts:
  assumes inv: "map_inv f" "blocks_inv f" and b: "b < sf_physical_blocks f"
  shows "sd_role (sealed_disk f b) \<notin> {SF_HOST_OPEN, SF_GC_DEST}"
    and "sd_role (sf_disk f b) \<in> {SF_FREE, SF_META, SF_BAD} \<or> disk_serves (sf_disk f b) (sealed_disk f b)"
    and "sd_role (sealed_disk f b) = SF_RECLAIM_PENDING \<Longrightarrow> sb_live_pages (sf_block_at f b) = 0"
    and "sd_erase_generation (sealed_disk f b) = sd_erase_generation (sf_disk f b)"
proof -
  have facts: "block_facts_valid f b" and pend: "sd_role (sf_disk f b) = SF_RECLAIM_PENDING \<Longrightarrow> sb_live_pages (sf_block_at f b) = 0"
    using inv(2) b by (simp_all add: blocks_inv_def)
  show "sd_role (sealed_disk f b) \<notin> {SF_HOST_OPEN, SF_GC_DEST}"
    "sd_role (sealed_disk f b) = SF_RECLAIM_PENDING \<Longrightarrow> sb_live_pages (sf_block_at f b) = 0"
    "sd_erase_generation (sealed_disk f b) = sd_erase_generation (sf_disk f b)"
    using pend by (auto simp: sealed_disk_def Let_def split: if_splits)
  have "sd_allocation_end (sf_disk f b) \<le> sf_ppb f"
    using facts by (simp add: block_facts_valid_def Let_def)
  then show "sd_role (sf_disk f b) \<in> {SF_FREE, SF_META, SF_BAD} \<or> disk_serves (sf_disk f b) (sealed_disk f b)"
    by (auto simp: sealed_disk_def Let_def disk_serves_def)
qed

lemma seal_block_parts:
  assumes parts: "map_inv f" "blocks_inv f" "heaps_ok f" and b: "b < sf_physical_blocks f"
  shows "map_inv (seal_block b f)" and "blocks_inv (seal_block b f)" and "heaps_ok (seal_block b f)"
    and "sf_disk (seal_block b f) c = (if c = b then sealed_disk f b else sf_disk f c) \<or> sf_physical_blocks f \<le> c"
proof -
  let ?g = "sf_disk_put b (\<lambda>_. sealed_disk f b) f"
  have len: "length (sf_blocks f) = sf_physical_blocks f"
    using parts(1) by (simp add: map_inv_def sf_shape_def)
  have eq: "seal_block b f = sf_heap_refresh b ?g"
    using b len by (intro seal_block_eq) simp
  note s = sealed_disk_facts [OF parts(1,2) b]
  have at: "sf_block_at ?g c = (if c = b then (sf_block_at f b)\<lparr>sb_disk := sealed_disk f b\<rparr> else sf_block_at f c)" for c
    using b len by (simp add: sf_disk_put_at)
  have sets: "sf_ppb ?g = sf_ppb f" "sf_data_first ?g = sf_data_first f" "sf_next_block_uid ?g = sf_next_block_uid f"
    using map_frame_sets(4,6) [OF sf_disk_put_fields(9)] by simp_all
  have disk: "sf_disk ?g b = sealed_disk f b" "\<And>c. c \<noteq> b \<Longrightarrow> sf_disk ?g c = sf_disk f c"
    by (simp_all add: at)
  have facts: "block_facts_valid ?g c" if "c < sf_physical_blocks f" for c
  proof -
    have old: "block_facts_valid f c"
      using parts(2) that by (simp add: blocks_inv_def)
    show ?thesis
    proof (cases "c = b")
      case True
      have "sd_allocation_end (sf_disk f b) \<le> sf_ppb f"
        using old True by (simp add: block_facts_valid_def Let_def)
      then show ?thesis
      proof (cases rule: sealed_disk_cases)
        case 1
        show ?thesis
          using old unfolding True block_facts_valid_def disk(1) sets unfolding 1 .
      next
        case (2 r e)
        show ?thesis
          using old 2(2-4) unfolding True block_facts_valid_def Let_def disk(1) sets unfolding 2(1) by (elim disjE) simp_all
      qed
    next
      case False
      show ?thesis
        using old unfolding block_facts_valid_def disk(2) [OF False] sets .
    qed
  qed
  have wear: "sb_wear (sf_block_at f b) = unat (sd_erase_generation (sf_disk f b))"
    using parts(2) b by (simp add: blocks_inv_def)
  have serve: "live_in f b = {} \<or> disk_serves (sf_disk f b) (sf_disk ?g b)"
    using s(2) role_empty [OF parts(1), of b] by (auto simp: at)
  have pre: "\<And>c. c \<noteq> b \<Longrightarrow> sf_block_at ?g c = sf_block_at f c" "\<And>v. heap_position ?g b v = heap_position f b v"
    "sb_live_pages (sf_block_at ?g b) = sb_live_pages (sf_block_at f b)"
    "sb_wear (sf_block_at ?g b) = unat (sd_erase_generation (sf_disk ?g b))"
    "sd_role (sf_disk ?g b) = SF_RECLAIM_PENDING \<Longrightarrow> sb_live_pages (sf_block_at f b) = 0"
    using s(3,4) wear by (simp_all add: at)
  note r = block_change_parts [OF parts b sf_disk_put_fields(7,9) pre(1-3) serve facts pre(4,5) eq]
  show "map_inv (seal_block b f)" and "blocks_inv (seal_block b f)" and "heaps_ok (seal_block b f)"
    by (rule r(1-3); assumption)+
  have core: "heap_core (seal_block b f) = heap_core ?g"
    by (rule r(5))
  show "sf_disk (seal_block b f) c = (if c = b then sealed_disk f b else sf_disk f c) \<or> sf_physical_blocks f \<le> c"
    using heap_core_blocks(2) [OF core, of c] len by (cases "c < sf_physical_blocks f") (simp_all add: at)
qed

lemma sf_frame_fields:
  assumes "sf_frame g = sf_frame f"
  shows "sf_geometry g = sf_geometry f" "sf_root g = sf_root f" "sf_physical_blocks g = sf_physical_blocks f"
    "sf_physical_pages g = sf_physical_pages f" "sf_disk_format g = sf_disk_format f" "hs_count (sf_heads g) = hs_count (sf_heads f)"
  using assms by (simp_all add: sf_frame_def)

lemma seal_blocks_parts:
  assumes "map_inv f" "blocks_inv f" "heaps_ok f" and "set bs \<subseteq> {..<sf_physical_blocks f}" and "g = fold seal_block bs f"
  shows "map_inv g" and "blocks_inv g" and "heaps_ok g" and "sf_frame g = sf_frame f"
    and "\<And>c. c < sf_physical_blocks f \<Longrightarrow> c \<in> set bs \<or> sealed f c \<Longrightarrow> sealed g c"
proof -
  have "map_inv g \<and> blocks_inv g \<and> heaps_ok g \<and> sf_frame g = sf_frame f \<and>
      (\<forall>c < sf_physical_blocks f. c \<in> set bs \<or> sealed f c \<longrightarrow> sealed g c)"
    using assms
  proof (induction bs arbitrary: f)
    case (Cons b bs)
    let ?f = "seal_block b f"
    have b: "b < sf_physical_blocks f"
      using Cons.prems(4) by simp
    note p = seal_block_parts [OF Cons.prems(1-3) b] and s = sealed_disk_facts(1) [OF Cons.prems(1,2) b]
    have frame: "sf_physical_blocks ?f = sf_physical_blocks f"
      using sf_frame_fields(3) [OF sf_frame_seal] by simp
    have "sealed ?f c" if "c < sf_physical_blocks f" "c = b \<or> sealed f c" for c
      using p(4) [of c] that s by auto
    then show ?case
      using Cons.IH [OF p(1-3)] Cons.prems(4,5) by (simp add: frame)
  qed simp
  then show "map_inv g" and "blocks_inv g" and "heaps_ok g" and "sf_frame g = sf_frame f"
    and "\<And>c. c < sf_physical_blocks f \<Longrightarrow> c \<in> set bs \<or> sealed f c \<Longrightarrow> sealed g c"
    by blast+
qed

text \<open>All heads closed.\<close>

definition heads_closed :: "nat \<Rightarrow> ftl_scale \<Rightarrow> ftl_scale" where
  "heads_closed n f = fold (\<lambda>d. sf_domain_put d (\<lambda>x. x\<lparr>hd_head := SF_NONE\<rparr>)) [0..<n] (f\<lparr>sf_host_head := SF_NONE\<rparr>)"

lemma heads_closed_frame:
  assumes "n \<le> length (hs_domain (sf_heads f))"
  shows "heap_frame (heads_closed n f) = heap_frame f" and "map_frame f (heads_closed n f)" and "sf_blocks (heads_closed n f) = sf_blocks f"
    and "heads_same f (heads_closed n f)" and "sf_next_block_uid (heads_closed n f) = sf_next_block_uid f"
    and "sf_frame (heads_closed n f) = sf_frame f" and "d < n \<Longrightarrow> slot_of (heads_closed n f) d = SF_NONE"
    and "length (hs_domain (sf_heads (heads_closed n f))) = length (hs_domain (sf_heads f))"
proof -
  have "heap_frame (heads_closed n f) = heap_frame f \<and> map_frame f (heads_closed n f) \<and> sf_blocks (heads_closed n f) = sf_blocks f \<and>
      heads_same f (heads_closed n f) \<and> sf_next_block_uid (heads_closed n f) = sf_next_block_uid f \<and>
      sf_frame (heads_closed n f) = sf_frame f \<and> (\<forall>d<n. hd_head (sf_domain_at (heads_closed n f) d) = SF_NONE) \<and>
      sf_host_head (heads_closed n f) = SF_NONE \<and> length (hs_domain (sf_heads (heads_closed n f))) = length (hs_domain (sf_heads f))"
    using assms
  proof (induction n)
    case 0
    then show ?case
      by (simp add: heads_closed_def heap_frame_def map_frame_def heads_same_def sf_multihead_def)
  next
    case (Suc n)
    let ?g = "heads_closed n f"
    have suc: "heads_closed (Suc n) f = sf_domain_put n (\<lambda>x. x\<lparr>hd_head := SF_NONE\<rparr>) ?g"
      by (simp add: heads_closed_def)
    have "map (\<lambda>d. d\<lparr>hd_head := 0\<rparr>) ((hs_domain (sf_heads ?g))[n := (hs_domain (sf_heads ?g) ! n)\<lparr>hd_head := SF_NONE\<rparr>]) =
        map (\<lambda>d. d\<lparr>hd_head := 0\<rparr>) (hs_domain (sf_heads ?g))"
      by (rule map_update_kept) simp
    then have "heap_frame (heads_closed (Suc n) f) = heap_frame ?g"
      by (simp add: suc heap_frame_def sf_domain_put_def)
    moreover have "map_frame f (heads_closed (Suc n) f) = map_frame f ?g" "sf_blocks (heads_closed (Suc n) f) = sf_blocks ?g"
      "heads_same f (heads_closed (Suc n) f) = heads_same f ?g" "sf_next_block_uid (heads_closed (Suc n) f) = sf_next_block_uid ?g"
      "sf_host_head (heads_closed (Suc n) f) = sf_host_head ?g"
      "length (hs_domain (sf_heads (heads_closed (Suc n) f))) = length (hs_domain (sf_heads ?g))"
      by (simp_all add: suc sf_domain_put_def map_frame_def heads_same_def sf_multihead_def)
    moreover have "hd_head (sf_domain_at (heads_closed (Suc n) f) d) = SF_NONE" if "d < Suc n" for d
      using Suc that by (simp add: suc sf_domain_at_put)
    ultimately show ?case
      using Suc by (simp add: suc)
  qed
  then show "heap_frame (heads_closed n f) = heap_frame f" and "map_frame f (heads_closed n f)" and "sf_blocks (heads_closed n f) = sf_blocks f"
    and "heads_same f (heads_closed n f)" and "sf_next_block_uid (heads_closed n f) = sf_next_block_uid f"
    and "sf_frame (heads_closed n f) = sf_frame f" and "d < n \<Longrightarrow> slot_of (heads_closed n f) d = SF_NONE"
    and "length (hs_domain (sf_heads (heads_closed n f))) = length (hs_domain (sf_heads f))"
    by (simp_all add: slot_of_def)
qed

theorem seal_inv:
  assumes inv: "sf_inv f"
  shows "sf_inv (sf_seal_recovered_heads f)" and "sf_frame (sf_seal_recovered_heads f) = sf_frame f"
    and "sf_heads_empty (sf_seal_recovered_heads f)"
proof -
  let ?bs = "[sf_data_first f..<sf_physical_blocks f]"
  let ?g = "fold seal_block ?bs f"
  let ?n = "hs_count (sf_heads ?g)"
  let ?h = "heads_closed ?n ?g"
  let ?k = "?h\<lparr>sf_heads := (sf_heads ?h)\<lparr>hs_gc_destination := SF_NONE\<rparr>\<rparr>"
  have k: "sf_seal_recovered_heads f = ?k"
    by (simp add: sf_seal_recovered_heads_def Let_def heads_closed_def)
  have sub: "set ?bs \<subseteq> {..<sf_physical_blocks f}"
    by auto
  note p = seal_blocks_parts [OF sf_inv_parts(1,2,4) [OF inv] sub refl] and fr = sf_frame_fields [OF p(4)]
  have laid: "heads_laid ?g"
    by (rule heaps_ok_laid [OF p(3)])
  have n: "?n \<le> length (hs_domain (sf_heads ?g))"
    using laid by (simp add: heads_laid_def)
  note h = heads_closed_frame [OF n]
  have kf: "heap_frame ?k = heap_frame ?g" "map_frame ?g ?k" "heads_same ?g ?k" "sf_next_block_uid ?k = sf_next_block_uid ?g"
    "\<And>c. sf_block_at ?k c = sf_block_at ?g c" "\<And>d. d < ?n \<Longrightarrow> slot_of ?k d = SF_NONE" "length (sf_blocks ?k) = length (sf_blocks ?g)"
    using h by (simp_all add: sf_block_at_def)
  have seal: "sealed ?g c" if "c < sf_physical_blocks f" for c
  proof (cases "c < sf_data_first f")
    case True
    then have "sealed f c"
      using sf_inv_facts(1) [OF inv that] by (auto simp: block_facts_valid_def Let_def)
    then show ?thesis
      using p(5) [OF that] by blast
  next
    case False
    then show ?thesis
      using p(5) [OF that] that by auto
  qed
  have ok: "heaps_ok ?k"
    by (rule heaps_kept_ok [OF p(3) heaps_kept_blocks [OF kf(1,7)]]) (simp_all only: heap_position_def kf(5) simp_thms)
  have klaid: "heads_laid ?k"
    by (rule heaps_ok_laid [OF ok])
  have map: "map_inv ?k"
    by (rule map_inv_frame [OF p(1) kf(2)]) (simp_all only: kf(5) simp_thms)
  have blocks: "blocks_inv ?k"
    using p(2) map_frame_sets(4,6) [OF kf(2)] kf(2,4) unfolding blocks_inv_def block_facts_valid_def kf(5) map_frame_def by simp
  have count: "hs_count (sf_heads ?k) = ?n" "sf_physical_blocks ?k = sf_physical_blocks f"
    using kf(3) fr by (simp_all add: heads_same_def)
  have none: "head_slot ?k c = SF_NONE" if "c < sf_physical_blocks f" for c
    using kf(6) heads_laid_domain [OF klaid, of c] that count unfolding head_slot_domain by simp
  have big: "sf_physical_blocks f < SF_NONE"
    using laid fr by (simp add: heads_laid_def)
  have "heads_inv ?k"
    unfolding heads_inv_def count kf(5) using seal none big kf(6) by auto
  then show "sf_inv (sf_seal_recovered_heads f)"
    using map blocks ok unfolding k sf_inv_def by simp
  show "sf_frame (sf_seal_recovered_heads f) = sf_frame f"
    unfolding k by (simp add: h p(4))
  show "sf_heads_empty (sf_seal_recovered_heads f)"
    unfolding k heads_empty_iff [OF klaid] count using kf(6) by simp
qed

section \<open>Reservations\<close>

text \<open>The reservation of an open block is not part of the invariant.\<close>

lemma reserved_inv:
  assumes inv: "sf_inv f" and b: "b < sf_physical_blocks f" and role: "sd_role (sf_disk f b) = SF_HOST_OPEN"
    and f': "f' = sf_block_put b (\<lambda>x. x\<lparr>sb_reserved_pages := n\<rparr>) f"
  shows "sf_inv f'"
proof -
  have parts: "map_inv f" "blocks_inv f" "heads_inv f" "heaps_ok f"
    by (rule sf_inv_parts [OF inv])+
  have at: "sf_block_at f' c = (if c = b then (sf_block_at f c)\<lparr>sb_reserved_pages := n\<rparr> else sf_block_at f c)" for c
    using b sf_inv_length [OF inv] by (simp add: f' sf_block_at_put)
  have frame: "heap_frame f' = heap_frame f" "length (sf_blocks f') = length (sf_blocks f)" "map_frame f f'" "heads_same f f'"
    by (simp_all add: f' map_frame_def heads_same_def sf_multihead_def)
  have ok: "heaps_ok f'"
    by (rule heaps_kept_ok [OF parts(4) heaps_kept_blocks [OF frame(1,2)]])
      (use role open_not_eligible [of f b] open_not_eligible [of f' b] in \<open>auto simp: at heap_position_def\<close>)
  have "map_inv f'"
    by (rule map_inv_frame [OF parts(1) frame(3)]) (simp_all add: at)
  moreover have "blocks_inv f'"
    using parts(2) map_frame_sets(4,6) [OF frame(3)] by (simp add: blocks_inv_def block_facts_valid_def at) (simp add: f')
  moreover have "heads_inv f'"
    by (rule heads_inv_frame [OF parts(3) heaps_ok_laid [OF parts(4)] heaps_ok_laid [OF ok] frame(4)])
      (simp_all add: at, simp_all add: f' slot_of_def sf_multihead_def sf_domain_at_def)
  ultimately show ?thesis
    using ok by (simp add: sf_inv_def)
qed

text \<open>What an accepted reservation is about.\<close>

lemma reserve_facts:
  assumes inv: "sf_inv f" and reserve: "sf_head_reserve f domain pages = Some (f', span)"
  obtains b where "sf_multihead f" and "domain < hs_count (sf_heads f)" and "b = slot_of f domain" and "b < sf_physical_blocks f"
    and "sf_head_domain f b = domain" and "sd_role (sf_disk f b) = SF_HOST_OPEN" and "sb_reserved_pages (sf_block_at f b) = 0"
    and "pages \<noteq> 0" and "sd_allocation_end (sf_disk f b) + pages \<le> sf_ppb f"
    and "f' = sf_block_put b (\<lambda>x. x\<lparr>sb_reserved_pages := pages\<rparr>) f"
    and "span = \<lparr>sp_block_uid = sd_block_uid (sf_disk f b), sp_domain = domain, sp_block = b,
      sp_first_ppa = b * sf_ppb f + sd_allocation_end (sf_disk f b), sp_page_count = pages,
      sp_erase_generation = sd_erase_generation (sf_disk f b),
      sp_reservation_end = sd_allocation_end (sf_disk f b) + pages, sp_reserved = 0\<rparr>"
proof -
  let ?b = "slot_of f domain"
  have multi: "sf_multihead f" and pages: "pages \<noteq> 0" "pages \<le> sf_head_tail f domain" and b: "hd_head (sf_domain_at f domain) = ?b"
    using reserve by (auto simp: sf_head_reserve_def slot_of_def Let_def split: if_splits)
  then have tail: "domain < hs_count (sf_heads f)" "?b < sf_physical_blocks f" "sd_role (sf_disk f ?b) = SF_HOST_OPEN"
    "sb_reserved_pages (sf_block_at f ?b) = 0" "sd_allocation_end (sf_disk f ?b) + pages \<le> sf_ppb f" "?b \<noteq> SF_NONE"
    by (auto simp: sf_head_tail_def Let_def not_le split: if_splits)
  have shape: "sf_shape f" "heads_inv f"
    using inv by (simp_all add: sf_inv_def map_inv_def)
  have "Suc ?b * sf_ppb f \<le> sf_physical_blocks f * sf_ppb f"
    using tail(2) by (intro mult_le_mono1) simp
  then have small: "?b * sf_ppb f + sd_allocation_end (sf_disk f ?b) < 4294967296" "sd_allocation_end (sf_disk f ?b) + pages < 65536"
    using tail(5) pages(1) shape(1) by (auto simp: sf_shape_def)
  show ?thesis
  proof (rule that [OF multi tail(1) refl tail(2) _ tail(3,4) pages(1) tail(5)])
    show "sf_head_domain f ?b = domain"
      using shape(2) tail(1,6) unfolding heads_inv_def by blast
  qed (use reserve small b in \<open>auto simp: sf_head_reserve_def Let_def split: if_splits\<close>)
qed

lemma reserve_inv:
  assumes "sf_inv f" and "sf_head_reserve f domain pages = Some (f', span)"
  shows "sf_inv f'" and "sf_frame f' = sf_frame f"
  by (rule reserve_facts [OF assms], rule reserved_inv [OF assms(1)], assumption+)
     (rule reserve_facts [OF assms], simp)

lemma unreserve_inv:
  assumes inv: "sf_inv f" and "sf_head_unreserve f span = Some f'"
  shows "sf_inv f'" and "sf_frame f' = sf_frame f"
proof -
  let ?b = "sp_block span"
  have "?b < sf_physical_blocks f" "sd_role (sf_disk f ?b) = SF_HOST_OPEN" "f' = sf_block_put ?b (\<lambda>x. x\<lparr>sb_reserved_pages := 0\<rparr>) f"
    using assms(2) by (auto simp: sf_head_unreserve_def Let_def split: if_splits)
  then show "sf_inv f'" and "sf_frame f' = sf_frame f"
    using reserved_inv [OF inv] by simp_all
qed

section \<open>The free block to open next\<close>

lemma heaps_ok_first:
  assumes ok: "heaps_ok f" and d: "d < hs_count (sf_heads f)"
  shows "domain_size f d = card (free_set f \<inter> domain_blocks f d)"
    and "domain_size f d \<noteq> 0 \<Longrightarrow> sf_free_heap f ! domain_offset f d \<in> free_set f \<inter> domain_blocks f d"
    and "c \<in> free_set f \<inter> domain_blocks f d \<Longrightarrow> block_key f False (sf_free_heap f ! domain_offset f d) \<le> block_key f False c"
proof -
  let ?M = "free_set f \<inter> domain_blocks f d" and ?h = "heap_seg False (domain_offset f d) (domain_size f d) f"
  have hold: "heap_holds (block_key f False) ?M False (domain_offset f d) (domain_size f d) f"
    using ok d by (simp add: heaps_ok_def heaps_hold_def)
  then have set: "set ?h = ?M" and ord: "heap_ordered (block_key f False) ?h"
    by (simp_all add: heap_holds_def)
  show "domain_size f d = card ?M"
    using heap_holds_card [OF hold] by simp
  have first: "?h ! 0 = sf_free_heap f ! domain_offset f d" if "domain_size f d \<noteq> 0"
    using that by (simp add: heap_seg_def heap_array_def)
  then show "sf_free_heap f ! domain_offset f d \<in> ?M" if "domain_size f d \<noteq> 0"
    using that nth_mem [of 0 ?h] set by simp
  show "block_key f False (sf_free_heap f ! domain_offset f d) \<le> block_key f False c" if c: "c \<in> ?M"
  proof -
    obtain i where i: "i < length ?h" "?h ! i = c"
      using c set unfolding in_set_conv_nth [symmetric] by (metis in_set_conv_nth)
    then have "domain_size f d \<noteq> 0"
      by auto
    then show ?thesis
      using heap_first_least [OF ord i(1)] i(2) first by simp
  qed
qed

definition best_of :: "ftl_scale \<Rightarrow> nat set \<Rightarrow> nat \<Rightarrow> bool" where
  "best_of f M b \<longleftrightarrow> (if M = {} then b = SF_NONE else b \<in> M \<and> (\<forall>c\<in>M. block_key f False b \<le> block_key f False c))"

lemma best_of_Un:
  assumes "best_of f M b" and "best_of f M' b'" and "SF_NONE \<notin> M" and "SF_NONE \<notin> M'"
  shows "best_of f (M \<union> M') (if b' \<noteq> SF_NONE \<and> (b = SF_NONE \<or> block_key f False b' < block_key f False b) then b' else b)"
  using assms by (auto simp: best_of_def not_less split: if_splits dest: order.strict_implies_order intro: order_trans)

lemma free_best_of:
  assumes ok: "heaps_ok f"
  shows "best_of f (free_set f) (sf_free_best f)"
proof -
  have laid: "heads_laid f" and total: "sf_free_count f = card (free_set f)"
    using ok by (simp_all add: heaps_ok_def heaps_hold_def)
  have fin: "finite (free_set f)"
    by (simp add: free_set_def)
  have out: "SF_NONE \<notin> free_set f"
    using laid by (auto simp: free_set_def heads_laid_def)
  let ?M = "\<lambda>d. free_set f \<inter> domain_blocks f d"
  have first: "best_of f (?M d) (if domain_size f d = 0 then SF_NONE else sf_free_heap f ! domain_offset f d)" if "d < hs_count (sf_heads f)" for d
    using heaps_ok_first [OF ok that] fin by (auto simp: best_of_def)
  show ?thesis
  proof (cases "sf_multihead f")
    case True
    have "best_of f (\<Union>d<n. ?M d) (foldl (free_best_step f) SF_NONE [0..<n])" if "n \<le> hs_count (sf_heads f)" for n
      using that
    proof (induction n)
      case 0
      then show ?case
        by (simp add: best_of_def)
    next
      case (Suc n)
      let ?b = "foldl (free_best_step f) SF_NONE [0..<n]"
      let ?c = "if domain_size f n = 0 then SF_NONE else sf_free_heap f ! domain_offset f n"
      have n: "n < hs_count (sf_heads f)"
        using Suc.prems by simp
      have "?c \<noteq> SF_NONE \<longleftrightarrow> domain_size f n \<noteq> 0"
        using heaps_ok_first(2) [OF ok n] out by auto
      then have "free_best_step f ?b n = (if ?c \<noteq> SF_NONE \<and> (?b = SF_NONE \<or> block_key f False ?c < block_key f False ?b) then ?c else ?b)"
        using True by (simp add: free_best_step_def Let_def domain_size_def domain_offset_def sf_less_key)
      then have "best_of f ((\<Union>d<n. ?M d) \<union> ?M n) (foldl (free_best_step f) SF_NONE [0..<Suc n])"
        using best_of_Un [OF Suc.IH first [OF n]] Suc.prems out by simp
      then show ?case
        by (simp add: lessThan_Suc Un_commute)
    qed
    moreover have "(\<Union>d<hs_count (sf_heads f). ?M d) = free_set f"
      using heads_laid_domain [OF laid] by (auto simp: free_set_def domain_blocks_def)
    ultimately have "best_of f (free_set f) (foldl (free_best_step f) SF_NONE [0..<hs_count (sf_heads f)])"
      by (metis order_refl)
    then show ?thesis
      using True total fin by (simp add: sf_free_best_def best_of_def)
  next
    case False
    then have one: "hs_count (sf_heads f) = 1"
      using laid by (simp add: heads_laid_def)
    then have "free_set f \<subseteq> domain_blocks f 0"
      using heads_laid_domain [OF laid] by (auto simp: free_set_def domain_blocks_def)
    then have "?M 0 = free_set f"
      by blast
    moreover have "domain_offset f 0 = 0" "domain_size f 0 = sf_free_count f"
      using False by (simp_all add: domain_offset_def domain_size_def)
    ultimately show ?thesis
      using first [of 0] False one by (simp add: sf_free_best_def split: if_splits)
  qed
qed

end
