(* ===== verification/Scale_Guarantees.thy ===== *)
theory Scale_Guarantees
  imports Scale_Heads_Laws "HOL-Library.Code_Target_Nat"
begin

text \<open>
  The calls on the mapping of the scaled translation layer as events, its reachable states, and what
  they guarantee: exact mapping records, indexes that a rebuild confirms, the least worn free block,
  reservations, collections and erases.
\<close>

section \<open>Events and reachable states\<close>

datatype sf_event = Sf_Record sf_record | Sf_Reserve nat nat | Sf_Unreserve sf_head_span | Sf_Seal | Sf_Rebuild

fun sf_step :: "sf_event \<Rightarrow> ftl_scale \<Rightarrow> ftl_scale" where
  "sf_step (Sf_Record r) f = (case sf_record_validate_apply f r of None \<Rightarrow> f | Some f' \<Rightarrow> f')"
| "sf_step (Sf_Reserve domain pages) f = (case sf_head_reserve f domain pages of None \<Rightarrow> f | Some (f', span) \<Rightarrow> f')"
| "sf_step (Sf_Unreserve span) f = (case sf_head_unreserve f span of None \<Rightarrow> f | Some f' \<Rightarrow> f')"
| "sf_step Sf_Seal f = sf_seal_recovered_heads f"
| "sf_step Sf_Rebuild f = (let r = sf_rebuild_indexes f in if fst r then snd r else f)"

inductive sf_reachable :: "ftl_scale \<Rightarrow> bool" where
  mount: "sf_allocated f \<Longrightarrow> sf_rebuild_indexes f = (True, g) \<Longrightarrow> sf_reachable g"
| event: "sf_reachable f \<Longrightarrow> sf_reachable (sf_step e f)"

lemma record_validate_apply_some:
  "sf_record_validate_apply f r = Some f' \<longleftrightarrow> record_valid f r \<and> f' = record_apply r f"
  by (auto simp: sf_record_validate_apply_def)

lemma sf_step_keeps:
  assumes "sf_inv f \<and> sf_mounted f"
  shows "sf_inv (sf_step e f) \<and> sf_mounted (sf_step e f)"
proof (cases e)
  case (Sf_Record r)
  then show ?thesis
    using assms record_apply_inv [of f r] sf_mounted_frame [OF sf_frame_record, of f r]
    by (simp add: sf_record_validate_apply_def)
next
  case (Sf_Reserve domain pages)
  then show ?thesis
    using assms reserve_inv [of f domain pages] sf_mounted_frame [of _ f] by (auto split: option.split)
next
  case (Sf_Unreserve span)
  then show ?thesis
    using assms unreserve_inv [of f span] sf_mounted_frame [of _ f] by (auto split: option.split)
next
  case Sf_Seal
  then show ?thesis
    using assms seal_inv [of f] sf_mounted_frame [of _ f] by simp
next
  case Sf_Rebuild
  then show ?thesis
    using assms rebuild_inv(1) [of f] rebuild_mounted [of f]
    by (cases "sf_rebuild_indexes f") (auto simp: sf_mounted_def)
qed

interpretation scale: kept_invariant sf_step "\<lambda>f. sf_inv f \<and> sf_mounted f" "\<lambda>e f. True"
  by unfold_locales (rule sf_step_keeps)

lemma reachable_parts:
  assumes "sf_reachable f"
  shows "sf_inv f" and "sf_mounted f"
proof -
  have "sf_inv f \<and> sf_mounted f"
    using assms by induction (use rebuild_inv(1) rebuild_mounted scale.step_keeps in auto)
  then show "sf_inv f" and "sf_mounted f"
    by simp_all
qed

section \<open>Sample volumes\<close>

text \<open>
  A volume of six blocks of 32 pages, two of them for metadata, three logical pages. Block 2 is the
  open block in the first volume and the destination of a collection in the second; block 3 is closed
  with one mapped page, blocks 4 and 5 are free.
\<close>

definition scale_geometry :: nfc_geometry where
  "scale_geometry = \<lparr>g_version = 1, g_size = 36, g_channels = 1, g_luns_per_channel = 1, g_planes_per_lun = 1,
     g_blocks_per_plane = 6, g_pages_per_block = 32, g_plane_parallelism_per_lun = 1, g_main_bytes_per_page = 4096,
     g_oob_bytes_per_page = 128, g_max_programs_per_erase = 1, g_program_order = 1, g_reserved0 = 0, g_reserved1 = [0, 0]\<rparr>"

definition scale_layout :: sf_layout where
  "scale_layout = \<lparr>sl_geometry = scale_geometry, sl_lba_count = 24, sl_lpn_count = 3, sl_physical_pages = 192,
     sl_physical_blocks = 6, sl_cp_map_pages = 1, sl_cp_block_pages = 1, sl_cp_blocks = 1, sl_journal_slots = 1,
     sl_journal_blocks = 1, sl_cp_base = [0, 0], sl_journal_base = [[1, 1], [1, 1]], sl_data_first_block = 2\<rparr>"

definition scale_block :: "u64 \<Rightarrow> u16 \<Rightarrow> nat \<Rightarrow> u8 \<Rightarrow> sf_block" where
  "scale_block uid generation allocated role =
     \<lparr>sb_disk = \<lparr>sd_block_uid = uid, sd_erase_generation = generation, sd_allocation_end = allocated, sd_role = role,
        sd_health = 0, sd_flags = 0\<rparr>,
      sb_free_heap_pos = 0, sb_victim_heap_pos = 0, sb_wear = 0, sb_live_pages = 0, sb_reserved_pages = 0\<rparr>"

definition scale_entry :: "nat \<Rightarrow> u16 \<Rightarrow> u64 \<Rightarrow> sf_map_entry" where
  "scale_entry ppa generation uid =
     \<lparr>sm_ppa = ppa, sm_erase_generation = generation, sm_valid_mask = 255, sm_state = SF_VALUE, sm_data_uid = uid\<rparr>"

definition scale_empty :: sf_map_entry where
  "scale_empty = \<lparr>sm_ppa = SF_NONE, sm_erase_generation = 0, sm_valid_mask = 0, sm_state = SF_UNMAPPED, sm_data_uid = 0\<rparr>"

definition scale_state :: "sf_block \<Rightarrow> sf_map_entry list \<Rightarrow> ftl_scale" where
  "scale_state b m =
     \<lparr>sf_geometry = scale_geometry, sf_root = \<lparr>sr_layout = scale_layout, sr_generation = 1, sr_disk_format = 3\<rparr>,
      sf_map = m,
      sf_blocks = [scale_block 0 0 0 SF_META, scale_block 0 0 0 SF_META, b, scale_block 2 1 32 SF_CLOSED,
        scale_block 0 3 0 SF_FREE, scale_block 0 1 0 SF_FREE],
      sf_validity = [], sf_free_heap = replicate 6 0, sf_victim_heap = replicate 6 0, sf_free_count = 0, sf_victim_count = 0,
      sf_host_head = SF_NONE, sf_heads = \<lparr>hs_domain = [], hs_count = 0, hs_per_channel = 0, hs_gc_destination = SF_NONE\<rparr>,
      sf_physical_blocks = 6, sf_physical_pages = 192, sf_disk_format = 3, sf_record_sequence = 7, sf_map_sequence = 4,
      sf_durable_frontier = 0, sf_next_block_uid = 3, sf_erase_intent_sequence = 0, sf_erase_intent_block = SF_NONE,
      sf_garbage_collections = 0\<rparr>"

definition scale_host_disk :: ftl_scale where
  "scale_host_disk = scale_state (scale_block 1 0 1 SF_HOST_OPEN) [scale_entry 64 0 32, scale_entry 101 1 69, scale_empty]"

definition scale_gc_disk :: ftl_scale where
  "scale_gc_disk = scale_state (scale_block 1 0 0 SF_GC_DEST) [scale_empty, scale_entry 101 1 69, scale_empty]"

definition scale_host :: ftl_scale where
  "scale_host = snd (sf_rebuild_indexes scale_host_disk)"

definition scale_gc :: ftl_scale where
  "scale_gc = snd (sf_rebuild_indexes scale_gc_disk)"

text \<open>A host write of the third logical page, and the collection of block 3.\<close>

definition scale_record :: "u8 \<Rightarrow> nat \<Rightarrow> sf_delta list \<Rightarrow> sf_record" where
  "scale_record kind block deltas =
     \<lparr>sj_epoch = 1, sj_sequence = 8, sj_predecessor = 7, sj_before_map_seq = 4, sj_after_map_seq = (if deltas = [] then 4 else 5),
      sj_durable_frontier = 0, sj_block_uid = (if block = 2 then 1 else 2), sj_other_block_uid = 1, sj_intent_sequence = 8,
      sj_block = block, sj_other_block = 2, sj_erase_generation = (if block = 2 then 0 else 1), sj_final_erase_generation = 0,
      sj_count = length deltas, sj_kind = kind, sj_health = 0, sj_delta = deltas\<rparr>"

definition scale_write :: sf_record where
  "scale_write = scale_record SF_MAP_GROUP 2 [\<lparr>sx_lpn = 2, sx_reserved = 0, sx_before = scale_empty, sx_after = scale_entry 65 0 33\<rparr>]"

definition scale_collect :: sf_record where
  "scale_collect = scale_record SF_GC_COMMIT 3 [\<lparr>sx_lpn = 1, sx_reserved = 0, sx_before = scale_entry 101 1 69, sx_after = scale_entry 64 0 32\<rparr>]"

lemma scale_host_reachable: "sf_reachable scale_host"
proof (rule sf_reachable.mount)
  show "sf_allocated scale_host_disk"
    by code_simp
  have "fst (sf_rebuild_indexes scale_host_disk)"
    by code_simp
  then show "sf_rebuild_indexes scale_host_disk = (True, scale_host)"
    by (simp add: scale_host_def prod_eq_iff)
qed

lemma scale_gc_reachable: "sf_reachable scale_gc"
proof (rule sf_reachable.mount)
  show "sf_allocated scale_gc_disk"
    by code_simp
  have "fst (sf_rebuild_indexes scale_gc_disk)"
    by code_simp
  then show "sf_rebuild_indexes scale_gc_disk = (True, scale_gc)"
    by (simp add: scale_gc_def prod_eq_iff)
qed

lemma scale_write_accepted: "sf_record_validate_apply scale_host scale_write = Some (record_apply scale_write scale_host)"
proof -
  have "record_valid scale_host scale_write"
    by code_simp
  then show ?thesis
    by (simp add: sf_record_validate_apply_def)
qed

lemma scale_collect_accepted: "sf_record_validate_apply scale_gc scale_collect = Some (record_apply scale_collect scale_gc)"
proof -
  have "record_valid scale_gc scale_collect"
    by code_simp
  then show ?thesis
    by (simp add: sf_record_validate_apply_def)
qed

section \<open>The invariant\<close>

lemma live_in_lpns:
  assumes "map_inv f"
  shows "card (live_in f b) = card {l. mapped f l \<and> sf_ppa_of f l div sf_ppb f = b}"
proof -
  have "live_in f b = sf_ppa_of f ` {l. mapped f l \<and> sf_ppa_of f l div sf_ppb f = b}"
    by (auto simp: live_in_def live_ppas_def)
  moreover have "inj_on (sf_ppa_of f) {l. mapped f l \<and> sf_ppa_of f l div sf_ppb f = b}"
    using assms by (auto simp: map_inv_def inj_on_def)
  ultimately show ?thesis
    by (simp add: card_image)
qed

text \<open>A block is in a heap exactly when it is eligible for it.\<close>

lemma heap_member:
  assumes ok: "heaps_ok f" and b: "b < sf_physical_blocks f"
  shows "heap_position f b False \<noteq> SF_HEAP_NONE \<longleftrightarrow> free_eligible f b"
    and "heap_position f b True \<noteq> SF_HEAP_NONE \<longleftrightarrow> victim_eligible f b"
proof -
  have laid: "heads_laid f" and hold: "heaps_hold (block_key f) (free_set f) (victim_set f) f"
    using ok by (simp_all add: heaps_ok_def)
  have small: "card M < SF_HEAP_NONE" if "M \<subseteq> {..<sf_physical_blocks f}" for M
    using card_mono [OF _ that] laid by (simp add: heads_laid_def)
  have d: "sf_head_domain f b < hs_count (sf_heads f)"
    by (rule heads_laid_domain [OF laid b])
  have free: "heap_holds (block_key f False) (free_set f \<inter> domain_blocks f (sf_head_domain f b)) False
      (domain_offset f (sf_head_domain f b)) (domain_size f (sf_head_domain f b)) f"
    and victim: "heap_holds (block_key f True) (victim_set f) True 0 (sf_victim_count f) f"
    using hold d by (simp_all add: heaps_hold_def)
  have sub: "free_set f \<inter> domain_blocks f d \<subseteq> {..<sf_physical_blocks f}"
    "victim_set f \<subseteq> {..<sf_physical_blocks f}" for d
    by (auto simp: free_set_def victim_set_def)
  have "heap_position f b False < SF_HEAP_NONE" if "free_eligible f b"
  proof -
    have "b \<in> free_set f \<inter> domain_blocks f (sf_head_domain f b)"
      using that b by (simp add: free_set_def domain_blocks_def)
    from heap_holds_position(1) [OF free this] show ?thesis
      using heap_holds_card [OF free] small [OF sub(1), of "sf_head_domain f b"] by simp
  qed
  then show "heap_position f b False \<noteq> SF_HEAP_NONE \<longleftrightarrow> free_eligible f b"
    using hold b by (auto simp: heaps_hold_def free_set_def)
  have "heap_position f b True < SF_HEAP_NONE" if "victim_eligible f b"
    using heap_holds_position(1) [OF victim, of b] heap_holds_card [OF victim] that b small [OF sub(2)]
    by (simp add: victim_set_def)
  then show "heap_position f b True \<noteq> SF_HEAP_NONE \<longleftrightarrow> victim_eligible f b"
    using hold b by (auto simp: heaps_hold_def victim_set_def)
qed

text \<open>
  C14. In every reachable state of the scaled translation layer the map and its indexes agree: an entry
  with a value names a written page of a data block with the right identity and any other entry is
  empty; no page is mapped twice; the bitmap marks exactly the mapped pages and each block counts its
  own; a block is open for the host exactly when it is the head of its domain; and the heaps hold exactly
  the blocks that can be opened and those that can be collected, with their numbers.
\<close>

theorem reachable_indexes_agree:
  assumes "sf_reachable f"
  shows "(\<forall>l < sf_lpn_count f. if sm_state (sf_map f ! l) = SF_VALUE
      then value_entry f (sf_map f ! l) \<and>
        sf_ppa_of f l mod sf_ppb f < sd_allocation_end (sf_disk f (sf_ppa_of f l div sf_ppb f))
      else empty_entry (sf_map f ! l)) \<and>
    (\<forall>l l'. mapped f l \<and> mapped f l' \<and> sf_ppa_of f l = sf_ppa_of f l' \<longrightarrow> l = l') \<and>
    (\<forall>p < sf_physical_pages f. sf_validity_get f p \<longleftrightarrow> (\<exists>l. mapped f l \<and> sf_ppa_of f l = p)) \<and>
    (\<forall>b < sf_physical_blocks f.
       sb_live_pages (sf_block_at f b) = card {l. mapped f l \<and> sf_ppa_of f l div sf_ppb f = b} \<and>
       (sd_role (sf_disk f b) = SF_HOST_OPEN \<longleftrightarrow> head_slot f b = b) \<and>
       (heap_position f b False \<noteq> SF_HEAP_NONE \<longleftrightarrow> free_eligible f b) \<and>
       (heap_position f b True \<noteq> SF_HEAP_NONE \<longleftrightarrow> victim_eligible f b)) \<and>
    sf_free_count f = card {b. b < sf_physical_blocks f \<and> free_eligible f b} \<and>
    sf_victim_count f = card {b. b < sf_physical_blocks f \<and> victim_eligible f b}"
proof -
  note p = sf_inv_parts [OF reachable_parts(1) [OF assms]]
  have "sf_free_count f = card (free_set f) \<and> sf_victim_count f = card (victim_set f)"
    using p(4) heap_holds_card by (auto simp: heaps_ok_def heaps_hold_def)
  moreover have "\<forall>p < sf_physical_pages f. sf_validity_get f p \<longleftrightarrow> (\<exists>l. mapped f l \<and> sf_ppa_of f l = p)"
    using p(1) by (auto simp: map_inv_def live_ppas_def)
  moreover have "\<forall>l l'. mapped f l \<and> mapped f l' \<and> sf_ppa_of f l = sf_ppa_of f l' \<longrightarrow> l = l'"
    using p(1) by (auto simp: map_inv_def inj_on_def)
  moreover have "\<forall>l < sf_lpn_count f. entry_sound f (sf_map f ! l)"
    using p(1) by (simp add: map_inv_def)
  moreover have "\<forall>b < sf_physical_blocks f.
      sb_live_pages (sf_block_at f b) = card {l. mapped f l \<and> sf_ppa_of f l div sf_ppb f = b} \<and>
      (sd_role (sf_disk f b) = SF_HOST_OPEN \<longleftrightarrow> head_slot f b = b)"
    using p(1,3) live_in_lpns [OF p(1)] by (simp add: map_inv_def heads_inv_def)
  ultimately show ?thesis
    using heap_member [OF p(4)] by (simp add: entry_sound_def free_set_def victim_set_def)
qed

theorem reachable_indexes_agree_witness:
  "sf_validity_get scale_host 64 \<longleftrightarrow> (\<exists>l. mapped scale_host l \<and> sf_ppa_of scale_host l = 64)"
proof -
  have "64 < sf_physical_pages scale_host"
    by code_simp
  then show ?thesis
    using reachable_indexes_agree [OF scale_host_reachable] by blast
qed

section \<open>Mapping records\<close>

lemma record_map_at:
  assumes inv: "sf_inv f" and valid: "record_valid f r" and mapping: "record_mapping r"
  shows "mapping_valid f r"
    and "sf_map (record_apply r f) ! l = (case find (\<lambda>j. record_lpn r j = l) [0..<sj_count r] of
      None \<Rightarrow> sf_map f ! l | Some j \<Rightarrow> sx_after (sj_delta r ! j))"
proof -
  show mv: "mapping_valid f r"
    using record_kinds [OF valid] mapping by (auto simp: record_mapping_def record_window_def)
  have "sf_map (record_apply r f) = sf_map (mapping_upto r (sj_count r) f)"
    using mapping by (simp add: sf_map_record mapping_upto_def)
  then show "sf_map (record_apply r f) ! l = (case find (\<lambda>j. record_lpn r j = l) [0..<sj_count r] of
      None \<Rightarrow> sf_map f ! l | Some j \<Rightarrow> sx_after (sj_delta r ! j))"
    using mapping_loop [OF inv mv order_refl] by (simp add: mapping_at_def)
qed

text \<open>
  C31. An accepted mapping record installs exactly its changes: every logical page it names gets the entry
  of its change, every other page keeps its entry, and a record of any other kind leaves the map alone.
\<close>

theorem mapping_record_exact:
  assumes "sf_reachable f" and "sf_record_validate_apply f r = Some f'"
  shows "if record_mapping r
    then (\<forall>i < sj_count r. sf_map f' ! record_lpn r i = sx_after (sj_delta r ! i)) \<and>
      (\<forall>l. l \<notin> record_lpn r ` {..<sj_count r} \<longrightarrow> sf_map f' ! l = sf_map f ! l)
    else sf_map f' = sf_map f"
proof (cases "record_mapping r")
  case True
  have valid: "record_valid f r" and f': "f' = record_apply r f"
    using assms(2) by (simp_all add: record_validate_apply_some)
  note at = record_map_at [OF reachable_parts(1) [OF assms(1)] valid True, folded f']
  have "sf_map f' ! record_lpn r i = sx_after (sj_delta r ! i)" if "i < sj_count r" for i
  proof (cases "find (\<lambda>j. record_lpn r j = record_lpn r i) [0..<sj_count r]")
    case None
    then show ?thesis
      using that by (auto simp: find_None_iff)
  next
    case (Some j)
    then have "j < sj_count r" "record_lpn r j = record_lpn r i"
      by (auto simp: find_Some_iff)
    then have "j = i"
      using record_lpn_distinct [OF at(1)] that by (auto simp: inj_on_def)
    then show ?thesis
      using Some by (simp add: at(2))
  qed
  moreover have "sf_map f' ! l = sf_map f ! l" if "l \<notin> record_lpn r ` {..<sj_count r}" for l
  proof -
    have "find (\<lambda>j. record_lpn r j = l) [0..<sj_count r] = None"
      using that by (auto simp: find_None_iff)
    then show ?thesis
      by (simp add: at(2))
  qed
  ultimately show ?thesis
    using True by simp
next
  case False
  then show ?thesis
    using assms(2) by (simp add: record_validate_apply_some sf_map_record)
qed

theorem mapping_record_exact_witness:
  "sf_map (record_apply scale_write scale_host) ! 2 = scale_entry 65 0 33 \<and>
   sf_map (record_apply scale_write scale_host) ! 0 = sf_map scale_host ! 0"
proof -
  have "record_mapping scale_write" "sj_count scale_write = 1" "record_lpn scale_write 0 = 2"
    "sx_after (sj_delta scale_write ! 0) = scale_entry 65 0 33"
    by code_simp+
  then show ?thesis
    using mapping_record_exact [OF scale_host_reachable scale_write_accepted] by (simp add: lessThan_Suc)
qed

section \<open>Collections and erases\<close>

lemma sf_block_at_counters [simp]:
  "sf_block_at (f\<lparr>sf_record_sequence := a, sf_map_sequence := b, sf_durable_frontier := c\<rparr>) x = sf_block_at f x"
  by (simp add: sf_block_at_def)

lemma record_sizes:
  "sf_physical_blocks (record_apply r f) = sf_physical_blocks f" "sf_ppb (record_apply r f) = sf_ppb f"
  "sf_lpn_count (record_apply r f) = sf_lpn_count f"
  using sf_frame_fields [OF sf_frame_record, of r f] by (simp_all add: sf_ppb_def sf_lpn_count_def)

text \<open>The victim and the destination after an accepted collection.\<close>

lemma collection_roles:
  assumes inv: "sf_inv f" and valid: "record_valid f r" and kind: "sj_kind r = SF_GC_COMMIT"
  shows "sd_role (sf_disk (record_apply r f) (sj_block r)) = SF_RECLAIM_PENDING"
    and "sd_role (sf_disk (record_apply r f) (sj_other_block r)) = SF_HOST_OPEN"
    and "sj_block r < sf_physical_blocks f" and "sj_other_block r < sf_physical_blocks f" and "mapping_valid f r"
proof -
  let ?b = "sj_block r" and ?c = "sj_other_block r" and ?g = "mapping_upto r (sj_count r) f"
  have mapping: "record_mapping r" and dest: "record_destination r = ?c"
    using kind by (simp_all add: record_mapping_def record_destination_def)
  show mv: "mapping_valid f r"
    by (rule record_map_at(1) [OF inv valid mapping])
  note v = mapping_valid_facts [OF mv, unfolded dest]
  have at: "mapping_at f r (sj_count r) ?g"
    by (rule mapping_loop [OF inv mv order_refl])
  have g: "heaps_ok ?g" "sd_role (sf_disk ?g ?c) = SF_GC_DEST" "sf_physical_blocks ?g = sf_physical_blocks f"
    using at v(2,5) kind plain_core_fields(4) [of ?g f] by (simp_all add: mapping_at_def dest)
  show b: "?b < sf_physical_blocks f"
    using valid by (simp add: record_valid_def record_header_valid_def)
  show c: "?c < sf_physical_blocks f"
    by (rule v(2))
  have "sf_frame (gc_finish r ?g) = sf_frame f"
    by (simp add: gc_finish_def Let_def mapping_upto_def)
  then have len: "length (sf_blocks (gc_finish r ?g)) = sf_physical_blocks f"
    using sf_inv_length [OF inv] by (simp add: sf_frame_def)
  have disk: "sf_disk (record_apply r f) x = sf_disk (gc_finish r ?g) x" if "x < sf_physical_blocks f" for x
    using kind that len by (simp add: record_apply_def record_mapping_def mapping_apply_def mapping_upto_def sf_disk_refresh)
  have neq: "?c \<noteq> ?b"
    using v(6) kind by simp
  note fin = gc_finish_frame(1) [OF g(1) _ _ neq g(2) refl, unfolded g(3), OF b c]
  show "sd_role (sf_disk (record_apply r f) ?b) = SF_RECLAIM_PENDING" "sd_role (sf_disk (record_apply r f) ?c) = SF_HOST_OPEN"
    using neq by (simp_all add: disk b c fin)
qed

lemma pending_unmapped:
  assumes "sf_inv f" and "b < sf_physical_blocks f" and "sd_role (sf_disk f b) = SF_RECLAIM_PENDING"
  shows "live_in f b = {}"
  using assms live_zero_empty [of f b] by (simp add: sf_inv_def blocks_inv_def)

lemma collection_target:
  assumes inv: "sf_inv f" and mv: "mapping_valid f r" and kind: "sj_kind r = SF_GC_COMMIT" and j: "j < sj_count r"
  shows "sm_state (sx_after (sj_delta r ! j)) = SF_VALUE" and "sm_ppa (sx_after (sj_delta r ! j)) div sf_ppb f = sj_other_block r"
proof -
  note m = mapping_loop [OF inv mv less_imp_le [OF j]]
  note fit = mapping_next_fits [OF inv mv m j]
  have "sf_ppb (mapping_upto r j f) = sf_ppb f"
    using m plain_core_fields(1) [of "mapping_upto r j f" f] by (simp add: mapping_at_def sf_ppb_def)
  then show "sm_state (sx_after (sj_delta r ! j)) = SF_VALUE" and "sm_ppa (sx_after (sj_delta r ! j)) div sf_ppb f = sj_other_block r"
    using fit(1,2) kind by (simp_all add: record_destination_def delta_fit_def value_entry_def Let_def)
qed

text \<open>
  C5. A collection that is accepted leaves no mapped page in its victim, which is then to be reclaimed;
  every logical page that was mapped into the victim is now mapped into the destination, which has
  become the open block of its domain.
\<close>

theorem collection_moves_live_pages:
  assumes "sf_reachable f" and "sf_record_validate_apply f r = Some f'" and kind: "sj_kind r = SF_GC_COMMIT"
  shows "live_in f' (sj_block r) = {} \<and> sd_role (sf_disk f' (sj_block r)) = SF_RECLAIM_PENDING \<and>
    head_slot f' (sj_other_block r) = sj_other_block r \<and>
    (\<forall>l. mapped f l \<and> sf_ppa_of f l div sf_ppb f = sj_block r \<longrightarrow> mapped f' l \<and> sf_ppa_of f' l div sf_ppb f' = sj_other_block r)"
proof -
  let ?b = "sj_block r" and ?c = "sj_other_block r"
  have inv: "sf_inv f" and valid: "record_valid f r" and f': "f' = record_apply r f" and mapping: "record_mapping r"
    using reachable_parts(1) [OF assms(1)] assms(2) kind by (simp_all add: record_validate_apply_some record_mapping_def)
  note inv' = record_apply_inv [OF inv valid, folded f']
  note c = collection_roles [OF inv valid kind, folded f'] and N = record_sizes [of r f, folded f']
  have head: "head_slot f' ?c = ?c"
    using inv' c(2,4) N(1) by (simp add: sf_inv_def heads_inv_def)
  have empty: "live_in f' ?b = {}"
    using pending_unmapped [OF inv' _ c(1)] c(3) N(1) by simp
  have "mapped f' l \<and> sf_ppa_of f' l div sf_ppb f' = ?c" if l: "mapped f l" "sf_ppa_of f l div sf_ppb f = ?b" for l
  proof (cases "find (\<lambda>j. record_lpn r j = l) [0..<sj_count r]")
    case None
    then have "sf_ppa_of f l \<in> live_in f' ?b"
      using record_map_at(2) [OF inv valid mapping, of l] l N f'
      by (auto simp: live_in_def live_ppas_def mapped_def intro!: image_eqI [of _ _ l])
    then show ?thesis
      using empty by simp
  next
    case (Some j)
    then have "j < sj_count r"
      by (auto simp: find_Some_iff)
    then show ?thesis
      using collection_target [OF inv c(5) kind] record_map_at(2) [OF inv valid mapping, of l] Some l(1) N f' by (simp add: mapped_def)
  qed
  then show ?thesis
    using empty c(1) head by blast
qed

theorem collection_moves_live_pages_witness:
  "live_in (record_apply scale_collect scale_gc) 3 = {} \<and> mapped scale_gc 1 \<and> sf_ppa_of scale_gc 1 div 32 = 3 \<and>
   sf_ppa_of (record_apply scale_collect scale_gc) 1 div 32 = 2"
proof -
  have "mapped scale_gc 1 \<and> sf_ppa_of scale_gc 1 div sf_ppb scale_gc = 3 \<and> sf_ppb scale_gc = 32" "sj_kind scale_collect = SF_GC_COMMIT" "sj_block scale_collect = 3"
    "sj_other_block scale_collect = 2"
    by code_simp+
  then show ?thesis
    using collection_moves_live_pages [OF scale_gc_reachable scale_collect_accepted] record_sizes(2) [of scale_collect scale_gc] by auto
qed

text \<open>
  C30. A block is erased only when no logical page is mapped into it: where a record that announces or
  reports an erase is accepted, no mapped page lies in its block, and after the report the block is
  free, empty and of a higher erase generation.
\<close>

theorem erase_only_unmapped:
  assumes "sf_reachable f" and "sf_record_validate_apply f r = Some f'" and "sj_kind r = SF_ERASE_INTENT \<or> sj_kind r = SF_ERASE_DONE"
  shows "(\<forall>l. mapped f l \<longrightarrow> sf_ppa_of f l div sf_ppb f \<noteq> sj_block r) \<and>
    (sj_kind r = SF_ERASE_DONE \<longrightarrow> sd_role (sf_disk f' (sj_block r)) = SF_FREE \<and> sd_allocation_end (sf_disk f' (sj_block r)) = 0 \<and>
       sd_erase_generation (sf_disk f (sj_block r)) < sd_erase_generation (sf_disk f' (sj_block r)))"
proof -
  let ?b = "sj_block r"
  have inv: "sf_inv f" and valid: "record_valid f r" and f': "f' = record_apply r f"
    using reachable_parts(1) [OF assms(1)] assms(2) by (simp_all add: record_validate_apply_some)
  have b: "?b < sf_physical_blocks f"
    using valid by (simp add: record_valid_def record_header_valid_def)
  have kind: "\<not> record_mapping r"
    using assms(3) by (auto simp: record_mapping_def record_window_def)
  have e: "sj_kind r = SF_ERASE_INTENT \<and> erase_intent_valid f r \<or> sj_kind r = SF_ERASE_DONE \<and> erase_done_valid f r"
    using record_kinds [OF valid] assms(3) kind by auto
  then have "sb_live_pages (sf_block_at f ?b) = 0"
    by (auto simp: erase_intent_valid_def erase_done_valid_def Let_def)
  then have "live_in f ?b = {}"
    using live_zero_empty [of f ?b] inv b by (simp add: sf_inv_def)
  then have "sf_ppa_of f l div sf_ppb f \<noteq> ?b" if "mapped f l" for l
    using that by (auto simp: live_in_def live_ppas_def)
  moreover have "sd_role (sf_disk f' ?b) = SF_FREE \<and> sd_allocation_end (sf_disk f' ?b) = 0 \<and>
      sd_erase_generation (sf_disk f ?b) < sd_erase_generation (sf_disk f' ?b)" if done_kind: "sj_kind r = SF_ERASE_DONE"
  proof -
    have "erase_done_valid f r"
      using e done_kind by simp
    moreover have "sf_disk f' ?b = sf_disk (erase_done_apply r f) ?b"
      using done_kind kind b sf_inv_length [OF inv] by (simp add: f' record_apply_def sf_disk_refresh erase_done_apply_def sf_block_put_def)
    ultimately show ?thesis
      using b sf_inv_length [OF inv] by (auto simp: erase_done_apply_def erase_done_valid_def Let_def sf_block_at_put)
  qed
  ultimately show ?thesis
    by blast
qed

text \<open>A volume whose block 2 is being reclaimed and has been announced for erase, and the report of the erase.\<close>

definition scale_reclaim_disk :: ftl_scale where
  "scale_reclaim_disk = (scale_state (scale_block 1 0 32 SF_RECLAIM_PENDING) [scale_empty, scale_entry 101 1 69, scale_empty])
     \<lparr>sf_erase_intent_sequence := 5, sf_erase_intent_block := 2\<rparr>"

definition scale_reclaim :: ftl_scale where
  "scale_reclaim = snd (sf_rebuild_indexes scale_reclaim_disk)"

definition scale_erase :: sf_record where
  "scale_erase = (scale_record SF_ERASE_DONE 2 [])\<lparr>sj_intent_sequence := 5, sj_final_erase_generation := 1\<rparr>"

theorem erase_only_unmapped_witness:
  "mapped scale_reclaim 1 \<and> sf_ppa_of scale_reclaim 1 div sf_ppb scale_reclaim \<noteq> 2 \<and>
   sd_role (sf_disk (record_apply scale_erase scale_reclaim) 2) = SF_FREE"
proof -
  have "sf_allocated scale_reclaim_disk" and "fst (sf_rebuild_indexes scale_reclaim_disk)"
    by code_simp+
  then have "sf_reachable scale_reclaim"
    by (intro sf_reachable.mount) (simp_all add: scale_reclaim_def prod_eq_iff)
  moreover have "record_valid scale_reclaim scale_erase" "sj_kind scale_erase = SF_ERASE_DONE" "sj_block scale_erase = 2"
    "mapped scale_reclaim 1"
    by code_simp+
  ultimately show ?thesis
    using erase_only_unmapped [of scale_reclaim scale_erase] by (simp add: record_validate_apply_some)
qed

section \<open>Rebuild\<close>

text \<open>
  C39. The indexes kept from record to record are those a rebuild computes: in every reachable state the
  rebuild from the map and the block facts succeeds, and bitmap, live counts and heads come out as
  they were.
\<close>

theorem rebuild_confirms_indexes:
  assumes "sf_reachable f"
  shows "\<exists>g. sf_rebuild_indexes f = (True, g) \<and> sf_map g = sf_map f \<and>
    (\<forall>p < sf_physical_pages f. sf_validity_get g p = sf_validity_get f p) \<and>
    (\<forall>b < sf_physical_blocks f. sf_disk g b = sf_disk f b \<and> head_slot g b = head_slot f b \<and>
       sb_live_pages (sf_block_at g b) = sb_live_pages (sf_block_at f b) \<and> sb_wear (sf_block_at g b) = sb_wear (sf_block_at f b))"
proof -
  note f = reachable_parts [OF assms]
  obtain g where rebuild: "sf_rebuild_indexes f = (True, g)" and agree: "facts_agree f g"
    by (rule rebuild_total [OF f])
  have alloc: "sf_allocated f"
    using f(2) by (simp add: sf_mounted_def)
  note g = rebuild_inv [OF rebuild alloc]
  note p = sf_inv_parts [OF f(1)] and q = sf_inv_parts [OF g(1)]
  have "head_slot g b = head_slot f b" if "b < sf_physical_blocks f" for b
    using heads_determined(1) [OF heads_inv_match [OF p(3)] heads_inv_match [OF q(3)] agree]
      heads_laid_domain [OF heaps_ok_laid [OF p(4)] that] by (simp add: head_slot_domain facts_agree_domain [OF agree])
  moreover have "sb_wear (sf_block_at g b) = sb_wear (sf_block_at f b)" if "b < sf_physical_blocks f" for b
    using p(2) q(2) g(3) [OF that] that g(4) by (simp add: blocks_inv_def)
  ultimately show ?thesis
    using rebuild g(2,3) map_determined [OF p(1) q(1) agree] by blast
qed

theorem rebuild_confirms_indexes_witness:
  "\<exists>g. sf_rebuild_indexes scale_host = (True, g) \<and> sf_map g = sf_map scale_host \<and>
    head_slot scale_host 2 = 2 \<and> head_slot g 2 = 2"
proof -
  have "head_slot scale_host 2 = 2 \<and> 2 < sf_physical_blocks scale_host"
    by code_simp
  then show ?thesis
    using rebuild_confirms_indexes [OF scale_host_reachable] by fastforce
qed

end
