(* ===== verification/Spec2Isabelle.thy ===== *)
theory Spec2Isabelle
  imports M3p_Data_Laws M3p_Gc_Laws M3p_Replay_Laws M3p_Device_Laws Nvme_Action_Laws Nvme_Codec_Laws
    Nvme_Graph_Guarantees Scale_Guarantees
begin

text \<open>
  Verification of the firmware of an NVMe solid-state drive (the SSD firmware laboratory), as far as
  its portable core is concerned: the preview flash translation layer, the mapping of its scaled
  successor and the front of the NVMe command core.

  \<^bold>\<open>The program.\<close> Host commands reach the drive as NVMe commands. The command core
  (\<open>core/c4-nvme\<close>) decodes and checks them and turns each into a plan: an immediate answer, an Identify
  payload, a queue effect or a block operation. Block operations go to a block service, here the
  preview translation layer M3P (\<open>core/m3p\<close>), which maps logical pages of eight sectors to pages of the
  flash, writes data out of place, journals every change of the map, checkpoints the map, collects
  blocks with stale pages and recovers the map after a power loss. It reaches the flash through a NAND
  controller, one two-phase child operation at a time, and host memory through a buffer port. Nothing
  blocks: work is done in units by a step function that the environment calls. The scaled translation
  layer (\<open>core/ftl-scale\<close>) serves larger devices with several open blocks; in service, all its changes of
  the map and of the block facts go through journal records, which one routine validates and applies.

  \<^bold>\<open>What is modelled.\<close> All of M3P, operation by operation; the wire codec, the policy, the provider
  actions and the command graph of the command core; the mapping and the allocation heads of the scaled
  layer with its layout. A C structure is a record with its fields (arrays are lists), an integer
  is a word of its width (in the scaled layer, block and page numbers are natural numbers that are reduced
  where the sources could leave 32 or 16 bits), an internal enumeration a datatype, one that is stored or
  compared as a number a word. A function that can fail returns an option or a sum; a function that changes the state takes
  and returns it. What lies behind a function table is a parameter: the NAND controller
  (\<open>nfc_provider\<close>, five functions over a state of any type), the buffer port (\<open>buffer_port\<close>, two) and the
  queue, target and block providers of the command graph (\<open>c43_provider_ops\<close>, nine).

  \<^item> \<open>Fwlab_Prelude\<close>: words, lists, rule collections, and the contracts several components fulfil as
    locales: \<open>page_codec\<close>, \<open>wire_codec\<close>, \<open>bounded_fifo\<close>, \<open>kept_invariant\<close>.
  \<^item> \<open>Crc32c\<close>: both CRC-32C implementations (\<open>crc32c.h\<close>, \<open>m3p_crc32c\<close>), their agreement, and the
    detection of a changed byte.
  \<^item> \<open>M3p_Types\<close>, \<open>Block_Contract\<close>, \<open>M3p_State\<close>, \<open>M3p_Machine\<close>: the data (\<open>m3p_internal.h\<close>,
    \<open>m3p.h\<close>, the contract headers). \<open>struct fwlab_m3p\<close> is the record \<open>fwlab_m3p\<close>.
  \<^item> \<open>M3p_Codec\<close> (\<open>m3p_codec.c\<close>) and \<open>M3p_Codec_Laws\<close>: page headers, map records, checkpoint bodies and
    commits; each format interprets \<open>page_codec\<close>.
  \<^item> \<open>M3p_Mapping\<close> (\<open>m3p_mapping.c\<close>) and \<open>M3p_Mapping_Laws\<close>: the visible and the durable map, the
    reverse map, the ring of pending transactions (interprets \<open>bounded_fifo\<close>), page allocation.
  \<^item> \<open>M3p_Nfc\<close> (\<open>m3p_nfc.c\<close>): child operations; \<open>M3p_Checkpoint\<close>: format, journal records and the
    checkpoint machine (\<open>m3p_runtime.c\<close>, \<open>m3p_gc.c\<close>); \<open>M3p_Gc\<close> (\<open>m3p_gc.c\<close>): collection;
    \<open>M3p_Recovery\<close> and \<open>M3p_Replay\<close> (\<open>m3p_recovery.c\<close>): scan, replay, clean-up; \<open>M3p_Service\<close> and
    \<open>M3p_Runtime\<close> (\<open>m3p_runtime.c\<close>): the block service and the operation machine with its step loop.
  \<^item> \<open>M3p_Coherence\<close>, \<open>M3p_Frames\<close>, \<open>M3p_Invariant\<close>, \<open>M3p_Service_Laws\<close>, \<open>M3p_Safety\<close>,
    \<open>M3p_Quarantine\<close>: the invariant \<open>ftl_inv\<close> and its preservation by every drive function.
  \<^item> \<open>M3p_Reachable\<close>: the public entry points as events, the reachable states, and the invariant in all
    of them (interprets \<open>kept_invariant\<close>).
  \<^item> \<open>M3p_Guarantees\<close>, \<open>M3p_Device_Laws\<close>, \<open>M3p_Data_Laws\<close>, \<open>M3p_Gc_Laws\<close>, \<open>M3p_Replay_Laws\<close>,
    \<open>M3p_Cancel\<close>: what follows for the users of the layer.
  \<^item> \<open>Nvme_Types\<close>, \<open>Nvme_Codec\<close> (\<open>c41_codec.c\<close>, \<open>c41_profile.c\<close>), \<open>Nvme_Policy\<close> (\<open>c43_policy.c\<close>,
    \<open>c43_completion.c\<close>, \<open>c43_identify.c\<close>), \<open>Nvme_Action\<close> (\<open>c41_action.c\<close>, \<open>c43_actions.c\<close>) and their
    \<open>Laws\<close>: the command core; the three wire formats interpret \<open>wire_codec\<close>.
  \<^item> \<open>Nvme_Graph_Types\<close>, \<open>Nvme_Observer\<close>, \<open>Nvme_Control\<close>, \<open>Nvme_Flow\<close> (\<open>c43_control.c\<close>), \<open>Nvme_Graph\<close>
    (\<open>c43_graph.c\<close>, \<open>c43_instance.c\<close>): the command graph, its four slots, the observer it publishes, the
    three provider flows and the round-robin step.
  \<^item> \<open>Nvme_Graph_Wf\<close>, \<open>Nvme_Graph_Frame\<close>, \<open>Nvme_Queue_Laws\<close>, \<open>Nvme_Queue_Steps\<close>, \<open>Nvme_Queue_Service\<close>,
    \<open>Nvme_Block_Laws\<close>, \<open>Nvme_Target_Laws\<close>, \<open>Nvme_Reservation_Laws\<close>, \<open>Nvme_Admission_Laws\<close>: the validity
    test of the graph in terms of its slots, the invariant \<open>graph_inv\<close>, and its preservation by the steps
    of each flow, by reservation and by admission.
  \<^item> \<open>Nvme_Graph_Laws\<close>, \<open>Nvme_Graph_Service\<close>, \<open>Nvme_Graph_Guarantees\<close>: the calls of the clients as events
    (interprets \<open>kept_invariant\<close>), the reachable graphs, and what they guarantee.

  \<^item> \<open>Scale_Types\<close>, \<open>Scale_Heads\<close> (\<open>ftl_scale_heads.c\<close>, the layout of \<open>ftl_scale_codec.c\<close>),
    \<open>Scale_Mapping\<close> (\<open>ftl_scale_mapping.c\<close>): the scaled layer: structures, head domains and reservations,
    the indexed heaps, the validity bitmap, the rebuild and the journal records.
  \<^item> \<open>Scale_Heap\<close> (binary heaps on lists), \<open>Scale_Heap_Laws\<close>, \<open>Scale_Heap_Update\<close>, \<open>Scale_Index\<close>: the
    in-place heaps refine heaps of the eligible blocks; \<open>Scale_Map_Inv\<close>, \<open>Scale_Delta\<close>, \<open>Scale_Apply\<close>, \<open>Scale_Record\<close>: the invariant
    \<open>sf_inv\<close> and its preservation by every record; \<open>Scale_Domains\<close>, \<open>Scale_Rebuild\<close>,
    \<open>Scale_Rebuild_Total\<close>, \<open>Scale_Heads_Laws\<close>: what a rebuild establishes, that it succeeds where the
    invariant holds, and the head operations; \<open>Scale_Frame\<close>: what the heaps and the records leave alone
    (locale \<open>heap_blind\<close>, interpreted for each view of the state).
  \<^item> \<open>Scale_Guarantees\<close>: the calls on the mapping as events (interprets \<open>kept_invariant\<close>), the reachable
    states, and what they guarantee.

  \<^bold>\<open>What the theorems show.\<close> For M3P, with any controller and any buffer port behind it:
  \<^item> in every reachable state that is not quarantined the two maps differ exactly on the pages of pending
    transactions (\<open>reachable_maps_coherent\<close>), they agree when none is pending (\<open>reachable_settled\<close>), a
    durable acknowledgement is given only then (\<open>durable_acknowledgement_honest\<close>), and closing an epoch
    restores the durable map before the controller is touched (\<open>close_discards_pending\<close>);
  \<^item> a refused request leaves no trace and an accepted one claims exactly its pages
    (\<open>refused_request_leaves_no_trace\<close>, \<open>accepted_request_claims_pages\<close>); a read returns the bytes
    written (\<open>sector_mask_exact\<close>, \<open>read_returns_written\<close>);
  \<^item> collection takes the best unpinned block and collects exactly its live pages
    (\<open>victim_is_best_unpinned_block\<close>, \<open>collected_pages_exact\<close>);
  \<^item> recovery ends its replay within the bound and redoes what the commit did
    (\<open>replay_ends_within_bound\<close>, \<open>replay_redoes_commit\<close>);
  \<^item> a step runs the number of units it reports, within its budget and up to the first idle round
    (\<open>step_within_budget\<close>), and a quarantined instance is frozen for good (\<open>quarantine_frozen\<close>,
    \<open>quarantine_permanent\<close>);
  \<^item> pages, operation numbers and ring slots are used once, and a controller operation is done only on
    its own success (\<open>allocation_least_worn\<close>, \<open>operation_numbers_increase\<close>, \<open>ring_refines_fifo\<close>,
    \<open>done_only_on_success\<close>);
  \<^item> the media formats survive the round trip, the checkpoint body up to the payload CRC and the logical
    version it does not store (\<open>checkpoint_body_roundtrip\<close>), and a damaged header is refused;
  \<^item> one defect: a write cancelled between the two programs of its checkpoint leaves the checkpoint open
    through every sequence of events, and the next collection commits the stale body
    (\<open>cancelled_checkpoint_resumed_stale\<close>).

  For the scaled layer: in every reachable state the map, the bitmap, the live counts, the heads and the
  heaps agree (\<open>reachable_indexes_agree\<close>); a mapping record changes exactly the pages it names
  (\<open>mapping_record_exact\<close>); an accepted collection leaves no mapped page in its victim
  (\<open>collection_moves_live_pages\<close>); only a block without mapped pages is erased (\<open>erase_only_unmapped\<close>);
  and a rebuild gives the indexes the records have kept (\<open>rebuild_confirms_indexes\<close>).

  For the command core: the wire formats are exact in both directions (\<open>command_wire_exact\<close>,
  \<open>completion_wire_exact\<close>, \<open>profile_unique\<close>); the policy gives every valid request a valid plan
  (\<open>policy_total\<close>), in range exactly (\<open>read_write_in_range\<close>), asking for durability exactly when the host
  does (\<open>durability_witness_required\<close>), and no provider can complete such a request without proof of
  durability (\<open>durability_needs_proof\<close>, \<open>validation_only_provider\<close>); Identify agrees with the policy
  (\<open>identify_agrees_with_policy\<close>). For the command graph, with any providers behind it: it never fails its
  own validity test (\<open>reachable_graph_valid\<close>); the queues change only by a committed effect
  (\<open>queues_change_only_on_commit\<close>); a command with work to do is served within four steps
  (\<open>pending_command_served\<close>); tokens are never issued twice and a reservation can be asked for again
  (\<open>tokens_never_reissued\<close>, \<open>reservation_is_idempotent\<close>); and with the validation-only block provider it
  accepts, no block command is ever shown as eligible for success (\<open>block_never_success_eligible\<close>).

  \<^bold>\<open>Bounds and fuel.\<close> Loops over fixed ranges are folds. The step loop has its budget as fuel. The replay
  loop has 65 rounds of fuel, one more than the table of recovered records holds, and
  \<open>replay_ends_within_bound\<close> shows that it never runs out. The discard loop runs as often as the ring has
  entries. The two loops of the heaps move towards the root and towards the leaves.

  \<^bold>\<open>Abstractions.\<close> Null and overlapping pointer arguments, which the C functions refuse, do not occur.
  The staging frames a controller writes during a call are returned by it as a list and applied in order.
  Times, statistics and trace output are not part of the state.

  \<^bold>\<open>Not modelled.\<close> The machines of the scaled layer that write, read, collect, checkpoint and recover
  through the modelled mapping, with the page controller v2, the command spine, and the flash controller
  model (\<open>nfc\<close>) are the next candidates, in this order. The earlier stages C31, C32 and C34 are superseded by M3P. File-backed media, front ends, the Linux and
  kernel parts are input/output around the core; fakes, tests and scripts are not part of the firmware.
\<close>

end
